(* ===== verification/Feldspar_Prelude.thy ===== *)
theory Feldspar_Prelude
  imports Complex_Main "HOL-Library.AList" "HOL-Library.Char_ord"
    "HOL-Library.List_Lexorder" "HOL-Library.Sublist" "HOL-Library.Multiset"
begin

text \<open>
  Shared vocabulary of the development.

  \<^item> Outcomes: a call of the Python code ends in one of three ways, a typani
    \<open>Ok\<close> value, a typani \<open>Err\<close> value, or an exception that escapes. The type
    \<open>outcome\<close> has one constructor for each, so that a returned error and a raised
    one are never confused.
  \<^item> Dictionaries: a Python \<open>dict\<close> keeps insertion order and updates a present key in
    place, which is what \<open>AList.update\<close> does on association lists. Rust's
    \<open>BTreeMap\<close> iterates in key order; \<open>btree_of\<close> builds that order.
  \<^item> Floats: \<open>fl\<close> is a double with its special values and its comparison rules.
    Finite values are exact reals: rounding, overflow and the sign of zero are not
    modelled.
  \<^item> Strings are byte lists compared lexicographically (Python compares code points and
    Rust compares UTF-8 bytes; the two orders agree on UTF-8 text).
\<close>

named_theorems outcome_simps \<open>evaluation rules of the outcome combinators\<close>
named_theorems dict_simps \<open>lookup and key facts of dictionaries\<close>
named_theorems fl_simps \<open>evaluation rules of double arithmetic\<close>

section \<open>Outcomes\<close>

datatype exn =
    ValueError
  | TypeError
  | RuntimeError
  | KeyError string
  | IndexError
  | AssertionError
  | AttributeError string
  | PanicException
  | ZeroDivisionError
  | OverflowError
  | ImportError
  | CoreErrorRaised

datatype (ok_val: 'a, err_val: 'e) outcome =
    Ok 'a
  | Err 'e
  | Raise exn

definition is_ok :: "('a, 'e) outcome \<Rightarrow> bool" where
  "is_ok r = (case r of Ok _ \<Rightarrow> True | _ \<Rightarrow> False)"

definition is_err :: "('a, 'e) outcome \<Rightarrow> bool" where
  "is_err r = (case r of Err _ \<Rightarrow> True | _ \<Rightarrow> False)"

definition raises :: "('a, 'e) outcome \<Rightarrow> bool" where
  "raises r = (case r of Raise _ \<Rightarrow> True | _ \<Rightarrow> False)"

lemma is_ok_simps [simp]:
  "is_ok (Ok a)" "\<not> is_ok (Err e)" "\<not> is_ok (Raise x)"
  by (simp_all add: is_ok_def)

lemma is_err_simps [simp]:
  "is_err (Err e)" "\<not> is_err (Ok a)" "\<not> is_err (Raise x)"
  by (simp_all add: is_err_def)

lemma raises_simps [simp]:
  "raises (Raise x)" "\<not> raises (Ok a)" "\<not> raises (Err e)"
  by (simp_all add: raises_def)

lemma is_ok_iff: "is_ok r \<longleftrightarrow> (\<exists>a. r = Ok a)"
  by (cases r) auto

lemma is_err_iff: "is_err r \<longleftrightarrow> (\<exists>e. r = Err e)"
  by (cases r) auto

text \<open>Sequencing: the early return of an \<open>Err\<close> and the propagation of an exception.\<close>

fun obind :: "('a, 'e) outcome \<Rightarrow> ('a \<Rightarrow> ('b, 'e) outcome) \<Rightarrow> ('b, 'e) outcome" where
  "obind (Ok a) k = k a"
| "obind (Err e) k = Err e"
| "obind (Raise x) k = Raise x"

lemma obind_eq_Ok [outcome_simps]:
  "obind r k = Ok b \<longleftrightarrow> (\<exists>a. r = Ok a \<and> k a = Ok b)"
  by (cases r) auto

lemma obind_eq_Err [outcome_simps]:
  "obind r k = Err e \<longleftrightarrow> r = Err e \<or> (\<exists>a. r = Ok a \<and> k a = Err e)"
  by (cases r) auto

lemma obind_eq_Raise [outcome_simps]:
  "obind r k = Raise x \<longleftrightarrow> r = Raise x \<or> (\<exists>a. r = Ok a \<and> k a = Raise x)"
  by (cases r) auto

text \<open>\<open>map\<close> over a list, stopping at the first call that does not return \<open>Ok\<close>.\<close>

fun omap :: "('a \<Rightarrow> ('b, 'e) outcome) \<Rightarrow> 'a list \<Rightarrow> ('b list, 'e) outcome" where
  "omap f [] = Ok []"
| "omap f (x # xs) = obind (f x) (\<lambda>y. obind (omap f xs) (\<lambda>ys. Ok (y # ys)))"

lemma omap_Ok_length: "omap f xs = Ok ys \<Longrightarrow> length ys = length xs"
  by (induction xs arbitrary: ys) (auto simp: outcome_simps)

lemma omap_Ok_list_all2: "omap f xs = Ok ys \<Longrightarrow> list_all2 (\<lambda>x y. f x = Ok y) xs ys"
  by (induction xs arbitrary: ys) (auto simp: outcome_simps)

section \<open>Dictionaries\<close>

type_synonym ('k, 'v) dict = "('k \<times> 'v) list"

abbreviation dget :: "('k, 'v) dict \<Rightarrow> 'k \<Rightarrow> 'v option" where
  "dget d k \<equiv> map_of d k"

abbreviation dset :: "'k \<Rightarrow> 'v \<Rightarrow> ('k, 'v) dict \<Rightarrow> ('k, 'v) dict" where
  "dset k v d \<equiv> AList.update k v d"

abbreviation dpop :: "'k \<Rightarrow> ('k, 'v) dict \<Rightarrow> ('k, 'v) dict" where
  "dpop k d \<equiv> AList.delete k d"

definition dkeys :: "('k, 'v) dict \<Rightarrow> 'k list" where
  "dkeys d = map fst d"

definition dvals :: "('k, 'v) dict \<Rightarrow> 'v list" where
  "dvals d = map snd d"

definition dhas :: "('k, 'v) dict \<Rightarrow> 'k \<Rightarrow> bool" where
  "dhas d k = (dget d k \<noteq> None)"

definition dict_ok :: "('k, 'v) dict \<Rightarrow> bool" where
  "dict_ok d = distinct (map fst d)"

text \<open>\<open>dict.update\<close> and the dict comprehension: later entries win, in place.\<close>

definition dmerge :: "('k, 'v) dict \<Rightarrow> ('k, 'v) dict \<Rightarrow> ('k, 'v) dict" where
  "dmerge d e = foldl (\<lambda>acc (k, v). dset k v acc) d e"

definition dict_of :: "('k \<times> 'v) list \<Rightarrow> ('k, 'v) dict" where
  "dict_of kvs = dmerge [] kvs"

lemma dget_dset [simp]:
  "dget (dset k v d) k' = (if k' = k then Some v else dget d k')"
  by (simp add: update_conv')

lemma dget_dpop [simp]:
  "dget (dpop k d) k' = (if k' = k then None else dget d k')"
  by (auto simp: delete_conv')

lemma dhas_iff_key [dict_simps]: "dhas d k \<longleftrightarrow> k \<in> fst ` set d"
  by (simp add: dhas_def map_of_eq_None_iff)

lemma dhas_dset [simp]: "dhas (dset k v d) k' \<longleftrightarrow> k' = k \<or> dhas d k'"
  by (simp add: dhas_def)

lemma dhas_append [simp]: "dhas (d @ e) k \<longleftrightarrow> dhas d k \<or> dhas e k"
  by (simp add: dict_simps image_Un)

lemma dhas_Cons [simp]: "dhas ((a, b) # d) k \<longleftrightarrow> k = a \<or> dhas d k"
  by (auto simp: dict_simps)

lemma no_key_iff: "fst ` set d \<inter> f ` A = {} \<longleftrightarrow> (\<forall>p \<in> A. \<not> dhas d (f p))"
proof -
  have "S \<inter> f ` A = {} \<longleftrightarrow> (\<forall>p \<in> A. f p \<notin> S)" for S by blast
  then show ?thesis by (simp only: dict_simps)
qed

lemma set_dkeys [simp]: "set (dkeys d) = fst ` set d"
  by (simp add: dkeys_def)

lemma dict_ok_Nil [simp]: "dict_ok []"
  by (simp add: dict_ok_def)

lemma dict_ok_dset [simp]: "dict_ok d \<Longrightarrow> dict_ok (dset k v d)"
  by (simp add: dict_ok_def distinct_update)

lemma dict_ok_dpop [simp]: "dict_ok d \<Longrightarrow> dict_ok (dpop k d)"
  by (simp add: dict_ok_def distinct_delete)

lemma set_dset_subset: "set (dset k v d) \<subseteq> insert (k, v) (set d)"
  by (induction d) auto

lemma set_dpop_subset: "set (dpop k d) \<subseteq> set d"
  by (induction d) auto

lemma dset_same: "dget d k = Some v \<Longrightarrow> dset k v d = d"
  by (induction d) (auto split: if_splits)

lemma dset_ConsE: "(a, b) \<in> set (dset k v d) \<Longrightarrow> (a = k \<and> b = v) \<or> (a, b) \<in> set d"
  using set_dset_subset [of k v d] by auto

lemma fold_dpop: "fold dpop ks d = filter (\<lambda>p. fst p \<notin> set ks) d"
  by (induction ks arbitrary: d) (auto simp: AList.delete_eq intro: filter_cong)

lemma dset_fresh: "dget d k = None \<Longrightarrow> dset k v d = d @ [(k, v)]"
  by (induction d) (auto split: if_splits)

lemma dpop_absent: "dget d k = None \<Longrightarrow> dpop k d = d"
  by (induction d) (auto split: if_splits)

lemma dpop_last: "dget d k = None \<Longrightarrow> dpop k (d @ [(k, v)]) = d"
  by (induction d) (auto split: if_splits)

lemma dpop_dset_fresh: "dget d k = None \<Longrightarrow> dpop k (dset k v d) = d"
  by (simp add: dset_fresh dpop_last)

lemma dict_ok_get: "dict_ok d \<Longrightarrow> (k, v) \<in> set d \<Longrightarrow> dget d k = Some v"
  by (simp add: dict_ok_def)

lemma dict_ok_dmerge: "dict_ok d \<Longrightarrow> dict_ok (dmerge d e)"
  unfolding dmerge_def by (induction e arbitrary: d) (auto split: prod.splits)

lemma dmerge_Nil [simp]: "dmerge d [] = d"
  by (simp add: dmerge_def)

lemma dmerge_Cons [simp]: "dmerge d ((k, v) # e) = dmerge (dset k v d) e"
  by (simp add: dmerge_def)

lemma dget_dmerge:
  "dict_ok e \<Longrightarrow> dget (dmerge d e) k = (case dget e k of Some v \<Rightarrow> Some v | None \<Rightarrow> dget d k)"
proof (induction e arbitrary: d)
  case Nil
  then show ?case by simp
next
  case (Cons p e)
  then show ?case
    by (cases p) (auto simp: dict_ok_def map_of_eq_None_iff[symmetric] split: option.splits)
qed

lemma dict_of_id_aux:
  "distinct (map fst (d @ e)) \<Longrightarrow> dmerge d e = d @ e"
proof (induction e arbitrary: d)
  case Nil
  then show ?case by simp
next
  case (Cons p e)
  obtain k v where p: "p = (k, v)" by (cases p)
  with Cons.prems have "dget d k = None" by (simp add: map_of_eq_None_iff)
  then have "dset k v d = d @ [(k, v)]" by (rule dset_fresh)
  with Cons p show ?case by simp
qed

lemma dict_of_id: "dict_ok d \<Longrightarrow> dict_of d = d"
  using dict_of_id_aux[of "[]" d] by (simp add: dict_of_def dict_ok_def)

text \<open>A key-sorted view: \<open>sorted(d.items())\<close> of a dict with distinct keys.\<close>

definition dsorted :: "('k::linorder, 'v) dict \<Rightarrow> ('k, 'v) dict" where
  "dsorted d = sort_key fst d"

lemma set_dsorted [simp]: "set (dsorted d) = set d"
  by (simp add: dsorted_def)

lemma dict_ok_dsorted [simp]: "dict_ok (dsorted d) = dict_ok d"
proof -
  have "mset (map fst (sort_key fst d)) = mset (map fst d)"
    by (simp only: mset_map mset_sort)
  then show ?thesis
    unfolding dict_ok_def dsorted_def by (metis mset_eq_imp_distinct_iff)
qed


section \<open>Ordered maps and sets of the Rust core\<close>

fun bt_insert :: "'k::linorder \<Rightarrow> 'v \<Rightarrow> ('k, 'v) dict \<Rightarrow> ('k, 'v) dict" where
  "bt_insert k v [] = [(k, v)]"
| "bt_insert k v ((a, b) # m) =
     (if k < a then (k, v) # (a, b) # m
      else if k = a then (k, v) # m
      else (a, b) # bt_insert k v m)"

definition btree_of :: "('k::linorder \<times> 'v) list \<Rightarrow> ('k, 'v) dict" where
  "btree_of kvs = foldl (\<lambda>m (k, v). bt_insert k v m) [] kvs"

definition bset_of :: "'k::linorder list \<Rightarrow> 'k list" where
  "bset_of xs = sort (remdups xs)"

definition bt_ok :: "('k::linorder, 'v) dict \<Rightarrow> bool" where
  "bt_ok m = sorted_wrt (<) (map fst m)"

lemma bt_ok_Nil [simp]: "bt_ok []"
  by (simp add: bt_ok_def)

lemma bt_ok_Cons: "bt_ok ((k, v) # m) \<longleftrightarrow> (\<forall>k' \<in> fst ` set m. k < k') \<and> bt_ok m"
  by (simp add: bt_ok_def)

lemma bt_ok_dict_ok: "bt_ok m \<Longrightarrow> dict_ok m"
  by (simp add: bt_ok_def dict_ok_def strict_sorted_iff)

lemma bt_insert_keys [simp]: "fst ` set (bt_insert k v m) = insert k (fst ` set m)"
  by (induction k v m rule: bt_insert.induct) auto

lemma bt_ok_bt_insert [simp]: "bt_ok m \<Longrightarrow> bt_ok (bt_insert k v m)"
  by (induction k v m rule: bt_insert.induct) (auto simp: bt_ok_Cons)

lemma map_of_bt_insert [simp]:
  "bt_ok m \<Longrightarrow> map_of (bt_insert k v m) k' = (if k' = k then Some v else map_of m k')"
proof (induction k v m rule: bt_insert.induct)
  case (2 k v a b m)
  have "map_of m k = None" if "k < a"
    using that 2(2) by (force simp: bt_ok_Cons map_of_eq_None_iff)
  with 2 show ?case by (auto simp: bt_ok_Cons)
qed auto

lemma btree_of_snoc: "btree_of (kvs @ [(k, v)]) = bt_insert k v (btree_of kvs)"
  by (simp add: btree_of_def)

lemma bt_ok_btree_of [simp]: "bt_ok (btree_of kvs)"
  by (induction kvs rule: rev_induct) (auto simp: btree_of_snoc, simp add: btree_of_def)

lemma map_of_btree_of: "map_of (btree_of kvs) k = map_of (rev kvs) k"
proof (induction kvs rule: rev_induct)
  case Nil
  then show ?case by (simp add: btree_of_def)
next
  case (snoc p kvs)
  then show ?case by (cases p) (simp add: btree_of_snoc)
qed

lemma map_of_btree_of_dict: "dict_ok d \<Longrightarrow> map_of (btree_of d) = map_of d"
proof -
  assume "dict_ok d"
  then have "map_of (rev d) = map_of d"
    by (subst map_of_inject_set) (simp_all add: dict_ok_def rev_map [symmetric])
  then show ?thesis by (simp add: fun_eq_iff map_of_btree_of)
qed

lemma keys_btree_of [simp]: "fst ` set (btree_of kvs) = fst ` set kvs"
proof (induction kvs rule: rev_induct)
  case Nil
  then show ?case by (simp add: btree_of_def)
next
  case (snoc p kvs)
  then show ?case by (cases p) (simp add: btree_of_snoc)
qed

lemma bt_ok_Cons_le: "bt_ok ((a, b) # m) \<Longrightarrow> map_of ((a, b) # m) k \<noteq> None \<Longrightarrow> a \<le> k"
  by (fastforce simp: bt_ok_Cons split: if_splits dest!: map_of_SomeD)

lemma bt_ok_unique: "bt_ok m \<Longrightarrow> bt_ok n \<Longrightarrow> map_of m = map_of n \<Longrightarrow> m = n"
proof (induction m arbitrary: n)
  case Nil
  then show ?case by simp
next
  case (Cons p m)
  obtain a b where p: "p = (a, b)" by (cases p)
  from Cons.prems(3) have "n \<noteq> []"
    by (metis list.distinct(1) map_of_eq_empty_iff)
  then obtain c d n' where n: "n = (c, d) # n'" by (metis list.exhaust surj_pair)
  have a_le: "a \<le> k" if "map_of ((a, b) # m) k \<noteq> None" for k
    using Cons.prems(1) that p bt_ok_Cons_le [of a b m k] by simp
  have c_le: "c \<le> k" if "map_of ((c, d) # n') k \<noteq> None" for k
    using Cons.prems(2) that n bt_ok_Cons_le [of c d n' k] by simp
  have eq: "map_of ((a, b) # m) k = map_of ((c, d) # n') k" for k
    using fun_cong [OF Cons.prems(3), of k] p n by simp
  have "map_of ((a, b) # m) c = Some d" using eq [of c] by simp
  then have "a \<le> c" by (metis a_le option.distinct(1))
  moreover have "map_of ((c, d) # n') a = Some b" using eq [of a] by simp
  then have "c \<le> a" by (metis c_le option.distinct(1))
  ultimately have ac: "a = c" by simp
  with eq[of a] have bd: "b = d" by simp
  have "map_of m k = map_of n' k" for k
  proof (cases "k = a")
    case True
    with Cons.prems(1,2) p n ac show ?thesis
      by (metis bt_ok_Cons less_irrefl map_of_eq_None_iff)
  next
    case False
    with eq[of k] ac show ?thesis by simp
  qed
  then have "m = n'" using Cons.IH[of n'] Cons.prems(1,2) p n by (auto simp: bt_ok_Cons)
  with p n ac bd show ?case by simp
qed

lemma btree_of_id: "bt_ok m \<Longrightarrow> btree_of m = m"
  by (rule bt_ok_unique) (simp_all add: map_of_btree_of_dict bt_ok_dict_ok)

lemma bt_ok_dsorted: "dict_ok d \<Longrightarrow> bt_ok (dsorted d)"
  unfolding bt_ok_def dict_ok_def dsorted_def strict_sorted_iff
  by (metis dict_ok_def dict_ok_dsorted dsorted_def sorted_sort_key)

lemma map_of_dsorted: "dict_ok d \<Longrightarrow> map_of (dsorted d) = map_of d"
  by (subst map_of_inject_set)
    (use dict_ok_dsorted [of d] in \<open>simp_all add: dict_ok_def\<close>)

lemma set_bset_of [simp]: "set (bset_of xs) = set xs"
  by (simp add: bset_of_def)

lemma sorted_bset_of [simp]: "sorted (bset_of xs)" "distinct (bset_of xs)"
  by (simp_all add: bset_of_def)

lemma bset_of_id: "sorted xs \<Longrightarrow> distinct xs \<Longrightarrow> bset_of xs = xs"
  by (simp add: bset_of_def sorted_sort_id distinct_remdups_id)

section \<open>Doubles\<close>

datatype fl = Fin real | PInf | NInf | NaN

fun fl_finite :: "fl \<Rightarrow> bool" where
  "fl_finite (Fin _) = True"
| "fl_finite _ = False"

fun fl_lt :: "fl \<Rightarrow> fl \<Rightarrow> bool" where
  "fl_lt (Fin a) (Fin b) = (a < b)"
| "fl_lt (Fin a) PInf = True"
| "fl_lt NInf (Fin b) = True"
| "fl_lt NInf PInf = True"
| "fl_lt _ _ = False"

fun fl_le :: "fl \<Rightarrow> fl \<Rightarrow> bool" where
  "fl_le NaN _ = False"
| "fl_le _ NaN = False"
| "fl_le (Fin a) (Fin b) = (a \<le> b)"
| "fl_le NInf _ = True"
| "fl_le _ PInf = True"
| "fl_le _ _ = False"

text \<open>IEEE equality: NaN differs from everything, itself included.\<close>

definition fl_eq :: "fl \<Rightarrow> fl \<Rightarrow> bool" where
  "fl_eq a b = (a = b \<and> a \<noteq> NaN)"

fun fl_neg :: "fl \<Rightarrow> fl" where
  "fl_neg (Fin a) = Fin (- a)"
| "fl_neg PInf = NInf"
| "fl_neg NInf = PInf"
| "fl_neg NaN = NaN"

fun fl_abs :: "fl \<Rightarrow> fl" where
  "fl_abs (Fin a) = Fin \<bar>a\<bar>"
| "fl_abs PInf = PInf"
| "fl_abs NInf = PInf"
| "fl_abs NaN = NaN"

fun fl_add :: "fl \<Rightarrow> fl \<Rightarrow> fl" where
  "fl_add (Fin a) (Fin b) = Fin (a + b)"
| "fl_add NaN _ = NaN"
| "fl_add _ NaN = NaN"
| "fl_add PInf NInf = NaN"
| "fl_add NInf PInf = NaN"
| "fl_add PInf _ = PInf"
| "fl_add _ PInf = PInf"
| "fl_add NInf _ = NInf"
| "fl_add _ NInf = NInf"

definition fl_sub :: "fl \<Rightarrow> fl \<Rightarrow> fl" where
  "fl_sub a b = fl_add a (fl_neg b)"

definition fl_inf_of_sign :: "real \<Rightarrow> fl" where
  "fl_inf_of_sign s = (if s > 0 then PInf else if s < 0 then NInf else NaN)"

fun fl_sign :: "fl \<Rightarrow> real" where
  "fl_sign (Fin a) = sgn a"
| "fl_sign PInf = 1"
| "fl_sign NInf = -1"
| "fl_sign NaN = 0"

fun fl_mul :: "fl \<Rightarrow> fl \<Rightarrow> fl" where
  "fl_mul (Fin a) (Fin b) = Fin (a * b)"
| "fl_mul a b = fl_inf_of_sign (fl_sign a * fl_sign b)"

text \<open>Division by a non-zero divisor; callers write out what a zero divisor does.\<close>

fun fl_div :: "fl \<Rightarrow> fl \<Rightarrow> fl" where
  "fl_div (Fin a) (Fin b) = Fin (a / b)"
| "fl_div (Fin a) PInf = Fin 0"
| "fl_div (Fin a) NInf = Fin 0"
| "fl_div PInf (Fin b) = fl_inf_of_sign (sgn b)"
| "fl_div NInf (Fin b) = fl_inf_of_sign (- sgn b)"
| "fl_div _ _ = NaN"

text \<open>Python's two-argument \<open>max\<close> keeps its first argument unless the second is larger.\<close>

definition fl_pymax :: "fl \<Rightarrow> fl \<Rightarrow> fl" where
  "fl_pymax a b = (if fl_lt a b then b else a)"

text \<open>Rust's \<open>f64::total_cmp\<close> order on the values of the model.\<close>

fun fl_total_lt :: "fl \<Rightarrow> fl \<Rightarrow> bool" where
  "fl_total_lt a NaN = (a \<noteq> NaN)"
| "fl_total_lt NaN _ = False"
| "fl_total_lt a b = fl_lt a b"

lemma fl_finite_iff [fl_simps]: "fl_finite x \<longleftrightarrow> (\<exists>a. x = Fin a)"
  by (cases x) auto

lemma fl_le_refl [simp]: "fl_le x x \<longleftrightarrow> x \<noteq> NaN"
  by (cases x) auto

lemma fl_le_trans: "fl_le a b \<Longrightarrow> fl_le b c \<Longrightarrow> fl_le a c"
  by (cases a; cases b; cases c) auto

lemma fl_lt_le: "fl_lt a b \<Longrightarrow> fl_le a b"
  by (cases a; cases b) auto

lemma fl_not_lt: "a \<noteq> NaN \<Longrightarrow> b \<noteq> NaN \<Longrightarrow> \<not> fl_lt a b \<longleftrightarrow> fl_le b a"
  by (cases a; cases b) auto

lemma fl_le_Fin_iff [fl_simps]: "fl_le x (Fin b) \<longleftrightarrow> x = NInf \<or> (\<exists>a. x = Fin a \<and> a \<le> b)"
  by (cases x) auto

lemma fl_le_antisym: "fl_le a b \<Longrightarrow> fl_le b a \<Longrightarrow> a = b"
  by (cases a; cases b) auto

lemma fl_sub_Fin [simp]: "fl_sub (Fin a) (Fin b) = Fin (a - b)"
  by (simp add: fl_sub_def)

end
