(* ===== verification/Quantity.thy ===== *)
theory Quantity
  imports Feldspar_Prelude
begin

text \<open>
  The quantity core: \<open>Interval\<close>, \<open>Accuracy\<close>, \<open>Domain\<close>, \<open>Rank\<close> and \<open>PortDecl\<close> of
  \<open>crates/feldspar-core/src\<close> (\<open>interval.rs\<close>, \<open>accuracy.rs\<close>, \<open>domain.rs\<close>, \<open>rank.rs\<close>),
  the accumulation primitives \<open>inflate\<close> and \<open>total_error\<close> of \<open>propagation.rs\<close>, and the
  error marshalling of \<open>python/feldspar/core.py\<close>. The lemmas say that the domain check
  accepts exactly the boxes that lie inside the declared one, that the worst declared
  error over an interval bounds the error at each of its points, and that the budgeted
  total error is the half width of the inflated interval.
\<close>

section \<open>Intervals\<close>

record interval =
  iv_lo :: real
  iv_hi :: real

datatype core_error =
    NonFiniteBound fl
  | InvertedInterval fl fl

definition interval_new :: "fl \<Rightarrow> fl \<Rightarrow> (interval, core_error) outcome" where
  "interval_new lo hi =
     (case lo of
        Fin a \<Rightarrow>
          (case hi of
             Fin b \<Rightarrow>
               (if a > b then Err (InvertedInterval lo hi)
                else Ok \<lparr>iv_lo = a, iv_hi = b\<rparr>)
           | _ \<Rightarrow> Err (NonFiniteBound hi))
      | _ \<Rightarrow> Err (NonFiniteBound lo))"

definition interval_point :: "fl \<Rightarrow> (interval, core_error) outcome" where
  "interval_point x = interval_new x x"

definition width :: "interval \<Rightarrow> real" where
  "width iv = iv_hi iv - iv_lo iv"

definition half_width :: "interval \<Rightarrow> real" where
  "half_width iv = width iv / 2"

definition midpoint :: "interval \<Rightarrow> real" where
  "midpoint iv = (iv_lo iv + iv_hi iv) / 2"

definition iv_contains :: "interval \<Rightarrow> real \<Rightarrow> bool" where
  "iv_contains iv x = (iv_lo iv \<le> x \<and> x \<le> iv_hi iv)"

definition is_subset :: "interval \<Rightarrow> interval \<Rightarrow> bool" where
  "is_subset a outer = (iv_lo outer \<le> iv_lo a \<and> iv_hi a \<le> iv_hi outer)"

definition iv_hull :: "interval \<Rightarrow> interval \<Rightarrow> interval" where
  "iv_hull a b = \<lparr>iv_lo = min (iv_lo a) (iv_lo b), iv_hi = max (iv_hi a) (iv_hi b)\<rparr>"

definition iv_valid :: "interval \<Rightarrow> bool" where
  "iv_valid iv = (iv_lo iv \<le> iv_hi iv)"

lemma interval_new_Ok_iff:
  "interval_new lo hi = Ok iv \<longleftrightarrow>
     (lo = Fin (iv_lo iv) \<and> hi = Fin (iv_hi iv) \<and> iv_valid iv)"
  by (auto simp: interval_new_def iv_valid_def split: fl.splits)

lemma interval_new_not_Raise [simp]: "interval_new lo hi \<noteq> Raise x"
  by (auto simp: interval_new_def split: fl.splits)

lemma interval_point_Ok_iff:
  "interval_point x = Ok iv \<longleftrightarrow> (\<exists>a. x = Fin a \<and> iv = \<lparr>iv_lo = a, iv_hi = a\<rparr>)"
  by (auto simp: interval_point_def interval_new_Ok_iff iv_valid_def)

lemma is_subset_refl [simp]: "is_subset a a"
  by (simp add: is_subset_def)

lemma is_subset_trans: "is_subset a b \<Longrightarrow> is_subset b c \<Longrightarrow> is_subset a c"
  by (auto simp: is_subset_def)

lemma is_subset_antisym: "is_subset a b \<Longrightarrow> is_subset b a \<Longrightarrow> a = (b::interval)"
  by (simp add: is_subset_def)

lemma is_subset_contains: "is_subset a b \<Longrightarrow> iv_contains a x \<Longrightarrow> iv_contains b x"
  by (auto simp: is_subset_def iv_contains_def)

lemma hull_upper: "is_subset a (iv_hull a b)" "is_subset b (iv_hull a b)"
  by (auto simp: is_subset_def iv_hull_def)

lemma hull_least: "is_subset a c \<Longrightarrow> is_subset b c \<Longrightarrow> is_subset (iv_hull a b) c"
  by (auto simp: is_subset_def iv_hull_def)

lemma hull_valid: "iv_valid a \<Longrightarrow> iv_valid b \<Longrightarrow> iv_valid (iv_hull a b)"
  by (auto simp: iv_valid_def iv_hull_def)

lemma hull_commute: "iv_hull a b = iv_hull b a"
  by (simp add: iv_hull_def min.commute max.commute)

lemma hull_assoc: "iv_hull (iv_hull a b) c = iv_hull a (iv_hull b c)"
  by (simp add: iv_hull_def min.assoc max.assoc)

section \<open>Python construction of intervals\<close>

text \<open>Direct construction raises; \<open>Interval.new\<close>/\<open>Interval.point\<close> return the error.\<close>

datatype py_core_error = NonFiniteBoundE | InvertedIntervalE

definition core_error_from_exc :: "core_error \<Rightarrow> py_core_error" where
  "core_error_from_exc e =
     (case e of NonFiniteBound _ \<Rightarrow> NonFiniteBoundE
              | InvertedInterval _ _ \<Rightarrow> InvertedIntervalE)"

definition py_interval :: "fl \<Rightarrow> fl \<Rightarrow> (interval, 'e) outcome" where
  "py_interval lo hi =
     (case interval_new lo hi of Ok iv \<Rightarrow> Ok iv | _ \<Rightarrow> Raise CoreErrorRaised)"

definition py_interval_new :: "fl \<Rightarrow> fl \<Rightarrow> (interval, py_core_error) outcome" where
  "py_interval_new lo hi =
     (case interval_new lo hi of
        Ok iv \<Rightarrow> Ok iv
      | Err e \<Rightarrow> Err (core_error_from_exc e)
      | Raise x \<Rightarrow> Raise x)"

definition py_interval_point :: "fl \<Rightarrow> (interval, py_core_error) outcome" where
  "py_interval_point x =
     (case interval_point x of
        Ok iv \<Rightarrow> Ok iv
      | Err e \<Rightarrow> Err (core_error_from_exc e)
      | Raise x \<Rightarrow> Raise x)"

section \<open>Accuracy\<close>

record accuracy =
  eps_abs :: real
  eps_rel :: real

definition accuracy_new :: "fl \<Rightarrow> fl \<Rightarrow> (accuracy, 'e) outcome" where
  "accuracy_new a r =
     (if \<not> (fl_finite a \<and> fl_le (Fin 0) a) then Raise PanicException
      else if \<not> (fl_finite r \<and> fl_le (Fin 0) r) then Raise PanicException
      else (case (a, r) of
              (Fin x, Fin y) \<Rightarrow> Ok \<lparr>eps_abs = x, eps_rel = y\<rparr>
            | _ \<Rightarrow> Raise PanicException))"

definition EXACT :: accuracy where
  "EXACT = \<lparr>eps_abs = 0, eps_rel = 0\<rparr>"

definition acc_eps :: "accuracy \<Rightarrow> real \<Rightarrow> real" where
  "acc_eps acc v = eps_abs acc + eps_rel acc * \<bar>v\<bar>"

definition worst_over :: "accuracy \<Rightarrow> interval \<Rightarrow> real" where
  "worst_over acc iv =
     (let worst_v = (if \<bar>iv_lo iv\<bar> \<ge> \<bar>iv_hi iv\<bar> then iv_lo iv else iv_hi iv)
      in acc_eps acc worst_v)"

definition acc_valid :: "accuracy \<Rightarrow> bool" where
  "acc_valid acc = (0 \<le> eps_abs acc \<and> 0 \<le> eps_rel acc)"

lemma accuracy_new_Ok: "accuracy_new a r = Ok acc \<Longrightarrow> acc_valid acc"
  by (auto simp: accuracy_new_def acc_valid_def fl_finite_iff split: if_splits)

lemma accuracy_new_not_Err [simp]: "accuracy_new a r \<noteq> Err e"
  by (auto simp: accuracy_new_def split: fl.splits)

lemma worst_over_bounds:
  "acc_valid acc \<Longrightarrow> iv_contains iv v \<Longrightarrow> acc_eps acc v \<le> worst_over acc iv"
  unfolding worst_over_def acc_eps_def Let_def
  by (auto simp: iv_contains_def acc_valid_def intro!: mult_left_mono)

lemma worst_over_attained:
  "iv_valid iv \<Longrightarrow> \<exists>v. iv_contains iv v \<and> worst_over acc iv = acc_eps acc v"
  by (auto simp: worst_over_def Let_def iv_contains_def iv_valid_def)

lemma worst_over_nonneg: "acc_valid acc \<Longrightarrow> 0 \<le> worst_over acc iv"
  by (simp add: worst_over_def acc_eps_def acc_valid_def)

section \<open>Inflation and the budgeted total error\<close>

definition inflate :: "interval \<Rightarrow> real \<Rightarrow> interval" where
  "inflate iv eps = \<lparr>iv_lo = iv_lo iv - eps, iv_hi = iv_hi iv + eps\<rparr>"

definition total_error :: "interval \<Rightarrow> real \<Rightarrow> real" where
  "total_error out_hull model_eps = half_width out_hull + model_eps"

lemma inflate_zero [simp]: "inflate iv 0 = iv"
  by (simp add: inflate_def)

lemma inflate_valid: "iv_valid iv \<Longrightarrow> 0 \<le> eps \<Longrightarrow> iv_valid (inflate iv eps)"
  by (simp add: iv_valid_def inflate_def)

lemma inflate_upper: "0 \<le> eps \<Longrightarrow> is_subset iv (inflate iv eps)"
  by (simp add: is_subset_def inflate_def)

lemma inflate_contains:
  "iv_contains iv x \<Longrightarrow> \<bar>y - x\<bar> \<le> eps \<Longrightarrow> iv_contains (inflate iv eps) y"
  by (auto simp: iv_contains_def inflate_def abs_le_iff)

lemma total_error_half_width: "total_error iv eps = half_width (inflate iv eps)"
  by (simp add: total_error_def half_width_def width_def inflate_def field_simps)

lemma half_width_mono: "is_subset a b \<Longrightarrow> half_width a \<le> half_width b"
  by (simp add: is_subset_def half_width_def width_def)

section \<open>Domains\<close>

record domain =
  d_box :: "(string, interval) dict"
  d_tags :: "string list"

definition domain_new :: "(string, interval) dict \<Rightarrow> string list \<Rightarrow> domain" where
  "domain_new b ts = \<lparr>d_box = btree_of b, d_tags = bset_of ts\<rparr>"

definition domain_valid :: "domain \<Rightarrow> bool" where
  "domain_valid d \<longleftrightarrow> bt_ok (d_box d) \<and> sorted (d_tags d) \<and> distinct (d_tags d)"

datatype domain_violation =
    MissingInput string
  | OutOfBox string real real real real
  | MissingTag string

fun first_missing_tag :: "string list \<Rightarrow> string list \<Rightarrow> string option" where
  "first_missing_tag [] tags = None"
| "first_missing_tag (t # ts) tags =
     (if t \<notin> set tags then Some t else first_missing_tag ts tags)"

fun first_box_violation ::
  "(string, interval) dict \<Rightarrow> (string, interval) dict \<Rightarrow> domain_violation option" where
  "first_box_violation [] inputs = None"
| "first_box_violation ((port, allowed) # rest) inputs =
     (case dget inputs port of
        None \<Rightarrow> Some (MissingInput port)
      | Some value \<Rightarrow>
          (if \<not> is_subset value allowed
           then Some (OutOfBox port (iv_lo value) (iv_hi value) (iv_lo allowed) (iv_hi allowed))
           else first_box_violation rest inputs))"

definition admits ::
  "domain \<Rightarrow> (string, interval) dict \<Rightarrow> string list \<Rightarrow> (unit, domain_violation) outcome" where
  "admits d inputs tags =
     (case first_missing_tag (d_tags d) tags of
        Some t \<Rightarrow> Err (MissingTag t)
      | None \<Rightarrow>
          (case first_box_violation (d_box d) inputs of
             Some v \<Rightarrow> Err v
           | None \<Rightarrow> Ok ()))"

lemma domain_new_valid [simp]: "domain_valid (domain_new b ts)"
  by (simp add: domain_valid_def domain_new_def)

lemma first_missing_tag_None: "first_missing_tag ts tags = None \<longleftrightarrow> set ts \<subseteq> set tags"
  by (induction ts) auto

lemma first_missing_tag_Some:
  "first_missing_tag ts tags = Some t \<Longrightarrow> t \<in> set ts \<and> t \<notin> set tags"
  by (induction ts) (auto split: if_splits)

lemma first_box_violation_None:
  "first_box_violation b inputs = None \<longleftrightarrow>
     (\<forall>(port, allowed) \<in> set b. \<exists>v. dget inputs port = Some v \<and> is_subset v allowed)"
  by (induction b inputs rule: first_box_violation.induct) (auto split: option.splits)

lemma admits_Ok_iff:
  "admits d inputs tags = Ok () \<longleftrightarrow>
     set (d_tags d) \<subseteq> set tags \<and>
     (\<forall>(port, allowed) \<in> set (d_box d).
        \<exists>v. dget inputs port = Some v \<and> is_subset v allowed)"
  by (auto simp: admits_def first_missing_tag_None [symmetric]
      first_box_violation_None [symmetric] split: option.splits)

lemma admits_not_Raise [simp]: "admits d inputs tags \<noteq> Raise x"
  by (auto simp: admits_def split: option.splits)

section \<open>The Python view of a violation\<close>

record py_domain_violation =
  dv_kind :: string
  dv_port :: "string option"
  dv_tag :: "string option"
  dv_lo :: "real option"
  dv_hi :: "real option"
  dv_box_lo :: "real option"
  dv_box_hi :: "real option"

definition domain_violation_from_exc :: "domain_violation \<Rightarrow> py_domain_violation" where
  "domain_violation_from_exc v =
     (case v of
        MissingInput port \<Rightarrow>
          \<lparr>dv_kind = ''MissingInput'', dv_port = Some port, dv_tag = None,
           dv_lo = None, dv_hi = None, dv_box_lo = None, dv_box_hi = None\<rparr>
      | OutOfBox port lo hi blo bhi \<Rightarrow>
          \<lparr>dv_kind = ''OutOfBox'', dv_port = Some port, dv_tag = None,
           dv_lo = Some lo, dv_hi = Some hi, dv_box_lo = Some blo, dv_box_hi = Some bhi\<rparr>
      | MissingTag tag \<Rightarrow>
          \<lparr>dv_kind = ''MissingTag'', dv_port = None, dv_tag = Some tag,
           dv_lo = None, dv_hi = None, dv_box_lo = None, dv_box_hi = None\<rparr>)"

definition domain_admits ::
  "domain \<Rightarrow> (string, interval) dict \<Rightarrow> string list \<Rightarrow> (unit, py_domain_violation) outcome" where
  "domain_admits d inputs tags =
     (case admits d inputs tags of
        Ok u \<Rightarrow> Ok u
      | Err v \<Rightarrow> Err (domain_violation_from_exc v)
      | Raise x \<Rightarrow> Raise x)"

section \<open>Ranks and port declarations\<close>

datatype rank =
    Scalar
  | ComplexRank
  | VectorRank nat
  | TensorRank nat nat
  | PayloadRank string

definition rank_kind :: "rank \<Rightarrow> string" where
  "rank_kind r =
     (case r of Scalar \<Rightarrow> ''scalar'' | ComplexRank \<Rightarrow> ''complex''
      | VectorRank _ \<Rightarrow> ''vector'' | TensorRank _ _ \<Rightarrow> ''tensor''
      | PayloadRank _ \<Rightarrow> ''payload'')"

definition rank_payload_kind :: "rank \<Rightarrow> string option" where
  "rank_payload_kind r = (case r of PayloadRank k \<Rightarrow> Some k | _ \<Rightarrow> None)"

definition rank_n :: "rank \<Rightarrow> nat option" where
  "rank_n r = (case r of VectorRank n \<Rightarrow> Some n | TensorRank n _ \<Rightarrow> Some n | _ \<Rightarrow> None)"

definition rank_m :: "rank \<Rightarrow> nat option" where
  "rank_m r = (case r of TensorRank _ m \<Rightarrow> Some m | _ \<Rightarrow> None)"

record port_decl =
  pd_name :: string
  pd_unit :: string
  pd_rank :: rank

lemma rank_kind_payload [simp]: "rank_kind r = ''payload'' \<longleftrightarrow> (\<exists>k. r = PayloadRank k)"
  by (cases r) (simp_all add: rank_kind_def)

end
