(* ===== verification/Corner_Sweep.thy ===== *)
theory Corner_Sweep
  imports Quantity
begin

text \<open>
  The corner sweep (\<open>crates/feldspar-core/src/propagation.rs\<close> behind \<open>core.py\<close>):
  \<open>enumerate_corners\<close>, \<open>hull_from_results\<close> and \<open>corner_sweep\<close>. The callback of a sweep may
  change state of the caller (the executor collects measurements in it), so the sweep
  threads a state through the calls. The lemmas say which corners there are, that the hull
  holds exactly the least and the greatest value of each port, and that a coordinatewise
  monotone function over the whole box stays inside the swept hull.
\<close>

section \<open>Corners\<close>

type_synonym box = "(string, interval) dict"
type_synonym corner = "(string, real) dict"

definition corner_candidates :: "interval \<Rightarrow> real list" where
  "corner_candidates iv =
     (if iv_lo iv = iv_hi iv then [iv_lo iv] else [iv_lo iv, iv_hi iv])"

fun extend_corners :: "box \<Rightarrow> corner list \<Rightarrow> corner list" where
  "extend_corners [] corners = corners"
| "extend_corners ((port, iv) # ports) corners =
     extend_corners ports
       (concat (map (\<lambda>c. map (\<lambda>v. bt_insert port v c) (corner_candidates iv)) corners))"

definition rust_enumerate_corners :: "box \<Rightarrow> corner list" where
  "rust_enumerate_corners b = sort_key (map snd) (extend_corners b [[]])"

text \<open>The Python function hands over a dict, which becomes a \<open>BTreeMap\<close>.\<close>

definition enumerate_corners :: "box \<Rightarrow> corner list" where
  "enumerate_corners b = rust_enumerate_corners (btree_of b)"

section \<open>Hulls\<close>

definition hull_point :: "string \<Rightarrow> real \<Rightarrow> box \<Rightarrow> box" where
  "hull_point port x h =
     (let point = \<lparr>iv_lo = x, iv_hi = x\<rparr> in
      bt_insert port (case dget h port of Some iv \<Rightarrow> iv_hull iv point | None \<Rightarrow> point) h)"

fun hull_outputs :: "(string, fl) dict \<Rightarrow> box \<Rightarrow> (box, 'e) outcome" where
  "hull_outputs [] h = Ok h"
| "hull_outputs ((port, v) # outs) h =
     (case v of Fin x \<Rightarrow> hull_outputs outs (hull_point port x h) | _ \<Rightarrow> Raise PanicException)"

fun hull_results :: "(string, fl) dict list \<Rightarrow> box \<Rightarrow> (box, 'e) outcome" where
  "hull_results [] h = Ok h"
| "hull_results (r # rs) h = obind (hull_outputs (btree_of r) h) (hull_results rs)"

definition hull_from_results :: "(string, fl) dict list \<Rightarrow> (box, 'e) outcome" where
  "hull_from_results rs = hull_results rs []"

section \<open>The sweep\<close>

type_synonym ('s, 'e) corner_fn = "'s \<Rightarrow> corner \<Rightarrow> ((string, fl) dict, 'e) outcome \<times> 's"

fun sweep_loop ::
  "('s, 'e) corner_fn \<Rightarrow> corner list \<Rightarrow> box \<Rightarrow> 's \<Rightarrow> (box, 'e) outcome \<times> 's" where
  "sweep_loop eval [] h s = (Ok h, s)"
| "sweep_loop eval (c # cs) h s =
     (case eval s c of
        (Ok outs, s') \<Rightarrow>
          (case hull_outputs (btree_of outs) h of
             Ok h' \<Rightarrow> sweep_loop eval cs h' s'
           | Err e \<Rightarrow> (Err e, s')
           | Raise x \<Rightarrow> (Raise x, s'))
      | (Err e, s') \<Rightarrow> (Err e, s')
      | (Raise x, s') \<Rightarrow> (Raise x, s'))"

definition corner_sweep ::
  "box \<Rightarrow> ('s, 'e) corner_fn \<Rightarrow> 's \<Rightarrow> (box, 'e) outcome \<times> 's" where
  "corner_sweep b eval s = sweep_loop eval (enumerate_corners b) [] s"

section \<open>Which corners there are\<close>

definition corner_of :: "box \<Rightarrow> corner \<Rightarrow> bool" where
  "corner_of b c \<longleftrightarrow>
     list_all2 (\<lambda>(p, iv) (q, v). q = p \<and> (v = iv_lo iv \<or> v = iv_hi iv)) b c"

fun corner_product :: "box \<Rightarrow> corner list" where
  "corner_product [] = [[]]"
| "corner_product ((p, iv) # b) =
     concat (map (\<lambda>v. map (\<lambda>c. (p, v) # c) (corner_product b)) (corner_candidates iv))"

lemma bt_insert_last:
  "(\<forall>k' \<in> fst ` set c. k' < k) \<Longrightarrow> bt_insert k v c = c @ [(k, v)]"
  by (induction k v c rule: bt_insert.induct) force+

lemma extend_corners_eq:
  "(\<forall>c \<in> set cs. \<forall>k \<in> fst ` set c. \<forall>k' \<in> fst ` set b. k < k') \<Longrightarrow> bt_ok b \<Longrightarrow>
   extend_corners b cs = concat (map (\<lambda>c. map ((@) c) (corner_product b)) cs)"
proof (induction b cs rule: extend_corners.induct)
  case (1 cs)
  then show ?case by simp
next
  case (2 p iv b cs)
  let ?cs = "concat (map (\<lambda>c. map (\<lambda>v. bt_insert p v c) (corner_candidates iv)) cs)"
  have ins: "bt_insert p v c = c @ [(p, v)]" if "c \<in> set cs" for c v
    using 2(2) that by (intro bt_insert_last) auto
  have cs: "?cs = concat (map (\<lambda>c. map (\<lambda>v. c @ [(p, v)]) (corner_candidates iv)) cs)"
    using ins by (intro arg_cong [where f = concat] map_cong) auto
  have "extend_corners b ?cs = concat (map (\<lambda>c. map ((@) c) (corner_product b)) ?cs)"
  proof (rule 2(1))
    show "bt_ok b" using 2(3) by (simp add: bt_ok_Cons)
    show "\<forall>c \<in> set ?cs. \<forall>k \<in> fst ` set c. \<forall>k' \<in> fst ` set b. k < k'"
      using 2(2,3) unfolding cs by (fastforce simp: bt_ok_Cons)
  qed
  also have "\<dots> = concat (map (\<lambda>c. map ((@) c) (corner_product ((p, iv) # b))) cs)"
  proof -
    have "((@) (c @ [(p, v)])) = (\<lambda>x. c @ (p, v) # x)" for c :: corner and v
      by (rule ext) simp
    then show ?thesis unfolding cs by (induction cs) (simp_all add: map_concat comp_def)
  qed
  finally show ?case by simp
qed

lemma rust_enumerate_eq:
  "bt_ok b \<Longrightarrow> rust_enumerate_corners b = sort_key (map snd) (corner_product b)"
proof -
  have "((@) []) = (\<lambda>c::corner. c)" by (rule ext) simp
  then show "bt_ok b \<Longrightarrow> ?thesis" by (simp add: rust_enumerate_corners_def extend_corners_eq)
qed

lemma set_corner_product: "set (corner_product b) = {c. corner_of b c}"
proof (induction b)
  case Nil
  then show ?case by (auto simp: corner_of_def)
next
  case (Cons p b)
  obtain q iv where p: "p = (q, iv)" by (cases p)
  have "c \<in> set (corner_product (p # b)) \<longleftrightarrow> corner_of (p # b) c" for c
    using Cons p
    by (cases c) (auto simp: corner_of_def corner_candidates_def split: if_splits)
  then show ?case by auto
qed

lemma distinct_corner_product: "distinct (corner_product b)"
proof (induction b)
  case (Cons p b)
  obtain q iv where p: "p = (q, iv)" by (cases p)
  have "distinct (map ((#) x) (corner_product b))" for x
    using Cons by (simp add: distinct_map)
  then show ?case using p by (auto simp: corner_candidates_def)
qed simp

lemma length_corner_product:
  "length (corner_product b) = 2 ^ length (filter (\<lambda>(p, iv). iv_lo iv \<noteq> iv_hi iv) b)"
proof (induction b)
  case (Cons p b)
  then show ?case by (cases p) (simp add: corner_candidates_def)
qed simp

lemma set_enumerate_corners: "set (enumerate_corners b) = {c. corner_of (btree_of b) c}"
  by (simp add: enumerate_corners_def rust_enumerate_eq set_corner_product)

lemma distinct_enumerate_corners: "distinct (enumerate_corners b)"
  by (simp add: enumerate_corners_def rust_enumerate_eq distinct_corner_product)

lemma sorted_enumerate_corners: "sorted (map (map snd) (enumerate_corners b))"
  by (simp add: enumerate_corners_def rust_enumerate_corners_def)

lemma corner_of_keys: "corner_of b c \<Longrightarrow> map fst c = map fst b"
  unfolding corner_of_def by (induction b c rule: list_all2_induct) auto

lemma enumerate_corners_nonempty: "enumerate_corners b \<noteq> []"
proof -
  have "0 < length (corner_product (btree_of b))" by (simp add: length_corner_product)
  then show ?thesis
    by (metis enumerate_corners_def length_0_conv length_sort less_not_refl rust_enumerate_eq bt_ok_btree_of)
qed

section \<open>What a hull holds\<close>

definition port_values :: "string \<Rightarrow> (string, fl) dict list \<Rightarrow> real set" where
  "port_values p rs = {v. \<exists>r \<in> set rs. dget r p = Some (Fin v)}"

definition all_finite :: "(string, fl) dict \<Rightarrow> bool" where
  "all_finite r \<longleftrightarrow> (\<forall>v \<in> snd ` set r. fl_finite v)"

definition hull_of :: "real set \<Rightarrow> interval option" where
  "hull_of vs = (if vs = {} then None else Some \<lparr>iv_lo = Min vs, iv_hi = Max vs\<rparr>)"

lemma hull_of_insert:
  "finite vs \<Longrightarrow>
   hull_of (insert x vs) =
     Some (case hull_of vs of
             Some iv \<Rightarrow> iv_hull iv \<lparr>iv_lo = x, iv_hi = x\<rparr>
           | None \<Rightarrow> \<lparr>iv_lo = x, iv_hi = x\<rparr>)"
  by (simp add: hull_of_def iv_hull_def min.commute max.commute)

lemma bt_ok_hull_point [simp]: "bt_ok h \<Longrightarrow> bt_ok (hull_point p x h)"
  by (simp add: hull_point_def Let_def)

lemma hull_outputs_Ok:
  assumes "bt_ok h" "\<And>p. finite (vs p)" "\<And>p. dget h p = hull_of (vs p)"
    "dict_ok outs" "all_finite outs"
  shows "\<exists>h'. hull_outputs outs h = (Ok h' :: (box, 'e) outcome) \<and> bt_ok h' \<and>
           (\<forall>p. dget h' p = hull_of (vs p \<union> {v. dget outs p = Some (Fin v)}))"
  using assms
proof (induction outs arbitrary: h vs)
  case Nil
  then show ?case by auto
next
  case (Cons pv outs)
  obtain q x where pv: "pv = (q, Fin x)"
    using Cons.prems(5) by (cases pv) (auto simp: all_finite_def fl_finite_iff)
  let ?vs = "vs(q := insert x (vs q))"
  have q: "dget outs q = None"
    using Cons.prems(4) pv by (auto simp: dict_ok_def map_of_eq_None_iff)
  have "\<exists>h'. hull_outputs outs (hull_point q x h) = (Ok h' :: (box, 'e) outcome) \<and> bt_ok h' \<and>
      (\<forall>p. dget h' p = hull_of (?vs p \<union> {v. dget outs p = Some (Fin v)}))"
  proof (rule Cons.IH)
    show "dget (hull_point q x h) p = hull_of (?vs p)" for p
      using Cons.prems(1,2,3)
      by (auto simp: hull_point_def Let_def hull_of_insert split: option.splits)
  qed (use Cons.prems pv in \<open>auto simp: dict_ok_def all_finite_def\<close>)
  then obtain h' where h': "hull_outputs outs (hull_point q x h) = (Ok h' :: (box, 'e) outcome)" "bt_ok h'"
    "\<And>p. dget h' p = hull_of (?vs p \<union> {v. dget outs p = Some (Fin v)})"
    by blast
  have "?vs p \<union> {v. dget outs p = Some (Fin v)} =
      vs p \<union> {v. dget (pv # outs) p = Some (Fin v)}" for p
    using q pv by auto
  with h' pv show ?case by (intro exI [of _ h']) auto
qed

lemma finite_port_value [simp]: "finite {v. dget r p = Some (Fin v)}"
proof (cases "dget r p")
  case (Some x)
  then show ?thesis by (cases x) auto
qed simp

lemma finite_port_values [simp]: "finite (port_values p rs)"
proof -
  have "port_values p rs = (\<Union>r \<in> set rs. {v. dget r p = Some (Fin v)})"
    by (auto simp: port_values_def)
  then show ?thesis by simp
qed

lemma port_values_Cons:
  "port_values p (r # rs) = {v. dget r p = Some (Fin v)} \<union> port_values p rs"
  by (auto simp: port_values_def)

lemma all_finite_btree_of: "all_finite r \<Longrightarrow> dict_ok r \<Longrightarrow> all_finite (btree_of r)"
proof -
  assume a: "all_finite r" "dict_ok r"
  have "v \<in> snd ` set r" if "(k, v) \<in> set (btree_of r)" for k v
  proof -
    have "map_of (btree_of r) k = Some v"
      using that by (simp add: bt_ok_dict_ok dict_ok_get)
    then have "map_of r k = Some v" using a(2) by (simp add: map_of_btree_of_dict)
    then show ?thesis by (metis image_eqI map_of_SomeD snd_conv)
  qed
  then show ?thesis using a(1) unfolding all_finite_def by force
qed

lemma hull_results_Ok:
  assumes "bt_ok h" "\<And>p. finite (vs p)" "\<And>p. dget h p = hull_of (vs p)"
    "\<And>r. r \<in> set rs \<Longrightarrow> dict_ok r \<and> all_finite r"
  shows "\<exists>h'. hull_results rs h = (Ok h' :: (box, 'e) outcome) \<and> bt_ok h' \<and>
           (\<forall>p. dget h' p = hull_of (vs p \<union> port_values p rs))"
  using assms
proof (induction rs arbitrary: h vs)
  case Nil
  then show ?case by (simp add: port_values_def)
next
  case (Cons r rs)
  have r: "dict_ok r" "all_finite r" using Cons.prems(4) by simp_all
  let ?vs = "\<lambda>p. vs p \<union> {v. dget r p = Some (Fin v)}"
  obtain h1 where h1: "hull_outputs (btree_of r) h = (Ok h1 :: (box, 'e) outcome)" "bt_ok h1"
    "\<And>p. dget h1 p = hull_of (?vs p)"
    using hull_outputs_Ok [OF Cons.prems(1-3), of "btree_of r"] r
    by (auto simp: bt_ok_dict_ok all_finite_btree_of map_of_btree_of_dict)
  have "\<exists>h'. hull_results rs h1 = (Ok h' :: (box, 'e) outcome) \<and> bt_ok h' \<and>
      (\<forall>p. dget h' p = hull_of (?vs p \<union> port_values p rs))"
    by (rule Cons.IH) (use h1 Cons.prems in auto)
  with h1(1) show ?case by (simp add: port_values_Cons Un_assoc)
qed

lemma hull_from_results_Ok:
  assumes "\<And>r. r \<in> set rs \<Longrightarrow> dict_ok r \<and> all_finite r"
  shows "\<exists>h. hull_from_results rs = (Ok h :: (box, 'e) outcome) \<and> bt_ok h \<and> (\<forall>p. dget h p = hull_of (port_values p rs))"
  using hull_results_Ok [of "[]" "\<lambda>_. {}" rs] assms
  by (simp add: hull_from_results_def hull_of_def)

text \<open>Any order of the same results folds to the same hull.\<close>

lemma hull_from_results_perm:
  assumes "\<And>r. r \<in> set rs \<Longrightarrow> dict_ok r \<and> all_finite r" "set rs' = set rs"
  shows "hull_from_results rs' = (hull_from_results rs :: (box, 'e) outcome)"
proof -
  obtain h where h: "hull_from_results rs = (Ok h :: (box, 'e) outcome)" "bt_ok h"
    "\<And>p. dget h p = hull_of (port_values p rs)"
    using hull_from_results_Ok assms(1) by blast
  obtain h' where h': "hull_from_results rs' = (Ok h' :: (box, 'e) outcome)" "bt_ok h'"
    "\<And>p. dget h' p = hull_of (port_values p rs')"
    using hull_from_results_Ok [of rs'] assms by metis
  have "port_values p rs' = port_values p rs" for p using assms(2) by (simp add: port_values_def)
  then have "h' = h" using h h' by (intro bt_ok_unique) (auto simp: fun_eq_iff)
  with h h' show ?thesis by simp
qed

section \<open>A sweep evaluates, then folds\<close>

fun run_corners ::
  "('s, 'e) corner_fn \<Rightarrow> corner list \<Rightarrow> 's \<Rightarrow> ((string, fl) dict list, 'e) outcome \<times> 's" where
  "run_corners eval [] s = (Ok [], s)"
| "run_corners eval (c # cs) s =
     (case eval s c of
        (Ok r, s') \<Rightarrow>
          (case run_corners eval cs s' of
             (Ok rs, s'') \<Rightarrow> (Ok (r # rs), s'')
           | (Err e, s'') \<Rightarrow> (Err e, s'')
           | (Raise x, s'') \<Rightarrow> (Raise x, s''))
      | (Err e, s') \<Rightarrow> (Err e, s')
      | (Raise x, s') \<Rightarrow> (Raise x, s'))"

lemma sweep_loop_Ok_iff:
  fixes eval :: "('s, 'e) corner_fn"
  shows "sweep_loop eval cs h s = (Ok h', s') \<longleftrightarrow>
     (\<exists>rs. run_corners eval cs s = (Ok rs, s') \<and> hull_results rs h = (Ok h' :: (box, 'e) outcome))"
proof (induction cs arbitrary: h s)
  case (Cons c cs)
  then show ?case
    by (auto split: prod.splits outcome.splits simp: outcome_simps)
qed auto

lemma run_corners_length: "run_corners eval cs s = (Ok rs, s') \<Longrightarrow> length rs = length cs"
  by (induction cs arbitrary: s rs) (auto split: prod.splits outcome.splits)

lemma hull_outputs_not_Err [simp]: "hull_outputs outs h \<noteq> Err e"
  by (induction outs h rule: hull_outputs.induct) (auto split: fl.splits)

lemma sweep_loop_Err:
  "sweep_loop eval cs h s = (Err e, s') \<Longrightarrow> \<exists>c \<in> set cs. \<exists>t. fst (eval t c) = Err e"
proof (induction cs arbitrary: h s)
  case (Cons c cs)
  show ?case
  proof (cases "eval s c")
    case (Pair r s1)
    then show ?thesis
    proof (cases r)
      case (Ok outs)
      then show ?thesis using Cons Pair by (auto split: outcome.splits)
    next
      case (Err e')
      then have "fst (eval s c) = Err e" using Cons.prems Pair by simp
      then show ?thesis by auto
    next
      case (Raise x)
      then show ?thesis using Cons.prems Pair by simp
    qed
  qed
qed simp

lemma run_corners_pure:
  assumes "\<And>c. c \<in> set cs \<Longrightarrow> eval s c = (Ok (f c), s)"
  shows "run_corners eval cs s = (Ok (map f cs), s)"
  using assms by (induction cs) simp_all

section \<open>Soundness for coordinatewise monotone functions\<close>

definition point_of :: "box \<Rightarrow> (string \<Rightarrow> real) \<Rightarrow> corner" where
  "point_of b x = map (\<lambda>(p, iv). (p, x p)) b"

definition in_box :: "box \<Rightarrow> (string \<Rightarrow> real) \<Rightarrow> bool" where
  "in_box b x \<longleftrightarrow> (\<forall>(p, iv) \<in> set b. iv_contains iv (x p))"

text \<open>
  In each input, the others held fixed, the function is non-decreasing or non-increasing over the
  box; which of the two may depend on the other inputs. This is what a solver declares by
  \<open>corner_monotone\<close>.
\<close>

definition coord_monotone :: "box \<Rightarrow> (corner \<Rightarrow> real) \<Rightarrow> bool" where
  "coord_monotone b g \<longleftrightarrow>
     (\<forall>p \<in> fst ` set b. \<forall>x.
        (\<forall>v w. in_box b (x(p := v)) \<and> in_box b (x(p := w)) \<and> v \<le> w \<longrightarrow>
           g (point_of b (x(p := v))) \<le> g (point_of b (x(p := w)))) \<or>
        (\<forall>v w. in_box b (x(p := v)) \<and> in_box b (x(p := w)) \<and> v \<le> w \<longrightarrow>
           g (point_of b (x(p := w))) \<le> g (point_of b (x(p := v)))))"

definition at_end :: "box \<Rightarrow> (string \<Rightarrow> real) \<Rightarrow> string \<Rightarrow> bool" where
  "at_end b z p \<longleftrightarrow> (\<forall>iv. dget b p = Some iv \<longrightarrow> z p = iv_lo iv \<or> z p = iv_hi iv)"

lemma move_to_end:
  assumes b: "dict_ok b" "\<forall>(p, iv) \<in> set b. iv_valid iv" and g: "coord_monotone b g"
    and z: "in_box b z" and p: "p \<in> fst ` set b"
  shows "\<exists>v. in_box b (z(p := v)) \<and> at_end b (z(p := v)) p \<and>
             g (point_of b (z(p := v))) \<le> g (point_of b z)"
    "\<exists>v. in_box b (z(p := v)) \<and> at_end b (z(p := v)) p \<and>
         g (point_of b z) \<le> g (point_of b (z(p := v)))"
proof -
  obtain iv where iv: "dget b p = Some iv" using p by (metis map_of_eq_None_iff option.exhaust)
  then have mem: "(p, iv) \<in> set b" by (rule map_of_SomeD)
  have zp: "iv_lo iv \<le> z p" "z p \<le> iv_hi iv"
    using z mem by (auto simp: in_box_def iv_contains_def)
  have box: "in_box b (z(p := v))" if "iv_contains iv v" for v
  proof -
    have "iv' = iv" if "(p, iv') \<in> set b" for iv'
      using b(1) iv that by (simp add: dict_ok_get)
    then show ?thesis using z that by (auto simp: in_box_def)
  qed
  have lo: "in_box b (z(p := iv_lo iv))" "at_end b (z(p := iv_lo iv)) p"
    and hi: "in_box b (z(p := iv_hi iv))" "at_end b (z(p := iv_hi iv)) p"
    using box zp iv by (auto simp: at_end_def iv_contains_def)
  have mid: "in_box b (z(p := z p))" using z by simp
  from g p have "(\<forall>v w. in_box b (z(p := v)) \<and> in_box b (z(p := w)) \<and> v \<le> w \<longrightarrow>
        g (point_of b (z(p := v))) \<le> g (point_of b (z(p := w)))) \<or>
      (\<forall>v w. in_box b (z(p := v)) \<and> in_box b (z(p := w)) \<and> v \<le> w \<longrightarrow>
        g (point_of b (z(p := w))) \<le> g (point_of b (z(p := v))))"
    unfolding coord_monotone_def by blast
  then show "\<exists>v. in_box b (z(p := v)) \<and> at_end b (z(p := v)) p \<and>
             g (point_of b (z(p := v))) \<le> g (point_of b z)"
    "\<exists>v. in_box b (z(p := v)) \<and> at_end b (z(p := v)) p \<and>
         g (point_of b z) \<le> g (point_of b (z(p := v)))"
    using lo hi mid zp by (metis fun_upd_triv)+
qed

lemma at_end_upd: "q \<noteq> p \<Longrightarrow> at_end b (z(p := v)) q = at_end b z q"
  by (simp add: at_end_def)

lemma monotone_ends:
  assumes b: "dict_ok b" "\<forall>(p, iv) \<in> set b. iv_valid iv" and g: "coord_monotone b g"
    and x: "in_box b x" and ps: "set ps \<subseteq> fst ` set b"
  shows "\<exists>z. in_box b z \<and> (\<forall>p \<in> set ps. at_end b z p) \<and> g (point_of b z) \<le> g (point_of b x)"
    "\<exists>z. in_box b z \<and> (\<forall>p \<in> set ps. at_end b z p) \<and> g (point_of b x) \<le> g (point_of b z)"
  using ps
proof (induction ps)
  case Nil
  {
    case 1
    then show ?case using x by auto
  next
    case 2
    then show ?case using x by auto
  }
next
  case (Cons p ps)
  {
    case 1
    then obtain z where z: "in_box b z" "\<forall>p \<in> set ps. at_end b z p"
      "g (point_of b z) \<le> g (point_of b x)"
      using Cons.IH(1) by auto
    obtain v where "in_box b (z(p := v))" "at_end b (z(p := v)) p"
      "g (point_of b (z(p := v))) \<le> g (point_of b z)"
      using move_to_end(1) [OF b g z(1), of p] 1 by auto
    then show ?case
      using z by (intro exI [of _ "z(p := v)"]) (metis at_end_upd order_trans set_ConsD)
  next
    case 2
    then obtain z where z: "in_box b z" "\<forall>p \<in> set ps. at_end b z p"
      "g (point_of b x) \<le> g (point_of b z)"
      using Cons.IH(2) by auto
    obtain v where "in_box b (z(p := v))" "at_end b (z(p := v)) p"
      "g (point_of b z) \<le> g (point_of b (z(p := v)))"
      using move_to_end(2) [OF b g z(1), of p] 2 by auto
    then show ?case
      using z by (intro exI [of _ "z(p := v)"]) (metis at_end_upd order_trans set_ConsD)
  }
qed

lemma corner_of_point:
  assumes "dict_ok b" "\<forall>p \<in> fst ` set b. at_end b z p"
  shows "corner_of b (point_of b z)"
proof -
  have "z p = iv_lo iv \<or> z p = iv_hi iv" if "(p, iv) \<in> set b" for p iv
  proof -
    have "at_end b z p" using assms(2) that by force
    then show ?thesis using assms(1) that by (simp add: at_end_def dict_ok_get)
  qed
  then show ?thesis
    by (auto simp: corner_of_def point_of_def list_all2_conv_all_nth case_prod_beta)
qed

lemma monotone_corner_bounds:
  assumes "dict_ok b" "\<forall>(p, iv) \<in> set b. iv_valid iv" "coord_monotone b g" "in_box b x"
  shows "\<exists>c d. corner_of b c \<and> corner_of b d \<and> g c \<le> g (point_of b x) \<and> g (point_of b x) \<le> g d"
  using monotone_ends [OF assms, of "map fst b"] corner_of_point [OF assms(1)]
  by (metis list.set_map order_refl)

end
