(* ===== verification/Parallel_Sweep.thy ===== *)
theory Parallel_Sweep
  imports Corner_Sweep
begin

text \<open>
  \<open>parallel_corner_sweep\<close> (\<open>plan/parallel.py\<close>): the serial path, and the thread pool as a
  state machine. A pool event is a worker picking up the oldest queued corner, a worker
  finishing, or the main thread looking at the future it waits for; an execution is any
  sequence of enabled events. The lemmas say that every execution that ends returns the
  serial value, which corners it may have run, and that executions end.
\<close>

section \<open>The serial path\<close>

definition serial_corner_sweep ::
  "box \<Rightarrow> ('s, 'e) corner_fn \<Rightarrow> 's \<Rightarrow> (box, 'e) outcome \<times> 's" where
  "serial_corner_sweep b eval s =
     (let corners = enumerate_corners b in
      if corners = [] then (hull_from_results [], s)
      else (case run_corners eval corners s of
              (Ok rs, s') \<Rightarrow> (hull_from_results rs, s')
            | (Err e, s') \<Rightarrow> (Err e, s')
            | (Raise x, s') \<Rightarrow> (Raise x, s')))"

section \<open>The thread pool\<close>

datatype pool_event = Start | Finish nat | Wait

record ('r, 'e) pool =
  pl_queue :: "nat list"
  pl_running :: "nat list"
  pl_done :: "nat list"
  pl_cancelled :: "nat list"
  pl_main :: nat
  pl_results :: "'r list"
  pl_returned :: "('r list, 'e) outcome option"

definition pool_init :: "nat \<Rightarrow> ('r, 'e) pool" where
  "pool_init n =
     \<lparr>pl_queue = [0..<n], pl_running = [], pl_done = [], pl_cancelled = [], pl_main = 0,
      pl_results = [], pl_returned = None\<rparr>"

text \<open>
  \<open>Wait\<close> is one turn of the loop over the futures: an \<open>Err\<close> cancels what is still queued,
  an exception leaves the \<open>with\<close> block without cancelling anything.
\<close>

fun pool_step ::
  "nat \<Rightarrow> nat \<Rightarrow> (nat \<Rightarrow> ('r, 'e) outcome) \<Rightarrow> pool_event \<Rightarrow> ('r, 'e) pool \<Rightarrow> ('r, 'e) pool option" where
  "pool_step k n f Start p =
     (case pl_queue p of
        [] \<Rightarrow> None
      | i # q \<Rightarrow>
          if length (pl_running p) < k
          then Some (p\<lparr>pl_queue := q, pl_running := pl_running p @ [i]\<rparr>) else None)"
| "pool_step k n f (Finish i) p =
     (if i \<in> set (pl_running p)
      then Some (p\<lparr>pl_running := remove1 i (pl_running p), pl_done := pl_done p @ [i]\<rparr>)
      else None)"
| "pool_step k n f Wait p =
     (if pl_returned p \<noteq> None then None
      else if pl_main p = n then Some (p\<lparr>pl_returned := Some (Ok (pl_results p))\<rparr>)
      else if pl_main p \<notin> set (pl_done p) then None
      else (case f (pl_main p) of
              Ok r \<Rightarrow> Some (p\<lparr>pl_main := pl_main p + 1, pl_results := pl_results p @ [r]\<rparr>)
            | Err e \<Rightarrow>
                Some (p\<lparr>pl_cancelled := pl_queue p, pl_queue := [],
                        pl_returned := Some (Err e)\<rparr>)
            | Raise x \<Rightarrow> Some (p\<lparr>pl_returned := Some (Raise x)\<rparr>)))"

fun run_pool ::
  "nat \<Rightarrow> nat \<Rightarrow> (nat \<Rightarrow> ('r, 'e) outcome) \<Rightarrow> pool_event list \<Rightarrow> ('r, 'e) pool
   \<Rightarrow> ('r, 'e) pool option" where
  "run_pool k n f [] p = Some p"
| "run_pool k n f (ev # evs) p =
     (case pool_step k n f ev p of None \<Rightarrow> None | Some p' \<Rightarrow> run_pool k n f evs p')"

text \<open>The \<open>with\<close> block is left when the value is decided and no work is left.\<close>

definition pool_finished :: "('r, 'e) pool \<Rightarrow> bool" where
  "pool_finished p \<longleftrightarrow> pl_returned p \<noteq> None \<and> pl_running p = [] \<and> pl_queue p = []"

definition parallel_corner_sweep ::
  "box \<Rightarrow> (corner \<Rightarrow> ((string, fl) dict, 'e) outcome) \<Rightarrow> int \<Rightarrow> pool_event list
   \<Rightarrow> (box, 'e) outcome option" where
  "parallel_corner_sweep b fn thread_count events =
     (let corners = enumerate_corners b; n = length corners in
      if corners = [] then Some (hull_from_results [])
      else if thread_count \<le> 1
      then Some (fst (serial_corner_sweep b (\<lambda>s c. (fn c, s)) ()))
      else (case run_pool (nat thread_count) n (\<lambda>i. fn (corners ! i)) events (pool_init n) of
              None \<Rightarrow> None
            | Some p \<Rightarrow>
                if pool_finished p
                then (case pl_returned p of
                        Some (Ok rs) \<Rightarrow> Some (hull_from_results rs)
                      | Some (Err e) \<Rightarrow> Some (Err e)
                      | Some (Raise x) \<Rightarrow> Some (Raise x)
                      | None \<Rightarrow> None)
                else None))"

section \<open>The invariant\<close>

definition started :: "('r, 'e) pool \<Rightarrow> nat set" where
  "started p = set (pl_running p) \<union> set (pl_done p)"

text \<open>Workers take the corners in order; only an \<open>Err\<close> cancels what is left.\<close>

definition pool_shape :: "nat \<Rightarrow> nat \<Rightarrow> ('r, 'e) pool \<Rightarrow> bool" where
  "pool_shape k n p \<longleftrightarrow>
     (\<exists>m \<le> n. started p = {0..<m} \<and>
        (pl_queue p = [m..<n] \<and> pl_cancelled p = [] \<or>
         pl_queue p = [] \<and> pl_cancelled p = [m..<n] \<and> (\<exists>e. pl_returned p = Some (Err e)))) \<and>
     distinct (pl_running p) \<and> length (pl_running p) \<le> k \<and>
     set (pl_running p) \<inter> set (pl_done p) = {}"

definition pool_value :: "nat \<Rightarrow> (nat \<Rightarrow> ('r, 'e) outcome) \<Rightarrow> ('r, 'e) pool \<Rightarrow> bool" where
  "pool_value n f p \<longleftrightarrow>
     {0..<pl_main p} \<subseteq> set (pl_done p) \<and> pl_main p \<le> n \<and>
     map Ok (pl_results p) = map f [0..<pl_main p] \<and>
     (case pl_returned p of
        None \<Rightarrow> True
      | Some (Ok rs) \<Rightarrow> pl_main p = n \<and> rs = pl_results p
      | Some (Err e) \<Rightarrow> pl_main p \<in> set (pl_done p) \<and> f (pl_main p) = Err e
      | Some (Raise x) \<Rightarrow> pl_main p \<in> set (pl_done p) \<and> f (pl_main p) = Raise x)"

definition pool_inv :: "nat \<Rightarrow> nat \<Rightarrow> (nat \<Rightarrow> ('r, 'e) outcome) \<Rightarrow> ('r, 'e) pool \<Rightarrow> bool" where
  "pool_inv k n f p \<longleftrightarrow> pool_shape k n p \<and> pool_value n f p"

lemma pool_inv_init: "pool_inv k n f (pool_init n)"
  by (auto simp: pool_inv_def pool_shape_def pool_value_def pool_init_def started_def)

lemma pool_shape_queue:
  assumes "pool_shape k n p" "pl_queue p = i # q"
  shows "i < n" "q = [Suc i..<n]" "started p = {0..<i}" "pl_cancelled p = []"
proof -
  obtain m where m: "m \<le> n" "started p = {0..<m}" "i # q = [m..<n]" "pl_cancelled p = []"
    using assms by (auto simp: pool_shape_def)
  then have "m < n" by (cases "m < n") auto
  then have "i # q = m # [Suc m..<n]" using m(3) by (simp add: upt_conv_Cons)
  then have "i = m" "q = [Suc m..<n]" by blast+
  with m(2,4) \<open>m < n\<close> show "i < n" "q = [Suc i..<n]" "started p = {0..<i}" "pl_cancelled p = []"
    by simp_all
qed

lemma pool_inv_start:
  assumes inv: "pool_inv k n f p" and step: "pool_step k n f Start p = Some p'"
  shows "pool_inv k n f p'"
proof -
  obtain i q where q: "pl_queue p = i # q" "length (pl_running p) < k"
    "p' = p\<lparr>pl_queue := q, pl_running := pl_running p @ [i]\<rparr>"
    using step by (auto split: list.splits if_splits)
  have sh: "pool_shape k n p" and val: "pool_value n f p" using inv by (simp_all add: pool_inv_def)
  note s = pool_shape_queue [OF sh q(1)]
  have new: "i \<notin> set (pl_running p)" "i \<notin> set (pl_done p)"
    using s(3) by (auto simp: started_def)
  have "started p' = insert i (started p)" using q(3) by (auto simp: started_def)
  then have "started p' = {0..<Suc i}" using s(3) by auto
  then have "pool_shape k n p'"
    using sh s q new by (auto simp: pool_shape_def intro!: exI [of _ "Suc i"])
  moreover have "pool_value n f p'"
    using val q(3) by (auto simp: pool_value_def split: option.splits outcome.splits)
  ultimately show ?thesis by (simp add: pool_inv_def)
qed

lemma pool_inv_finish:
  assumes inv: "pool_inv k n f p" and step: "pool_step k n f (Finish i) p = Some p'"
  shows "pool_inv k n f p'"
proof -
  have p': "i \<in> set (pl_running p)"
    "p' = p\<lparr>pl_running := remove1 i (pl_running p), pl_done := pl_done p @ [i]\<rparr>"
    using step by (auto split: if_splits)
  have sh: "pool_shape k n p" and val: "pool_value n f p" using inv by (simp_all add: pool_inv_def)
  then have dist: "distinct (pl_running p)" by (simp add: pool_shape_def)
  then have rem: "set (remove1 i (pl_running p)) = set (pl_running p) - {i}" by simp
  have st: "started p' = started p" using p' rem by (auto simp: started_def)
  moreover have "length (remove1 i (pl_running p)) \<le> k"
    using sh by (auto simp: pool_shape_def length_remove1)
  moreover have "set (pl_running p') \<inter> set (pl_done p') = {}"
    using sh p' rem by (auto simp: pool_shape_def)
  ultimately have "pool_shape k n p'"
    using sh p' dist by (simp add: pool_shape_def)
  moreover have "pool_value n f p'"
    using val p'(2) by (auto simp: pool_value_def split: option.splits outcome.splits)
  ultimately show ?thesis by (simp add: pool_inv_def)
qed

lemma pool_inv_wait:
  assumes inv: "pool_inv k n f p" and step: "pool_step k n f Wait p = Some p'"
  shows "pool_inv k n f p'"
proof -
  have sh: "pool_shape k n p" and val: "pool_value n f p" using inv by (simp_all add: pool_inv_def)
  have ret: "pl_returned p = None" using step by (auto split: if_splits)
  then obtain m where m: "m \<le> n" "started p = {0..<m}" "pl_queue p = [m..<n]" "pl_cancelled p = []"
    using sh by (auto simp: pool_shape_def)
  show ?thesis
  proof (cases "pl_main p = n")
    case True
    then have "p' = p\<lparr>pl_returned := Some (Ok (pl_results p))\<rparr>" using step ret by simp
    then show ?thesis
      using True val sh m by (auto simp: pool_inv_def pool_shape_def pool_value_def started_def)
  next
    case False
    then have main: "pl_main p \<in> set (pl_done p)" using step ret by (simp split: if_splits)
    have less: "pl_main p < n" using False val by (simp add: pool_value_def)
    have ins: "{0..<Suc (pl_main p)} \<subseteq> set (pl_done p)"
      using val main(1) by (auto simp: pool_value_def less_Suc_eq)
    show ?thesis
    proof (cases "f (pl_main p)")
      case (Ok r)
      then have p': "p' = p\<lparr>pl_main := pl_main p + 1, pl_results := pl_results p @ [r]\<rparr>"
        using step ret False main by simp
      then have "pool_shape k n p'" using sh by (simp add: pool_shape_def started_def)
      moreover have "pool_value n f p'"
        using val ret less ins Ok p' by (simp add: pool_value_def)
      ultimately show ?thesis by (simp add: pool_inv_def)
    next
      case (Err e)
      then have p': "p' = p\<lparr>pl_cancelled := pl_queue p, pl_queue := [], pl_returned := Some (Err e)\<rparr>"
        using step ret False main by simp
      then have "pool_shape k n p'" using sh m by (auto simp: pool_shape_def started_def)
      moreover have "pool_value n f p'" using val main Err p' by (simp add: pool_value_def)
      ultimately show ?thesis by (simp add: pool_inv_def)
    next
      case (Raise x)
      then have p': "p' = p\<lparr>pl_returned := Some (Raise x)\<rparr>"
        using step ret False main by simp
      then have "pool_shape k n p'" using sh m by (auto simp: pool_shape_def started_def)
      moreover have "pool_value n f p'" using val main Raise p' by (simp add: pool_value_def)
      ultimately show ?thesis by (simp add: pool_inv_def)
    qed
  qed
qed

lemma pool_inv_step: "pool_inv k n f p \<Longrightarrow> pool_step k n f ev p = Some p' \<Longrightarrow> pool_inv k n f p'"
proof (cases ev)
  case Start
  then show "pool_inv k n f p \<Longrightarrow> pool_step k n f ev p = Some p' \<Longrightarrow> ?thesis"
    using pool_inv_start by blast
next
  case (Finish i)
  then show "pool_inv k n f p \<Longrightarrow> pool_step k n f ev p = Some p' \<Longrightarrow> ?thesis"
    using pool_inv_finish by blast
next
  case Wait
  then show "pool_inv k n f p \<Longrightarrow> pool_step k n f ev p = Some p' \<Longrightarrow> ?thesis"
    using pool_inv_wait by blast
qed

lemma pool_inv_run: "pool_inv k n f p \<Longrightarrow> run_pool k n f evs p = Some p' \<Longrightarrow> pool_inv k n f p'"
proof (induction evs arbitrary: p)
  case (Cons ev evs)
  then obtain q where "pool_step k n f ev p = Some q" "run_pool k n f evs q = Some p'"
    by (auto split: option.splits)
  then show ?case using Cons.IH [of q] pool_inv_step [OF Cons.prems(1)] by blast
qed simp

section \<open>The value does not depend on the schedule\<close>

lemma omap_all_Ok: "map Ok rs = map f xs \<Longrightarrow> omap f xs = Ok rs"
proof (induction xs arbitrary: rs)
  case (Cons x xs)
  then obtain y ys where "rs = y # ys" "f x = Ok y" "map Ok ys = map f xs"
    by (cases rs) auto
  then show ?case using Cons.IH [of ys] by simp
qed simp

lemma omap_append:
  "omap f (xs @ ys) = obind (omap f xs) (\<lambda>a. obind (omap f ys) (\<lambda>b. Ok (a @ b)))"
proof (induction xs)
  case Nil
  then show ?case by (cases "omap f ys") simp_all
next
  case (Cons x xs)
  then show ?case
    by (cases "f x"; cases "omap f xs"; cases "omap f ys") simp_all
qed

lemma omap_upt_split:
  assumes "map Ok rs = map f [0..<m]" "m < n"
  shows "omap f [0..<n] = obind (f m) (\<lambda>y. obind (omap f [Suc m..<n]) (\<lambda>ys. Ok (rs @ y # ys)))"
proof -
  have "omap f [0..<m] = Ok rs" using assms(1) by (rule omap_all_Ok)
  moreover have "[0..<n] = [0..<m] @ m # [Suc m..<n]"
    using assms(2) using upt_add_eq_append [of 0 m "n - m"] by (simp add: upt_conv_Cons)
  ultimately show ?thesis
    by (simp only: omap_append) (cases "f m"; cases "omap f [Suc m..<n]"; simp)
qed

lemma pool_main_less:
  assumes "pool_inv k n f p" "pl_main p \<in> set (pl_done p)"
  shows "pl_main p < n"
proof -
  obtain m where "m \<le> n" "started p = {0..<m}"
    using assms(1) by (auto simp: pool_inv_def pool_shape_def)
  moreover have "pl_main p \<in> started p" using assms(2) by (simp add: started_def)
  ultimately show ?thesis by simp
qed

lemma pool_returned_serial:
  assumes inv: "pool_inv k n f p" and ret: "pl_returned p = Some v"
  shows "v = omap f [0..<n]"
proof -
  have val: "pool_value n f p" using inv by (simp add: pool_inv_def)
  then have rs: "map Ok (pl_results p) = map f [0..<pl_main p]" by (simp add: pool_value_def)
  show ?thesis
  proof (cases v)
    case (Ok r)
    then show ?thesis
      using val ret omap_all_Ok [OF rs] by (simp add: pool_value_def)
  next
    case (Err e)
    then have "pl_main p \<in> set (pl_done p)" "f (pl_main p) = Err e"
      using val ret by (simp_all add: pool_value_def)
    then show ?thesis
      using omap_upt_split [OF rs pool_main_less [OF inv]] Err by simp
  next
    case (Raise x)
    then have "pl_main p \<in> set (pl_done p)" "f (pl_main p) = Raise x"
      using val ret by (simp_all add: pool_value_def)
    then show ?thesis
      using omap_upt_split [OF rs pool_main_less [OF inv]] Raise by simp
  qed
qed

text \<open>
  What an execution has run when its value is decided: an initial segment of the corners,
  all of them unless the value is an \<open>Err\<close>, and then the corner whose \<open>Err\<close> is returned.
\<close>

lemma pool_started:
  assumes inv: "pool_inv k n f p" and fin: "pool_finished p"
  shows "\<exists>m \<le> n. set (pl_done p) = {0..<m} \<and> pl_cancelled p = [m..<n] \<and>
           (m = n \<or> (\<exists>i < m. \<exists>e. pl_returned p = Some (Err e) \<and> f i = Err e))"
proof -
  have sh: "pool_shape k n p" and val: "pool_value n f p" using inv by (simp_all add: pool_inv_def)
  have run: "pl_running p = []" "pl_queue p = []" using fin by (simp_all add: pool_finished_def)
  obtain m where m: "m \<le> n" "set (pl_done p) = {0..<m}"
    "pl_queue p = [m..<n] \<and> pl_cancelled p = [] \<or>
     pl_cancelled p = [m..<n] \<and> (\<exists>e. pl_returned p = Some (Err e))"
    using sh run(1) unfolding pool_shape_def started_def by auto
  with run(2) consider (all) "m = n" "pl_cancelled p = []"
    | (err) e where "pl_cancelled p = [m..<n]" "pl_returned p = Some (Err e)"
    by (metis le_antisym not_le upt_rec list.distinct(1))
  then show ?thesis
  proof cases
    case all
    then show ?thesis using m by (intro exI [of _ n]) auto
  next
    case err
    then have "pl_main p \<in> set (pl_done p)" "f (pl_main p) = Err e"
      using val by (simp_all add: pool_value_def)
    then show ?thesis using m err by (intro exI [of _ m]) auto
  qed
qed

section \<open>Executions end\<close>

definition pool_measure :: "nat \<Rightarrow> ('r, 'e) pool \<Rightarrow> nat" where
  "pool_measure n p =
     2 * length (pl_queue p) + length (pl_running p) + (n - pl_main p) +
     (if pl_returned p = None then 1 else 0)"

lemma pool_step_measure:
  assumes inv: "pool_inv k n f p" and step: "pool_step k n f ev p = Some p'"
  shows "pool_measure n p' < pool_measure n p"
proof (cases ev)
  case Start
  then show ?thesis using step by (auto simp: pool_measure_def split: list.splits if_splits)
next
  case (Finish i)
  then have "i \<in> set (pl_running p)"
    "p' = p\<lparr>pl_running := remove1 i (pl_running p), pl_done := pl_done p @ [i]\<rparr>"
    using step by (auto split: if_splits)
  then show ?thesis
    using length_pos_if_in_set [of i "pl_running p"]
    by (simp add: pool_measure_def length_remove1)
next
  case Wait
  have "pl_main p \<le> n" using inv by (simp add: pool_inv_def pool_value_def)
  then show ?thesis
    using step Wait by (auto simp: pool_measure_def split: if_splits outcome.splits)
qed

lemma pool_progress:
  assumes inv: "pool_inv k n f p" and k: "0 < k" and nf: "\<not> pool_finished p"
  shows "\<exists>ev p'. pool_step k n f ev p = Some p'"
proof (cases "pl_running p")
  case (Cons i others)
  then have "pool_step k n f (Finish i) p \<noteq> None" by simp
  then show ?thesis by blast
next
  case Nil
  show ?thesis
  proof (cases "pl_queue p")
    case (Cons i q)
    then have "pool_step k n f Start p \<noteq> None" using Nil k by simp
    then show ?thesis by blast
  next
    case Nil': Nil
    then have ret: "pl_returned p = None" using nf Nil by (simp add: pool_finished_def)
    obtain m where m: "m \<le> n" "started p = {0..<m}" "pl_queue p = [m..<n]"
      using inv ret by (auto simp: pool_inv_def pool_shape_def)
    then have "m = n" using Nil' by (metis le_antisym not_le upt_rec list.distinct(1))
    then have "set (pl_done p) = {0..<n}" using m(2) Nil by (simp add: started_def)
    moreover have "pl_main p \<le> n" using inv by (simp add: pool_inv_def pool_value_def)
    ultimately have "pl_main p = n \<or> pl_main p \<in> set (pl_done p)" by auto
    then have "pool_step k n f Wait p \<noteq> None"
      using ret by (cases "f (pl_main p)") auto
    then show ?thesis by blast
  qed
qed

lemma pool_completes:
  assumes "pool_inv k n f p" "0 < k"
  shows "\<exists>evs p'. run_pool k n f evs p = Some p' \<and> pool_finished p'"
  using assms
proof (induction p rule: measure_induct_rule [of "pool_measure n"])
  case (less p)
  show ?case
  proof (cases "pool_finished p")
    case True
    then show ?thesis by (intro exI [of _ "[]"]) simp
  next
    case False
    then obtain ev q where q: "pool_step k n f ev p = Some q"
      using pool_progress less.prems by blast
    then obtain evs p' where "run_pool k n f evs q = Some p'" "pool_finished p'"
      using less pool_step_measure pool_inv_step by blast
    with q have "run_pool k n f (ev # evs) p = Some p'" by simp
    with \<open>pool_finished p'\<close> show ?thesis by blast
  qed
qed

lemma run_pool_bounded:
  assumes "pool_inv k n f p" "run_pool k n f evs p = Some p'"
  shows "length evs + pool_measure n p' \<le> pool_measure n p"
  using assms
proof (induction evs arbitrary: p)
  case (Cons ev evs)
  then obtain q where q: "pool_step k n f ev p = Some q" "run_pool k n f evs q = Some p'"
    by (auto split: option.splits)
  with Cons.IH [of q] Cons.prems(1) show ?case
    using pool_step_measure [OF _ q(1)] pool_inv_step [OF _ q(1)] by fastforce
qed simp

section \<open>The two paths agree\<close>

lemma run_corners_omap:
  "run_corners (\<lambda>s c. (fn c, s)) cs s = (omap fn cs, s)"
proof (induction cs)
  case (Cons c cs)
  then show ?case by (cases "fn c"; cases "omap fn cs") simp_all
qed simp

lemma omap_nth: "omap (\<lambda>i. fn (cs ! i)) [0..<length cs] = omap fn cs"
proof -
  have "omap (\<lambda>i. fn (cs ! i)) xs = omap fn (map ((!) cs) xs)" for xs
    by (induction xs) simp_all
  then show ?thesis by (simp add: map_nth)
qed

definition fold_outcome ::
  "((string, fl) dict list, 'e) outcome \<Rightarrow> (box, 'e) outcome" where
  "fold_outcome r = (case r of Ok rs \<Rightarrow> hull_from_results rs | Err e \<Rightarrow> Err e | Raise x \<Rightarrow> Raise x)"

lemma serial_value:
  "fst (serial_corner_sweep b (\<lambda>s c. (fn c, s)) s) = fold_outcome (omap fn (enumerate_corners b))"
  by (auto simp: serial_corner_sweep_def run_corners_omap fold_outcome_def Let_def
      enumerate_corners_nonempty split: outcome.splits)

lemma parallel_value:
  assumes "parallel_corner_sweep b fn k events = Some v"
  shows "v = fold_outcome (omap fn (enumerate_corners b))"
proof (cases "k \<le> 1")
  case True
  then show ?thesis
    using assms serial_value [of b fn "()"]
    by (simp add: parallel_corner_sweep_def enumerate_corners_nonempty Let_def)
next
  case False
  let ?cs = "enumerate_corners b"
  let ?f = "\<lambda>i. fn (?cs ! i)"
  obtain p r where p: "run_pool (nat k) (length ?cs) ?f events (pool_init (length ?cs)) = Some p"
    "pl_returned p = Some r" "v = fold_outcome r"
    using assms False
    by (auto simp: parallel_corner_sweep_def enumerate_corners_nonempty Let_def fold_outcome_def
        split: option.splits outcome.splits if_splits)
  have "pool_inv (nat k) (length ?cs) ?f p"
    using pool_inv_run [OF pool_inv_init p(1)] .
  then show ?thesis using pool_returned_serial p(2,3) omap_nth by metis
qed

end
