(* ===== verification/Canon.thy ===== *)
theory Canon
  imports Quantity
begin

text \<open>
  The digest home (\<open>core.py\<close> \<open>_to_jsonable\<close>/\<open>canonical_digest\<close>,
  \<open>feldspar-core/src/digest.rs\<close>, \<open>solve/digest.py\<close>): Python values are lowered to JSON
  with every dict and set put in order, the Rust side stores objects in a \<open>BTreeMap\<close>,
  and the bytes are hashed. The serializer with the hash (serde_json, blake3) is the
  parameter \<open>H\<close> and \<open>json.dumps\<close> of \<open>_sort_key\<close> the parameter \<open>dumps\<close>: both are
  third-party code. The lemmas say that the order in which a dict or a set was filled
  does not reach the digest.
\<close>

section \<open>JSON values and Python values\<close>

datatype json =
    JNull
  | JBool bool
  | JInt int
  | JFloat fl
  | JStr string
  | JArr "json list"
  | JObj "(string \<times> json) list"

datatype pyobj =
    PyNone
  | PyBool bool
  | PyInt int
  | PyFloat fl
  | PyStr string
  | PySeq "pyobj list"
  | PySet "pyobj list"
  | PyMap "(string \<times> pyobj) list"
  | PyEnum string
  | PyInterval interval
  | PyAccuracy accuracy
  | PyDimension "int list"
  | PyRank rank
  | PyPortDecl port_decl
  | PyDomain domain
  | PyModel "(string \<times> pyobj) list"

definition json_opt_nat :: "nat option \<Rightarrow> json" where
  "json_opt_nat x = (case x of None \<Rightarrow> JNull | Some n \<Rightarrow> JInt (int n))"

definition json_opt_str :: "string option \<Rightarrow> json" where
  "json_opt_str x = (case x of None \<Rightarrow> JNull | Some s \<Rightarrow> JStr s)"

definition interval_json :: "interval \<Rightarrow> json" where
  "interval_json iv =
     JObj [(''lo'', JFloat (Fin (iv_lo iv))), (''hi'', JFloat (Fin (iv_hi iv)))]"

definition accuracy_json :: "accuracy \<Rightarrow> json" where
  "accuracy_json a =
     JObj [(''eps_abs'', JFloat (Fin (eps_abs a))), (''eps_rel'', JFloat (Fin (eps_rel a)))]"

definition rank_json :: "rank \<Rightarrow> json" where
  "rank_json r =
     JObj [(''kind'', JStr (rank_kind r)), (''n'', json_opt_nat (rank_n r)),
           (''m'', json_opt_nat (rank_m r)),
           (''payload_kind'', json_opt_str (rank_payload_kind r))]"

definition port_decl_json :: "port_decl \<Rightarrow> json" where
  "port_decl_json p =
     JObj [(''name'', JStr (pd_name p)), (''unit'', JStr (pd_unit p)),
           (''rank'', rank_json (pd_rank p))]"

definition domain_json :: "domain \<Rightarrow> json" where
  "domain_json d =
     JObj [(''box'', JObj (map (\<lambda>(k, v). (k, interval_json v)) (dsorted (d_box d)))),
           (''tags'', JArr (map JStr (sort (d_tags d))))]"

section \<open>Lowering\<close>

text \<open>
  A pydantic model arrives as its \<open>model_dump()\<close>, a dict of its fields. The elements of
  a set are lowered first and then sorted by their dumped text.
\<close>

primrec to_jsonable :: "(json \<Rightarrow> string) \<Rightarrow> pyobj \<Rightarrow> json" where
  "to_jsonable dumps PyNone = JNull"
| "to_jsonable dumps (PyBool b) = JBool b"
| "to_jsonable dumps (PyInt i) = JInt i"
| "to_jsonable dumps (PyFloat x) = JFloat x"
| "to_jsonable dumps (PyStr s) = JStr s"
| "to_jsonable dumps (PySeq xs) = JArr (map (to_jsonable dumps) xs)"
| "to_jsonable dumps (PySet xs) = JArr (sort_key dumps (map (to_jsonable dumps) xs))"
| "to_jsonable dumps (PyMap d) = JObj (dsorted (map (map_prod id (to_jsonable dumps)) d))"
| "to_jsonable dumps (PyEnum v) = JStr v"
| "to_jsonable dumps (PyInterval iv) = interval_json iv"
| "to_jsonable dumps (PyAccuracy a) = accuracy_json a"
| "to_jsonable dumps (PyDimension es) = JObj [(''exponents'', JArr (map JInt es))]"
| "to_jsonable dumps (PyRank r) = rank_json r"
| "to_jsonable dumps (PyPortDecl p) = port_decl_json p"
| "to_jsonable dumps (PyDomain d) = domain_json d"
| "to_jsonable dumps (PyModel d) = JObj (dsorted (map (map_prod id (to_jsonable dumps)) d))"

text \<open>The Rust side: objects are \<open>BTreeMap\<close>s at every level.\<close>

primrec canon_json :: "json \<Rightarrow> json" where
  "canon_json JNull = JNull"
| "canon_json (JBool b) = JBool b"
| "canon_json (JInt i) = JInt i"
| "canon_json (JFloat x) = JFloat x"
| "canon_json (JStr s) = JStr s"
| "canon_json (JArr xs) = JArr (map canon_json xs)"
| "canon_json (JObj d) = JObj (btree_of (map (map_prod id canon_json) d))"

definition rust_canonical_digest :: "(json \<Rightarrow> string) \<Rightarrow> json \<Rightarrow> string" where
  "rust_canonical_digest H j = H (canon_json j)"

definition canonical_digest :: "(json \<Rightarrow> string) \<Rightarrow> (json \<Rightarrow> string) \<Rightarrow> pyobj \<Rightarrow> string" where
  "canonical_digest H dumps obj = rust_canonical_digest H (to_jsonable dumps obj)"

text \<open>The settings closure of a solver digests like any other value.\<close>

definition settings_digest :: "(json \<Rightarrow> string) \<Rightarrow> (json \<Rightarrow> string) \<Rightarrow> pyobj \<Rightarrow> string" where
  "settings_digest H dumps settings = canonical_digest H dumps settings"

section \<open>Order independence\<close>

lemma dsorted_perm:
  assumes "dict_ok d" "set d = set e" "dict_ok e"
  shows "dsorted d = dsorted e"
proof (rule bt_ok_unique)
  show "bt_ok (dsorted d)" "bt_ok (dsorted e)" using assms by (simp_all add: bt_ok_dsorted)
  have "map_of d = map_of e"
    using assms by (simp add: map_of_inject_set dict_ok_def)
  then show "map_of (dsorted d) = map_of (dsorted e)"
    using assms by (simp add: map_of_dsorted)
qed

lemma dict_ok_map_prod [simp]: "dict_ok (map (map_prod id f) d) = dict_ok d"
  by (simp add: dict_ok_def comp_def)

lemma sort_key_map_perm:
  assumes "mset xs = mset ys" "inj_on k (set xs)"
  shows "sort_key k xs = sort_key k ys"
  by (rule sort_key_inj_key_eq) (use assms in simp_all)

lemma btree_of_perm:
  assumes "dict_ok d" "set d = set e" "dict_ok e"
  shows "btree_of d = btree_of e"
  by (rule bt_ok_unique)
    (use assms in \<open>simp_all add: map_of_btree_of_dict map_of_inject_set dict_ok_def\<close>)

text \<open>
  Two values with the same content: dicts that agree key by key whatever the order they
  were filled in, sets whose lowered elements are the same in any iteration order (and
  told apart by their dumped text), and so on down to any depth.
\<close>

inductive py_same :: "(json \<Rightarrow> string) \<Rightarrow> pyobj \<Rightarrow> pyobj \<Rightarrow> bool"
  for dumps :: "json \<Rightarrow> string" where
  py_same_refl: "py_same dumps x x"
| py_same_seq: "list_all2 (py_same dumps) xs ys \<Longrightarrow> py_same dumps (PySeq xs) (PySeq ys)"
| py_same_set:
    "\<lbrakk>list_all2 (py_same dumps) xs zs; mset zs = mset ys;
      inj_on dumps (to_jsonable dumps ` set zs)\<rbrakk>
     \<Longrightarrow> py_same dumps (PySet xs) (PySet ys)"
| py_same_map:
    "\<lbrakk>dict_ok d; dict_ok e; fst ` set d = fst ` set e;
      \<forall>k x y. map_of d k = Some x \<longrightarrow> map_of e k = Some y \<longrightarrow> py_same dumps x y\<rbrakk>
     \<Longrightarrow> py_same dumps (PyMap d) (PyMap e)"
| py_same_model:
    "\<lbrakk>dict_ok d; dict_ok e; fst ` set d = fst ` set e;
      \<forall>k x y. map_of d k = Some x \<longrightarrow> map_of e k = Some y \<longrightarrow> py_same dumps x y\<rbrakk>
     \<Longrightarrow> py_same dumps (PyModel d) (PyModel e)"

lemma dsorted_lower_eq:
  assumes ok: "dict_ok d" "dict_ok e" and keys: "fst ` set d = fst ` set e"
    and vals: "\<And>k x y. map_of d k = Some x \<Longrightarrow> map_of e k = Some y \<Longrightarrow> f x = f y"
  shows "dsorted (map (map_prod id f) d) = dsorted (map (map_prod id f) e)"
proof (rule bt_ok_unique)
  let ?d = "map (map_prod id f) d" and ?e = "map (map_prod id f) e"
  show "bt_ok (dsorted ?d)" "bt_ok (dsorted ?e)" using ok by (simp_all add: bt_ok_dsorted)
  have "map_of ?d k = map_of ?e k" for k
  proof (cases "map_of d k")
    case None
    then have "map_of e k = None" using keys by (simp add: map_of_eq_None_iff)
    with None show ?thesis by (simp add: map_of_map map_prod_def)
  next
    case (Some x)
    then have "map_of e k \<noteq> None" using keys by (metis map_of_eq_None_iff option.distinct(1))
    then obtain y where "map_of e k = Some y" by blast
    with Some vals show ?thesis by (simp add: map_of_map map_prod_def)
  qed
  then show "map_of (dsorted ?d) = map_of (dsorted ?e)"
    using ok by (simp add: map_of_dsorted fun_eq_iff)
qed

lemma py_same_lower: "py_same dumps x y \<Longrightarrow> to_jsonable dumps x = to_jsonable dumps y"
proof (induction rule: py_same.induct)
  case (py_same_seq xs ys)
  then show ?case by (auto simp: list_all2_conv_all_nth intro: nth_equalityI)
next
  case (py_same_set xs zs ys)
  have "map (to_jsonable dumps) xs = map (to_jsonable dumps) zs"
    using py_same_set(1) by (auto simp: list_all2_conv_all_nth intro: nth_equalityI)
  moreover have "sort_key dumps (map (to_jsonable dumps) zs) = sort_key dumps (map (to_jsonable dumps) ys)"
    by (rule sort_key_map_perm) (use py_same_set(2,3) in \<open>simp_all add: mset_map\<close>)
  ultimately show ?case by simp
next
  case (py_same_map d e)
  then show ?case by (auto intro!: dsorted_lower_eq)
next
  case (py_same_model d e)
  then show ?case by (auto intro!: dsorted_lower_eq)
qed simp

end
