(* ===== verification/Solve_Errors.thy ===== *)
theory Solve_Errors
  imports Quantity
begin

text \<open>
  The error unions: \<open>RegistryError\<close> and \<open>SolveError\<close> of \<open>solve/errors.py\<close>, \<open>PlanError\<close>
  of \<open>plan/errors.py\<close>, and \<open>AttemptRecord\<close> with \<open>error_to_record_fields\<close> of
  \<open>plan/execute.py\<close>. Each \<open>_TaggedError\<close> class is a datatype with one constructor per
  classmethod; \<open>kind\<close> is the classmethod's name and \<open>_fields\<close> its keyword arguments.
\<close>

section \<open>Registration errors\<close>

datatype registry_error =
    DuplicateSolverId string
  | PortUnitConflict string
  | PortRankConflict string
  | UnknownPort string
  | DuplicatePortDecl string
  | EmptyCitations string
  | NonPositiveCost string
  | AccuracyOutputMismatch string
  | Frozen
  | BadTable string
  | PayloadKindConflict string
  | UnknownPayloadKind string string
  | NonInvertible string string
  | MultiBranch string "string list"
  | UnboundablePredicate string
  | EmptyDomain string

section \<open>Attempt records\<close>

text \<open>The JSON-safe scalars an error field is lowered to.\<close>

datatype prim =
    PStr string
  | PInt int
  | PFloat fl
  | PNone

record attempt_record =
  ar_excluded :: "string list"
  ar_route_digest :: "string option"
  ar_failed_solver_id :: "string option"
  ar_error_kind :: string
  ar_error_detail :: "(string, prim) dict"

section \<open>Solve errors\<close>

text \<open>The two messages the executor puts into \<open>InvalidMeasurement\<close>, and any other text.\<close>

datatype measure_reason =
    MeasuredEps fl string
  | PayloadVaried string string
  | OtherReason string

text \<open>\<open>OutOfDomain\<close> carries a \<open>DomainViolation\<close> or, from most solver bodies, a text.\<close>

datatype violation = Violation py_domain_violation | ViolationText string

datatype solve_error =
    ToolMissing string string
  | ToolFailed string string
  | Timeout string fl
  | ParseFailed string
  | OutOfDomain violation
  | NonFinite string
  | OutputOutOfDomain string real real real real
  | MissingOutput string
  | InvalidMeasurement measure_reason
  | BudgetExceeded real fl
  | NoRouteRemaining "attempt_record list"
  | PayloadKindMismatch string string string
  | MissingPayload string
  | LadderExhausted fl "fl option" nat
  | NoConvergence int fl
  | DanglingDigest string

section \<open>Plan errors\<close>

datatype plan_error =
    InvalidBudget
  | UnknownTarget string
  | NoApplicableSolver
  | BudgetUnreachable real
  | CyclicPortEquivalence

section \<open>Kind and fields\<close>

definition solve_error_kind :: "solve_error \<Rightarrow> string" where
  "solve_error_kind e =
     (case e of
        ToolMissing _ _ \<Rightarrow> ''ToolMissing''
      | ToolFailed _ _ \<Rightarrow> ''ToolFailed''
      | Timeout _ _ \<Rightarrow> ''Timeout''
      | ParseFailed _ \<Rightarrow> ''ParseFailed''
      | OutOfDomain _ \<Rightarrow> ''OutOfDomain''
      | NonFinite _ \<Rightarrow> ''NonFinite''
      | OutputOutOfDomain _ _ _ _ _ \<Rightarrow> ''OutputOutOfDomain''
      | MissingOutput _ \<Rightarrow> ''MissingOutput''
      | InvalidMeasurement _ \<Rightarrow> ''InvalidMeasurement''
      | BudgetExceeded _ _ \<Rightarrow> ''BudgetExceeded''
      | NoRouteRemaining _ \<Rightarrow> ''NoRouteRemaining''
      | PayloadKindMismatch _ _ _ \<Rightarrow> ''PayloadKindMismatch''
      | MissingPayload _ \<Rightarrow> ''MissingPayload''
      | LadderExhausted _ _ _ \<Rightarrow> ''LadderExhausted''
      | NoConvergence _ _ \<Rightarrow> ''NoConvergence''
      | DanglingDigest _ \<Rightarrow> ''DanglingDigest'')"

text \<open>
  The \<open>_fields\<close> dict. A value that is not a JSON scalar is \<open>Inr\<close> of the whole error;
  \<open>error_to_record_fields\<close> renders it with \<open>repr\<close>, a parameter here because the text
  depends on Python's float formatting.
\<close>

definition opt_float :: "fl option \<Rightarrow> prim" where
  "opt_float x = (case x of None \<Rightarrow> PNone | Some v \<Rightarrow> PFloat v)"

definition solve_error_fields :: "solve_error \<Rightarrow> (string \<times> (prim + solve_error)) list" where
  "solve_error_fields e =
     (case e of
        ToolMissing tool guidance \<Rightarrow>
          [(''tool'', Inl (PStr tool)), (''guidance'', Inl (PStr guidance))]
      | ToolFailed tool log_tail \<Rightarrow>
          [(''tool'', Inl (PStr tool)), (''log_tail'', Inl (PStr log_tail))]
      | Timeout tool seconds \<Rightarrow>
          [(''tool'', Inl (PStr tool)), (''seconds'', Inl (PFloat seconds))]
      | ParseFailed ctxt \<Rightarrow> [(''context'', Inl (PStr ctxt))]
      | OutOfDomain v \<Rightarrow>
          [(''violation'', case v of ViolationText s \<Rightarrow> Inl (PStr s) | Violation _ \<Rightarrow> Inr e)]
      | NonFinite port \<Rightarrow> [(''port'', Inl (PStr port))]
      | OutputOutOfDomain port lo hi blo bhi \<Rightarrow>
          [(''port'', Inl (PStr port)), (''lo'', Inl (PFloat (Fin lo))),
           (''hi'', Inl (PFloat (Fin hi))), (''box_lo'', Inl (PFloat (Fin blo))),
           (''box_hi'', Inl (PFloat (Fin bhi)))]
      | MissingOutput port \<Rightarrow> [(''port'', Inl (PStr port))]
      | InvalidMeasurement _ \<Rightarrow> [(''reason'', Inr e)]
      | BudgetExceeded realized budget \<Rightarrow>
          [(''realized'', Inl (PFloat (Fin realized))), (''budget'', Inl (PFloat budget))]
      | NoRouteRemaining _ \<Rightarrow> [(''attempts'', Inr e)]
      | PayloadKindMismatch port expected actual \<Rightarrow>
          [(''port'', Inl (PStr port)), (''expected_kind'', Inl (PStr expected)),
           (''actual_kind'', Inl (PStr actual))]
      | MissingPayload port \<Rightarrow> [(''port'', Inl (PStr port))]
      | LadderExhausted best budget rungs \<Rightarrow>
          [(''best_eps'', Inl (PFloat best)), (''budget'', Inl (opt_float budget)),
           (''rungs_tried'', Inl (PInt (int rungs)))]
      | NoConvergence iterations residual \<Rightarrow>
          [(''iterations'', Inl (PInt iterations)), (''residual'', Inl (PFloat residual))]
      | DanglingDigest dig \<Rightarrow> [(''digest'', Inl (PStr dig))])"

definition solve_error_record :: 
  "(solve_error \<Rightarrow> string) \<Rightarrow> solve_error \<Rightarrow> string \<times> (string, prim) dict" where
  "solve_error_record repr e =
     (solve_error_kind e,
      map (\<lambda>(k, v). (k, case v of Inl p \<Rightarrow> p | Inr obj \<Rightarrow> PStr (repr obj)))
        (solve_error_fields e))"

definition plan_error_record :: "plan_error \<Rightarrow> string \<times> (string, prim) dict" where
  "plan_error_record e =
     (case e of
        InvalidBudget \<Rightarrow> (''InvalidBudget'', [])
      | UnknownTarget target \<Rightarrow> (''UnknownTarget'', [(''target'', PStr target)])
      | NoApplicableSolver \<Rightarrow> (''NoApplicableSolver'', [])
      | BudgetUnreachable best \<Rightarrow>
          (''BudgetUnreachable'', [(''best_eps'', PFloat (Fin best))])
      | CyclicPortEquivalence \<Rightarrow> (''CyclicPortEquivalence'', []))"

lemma solve_error_record_kind [simp]: "fst (solve_error_record repr e) = solve_error_kind e"
  by (simp add: solve_error_record_def)

end
