(* ===== verification/Payloads.thy ===== *)
theory Payloads
  imports Solve_Errors
begin

text \<open>
  Payload references (\<open>solve/payload.py\<close>): the kind vocabulary, the validated constructor
  of \<open>PayloadRef\<close> and the violation value of a payload-feature check. A payload value is
  exact by reference; its digest is its identity.
\<close>

definition PAYLOAD_KINDS :: "string list" where
  "PAYLOAD_KINDS =
     [''geometry.parametric'', ''geometry.realized'', ''layout.realized'', ''mesh'',
      ''table'', ''spectrum'', ''profile'', ''mask'', ''field'', ''flownet'', ''plan'',
      ''frame'']"

record payload_ref =
  pr_kind :: string
  pr_digest :: string
  pr_origin :: string

definition payload_ref_new :: "string \<Rightarrow> string \<Rightarrow> string \<Rightarrow> (payload_ref, 'e) outcome" where
  "payload_ref_new kind dig origin =
     (if kind \<notin> set PAYLOAD_KINDS then Raise ValueError
      else Ok \<lparr>pr_kind = kind, pr_digest = dig, pr_origin = origin\<rparr>)"

definition payload_ref_ok :: "payload_ref \<Rightarrow> bool" where
  "payload_ref_ok r \<longleftrightarrow> pr_kind r \<in> set PAYLOAD_KINDS"

definition payload_feature_violation :: "string \<Rightarrow> string \<Rightarrow> py_domain_violation" where
  "payload_feature_violation port feature =
     \<lparr>dv_kind = ''PayloadFeature'', dv_port = Some port, dv_tag = Some feature,
      dv_lo = None, dv_hi = None, dv_box_lo = None, dv_box_hi = None\<rparr>"

lemma payload_ref_new_Ok: "payload_ref_new k d r = Ok p \<Longrightarrow> payload_ref_ok p"
  by (auto simp: payload_ref_new_def payload_ref_ok_def split: if_splits)

lemma payload_ref_new_fields:
  "payload_ref_ok p \<Longrightarrow> payload_ref_new (pr_kind p) (pr_digest p) (pr_origin p) = Ok p"
  by (simp add: payload_ref_new_def payload_ref_ok_def)

text \<open>A payload-feature violation is never mistaken for one of the box checks.\<close>

lemma payload_feature_violation_fresh:
  "payload_feature_violation port feature \<noteq> domain_violation_from_exc v"
  by (cases v) (simp_all add: payload_feature_violation_def domain_violation_from_exc_def)

end
