(* ===== verification/Seeking.thy ===== *)
theory Seeking
  imports Feldspar_Prelude
begin

text \<open>
  Cost curves (\<open>solve/seeking.py\<close>): sampled \<open>(eps, cost)\<close> points of a budget-seeking
  solver with their validators, and \<open>cost_for_budget\<close>, the cost of the loosest point that
  fits a budget. The validators order the points by \<open>eps\<close> only; the lookup is
  non-increasing in the budget when the costs fall as \<open>eps\<close> grows, and need not be
  otherwise.
\<close>

record cost_point =
  cp_eps :: fl
  cp_cost :: fl

type_synonym cost_curve = "cost_point list"

definition cost_point_new :: "fl \<Rightarrow> fl \<Rightarrow> (cost_point, 'e) outcome" where
  "cost_point_new eps cost =
     (if fl_lt eps (Fin 0) then Raise ValueError
      else if fl_le cost (Fin 0) then Raise ValueError
      else Ok \<lparr>cp_eps = eps, cp_cost = cost\<rparr>)"

text \<open>\<open>epses == sorted(epses)\<close>: the list is already one ascending run.\<close>

fun ascending_run :: "fl list \<Rightarrow> bool" where
  "ascending_run (a # b # xs) = (\<not> fl_lt b a \<and> ascending_run (b # xs))"
| "ascending_run _ = True"

definition cost_curve_new :: "cost_point list \<Rightarrow> (cost_curve, 'e) outcome" where
  "cost_curve_new points =
     (if points = [] then Raise ValueError
      else if \<not> ascending_run (map cp_eps points) then Raise ValueError
      else Ok points)"

definition cost_curve_scalar :: "fl \<Rightarrow> (cost_curve, 'e) outcome" where
  "cost_curve_scalar cost =
     obind (cost_point_new (Fin 0) cost) (\<lambda>p. cost_curve_new [p])"

text \<open>\<open>max(xs, key=...)\<close> and \<open>min(xs, key=...)\<close> keep the first of equal keys.\<close>

fun max_by :: "('a \<Rightarrow> fl) \<Rightarrow> 'a \<Rightarrow> 'a list \<Rightarrow> 'a" where
  "max_by f m [] = m"
| "max_by f m (x # xs) = max_by f (if fl_lt (f m) (f x) then x else m) xs"

fun min_by :: "('a \<Rightarrow> fl) \<Rightarrow> 'a \<Rightarrow> 'a list \<Rightarrow> 'a" where
  "min_by f m [] = m"
| "min_by f m (x # xs) = min_by f (if fl_lt (f x) (f m) then x else m) xs"

definition cost_for_budget :: "cost_curve \<Rightarrow> fl \<Rightarrow> (fl, 'e) outcome" where
  "cost_for_budget points eps_budget =
     (case filter (\<lambda>p. fl_le (cp_eps p) eps_budget) points of
        p # ps \<Rightarrow> Ok (cp_cost (max_by cp_eps p ps))
      | [] \<Rightarrow> (case points of
                 p # ps \<Rightarrow> Ok (cp_cost (min_by cp_eps p ps))
               | [] \<Rightarrow> Raise ValueError))"

definition curve_valid :: "cost_curve \<Rightarrow> bool" where
  "curve_valid points \<longleftrightarrow>
     points \<noteq> [] \<and> sorted_wrt (\<lambda>p q. fl_le (cp_eps p) (cp_eps q)) points \<and>
     (\<forall>p \<in> set points. cp_eps p \<noteq> NaN \<and> cp_cost p \<noteq> NaN)"

text \<open>The costs a real ladder pays: a finer point never costs less.\<close>

definition costs_fall :: "cost_curve \<Rightarrow> bool" where
  "costs_fall points \<longleftrightarrow> sorted_wrt (\<lambda>p q. fl_le (cp_cost q) (cp_cost p)) points"

lemma max_by_in: "max_by f m xs \<in> set (m # xs)"
  by (induction f m xs rule: max_by.induct) auto

lemma min_by_in: "min_by f m xs \<in> set (m # xs)"
  by (induction f m xs rule: min_by.induct) auto

lemma max_by_upper:
  "(\<forall>x \<in> set (m # xs). f x \<noteq> NaN) \<Longrightarrow> x \<in> set (m # xs) \<Longrightarrow> fl_le (f x) (f (max_by f m xs))"
proof (induction f m xs arbitrary: x rule: max_by.induct)
  case (1 f m)
  then show ?case by simp
next
  case (2 f m y ys)
  let ?m = "if fl_lt (f m) (f y) then y else m"
  have ub: "fl_le (f z) (f (max_by f ?m ys))" if "z \<in> set (?m # ys)" for z
    using 2 that by auto
  have "fl_le (f m) (f ?m)" "fl_le (f y) (f ?m)"
    using 2 by (auto simp: fl_lt_le fl_not_lt)
  with ub 2 show ?case
    by (metis fl_le_trans list.set_intros(1) max_by.simps(2) set_ConsD list.set_intros(2))
qed

lemma min_by_lower:
  "(\<forall>x \<in> set (m # xs). f x \<noteq> NaN) \<Longrightarrow> x \<in> set (m # xs) \<Longrightarrow> fl_le (f (min_by f m xs)) (f x)"
proof (induction f m xs arbitrary: x rule: min_by.induct)
  case (1 f m)
  then show ?case by simp
next
  case (2 f m y ys)
  let ?m = "if fl_lt (f y) (f m) then y else m"
  have lb: "fl_le (f (min_by f ?m ys)) (f z)" if "z \<in> set (?m # ys)" for z
    using 2 that by auto
  have "fl_le (f ?m) (f m)" "fl_le (f ?m) (f y)"
    using 2 by (auto simp: fl_lt_le fl_not_lt)
  with lb 2 show ?case
    by (metis fl_le_trans list.set_intros(1) min_by.simps(2) set_ConsD list.set_intros(2))
qed

lemma curve_valid_pair:
  "curve_valid pts \<Longrightarrow> costs_fall pts \<Longrightarrow> p \<in> set pts \<Longrightarrow> q \<in> set pts \<Longrightarrow>
   fl_lt (cp_eps p) (cp_eps q) \<Longrightarrow> fl_le (cp_cost q) (cp_cost p)"
proof -
  assume a: "curve_valid pts" "costs_fall pts" "p \<in> set pts" "q \<in> set pts"
    "fl_lt (cp_eps p) (cp_eps q)"
  then obtain i j where ij: "i < length pts" "j < length pts" "pts ! i = p" "pts ! j = q"
    by (metis in_set_conv_nth)
  have "\<not> j < i"
  proof
    assume "j < i"
    then have "fl_le (cp_eps q) (cp_eps p)"
      using a(1) ij by (auto simp: curve_valid_def sorted_wrt_iff_nth_less)
    with a show False by (metis curve_valid_def fl_not_lt)
  qed
  moreover have "i \<noteq> j" using a(5) ij by (cases "cp_eps p") auto
  ultimately have "i < j" by simp
  with a(2) ij show ?thesis by (auto simp: costs_fall_def sorted_wrt_iff_nth_less)
qed

end
