(* ===== verification/Symbolic.thy ===== *)
theory Symbolic
  imports Feldspar_Prelude
begin

text \<open>
  The expression tree of declared laws (\<open>Expr\<close> and \<open>UnaryFn\<close> of
  \<open>crates/feldspar-core/src/symbolic.rs\<close>). Solver records carry the two sides of the law
  they were derived from.
\<close>

datatype unary_fn = USqrt | USin | UCos | UExp | ULn

datatype expr =
    EVar string
  | ELit fl
  | ENeg expr
  | EAdd "expr list"
  | EMul "expr list"
  | EPow expr expr
  | EUnary unary_fn expr

end
