(* ===== verification/Py_Strings.thy ===== *)
theory Py_Strings
  imports Feldspar_Prelude
begin

text \<open>
  The methods of Python's \<open>str\<close> that the solver layer uses, on byte strings: \<open>lower\<close>,
  \<open>strip\<close>, \<open>startswith\<close>, \<open>partition\<close>, the \<open>in\<close> test, \<open>lstrip('_')\<close> and
  \<open>rsplit('.', 1)[-1]\<close>. Case mapping and white space are the ASCII ones.
\<close>

definition lower_char :: "char \<Rightarrow> char" where
  "lower_char c =
     (let n = (of_char c :: nat) in if 65 \<le> n \<and> n \<le> 90 then char_of (n + 32) else c)"

definition str_lower :: "string \<Rightarrow> string" where
  "str_lower s = map lower_char s"

definition is_space :: "char \<Rightarrow> bool" where
  "is_space c =
     (let n = (of_char c :: nat) in n = 32 \<or> (9 \<le> n \<and> n \<le> 13) \<or> (28 \<le> n \<and> n \<le> 31))"

definition str_strip :: "string \<Rightarrow> string" where
  "str_strip s = rev (dropWhile is_space (rev (dropWhile is_space s)))"

definition str_lstrip_char :: "char \<Rightarrow> string \<Rightarrow> string" where
  "str_lstrip_char c s = dropWhile (\<lambda>d. d = c) s"

definition starts_with :: "string \<Rightarrow> string \<Rightarrow> bool" where
  "starts_with s p = prefix p s"

fun str_in :: "string \<Rightarrow> string \<Rightarrow> bool" where
  "str_in w [] = (w = [])"
| "str_in w (c # t) = (prefix w (c # t) \<or> str_in w t)"

text \<open>\<open>s.partition(sep)\<close>: the text before the first \<open>sep\<close>, whether it was found, the rest.\<close>

fun str_partition :: "string \<Rightarrow> string \<Rightarrow> string \<times> bool \<times> string" where
  "str_partition sep [] = (if sep = [] then ([], True, []) else ([], False, []))"
| "str_partition sep (c # t) =
     (if prefix sep (c # t) then ([], True, drop (length sep) (c # t))
      else (case str_partition sep t of (a, found, b) \<Rightarrow> (c # a, found, b)))"

text \<open>\<open>s.rsplit('.', 1)[-1]\<close>: what follows the last dot, or all of \<open>s\<close>.\<close>

definition last_segment :: "char \<Rightarrow> string \<Rightarrow> string" where
  "last_segment c s = rev (takeWhile (\<lambda>d. d \<noteq> c) (rev s))"

lemma str_in_iff_sublist: "str_in w t \<longleftrightarrow> sublist w t"
  by (induction w t rule: str_in.induct) (auto simp: sublist_Cons_right)

lemma str_in_iff_append: "str_in w t \<longleftrightarrow> (\<exists>a b. t = a @ w @ b)"
  by (simp add: str_in_iff_sublist sublist_def)

lemma starts_with_iff: "starts_with s p \<longleftrightarrow> (\<exists>t. s = p @ t)"
  by (simp add: starts_with_def prefix_def)

lemma str_partition_found:
  "str_partition sep s = (a, True, b) \<Longrightarrow> s = a @ sep @ b"
proof (induction sep s arbitrary: a rule: str_partition.induct)
  case (1 sep)
  then show ?case by (auto split: if_splits)
next
  case (2 sep c t)
  then show ?case
    by (cases "prefix sep (c # t)")
      (auto simp: prefix_def split: prod.splits)
qed

lemma str_partition_not_found:
  "str_partition sep s = (a, False, b) \<Longrightarrow> a = s \<and> b = []"
proof (induction sep s arbitrary: a rule: str_partition.induct)
  case (2 sep c t)
  then show ?case
    by (cases "prefix sep (c # t)") (auto split: prod.splits)
qed (auto split: if_splits)

lemma str_partition_first:
  "c \<notin> set a \<Longrightarrow> str_partition (c # sep) (a @ (c # sep) @ b) = (a, True, b)"
  by (induction a) auto

lemma str_partition_absent:
  "c \<notin> set a \<Longrightarrow> str_partition (c # sep) a = (a, False, [])"
  by (induction a) auto

lemma str_partition_sep:
  assumes "sep \<noteq> []"
  shows "\<not> sublist sep (a @ butlast sep) \<Longrightarrow> str_partition sep (a @ sep @ b) = (a, True, b)"
proof (induction a)
  case Nil
  from assms obtain c s where sep: "sep = c # s" by (cases sep) auto
  have "str_partition (c # s) (c # (s @ b)) = ([], True, b)"
    by (simp only: str_partition.simps) simp
  then show ?case by (simp add: sep)
next
  case (Cons c a)
  have "\<not> prefix sep (c # a @ sep @ b)"
  proof
    assume "prefix sep (c # a @ sep @ b)"
    then have "take (length sep) (c # a @ sep @ b) = sep" by (auto simp: prefix_def)
    moreover have "sep = butlast sep @ [last sep]" using assms by simp
    then have "c # a @ sep @ b = (c # a @ butlast sep) @ last sep # b"
      by (metis append.assoc append_Cons append_Nil)
    moreover have "length sep \<le> length (c # a @ butlast sep)" by simp
    ultimately have "take (length sep) (c # a @ butlast sep) = sep"
      by (simp only: take_append) simp
    then have "sublist sep (c # a @ butlast sep)"
      by (metis prefix_imp_sublist take_is_prefix)
    with Cons.prems show False by simp
  qed
  moreover have "\<not> sublist sep (a @ butlast sep)"
    using Cons.prems by (auto simp: sublist_Cons_right)
  ultimately show ?case using Cons.IH by simp
qed

lemma str_strip_id:
  "s = [] \<or> (\<not> is_space (hd s) \<and> \<not> is_space (last s)) \<Longrightarrow> str_strip s = s"
proof -
  assume a: "s = [] \<or> (\<not> is_space (hd s) \<and> \<not> is_space (last s))"
  show ?thesis
  proof (cases "s = []")
    case False
    with a have "dropWhile is_space s = s" by (cases s) auto
    moreover from False a have "dropWhile is_space (rev s) = rev s"
      by (cases "rev s") (auto simp: last_rev hd_rev)
    ultimately show ?thesis by (simp add: str_strip_def)
  qed (simp add: str_strip_def)
qed

end
