(* ===== verification/Solve_Models.thy ===== *)
theory Solve_Models
  imports Canon Payloads Seeking Symbolic Py_Strings
begin

text \<open>
  The data model of the solver layer (\<open>solve/_models.py\<close>): citations, claim senses,
  \<open>SolverInfo\<close> and \<open>SolveOutput\<close>, and the \<open>SolveFn\<close> protocol of \<open>solve/_build.py\<close>. A
  solver function is a record of what the code can observe of it: what a call returns,
  whether it is tagged \<open>eps_seeking\<close>, and what its \<open>probe_tools\<close> attribute answers when
  it has one.
\<close>

section \<open>Citations and claim senses\<close>

definition CITATION_KINDS :: "string list" where
  "CITATION_KINDS = [''paper'', ''handbook'', ''standard'', ''calibration'']"

record citation =
  ct_kind :: string
  ct_ref :: string
  ct_note :: string

text \<open>The \<open>Literal\<close> type of \<open>kind\<close> is validated when the model is constructed.\<close>

definition citation_new :: "string \<Rightarrow> string \<Rightarrow> string \<Rightarrow> (citation, 'e) outcome" where
  "citation_new kind ref note =
     (if kind \<notin> set CITATION_KINDS then Raise ValueError
      else Ok \<lparr>ct_kind = kind, ct_ref = ref, ct_note = note\<rparr>)"

datatype claim_senses = UPPER | LOWER | BOTH

datatype senses_arg = SenseObj claim_senses | SenseStr string

definition claim_senses_value :: "claim_senses \<Rightarrow> string" where
  "claim_senses_value c =
     (case c of UPPER \<Rightarrow> ''upper'' | LOWER \<Rightarrow> ''lower'' | BOTH \<Rightarrow> ''both'')"

definition claim_senses_coerce :: "senses_arg \<Rightarrow> (claim_senses, 'e) outcome" where
  "claim_senses_coerce value =
     (case value of
        SenseObj c \<Rightarrow> Ok c
      | SenseStr s \<Rightarrow>
          (let l = str_lower s in
           if l = ''upper'' then Ok UPPER
           else if l = ''lower'' then Ok LOWER
           else if l = ''both'' then Ok BOTH
           else Raise ValueError))"

section \<open>Solver metadata\<close>

definition TIERS :: "string list" where
  "TIERS = [''table'', ''closed_form'', ''reduced'', ''discretized'', ''coupled'']"

record solver_info =
  si_solver_id :: string
  si_namespace :: string
  si_version :: string
  si_inputs :: "string list"
  si_outputs :: "string list"
  si_domain :: domain
  si_cost :: fl
  si_accuracy :: "(string, accuracy) dict"
  si_citations :: "citation list"
  si_tier :: string
  si_deterministic :: bool
  si_corner_monotone :: bool
  si_conservative_for :: claim_senses
  si_settings_digest :: string
  si_eps_seeking :: bool
  si_cost_curve :: "cost_curve option"
  si_algebraic_form :: "string option"
  si_solved_for :: "string option"
  si_branch :: "string option"
  si_admission_predicate :: "string option"
  si_derivation_digest :: "string option"
  si_law_lhs :: "expr option"
  si_law_rhs :: "expr option"

definition solver_info_new :: "solver_info \<Rightarrow> (solver_info, 'e) outcome" where
  "solver_info_new info = (if si_tier info \<in> set TIERS then Ok info else Raise ValueError)"

text \<open>\<open>model_dump()\<close>: nested models become dicts, the \<open>exclude=True\<close> fields are dropped.\<close>

definition citation_dump :: "citation \<Rightarrow> pyobj" where
  "citation_dump c =
     PyMap [(''kind'', PyStr (ct_kind c)), (''ref'', PyStr (ct_ref c)),
            (''note'', PyStr (ct_note c))]"

definition cost_curve_dump :: "cost_curve option \<Rightarrow> pyobj" where
  "cost_curve_dump c =
     (case c of
        None \<Rightarrow> PyNone
      | Some points \<Rightarrow>
          PyMap [(''points'',
                  PySeq (map (\<lambda>p. PyMap [(''eps'', PyFloat (cp_eps p)),
                                         (''cost'', PyFloat (cp_cost p))]) points))])"

definition solver_info_dump :: "solver_info \<Rightarrow> pyobj" where
  "solver_info_dump i =
     PyModel
       [(''solver_id'', PyStr (si_solver_id i)),
        (''namespace'', PyStr (si_namespace i)),
        (''version'', PyStr (si_version i)),
        (''inputs'', PySeq (map PyStr (si_inputs i))),
        (''outputs'', PySeq (map PyStr (si_outputs i))),
        (''domain'', PyDomain (si_domain i)),
        (''cost'', PyFloat (si_cost i)),
        (''accuracy'', PyMap (map (\<lambda>(p, a). (p, PyAccuracy a)) (si_accuracy i))),
        (''citations'', PySeq (map citation_dump (si_citations i))),
        (''tier'', PyStr (si_tier i)),
        (''deterministic'', PyBool (si_deterministic i)),
        (''corner_monotone'', PyBool (si_corner_monotone i)),
        (''conservative_for'', PyEnum (claim_senses_value (si_conservative_for i))),
        (''settings_digest'', PyStr (si_settings_digest i)),
        (''eps_seeking'', PyBool (si_eps_seeking i)),
        (''cost_curve'', cost_curve_dump (si_cost_curve i))]"

section \<open>Solver outputs and solver functions\<close>

record solve_output =
  so_values :: "(string, fl) dict"
  so_measured_eps :: "fl option"
  so_payloads :: "(string, payload_ref) dict"

text \<open>A corner mapping holds numbers for scalar ports and references for payload ports.\<close>

datatype inval = VFloat fl | VRef payload_ref

type_synonym inputs = "(string, inval) dict"

record solve_fn =
  sf_call :: "inputs \<Rightarrow> fl option \<Rightarrow> (solve_output, solve_error) outcome"
  sf_eps_seeking :: bool
  sf_probe_tools :: "(unit, solve_error) outcome option"

type_synonym solver_pair = "solver_info \<times> solve_fn"

lemma claim_senses_roundtrip:
  "claim_senses_coerce (SenseStr (claim_senses_value c)) = Ok c"
  by (cases c)
    (simp_all add: claim_senses_coerce_def claim_senses_value_def str_lower_def lower_char_def
      Let_def)

lemma citation_new_Ok: "citation_new k r n = Ok c \<Longrightarrow> ct_kind c \<in> set CITATION_KINDS"
  by (auto simp: citation_new_def split: if_splits)

end
