(* ===== verification/Lowering.thy ===== *)
theory Lowering
  imports Solve_Models
begin

text \<open>
  The one lowering path from author-facing arguments to a registered pair
  (\<open>solve/_build.py\<close> and the \<open>@solver\<close> decorator of \<open>solve/solver.py\<close>): the coercions of
  domains, citations and accuracies, the return normalisation \<open>wrap_solve_fn\<close>, the single
  call site \<open>invoke_solve_fn\<close> and \<open>build_solver_info_and_fn\<close>.
\<close>

section \<open>Coercions\<close>

datatype bound = BInterval interval | BPair fl fl

datatype domain_arg = DomObj domain | DomDict "(string, bound) dict"

definition coerce_bound :: "bound \<Rightarrow> (interval, 'e) outcome" where
  "coerce_bound bnd = (case bnd of BInterval iv \<Rightarrow> Ok iv | BPair lo hi \<Rightarrow> py_interval lo hi)"

definition coerce_domain :: "domain_arg \<Rightarrow> string list \<Rightarrow> (domain, 'e) outcome" where
  "coerce_domain arg tags =
     (case arg of
        DomObj d \<Rightarrow> Ok d
      | DomDict d \<Rightarrow>
          obind (omap (\<lambda>(port, bnd). obind (coerce_bound bnd) (\<lambda>iv. Ok (port, iv))) d)
            (\<lambda>box. Ok (domain_new box tags)))"

datatype citation_arg = CitObj citation | CitStr string

definition coerce_citation :: "citation_arg \<Rightarrow> (citation, 'e) outcome" where
  "coerce_citation item =
     (case item of
        CitObj c \<Rightarrow> Ok c
      | CitStr s \<Rightarrow>
          (case str_partition '': '' s of
             (kind, sep, rest) \<Rightarrow>
               (if \<not> sep then Raise ValueError
                else (case str_partition '' -- '' rest of
                        (ref, _, note) \<Rightarrow>
                          citation_new (str_strip kind) (str_strip ref) (str_strip note)))))"

definition coerce_citations :: "citation_arg list \<Rightarrow> (citation list, 'e) outcome" where
  "coerce_citations items = omap coerce_citation items"

datatype accuracy_arg = AccOne accuracy | AccMap "(string, accuracy) dict"

definition coerce_accuracy :: "accuracy_arg \<Rightarrow> string list \<Rightarrow> (string, accuracy) dict" where
  "coerce_accuracy arg outputs =
     (case arg of
        AccOne a \<Rightarrow> dict_of (map (\<lambda>p. (p, a)) outputs)
      | AccMap m \<Rightarrow> m)"

section \<open>Return normalisation\<close>

text \<open>
  What an author's function may hand back: a plain value, a \<open>Result\<close> of one, or an
  exception. A Python \<open>bool\<close> and anything else is \<open>RVOther\<close>. Its second argument is
  present only when it is called with two arguments.
\<close>

datatype raw_value =
    RVOutput solve_output
  | RVMap "(string, fl) dict"
  | RVNumber fl
  | RVOther

datatype raw_return =
    RetBare raw_value
  | RetOk raw_value
  | RetErr solve_error
  | RetRaise exn

type_synonym raw_fn = "inputs \<Rightarrow> fl option option \<Rightarrow> raw_return"

definition plain_output :: "(string, fl) dict \<Rightarrow> solve_output" where
  "plain_output vs = \<lparr>so_values = vs, so_measured_eps = None, so_payloads = []\<rparr>"

definition normalize_raw ::
  "string list \<Rightarrow> raw_value \<Rightarrow> (solve_output, solve_error) outcome" where
  "normalize_raw outputs raw =
     (case raw of
        RVOutput out \<Rightarrow> Ok out
      | RVMap m \<Rightarrow> Ok (plain_output m)
      | RVNumber v \<Rightarrow>
          (case outputs of
             [single_output] \<Rightarrow> Ok (plain_output [(single_output, v)])
           | _ \<Rightarrow> Raise TypeError)
      | RVOther \<Rightarrow> Raise TypeError)"

definition wrap_solve_fn :: "raw_fn \<Rightarrow> string list \<Rightarrow> bool \<Rightarrow> solve_fn" where
  "wrap_solve_fn raw_fn outputs eps_seeking =
     \<lparr>sf_call = (\<lambda>x eps_budget.
        (case raw_fn x (if eps_seeking then Some eps_budget else None) of
           RetErr e \<Rightarrow> Err e
         | RetRaise ex \<Rightarrow> Raise ex
         | RetOk raw \<Rightarrow> normalize_raw outputs raw
         | RetBare raw \<Rightarrow> normalize_raw outputs raw)),
      sf_eps_seeking = eps_seeking,
      sf_probe_tools = None\<rparr>"

definition invoke_solve_fn ::
  "solve_fn \<Rightarrow> inputs \<Rightarrow> fl option \<Rightarrow> (solve_output, solve_error) outcome" where
  "invoke_solve_fn fn x eps_budget =
     (if sf_eps_seeking fn then sf_call fn x eps_budget else sf_call fn x None)"

section \<open>Building a direction\<close>

text \<open>The keyword arguments of \<open>build_solver_info_and_fn\<close>.\<close>

record build_args =
  ba_solver_id :: string
  ba_namespace :: string
  ba_inputs :: "string list"
  ba_outputs :: "string list"
  ba_domain :: domain_arg
  ba_cost :: fl
  ba_accuracy :: accuracy_arg
  ba_citations :: "citation_arg list"
  ba_version :: string
  ba_tier :: string
  ba_settings :: pyobj
  ba_deterministic :: bool
  ba_corner_monotone :: bool
  ba_conservative_for :: senses_arg
  ba_tags :: "string list"
  ba_raw_fn :: raw_fn
  ba_algebraic_form :: "string option"
  ba_solved_for :: "string option"
  ba_branch :: "string option"
  ba_admission_predicate :: "string option"
  ba_derivation_digest :: "string option"
  ba_law_lhs :: "expr option"
  ba_law_rhs :: "expr option"
  ba_eps_seeking :: bool
  ba_cost_curve :: "cost_curve option"

definition build_solver_info_and_fn ::
  "(json \<Rightarrow> string) \<Rightarrow> (json \<Rightarrow> string) \<Rightarrow> build_args \<Rightarrow> (solver_pair, 'e) outcome" where
  "build_solver_info_and_fn H dumps a =
     obind (coerce_domain (ba_domain a) (ba_tags a)) (\<lambda>domain_obj.
     obind (coerce_citations (ba_citations a)) (\<lambda>citations_tuple.
     obind (claim_senses_coerce (ba_conservative_for a)) (\<lambda>conservative.
     obind (solver_info_new
       \<lparr>si_solver_id = ba_solver_id a,
        si_namespace = ba_namespace a,
        si_version = ba_version a,
        si_inputs = ba_inputs a,
        si_outputs = ba_outputs a,
        si_domain = domain_obj,
        si_cost = ba_cost a,
        si_accuracy = coerce_accuracy (ba_accuracy a) (ba_outputs a),
        si_citations = citations_tuple,
        si_tier = ba_tier a,
        si_deterministic = ba_deterministic a,
        si_corner_monotone = ba_corner_monotone a,
        si_conservative_for = conservative,
        si_settings_digest = settings_digest H dumps (ba_settings a),
        si_eps_seeking = ba_eps_seeking a,
        si_cost_curve = ba_cost_curve a,
        si_algebraic_form = ba_algebraic_form a,
        si_solved_for = ba_solved_for a,
        si_branch = ba_branch a,
        si_admission_predicate = ba_admission_predicate a,
        si_derivation_digest = ba_derivation_digest a,
        si_law_lhs = ba_law_lhs a,
        si_law_rhs = ba_law_rhs a\<rparr>) (\<lambda>info.
     Ok (info, wrap_solve_fn (ba_raw_fn a) (ba_outputs a) (ba_eps_seeking a))))))"

text \<open>The id the decorator gives: namespace, function name and an optional suffix.\<close>

definition solver_decorator_id :: "string \<Rightarrow> string \<Rightarrow> string option \<Rightarrow> string" where
  "solver_decorator_id namespace fn_name id_suffix =
     (let solver_id = namespace @ ''.'' @ fn_name in
      case id_suffix of
        None \<Rightarrow> solver_id
      | Some s \<Rightarrow> if s = [] then solver_id else solver_id @ ''.'' @ s)"

definition solver_decorator ::
  "(json \<Rightarrow> string) \<Rightarrow> (json \<Rightarrow> string) \<Rightarrow> build_args \<Rightarrow> string \<Rightarrow> string option \<Rightarrow> raw_fn
   \<Rightarrow> (solver_pair, 'e) outcome" where
  "solver_decorator H dumps a fn_name id_suffix fn =
     build_solver_info_and_fn H dumps
       (a\<lparr>ba_solver_id := solver_decorator_id (ba_namespace a) fn_name id_suffix,
          ba_raw_fn := fn, ba_algebraic_form := None, ba_solved_for := None,
          ba_branch := None, ba_admission_predicate := None, ba_derivation_digest := None,
          ba_law_lhs := None, ba_law_rhs := None\<rparr>)"

section \<open>Facts\<close>

lemma coerce_domain_valid: "coerce_domain (DomDict d) tags = Ok dm \<Longrightarrow> domain_valid dm"
  by (auto simp: coerce_domain_def outcome_simps)

lemma py_interval_valid: "py_interval lo hi = Ok iv \<Longrightarrow> iv_valid iv"
  by (auto simp: py_interval_def interval_new_Ok_iff split: outcome.splits)

lemma wrap_eps_seeking [simp]: "sf_eps_seeking (wrap_solve_fn f outs b) = b"
  by (simp add: wrap_solve_fn_def)

lemma invoke_wrapped:
  "invoke_solve_fn (wrap_solve_fn f outs b) x eps =
     (case f x (if b then Some eps else None) of
        RetErr e \<Rightarrow> Err e
      | RetRaise ex \<Rightarrow> Raise ex
      | RetOk raw \<Rightarrow> normalize_raw outs raw
      | RetBare raw \<Rightarrow> normalize_raw outs raw)"
  by (simp add: invoke_solve_fn_def wrap_solve_fn_def)

lemma coerce_citations_kinds:
  "coerce_citations items = Ok cs \<Longrightarrow> (\<forall>c. CitObj c \<in> set items \<longrightarrow> ct_kind c \<in> set CITATION_KINDS)
   \<Longrightarrow> c \<in> set cs \<Longrightarrow> ct_kind c \<in> set CITATION_KINDS"
  unfolding coerce_citations_def
proof (induction items arbitrary: cs)
  case (Cons i items)
  then show ?case
    by (auto simp: outcome_simps coerce_citation_def dest!: citation_new_Ok
        split: citation_arg.splits prod.splits if_splits)
qed auto

lemma build_Ok_fields:
  assumes "build_solver_info_and_fn H dumps a = Ok (info, fn)"
  shows "si_solver_id info = ba_solver_id a" "si_outputs info = ba_outputs a"
    "si_inputs info = ba_inputs a" "si_tier info \<in> set TIERS"
    "fn = wrap_solve_fn (ba_raw_fn a) (ba_outputs a) (ba_eps_seeking a)"
    "si_eps_seeking info = sf_eps_seeking fn"
  using assms
  by (auto simp: build_solver_info_and_fn_def outcome_simps solver_info_new_def
      split: if_splits)

end
