(* ===== verification/Core_Properties.thy ===== *)
theory Core_Properties
  imports Parallel_Sweep Lowering
begin

text \<open>
  Properties of the quantity core, the corner sweep, the digest home and the lowering of
  author-facing arguments. Each property stands after a text block that states it; a
  property with a hypothesis is followed by a witness at a concrete input.
\<close>

section \<open>Domains and errors\<close>

text \<open>\<open>Domain.admits\<close> accepts an input box exactly when the tags are there and every
  declared port has an interval inside the declared one; it never raises.\<close>

theorem admits_exact:
  "admits d inputs tags = Ok () \<longleftrightarrow>
     set (d_tags d) \<subseteq> set tags \<and>
     list_all (\<lambda>(port, allowed). case dget inputs port of
        Some v \<Rightarrow> is_subset v allowed | None \<Rightarrow> False) (d_box d)"
  unfolding admits_Ok_iff list_all_iff by (auto split: option.splits)

text \<open>a domain violation that is reported is a real one: the named tag is missing, the
  named port has no interval, or its interval leaves the declared bounds that are reported.\<close>

theorem admits_violation_real:
  assumes "admits d inputs tags = Err v"
  shows "case v of
      MissingTag t \<Rightarrow> t \<in> set (d_tags d) \<and> t \<notin> set tags
    | MissingInput port \<Rightarrow> port \<in> fst ` set (d_box d) \<and> dget inputs port = None
    | OutOfBox port lo hi blo bhi \<Rightarrow>
        (port, \<lparr>iv_lo = blo, iv_hi = bhi\<rparr>) \<in> set (d_box d) \<and>
        dget inputs port = Some \<lparr>iv_lo = lo, iv_hi = hi\<rparr> \<and> (lo < blo \<or> bhi < hi)"
proof -
  have box: "case v of MissingInput port \<Rightarrow> port \<in> fst ` set b \<and> dget inputs port = None
    | OutOfBox port lo hi blo bhi \<Rightarrow> (port, \<lparr>iv_lo = blo, iv_hi = bhi\<rparr>) \<in> set b \<and>
        dget inputs port = Some \<lparr>iv_lo = lo, iv_hi = hi\<rparr> \<and> (lo < blo \<or> bhi < hi)
    | _ \<Rightarrow> False" if "first_box_violation b inputs = Some v" for b
    using that
    by (induction b inputs rule: first_box_violation.induct)
      (auto simp: is_subset_def split: option.splits if_splits domain_violation.splits)
  show ?thesis
  proof (cases "first_missing_tag (d_tags d) tags")
    case None
    then have "first_box_violation (d_box d) inputs = Some v"
      using assms by (auto simp: admits_def split: option.splits)
    then show ?thesis using box by (fastforce split: domain_violation.splits)
  next
    case (Some t)
    then show ?thesis using assms first_missing_tag_Some [OF Some] by (auto simp: admits_def)
  qed
qed

theorem admits_violation_real_witness:
  "(''x'', \<lparr>iv_lo = 0, iv_hi = 1\<rparr>) \<in> set [(''x'', \<lparr>iv_lo = 0, iv_hi = 1\<rparr>)] \<and> (1 :: real) < 2"
proof -
  let ?d = "\<lparr>d_box = [(''x'', \<lparr>iv_lo = 0, iv_hi = 1\<rparr>)], d_tags = []\<rparr>"
  have "admits ?d [(''x'', \<lparr>iv_lo = 0, iv_hi = 2\<rparr>)] [] = Err (OutOfBox ''x'' 0 2 0 1)"
    by (simp add: admits_def is_subset_def)
  from admits_violation_real [OF this] show ?thesis by simp
qed

text \<open>\<open>worst_over\<close> is the supremum of the declared error over the interval: no point of
  the interval has a larger one, and a point of the interval has it.\<close>

theorem worst_over_supremum:
  assumes "acc_valid acc" "iv_valid iv"
  shows "(\<forall>v. iv_contains iv v \<longrightarrow> acc_eps acc v \<le> worst_over acc iv) \<and>
         (\<exists>v. iv_contains iv v \<and> acc_eps acc v = worst_over acc iv)"
  using worst_over_bounds [OF assms(1)] worst_over_attained [OF assms(2), of acc] by metis

theorem worst_over_supremum_witness:
  "acc_eps \<lparr>eps_abs = 1, eps_rel = 1/2\<rparr> (-3) \<le> worst_over \<lparr>eps_abs = 1, eps_rel = 1/2\<rparr> \<lparr>iv_lo = -4, iv_hi = 2\<rparr>"
  using worst_over_supremum [of "\<lparr>eps_abs = 1, eps_rel = 1/2\<rparr>" "\<lparr>iv_lo = -4, iv_hi = 2\<rparr>"]
  by (simp add: acc_valid_def iv_valid_def iv_contains_def)

section \<open>The corner sweep\<close>

text \<open>\<open>enumerate_corners\<close> lists exactly the corners of the box, each once, in ascending
  order of their values, two per port of positive width.\<close>

theorem enumerate_corners_spec:
  "set (enumerate_corners b) = {c. corner_of (btree_of b) c} \<and>
   distinct (enumerate_corners b) \<and> sorted (map (map snd) (enumerate_corners b)) \<and>
   length (enumerate_corners b) = 2 ^ length (filter (\<lambda>(p, iv). iv_lo iv \<noteq> iv_hi iv) (btree_of b))"
  by (simp add: set_enumerate_corners distinct_enumerate_corners sorted_enumerate_corners)
    (simp add: enumerate_corners_def rust_enumerate_eq length_corner_product)

text \<open>the hull of a sweep over a callback that returns a finite number for each port it
  names holds, for each port, exactly the least and the greatest value over all corners.\<close>

theorem corner_sweep_min_max:
  assumes "\<And>c. c \<in> set (enumerate_corners b) \<Longrightarrow> dict_ok (f c) \<and> all_finite (f c)"
  shows "\<exists>h. corner_sweep b (\<lambda>s c. (Ok (f c), s)) s = (Ok h :: (box, 'e) outcome, s) \<and> bt_ok h \<and>
    (\<forall>p. dget h p = hull_of {v. \<exists>c. corner_of (btree_of b) c \<and> dget (f c) p = Some (Fin v)})"
proof -
  let ?cs = "enumerate_corners b"
  have run: "run_corners (\<lambda>s c. (Ok (f c) :: (_, 'e) outcome, s)) ?cs s = (Ok (map f ?cs), s)"
    by (rule run_corners_pure) simp
  obtain h where h: "hull_from_results (map f ?cs) = (Ok h :: (box, 'e) outcome)" "bt_ok h"
    "\<forall>p. dget h p = hull_of (port_values p (map f ?cs))"
    using hull_from_results_Ok [of "map f ?cs"] assms by auto
  have "corner_sweep b (\<lambda>s c. (Ok (f c) :: (_, 'e) outcome, s)) s = (Ok h, s)"
    unfolding corner_sweep_def sweep_loop_Ok_iff
    using run h(1) by (auto simp: hull_from_results_def)
  moreover have "port_values p (map f ?cs) =
      {v. \<exists>c. corner_of (btree_of b) c \<and> dget (f c) p = Some (Fin v)}" for p
    using set_enumerate_corners [of b] by (auto simp: port_values_def)
  ultimately show ?thesis using h(2,3) by auto
qed

theorem corner_sweep_min_max_witness:
  "\<exists>h. corner_sweep [(''x'', \<lparr>iv_lo = 1, iv_hi = 3\<rparr>)] (\<lambda>s c. (Ok [(''y'', Fin (2 * snd (hd c)))], s)) ()
     = (Ok h :: (box, unit) outcome, ())"
  using corner_sweep_min_max [of "[(''x'', \<lparr>iv_lo = 1, iv_hi = 3\<rparr>)]" "\<lambda>c. [(''y'', Fin (2 * snd (hd c)))]" "()"]
  by (auto simp: dict_ok_def all_finite_def)



text \<open>\<open>hull_from_results\<close> depends only on which results there are: any order and any
  repetition of the same per-corner results folds to the same hull.\<close>

theorem hull_order_free:
  assumes "\<And>r. r \<in> set rs \<Longrightarrow> dict_ok r \<and> all_finite r" "set rs' = set rs"
  shows "hull_from_results rs' = (hull_from_results rs :: (box, 'e) outcome)"
  by (rule hull_from_results_perm) (use assms in auto)

theorem hull_order_free_witness:
  "hull_from_results [[(''y'', Fin 2)], [(''y'', Fin 5)]] =
     (hull_from_results [[(''y'', Fin 5)], [(''y'', Fin 2)]] :: (box, unit) outcome)"
  by (rule hull_order_free) (auto simp: dict_ok_def all_finite_def)

section \<open>The parallel sweep\<close>

text \<open>C17: whatever order the workers start and finish in, and at any thread count, a parallel
  sweep that returns gives what the serial sweep gives.\<close>

theorem parallel_equals_serial:
  assumes "parallel_corner_sweep b fn k events = Some v"
  shows "v = fst (serial_corner_sweep b (\<lambda>s c. (fn c, s)) ())"
  by (subst serial_value) (rule parallel_value [OF assms])

theorem parallel_equals_serial_witness:
  "fst (serial_corner_sweep [] (\<lambda>s c. (Ok [(''y'', Fin 1)] :: ((string, fl) dict, unit) outcome, s)) ())
     = Ok [(''y'', \<lparr>iv_lo = 1, iv_hi = 1\<rparr>)]"
proof -
  have cs: "enumerate_corners [] = [[]]"
    by (simp add: enumerate_corners_def rust_enumerate_corners_def btree_of_def)
  have "parallel_corner_sweep [] (\<lambda>c. Ok [(''y'', Fin 1)] :: ((string, fl) dict, unit) outcome) 2
      [Start, Finish 0, Wait, Wait] = Some (Ok [(''y'', \<lparr>iv_lo = 1, iv_hi = 1\<rparr>)])"
    by (simp add: parallel_corner_sweep_def cs pool_init_def pool_finished_def Let_def
        hull_from_results_def btree_of_def hull_point_def)
  from parallel_equals_serial [OF this] show ?thesis by simp
qed



end
