(* ===== verification/Solver_Registry.thy ===== *)
theory Solver_Registry
  imports Lowering
begin

text \<open>
  \<open>SolverRegistry\<close> (\<open>solve/registry.py\<close>): the solver table, the port table and the frozen
  flag, with every operation of the class. A mutating operation returns its \<open>Result\<close> and
  the registry after the call, also when it fails halfway. The lemmas give the invariant
  of reachable registries, the exact effect of a declaration and of a registration, and
  the independence of iteration and digest from the registration order. The locale
  \<open>solver_source\<close> is the interface the planner and the executor read a registry through.
\<close>

abbreviation pair_id :: "solver_pair \<Rightarrow> string" where
  "pair_id p \<equiv> si_solver_id (fst p)"

record registry =
  rg_solvers :: "(string, solver_pair) dict"
  rg_ports :: "(string, port_decl) dict"
  rg_frozen :: bool

definition registry_new :: registry where
  "registry_new = \<lparr>rg_solvers = [], rg_ports = [], rg_frozen = False\<rparr>"

section \<open>Declaring ports\<close>

text \<open>The conflict a declaration has with the port of the same name that is there.\<close>

definition port_conflict :: "port_decl \<Rightarrow> port_decl \<Rightarrow> registry_error" where
  "port_conflict existing decl =
     (if pd_unit existing \<noteq> pd_unit decl then PortUnitConflict (pd_name decl)
      else if rank_kind (pd_rank existing) = ''payload'' \<and> rank_kind (pd_rank decl) = ''payload''
              \<and> rank_payload_kind (pd_rank existing) \<noteq> rank_payload_kind (pd_rank decl)
      then PayloadKindConflict (pd_name decl)
      else if pd_rank existing \<noteq> pd_rank decl then PortRankConflict (pd_name decl)
      else DuplicatePortDecl (pd_name decl))"

definition declared_payload_kind :: "port_decl \<Rightarrow> string" where
  "declared_payload_kind decl =
     (case rank_payload_kind (pd_rank decl) of None \<Rightarrow> '''' | Some k \<Rightarrow> k)"

fun declare_loop ::
  "port_decl list \<Rightarrow> (string, port_decl) dict \<Rightarrow>
   (unit, registry_error) outcome \<times> (string, port_decl) dict" where
  "declare_loop [] ports = (Ok (), ports)"
| "declare_loop (decl # decls) ports =
     (if rank_kind (pd_rank decl) = ''payload'' \<and>
         declared_payload_kind decl \<notin> set PAYLOAD_KINDS
      then (Err (UnknownPayloadKind (pd_name decl) (declared_payload_kind decl)), ports)
      else (case dget ports (pd_name decl) of
              None \<Rightarrow> declare_loop decls (dset (pd_name decl) decl ports)
            | Some existing \<Rightarrow> (Err (port_conflict existing decl), ports)))"

definition declare_ports ::
  "port_decl list \<Rightarrow> registry \<Rightarrow> (unit, registry_error) outcome \<times> registry" where
  "declare_ports decls r =
     (if rg_frozen r then (Err Frozen, r)
      else (case declare_loop decls (rg_ports r) of
              (res, ports) \<Rightarrow> (res, r\<lparr>rg_ports := ports\<rparr>)))"

section \<open>Registering a solver\<close>

fun first_unknown_port :: "string list \<Rightarrow> (string, port_decl) dict \<Rightarrow> string option" where
  "first_unknown_port [] ports = None"
| "first_unknown_port (p # ps) ports =
     (if \<not> dhas ports p then Some p else first_unknown_port ps ports)"

definition touched_ports :: "solver_info \<Rightarrow> string list" where
  "touched_ports info = si_inputs info @ si_outputs info @ dkeys (d_box (si_domain info))"

definition register ::
  "solver_info \<Rightarrow> solve_fn \<Rightarrow> registry \<Rightarrow> (unit, registry_error) outcome \<times> registry" where
  "register info fn r =
     (if rg_frozen r then (Err Frozen, r)
      else if dhas (rg_solvers r) (si_solver_id info)
      then (Err (DuplicateSolverId (si_solver_id info)), r)
      else if fl_le (si_cost info) (Fin 0)
      then (Err (NonPositiveCost (si_solver_id info)), r)
      else if set (dkeys (si_accuracy info)) \<noteq> set (si_outputs info)
      then (Err (AccuracyOutputMismatch (si_solver_id info)), r)
      else if si_citations info = [] \<or>
              list_all (\<lambda>c. ct_kind c = ''calibration'') (si_citations info)
      then (Err (EmptyCitations (si_solver_id info)), r)
      else
        (case (if rg_ports r = [] then None
               else first_unknown_port (touched_ports info) (rg_ports r)) of
           Some port \<Rightarrow> (Err (UnknownPort port), r)
         | None \<Rightarrow>
             (Ok (), r\<lparr>rg_solvers := dset (si_solver_id info) (info, fn) (rg_solvers r)\<rparr>)))"

section \<open>The other operations\<close>

definition rollback_registration :: "string \<Rightarrow> registry \<Rightarrow> registry" where
  "rollback_registration solver_id r = r\<lparr>rg_solvers := dpop solver_id (rg_solvers r)\<rparr>"

definition rollback_port_decl :: "string \<Rightarrow> registry \<Rightarrow> registry" where
  "rollback_port_decl port_name r = r\<lparr>rg_ports := dpop port_name (rg_ports r)\<rparr>"

definition registry_get :: "registry \<Rightarrow> string \<Rightarrow> solver_pair option" where
  "registry_get r solver_id = dget (rg_solvers r) solver_id"

definition freeze :: "registry \<Rightarrow> registry" where
  "freeze r = r\<lparr>rg_frozen := True\<rparr>"

definition is_frozen :: "registry \<Rightarrow> bool" where
  "is_frozen r = rg_frozen r"

definition registry_iter :: "registry \<Rightarrow> solver_pair list" where
  "registry_iter r = map snd (dsorted (rg_solvers r))"

definition registry_digest ::
  "(json \<Rightarrow> string) \<Rightarrow> (json \<Rightarrow> string) \<Rightarrow> registry \<Rightarrow> string" where
  "registry_digest H dumps r =
     canonical_digest H dumps
       (PySeq (map (\<lambda>(k, info, fn). solver_info_dump info) (dsorted (rg_solvers r))))"

definition port_table :: "registry \<Rightarrow> (string, port_decl) dict" where
  "port_table r = rg_ports r"

section \<open>The invariant\<close>

definition info_ok :: "solver_info \<Rightarrow> bool" where
  "info_ok info \<longleftrightarrow>
     \<not> fl_le (si_cost info) (Fin 0) \<and>
     set (dkeys (si_accuracy info)) = set (si_outputs info) \<and>
     (\<exists>c \<in> set (si_citations info). ct_kind c \<noteq> ''calibration'')"

definition decl_ok :: "port_decl \<Rightarrow> bool" where
  "decl_ok d \<longleftrightarrow> (\<forall>k. pd_rank d = PayloadRank k \<longrightarrow> k \<in> set PAYLOAD_KINDS)"

definition solvers_ok :: "(string, solver_pair) dict \<Rightarrow> bool" where
  "solvers_ok s \<longleftrightarrow>
     dict_ok s \<and> (\<forall>(k, info, fn) \<in> set s. k = si_solver_id info \<and> info_ok info)"

definition ports_ok :: "(string, port_decl) dict \<Rightarrow> bool" where
  "ports_ok p \<longleftrightarrow> dict_ok p \<and> (\<forall>(k, d) \<in> set p. k = pd_name d \<and> decl_ok d)"

definition registry_ok :: "registry \<Rightarrow> bool" where
  "registry_ok r \<longleftrightarrow> solvers_ok (rg_solvers r) \<and> ports_ok (rg_ports r)"

lemma registry_ok_new [simp]: "registry_ok registry_new"
  by (simp add: registry_ok_def registry_new_def solvers_ok_def ports_ok_def)

lemma solvers_ok_dset:
  "solvers_ok s \<Longrightarrow> info_ok info \<Longrightarrow> solvers_ok (dset (si_solver_id info) (info, fn) s)"
  unfolding solvers_ok_def by (auto dest!: dset_ConsE)

lemma ports_ok_dset: "ports_ok p \<Longrightarrow> decl_ok d \<Longrightarrow> ports_ok (dset (pd_name d) d p)"
  unfolding ports_ok_def by (auto dest!: dset_ConsE)

lemma solvers_ok_dpop: "solvers_ok s \<Longrightarrow> solvers_ok (dpop k s)"
  unfolding solvers_ok_def using set_dpop_subset [of k s] by auto

lemma ports_ok_dpop: "ports_ok p \<Longrightarrow> ports_ok (dpop k p)"
  unfolding ports_ok_def using set_dpop_subset [of k p] by auto

lemma decl_ok_checked:
  "\<not> (rank_kind (pd_rank d) = ''payload'' \<and> declared_payload_kind d \<notin> set PAYLOAD_KINDS)
   \<Longrightarrow> decl_ok d"
  by (auto simp: decl_ok_def declared_payload_kind_def rank_payload_kind_def)

lemma declare_loop_ok: "ports_ok p \<Longrightarrow> ports_ok (snd (declare_loop ds p))"
proof (induction ds p rule: declare_loop.induct)
  case (2 d ds p)
  then show ?case
    using decl_ok_checked [of d] by (simp add: ports_ok_dset split: option.splits)
qed simp


lemma info_ok_checked:
  assumes "\<not> fl_le (si_cost info) (Fin 0)"
    "set (dkeys (si_accuracy info)) = set (si_outputs info)"
    "\<not> (si_citations info = [] \<or> list_all (\<lambda>c. ct_kind c = ''calibration'') (si_citations info))"
  shows "info_ok info"
  using assms by (auto simp: info_ok_def list_all_iff)

lemma first_unknown_port_None:
  "first_unknown_port ps ports = None \<longleftrightarrow> set ps \<subseteq> fst ` set ports"
  by (induction ps) (auto simp: dict_simps)

lemma register_Ok_iff:
  "fst (register info fn r) = Ok () \<longleftrightarrow>
     \<not> rg_frozen r \<and> \<not> dhas (rg_solvers r) (si_solver_id info) \<and> info_ok info \<and>
     (rg_ports r = [] \<or> set (touched_ports info) \<subseteq> fst ` set (rg_ports r))"
  unfolding first_unknown_port_None [symmetric]
  by (auto simp: register_def info_ok_def list_all_iff split: option.splits)

lemma register_Ok_state:
  "fst (register info fn r) = Ok () \<Longrightarrow>
   snd (register info fn r) =
     r\<lparr>rg_solvers := dset (si_solver_id info) (info, fn) (rg_solvers r)\<rparr>"
  by (auto simp: register_def split: option.splits if_splits)

lemma register_Err_state: "fst (register info fn r) \<noteq> Ok () \<Longrightarrow> snd (register info fn r) = r"
  by (auto simp: register_def split: option.splits if_splits)

lemma register_not_Raise [simp]: "fst (register info fn r) \<noteq> Raise x"
  by (auto simp: register_def split: option.splits)

lemma register_ok: "registry_ok r \<Longrightarrow> registry_ok (snd (register info fn r))"
proof (cases "fst (register info fn r) = Ok ()")
  case True
  moreover assume "registry_ok r"
  ultimately show ?thesis
    using register_Ok_iff [of info fn r]
    by (simp add: register_Ok_state registry_ok_def solvers_ok_dset)
qed (simp add: register_Err_state)

lemma declare_ports_ok: "registry_ok r \<Longrightarrow> registry_ok (snd (declare_ports ds r))"
  using declare_loop_ok [of "rg_ports r" ds]
  by (simp add: declare_ports_def registry_ok_def case_prod_beta)

text \<open>A declaration call succeeds exactly on fresh, distinct names with known kinds.\<close>

lemma declare_loop_Ok_iff:
  "fst (declare_loop ds p) = Ok () \<longleftrightarrow>
     distinct (map pd_name ds) \<and> (\<forall>d \<in> set ds. \<not> dhas p (pd_name d) \<and> decl_ok d)"
proof (induction ds p rule: declare_loop.induct)
  case (2 d ds p)
  have bad: "rank_kind (pd_rank d) = ''payload'' \<and> declared_payload_kind d \<notin> set PAYLOAD_KINDS
      \<longleftrightarrow> \<not> decl_ok d"
    by (auto simp: decl_ok_def declared_payload_kind_def rank_payload_kind_def)
  show ?case
  proof (cases "decl_ok d \<and> dget p (pd_name d) = None")
    case True
    then have "fst (declare_loop (d # ds) p) =
        fst (declare_loop ds (dset (pd_name d) d p))"
      using bad by (simp only: declare_loop.simps not_True_eq_False if_False option.case)
    moreover have "fst (declare_loop ds (dset (pd_name d) d p)) = Ok () \<longleftrightarrow>
        distinct (map pd_name ds) \<and>
        (\<forall>e \<in> set ds. \<not> dhas (dset (pd_name d) d p) (pd_name e) \<and> decl_ok e)"
      by (rule 2 [OF _ conjunct2 [OF True]]) (use True bad in blast)
    moreover have "(\<forall>e \<in> set ds. \<not> dhas (dset (pd_name d) d p) (pd_name e) \<and> decl_ok e) \<longleftrightarrow>
        pd_name d \<notin> pd_name ` set ds \<and> (\<forall>e \<in> set ds. \<not> dhas p (pd_name e) \<and> decl_ok e)"
      by (auto simp: image_iff)
    ultimately have "fst (declare_loop (d # ds) p) = Ok () \<longleftrightarrow> distinct (map pd_name ds) \<and>
        pd_name d \<notin> pd_name ` set ds \<and> (\<forall>e \<in> set ds. \<not> dhas p (pd_name e) \<and> decl_ok e)"
      by (simp only:)
    then show ?thesis using True by (simp only:) (auto simp: dhas_def)
  next
    case False
    then show ?thesis using bad by (auto simp: dhas_def split: option.splits)
  qed
qed simp

lemma declare_loop_Ok_ports:
  "fst (declare_loop ds p) = Ok () \<Longrightarrow>
   snd (declare_loop ds p) = p @ map (\<lambda>d. (pd_name d, d)) ds"
proof (induction ds p rule: declare_loop.induct)
  case (2 d ds p)
  then show ?case by (auto simp: dset_fresh split: if_splits option.splits)
qed simp

text \<open>A failing call keeps the declarations before the first conflict.\<close>

lemma declare_loop_prefix:
  "\<exists>es rest. ds = es @ rest \<and> snd (declare_loop ds p) = p @ map (\<lambda>d. (pd_name d, d)) es"
proof (induction ds p rule: declare_loop.induct)
  case (2 d ds p)
  show ?case
  proof (cases "(rank_kind (pd_rank d) = ''payload'' \<and>
         declared_payload_kind d \<notin> set PAYLOAD_KINDS) \<or> dget p (pd_name d) \<noteq> None")
    case True
    then have "snd (declare_loop (d # ds) p) = p" by auto
    then show ?thesis by (metis append_Nil append_Nil2 list.simps(8))
  next
    case False
    with 2 obtain es rest where "ds = es @ rest"
      "snd (declare_loop ds (dset (pd_name d) d p)) =
         dset (pd_name d) d p @ map (\<lambda>d. (pd_name d, d)) es"
      by blast
    with False have "d # ds = (d # es) @ rest"
      "snd (declare_loop (d # ds) p) = p @ map (\<lambda>d. (pd_name d, d)) (d # es)"
      by (simp_all add: dset_fresh)
    then show ?thesis by blast
  qed
qed simp

section \<open>Sequences of operations\<close>


datatype registry_op =
    DoDeclare "port_decl list"
  | DoRegister solver_info solve_fn
  | DoRollbackSolver string
  | DoRollbackPort string
  | DoFreeze

fun registry_step :: "registry_op \<Rightarrow> registry \<Rightarrow> registry" where
  "registry_step (DoDeclare ds) r = snd (declare_ports ds r)"
| "registry_step (DoRegister info fn) r = snd (register info fn r)"
| "registry_step (DoRollbackSolver s) r = rollback_registration s r"
| "registry_step (DoRollbackPort p) r = rollback_port_decl p r"
| "registry_step DoFreeze r = freeze r"

definition run_registry :: "registry_op list \<Rightarrow> registry \<Rightarrow> registry" where
  "run_registry ops r = foldl (\<lambda>r op. registry_step op r) r ops"

lemma registry_step_ok: "registry_ok r \<Longrightarrow> registry_ok (registry_step op r)"
proof (cases op)
  case (DoRollbackSolver s)
  moreover assume "registry_ok r"
  ultimately show ?thesis
    by (simp add: rollback_registration_def registry_ok_def solvers_ok_dpop)
next
  case (DoRollbackPort s)
  moreover assume "registry_ok r"
  ultimately show ?thesis by (simp add: rollback_port_decl_def registry_ok_def ports_ok_dpop)
next
  case DoFreeze
  moreover assume "registry_ok r"
  ultimately show ?thesis by (simp add: freeze_def registry_ok_def)
qed (simp_all add: register_ok declare_ports_ok)

lemma run_registry_ok: "registry_ok r \<Longrightarrow> registry_ok (run_registry ops r)"
  unfolding run_registry_def by (induction ops arbitrary: r) (auto simp: registry_step_ok)

section \<open>Iteration and order independence\<close>

lemma dset_mset_fresh:
  "\<not> dhas d k \<Longrightarrow> dset k v d = d @ [(k, v)]"
  by (simp add: dhas_def dset_fresh)

lemma registry_iter_ids:
  assumes "registry_ok r"
  shows "map pair_id (registry_iter r) = map fst (dsorted (rg_solvers r))"
proof -
  have "\<forall>x \<in> set (dsorted (rg_solvers r)). si_solver_id (fst (snd x)) = fst x"
    using assms by (auto simp: registry_ok_def solvers_ok_def)
  then show ?thesis by (simp add: registry_iter_def case_prod_beta)
qed

lemma set_registry_iter: "set (registry_iter r) = snd ` set (rg_solvers r)"
  by (simp add: registry_iter_def)

lemma registry_get_iter:
  assumes "registry_ok r"
  shows "registry_get r i = Some (info, fn) \<longleftrightarrow>
         (info, fn) \<in> set (registry_iter r) \<and> si_solver_id info = i"
  using assms unfolding registry_ok_def solvers_ok_def registry_get_def set_registry_iter
  by (force simp: dict_ok_def)

text \<open>\<open>Relation.register\<close>: a list of directions registered until the first error.\<close>

fun register_all ::
  "solver_pair list \<Rightarrow> registry \<Rightarrow> (unit, registry_error) outcome \<times> registry" where
  "register_all [] r = (Ok (), r)"
| "register_all ((info, fn) # ps) r =
     (case register info fn r of
        (Ok _, r') \<Rightarrow> register_all ps r'
      | (Err e, r') \<Rightarrow> (Err e, r')
      | (Raise x, r') \<Rightarrow> (Raise x, r'))"

definition entry_of :: "solver_pair \<Rightarrow> string \<times> solver_pair" where
  "entry_of p = (pair_id p, p)"

definition registrable :: "registry \<Rightarrow> solver_pair \<Rightarrow> bool" where
  "registrable r p \<longleftrightarrow>
     \<not> rg_frozen r \<and> \<not> dhas (rg_solvers r) (pair_id p) \<and> info_ok (fst p) \<and>
     (rg_ports r = [] \<or> set (touched_ports (fst p)) \<subseteq> fst ` set (rg_ports r))"

lemma register_registrable:
  "registrable r (info, fn) \<Longrightarrow>
   register info fn r = (Ok (), r\<lparr>rg_solvers := rg_solvers r @ [entry_of (info, fn)]\<rparr>)"
  using register_Ok_iff [of info fn r] register_Ok_state [of info fn r]
  by (simp add: registrable_def entry_of_def dset_mset_fresh prod_eq_iff)

lemma register_not_registrable:
  "\<not> registrable r (info, fn) \<Longrightarrow> \<exists>e. register info fn r = (Err e, r)"
  using register_Ok_iff [of info fn r] register_Err_state [of info fn r]
    register_not_Raise [of info fn r]
  by (cases "fst (register info fn r)") (auto simp: registrable_def prod_eq_iff)

lemma registrable_after:
  "registrable (r\<lparr>rg_solvers := rg_solvers r @ [entry_of q]\<rparr>) p \<longleftrightarrow>
   registrable r p \<and> pair_id p \<noteq> pair_id q"
  by (auto simp: registrable_def entry_of_def dict_simps)

lemma register_all_Ok_iff:
  "fst (register_all ps r) = Ok () \<longleftrightarrow>
     distinct (map pair_id ps) \<and> (\<forall>p \<in> set ps. registrable r p)"
proof (induction ps arbitrary: r)
  case (Cons p ps)
  obtain info fn where p: "p = (info, fn)" by (cases p)
  show ?case
  proof (cases "registrable r p")
    case True
    then show ?thesis
      using Cons [of "r\<lparr>rg_solvers := rg_solvers r @ [entry_of p]\<rparr>"] p
      by (auto simp: register_registrable registrable_after image_iff)
  next
    case False
    then show ?thesis using p register_not_registrable [of r info fn] by auto
  qed
qed simp

lemma register_all_state:
  "fst (register_all ps r) = Ok () \<Longrightarrow>
   snd (register_all ps r) = r\<lparr>rg_solvers := rg_solvers r @ map entry_of ps\<rparr>"
proof (induction ps arbitrary: r)
  case (Cons p ps)
  obtain info fn where p: "p = (info, fn)" by (cases p)
  have "registrable r p" using Cons.prems register_all_Ok_iff [of "p # ps" r] by simp
  then show ?case
    using Cons p by (simp add: register_registrable)
qed simp

lemma register_all_ok: "registry_ok r \<Longrightarrow> registry_ok (snd (register_all ps r))"
proof (induction ps r rule: register_all.induct)
  case (2 info fn ps r)
  then show ?case
    using register_ok [of r info fn] by (auto split: prod.splits outcome.splits)
qed simp

lemma register_all_perm:
  assumes "registry_ok r" "fst (register_all ps r) = Ok ()" "mset qs = mset ps"
  shows "fst (register_all qs r) = Ok ()"
    "dsorted (rg_solvers (snd (register_all qs r))) = dsorted (rg_solvers (snd (register_all ps r)))"
proof -
  have "mset (map pair_id qs) = mset (map pair_id ps)"
    using assms(3) by simp
  then have "distinct (map pair_id qs)"
    using assms(2) unfolding register_all_Ok_iff by (metis mset_eq_imp_distinct_iff)
  moreover have sets: "set qs = set ps" using assms(3) by (rule mset_eq_setD)
  ultimately show q: "fst (register_all qs r) = Ok ()"
    using assms(2) unfolding register_all_Ok_iff by simp
  have "registry_ok (snd (register_all qs r))" "registry_ok (snd (register_all ps r))"
    using assms(1) by (simp_all add: register_all_ok)
  then show "dsorted (rg_solvers (snd (register_all qs r))) =
      dsorted (rg_solvers (snd (register_all ps r)))"
    using sets
    by (intro dsorted_perm)
      (auto simp: registry_ok_def solvers_ok_def register_all_state [OF q]
        register_all_state [OF assms(2)])
qed

section \<open>The interface of the planner and the executor\<close>

text \<open>
  What \<open>plan\<close>, \<open>execute\<close> and \<open>route_settings_digest\<close> rely on: iteration in strictly
  ascending id order, so that \<open>{info.solver_id: ... for info, fn in registry}\<close> has one
  entry per solver.
\<close>

definition solver_map :: "solver_pair list \<Rightarrow> (string, solver_pair) dict" where
  "solver_map ps = dict_of (map (\<lambda>p. (pair_id p, p)) ps)"

locale solver_source =
  fixes wf :: "'r \<Rightarrow> bool" and items :: "'r \<Rightarrow> solver_pair list"
  assumes ids_ascending:
    "wf r \<Longrightarrow> sorted_wrt (<) (map pair_id (items r))"
begin

lemma ids_distinct: "wf r \<Longrightarrow> distinct (map pair_id (items r))"
  using ids_ascending strict_sorted_iff by blast

lemma solver_map_items:
  assumes "wf r"
  shows "solver_map (items r) = map (\<lambda>p. (pair_id p, p)) (items r)"
proof -
  have "dict_ok (map (\<lambda>p. (pair_id p, p)) (items r))"
    using ids_distinct [OF assms] by (simp add: dict_ok_def comp_def)
  then show ?thesis by (simp add: solver_map_def dict_of_id)
qed

lemma solver_map_get:
  assumes "wf r"
  shows "dget (solver_map (items r)) i = Some (info, fn) \<longleftrightarrow>
         (info, fn) \<in> set (items r) \<and> si_solver_id info = i"
proof -
  have "dict_ok (solver_map (items r))"
    using ids_distinct [OF assms]
    by (simp add: solver_map_items [OF assms] dict_ok_def comp_def)
  then show ?thesis
    by (force simp: solver_map_items [OF assms] dict_ok_def)
qed

end

interpretation registry_source: solver_source registry_ok registry_iter
proof
  fix r assume r: "registry_ok r"
  then have "bt_ok (dsorted (rg_solvers r))"
    by (intro bt_ok_dsorted) (simp add: registry_ok_def solvers_ok_def)
  then show "sorted_wrt (<) (map pair_id (registry_iter r))"
    by (simp add: registry_iter_ids [OF r] bt_ok_def)
qed

end
