(* ===== verification/Model_Properties.thy ===== *)
theory Model_Properties
  imports Solver_Registry
begin

text \<open>
  Properties of the digest home, of the coercions of author-facing arguments, of the
  return normalisation and of the cost curves.
\<close>

section \<open>Digests\<close>

text \<open>the canonical digest does not see the order in which dicts and sets were filled:
  values with the same content, to any depth, have the same digest whatever the hash.\<close>

theorem digest_ignores_order:
  assumes "py_same dumps x y"
  shows "canonical_digest H dumps x = canonical_digest H dumps y"
  using py_same_lower [OF assms] by (simp add: canonical_digest_def)

theorem digest_ignores_order_witness:
  "\<forall>H dumps. canonical_digest H dumps (PyMap [(''b'', PyInt 1), (''a'', PySet [PyInt 7])]) =
     canonical_digest H dumps (PyMap [(''a'', PySet [PyInt 7]), (''b'', PyInt 1)])"
  by (intro allI, rule digest_ignores_order)
    (rule py_same_map, auto simp: dict_ok_def intro: py_same_refl split: if_splits)

section \<open>Coercions and returns\<close>

definition stripped :: "string \<Rightarrow> bool" where
  "stripped s \<longleftrightarrow> s = [] \<or> (\<not> is_space (hd s) \<and> \<not> is_space (last s))"

text \<open>a citation written as \<open>kind: ref -- note\<close> is parsed back into its three parts, for
  each known kind and any stripped reference and note, as long as the reference does not
  itself contain the separator.\<close>

theorem citation_parse_print:
  assumes "kind \<in> set CITATION_KINDS" "stripped ref" "stripped note"
    "\<not> sublist '' -- '' (ref @ '' --'')"
  shows "coerce_citation (CitStr (kind @ '': '' @ ref @ '' -- '' @ note)) =
     (Ok \<lparr>ct_kind = kind, ct_ref = ref, ct_note = note\<rparr> :: (citation, 'e) outcome)"
proof -
  have k: "CHR '':'' \<notin> set kind" "str_strip kind = kind"
    using assms(1)
    by (auto simp: CITATION_KINDS_def is_space_def Let_def of_char_def intro!: str_strip_id)
  have "str_partition '': '' (kind @ '': '' @ ref @ '' -- '' @ note) = (kind, True, ref @ '' -- '' @ note)"
    using str_partition_first [OF k(1), of "'' ''" "ref @ '' -- '' @ note"] by simp
  moreover have "str_partition '' -- '' (ref @ '' -- '' @ note) = (ref, True, note)"
    using str_partition_sep [of "'' -- ''" ref "note"] assms(4) by simp
  ultimately show ?thesis
    using assms k by (simp add: coerce_citation_def citation_new_def str_strip_id stripped_def)
qed

theorem citation_parse_print_witness:
  "coerce_citation (CitStr (''paper'' @ '': '' @ ''ISO 281'' @ '' -- '' @ ''table 3'')) =
     (Ok \<lparr>ct_kind = ''paper'', ct_ref = ''ISO 281'', ct_note = ''table 3''\<rparr> :: (citation, unit) outcome)"
  by (rule citation_parse_print)
    (simp_all add: CITATION_KINDS_def stripped_def is_space_def Let_def of_char_def
      str_in_iff_sublist [symmetric])

text \<open>\<open>wrap_solve_fn\<close> never invents a failure: the wrapped function returns an error only
  if the author's function returned that one, raises only what it raised or a \<open>TypeError\<close>
  for a value outside the protocol, and otherwise names exactly the declared output for a
  bare number.\<close>

theorem wrapped_outcome:
  "case invoke_solve_fn (wrap_solve_fn f outs seeking) x eps of
     Err e \<Rightarrow> f x (if seeking then Some eps else None) = RetErr e
   | Raise ex \<Rightarrow> f x (if seeking then Some eps else None) = RetRaise ex \<or> ex = TypeError
   | Ok out \<Rightarrow> (\<exists>raw. f x (if seeking then Some eps else None) \<in> {RetBare raw, RetOk raw} \<and>
       (case raw of RVNumber v \<Rightarrow> \<exists>p. outs = [p] \<and> so_values out = [(p, v)]
        | RVMap m \<Rightarrow> so_values out = m | RVOutput o' \<Rightarrow> out = o' | RVOther \<Rightarrow> False))"
  unfolding invoke_wrapped
  by (auto simp: normalize_raw_def plain_output_def
      split: raw_return.splits raw_value.splits list.splits outcome.splits)

section \<open>Cost curves\<close>

text \<open>the cost a curve reports for a budget is that of a declared point: the loosest one
  that still fits, and when none fits the finest one.\<close>

theorem cost_for_budget_point:
  assumes "curve_valid pts" "b \<noteq> NaN"
  shows "\<exists>p \<in> set pts. cost_for_budget pts b = (Ok (cp_cost p) :: (fl, 'e) outcome) \<and>
     (if (\<exists>q \<in> set pts. fl_le (cp_eps q) b)
      then fl_le (cp_eps p) b \<and> (\<forall>q \<in> set pts. fl_le (cp_eps q) b \<longrightarrow> fl_le (cp_eps q) (cp_eps p))
      else (\<forall>q \<in> set pts. fl_le (cp_eps p) (cp_eps q)))"
proof (cases "filter (\<lambda>p. fl_le (cp_eps p) b) pts")
  case Nil
  then have none: "\<not> (\<exists>q \<in> set pts. fl_le (cp_eps q) b)" by (auto simp: filter_empty_conv)
  obtain p ps where pts: "pts = p # ps" using assms(1) by (cases pts) (auto simp: curve_valid_def)
  let ?m = "min_by cp_eps p ps"
  have nn: "\<forall>q \<in> set (p # ps). cp_eps q \<noteq> NaN" using assms(1) pts by (simp add: curve_valid_def)
  have "?m \<in> set pts" using min_by_in [of cp_eps p ps] pts by simp
  moreover have "\<forall>q \<in> set pts. fl_le (cp_eps ?m) (cp_eps q)" using min_by_lower [OF nn] pts by blast
  moreover have "cost_for_budget pts b = Ok (cp_cost ?m)"
    using Nil pts by (simp add: cost_for_budget_def)
  ultimately show ?thesis using none by (intro bexI [of _ ?m]) auto
next
  case (Cons p ps)
  let ?m = "max_by cp_eps p ps"
  have fit: "set (p # ps) = {q \<in> set pts. fl_le (cp_eps q) b}" using Cons by (metis set_filter)
  have nn: "\<forall>q \<in> set (p # ps). cp_eps q \<noteq> NaN" using assms(1) fit by (auto simp: curve_valid_def)
  have m: "?m \<in> set (p # ps)" by (rule max_by_in)
  have "\<forall>q \<in> set (p # ps). fl_le (cp_eps q) (cp_eps ?m)" using max_by_upper [OF nn] by blast
  moreover have "cost_for_budget pts b = Ok (cp_cost ?m)"
    using Cons by (simp add: cost_for_budget_def)
  moreover have "\<exists>q \<in> set pts. fl_le (cp_eps q) b" using fit m by blast
  ultimately show ?thesis using m fit by (intro bexI [of _ ?m]) auto
qed

theorem cost_for_budget_point_witness:
  "\<exists>p \<in> set [\<lparr>cp_eps = Fin 0, cp_cost = Fin 9\<rparr>, \<lparr>cp_eps = Fin 2, cp_cost = Fin 1\<rparr>].
     cost_for_budget [\<lparr>cp_eps = Fin 0, cp_cost = Fin 9\<rparr>, \<lparr>cp_eps = Fin 2, cp_cost = Fin 1\<rparr>] (Fin 3)
       = (Ok (cp_cost p) :: (fl, unit) outcome)"
  using cost_for_budget_point [of "[\<lparr>cp_eps = Fin 0, cp_cost = Fin 9\<rparr>, \<lparr>cp_eps = Fin 2, cp_cost = Fin 1\<rparr>]" "Fin 3"]
  by (auto simp: curve_valid_def)

lemma max_by_stays: "\<forall>x \<in> set xs. \<not> fl_lt (f m) (f x) \<Longrightarrow> max_by f m xs = m"
  by (induction f m xs rule: max_by.induct) auto

lemma min_by_stays: "\<forall>x \<in> set xs. \<not> fl_lt (f x) (f m) \<Longrightarrow> min_by f m xs = m"
  by (induction f m xs rule: min_by.induct) auto

abbreviation fitting :: "cost_curve \<Rightarrow> fl \<Rightarrow> cost_curve" where
  "fitting pts b \<equiv> filter (\<lambda>p. fl_le (cp_eps p) b) pts"

lemma fitting_pick:
  assumes "curve_valid pts" "fitting pts b = q # qs"
  shows "max_by cp_eps q qs \<in> set pts" "fl_le (cp_eps (max_by cp_eps q qs)) b"
    "\<And>z. z \<in> set pts \<Longrightarrow> fl_le (cp_eps z) b \<Longrightarrow> fl_le (cp_eps z) (cp_eps (max_by cp_eps q qs))"
proof -
  have fit: "set (q # qs) = {z \<in> set pts. fl_le (cp_eps z) b}"
    unfolding assms(2) [symmetric] by (rule set_filter)
  have nn: "\<forall>z \<in> set (q # qs). cp_eps z \<noteq> NaN" using assms(1) fit by (auto simp: curve_valid_def)
  have "max_by cp_eps q qs \<in> set (q # qs)" by (rule max_by_in)
  then show "max_by cp_eps q qs \<in> set pts" "fl_le (cp_eps (max_by cp_eps q qs)) b" using fit by blast+
  show "fl_le (cp_eps z) (cp_eps (max_by cp_eps q qs))" if "z \<in> set pts" "fl_le (cp_eps z) b" for z
    using max_by_upper [OF nn, of z] that fit by blast
qed

lemma curve_head:
  assumes "curve_valid (p # ps)"
  shows "min_by cp_eps p ps = p" "\<And>z. z \<in> set (p # ps) \<Longrightarrow> fl_le (cp_eps p) (cp_eps z)"
proof -
  show "min_by cp_eps p ps = p"
    by (rule min_by_stays) (use assms in \<open>auto simp: curve_valid_def fl_not_lt\<close>)
  show "\<And>z. z \<in> set (p # ps) \<Longrightarrow> fl_le (cp_eps p) (cp_eps z)"
    using assms by (auto simp: curve_valid_def)
qed

text \<open>Of two declared points, the one with the larger error is not dearer, ties aside.\<close>

lemma costs_fall_step:
  assumes "curve_valid pts" "costs_fall pts" "q \<in> set pts" "q' \<in> set pts"
    "fl_le (cp_eps q) (cp_eps q')" "cp_eps q = cp_eps q' \<Longrightarrow> q = q'"
  shows "fl_le (cp_cost q') (cp_cost q)"
proof (cases "cp_eps q = cp_eps q'")
  case True
  then show ?thesis using assms by (auto simp: curve_valid_def)
next
  case False
  then have "fl_lt (cp_eps q) (cp_eps q')"
    using assms(5) by (cases "cp_eps q"; cases "cp_eps q'") auto
  then show ?thesis using curve_valid_pair [OF assms(1-4)] by blast
qed

text \<open>on a curve whose finer points never cost less, a larger budget never costs more.\<close>

theorem cost_for_budget_antitone:
  assumes "curve_valid pts" "costs_fall pts" "fl_le b b'"
    "cost_for_budget pts b = (Ok c :: (fl, 'e) outcome)"
    "cost_for_budget pts b' = (Ok c' :: (fl, 'e) outcome)"
  shows "fl_le c' c"
proof (cases "fitting pts b'")
  case Nil
  then have "\<not> fl_le (cp_eps z) b" if "z \<in> set pts" for z
    using that assms(3) by (auto simp: filter_empty_conv dest: fl_le_trans)
  then have "fitting pts b = []" by (simp add: filter_empty_conv)
  then have "c' = c" using assms(4,5) Nil by (simp add: cost_for_budget_def)
  moreover obtain p ps where "pts = p # ps" using assms(1) by (cases pts) (auto simp: curve_valid_def)
  then have "c = cp_cost p" "cp_cost p \<noteq> NaN"
    using assms(1,4) \<open>fitting pts b = []\<close> curve_head [of p ps] by (auto simp: cost_for_budget_def curve_valid_def)
  ultimately show ?thesis by simp
next
  case (Cons q' qs')
  let ?m' = "max_by cp_eps q' qs'"
  have c': "c' = cp_cost ?m'" using assms(5) Cons by (simp add: cost_for_budget_def)
  note m' = fitting_pick [OF assms(1) Cons]
  show ?thesis
  proof (cases "fitting pts b")
    case Nil
    obtain p ps where pts: "pts = p # ps" using assms(1) by (cases pts) (auto simp: curve_valid_def)
    note head = curve_head [OF assms(1) [unfolded pts], folded pts]
    have c: "c = cp_cost p" using assms(4) Nil pts head by (simp add: cost_for_budget_def)
    have p: "p \<in> set pts" using pts by simp
    have same: "p = ?m'" if eq: "cp_eps p = cp_eps ?m'"
    proof -
      have "q' = p" using Cons m'(2) eq pts by simp
      moreover have "\<not> fl_lt (cp_eps q') (cp_eps z)" if "z \<in> set qs'" for z
      proof -
        have "z \<in> set (fitting pts b')" using that Cons by simp
        then have "z \<in> set pts" "fl_le (cp_eps z) b'" by (simp_all only: set_filter mem_Collect_eq)
        then have "fl_le (cp_eps z) (cp_eps q')" "cp_eps z \<noteq> NaN" "cp_eps q' \<noteq> NaN"
          using m'(3) eq \<open>q' = p\<close> assms(1) p by (auto simp: curve_valid_def)
        then show ?thesis by (simp add: fl_not_lt)
      qed
      ultimately show ?thesis by (simp add: max_by_stays)
    qed
    show ?thesis
      unfolding c c' by (rule costs_fall_step [OF assms(1,2) p m'(1) head(2) [OF m'(1)] same])
  next
    case F: (Cons q qs)
    let ?m = "max_by cp_eps q qs"
    have c: "c = cp_cost ?m" using assms(4) F by (simp add: cost_for_budget_def)
    note m = fitting_pick [OF assms(1) F]
    have le: "fl_le (cp_eps ?m) (cp_eps ?m')"
      using m'(3) [OF m(1)] m(2) assms(3) fl_le_trans by blast
    have same: "?m = ?m'" if eq: "cp_eps ?m = cp_eps ?m'"
    proof -
      have "fitting pts b = fitting pts b'"
        using m(2) m'(3) eq assms(3) fl_le_trans by (intro filter_cong) metis+
      then show ?thesis using F Cons by simp
    qed
    show ?thesis
      unfolding c c' by (rule costs_fall_step [OF assms(1,2) m(1) m'(1) le same])
  qed
qed

theorem cost_for_budget_antitone_witness:
  "fl_le (Fin 1) (Fin 9) \<and>
   cost_for_budget [\<lparr>cp_eps = Fin 0, cp_cost = Fin 9\<rparr>, \<lparr>cp_eps = Fin 2, cp_cost = Fin 1\<rparr>] (Fin 1)
     = (Ok (Fin 9) :: (fl, unit) outcome)"
proof -
  let ?pts = "[\<lparr>cp_eps = Fin 0, cp_cost = Fin 9\<rparr>, \<lparr>cp_eps = Fin 2, cp_cost = Fin 1\<rparr>]"
  have a: "cost_for_budget ?pts (Fin 1) = (Ok (Fin 9) :: (fl, unit) outcome)"
    and b: "cost_for_budget ?pts (Fin 3) = (Ok (Fin 1) :: (fl, unit) outcome)"
    by (simp_all add: cost_for_budget_def)
  have "fl_le (Fin 1) (Fin 9)"
    by (rule cost_for_budget_antitone [OF _ _ _ a b]) (simp_all add: curve_valid_def costs_fall_def)
  then show ?thesis using a by simp
qed

end
