(* ===== verification/Solver_Packs.thy ===== *)
theory Solver_Packs
  imports Solver_Registry
begin

text \<open>
  Discovery and composition of solver packs (\<open>solve/packs.py\<close>). An entry point is what
  loading it does and the version of its distribution; the loaded target is a function on
  the staging registry that may raise. \<open>pack_step\<close> is the body of the loop of
  \<open>load_solver_packs\<close>, split into its phases; the loop threads the registry, the owner
  table and the two result lists. The lemmas show that a skipped pack leaves the registry
  exactly as it was and what a loaded one adds.
\<close>

section \<open>Entry points and outcomes\<close>

type_synonym pack_target = "registry \<Rightarrow> string option \<times> registry"

datatype pack_load =
    LoadRaises string
  | LoadNotCallable string
  | LoadTarget pack_target

record entry_point =
  ep_name :: string
  ep_load :: pack_load
  ep_dist_version :: "string option"

record pack_info =
  pk_name :: string
  pk_version :: string

datatype pack_load_error =
    PackDuplicateSolverId string string string
  | PackNamespaceViolation string string string
  | PackMethodNamedSolverId string string string
  | PackRegisterRaised string string
  | PackMalformed string string
  | PackPortDeclarationFailed string string
  | PackRegistrationRejected string string string

record pack_state =
  ps_registry :: registry
  ps_owner_of :: "(string, string) dict"
  ps_loaded :: "pack_info list"
  ps_skipped :: "pack_load_error list"

section \<open>Vocabulary and namespaces\<close>

definition METHOD_WORDS :: "string list" where
  "METHOD_WORDS = [''fea'', ''ccx'', ''gmsh'', ''spice'', ''ngspice'']"

definition DEFAULT_STANDARD_NAMESPACES :: "string list" where
  "DEFAULT_STANDARD_NAMESPACES = [''mech'', ''elec'', ''fluids'', ''heat'']"

definition method_named_solver_violation :: "string \<Rightarrow> string option" where
  "method_named_solver_violation txt =
     (let lowered = str_lower txt in find (\<lambda>word. str_in word lowered) METHOD_WORDS)"

definition namespace_violation ::
  "string \<Rightarrow> string \<Rightarrow> string list \<Rightarrow> string list \<Rightarrow> string option" where
  "namespace_violation pack_name namespace standard reviewed =
     (if namespace = pack_name \<or> starts_with namespace (pack_name @ ''.'') then None
      else if namespace \<in> set reviewed then None
      else if list_ex (\<lambda>std. starts_with namespace (std @ ''.'' @ pack_name)) standard
      then None
      else Some namespace)"

definition load_target :: "entry_point \<Rightarrow> pack_load_error + pack_target" where
  "load_target ep =
     (case ep_load ep of
        LoadRaises exc \<Rightarrow> Inl (PackMalformed (ep_name ep) (''entry point load failed: '' @ exc))
      | LoadNotCallable target \<Rightarrow>
          Inl (PackMalformed (ep_name ep)
                 (''entry point target '' @ target @ '' is not callable''))
      | LoadTarget t \<Rightarrow> Inr t)"

definition pack_version :: "entry_point \<Rightarrow> string" where
  "pack_version ep =
     (case ep_dist_version ep of
        None \<Rightarrow> ''0'' | Some v \<Rightarrow> if v = [] then ''0'' else v)"

section \<open>Checking a staged pack\<close>

definition staged_info_violation ::
  "string \<Rightarrow> string list \<Rightarrow> string list \<Rightarrow> (string, string) dict \<Rightarrow> solver_info
   \<Rightarrow> pack_load_error option" where
  "staged_info_violation pack_name standard reviewed owner_of info =
     (case (case method_named_solver_violation (si_namespace info) of
              Some w \<Rightarrow> Some w
            | None \<Rightarrow> method_named_solver_violation (si_solver_id info)) of
        Some w \<Rightarrow> Some (PackMethodNamedSolverId pack_name (si_solver_id info) w)
      | None \<Rightarrow>
          (case namespace_violation pack_name (si_namespace info) standard reviewed of
             Some ns \<Rightarrow> Some (PackNamespaceViolation pack_name (si_solver_id info) ns)
           | None \<Rightarrow>
               (case dget owner_of (si_solver_id info) of
                  Some owner \<Rightarrow>
                    Some (PackDuplicateSolverId pack_name (si_solver_id info) owner)
                | None \<Rightarrow> None)))"

fun first_violation ::
  "(solver_info \<Rightarrow> pack_load_error option) \<Rightarrow> solver_pair list \<Rightarrow> pack_load_error option" where
  "first_violation chk [] = None"
| "first_violation chk (p # ps) =
     (case chk (fst p) of Some v \<Rightarrow> Some v | None \<Rightarrow> first_violation chk ps)"

section \<open>Replaying a clean stage\<close>

text \<open>
  The replay registers the staged solvers one by one; it yields the ids it landed and, if
  one was rejected, its id and error.
\<close>

fun replay ::
  "string \<Rightarrow> solver_pair list \<Rightarrow> registry \<Rightarrow> (string, string) dict \<Rightarrow> string list \<Rightarrow>
   (string \<times> registry_error) option \<times> registry \<times> (string, string) dict \<times> string list" where
  "replay pack_name [] r owner_of done_ids = (None, r, owner_of, done_ids)"
| "replay pack_name ((info, fn) # ps) r owner_of done_ids =
     (case register info fn r of
        (Err e, r') \<Rightarrow> (Some (si_solver_id info, e), r', owner_of, done_ids)
      | (_, r') \<Rightarrow>
          replay pack_name ps r' (dset (si_solver_id info) pack_name owner_of)
            (done_ids @ [si_solver_id info]))"

definition rollback_all :: "string list \<Rightarrow> port_decl list \<Rightarrow> registry \<Rightarrow> registry" where
  "rollback_all ids decls r =
     fold (\<lambda>d. rollback_port_decl (pd_name d)) decls (fold rollback_registration ids r)"

definition new_port_decls :: "registry \<Rightarrow> registry \<Rightarrow> port_decl list" where
  "new_port_decls base staging =
     map snd (filter (\<lambda>(name, decl). name \<notin> set (dkeys (port_table base)))
                (port_table staging))"

definition skip_pack :: "pack_load_error \<Rightarrow> pack_state \<Rightarrow> pack_state" where
  "skip_pack e st = st\<lparr>ps_skipped := ps_skipped st @ [e]\<rparr>"

text \<open>From a checked stage to the end of the loop body.\<close>

definition land_pack ::
  "(registry_error \<Rightarrow> string) \<Rightarrow> entry_point \<Rightarrow> registry \<Rightarrow> pack_state \<Rightarrow> pack_state" where
  "land_pack repr ep staging st =
     (let r = ps_registry st; new_ports = new_port_decls r staging in
      case (if new_ports = [] then (Ok (), r) else declare_ports new_ports r) of
        (Err e, r') \<Rightarrow>
          skip_pack (PackPortDeclarationFailed (ep_name ep) (repr e)) (st\<lparr>ps_registry := r'\<rparr>)
      | (_, r') \<Rightarrow>
          (case replay (ep_name ep) (registry_iter staging) r' (ps_owner_of st) [] of
             (Some (solver_id, e), r2, owner2, ids) \<Rightarrow>
               skip_pack (PackRegistrationRejected (ep_name ep) solver_id (repr e))
                 (st\<lparr>ps_registry := rollback_all ids new_ports r2,
                     ps_owner_of := fold dpop ids owner2\<rparr>)
           | (None, r2, owner2, ids) \<Rightarrow>
               st\<lparr>ps_registry := r2, ps_owner_of := owner2,
                  ps_loaded := ps_loaded st @
                    [\<lparr>pk_name = ep_name ep, pk_version = pack_version ep\<rparr>]\<rparr>))"

definition stage_registry :: "registry \<Rightarrow> (registry, unit) outcome" where
  "stage_registry r =
     (let base_ports = dvals (port_table r) in
      if base_ports = [] then Ok registry_new
      else (case declare_ports base_ports registry_new of
              (Ok _, staging) \<Rightarrow> Ok staging
            | _ \<Rightarrow> Raise AssertionError))"

definition pack_step ::
  "(registry_error \<Rightarrow> string) \<Rightarrow> string list \<Rightarrow> string list \<Rightarrow> entry_point \<Rightarrow> pack_state
   \<Rightarrow> (pack_state, unit) outcome" where
  "pack_step repr standard reviewed ep st =
     (case load_target ep of
        Inl e \<Rightarrow> Ok (skip_pack e st)
      | Inr target \<Rightarrow>
          obind (stage_registry (ps_registry st)) (\<lambda>staging0.
            (case target staging0 of
               (Some exc, _) \<Rightarrow>
                 Ok (skip_pack (PackRegisterRaised (ep_name ep)
                                  (''register() raised: '' @ exc)) st)
             | (None, staging) \<Rightarrow>
                 (case first_violation
                         (staged_info_violation (ep_name ep) standard reviewed
                            (ps_owner_of st))
                         (registry_iter staging) of
                    Some v \<Rightarrow> Ok (skip_pack v st)
                  | None \<Rightarrow> Ok (land_pack repr ep staging st)))))"

fun pack_loop ::
  "(registry_error \<Rightarrow> string) \<Rightarrow> string list \<Rightarrow> string list \<Rightarrow> entry_point list \<Rightarrow> pack_state
   \<Rightarrow> (pack_state, unit) outcome" where
  "pack_loop repr standard reviewed [] st = Ok st"
| "pack_loop repr standard reviewed (ep # eps) st =
     obind (pack_step repr standard reviewed ep st) (pack_loop repr standard reviewed eps)"

definition load_solver_packs ::
  "(registry_error \<Rightarrow> string) \<Rightarrow> string list \<Rightarrow> string list \<Rightarrow> entry_point list \<Rightarrow> registry
   \<Rightarrow> (pack_state, unit) outcome" where
  "load_solver_packs repr standard reviewed discovered r =
     pack_loop repr standard reviewed (sort_key ep_name discovered)
       \<lparr>ps_registry = r,
        ps_owner_of = dict_of (map (\<lambda>p. (pair_id p, ''<builtin>'')) (registry_iter r)),
        ps_loaded = [], ps_skipped = []\<rparr>"

text \<open>The pairs are sorted as tuples: by name, then by version.\<close>

definition pack_composition_digest ::
  "(json \<Rightarrow> string) \<Rightarrow> (json \<Rightarrow> string) \<Rightarrow> string \<Rightarrow> pack_info list \<Rightarrow> string" where
  "pack_composition_digest H dumps base_digest loaded =
     canonical_digest H dumps
       (PyMap [(''base'', PyStr base_digest),
               (''packs'',
                PySeq (map (\<lambda>p. PySeq [PyStr (pk_name p), PyStr (pk_version p)])
                         (sort_key pk_name (sort_key pk_version loaded))))])"

section \<open>Staging\<close>

definition target_ok :: "pack_target \<Rightarrow> bool" where
  "target_ok t \<longleftrightarrow> (\<forall>r. registry_ok r \<longrightarrow> registry_ok (snd (t r)))"

definition entry_point_ok :: "entry_point \<Rightarrow> bool" where
  "entry_point_ok ep \<longleftrightarrow> (\<forall>t. ep_load ep = LoadTarget t \<longrightarrow> target_ok t)"

definition pack_inv :: "pack_state \<Rightarrow> bool" where
  "pack_inv st \<longleftrightarrow>
     registry_ok (ps_registry st) \<and> dict_ok (ps_owner_of st) \<and>
     fst ` set (ps_owner_of st) = fst ` set (rg_solvers (ps_registry st))"

lemma ports_ok_names:
  "ports_ok p \<Longrightarrow> map pd_name (map snd p) = map fst p"
  "ports_ok p \<Longrightarrow> map (\<lambda>d. (pd_name d, d)) (map snd p) = p"
  by (auto simp: ports_ok_def intro!: map_idI)

lemma stage_registry_Ok:
  assumes "registry_ok r"
  shows "\<exists>s. stage_registry r = Ok s \<and> registry_ok s \<and> rg_ports s = rg_ports r \<and>
             rg_solvers s = [] \<and> \<not> rg_frozen s"
proof (cases "rg_ports r = []")
  case True
  have "registry_ok registry_new" by simp
  with True show ?thesis
    by (simp add: stage_registry_def port_table_def dvals_def registry_new_def)
next
  case False
  let ?ds = "dvals (rg_ports r)"
  have p: "ports_ok (rg_ports r)" using assms by (simp add: registry_ok_def)
  then have "distinct (map pd_name ?ds)"
    unfolding dvals_def ports_ok_names(1) [OF p] by (simp add: ports_ok_def dict_ok_def)
  moreover have "\<forall>d \<in> set ?ds. decl_ok d" using p by (auto simp: ports_ok_def dvals_def)
  ultimately have ok: "fst (declare_loop ?ds []) = Ok ()"
    by (simp add: declare_loop_Ok_iff dhas_def)
  then have st: "declare_loop ?ds [] = (Ok (), rg_ports r)"
    using declare_loop_Ok_ports [OF ok] ports_ok_names(2) [OF p]
    by (simp add: prod_eq_iff dvals_def)
  have "?ds \<noteq> []" using False by (simp add: dvals_def)
  then have "stage_registry r = Ok (registry_new\<lparr>rg_ports := rg_ports r\<rparr>)"
    using st by (simp add: stage_registry_def port_table_def declare_ports_def registry_new_def)
  moreover have "registry_ok (registry_new\<lparr>rg_ports := rg_ports r\<rparr>)"
    using p by (simp add: registry_ok_def registry_new_def solvers_ok_def)
  ultimately show ?thesis
    by (intro exI [of _ "registry_new\<lparr>rg_ports := rg_ports r\<rparr>"]) (simp add: registry_new_def)
qed

section \<open>Landing\<close>

lemma new_port_decls_ok:
  assumes "registry_ok r" "registry_ok s"
  shows "distinct (map pd_name (new_port_decls r s))"
    "d \<in> set (new_port_decls r s) \<Longrightarrow> \<not> dhas (rg_ports r) (pd_name d) \<and> decl_ok d"
proof -
  let ?new = "filter (\<lambda>(name, decl). name \<notin> set (dkeys (rg_ports r))) (rg_ports s)"
  have p: "ports_ok (rg_ports s)" using assms by (simp add: registry_ok_def)
  then have "ports_ok ?new"
    by (auto simp: ports_ok_def dict_ok_def intro: distinct_map_filter)
  then have "map pd_name (new_port_decls r s) = map fst ?new"
    using ports_ok_names(1) by (simp add: new_port_decls_def port_table_def)
  moreover have "distinct (map fst ?new)"
    using \<open>ports_ok ?new\<close> by (simp add: ports_ok_def dict_ok_def)
  ultimately show "distinct (map pd_name (new_port_decls r s))" by simp
  show "d \<in> set (new_port_decls r s) \<Longrightarrow> \<not> dhas (rg_ports r) (pd_name d) \<and> decl_ok d"
  proof -
    assume "d \<in> set (new_port_decls r s)"
    then obtain n where n: "(n, d) \<in> set (rg_ports s)" "n \<notin> fst ` set (rg_ports r)"
      by (auto simp: new_port_decls_def port_table_def)
    then have "n = pd_name d" "decl_ok d" using p by (auto simp: ports_ok_def)
    with n show "\<not> dhas (rg_ports r) (pd_name d) \<and> decl_ok d" by (simp add: dict_simps)
  qed
qed

definition decl_entries :: "port_decl list \<Rightarrow> (string, port_decl) dict" where
  "decl_entries ds = map (\<lambda>d. (pd_name d, d)) ds"

lemma land_declare:
  assumes "registry_ok r" "registry_ok s" "\<not> rg_frozen r"
  shows "(if new_port_decls r s = [] then (Ok (), r) else declare_ports (new_port_decls r s) r)
         = (Ok (), r\<lparr>rg_ports := rg_ports r @ decl_entries (new_port_decls r s)\<rparr>)"
proof -
  have ok: "fst (declare_loop (new_port_decls r s) (rg_ports r)) = Ok ()"
    using new_port_decls_ok [OF assms(1,2)] by (simp add: declare_loop_Ok_iff)
  then have "declare_loop (new_port_decls r s) (rg_ports r) =
      (Ok (), rg_ports r @ decl_entries (new_port_decls r s))"
    using declare_loop_Ok_ports [OF ok] by (simp add: prod_eq_iff decl_entries_def)
  then show ?thesis using assms(3) by (simp add: declare_ports_def decl_entries_def)
qed

text \<open>The replay appends a prefix of the staged solvers, all of them if it succeeds.\<close>

lemma replay_shape:
  assumes "replay pack ps r own done_ids = (res, r2, own2, ids)"
    and "\<And>p. p \<in> set ps \<Longrightarrow> \<not> dhas own (pair_id p)" "distinct (map pair_id ps)"
  shows "\<exists>taken rest. ps = taken @ rest \<and> (res = None \<longleftrightarrow> rest = []) \<and>
           ids = done_ids @ map pair_id taken \<and>
           r2 = r\<lparr>rg_solvers := rg_solvers r @ map entry_of taken\<rparr> \<and>
           own2 = own @ map (\<lambda>p. (pair_id p, pack)) taken \<and>
           (\<forall>p \<in> set taken. registrable r p)"
  using assms
proof (induction ps arbitrary: r own done_ids)
  case Nil
  then show ?case by simp
next
  case (Cons p ps)
  obtain info fn where p: "p = (info, fn)" by (cases p)
  show ?case
  proof (cases "registrable r p")
    case False
    then obtain e where "register info fn r = (Err e, r)"
      using register_not_registrable p by blast
    then show ?thesis using Cons.prems(1) p by (intro exI [of _ "[]"] exI [of _ "p # ps"]) auto
  next
    case True
    let ?r = "r\<lparr>rg_solvers := rg_solvers r @ [entry_of p]\<rparr>"
    let ?own = "own @ [(pair_id p, pack)]"
    have "dset (pair_id p) pack own = ?own"
      using Cons.prems(2) [of p] by (simp add: dset_mset_fresh)
    then have "replay pack ps ?r ?own (done_ids @ [pair_id p]) = (res, r2, own2, ids)"
      using Cons.prems(1) True p by (simp add: register_registrable)
    moreover have "\<not> dhas ?own (pair_id q)" if q: "q \<in> set ps" for q
    proof -
      have "pair_id q \<in> set (map pair_id ps)" using q by (simp only: set_map) (rule imageI)
      moreover have "pair_id p \<notin> set (map pair_id ps)" using Cons.prems(3) unfolding list.map distinct.simps by blast
      ultimately have "pair_id q \<noteq> pair_id p" by metis
      moreover have "\<not> dhas own (pair_id q)" using Cons.prems(2) [of q] q by simp
      ultimately show ?thesis by (simp add: dhas_def)
    qed
    moreover have "distinct (map pair_id ps)" using Cons.prems(3) by simp
    ultimately obtain taken rest where t: "ps = taken @ rest" "res = None \<longleftrightarrow> rest = []"
      "ids = (done_ids @ [pair_id p]) @ map pair_id taken"
      "r2 = ?r\<lparr>rg_solvers := rg_solvers ?r @ map entry_of taken\<rparr>"
      "own2 = ?own @ map (\<lambda>p. (pair_id p, pack)) taken"
      "\<forall>q \<in> set taken. registrable ?r q"
      using Cons.IH by blast
    have "\<forall>q \<in> set (p # taken). registrable r q"
      using t(6) True by (simp only: registrable_after set_simps ball_simps) blast
    with t(1-5) show ?thesis
      by (intro exI [of _ "p # taken"] exI [of _ rest]) simp
  qed
qed

lemma fold_rollback_registration:
  "fold rollback_registration ids r = r\<lparr>rg_solvers := fold dpop ids (rg_solvers r)\<rparr>"
  by (induction ids arbitrary: r) (simp_all add: rollback_registration_def)

lemma fold_rollback_port_decl:
  "fold (\<lambda>d. rollback_port_decl (pd_name d)) ds r =
     r\<lparr>rg_ports := fold dpop (map pd_name ds) (rg_ports r)\<rparr>"
  by (induction ds arbitrary: r) (simp_all add: rollback_port_decl_def)

lemma fold_dpop_append:
  assumes "fst ` set d \<inter> set ks = {}" "fst ` set e \<subseteq> set ks"
  shows "fold dpop ks (d @ e) = d"
proof -
  have "filter (\<lambda>p. fst p \<notin> set ks) d = d" using assms(1) by (intro filter_True) auto
  moreover have "filter (\<lambda>p. fst p \<notin> set ks) e = []" using assms(2) by (intro filter_False) auto
  ultimately show ?thesis by (simp add: fold_dpop)
qed

lemma rollback_restores:
  assumes "\<And>p. p \<in> set taken \<Longrightarrow> \<not> dhas (rg_solvers r) (pair_id p)"
    "\<And>d. d \<in> set ds \<Longrightarrow> \<not> dhas (rg_ports r) (pd_name d)"
  shows "rollback_all (map pair_id taken) ds
           (r\<lparr>rg_ports := rg_ports r @ decl_entries ds,
              rg_solvers := rg_solvers r @ map entry_of taken\<rparr>) = r"
proof -
  have "fold dpop (map pair_id taken) (rg_solvers r @ map entry_of taken) = rg_solvers r"
  proof (rule fold_dpop_append)
    show "fst ` set (rg_solvers r) \<inter> set (map pair_id taken) = {}"
      unfolding set_map no_key_iff using assms(1) by blast
    show "fst ` set (map entry_of taken) \<subseteq> set (map pair_id taken)"
      unfolding set_map entry_of_def by force
  qed
  moreover have "fold dpop (map pd_name ds) (rg_ports r @ decl_entries ds) = rg_ports r"
  proof (rule fold_dpop_append)
    show "fst ` set (rg_ports r) \<inter> set (map pd_name ds) = {}"
      unfolding set_map no_key_iff using assms(2) by blast
    show "fst ` set (decl_entries ds) \<subseteq> set (map pd_name ds)"
      unfolding set_map decl_entries_def by force
  qed
  ultimately show ?thesis
    by (simp add: rollback_all_def fold_rollback_registration fold_rollback_port_decl)
qed

section \<open>One pack\<close>

text \<open>What landing a pack adds: its new ports and its solvers, owned by the pack.\<close>

definition landed :: "entry_point \<Rightarrow> registry \<Rightarrow> pack_state \<Rightarrow> pack_state" where
  "landed ep staging st =
     (let r = ps_registry st in
      st\<lparr>ps_registry := r\<lparr>rg_ports := rg_ports r @ decl_entries (new_port_decls r staging),
                          rg_solvers := rg_solvers r @ map entry_of (registry_iter staging)\<rparr>,
         ps_owner_of := ps_owner_of st @ map (\<lambda>p. (pair_id p, ep_name ep)) (registry_iter staging),
         ps_loaded := ps_loaded st @ [\<lparr>pk_name = ep_name ep, pk_version = pack_version ep\<rparr>]\<rparr>)"

lemma first_violation_None:
  "first_violation chk ps = None \<longleftrightarrow> (\<forall>p \<in> set ps. chk (fst p) = None)"
  by (induction ps) (auto split: option.splits)

lemma staged_clean_unowned:
  "staged_info_violation n std rvw own info = None \<Longrightarrow> \<not> dhas own (si_solver_id info)"
  by (auto simp: staged_info_violation_def dhas_def split: option.splits)

lemma replay_frozen:
  assumes "rg_frozen r"
  shows "replay n ps r own ids =
     (case ps of [] \<Rightarrow> (None, r, own, ids) | p # _ \<Rightarrow> (Some (pair_id p, Frozen), r, own, ids))"
  using assms by (cases ps) (auto simp: register_def)

lemma fold_dpop_owners:
  assumes "\<And>p. p \<in> set taken \<Longrightarrow> \<not> dhas own (pair_id p)"
  shows "fold dpop (map pair_id taken) (own @ map (\<lambda>p. (pair_id p, n)) taken) = own"
proof (rule fold_dpop_append)
  show "fst ` set own \<inter> set (map pair_id taken) = {}"
    unfolding set_map no_key_iff using assms by blast
  show "fst ` set (map (\<lambda>p. (pair_id p, n)) taken) \<subseteq> set (map pair_id taken)"
    unfolding set_map by force
qed

lemma land_pack_shape:
  assumes inv: "pack_inv st" and s: "registry_ok staging"
    and clean: "\<And>p. p \<in> set (registry_iter staging) \<Longrightarrow> \<not> dhas (ps_owner_of st) (pair_id p)"
  shows "(\<exists>e. land_pack repr ep staging st = skip_pack e st) \<or>
         (land_pack repr ep staging st = landed ep staging st \<and>
          (\<forall>p \<in> set (registry_iter staging). info_ok (fst p)))"
proof -
  let ?r = "ps_registry st" and ?ps = "registry_iter staging"
  let ?new = "new_port_decls ?r staging"
  let ?r1 = "?r\<lparr>rg_ports := rg_ports ?r @ decl_entries ?new\<rparr>"
  have r: "registry_ok ?r" using inv by (simp add: pack_inv_def)
  have owners: "dhas (ps_owner_of st) k \<longleftrightarrow> dhas (rg_solvers ?r) k" for k
    using inv by (simp add: pack_inv_def dict_simps)
  have dist: "distinct (map pair_id ?ps)" using s by (rule registry_source.ids_distinct)
  show ?thesis
  proof (cases "rg_frozen ?r")
    case True
    have "land_pack repr ep staging st = landed ep staging st" if "?new = []" "?ps = []"
      using True that
      by (simp add: land_pack_def landed_def replay_frozen decl_entries_def)
    moreover have "\<exists>e. land_pack repr ep staging st = skip_pack e st" if "?new \<noteq> []"
      using True that by (auto simp: land_pack_def declare_ports_def)
    moreover have "\<exists>e. land_pack repr ep staging st = skip_pack e st"
      if n: "?new = []" and ne: "?ps \<noteq> []"
    proof -
      obtain q qs where "?ps = q # qs" using ne by (cases ?ps) auto
      then show ?thesis
        using True n
        by (auto simp: land_pack_def replay_frozen rollback_all_def)
    qed
    ultimately show ?thesis by (cases ?ps) auto
  next
    case False
    note dec = land_declare [OF r s False]
    obtain res r2 own2 ids where rep:
      "replay (ep_name ep) ?ps ?r1 (ps_owner_of st) [] = (res, r2, own2, ids)"
      using prod_cases4 by blast
    obtain taken rest where t: "?ps = taken @ rest" "res = None \<longleftrightarrow> rest = []"
      "ids = [] @ map pair_id taken"
      "r2 = ?r1\<lparr>rg_solvers := rg_solvers ?r1 @ map entry_of taken\<rparr>"
      "own2 = ps_owner_of st @ map (\<lambda>p. (pair_id p, ep_name ep)) taken"
      "\<forall>p \<in> set taken. registrable ?r1 p"
      using replay_shape [OF rep clean dist] by blast
    show ?thesis
    proof (cases res)
      case None
      then have "taken = ?ps" using t(1,2) by simp
      moreover have "land_pack repr ep staging st =
          st\<lparr>ps_registry := r2, ps_owner_of := own2,
             ps_loaded := ps_loaded st @ [\<lparr>pk_name = ep_name ep, pk_version = pack_version ep\<rparr>]\<rparr>"
        using dec rep None by (simp add: land_pack_def Let_def)
      ultimately show ?thesis using t by (auto simp: landed_def Let_def registrable_def)
    next
      case (Some x)
      obtain sid e where x: "x = (sid, e)" by (cases x)
      have fresh: "\<not> dhas (ps_owner_of st) (pair_id p)" if "p \<in> set taken" for p
        using clean t(1) that by simp
      have "land_pack repr ep staging st =
          skip_pack (PackRegistrationRejected (ep_name ep) sid (repr e))
            (st\<lparr>ps_registry := rollback_all ids ?new r2, ps_owner_of := fold dpop ids own2\<rparr>)"
        using dec rep Some x by (simp add: land_pack_def Let_def)
      moreover have "rollback_all ids ?new r2 = ?r"
        using rollback_restores [of taken ?r ?new] fresh owners new_port_decls_ok(2) [OF r s] t(3,4)
        by simp
      moreover have "fold dpop ids own2 = ps_owner_of st"
        using fold_dpop_owners [of taken "ps_owner_of st"] fresh t(3,5) by simp
      ultimately show ?thesis by auto
    qed
  qed
qed

lemma landed_inv:
  assumes inv: "pack_inv st" and s: "registry_ok staging"
    and clean: "\<And>p. p \<in> set (registry_iter staging) \<Longrightarrow> \<not> dhas (ps_owner_of st) (pair_id p)"
    and ok: "\<forall>p \<in> set (registry_iter staging). info_ok (fst p)"
  shows "pack_inv (landed ep staging st)"
proof -
  let ?r = "ps_registry st" and ?ps = "registry_iter staging"
  let ?new = "new_port_decls ?r staging"
  have r: "registry_ok ?r" using inv by (simp add: pack_inv_def)
  note new = new_port_decls_ok [OF r s]
  have dist: "distinct (map pair_id ?ps)" using s by (rule registry_source.ids_distinct)
  have ports: "ports_ok (rg_ports ?r @ decl_entries ?new)"
  proof -
    have "fst ` set (rg_ports ?r) \<inter> pd_name ` set ?new = {}"
      unfolding no_key_iff using new(2) by blast
    then show ?thesis
      using r new by (auto simp: registry_ok_def ports_ok_def dict_ok_def decl_entries_def comp_def)
  qed
  have disj: "fst ` set (ps_owner_of st) \<inter> pair_id ` set ?ps = {}"
    unfolding no_key_iff using clean by blast
  have entries: "map fst (map entry_of ?ps) = map pair_id ?ps" by (simp add: entry_of_def)
  have keys: "fst ` set (map entry_of ?ps) = pair_id ` set ?ps"
    by (metis entries set_map)
  have "solvers_ok (rg_solvers ?r @ map entry_of ?ps)"
  proof -
    have "distinct (map fst (rg_solvers ?r @ map entry_of ?ps))"
      using r dist disj inv entries keys
      by (simp add: registry_ok_def solvers_ok_def dict_ok_def pack_inv_def comp_def entry_of_def)
    moreover have "\<forall>(k, info, fn) \<in> set (map entry_of ?ps). k = si_solver_id info \<and> info_ok info"
      using ok by (auto simp: entry_of_def)
    ultimately show ?thesis using r by (auto simp: registry_ok_def solvers_ok_def dict_ok_def)
  qed
  moreover have "dict_ok (ps_owner_of st @ map (\<lambda>p. (pair_id p, ep_name ep)) ?ps)"
    using inv dist disj by (simp add: pack_inv_def dict_ok_def comp_def)
  ultimately show ?thesis
    using ports inv keys
    by (simp add: pack_inv_def landed_def Let_def registry_ok_def image_Un image_image)
qed

text \<open>
  The body of the loop on a consistent state: it never raises, and either records one
  skip and changes nothing else, or lands a checked stage.
\<close>

lemma pack_step_shape:
  assumes inv: "pack_inv st" and ep: "entry_point_ok ep"
  shows "(\<exists>e. pack_step repr standard reviewed ep st = Ok (skip_pack e st)) \<or>
         (\<exists>staging. pack_step repr standard reviewed ep st = Ok (landed ep staging st) \<and>
            registry_ok staging \<and> pack_inv (landed ep staging st) \<and>
            (\<forall>p \<in> set (registry_iter staging).
               info_ok (fst p) \<and>
               staged_info_violation (ep_name ep) standard reviewed (ps_owner_of st) (fst p) = None))"
proof (cases "load_target ep")
  case (Inl e)
  then have "pack_step repr standard reviewed ep st = Ok (skip_pack e st)"
    by (simp add: pack_step_def)
  then show ?thesis by blast
next
  case (Inr target)
  then have t: "target_ok target"
    using ep by (auto simp: load_target_def entry_point_ok_def split: pack_load.splits)
  obtain s0 where s0: "stage_registry (ps_registry st) = Ok s0" "registry_ok s0"
    using stage_registry_Ok inv by (metis pack_inv_def)
  obtain res s where s: "target s0 = (res, s)" by fastforce
  then have sok: "registry_ok s" using t s0(2) by (metis snd_conv target_ok_def)
  let ?chk = "staged_info_violation (ep_name ep) standard reviewed (ps_owner_of st)"
  show ?thesis
  proof (cases "res = None \<and> first_violation ?chk (registry_iter s) = None")
    case False
    then show ?thesis using Inr s0 s by (cases res) (auto simp: pack_step_def)
  next
    case True
    then have chk: "\<forall>p \<in> set (registry_iter s). ?chk (fst p) = None"
      by (simp add: first_violation_None)
    have step: "pack_step repr standard reviewed ep st = Ok (land_pack repr ep s st)"
      using Inr s0 s True by (simp add: pack_step_def)
    have clean: "\<And>p. p \<in> set (registry_iter s) \<Longrightarrow> \<not> dhas (ps_owner_of st) (pair_id p)"
      using chk staged_clean_unowned by blast
    from land_pack_shape [OF inv sok clean, of repr ep] show ?thesis
      using step sok chk landed_inv [OF inv sok clean] by metis
  qed
qed

lemma pack_inv_skip [simp]: "pack_inv (skip_pack e st) = pack_inv st"
  by (simp add: pack_inv_def skip_pack_def)

text \<open>An invariant of the steps is an invariant of the loop.\<close>

lemma pack_loop_induct:
  assumes "pack_inv st" "\<forall>ep \<in> set eps. entry_point_ok ep" "P st"
    and skip: "\<And>e st. pack_inv st \<Longrightarrow> P st \<Longrightarrow> P (skip_pack e st)"
    and land: "\<And>ep s st. \<lbrakk>pack_inv st; P st; ep \<in> set eps; registry_ok s;
       pack_inv (landed ep s st);
       \<forall>p \<in> set (registry_iter s). info_ok (fst p) \<and>
          staged_info_violation (ep_name ep) standard reviewed (ps_owner_of st) (fst p) = None\<rbrakk>
       \<Longrightarrow> P (landed ep s st)"
  shows "\<exists>st'. pack_loop repr standard reviewed eps st = Ok st' \<and> pack_inv st' \<and> P st'"
  using assms
proof (induction eps arbitrary: st)
  case Nil
  then show ?case by simp
next
  case (Cons ep eps)
  obtain st1 where st1: "pack_step repr standard reviewed ep st = Ok st1" "pack_inv st1" "P st1"
    using pack_step_shape [OF Cons.prems(1), of ep repr standard reviewed] Cons.prems
    by (metis list.set_intros(1) pack_inv_skip)
  have "\<exists>st'. pack_loop repr standard reviewed eps st1 = Ok st' \<and> pack_inv st' \<and> P st'"
    by (rule Cons.IH) (use st1 Cons.prems in \<open>auto intro: Cons.prems(5)\<close>)
  then show ?case using st1(1) by simp
qed

lemma pack_inv_start:
  assumes "registry_ok r"
  shows "pack_inv \<lparr>ps_registry = r,
           ps_owner_of = dict_of (map (\<lambda>p. (pair_id p, ''<builtin>'')) (registry_iter r)),
           ps_loaded = [], ps_skipped = []\<rparr>"
proof -
  let ?own = "map (\<lambda>p. (pair_id p, ''<builtin>'')) (registry_iter r)"
  have "dict_ok ?own"
    using registry_source.ids_distinct [OF assms] by (simp add: dict_ok_def comp_def)
  then have "dict_of ?own = ?own" by (rule dict_of_id)
  moreover have "fst ` set ?own = fst ` set (rg_solvers r)"
    using arg_cong [OF registry_iter_ids [OF assms], of set]
    by (simp add: image_image)
  ultimately show ?thesis using assms \<open>dict_ok ?own\<close> by (simp add: pack_inv_def)
qed

end
