(* ===== verification/Samples.thy ===== *)
theory Samples
  imports Solver_Registry
begin

text \<open>
  Small concrete solvers the witnesses run: \<open>gain_pair i p q k\<close> computes port \<open>q\<close> as \<open>k\<close>
  times port \<open>p\<close>, exactly, on the box \<open>[0, 10]\<close>.
\<close>

definition gain_info :: "string \<Rightarrow> string \<Rightarrow> string \<Rightarrow> solver_info" where
  "gain_info i p q =
     \<lparr>si_solver_id = i, si_namespace = ''demo'', si_version = ''1'', si_inputs = [p],
      si_outputs = [q],
      si_domain = \<lparr>d_box = [(p, \<lparr>iv_lo = 0, iv_hi = 10\<rparr>)], d_tags = []\<rparr>,
      si_cost = Fin 1, si_accuracy = [(q, EXACT)],
      si_citations = [\<lparr>ct_kind = ''paper'', ct_ref = ''r'', ct_note = []\<rparr>],
      si_tier = ''closed_form'', si_deterministic = True, si_corner_monotone = True,
      si_conservative_for = BOTH, si_settings_digest = [], si_eps_seeking = False,
      si_cost_curve = None, si_algebraic_form = None, si_solved_for = None, si_branch = None,
      si_admission_predicate = None, si_derivation_digest = None, si_law_lhs = None,
      si_law_rhs = None\<rparr>"

definition gain_fn :: "string \<Rightarrow> string \<Rightarrow> real \<Rightarrow> solve_fn" where
  "gain_fn p q k =
     wrap_solve_fn (\<lambda>x eps.
        case dget x p of
          Some (VFloat (Fin v)) \<Rightarrow> RetBare (RVMap [(q, Fin (k * v))])
        | _ \<Rightarrow> RetErr (NonFinite p)) [q] False"

definition gain_pair :: "string \<Rightarrow> string \<Rightarrow> string \<Rightarrow> real \<Rightarrow> solver_pair" where
  "gain_pair i p q k = (gain_info i p q, gain_fn p q k)"

lemma gain_info_ok: "info_ok (gain_info i p q)"
  by (simp add: info_ok_def gain_info_def dkeys_def)

lemma gain_id [simp]: "pair_id (gain_pair i p q k) = i" "si_solver_id (gain_info i p q) = i"
  by (simp_all add: gain_pair_def gain_info_def)

lemma gain_registrable:
  "rg_frozen r = False \<Longrightarrow> \<not> dhas (rg_solvers r) i \<Longrightarrow> rg_ports r = [] \<Longrightarrow>
   registrable r (gain_pair i p q k)"
  by (simp add: registrable_def gain_pair_def gain_info_ok)

text \<open>A registry with one such solver.\<close>

definition gain_registry :: "real \<Rightarrow> registry" where
  "gain_registry k =
     \<lparr>rg_solvers = [(''demo.gain'', gain_pair ''demo.gain'' ''x'' ''y'' k)], rg_ports = [],
      rg_frozen = True\<rparr>"

lemma gain_registry_ok: "registry_ok (gain_registry k)"
  by (simp add: registry_ok_def gain_registry_def solvers_ok_def ports_ok_def gain_pair_def
      gain_info_ok dict_ok_def)

lemma gain_registry_iter [simp]:
  "registry_iter (gain_registry k) = [gain_pair ''demo.gain'' ''x'' ''y'' k]"
  by (simp add: registry_iter_def gain_registry_def dsorted_def)

end
