(* ===== verification/Registry_Properties.thy ===== *)
theory Registry_Properties
  imports Solver_Packs Samples
begin

text \<open>
  Properties of the registry and of the composition of solver packs.
\<close>

section \<open>The registry\<close>

text \<open>C28: every registry reached from an empty one by any sequence of operations is
  well-formed: ids and port names are unique and are those of their entries, every solver
  has a positive or NaN cost, an accuracy for exactly its outputs and a non-calibration
  citation, and every payload port has a known kind.\<close>

theorem reachable_registry_ok: "registry_ok (run_registry ops registry_new)"
  by (rule run_registry_ok) simp

text \<open>C27: \<open>register\<close> succeeds exactly when the registry is open, the id is new, the metadata is
  well-formed and, once ports are declared, every port it touches is declared; it then adds
  exactly this pair, and a failing call changes nothing and never raises.\<close>

theorem register_exact:
  "if \<not> rg_frozen r \<and> \<not> dhas (rg_solvers r) (si_solver_id info) \<and> info_ok info \<and>
      (rg_ports r = [] \<or> set (touched_ports info) \<subseteq> fst ` set (rg_ports r))
   then register info fn r =
     (Ok (), r\<lparr>rg_solvers := rg_solvers r @ [(si_solver_id info, info, fn)]\<rparr>)
   else \<exists>e. register info fn r = (Err e, r)"
proof (cases "registrable r (info, fn)")
  case True
  then show ?thesis
    using register_registrable [OF True] by (simp add: registrable_def entry_of_def)
next
  case False
  then obtain e where "register info fn r = (Err e, r)" using register_not_registrable by blast
  then show ?thesis using False by (auto simp: registrable_def)
qed

text \<open>\<open>declare_ports\<close> on an open registry always appends an initial segment of its
  declarations, in order; it succeeds exactly when the names are distinct and new and every
  payload kind is known, and then the segment is all of them.\<close>

theorem declare_ports_exact:
  assumes "\<not> rg_frozen r"
  shows "(fst (declare_ports ds r) = Ok () \<longleftrightarrow>
      distinct (map pd_name ds) \<and> list_all (\<lambda>d. \<not> dhas (rg_ports r) (pd_name d) \<and> decl_ok d) ds) \<and>
    (\<exists>es rest. ds = es @ rest \<and> (fst (declare_ports ds r) = Ok () \<longrightarrow> rest = []) \<and>
       snd (declare_ports ds r) = r\<lparr>rg_ports := rg_ports r @ map (\<lambda>d. (pd_name d, d)) es\<rparr>)"
proof -
  let ?l = "declare_loop ds (rg_ports r)"
  have d: "declare_ports ds r = (fst ?l, r\<lparr>rg_ports := snd ?l\<rparr>)"
    using assms by (simp add: declare_ports_def case_prod_beta)
  obtain es rest where es: "ds = es @ rest" "snd ?l = rg_ports r @ map (\<lambda>d. (pd_name d, d)) es"
    using declare_loop_prefix [of ds "rg_ports r"] by blast
  have "\<exists>es rest. ds = es @ rest \<and> (fst ?l = Ok () \<longrightarrow> rest = []) \<and>
      snd ?l = rg_ports r @ map (\<lambda>d. (pd_name d, d)) es"
  proof (cases "fst ?l = Ok ()")
    case True
    then show ?thesis using declare_loop_Ok_ports [OF True] by (intro exI [of _ ds] exI [of _ "[]"]) simp
  next
    case False
    then show ?thesis using es by blast
  qed
  then obtain es rest where e: "ds = es @ rest" "fst ?l = Ok () \<longrightarrow> rest = []"
    "snd ?l = rg_ports r @ map (\<lambda>d. (pd_name d, d)) es" by blast
  show ?thesis
    unfolding d fst_conv snd_conv declare_loop_Ok_iff [of ds "rg_ports r"] list_all_iff
    using e declare_loop_Ok_iff [of ds "rg_ports r"] by (intro conjI exI [of _ es] exI [of _ rest]) auto
qed

theorem declare_ports_exact_witness:
  "fst (declare_ports [\<lparr>pd_name = ''x'', pd_unit = ''m'', pd_rank = Scalar\<rparr>] registry_new) = Ok ()"
  using declare_ports_exact [of registry_new "[\<lparr>pd_name = ''x'', pd_unit = ''m'', pd_rank = Scalar\<rparr>]"]
  by (simp add: registry_new_def decl_ok_def dhas_def)

text \<open>C25: the order of registration does not show: registering the same directions in any order
  succeeds in the one case exactly as in the other, and gives the same iteration and the same
  registry digest.\<close>

theorem registration_order_free:
  assumes "registry_ok r" "fst (register_all ps r) = Ok ()" "mset qs = mset ps"
  shows "fst (register_all qs r) = Ok () \<and>
    registry_iter (snd (register_all qs r)) = registry_iter (snd (register_all ps r)) \<and>
    registry_digest H dumps (snd (register_all qs r)) = registry_digest H dumps (snd (register_all ps r))"
  using register_all_perm [OF assms]
  by (simp_all add: registry_iter_def registry_digest_def)

theorem registration_order_free_witness:
  "registry_iter (snd (register_all [gain_pair ''b'' ''x'' ''y'' 2, gain_pair ''a'' ''y'' ''z'' 3] registry_new)) =
   registry_iter (snd (register_all [gain_pair ''a'' ''y'' ''z'' 3, gain_pair ''b'' ''x'' ''y'' 2] registry_new))"
proof -
  have "registrable registry_new (gain_pair i p q k)" for i p q k
    by (rule gain_registrable) (simp_all add: registry_new_def dhas_def)
  then have "fst (register_all [gain_pair ''a'' ''y'' ''z'' 3, gain_pair ''b'' ''x'' ''y'' 2] registry_new) = Ok ()"
    by (simp add: register_all_Ok_iff)
  from registration_order_free [OF registry_ok_new this, of "[gain_pair ''b'' ''x'' ''y'' 2, gain_pair ''a'' ''y'' ''z'' 3]"]
  show ?thesis by simp
qed

text \<open>a frozen registry stays as it is under every public operation.\<close>

theorem frozen_unchanged:
  assumes "rg_frozen r" "\<forall>op \<in> set ops. \<forall>s. op \<noteq> DoRollbackSolver s \<and> op \<noteq> DoRollbackPort s"
  shows "run_registry ops r = r"
  using assms(2)
proof (induction ops)
  case (Cons op ops)
  have "registry_step op r = r"
    using Cons.prems assms(1)
    by (cases op) (auto simp: declare_ports_def register_def freeze_def)
  then show ?case using Cons by (simp add: run_registry_def)
qed (simp add: run_registry_def)

theorem frozen_unchanged_witness:
  "run_registry [DoDeclare [], DoRegister (gain_info ''a'' ''x'' ''y'') (gain_fn ''x'' ''y'' 2)]
     (gain_registry 2) = gain_registry 2"
  by (rule frozen_unchanged) (auto simp: gain_registry_def)

text \<open>\<open>get\<close> and iteration show the same registry: iteration lists each solver once, in
  ascending id order, and \<open>get\<close> finds exactly the pairs it lists.\<close>

theorem get_agrees_with_iter:
  assumes "registry_ok r"
  shows "sorted_wrt (<) (map pair_id (registry_iter r)) \<and>
    (\<forall>i p. registry_get r i = Some p \<longleftrightarrow> p \<in> set (registry_iter r) \<and> pair_id p = i)"
  using registry_source.ids_ascending [OF assms] registry_get_iter [OF assms] by auto

theorem get_agrees_with_iter_witness:
  "registry_get (gain_registry 2) ''demo.gain'' = Some (gain_pair ''demo.gain'' ''x'' ''y'' 2)"
proof -
  let ?p = "gain_pair ''demo.gain'' ''x'' ''y'' 2"
  have "?p \<in> set (registry_iter (gain_registry 2)) \<and> pair_id ?p = ''demo.gain''"
    unfolding gain_registry_iter by (simp only: list.set gain_id) blast
  then show ?thesis
    using get_agrees_with_iter [OF gain_registry_ok, THEN conjunct2, rule_format, THEN iffD2] by blast
qed

lemma info_ok_nan_cost: "info_ok info \<Longrightarrow> info_ok (info\<lparr>si_cost := NaN\<rparr>)"
  unfolding info_ok_def by simp

text \<open>a solver whose cost is not a number is registered: the test \<open>cost <= 0\<close> is false for it.\<close>

theorem nan_cost_registered:
  "fst (register ((gain_info ''demo.gain'' ''x'' ''y'')\<lparr>si_cost := NaN\<rparr>) fn registry_new) = Ok ()"
proof -
  let ?info = "(gain_info ''demo.gain'' ''x'' ''y'')\<lparr>si_cost := NaN\<rparr>"
  have ok: "info_ok ?info" by (rule info_ok_nan_cost [OF gain_info_ok])
  have "rg_frozen registry_new = False" "\<not> dhas (rg_solvers registry_new) i"
    "rg_ports registry_new = []" for i
    by (simp_all add: registry_new_def dhas_def)
  then show ?thesis unfolding register_Ok_iff using ok by blast
qed

section \<open>Solver packs\<close>

lemma pack_loop_count:
  assumes "pack_inv st" "\<forall>ep \<in> set eps. entry_point_ok ep" "pack_loop repr std rvw eps st = Ok st'"
  shows "length (ps_loaded st') + length (ps_skipped st') =
    length (ps_loaded st) + length (ps_skipped st) + length eps"
  using assms
proof (induction eps arbitrary: st)
  case (Cons ep eps)
  have shape: "\<exists>st1. pack_step repr std rvw ep st = Ok st1 \<and> pack_inv st1 \<and>
      length (ps_loaded st1) + length (ps_skipped st1) = Suc (length (ps_loaded st) + length (ps_skipped st))"
    using pack_step_shape [OF Cons.prems(1), of ep repr std rvw] Cons.prems(1,2)
    by (auto simp: skip_pack_def [of _ st] landed_def Let_def)
      (simp_all add: pack_inv_def)
  then obtain st1 where "pack_step repr std rvw ep st = Ok st1" "pack_inv st1"
    "length (ps_loaded st1) + length (ps_skipped st1) = Suc (length (ps_loaded st) + length (ps_skipped st))"
    by blast
  with Cons show ?case by simp
qed simp

text \<open>A solver that a pack named \<open>n\<close> may contribute.\<close>

definition pack_etiquette :: "string list \<Rightarrow> string list \<Rightarrow> string \<Rightarrow> solver_info \<Rightarrow> bool" where
  "pack_etiquette std rvw n info \<longleftrightarrow>
     method_named_solver_violation (si_namespace info) = None \<and>
     method_named_solver_violation (si_solver_id info) = None \<and>
     namespace_violation n (si_namespace info) std rvw = None"

lemma staged_clean_etiquette:
  "staged_info_violation n std rvw own info = None \<Longrightarrow> pack_etiquette std rvw n info"
  by (auto simp: staged_info_violation_def pack_etiquette_def split: option.splits)

definition grown_from :: "string list \<Rightarrow> string list \<Rightarrow> entry_point list \<Rightarrow> registry \<Rightarrow> pack_state \<Rightarrow> bool" where
  "grown_from std rvw eps r st \<longleftrightarrow>
     (\<exists>added ports. rg_solvers (ps_registry st) = rg_solvers r @ map entry_of added \<and>
        rg_ports (ps_registry st) = rg_ports r @ ports \<and>
        (\<forall>p \<in> set added. \<exists>ep \<in> set eps. pack_etiquette std rvw (ep_name ep) (fst p)))"

lemma packs_grow:
  assumes "registry_ok r" "\<forall>ep \<in> set eps. entry_point_ok ep"
  shows "\<exists>st. load_solver_packs repr std rvw eps r = Ok st \<and> pack_inv st \<and> grown_from std rvw eps r st \<and>
    length (ps_loaded st) + length (ps_skipped st) = length eps"
proof -
  let ?eps = "sort_key ep_name eps"
  let ?st = "\<lparr>ps_registry = r,
        ps_owner_of = dict_of (map (\<lambda>p. (pair_id p, ''<builtin>'')) (registry_iter r)),
        ps_loaded = [], ps_skipped = []\<rparr>"
  have inv: "pack_inv ?st" using assms(1) by (rule pack_inv_start)
  have eps: "\<forall>ep \<in> set ?eps. entry_point_ok ep" using assms(2) by simp
  have "\<exists>st'. pack_loop repr std rvw ?eps ?st = Ok st' \<and> pack_inv st' \<and> grown_from std rvw ?eps r st'"
  proof (rule pack_loop_induct [OF inv eps])
    show "grown_from std rvw ?eps r ?st"
      by (auto simp: grown_from_def intro: exI [of _ "[]"])
    show "grown_from std rvw ?eps r (skip_pack e st)" if "grown_from std rvw ?eps r st" for e st
      using that by (simp add: grown_from_def skip_pack_def)
    show "grown_from std rvw ?eps r (landed ep s st)"
      if a: "grown_from std rvw ?eps r st" "ep \<in> set ?eps"
        "\<forall>p \<in> set (registry_iter s). info_ok (fst p) \<and>
          staged_info_violation (ep_name ep) std rvw (ps_owner_of st) (fst p) = None" for ep s st
    proof -
      obtain added ports where g: "rg_solvers (ps_registry st) = rg_solvers r @ map entry_of added"
        "rg_ports (ps_registry st) = rg_ports r @ ports"
        "\<forall>p \<in> set added. \<exists>ep \<in> set ?eps. pack_etiquette std rvw (ep_name ep) (fst p)"
        using a(1) unfolding grown_from_def by blast
      have "\<forall>p \<in> set (added @ registry_iter s). \<exists>ep \<in> set ?eps. pack_etiquette std rvw (ep_name ep) (fst p)"
        using g(3) a(2,3) staged_clean_etiquette by (metis Un_iff set_append)
      then show ?thesis
        unfolding grown_from_def using g(1,2)
        by (intro exI [of _ "added @ registry_iter s"]
            exI [of _ "ports @ decl_entries (new_port_decls (ps_registry st) s)"])
          (simp add: landed_def Let_def)
    qed
  qed
  then obtain st where st: "pack_loop repr std rvw ?eps ?st = Ok st" "pack_inv st" "grown_from std rvw eps r st"
    by (auto simp: grown_from_def)
  moreover have "length (ps_loaded st) + length (ps_skipped st) = length eps"
    using pack_loop_count [OF inv eps st(1)] by simp
  ultimately show ?thesis by (simp add: load_solver_packs_def)
qed

text \<open>C16: loading packs into a well-formed registry never fails as a whole: each discovered entry
  point ends up loaded or skipped, the solvers and ports that were there keep their place
  untouched, and the registry stays well-formed.\<close>

theorem packs_total_and_additive:
  assumes "registry_ok r" "\<forall>ep \<in> set eps. entry_point_ok ep"
  shows "\<exists>st. load_solver_packs repr std rvw eps r = Ok st \<and> registry_ok (ps_registry st) \<and>
    prefix (rg_solvers r) (rg_solvers (ps_registry st)) \<and>
    prefix (rg_ports r) (rg_ports (ps_registry st)) \<and>
    length (ps_loaded st) + length (ps_skipped st) = length eps"
  using packs_grow [OF assms, of repr std rvw] by (auto simp: grown_from_def pack_inv_def)

theorem packs_total_and_additive_witness:
  "\<exists>st. load_solver_packs (\<lambda>_. []) DEFAULT_STANDARD_NAMESPACES []
     [\<lparr>ep_name = ''acme'', ep_load = LoadRaises ''boom'', ep_dist_version = None\<rparr>] (gain_registry 2) = Ok st \<and>
     prefix (rg_solvers (gain_registry 2)) (rg_solvers (ps_registry st))"
  using packs_total_and_additive [OF gain_registry_ok [of 2],
      where eps = "[\<lparr>ep_name = ''acme'', ep_load = LoadRaises ''boom'', ep_dist_version = None\<rparr>]"
        and repr = "\<lambda>_. []" and std = DEFAULT_STANDARD_NAMESPACES and rvw = "[]"]
  by (auto simp: entry_point_ok_def)

text \<open>every solver that pack loading adds keeps the etiquette of the pack that brought it:
  no method word in its namespace or id, and a namespace the pack may write to.\<close>

theorem packs_keep_etiquette:
  assumes "registry_ok r" "\<forall>ep \<in> set eps. entry_point_ok ep"
    "load_solver_packs repr std rvw eps r = Ok st"
    "(sid, info, fn) \<in> set (rg_solvers (ps_registry st))" "\<not> dhas (rg_solvers r) sid"
  shows "\<exists>ep \<in> set eps. pack_etiquette std rvw (ep_name ep) info \<and> si_solver_id info = sid"
proof -
  obtain added where a: "rg_solvers (ps_registry st) = rg_solvers r @ map entry_of added"
    "\<forall>p \<in> set added. \<exists>ep \<in> set eps. pack_etiquette std rvw (ep_name ep) (fst p)"
    using packs_grow [OF assms(1,2), of repr std rvw] assms(3) by (auto simp: grown_from_def)
  have "(sid, info, fn) \<notin> set (rg_solvers r)" using assms(5) by (force simp: dict_simps)
  then have "(sid, info, fn) \<in> entry_of ` set added" using assms(4) a(1) by simp
  then have "(info, fn) \<in> set added" "si_solver_id info = sid" by (auto simp: entry_of_def)
  then show ?thesis using a(2) by fastforce
qed

definition demo_pack :: entry_point where
  "demo_pack =
     \<lparr>ep_name = ''demo'',
      ep_load = LoadTarget (\<lambda>r. (None, snd (register (gain_info ''demo.gain'' ''x'' ''y'') (gain_fn ''x'' ''y'' 2) r))),
      ep_dist_version = None\<rparr>"

lemma demo_register:
  "register (gain_info ''demo.gain'' p q) fn registry_new =
     (Ok (), registry_new\<lparr>rg_solvers := [(''demo.gain'', gain_info ''demo.gain'' p q, fn)]\<rparr>)"
proof -
  have "registrable registry_new (gain_info ''demo.gain'' p q, fn)"
    by (simp add: registrable_def gain_info_ok registry_new_def dhas_def)
  from register_registrable [OF this] show ?thesis
    by (simp add: entry_of_def registry_new_def)
qed

lemma demo_staged_clean:
  "staged_info_violation ''demo'' std rvw [] (gain_info ''demo.gain'' p q) = None"
  by (simp add: staged_info_violation_def gain_info_def method_named_solver_violation_def Let_def
      str_lower_def lower_char_def METHOD_WORDS_def namespace_violation_def)

lemma demo_pack_loads:
  "load_solver_packs repr std rvw [demo_pack] registry_new =
     Ok \<lparr>ps_registry = registry_new\<lparr>rg_solvers :=
            [(''demo.gain'', gain_info ''demo.gain'' ''x'' ''y'', gain_fn ''x'' ''y'' 2)]\<rparr>,
         ps_owner_of = [(''demo.gain'', ''demo'')],
         ps_loaded = [\<lparr>pk_name = ''demo'', pk_version = ''0''\<rparr>], ps_skipped = []\<rparr>"
proof -
  have stage: "stage_registry registry_new = Ok registry_new"
    by (simp add: stage_registry_def port_table_def registry_new_def dvals_def)
  have iter: "registry_iter registry_new = []"
    "registry_iter (registry_new\<lparr>rg_solvers := [(i, p)]\<rparr>) = [p]" for i p
    by (simp_all add: registry_iter_def registry_new_def dsorted_def)
  have ports: "new_port_decls registry_new (registry_new\<lparr>rg_solvers := s\<rparr>) = []" for s
    by (simp add: new_port_decls_def port_table_def registry_new_def)
  show ?thesis
    by (simp add: load_solver_packs_def pack_step_def load_target_def demo_pack_def stage iter
        demo_register demo_staged_clean land_pack_def ports pack_version_def dict_of_def)
qed

theorem packs_keep_etiquette_witness:
  "pack_etiquette DEFAULT_STANDARD_NAMESPACES [] ''demo'' (gain_info ''demo.gain'' ''x'' ''y'')"
proof -
  have "entry_point_ok demo_pack"
    using register_ok by (auto simp: entry_point_ok_def target_ok_def demo_pack_def)
  then show ?thesis
    using packs_keep_etiquette [OF registry_ok_new _ demo_pack_loads,
        where std = DEFAULT_STANDARD_NAMESPACES and rvw = "[]" and sid = "''demo.gain''"
          and info = "gain_info ''demo.gain'' ''x'' ''y''" and fn = "gain_fn ''x'' ''y'' 2"]
    by (simp add: registry_new_def dhas_def demo_pack_def)
qed

text \<open>the third-party namespace test has no dot after the pack's name: a pack named \<open>acme\<close>
  may write to a sibling such as \<open>mech.acmecorp\<close>, which is not its own.\<close>

theorem namespace_prefix_leaks:
  "namespace_violation ''acme'' ''mech.acmecorp'' DEFAULT_STANDARD_NAMESPACES [] = None"
  by (simp add: namespace_violation_def DEFAULT_STANDARD_NAMESPACES_def starts_with_def)

end
