(* ===== verification/Tables.thy ===== *)
theory Tables
  imports Lowering
begin

text \<open>
  Table lookups (\<open>table_solver_1d\<close> and \<open>table_solver_2d\<close> of \<open>solve/sugar.py\<close>). The tables hold
  finite numbers; the looked-up value is any float. The loops over the axis are \<open>interp_scan\<close>
  and \<open>cell_scan\<close>; positions are Python's, so \<open>-1\<close> is the last one.
\<close>

section \<open>Directions from arguments\<close>

text \<open>The keyword arguments a factory leaves at their defaults.\<close>

definition default_args :: build_args where
  "default_args =
     \<lparr>ba_solver_id = [], ba_namespace = [], ba_inputs = [], ba_outputs = [], ba_domain = DomDict [],
      ba_cost = Fin 0, ba_accuracy = AccOne EXACT, ba_citations = [], ba_version = [],
      ba_tier = ''closed_form'', ba_settings = PyNone, ba_deterministic = True,
      ba_corner_monotone = True, ba_conservative_for = SenseObj BOTH, ba_tags = [],
      ba_raw_fn = (\<lambda>_ _. RetRaise TypeError), ba_algebraic_form = None, ba_solved_for = None,
      ba_branch = None, ba_admission_predicate = None, ba_derivation_digest = None,
      ba_law_lhs = None, ba_law_rhs = None, ba_eps_seeking = False, ba_cost_curve = None\<rparr>"

definition make_direction ::
  "(json \<Rightarrow> string) \<Rightarrow> (json \<Rightarrow> string) \<Rightarrow> build_args \<Rightarrow> (solver_pair, 'e) outcome" where
  "make_direction H dumps a =
     build_solver_info_and_fn H dumps
       (a\<lparr>ba_algebraic_form := None, ba_solved_for := None, ba_branch := None,
          ba_admission_predicate := None, ba_derivation_digest := None, ba_law_lhs := None,
          ba_law_rhs := None, ba_eps_seeking := False, ba_cost_curve := None\<rparr>)"

section \<open>One axis\<close>

fun strictly_ascending :: "real list \<Rightarrow> bool" where
  "strictly_ascending (a # b # xs) = (a < b \<and> strictly_ascending (b # xs))"
| "strictly_ascending _ = True"

definition check_strictly_ascending :: "real list \<Rightarrow> (unit, 'e) outcome" where
  "check_strictly_ascending x = (if strictly_ascending x then Ok () else Raise ValueError)"

fun interp_scan :: "real list \<Rightarrow> real list \<Rightarrow> real \<Rightarrow> real" where
  "interp_scan (a # b # xs) (ya # yb # ys) v =
     (if v \<le> b then ya + (v - a) / (b - a) * (yb - ya) else interp_scan (b # xs) (yb # ys) v)"
| "interp_scan xs ys v = last ys"

text \<open>A NaN fails every comparison and falls through to the last entry.\<close>

definition interp_linear :: "real list \<Rightarrow> real list \<Rightarrow> fl \<Rightarrow> real" where
  "interp_linear xs ys v =
     (if fl_le v (Fin (hd xs)) then hd ys
      else if fl_le (Fin (last xs)) v then last ys
      else (case v of Fin r \<Rightarrow> interp_scan xs ys r | _ \<Rightarrow> last ys))"

definition get_float :: "inputs \<Rightarrow> string \<Rightarrow> exn + fl" where
  "get_float x p =
     (case dget x p of None \<Rightarrow> Inl (KeyError p) | Some (VFloat v) \<Rightarrow> Inr v | Some (VRef _) \<Rightarrow> Inl TypeError)"

definition table_fn_1d :: "string \<Rightarrow> string \<Rightarrow> real list \<Rightarrow> real list \<Rightarrow> raw_fn" where
  "table_fn_1d x_port y_port xs ys = (\<lambda>x _.
     (case get_float x x_port of
        Inl e \<Rightarrow> RetRaise e
      | Inr v \<Rightarrow> RetBare (RVMap [(y_port, Fin (interp_linear xs ys v))])))"

definition table_solver_1d ::
  "(json \<Rightarrow> string) \<Rightarrow> (json \<Rightarrow> string) \<Rightarrow> string \<Rightarrow> string \<Rightarrow> string \<Rightarrow> real list \<Rightarrow> real list
   \<Rightarrow> fl \<Rightarrow> citation_arg list \<Rightarrow> string \<Rightarrow> fl \<Rightarrow> (solver_pair, 'e) outcome" where
  "table_solver_1d H dumps namespace x_port y_port xs ys eps citations version cost =
     obind (check_strictly_ascending xs) (\<lambda>_.
     if length xs \<noteq> length ys then Raise ValueError
     else if xs = [] then Raise IndexError
     else obind (accuracy_new eps (Fin 0)) (\<lambda>acc.
       make_direction H dumps
         (default_args\<lparr>ba_solver_id := namespace @ ''.'' @ last_segment (CHR ''.'') y_port @ ''_table'',
            ba_namespace := namespace, ba_inputs := [x_port], ba_outputs := [y_port],
            ba_domain := DomDict [(x_port, BPair (Fin (hd xs)) (Fin (last xs)))],
            ba_cost := cost, ba_accuracy := AccOne acc, ba_citations := citations,
            ba_version := version, ba_tier := ''table'',
            ba_raw_fn := table_fn_1d x_port y_port xs ys\<rparr>)))"

section \<open>Two axes\<close>

definition py_nth :: "'a list \<Rightarrow> int \<Rightarrow> exn + 'a" where
  "py_nth xs i =
     (if 0 \<le> i \<and> i < int (length xs) then Inr (xs ! nat i)
      else if - int (length xs) \<le> i \<and> i < 0 then Inr (xs ! nat (int (length xs) + i))
      else Inl IndexError)"

fun cell_scan :: "real list \<Rightarrow> int \<Rightarrow> real \<Rightarrow> int" where
  "cell_scan (a # b # xs) i v = (if v \<le> b then i else cell_scan (b # xs) (i + 1) v)"
| "cell_scan xs i v = i - 1"

definition clamp_index :: "fl \<Rightarrow> real list \<Rightarrow> int" where
  "clamp_index v axis =
     (if fl_le v (Fin (hd axis)) then 0
      else if fl_le (Fin (last axis)) v then int (length axis) - 2
      else (case v of Fin r \<Rightarrow> cell_scan axis 0 r | _ \<Rightarrow> int (length axis) - 2))"

definition cell_fraction :: "fl \<Rightarrow> real list \<Rightarrow> int \<Rightarrow> exn + fl" where
  "cell_fraction v axis i =
     (case (py_nth axis (i + 1), py_nth axis i) of
        (Inr hi, Inr lo) \<Rightarrow>
          Inr (if hi = lo then Fin 0 else fl_div (fl_sub v (Fin lo)) (fl_sub (Fin hi) (Fin lo)))
      | (Inl e, _) \<Rightarrow> Inl e
      | (_, Inl e) \<Rightarrow> Inl e)"

definition grid_at :: "real list list \<Rightarrow> int \<Rightarrow> int \<Rightarrow> exn + real" where
  "grid_at grid i j = (case py_nth grid i of Inl e \<Rightarrow> Inl e | Inr row \<Rightarrow> py_nth row j)"

definition fl_lerp :: "fl \<Rightarrow> fl \<Rightarrow> fl \<Rightarrow> fl" where
  "fl_lerp a t b = fl_add a (fl_mul t (fl_sub b a))"

definition bilinear :: "real list \<Rightarrow> real list \<Rightarrow> real list list \<Rightarrow> fl \<Rightarrow> fl \<Rightarrow> exn + fl" where
  "bilinear xs ys grid xv yv =
     (let i = clamp_index xv xs; j = clamp_index yv ys in
      case (cell_fraction xv xs i, cell_fraction yv ys j) of
        (Inl e, _) \<Rightarrow> Inl e
      | (_, Inl e) \<Rightarrow> Inl e
      | (Inr tx, Inr ty) \<Rightarrow>
          (case (grid_at grid i j, grid_at grid i (j + 1), grid_at grid (i + 1) j,
                 grid_at grid (i + 1) (j + 1)) of
             (Inr z00, Inr z01, Inr z10, Inr z11) \<Rightarrow>
               Inr (fl_lerp (fl_lerp (Fin z00) ty (Fin z01)) tx (fl_lerp (Fin z10) ty (Fin z11)))
           | _ \<Rightarrow> Inl IndexError))"

definition table_fn_2d ::
  "string \<Rightarrow> string \<Rightarrow> string \<Rightarrow> real list \<Rightarrow> real list \<Rightarrow> real list list \<Rightarrow> raw_fn" where
  "table_fn_2d x_port y_port z_port xs ys grid = (\<lambda>x _.
     (case (get_float x x_port, get_float x y_port) of
        (Inl e, _) \<Rightarrow> RetRaise e
      | (_, Inl e) \<Rightarrow> RetRaise e
      | (Inr xv, Inr yv) \<Rightarrow>
          (case bilinear xs ys grid xv yv of
             Inl e \<Rightarrow> RetRaise e
           | Inr z \<Rightarrow> RetBare (RVMap [(z_port, z)]))))"

definition table_solver_2d ::
  "(json \<Rightarrow> string) \<Rightarrow> (json \<Rightarrow> string) \<Rightarrow> string \<Rightarrow> string \<Rightarrow> string \<Rightarrow> string \<Rightarrow> real list
   \<Rightarrow> real list \<Rightarrow> real list list \<Rightarrow> fl \<Rightarrow> citation_arg list \<Rightarrow> string \<Rightarrow> fl
   \<Rightarrow> (solver_pair, 'e) outcome" where
  "table_solver_2d H dumps namespace x_port y_port z_port xs ys grid eps citations version cost =
     obind (check_strictly_ascending xs) (\<lambda>_.
     obind (check_strictly_ascending ys) (\<lambda>_.
     if length grid \<noteq> length xs \<or> list_ex (\<lambda>row. length row \<noteq> length ys) grid then Raise ValueError
     else if xs = [] \<or> ys = [] then Raise IndexError
     else obind (accuracy_new eps (Fin 0)) (\<lambda>acc.
       make_direction H dumps
         (default_args\<lparr>ba_solver_id := namespace @ ''.'' @ last_segment (CHR ''.'') z_port @ ''_table'',
            ba_namespace := namespace, ba_inputs := [x_port, y_port], ba_outputs := [z_port],
            ba_domain := DomDict (dict_of [(x_port, BPair (Fin (hd xs)) (Fin (last xs))),
                                           (y_port, BPair (Fin (hd ys)) (Fin (last ys)))]),
            ba_cost := cost, ba_accuracy := AccOne acc, ba_citations := citations,
            ba_version := version, ba_tier := ''table'',
            ba_raw_fn := table_fn_2d x_port y_port z_port xs ys grid\<rparr>))))"

section \<open>Interpolation\<close>

lemma strictly_ascending_sorted: "strictly_ascending xs \<longleftrightarrow> sorted_wrt (<) xs"
  by (induction xs rule: strictly_ascending.induct) (auto intro: less_trans)

lemma ascending_nth:
  "strictly_ascending xs \<Longrightarrow> i < j \<Longrightarrow> j < length xs \<Longrightarrow> xs ! i < xs ! j"
  by (simp add: strictly_ascending_sorted sorted_wrt_nth_less)

text \<open>The line through two neighbouring entries.\<close>

definition chord :: "real list \<Rightarrow> real list \<Rightarrow> nat \<Rightarrow> real \<Rightarrow> real" where
  "chord xs ys i v = ys ! i + (v - xs ! i) / (xs ! Suc i - xs ! i) * (ys ! Suc i - ys ! i)"

lemma interp_scan_chord:
  assumes "strictly_ascending xs" "length ys = length xs" "Suc i < length xs"
    "xs ! i < v" "v \<le> xs ! Suc i"
  shows "interp_scan xs ys v = chord xs ys i v"
  using assms
proof (induction xs ys v arbitrary: i rule: interp_scan.induct)
  case (1 a b xs ya yb ys v)
  show ?case
  proof (cases i)
    case 0
    then show ?thesis using 1(6) by (simp add: chord_def)
  next
    case (Suc k)
    have "b \<le> (b # xs) ! k"
      using 1(2,4) Suc ascending_nth [of "b # xs" 0 k] by (cases k) auto
    then have v: "\<not> v \<le> b" using 1(5) Suc by simp
    have "interp_scan (b # xs) (yb # ys) v = chord (b # xs) (yb # ys) k v"
      using 1(2-6) Suc by (intro 1(1) [OF v]) simp_all
    then show ?thesis using v Suc by (simp add: chord_def)
  qed
qed auto

lemma chord_ends:
  "xs ! i < xs ! Suc i \<Longrightarrow> chord xs ys i (xs ! i) = ys ! i"
  "xs ! i < xs ! Suc i \<Longrightarrow> chord xs ys i (xs ! Suc i) = ys ! Suc i"
  by (simp_all add: chord_def)

text \<open>Between two entries the lookup is their chord.\<close>

lemma interp_linear_chord:
  assumes "strictly_ascending xs" "length ys = length xs" "Suc i < length xs"
    "xs ! i \<le> v" "v \<le> xs ! Suc i"
  shows "interp_linear xs ys (Fin v) = chord xs ys i v"
proof -
  have ne: "xs \<noteq> []" "ys \<noteq> []" using assms(2,3) by auto
  note asc = ascending_nth [OF assms(1)]
  have hd: "hd xs = xs ! 0" "hd ys = ys ! 0" "last xs = xs ! (length xs - 1)" "last ys = ys ! (length xs - 1)"
    using ne assms(2) by (simp_all add: hd_conv_nth last_conv_nth)
  consider (low) "v \<le> hd xs" | (high) "hd xs < v" "last xs \<le> v" | (mid) "hd xs < v" "v < last xs" by linarith
  then show ?thesis
  proof cases
    case low
    have "i = 0"
    proof (rule ccontr)
      assume "i \<noteq> 0"
      then have "xs ! 0 < xs ! i" using asc [of 0 i] assms(3) by simp
      then show False using low assms(4) hd by simp
    qed
    then have "v = xs ! i" using low assms(4) hd by simp
    moreover have "xs ! i < xs ! Suc i" using asc assms(3) by simp
    ultimately show ?thesis
      using chord_ends(1) low \<open>i = 0\<close> hd(2) by (simp add: interp_linear_def)
  next
    case high
    have "Suc i = length xs - 1"
    proof (rule ccontr)
      assume "Suc i \<noteq> length xs - 1"
      then have "xs ! Suc i < xs ! (length xs - 1)" using asc [of "Suc i" "length xs - 1"] assms(3) by simp
      then show False using high(2) assms(5) hd by simp
    qed
    then have "v = xs ! Suc i" using high assms(5) hd by simp
    moreover have "xs ! i < xs ! Suc i" using asc assms(3) by simp
    ultimately have "chord xs ys i v = last ys"
      using chord_ends(2) [of xs i ys] \<open>Suc i = length xs - 1\<close> hd(4) by metis
    then show ?thesis using high by (simp add: interp_linear_def)
  next
    case mid
    show ?thesis
    proof (cases "xs ! i < v")
      case True
      then show ?thesis
        using interp_scan_chord [OF assms(1-3) True assms(5)] mid by (simp add: interp_linear_def)
    next
      case False
      then have v: "v = xs ! i" using assms(4) by simp
      then obtain k where k: "i = Suc k" using mid hd by (cases i) auto
      have "xs ! k < v" "v \<le> xs ! Suc k" using v k asc [of k "Suc k"] assms(3) by simp_all
      then have "interp_scan xs ys v = chord xs ys k v"
        using interp_scan_chord [OF assms(1,2)] assms(3) k by simp
      also have "\<dots> = ys ! i"
        using chord_ends(2) [of xs k ys] v k asc [of k "Suc k"] assms(3) by simp
      also have "\<dots> = chord xs ys i v" using chord_ends(1) [of xs i ys] v asc [of i "Suc i"] assms(3) by simp
      finally show ?thesis using mid by (simp add: interp_linear_def)
    qed
  qed
qed

lemma interp_linear_outside:
  "v \<le> hd xs \<Longrightarrow> interp_linear xs ys (Fin v) = hd ys"
  "hd xs < last xs \<Longrightarrow> last xs \<le> v \<Longrightarrow> interp_linear xs ys (Fin v) = last ys"
  by (simp_all add: interp_linear_def)

text \<open>Every point of the extent lies in a cell.\<close>

lemma cell_exists:
  assumes "strictly_ascending xs" "2 \<le> length xs" "hd xs \<le> v" "v \<le> last xs"
  obtains i where "Suc i < length xs" "xs ! i \<le> v" "v \<le> xs ! Suc i"
  using assms
proof (induction xs arbitrary: thesis rule: strictly_ascending.induct)
  case (1 a b xs)
  show ?case
  proof (cases "v \<le> b")
    case True
    then show ?thesis using 1(2) [of 0] 1(5) by simp
  next
    case False
    then have "2 \<le> length (b # xs)" using 1(6) by (cases xs) auto
    then obtain i where "Suc i < length (b # xs)" "(b # xs) ! i \<le> v" "v \<le> (b # xs) ! Suc i"
      using 1(1) 1(3,6) False by (metis last_ConsR linorder_linear list.discI list.sel(1) strictly_ascending.simps(1))
    then show ?thesis using 1(2) [of "Suc i"] by simp
  qed
qed auto

lemma chord_between:
  assumes "xs ! i < xs ! Suc i" "xs ! i \<le> v" "v \<le> xs ! Suc i"
  shows "min (ys ! i) (ys ! Suc i) \<le> chord xs ys i v \<and> chord xs ys i v \<le> max (ys ! i) (ys ! Suc i)"
proof -
  define t where "t = (v - xs ! i) / (xs ! Suc i - xs ! i)"
  have t: "0 \<le> t" "t \<le> 1" using assms by (simp_all add: t_def)
  have "chord xs ys i v = ys ! i + t * (ys ! Suc i - ys ! i)" by (simp add: chord_def t_def)
  then have eq: "chord xs ys i v = (1 - t) * ys ! i + t * ys ! Suc i" by (simp add: algebra_simps)
  have "min (ys ! i) (ys ! Suc i) = (1 - t) * min (ys ! i) (ys ! Suc i) + t * min (ys ! i) (ys ! Suc i)"
    "max (ys ! i) (ys ! Suc i) = (1 - t) * max (ys ! i) (ys ! Suc i) + t * max (ys ! i) (ys ! Suc i)"
    by (simp_all add: algebra_simps)
  then show ?thesis
    unfolding eq using t by (intro conjI) (smt (verit) mult_left_mono)+
qed

lemma interp_linear_node:
  assumes "strictly_ascending xs" "length ys = length xs" "i < length xs"
  shows "interp_linear xs ys (Fin (xs ! i)) = ys ! i"
proof (cases "i = 0")
  case True
  have "xs \<noteq> []" "ys \<noteq> []" using assms by auto
  then show ?thesis using True by (simp add: interp_linear_def hd_conv_nth)
next
  case False
  then obtain k where k: "i = Suc k" by (cases i) auto
  have less: "xs ! k < xs ! Suc k" using ascending_nth [OF assms(1)] assms(3) k by simp
  then have "interp_linear xs ys (Fin (xs ! i)) = chord xs ys k (xs ! Suc k)"
    using interp_linear_chord [OF assms(1,2), of k] assms(3) k by simp
  then show ?thesis using chord_ends(2) [OF less, of ys] k by simp
qed

text \<open>A lookup is the first entry, the last entry or a value on a chord.\<close>

lemma interp_linear_cases:
  assumes "strictly_ascending xs" "length ys = length xs" "xs \<noteq> []"
  obtains (first) "interp_linear xs ys v = hd ys"
    | (last) "interp_linear xs ys v = last ys"
    | (cell) i w where "v = Fin w" "Suc i < length xs" "xs ! i \<le> w" "w \<le> xs ! Suc i"
        "interp_linear xs ys v = chord xs ys i w"
proof (cases "fl_le v (Fin (hd xs)) \<or> fl_le (Fin (last xs)) v \<or> (\<nexists>w. v = Fin w)")
  case True
  then have "interp_linear xs ys v = hd ys \<or> interp_linear xs ys v = last ys"
    by (auto simp: interp_linear_def split: fl.splits)
  then show ?thesis using first last by blast
next
  case False
  then obtain w where w: "v = Fin w" "hd xs < w" "w < last xs" by auto
  have "length xs \<noteq> 1" using w(2,3) by (cases xs) auto
  then have "2 \<le> length xs" using assms(3) by (cases xs) (auto simp: Suc_le_eq)
  then obtain i where "Suc i < length xs" "xs ! i \<le> w" "w \<le> xs ! Suc i"
    using cell_exists [OF assms(1)] w(2,3) by (metis less_imp_le)
  then show ?thesis using cell w(1) interp_linear_chord [OF assms(1,2)] by blast
qed

lemma interp_linear_range:
  assumes "strictly_ascending xs" "length ys = length xs" "xs \<noteq> []"
    "\<forall>y \<in> set ys. l \<le> y \<and> y \<le> u"
  shows "l \<le> interp_linear xs ys v \<and> interp_linear xs ys v \<le> u"
  using assms(1-3)
proof (cases rule: interp_linear_cases [of xs ys v])
  case (cell i w)
  have less: "xs ! i < xs ! Suc i" using ascending_nth [OF assms(1)] cell(2) by simp
  have "ys ! i \<in> set ys" "ys ! Suc i \<in> set ys" using cell(2) assms(2) by simp_all
  then have "l \<le> min (ys ! i) (ys ! Suc i)" "max (ys ! i) (ys ! Suc i) \<le> u" using assms(4) by auto
  then show ?thesis using chord_between [OF less cell(3,4), of ys] cell(5) by linarith
next
  case first
  have "ys \<noteq> []" using assms(2,3) by auto
  then show ?thesis using first assms(4) by simp
next
  case last
  have "ys \<noteq> []" using assms(2,3) by auto
  then show ?thesis using last assms(4) by simp
qed

lemma chord_mono:
  assumes "xs ! i < xs ! Suc i" "ys ! i \<le> ys ! Suc i" "v \<le> w"
  shows "chord xs ys i v \<le> chord xs ys i w"
proof -
  have "(v - xs ! i) / (xs ! Suc i - xs ! i) \<le> (w - xs ! i) / (xs ! Suc i - xs ! i)"
    using assms(1,3) by (simp add: divide_right_mono)
  then have "(v - xs ! i) / (xs ! Suc i - xs ! i) * (ys ! Suc i - ys ! i)
      \<le> (w - xs ! i) / (xs ! Suc i - xs ! i) * (ys ! Suc i - ys ! i)"
    using assms(2) by (intro mult_right_mono) simp_all
  then show ?thesis by (simp add: chord_def)
qed

lemma sorted_ends:
  assumes "sorted ys" "y \<in> set ys"
  shows "hd ys \<le> y \<and> y \<le> last ys"
proof -
  obtain i where i: "i < length ys" "ys ! i = y" using assms(2) by (auto simp: in_set_conv_nth)
  then have "ys ! 0 \<le> ys ! i" "ys ! i \<le> ys ! (length ys - 1)"
    using assms(1) by (auto intro: sorted_nth_mono)
  moreover have "ys \<noteq> []" using i(1) by auto
  ultimately show ?thesis using i(2) by (simp add: hd_conv_nth last_conv_nth)
qed

text \<open>Over entries that never fall the lookup never falls.\<close>

lemma interp_linear_mono:
  assumes asc: "strictly_ascending xs" and len: "length ys = length xs" and ne: "xs \<noteq> []"
    and mono: "sorted ys" and vw: "v \<le> w"
  shows "interp_linear xs ys (Fin v) \<le> interp_linear xs ys (Fin w)"
proof -
  have bounds: "hd ys \<le> interp_linear xs ys x \<and> interp_linear xs ys x \<le> last ys" for x
    using interp_linear_range [OF asc len ne] sorted_ends [OF mono] by blast
  consider (low) "v \<le> hd xs" | (high) "last xs \<le> w" | (mid) "hd xs < v" "w < last xs" by linarith
  then show ?thesis
  proof cases
    case low
    then have "interp_linear xs ys (Fin v) = hd ys" by (simp add: interp_linear_def)
    then show ?thesis using bounds by simp
  next
    case high
    show ?thesis
    proof (cases "w \<le> hd xs")
      case True
      then show ?thesis using vw by (simp add: interp_linear_def)
    next
      case False
      then have "interp_linear xs ys (Fin w) = last ys" using high by (simp add: interp_linear_def)
      then show ?thesis using bounds by simp
    qed
  next
    case mid
    have "length xs \<noteq> 1" using mid vw by (cases xs) auto
    then have two: "2 \<le> length xs" using ne by (cases xs) (auto simp: Suc_le_eq)
    obtain i where i: "Suc i < length xs" "xs ! i \<le> v" "v \<le> xs ! Suc i"
      using cell_exists [OF asc two, of v] mid vw by auto
    obtain j where j: "Suc j < length xs" "xs ! j \<le> w" "w \<le> xs ! Suc j"
      using cell_exists [OF asc two, of w] mid vw by auto
    have up: "ys ! k \<le> ys ! Suc k" "xs ! k < xs ! Suc k" if "Suc k < length xs" for k
      using that mono len ascending_nth [OF asc] by (auto intro: sorted_nth_mono)
    have eq: "interp_linear xs ys (Fin v) = chord xs ys i v" "interp_linear xs ys (Fin w) = chord xs ys j w"
      using interp_linear_chord [OF asc len] i j by blast+
    consider (same) "i = j" | (less) "i < j" | (more) "j < i" by linarith
    then show ?thesis
    proof cases
      case same
      then show ?thesis using chord_mono [OF up(2,1)] i(1) vw eq by simp
    next
      case less
      have "chord xs ys i v \<le> ys ! Suc i"
        using chord_between [OF up(2) i(2,3), of ys] up(1) i(1) by auto
      also have "\<dots> \<le> ys ! j" using less j(1) mono len by (auto intro: sorted_nth_mono)
      also have "\<dots> \<le> chord xs ys j w"
        using chord_between [OF up(2) j(2,3), of ys] up(1) j(1) by auto
      finally show ?thesis using eq by simp
    next
      case more
      have "xs ! Suc j \<le> xs ! i" using more i(1) ascending_nth [OF asc, of "Suc j" i] by (cases "Suc j = i") auto
      then have "w \<le> v" using j(3) i(2) by simp
      then show ?thesis using vw by simp
    qed
  qed
qed

end
