(* ===== verification/Sugar.thy ===== *)
theory Sugar
  imports Tables Solver_Registry
begin

text \<open>
  The authoring helpers of \<open>solve/sugar.py\<close>: \<open>Relation\<close> with its explicit and derived
  directions, \<open>Correlation\<close>, and \<open>CoupledGroup\<close> with its damped fixed point. The symbolic
  kernel a derived direction calls (\<open>invertible_targets\<close>, \<open>invert_for\<close>, \<open>predicate_to_box\<close>,
  \<open>eval\<close>, \<open>canonical_string\<close>, \<open>CANON_VERSION\<close>) is compiled code behind the Python layer: a
  record \<open>kernel\<close> of functions the definitions take as a parameter.
\<close>

section \<open>Relations\<close>

record relation =
  rl_namespace :: string
  rl_ports :: "string list"
  rl_domain :: domain_arg
  rl_cost :: fl
  rl_version :: string
  rl_citations :: "citation_arg list"
  rl_tags :: "string list"
  rl_tier :: string
  rl_settings :: pyobj
  rl_default_accuracy :: accuracy_arg
  rl_directions :: "solver_pair list"

text \<open>The arguments every direction of a relation shares.\<close>

definition relation_args :: "relation \<Rightarrow> build_args" where
  "relation_args rl =
     default_args\<lparr>ba_namespace := rl_namespace rl, ba_domain := rl_domain rl, ba_cost := rl_cost rl,
       ba_accuracy := rl_default_accuracy rl, ba_citations := rl_citations rl,
       ba_version := rl_version rl, ba_tier := rl_tier rl, ba_settings := rl_settings rl,
       ba_tags := rl_tags rl\<rparr>"

definition add_direction :: "solver_pair \<Rightarrow> relation \<Rightarrow> relation" where
  "add_direction p rl = rl\<lparr>rl_directions := rl_directions rl @ [p]\<rparr>"

definition or_default :: "'a option \<Rightarrow> 'a \<Rightarrow> 'a" where
  "or_default x d = (case x of None \<Rightarrow> d | Some v \<Rightarrow> v)"

definition direction_inputs :: "relation \<Rightarrow> string \<Rightarrow> string list option \<Rightarrow> string list" where
  "direction_inputs rl solves_for ins =
     (case ins of None \<Rightarrow> filter (\<lambda>p. p \<noteq> solves_for) (rl_ports rl) | Some xs \<Rightarrow> xs)"

definition direction ::
  "(json \<Rightarrow> string) \<Rightarrow> (json \<Rightarrow> string) \<Rightarrow> string \<Rightarrow> string list option \<Rightarrow> accuracy_arg option
   \<Rightarrow> domain_arg option \<Rightarrow> bool \<Rightarrow> string \<Rightarrow> raw_fn \<Rightarrow> relation \<Rightarrow> (unit, 'e) outcome \<times> relation" where
  "direction H dumps solves_for ins accuracy domain corner_monotone fn_name fn rl =
     (if solves_for \<notin> set (rl_ports rl) then (Raise ValueError, rl)
      else if \<not> set (direction_inputs rl solves_for ins) \<subseteq> set (rl_ports rl) then (Raise ValueError, rl)
      else (case build_solver_info_and_fn H dumps
                   ((relation_args rl)\<lparr>ba_solver_id := rl_namespace rl @ ''.'' @ fn_name,
                      ba_inputs := direction_inputs rl solves_for ins, ba_outputs := [solves_for],
                      ba_domain := or_default domain (rl_domain rl),
                      ba_accuracy := or_default accuracy (rl_default_accuracy rl),
                      ba_corner_monotone := corner_monotone, ba_raw_fn := fn\<rparr>) of
              Ok p \<Rightarrow> (Ok (), add_direction p rl)
            | Err e \<Rightarrow> (Err e, rl)
            | Raise x \<Rightarrow> (Raise x, rl)))"

definition relation_register :: "relation \<Rightarrow> registry \<Rightarrow> (unit, registry_error) outcome \<times> registry" where
  "relation_register rl r = register_all (rl_directions rl) r"

section \<open>Derived directions\<close>

datatype symbolic_error =
    SymNonInvertible string string
  | SymMultiBranch string "string list"
  | SymUnboundablePredicate string
  | SymEmptyDomain string

definition symbolic_error_from_exc :: "symbolic_error \<Rightarrow> registry_error" where
  "symbolic_error_from_exc e =
     (case e of
        SymNonInvertible variable reason \<Rightarrow> NonInvertible variable reason
      | SymMultiBranch variable branches \<Rightarrow> MultiBranch variable branches
      | SymUnboundablePredicate predicate \<Rightarrow> UnboundablePredicate predicate
      | SymEmptyDomain port \<Rightarrow> EmptyDomain port)"

datatype eval_error = MissingPort string | OtherEval

record inverted =
  iv_rhs :: expr
  iv_branch :: "string option"
  iv_admission :: "string list"
  iv_form :: string

record 'p kernel =
  kn_targets :: "expr \<Rightarrow> expr \<Rightarrow> string list"
  kn_invert :: "expr \<Rightarrow> expr \<Rightarrow> string \<Rightarrow> string option \<Rightarrow> symbolic_error + inverted"
  kn_box :: "'p list \<Rightarrow> (string, interval) dict \<Rightarrow> string list \<Rightarrow> symbolic_error + domain"
  kn_eval :: "expr \<Rightarrow> inputs \<Rightarrow> eval_error + fl"
  kn_canon_version :: int

text \<open>\<open>"; ".join(...) or None\<close>.\<close>

fun join_semi :: "string list \<Rightarrow> string" where
  "join_semi [] = []"
| "join_semi [x] = x"
| "join_semi (x # xs) = x @ ''; '' @ join_semi xs"

definition admission_text :: "string list \<Rightarrow> string option" where
  "admission_text ps = (if join_semi ps = [] then None else Some (join_semi ps))"

definition opt_str :: "string option \<Rightarrow> pyobj" where
  "opt_str x = (case x of None \<Rightarrow> PyNone | Some s \<Rightarrow> PyStr s)"

definition law_raw_fn :: "'p kernel \<Rightarrow> expr \<Rightarrow> string \<Rightarrow> raw_fn" where
  "law_raw_fn kn rhs_expr target = (\<lambda>x _.
     (case kn_eval kn rhs_expr x of
        Inr v \<Rightarrow> RetOk (RVMap [(target, v)])
      | Inl (MissingPort p) \<Rightarrow> RetErr (MissingOutput p)
      | Inl OtherEval \<Rightarrow> RetErr (NonFinite target)))"

definition derivation_digest ::
  "(json \<Rightarrow> string) \<Rightarrow> (json \<Rightarrow> string) \<Rightarrow> 'p kernel \<Rightarrow> string \<Rightarrow> inverted \<Rightarrow> string" where
  "derivation_digest H dumps kn target got =
     canonical_digest H dumps
       (PyMap [(''canon_version'', PyInt (kn_canon_version kn)), (''form'', PyStr (iv_form got)),
               (''solved_for'', PyStr target), (''branch'', opt_str (iv_branch got))])"

text \<open>Calibration evidence of the law does not carry over to what is derived from it.\<close>

definition derived_citations :: "relation \<Rightarrow> (citation list, 'e) outcome" where
  "derived_citations rl =
     obind (coerce_citations (rl_citations rl)) (\<lambda>cs. Ok (filter (\<lambda>c. ct_kind c \<noteq> ''calibration'') cs))"

definition law_domain ::
  "'p kernel \<Rightarrow> 'p list \<Rightarrow> (string, interval) dict \<Rightarrow> relation \<Rightarrow> symbolic_error + domain_arg" where
  "law_domain kn predicates box rl =
     (if predicates = [] then Inr (rl_domain rl)
      else (case kn_box kn predicates box (rl_tags rl) of Inl e \<Rightarrow> Inl e | Inr d \<Rightarrow> Inr (DomObj d)))"

definition law_args ::
  "(json \<Rightarrow> string) \<Rightarrow> (json \<Rightarrow> string) \<Rightarrow> 'p kernel \<Rightarrow> expr \<Rightarrow> expr \<Rightarrow> string \<Rightarrow> inverted \<Rightarrow> domain_arg
   \<Rightarrow> citation list \<Rightarrow> relation \<Rightarrow> build_args" where
  "law_args H dumps kn lhs rhs target got dm cites rl =
     (relation_args rl)\<lparr>ba_solver_id := rl_namespace rl @ ''.solve_'' @ target,
        ba_inputs := filter (\<lambda>p. p \<noteq> target) (rl_ports rl), ba_outputs := [target],
        ba_domain := dm, ba_citations := map CitObj cites, ba_tags := [],
        ba_raw_fn := law_raw_fn kn (iv_rhs got) target,
        ba_algebraic_form := Some (iv_form got), ba_solved_for := Some target,
        ba_branch := iv_branch got, ba_admission_predicate := admission_text (iv_admission got),
        ba_derivation_digest := Some (derivation_digest H dumps kn target got),
        ba_law_lhs := Some lhs, ba_law_rhs := Some rhs\<rparr>"

text \<open>One target of the loop; what it raises or returns ends the loop.\<close>

definition law_direction ::
  "(json \<Rightarrow> string) \<Rightarrow> (json \<Rightarrow> string) \<Rightarrow> 'p kernel \<Rightarrow> expr \<Rightarrow> expr \<Rightarrow> 'p list
   \<Rightarrow> (string, string) dict \<Rightarrow> (string, interval) dict \<Rightarrow> string \<Rightarrow> relation
   \<Rightarrow> (solver_pair, registry_error) outcome" where
  "law_direction H dumps kn lhs rhs predicates branches box target rl =
     (case kn_invert kn lhs rhs target (dget branches target) of
        Inl e \<Rightarrow> Err (symbolic_error_from_exc e)
      | Inr got \<Rightarrow>
          (case law_domain kn predicates box rl of
             Inl e \<Rightarrow> Err (symbolic_error_from_exc e)
           | Inr dm \<Rightarrow>
               obind (derived_citations rl) (\<lambda>cites.
                 build_solver_info_and_fn H dumps (law_args H dumps kn lhs rhs target got dm cites rl))))"

fun law_loop ::
  "(json \<Rightarrow> string) \<Rightarrow> (json \<Rightarrow> string) \<Rightarrow> 'p kernel \<Rightarrow> expr \<Rightarrow> expr \<Rightarrow> 'p list
   \<Rightarrow> (string, string) dict \<Rightarrow> (string, interval) dict \<Rightarrow> string list \<Rightarrow> relation
   \<Rightarrow> (unit, registry_error) outcome \<times> relation" where
  "law_loop H dumps kn lhs rhs predicates branches box [] rl = (Ok (), rl)"
| "law_loop H dumps kn lhs rhs predicates branches box (target # targets) rl =
     (case law_direction H dumps kn lhs rhs predicates branches box target rl of
        Ok p \<Rightarrow> law_loop H dumps kn lhs rhs predicates branches box targets (add_direction p rl)
      | Err e \<Rightarrow> (Err e, rl)
      | Raise x \<Rightarrow> (Raise x, rl))"

definition declared_intervals :: "(string, bound) dict \<Rightarrow> ((string, interval) dict, 'e) outcome" where
  "declared_intervals box = omap (\<lambda>(k, v). obind (coerce_bound v) (\<lambda>iv. Ok (k, iv))) box"

definition law ::
  "(json \<Rightarrow> string) \<Rightarrow> (json \<Rightarrow> string) \<Rightarrow> 'p kernel \<Rightarrow> expr \<Rightarrow> expr \<Rightarrow> 'p list
   \<Rightarrow> (string, string) dict \<Rightarrow> (string, bound) dict \<Rightarrow> relation
   \<Rightarrow> (unit, registry_error) outcome \<times> relation" where
  "law H dumps kn lhs rhs predicates branches declared_box rl =
     (case obind (coerce_domain (rl_domain rl) []) (\<lambda>d.
             obind (declared_intervals declared_box) (\<lambda>extra. Ok (dmerge (d_box d) extra))) of
        Ok box \<Rightarrow>
          law_loop H dumps kn lhs rhs predicates branches box (kn_targets kn lhs rhs) rl
      | Err e \<Rightarrow> (Err e, rl)
      | Raise x \<Rightarrow> (Raise x, rl))"

section \<open>Correlations\<close>

record correlation =
  co_namespace :: string
  co_inputs :: "string list"
  co_output :: string
  co_domain :: domain_arg
  co_accuracy_rel :: fl
  co_citations :: "citation_arg list"
  co_version :: string
  co_cost :: fl
  co_tags :: "string list"
  co_built :: "solver_pair option"

text \<open>The constructor's one check; a NaN passes it.\<close>

definition correlation_new :: "correlation \<Rightarrow> (correlation, 'e) outcome" where
  "correlation_new c =
     (if fl_le (co_accuracy_rel c) (Fin 0) then Raise ValueError else Ok (c\<lparr>co_built := None\<rparr>))"

definition formula ::
  "(json \<Rightarrow> string) \<Rightarrow> (json \<Rightarrow> string) \<Rightarrow> string \<Rightarrow> raw_fn \<Rightarrow> correlation \<Rightarrow> (correlation, 'e) outcome" where
  "formula H dumps fn_name fn c =
     obind (accuracy_new (Fin 0) (co_accuracy_rel c)) (\<lambda>acc.
     obind (build_solver_info_and_fn H dumps
       (default_args\<lparr>ba_solver_id := co_namespace c @ ''.'' @ str_lstrip_char (CHR ''_'') fn_name,
          ba_namespace := co_namespace c, ba_inputs := co_inputs c, ba_outputs := [co_output c],
          ba_domain := co_domain c, ba_cost := co_cost c, ba_accuracy := AccOne acc,
          ba_citations := co_citations c, ba_version := co_version c, ba_tags := co_tags c,
          ba_raw_fn := fn\<rparr>)) (\<lambda>p. Ok (c\<lparr>co_built := Some p\<rparr>)))"

definition correlation_register :: "correlation \<Rightarrow> registry \<Rightarrow> (unit, registry_error) outcome \<times> registry" where
  "correlation_register c r =
     (case co_built c of None \<Rightarrow> (Raise RuntimeError, r) | Some (info, fn) \<Rightarrow> register info fn r)"

section \<open>Facts\<close>

lemma build_Ok_coerced:
  assumes "build_solver_info_and_fn H dumps a = (Ok (info, fn) :: (solver_pair, 'e) outcome)"
  shows "coerce_domain (ba_domain a) (ba_tags a) = (Ok (si_domain info) :: (domain, 'e) outcome)"
    "coerce_citations (ba_citations a) = (Ok (si_citations info) :: (citation list, 'e) outcome)"
    "si_solver_id info = ba_solver_id a" "si_outputs info = ba_outputs a" "si_inputs info = ba_inputs a"
    "si_solved_for info = ba_solved_for a" "si_law_lhs info = ba_law_lhs a" "si_law_rhs info = ba_law_rhs a"
  using assms
  by (auto simp: build_solver_info_and_fn_def outcome_simps solver_info_new_def split: if_splits)

lemma coerce_citation_objs [simp]: "coerce_citations (map CitObj cs) = Ok cs"
  by (induction cs) (simp_all add: coerce_citations_def coerce_citation_def)

text \<open>What a direction derived for \<open>target\<close> looks like.\<close>

definition derived_for :: "relation \<Rightarrow> expr \<Rightarrow> expr \<Rightarrow> string \<Rightarrow> solver_info \<Rightarrow> bool" where
  "derived_for rl lhs rhs target info \<longleftrightarrow>
     si_solver_id info = rl_namespace rl @ ''.solve_'' @ target \<and>
     si_outputs info = [target] \<and> si_inputs info = filter (\<lambda>p. p \<noteq> target) (rl_ports rl) \<and>
     si_solved_for info = Some target \<and> si_law_lhs info = Some lhs \<and> si_law_rhs info = Some rhs \<and>
     (\<forall>c \<in> set (si_citations info). ct_kind c \<noteq> ''calibration'')"

lemma law_direction_Ok:
  assumes "law_direction H dumps kn lhs rhs predicates branches box target rl = Ok (info, fn)"
  shows "derived_for rl lhs rhs target info"
    "predicates = [] \<Longrightarrow> rl_domain rl = DomDict d \<Longrightarrow> d_tags (si_domain info) = []"
proof -
  obtain got dm cites where g: "law_domain kn predicates box rl = Inr dm"
    "derived_citations rl = (Ok cites :: (citation list, registry_error) outcome)"
    "build_solver_info_and_fn H dumps (law_args H dumps kn lhs rhs target got dm cites rl) = (Ok (info, fn) :: (solver_pair, registry_error) outcome)"
    using assms by (auto simp: law_direction_def outcome_simps split: sum.splits)
  note b = build_Ok_coerced [OF g(3)]
  have "si_citations info = cites" using b(2) by (simp add: law_args_def)
  moreover have "\<forall>c \<in> set cites. ct_kind c \<noteq> ''calibration''"
    using g(2) by (auto simp: derived_citations_def outcome_simps)
  ultimately show "derived_for rl lhs rhs target info"
    using b(3-8) by (simp add: derived_for_def law_args_def)
  assume "predicates = []" "rl_domain rl = DomDict d"
  then have "coerce_domain (DomDict d) [] = (Ok (si_domain info) :: (domain, registry_error) outcome)"
    using b(1) g(1) by (simp add: law_args_def law_domain_def)
  then obtain b where "domain_new b [] = si_domain info"
    by (auto simp: coerce_domain_def outcome_simps)
  from this [symmetric] show "d_tags (si_domain info) = []" by (simp add: domain_new_def bset_of_def)
qed

lemma law_direction_directions [simp]:
  "law_direction H dumps kn lhs rhs predicates branches box target (add_direction p rl) =
   law_direction H dumps kn lhs rhs predicates branches box target rl"
proof -
  have eqs: "law_domain kn predicates box (add_direction p rl) = law_domain kn predicates box rl"
    "derived_citations (add_direction p rl) = derived_citations rl"
    "law_args H dumps kn lhs rhs target got dm cites (add_direction p rl) =
     law_args H dumps kn lhs rhs target got dm cites rl" for got dm cites
    by (simp_all add: law_domain_def derived_citations_def law_args_def relation_args_def add_direction_def)
  show ?thesis unfolding law_direction_def eqs ..
qed

lemma law_loop_added:
  "law_loop H dumps kn lhs rhs predicates branches box targets rl = (res, rl') \<Longrightarrow>
   \<exists>new done_targets rest. rl' = rl\<lparr>rl_directions := rl_directions rl @ new\<rparr> \<and>
     targets = done_targets @ rest \<and> (res = Ok () \<longrightarrow> rest = []) \<and>
     list_all2 (\<lambda>t p. law_direction H dumps kn lhs rhs predicates branches box t rl = Ok p) done_targets new"
proof (induction targets arbitrary: rl)
  case Nil
  then show ?case by (intro exI [of _ "[]"]) simp
next
  case (Cons t ts)
  let ?d = "law_direction H dumps kn lhs rhs predicates branches box t rl"
  show ?case
  proof (cases ?d)
    case (Ok p)
    then have "law_loop H dumps kn lhs rhs predicates branches box ts (add_direction p rl) = (res, rl')"
      using Cons.prems by simp
    from Cons.IH [OF this] obtain new dn rest where n:
      "rl' = (add_direction p rl)\<lparr>rl_directions := rl_directions (add_direction p rl) @ new\<rparr>"
      "ts = dn @ rest" "res = Ok () \<longrightarrow> rest = []"
      "list_all2 (\<lambda>t p. law_direction H dumps kn lhs rhs predicates branches box t rl = Ok p) dn new"
      by auto
    then show ?thesis
      using Ok by (intro exI [of _ "p # new"] exI [of _ "t # dn"] exI [of _ rest]) (simp add: add_direction_def)
  qed (use Cons.prems in \<open>auto intro: exI [of _ "[]"]\<close>)
qed

lemma law_added:
  assumes "law H dumps kn lhs rhs predicates branches declared rl = (res, rl')"
  obtains new done_targets rest box where
    "rl' = rl\<lparr>rl_directions := rl_directions rl @ new\<rparr>"
    "kn_targets kn lhs rhs = done_targets @ rest" "res = Ok () \<longrightarrow> rest = []"
    "list_all2 (\<lambda>t p. law_direction H dumps kn lhs rhs predicates branches box t rl = Ok p) done_targets new"
proof (cases "obind (coerce_domain (rl_domain rl) []) (\<lambda>d.
             obind (declared_intervals declared) (\<lambda>extra. Ok (dmerge (d_box d) extra)))
      :: ((string, interval) dict, registry_error) outcome")
  case (Ok box)
  then have "law_loop H dumps kn lhs rhs predicates branches box (kn_targets kn lhs rhs) rl = (res, rl')"
    using assms by (simp add: law_def)
  from law_loop_added [OF this] show ?thesis using that by blast
next
  case (Err e)
  then show ?thesis using assms by (intro that [of "[]" "[]" "kn_targets kn lhs rhs"]) (auto simp: law_def)
next
  case (Raise x)
  then show ?thesis using assms by (intro that [of "[]" "[]" "kn_targets kn lhs rhs"]) (auto simp: law_def)
qed

end
