(* ===== verification/Coupled.thy ===== *)
theory Coupled
  imports Sugar
begin

text \<open>
  \<open>CoupledGroup\<close> of \<open>solve/sugar.py\<close>: a composite solver whose closure runs its members in
  order, over and over, damping every change, until the largest relative change is within the
  tolerance. The members are looked up when the closure is called, so the closure is a
  function of the registry at that time. \<open>run_members\<close> is the loop over the members,
  \<open>closure_loop\<close> the loop over the iterations; its counter is what is left of \<open>max_iter\<close>.
\<close>

section \<open>Groups\<close>

record coupled_group =
  cg_group_id :: string
  cg_namespace :: string
  cg_members :: "string list"
  cg_boundary_inputs :: "string list"
  cg_boundary_outputs :: "string list"
  cg_settings :: "(string \<times> pyobj) list"
  cg_damping :: fl
  cg_tol :: fl
  cg_max_iter :: int
  cg_accuracy :: accuracy
  cg_citations :: "citation_arg list"
  cg_conservative_for :: senses_arg
  cg_cost :: fl
  cg_version :: string

text \<open>\<open>float\<close> and \<open>int\<close> of a setting; only numbers are settings here.\<close>

definition setting :: "(string \<times> pyobj) list \<Rightarrow> string \<Rightarrow> (pyobj, 'e) outcome" where
  "setting settings k = (case dget settings k of None \<Rightarrow> Raise (KeyError k) | Some v \<Rightarrow> Ok v)"

definition py_float :: "pyobj \<Rightarrow> (fl, 'e) outcome" where
  "py_float v =
     (case v of
        PyFloat x \<Rightarrow> Ok x
      | PyInt i \<Rightarrow> Ok (Fin (of_int i))
      | PyBool b \<Rightarrow> Ok (Fin (if b then 1 else 0))
      | _ \<Rightarrow> Raise TypeError)"

definition py_int :: "pyobj \<Rightarrow> (int, 'e) outcome" where
  "py_int v =
     (case v of
        PyInt i \<Rightarrow> Ok i
      | PyBool b \<Rightarrow> Ok (if b then 1 else 0)
      | PyFloat (Fin r) \<Rightarrow> Ok (if 0 \<le> r then \<lfloor>r\<rfloor> else \<lceil>r\<rceil>)
      | PyFloat NaN \<Rightarrow> Raise ValueError
      | PyFloat _ \<Rightarrow> Raise OverflowError
      | _ \<Rightarrow> Raise TypeError)"

definition coupled_group_new :: "coupled_group \<Rightarrow> (coupled_group, 'e) outcome" where
  "coupled_group_new g =
     (if cg_accuracy g = EXACT then Raise ValueError
      else obind (setting (cg_settings g) ''damping'') (\<lambda>d. obind (py_float d) (\<lambda>damping.
           obind (setting (cg_settings g) ''tol'') (\<lambda>t. obind (py_float t) (\<lambda>tol.
           obind (setting (cg_settings g) ''max_iter'') (\<lambda>m. obind (py_int m) (\<lambda>max_iter.
             Ok (g\<lparr>cg_damping := damping, cg_tol := tol, cg_max_iter := max_iter\<rparr>))))))))"

section \<open>One round over the members\<close>

type_synonym iterate = "(string, fl) dict"

definition resolve_member :: "registry \<Rightarrow> string \<Rightarrow> (solver_pair, 'e) outcome" where
  "resolve_member r m = (case registry_get r m of None \<Rightarrow> Raise RuntimeError | Some p \<Rightarrow> Ok p)"

definition call_inputs :: "inputs \<Rightarrow> iterate \<Rightarrow> string list \<Rightarrow> inputs" where
  "call_inputs x state ins =
     dict_of (map (\<lambda>p. (p, case dget x p of
                             Some v \<Rightarrow> v
                           | None \<Rightarrow> (case dget state p of Some v \<Rightarrow> VFloat v | None \<Rightarrow> VFloat (Fin 0)))) ins)"

definition damped :: "fl \<Rightarrow> fl \<Rightarrow> fl \<Rightarrow> fl" where
  "damped damping old v = fl_add old (fl_mul damping (fl_sub v old))"

definition absorb :: "fl \<Rightarrow> iterate \<Rightarrow> (string, fl) dict \<Rightarrow> iterate" where
  "absorb damping state vs =
     foldl (\<lambda>s (p, v). case dget s p of
              Some old \<Rightarrow> dset p (damped damping old v) s
            | None \<Rightarrow> dset p v s) state vs"

fun run_members ::
  "registry \<Rightarrow> inputs \<Rightarrow> fl \<Rightarrow> string list \<Rightarrow> iterate \<Rightarrow> (iterate, solve_error) outcome" where
  "run_members r x damping [] state = Ok state"
| "run_members r x damping (m # ms) state =
     obind (resolve_member r m) (\<lambda>(info, fn).
     obind (invoke_solve_fn fn (call_inputs x state (si_inputs info)) None) (\<lambda>out.
       run_members r x damping ms (absorb damping state (so_values out))))"

section \<open>The fixed point\<close>

definition relative_change :: "iterate \<Rightarrow> string \<times> fl \<Rightarrow> fl" where
  "relative_change state q =
     (case dget state (fst q) of
        None \<Rightarrow> NaN
      | Some v \<Rightarrow> fl_div (fl_abs (fl_sub v (snd q))) (fl_pymax (fl_abs (snd q)) (Fin (1 / 10 ^ 12))))"

text \<open>\<open>max(..., default=inf)\<close> over the ports of the previous iterate.\<close>

definition residual_of :: "iterate \<Rightarrow> iterate \<Rightarrow> fl" where
  "residual_of prev state =
     (case map (relative_change state) prev of [] \<Rightarrow> PInf | c # cs \<Rightarrow> foldl fl_pymax c cs)"

definition boundary_values :: "string list \<Rightarrow> iterate \<Rightarrow> ((string, fl) dict, 'e) outcome" where
  "boundary_values outs state =
     obind (omap (\<lambda>p. case dget state p of None \<Rightarrow> Raise (KeyError p) | Some v \<Rightarrow> Ok (p, v)) outs)
       (\<lambda>kvs. Ok (dict_of kvs))"

fun closure_loop ::
  "coupled_group \<Rightarrow> registry \<Rightarrow> inputs \<Rightarrow> nat \<Rightarrow> iterate \<Rightarrow> fl \<Rightarrow> (solve_output, solve_error) outcome" where
  "closure_loop g r x 0 state residual = Err (NoConvergence (cg_max_iter g) residual)"
| "closure_loop g r x (Suc n) state residual =
     obind (run_members r x (cg_damping g) (cg_members g) state) (\<lambda>state'.
       if fl_le (residual_of state state') (cg_tol g)
       then obind (boundary_values (cg_boundary_outputs g) state') (\<lambda>vs.
              Ok \<lparr>so_values = vs,
                  so_measured_eps = Some (fl_add (Fin (eps_rel (cg_accuracy g))) (residual_of state state')),
                  so_payloads = []\<rparr>)
       else closure_loop g r x n state' (residual_of state state'))"

definition closure_fn ::
  "coupled_group \<Rightarrow> registry \<Rightarrow> inputs \<Rightarrow> (solve_output, solve_error) outcome" where
  "closure_fn g r x = closure_loop g r x (nat (cg_max_iter g)) [] PInf"

text \<open>\<open>r_call\<close> is the registry as the closure finds it when it is called.\<close>

definition coupled_raw_fn :: "coupled_group \<Rightarrow> registry \<Rightarrow> raw_fn" where
  "coupled_raw_fn g r_call = (\<lambda>x _.
     (case closure_fn g r_call x of
        Ok out \<Rightarrow> RetOk (RVOutput out)
      | Err e \<Rightarrow> RetErr e
      | Raise ex \<Rightarrow> RetRaise ex))"

definition coupled_register ::
  "(json \<Rightarrow> string) \<Rightarrow> (json \<Rightarrow> string) \<Rightarrow> coupled_group \<Rightarrow> registry \<Rightarrow> registry
   \<Rightarrow> (unit, registry_error) outcome \<times> registry" where
  "coupled_register H dumps g r_call r =
     (case build_solver_info_and_fn H dumps
             (default_args\<lparr>ba_solver_id := cg_group_id g, ba_namespace := cg_namespace g,
                ba_inputs := cg_boundary_inputs g, ba_outputs := cg_boundary_outputs g,
                ba_domain := DomDict [], ba_cost := cg_cost g, ba_accuracy := AccOne (cg_accuracy g),
                ba_citations := cg_citations g, ba_version := cg_version g, ba_tier := ''coupled'',
                ba_settings := PyMap (cg_settings g), ba_conservative_for := cg_conservative_for g,
                ba_raw_fn := coupled_raw_fn g r_call\<rparr>) of
        Ok (info, fn) \<Rightarrow> register info fn r
      | Err e \<Rightarrow> (Err e, r)
      | Raise x \<Rightarrow> (Raise x, r))"

section \<open>Facts\<close>

lemma absorb_keys: "fst ` set (absorb damping state vs) = fst ` set state \<union> fst ` set vs"
proof -
  have "dhas (absorb damping state vs) k \<longleftrightarrow> dhas state k \<or> k \<in> fst ` set vs" for k
    unfolding absorb_def
    by (induction vs arbitrary: state) (auto simp: dhas_def split: option.splits)
  then show ?thesis unfolding dict_simps by blast
qed

lemma run_members_keeps:
  "run_members r x damping ms state = Ok state' \<Longrightarrow> fst ` set state \<subseteq> fst ` set state'"
proof (induction ms arbitrary: state)
  case (Cons m ms)
  then obtain vs where "run_members r x damping ms (absorb damping state vs) = Ok state'"
    by (auto simp: outcome_simps split: prod.splits)
  from Cons.IH [OF this] show ?case by (auto simp: absorb_keys)
qed simp

text \<open>Every error of a round is an error some member returned.\<close>

definition member_error :: "registry \<Rightarrow> string list \<Rightarrow> solve_error \<Rightarrow> bool" where
  "member_error r ms e \<longleftrightarrow>
     (\<exists>m \<in> set ms. \<exists>info fn xs. registry_get r m = Some (info, fn) \<and> invoke_solve_fn fn xs None = Err e)"

lemma run_members_Err:
  "run_members r x damping ms state = Err e \<Longrightarrow> member_error r ms e"
proof (induction ms arbitrary: state)
  case (Cons m ms)
  obtain p where p: "registry_get r m = Some p"
    using Cons.prems by (cases "registry_get r m") (auto simp: resolve_member_def)
  obtain info fn where i: "p = (info, fn)" by (cases p)
  show ?case
  proof (cases "invoke_solve_fn fn (call_inputs x state (si_inputs info)) None")
    case (Ok out)
    then have "run_members r x damping ms (absorb damping state (so_values out)) = Err e"
      using Cons.prems p i by (simp add: resolve_member_def)
    then show ?thesis using Cons.IH by (auto simp: member_error_def)
  next
    case (Err e')
    then show ?thesis using Cons.prems p i by (auto simp: resolve_member_def member_error_def)
  next
    case (Raise y)
    then show ?thesis using Cons.prems p i by (simp add: resolve_member_def)
  qed
qed simp

lemma boundary_values_not_Err [simp]: "boundary_values outs state \<noteq> Err e"
proof -
  have "omap (\<lambda>p. case dget state p of None \<Rightarrow> Raise (KeyError p) | Some v \<Rightarrow> Ok (p, v)) outs
      \<noteq> (Err e :: ((string \<times> fl) list, 'a) outcome)"
    by (induction outs) (auto simp: outcome_simps split: option.splits)
  then show ?thesis by (auto simp: boundary_values_def outcome_simps)
qed

text \<open>How a closure ends: at two successive rounds that agree, with a member's error, or after
  \<open>max_iter\<close> rounds.\<close>

lemma closure_loop_Ok:
  "closure_loop g r x n state residual = Ok out \<Longrightarrow>
   \<exists>prev cur vs. run_members r x (cg_damping g) (cg_members g) prev = Ok cur \<and>
     fl_le (residual_of prev cur) (cg_tol g) \<and>
     (boundary_values (cg_boundary_outputs g) cur = (Ok vs :: ((string, fl) dict, solve_error) outcome)) \<and>
     out = \<lparr>so_values = vs,
            so_measured_eps = Some (fl_add (Fin (eps_rel (cg_accuracy g))) (residual_of prev cur)),
            so_payloads = []\<rparr>"
proof (induction n arbitrary: state residual)
  case (Suc n)
  obtain cur where run: "run_members r x (cg_damping g) (cg_members g) state = Ok cur"
    using Suc.prems by (auto simp: outcome_simps)
  show ?case
  proof (cases "fl_le (residual_of state cur) (cg_tol g)")
    case True
    then obtain vs where "boundary_values (cg_boundary_outputs g) cur = (Ok vs :: ((string, fl) dict, solve_error) outcome)"
      "out = \<lparr>so_values = vs,
            so_measured_eps = Some (fl_add (Fin (eps_rel (cg_accuracy g))) (residual_of state cur)),
            so_payloads = []\<rparr>"
      using Suc.prems run by (auto simp: outcome_simps)
    then show ?thesis using run True by blast
  next
    case False
    then show ?thesis using Suc run by simp
  qed
qed simp

lemma closure_loop_Err:
  "closure_loop g r x n state residual = Err e \<Longrightarrow>
   (\<exists>res. e = NoConvergence (cg_max_iter g) res) \<or> member_error r (cg_members g) e"
proof (induction n arbitrary: state residual)
  case (Suc n)
  show ?case
  proof (cases "run_members r x (cg_damping g) (cg_members g) state")
    case (Ok cur)
    then show ?thesis using Suc by (auto simp: outcome_simps split: if_splits)
  next
    case (Err e')
    then show ?thesis using Suc.prems run_members_Err by simp
  qed (use Suc.prems in simp)
qed auto

lemma residual_start [simp]: "residual_of [] state = PInf"
  by (simp add: residual_of_def)

text \<open>A NaN at the front of a \<open>max\<close> stays; further back it is passed over.\<close>

lemma foldl_pymax_NaN: "foldl fl_pymax NaN cs = NaN"
  by (induction cs) (simp_all add: fl_pymax_def)

lemma foldl_pymax_ge:
  "c \<noteq> NaN \<Longrightarrow> y \<in> set (c # cs) \<Longrightarrow> y = NaN \<or> fl_le y (foldl fl_pymax c cs)"
proof (induction cs arbitrary: c y)
  case (Cons d cs)
  have m: "fl_pymax c d \<noteq> NaN" "fl_le c (fl_pymax c d)" "d = NaN \<or> fl_le d (fl_pymax c d)"
    using Cons.prems(1) by (cases c; cases d; auto simp: fl_pymax_def)+
  have top: "fl_le (fl_pymax c d) (foldl fl_pymax (fl_pymax c d) cs)"
    using Cons.IH [OF m(1), of "fl_pymax c d"] m(1) by auto
  from Cons.prems(2) consider "y = c" | "y = d" | "y \<in> set cs" by auto
  then show ?case
  proof cases
    case 1
    then show ?thesis using fl_le_trans [OF m(2) top] by simp
  next
    case 2
    then show ?thesis using fl_le_trans [OF _ top] m(3) by auto
  next
    case 3
    then show ?thesis using Cons.IH [OF m(1), of y] by simp
  qed
qed simp

lemma residual_ge:
  assumes "fl_le (residual_of prev cur) t" "q \<in> set prev"
  shows "relative_change cur q = NaN \<or> fl_le (relative_change cur q) t"
proof -
  obtain c cs where c: "map (relative_change cur) prev = c # cs" using assms(2) by (cases prev) auto
  have r: "residual_of prev cur = foldl fl_pymax c cs" by (simp add: residual_of_def c)
  have "c \<noteq> NaN"
  proof
    assume "c = NaN"
    then show False using assms(1) r by (simp add: foldl_pymax_NaN)
  qed
  moreover have "relative_change cur q \<in> set (c # cs)" using assms(2) c by (metis image_eqI list.set_map)
  ultimately have "relative_change cur q = NaN \<or> fl_le (relative_change cur q) (residual_of prev cur)"
    using foldl_pymax_ge r by simp
  then show ?thesis using fl_le_trans assms(1) by blast
qed

lemma change_within:
  assumes "fl_le (residual_of prev cur) (Fin t)" "(p, Fin a) \<in> set prev" "dget cur p = Some (Fin b)"
  shows "\<bar>b - a\<bar> \<le> t * max \<bar>a\<bar> (1 / 10 ^ 12)"
proof -
  have pos: "(0::real) < max \<bar>a\<bar> (1 / 10 ^ 12)" by (simp add: less_max_iff_disj)
  have m: "fl_pymax (Fin u) (Fin w) = Fin (max u w)" for u w
    by (simp add: fl_pymax_def max_def)
  have "relative_change cur (p, Fin a) = Fin (\<bar>b - a\<bar> / max \<bar>a\<bar> (1 / 10 ^ 12))"
    using assms(3) by (simp add: relative_change_def m)
  then have "\<bar>b - a\<bar> / max \<bar>a\<bar> (1 / 10 ^ 12) \<le> t"
    using residual_ge [OF assms(1,2)] by simp
  then show ?thesis using pos by (simp add: pos_divide_le_eq)
qed

end
