(* ===== verification/Plan_Search.thy ===== *)
theory Plan_Search
  imports Corner_Sweep Solve_Models
begin

text \<open>
  The planner search (\<open>crates/feldspar-core/src/search.rs\<close>). A label carries the tree of
  steps that produced it; the shared \<open>Rc\<close> pointer of a step node is a number drawn from a
  counter. One turn of the search loop is \<open>search_iter\<close>; the loop itself need not end, so
  \<open>search_loop\<close> is a partial function into \<open>option\<close>. The bit patterns of a tie key are
  rendered by the parameter \<open>bits\<close>, and the digest hash is the parameter \<open>H\<close>.
\<close>

section \<open>Data\<close>

record solver_summary =
  ss_solver_id :: string
  ss_inputs :: "string list"
  ss_outputs :: "string list"
  ss_domain :: domain
  ss_cost :: fl
  ss_accuracy :: "(string, accuracy) dict"
  ss_conservative_for :: claim_senses

record route_step =
  rs_solver_id :: string
  rs_realized_domain :: domain
  rs_predicted_eps :: real
  rs_cost :: fl

record route =
  rt_target :: string
  rt_steps :: "route_step list"
  rt_predicted_eps :: real
  rt_total_cost :: fl
  rt_digest :: string

datatype label =
  Label (lb_interval: interval) (lb_eps: real) (lb_cost: fl) (lb_node: "step_node option")
and step_node =
  StepNode (sn_ptr: nat) (sn_solver_id: string) (sn_own_cost: fl) (sn_tags: "string list")
    (sn_inputs: "(string \<times> label) list") (sn_outputs: "(string \<times> interval \<times> real) list")

definition known_label :: "interval \<Rightarrow> label" where
  "known_label iv = Label iv 0 (Fin 0) None"

definition inflated :: "label \<Rightarrow> interval" where
  "inflated l = inflate (lb_interval l) (lb_eps l)"

section \<open>Route digests\<close>

text \<open>A tuple \<open>(lo, hi)\<close> serializes as an array, a struct as an object of its fields.\<close>

definition ser_domain_json :: "domain \<Rightarrow> json" where
  "ser_domain_json d =
     JObj [(''port_box'',
            JObj (map (\<lambda>(k, v). (k, JArr [JFloat (Fin (iv_lo v)), JFloat (Fin (iv_hi v))]))
                    (d_box d))),
           (''tags'', JArr (map JStr (d_tags d)))]"

definition route_step_json :: "route_step \<Rightarrow> json" where
  "route_step_json s =
     JObj [(''solver_id'', JStr (rs_solver_id s)),
           (''realized_domain'', ser_domain_json (rs_realized_domain s)),
           (''predicted_eps'', JFloat (Fin (rs_predicted_eps s))),
           (''cost'', JFloat (rs_cost s))]"

definition route_digest ::
  "(json \<Rightarrow> string) \<Rightarrow> string \<Rightarrow> route_step list \<Rightarrow> real \<Rightarrow> fl \<Rightarrow> string" where
  "route_digest H target steps predicted_eps total_cost =
     rust_canonical_digest H
       (JObj [(''target'', JStr target), (''steps'', JArr (map route_step_json steps)),
              (''predicted_eps'', JFloat (Fin predicted_eps)),
              (''total_cost'', JFloat total_cost)])"

section \<open>Dominance\<close>

definition dominates :: "label \<Rightarrow> label \<Rightarrow> bool" where
  "dominates a b \<longleftrightarrow> fl_le (lb_cost a) (lb_cost b) \<and> is_subset (inflated a) (inflated b)"

definition insert_with_dominance :: "label list \<Rightarrow> label \<Rightarrow> label list \<times> bool" where
  "insert_with_dominance ls new =
     (if list_ex (\<lambda>existing. dominates existing new) ls then (ls, False)
      else (filter (\<lambda>existing. \<not> dominates new existing) ls @ [new], True))"

section \<open>Port equivalence cycles\<close>

text \<open>Children of a port: outputs of the one-in one-out solvers, in solver order.\<close>

definition siso_adj :: "solver_summary list \<Rightarrow> (string, string list) dict" where
  "siso_adj ss =
     foldl (\<lambda>adj s.
        (case (ss_inputs s, ss_outputs s) of
           ([i], [out]) \<Rightarrow>
             bt_insert i ((case dget adj i of None \<Rightarrow> [] | Some cs \<Rightarrow> cs) @ [out]) adj
         | _ \<Rightarrow> adj)) [] ss"

datatype color = White | Gray | Black

definition color_of :: "(string, color) dict \<Rightarrow> string \<Rightarrow> color" where
  "color_of col node = (case dget col node of None \<Rightarrow> White | Some c \<Rightarrow> c)"

text \<open>
  The depth-first search; the first argument bounds the recursion depth (a path of grey
  ports is never longer than the number of ports, so \<open>length adj + 1\<close> is enough).
\<close>

fun dfs_visit ::
  "nat \<Rightarrow> (string, string list) dict \<Rightarrow> string \<Rightarrow> (string, color) dict
   \<Rightarrow> bool \<times> (string, color) dict"
and dfs_children ::
  "nat \<Rightarrow> (string, string list) dict \<Rightarrow> string list \<Rightarrow> (string, color) dict
   \<Rightarrow> bool \<times> (string, color) dict" where
  "dfs_visit 0 adj node col = (True, col)"
| "dfs_visit (Suc fuel) adj node col =
     (case color_of col node of
        Black \<Rightarrow> (False, col)
      | Gray \<Rightarrow> (True, col)
      | White \<Rightarrow>
          (case dfs_children fuel adj
                  (case dget adj node of None \<Rightarrow> [] | Some cs \<Rightarrow> cs)
                  (bt_insert node Gray col) of
             (True, col') \<Rightarrow> (True, col')
           | (False, col') \<Rightarrow> (False, bt_insert node Black col')))"
| "dfs_children fuel adj [] col = (False, col)"
| "dfs_children fuel adj (c # cs) col =
     (case dfs_visit fuel adj c col of
        (True, col') \<Rightarrow> (True, col')
      | (False, col') \<Rightarrow> dfs_children fuel adj cs col')"

definition detect_port_equivalence_cycle :: "solver_summary list \<Rightarrow> bool" where
  "detect_port_equivalence_cycle ss =
     (let adj = siso_adj ss in
      fst (dfs_children (length adj + 2) adj (dkeys adj) []))"

section \<open>Candidates\<close>

record candidate =
  ca_solver_idx :: nat
  ca_cost :: fl
  ca_tie_key :: string
  ca_inputs :: "(string, label) dict"

fun join_bar :: "string list \<Rightarrow> string" where
  "join_bar [] = ''''"
| "join_bar [x] = x"
| "join_bar (x # xs) = x @ ''|'' @ join_bar xs"

definition tie_key_for :: "(fl \<Rightarrow> string) \<Rightarrow> (string, label) dict \<Rightarrow> string" where
  "tie_key_for bits inputs =
     join_bar (map (\<lambda>(port, l).
       port @ '':'' @ bits (Fin (iv_lo (inflated l))) @ '':'' @
       bits (Fin (iv_hi (inflated l))) @ '':'' @ bits (lb_cost l)) inputs)"

type_synonym label_map = "(string, label list) dict"

fun combos_loop ::
  "string list \<Rightarrow> label_map \<Rightarrow> (string, label) dict list \<Rightarrow> (string, label) dict list" where
  "combos_loop [] labels acc = acc"
| "combos_loop (port # ports) labels acc =
     (case dget labels port of
        None \<Rightarrow> []
      | Some choices \<Rightarrow>
          if choices = [] then []
          else combos_loop ports labels
                 (concat (map (\<lambda>combo. map (\<lambda>ch. bt_insert port ch combo) choices) acc)))"

definition combos_for :: "string list \<Rightarrow> label_map \<Rightarrow> (string, label) dict list" where
  "combos_for inputs labels = combos_loop inputs labels [[]]"

definition fl_sum :: "fl list \<Rightarrow> fl" where
  "fl_sum xs = foldl fl_add (Fin 0) xs"

definition sense_admits :: "claim_senses \<Rightarrow> string \<Rightarrow> solver_summary \<Rightarrow> bool" where
  "sense_admits sense target s \<longleftrightarrow>
     (ss_conservative_for s = BOTH \<or> ss_conservative_for s = sense) \<and>
     (ss_conservative_for s = BOTH \<or> target \<in> set (ss_outputs s))"

type_synonym pushed = "(nat \<times> string) list"

fun push_combos ::
  "(fl \<Rightarrow> string) \<Rightarrow> nat \<Rightarrow> solver_summary \<Rightarrow> (string, label) dict list
   \<Rightarrow> candidate list \<Rightarrow> pushed \<Rightarrow> candidate list \<times> pushed" where
  "push_combos bits idx s [] frontier pushed = (frontier, pushed)"
| "push_combos bits idx s (combo # combos) frontier pushed =
     (let tie_key = tie_key_for bits combo; key = (idx, tie_key) in
      if key \<in> set pushed then push_combos bits idx s combos frontier pushed
      else push_combos bits idx s combos
             (frontier @
                [\<lparr>ca_solver_idx = idx,
                  ca_cost = fl_add (ss_cost s) (fl_sum (map lb_cost (dvals combo))),
                  ca_tie_key = tie_key, ca_inputs = combo\<rparr>])
             (pushed @ [key]))"

fun regenerate_loop ::
  "(fl \<Rightarrow> string) \<Rightarrow> nat \<Rightarrow> solver_summary list \<Rightarrow> label_map \<Rightarrow> claim_senses \<Rightarrow> string
   \<Rightarrow> candidate list \<Rightarrow> pushed \<Rightarrow> candidate list \<times> pushed" where
  "regenerate_loop bits idx [] labels sense target frontier pushed = (frontier, pushed)"
| "regenerate_loop bits idx (s # ss) labels sense target frontier pushed =
     (if \<not> sense_admits sense target s
      then regenerate_loop bits (Suc idx) ss labels sense target frontier pushed
      else (case push_combos bits idx s (combos_for (ss_inputs s) labels) frontier pushed of
              (frontier', pushed') \<Rightarrow>
                regenerate_loop bits (Suc idx) ss labels sense target frontier' pushed'))"

definition regenerate_candidates ::
  "(fl \<Rightarrow> string) \<Rightarrow> solver_summary list \<Rightarrow> label_map \<Rightarrow> claim_senses \<Rightarrow> string
   \<Rightarrow> candidate list \<Rightarrow> pushed \<Rightarrow> candidate list \<times> pushed" where
  "regenerate_candidates bits ss labels sense target frontier pushed =
     regenerate_loop bits 0 ss labels sense target frontier pushed"

text \<open>The strict order of the frontier: cost, then solver id, then tie key.\<close>

definition candidate_better :: "solver_summary list \<Rightarrow> candidate \<Rightarrow> candidate \<Rightarrow> bool" where
  "candidate_better ss a b =
     (if fl_total_lt (ca_cost a) (ca_cost b) then True
      else if fl_total_lt (ca_cost b) (ca_cost a) then False
      else (let sa = ss_solver_id (ss ! ca_solver_idx a); sb = ss_solver_id (ss ! ca_solver_idx b)
            in sa < sb \<or> (sa = sb \<and> ca_tie_key a < ca_tie_key b)))"

definition best_index :: "solver_summary list \<Rightarrow> candidate list \<Rightarrow> nat" where
  "best_index ss frontier =
     foldl (\<lambda>b i. if candidate_better ss (frontier ! i) (frontier ! b) then i else b)
       0 [1..<length frontier]"

section \<open>Committing a candidate\<close>

definition input_domain_of :: "solver_summary \<Rightarrow> domain" where
  "input_domain_of s =
     domain_new (filter (\<lambda>(port, iv). port \<in> set (ss_inputs s)) (d_box (ss_domain s)))
       (d_tags (ss_domain s))"

definition inflated_inputs :: "(string, label) dict \<Rightarrow> (string, interval) dict" where
  "inflated_inputs inputs = map (\<lambda>(p, l). (p, inflated l)) inputs"

text \<open>Every output is estimated by the sum of the corner's values.\<close>

definition sum_surrogate :: "solver_summary \<Rightarrow> (unit, unit) corner_fn" where
  "sum_surrogate s = (\<lambda>u corner.
     (Ok (btree_of (map (\<lambda>out. (out, Fin (sum_list (dvals corner)))) (ss_outputs s))), u))"

definition estimate :: "solver_summary \<Rightarrow> (string, label) dict \<Rightarrow> (box, unit) outcome" where
  "estimate s inputs =
     fst (sweep_loop (sum_surrogate s) (rust_enumerate_corners (inflated_inputs inputs)) [] ())"

definition estimated_outputs ::
  "solver_summary \<Rightarrow> box \<Rightarrow> (string, interval \<times> real) dict" where
  "estimated_outputs s hl =
     btree_of (map (\<lambda>out.
       (let iv = the (dget hl out) in
        (out, iv, case dget (ss_accuracy s) out of None \<Rightarrow> 0 | Some acc \<Rightarrow> worst_over acc iv)))
       (ss_outputs s))"

fun commit_outputs ::
  "(string, interval \<times> real) dict \<Rightarrow> fl \<Rightarrow> step_node \<Rightarrow> label_map \<Rightarrow> label_map \<times> bool" where
  "commit_outputs [] cost nd labels = (labels, False)"
| "commit_outputs ((port, iv, eps) # outs) cost nd labels =
     (case insert_with_dominance
             (case dget labels port of None \<Rightarrow> [] | Some ls \<Rightarrow> ls)
             (Label iv eps cost (Some nd)) of
        (ls', committed) \<Rightarrow>
          (case commit_outputs outs cost nd (bt_insert port ls' labels) of
             (labels', any) \<Rightarrow> (labels', committed \<or> any)))"

text \<open>\<open>min_by\<close> keeps the first of equal costs.\<close>

fun min_cost :: "label \<Rightarrow> label list \<Rightarrow> label" where
  "min_cost m [] = m"
| "min_cost m (l # ls) = min_cost (if fl_total_lt (lb_cost l) (lb_cost m) then l else m) ls"

definition label_total :: "label \<Rightarrow> real" where
  "label_total l = total_error (lb_interval l) (lb_eps l)"

definition winner_of :: "label_map \<Rightarrow> string \<Rightarrow> fl \<Rightarrow> label option" where
  "winner_of labels target eps_budget =
     (case dget labels target of
        None \<Rightarrow> None
      | Some ls \<Rightarrow>
          (case filter (\<lambda>l. fl_le (Fin (label_total l)) eps_budget) ls of
             [] \<Rightarrow> None
           | l # rest \<Rightarrow> Some (min_cost l rest)))"

section \<open>Building the route\<close>

definition step_of_node :: "step_node \<Rightarrow> route_step" where
  "step_of_node nd =
     \<lparr>rs_solver_id = sn_solver_id nd,
      rs_realized_domain = domain_new (inflated_inputs (sn_inputs nd)) (sn_tags nd),
      rs_predicted_eps = foldl max 0 (map (\<lambda>(p, iv, eps). eps) (sn_outputs nd)),
      rs_cost = sn_own_cost nd\<rparr>"

text \<open>The walk emits a node's producers before the node and each shared node once.\<close>

fun walk_route ::
  "step_node \<Rightarrow> nat list \<times> route_step list \<Rightarrow> nat list \<times> route_step list"
and walk_inputs ::
  "(string \<times> label) list \<Rightarrow> nat list \<times> route_step list \<Rightarrow> nat list \<times> route_step list" where
  "walk_route (StepNode ptr sid cost tags ins outs) (visited, steps) =
     (if ptr \<in> set visited then (visited, steps)
      else (case walk_inputs ins (ptr # visited, steps) of
              (visited', steps') \<Rightarrow>
                (visited', steps' @ [step_of_node (StepNode ptr sid cost tags ins outs)])))"
| "walk_inputs [] st = st"
| "walk_inputs ((p, Label iv eps c None) # ins) st = walk_inputs ins st"
| "walk_inputs ((p, Label iv eps c (Some nd)) # ins) st = walk_inputs ins (walk_route nd st)"

definition route_steps_of :: "label \<Rightarrow> route_step list" where
  "route_steps_of winner =
     (case lb_node winner of None \<Rightarrow> [] | Some nd \<Rightarrow> snd (walk_route nd ([], [])))"

definition build_route :: "(json \<Rightarrow> string) \<Rightarrow> string \<Rightarrow> label \<Rightarrow> route" where
  "build_route H target winner =
     (let predicted_eps = label_total winner;
          steps = route_steps_of winner;
          total_cost = fl_sum (map rs_cost steps)
      in \<lparr>rt_target = target, rt_steps = steps, rt_predicted_eps = predicted_eps,
          rt_total_cost = total_cost,
          rt_digest = route_digest H target steps predicted_eps total_cost\<rparr>)"

section \<open>The search\<close>

record search_state =
  st_labels :: label_map
  st_frontier :: "candidate list"
  st_pushed :: pushed
  st_next_ptr :: nat

record request =
  rq_tags :: "string list"
  rq_target :: string
  rq_eps_budget :: fl
  rq_sense :: claim_senses

definition give_up :: "label_map \<Rightarrow> string \<Rightarrow> (route, plan_error) outcome" where
  "give_up labels target =
     (case dget labels target of
        None \<Rightarrow> Err NoApplicableSolver
      | Some [] \<Rightarrow> Err NoApplicableSolver
      | Some (l # ls) \<Rightarrow> Err (BudgetUnreachable (foldl min (label_total l) (map label_total ls))))"

definition node_for :: "nat \<Rightarrow> solver_summary \<Rightarrow> candidate \<Rightarrow> box \<Rightarrow> step_node" where
  "node_for ptr s c hl =
     StepNode ptr (ss_solver_id s) (ss_cost s) (d_tags (ss_domain s)) (ca_inputs c)
       (estimated_outputs s hl)"

text \<open>The part of a turn after the candidate has been taken off the frontier.\<close>

definition expand ::
  "(json \<Rightarrow> string) \<Rightarrow> solver_summary list \<Rightarrow> request \<Rightarrow> candidate \<Rightarrow> search_state
   \<Rightarrow> search_state + (route, plan_error) outcome" where
  "expand H ss rq c st =
     (let s = ss ! ca_solver_idx c in
      case admits (input_domain_of s) (inflated_inputs (ca_inputs c)) (rq_tags rq) of
        Ok _ \<Rightarrow>
          (case estimate s (ca_inputs c) of
             Ok hl \<Rightarrow>
               (case commit_outputs (estimated_outputs s hl) (ca_cost c)
                       (node_for (st_next_ptr st) s c hl) (st_labels st) of
                  (labels', any_committed) \<Rightarrow>
                    (let st' = st\<lparr>st_labels := labels', st_next_ptr := Suc (st_next_ptr st)\<rparr> in
                     if \<not> any_committed then Inl st'
                     else (case winner_of labels' (rq_target rq) (rq_eps_budget rq) of
                             Some w \<Rightarrow> Inr (Ok (build_route H (rq_target rq) w))
                           | None \<Rightarrow> Inl st')))
           | _ \<Rightarrow> Inr (Raise PanicException))
      | _ \<Rightarrow> Inl st)"

definition search_iter ::
  "(json \<Rightarrow> string) \<Rightarrow> (fl \<Rightarrow> string) \<Rightarrow> solver_summary list \<Rightarrow> request \<Rightarrow> search_state
   \<Rightarrow> search_state + (route, plan_error) outcome" where
  "search_iter H bits ss rq st =
     (case regenerate_candidates bits ss (st_labels st) (rq_sense rq) (rq_target rq)
             (st_frontier st) (st_pushed st) of
        (frontier, pushed) \<Rightarrow>
          if frontier = [] then Inr (give_up (st_labels st) (rq_target rq))
          else (let i = best_index ss frontier in
                expand H ss rq (frontier ! i)
                  (st\<lparr>st_frontier := take i frontier @ drop (Suc i) frontier,
                      st_pushed := pushed\<rparr>)))"

partial_function (option) search_loop ::
  "(json \<Rightarrow> string) \<Rightarrow> (fl \<Rightarrow> string) \<Rightarrow> solver_summary list \<Rightarrow> request \<Rightarrow> search_state
   \<Rightarrow> (route, plan_error) outcome option" where
  "search_loop H bits ss rq st =
     (case search_iter H bits ss rq st of
        Inr r \<Rightarrow> Some r
      | Inl st' \<Rightarrow> search_loop H bits ss rq st')"

definition search_start :: "(string, interval) dict \<Rightarrow> search_state" where
  "search_start known =
     \<lparr>st_labels = map (\<lambda>(p, iv). (p, [known_label iv])) known, st_frontier = [],
      st_pushed = [], st_next_ptr = 0\<rparr>"

text \<open>\<open>known\<close> arrives as a \<open>BTreeMap\<close>. \<open>None\<close> stands for a search that does not return.\<close>

definition rust_plan ::
  "(json \<Rightarrow> string) \<Rightarrow> (fl \<Rightarrow> string) \<Rightarrow> solver_summary list \<Rightarrow> (string, interval) dict
   \<Rightarrow> request \<Rightarrow> (route, plan_error) outcome option" where
  "rust_plan H bits ss known rq =
     (if \<not> fl_finite (rq_eps_budget rq) \<or> fl_le (rq_eps_budget rq) (Fin 0)
      then Some (Err InvalidBudget)
      else if dhas known (rq_target rq)
      then Some (Ok \<lparr>rt_target = rq_target rq, rt_steps = [], rt_predicted_eps = 0,
                     rt_total_cost = Fin 0,
                     rt_digest = route_digest H (rq_target rq) [] 0 (Fin 0)\<rparr>)
      else if \<not> list_ex (\<lambda>s. rq_target rq \<in> set (ss_outputs s)) ss
      then Some (Err (UnknownTarget (rq_target rq)))
      else if detect_port_equivalence_cycle ss then Some (Err CyclicPortEquivalence)
      else search_loop H bits ss rq (search_start known))"

end
