(* ===== verification/Plan_Facts.thy ===== *)
theory Plan_Facts
  imports Plan_Search
begin

text \<open>
  What a returned route guarantees. Every label of the search carries a tree of admissible
  solver applications over the known ports (\<open>good_label\<close>); step pointers are distinct and
  grow from producers to consumers, so the walk of \<open>build_route\<close> lists producers first.
  The result is \<open>steps_ok\<close>: each step of a route has a registered solver, its inputs are
  known or produced before it, its inflated inputs lie in its declared input box, and its
  claim sense is allowed.
\<close>

section \<open>Executable routes\<close>

definition outputs_named :: "solver_summary list \<Rightarrow> string \<Rightarrow> string set" where
  "outputs_named ss i = (\<Union>s \<in> {s \<in> set ss. ss_solver_id s = i}. set (ss_outputs s))"

definition step_ok :: "solver_summary list \<Rightarrow> request \<Rightarrow> string set \<Rightarrow> route_step \<Rightarrow> bool" where
  "step_ok ss rq avail x \<longleftrightarrow>
     (\<exists>s \<in> set ss.
        ss_solver_id s = rs_solver_id x \<and> rs_cost x = ss_cost s \<and>
        sense_admits (rq_sense rq) (rq_target rq) s \<and>
        set (ss_inputs s) \<subseteq> avail \<and>
        set (dkeys (d_box (rs_realized_domain x))) = set (ss_inputs s) \<and>
        admits (input_domain_of s) (d_box (rs_realized_domain x)) (rq_tags rq) = Ok ())"

fun steps_ok :: "solver_summary list \<Rightarrow> request \<Rightarrow> string set \<Rightarrow> route_step list \<Rightarrow> bool" where
  "steps_ok ss rq avail [] = True"
| "steps_ok ss rq avail (x # xs) =
     (step_ok ss rq avail x \<and>
      steps_ok ss rq (avail \<union> outputs_named ss (rs_solver_id x)) xs)"

definition produced_by :: "solver_summary list \<Rightarrow> route_step list \<Rightarrow> string set" where
  "produced_by ss xs = (\<Union>x \<in> set xs. outputs_named ss (rs_solver_id x))"

lemma step_ok_mono: "step_ok ss rq a x \<Longrightarrow> a \<subseteq> b \<Longrightarrow> step_ok ss rq b x"
  unfolding step_ok_def by blast

lemma steps_ok_snoc:
  "steps_ok ss rq avail (xs @ [x]) \<longleftrightarrow>
     steps_ok ss rq avail xs \<and> step_ok ss rq (avail \<union> produced_by ss xs) x"
  by (induction xs arbitrary: avail) (auto simp: produced_by_def Un_assoc)

section \<open>Good labels\<close>

inductive good_label :: "solver_summary list \<Rightarrow> (string, interval) dict \<Rightarrow> request \<Rightarrow>
    string \<Rightarrow> label \<Rightarrow> bool"
  and good_node :: "solver_summary list \<Rightarrow> (string, interval) dict \<Rightarrow> request \<Rightarrow> step_node \<Rightarrow> bool"
  for ss :: "solver_summary list" and known :: "(string, interval) dict" and rq :: request
  where
  good_known: "dget known p = Some iv \<Longrightarrow> good_label ss known rq p (known_label iv)"
| good_made: "\<lbrakk>good_node ss known rq nd; (p, iv, eps) \<in> set (sn_outputs nd)\<rbrakk> \<Longrightarrow>
    good_label ss known rq p (Label iv eps c (Some nd))"
| good_applied: "\<lbrakk>s \<in> set ss; sense_admits (rq_sense rq) (rq_target rq) s; bt_ok ins;
    fst ` set ins = set (ss_inputs s); \<forall>p l. (p, l) \<in> set ins \<longrightarrow> good_label ss known rq p l;
    admits (input_domain_of s) (inflated_inputs ins) (rq_tags rq) = Ok ();
    fst ` set outs = set (ss_outputs s)\<rbrakk> \<Longrightarrow>
    good_node ss known rq (StepNode ptr (ss_solver_id s) (ss_cost s) tags ins outs)"

inductive_cases good_labelE: "good_label ss known rq p l"
inductive_cases good_nodeE: "good_node ss known rq nd"

lemma inflated_inputs_keys [simp]: "map fst (inflated_inputs ins) = map fst ins"
  by (auto simp: inflated_inputs_def)

lemma good_node_step_ok:
  assumes g: "good_node ss known rq nd"
    and avail: "\<And>p l. (p, l) \<in> set (sn_inputs nd) \<Longrightarrow> p \<in> avail"
  shows "step_ok ss rq avail (step_of_node nd)"
  using g
proof (cases rule: good_node.cases)
  case (good_applied s ins outs ptr tags)
  note 1 = good_applied
  have "bt_ok (inflated_inputs ins)" using 1(4) by (simp add: bt_ok_def)
  then have "btree_of (inflated_inputs ins) = inflated_inputs ins" by (rule btree_of_id)
  then have "d_box (rs_realized_domain (step_of_node nd)) = inflated_inputs ins"
    using 1(1) by (simp add: step_of_node_def domain_new_def)
  moreover have "set (dkeys (inflated_inputs ins)) = set (ss_inputs s)"
  proof -
    have "set (map fst (inflated_inputs ins)) = set (map fst ins)" by simp
    then show ?thesis using 1(5) by (simp only: dkeys_def set_map)
  qed
  moreover have "set (ss_inputs s) \<subseteq> avail" using avail 1(1,5) by force
  ultimately show ?thesis
    using 1 unfolding step_ok_def by (intro bexI [of _ s]) (auto simp: step_of_node_def)
qed

lemma good_node_outputs:
  assumes "good_node ss known rq nd" "(p, v) \<in> set (sn_outputs nd)"
  shows "p \<in> outputs_named ss (rs_solver_id (step_of_node nd))"
  using assms(1)
proof (cases rule: good_node.cases)
  case (good_applied s ins outs ptr tags)
  note 1 = good_applied
  have "p \<in> fst ` set outs" using assms(2) 1(1) by (simp add: rev_image_eqI)
  then have "p \<in> set (ss_outputs s)" using 1(8) by blast
  then show ?thesis using 1(1,2) by (auto simp: outputs_named_def step_of_node_def)
qed

section \<open>The nodes of a tree\<close>

fun nodes_of :: "step_node \<Rightarrow> step_node set"
and nodes_of_inputs :: "(string \<times> label) list \<Rightarrow> step_node set" where
  "nodes_of (StepNode ptr sid cost tags ins outs) =
     insert (StepNode ptr sid cost tags ins outs) (nodes_of_inputs ins)"
| "nodes_of_inputs [] = {}"
| "nodes_of_inputs ((p, Label iv eps c None) # ins) = nodes_of_inputs ins"
| "nodes_of_inputs ((p, Label iv eps c (Some nd)) # ins) = nodes_of nd \<union> nodes_of_inputs ins"

definition nodes_of_label :: "label \<Rightarrow> step_node set" where
  "nodes_of_label l = (case lb_node l of None \<Rightarrow> {} | Some nd \<Rightarrow> nodes_of nd)"

lemma nodes_of_inputs_iff: "nodes_of_inputs ins = (\<Union>(p, l) \<in> set ins. nodes_of_label l)"
proof (induction ins)
  case (Cons x ins)
  obtain p iv eps c nd where "x = (p, Label iv eps c nd)" by (metis label.exhaust surj_pair)
  with Cons show ?case by (cases nd) (auto simp: nodes_of_label_def)
qed simp

lemma nodes_of_self: "nd \<in> nodes_of nd"
  by (cases nd) simp

lemma nodes_of_eq: "nodes_of nd = insert nd (nodes_of_inputs (sn_inputs nd))"
  by (cases nd) simp

text \<open>Distinct pointers, smaller in the producers.\<close>

definition ptrs_ok :: "step_node set \<Rightarrow> bool" where
  "ptrs_ok U \<longleftrightarrow>
     inj_on sn_ptr U \<and>
     (\<forall>n \<in> U. nodes_of_inputs (sn_inputs n) \<subseteq> U \<and>
        (\<forall>m \<in> nodes_of_inputs (sn_inputs n). sn_ptr m < sn_ptr n))"

section \<open>The walk\<close>

definition walk_pre ::
  "step_node set \<Rightarrow> nat \<Rightarrow> nat list \<times> route_step list \<Rightarrow> bool" where
  "walk_pre U bnd st \<longleftrightarrow>
     (\<forall>n \<in> U. sn_ptr n \<in> set (fst st) \<and> sn_ptr n < bnd \<longrightarrow> step_of_node n \<in> set (snd st))"

definition walk_post ::
  "step_node set \<Rightarrow> nat list \<times> route_step list \<Rightarrow> nat list \<times> route_step list \<Rightarrow> bool" where
  "walk_post U st st' \<longleftrightarrow>
     set (snd st) \<subseteq> set (snd st') \<and>
     (\<forall>n \<in> U. sn_ptr n \<in> set (fst st') \<longrightarrow>
        sn_ptr n \<in> set (fst st) \<or> step_of_node n \<in> set (snd st'))"

lemma walk_post_refl: "walk_post U st st"
  by (simp add: walk_post_def)

lemma walk_post_trans: "walk_post U a b \<Longrightarrow> walk_post U b c \<Longrightarrow> walk_post U a c"
  unfolding walk_post_def by blast

lemma walk_pre_post: "walk_pre U bnd st \<Longrightarrow> walk_post U st st' \<Longrightarrow> walk_pre U bnd st'"
  unfolding walk_pre_def walk_post_def by blast

lemma walk_ok:
  assumes U: "ptrs_ok U" and good: "\<And>n. n \<in> U \<Longrightarrow> good_node ss known rq n"
  shows "\<lbrakk>nd \<in> U; walk_pre U (Suc (sn_ptr nd)) st;
      steps_ok ss rq (fst ` set known) (snd st)\<rbrakk> \<Longrightarrow>
      walk_post U st (walk_route nd st) \<and> step_of_node nd \<in> set (snd (walk_route nd st)) \<and>
      steps_ok ss rq (fst ` set known) (snd (walk_route nd st))"
    and "\<lbrakk>nodes_of_inputs ins \<subseteq> U; \<forall>m \<in> nodes_of_inputs ins. sn_ptr m < bnd; walk_pre U bnd st;
      steps_ok ss rq (fst ` set known) (snd st)\<rbrakk> \<Longrightarrow>
      walk_post U st (walk_inputs ins st) \<and>
      (\<forall>(p, l) \<in> set ins. \<forall>m. lb_node l = Some m \<longrightarrow> step_of_node m \<in> set (snd (walk_inputs ins st))) \<and>
      steps_ok ss rq (fst ` set known) (snd (walk_inputs ins st))"
proof (induction nd st and ins st arbitrary: and bnd rule: walk_route_walk_inputs.induct)
  case (1 ptr sid cost tags ins outs visited steps)
  let ?nd = "StepNode ptr sid cost tags ins outs"
  show ?case
  proof (cases "ptr \<in> set visited")
    case True
    then show ?thesis using 1(2-4) by (simp add: walk_post_refl walk_pre_def)
  next
    case False
    obtain v s where vs: "walk_inputs ins (ptr # visited, steps) = (v, s)" by fastforce
    have sub: "nodes_of_inputs ins \<subseteq> U" "\<forall>m \<in> nodes_of_inputs ins. sn_ptr m < ptr"
      using U 1(2) by (force simp: ptrs_ok_def)+
    have pre: "walk_pre U ptr (ptr # visited, steps)"
      using 1(3) by (auto simp: walk_pre_def)
    have IH: "walk_post U (ptr # visited, steps) (v, s)"
      "\<forall>(p, l) \<in> set ins. \<forall>m. lb_node l = Some m \<longrightarrow> step_of_node m \<in> set s"
      "steps_ok ss rq (fst ` set known) s"
      using 1(1) [OF False sub pre] 1(4) vs by simp_all
    have res: "walk_route ?nd (visited, steps) = (v, s @ [step_of_node ?nd])"
      using False vs by simp
    have g: "good_node ss known rq ?nd" using good 1(2) by blast
    have "p \<in> fst ` set known \<union> produced_by ss s" if "(p, l) \<in> set ins" for p l
    proof -
      have "good_label ss known rq p l" using g that by (auto elim: good_nodeE)
      then show ?thesis
      proof (cases rule: good_label.cases)
        case (good_known iv)
        then show ?thesis by (force dest: map_of_SomeD)
      next
        case (good_made m iv eps c)
        note 2 = good_made
        then have "step_of_node m \<in> set s" using IH(2) that by fastforce
        moreover have "p \<in> outputs_named ss (rs_solver_id (step_of_node m))"
          using good_node_outputs [OF 2(2)] 2(3) by blast
        ultimately show ?thesis by (auto simp: produced_by_def)
      qed
    qed
    then have "step_ok ss rq (fst ` set known \<union> produced_by ss s) (step_of_node ?nd)"
      by (intro good_node_step_ok [OF g]) simp
    then have "steps_ok ss rq (fst ` set known) (s @ [step_of_node ?nd])"
      using IH(3) by (simp add: steps_ok_snoc)
    moreover have "walk_post U (visited, steps) (v, s @ [step_of_node ?nd])"
    proof -
      have "step_of_node n \<in> set (s @ [step_of_node ?nd])" if "n \<in> U" "sn_ptr n = ptr" for n
      proof -
        have "n = ?nd" using U 1(2) that by (auto simp: ptrs_ok_def inj_on_def)
        then show ?thesis by simp
      qed
      then show ?thesis using IH(1) by (auto simp: walk_post_def)
    qed
    ultimately show ?thesis using res by simp
  qed
next
  case (2 st)
  then show ?case by (simp add: walk_post_refl)
next
  case (3 p iv eps c ins st)
  then show ?case by simp
next
  case (4 p iv eps c nd ins st)
  have nd: "nd \<in> U" "sn_ptr nd < bnd"
    using 4(3,4) nodes_of_self [of nd] by auto
  then have "walk_pre U (Suc (sn_ptr nd)) st" using 4(5) by (auto simp: walk_pre_def)
  then have a: "walk_post U st (walk_route nd st)" "step_of_node nd \<in> set (snd (walk_route nd st))"
    "steps_ok ss rq (fst ` set known) (snd (walk_route nd st))"
    using 4(1) nd(1) 4(6) by blast+
  have "walk_pre U bnd (walk_route nd st)" using 4(5) a(1) by (rule walk_pre_post)
  then have b: "walk_post U (walk_route nd st) (walk_inputs ins (walk_route nd st))"
    "\<forall>(p, l) \<in> set ins. \<forall>m. lb_node l = Some m \<longrightarrow>
       step_of_node m \<in> set (snd (walk_inputs ins (walk_route nd st)))"
    "steps_ok ss rq (fst ` set known) (snd (walk_inputs ins (walk_route nd st)))"
    using 4(2) [of bnd] 4(3,4) a(3) by auto
  have "step_of_node nd \<in> set (snd (walk_inputs ins (walk_route nd st)))"
    using a(2) b(1) by (auto simp: walk_post_def)
  with b walk_post_trans [OF a(1) b(1)] show ?case by auto
qed

section \<open>The surrogate sweep\<close>

lemma estimate_Ok: "\<exists>hl. estimate s ins = Ok hl"
proof -
  let ?b = "inflated_inputs ins"
  let ?f = "\<lambda>corner. btree_of (map (\<lambda>out. (out, Fin (sum_list (dvals corner)))) (ss_outputs s))"
  let ?cs = "rust_enumerate_corners ?b"
  have "dict_ok (?f c) \<and> all_finite (?f c)" for c
  proof -
    have fin: "fl_finite v" if "map_of (?f c) k = Some v" for k v
    proof -
      have "(k, v) \<in> set (rev (map (\<lambda>out. (out, Fin (sum_list (dvals c)))) (ss_outputs s)))"
        using that unfolding map_of_btree_of by (rule map_of_SomeD)
      then show ?thesis by auto
    qed
    have "dict_ok (?f c)" by (simp add: bt_ok_dict_ok)
    then show ?thesis using fin unfolding all_finite_def by (auto dest: dict_ok_get)
  qed
  then obtain h where "hull_from_results (map ?f ?cs) = (Ok h :: (box, unit) outcome)"
    using hull_from_results_Ok [of "map ?f ?cs"] by auto
  then have h: "hull_results (map ?f ?cs) [] = (Ok h :: (box, unit) outcome)"
    by (simp add: hull_from_results_def)
  have "run_corners (sum_surrogate s) ?cs () = (Ok (map ?f ?cs), ())"
    by (rule run_corners_pure) (simp add: sum_surrogate_def)
  with h have "sweep_loop (sum_surrogate s) ?cs [] () = (Ok h, ())"
    unfolding sweep_loop_Ok_iff by blast
  then show ?thesis by (simp add: estimate_def)
qed

lemma estimated_outputs_keys: "fst ` set (estimated_outputs s hl) = set (ss_outputs s)"
  unfolding estimated_outputs_def keys_btree_of by (auto simp: Let_def image_image)

section \<open>The invariant of the search\<close>

definition labels_in :: "label_map \<Rightarrow> (string \<times> label) set" where
  "labels_in labels = {(p, l). \<exists>ls. (p, ls) \<in> set labels \<and> l \<in> set ls}"

definition candidate_ok ::
  "solver_summary list \<Rightarrow> (string, interval) dict \<Rightarrow> request \<Rightarrow> candidate \<Rightarrow> bool" where
  "candidate_ok ss known rq c \<longleftrightarrow>
     ca_solver_idx c < length ss \<and>
     sense_admits (rq_sense rq) (rq_target rq) (ss ! ca_solver_idx c) \<and>
     bt_ok (ca_inputs c) \<and> fst ` set (ca_inputs c) = set (ss_inputs (ss ! ca_solver_idx c)) \<and>
     (\<forall>p l. (p, l) \<in> set (ca_inputs c) \<longrightarrow> good_label ss known rq p l)"

definition universe_ok ::
  "solver_summary list \<Rightarrow> (string, interval) dict \<Rightarrow> request \<Rightarrow> search_state \<Rightarrow> step_node set \<Rightarrow> bool" where
  "universe_ok ss known rq st U \<longleftrightarrow>
     ptrs_ok U \<and> (\<forall>n \<in> U. sn_ptr n < st_next_ptr st \<and> good_node ss known rq n) \<and>
     (\<forall>(p, l) \<in> labels_in (st_labels st). nodes_of_label l \<subseteq> U) \<and>
     (\<forall>c \<in> set (st_frontier st). nodes_of_inputs (ca_inputs c) \<subseteq> U)"

definition search_inv ::
  "solver_summary list \<Rightarrow> (string, interval) dict \<Rightarrow> request \<Rightarrow> search_state \<Rightarrow> bool" where
  "search_inv ss known rq st \<longleftrightarrow>
     bt_ok (st_labels st) \<and>
     (\<forall>(p, l) \<in> labels_in (st_labels st). good_label ss known rq p l) \<and>
     (\<forall>c \<in> set (st_frontier st). candidate_ok ss known rq c) \<and>
     (\<forall>l. (rq_target rq, l) \<in> labels_in (st_labels st) \<longrightarrow>
        \<not> fl_le (Fin (label_total l)) (rq_eps_budget rq)) \<and>
     (\<exists>U. universe_ok ss known rq st U)"

text \<open>Combinations draw every input from the labels of its port.\<close>

lemma combos_loop_labels:
  "combo \<in> set (combos_loop ports labels acc) \<Longrightarrow>
   \<exists>c0 \<in> set acc. (bt_ok c0 \<longrightarrow> bt_ok combo) \<and> fst ` set combo = fst ` set c0 \<union> set ports \<and>
     (\<forall>p l. (p, l) \<in> set combo \<longrightarrow> (p, l) \<in> set c0 \<or> (p, l) \<in> labels_in labels)"
proof (induction ports labels acc rule: combos_loop.induct)
  case (1 labels acc)
  then show ?case by auto
next
  case (2 port ports labels acc)
  then obtain choices where ch: "dget labels port = Some choices" "choices \<noteq> []"
    "combo \<in> set (combos_loop ports labels
       (concat (map (\<lambda>combo. map (\<lambda>ch. bt_insert port ch combo) choices) acc)))"
    by (cases "dget labels port") (auto split: if_splits)
  obtain c1 where c1: "c1 \<in> set (concat (map (\<lambda>combo. map (\<lambda>ch. bt_insert port ch combo) choices) acc))"
    "bt_ok c1 \<longrightarrow> bt_ok combo" "fst ` set combo = fst ` set c1 \<union> set ports"
    "\<forall>p l. (p, l) \<in> set combo \<longrightarrow> (p, l) \<in> set c1 \<or> (p, l) \<in> labels_in labels"
    using 2(1) [OF ch] by blast
  then obtain c0 l0 where c0: "c0 \<in> set acc" "l0 \<in> set choices" "c1 = bt_insert port l0 c0"
    by auto
  have "(port, l0) \<in> labels_in labels"
    using ch(1) c0(2) by (auto simp: labels_in_def dest: map_of_SomeD)
  moreover have "(p, l) = (port, l0) \<or> (p, l) \<in> set c0" if "(p, l) \<in> set c1" for p l
    using that unfolding c0(3) by (induction port l0 c0 rule: bt_insert.induct) (auto split: if_splits)
  ultimately have "\<forall>p l. (p, l) \<in> set combo \<longrightarrow> (p, l) \<in> set c0 \<or> (p, l) \<in> labels_in labels"
    using c1(4) by blast
  then show ?case
    using c0(1) c1(2,3) by (intro bexI [of _ c0]) (simp_all add: c0(3))
qed

lemma combos_for_labels:
  assumes "combo \<in> set (combos_for ports labels)"
  shows "bt_ok combo" "fst ` set combo = set ports"
    "(p, l) \<in> set combo \<Longrightarrow> (p, l) \<in> labels_in labels"
  using combos_loop_labels [OF assms [unfolded combos_for_def]] by auto

lemma push_combos_new:
  "c \<in> set (fst (push_combos bits idx s combos frontier pushed)) \<Longrightarrow>
   c \<in> set frontier \<or> (ca_solver_idx c = idx \<and> ca_inputs c \<in> set combos)"
proof (induction combos arbitrary: frontier pushed)
  case (Cons combo combos)
  let ?key = "(idx, tie_key_for bits combo)"
  show ?case
  proof (cases "?key \<in> set pushed")
    case True
    then show ?thesis using Cons by auto
  next
    case False
    let ?d = "\<lparr>ca_solver_idx = idx,
      ca_cost = fl_add (ss_cost s) (fl_sum (map lb_cost (dvals combo))),
      ca_tie_key = tie_key_for bits combo, ca_inputs = combo\<rparr>"
    have "push_combos bits idx s (combo # combos) frontier pushed =
         push_combos bits idx s combos (frontier @ [?d]) (pushed @ [?key])"
      using False by (simp add: Let_def)
    then have "c \<in> set (frontier @ [?d]) \<or> (ca_solver_idx c = idx \<and> ca_inputs c \<in> set combos)"
      using Cons.IH [of "frontier @ [?d]" "pushed @ [?key]"] Cons.prems by simp
    then show ?thesis by (auto simp del: push_combos.simps)
  qed
qed simp

lemma regenerate_loop_new:
  "c \<in> set (fst (regenerate_loop bits idx ss labels sense target frontier pushed)) \<Longrightarrow>
   c \<in> set frontier \<or>
   (\<exists>i < length ss. ca_solver_idx c = idx + i \<and> sense_admits sense target (ss ! i) \<and>
      ca_inputs c \<in> set (combos_for (ss_inputs (ss ! i)) labels))"
proof (induction bits idx ss labels sense target frontier pushed rule: regenerate_loop.induct)
  case (2 bits idx s ss labels sense target frontier pushed)
  show ?case
  proof (cases "sense_admits sense target s")
    case False
    then have "c \<in> set (fst (regenerate_loop bits (Suc idx) ss labels sense target frontier pushed))"
      using 2(3) by simp
    from 2(1) [OF False this] show ?thesis by force
  next
    case True
    obtain f p where fp:
      "push_combos bits idx s (combos_for (ss_inputs s) labels) frontier pushed = (f, p)"
      by fastforce
    then have "c \<in> set (fst (regenerate_loop bits (Suc idx) ss labels sense target f p))"
      using 2(3) True by simp
    from 2(2) [OF _ fp [symmetric] this] True have "c \<in> set f \<or>
      (\<exists>i < length ss. ca_solver_idx c = Suc idx + i \<and> sense_admits sense target (ss ! i) \<and>
        ca_inputs c \<in> set (combos_for (ss_inputs (ss ! i)) labels))" by simp
    then show ?thesis
    proof
      assume "c \<in> set f"
      then show ?thesis using push_combos_new [of c bits idx s _ frontier pushed] fp True by force
    next
      assume "\<exists>i < length ss. ca_solver_idx c = Suc idx + i \<and> sense_admits sense target (ss ! i) \<and>
        ca_inputs c \<in> set (combos_for (ss_inputs (ss ! i)) labels)"
      then show ?thesis by force
    qed
  qed
qed simp

lemma regenerate_inv:
  assumes inv: "search_inv ss known rq st"
    and reg: "regenerate_candidates bits ss (st_labels st) (rq_sense rq) (rq_target rq)
       (st_frontier st) (st_pushed st) = (frontier, pushed)"
  shows "search_inv ss known rq (st\<lparr>st_frontier := frontier, st_pushed := pushed\<rparr>)"
proof -
  have good: "good_label ss known rq p l" if "(p, l) \<in> labels_in (st_labels st)" for p l
    using inv that by (auto simp: search_inv_def)
  obtain U where U: "universe_ok ss known rq st U" using inv by (auto simp: search_inv_def)
  have new: "candidate_ok ss known rq c \<and> nodes_of_inputs (ca_inputs c) \<subseteq> U"
    if c: "c \<in> set frontier" for c
  proof -
    have "c \<in> set (fst (regenerate_loop bits 0 ss (st_labels st) (rq_sense rq) (rq_target rq)
        (st_frontier st) (st_pushed st)))"
      using reg c by (simp add: regenerate_candidates_def)
    from regenerate_loop_new [OF this] consider "c \<in> set (st_frontier st)"
      | i where "i < length ss" "ca_solver_idx c = i"
        "sense_admits (rq_sense rq) (rq_target rq) (ss ! i)"
        "ca_inputs c \<in> set (combos_for (ss_inputs (ss ! i)) (st_labels st))"
      by force
    then show ?thesis
    proof cases
      case 1
      then show ?thesis using inv U by (auto simp: search_inv_def universe_ok_def)
    next
      case 2
      note combo = combos_for_labels [OF 2(4)]
      have "candidate_ok ss known rq c"
        using 2(1-3) combo good by (simp add: candidate_ok_def)
      moreover have "nodes_of_inputs (ca_inputs c) \<subseteq> U"
        using U combo(3) unfolding nodes_of_inputs_iff universe_ok_def by blast
      ultimately show ?thesis by blast
    qed
  qed
  then have "universe_ok ss known rq (st\<lparr>st_frontier := frontier, st_pushed := pushed\<rparr>) U"
    using U by (simp add: universe_ok_def)
  then show ?thesis using inv new unfolding search_inv_def by auto
qed

text \<open>Committing adds labels of the new node only, and only drops old ones.\<close>

lemma labels_in_bt_insert:
  "(p, l) \<in> labels_in (bt_insert k ls labels) \<Longrightarrow> (p = k \<and> l \<in> set ls) \<or> (p, l) \<in> labels_in labels"
proof -
  have "(a, b) = (k, ls) \<or> (a, b) \<in> set labels" if "(a, b) \<in> set (bt_insert k ls labels)" for a b
    using that by (induction k ls labels rule: bt_insert.induct) (auto split: if_splits)
  then show "(p, l) \<in> labels_in (bt_insert k ls labels) \<Longrightarrow> ?thesis"
    unfolding labels_in_def by blast
qed

lemma insert_with_dominance_set:
  "l \<in> set (fst (insert_with_dominance ls new)) \<Longrightarrow>
   l \<in> set ls \<or> (l = new \<and> snd (insert_with_dominance ls new))"
  by (auto simp: insert_with_dominance_def split: if_splits)

lemma commit_outputs_labels:
  assumes "commit_outputs outs cost nd labels = (labels', any)" "(p, l) \<in> labels_in labels'"
  shows "(p, l) \<in> labels_in labels \<or>
         (any \<and> (\<exists>iv eps. (p, iv, eps) \<in> set outs \<and> l = Label iv eps cost (Some nd)))"
  using assms
proof (induction outs cost nd labels arbitrary: labels' any rule: commit_outputs.induct)
  case (1 cost nd labels)
  then show ?case by simp
next
  case (2 port iv eps outs cost nd labels)
  let ?old = "case dget labels port of None \<Rightarrow> [] | Some ls \<Rightarrow> ls"
  let ?new = "Label iv eps cost (Some nd)"
  obtain ls c where ls: "insert_with_dominance ?old ?new = (ls, c)" by fastforce
  obtain lb a where lb: "commit_outputs outs cost nd (bt_insert port ls labels) = (lb, a)"
    by fastforce
  have res: "labels' = lb" "any = (c \<or> a)" using 2(2) ls lb by simp_all
  from 2(1) [OF ls [symmetric] lb] 2(3) res
  have "(p, l) \<in> labels_in (bt_insert port ls labels) \<or>
      (a \<and> (\<exists>iv eps. (p, iv, eps) \<in> set outs \<and> l = Label iv eps cost (Some nd)))" by simp
  then show ?case
  proof
    assume "(p, l) \<in> labels_in (bt_insert port ls labels)"
    then consider "p = port" "l \<in> set ls" | "(p, l) \<in> labels_in labels"
      using labels_in_bt_insert by blast
    then show ?thesis
    proof cases
      case 1
      then have "l \<in> set ?old \<or> (l = ?new \<and> c)"
        using insert_with_dominance_set [of l ?old ?new] ls by simp
      moreover have "(port, l) \<in> labels_in labels" if "l \<in> set ?old"
        using that by (cases "dget labels port") (auto simp: labels_in_def dest: map_of_SomeD)
      ultimately show ?thesis using 1(1) res(2) by auto
    qed simp
  next
    assume "a \<and> (\<exists>iv eps. (p, iv, eps) \<in> set outs \<and> l = Label iv eps cost (Some nd))"
    then show ?thesis using res(2) by auto
  qed
qed

lemma min_cost_in: "min_cost m ls \<in> set (m # ls)"
  by (induction m ls rule: min_cost.induct) auto

lemma winner_of_Some:
  assumes "winner_of labels target bud = Some w"
  shows "(target, w) \<in> labels_in labels" "fl_le (Fin (label_total w)) bud"
proof -
  obtain ls l rest where ls: "dget labels target = Some ls"
    "filter (\<lambda>l. fl_le (Fin (label_total l)) bud) ls = l # rest" "w = min_cost l rest"
    using assms by (auto simp: winner_of_def split: option.splits list.splits)
  then have "w \<in> set (filter (\<lambda>l. fl_le (Fin (label_total l)) bud) ls)"
    using min_cost_in [of l rest] by simp
  then show "(target, w) \<in> labels_in labels" "fl_le (Fin (label_total w)) bud"
    using ls(1) by (auto simp: labels_in_def dest: map_of_SomeD)
qed

lemma winner_of_None:
  assumes "winner_of labels target bud = None" "dict_ok labels" "(target, l) \<in> labels_in labels"
  shows "\<not> fl_le (Fin (label_total l)) bud"
proof -
  obtain ls where "(target, ls) \<in> set labels" "l \<in> set ls"
    using assms(3) by (auto simp: labels_in_def)
  moreover from this have "dget labels target = Some ls" using assms(2) by (simp add: dict_ok_get)
  ultimately show ?thesis
    using assms(1) by (auto simp: winner_of_def filter_empty_conv split: list.splits)
qed

lemma commit_outputs_bt_ok:
  "commit_outputs outs cost nd labels = (labels', any) \<Longrightarrow> bt_ok labels \<Longrightarrow> bt_ok labels'"
proof (induction outs cost nd labels arbitrary: labels' any rule: commit_outputs.induct)
  case (2 port iv eps outs cost nd labels)
  let ?old = "case dget labels port of None \<Rightarrow> [] | Some ls \<Rightarrow> ls"
  obtain ls c where ls: "insert_with_dominance ?old (Label iv eps cost (Some nd)) = (ls, c)"
    by fastforce
  obtain lb a where lb: "commit_outputs outs cost nd (bt_insert port ls labels) = (lb, a)"
    by fastforce
  have "labels' = lb" using 2(2) ls lb by simp
  then show ?case using 2(1) [OF ls [symmetric] lb] 2(3) by simp
qed simp

section \<open>The route that is returned\<close>

definition route_ok ::
  "solver_summary list \<Rightarrow> (string, interval) dict \<Rightarrow> request \<Rightarrow> route \<Rightarrow> bool" where
  "route_ok ss known rq r \<longleftrightarrow>
     rt_target r = rq_target rq \<and> rt_steps r \<noteq> [] \<and>
     steps_ok ss rq (fst ` set known) (rt_steps r) \<and>
     rq_target rq \<in> outputs_named ss (rs_solver_id (last (rt_steps r))) \<and>
     fl_le (Fin (rt_predicted_eps r)) (rq_eps_budget rq)"

lemma build_route_ok:
  assumes U: "ptrs_ok U" "\<And>n. n \<in> U \<Longrightarrow> good_node ss known rq n"
    and w: "good_label ss known rq (rq_target rq) w" "nodes_of_label w \<subseteq> U"
    and fresh: "dget known (rq_target rq) = None"
    and bud: "fl_le (Fin (label_total w)) (rq_eps_budget rq)"
  shows "route_ok ss known rq (build_route H (rq_target rq) w)"
  using w(1)
proof (cases rule: good_label.cases)
  case (good_known iv)
  then show ?thesis using fresh by simp
next
  case (good_made nd iv eps c)
  have nd: "nd \<in> U"
    using w(2) good_made(1) nodes_of_self [of nd] by (auto simp: nodes_of_label_def)
  have steps: "route_steps_of w = snd (walk_route nd ([], []))"
    using good_made(1) by (simp add: route_steps_of_def)
  have "steps_ok ss rq (fst ` set known) (snd (walk_route nd ([], [])))"
    using walk_ok(1) [OF U nd, of "([], [])"] by (simp add: walk_pre_def)
  moreover have "\<exists>xs. snd (walk_route nd ([], [])) = xs @ [step_of_node nd]"
    by (cases nd) (auto split: prod.splits)
  moreover have "rq_target rq \<in> outputs_named ss (rs_solver_id (step_of_node nd))"
    using good_node_outputs [OF good_made(2,3)] .
  ultimately show ?thesis
    using steps bud by (auto simp: route_ok_def build_route_def Let_def)
qed

lemma ptrs_ok_insert:
  assumes "ptrs_ok U" "\<And>n. n \<in> U \<Longrightarrow> sn_ptr n < sn_ptr nd" "nodes_of_inputs (sn_inputs nd) \<subseteq> U"
  shows "ptrs_ok (insert nd U)"
proof -
  have "inj_on sn_ptr (insert nd U)"
  proof -
    have "sn_ptr nd \<notin> sn_ptr ` (U - {nd})" using assms(2) by (metis DiffD1 imageE less_irrefl)
    then show ?thesis using assms(1) by (simp add: ptrs_ok_def inj_on_insert)
  qed
  moreover have "\<forall>m \<in> nodes_of_inputs (sn_inputs nd). sn_ptr m < sn_ptr nd"
    using assms(2,3) by blast
  ultimately show ?thesis
    using assms(1,3) unfolding ptrs_ok_def by (simp only: ball_simps insert_iff) blast
qed

lemma expand_inv:
  assumes inv: "search_inv ss known rq st" and c: "candidate_ok ss known rq c"
    and U: "universe_ok ss known rq st U" and cU: "nodes_of_inputs (ca_inputs c) \<subseteq> U"
    and fresh: "dget known (rq_target rq) = None"
  shows "case expand H ss rq c st of
           Inl st' \<Rightarrow> search_inv ss known rq st'
         | Inr r \<Rightarrow> (\<exists>rt. r = Ok rt \<and> route_ok ss known rq rt)"
proof -
  let ?s = "ss ! ca_solver_idx c"
  obtain hl where hl: "estimate ?s (ca_inputs c) = Ok hl" using estimate_Ok by blast
  let ?outs = "estimated_outputs ?s hl"
  let ?nd = "node_for (st_next_ptr st) ?s c hl"
  obtain labels' any where com:
    "commit_outputs ?outs (ca_cost c) ?nd (st_labels st) = (labels', any)" by fastforce
  let ?st = "st\<lparr>st_labels := labels', st_next_ptr := Suc (st_next_ptr st)\<rparr>"
  show ?thesis
  proof (cases "admits (input_domain_of ?s) (inflated_inputs (ca_inputs c)) (rq_tags rq) = Ok ()")
    case False
    then have "expand H ss rq c st = Inl st"
      by (auto simp: expand_def Let_def split: outcome.splits)
    then show ?thesis using inv by simp
  next
    case True
    have s: "?s \<in> set ss" using c by (simp add: candidate_ok_def)
    have nd: "good_node ss known rq ?nd"
      unfolding node_for_def using s c True estimated_outputs_keys [of ?s hl]
      by (intro good_applied) (auto simp: candidate_ok_def)
    have ptr: "sn_ptr ?nd = st_next_ptr st" "sn_inputs ?nd = ca_inputs c" "sn_outputs ?nd = ?outs"
      by (simp_all add: node_for_def)
    let ?U = "insert ?nd U"
    have U': "ptrs_ok ?U"
      using U cU ptr by (intro ptrs_ok_insert) (auto simp: universe_ok_def)
    have goodU: "good_node ss known rq n" if "n \<in> ?U" for n
      using that U nd by (auto simp: universe_ok_def)
    have labs: "good_label ss known rq p l \<and> nodes_of_label l \<subseteq> ?U"
      if "(p, l) \<in> labels_in labels'" for p l
    proof -
      from commit_outputs_labels [OF com that] show ?thesis
      proof
        assume "(p, l) \<in> labels_in (st_labels st)"
        then show ?thesis using inv U by (auto simp: search_inv_def universe_ok_def)
      next
        assume "any \<and> (\<exists>iv eps. (p, iv, eps) \<in> set ?outs \<and> l = Label iv eps (ca_cost c) (Some ?nd))"
        then obtain iv eps where l: "(p, iv, eps) \<in> set (sn_outputs ?nd)"
          "l = Label iv eps (ca_cost c) (Some ?nd)" using ptr(3) by auto
        then have "good_label ss known rq p l" using good_made [OF nd l(1)] by simp
        moreover have "nodes_of_label l \<subseteq> ?U"
          using l(2) cU ptr(2) nodes_of_eq [of ?nd] by (auto simp: nodes_of_label_def)
        ultimately show ?thesis by blast
      qed
    qed
    have bt: "bt_ok labels'"
      using commit_outputs_bt_ok [OF com] inv by (simp add: search_inv_def)
    have univ: "universe_ok ss known rq ?st ?U"
      using U U' goodU labs ptr(1) by (fastforce simp: universe_ok_def)
    have cand: "\<forall>c \<in> set (st_frontier ?st). candidate_ok ss known rq c"
      using inv by (simp add: search_inv_def)
    have inv': "search_inv ss known rq ?st"
      if none: "\<And>l. (rq_target rq, l) \<in> labels_in labels' \<Longrightarrow>
        \<not> fl_le (Fin (label_total l)) (rq_eps_budget rq)"
      unfolding search_inv_def using bt labs cand none univ by auto
    show ?thesis
    proof (cases any)
      case False
      then have "labels_in labels' \<subseteq> labels_in (st_labels st)"
        using commit_outputs_labels [OF com] by auto
      then have "search_inv ss known rq ?st" using inv by (intro inv') (auto simp: search_inv_def)
      moreover have "expand H ss rq c st = Inl ?st"
        using True hl com False by (simp add: expand_def Let_def)
      ultimately show ?thesis by simp
    next
      case any: True
      show ?thesis
      proof (cases "winner_of labels' (rq_target rq) (rq_eps_budget rq)")
        case None
        then have "search_inv ss known rq ?st"
          using bt by (intro inv' winner_of_None) (auto simp: bt_ok_dict_ok)
        moreover have "expand H ss rq c st = Inl ?st"
          using True hl com any None by (simp add: expand_def Let_def)
        ultimately show ?thesis by simp
      next
        case (Some w)
        note w = winner_of_Some [OF Some]
        have "route_ok ss known rq (build_route H (rq_target rq) w)"
          using labs [OF w(1)] w(2) fresh by (intro build_route_ok [OF U' goodU]) auto
        moreover have "expand H ss rq c st = Inr (Ok (build_route H (rq_target rq) w))"
          using True hl com any Some by (simp add: expand_def Let_def)
        ultimately show ?thesis by simp
      qed
    qed
  qed
qed

lemma best_index_less: "frontier \<noteq> [] \<Longrightarrow> best_index ss frontier < length frontier"
proof -
  assume ne: "frontier \<noteq> []"
  let ?f = "\<lambda>b i. if candidate_better ss (frontier ! i) (frontier ! b) then i else b"
  have "foldl ?f b ks < length frontier"
    if "b < length frontier" "set ks \<subseteq> {..<length frontier}" for b ks
    using that by (induction ks arbitrary: b) auto
  from this [of 0 "[1..<length frontier]"] show ?thesis using ne by (force simp: best_index_def)
qed

lemma search_iter_inv:
  assumes inv: "search_inv ss known rq st" and fresh: "dget known (rq_target rq) = None"
  shows "case search_iter H bits ss rq st of
           Inl st' \<Rightarrow> search_inv ss known rq st'
         | Inr r \<Rightarrow> (\<exists>rt. r = Ok rt \<and> route_ok ss known rq rt) \<or>
                    (r = give_up (st_labels st) (rq_target rq))"
proof -
  obtain frontier pushed where reg: "regenerate_candidates bits ss (st_labels st) (rq_sense rq)
      (rq_target rq) (st_frontier st) (st_pushed st) = (frontier, pushed)" by fastforce
  show ?thesis
  proof (cases "frontier = []")
    case True
    then show ?thesis using reg by (simp add: search_iter_def)
  next
    case False
    let ?i = "best_index ss frontier"
    let ?c = "frontier ! ?i"
    let ?st1 = "st\<lparr>st_frontier := frontier, st_pushed := pushed\<rparr>"
    let ?st = "st\<lparr>st_frontier := take ?i frontier @ drop (Suc ?i) frontier, st_pushed := pushed\<rparr>"
    have inv1: "search_inv ss known rq ?st1" using regenerate_inv [OF inv reg] .
    have mem: "?c \<in> set frontier" using best_index_less [OF False] by simp
    have sub: "set (take ?i frontier @ drop (Suc ?i) frontier) \<subseteq> set frontier"
      by (auto dest: in_set_takeD in_set_dropD)
    obtain U where U: "universe_ok ss known rq ?st1 U" using inv1 by (auto simp: search_inv_def)
    have U': "universe_ok ss known rq ?st U"
      using U sub unfolding universe_ok_def by auto
    have "search_inv ss known rq ?st"
      using inv1 U' sub unfolding search_inv_def by auto
    moreover have "candidate_ok ss known rq ?c" "nodes_of_inputs (ca_inputs ?c) \<subseteq> U"
      using inv1 U mem by (auto simp: search_inv_def universe_ok_def)
    ultimately have "case expand H ss rq ?c ?st of
           Inl st' \<Rightarrow> search_inv ss known rq st'
         | Inr r \<Rightarrow> (\<exists>rt. r = Ok rt \<and> route_ok ss known rq rt)"
      using U' fresh by (intro expand_inv)
    moreover have "search_iter H bits ss rq st = expand H ss rq ?c ?st"
      using reg False by (simp add: search_iter_def Let_def)
    ultimately show ?thesis by (simp split: sum.splits)
  qed
qed

lemma give_up_err:
  assumes "search_inv ss known rq st"
  shows "give_up (st_labels st) (rq_target rq) = Err NoApplicableSolver \<or>
         (\<exists>best. give_up (st_labels st) (rq_target rq) = Err (BudgetUnreachable best) \<and>
            \<not> fl_le (Fin best) (rq_eps_budget rq))"
proof (cases "dget (st_labels st) (rq_target rq)")
  case (Some ls)
  show ?thesis
  proof (cases ls)
    case (Cons l rest)
    have over: "\<not> fl_le (Fin (label_total k)) (rq_eps_budget rq)" if "k \<in> set ls" for k
    proof -
      have "(rq_target rq, k) \<in> labels_in (st_labels st)"
        using map_of_SomeD [OF Some] that by (auto simp: labels_in_def)
      then show ?thesis using assms by (simp add: search_inv_def)
    qed
    have "\<not> fl_le (Fin (foldl min x (map label_total ks))) (rq_eps_budget rq)"
      if "\<not> fl_le (Fin x) (rq_eps_budget rq)"
        "\<And>k. k \<in> set ks \<Longrightarrow> \<not> fl_le (Fin (label_total k)) (rq_eps_budget rq)" for x ks
      using that by (induction ks arbitrary: x) (auto simp: min_def)
    then have "\<not> fl_le (Fin (foldl min (label_total l) (map label_total rest))) (rq_eps_budget rq)"
      using over Cons by simp
    then show ?thesis using Some Cons by (simp add: give_up_def)
  qed (use Some in \<open>simp add: give_up_def\<close>)
qed (simp add: give_up_def)

text \<open>The outcomes a search from an invariant state can have, when it returns.\<close>

definition search_result_ok ::
  "solver_summary list \<Rightarrow> (string, interval) dict \<Rightarrow> request \<Rightarrow> (route, plan_error) outcome \<Rightarrow> bool" where
  "search_result_ok ss known rq r \<longleftrightarrow>
     (\<exists>rt. r = Ok rt \<and> route_ok ss known rq rt) \<or> r = Err NoApplicableSolver \<or>
     (\<exists>best. r = Err (BudgetUnreachable best) \<and> \<not> fl_le (Fin best) (rq_eps_budget rq))"

lemma search_loop_ok:
  assumes "search_loop H bits ss rq st = Some r" "search_inv ss known rq st"
    "dget known (rq_target rq) = None"
  shows "search_result_ok ss known rq r"
proof -
  let ?P = "\<lambda>H bits ss rq st r. search_inv ss known rq st \<longrightarrow> dget known (rq_target rq) = None \<longrightarrow>
    search_result_ok ss known rq r"
  have "?P H bits ss rq st r"
  proof (rule search_loop.raw_induct [where P = ?P, OF _ assms(1)], intro impI)
    fix f H bits ss rq st r
    assume IH: "\<And>H bits ss rq st r. f H bits ss rq st = Some r \<Longrightarrow> ?P H bits ss rq st r"
      and body: "(case search_iter H bits ss rq st of Inl st' \<Rightarrow> f H bits ss rq st' | Inr r \<Rightarrow> Some r) = Some r"
      and inv: "search_inv ss known rq st" "dget known (rq_target rq) = None"
    note it = search_iter_inv [OF inv, of H bits]
    show "search_result_ok ss known rq r"
    proof (cases "search_iter H bits ss rq st")
      case (Inl st')
      then show ?thesis using IH body it inv(2) by simp
    next
      case (Inr r')
      then show ?thesis
        using body it give_up_err [OF inv(1)] by (auto simp: search_result_ok_def)
    qed
  qed
  then show ?thesis using assms(2,3) by simp
qed

lemma search_inv_start:
  assumes "bt_ok known" "dget known (rq_target rq) = None"
  shows "search_inv ss known rq (search_start known)"
proof -
  have lab: "(p, l) \<in> labels_in (st_labels (search_start known)) \<longleftrightarrow>
      (\<exists>iv. (p, iv) \<in> set known \<and> l = known_label iv)" for p l
    by (force simp: labels_in_def search_start_def)
  have "bt_ok (st_labels (search_start known))"
    using assms(1) by (simp add: search_start_def bt_ok_def comp_def case_prod_beta)
  moreover have "good_label ss known rq p l"
    if "(p, l) \<in> labels_in (st_labels (search_start known))" for p l
    using that assms(1) unfolding lab
    by (auto intro!: good_known simp: bt_ok_dict_ok dict_ok_get)
  moreover have "(rq_target rq, l) \<notin> labels_in (st_labels (search_start known))" for l
    using assms(2) unfolding lab by (force simp: map_of_eq_None_iff)
  moreover have "universe_ok ss known rq (search_start known) {}"
    unfolding universe_ok_def ptrs_ok_def using lab
    by (auto simp: nodes_of_label_def known_label_def search_start_def)
  ultimately show ?thesis
    unfolding search_inv_def by (auto simp: search_start_def)
qed

lemma rust_plan_Ok:
  assumes "rust_plan H bits ss known rq = Some (Ok r)" "bt_ok known"
  shows "if dhas known (rq_target rq) then rt_target r = rq_target rq \<and> rt_steps r = []
         else route_ok ss known rq r"
proof (cases "dhas known (rq_target rq)")
  case True
  then show ?thesis using assms(1) by (auto simp: rust_plan_def split: if_splits)
next
  case False
  then have "search_loop H bits ss rq (search_start known) = Some (Ok r)"
    using assms(1) by (auto simp: rust_plan_def split: if_splits)
  moreover have fresh: "dget known (rq_target rq) = None" using False by (simp add: dhas_def)
  ultimately have "search_result_ok ss known rq (Ok r)"
    using search_loop_ok search_inv_start [OF assms(2) fresh] by blast
  then show ?thesis using False by (simp add: search_result_ok_def)
qed

end
