(* ===== verification/Plan_Route.thy ===== *)
theory Plan_Route
  imports Plan_Facts Solver_Registry
begin

text \<open>
  The planner facade (\<open>plan/route.py\<close>), the registry view of the reroute loop and the
  route policy (\<open>plan/solve.py\<close>, \<open>plan/policy.py\<close>). \<open>plan\<close> takes the pairs a registry
  iterates over; \<open>None\<close> stands for a search that does not return.
\<close>

section \<open>Policies and views\<close>

record route_policy =
  rp_fallback :: bool
  rp_cache :: bool
  rp_threads :: int

definition route_policy_new :: "bool \<Rightarrow> bool \<Rightarrow> int \<Rightarrow> (route_policy, 'e) outcome" where
  "route_policy_new fallback cache threads =
     (if threads \<noteq> 1 then Raise ValueError
      else Ok \<lparr>rp_fallback = fallback, rp_cache = cache, rp_threads = threads\<rparr>)"

definition excluding_view :: "registry \<times> string set \<Rightarrow> solver_pair list" where
  "excluding_view v = filter (\<lambda>p. pair_id p \<notin> snd v) (registry_iter (fst v))"

definition view_ok :: "registry \<times> string set \<Rightarrow> bool" where
  "view_ok v \<longleftrightarrow> registry_ok (fst v)"

interpretation view_source: solver_source view_ok excluding_view
proof
  fix v assume "view_ok v"
  then have "sorted_wrt (<) (map pair_id (registry_iter (fst v)))"
    by (simp add: view_ok_def registry_source.ids_ascending)
  then show "sorted_wrt (<) (map pair_id (excluding_view v))"
    by (simp add: excluding_view_def sorted_wrt_map sorted_wrt_filter)
qed

section \<open>The facade\<close>

definition summary_of :: "solver_info \<Rightarrow> solver_summary" where
  "summary_of info =
     \<lparr>ss_solver_id = si_solver_id info, ss_inputs = si_inputs info,
      ss_outputs = si_outputs info, ss_domain = si_domain info, ss_cost = si_cost info,
      ss_accuracy = btree_of (si_accuracy info),
      ss_conservative_for = si_conservative_for info\<rparr>"

definition summaries :: "solver_pair list \<Rightarrow> solver_summary list" where
  "summaries ps = map (\<lambda>(info, fn). summary_of info) ps"

text \<open>Known payload ports enter the search as a width-0 interval.\<close>

definition PAYLOAD_PLACEHOLDER :: interval where
  "PAYLOAD_PLACEHOLDER = \<lparr>iv_lo = 0, iv_hi = 0\<rparr>"

definition merge_payloads ::
  "(string, interval) dict \<Rightarrow> (string, payload_ref) dict \<Rightarrow> (string, interval) dict" where
  "merge_payloads known payloads =
     foldl (\<lambda>merged port. if dhas merged port then merged else dset port PAYLOAD_PLACEHOLDER merged)
       known (dkeys payloads)"

definition plan ::
  "(json \<Rightarrow> string) \<Rightarrow> (fl \<Rightarrow> string) \<Rightarrow> solver_pair list \<Rightarrow> (string, interval) dict
   \<Rightarrow> string list \<Rightarrow> string \<Rightarrow> fl \<Rightarrow> senses_arg \<Rightarrow> (string, payload_ref) dict
   \<Rightarrow> (route, plan_error) outcome option" where
  "plan H bits ps known tags target eps_budget sense payloads =
     (case claim_senses_coerce sense :: (claim_senses, plan_error) outcome of
        Ok resolved_sense \<Rightarrow>
          rust_plan H bits (summaries ps) (btree_of (merge_payloads known payloads))
            \<lparr>rq_tags = bset_of tags, rq_target = target, rq_eps_budget = eps_budget,
             rq_sense = resolved_sense\<rparr>
      | Err e \<Rightarrow> Some (Err e)
      | Raise x \<Rightarrow> Some (Raise x))"

section \<open>Facts\<close>

lemma summaries_ids: "map ss_solver_id (summaries ps) = map pair_id ps"
  by (simp add: summaries_def summary_of_def case_prod_beta)

lemma merge_payloads_keys:
  "fst ` set (merge_payloads known payloads) = fst ` set known \<union> fst ` set payloads"
proof -
  have "dhas (foldl (\<lambda>m p. if dhas m p then m else dset p PAYLOAD_PLACEHOLDER m) m ps) k \<longleftrightarrow>
      dhas m k \<or> k \<in> set ps" for m :: "(string, interval) dict" and ps k
    by (induction ps arbitrary: m) auto
  then have "dhas (merge_payloads known payloads) k \<longleftrightarrow> dhas known k \<or> k \<in> set (dkeys payloads)" for k
    by (simp add: merge_payloads_def)
  then show ?thesis unfolding dict_simps set_dkeys by blast
qed

lemma merge_payloads_known:
  "dget known p = Some iv \<Longrightarrow> dget (merge_payloads known payloads) p = Some iv"
proof -
  assume a: "dget known p = Some iv"
  have "dget (foldl (\<lambda>m p. if dhas m p then m else dset p PAYLOAD_PLACEHOLDER m) m ps) p = Some iv"
    if "dget m p = Some iv" for m :: "(string, interval) dict" and ps
    using that
  proof (induction ps arbitrary: m)
    case (Cons q ps)
    then have "dget (if dhas m q then m else dset q PAYLOAD_PLACEHOLDER m) p = Some iv"
      by (auto simp: dhas_def)
    then show ?case using Cons.IH by simp
  qed simp
  then show ?thesis using a by (simp add: merge_payloads_def)
qed

lemma summary_mem: "s \<in> set (summaries ps) \<longleftrightarrow> (\<exists>p \<in> set ps. s = summary_of (fst p))"
  by (auto simp: summaries_def case_prod_beta)

lemma outputs_named_unique:
  assumes "distinct (map pair_id ps)" "p \<in> set ps"
  shows "outputs_named (summaries ps) (pair_id p) = set (si_outputs (fst p))"
proof -
  have "q = p" if "q \<in> set ps" "pair_id q = pair_id p" for q
    using that assms by (auto simp: distinct_map inj_on_def)
  moreover have id: "ss_solver_id (summary_of (fst q)) = pair_id q" for q
    by (simp add: summary_of_def)
  ultimately have "{s \<in> set (summaries ps). ss_solver_id s = pair_id p} = {summary_of (fst p)}"
    using assms(2) unfolding summary_mem by (intro equalityI subsetI) (clarify, metis singletonI, force)
  then show ?thesis by (simp add: outputs_named_def summary_of_def)
qed

end
