(* ===== verification/Step_Cache.thy ===== *)
theory Step_Cache
  imports Solve_Models
begin

text \<open>
  Content-addressed stores (\<open>plan/cache.py\<close>): the JSON codecs of intervals and payload
  references, a directory of blobs, and \<open>PayloadStepCache\<close>. A blob is the JSON value that
  was written (\<open>json.dumps(..., sort_keys=True)\<close> puts its dicts in key order), or \<open>None\<close>
  when the file is unreadable. The locale \<open>keyed_store\<close> states the contract the callers
  rely on: what was put is what is got, and another key is not touched.
\<close>

definition FELDSPAR_VERSION :: string where
  "FELDSPAR_VERSION = ''0.1.2''"

section \<open>The contract of a store\<close>

locale keyed_store =
  fixes ok :: "'v \<Rightarrow> bool" and put :: "'k \<Rightarrow> 'v \<Rightarrow> 's \<Rightarrow> 's" and get :: "'k \<Rightarrow> 's \<Rightarrow> 'v option"
  assumes get_put_same: "ok v \<Longrightarrow> get k (put k v s) = Some v"
    and get_put_other: "k' \<noteq> k \<Longrightarrow> get k' (put k v s) = get k' s"
begin

definition put_all :: "('k \<times> 'v) list \<Rightarrow> 's \<Rightarrow> 's" where
  "put_all kvs s = foldl (\<lambda>s (k, v). put k v s) s kvs"

text \<open>After any sequence of writes a key holds its last valid value.\<close>

lemma get_put_all:
  "(\<forall>v \<in> snd ` set kvs. ok v) \<Longrightarrow>
   get k (put_all kvs s) = (case map_of (rev kvs) k of Some v \<Rightarrow> Some v | None \<Rightarrow> get k s)"
proof (induction kvs rule: rev_induct)
  case Nil
  then show ?case by (simp add: put_all_def)
next
  case (snoc kv kvs)
  obtain k' v where kv: "kv = (k', v)" by (cases kv)
  have "put_all (kvs @ [kv]) s = put k' v (put_all kvs s)" by (simp add: put_all_def kv)
  with snoc kv show ?case by (cases "k = k'") (auto simp: get_put_same get_put_other)
qed

end

section \<open>JSON codecs\<close>

definition json_get :: "json \<Rightarrow> string \<Rightarrow> (json, 'e) outcome" where
  "json_get j k =
     (case j of
        JObj d \<Rightarrow> (case dget d k of Some v \<Rightarrow> Ok v | None \<Rightarrow> Raise (KeyError k))
      | _ \<Rightarrow> Raise TypeError)"

definition json_items :: "json \<Rightarrow> ((string, json) dict, 'e) outcome" where
  "json_items j = (case j of JObj d \<Rightarrow> Ok d | _ \<Rightarrow> Raise (AttributeError ''items''))"

definition json_float :: "json \<Rightarrow> (fl, 'e) outcome" where
  "json_float j =
     (case j of JFloat x \<Rightarrow> Ok x | JInt i \<Rightarrow> Ok (Fin (real_of_int i)) | _ \<Rightarrow> Raise TypeError)"

definition json_real :: "json \<Rightarrow> (real, 'e) outcome" where
  "json_real j = obind (json_float j) (\<lambda>x. case x of Fin r \<Rightarrow> Ok r | _ \<Rightarrow> Raise ValueError)"

definition json_str :: "json \<Rightarrow> (string, 'e) outcome" where
  "json_str j = (case j of JStr s \<Rightarrow> Ok s | _ \<Rightarrow> Raise ValueError)"

definition interval_to_json :: "interval \<Rightarrow> json" where
  "interval_to_json iv = interval_json iv"

definition interval_from_json :: "json \<Rightarrow> (interval, 'e) outcome" where
  "interval_from_json j =
     obind (json_get j ''lo'') (\<lambda>lo. obind (json_get j ''hi'') (\<lambda>hi.
     obind (json_float lo) (\<lambda>l. obind (json_float hi) (\<lambda>h. py_interval l h))))"

definition payload_ref_dump :: "payload_ref \<Rightarrow> json" where
  "payload_ref_dump r =
     JObj [(''kind'', JStr (pr_kind r)), (''digest'', JStr (pr_digest r)),
           (''origin'', JStr (pr_origin r))]"

definition payload_ref_load :: "json \<Rightarrow> (payload_ref, 'e) outcome" where
  "payload_ref_load j =
     obind (json_get j ''kind'') (\<lambda>k. obind (json_get j ''digest'') (\<lambda>d.
     obind (json_get j ''origin'') (\<lambda>r.
     obind (json_str k) (\<lambda>k'. obind (json_str d) (\<lambda>d'. obind (json_str r) (\<lambda>r'.
       payload_ref_new k' d' r'))))))"

text \<open>A dict comprehension over the items of a JSON object.\<close>

definition load_dict :: "(json \<Rightarrow> ('v, 'e) outcome) \<Rightarrow> json \<Rightarrow> ((string, 'v) dict, 'e) outcome" where
  "load_dict f j = obind (json_items j) (omap (\<lambda>(k, v). obind (f v) (\<lambda>x. Ok (k, x))))"

definition dump_dict :: "('v \<Rightarrow> json) \<Rightarrow> (string, 'v) dict \<Rightarrow> json" where
  "dump_dict f d = JObj (map (\<lambda>(k, v). (k, f v)) d)"

lemma canon_get:
  "json_get (canon_json (JObj d)) k =
     (case map_of (rev d) k of Some v \<Rightarrow> Ok (canon_json v) | None \<Rightarrow> Raise (KeyError k))"
proof -
  have "map_of (rev (map (map_prod id canon_json) d)) k = map_option canon_json (map_of (rev d) k)"
    unfolding rev_map by (simp add: map_prod_def map_of_map)
  then show ?thesis
    by (simp add: json_get_def map_of_btree_of split: option.splits)
qed

lemma interval_roundtrip:
  "iv_valid iv \<Longrightarrow> interval_from_json (canon_json (interval_to_json iv)) = Ok iv"
  by (simp add: interval_from_json_def interval_to_json_def interval_json_def canon_get
      json_float_def py_interval_def interval_new_def iv_valid_def del: canon_json.simps(7))

lemma payload_ref_roundtrip:
  "payload_ref_ok r \<Longrightarrow> payload_ref_load (canon_json (payload_ref_dump r)) = Ok r"
  by (simp add: payload_ref_load_def payload_ref_dump_def canon_get json_str_def
      payload_ref_new_fields del: canon_json.simps(7))

lemma canon_dump_dict:
  "dict_ok d \<Longrightarrow> canon_json (dump_dict f d) = JObj (map (\<lambda>(k, v). (k, canon_json (f v))) (btree_of d))"
proof -
  assume d: "dict_ok d"
  let ?g = "map_prod id (\<lambda>v. canon_json (f v)) :: string \<times> 'a \<Rightarrow> string \<times> json"
  have eq: "(\<lambda>(k, v). (k, canon_json (f v))) = ?g" by (auto simp: fun_eq_iff)
  have "btree_of (map ?g d) = map ?g (btree_of d)"
  proof (rule bt_ok_unique)
    show "bt_ok (map ?g (btree_of d))"
      using bt_ok_btree_of [of d] by (simp add: bt_ok_def comp_def)
    have "map_of (map ?g e) k = map_option (\<lambda>v. canon_json (f v)) (map_of e k)" for e k
      by (simp add: map_prod_def map_of_map)
    then show "map_of (btree_of (map ?g d)) = map_of (map ?g (btree_of d))"
      using d by (simp add: map_of_btree_of_dict fun_eq_iff)
  qed simp
  moreover have "map (map_prod id canon_json) (map (\<lambda>(k, v). (k, f v)) d) = map ?g d"
    by (simp add: comp_def map_prod_def case_prod_beta)
  ultimately show ?thesis unfolding dump_dict_def eq by (simp only: canon_json.simps)
qed

lemma load_dump_dict:
  fixes g :: "json \<Rightarrow> ('v, 'e) outcome"
  assumes "dict_ok d" "\<And>k v. (k, v) \<in> set d \<Longrightarrow> g (canon_json (f v)) = Ok v"
  shows "load_dict g (canon_json (dump_dict f d)) = Ok (btree_of d)"
proof -
  have "omap (\<lambda>(k, v). obind (g v) (\<lambda>x. Ok (k, x))) (map (\<lambda>(k, v). (k, canon_json (f v))) e) = Ok e"
    if "\<And>k v. (k, v) \<in> set e \<Longrightarrow> g (canon_json (f v)) = Ok v" for e :: "(string, 'v) dict"
    using that
  proof (induction e)
    case (Cons kv e)
    have "g (canon_json (f (snd kv))) = Ok (snd kv)"
      using Cons.prems [of "fst kv" "snd kv"] by simp
    moreover have "g (canon_json (f v)) = Ok v" if "(k, v) \<in> set e" for k v
      using Cons.prems [of k v] that by simp
    note Cons.IH [OF this]
    ultimately show ?case by (cases kv) simp
  qed simp
  moreover have "g (canon_json (f v)) = Ok v" if "(k, v) \<in> set (btree_of d)" for k v
  proof -
    have "map_of (btree_of d) k = Some v" using that by (simp add: bt_ok_dict_ok dict_ok_get)
    then have "(k, v) \<in> set d"
      using assms(1) by (simp add: map_of_btree_of_dict map_of_SomeD)
    then show ?thesis by (rule assms(2))
  qed
  ultimately show ?thesis
    using assms(1) by (simp add: load_dict_def canon_dump_dict json_items_def)
qed

section \<open>The per-step cache\<close>

record step_entry =
  se_hull :: "(string, interval) dict"
  se_refs :: "(string, payload_ref) dict"
  se_eps :: real

type_synonym blob_dir = "(string, json option) dict"

record step_cache =
  sc_files :: blob_dir
  sc_hits :: nat
  sc_misses :: nat

definition step_cache_key ::
  "(json \<Rightarrow> string) \<Rightarrow> (json \<Rightarrow> string) \<Rightarrow> solver_info \<Rightarrow> (string, interval) dict
   \<Rightarrow> (string, payload_ref) dict \<Rightarrow> string" where
  "step_cache_key H dumps info b payload_inputs =
     canonical_digest H dumps
       (PyMap [(''solver_id'', PyStr (si_solver_id info)),
               (''version'', PyStr (si_version info)),
               (''settings_digest'', PyStr (si_settings_digest info)),
               (''box'', PyMap (map (\<lambda>(p, iv).
                  (p, PyMap [(''lo'', PyFloat (Fin (iv_lo iv))),
                             (''hi'', PyFloat (Fin (iv_hi iv)))])) b)),
               (''payloads'', PyMap (map (\<lambda>(p, r). (p, PyStr (pr_digest r))) payload_inputs)),
               (''feldspar_version'', PyStr FELDSPAR_VERSION)])"

definition step_entry_json :: "step_entry \<Rightarrow> json" where
  "step_entry_json e =
     JObj [(''hull'', dump_dict interval_to_json (se_hull e)),
           (''payloads'', dump_dict payload_ref_dump (se_refs e)),
           (''step_eps'', JFloat (Fin (se_eps e)))]"

definition step_entry_load :: "json \<Rightarrow> (step_entry, 'e) outcome" where
  "step_entry_load j =
     obind (json_get j ''hull'') (\<lambda>h. obind (load_dict interval_from_json h) (\<lambda>hl.
     obind (json_get j ''payloads'') (\<lambda>p. obind (load_dict payload_ref_load p) (\<lambda>refs.
     obind (json_get j ''step_eps'') (\<lambda>e. obind (json_real e) (\<lambda>eps.
       Ok \<lparr>se_hull = hl, se_refs = refs, se_eps = eps\<rparr>))))))"

definition step_cache_miss :: "step_cache \<Rightarrow> (step_entry option, 'e) outcome \<times> step_cache" where
  "step_cache_miss c = (Ok None, c\<lparr>sc_misses := Suc (sc_misses c)\<rparr>)"

definition step_cache_get ::
  "string \<Rightarrow> (unit, solve_error) outcome option \<Rightarrow> step_cache
   \<Rightarrow> (step_entry option, 'e) outcome \<times> step_cache" where
  "step_cache_get key probe_tools c =
     (case dget (sc_files c) key of
        None \<Rightarrow> step_cache_miss c
      | Some file \<Rightarrow>
          (case probe_tools of
             Some (Err _) \<Rightarrow> step_cache_miss c
           | Some (Raise x) \<Rightarrow> (Raise x, c)
           | _ \<Rightarrow>
               (case file of
                  None \<Rightarrow> step_cache_miss c
                | Some data \<Rightarrow>
                    (case step_entry_load data of
                       Ok e \<Rightarrow> (Ok (Some e), c\<lparr>sc_hits := Suc (sc_hits c)\<rparr>)
                     | Err e \<Rightarrow> (Err e, c)
                     | Raise x \<Rightarrow> (Raise x, c)))))"

definition step_cache_put :: "string \<Rightarrow> step_entry \<Rightarrow> step_cache \<Rightarrow> step_cache" where
  "step_cache_put key e c =
     c\<lparr>sc_files := dset key (Some (canon_json (step_entry_json e))) (sc_files c)\<rparr>"

definition step_entry_ok :: "step_entry \<Rightarrow> bool" where
  "step_entry_ok e \<longleftrightarrow>
     bt_ok (se_hull e) \<and> bt_ok (se_refs e) \<and>
     (\<forall>iv \<in> snd ` set (se_hull e). iv_valid iv) \<and>
     (\<forall>r \<in> snd ` set (se_refs e). payload_ref_ok r)"

lemma step_entry_roundtrip:
  assumes "dict_ok (se_hull e)" "dict_ok (se_refs e)"
    "\<forall>iv \<in> snd ` set (se_hull e). iv_valid iv" "\<forall>r \<in> snd ` set (se_refs e). payload_ref_ok r"
  shows "step_entry_load (canon_json (step_entry_json e)) =
     Ok (e\<lparr>se_hull := btree_of (se_hull e), se_refs := btree_of (se_refs e)\<rparr>)"
proof -
  have "load_dict interval_from_json (canon_json (dump_dict interval_to_json (se_hull e))) =
      (Ok (btree_of (se_hull e)) :: (_, 'a) outcome)"
    using assms by (intro load_dump_dict interval_roundtrip) force+
  moreover have "load_dict payload_ref_load (canon_json (dump_dict payload_ref_dump (se_refs e))) =
      (Ok (btree_of (se_refs e)) :: (_, 'a) outcome)"
    using assms by (intro load_dump_dict payload_ref_roundtrip) force+
  ultimately show ?thesis
    by (simp add: step_entry_load_def step_entry_json_def canon_get json_real_def json_float_def
        del: canon_json.simps(7))
qed

lemma step_entry_ok_roundtrip:
  "step_entry_ok e \<Longrightarrow> step_entry_load (canon_json (step_entry_json e)) = Ok e"
  by (subst step_entry_roundtrip) (simp_all add: step_entry_ok_def bt_ok_dict_ok btree_of_id)

definition step_lookup :: "string \<Rightarrow> step_cache \<Rightarrow> step_entry option" where
  "step_lookup key c =
     (case fst (step_cache_get key None c :: (step_entry option, unit) outcome \<times> step_cache) of
        Ok r \<Rightarrow> r | _ \<Rightarrow> None)"

interpretation step_store: keyed_store step_entry_ok step_cache_put step_lookup
proof
  fix v k s assume "step_entry_ok v"
  then show "step_lookup k (step_cache_put k v s) = Some v"
    by (simp add: step_lookup_def step_cache_get_def step_cache_put_def step_entry_ok_roundtrip)
next
  fix k' k v s assume "k' \<noteq> (k :: string)"
  then show "step_lookup k' (step_cache_put k v s) = step_lookup k' s"
    by (simp add: step_lookup_def step_cache_get_def step_cache_put_def step_cache_miss_def
        split: option.splits outcome.splits)
qed

end
