(* ===== verification/Plan_Execute.thy ===== *)
theory Plan_Execute
  imports Plan_Route Step_Cache
begin

text \<open>
  The executor (\<open>plan/execute.py\<close>): a route is walked in order; each step splits its inputs
  into scalar and payload ports, sweeps its solver over the corners of the inflated scalar
  box (or takes the result from the step cache), checks the realised outputs against the
  declared domain and adds them to the values. The step cache is threaded through the
  walk. The corner callback collects measured errors and produced payload references in
  \<open>corner_acc\<close>, as the lists it closes over in the code.
\<close>

section \<open>Solutions\<close>

record solution =
  sol_target :: string
  sol_value :: interval
  sol_eps :: real
  sol_route :: route
  sol_settings_digest :: string
  sol_solver_versions :: "(string, string) dict"
  sol_attempts :: "attempt_record list"
  sol_cache_hit :: bool
  sol_step_eps :: "(string, real) dict"
  sol_step_citations :: "(string, citation list) dict"
  sol_step_declared_domain :: "(string, domain) dict"
  sol_step_algebraic_form :: "(string, string) dict"
  sol_step_admission_predicate :: "(string, string) dict"
  sol_eps_budget :: "fl option"

definition error_to_record_fields ::
  "(solve_error \<Rightarrow> string) \<Rightarrow> solve_error \<Rightarrow> string \<times> (string, prim) dict" where
  "error_to_record_fields repr e = solve_error_record repr e"

definition lookup_solver :: "solver_pair list \<Rightarrow> string \<Rightarrow> (solver_pair, 'e) outcome" where
  "lookup_solver ps sid =
     (case dget (solver_map ps) sid of Some p \<Rightarrow> Ok p | None \<Rightarrow> Raise (KeyError sid))"

definition route_settings_digest ::
  "(json \<Rightarrow> string) \<Rightarrow> (json \<Rightarrow> string) \<Rightarrow> route \<Rightarrow> solver_pair list \<Rightarrow> (string, 'e) outcome" where
  "route_settings_digest H dumps route ps =
     obind (omap (\<lambda>step. obind (lookup_solver ps (rs_solver_id step))
                   (\<lambda>p. Ok (si_settings_digest (fst p)))) (rt_steps route))
       (\<lambda>digests. Ok (canonical_digest H dumps (PySeq (map PyStr digests))))"

section \<open>Ports of a step\<close>

definition is_payload_port :: "(string, port_decl) dict \<Rightarrow> string \<Rightarrow> bool" where
  "is_payload_port ports port =
     (case dget ports port of None \<Rightarrow> False | Some d \<Rightarrow> rank_kind (pd_rank d) = ''payload'')"

definition declared_kind :: "(string, port_decl) dict \<Rightarrow> string \<Rightarrow> string" where
  "declared_kind ports port =
     (case dget ports port of
        None \<Rightarrow> ''''
      | Some d \<Rightarrow> (case rank_payload_kind (pd_rank d) of None \<Rightarrow> '''' | Some k \<Rightarrow> k))"

fun split_inputs ::
  "string list \<Rightarrow> (string, port_decl) dict \<Rightarrow> (string, interval) dict
   \<Rightarrow> (string, payload_ref) dict \<Rightarrow> string list \<Rightarrow> (string, payload_ref) dict
   \<Rightarrow> (string list \<times> (string, payload_ref) dict, solve_error) outcome" where
  "split_inputs [] ports vals payloads scalars pins = Ok (scalars, pins)"
| "split_inputs (port # rest) ports vals payloads scalars pins =
     (case dget payloads port of
        Some ref \<Rightarrow>
          if is_payload_port ports port \<and> pr_kind ref \<noteq> declared_kind ports port
          then Err (PayloadKindMismatch port (declared_kind ports port) (pr_kind ref))
          else split_inputs rest ports vals payloads scalars (dset port ref pins)
      | None \<Rightarrow>
          if dhas vals port
          then split_inputs rest ports vals payloads (scalars @ [port]) pins
          else if is_payload_port ports port then Err (MissingPayload port)
          else split_inputs rest ports vals payloads (scalars @ [port]) pins)"

definition split_step_inputs ::
  "solver_info \<Rightarrow> (string, port_decl) dict \<Rightarrow> (string, interval) dict
   \<Rightarrow> (string, payload_ref) dict
   \<Rightarrow> (string list \<times> (string, payload_ref) dict, solve_error) outcome" where
  "split_step_inputs info ports vals payloads =
     split_inputs (si_inputs info) ports vals payloads [] []"

definition payload_outputs_of :: "(string, port_decl) dict \<Rightarrow> solver_info \<Rightarrow> string list" where
  "payload_outputs_of ports info = filter (is_payload_port ports) (si_outputs info)"

definition scalar_outputs_of :: "(string, port_decl) dict \<Rightarrow> solver_info \<Rightarrow> string list" where
  "scalar_outputs_of ports info =
     filter (\<lambda>p. p \<notin> set (payload_outputs_of ports info)) (si_outputs info)"

section \<open>The corner callback\<close>

record corner_acc =
  ca_measured :: "real list"
  ca_produced :: "(string, payload_ref list) dict"

definition check_step_output ::
  "(string, fl) dict \<Rightarrow> string list \<Rightarrow> (unit, solve_error) outcome" where
  "check_step_output out_values scalar_outputs =
     (case find (\<lambda>p. \<not> dhas out_values p) scalar_outputs of
        Some p \<Rightarrow> Err (MissingOutput p)
      | None \<Rightarrow>
          (case find (\<lambda>(p, v). \<not> fl_finite v) out_values of
             Some (p, v) \<Rightarrow> Err (NonFinite p)
           | None \<Rightarrow> Ok ()))"

definition append_produced ::
  "string \<Rightarrow> payload_ref \<Rightarrow> (string, payload_ref list) dict \<Rightarrow> (string, payload_ref list) dict" where
  "append_produced port ref d =
     dset port ((case dget d port of None \<Rightarrow> [] | Some rs \<Rightarrow> rs) @ [ref]) d"

fun collect_payloads ::
  "string list \<Rightarrow> (string, port_decl) dict \<Rightarrow> (string, payload_ref) dict
   \<Rightarrow> (string, payload_ref list) dict
   \<Rightarrow> (unit, solve_error) outcome \<times> (string, payload_ref list) dict" where
  "collect_payloads [] ports outs produced = (Ok (), produced)"
| "collect_payloads (port # rest) ports outs produced =
     (case dget outs port of
        None \<Rightarrow> (Err (MissingOutput port), produced)
      | Some ref \<Rightarrow>
          if pr_kind ref \<noteq> declared_kind ports port
          then (Err (PayloadKindMismatch port (declared_kind ports port) (pr_kind ref)), produced)
          else collect_payloads rest ports outs (append_produced port ref produced))"

definition check_measured :: "string \<Rightarrow> fl option \<Rightarrow> (real list, solve_error) outcome" where
  "check_measured solver_id m =
     (case m of
        None \<Rightarrow> Ok []
      | Some (Fin e) \<Rightarrow>
          if e < 0 then Err (InvalidMeasurement (MeasuredEps (Fin e) solver_id)) else Ok [e]
      | Some x \<Rightarrow> Err (InvalidMeasurement (MeasuredEps x solver_id)))"

definition full_corner :: "corner \<Rightarrow> (string, payload_ref) dict \<Rightarrow> inputs" where
  "full_corner corner pins =
     dmerge (map (\<lambda>(p, v). (p, VFloat (Fin v))) corner) (map (\<lambda>(p, r). (p, VRef r)) pins)"

definition make_corner_fn ::
  "solver_info \<Rightarrow> solve_fn \<Rightarrow> (string, payload_ref) dict \<Rightarrow> (string, port_decl) dict
   \<Rightarrow> fl option \<Rightarrow> (corner_acc, solve_error) corner_fn" where
  "make_corner_fn info fn pins ports remaining = (\<lambda>acc corner.
     (case invoke_solve_fn fn (full_corner corner pins) remaining of
        Err e \<Rightarrow> (Err e, acc)
      | Raise x \<Rightarrow> (Raise x, acc)
      | Ok out \<Rightarrow>
          (case check_step_output (so_values out) (scalar_outputs_of ports info) of
             Err e \<Rightarrow> (Err e, acc)
           | Raise x \<Rightarrow> (Raise x, acc)
           | Ok _ \<Rightarrow>
               (case collect_payloads (payload_outputs_of ports info) ports (so_payloads out)
                       (ca_produced acc) of
                  (Err e, produced) \<Rightarrow> (Err e, acc\<lparr>ca_produced := produced\<rparr>)
                | (Raise x, produced) \<Rightarrow> (Raise x, acc\<lparr>ca_produced := produced\<rparr>)
                | (Ok _, produced) \<Rightarrow>
                    (case check_measured (si_solver_id info) (so_measured_eps out) of
                       Err e \<Rightarrow> (Err e, acc\<lparr>ca_produced := produced\<rparr>)
                     | Raise x \<Rightarrow> (Raise x, acc\<lparr>ca_produced := produced\<rparr>)
                     | Ok ms \<Rightarrow>
                         (Ok (dict_of (map (\<lambda>p. (p, the (dget (so_values out) p)))
                                         (scalar_outputs_of ports info))),
                          acc\<lparr>ca_produced := produced,
                              ca_measured := ca_measured acc @ ms\<rparr>))))))"

section \<open>The result of one step\<close>

definition py_max :: "real list \<Rightarrow> real \<Rightarrow> real" where
  "py_max xs dflt = (case xs of [] \<Rightarrow> dflt | y # ys \<Rightarrow> foldl max y ys)"

fun merge_produced ::
  "string \<Rightarrow> (string \<times> payload_ref list) list \<Rightarrow> (string, payload_ref) dict
   \<Rightarrow> ((string, payload_ref) dict, solve_error) outcome" where
  "merge_produced sid [] acc = Ok acc"
| "merge_produced sid ((port, refs) # rest) acc =
     (case refs of
        [] \<Rightarrow> Raise IndexError
      | first # others \<Rightarrow>
          if list_ex (\<lambda>r. r \<noteq> first) others
          then Err (InvalidMeasurement (PayloadVaried port sid))
          else merge_produced sid rest (dset port first acc))"

definition declared_eps ::
  "solver_info \<Rightarrow> (string, interval) dict \<Rightarrow> string list \<Rightarrow> (real, solve_error) outcome" where
  "declared_eps info hl scalar_outputs =
     obind (omap (\<lambda>p. (case (dget (si_accuracy info) p, dget hl p) of
                         (Some a, Some iv) \<Rightarrow> Ok (worst_over a iv)
                       | _ \<Rightarrow> Raise (KeyError p))) scalar_outputs)
       (\<lambda>es. Ok (py_max es 0))"

definition step_eps_of ::
  "solver_info \<Rightarrow> (string, interval) dict \<Rightarrow> string list \<Rightarrow> real list
   \<Rightarrow> (real, solve_error) outcome" where
  "step_eps_of info hl scalar_outputs measured =
     (if measured \<noteq> [] then Ok (py_max measured 0) else declared_eps info hl scalar_outputs)"

definition sweep_step ::
  "solver_info \<Rightarrow> solve_fn \<Rightarrow> (string, payload_ref) dict \<Rightarrow> (string, port_decl) dict
   \<Rightarrow> (string, interval) dict \<Rightarrow> fl option \<Rightarrow> (step_entry, solve_error) outcome" where
  "sweep_step info fn pins ports b remaining =
     (case corner_sweep b (make_corner_fn info fn pins ports remaining)
             \<lparr>ca_measured = [], ca_produced = []\<rparr> of
        (Err e, _) \<Rightarrow> Err e
      | (Raise x, _) \<Rightarrow> Raise x
      | (Ok hl, acc) \<Rightarrow>
          obind (merge_produced (si_solver_id info) (ca_produced acc) []) (\<lambda>refs.
          obind (step_eps_of info hl (scalar_outputs_of ports info) (ca_measured acc)) (\<lambda>eps.
            Ok \<lparr>se_hull = hl, se_refs = refs, se_eps = eps\<rparr>)))"

fun check_output_domain ::
  "(string, interval) dict \<Rightarrow> (string, interval) dict \<Rightarrow> real \<Rightarrow> (unit, solve_error) outcome" where
  "check_output_domain [] hl step_eps = Ok ()"
| "check_output_domain ((port, allowed) # rest) hl step_eps =
     (case dget hl port of
        None \<Rightarrow> check_output_domain rest hl step_eps
      | Some v \<Rightarrow>
          (let infl = inflate v step_eps in
           if \<not> is_subset infl allowed
           then Err (OutputOutOfDomain port (iv_lo infl) (iv_hi infl)
                       (iv_lo allowed) (iv_hi allowed))
           else check_output_domain rest hl step_eps))"

definition check_step_output_domain ::
  "solver_info \<Rightarrow> (string, interval) dict \<Rightarrow> real \<Rightarrow> (unit, solve_error) outcome" where
  "check_step_output_domain info hl step_eps =
     check_output_domain (d_box (si_domain info)) hl step_eps"

section \<open>Walking a route\<close>

record exec_state =
  ex_values :: "(string, interval) dict"
  ex_payloads :: "(string, payload_ref) dict"
  ex_eps :: "(string, real) dict"
  ex_versions :: "(string, string) dict"
  ex_step_eps :: "(string, real) dict"
  ex_citations :: "(string, citation list) dict"
  ex_domains :: "(string, domain) dict"
  ex_forms :: "(string, string) dict"
  ex_preds :: "(string, string) dict"
  ex_final_eps :: real

type_synonym attributed = "string option \<times> solve_error"

definition eps_at :: "exec_state \<Rightarrow> string \<Rightarrow> real" where
  "eps_at st p = (case dget (ex_eps st) p of None \<Rightarrow> 0 | Some e \<Rightarrow> e)"

definition step_box ::
  "exec_state \<Rightarrow> string list \<Rightarrow> ((string, interval) dict, 'e) outcome" where
  "step_box st scalar_ports =
     obind (omap (\<lambda>p. (case dget (ex_values st) p of
                         None \<Rightarrow> Raise (KeyError p)
                       | Some iv \<Rightarrow> Ok (p, inflate iv (eps_at st p)))) scalar_ports)
       (\<lambda>kvs. Ok (dict_of kvs))"

definition remaining_budget :: "exec_state \<Rightarrow> string list \<Rightarrow> fl option \<Rightarrow> fl option" where
  "remaining_budget st scalar_ports eps_budget =
     (case eps_budget of
        None \<Rightarrow> None
      | Some b \<Rightarrow>
          Some (fl_pymax (fl_sub b (Fin (py_max (map (eps_at st) scalar_ports) 0))) (Fin 0)))"

definition attribute_err :: "string \<Rightarrow> ('a, solve_error) outcome \<Rightarrow> ('a, attributed) outcome" where
  "attribute_err sid r =
     (case r of Ok a \<Rightarrow> Ok a | Err e \<Rightarrow> Err (Some sid, e) | Raise x \<Rightarrow> Raise x)"

text \<open>The step cache is consulted for deterministic steps that touch a payload.\<close>

definition cached_step ::
  "(json \<Rightarrow> string) \<Rightarrow> (json \<Rightarrow> string) \<Rightarrow> solver_info \<Rightarrow> solve_fn
   \<Rightarrow> (string, payload_ref) dict \<Rightarrow> (string, port_decl) dict \<Rightarrow> (string, interval) dict
   \<Rightarrow> fl option \<Rightarrow> step_cache option
   \<Rightarrow> (step_entry, solve_error) outcome \<times> step_cache option" where
  "cached_step H dumps info fn pins ports b remaining cache =
     (case cache of
        None \<Rightarrow> (sweep_step info fn pins ports b remaining, None)
      | Some c \<Rightarrow>
          (if si_deterministic info \<and> (pins \<noteq> [] \<or> payload_outputs_of ports info \<noteq> [])
           then (let key = step_cache_key H dumps info b pins in
                 case step_cache_get key (sf_probe_tools fn) c of
                   (Ok (Some e), c') \<Rightarrow> (Ok e, Some c')
                 | (Ok None, c') \<Rightarrow>
                     (case sweep_step info fn pins ports b remaining of
                        Ok e \<Rightarrow> (Ok e, Some (step_cache_put key e c'))
                      | r \<Rightarrow> (r, Some c'))
                 | (Err e, c') \<Rightarrow> (Err e, Some c')
                 | (Raise x, c') \<Rightarrow> (Raise x, Some c'))
           else (sweep_step info fn pins ports b remaining, Some c)))"

definition commit_step :: "solver_info \<Rightarrow> string \<Rightarrow> step_entry \<Rightarrow> exec_state \<Rightarrow> exec_state" where
  "commit_step info sid e st =
     st\<lparr>ex_values := dmerge (ex_values st) (se_hull e),
        ex_eps := dmerge (ex_eps st) (map (\<lambda>(p, iv). (p, se_eps e)) (se_hull e)),
        ex_payloads := dmerge (ex_payloads st) (se_refs e),
        ex_versions := dset sid (si_version info) (ex_versions st),
        ex_step_eps := dset sid (se_eps e) (ex_step_eps st),
        ex_citations := dset sid (si_citations info) (ex_citations st),
        ex_domains := dset sid (si_domain info) (ex_domains st),
        ex_forms := (case si_algebraic_form info of
                       None \<Rightarrow> ex_forms st | Some f \<Rightarrow> dset sid f (ex_forms st)),
        ex_preds := (case si_admission_predicate info of
                       None \<Rightarrow> ex_preds st | Some p \<Rightarrow> dset sid p (ex_preds st)),
        ex_final_eps := se_eps e\<rparr>"

definition exec_step ::
  "(json \<Rightarrow> string) \<Rightarrow> (json \<Rightarrow> string) \<Rightarrow> solver_pair list \<Rightarrow> (string, port_decl) dict
   \<Rightarrow> fl option \<Rightarrow> route_step \<Rightarrow> exec_state \<Rightarrow> step_cache option
   \<Rightarrow> (exec_state, attributed) outcome \<times> step_cache option" where
  "exec_step H dumps ps ports eps_budget step st cache =
     (let sid = rs_solver_id step in
      case lookup_solver ps sid of
        Err e \<Rightarrow> (Err e, cache)
      | Raise x \<Rightarrow> (Raise x, cache)
      | Ok (info, fn) \<Rightarrow>
          (case attribute_err sid (split_step_inputs info ports (ex_values st) (ex_payloads st)) of
             Err e \<Rightarrow> (Err e, cache)
           | Raise x \<Rightarrow> (Raise x, cache)
           | Ok (scalar_ports, pins) \<Rightarrow>
               (case step_box st scalar_ports of
                  Err e \<Rightarrow> (Err e, cache)
                | Raise x \<Rightarrow> (Raise x, cache)
                | Ok b \<Rightarrow>
                    (case cached_step H dumps info fn pins ports b
                            (remaining_budget st scalar_ports eps_budget) cache of
                       (r, cache') \<Rightarrow>
                         (obind (attribute_err sid r) (\<lambda>e.
                            obind (attribute_err sid
                                     (check_step_output_domain info (se_hull e) (se_eps e)))
                              (\<lambda>_. Ok (commit_step info sid e st))),
                          cache')))))"

fun exec_steps ::
  "(json \<Rightarrow> string) \<Rightarrow> (json \<Rightarrow> string) \<Rightarrow> solver_pair list \<Rightarrow> (string, port_decl) dict
   \<Rightarrow> fl option \<Rightarrow> route_step list \<Rightarrow> exec_state \<Rightarrow> step_cache option
   \<Rightarrow> (exec_state, attributed) outcome \<times> step_cache option" where
  "exec_steps H dumps ps ports eps_budget [] st cache = (Ok st, cache)"
| "exec_steps H dumps ps ports eps_budget (step # steps) st cache =
     (case exec_step H dumps ps ports eps_budget step st cache of
        (Ok st', cache') \<Rightarrow> exec_steps H dumps ps ports eps_budget steps st' cache'
      | (Err e, cache') \<Rightarrow> (Err e, cache')
      | (Raise x, cache') \<Rightarrow> (Raise x, cache'))"

definition exec_start ::
  "(string, interval) dict \<Rightarrow> (string, payload_ref) dict \<Rightarrow> exec_state" where
  "exec_start known payloads =
     \<lparr>ex_values = known, ex_payloads = payloads, ex_eps = map (\<lambda>(p, iv). (p, 0)) known,
      ex_versions = [], ex_step_eps = [], ex_citations = [], ex_domains = [],
      ex_forms = [], ex_preds = [], ex_final_eps = 0\<rparr>"

text \<open>The solution of a finished walk; an empty walk leaves every dict empty.\<close>

definition solution_of ::
  "(json \<Rightarrow> string) \<Rightarrow> (json \<Rightarrow> string) \<Rightarrow> solver_pair list \<Rightarrow> route \<Rightarrow> exec_state
   \<Rightarrow> (solution, 'e) outcome" where
  "solution_of H dumps ps route st =
     (case dget (ex_values st) (rt_target route) of
        None \<Rightarrow> Raise (KeyError (rt_target route))
      | Some v \<Rightarrow>
          obind (route_settings_digest H dumps route ps) (\<lambda>dig.
            Ok \<lparr>sol_target = rt_target route, sol_value = v, sol_eps = ex_final_eps st,
                sol_route = route, sol_settings_digest = dig,
                sol_solver_versions = ex_versions st, sol_attempts = [], sol_cache_hit = False,
                sol_step_eps = ex_step_eps st, sol_step_citations = ex_citations st,
                sol_step_declared_domain = ex_domains st,
                sol_step_algebraic_form = ex_forms st,
                sol_step_admission_predicate = ex_preds st, sol_eps_budget = None\<rparr>))"

definition execute_impl ::
  "(json \<Rightarrow> string) \<Rightarrow> (json \<Rightarrow> string) \<Rightarrow> route \<Rightarrow> registry \<Rightarrow> (string, interval) dict
   \<Rightarrow> (string, payload_ref) dict \<Rightarrow> step_cache option \<Rightarrow> fl option
   \<Rightarrow> (solution, attributed) outcome \<times> step_cache option" where
  "execute_impl H dumps route r known payloads cache eps_budget =
     (let ps = registry_iter r in
      case exec_steps H dumps ps (port_table r) eps_budget (rt_steps route)
             (exec_start known payloads) cache of
        (Ok st, cache') \<Rightarrow> (solution_of H dumps ps route st, cache')
      | (Err e, cache') \<Rightarrow> (Err e, cache')
      | (Raise x, cache') \<Rightarrow> (Raise x, cache'))"

definition execute ::
  "(json \<Rightarrow> string) \<Rightarrow> (json \<Rightarrow> string) \<Rightarrow> route \<Rightarrow> registry \<Rightarrow> (string, interval) dict
   \<Rightarrow> (string, payload_ref) dict \<Rightarrow> step_cache option \<Rightarrow> fl option
   \<Rightarrow> (solution, solve_error) outcome \<times> step_cache option" where
  "execute H dumps route r known payloads cache eps_budget =
     (case execute_impl H dumps route r known payloads cache eps_budget of
        (Ok s, c) \<Rightarrow> (Ok s, c)
      | (Err (sid, e), c) \<Rightarrow> (Err e, c)
      | (Raise x, c) \<Rightarrow> (Raise x, c))"

end
