(* ===== verification/Plan_Cache.thy ===== *)
theory Plan_Cache
  imports Plan_Execute
begin

text \<open>
  The solve cache (\<open>plan/cache.py\<close>): the request digest and the cache key, the JSON codecs
  of routes and solutions, the tool-presence recheck and \<open>SolveCache\<close>. The files under the
  cache root are a \<open>blob_dir\<close>, as for the step cache. The lemmas say that a stored solution
  is read back as it was, its dicts in key order, except for the two symbolic fields
  \<open>solution_to_jsonable\<close> leaves out.
\<close>

section \<open>Digests and keys\<close>

definition request_digest ::
  "(json \<Rightarrow> string) \<Rightarrow> (json \<Rightarrow> string) \<Rightarrow> (string, interval) dict \<Rightarrow> string list \<Rightarrow> string
   \<Rightarrow> fl \<Rightarrow> senses_arg \<Rightarrow> (string, payload_ref) dict \<Rightarrow> (string, 'e) outcome" where
  "request_digest H dumps known tags target eps_budget sense payloads =
     obind (claim_senses_coerce sense) (\<lambda>resolved.
       Ok (canonical_digest H dumps
         (PyMap [(''known'', PyMap (map (\<lambda>(p, iv).
                    (p, PyMap [(''lo'', PyFloat (Fin (iv_lo iv))),
                               (''hi'', PyFloat (Fin (iv_hi iv)))])) known)),
                 (''tags'', PySeq (map PyStr (bset_of tags))),
                 (''target'', PyStr target),
                 (''eps_budget'', PyFloat eps_budget),
                 (''sense'', PyStr (claim_senses_value resolved)),
                 (''payloads'', PyMap (map (\<lambda>(p, r). (p, PyStr (pr_digest r))) payloads))])))"

definition cache_key ::
  "(json \<Rightarrow> string) \<Rightarrow> (json \<Rightarrow> string) \<Rightarrow> registry \<Rightarrow> (string, interval) dict \<Rightarrow> string list
   \<Rightarrow> string \<Rightarrow> fl \<Rightarrow> senses_arg \<Rightarrow> route \<Rightarrow> (string, payload_ref) dict \<Rightarrow> (string, 'e) outcome" where
  "cache_key H dumps r known tags target eps_budget sense route payloads =
     obind (request_digest H dumps known tags target eps_budget sense payloads) (\<lambda>req_digest.
     obind (route_settings_digest H dumps route (registry_iter r)) (\<lambda>settings_dig.
       Ok (canonical_digest H dumps
         (PyMap [(''registry_digest'', PyStr (registry_digest H dumps r)),
                 (''request_digest'', PyStr req_digest),
                 (''settings_digest'', PyStr settings_dig),
                 (''feldspar_version'', PyStr FELDSPAR_VERSION)]))))"

fun all_deterministic ::
  "solver_pair list \<Rightarrow> route_step list \<Rightarrow> (bool, 'e) outcome" where
  "all_deterministic ps [] = Ok True"
| "all_deterministic ps (step # steps) =
     obind (lookup_solver ps (rs_solver_id step)) (\<lambda>p.
       if si_deterministic (fst p) then all_deterministic ps steps else Ok False)"

definition is_route_cacheable :: "route \<Rightarrow> registry \<Rightarrow> (bool, 'e) outcome" where
  "is_route_cacheable route r = all_deterministic (registry_iter r) (rt_steps route)"

section \<open>JSON codecs\<close>

definition load_list :: "(json \<Rightarrow> ('v, 'e) outcome) \<Rightarrow> json \<Rightarrow> ('v list, 'e) outcome" where
  "load_list f j = (case j of JArr xs \<Rightarrow> omap f xs | _ \<Rightarrow> Raise TypeError)"

definition json_str_opt :: "json \<Rightarrow> (string option, 'e) outcome" where
  "json_str_opt j =
     (case j of JNull \<Rightarrow> Ok None | JStr s \<Rightarrow> Ok (Some s) | _ \<Rightarrow> Raise ValueError)"

definition json_bool :: "json \<Rightarrow> (bool, 'e) outcome" where
  "json_bool j = (case j of JBool b \<Rightarrow> Ok b | _ \<Rightarrow> Raise ValueError)"

definition json_float_opt :: "json \<Rightarrow> (fl option, 'e) outcome" where
  "json_float_opt j =
     (case j of JNull \<Rightarrow> Ok None | _ \<Rightarrow> obind (json_float j) (\<lambda>x. Ok (Some x)))"

text \<open>\<open>data.get(key, {})\<close>\<close>

definition json_get_dict :: "json \<Rightarrow> string \<Rightarrow> (json, 'e) outcome" where
  "json_get_dict j k =
     (case j of
        JObj d \<Rightarrow> Ok (case dget d k of Some v \<Rightarrow> v | None \<Rightarrow> JObj [])
      | _ \<Rightarrow> Raise (AttributeError ''get''))"

definition json_get_none :: "json \<Rightarrow> string \<Rightarrow> (json, 'e) outcome" where
  "json_get_none j k =
     (case j of
        JObj d \<Rightarrow> Ok (case dget d k of Some v \<Rightarrow> v | None \<Rightarrow> JNull)
      | _ \<Rightarrow> Raise (AttributeError ''get''))"

definition str_list_json :: "string list \<Rightarrow> json" where
  "str_list_json xs = JArr (map JStr xs)"

definition domain_to_json :: "domain \<Rightarrow> json" where
  "domain_to_json d =
     JObj [(''box'', dump_dict interval_to_json (d_box d)),
           (''tags'', str_list_json (sort (d_tags d)))]"

definition domain_from_json :: "json \<Rightarrow> (domain, 'e) outcome" where
  "domain_from_json j =
     obind (json_get j ''box'') (\<lambda>b. obind (load_dict interval_from_json b) (\<lambda>box.
     obind (json_get j ''tags'') (\<lambda>t. obind (load_list json_str t) (\<lambda>tags.
       Ok (domain_new box tags)))))"

definition route_step_to_json :: "route_step \<Rightarrow> json" where
  "route_step_to_json s =
     JObj [(''solver_id'', JStr (rs_solver_id s)),
           (''realized_domain'', domain_to_json (rs_realized_domain s)),
           (''predicted_eps'', JFloat (Fin (rs_predicted_eps s))),
           (''cost'', JFloat (rs_cost s))]"

definition route_step_from_json :: "json \<Rightarrow> (route_step, 'e) outcome" where
  "route_step_from_json j =
     obind (json_get j ''solver_id'') (\<lambda>i. obind (json_str i) (\<lambda>sid.
     obind (json_get j ''realized_domain'') (\<lambda>d. obind (domain_from_json d) (\<lambda>dom.
     obind (json_get j ''predicted_eps'') (\<lambda>e. obind (json_real e) (\<lambda>eps.
     obind (json_get j ''cost'') (\<lambda>c. obind (json_float c) (\<lambda>cost.
       Ok \<lparr>rs_solver_id = sid, rs_realized_domain = dom, rs_predicted_eps = eps,
           rs_cost = cost\<rparr>))))))))"

definition route_to_json :: "route \<Rightarrow> json" where
  "route_to_json r =
     JObj [(''target'', JStr (rt_target r)),
           (''steps'', JArr (map route_step_to_json (rt_steps r))),
           (''predicted_eps'', JFloat (Fin (rt_predicted_eps r))),
           (''total_cost'', JFloat (rt_total_cost r)),
           (''digest'', JStr (rt_digest r))]"

definition route_from_json :: "json \<Rightarrow> (route, 'e) outcome" where
  "route_from_json j =
     obind (json_get j ''target'') (\<lambda>t. obind (json_str t) (\<lambda>target.
     obind (json_get j ''steps'') (\<lambda>s. obind (load_list route_step_from_json s) (\<lambda>steps.
     obind (json_get j ''predicted_eps'') (\<lambda>e. obind (json_real e) (\<lambda>eps.
     obind (json_get j ''total_cost'') (\<lambda>c. obind (json_float c) (\<lambda>cost.
     obind (json_get j ''digest'') (\<lambda>d. obind (json_str d) (\<lambda>dig.
       Ok \<lparr>rt_target = target, rt_steps = steps, rt_predicted_eps = eps,
           rt_total_cost = cost, rt_digest = dig\<rparr>))))))))))"

text \<open>\<open>error_detail\<close> holds the scalars \<open>error_to_record_fields\<close> makes.\<close>

definition prim_to_json :: "prim \<Rightarrow> json" where
  "prim_to_json p =
     (case p of PStr s \<Rightarrow> JStr s | PInt i \<Rightarrow> JInt i | PFloat x \<Rightarrow> JFloat x | PNone \<Rightarrow> JNull)"

definition prim_from_json :: "json \<Rightarrow> (prim, 'e) outcome" where
  "prim_from_json j =
     (case j of JStr s \<Rightarrow> Ok (PStr s) | JInt i \<Rightarrow> Ok (PInt i) | JFloat x \<Rightarrow> Ok (PFloat x)
      | JNull \<Rightarrow> Ok PNone | _ \<Rightarrow> Raise ValueError)"

definition attempt_to_json :: "attempt_record \<Rightarrow> json" where
  "attempt_to_json a =
     JObj [(''excluded'', str_list_json (ar_excluded a)),
           (''route_digest'', json_opt_str (ar_route_digest a)),
           (''failed_solver_id'', json_opt_str (ar_failed_solver_id a)),
           (''error_kind'', JStr (ar_error_kind a)),
           (''error_detail'', dump_dict prim_to_json (ar_error_detail a))]"

definition attempt_from_json :: "json \<Rightarrow> (attempt_record, 'e) outcome" where
  "attempt_from_json j =
     obind (json_get j ''excluded'') (\<lambda>x. obind (load_list json_str x) (\<lambda>excl.
     obind (json_get j ''route_digest'') (\<lambda>d. obind (json_str_opt d) (\<lambda>dig.
     obind (json_get j ''failed_solver_id'') (\<lambda>f. obind (json_str_opt f) (\<lambda>failed.
     obind (json_get j ''error_kind'') (\<lambda>k. obind (json_str k) (\<lambda>kind.
     obind (json_get j ''error_detail'') (\<lambda>e. obind (load_dict prim_from_json e) (\<lambda>detail.
       Ok \<lparr>ar_excluded = excl, ar_route_digest = dig, ar_failed_solver_id = failed,
           ar_error_kind = kind, ar_error_detail = detail\<rparr>))))))))))"

definition citation_to_json :: "citation \<Rightarrow> json" where
  "citation_to_json c =
     JObj [(''kind'', JStr (ct_kind c)), (''ref'', JStr (ct_ref c)), (''note'', JStr (ct_note c))]"

definition citation_from_json :: "json \<Rightarrow> (citation, 'e) outcome" where
  "citation_from_json j =
     obind (json_get j ''kind'') (\<lambda>k. obind (json_str k) (\<lambda>kind.
     obind (json_get j ''ref'') (\<lambda>r. obind (json_str r) (\<lambda>ref.
     obind (json_get j ''note'') (\<lambda>n. obind (json_str n) (\<lambda>note.
       citation_new kind ref note))))))"

definition solution_to_jsonable :: "solution \<Rightarrow> json" where
  "solution_to_jsonable s =
     JObj [(''target'', JStr (sol_target s)),
           (''value'', interval_to_json (sol_value s)),
           (''eps'', JFloat (Fin (sol_eps s))),
           (''route'', route_to_json (sol_route s)),
           (''settings_digest'', JStr (sol_settings_digest s)),
           (''solver_versions'', dump_dict JStr (sol_solver_versions s)),
           (''attempts'', JArr (map attempt_to_json (sol_attempts s))),
           (''cache_hit'', JBool (sol_cache_hit s)),
           (''step_eps'', dump_dict (\<lambda>x. JFloat (Fin x)) (sol_step_eps s)),
           (''step_citations'',
              dump_dict (\<lambda>cs. JArr (map citation_to_json cs)) (sol_step_citations s)),
           (''step_declared_domain'', dump_dict domain_to_json (sol_step_declared_domain s)),
           (''eps_budget'', (case sol_eps_budget s of None \<Rightarrow> JNull | Some b \<Rightarrow> JFloat b))]"

text \<open>The two symbolic fields get their defaults, empty dicts.\<close>

definition solution_from_jsonable :: "json \<Rightarrow> (solution, 'e) outcome" where
  "solution_from_jsonable j =
     obind (json_get j ''target'') (\<lambda>t. obind (json_str t) (\<lambda>target.
     obind (json_get j ''value'') (\<lambda>v. obind (interval_from_json v) (\<lambda>val.
     obind (json_get j ''eps'') (\<lambda>e. obind (json_real e) (\<lambda>eps.
     obind (json_get j ''route'') (\<lambda>r. obind (route_from_json r) (\<lambda>route.
     obind (json_get j ''settings_digest'') (\<lambda>d. obind (json_str d) (\<lambda>dig.
     obind (json_get j ''solver_versions'') (\<lambda>w. obind (load_dict json_str w) (\<lambda>versions.
     obind (json_get j ''attempts'') (\<lambda>a. obind (load_list attempt_from_json a) (\<lambda>attempts.
     obind (json_get j ''cache_hit'') (\<lambda>h. obind (json_bool h) (\<lambda>hit.
     obind (json_get_dict j ''step_eps'') (\<lambda>se. obind (load_dict json_real se) (\<lambda>step_eps.
     obind (json_get_dict j ''step_citations'') (\<lambda>sc.
     obind (load_dict (load_list citation_from_json) sc) (\<lambda>cits.
     obind (json_get_dict j ''step_declared_domain'') (\<lambda>sd.
     obind (load_dict domain_from_json sd) (\<lambda>doms.
     obind (json_get_none j ''eps_budget'') (\<lambda>b. obind (json_float_opt b) (\<lambda>budget.
       Ok \<lparr>sol_target = target, sol_value = val, sol_eps = eps, sol_route = route,
           sol_settings_digest = dig, sol_solver_versions = versions, sol_attempts = attempts,
           sol_cache_hit = hit, sol_step_eps = step_eps, sol_step_citations = cits,
           sol_step_declared_domain = doms, sol_step_algebraic_form = [],
           sol_step_admission_predicate = [], sol_eps_budget = budget\<rparr>
     ))))))))))))))))))))))))"

section \<open>The cache\<close>

definition probe_of :: "solver_pair list \<Rightarrow> string \<Rightarrow> (unit, solve_error) outcome option" where
  "probe_of ps sid =
     (case dget (solver_map ps) sid of None \<Rightarrow> None | Some p \<Rightarrow> sf_probe_tools (snd p))"

fun used_tools_present :: "solver_pair list \<Rightarrow> string list \<Rightarrow> (bool, 'e) outcome" where
  "used_tools_present ps [] = Ok True"
| "used_tools_present ps (sid # sids) =
     (case probe_of ps sid of
        Some (Err _) \<Rightarrow> Ok False
      | Some (Raise x) \<Rightarrow> Raise x
      | _ \<Rightarrow> used_tools_present ps sids)"

fun excluded_tools_absent :: "solver_pair list \<Rightarrow> string list \<Rightarrow> (bool, 'e) outcome" where
  "excluded_tools_absent ps [] = Ok True"
| "excluded_tools_absent ps (sid # sids) =
     (case probe_of ps sid of
        Some (Ok _) \<Rightarrow> Ok False
      | Some (Raise x) \<Rightarrow> Raise x
      | _ \<Rightarrow> excluded_tools_absent ps sids)"

definition tools_still_consistent ::
  "route \<Rightarrow> solver_pair list \<Rightarrow> string list \<Rightarrow> (bool, 'e) outcome" where
  "tools_still_consistent route ps excluded =
     obind (used_tools_present ps (map rs_solver_id (rt_steps route))) (\<lambda>present.
       if present then excluded_tools_absent ps excluded else Ok False)"

definition last_excluded :: "attempt_record list \<Rightarrow> string list" where
  "last_excluded attempts = (if attempts = [] then [] else ar_excluded (last attempts))"

definition solve_cache_get ::
  "string \<Rightarrow> route \<Rightarrow> solver_pair list \<Rightarrow> blob_dir \<Rightarrow> (solution option, 'e) outcome" where
  "solve_cache_get key route ps files =
     (case dget files key of
        None \<Rightarrow> Ok None
      | Some None \<Rightarrow> Ok None
      | Some (Some data) \<Rightarrow>
          obind (solution_from_jsonable data) (\<lambda>sol.
          obind (tools_still_consistent route ps (last_excluded (sol_attempts sol))) (\<lambda>fine.
            Ok (if fine then Some (sol\<lparr>sol_cache_hit := True\<rparr>) else None))))"

definition solve_cache_put :: "string \<Rightarrow> solution \<Rightarrow> blob_dir \<Rightarrow> blob_dir" where
  "solve_cache_put key sol files =
     dset key (Some (canon_json (solution_to_jsonable (sol\<lparr>sol_cache_hit := False\<rparr>)))) files"

section \<open>Round trips\<close>

lemma load_dump_list:
  "(\<And>x. x \<in> set xs \<Longrightarrow> g (canon_json (f x)) = (Ok x :: ('v, 'e) outcome)) \<Longrightarrow>
   load_list g (canon_json (JArr (map f xs))) = Ok xs"
proof -
  assume a: "\<And>x. x \<in> set xs \<Longrightarrow> g (canon_json (f x)) = (Ok x :: ('v, 'e) outcome)"
  have "omap g (map (\<lambda>x. canon_json (f x)) xs) = Ok xs" using a by (induction xs) simp_all
  then show ?thesis by (simp add: load_list_def comp_def)
qed

lemma str_list_roundtrip: "load_list json_str (canon_json (str_list_json xs)) = (Ok xs :: (_, 'e) outcome)"
  unfolding str_list_json_def by (rule load_dump_list) (simp add: json_str_def)

lemmas codec_simps = canon_get json_str_def json_float_def json_real_def json_bool_def

lemma domain_roundtrip:
  assumes "domain_valid d" "\<forall>iv \<in> snd ` set (d_box d). iv_valid iv"
  shows "domain_from_json (canon_json (domain_to_json d)) = (Ok d :: (_, 'e) outcome)"
proof -
  have box: "bt_ok (d_box d)" "sorted (d_tags d)" "distinct (d_tags d)"
    using assms(1) by (simp_all add: domain_valid_def)
  have "load_dict interval_from_json (canon_json (dump_dict interval_to_json (d_box d))) =
      (Ok (btree_of (d_box d)) :: (_, 'e) outcome)"
    using assms box by (intro load_dump_dict interval_roundtrip) (force simp: bt_ok_dict_ok)+
  then show ?thesis
    using box by (simp add: domain_from_json_def domain_to_json_def canon_get str_list_roundtrip
        btree_of_id sorted_sort_id domain_new_def bset_of_id del: canon_json.simps(6,7))
qed

definition route_step_storable :: "route_step \<Rightarrow> bool" where
  "route_step_storable s \<longleftrightarrow> domain_valid (rs_realized_domain s) \<and>
     (\<forall>iv \<in> snd ` set (d_box (rs_realized_domain s)). iv_valid iv)"

lemma route_step_roundtrip:
  "route_step_storable s \<Longrightarrow>
   route_step_from_json (canon_json (route_step_to_json s)) = (Ok s :: (_, 'e) outcome)"
  by (simp add: route_step_from_json_def route_step_to_json_def codec_simps domain_roundtrip
      route_step_storable_def del: canon_json.simps(6,7))

lemma route_roundtrip:
  assumes "\<forall>s \<in> set (rt_steps r). route_step_storable s"
  shows "route_from_json (canon_json (route_to_json r)) = (Ok r :: (_, 'e) outcome)"
proof -
  have "load_list route_step_from_json (canon_json (JArr (map route_step_to_json (rt_steps r)))) =
      (Ok (rt_steps r) :: (_, 'e) outcome)"
    using assms by (intro load_dump_list route_step_roundtrip) simp
  then show ?thesis
    by (simp add: route_from_json_def route_to_json_def codec_simps del: canon_json.simps(6,7))
qed

lemma str_opt_roundtrip: "json_str_opt (canon_json (json_opt_str x)) = (Ok x :: (_, 'e) outcome)"
  by (cases x) (simp_all add: json_str_opt_def json_opt_str_def)

lemma prim_roundtrip: "prim_from_json (canon_json (prim_to_json p)) = (Ok p :: (_, 'e) outcome)"
  by (cases p) (simp_all add: prim_from_json_def prim_to_json_def)

lemma attempt_roundtrip:
  assumes "bt_ok (ar_error_detail a)"
  shows "attempt_from_json (canon_json (attempt_to_json a)) = (Ok a :: (_, 'e) outcome)"
proof -
  have "load_dict prim_from_json (canon_json (dump_dict prim_to_json (ar_error_detail a))) =
      (Ok (btree_of (ar_error_detail a)) :: (_, 'e) outcome)"
    using assms by (intro load_dump_dict prim_roundtrip) (simp add: bt_ok_dict_ok)
  then show ?thesis
    using assms by (simp add: attempt_from_json_def attempt_to_json_def codec_simps
        str_list_roundtrip str_opt_roundtrip btree_of_id del: canon_json.simps(6,7))
qed

lemma citation_roundtrip:
  "ct_kind c \<in> set CITATION_KINDS \<Longrightarrow>
   citation_from_json (canon_json (citation_to_json c)) = (Ok c :: (_, 'e) outcome)"
  by (simp add: citation_from_json_def citation_to_json_def codec_simps citation_new_def
      del: canon_json.simps(6,7))

text \<open>What the executor and \<open>solve\<close> build, with its dicts read in key order.\<close>

definition solution_storable :: "solution \<Rightarrow> bool" where
  "solution_storable s \<longleftrightarrow>
     iv_valid (sol_value s) \<and>
     (\<forall>x \<in> set (rt_steps (sol_route s)). route_step_storable x) \<and>
     (\<forall>a \<in> set (sol_attempts s). bt_ok (ar_error_detail a)) \<and>
     bt_ok (sol_solver_versions s) \<and> bt_ok (sol_step_eps s) \<and>
     bt_ok (sol_step_citations s) \<and> bt_ok (sol_step_declared_domain s) \<and>
     (\<forall>cs \<in> snd ` set (sol_step_citations s). \<forall>c \<in> set cs. ct_kind c \<in> set CITATION_KINDS) \<and>
     (\<forall>d \<in> snd ` set (sol_step_declared_domain s).
        domain_valid d \<and> (\<forall>iv \<in> snd ` set (d_box d). iv_valid iv))"

definition forget_symbolic :: "solution \<Rightarrow> solution" where
  "forget_symbolic s = s\<lparr>sol_step_algebraic_form := [], sol_step_admission_predicate := []\<rparr>"

lemma load_dict_id:
  assumes "bt_ok d" "\<And>k v. (k, v) \<in> set d \<Longrightarrow> g (canon_json (f v)) = (Ok v :: ('v, 'e) outcome)"
  shows "load_dict g (canon_json (dump_dict f d)) = Ok d"
  using load_dump_dict [of d g f] assms by (simp add: bt_ok_dict_ok btree_of_id)

lemma canon_get_dict:
  "json_get_dict (canon_json (JObj d)) k =
     Ok (case map_of (rev d) k of Some v \<Rightarrow> canon_json v | None \<Rightarrow> JObj [])"
proof -
  have "map_of (rev (map (map_prod id canon_json) d)) k = map_option canon_json (map_of (rev d) k)"
    unfolding rev_map by (simp add: map_prod_def map_of_map)
  then show ?thesis by (simp add: json_get_dict_def map_of_btree_of split: option.splits)
qed

lemma canon_get_none:
  "json_get_none (canon_json (JObj d)) k =
     Ok (case map_of (rev d) k of Some v \<Rightarrow> canon_json v | None \<Rightarrow> JNull)"
proof -
  have "map_of (rev (map (map_prod id canon_json) d)) k = map_option canon_json (map_of (rev d) k)"
    unfolding rev_map by (simp add: map_prod_def map_of_map)
  then show ?thesis by (simp add: json_get_none_def map_of_btree_of split: option.splits)
qed

lemma budget_roundtrip:
  "json_float_opt (canon_json (case b of None \<Rightarrow> JNull | Some x \<Rightarrow> JFloat x)) = (Ok b :: (_, 'e) outcome)"
  by (cases b) (simp_all add: json_float_opt_def json_float_def)

lemma solution_stored:
  assumes "solution_storable s"
  shows "solution_from_jsonable (canon_json (solution_to_jsonable s)) =
     (Ok (forget_symbolic s) :: (_, 'e) outcome)"
proof -
  note a = assms [unfolded solution_storable_def]
  have "load_dict json_str (canon_json (dump_dict JStr (sol_solver_versions s))) =
      (Ok (sol_solver_versions s) :: (_, 'e) outcome)"
    using a by (intro load_dict_id) (simp_all add: json_str_def)
  moreover have "load_dict json_real (canon_json (dump_dict (\<lambda>x. JFloat (Fin x)) (sol_step_eps s))) =
      (Ok (sol_step_eps s) :: (_, 'e) outcome)"
    using a by (intro load_dict_id) (simp_all add: json_real_def json_float_def)
  moreover have "load_dict (load_list citation_from_json)
      (canon_json (dump_dict (\<lambda>cs. JArr (map citation_to_json cs)) (sol_step_citations s))) =
      (Ok (sol_step_citations s) :: (_, 'e) outcome)"
    using a by (intro load_dict_id load_dump_list citation_roundtrip) force+
  moreover have "load_dict domain_from_json
      (canon_json (dump_dict domain_to_json (sol_step_declared_domain s))) =
      (Ok (sol_step_declared_domain s) :: (_, 'e) outcome)"
    using a by (intro load_dict_id domain_roundtrip) force+
  moreover have "load_list attempt_from_json (canon_json (JArr (map attempt_to_json (sol_attempts s)))) =
      (Ok (sol_attempts s) :: (_, 'e) outcome)"
    using a by (intro load_dump_list attempt_roundtrip) simp
  moreover have "route_from_json (canon_json (route_to_json (sol_route s))) =
      (Ok (sol_route s) :: (_, 'e) outcome)"
    using a by (intro route_roundtrip) simp
  moreover have "interval_from_json (canon_json (interval_to_json (sol_value s))) =
      (Ok (sol_value s) :: (_, 'e) outcome)"
    using a by (intro interval_roundtrip) simp
  ultimately show ?thesis
    by (simp add: solution_from_jsonable_def solution_to_jsonable_def canon_get canon_get_dict
        canon_get_none budget_roundtrip json_str_def json_real_def json_float_def json_bool_def
        forget_symbolic_def del: canon_json.simps(6,7))
qed

section \<open>The cache is a keyed store\<close>

definition solve_lookup :: "string \<Rightarrow> blob_dir \<Rightarrow> solution option" where
  "solve_lookup key files =
     (case solve_cache_get key \<lparr>rt_target = [], rt_steps = [], rt_predicted_eps = 0,
             rt_total_cost = Fin 0, rt_digest = []\<rparr> [] files :: (solution option, unit) outcome of
        Ok r \<Rightarrow> r | _ \<Rightarrow> None)"

text \<open>An entry as a hit returns it.\<close>

definition solve_entry_ok :: "solution \<Rightarrow> bool" where
  "solve_entry_ok s \<longleftrightarrow> solution_storable s \<and> sol_cache_hit s \<and>
     sol_step_algebraic_form s = [] \<and> sol_step_admission_predicate s = []"

lemma excluded_tools_absent_Nil [simp]: "excluded_tools_absent [] sids = Ok True"
  by (induction sids) (simp_all add: probe_of_def solver_map_def dict_of_def)

interpretation solve_store: keyed_store solve_entry_ok solve_cache_put solve_lookup
proof
  fix v k s assume v: "solve_entry_ok v"
  have st: "solution_storable (v\<lparr>sol_cache_hit := False\<rparr>)"
    using v by (simp add: solve_entry_ok_def solution_storable_def)
  have "sol_step_algebraic_form v = []" "sol_step_admission_predicate v = []" "sol_cache_hit v"
    using v by (simp_all add: solve_entry_ok_def)
  then show "solve_lookup k (solve_cache_put k v s) = Some v"
    by (simp add: solve_lookup_def solve_cache_get_def solve_cache_put_def solution_stored [OF st]
        tools_still_consistent_def forget_symbolic_def)
next
  fix k' k v s assume "k' \<noteq> (k :: string)"
  then show "solve_lookup k' (solve_cache_put k v s) = solve_lookup k' s"
    by (simp add: solve_lookup_def solve_cache_get_def solve_cache_put_def)
qed

end
