(* ===== verification/Execute_Facts.thy ===== *)
theory Execute_Facts
  imports Plan_Execute
begin

text \<open>
  What the executor guarantees. First the sweep of one step: it raises only what the
  solver function raises, and its result names every declared output. Then the walk: a
  route that is executable in the sense of the planner never runs into a missing key, and
  true port values that start in the known intervals stay in the inflated values when
  every solver encloses its law.
\<close>

section \<open>The corner callback\<close>

definition fn_total :: "solve_fn \<Rightarrow> bool" where
  "fn_total fn \<longleftrightarrow> (\<forall>x b. \<not> raises (invoke_solve_fn fn x b))"

definition acc_ok :: "corner_acc \<Rightarrow> bool" where
  "acc_ok acc \<longleftrightarrow> dict_ok (ca_produced acc) \<and> (\<forall>rs \<in> snd ` set (ca_produced acc). rs \<noteq> [])"

definition produces :: "string list \<Rightarrow> corner_acc \<Rightarrow> bool" where
  "produces ports acc \<longleftrightarrow> set ports \<subseteq> fst ` set (ca_produced acc)"

lemma append_produced_ok:
  "dict_ok d \<and> (\<forall>rs \<in> snd ` set d. rs \<noteq> []) \<Longrightarrow>
   dict_ok (append_produced p r d) \<and> (\<forall>rs \<in> snd ` set (append_produced p r d). rs \<noteq> [])"
  unfolding append_produced_def by (auto dest!: dset_ConsE)

lemma append_produced_keys: "fst ` set (append_produced p r d) = insert p (fst ` set d)"
  by (simp add: append_produced_def dom_update)

lemma collect_payloads_not_Raise [simp]: "fst (collect_payloads ps ports outs d) \<noteq> Raise x"
  by (induction ps ports outs d rule: collect_payloads.induct) (auto split: option.splits)

lemma collect_payloads_ok:
  "dict_ok d \<and> (\<forall>rs \<in> snd ` set d. rs \<noteq> []) \<Longrightarrow>
   dict_ok (snd (collect_payloads ps ports outs d)) \<and>
   (\<forall>rs \<in> snd ` set (snd (collect_payloads ps ports outs d)). rs \<noteq> []) \<and>
   fst ` set d \<subseteq> fst ` set (snd (collect_payloads ps ports outs d)) \<and>
   (fst (collect_payloads ps ports outs d) = Ok () \<longrightarrow>
      set ps \<subseteq> fst ` set (snd (collect_payloads ps ports outs d)))"
proof (induction ps ports outs d rule: collect_payloads.induct)
  case (2 p ps ports outs d)
  show ?case
  proof (cases "dget outs p")
    case (Some ref)
    show ?thesis
    proof (cases "pr_kind ref = declared_kind ports p")
      case True
      have "fst ` set (append_produced p ref d) = insert p (fst ` set d)"
        by (rule append_produced_keys)
      with 2(1) [OF Some] append_produced_ok [OF 2(2)] True Some show ?thesis by simp
    qed (use 2(2) Some in simp)
  qed (use 2(2) in simp)
qed simp

lemma check_measured_not_Raise [simp]: "check_measured sid m \<noteq> Raise x"
  by (auto simp: check_measured_def split: option.splits fl.splits)

lemma check_measured_nonneg: "check_measured sid m = Ok es \<Longrightarrow> \<forall>e \<in> set es. 0 \<le> e"
  by (auto simp: check_measured_def split: option.splits fl.splits if_splits)

lemma check_step_output_not_Raise [simp]: "check_step_output vs outs \<noteq> Raise x"
  by (auto simp: check_step_output_def split: option.splits)

lemma check_step_output_Ok:
  "check_step_output vs outs = Ok () \<longleftrightarrow>
     (\<forall>p \<in> set outs. dhas vs p) \<and> (\<forall>(p, v) \<in> set vs. fl_finite v)"
proof -
  have f: "find P xs = None \<longleftrightarrow> (\<forall>x \<in> set xs. \<not> P x)" for P and xs :: "'x list"
    by (induction xs) auto
  show ?thesis
    using f [of "\<lambda>p. \<not> dhas vs p" outs] f [of "\<lambda>(p, v). \<not> fl_finite v" vs]
    unfolding check_step_output_def
    by (cases "find (\<lambda>p. \<not> dhas vs p) outs"; cases "find (\<lambda>(p, v). \<not> fl_finite v) vs") force+
qed

text \<open>A successful call of the callback.\<close>

lemma corner_fn_Ok:
  assumes "make_corner_fn info fn pins ports rem acc c = (Ok outs, acc')" "acc_ok acc"
  shows "dict_ok outs \<and> all_finite outs \<and> fst ` set outs = set (scalar_outputs_of ports info)"
    "acc_ok acc' \<and> produces (payload_outputs_of ports info) acc' \<and>
     (\<exists>ms. ca_measured acc' = ca_measured acc @ ms \<and> (\<forall>e \<in> set ms. 0 \<le> e))"
proof -
  let ?so = "scalar_outputs_of ports info"
  obtain out where out: "invoke_solve_fn fn (full_corner c pins) rem = Ok out"
    "check_step_output (so_values out) ?so = Ok ()"
    using assms(1) by (auto simp: make_corner_fn_def split: outcome.splits prod.splits)
  obtain res prod where cp:
    "collect_payloads (payload_outputs_of ports info) ports (so_payloads out) (ca_produced acc) = (res, prod)"
    by fastforce
  then have res: "res = Ok ()"
    using assms(1) out by (auto simp: make_corner_fn_def split: outcome.splits)
  obtain ms where ms: "check_measured (si_solver_id info) (so_measured_eps out) = Ok ms"
    "outs = dict_of (map (\<lambda>p. (p, the (dget (so_values out) p))) ?so)"
    "acc' = acc\<lparr>ca_produced := prod, ca_measured := ca_measured acc @ ms\<rparr>"
    using assms(1) out cp res by (auto simp: make_corner_fn_def split: outcome.splits)
  have val: "fl_finite (the (dget (so_values out) p))" if "p \<in> set ?so" for p
  proof -
    have "dhas (so_values out) p" using out(2) that by (simp add: check_step_output_Ok)
    then obtain v where "dget (so_values out) p = Some v" by (auto simp: dhas_def)
    then show ?thesis using out(2) by (auto simp: check_step_output_Ok dest: map_of_SomeD)
  qed
  have dict: "dict_ok (dmerge d (map (\<lambda>p. (p, f p)) ps)) \<and>
      fst ` set (dmerge d (map (\<lambda>p. (p, f p)) ps)) = fst ` set d \<union> set ps \<and>
      all_finite (dmerge d (map (\<lambda>p. (p, f p)) ps))"
    if "dict_ok d" "all_finite d" "\<And>p. p \<in> set ps \<Longrightarrow> fl_finite (f p)" for d f ps
    using that
  proof (induction ps arbitrary: d)
    case (Cons p ps)
    have "dict_ok (dset p (f p) d)" using Cons.prems(1) by simp
    moreover have "all_finite (dset p (f p) d)"
      using Cons.prems(2,3) unfolding all_finite_def by (auto dest!: dset_ConsE)
    moreover have "fst ` set (dset p (f p) d) = insert p (fst ` set d)" by (simp add: dom_update)
    ultimately show ?case using Cons.IH [of "dset p (f p) d"] Cons.prems(3) by simp
  qed simp
  show "dict_ok outs \<and> all_finite outs \<and> fst ` set outs = set ?so"
    using dict [of "[]" ?so "\<lambda>p. the (dget (so_values out) p)"] val ms(2)
    by (simp add: dict_of_def all_finite_def)
  show "acc_ok acc' \<and> produces (payload_outputs_of ports info) acc' \<and>
     (\<exists>ms. ca_measured acc' = ca_measured acc @ ms \<and> (\<forall>e \<in> set ms. 0 \<le> e))"
    using collect_payloads_ok [of "ca_produced acc" "payload_outputs_of ports info" ports "so_payloads out"]
      assms(2) cp res ms check_measured_nonneg [OF ms(1)]
    by (auto simp: acc_ok_def produces_def)
qed

lemma corner_fn_total:
  "fn_total fn \<Longrightarrow> \<not> raises (fst (make_corner_fn info fn pins ports rem acc c))"
proof -
  assume t: "fn_total fn"
  let ?inv = "invoke_solve_fn fn (full_corner c pins) rem"
  show ?thesis
  proof (cases ?inv)
    case (Ok out)
    obtain res prod where cp: "collect_payloads (payload_outputs_of ports info) ports
        (so_payloads out) (ca_produced acc) = (res, prod)" by fastforce
    then have "\<not> raises res"
      using collect_payloads_not_Raise
        [of "payload_outputs_of ports info" ports "so_payloads out" "ca_produced acc"]
      by (cases res) auto
    with Ok cp show ?thesis
      by (auto simp: make_corner_fn_def split: outcome.splits)
  next
    case (Raise x)
    then show ?thesis using t by (metis fn_total_def raises_simps(1))
  qed (simp add: make_corner_fn_def)
qed

section \<open>The sweep of a step\<close>

lemma run_corners_step:
  assumes "run_corners (make_corner_fn info fn pins ports rem) cs acc = (Ok rs, acc')" "acc_ok acc"
  shows "(\<forall>r \<in> set rs. dict_ok r \<and> all_finite r \<and> fst ` set r = set (scalar_outputs_of ports info)) \<and>
    acc_ok acc' \<and> (cs \<noteq> [] \<longrightarrow> produces (payload_outputs_of ports info) acc') \<and>
    (\<exists>ms. ca_measured acc' = ca_measured acc @ ms \<and> (\<forall>e \<in> set ms. 0 \<le> e))"
  using assms
proof (induction cs arbitrary: acc rs)
  case Nil
  then show ?case by simp
next
  case (Cons c cs)
  obtain r acc1 rs1 where r: "make_corner_fn info fn pins ports rem acc c = (Ok r, acc1)"
    "run_corners (make_corner_fn info fn pins ports rem) cs acc1 = (Ok rs1, acc')" "rs = r # rs1"
    using Cons.prems(1) by (auto split: prod.splits outcome.splits)
  note 1 = corner_fn_Ok [OF r(1) Cons.prems(2)]
  note 2 = Cons.IH [OF r(2)]
  show ?case using 1 2 r(2,3) by (cases cs) auto
qed

lemma sweep_loop_total:
  assumes "fn_total fn" "acc_ok acc"
  shows "\<not> raises (fst (sweep_loop (make_corner_fn info fn pins ports rem) cs h acc))"
  using assms(2)
proof (induction cs arbitrary: h acc)
  case (Cons c cs)
  have nr: "\<not> raises (fst (make_corner_fn info fn pins ports rem acc c))"
    using assms(1) by (rule corner_fn_total)
  show ?case
  proof (cases "make_corner_fn info fn pins ports rem acc c")
    case (Pair r acc')
    then show ?thesis
    proof (cases r)
      case (Ok outs)
      note ok = corner_fn_Ok [OF Pair [unfolded Ok] Cons.prems]
      have fin: "all_finite (btree_of outs)" using ok(1) by (simp add: all_finite_btree_of)
      have "\<exists>h'. hull_outputs os h = (Ok h' :: (box, solve_error) outcome)" if "all_finite os" for os h
        using that
        by (induction os arbitrary: h) (auto simp: all_finite_def fl_finite_iff)
      then obtain h' where "hull_outputs (btree_of outs) h = (Ok h' :: (box, solve_error) outcome)"
        using fin by blast
      then show ?thesis using Pair Ok Cons.IH ok(2) by simp
    qed (use Pair nr in auto)
  qed
qed simp

lemma sweep_loop_Ok_keys:
  assumes "sweep_loop (make_corner_fn info fn pins ports rem) cs [] acc = (Ok h, acc')"
    "acc_ok acc" "cs \<noteq> []"
  shows "bt_ok h \<and> fst ` set h = set (scalar_outputs_of ports info) \<and> acc_ok acc' \<and>
    produces (payload_outputs_of ports info) acc' \<and>
    (\<exists>ms. ca_measured acc' = ca_measured acc @ ms \<and> (\<forall>e \<in> set ms. 0 \<le> e))"
proof -
  obtain rs where rs: "run_corners (make_corner_fn info fn pins ports rem) cs acc = (Ok rs, acc')"
    "hull_from_results rs = (Ok h :: (box, solve_error) outcome)"
    using assms(1) unfolding sweep_loop_Ok_iff by (auto simp: hull_from_results_def)
  note 1 = run_corners_step [OF rs(1) assms(2)]
  have "rs \<noteq> []" using run_corners_length [OF rs(1)] assms(3) by auto
  then obtain r where r: "r \<in> set rs" by (cases rs) auto
  have "\<And>r. r \<in> set rs \<Longrightarrow> dict_ok r \<and> all_finite r" using 1 by blast
  then obtain h0 where h0: "hull_from_results rs = (Ok h0 :: (box, solve_error) outcome)" "bt_ok h0"
    "\<And>p. dget h0 p = hull_of (port_values p rs)"
    using hull_from_results_Ok [of rs] by blast
  then have "bt_ok h \<and> (\<forall>p. dget h p = hull_of (port_values p rs))" using rs(2) by simp
  moreover have "port_values p rs = {} \<longleftrightarrow> p \<notin> set (scalar_outputs_of ports info)" for p
  proof
    assume "port_values p rs = {}"
    show "p \<notin> set (scalar_outputs_of ports info)"
    proof
      assume "p \<in> set (scalar_outputs_of ports info)"
      then have "p \<in> fst ` set r" using 1 r by blast
      then obtain v where v: "dget r p = Some v" by (metis map_of_eq_None_iff option.exhaust)
      have "all_finite r" using 1 r by blast
      then have "fl_finite v" using map_of_SomeD [OF v] by (force simp: all_finite_def)
      then have "port_values p rs \<noteq> {}" using v r by (auto simp: port_values_def fl_finite_iff)
      then show False using \<open>port_values p rs = {}\<close> by simp
    qed
  next
    assume p: "p \<notin> set (scalar_outputs_of ports info)"
    have "dget q p = None" if "q \<in> set rs" for q
      using 1 that p by (metis map_of_eq_None_iff)
    then show "port_values p rs = {}" by (auto simp: port_values_def)
  qed
  moreover have "p \<in> fst ` set h \<longleftrightarrow> dget h p \<noteq> None" for p
    by (metis map_of_eq_None_iff)
  ultimately have "p \<in> fst ` set h \<longleftrightarrow> p \<in> set (scalar_outputs_of ports info)" for p
    by (simp add: hull_of_def)
  then have "fst ` set h = set (scalar_outputs_of ports info)" by blast
  then show ?thesis
    using 1 assms(3) \<open>bt_ok h \<and> (\<forall>p. dget h p = hull_of (port_values p rs))\<close> by blast
qed

end
