(* ===== verification/Execute_Walk.thy ===== *)
theory Execute_Walk
  imports Execute_Facts
begin

text \<open>
  The walk of the executor: on a route that is executable in the sense of the planner no
  lookup of the walk fails, so an exception can only come from a solver function.
\<close>

section \<open>One step\<close>

lemma merge_produced_not_Raise:
  "\<forall>rs \<in> snd ` set d. rs \<noteq> [] \<Longrightarrow> \<not> raises (merge_produced sid d acc)"
  by (induction sid d acc rule: merge_produced.induct) (auto split: list.splits)

lemma merge_produced_keys:
  "merge_produced sid d acc = Ok refs \<Longrightarrow> fst ` set refs = fst ` set acc \<union> fst ` set d"
  by (induction sid d acc arbitrary: refs rule: merge_produced.induct)
    (auto split: list.splits if_splits simp: dom_update)

lemma scalar_outputs_subset: "set (scalar_outputs_of ports info) \<subseteq> set (si_outputs info)"
  by (auto simp: scalar_outputs_of_def)

lemma declared_eps_not_Raise:
  assumes "set (dkeys (si_accuracy info)) = set (si_outputs info)" "set outs \<subseteq> fst ` set hl"
    "set outs \<subseteq> set (si_outputs info)"
  shows "\<exists>e. declared_eps info hl outs = Ok e"
proof -
  have one: "\<exists>x. (case (dget (si_accuracy info) p, dget hl p) of
      (Some a, Some iv) \<Rightarrow> Ok (worst_over a iv) | _ \<Rightarrow> Raise (KeyError p)) = Ok x" if "p \<in> set outs" for p
  proof -
    have "p \<in> fst ` set (si_accuracy info)" "p \<in> fst ` set hl" using that assms by auto
    then obtain a iv where "dget (si_accuracy info) p = Some a" "dget hl p = Some iv"
      by (metis map_of_eq_None_iff option.exhaust)
    then show ?thesis by simp
  qed
  have "\<exists>ys. omap f xs = Ok ys" if "\<And>x. x \<in> set xs \<Longrightarrow> \<exists>y. f x = Ok y"
    for f :: "string \<Rightarrow> (real, solve_error) outcome" and xs
    using that
  proof (induction xs)
    case (Cons x xs)
    then obtain y ys where "f x = Ok y" "omap f xs = Ok ys" by (meson list.set_intros)
    then show ?case by simp
  qed simp
  from this [OF one] show ?thesis unfolding declared_eps_def by fastforce
qed

lemma py_max_nonneg: "\<forall>x \<in> set xs. 0 \<le> x \<Longrightarrow> 0 \<le> d \<Longrightarrow> 0 \<le> py_max xs d"
proof -
  have "0 \<le> foldl max y ys" if "0 \<le> y" for y :: real and ys
    using that by (induction ys arbitrary: y) auto
  then show "\<forall>x \<in> set xs. 0 \<le> x \<Longrightarrow> 0 \<le> d \<Longrightarrow> ?thesis"
    by (cases xs) (auto simp: py_max_def)
qed

definition entry_covers :: "(string, port_decl) dict \<Rightarrow> solver_info \<Rightarrow> step_entry \<Rightarrow> bool" where
  "entry_covers ports info e \<longleftrightarrow>
     bt_ok (se_hull e) \<and> fst ` set (se_hull e) = set (scalar_outputs_of ports info) \<and>
     set (payload_outputs_of ports info) \<subseteq> fst ` set (se_refs e)"

lemma sweep_step_parts:
  assumes "sweep_step info fn pins ports b rem = Ok e"
  obtains acc where
    "corner_sweep b (make_corner_fn info fn pins ports rem) \<lparr>ca_measured = [], ca_produced = []\<rparr>
       = (Ok (se_hull e), acc)"
    "merge_produced (si_solver_id info) (ca_produced acc) [] = Ok (se_refs e)"
    "step_eps_of info (se_hull e) (scalar_outputs_of ports info) (ca_measured acc) = Ok (se_eps e)"
  using assms that
  by (fastforce simp: sweep_step_def outcome_simps split: prod.splits outcome.splits)

lemma acc_start_ok [simp]: "acc_ok \<lparr>ca_measured = [], ca_produced = []\<rparr>"
  by (simp add: acc_ok_def)

lemma sweep_step_covers:
  assumes "sweep_step info fn pins ports b rem = Ok e"
  shows "entry_covers ports info e"
proof -
  obtain acc where acc:
    "corner_sweep b (make_corner_fn info fn pins ports rem) \<lparr>ca_measured = [], ca_produced = []\<rparr>
       = (Ok (se_hull e), acc)"
    "merge_produced (si_solver_id info) (ca_produced acc) [] = Ok (se_refs e)"
    using assms by (rule sweep_step_parts)
  note keys = sweep_loop_Ok_keys [OF acc(1) [unfolded corner_sweep_def] acc_start_ok
      enumerate_corners_nonempty]
  then show ?thesis
    using merge_produced_keys [OF acc(2)] by (auto simp: entry_covers_def produces_def)
qed

lemma sweep_step_total:
  assumes "fn_total fn" "set (dkeys (si_accuracy info)) = set (si_outputs info)"
  shows "\<not> raises (sweep_step info fn pins ports b rem)"
proof -
  let ?start = "\<lparr>ca_measured = [], ca_produced = []\<rparr>"
  let ?r = "corner_sweep b (make_corner_fn info fn pins ports rem) ?start"
  have nr: "\<not> raises (fst ?r)"
    unfolding corner_sweep_def using assms(1) by (rule sweep_loop_total) simp
  show ?thesis
  proof (cases ?r)
    case (Pair res acc)
    show ?thesis
    proof (cases res)
      case (Ok hl)
      note keys = sweep_loop_Ok_keys [OF Pair [unfolded Ok corner_sweep_def] acc_start_ok
          enumerate_corners_nonempty]
      have "\<forall>rs \<in> snd ` set (ca_produced acc). rs \<noteq> []" using keys by (simp add: acc_ok_def)
      then have m: "\<not> raises (merge_produced (si_solver_id info) (ca_produced acc) [])"
        by (rule merge_produced_not_Raise)
      have "\<exists>x. declared_eps info hl (scalar_outputs_of ports info) = Ok x"
        using keys assms(2) scalar_outputs_subset by (intro declared_eps_not_Raise) auto
      then have "\<exists>x. step_eps_of info hl (scalar_outputs_of ports info) (ca_measured acc) = Ok x"
        by (simp add: step_eps_of_def)
      then show ?thesis using Pair Ok m
        by (cases "merge_produced (si_solver_id info) (ca_produced acc) []")
          (auto simp: sweep_step_def)
    qed (use Pair nr in \<open>auto simp: sweep_step_def\<close>)
  qed
qed

lemma sweep_step_eps_nonneg:
  assumes "sweep_step info fn pins ports b rem = Ok e" "\<forall>a \<in> snd ` set (si_accuracy info). acc_valid a"
  shows "0 \<le> se_eps e"
proof -
  obtain acc where acc:
    "corner_sweep b (make_corner_fn info fn pins ports rem) \<lparr>ca_measured = [], ca_produced = []\<rparr>
       = (Ok (se_hull e), acc)"
    "step_eps_of info (se_hull e) (scalar_outputs_of ports info) (ca_measured acc) = Ok (se_eps e)"
    using assms(1) by (rule sweep_step_parts)
  have ms: "\<forall>x \<in> set (ca_measured acc). 0 \<le> x"
    using sweep_loop_Ok_keys [OF acc(1) [unfolded corner_sweep_def] acc_start_ok
      enumerate_corners_nonempty] by auto
  have each: "0 \<le> x" if h: "(case (dget (si_accuracy info) p, dget hl p) of
      (Some a, Some iv) \<Rightarrow> Ok (worst_over a iv) | _ \<Rightarrow> Raise (KeyError p)) = Ok x" for x p hl
  proof -
    obtain a iv where a: "dget (si_accuracy info) p = Some a" "x = worst_over a iv"
      using h by (auto split: option.splits)
    then have "acc_valid a" using assms(2) map_of_SomeD [OF a(1)] by force
    then show ?thesis using a(2) by (simp add: worst_over_nonneg)
  qed
  show ?thesis
  proof (cases "ca_measured acc = []")
    case False
    then show ?thesis using acc(2) ms by (simp add: step_eps_of_def) (metis py_max_nonneg order_refl)
  next
    case True
    then obtain es where es: "omap (\<lambda>p. (case (dget (si_accuracy info) p, dget (se_hull e) p) of
        (Some a, Some iv) \<Rightarrow> Ok (worst_over a iv) | _ \<Rightarrow> Raise (KeyError p)))
        (scalar_outputs_of ports info) = (Ok es :: (real list, solve_error) outcome)" "py_max es 0 = se_eps e"
      using acc(2) by (auto simp: step_eps_of_def declared_eps_def outcome_simps)
    have "\<forall>x \<in> set es. 0 \<le> x"
      using omap_Ok_list_all2 [OF es(1)] each by (fastforce simp: list_all2_conv_all_nth in_set_conv_nth)
    then show ?thesis using py_max_nonneg [of es 0] es(2) by simp
  qed
qed

section \<open>Nothing of the walk raises\<close>

definition solvers_total :: "solver_pair list \<Rightarrow> bool" where
  "solvers_total ps \<longleftrightarrow> (\<forall>p \<in> set ps. fn_total (snd p))"

definition exec_has :: "exec_state \<Rightarrow> string set \<Rightarrow> bool" where
  "exec_has st avail \<longleftrightarrow> (\<forall>p \<in> avail. dhas (ex_values st) p \<or> dhas (ex_payloads st) p)"

lemma split_inputs_Ok:
  assumes "split_inputs ins ports vals payloads scalars pins = Ok (s, p)"
    "\<forall>q \<in> set ins. dhas vals q \<or> dhas payloads q"
  shows "set s \<subseteq> set scalars \<union> {q \<in> set ins. dhas vals q}"
  using assms
proof (induction ins ports vals payloads scalars pins rule: split_inputs.induct)
  case (2 q ins ports vals payloads scalars pins)
  show ?case
  proof (cases "dget payloads q")
    case (Some ref)
    then show ?thesis using 2 by (auto split: if_splits)
  next
    case None
    then have "dhas vals q" using "2.prems"(2) by (auto simp: dhas_def)
    then show ?thesis using 2 None by auto
  qed
qed simp

lemma split_inputs_not_Raise [simp]:
  "split_inputs ins ports vals payloads scalars pins \<noteq> Raise x"
  by (induction ins ports vals payloads scalars pins rule: split_inputs.induct)
    (auto split: option.splits)

lemma omap_Ok_of:
  "(\<And>x. x \<in> set xs \<Longrightarrow> \<exists>y. f x = Ok y) \<Longrightarrow> \<exists>ys. omap f xs = Ok ys"
proof (induction xs)
  case (Cons x xs)
  then obtain y ys where "f x = Ok y" "omap f xs = Ok ys" by (meson list.set_intros)
  then show ?case by simp
qed simp

lemma step_box_Ok:
  assumes "\<forall>q \<in> set s. dhas (ex_values st) q"
  shows "\<exists>b. step_box st s = (Ok b :: (box, 'e) outcome)"
proof -
  have "\<exists>kvs. omap (\<lambda>p. (case dget (ex_values st) p of None \<Rightarrow> Raise (KeyError p)
      | Some iv \<Rightarrow> Ok (p, inflate iv (eps_at st p)))) s = (Ok kvs :: (box, 'e) outcome)"
    by (rule omap_Ok_of) (use assms in \<open>auto simp: dhas_def\<close>)
  then show ?thesis unfolding step_box_def by auto
qed

lemma check_output_domain_not_Raise [simp]: "check_output_domain b hl eps \<noteq> Raise x"
  by (induction b hl eps rule: check_output_domain.induct) (auto split: option.splits simp: Let_def)

lemma dhas_dmerge: "dhas (dmerge d e) k \<longleftrightarrow> dhas d k \<or> k \<in> fst ` set e"
  unfolding dmerge_def by (induction e arbitrary: d) auto

lemma commit_step_has:
  assumes "exec_has st avail" "entry_covers ports info e"
  shows "exec_has (commit_step info sid e st) (avail \<union> set (si_outputs info))"
    "\<And>p. p \<in> set (si_outputs info) \<Longrightarrow> \<not> is_payload_port ports p \<Longrightarrow>
      dhas (ex_values (commit_step info sid e st)) p"
    "\<And>p. dhas (ex_values st) p \<Longrightarrow> dhas (ex_values (commit_step info sid e st)) p"
proof -
  have out: "p \<in> set (payload_outputs_of ports info) \<or> p \<in> set (scalar_outputs_of ports info)"
    if "p \<in> set (si_outputs info)" for p
    using that by (auto simp: scalar_outputs_of_def)
  show "exec_has (commit_step info sid e st) (avail \<union> set (si_outputs info))"
    using assms unfolding exec_has_def entry_covers_def commit_step_def
    by (auto simp: dhas_dmerge dest: out)
  show "dhas (ex_values (commit_step info sid e st)) p"
    if "p \<in> set (si_outputs info)" "\<not> is_payload_port ports p" for p
    using that assms(2) unfolding entry_covers_def commit_step_def
    by (auto simp: dhas_dmerge scalar_outputs_of_def payload_outputs_of_def)
  show "dhas (ex_values st) p \<Longrightarrow> dhas (ex_values (commit_step info sid e st)) p" for p
    by (simp add: commit_step_def dhas_dmerge)
qed

lemma attribute_err_simps [simp]:
  "attribute_err sid r = Ok a \<longleftrightarrow> r = Ok a"
  "raises (attribute_err sid r) = raises r"
  by (cases r; auto simp: attribute_err_def)+

lemma check_step_output_domain_not_raises [simp]:
  "\<not> raises (check_step_output_domain info hl eps)"
  unfolding check_step_output_domain_def
  by (cases "check_output_domain (d_box (si_domain info)) hl eps") auto

text \<open>One step of the walk without a step cache.\<close>

lemma exec_step_Ok:
  assumes "exec_step H dumps ps ports eps_budget step st None = (Ok st', c)"
  obtains info fn scalars pins b e where
    "lookup_solver ps (rs_solver_id step) = (Ok (info, fn) :: (solver_pair, attributed) outcome)"
    "split_step_inputs info ports (ex_values st) (ex_payloads st) = Ok (scalars, pins)"
    "step_box st scalars = (Ok b :: (box, attributed) outcome)"
    "sweep_step info fn pins ports b (remaining_budget st scalars eps_budget) = Ok e"
    "check_step_output_domain info (se_hull e) (se_eps e) = Ok ()"
    "st' = commit_step info (rs_solver_id step) e st" "c = None"
  using assms that
  by (fastforce simp: exec_step_def Let_def cached_step_def outcome_simps
      split: prod.splits outcome.splits)

lemma exec_step_total:
  assumes "lookup_solver ps (rs_solver_id step) = (Ok (info, fn) :: (solver_pair, attributed) outcome)"
    "fn_total fn" "info_ok info" "set (si_inputs info) \<subseteq> avail" "exec_has st avail"
  shows "\<not> raises (fst (exec_step H dumps ps ports eps_budget step st None))"
proof (cases "split_step_inputs info ports (ex_values st) (ex_payloads st)")
  case (Ok sp)
  obtain s p where sp: "sp = (s, p)" by (cases sp)
  have "\<forall>q \<in> set (si_inputs info). dhas (ex_values st) q \<or> dhas (ex_payloads st) q"
    using assms(4,5) by (auto simp: exec_has_def)
  then have "set s \<subseteq> {q. dhas (ex_values st) q}"
    using split_inputs_Ok [OF Ok [unfolded split_step_inputs_def sp]] by auto
  then obtain b where b: "step_box st s = (Ok b :: (box, attributed) outcome)"
    using step_box_Ok [of s st] by blast
  have acc: "set (dkeys (si_accuracy info)) = set (si_outputs info)"
    using assms(3) by (simp add: info_ok_def)
  let ?w = "sweep_step info fn p ports b (remaining_budget st s eps_budget)"
  have nr: "\<not> raises ?w" using assms(2) acc by (rule sweep_step_total)
  show ?thesis
  proof (cases ?w)
    case (Ok e)
    have d: "\<not> raises (check_step_output_domain info (se_hull e) (se_eps e))" by simp
    then show ?thesis
      using Ok b sp assms(1) \<open>split_step_inputs info ports (ex_values st) (ex_payloads st) = Ok sp\<close>
      by (cases "check_step_output_domain info (se_hull e) (se_eps e)")
        (auto simp: exec_step_def Let_def cached_step_def attribute_err_def)
  next
    case (Raise x)
    then show ?thesis using nr by simp
  qed (use b sp assms(1) Ok in \<open>auto simp: exec_step_def Let_def cached_step_def attribute_err_def\<close>)
next
  case (Raise x)
  then show ?thesis by (simp add: split_step_inputs_def)
qed (use assms(1) in \<open>simp add: exec_step_def Let_def attribute_err_def\<close>)

text \<open>The registry a route runs on may hold more solvers than the view it was planned over.\<close>

lemma planned_step:
  assumes wf: "registry_ok r" and sub: "set qs \<subseteq> set (registry_iter r)"
    and ok: "step_ok (summaries qs) rq avail step"
  obtains info fn where
    "lookup_solver (registry_iter r) (rs_solver_id step) = (Ok (info, fn) :: (solver_pair, 'e) outcome)"
    "(info, fn) \<in> set (registry_iter r)" "set (si_inputs info) \<subseteq> avail" "info_ok info"
    "outputs_named (summaries qs) (rs_solver_id step) \<subseteq> set (si_outputs info)"
proof -
  obtain q where q: "q \<in> set qs" "pair_id q = rs_solver_id step" "set (si_inputs (fst q)) \<subseteq> avail"
    using ok by (auto simp: step_ok_def summary_mem summary_of_def)
  obtain info fn where p: "q = (info, fn)" by (cases q)
  have mem: "(info, fn) \<in> set (registry_iter r)" using q(1) sub p by blast
  have dist: "distinct (map pair_id (registry_iter r))" using wf by (rule registry_source.ids_distinct)
  have "dget (solver_map (registry_iter r)) (rs_solver_id step) = Some (info, fn)"
    using registry_source.solver_map_get [OF wf] mem q(2) p by simp
  then have look: "lookup_solver (registry_iter r) (rs_solver_id step) = (Ok (info, fn) :: (solver_pair, 'e) outcome)"
    by (simp add: lookup_solver_def)
  have iok: "info_ok info"
    using wf mem unfolding registry_ok_def solvers_ok_def set_registry_iter by force
  have "s = (info, fn)" if "s \<in> set qs" "pair_id s = rs_solver_id step" for s
    using that sub mem dist q(2) p by (metis (no_types, lifting) distinct_map fst_conv inj_onD subsetD)
  then have "outputs_named (summaries qs) (rs_solver_id step) \<subseteq> set (si_outputs info)"
    by (fastforce simp: outputs_named_def summary_mem summary_of_def)
  then show ?thesis using that [OF look mem _ iok] q(3) p by simp
qed

lemma exec_steps_total:
  assumes wf: "registry_ok r" "set qs \<subseteq> set (registry_iter r)" "solvers_total (registry_iter r)"
    and ok: "steps_ok (summaries qs) rq avail steps" "exec_has st avail"
  shows "\<not> raises (fst (exec_steps H dumps (registry_iter r) ports eps_budget steps st None))"
  using ok
proof (induction steps arbitrary: avail st)
  case (Cons step steps)
  let ?step = "exec_step H dumps (registry_iter r) ports eps_budget step st None"
  have sok: "step_ok (summaries qs) rq avail step" using Cons.prems(1) by simp
  obtain info fn where i: "lookup_solver (registry_iter r) (rs_solver_id step) =
      (Ok (info, fn) :: (solver_pair, attributed) outcome)"
    "(info, fn) \<in> set (registry_iter r)" "set (si_inputs info) \<subseteq> avail" "info_ok info"
    "outputs_named (summaries qs) (rs_solver_id step) \<subseteq> set (si_outputs info)"
    using wf(1,2) sok by (rule planned_step)
  have tot: "fn_total fn" using i(2) wf(3) by (auto simp: solvers_total_def)
  note nr = exec_step_total [OF i(1) tot i(4,3) Cons.prems(2), of H dumps ports eps_budget]
  show ?case
  proof (cases "?step")
    case (Pair res c)
    show ?thesis
    proof (cases res)
      case (Ok st')
      from Pair [unfolded Ok] obtain info' fn' s p b e where e:
        "lookup_solver (registry_iter r) (rs_solver_id step) =
           (Ok (info', fn') :: (solver_pair, attributed) outcome)"
        "sweep_step info' fn' p ports b (remaining_budget st s eps_budget) = Ok e"
        "st' = commit_step info' (rs_solver_id step) e st" "c = None"
        by (rule exec_step_Ok)
      have "info' = info" using e(1) i(1) by simp
      then have "exec_has st' (avail \<union> set (si_outputs info))"
        using commit_step_has(1) [OF Cons.prems(2) sweep_step_covers [OF e(2)]] e(3) by simp
      then have "exec_has st' (avail \<union> outputs_named (summaries qs) (rs_solver_id step))"
        using i(5) by (auto simp: exec_has_def)
      from Cons.IH [OF _ this] show ?thesis using Cons.prems(1) Pair Ok e(4) by simp
    qed (use Pair nr in auto)
  qed
qed simp

text \<open>Where the walk ends well, the outputs of its last step that are scalars have a value.\<close>

lemma exec_step_outputs:
  assumes "exec_step H dumps ps ports eps_budget step st None = (Ok st', c)"
    "lookup_solver ps (rs_solver_id step) = (Ok (info, fn) :: (solver_pair, attributed) outcome)"
    "p \<in> set (si_outputs info)" "\<not> is_payload_port ports p"
  shows "dhas (ex_values st') p"
proof -
  from assms(1) obtain info' fn' s pn b e where e:
    "lookup_solver ps (rs_solver_id step) = (Ok (info', fn') :: (solver_pair, attributed) outcome)"
    "sweep_step info' fn' pn ports b (remaining_budget st s eps_budget) = Ok e"
    "st' = commit_step info' (rs_solver_id step) e st"
    by (rule exec_step_Ok)
  have i: "info' = info" using e(1) assms(2) by simp
  have "exec_has st {}" by (simp add: exec_has_def)
  from commit_step_has(2) [OF this sweep_step_covers [OF e(2)], of p] show ?thesis
    using assms(3,4) e(3) i by simp
qed

lemma exec_steps_append:
  "exec_steps H dumps ps ports eps_budget (xs @ ys) st c =
     (case exec_steps H dumps ps ports eps_budget xs st c of
        (Ok st', c') \<Rightarrow> exec_steps H dumps ps ports eps_budget ys st' c'
      | (Err e, c') \<Rightarrow> (Err e, c')
      | (Raise x, c') \<Rightarrow> (Raise x, c'))"
  by (induction xs arbitrary: st c) (auto split: prod.splits outcome.splits)

lemma exec_step_cache_None:
  "exec_step H dumps ps ports eps_budget step st None = (res, c) \<Longrightarrow> c = None"
  by (auto simp: exec_step_def cached_step_def Let_def split: outcome.splits prod.splits)

lemma exec_steps_cache_None:
  "exec_steps H dumps ps ports eps_budget steps st None = (res, c) \<Longrightarrow> c = None"
proof (induction steps arbitrary: st)
  case (Cons step steps)
  then show ?case
    by (cases "exec_step H dumps ps ports eps_budget step st None")
      (auto dest!: exec_step_cache_None split: outcome.splits)
qed simp

text \<open>The end of a walk: the target has a value and every solver of the route is registered.\<close>

lemma route_digest_Ok:
  assumes "registry_ok r" "set qs \<subseteq> set (registry_iter r)" "steps_ok (summaries qs) rq avail (rt_steps route)"
  shows "\<exists>d. route_settings_digest H dumps route (registry_iter r) = (Ok d :: (string, 'e) outcome)"
proof -
  have "\<exists>y. obind (lookup_solver (registry_iter r) (rs_solver_id step))
      (\<lambda>p. Ok (si_settings_digest (fst p))) = (Ok y :: (string, 'e) outcome)"
    if "steps_ok (summaries qs) rq a steps" "step \<in> set steps" for a steps step
    using that
  proof (induction steps arbitrary: a)
    case (Cons x xs)
    show ?case
    proof (cases "step = x")
      case True
      then have "step_ok (summaries qs) rq a step" using Cons.prems(1) by simp
      then obtain info fn where
        "lookup_solver (registry_iter r) (rs_solver_id step) = (Ok (info, fn) :: (solver_pair, 'e) outcome)"
        using planned_step [OF assms(1,2)] by metis
      then show ?thesis by simp
    qed (use Cons in auto)
  qed simp
  note one = this
  have "\<exists>ds. omap (\<lambda>step. obind (lookup_solver (registry_iter r) (rs_solver_id step))
      (\<lambda>p. Ok (si_settings_digest (fst p)))) (rt_steps route) = (Ok ds :: (string list, 'e) outcome)"
    by (rule omap_Ok_of) (rule one [OF assms(3)])
  then show ?thesis by (auto simp: route_settings_digest_def)
qed

lemma execute_total:
  assumes wf: "registry_ok r" "set qs \<subseteq> set (registry_iter r)" "solvers_total (registry_iter r)"
    and ok: "route_ok (summaries qs) (btree_of (merge_payloads known payloads)) rq route"
    and target: "\<not> is_payload_port (port_table r) (rt_target route)"
  shows "\<not> raises (fst (execute H dumps route r known payloads None eps_budget))"
proof -
  let ?ps = "registry_iter r" and ?st = "exec_start known payloads" and ?steps = "rt_steps route"
  let ?run = "exec_steps H dumps ?ps (port_table r) eps_budget ?steps ?st None"
  let ?avail = "fst ` set (merge_payloads known payloads)"
  have steps: "steps_ok (summaries qs) rq ?avail ?steps" "?steps \<noteq> []"
    "rt_target route \<in> outputs_named (summaries qs) (rs_solver_id (last ?steps))"
    using ok by (simp_all add: route_ok_def)
  have has: "exec_has ?st ?avail"
    unfolding exec_has_def exec_start_def merge_payloads_keys by (auto simp: dict_simps)
  note nr = exec_steps_total [OF wf steps(1) has, of H dumps "port_table r" eps_budget]
  show ?thesis
  proof (cases ?run)
    case (Pair res c)
    show ?thesis
    proof (cases res)
      case (Ok st)
      obtain xs where xs: "?steps = xs @ [last ?steps]"
        using steps(2) by (metis append_butlast_last_id)
      have "steps_ok (summaries qs) rq ?avail (xs @ [last ?steps])" using steps(1) xs by simp
      then have "step_ok (summaries qs) rq (?avail \<union> produced_by (summaries qs) xs) (last ?steps)"
        by (simp add: steps_ok_snoc)
      then obtain info fn where i: "lookup_solver ?ps (rs_solver_id (last ?steps)) =
          (Ok (info, fn) :: (solver_pair, attributed) outcome)"
        "outputs_named (summaries qs) (rs_solver_id (last ?steps)) \<subseteq> set (si_outputs info)"
        using planned_step [OF wf(1,2)] by metis
      obtain st1 c1 where "exec_step H dumps ?ps (port_table r) eps_budget (last ?steps) st1 None = (Ok st, c1)"
        using Pair Ok exec_steps_append [of H dumps ?ps "port_table r" eps_budget xs "[last ?steps]" ?st None]
        unfolding xs [symmetric]
        by (auto split: prod.splits outcome.splits dest: exec_steps_cache_None)
      from exec_step_outputs [OF this i(1) _ target] have "dhas (ex_values st) (rt_target route)"
        using steps(3) i(2) by blast
      then obtain v where "dget (ex_values st) (rt_target route) = Some v" by (auto simp: dhas_def)
      moreover obtain d where "route_settings_digest H dumps route ?ps = (Ok d :: (string, attributed) outcome)"
        using route_digest_Ok [OF wf(1,2) steps(1)] by blast
      ultimately show ?thesis
        using Pair Ok by (simp add: execute_def execute_impl_def solution_of_def)
    qed (use Pair nr in \<open>auto simp: execute_def execute_impl_def\<close>)
  qed
qed

end
