(* ===== verification/Execute_Sound.thy ===== *)
theory Execute_Sound
  imports Execute_Walk
begin

text \<open>
  Soundness of an executed route: if \<open>x\<close> gives every port its true value, the known
  intervals hold the truth and every solver keeps its contract, then each value of the
  walk, inflated by the error charged to it, holds the truth. The locale \<open>enclosure\<close>
  states the contract on the sweep of one step; it is interpreted on solvers that are
  monotone in each input over the swept box and accurate as declared.
\<close>

section \<open>The contract of a step\<close>

definition encloses :: "(string \<Rightarrow> real) \<Rightarrow> (string, interval) dict \<Rightarrow> real \<Rightarrow> bool" where
  "encloses x hl eps \<longleftrightarrow>
     (\<forall>p iv. dget hl p = Some iv \<longrightarrow> iv_contains (inflate iv eps) (x p))"

text \<open>The part of the declared input box that a swept box touches contains it.\<close>

definition box_admitted :: "solver_info \<Rightarrow> box \<Rightarrow> bool" where
  "box_admitted info b \<longleftrightarrow>
     (\<forall>(p, allowed) \<in> set (d_box (si_domain info)). \<forall>iv. dget b p = Some iv \<longrightarrow> is_subset iv allowed)"

locale enclosure =
  fixes x :: "string \<Rightarrow> real" and keeps :: "(string, port_decl) dict \<Rightarrow> solver_info \<Rightarrow> solve_fn \<Rightarrow> bool"
  assumes sweep_encloses:
    "\<lbrakk>keeps ports info fn; sweep_step info fn pins ports b rem = Ok e; dict_ok b;
      in_box b x; box_admitted info b; fst ` set b \<subseteq> set (si_inputs info)\<rbrakk>
     \<Longrightarrow> encloses x (se_hull e) (se_eps e)"

section \<open>The invariant of the walk\<close>

definition exec_true :: "(string \<Rightarrow> real) \<Rightarrow> exec_state \<Rightarrow> bool" where
  "exec_true x st \<longleftrightarrow>
     (\<forall>p iv. dget (ex_values st) p = Some iv \<longrightarrow> iv_contains (inflate iv (eps_at st p)) (x p))"

lemma exec_start_true:
  assumes "\<forall>p iv. dget known p = Some iv \<longrightarrow> iv_contains iv (x p)"
  shows "exec_true x (exec_start known payloads)"
proof -
  have "eps_at (exec_start known payloads) p = 0" for p
    by (auto simp: eps_at_def exec_start_def split: option.splits dest: map_of_SomeD)
  then show ?thesis using assms by (simp add: exec_true_def) (simp add: exec_start_def)
qed

lemma dget_dict_of_box:
  "dget (dmerge d kvs) p = Some iv \<Longrightarrow> dget d p = Some iv \<or> (p, iv) \<in> set kvs"
proof (induction kvs arbitrary: d)
  case (Cons kv kvs)
  obtain k v where kv: "kv = (k, v)" by (cases kv)
  then have "dget (dset k v d) p = Some iv \<or> (p, iv) \<in> set kvs"
    using Cons.IH [of "dset k v d"] Cons.prems by (simp del: dget_dset)
  then show ?case using kv by (auto split: if_splits)
qed simp

lemma step_box_in_box:
  assumes "exec_true x st" "step_box st s = Ok b"
  shows "dict_ok b \<and> in_box b x \<and> fst ` set b \<subseteq> set s"
proof -
  obtain kvs where kvs: "omap (\<lambda>p. (case dget (ex_values st) p of None \<Rightarrow> Raise (KeyError p)
      | Some iv \<Rightarrow> Ok (p, inflate iv (eps_at st p)))) s = (Ok kvs :: (box, 'a) outcome)" "b = dict_of kvs"
    using assms(2) by (auto simp: step_box_def outcome_simps)
  have ok: "dict_ok b" using kvs(2) by (simp add: dict_of_def dict_ok_dmerge)
  have mem: "q \<in> set s \<and> iv_contains iv (x q)" if h: "(q, iv) \<in> set kvs" for q iv
  proof -
    obtain i where i: "i < length kvs" "kvs ! i = (q, iv)"
      using h by (auto simp: in_set_conv_nth)
    note l = omap_Ok_list_all2 [OF kvs(1)]
    have li: "i < length s" using l i(1) by (simp add: list_all2_lengthD)
    then have "(case dget (ex_values st) (s ! i) of None \<Rightarrow> Raise (KeyError (s ! i))
        | Some iv \<Rightarrow> Ok (s ! i, inflate iv (eps_at st (s ! i)))) = (Ok (q, iv) :: (_, 'a) outcome)"
      using list_all2_nthD [OF l li] i by simp
    then show ?thesis using assms(1) li by (auto simp: exec_true_def split: option.splits)
  qed
  have "(q, iv) \<in> set kvs" if h: "(q, iv) \<in> set b" for q iv
    using dget_dict_of_box [of "[]" kvs q iv] dict_ok_get [OF ok h] kvs(2) by (simp add: dict_of_def)
  then show ?thesis using ok mem unfolding in_box_def by force
qed

lemma commit_true:
  assumes "exec_true x st" "encloses x (se_hull e) (se_eps e)" "dict_ok (se_hull e)"
  shows "exec_true x (commit_step info sid e st)"
proof -
  let ?es = "map (\<lambda>(p, iv). (p, se_eps e)) (se_hull e)"
  have es: "dict_ok ?es" using assms(3) by (simp add: dict_ok_def comp_def case_prod_beta)
  have ge: "dget ?es p = map_option (\<lambda>_. se_eps e) (dget (se_hull e) p)" for p
    by (simp add: map_of_map)
  have v: "dget (ex_values (commit_step info sid e st)) p =
      (case dget (se_hull e) p of Some v \<Rightarrow> Some v | None \<Rightarrow> dget (ex_values st) p)" for p
    using assms(3) by (simp add: commit_step_def dget_dmerge)
  have w: "eps_at (commit_step info sid e st) p =
      (case dget (se_hull e) p of Some v \<Rightarrow> se_eps e | None \<Rightarrow> eps_at st p)" for p
    using es by (simp add: eps_at_def commit_step_def dget_dmerge ge split: option.splits)
  show ?thesis
    using assms(1,2) unfolding exec_true_def encloses_def v w by (auto split: option.splits)
qed

lemma split_inputs_scalars:
  "split_inputs ins ports vals payloads scalars pins = Ok (s, p) \<Longrightarrow> set s \<subseteq> set scalars \<union> set ins"
  by (induction ins ports vals payloads scalars pins rule: split_inputs.induct)
    (force split: option.splits if_splits)+

lemma split_step_scalars:
  "split_step_inputs info ports vals payloads = Ok (s, p) \<Longrightarrow> set s \<subseteq> set (si_inputs info)"
  unfolding split_step_inputs_def by (drule split_inputs_scalars) simp

lemma step_box_retype:
  "step_box st s = (Ok b :: (box, 'e) outcome) \<Longrightarrow> step_box st s = (Ok b :: (box, 'f) outcome)"
proof -
  have o: "omap (\<lambda>p. (case dget (ex_values st) p of None \<Rightarrow> Raise (KeyError p)
      | Some iv \<Rightarrow> Ok (p, inflate iv (eps_at st p)))) s = (Ok kvs :: (box, 'f) outcome)"
    if "omap (\<lambda>p. (case dget (ex_values st) p of None \<Rightarrow> Raise (KeyError p)
      | Some iv \<Rightarrow> Ok (p, inflate iv (eps_at st p)))) s = (Ok kvs :: (box, 'e) outcome)" for kvs
    using that by (induction s arbitrary: kvs) (auto simp: outcome_simps split: option.splits)
  show "step_box st s = (Ok b :: (box, 'e) outcome) \<Longrightarrow> ?thesis"
    using o by (auto simp: step_box_def outcome_simps)
qed

section \<open>Boxes that stay in their domains\<close>

text \<open>
  The executor sweeps whatever box the walk has reached. \<open>boxes_admitted\<close> says of a
  walk that each swept box lies in the declared input domain of its solver.
\<close>

fun boxes_admitted ::
  "(json \<Rightarrow> string) \<Rightarrow> (json \<Rightarrow> string) \<Rightarrow> solver_pair list \<Rightarrow> (string, port_decl) dict
   \<Rightarrow> fl option \<Rightarrow> route_step list \<Rightarrow> exec_state \<Rightarrow> bool" where
  "boxes_admitted H dumps ps ports eps_budget [] st = True"
| "boxes_admitted H dumps ps ports eps_budget (step # steps) st =
     ((case lookup_solver ps (rs_solver_id step) :: (solver_pair, unit) outcome of
         Ok (info, fn) \<Rightarrow>
           (case split_step_inputs info ports (ex_values st) (ex_payloads st) of
              Ok (scalars, pins) \<Rightarrow>
                (case step_box st scalars :: (box, unit) outcome of
                   Ok b \<Rightarrow> box_admitted info b | _ \<Rightarrow> True)
            | _ \<Rightarrow> True)
       | _ \<Rightarrow> True) \<and>
      (case exec_step H dumps ps ports eps_budget step st None of
         (Ok st', c) \<Rightarrow> boxes_admitted H dumps ps ports eps_budget steps st'
       | _ \<Rightarrow> True))"

context enclosure begin

text \<open>Every value a finished walk holds encloses the truth.\<close>

lemma walk_true:
  assumes "\<And>step info fn. step \<in> set steps \<Longrightarrow> dget (solver_map ps) (rs_solver_id step) = Some (info, fn) \<Longrightarrow>
      keeps ports info fn"
    "exec_true x st"
    "boxes_admitted H dumps ps ports eps_budget steps st"
    "exec_steps H dumps ps ports eps_budget steps st None = (Ok st', c)"
  shows "exec_true x st'"
  using assms
proof (induction steps arbitrary: st)
  case (Cons step steps)
  obtain st1 c1 where st1: "exec_step H dumps ps ports eps_budget step st None = (Ok st1, c1)"
    "exec_steps H dumps ps ports eps_budget steps st1 c1 = (Ok st', c)"
    using Cons.prems(4) by (auto split: prod.splits outcome.splits)
  then obtain info fn s pins b e where e:
    "lookup_solver ps (rs_solver_id step) = (Ok (info, fn) :: (solver_pair, attributed) outcome)"
    "split_step_inputs info ports (ex_values st) (ex_payloads st) = Ok (s, pins)"
    "step_box st s = (Ok b :: (box, attributed) outcome)"
    "sweep_step info fn pins ports b (remaining_budget st s eps_budget) = Ok e"
    "st1 = commit_step info (rs_solver_id step) e st" "c1 = None"
    by (elim exec_step_Ok)
  have keep: "keeps ports info fn"
    using e(1) Cons.prems(1) [of step] by (auto simp: lookup_solver_def split: option.splits)
  have look: "lookup_solver ps (rs_solver_id step) = (Ok (info, fn) :: (solver_pair, unit) outcome)"
    using e(1) by (simp add: lookup_solver_def split: option.splits)
  have box: "step_box st s = (Ok b :: (box, unit) outcome)"
    using e(3) by (rule step_box_retype)
  have adm: "box_admitted info b" using Cons.prems(3) look e(2) box by simp
  note inb = step_box_in_box [OF Cons.prems(2) e(3)]
  have "set s \<subseteq> set (si_inputs info)" using e(2) by (rule split_step_scalars)
  then have "encloses x (se_hull e) (se_eps e)"
    using sweep_encloses [OF keep e(4)] inb adm by force
  moreover have "dict_ok (se_hull e)"
    using sweep_step_covers [OF e(4)] by (simp add: entry_covers_def bt_ok_dict_ok)
  ultimately have "exec_true x st1" using commit_true [OF Cons.prems(2)] e(5) by simp
  moreover have "boxes_admitted H dumps ps ports eps_budget steps st1"
    using Cons.prems(3) st1(1) by simp
  ultimately show ?case
    using Cons.IH [of st1] Cons.prems(1) st1(2) e(6) by (metis list.set_intros(2))
qed simp

end

section \<open>Monotone, accurate solvers keep the contract\<close>

text \<open>
  What a solver declares: its accuracies are well-formed and, over an admitted box every corner of
  which it answers, it reports no measured error, it evaluates a fixed function of the corner,
  monotone in each input, and the true outputs differ from the function at the true inputs by no
  more than the declared accuracy at that value.
\<close>

definition law_at ::
  "(string \<Rightarrow> real) \<Rightarrow> solver_info \<Rightarrow> box \<Rightarrow> string \<Rightarrow> (string \<Rightarrow> corner \<Rightarrow> real) \<Rightarrow> bool" where
  "law_at x info b p g \<longleftrightarrow>
     coord_monotone b (g p) \<and>
     (\<forall>a. dget (si_accuracy info) p = Some a \<longrightarrow>
        \<bar>x p - g p (point_of b x)\<bar> \<le> acc_eps a (g p (point_of b x)))"

definition answers_corners :: "solve_fn \<Rightarrow> (string, payload_ref) dict \<Rightarrow> fl option \<Rightarrow> box \<Rightarrow> bool" where
  "answers_corners fn pins rem b \<longleftrightarrow>
     (\<forall>c. corner_of b c \<longrightarrow> (\<exists>out. invoke_solve_fn fn (full_corner c pins) rem = Ok out))"

text \<open>At a corner the solver evaluates \<open>g\<close>: what it returns for a scalar port is the value of \<open>g\<close>.\<close>

definition evaluates ::
  "(string, port_decl) dict \<Rightarrow> solver_info \<Rightarrow> solve_fn \<Rightarrow> (string, payload_ref) dict \<Rightarrow> fl option
   \<Rightarrow> (string \<Rightarrow> corner \<Rightarrow> real) \<Rightarrow> corner \<Rightarrow> bool" where
  "evaluates ports info fn pins rem g c \<longleftrightarrow>
     (\<forall>out. invoke_solve_fn fn (full_corner c pins) rem = Ok out \<longrightarrow>
        so_measured_eps out = None \<and>
        (\<forall>p \<in> set (scalar_outputs_of ports info).
           dget (so_values out) p = None \<or> dget (so_values out) p = Some (Fin (g p c))))"

definition law_holds ::
  "(string \<Rightarrow> real) \<Rightarrow> (string, port_decl) dict \<Rightarrow> solver_info \<Rightarrow> solve_fn \<Rightarrow> bool" where
  "law_holds x ports info fn \<longleftrightarrow>
     (\<forall>a \<in> snd ` set (si_accuracy info). acc_valid a) \<and>
     (\<forall>pins rem b. bt_ok b \<and> in_box b x \<and> box_admitted info b \<and> fst ` set b \<subseteq> set (si_inputs info) \<longrightarrow>
        answers_corners fn pins rem b \<longrightarrow>
        (\<exists>g. (\<forall>c. corner_of b c \<longrightarrow> evaluates ports info fn pins rem g c) \<and>
          (\<forall>p \<in> set (scalar_outputs_of ports info). law_at x info b p g)))"

lemma dget_point_of: "dget (point_of b x) p = (if p \<in> fst ` set b then Some (x p) else None)"
  by (induction b) (auto simp: point_of_def)

lemma dget_full_corner:
  "dget (full_corner c pins) p =
     (case map_of (rev pins) p of Some r \<Rightarrow> Some (VRef r) | None \<Rightarrow> map_option (\<lambda>v. VFloat (Fin v)) (dget c p))"
proof -
  have "dget (dmerge d (map (\<lambda>(p, r). (p, VRef r)) pins)) p =
      (case map_of (rev pins) p of Some r \<Rightarrow> Some (VRef r) | None \<Rightarrow> dget d p)" for d :: inputs
    by (induction pins arbitrary: d) (auto split: option.splits)
  moreover have "dget (map (\<lambda>(p, v). (p, VFloat (Fin v))) c) p = map_option (\<lambda>v. VFloat (Fin v)) (dget c p)"
    by (induction c) auto
  ultimately show ?thesis by (simp add: full_corner_def split: option.split)
qed

lemma corner_fn_values:
  assumes "make_corner_fn info fn pins ports rem acc c = (Ok r, acc')" "ca_measured acc = []"
    "evaluates ports info fn pins rem g c"
  shows "ca_measured acc' = []"
    "p \<in> set (scalar_outputs_of ports info) \<Longrightarrow> dget r p = Some (Fin (g p c))"
proof -
  let ?so = "scalar_outputs_of ports info"
  obtain out where out: "invoke_solve_fn fn (full_corner c pins) rem = Ok out"
    "check_step_output (so_values out) ?so = Ok ()"
    using assms(1) by (auto simp: make_corner_fn_def split: outcome.splits prod.splits)
  note sp = assms(3) [unfolded evaluates_def, rule_format, OF out(1)]
  have r: "r = dict_of (map (\<lambda>p. (p, the (dget (so_values out) p))) ?so)" "ca_measured acc' = []"
    using assms(1,2) out sp
    by (auto simp: make_corner_fn_def check_measured_def split: outcome.splits prod.splits)
  show "ca_measured acc' = []" by (rule r(2))
  show "dget r p = Some (Fin (g p c))" if "p \<in> set ?so"
  proof -
    have keep: "dget (dmerge d (map (\<lambda>p. (p, f p)) ps)) q =
        (if q \<in> set ps then Some (f q) else dget d q)" for d ps and f :: "string \<Rightarrow> fl" and q
      by (induction ps arbitrary: d) auto
    have "dhas (so_values out) p" using out(2) that by (simp add: check_step_output_Ok)
    then have "dget (so_values out) p = Some (Fin (g p c))" using sp that by (auto simp: dhas_def)
    then show ?thesis using that by (simp add: r(1) dict_of_def keep)
  qed
qed

lemma run_corners_values:
  assumes "run_corners (make_corner_fn info fn pins ports rem) cs acc = (Ok rs, acc')" "ca_measured acc = []"
    "\<forall>c \<in> set cs. evaluates ports info fn pins rem g c"
  shows "ca_measured acc' = [] \<and>
    list_all2 (\<lambda>c r. \<forall>p \<in> set (scalar_outputs_of ports info). dget r p = Some (Fin (g p c))) cs rs"
  using assms
proof (induction cs arbitrary: acc rs)
  case (Cons c cs)
  obtain r acc1 rs1 where r: "make_corner_fn info fn pins ports rem acc c = (Ok r, acc1)"
    "run_corners (make_corner_fn info fn pins ports rem) cs acc1 = (Ok rs1, acc')" "rs = r # rs1"
    using Cons.prems(1) by (auto split: prod.splits outcome.splits)
  have "evaluates ports info fn pins rem g c" using Cons.prems(3) by simp
  note v = corner_fn_values [OF r(1) Cons.prems(2) this]
  show ?case using Cons.IH [OF r(2) v(1)] Cons.prems(3) v(2) r(3) by simp
qed simp

lemma run_corners_answers:
  assumes "run_corners (make_corner_fn info fn pins ports rem) cs acc = (Ok rs, acc')" "c \<in> set cs"
  shows "\<exists>out. invoke_solve_fn fn (full_corner c pins) rem = Ok out"
  using assms
proof (induction cs arbitrary: acc rs)
  case (Cons d cs)
  obtain r acc1 rs1 where r: "make_corner_fn info fn pins ports rem acc d = (Ok r, acc1)"
    "run_corners (make_corner_fn info fn pins ports rem) cs acc1 = (Ok rs1, acc')"
    using Cons.prems(1) by (auto split: prod.splits outcome.splits)
  show ?case
  proof (cases "c = d")
    case True
    then show ?thesis using r(1) by (auto simp: make_corner_fn_def split: outcome.splits prod.splits)
  next
    case False
    then show ?thesis using Cons.IH [OF r(2)] Cons.prems(2) by simp
  qed
qed simp

lemma py_max_ge: "y \<in> set xs \<Longrightarrow> y \<le> py_max xs d"
proof -
  have base: "z \<le> foldl max z ys" for z :: real and ys
    by (induction ys arbitrary: z) (auto intro: order_trans [OF max.cobounded1])
  have "y \<le> foldl max z ys" if "y \<in> set ys" for y z :: real and ys
    using that
  proof (induction ys arbitrary: z)
    case (Cons w ys)
    then show ?case
      by (cases "y = w") (auto intro: order_trans [OF max.cobounded2 base])
  qed simp
  with base show "y \<in> set xs \<Longrightarrow> ?thesis" by (cases xs) (auto simp: py_max_def)
qed

lemma set_btree_of_dict: "dict_ok d \<Longrightarrow> set (btree_of d) = set d"
proof -
  assume "dict_ok d"
  then have "map_of (btree_of d) = map_of d" by (rule map_of_btree_of_dict)
  then show ?thesis
    using \<open>dict_ok d\<close> bt_ok_dict_ok [OF bt_ok_btree_of [of d]]
    by (simp add: dict_ok_def map_of_inject_set)
qed

lemma declared_eps_ge:
  assumes "declared_eps info hl outs = Ok e" "p \<in> set outs"
  obtains a iv where "dget (si_accuracy info) p = Some a" "dget hl p = Some iv" "worst_over a iv \<le> e"
proof -
  obtain es where es: "omap (\<lambda>p. (case (dget (si_accuracy info) p, dget hl p) of
        (Some a, Some iv) \<Rightarrow> Ok (worst_over a iv) | _ \<Rightarrow> Raise (KeyError p))) outs
        = (Ok es :: (real list, solve_error) outcome)" "py_max es 0 = e"
    using assms(1) by (auto simp: declared_eps_def outcome_simps)
  obtain i where i: "i < length outs" "outs ! i = p" using assms(2) by (auto simp: in_set_conv_nth)
  note l = omap_Ok_list_all2 [OF es(1)]
  have "es ! i \<in> set es" using i(1) l by (simp add: list_all2_lengthD)
  then have "es ! i \<le> e" using es(2) py_max_ge by blast
  moreover have "(case (dget (si_accuracy info) p, dget hl p) of
        (Some a, Some iv) \<Rightarrow> Ok (worst_over a iv) | _ \<Rightarrow> Raise (KeyError p))
        = (Ok (es ! i) :: (real, solve_error) outcome)"
    using list_all2_nthD [OF l i(1)] unfolding i(2) by simp
  ultimately show ?thesis using that by (auto split: option.splits)
qed

text \<open>A step that succeeds answered every corner; its hull spans the values at the corners.\<close>

lemma sweep_answers:
  assumes sw: "sweep_step info fn pins ports b rem = Ok e"
  shows "answers_corners fn pins rem (btree_of b)"
proof -
  let ?eval = "make_corner_fn info fn pins ports rem"
  obtain acc where acc: "corner_sweep b ?eval \<lparr>ca_measured = [], ca_produced = []\<rparr> = (Ok (se_hull e), acc)"
    using sw by (rule sweep_step_parts)
  then obtain rs where "run_corners ?eval (enumerate_corners b) \<lparr>ca_measured = [], ca_produced = []\<rparr> = (Ok rs, acc)"
    unfolding corner_sweep_def sweep_loop_Ok_iff by blast
  note answered = run_corners_answers [OF this]
  show ?thesis
    unfolding answers_corners_def using answered by (simp add: set_enumerate_corners)
qed

lemma sweep_hull:
  assumes sw: "sweep_step info fn pins ports b rem = Ok e"
    and g: "\<forall>c. corner_of (btree_of b) c \<longrightarrow> evaluates ports info fn pins rem g c"
    and iv: "dget (se_hull e) p = Some iv"
  shows "p \<in> set (scalar_outputs_of ports info)"
    "iv = \<lparr>iv_lo = Min (g p ` {c. corner_of (btree_of b) c}), iv_hi = Max (g p ` {c. corner_of (btree_of b) c})\<rparr>"
    "finite (g p ` {c. corner_of (btree_of b) c})"
    "declared_eps info (se_hull e) (scalar_outputs_of ports info) = Ok (se_eps e)"
proof -
  let ?so = "scalar_outputs_of ports info" and ?b = "btree_of b"
  let ?eval = "make_corner_fn info fn pins ports rem"
  let ?start = "\<lparr>ca_measured = [], ca_produced = []\<rparr>"
  obtain acc where acc: "corner_sweep b ?eval ?start = (Ok (se_hull e), acc)"
    "step_eps_of info (se_hull e) ?so (ca_measured acc) = Ok (se_eps e)"
    using sw by (rule sweep_step_parts)
  then obtain rs where rs: "run_corners ?eval (enumerate_corners b) ?start = (Ok rs, acc)"
    "hull_from_results rs = (Ok (se_hull e) :: (box, solve_error) outcome)"
    unfolding corner_sweep_def sweep_loop_Ok_iff hull_from_results_def by blast
  have "\<forall>c \<in> set (enumerate_corners b). evaluates ports info fn pins rem g c"
    using g by (simp add: set_enumerate_corners)
  note vals = run_corners_values [OF rs(1) _ this, simplified]
  note fin = run_corners_step [OF rs(1) acc_start_ok]
  have cov: "fst ` set (se_hull e) = set ?so"
    using sweep_step_covers [OF sw] by (simp add: entry_covers_def)
  show p: "p \<in> set ?so" using map_of_SomeD [OF iv] cov by force
  have ok: "\<And>r. r \<in> set rs \<Longrightarrow> dict_ok r \<and> all_finite r" using fin by blast
  obtain h where "hull_from_results rs = (Ok h :: (box, solve_error) outcome)"
    "\<forall>p. dget h p = hull_of (port_values p rs)"
    using hull_from_results_Ok [OF ok] by blast
  then have "dget (se_hull e) p = hull_of (port_values p rs)" using rs(2) by simp
  moreover have "list_all2 (\<lambda>c r. dget r p = Some (Fin (g p c))) (enumerate_corners b) rs"
    using vals p by (auto elim: list_all2_mono)
  then have pv: "port_values p rs = g p ` set (enumerate_corners b)"
    unfolding port_values_def by (induction rule: list_all2_induct) auto
  ultimately show "iv = \<lparr>iv_lo = Min (g p ` {c. corner_of ?b c}), iv_hi = Max (g p ` {c. corner_of ?b c})\<rparr>"
    using iv by (auto simp: hull_of_def set_enumerate_corners split: if_splits)
  show "finite (g p ` {c. corner_of ?b c})"
    using set_enumerate_corners [of b] by (metis List.finite_set finite_imageI)
  have "ca_measured acc = []" using vals by simp
  then show "declared_eps info (se_hull e) ?so = Ok (se_eps e)"
    using acc(2) by (simp add: step_eps_of_def)
qed

lemma spanned:
  assumes "finite (f ` {c. corner_of b c})" "corner_of b c" "corner_of b d" "f c \<le> v" "v \<le> f d"
  shows "iv_contains \<lparr>iv_lo = Min (f ` {c. corner_of b c}), iv_hi = Max (f ` {c. corner_of b c})\<rparr> v"
proof -
  have "Min (f ` {c. corner_of b c}) \<le> f c" "f d \<le> Max (f ` {c. corner_of b c})"
    using assms(1-3) by (auto intro: Min_le Max_ge)
  then show ?thesis using assms(4,5) by (simp add: iv_contains_def)
qed

lemma law_encloses:
  assumes law: "law_holds x ports info fn" and sw: "sweep_step info fn pins ports b rem = Ok e"
    and b: "dict_ok b" "in_box b x" "box_admitted info b" "fst ` set b \<subseteq> set (si_inputs info)"
  shows "encloses x (se_hull e) (se_eps e)"
  unfolding encloses_def
proof (intro allI impI)
  fix p iv assume iv: "dget (se_hull e) p = Some iv"
  let ?so = "scalar_outputs_of ports info" and ?b = "btree_of b"
  have eqb: "set ?b = set b" using b(1) by (rule set_btree_of_dict)
  have inb: "in_box ?b x" using b(2) by (simp add: in_box_def eqb)
  have adm: "box_admitted info ?b" using b(1,3) by (simp add: box_admitted_def map_of_btree_of_dict)
  obtain g where g: "\<forall>c. corner_of ?b c \<longrightarrow> evaluates ports info fn pins rem g c"
    "\<forall>p \<in> set ?so. law_at x info ?b p g"
    using law bt_ok_btree_of inb adm b(4) sweep_answers [OF sw] unfolding law_holds_def eqb [symmetric] by blast
  note hull = sweep_hull [OF sw g(1) iv]
  have law: "law_at x info ?b p g" using g(2) hull(1) by blast
  have valid: "\<forall>(p, iv) \<in> set ?b. iv_valid iv"
    using inb unfolding in_box_def iv_contains_def iv_valid_def by force
  obtain c d where cd: "corner_of ?b c" "corner_of ?b d" "g p c \<le> g p (point_of ?b x)"
    "g p (point_of ?b x) \<le> g p d"
    using monotone_corner_bounds [OF bt_ok_dict_ok [OF bt_ok_btree_of] valid _ inb, of "g p"] law
    by (auto simp: law_at_def)
  have inside: "iv_contains iv (g p (point_of ?b x))"
    using spanned [OF hull(3) cd] unfolding hull(2) .
  obtain a iv' where a: "dget (si_accuracy info) p = Some a" "dget (se_hull e) p = Some iv'"
    "worst_over a iv' \<le> se_eps e"
    using declared_eps_ge [OF hull(4,1)] .
  have "acc_valid a" using map_of_SomeD [OF a(1)] assms(1) unfolding law_holds_def by force
  then have "acc_eps a (g p (point_of ?b x)) \<le> worst_over a iv" using inside by (rule worst_over_bounds)
  then have "\<bar>x p - g p (point_of ?b x)\<bar> \<le> se_eps e"
    using law a iv unfolding law_at_def by fastforce
  with inside show "iv_contains (inflate iv (se_eps e)) (x p)" by (rule inflate_contains)
qed

interpretation accurate: enclosure x "law_holds x" for x
  by unfold_locales (rule law_encloses)

section \<open>What a solution says\<close>

lemma last_step_eps:
  assumes "exec_step H dumps ps ports eps_budget step st None = (Ok st', c)"
    "lookup_solver ps (rs_solver_id step) = (Ok (info, fn) :: (solver_pair, attributed) outcome)"
    "p \<in> set (si_outputs info)" "\<not> is_payload_port ports p"
  shows "eps_at st' p = ex_final_eps st'"
proof -
  from assms(1) obtain info' fn' s pn b e where e:
    "lookup_solver ps (rs_solver_id step) = (Ok (info', fn') :: (solver_pair, attributed) outcome)"
    "sweep_step info' fn' pn ports b (remaining_budget st s eps_budget) = Ok e"
    "st' = commit_step info' (rs_solver_id step) e st"
    by (rule exec_step_Ok)
  have i: "info' = info" using e(1) assms(2) by simp
  note cov = sweep_step_covers [OF e(2)]
  have "p \<in> fst ` set (se_hull e)"
    using assms(3,4) cov i by (auto simp: entry_covers_def scalar_outputs_of_def payload_outputs_of_def)
  then obtain iv where iv: "dget (se_hull e) p = Some iv" by (metis map_of_eq_None_iff option.exhaust)
  let ?es = "map (\<lambda>(p, iv). (p, se_eps e)) (se_hull e)"
  have "dict_ok (se_hull e)" using cov by (simp add: entry_covers_def bt_ok_dict_ok)
  then have es: "dict_ok ?es" by (simp add: dict_ok_def comp_def case_prod_beta)
  have "dget ?es p = Some (se_eps e)" using iv by (simp add: map_of_map)
  then show ?thesis using e(3) es by (simp add: eps_at_def commit_step_def dget_dmerge)
qed

lemma midpoint_error:
  assumes "iv_contains (inflate iv eps) y"
  shows "\<bar>y - midpoint iv\<bar> \<le> total_error iv eps"
proof -
  have b: "iv_lo iv - eps \<le> y" "y \<le> iv_hi iv + eps"
    using assms by (simp_all add: iv_contains_def inflate_def)
  have "y - midpoint iv \<le> total_error iv eps" "midpoint iv - y \<le> total_error iv eps"
    using b by (simp_all add: midpoint_def total_error_def half_width_def width_def field_simps)
  then show ?thesis by (simp add: abs_le_iff)
qed

lemma route_end:
  assumes wf: "registry_ok r" "set qs \<subseteq> set (registry_iter r)"
    and ok: "route_ok (summaries qs) known' rq route" "\<not> is_payload_port ports (rt_target route)"
    and run: "exec_steps H dumps (registry_iter r) ports eps_budget (rt_steps route) st0 None = (Ok st, c)"
  shows "dhas (ex_values st) (rt_target route) \<and> eps_at st (rt_target route) = ex_final_eps st"
proof -
  let ?ps = "registry_iter r" and ?steps = "rt_steps route"
  obtain xs where xs: "?steps = xs @ [last ?steps]"
    using ok by (metis append_butlast_last_id route_ok_def)
  have "steps_ok (summaries qs) rq (fst ` set known') (xs @ [last ?steps])"
    using ok xs by (simp add: route_ok_def)
  then have "step_ok (summaries qs) rq (fst ` set known' \<union> produced_by (summaries qs) xs) (last ?steps)"
    by (simp add: steps_ok_snoc)
  then obtain info fn where i: "lookup_solver ?ps (rs_solver_id (last ?steps)) =
      (Ok (info, fn) :: (solver_pair, attributed) outcome)"
    "outputs_named (summaries qs) (rs_solver_id (last ?steps)) \<subseteq> set (si_outputs info)"
    using planned_step [OF wf] by metis
  have t: "rt_target route \<in> set (si_outputs info)" using ok(1) i(2) by (auto simp: route_ok_def)
  obtain st1 c1 where e: "exec_step H dumps ?ps ports eps_budget (last ?steps) st1 None = (Ok st, c1)"
    using run exec_steps_append [of H dumps ?ps ports eps_budget xs "[last ?steps]" st0 None]
    unfolding xs [symmetric]
    by (auto split: prod.splits outcome.splits dest: exec_steps_cache_None)
  show ?thesis
    using exec_step_outputs [OF e i(1) t ok(2)] last_step_eps [OF e i(1) t ok(2)] by simp
qed

text \<open>A request offers a solver when its tags cover those of the solver's domain.\<close>

definition offered :: "string list \<Rightarrow> solver_info \<Rightarrow> bool" where
  "offered tags info \<longleftrightarrow> set (d_tags (si_domain info)) \<subseteq> set tags"

lemma steps_offered:
  assumes wf: "registry_ok r" and sub: "set qs \<subseteq> set (registry_iter r)"
    and ok: "steps_ok (summaries qs) rq avail steps" and step: "step \<in> set steps"
    and look: "dget (solver_map (registry_iter r)) (rs_solver_id step) = Some (info, fn)"
  shows "(info, fn) \<in> set (registry_iter r) \<and> offered (rq_tags rq) info"
proof -
  obtain av where "step_ok (summaries qs) rq av step"
    using ok step by (induction steps arbitrary: avail) auto
  then obtain q where q: "q \<in> set qs" "pair_id q = rs_solver_id step"
    "set (d_tags (si_domain (fst q))) \<subseteq> set (rq_tags rq)"
    by (auto simp: step_ok_def summary_mem summary_of_def admits_def first_missing_tag_None
        input_domain_of_def domain_new_def split: option.splits)
  obtain i' f' where q': "q = (i', f')" by (cases q)
  have "dget (solver_map (registry_iter r)) (rs_solver_id step) = Some (i', f')"
    using q(1,2) sub q' registry_source.solver_map_get [OF wf] by auto
  then have "q = (info, fn)" using look q' by simp
  then show ?thesis using q(1,3) sub by (auto simp: offered_def)
qed

lemma execute_enclosed:
  assumes wf: "registry_ok r" "set qs \<subseteq> set (registry_iter r)"
    and laws: "\<forall>p \<in> set (registry_iter r). offered (rq_tags rq) (fst p) \<longrightarrow>
      pair_id p \<in> rs_solver_id ` set (rt_steps route) \<longrightarrow> law_holds x (port_table r) (fst p) (snd p)"
    and truth: "\<forall>p iv. dget known p = Some iv \<longrightarrow> iv_contains iv (x p)"
    and route: "rt_steps route = [] \<or> route_ok (summaries qs) known' rq route"
    and target: "\<not> is_payload_port (port_table r) (rt_target route)"
    and boxes: "boxes_admitted H dumps (registry_iter r) (port_table r) eps_budget (rt_steps route)
      (exec_start known payloads)"
    and run: "execute_impl H dumps route r known payloads None eps_budget = (Ok sol, c)"
  shows "sol_target sol = rt_target route \<and>
    iv_contains (inflate (sol_value sol) (sol_eps sol)) (x (rt_target route))"
proof -
  let ?ps = "registry_iter r" and ?t = "rt_target route"
  obtain st where st: "exec_steps H dumps ?ps (port_table r) eps_budget (rt_steps route)
      (exec_start known payloads) None = (Ok st, c)"
    "solution_of H dumps ?ps route st = (Ok sol :: (solution, attributed) outcome)"
    using run by (auto simp: execute_impl_def Let_def split: prod.splits outcome.splits)
  then have v: "dget (ex_values st) ?t = Some (sol_value sol)" "sol_eps sol = ex_final_eps st"
    "sol_target sol = ?t"
    by (auto simp: solution_of_def outcome_simps split: option.splits)
  have keep: "law_holds x (port_table r) info fn"
    if "step \<in> set (rt_steps route)" "dget (solver_map ?ps) (rs_solver_id step) = Some (info, fn)" for step info fn
  proof -
    have "steps_ok (summaries qs) rq (fst ` set known') (rt_steps route)"
      using route that(1) by (auto simp: route_ok_def)
    then have "(info, fn) \<in> set ?ps \<and> offered (rq_tags rq) info" using steps_offered [OF wf _ that] by blast
    moreover from this have "si_solver_id info = rs_solver_id step"
      using that(2) registry_source.solver_map_get [OF wf(1)] by blast
    ultimately show ?thesis using laws that(1) by force
  qed
  have tr: "exec_true x st"
    using accurate.walk_true [OF keep exec_start_true [OF truth] boxes st(1)] .
  have "eps_at st ?t = ex_final_eps st"
  proof (cases "rt_steps route = []")
    case True
    then have "st = exec_start known payloads" using st(1) by simp
    moreover have "eps_at (exec_start known payloads) ?t = 0"
      by (auto simp: eps_at_def exec_start_def split: option.splits dest: map_of_SomeD)
    ultimately show ?thesis by (simp add: exec_start_def)
  next
    case False
    then show ?thesis using route_end [OF wf _ target st(1)] route by blast
  qed
  then show ?thesis using tr v unfolding exec_true_def by metis
qed

end
