(* ===== verification/Plan_Solve.thy ===== *)
theory Plan_Solve
  imports Plan_Cache Execute_Sound
begin

text \<open>
  \<open>solve()\<close> (\<open>plan/solve.py\<close>): plan, consult the cache, execute, check the realised error
  against the budget, and reroute around a failing solver. The loop is a partial function
  because a planner search may not return; \<open>None\<close> is a call that does not return. What
  outlives a call, the two cache directories, is threaded through it.
\<close>

section \<open>The loop\<close>

record solve_request =
  sq_known :: "(string, interval) dict"
  sq_tags :: "string list"
  sq_target :: string
  sq_eps_budget :: fl
  sq_sense :: claim_senses
  sq_payloads :: "(string, payload_ref) dict"

text \<open>The hash, the dump order key, the bit pattern and the \<open>repr\<close> the code relies on.\<close>

record env =
  ev_hash :: "json \<Rightarrow> string"
  ev_dumps :: "json \<Rightarrow> string"
  ev_bits :: "fl \<Rightarrow> string"
  ev_repr :: "solve_error \<Rightarrow> string"

record loop_state =
  lp_excluded :: "string set"
  lp_attempts :: "attempt_record list"
  lp_step_cache :: "step_cache option"
  lp_files :: blob_dir

datatype solve_failure = PlanFailed plan_error | SolveFailed solve_error

type_synonym solve_result = "(solution, solve_failure) outcome \<times> step_cache option \<times> blob_dir"

definition sorted_set :: "string set \<Rightarrow> string list" where
  "sorted_set s = sorted_list_of_set s"

definition attempt_of ::
  "loop_state \<Rightarrow> string option \<Rightarrow> string option \<Rightarrow> string \<times> (string, prim) dict \<Rightarrow> attempt_record" where
  "attempt_of lp route_dig failed kd =
     \<lparr>ar_excluded = sorted_set (lp_excluded lp), ar_route_digest = route_dig,
      ar_failed_solver_id = failed, ar_error_kind = fst kd, ar_error_detail = snd kd\<rparr>"

definition finish :: "loop_state \<Rightarrow> (solution, solve_failure) outcome \<Rightarrow> solve_result" where
  "finish lp r = (r, lp_step_cache lp, lp_files lp)"

definition last_step_id :: "route \<Rightarrow> string option" where
  "last_step_id route = (if rt_steps route = [] then None else Some (rs_solver_id (last (rt_steps route))))"

text \<open>Python's \<open>or\<close>: an empty id counts as absent.\<close>

definition or_last :: "string option \<Rightarrow> route \<Rightarrow> string option" where
  "or_last failing route =
     (case failing of Some s \<Rightarrow> if s = [] then last_step_id route else Some s | None \<Rightarrow> last_step_id route)"

text \<open>The plan failed: the first error is returned as it is, a later one with the trail.\<close>

definition plan_failed :: "loop_state \<Rightarrow> plan_error \<Rightarrow> solve_result" where
  "plan_failed lp perr =
     (let attempts = lp_attempts lp @ [attempt_of lp None None (plan_error_record perr)] in
      if lp_excluded lp = {} then finish lp (Err (PlanFailed perr))
      else finish lp (Err (SolveFailed (NoRouteRemaining attempts))))"

text \<open>A step failed.\<close>

definition step_failed ::
  "env \<Rightarrow> route_policy \<Rightarrow> route \<Rightarrow> string option \<Rightarrow> solve_error \<Rightarrow> loop_state
   \<Rightarrow> loop_state + solve_result" where
  "step_failed ev policy route failing serr lp =
     (let attempts = lp_attempts lp @
            [attempt_of lp (Some (rt_digest route)) failing (error_to_record_fields (ev_repr ev) serr)] in
      if \<not> rp_fallback policy then Inr (finish lp (Err (SolveFailed serr)))
      else (case or_last failing route of
              None \<Rightarrow> Inr (finish lp (Err (SolveFailed (NoRouteRemaining attempts))))
            | Some sid \<Rightarrow>
                Inl (lp\<lparr>lp_excluded := insert sid (lp_excluded lp), lp_attempts := attempts\<rparr>)))"

text \<open>The realised error is over the budget; \<open>route.steps[-1]\<close> raises on an empty route.\<close>

definition budget_failed ::
  "env \<Rightarrow> route_policy \<Rightarrow> route \<Rightarrow> real \<Rightarrow> fl \<Rightarrow> loop_state \<Rightarrow> loop_state + solve_result" where
  "budget_failed ev policy route realized eps_budget lp =
     (let berr = BudgetExceeded realized eps_budget;
          attempts = lp_attempts lp @
            [attempt_of lp (Some (rt_digest route)) (last_step_id route)
               (error_to_record_fields (ev_repr ev) berr)] in
      if \<not> rp_fallback policy then Inr (finish lp (Err (SolveFailed berr)))
      else (case last_step_id route of
              None \<Rightarrow> Inr (finish lp (Raise IndexError))
            | Some sid \<Rightarrow>
                Inl (lp\<lparr>lp_excluded := insert sid (lp_excluded lp), lp_attempts := attempts\<rparr>)))"

definition succeed ::
  "solve_request \<Rightarrow> string option \<Rightarrow> solution \<Rightarrow> loop_state \<Rightarrow> solve_result" where
  "succeed rq key sol lp =
     (let sol' = sol\<lparr>sol_attempts := lp_attempts lp, sol_eps_budget := Some (sq_eps_budget rq)\<rparr> in
      (Ok sol', lp_step_cache lp,
       case key of None \<Rightarrow> lp_files lp | Some k \<Rightarrow> solve_cache_put k sol' (lp_files lp)))"

text \<open>What follows a planned route that the cache does not answer.\<close>

definition run_route ::
  "env \<Rightarrow> registry \<Rightarrow> solve_request \<Rightarrow> route_policy \<Rightarrow> route \<Rightarrow> string option \<Rightarrow> loop_state
   \<Rightarrow> loop_state + solve_result" where
  "run_route ev r rq policy route key lp =
     (case execute_impl (ev_hash ev) (ev_dumps ev) route r (sq_known rq) (sq_payloads rq)
             (lp_step_cache lp) (Some (sq_eps_budget rq)) of
        (res, cache) \<Rightarrow>
          (let lp' = lp\<lparr>lp_step_cache := cache\<rparr> in
           case res of
             Raise x \<Rightarrow> Inr (finish lp' (Raise x))
           | Err (failing, serr) \<Rightarrow> step_failed ev policy route failing serr lp'
           | Ok sol \<Rightarrow>
               (let realized = total_error (sol_value sol) (sol_eps sol) in
                if fl_lt (sq_eps_budget rq) (Fin realized)
                then budget_failed ev policy route realized (sq_eps_budget rq) lp'
                else Inr (succeed rq key sol lp'))))"

text \<open>The key is made only when the policy caches and every step is deterministic.\<close>

definition route_key ::
  "env \<Rightarrow> registry \<Rightarrow> solve_request \<Rightarrow> route_policy \<Rightarrow> route \<Rightarrow> (string option, solve_failure) outcome" where
  "route_key ev r rq policy route =
     (if \<not> rp_cache policy then Ok None
      else obind (is_route_cacheable route r) (\<lambda>cacheable.
        if \<not> cacheable then Ok None
        else obind (cache_key (ev_hash ev) (ev_dumps ev) r (sq_known rq) (sq_tags rq) (sq_target rq)
               (sq_eps_budget rq) (SenseObj (sq_sense rq)) route (sq_payloads rq))
               (\<lambda>k. Ok (Some k))))"

definition with_route ::
  "env \<Rightarrow> registry \<Rightarrow> solve_request \<Rightarrow> route_policy \<Rightarrow> route \<Rightarrow> loop_state
   \<Rightarrow> loop_state + solve_result" where
  "with_route ev r rq policy route lp =
     (case route_key ev r rq policy route of
        Raise x \<Rightarrow> Inr (finish lp (Raise x))
      | Err e \<Rightarrow> Inr (finish lp (Err e))
      | Ok None \<Rightarrow> run_route ev r rq policy route None lp
      | Ok (Some k) \<Rightarrow>
          (case solve_cache_get k route (registry_iter r) (lp_files lp) of
             Raise x \<Rightarrow> Inr (finish lp (Raise x))
           | Err e \<Rightarrow> Inr (finish lp (Err e))
           | Ok (Some sol) \<Rightarrow> Inr (finish lp (Ok sol))
           | Ok None \<Rightarrow> run_route ev r rq policy route (Some k) lp))"

definition replan ::
  "env \<Rightarrow> registry \<Rightarrow> solve_request \<Rightarrow> string set \<Rightarrow> (route, plan_error) outcome option" where
  "replan ev r rq excluded =
     plan (ev_hash ev) (ev_bits ev) (excluding_view (r, excluded)) (sq_known rq) (sq_tags rq)
       (sq_target rq) (sq_eps_budget rq) (SenseObj (sq_sense rq)) (sq_payloads rq)"

definition solve_iter ::
  "env \<Rightarrow> registry \<Rightarrow> solve_request \<Rightarrow> route_policy \<Rightarrow> loop_state \<Rightarrow> (loop_state + solve_result) option" where
  "solve_iter ev r rq policy lp =
     (case replan ev r rq (lp_excluded lp) of
        None \<Rightarrow> None
      | Some (Raise x) \<Rightarrow> Some (Inr (finish lp (Raise x)))
      | Some (Err perr) \<Rightarrow> Some (Inr (plan_failed lp perr))
      | Some (Ok route) \<Rightarrow> Some (with_route ev r rq policy route lp))"

partial_function (option) solve_loop ::
  "env \<Rightarrow> registry \<Rightarrow> solve_request \<Rightarrow> route_policy \<Rightarrow> loop_state \<Rightarrow> solve_result option" where
  "solve_loop ev r rq policy lp =
     (case solve_iter ev r rq policy lp of
        None \<Rightarrow> None
      | Some (Inr res) \<Rightarrow> Some res
      | Some (Inl lp') \<Rightarrow> solve_loop ev r rq policy lp')"

text \<open>
  The facade: the sense is coerced, the step cache defaults to one over the default
  directory when the policy caches.
\<close>

definition solve_start ::
  "route_policy \<Rightarrow> step_cache option \<Rightarrow> blob_dir \<Rightarrow> blob_dir \<Rightarrow> loop_state" where
  "solve_start policy step_cache step_files files =
     \<lparr>lp_excluded = {}, lp_attempts = [],
      lp_step_cache =
        (case step_cache of
           Some c \<Rightarrow> Some c
         | None \<Rightarrow> if rp_cache policy
                   then Some \<lparr>sc_files = step_files, sc_hits = 0, sc_misses = 0\<rparr> else None),
      lp_files = files\<rparr>"

definition solve ::
  "env \<Rightarrow> registry \<Rightarrow> (string, interval) dict \<Rightarrow> string list \<Rightarrow> string \<Rightarrow> fl \<Rightarrow> senses_arg
   \<Rightarrow> route_policy \<Rightarrow> (string, payload_ref) dict \<Rightarrow> step_cache option \<Rightarrow> blob_dir \<Rightarrow> blob_dir
   \<Rightarrow> solve_result option" where
  "solve ev r known tags target eps_budget sense policy payloads step_cache step_files files =
     (case claim_senses_coerce sense :: (claim_senses, solve_failure) outcome of
        Ok resolved_sense \<Rightarrow>
          solve_loop ev r
            \<lparr>sq_known = known, sq_tags = tags, sq_target = target, sq_eps_budget = eps_budget,
             sq_sense = resolved_sense, sq_payloads = payloads\<rparr>
            policy (solve_start policy step_cache step_files files)
      | Err e \<Rightarrow> Some (Err e, step_cache, files)
      | Raise x \<Rightarrow> Some (Raise x, step_cache, files))"

end
