(* ===== verification/Solve_Facts.thy ===== *)
theory Solve_Facts
  imports Plan_Solve
begin

text \<open>
  What \<open>solve()\<close> guarantees: a planned route uses solvers of the view only, so each reroute
  excludes one more registered solver and the loop ends; the attempts are the trail of the
  exclusions; and a solution that was computed is within the requested error.
\<close>

section \<open>Whom a failure is attributed to\<close>

definition route_ids :: "route \<Rightarrow> string list" where
  "route_ids route = map rs_solver_id (rt_steps route)"

lemma lookup_solver_not_Err [simp]: "lookup_solver ps sid \<noteq> Err e"
  by (simp add: lookup_solver_def split: option.splits)

lemma omap_not_Err: "(\<And>x. \<nexists>e. f x = Err e) \<Longrightarrow> omap f xs \<noteq> Err e"
  by (induction xs) (auto simp: outcome_simps)

lemma step_box_not_Err [simp]: "step_box st s \<noteq> Err e"
proof -
  have "omap (\<lambda>p. (case dget (ex_values st) p of None \<Rightarrow> Raise (KeyError p)
      | Some iv \<Rightarrow> Ok (p, inflate iv (eps_at st p)))) s \<noteq> (Err e :: (box, 'a) outcome)"
    by (rule omap_not_Err) (auto split: option.splits)
  then show ?thesis by (auto simp: step_box_def outcome_simps)
qed

lemma attribute_err_Err: "attribute_err sid r = Err (f, e) \<Longrightarrow> f = Some sid"
  by (cases r) (auto simp: attribute_err_def)

lemma exec_step_Err:
  "exec_step H dumps ps ports eps_budget step st c = (Err (f, e), c') \<Longrightarrow> f = Some (rs_solver_id step)"
  by (auto simp: exec_step_def Let_def outcome_simps dest!: attribute_err_Err
      split: outcome.splits prod.splits)

lemma exec_steps_Err:
  "exec_steps H dumps ps ports eps_budget steps st c = (Err (f, e), c') \<Longrightarrow>
   \<exists>step \<in> set steps. f = Some (rs_solver_id step)"
proof (induction steps arbitrary: st c)
  case (Cons step steps)
  then show ?case
    by (cases "exec_step H dumps ps ports eps_budget step st c")
      (auto split: outcome.splits dest: exec_step_Err)
qed simp

lemma solution_of_not_Err [simp]: "solution_of H dumps ps route st \<noteq> Err e"
proof -
  have "omap (\<lambda>step. obind (lookup_solver ps (rs_solver_id step)) (\<lambda>p. Ok (si_settings_digest (fst p))))
      (rt_steps route) \<noteq> (Err e :: (string list, 'a) outcome)"
    by (rule omap_not_Err) (auto simp: outcome_simps)
  then show ?thesis
    by (auto simp: solution_of_def route_settings_digest_def outcome_simps split: option.splits)
qed

lemma execute_impl_Err:
  assumes "execute_impl H dumps route r known payloads c b = (Err (f, e), c')"
  obtains sid where "f = Some sid" "sid \<in> set (route_ids route)"
  using assms that
  by (auto simp: execute_impl_def Let_def route_ids_def split: prod.splits outcome.splits
      dest!: exec_steps_Err)

section \<open>Routes of a view\<close>

lemma steps_ok_ids:
  "steps_ok ss rq a steps \<Longrightarrow> rs_solver_id ` set steps \<subseteq> ss_solver_id ` set ss"
proof (induction steps arbitrary: a)
  case (Cons step steps)
  then have "step_ok ss rq a step" by simp
  then obtain s where "s \<in> set ss" "ss_solver_id s = rs_solver_id step" by (auto simp: step_ok_def)
  then have "rs_solver_id step \<in> ss_solver_id ` set ss" by (metis imageI)
  then show ?case using Cons by auto
qed simp

definition registry_ids :: "registry \<Rightarrow> string set" where
  "registry_ids r = pair_id ` set (registry_iter r)"

lemma finite_registry_ids [simp]: "finite (registry_ids r)"
  by (simp add: registry_ids_def)

lemma view_ids: "pair_id ` set (excluding_view (r, ex)) = registry_ids r - ex"
  by (auto simp: excluding_view_def registry_ids_def)

lemma view_subset: "set (excluding_view (r, ex)) \<subseteq> set (registry_iter r)"
  by (auto simp: excluding_view_def)

definition route_from_view :: "registry \<Rightarrow> solve_request \<Rightarrow> string set \<Rightarrow> route \<Rightarrow> bool" where
  "route_from_view r rq ex route \<longleftrightarrow>
     rt_target route = sq_target rq \<and> (\<exists>b. sq_eps_budget rq = Fin b \<and> 0 < b) \<and>
     (if dhas (merge_payloads (sq_known rq) (sq_payloads rq)) (sq_target rq) then rt_steps route = []
      else \<exists>q. rq_target q = sq_target rq \<and> rq_eps_budget q = sq_eps_budget rq \<and>
             rq_tags q = bset_of (sq_tags rq) \<and>
             route_ok (summaries (excluding_view (r, ex)))
               (btree_of (merge_payloads (sq_known rq) (sq_payloads rq))) q route)"

lemma dhas_btree_of [simp]: "dhas (btree_of d) k = dhas d k"
  by (simp add: dict_simps)

lemma replan_Ok:
  assumes "replan ev r rq ex = Some (Ok route)"
  shows "route_from_view r rq ex route"
proof -
  let ?q = "\<lparr>rq_tags = bset_of (sq_tags rq), rq_target = sq_target rq,
      rq_eps_budget = sq_eps_budget rq, rq_sense = sq_sense rq\<rparr>"
  let ?known = "btree_of (merge_payloads (sq_known rq) (sq_payloads rq))"
  have p: "rust_plan (ev_hash ev) (ev_bits ev) (summaries (excluding_view (r, ex))) ?known ?q = Some (Ok route)"
    using assms by (simp add: replan_def plan_def claim_senses_coerce_def)
  note ok = rust_plan_Ok [OF p]
  have fin: "fl_finite (sq_eps_budget rq) \<and> \<not> fl_le (sq_eps_budget rq) (Fin 0)"
    using p by (auto simp: rust_plan_def split: if_splits)
  then obtain b where "sq_eps_budget rq = Fin b" "0 < b" by (auto simp: fl_finite_iff)
  then show ?thesis using ok by (auto simp: route_from_view_def route_ok_def split: if_splits intro!: exI [of _ ?q])
qed

lemma route_from_view_ids:
  assumes "route_from_view r rq ex route"
  shows "set (route_ids route) \<subseteq> registry_ids r - ex"
proof (cases "rt_steps route = []")
  case False
  then obtain q where "route_ok (summaries (excluding_view (r, ex)))
      (btree_of (merge_payloads (sq_known rq) (sq_payloads rq))) q route"
    using assms by (auto simp: route_from_view_def split: if_splits)
  then have "rs_solver_id ` set (rt_steps route) \<subseteq> ss_solver_id ` set (summaries (excluding_view (r, ex)))"
    by (auto simp: route_ok_def dest: steps_ok_ids)
  also have "ss_solver_id ` set (summaries (excluding_view (r, ex))) = pair_id ` set (excluding_view (r, ex))"
    by (metis list.set_map summaries_ids)
  finally show ?thesis by (simp add: route_ids_def view_ids)
qed (simp add: route_ids_def)

lemma last_step_id_in: "last_step_id route = Some sid \<Longrightarrow> sid \<in> set (route_ids route)"
  by (auto simp: last_step_id_def route_ids_def split: if_splits)

section \<open>One round\<close>

text \<open>A round that goes on excludes one more solver, a solver of the route.\<close>

lemma step_failed_Inl:
  assumes "step_failed ev policy route failing serr lp = Inl lp'" "failing = Some s"
    "s \<in> set (route_ids route)"
  obtains sid where "sid \<in> set (route_ids route)" "s \<noteq> [] \<longrightarrow> sid = s"
    "lp_excluded lp' = insert sid (lp_excluded lp)"
    "\<exists>a. lp_attempts lp' = lp_attempts lp @ [a] \<and> ar_excluded a = sorted_set (lp_excluded lp) \<and>
       ar_failed_solver_id a = failing"
  using assms that
  by (auto simp: step_failed_def Let_def or_last_def attempt_of_def split: if_splits option.splits
      dest: last_step_id_in)

lemma budget_failed_Inl:
  assumes "budget_failed ev policy route realized b lp = Inl lp'"
  obtains sid where "sid \<in> set (route_ids route)" "last_step_id route = Some sid"
    "lp_excluded lp' = insert sid (lp_excluded lp)"
    "\<exists>a. lp_attempts lp' = lp_attempts lp @ [a] \<and> ar_excluded a = sorted_set (lp_excluded lp) \<and>
       ar_failed_solver_id a = Some sid"
  using assms that
  by (auto simp: budget_failed_def Let_def attempt_of_def split: if_splits option.splits
      dest: last_step_id_in)

definition extends_by :: "string set \<Rightarrow> loop_state \<Rightarrow> loop_state \<Rightarrow> string \<Rightarrow> bool" where
  "extends_by ids lp lp' sid \<longleftrightarrow>
     lp_excluded lp' = insert sid (lp_excluded lp) \<and>
     (\<exists>a failed. lp_attempts lp' = lp_attempts lp @ [a] \<and>
        ar_excluded a = sorted_set (lp_excluded lp) \<and> ar_failed_solver_id a = Some failed \<and>
        failed \<in> ids \<and> (failed \<noteq> [] \<longrightarrow> failed = sid))"

lemma run_route_Inl:
  assumes "run_route ev r rq policy route key lp = Inl lp'"
  obtains sid where "sid \<in> set (route_ids route)" "extends_by (set (route_ids route)) lp lp' sid"
proof -
  obtain res cache where x: "execute_impl (ev_hash ev) (ev_dumps ev) route r (sq_known rq) (sq_payloads rq)
      (lp_step_cache lp) (Some (sq_eps_budget rq)) = (res, cache)" by fastforce
  show ?thesis
  proof (cases res)
    case (Ok sol)
    then have b: "budget_failed ev policy route (total_error (sol_value sol) (sol_eps sol))
        (sq_eps_budget rq) (lp\<lparr>lp_step_cache := cache\<rparr>) = Inl lp'"
      using assms x by (auto simp: run_route_def Let_def split: if_splits)
    show ?thesis
      by (rule budget_failed_Inl [OF b]) (rule that, auto simp: extends_by_def)
  next
    case (Err fe)
    obtain f e where fe: "fe = (f, e)" by (cases fe)
    obtain s where s: "f = Some s" "s \<in> set (route_ids route)"
      using execute_impl_Err [OF x [unfolded Err fe]] .
    have b: "step_failed ev policy route f e (lp\<lparr>lp_step_cache := cache\<rparr>) = Inl lp'"
      using assms x Err fe by (simp add: run_route_def Let_def)
    show ?thesis
      by (rule step_failed_Inl [OF b s]) (rule that, use s in \<open>auto simp: extends_by_def\<close>)
  next
    case (Raise y)
    then show ?thesis using assms x by (simp add: run_route_def Let_def)
  qed
qed

lemma with_route_Inl:
  "with_route ev r rq policy route lp = Inl lp' \<Longrightarrow> \<exists>key. run_route ev r rq policy route key lp = Inl lp'"
  by (auto simp: with_route_def split: outcome.splits option.splits)

lemma solve_iter_Inl:
  assumes "solve_iter ev r rq policy lp = Some (Inl lp')"
  obtains sid where "sid \<in> registry_ids r - lp_excluded lp" "extends_by (registry_ids r) lp lp' sid"
proof -
  obtain route where route: "replan ev r rq (lp_excluded lp) = Some (Ok route)"
    "with_route ev r rq policy route lp = Inl lp'"
    using assms by (auto simp: solve_iter_def split: option.splits outcome.splits)
  obtain key where "run_route ev r rq policy route key lp = Inl lp'"
    using with_route_Inl [OF route(2)] by blast
  then show ?thesis
    by (rule run_route_Inl)
      (rule that, use route_from_view_ids [OF replan_Ok [OF route(1)]] in \<open>auto simp: extends_by_def\<close>)
qed

section \<open>The loop ends\<close>

lemma solve_loop_returns:
  assumes "\<And>ex. replan ev r rq ex \<noteq> None"
  shows "\<exists>res. solve_loop ev r rq policy lp = Some res"
proof (induction "card (registry_ids r - lp_excluded lp)" arbitrary: lp rule: less_induct)
  case less
  have "solve_iter ev r rq policy lp \<noteq> None"
    using assms by (auto simp: solve_iter_def split: option.splits outcome.splits)
  then obtain it where it: "solve_iter ev r rq policy lp = Some it" by blast
  show ?case
  proof (cases it)
    case (Inl lp')
    obtain sid where sid: "sid \<in> registry_ids r - lp_excluded lp" "extends_by (registry_ids r) lp lp' sid"
      using solve_iter_Inl [OF it [unfolded Inl]] .
    have "registry_ids r - lp_excluded lp' \<subset> registry_ids r - lp_excluded lp"
      using sid by (auto simp: extends_by_def)
    then have "card (registry_ids r - lp_excluded lp') < card (registry_ids r - lp_excluded lp)"
      by (intro psubset_card_mono) simp_all
    from less [OF this] show ?thesis using it Inl by (subst solve_loop.simps) simp
  next
    case (Inr res)
    have "solve_loop ev r rq policy lp = Some res"
      using it Inr by (subst solve_loop.simps) simp
    then show ?thesis by blast
  qed
qed

section \<open>The trail\<close>

definition failed_ids :: "attempt_record list \<Rightarrow> string set" where
  "failed_ids ats = {s. \<exists>a \<in> set ats. ar_failed_solver_id a = Some s}"

text \<open>Each attempt names one new failing solver and the solvers excluded before it.\<close>

definition trail_ok :: "string set \<Rightarrow> attempt_record list \<Rightarrow> bool" where
  "trail_ok ids ats \<longleftrightarrow>
     (\<forall>i < length ats. \<exists>s. ar_failed_solver_id (ats ! i) = Some s \<and>
        s \<in> ids - failed_ids (take i ats) \<and>
        ar_excluded (ats ! i) = sorted_list_of_set (failed_ids (take i ats)))"

lemma failed_ids_snoc:
  "ar_failed_solver_id a = Some s \<Longrightarrow> failed_ids (ats @ [a]) = insert s (failed_ids ats)"
  by (auto simp: failed_ids_def)

lemma trail_ok_snoc:
  assumes "trail_ok ids ats" "ar_failed_solver_id a = Some s" "s \<in> ids - failed_ids ats"
    "ar_excluded a = sorted_list_of_set (failed_ids ats)"
  shows "trail_ok ids (ats @ [a])"
  unfolding trail_ok_def
proof (intro allI impI)
  fix i assume "i < length (ats @ [a])"
  then consider "i < length ats" | "i = length ats" by fastforce
  then show "\<exists>s. ar_failed_solver_id ((ats @ [a]) ! i) = Some s \<and>
      s \<in> ids - failed_ids (take i (ats @ [a])) \<and>
      ar_excluded ((ats @ [a]) ! i) = sorted_list_of_set (failed_ids (take i (ats @ [a])))"
    using assms by cases (auto simp: trail_ok_def nth_append)
qed

lemma trail_length:
  assumes "trail_ok ids ats" "finite ids"
  shows "length ats = card (failed_ids ats)" "failed_ids ats \<subseteq> ids"
  using assms(1)
proof (induction ats rule: rev_induct)
  case Nil
  {
    case 1
    then show ?case by (simp add: failed_ids_def)
  next
    case 2
    then show ?case by (simp add: failed_ids_def)
  }
next
  case (snoc a ats)
  have pre: "trail_ok ids ats" if "trail_ok ids (ats @ [a])"
    unfolding trail_ok_def
  proof (intro allI impI)
    fix i assume i: "i < length ats"
    then have "i < length (ats @ [a])" by simp
    with that have "\<exists>s. ar_failed_solver_id ((ats @ [a]) ! i) = Some s \<and>
        s \<in> ids - failed_ids (take i (ats @ [a])) \<and>
        ar_excluded ((ats @ [a]) ! i) = sorted_list_of_set (failed_ids (take i (ats @ [a])))"
      unfolding trail_ok_def by blast
    then show "\<exists>s. ar_failed_solver_id (ats ! i) = Some s \<and> s \<in> ids - failed_ids (take i ats) \<and>
        ar_excluded (ats ! i) = sorted_list_of_set (failed_ids (take i ats))"
      using i by (simp add: nth_append)
  qed
  have last: "\<exists>s. ar_failed_solver_id a = Some s \<and> s \<in> ids - failed_ids ats"
    if t: "trail_ok ids (ats @ [a])"
    using t [unfolded trail_ok_def, rule_format, of "length ats"] by auto
  {
    case 1
    obtain s where s: "ar_failed_solver_id a = Some s" "s \<in> ids - failed_ids ats"
      using last [OF 1] by blast
    have "finite (failed_ids ats)" using snoc.IH(2) [OF pre [OF 1]] assms(2) finite_subset by blast
    then show ?case
      using snoc.IH(1) [OF pre [OF 1]] s by (simp add: failed_ids_snoc)
  next
    case 2
    obtain s where s: "ar_failed_solver_id a = Some s" "s \<in> ids - failed_ids ats"
      using last [OF 2] by blast
    then show ?case using snoc.IH(2) [OF pre [OF 2]] by (simp add: failed_ids_snoc)
  }
qed

definition loop_ok :: "registry \<Rightarrow> loop_state \<Rightarrow> bool" where
  "loop_ok r lp \<longleftrightarrow>
     trail_ok (registry_ids r) (lp_attempts lp) \<and> lp_excluded lp = failed_ids (lp_attempts lp)"

lemma loop_ok_start: "loop_ok r (solve_start policy c sf files)"
  by (simp add: loop_ok_def trail_ok_def failed_ids_def solve_start_def)

section \<open>What comes back\<close>

definition computed :: "env \<Rightarrow> registry \<Rightarrow> solve_request \<Rightarrow> bool \<Rightarrow> solution \<Rightarrow> bool" where
  "computed ev r rq cached sol \<longleftrightarrow>
     trail_ok (registry_ids r) (sol_attempts sol) \<and>
     route_from_view r rq (failed_ids (sol_attempts sol)) (sol_route sol) \<and>
     sol_eps_budget sol = Some (sq_eps_budget rq) \<and>
     \<not> fl_lt (sq_eps_budget rq) (Fin (total_error (sol_value sol) (sol_eps sol))) \<and>
     (\<exists>c c' sol0. (\<not> cached \<longrightarrow> c = None) \<and>
        execute_impl (ev_hash ev) (ev_dumps ev) (sol_route sol) r (sq_known rq) (sq_payloads rq)
          c (Some (sq_eps_budget rq)) = (Ok sol0, c') \<and>
        sol_value sol = sol_value sol0 \<and> sol_eps sol = sol_eps sol0 \<and> sol_target sol = sol_target sol0)"

definition exhausted :: "registry \<Rightarrow> attempt_record list \<Rightarrow> bool" where
  "exhausted r ats \<longleftrightarrow>
     (\<exists>ats' a. ats = ats' @ [a] \<and> ats' \<noteq> [] \<and> trail_ok (registry_ids r) ats' \<and>
        ar_excluded a = sorted_list_of_set (failed_ids ats') \<and> ar_failed_solver_id a = None)"

definition result_ok :: "env \<Rightarrow> registry \<Rightarrow> solve_request \<Rightarrow> bool \<Rightarrow> solve_result \<Rightarrow> bool" where
  "result_ok ev r rq cached res \<longleftrightarrow>
     (\<forall>sol. fst res = Ok sol \<longrightarrow> \<not> sol_cache_hit sol \<longrightarrow> computed ev r rq cached sol)"

lemma execute_impl_Ok:
  assumes "execute_impl H dumps route r known payloads c b = (Ok sol, c')"
  shows "sol_route sol = route \<and> \<not> sol_cache_hit sol \<and> (c = None \<longrightarrow> c' = None)"
  using assms
  by (auto simp: execute_impl_def Let_def solution_of_def outcome_simps
      dest!: exec_steps_cache_None split: prod.splits outcome.splits option.splits)

lemma execute_impl_cache_None:
  "execute_impl H dumps route r known payloads None b = (res, c') \<Longrightarrow> c' = None"
  by (auto simp: execute_impl_def Let_def dest!: exec_steps_cache_None split: prod.splits outcome.splits)

lemma finish_ok: "(\<forall>sol. x = Ok sol \<longrightarrow> sol_cache_hit sol) \<Longrightarrow> result_ok ev r rq cached (finish lp x)"
  by (auto simp: result_ok_def finish_def)

definition round_inv :: "registry \<Rightarrow> bool \<Rightarrow> loop_state \<Rightarrow> bool" where
  "round_inv r cached lp \<longleftrightarrow> loop_ok r lp \<and> (\<not> cached \<longrightarrow> lp_step_cache lp = None)"

lemma run_route_Inr:
  assumes "run_route ev r rq policy route key lp = Inr res" "round_inv r cached lp"
    "route_from_view r rq (lp_excluded lp) route"
  shows "result_ok ev r rq cached res"
proof -
  obtain x cache where x: "execute_impl (ev_hash ev) (ev_dumps ev) route r (sq_known rq) (sq_payloads rq)
      (lp_step_cache lp) (Some (sq_eps_budget rq)) = (x, cache)" by fastforce
  show ?thesis
  proof (cases x)
    case (Ok sol)
    note e = execute_impl_Ok [OF x [unfolded Ok]]
    let ?err = "total_error (sol_value sol) (sol_eps sol)"
    show ?thesis
    proof (cases "fl_lt (sq_eps_budget rq) (Fin ?err)")
      case True
      then have "budget_failed ev policy route ?err (sq_eps_budget rq) (lp\<lparr>lp_step_cache := cache\<rparr>) = Inr res"
        using assms(1) x Ok by (simp add: run_route_def Let_def)
      then show ?thesis
        by (auto simp: budget_failed_def Let_def split: if_splits option.splits intro!: finish_ok)
    next
      case False
      then have "res = succeed rq key sol (lp\<lparr>lp_step_cache := cache\<rparr>)"
        using assms(1) x Ok by (simp add: run_route_def Let_def)
      then have "fst res = Ok (sol\<lparr>sol_attempts := lp_attempts lp, sol_eps_budget := Some (sq_eps_budget rq)\<rparr>)"
        by (simp add: succeed_def Let_def)
      moreover have "computed ev r rq cached
          (sol\<lparr>sol_attempts := lp_attempts lp, sol_eps_budget := Some (sq_eps_budget rq)\<rparr>)"
        using assms(2,3) False e x Ok unfolding computed_def round_inv_def loop_ok_def by auto
      ultimately show ?thesis by (simp add: result_ok_def)
    qed
  next
    case (Err fe)
    then obtain f e where "step_failed ev policy route f e (lp\<lparr>lp_step_cache := cache\<rparr>) = Inr res"
      using assms(1) x by (cases fe) (auto simp: run_route_def Let_def)
    then show ?thesis
      by (auto simp: step_failed_def Let_def split: if_splits option.splits intro!: finish_ok)
  next
    case (Raise y)
    then have "res = finish (lp\<lparr>lp_step_cache := cache\<rparr>) (Raise y)"
      using assms(1) x by (simp add: run_route_def Let_def)
    then show ?thesis by (simp add: finish_ok)
  qed
qed

lemma solve_cache_get_hit:
  "solve_cache_get k route ps files = Ok (Some sol) \<Longrightarrow> sol_cache_hit sol"
  by (auto simp: solve_cache_get_def outcome_simps split: option.splits if_splits)

lemma with_route_Inr:
  assumes "with_route ev r rq policy route lp = Inr res" "round_inv r cached lp"
    "route_from_view r rq (lp_excluded lp) route"
  shows "result_ok ev r rq cached res"
proof (cases "\<exists>key. run_route ev r rq policy route key lp = Inr res")
  case True
  then show ?thesis using run_route_Inr assms(2,3) by blast
next
  case False
  then show ?thesis
    using assms(1)
    by (auto simp: with_route_def split: outcome.splits option.splits
        intro!: finish_ok dest: solve_cache_get_hit)
qed

lemma solve_iter_Inr:
  assumes "solve_iter ev r rq policy lp = Some (Inr res)" "round_inv r cached lp"
  shows "result_ok ev r rq cached res"
proof (cases "\<exists>route. replan ev r rq (lp_excluded lp) = Some (Ok route) \<and>
    with_route ev r rq policy route lp = Inr res")
  case True
  then show ?thesis using with_route_Inr [OF _ assms(2)] replan_Ok by blast
next
  case False
  then show ?thesis
    using assms(1)
    by (auto simp: solve_iter_def plan_failed_def Let_def split: outcome.splits option.splits if_splits
        intro!: finish_ok)
qed

lemma run_route_cache_None:
  "run_route ev r rq policy route key lp = Inl lp' \<Longrightarrow> lp_step_cache lp = None \<Longrightarrow> lp_step_cache lp' = None"
  by (auto simp: run_route_def Let_def step_failed_def budget_failed_def
      dest!: execute_impl_cache_None split: prod.splits outcome.splits if_splits option.splits)

lemma solve_iter_inv:
  assumes "solve_iter ev r rq policy lp = Some (Inl lp')" "round_inv r cached lp" "[] \<notin> registry_ids r"
  shows "round_inv r cached lp'"
proof -
  obtain route where route: "replan ev r rq (lp_excluded lp) = Some (Ok route)"
    "with_route ev r rq policy route lp = Inl lp'"
    using assms(1) by (auto simp: solve_iter_def split: option.splits outcome.splits)
  obtain key where key: "run_route ev r rq policy route key lp = Inl lp'"
    using with_route_Inl [OF route(2)] by blast
  have cache: "\<not> cached \<longrightarrow> lp_step_cache lp' = None"
    using run_route_cache_None [OF key] assms(2) by (simp add: round_inv_def)
  obtain sid where sid: "sid \<in> registry_ids r - lp_excluded lp" "extends_by (registry_ids r) lp lp' sid"
    using solve_iter_Inl [OF assms(1)] .
  then obtain a failed where a: "lp_attempts lp' = lp_attempts lp @ [a]"
    "ar_excluded a = sorted_set (lp_excluded lp)" "ar_failed_solver_id a = Some failed"
    "failed \<in> registry_ids r" "failed \<noteq> [] \<longrightarrow> failed = sid" "lp_excluded lp' = insert sid (lp_excluded lp)"
    by (auto simp: extends_by_def)
  have f: "ar_failed_solver_id a = Some sid" using a assms(3) by metis
  have lp: "trail_ok (registry_ids r) (lp_attempts lp)" "lp_excluded lp = failed_ids (lp_attempts lp)"
    using assms(2) by (simp_all add: round_inv_def loop_ok_def)
  have "trail_ok (registry_ids r) (lp_attempts lp @ [a])"
    using lp f sid(1) a(2) by (intro trail_ok_snoc) (simp_all add: sorted_set_def)
  then have "loop_ok r lp'" using a lp(2) f by (simp add: loop_ok_def failed_ids_snoc)
  then show ?thesis using cache by (simp add: round_inv_def)
qed

lemma solve_loop_result:
  assumes "solve_loop ev r rq policy lp = Some res" "round_inv r cached lp" "[] \<notin> registry_ids r"
  shows "result_ok ev r rq cached res"
proof -
  let ?P = "\<lambda>ev r rq policy lp res. round_inv r cached lp \<longrightarrow> [] \<notin> registry_ids r \<longrightarrow>
    result_ok ev r rq cached res"
  have "?P ev r rq policy lp res"
  proof (rule solve_loop.raw_induct [where P = ?P, OF _ assms(1)], intro impI)
    fix f ev r rq policy lp res
    assume IH: "\<And>ev r rq policy lp res. f ev r rq policy lp = Some res \<Longrightarrow> ?P ev r rq policy lp res"
      and body: "(case solve_iter ev r rq policy lp of None \<Rightarrow> None | Some (Inr res) \<Rightarrow> Some res
        | Some (Inl lp') \<Rightarrow> f ev r rq policy lp') = Some res"
      and inv: "round_inv r cached lp" "[] \<notin> registry_ids r"
    show "result_ok ev r rq cached res"
    proof (cases "solve_iter ev r rq policy lp")
      case (Some it)
      show ?thesis
      proof (cases it)
        case (Inl lp')
        then show ?thesis
          using IH [of ev r rq policy lp' res] body Some solve_iter_inv [OF _ inv] inv(2) by simp
      next
        case (Inr res')
        then show ?thesis using body Some solve_iter_Inr [OF _ inv(1)] by simp
      qed
    qed (use body in simp)
  qed
  then show ?thesis using assms(2,3) by simp
qed

lemma round_inv_start:
  "\<not> cached \<longrightarrow> c = None \<and> \<not> rp_cache policy \<Longrightarrow> round_inv r cached (solve_start policy c sf files)"
  using loop_ok_start [of r policy c sf files] by (simp add: round_inv_def solve_start_def)

text \<open>A route of a request was searched with the tags of the request.\<close>

lemma route_from_view_request:
  assumes "route_from_view r rq ex route"
  obtains ex' q where "rq_tags q = bset_of (sq_tags rq)"
    "rt_steps route = [] \<or> route_ok (summaries (excluding_view (r, ex')))
      (btree_of (merge_payloads (sq_known rq) (sq_payloads rq))) q route"
proof (cases "rt_steps route = []")
  case True
  then show ?thesis
    by (intro that [of "\<lparr>rq_tags = bset_of (sq_tags rq), rq_target = [], rq_eps_budget = NaN, rq_sense = BOTH\<rparr>"])
      simp_all
next
  case False
  then show ?thesis using assms that by (auto simp: route_from_view_def split: if_splits)
qed

lemma offered_bset [simp]: "offered (bset_of tags) info = offered tags info"
  by (simp add: offered_def)

text \<open>The answer of a call that computed it: with the target's true value, no farther away than asked.\<close>

lemma computed_sound:
  assumes wf: "registry_ok r" and c: "computed ev r rq False sol"
    and laws: "\<forall>p \<in> set (registry_iter r). offered (sq_tags rq) (fst p) \<longrightarrow>
      pair_id p \<in> rs_solver_id ` set (rt_steps (sol_route sol)) \<longrightarrow> law_holds x (port_table r) (fst p) (snd p)"
    and truth: "\<forall>p iv. dget (sq_known rq) p = Some iv \<longrightarrow> iv_contains iv (x p)"
    and target: "\<not> is_payload_port (port_table r) (sq_target rq)"
    and boxes: "boxes_admitted (ev_hash ev) (ev_dumps ev) (registry_iter r) (port_table r)
      (Some (sq_eps_budget rq)) (rt_steps (sol_route sol)) (exec_start (sq_known rq) (sq_payloads rq))"
  shows "\<exists>b. sq_eps_budget rq = Fin b \<and> \<bar>x (sq_target rq) - midpoint (sol_value sol)\<bar> \<le> b"
proof -
  let ?route = "sol_route sol"
  obtain c' sol0 where run: "execute_impl (ev_hash ev) (ev_dumps ev) ?route r (sq_known rq)
      (sq_payloads rq) None (Some (sq_eps_budget rq)) = (Ok sol0, c')"
    "sol_value sol = sol_value sol0" "sol_eps sol = sol_eps sol0"
    using c unfolding computed_def by metis
  have v: "route_from_view r rq (failed_ids (sol_attempts sol)) ?route" using c by (simp add: computed_def)
  then have t: "rt_target ?route = sq_target rq" by (simp add: route_from_view_def)
  obtain b where b: "sq_eps_budget rq = Fin b" using v by (auto simp: route_from_view_def)
  have le: "total_error (sol_value sol) (sol_eps sol) \<le> b" using c b by (simp add: computed_def)
  obtain ex q where q: "rq_tags q = bset_of (sq_tags rq)"
    and route: "rt_steps ?route = [] \<or> route_ok (summaries (excluding_view (r, ex)))
      (btree_of (merge_payloads (sq_known rq) (sq_payloads rq))) q ?route"
    using v by (rule route_from_view_request)
  have laws': "\<forall>p \<in> set (registry_iter r). offered (rq_tags q) (fst p) \<longrightarrow>
      pair_id p \<in> rs_solver_id ` set (rt_steps ?route) \<longrightarrow> law_holds x (port_table r) (fst p) (snd p)"
    using laws q by simp
  have "iv_contains (inflate (sol_value sol) (sol_eps sol)) (x (sq_target rq))"
    using execute_enclosed [OF wf view_subset laws' truth route _ boxes run(1)] target run(2,3) t by simp
  then have "\<bar>x (sq_target rq) - midpoint (sol_value sol)\<bar> \<le> total_error (sol_value sol) (sol_eps sol)"
    by (rule midpoint_error)
  then show ?thesis using b le by force
qed

end
