(* ===== verification/Sample_Runs.thy ===== *)
theory Sample_Runs
  imports Solve_Facts Samples
begin

text \<open>
  One request planned and run in full on the one-solver registry of \<open>Samples\<close>: port \<open>y\<close>
  from \<open>x = [1, 2]\<close>. The witnesses of the planning and solving properties use it.
\<close>

definition gain_known :: "(string, interval) dict" where
  "gain_known = [(''x'', \<lparr>iv_lo = 1, iv_hi = 2\<rparr>)]"

definition gain_request :: request where
  "gain_request =
     \<lparr>rq_tags = [], rq_target = ''y'', rq_eps_budget = Fin 10, rq_sense = BOTH\<rparr>"

definition gain_node :: step_node where
  "gain_node =
     StepNode 0 ''demo.gain'' (Fin 1) [] [(''x'', known_label \<lparr>iv_lo = 1, iv_hi = 2\<rparr>)]
       [(''y'', \<lparr>iv_lo = 1, iv_hi = 2\<rparr>, 0)]"

definition gain_route :: "(json \<Rightarrow> string) \<Rightarrow> route" where
  "gain_route H = build_route H ''y'' (Label \<lparr>iv_lo = 1, iv_hi = 2\<rparr> 0 (Fin 1) (Some gain_node))"

lemma gain_summary:
  "summaries [gain_pair i p q k] =
     [\<lparr>ss_solver_id = i, ss_inputs = [p], ss_outputs = [q],
       ss_domain = \<lparr>d_box = [(p, \<lparr>iv_lo = 0, iv_hi = 10\<rparr>)], d_tags = []\<rparr>, ss_cost = Fin 1,
       ss_accuracy = [(q, EXACT)], ss_conservative_for = BOTH\<rparr>]"
  by (simp add: summaries_def gain_pair_def summary_of_def gain_info_def btree_of_def)

lemma gain_corners:
  "rust_enumerate_corners [(p, \<lparr>iv_lo = 1, iv_hi = 2\<rparr>)] = [[(p, 1)], [(p, 2)]]"
  by (simp add: rust_enumerate_corners_def corner_candidates_def)

lemma gain_estimate:
  "estimate (hd (summaries [gain_pair ''demo.gain'' ''x'' ''y'' k]))
     [(''x'', known_label \<lparr>iv_lo = 1, iv_hi = 2\<rparr>)] = Ok [(''y'', \<lparr>iv_lo = 1, iv_hi = 2\<rparr>)]"
  by (simp add: gain_summary estimate_def inflated_inputs_def known_label_def inflated_def inflate_def
      gain_corners sum_surrogate_def dvals_def btree_of_def hull_point_def iv_hull_def)

lemma gain_no_cycle:
  "\<not> detect_port_equivalence_cycle (summaries [gain_pair ''demo.gain'' ''x'' ''y'' k])"
  by (simp add: gain_summary detect_port_equivalence_cycle_def siso_adj_def Let_def numeral_eq_Suc dkeys_def color_of_def)

lemma gain_plan_any:
  assumes "1 \<le> b"
  shows "rust_plan H bits (summaries [gain_pair ''demo.gain'' ''x'' ''y'' k]) gain_known
      \<lparr>rq_tags = [], rq_target = ''y'', rq_eps_budget = Fin b, rq_sense = sense\<rparr> =
     Some (Ok (gain_route H))"
proof -
  let ?rq = "\<lparr>rq_tags = [], rq_target = ''y'', rq_eps_budget = Fin b, rq_sense = sense\<rparr>"
  let ?ss = "summaries [gain_pair ''demo.gain'' ''x'' ''y'' k]"
  let ?c = "\<lparr>ca_solver_idx = 0, ca_cost = Fin 1,
    ca_tie_key = tie_key_for bits [(''x'', known_label \<lparr>iv_lo = 1, iv_hi = 2\<rparr>)],
    ca_inputs = [(''x'', known_label \<lparr>iv_lo = 1, iv_hi = 2\<rparr>)]\<rparr>"
  have regen: "regenerate_candidates bits ?ss (st_labels (search_start gain_known)) sense ''y'' [] [] =
      ([?c], [(0, ca_tie_key ?c)])"
    by (simp add: gain_summary regenerate_candidates_def search_start_def gain_known_def
        sense_admits_def combos_for_def Let_def dvals_def fl_sum_def known_label_def)
  let ?st = "(search_start gain_known)\<lparr>st_frontier := [], st_pushed := [(0, ca_tie_key ?c)]\<rparr>"
  have iter: "search_iter H bits ?ss ?rq (search_start gain_known) = expand H ?ss ?rq ?c ?st"
    using regen
    by (simp add: search_iter_def search_start_def best_index_def Let_def)
  have hd: "?ss ! 0 = hd ?ss" by (simp add: gain_summary)
  have adm: "admits (input_domain_of (?ss ! 0)) (inflated_inputs (ca_inputs ?c)) [] = Ok ()"
    by (simp add: gain_summary input_domain_of_def domain_new_def inflated_inputs_def known_label_def
        inflated_def inflate_def admits_def is_subset_def btree_of_def bset_of_def)
  have outs: "estimated_outputs (?ss ! 0) [(''y'', \<lparr>iv_lo = 1, iv_hi = 2\<rparr>)] =
      [(''y'', \<lparr>iv_lo = 1, iv_hi = 2\<rparr>, 0)]"
    by (simp add: gain_summary estimated_outputs_def btree_of_def EXACT_def worst_over_def acc_eps_def)
  have nd: "node_for 0 (?ss ! 0) ?c [(''y'', \<lparr>iv_lo = 1, iv_hi = 2\<rparr>)] = gain_node"
    unfolding node_for_def outs by (simp add: gain_summary gain_node_def)
  have "expand H ?ss ?rq ?c ?st = Inr (Ok (gain_route H))"
    using assms adm gain_estimate [of k, folded hd] outs nd
    by (simp add: expand_def search_start_def gain_known_def Let_def
        insert_with_dominance_def winner_of_def label_total_def total_error_def half_width_def width_def
        gain_route_def)
  then have "search_loop H bits ?ss ?rq (search_start gain_known) = Some (Ok (gain_route H))"
    using iter by (subst search_loop.simps) simp
  moreover have "\<not> dhas gain_known ''y''" by (simp add: gain_known_def dhas_def)
  ultimately show ?thesis
    using assms gain_no_cycle by (simp add: rust_plan_def gain_summary)
qed

lemma gain_plan:
  "rust_plan H bits (summaries [gain_pair ''demo.gain'' ''x'' ''y'' k]) gain_known gain_request =
     Some (Ok (gain_route H))"
  unfolding gain_request_def by (rule gain_plan_any) simp

lemma gain_route_steps:
  "rt_target (gain_route H) = ''y''"
  "rt_steps (gain_route H) =
     [\<lparr>rs_solver_id = ''demo.gain'', rs_realized_domain = \<lparr>d_box = gain_known, d_tags = []\<rparr>,
       rs_predicted_eps = 0, rs_cost = Fin 1\<rparr>]"
  by (simp_all add: gain_route_def build_route_def Let_def route_steps_of_def gain_node_def
      step_of_node_def domain_new_def inflated_inputs_def known_label_def inflated_def inflate_def
      gain_known_def btree_of_def bset_of_def)

section \<open>The run\<close>

lemma gain_invoke:
  "invoke_solve_fn (gain_fn p q k) [(p, VFloat (Fin v))] rem =
     Ok \<lparr>so_values = [(q, Fin (k * v))], so_measured_eps = None, so_payloads = []\<rparr>"
  by (simp add: gain_fn_def wrap_solve_fn_def invoke_solve_fn_def normalize_raw_def
      plain_output_def)

definition gain_entry :: step_entry where
  "gain_entry = \<lparr>se_hull = [(''y'', \<lparr>iv_lo = 2, iv_hi = 4\<rparr>)], se_refs = [], se_eps = 0\<rparr>"

lemma gain_sweep_any:
  assumes "si_outputs info = [''y'']" "si_accuracy info = [(''y'', EXACT)]"
  shows "sweep_step info (gain_fn ''x'' ''y'' 2) [] [] gain_known rem = Ok gain_entry"
proof -
  have ports: "scalar_outputs_of [] info = [''y'']" "payload_outputs_of [] info = []"
    using assms(1) by (simp_all add: scalar_outputs_of_def payload_outputs_of_def is_payload_port_def)
  have eval: "make_corner_fn info (gain_fn ''x'' ''y'' 2) [] [] rem acc [(''x'', v)] =
      (Ok [(''y'', Fin (2 * v))], acc)" for acc v
    by (simp add: make_corner_fn_def ports full_corner_def gain_invoke check_step_output_def dhas_def
        check_measured_def dict_of_def)
  have corners: "enumerate_corners gain_known = [[(''x'', 1)], [(''x'', 2)]]"
    by (simp add: enumerate_corners_def gain_known_def btree_of_def gain_corners)
  show ?thesis
    by (simp add: sweep_step_def corner_sweep_def corners eval btree_of_def hull_point_def iv_hull_def
        step_eps_of_def declared_eps_def ports assms(2) EXACT_def worst_over_def acc_eps_def py_max_def
        gain_entry_def)
qed

lemma gain_sweep:
  "sweep_step (gain_info i ''x'' ''y'') (gain_fn ''x'' ''y'' 2) [] [] gain_known rem = Ok gain_entry"
  by (rule gain_sweep_any) (simp_all add: gain_info_def)

lemma gain_lookup:
  "lookup_solver (registry_iter (gain_registry 2)) ''demo.gain'' =
     (Ok (gain_info ''demo.gain'' ''x'' ''y'', gain_fn ''x'' ''y'' 2) :: (solver_pair, 'e) outcome)"
  by (simp add: lookup_solver_def solver_map_def dict_of_def) (simp add: gain_pair_def)

lemma gain_box: "step_box (exec_start gain_known []) [''x''] = (Ok gain_known :: (box, 'e) outcome)"
  by (simp add: step_box_def exec_start_def gain_known_def eps_at_def inflate_def dict_of_def)

lemma gain_step:
  "exec_step H dumps (registry_iter (gain_registry 2)) [] b (rt_steps (gain_route H) ! 0)
     (exec_start gain_known []) None =
   (Ok (commit_step (gain_info ''demo.gain'' ''x'' ''y'') ''demo.gain'' gain_entry (exec_start gain_known [])), None)"
proof -
  let ?i = "gain_info ''demo.gain'' ''x'' ''y''" and ?f = "gain_fn ''x'' ''y'' 2"
  let ?st = "exec_start gain_known []"
  have ins: "si_inputs ?i = [''x'']" by (simp add: gain_info_def)
  have split: "split_step_inputs ?i [] (ex_values ?st) (ex_payloads ?st) = Ok ([''x''], [])"
    by (simp add: split_step_inputs_def ins exec_start_def gain_known_def dhas_def)
  have dom: "check_step_output_domain ?i (se_hull gain_entry) (se_eps gain_entry) = Ok ()"
    by (simp add: check_step_output_domain_def gain_info_def gain_entry_def)
  show ?thesis
    using dom by (simp add: exec_step_def gain_route_steps Let_def gain_lookup split gain_box
        cached_step_def gain_sweep attribute_err_def del: gain_registry_iter)
qed

lemma gain_digest:
  "route_settings_digest H dumps (gain_route H) (registry_iter (gain_registry 2)) =
     (Ok (canonical_digest H dumps (PySeq [PyStr []])) :: (string, 'e) outcome)"
  by (simp add: route_settings_digest_def gain_route_steps gain_lookup gain_info_def
      del: gain_registry_iter)

lemma gain_execute:
  obtains sol where
    "execute_impl H dumps (gain_route H) (gain_registry 2) gain_known [] None b = (Ok sol, None)"
    "sol_target sol = ''y''" "sol_value sol = \<lparr>iv_lo = 2, iv_hi = 4\<rparr>" "sol_eps sol = 0"
    "sol_route sol = gain_route H" "sol_cache_hit sol = False"
proof -
  let ?st = "commit_step (gain_info ''demo.gain'' ''x'' ''y'') ''demo.gain'' gain_entry (exec_start gain_known [])"
  have ports: "port_table (gain_registry 2) = []" by (simp add: port_table_def gain_registry_def)
  have "exec_steps H dumps (registry_iter (gain_registry 2)) [] b (rt_steps (gain_route H))
      (exec_start gain_known []) None = (Ok ?st, None)"
    using gain_step [of H dumps b] by (simp add: gain_route_steps del: gain_registry_iter)
  moreover have "ex_values ?st = [(''x'', \<lparr>iv_lo = 1, iv_hi = 2\<rparr>), (''y'', \<lparr>iv_lo = 2, iv_hi = 4\<rparr>)]"
    "ex_final_eps ?st = 0"
    by (simp_all add: commit_step_def exec_start_def gain_known_def gain_entry_def)
  moreover from calculation obtain sol where
    "solution_of H dumps (registry_iter (gain_registry 2)) (gain_route H) ?st = (Ok sol :: (solution, attributed) outcome)"
    "sol_target sol = ''y''" "sol_value sol = \<lparr>iv_lo = 2, iv_hi = 4\<rparr>" "sol_eps sol = 0"
    "sol_route sol = gain_route H" "sol_cache_hit sol = False"
    by (simp add: solution_of_def gain_route_steps(1) gain_digest del: gain_registry_iter)
  ultimately show ?thesis
    by (intro that [of sol]) (simp_all add: execute_impl_def ports del: gain_registry_iter)
qed

end
