(* ===== verification/Sugar_Properties.thy ===== *)
theory Sugar_Properties
  imports Coupled Sample_Runs
begin

text \<open>
  Properties of the authoring helpers: table lookups, derived directions and coupled groups.
\<close>

section \<open>Tables\<close>

text \<open>C36: a table lookup agrees with the table at every entry, is the straight line between
  neighbouring entries, is held at the end values outside the extent, and never leaves the
  range of the table, for any input, NaN included.\<close>

theorem table_lookup_correct:
  assumes "strictly_ascending xs" "length ys = length xs" "xs \<noteq> []"
  shows "(\<forall>i < length xs. interp_linear xs ys (Fin (xs ! i)) = ys ! i) \<and>
    (\<forall>i v. Suc i < length xs \<and> xs ! i \<le> v \<and> v \<le> xs ! Suc i \<longrightarrow>
       interp_linear xs ys (Fin v) = ys ! i + (v - xs ! i) / (xs ! Suc i - xs ! i) * (ys ! Suc i - ys ! i)) \<and>
    (\<forall>v \<le> hd xs. interp_linear xs ys (Fin v) = hd ys) \<and>
    (\<forall>v > last xs. interp_linear xs ys (Fin v) = last ys) \<and>
    (\<forall>v. Min (set ys) \<le> interp_linear xs ys v \<and> interp_linear xs ys v \<le> Max (set ys))"
proof (intro conjI allI impI)
  have "sorted_wrt (<) xs" using assms(1) by (simp add: strictly_ascending_sorted)
  then have ends: "hd xs \<le> last xs"
    using sorted_ends [of xs "hd xs"] assms(3) by (simp add: strict_sorted_iff)
  show "interp_linear xs ys (Fin (xs ! i)) = ys ! i" if "i < length xs" for i
    using interp_linear_node [OF assms(1,2) that] .
  show "interp_linear xs ys (Fin v) = ys ! i + (v - xs ! i) / (xs ! Suc i - xs ! i) * (ys ! Suc i - ys ! i)"
    if "Suc i < length xs \<and> xs ! i \<le> v \<and> v \<le> xs ! Suc i" for i v
    using interp_linear_chord [OF assms(1,2)] that by (simp add: chord_def)
  show "interp_linear xs ys (Fin v) = hd ys" if "v \<le> hd xs" for v
    using that by (rule interp_linear_outside)
  show "interp_linear xs ys (Fin v) = last ys" if "last xs < v" for v
    using that ends by (simp add: interp_linear_def)
  have "\<forall>y \<in> set ys. Min (set ys) \<le> y \<and> y \<le> Max (set ys)" by simp
  from interp_linear_range [OF assms this]
  show "Min (set ys) \<le> interp_linear xs ys v" "interp_linear xs ys v \<le> Max (set ys)" for v by blast+
qed

theorem table_lookup_correct_witness:
  "interp_linear [0, 1, 3] [5, 7, 1] (Fin 1) = 7 \<and> interp_linear [0, 1, 3] [5, 7, 1] (Fin (-2)) = 5"
proof -
  have "strictly_ascending [0, 1, 3 :: real]" by simp
  from table_lookup_correct [OF this, of "[5, 7, 1]"]
  have all: "\<forall>i < 3. interp_linear [0, 1, 3] [5, 7, 1] (Fin ([0, 1, 3] ! i)) = [5, 7, 1] ! i"
    "\<forall>v \<le> 0. interp_linear [0, 1, 3] [5, 7, 1] (Fin v) = 5" by simp_all
  show ?thesis using all(1) [rule_format, of 1] all(2) [rule_format, of "-2"] by simp
qed

text \<open>over a table whose entries never fall, the two corners of an interval bound the lookup
  at every point of it: the sweep of such a table is exact.\<close>

theorem table_sweep_exact:
  assumes "strictly_ascending xs" "length ys = length xs" "xs \<noteq> []" "sorted ys" "lo \<le> v" "v \<le> hi"
  shows "interp_linear xs ys (Fin lo) \<le> interp_linear xs ys (Fin v) \<and>
    interp_linear xs ys (Fin v) \<le> interp_linear xs ys (Fin hi)"
  using interp_linear_mono [OF assms(1-4)] assms(5,6) by blast

theorem table_sweep_exact_witness:
  "interp_linear [0, 2] [1, 5] (Fin 0) \<le> interp_linear [0, 2] [1, 5] (Fin 1)"
  using table_sweep_exact [of "[0, 2]" "[1, 5]" 0 1 2] by simp

definition a_paper :: citation where
  "a_paper = \<lparr>ct_kind = ''paper'', ct_ref = ''r'', ct_note = []\<rparr>"

definition peak_fn :: solve_fn where
  "peak_fn = wrap_solve_fn (table_fn_1d ''x'' ''y'' [0, 1, 2] [0, 5, 0]) [''y''] False"

lemma peak_table:
  obtains info where
    "table_solver_1d H dumps ''demo'' ''x'' ''y'' [0, 1, 2] [0, 5, 0] (Fin 0) [CitObj a_paper] ''1'' (Fin 1)
       = (Ok (info, peak_fn) :: (solver_pair, 'e) outcome)"
    "si_corner_monotone info" "si_accuracy info = [(''y'', EXACT)]" "si_outputs info = [''y'']"
    "d_box (si_domain info) = [(''x'', \<lparr>iv_lo = 0, iv_hi = 2\<rparr>)]"
  by (simp add: table_solver_1d_def check_strictly_ascending_def accuracy_new_def make_direction_def
      default_args_def build_solver_info_and_fn_def coerce_domain_def coerce_bound_def py_interval_def
      interval_new_def coerce_accuracy_def dict_of_def EXACT_def domain_new_def btree_of_def
      solver_info_new_def TIERS_def coerce_citations_def coerce_citation_def claim_senses_coerce_def
      peak_fn_def)

lemma peak_corner:
  assumes "si_outputs info = [''y'']" "v = 0 \<or> v = 2"
  shows "make_corner_fn info peak_fn [] [] rem acc [(''x'', v)] = (Ok [(''y'', Fin 0)], acc)"
proof -
  have "invoke_solve_fn peak_fn (full_corner [(''x'', v)] []) rem = Ok (plain_output [(''y'', Fin 0)])"
    using assms(2) by (auto simp: peak_fn_def invoke_wrapped table_fn_1d_def get_float_def full_corner_def
        normalize_raw_def interp_linear_def)
  moreover have "scalar_outputs_of [] info = [''y'']" "payload_outputs_of [] info = []"
    using assms(1) by (simp_all add: scalar_outputs_of_def payload_outputs_of_def is_payload_port_def)
  ultimately show ?thesis
    by (simp add: make_corner_fn_def plain_output_def check_step_output_def dhas_def check_measured_def dict_of_def)
qed

text \<open>every table solver declares itself corner-monotone, whatever the shape of the table. Over
  a table with an interior peak the sweep of the extent returns an interval that misses the
  peak, and a table whose entries are exact is charged no error for it.\<close>

theorem table_peak_missed:
  "\<exists>info. table_solver_1d H dumps ''demo'' ''x'' ''y'' [0, 1, 2] [0, 5, 0] (Fin 0) [CitObj a_paper] ''1'' (Fin 1)
       = (Ok (info, peak_fn) :: (solver_pair, unit) outcome) \<and>
     si_corner_monotone info \<and>
     sweep_step info peak_fn [] [] (d_box (si_domain info)) None
       = Ok \<lparr>se_hull = [(''y'', \<lparr>iv_lo = 0, iv_hi = 0\<rparr>)], se_refs = [], se_eps = 0\<rparr> \<and>
     interp_linear [0, 1, 2] [0, 5, 0] (Fin 1) = 5"
proof -
  obtain info where i: "table_solver_1d H dumps ''demo'' ''x'' ''y'' [0, 1, 2] [0, 5, 0] (Fin 0) [CitObj a_paper] ''1'' (Fin 1)
       = (Ok (info, peak_fn) :: (solver_pair, unit) outcome)"
    "si_corner_monotone info" "si_accuracy info = [(''y'', EXACT)]" "si_outputs info = [''y'']"
    "d_box (si_domain info) = [(''x'', \<lparr>iv_lo = 0, iv_hi = 2\<rparr>)]" by (rule peak_table)
  have corners: "enumerate_corners [(''x'', \<lparr>iv_lo = 0, iv_hi = 2\<rparr>)] = [[(''x'', 0)], [(''x'', 2)]]"
    by (simp add: enumerate_corners_def rust_enumerate_corners_def corner_candidates_def btree_of_def)
  have ports: "scalar_outputs_of [] info = [''y'']"
    using i(4) by (simp add: scalar_outputs_of_def payload_outputs_of_def is_payload_port_def)
  have "sweep_step info peak_fn [] [] (d_box (si_domain info)) None
       = Ok \<lparr>se_hull = [(''y'', \<lparr>iv_lo = 0, iv_hi = 0\<rparr>)], se_refs = [], se_eps = 0\<rparr>"
    using i(3,4) by (simp add: i(5) sweep_step_def corner_sweep_def corners peak_corner btree_of_def
        hull_point_def iv_hull_def step_eps_of_def declared_eps_def ports EXACT_def worst_over_def
        acc_eps_def py_max_def)
  moreover have "interp_linear [0, 1, 2] [0, 5, 0] (Fin 1) = 5" by (simp add: interp_linear_def)
  ultimately show ?thesis using i(1,2) by blast
qed

section \<open>Derived directions\<close>

section \<open>Derived directions\<close>

text \<open>a law adds its derived directions at the end, one for each target the kernel can invert
  for, in order, up to the first failure; each is for its target from the other ports, records
  the law, and inherits none of the law's calibration citations.\<close>

theorem law_adds_derived:
  assumes "law H dumps kn lhs rhs predicates branches declared rl = (res, rl')"
  shows "\<exists>new. rl' = rl\<lparr>rl_directions := rl_directions rl @ new\<rparr> \<and>
    length new \<le> length (kn_targets kn lhs rhs) \<and>
    (res = Ok () \<longrightarrow> length new = length (kn_targets kn lhs rhs)) \<and>
    (\<forall>i < length new. derived_for rl lhs rhs (kn_targets kn lhs rhs ! i) (fst (new ! i)))"
proof -
  obtain new dn rest box where n: "rl' = rl\<lparr>rl_directions := rl_directions rl @ new\<rparr>"
    "kn_targets kn lhs rhs = dn @ rest" "res = Ok () \<longrightarrow> rest = []"
    "list_all2 (\<lambda>t p. law_direction H dumps kn lhs rhs predicates branches box t rl = Ok p) dn new"
    using law_added [OF assms] .
  have len: "length new = length dn" using n(4) by (simp add: list_all2_lengthD)
  have "derived_for rl lhs rhs (dn ! i) (fst (new ! i))" if "i < length new" for i
    using law_direction_Ok(1) list_all2_nthD2 [OF n(4) that] by (metis prod.collapse)
  then show ?thesis using n len by (intro exI [of _ new]) (auto simp: nth_append)
qed

text \<open>a law without predicates forgets the tags of its relation: with a domain given as a
  mapping, the derived directions apply without any tag, although the relation names tags its
  directions require.\<close>

theorem law_drops_tags:
  assumes "law H dumps kn lhs rhs [] branches declared rl = (Ok (), rl')" "rl_domain rl = DomDict d"
  shows "\<forall>p \<in> set (drop (length (rl_directions rl)) (rl_directions rl')). d_tags (si_domain (fst p)) = []"
proof -
  obtain new dn rest box where n: "rl' = rl\<lparr>rl_directions := rl_directions rl @ new\<rparr>"
    "list_all2 (\<lambda>t p. law_direction H dumps kn lhs rhs [] branches box t rl = Ok p) dn new"
    using law_added [OF assms(1)] .
  have "d_tags (si_domain (fst (new ! i))) = []" if "i < length new" for i
    using law_direction_Ok(2) [OF _ refl assms(2)] list_all2_nthD2 [OF n(2) that] by (metis prod.collapse)
  then have "\<forall>p \<in> set new. d_tags (si_domain (fst p)) = []" by (metis in_set_conv_nth)
  then show ?thesis using n(1) by simp
qed

text \<open>A kernel that inverts the law \<open>a = b\<close> for either side.\<close>

definition toy_kernel :: "unit kernel" where
  "toy_kernel =
     \<lparr>kn_targets = \<lambda>_ _. [''a''],
      kn_invert = \<lambda>_ _ _ _. Inr \<lparr>iv_rhs = EVar ''b'', iv_branch = None, iv_admission = [], iv_form = ''a = b''\<rparr>,
      kn_box = \<lambda>_ _ _. Inl (SymEmptyDomain []), kn_eval = \<lambda>_ _. Inl OtherEval, kn_canon_version = 1\<rparr>"

definition toy_relation :: relation where
  "toy_relation =
     \<lparr>rl_namespace = ''demo'', rl_ports = [''a'', ''b''], rl_domain = DomDict [], rl_cost = Fin 1,
      rl_version = ''1'', rl_citations = [CitObj a_paper, CitObj (a_paper\<lparr>ct_kind := ''calibration''\<rparr>)],
      rl_tags = [''steady''], rl_tier = ''closed_form'', rl_settings = PyNone,
      rl_default_accuracy = AccOne EXACT, rl_directions = []\<rparr>"

lemma toy_law:
  obtains p where "law H dumps toy_kernel (EVar ''a'') (EVar ''b'') [] [] [] toy_relation
    = (Ok (), toy_relation\<lparr>rl_directions := [p]\<rparr>)"
proof -
  have cites: "coerce_citations [CitObj c, CitObj d] = Ok [c, d]" "coerce_citations [CitObj c] = Ok [c]" for c d
    using coerce_citation_objs [of "[c, d]"] coerce_citation_objs [of "[c]"] by simp_all
  obtain p where "law_direction H dumps toy_kernel (EVar ''a'') (EVar ''b'') [] [] [] ''a'' toy_relation = Ok p"
    by (simp add: law_direction_def toy_kernel_def toy_relation_def law_domain_def derived_citations_def
        cites a_paper_def law_args_def relation_args_def default_args_def
        build_solver_info_and_fn_def coerce_domain_def claim_senses_coerce_def solver_info_new_def TIERS_def)
  then have "law H dumps toy_kernel (EVar ''a'') (EVar ''b'') [] [] [] toy_relation
    = (Ok (), add_direction p toy_relation)"
    by (simp add: law_def coerce_domain_def toy_relation_def domain_new_def declared_intervals_def
        toy_kernel_def btree_of_def)
  then show ?thesis using that by (simp add: add_direction_def toy_relation_def)
qed

theorem law_adds_derived_witness:
  "\<exists>p. law (\<lambda>_. ''h'') (\<lambda>_. []) toy_kernel (EVar ''a'') (EVar ''b'') [] [] [] toy_relation
       = (Ok (), toy_relation\<lparr>rl_directions := [p]\<rparr>) \<and>
     derived_for toy_relation (EVar ''a'') (EVar ''b'') ''a'' (fst p)"
proof -
  obtain p where p: "law (\<lambda>_. ''h'') (\<lambda>_. []) toy_kernel (EVar ''a'') (EVar ''b'') [] [] [] toy_relation
    = (Ok (), toy_relation\<lparr>rl_directions := [p]\<rparr>)" by (rule toy_law)
  obtain new where "toy_relation\<lparr>rl_directions := [p]\<rparr> =
      toy_relation\<lparr>rl_directions := rl_directions toy_relation @ new\<rparr>"
    "\<forall>i < length new. derived_for toy_relation (EVar ''a'') (EVar ''b'') (kn_targets toy_kernel (EVar ''a'') (EVar ''b'') ! i) (fst (new ! i))"
    using law_adds_derived [OF p] by auto
  moreover from this(1) have "new = [p]" by (simp add: toy_relation_def)
  moreover have "kn_targets toy_kernel (EVar ''a'') (EVar ''b'') = [''a'']" by (simp add: toy_kernel_def)
  ultimately have "derived_for toy_relation (EVar ''a'') (EVar ''b'') ''a'' (fst p)" by simp
  with p show ?thesis by blast
qed

theorem law_drops_tags_witness:
  "\<exists>p. law (\<lambda>_. ''h'') (\<lambda>_. []) toy_kernel (EVar ''a'') (EVar ''b'') [] [] [] toy_relation
       = (Ok (), toy_relation\<lparr>rl_directions := [p]\<rparr>) \<and>
     rl_tags toy_relation = [''steady''] \<and> d_tags (si_domain (fst p)) = []"
proof -
  obtain p where p: "law (\<lambda>_. ''h'') (\<lambda>_. []) toy_kernel (EVar ''a'') (EVar ''b'') [] [] [] toy_relation
    = (Ok (), toy_relation\<lparr>rl_directions := [p]\<rparr>)" by (rule toy_law)
  have "rl_domain toy_relation = DomDict []" by (simp add: toy_relation_def)
  from law_drops_tags [OF p this] show ?thesis using p by (auto simp: toy_relation_def)
qed

section \<open>Coupled groups\<close>


text \<open>the errors of a coupled group are those of its members, passed on as they are, and
  \<open>NoConvergence\<close> with the iteration limit; with a limit below two it never converges.\<close>

theorem coupled_errors:
  assumes "closure_fn g r x = Err e"
  shows "(\<exists>res. e = NoConvergence (cg_max_iter g) res) \<or>
    (\<exists>m \<in> set (cg_members g). \<exists>info fn xs.
       registry_get r m = Some (info, fn) \<and> invoke_solve_fn fn xs None = Err e)"
  using closure_loop_Err [OF assms [unfolded closure_fn_def]] by (auto simp: member_error_def)

text \<open>A solver that adds one to its own port, so that no value is a fixed point.\<close>

definition inc_fn :: solve_fn where
  "inc_fn =
     wrap_solve_fn (\<lambda>x _.
        case dget x ''y'' of
          Some (VFloat (Fin v)) \<Rightarrow> RetBare (RVMap [(''y'', Fin (v + 1))])
        | _ \<Rightarrow> RetErr (NonFinite ''y'')) [''y''] False"

definition inc_registry :: registry where
  "inc_registry =
     \<lparr>rg_solvers = [(''demo.inc'', gain_info ''demo.inc'' ''y'' ''y'', inc_fn)], rg_ports = [],
      rg_frozen = True\<rparr>"

definition inc_group :: "real \<Rightarrow> real \<Rightarrow> int \<Rightarrow> coupled_group" where
  "inc_group damping tol n =
     \<lparr>cg_group_id = ''demo.group'', cg_namespace = ''demo'', cg_members = [''demo.inc''],
      cg_boundary_inputs = [], cg_boundary_outputs = [''y''], cg_settings = [],
      cg_damping = Fin damping, cg_tol = Fin tol, cg_max_iter = n,
      cg_accuracy = \<lparr>eps_abs = 0, eps_rel = 1 / 100\<rparr>, cg_citations = [],
      cg_conservative_for = SenseObj BOTH, cg_cost = Fin 1, cg_version = ''1''\<rparr>"

lemma inc_round:
  "run_members inc_registry [] (Fin d) [''demo.inc''] [] = Ok [(''y'', Fin 1)]"
  "run_members inc_registry [] (Fin d) [''demo.inc''] [(''y'', Fin a)] = Ok [(''y'', Fin (a + d))]"
proof -
  have get: "registry_get inc_registry ''demo.inc'' = Some (gain_info ''demo.inc'' ''y'' ''y'', inc_fn)"
    by (simp add: registry_get_def inc_registry_def)
  have ins: "si_inputs (gain_info ''demo.inc'' ''y'' ''y'') = [''y'']" by (simp add: gain_info_def)
  have call: "invoke_solve_fn inc_fn [(''y'', VFloat (Fin v))] None = Ok (plain_output [(''y'', Fin (v + 1))])" for v
    by (simp add: inc_fn_def invoke_wrapped normalize_raw_def)
  show "run_members inc_registry [] (Fin d) [''demo.inc''] [] = Ok [(''y'', Fin 1)]"
    using call [of 0] by (simp add: resolve_member_def get ins call_inputs_def dict_of_def plain_output_def absorb_def)
  show "run_members inc_registry [] (Fin d) [''demo.inc''] [(''y'', Fin a)] = Ok [(''y'', Fin (a + d))]"
    using call [of a] by (simp add: resolve_member_def get ins call_inputs_def dict_of_def plain_output_def
        absorb_def damped_def)
qed

lemma damping_hides:
  assumes "0 \<le> d" "d \<le> tol" "2 \<le> n"
  shows "closure_fn (inc_group d tol n) inc_registry [] =
    Ok \<lparr>so_values = [(''y'', Fin (1 + d))], so_measured_eps = Some (Fin (1 / 100 + d)), so_payloads = []\<rparr>"
proof -
  have k: "nat n = Suc (Suc (nat (n - 2)))" using assms(3) by linarith
  have "residual_of [(''y'', Fin 1)] [(''y'', Fin (1 + d))] = Fin d"
    using assms(1) by (simp add: residual_of_def relative_change_def fl_pymax_def)
  then show ?thesis
    using assms(2) by (simp add: closure_fn_def k inc_group_def inc_round boundary_values_def dict_of_def
        del: run_members.simps)
qed

text \<open>the residual is that of the damped step, not of the members: over a member that adds one
  to its own port, and so has no fixed point at all, every group whose damping factor is within
  the tolerance converges in two rounds, and is charged the damping factor as its residual
  although the member changes the value by its whole size.\<close>

theorem damping_hides_residual:
  assumes "0 \<le> d" "d \<le> tol" "2 \<le> n"
  shows "closure_fn (inc_group d tol n) inc_registry [] =
    Ok \<lparr>so_values = [(''y'', Fin (1 + d))], so_measured_eps = Some (Fin (1 / 100 + d)), so_payloads = []\<rparr>"
  by (rule damping_hides [OF assms])

theorem damping_hides_residual_witness:
  "\<exists>out. closure_fn (inc_group (1 / 1000) (1 / 1000) 50) inc_registry [] = Ok out \<and>
     so_measured_eps out = Some (Fin (11 / 1000))"
  using damping_hides_residual [of "1 / 1000" "1 / 1000" 50] by simp


theorem coupled_errors_witness:
  "\<exists>res. closure_fn (inc_group 1 (1 / 1000) 1) inc_registry [] = Err (NoConvergence 1 res)"
proof -
  have run: "closure_fn (inc_group 1 (1 / 1000) 1) inc_registry [] = Err (NoConvergence 1 PInf)"
    by (simp add: closure_fn_def inc_group_def inc_round del: run_members.simps)
  from coupled_errors [OF run] show ?thesis using run by blast
qed

end
