(* ===== verification/Plan_Cycles.thy ===== *)
theory Plan_Cycles
  imports Plan_Search
begin

text \<open>
  The depth-first search of \<open>detect_port_equivalence_cycle\<close> decides whether the one-in
  one-out solvers form a cycle of ports. A port turns grey when the search enters it and
  black when it leaves it; black ports have only black successors and lie on no cycle, and
  every grey port reaches the port being entered.
\<close>

section \<open>The port graph\<close>

definition siso_rel :: "solver_summary list \<Rightarrow> (string \<times> string) set" where
  "siso_rel ss = {(a, b). \<exists>s \<in> set ss. ss_inputs s = [a] \<and> ss_outputs s = [b]}"

definition children :: "(string, string list) dict \<Rightarrow> string \<Rightarrow> string list" where
  "children adj p = (case dget adj p of None \<Rightarrow> [] | Some cs \<Rightarrow> cs)"

definition adj_rel :: "(string, string list) dict \<Rightarrow> (string \<times> string) set" where
  "adj_rel adj = {(a, b). b \<in> set (children adj a)}"

lemma adj_rel_insert:
  "bt_ok adj \<Longrightarrow> adj_rel (bt_insert i (children adj i @ [p]) adj) = insert (i, p) (adj_rel adj)"
  by (auto simp: adj_rel_def children_def split: if_splits)

definition siso_step :: "(string, string list) dict \<Rightarrow> solver_summary \<Rightarrow> (string, string list) dict" where
  "siso_step adj s =
     (case (ss_inputs s, ss_outputs s) of
        ([i], [out]) \<Rightarrow> bt_insert i (children adj i @ [out]) adj
      | _ \<Rightarrow> adj)"

lemma siso_adj_fold: "siso_adj ss = foldl siso_step [] ss"
proof -
  have "siso_step = (\<lambda>adj s.
        (case (ss_inputs s, ss_outputs s) of
           ([i], [out]) \<Rightarrow>
             bt_insert i ((case dget adj i of None \<Rightarrow> [] | Some cs \<Rightarrow> cs) @ [out]) adj
         | _ \<Rightarrow> adj))"
    unfolding siso_step_def children_def by (intro ext) (rule refl)
  then show ?thesis unfolding siso_adj_def by simp
qed

lemma siso_step_rel:
  assumes "bt_ok adj"
  shows "bt_ok (siso_step adj s) \<and> adj_rel (siso_step adj s) = adj_rel adj \<union> siso_rel [s]"
proof (cases "\<exists>i p. ss_inputs s = [i] \<and> ss_outputs s = [p]")
  case True
  then obtain i p where "ss_inputs s = [i]" "ss_outputs s = [p]" by blast
  then show ?thesis using assms by (simp add: siso_step_def adj_rel_insert) (simp add: siso_rel_def)
next
  case False
  then have "siso_step adj s = adj" "siso_rel [s] = {}"
    by (auto simp: siso_step_def siso_rel_def split: list.splits)
  then show ?thesis using assms by simp
qed

lemma siso_adj_rel: "bt_ok (siso_adj ss) \<and> adj_rel (siso_adj ss) = siso_rel ss"
proof -
  have "bt_ok (foldl siso_step adj ss) \<and> adj_rel (foldl siso_step adj ss) = adj_rel adj \<union> siso_rel ss"
    if "bt_ok adj" for adj
    using that
  proof (induction ss arbitrary: adj)
    case (Cons s ss)
    note st = siso_step_rel [OF Cons.prems, of s]
    show ?case using Cons.IH [of "siso_step adj s"] st by (auto simp: siso_rel_def)
  qed (simp add: siso_rel_def)
  from this [of "[]"] show ?thesis by (simp add: siso_adj_fold adj_rel_def children_def)
qed

section \<open>Colours\<close>

definition greys :: "(string, color) dict \<Rightarrow> string set" where
  "greys col = {p. color_of col p = Gray}"

definition blacks :: "(string, color) dict \<Rightarrow> string set" where
  "blacks col = {p. color_of col p = Black}"

lemma color_insert:
  assumes "bt_ok col"
  shows "greys (bt_insert p Gray col) = insert p (greys col)"
    "blacks (bt_insert p Gray col) = blacks col - {p}"
    "greys (bt_insert p Black col) = greys col - {p}"
    "blacks (bt_insert p Black col) = insert p (blacks col)"
  using assms by (auto simp: greys_def blacks_def color_of_def)

text \<open>What holds of the colours between two steps of the search.\<close>

definition black_ok :: "(string \<times> string) set \<Rightarrow> (string, color) dict \<Rightarrow> bool" where
  "black_ok E col \<longleftrightarrow>
     bt_ok col \<and>
     (\<forall>a \<in> blacks col. \<forall>b. (a, b) \<in> E \<longrightarrow> b \<in> blacks col) \<and>
     (\<forall>a \<in> blacks col. (a, a) \<notin> E\<^sup>+)"

definition reaches :: "(string \<times> string) set \<Rightarrow> (string, color) dict \<Rightarrow> string \<Rightarrow> bool" where
  "reaches E col p \<longleftrightarrow> (\<forall>g \<in> greys col. (g, p) \<in> E\<^sup>+)"

definition whites :: "(string, string list) dict \<Rightarrow> (string, color) dict \<Rightarrow> nat" where
  "whites adj col = card (set (dkeys adj) - (greys col \<union> blacks col))"

definition dfs_done ::
  "(string \<times> string) set \<Rightarrow> string set \<Rightarrow> (string, color) dict \<Rightarrow> bool \<times> (string, color) dict \<Rightarrow> bool" where
  "dfs_done E ps col r \<longleftrightarrow>
     (if fst r then \<exists>x. (x, x) \<in> E\<^sup>+
      else black_ok E (snd r) \<and> greys (snd r) = greys col \<and>
           blacks col \<subseteq> blacks (snd r) \<and> ps \<subseteq> blacks (snd r))"

lemma closed_trancl:
  assumes "\<forall>a \<in> S. \<forall>b. (a, b) \<in> E \<longrightarrow> b \<in> S" "(a, b) \<in> E\<^sup>+" "a \<in> S"
  shows "b \<in> S"
  using assms(2,3) by (induction rule: trancl_induct) (use assms(1) in blast)+

lemma blacken:
  assumes "black_ok E col" "p \<in> greys col" "\<forall>b. (p, b) \<in> E \<longrightarrow> b \<in> blacks col"
  shows "black_ok E (bt_insert p Black col)"
proof -
  have ok: "bt_ok col" using assms(1) by (simp add: black_ok_def)
  have not: "p \<notin> blacks col" using assms(2) by (simp add: greys_def blacks_def)
  have "(p, p) \<notin> E\<^sup>+"
  proof
    assume "(p, p) \<in> E\<^sup>+"
    then obtain c where c: "(p, c) \<in> E" "(c, p) \<in> E\<^sup>*" by (meson tranclD)
    have cb: "c \<in> blacks col" using assms(3) c(1) by blast
    have "p \<in> blacks col"
    proof (cases "c = p")
      case False
      then have "(c, p) \<in> E\<^sup>+" using c(2) by (simp add: rtrancl_eq_or_trancl)
      then show ?thesis using closed_trancl [OF _ _ cb] assms(1) unfolding black_ok_def by blast
    qed (use cb in simp)
    then show False using not by blast
  qed
  then show ?thesis
    using assms(1,3) unfolding black_ok_def color_insert [OF ok] by auto
qed

lemma whites_less:
  assumes "color_of col p = White" "p \<in> set (dkeys adj)"
    "greys col' = insert p (greys col)" "blacks col' = blacks col"
  shows "whites adj col' < whites adj col"
  unfolding whites_def using assms by (intro psubset_card_mono) (auto simp: greys_def blacks_def)

lemma whites_mono:
  "greys col' = greys col \<Longrightarrow> blacks col \<subseteq> blacks col' \<Longrightarrow> whites adj col' \<le> whites adj col"
  unfolding whites_def by (intro card_mono) auto

section \<open>The search\<close>

lemma dfs_ok:
  shows "\<lbrakk>black_ok E col; reaches E col p; whites adj col < fuel; E = adj_rel adj\<rbrakk> \<Longrightarrow>
      dfs_done E {p} col (dfs_visit fuel adj p col)"
    and "\<lbrakk>black_ok E col; \<forall>c \<in> set cs. reaches E col c; whites adj col < fuel; E = adj_rel adj\<rbrakk> \<Longrightarrow>
      dfs_done E (set cs) col (dfs_children fuel adj cs col)"
proof (induction fuel adj p col and fuel adj cs col rule: dfs_visit_dfs_children.induct)
  case (1 adj p col)
  then show ?case by simp
next
  case (2 fuel adj p col)
  show ?case
  proof (cases "color_of col p")
    case White
    let ?g = "bt_insert p Gray col"
    have ok: "bt_ok col" using 2(2) by (simp add: black_ok_def)
    have white: "p \<notin> greys col" "p \<notin> blacks col" using White by (simp_all add: greys_def blacks_def)
    have gr: "greys ?g = insert p (greys col)" "blacks ?g = blacks col"
      using color_insert [OF ok] white by auto
    have bok: "black_ok E ?g"
      using 2(2) ok unfolding black_ok_def gr by simp
    have edge: "(p, c) \<in> E" if "c \<in> set (children adj p)" for c
      using that 2(5) by (simp add: adj_rel_def)
    have reach: "\<forall>c \<in> set (children adj p). reaches E ?g c"
      using 2(3) edge unfolding reaches_def gr by (auto intro: trancl_into_trancl)
    have fuel: "whites adj ?g < fuel \<or> children adj p = []"
    proof (cases "p \<in> set (dkeys adj)")
      case True
      then show ?thesis using whites_less [OF White True gr] 2(4) by simp
    next
      case False
      then have "dget adj p = None" by (simp add: map_of_eq_None_iff)
      then show ?thesis by (simp add: children_def)
    qed
    let ?r = "dfs_children fuel adj (children adj p) ?g"
    have fin: "dfs_done E (set (children adj p)) ?g ?r"
      using fuel
    proof
      assume "whites adj ?g < fuel"
      then show ?thesis
        using 2(1) [OF White bok] reach 2(5) unfolding children_def by blast
    next
      assume "children adj p = []"
      then show ?thesis using bok by (simp add: dfs_done_def)
    qed
    have v: "dfs_visit (Suc fuel) adj p col =
        (if fst ?r then (True, snd ?r) else (False, bt_insert p Black (snd ?r)))"
      using White by (simp add: children_def case_prod_beta split: bool.split)
    show ?thesis
    proof (cases "fst ?r")
      case True
      then show ?thesis using fin v by (simp add: dfs_done_def)
    next
      case False
      then have d: "black_ok E (snd ?r)" "greys (snd ?r) = insert p (greys col)"
        "blacks col \<subseteq> blacks (snd ?r)" "set (children adj p) \<subseteq> blacks (snd ?r)"
        using fin gr by (simp_all add: dfs_done_def)
      have "black_ok E (bt_insert p Black (snd ?r))"
        using d 2(5) by (intro blacken) (auto simp: adj_rel_def)
      moreover have "bt_ok (snd ?r)" using d(1) by (simp add: black_ok_def)
      ultimately show ?thesis
        using v False d white by (auto simp: dfs_done_def color_insert)
    qed
  next
    case Gray
    then have "(p, p) \<in> E\<^sup>+" using 2(3) by (simp add: reaches_def greys_def)
    then show ?thesis using Gray by (auto simp: dfs_done_def)
  next
    case Black
    then show ?thesis using 2(2) by (simp add: dfs_done_def blacks_def)
  qed
next
  case (3 fuel adj col)
  then show ?case by (simp add: dfs_done_def)
next
  case (4 fuel adj c cs col)
  let ?r = "dfs_visit fuel adj c col"
  have d: "dfs_done E {c} col ?r" using 4(1,3,4,5,6) by simp
  show ?case
  proof (cases "fst ?r")
    case True
    then obtain col' where "?r = (True, col')" by (metis prod.collapse)
    then show ?thesis using d by (simp add: dfs_done_def)
  next
    case False
    then obtain col' where r: "?r = (False, col')" by (metis prod.collapse)
    then have c: "black_ok E col'" "greys col' = greys col" "blacks col \<subseteq> blacks col'" "c \<in> blacks col'"
      using d by (simp_all add: dfs_done_def)
    have "whites adj col' < fuel" using whites_mono [OF c(2,3), of adj] 4(5) by simp
    moreover have "\<forall>b \<in> set cs. reaches E col' b" using 4(4) c(2) by (simp add: reaches_def)
    ultimately have "dfs_done E (set cs) col' (dfs_children fuel adj cs col')"
      using 4(2) [OF r [symmetric] refl c(1)] 4(6) by simp
    then show ?thesis using r c by (auto simp: dfs_done_def split: if_splits)
  qed
qed

lemma detect_cycle_iff:
  "detect_port_equivalence_cycle ss \<longleftrightarrow> (\<exists>p. (p, p) \<in> (siso_rel ss)\<^sup>+)"
proof -
  let ?adj = "siso_adj ss" and ?E = "siso_rel ss"
  let ?r = "dfs_children (length ?adj + 2) ?adj (dkeys ?adj) []"
  have none: "greys [] = {}" "blacks [] = {}" by (simp_all add: greys_def blacks_def color_of_def)
  have "whites ?adj [] \<le> length ?adj"
    using card_length [of "dkeys ?adj"] unfolding whites_def none by (simp add: dkeys_def)
  then have fin: "dfs_done ?E (set (dkeys ?adj)) [] ?r"
    by (intro dfs_ok) (simp_all add: black_ok_def none reaches_def siso_adj_rel)
  have det: "detect_port_equivalence_cycle ss = fst ?r"
    by (simp add: detect_port_equivalence_cycle_def Let_def)
  show ?thesis
  proof (cases "fst ?r")
    case True
    then show ?thesis using fin det by (simp add: dfs_done_def)
  next
    case False
    then have b: "black_ok ?E (snd ?r)" "set (dkeys ?adj) \<subseteq> blacks (snd ?r)"
      using fin by (simp_all add: dfs_done_def)
    have "(p, p) \<notin> ?E\<^sup>+" for p
    proof
      assume p: "(p, p) \<in> ?E\<^sup>+"
      then obtain c where "(p, c) \<in> ?E" by (meson tranclD)
      then have "c \<in> set (children ?adj p)" using siso_adj_rel [of ss] by (auto simp: adj_rel_def)
      then have "p \<in> set (dkeys ?adj)"
        by (cases "dget ?adj p") (force simp: children_def dest!: map_of_SomeD)+
      then show False using b p by (auto simp: black_ok_def)
    qed
    then show ?thesis using det False by simp
  qed
qed

end
