(* ===== verification/Plan_Properties.thy ===== *)
theory Plan_Properties
  imports Sample_Runs Plan_Cycles
begin

text \<open>
  Properties of the planner: the routes it returns can be executed, its errors mean what they
  say, and dominance keeps the labels a Pareto front.
\<close>

section \<open>Plans\<close>

text \<open>C6: a returned route is for the requested target, under a finite positive budget; a known
  target needs no step; otherwise every step uses a solver it was given, with the solver's
  cost, only ports that are known or made by an earlier step, and inputs that lie in the
  solver's declared box; the last step makes the target, and the predicted error fits.\<close>

theorem plan_executable:
  assumes "plan H bits ps known tags target eps_budget (SenseObj sense) payloads = Some (Ok route)"
  shows "rt_target route = target \<and> (\<exists>b. eps_budget = Fin b \<and> 0 < b) \<and>
    (if dhas (merge_payloads known payloads) target then rt_steps route = []
     else route_ok (summaries ps) (btree_of (merge_payloads known payloads))
       \<lparr>rq_tags = bset_of tags, rq_target = target, rq_eps_budget = eps_budget, rq_sense = sense\<rparr> route)"
proof -
  let ?rq = "\<lparr>rq_tags = bset_of tags, rq_target = target, rq_eps_budget = eps_budget, rq_sense = sense\<rparr>"
  have p: "rust_plan H bits (summaries ps) (btree_of (merge_payloads known payloads)) ?rq = Some (Ok route)"
    using assms by (simp add: plan_def claim_senses_coerce_def)
  note ok = rust_plan_Ok [OF p]
  have "fl_finite eps_budget \<and> \<not> fl_le eps_budget (Fin 0)"
    using p by (auto simp: rust_plan_def split: if_splits)
  then have "\<exists>b. eps_budget = Fin b \<and> 0 < b" by (auto simp: fl_finite_iff)
  then show ?thesis using ok by (auto simp: route_ok_def split: if_splits)
qed

lemma gain_plan_facade:
  "plan H bits [gain_pair ''demo.gain'' ''x'' ''y'' k] gain_known [] ''y'' (Fin 10) (SenseObj BOTH) [] =
     Some (Ok (gain_route H))"
proof -
  have "btree_of (merge_payloads gain_known []) = gain_known"
    by (simp add: merge_payloads_def dkeys_def gain_known_def btree_of_def)
  then show ?thesis
    using gain_plan [of H bits k] by (simp add: plan_def claim_senses_coerce_def gain_request_def bset_of_def)
qed

theorem plan_executable_witness:
  "steps_ok (summaries [gain_pair ''demo.gain'' ''x'' ''y'' 2])
     \<lparr>rq_tags = [], rq_target = ''y'', rq_eps_budget = Fin 10, rq_sense = BOTH\<rparr> {''x''}
     (rt_steps (gain_route (\<lambda>_. ''h'')))"
proof -
  have "btree_of (merge_payloads gain_known []) = gain_known" "\<not> dhas (merge_payloads gain_known []) ''y''"
    by (simp_all add: merge_payloads_def dkeys_def gain_known_def btree_of_def dhas_def)
  then show ?thesis
    using plan_executable [OF gain_plan_facade [of "\<lambda>_. ''h''" "\<lambda>_. []" 2]]
    by (simp add: route_ok_def gain_known_def bset_of_def)
qed



text \<open>C19: \<open>CyclicPortEquivalence\<close> is decided correctly: the depth-first search finds a cycle
  exactly when some port reaches itself through solvers with one input and one output.\<close>

theorem cycle_detection_exact:
  "detect_port_equivalence_cycle ss \<longleftrightarrow>
     (\<exists>p. (p, p) \<in> {(a, b). \<exists>s \<in> set ss. ss_inputs s = [a] \<and> ss_outputs s = [b]}\<^sup>+)"
  by (rule detect_cycle_iff [unfolded siso_rel_def])

section \<open>Dominance\<close>

lemma dominates_refl: "lb_cost l \<noteq> NaN \<Longrightarrow> dominates l l"
  by (simp add: dominates_def)

lemma dominates_trans: "dominates a b \<Longrightarrow> dominates b c \<Longrightarrow> dominates a c"
  unfolding dominates_def using fl_le_trans by (auto simp: is_subset_def)

text \<open>No label of the front dominates another.\<close>

definition front :: "label list \<Rightarrow> bool" where
  "front ls \<longleftrightarrow> sorted_wrt (\<lambda>a b. \<not> dominates a b \<and> \<not> dominates b a) ls"

lemma insert_front:
  assumes "front ls"
  shows "front (fst (insert_with_dominance ls new))"
proof (cases "list_ex (\<lambda>l. dominates l new) ls")
  case True
  then show ?thesis using assms by (simp add: insert_with_dominance_def)
next
  case False
  then show ?thesis
    using assms
    by (auto simp: insert_with_dominance_def front_def sorted_wrt_append sorted_wrt_filter list_ex_iff)
qed

lemma insert_covers:
  assumes "lb_cost new \<noteq> NaN" "\<exists>l' \<in> insert new (set ls). dominates l' l"
  shows "\<exists>l' \<in> set (fst (insert_with_dominance ls new)). dominates l' l"
proof (cases "\<exists>k \<in> set ls. dominates k new")
  case True
  then have "fst (insert_with_dominance ls new) = ls"
    by (simp add: insert_with_dominance_def list_ex_iff)
  then show ?thesis using assms(2) True dominates_trans by auto
next
  case False
  then have "set (fst (insert_with_dominance ls new)) = insert new {k \<in> set ls. \<not> dominates new k}"
    by (auto simp: insert_with_dominance_def list_ex_iff)
  then show ?thesis using assms(2) dominates_trans by auto
qed

lemma dominates_better: "dominates a b \<Longrightarrow> fl_le (lb_cost a) (lb_cost b) \<and> label_total a \<le> label_total b"
  by (auto simp: dominates_def is_subset_def inflated_def inflate_def label_total_def total_error_def
      half_width_def width_def field_simps)

definition front_of :: "label list \<Rightarrow> label list" where
  "front_of ls = foldl (\<lambda>fs l. fst (insert_with_dominance fs l)) [] ls"

text \<open>C20: dropping dominated labels loses nothing: after any sequence of insertions no kept label
  dominates another, and for every label that was ever offered a kept one costs no more and
  has no larger total error.\<close>

theorem dominance_lossless:
  assumes "\<forall>l \<in> set ls. lb_cost l \<noteq> NaN"
  shows "front (front_of ls) \<and> set (front_of ls) \<subseteq> set ls \<and>
    (\<forall>l \<in> set ls. \<exists>k \<in> set (front_of ls). fl_le (lb_cost k) (lb_cost l) \<and> label_total k \<le> label_total l)"
proof -
  have "front (front_of ls) \<and> set (front_of ls) \<subseteq> set ls \<and>
      (\<forall>l \<in> set ls. \<exists>k \<in> set (front_of ls). dominates k l)"
    using assms
  proof (induction ls rule: rev_induct)
    case (snoc new ls)
    then have IH: "front (front_of ls)" "set (front_of ls) \<subseteq> set ls"
      "\<forall>l \<in> set ls. \<exists>k \<in> set (front_of ls). dominates k l" by auto
    have eq: "front_of (ls @ [new]) = fst (insert_with_dominance (front_of ls) new)"
      by (simp add: front_of_def)
    have "lb_cost new \<noteq> NaN" using snoc.prems by simp
    then have "\<forall>l \<in> set (ls @ [new]). \<exists>k \<in> set (front_of (ls @ [new])). dominates k l"
      unfolding eq using IH(3) dominates_refl [of new] by (intro ballI insert_covers) auto
    moreover have "set (front_of (ls @ [new])) \<subseteq> set (ls @ [new])"
      using IH(2) insert_with_dominance_set unfolding eq by fastforce
    ultimately show ?case using insert_front [OF IH(1)] unfolding eq by blast
  qed (simp add: front_of_def front_def)
  then show ?thesis using dominates_better by blast
qed

theorem dominance_lossless_witness:
  "\<exists>k \<in> set (front_of [Label \<lparr>iv_lo = 0, iv_hi = 2\<rparr> 0 (Fin 3) None, Label \<lparr>iv_lo = 0, iv_hi = 1\<rparr> 0 (Fin 3) None]).
     fl_le (lb_cost k) (Fin 3) \<and> label_total k \<le> 1"
proof -
  let ?ls = "[Label \<lparr>iv_lo = 0, iv_hi = 2\<rparr> 0 (Fin 3) None, Label \<lparr>iv_lo = 0, iv_hi = 1\<rparr> 0 (Fin 3) None]"
  have "\<forall>l \<in> set ?ls. lb_cost l \<noteq> NaN" by simp
  from dominance_lossless [OF this] show ?thesis
    by (simp add: label_total_def total_error_def half_width_def width_def)
qed

end
