(* ===== verification/Execute_Properties.thy ===== *)
theory Execute_Properties
  imports Plan_Properties
begin

text \<open>
  Properties of the executor and of the per-step cache.
\<close>

section \<open>Walking a planned route\<close>

lemma zero_step_execute:
  "rt_steps route = [] \<Longrightarrow> dget known (rt_target route) = Some v \<Longrightarrow>
   \<exists>sol. execute H dumps route r known payloads c b = (Ok sol, c) \<and> sol_value sol = v \<and> sol_eps sol = 0"
  by (simp add: execute_def execute_impl_def Let_def exec_start_def solution_of_def
      route_settings_digest_def)


lemma gain_total: "solvers_total (registry_iter (gain_registry 2))"
  by (simp add: solvers_total_def fn_total_def gain_pair_def gain_fn_def invoke_wrapped normalize_raw_def
      split: option.splits inval.splits fl.splits)



text \<open>The truth of the sample: \<open>x = 3/2\<close>, and the gain of two makes \<open>y = 3\<close>.\<close>

definition gain_truth :: "string \<Rightarrow> real" where
  "gain_truth p = (if p = ''x'' then 3 / 2 else 3)"

definition gain_law :: "string \<Rightarrow> corner \<Rightarrow> real" where
  "gain_law p c = 2 * (case dget c ''x'' of Some v \<Rightarrow> v | None \<Rightarrow> 3 / 2)"

lemma gain_invoke_law:
  "invoke_solve_fn (gain_fn ''x'' ''y'' 2) (full_corner c pins) rem = Ok out \<Longrightarrow>
   so_measured_eps out = None \<and> so_values out = [(''y'', Fin (gain_law ''y'' c))]"
  by (auto simp: gain_fn_def invoke_wrapped normalize_raw_def plain_output_def dget_full_corner
      gain_law_def split: option.splits inval.splits fl.splits)

lemma gain_law_holds:
  "law_holds gain_truth [] (gain_info ''demo.gain'' ''x'' ''y'') (gain_fn ''x'' ''y'' 2)"
proof -
  let ?i = "gain_info ''demo.gain'' ''x'' ''y''"
  have i: "si_inputs ?i = [''x'']" "si_accuracy ?i = [(''y'', EXACT)]"
    "scalar_outputs_of [] ?i = [''y'']"
    by (simp_all add: gain_info_def scalar_outputs_of_def payload_outputs_of_def is_payload_port_def)
  have law: "law_at gain_truth ?i b ''y'' gain_law" if b: "fst ` set b \<subseteq> {''x''}" for b
  proof -
    have "coord_monotone b (gain_law ''y'')"
      using b by (auto simp: coord_monotone_def gain_law_def dget_point_of)
    moreover have "gain_law ''y'' (point_of b gain_truth) = 3"
      by (simp add: gain_law_def dget_point_of gain_truth_def)
    ultimately show ?thesis by (simp add: law_at_def i EXACT_def acc_eps_def gain_truth_def)
  qed
  have "acc_valid EXACT" by (simp add: EXACT_def acc_valid_def)
  then show ?thesis
    unfolding law_holds_def evaluates_def i using gain_invoke_law law
    by (intro conjI allI impI exI [of _ gain_law]) (simp_all add: i)
qed

lemma gain_boxes:
  "boxes_admitted H dumps (registry_iter (gain_registry 2)) (port_table (gain_registry 2)) eps
     (rt_steps (gain_route G)) (exec_start gain_known [])"
proof -
  have ports: "port_table (gain_registry 2) = []" by (simp add: port_table_def gain_registry_def)
  have "split_step_inputs (gain_info ''demo.gain'' ''x'' ''y'') [] (ex_values (exec_start gain_known []))
      (ex_payloads (exec_start gain_known [])) = Ok ([''x''], [])"
    by (simp add: split_step_inputs_def gain_info_def exec_start_def gain_known_def dhas_def)
  moreover have "box_admitted (gain_info ''demo.gain'' ''x'' ''y'') gain_known"
    by (simp add: box_admitted_def gain_info_def gain_known_def is_subset_def)
  ultimately show ?thesis
    by (simp add: gain_route_steps gain_lookup gain_box ports del: gain_registry_iter
        split: prod.splits outcome.splits)
qed


lemma check_output_domain_Ok:
  "check_output_domain box hl eps = Ok () \<longleftrightarrow>
     (\<forall>(p, allowed) \<in> set box. \<forall>v. dget hl p = Some v \<longrightarrow> is_subset (inflate v eps) allowed)"
  by (induction box hl eps rule: check_output_domain.induct) (auto simp: Let_def split: option.splits)

text \<open>C26: a step whose realised output leaves the solver's declared box fails: after a step that
  succeeded, every output port the solver bounds holds an interval that, widened by the step's
  error, lies within the bound.\<close>

theorem realized_outputs_in_domain:
  assumes "exec_step H dumps ps ports eps_budget step st None = (Ok st', c)"
    "dget (solver_map ps) (rs_solver_id step) = Some (info, fn)"
    "(p, allowed) \<in> set (d_box (si_domain info))" "p \<in> set (scalar_outputs_of ports info)"
  shows "\<exists>v. dget (ex_values st') p = Some v \<and> is_subset (inflate v (ex_final_eps st')) allowed"
proof -
  obtain info' fn' s pins b e where e:
    "lookup_solver ps (rs_solver_id step) = (Ok (info', fn') :: (solver_pair, attributed) outcome)"
    "sweep_step info' fn' pins ports b (remaining_budget st s eps_budget) = Ok e"
    "check_step_output_domain info' (se_hull e) (se_eps e) = Ok ()"
    "st' = commit_step info' (rs_solver_id step) e st"
    using assms(1) by (rule exec_step_Ok)
  have i: "info' = info" using e(1) assms(2) by (simp add: lookup_solver_def)
  note cov = sweep_step_covers [OF e(2)]
  have ok: "dict_ok (se_hull e)" using cov by (simp add: entry_covers_def bt_ok_dict_ok)
  have "p \<in> fst ` set (se_hull e)" using cov assms(4) i by (simp add: entry_covers_def)
  then obtain v where v: "dget (se_hull e) p = Some v" by (metis map_of_eq_None_iff option.exhaust)
  then have "is_subset (inflate v (se_eps e)) allowed"
    using e(3) assms(3) i by (auto simp: check_step_output_domain_def check_output_domain_Ok)
  moreover have "dget (ex_values st') p = Some v" "ex_final_eps st' = se_eps e"
    using e(4) v ok by (simp_all add: commit_step_def dget_dmerge)
  ultimately show ?thesis by simp
qed

text \<open>The sample solver with a bound on its output.\<close>

definition bounded_info :: solver_info where
  "bounded_info = (gain_info ''demo.gain'' ''x'' ''y'')\<lparr>si_domain :=
     \<lparr>d_box = [(''x'', \<lparr>iv_lo = 0, iv_hi = 10\<rparr>), (''y'', \<lparr>iv_lo = 0, iv_hi = 5\<rparr>)], d_tags = []\<rparr>\<rparr>"

theorem realized_outputs_in_domain_witness:
  "is_subset (inflate \<lparr>iv_lo = 2, iv_hi = 4\<rparr> 0) \<lparr>iv_lo = 0, iv_hi = 5\<rparr>"
proof -
  let ?ps = "[(bounded_info, gain_fn ''x'' ''y'' 2)]" and ?step = "rt_steps (gain_route (\<lambda>_. ''h'')) ! 0"
  let ?st = "exec_start gain_known []"
  have i: "si_solver_id bounded_info = ''demo.gain''" "si_inputs bounded_info = [''x'']"
    "si_outputs bounded_info = [''y'']" "si_accuracy bounded_info = [(''y'', EXACT)]"
    "d_box (si_domain bounded_info) = [(''x'', \<lparr>iv_lo = 0, iv_hi = 10\<rparr>), (''y'', \<lparr>iv_lo = 0, iv_hi = 5\<rparr>)]"
    by (simp_all add: bounded_info_def gain_info_def)
  have get: "dget (solver_map ?ps) ''demo.gain'' = Some (bounded_info, gain_fn ''x'' ''y'' 2)"
    by (simp add: solver_map_def dict_of_def i)
  have split: "split_step_inputs bounded_info [] (ex_values ?st) (ex_payloads ?st) = Ok ([''x''], [])"
    by (simp add: split_step_inputs_def i exec_start_def gain_known_def dhas_def)
  have fits: "check_step_output_domain bounded_info (se_hull gain_entry) (se_eps gain_entry) = Ok ()"
    by (simp add: check_step_output_domain_def i gain_entry_def inflate_def is_subset_def)
  have step: "rs_solver_id ?step = ''demo.gain''" by (simp add: gain_route_steps)
  have run: "exec_step (\<lambda>_. ''h'') (\<lambda>_. []) ?ps [] None ?step ?st None =
      (Ok (commit_step bounded_info ''demo.gain'' gain_entry ?st), None)"
    using fits by (simp add: exec_step_def Let_def step lookup_solver_def get split gain_box
        cached_step_def gain_sweep_any i attribute_err_def)
  have scal: "scalar_outputs_of [] bounded_info = [''y'']"
    by (simp add: scalar_outputs_of_def payload_outputs_of_def is_payload_port_def i)
  have "dget (solver_map ?ps) (rs_solver_id ?step) = Some (bounded_info, gain_fn ''x'' ''y'' 2)"
    unfolding step by (rule get)
  from realized_outputs_in_domain [OF run this, of "''y''" "\<lparr>iv_lo = 0, iv_hi = 5\<rparr>"]
  obtain v where "dget (ex_values (commit_step bounded_info ''demo.gain'' gain_entry ?st)) ''y'' = Some v"
    "is_subset (inflate v 0) \<lparr>iv_lo = 0, iv_hi = 5\<rparr>"
    unfolding i(5) scal by (auto simp: commit_step_def gain_entry_def)
  then show ?thesis by (simp add: commit_step_def exec_start_def gain_known_def gain_entry_def)
qed

section \<open>The step cache\<close>

text \<open>a lookup counts exactly one hit or one miss, a hit exactly when it finds an entry, and
  never changes the store.\<close>

theorem step_cache_counts:
  assumes "step_cache_get key probe c = (Ok res, c')"
  shows "sc_files c' = sc_files c \<and>
    sc_hits c' = sc_hits c + (if res = None then 0 else 1) \<and>
    sc_misses c' = sc_misses c + (if res = None then 1 else 0)"
  using assms
  by (auto simp: step_cache_get_def step_cache_miss_def split: option.splits outcome.splits)

theorem step_cache_counts_witness:
  "sc_misses (snd (step_cache_get ''k'' None \<lparr>sc_files = [], sc_hits = 0, sc_misses = 4\<rparr>
     :: (step_entry option, unit) outcome \<times> step_cache)) = 5"
  using step_cache_counts [of "''k''" None "\<lparr>sc_files = [], sc_hits = 0, sc_misses = 4\<rparr>" None
      "\<lparr>sc_files = [], sc_hits = 0, sc_misses = 5\<rparr>"]
  by (simp add: step_cache_get_def step_cache_miss_def)

text \<open>C33: the store keeps its promise: after any sequence of writes of well-formed entries a
  lookup returns the entry last written under its key, and what was there under other keys.\<close>

theorem step_cache_round_trip:
  assumes "\<forall>(k, e) \<in> set kes. step_entry_ok e"
  shows "step_lookup k (foldl (\<lambda>c (k, e). step_cache_put k e c) c kes) =
    (case map_of (rev kes) k of Some e \<Rightarrow> Some e | None \<Rightarrow> step_lookup k c)"
  using step_store.get_put_all [of kes k c] assms
  by (force simp: step_store.put_all_def)

theorem step_cache_round_trip_witness:
  "step_lookup ''k'' (foldl (\<lambda>c (k, e). step_cache_put k e c) \<lparr>sc_files = [], sc_hits = 0, sc_misses = 0\<rparr>
     [(''k'', gain_entry)]) = Some gain_entry"
proof -
  have "step_entry_ok gain_entry" by (simp add: step_entry_ok_def gain_entry_def bt_ok_def iv_valid_def)
  then show ?thesis using step_cache_round_trip [of "[(''k'', gain_entry)]" "''k''"] by simp
qed

text \<open>the cache key leaves the remaining error budget out. Once a step has been stored, every
  later run of it with the same inputs gets the stored result, whatever error budget that run
  has left: a budget-seeking solver is not asked again.\<close>

theorem step_cache_ignores_budget:
  assumes "si_deterministic info" "pins \<noteq> []" "sf_probe_tools fn = None"
    "dget (sc_files c) (step_cache_key H dumps info b pins) = None"
    "sweep_step info fn pins ports b rem = Ok e" "step_entry_ok e"
  shows "\<exists>c'. cached_step H dumps info fn pins ports b rem (Some c) = (Ok e, Some c') \<and>
    fst (cached_step H dumps info fn pins ports b rem' (Some c')) = Ok e"
proof -
  let ?key = "step_cache_key H dumps info b pins"
  let ?c' = "step_cache_put ?key e (c\<lparr>sc_misses := Suc (sc_misses c)\<rparr>)"
  have "cached_step H dumps info fn pins ports b rem (Some c) = (Ok e, Some ?c')"
    using assms by (simp add: cached_step_def Let_def step_cache_get_def step_cache_miss_def)
  moreover have "fst (step_cache_get ?key None ?c') = (Ok (Some e) :: (step_entry option, solve_error) outcome)"
    using assms(6) by (simp add: step_cache_get_def step_cache_put_def step_entry_ok_roundtrip)
  ultimately show ?thesis
    using assms(1-3) by (auto simp: cached_step_def Let_def split: prod.splits outcome.splits option.splits)
qed

text \<open>A solver that needs a mesh and stops refining as soon as its error fits what is left.\<close>

definition seeker_info :: solver_info where
  "seeker_info = (gain_info ''demo.seeker'' ''mesh'' ''y'')\<lparr>si_eps_seeking := True\<rparr>"

definition seeker_fn :: solve_fn where
  "seeker_fn =
     \<lparr>sf_call = (\<lambda>x eps. Ok \<lparr>so_values = [(''y'', Fin 0)], so_measured_eps = eps, so_payloads = []\<rparr>),
      sf_eps_seeking = True, sf_probe_tools = None\<rparr>"

definition seeker_pins :: "(string, payload_ref) dict" where
  "seeker_pins = [(''mesh'', \<lparr>pr_kind = ''mesh'', pr_digest = ''d'', pr_origin = ''o''\<rparr>)]"

definition seeker_entry :: "real \<Rightarrow> step_entry" where
  "seeker_entry eps = \<lparr>se_hull = [(''y'', \<lparr>iv_lo = 0, iv_hi = 0\<rparr>)], se_refs = [], se_eps = eps\<rparr>"

lemma seeker_sweep:
  "0 \<le> eps \<Longrightarrow> sweep_step seeker_info seeker_fn seeker_pins [] [] (Some (Fin eps)) = Ok (seeker_entry eps)"
proof -
  assume eps: "0 \<le> eps"
  have ports: "scalar_outputs_of [] seeker_info = [''y'']" "payload_outputs_of [] seeker_info = []"
    by (simp_all add: scalar_outputs_of_def payload_outputs_of_def seeker_info_def gain_info_def is_payload_port_def)
  have "enumerate_corners [] = [[]]"
    by (simp add: enumerate_corners_def rust_enumerate_corners_def btree_of_def)
  then show ?thesis
    using eps by (simp add: sweep_step_def corner_sweep_def make_corner_fn_def seeker_fn_def invoke_solve_fn_def
        ports check_step_output_def dhas_def check_measured_def dict_of_def btree_of_def hull_point_def
        step_eps_of_def py_max_def seeker_entry_def)
qed

theorem step_cache_ignores_budget_witness:
  "\<exists>c. fst (cached_step (\<lambda>_. ''k'') (\<lambda>_. []) seeker_info seeker_fn seeker_pins [] [] (Some (Fin 1)) (Some c)) = Ok (seeker_entry 5) \<and>
     sweep_step seeker_info seeker_fn seeker_pins [] [] (Some (Fin 1)) = Ok (seeker_entry 1)"
proof -
  have s: "si_deterministic seeker_info" "seeker_pins \<noteq> []" "sf_probe_tools seeker_fn = None"
    "step_entry_ok (seeker_entry 5)"
    by (simp_all add: seeker_info_def gain_info_def seeker_pins_def seeker_fn_def seeker_entry_def
        step_entry_ok_def bt_ok_def iv_valid_def)
  show ?thesis
    using step_cache_ignores_budget [OF s(1-3) _ seeker_sweep s(4),
        where c = "\<lparr>sc_files = [], sc_hits = 0, sc_misses = 0\<rparr>" and H = "\<lambda>_. ''k''"
          and dumps = "\<lambda>_. []" and rem' = "Some (Fin 1)"]
      seeker_sweep [of 1] by auto
qed

end
