(* ===== verification/Solve_Properties.thy ===== *)
theory Solve_Properties
  imports Execute_Properties
begin

text \<open>
  Properties of \<open>solve()\<close>: the reroute loop, the end-to-end error guarantee and the solve
  cache.
\<close>

section \<open>The loop\<close>

lemma solve_start_None:
  "\<not> rp_cache policy \<Longrightarrow> round_inv r False (solve_start policy None sf files)"
  by (simp add: round_inv_start)

text \<open>C14: if every call of the planner returns, \<open>solve()\<close> returns: each reroute excludes one more
  registered solver.\<close>

theorem solve_terminates:
  assumes "\<forall>rq ex. replan ev r rq ex \<noteq> None"
  shows "\<exists>res. solve ev r known tags target eps_budget sense policy payloads sc sf files = Some res"
  using solve_loop_returns [of ev r] assms
  by (auto simp: solve_def split: outcome.split)

lemma rust_plan_empty: "rust_plan H bits [] known rq \<noteq> None"
  by (simp add: rust_plan_def)

theorem solve_terminates_witness:
  "\<exists>res. solve \<lparr>ev_hash = \<lambda>_. ''h'', ev_dumps = \<lambda>_. [], ev_bits = \<lambda>_. [], ev_repr = \<lambda>_. []\<rparr>
     registry_new gain_known [] ''y'' (Fin 10) (SenseObj BOTH)
     \<lparr>rp_fallback = True, rp_cache = False, rp_threads = 1\<rparr> [] None [] [] = Some res"
proof (rule solve_terminates, intro allI)
  fix rq ex
  have "excluding_view (registry_new, ex) = []"
    by (simp add: excluding_view_def registry_iter_def registry_new_def dsorted_def)
  then show "replan \<lparr>ev_hash = \<lambda>_. ''h'', ev_dumps = \<lambda>_. [], ev_bits = \<lambda>_. [], ev_repr = \<lambda>_. []\<rparr>
      registry_new rq ex \<noteq> None"
    using rust_plan_empty by (simp add: replan_def plan_def claim_senses_coerce_def summaries_def)
qed

text \<open>The sample request, solved.\<close>

definition toy_env :: env where
  "toy_env = \<lparr>ev_hash = \<lambda>_. ''h'', ev_dumps = \<lambda>_. [], ev_bits = \<lambda>_. [], ev_repr = \<lambda>_. []\<rparr>"

definition plain_policy :: route_policy where
  "plain_policy = \<lparr>rp_fallback = True, rp_cache = False, rp_threads = 1\<rparr>"

lemma gain_solve:
  obtains sol c fs where
    "solve toy_env (gain_registry 2) gain_known [] ''y'' (Fin 10) (SenseObj BOTH) plain_policy [] None [] [] =
       Some (Ok sol, c, fs)"
    "\<not> sol_cache_hit sol" "sol_route sol = gain_route (\<lambda>_. ''h'')" "sol_value sol = \<lparr>iv_lo = 2, iv_hi = 4\<rparr>"
proof -
  let ?r = "gain_registry 2" and ?H = "\<lambda>_ :: json. ''h''"
  let ?rq = "\<lparr>sq_known = gain_known, sq_tags = [], sq_target = ''y'', sq_eps_budget = Fin 10,
    sq_sense = BOTH, sq_payloads = []\<rparr>"
  let ?lp = "solve_start plain_policy None [] []"
  have view: "excluding_view (?r, {}) = [gain_pair ''demo.gain'' ''x'' ''y'' 2]"
    by (simp add: excluding_view_def)
  have route: "replan toy_env ?r ?rq {} = Some (Ok (gain_route ?H))"
    using gain_plan_facade [of ?H "\<lambda>_. []" 2] by (simp add: replan_def view toy_env_def)
  obtain sol where sol: "execute_impl ?H (\<lambda>_. []) (gain_route ?H) ?r gain_known [] None (Some (Fin 10)) = (Ok sol, None)"
    "sol_value sol = \<lparr>iv_lo = 2, iv_hi = 4\<rparr>" "sol_eps sol = 0" "sol_route sol = gain_route ?H"
    "sol_cache_hit sol = False"
    by (rule gain_execute)
  let ?sol = "sol\<lparr>sol_attempts := [], sol_eps_budget := Some (Fin 10)\<rparr>"
  have "run_route toy_env ?r ?rq plain_policy (gain_route ?H) None ?lp = Inr (Ok ?sol, None, [])"
    using sol by (simp add: run_route_def solve_start_def toy_env_def plain_policy_def succeed_def Let_def
        total_error_def half_width_def width_def)
  then have "solve_iter toy_env ?r ?rq plain_policy ?lp = Some (Inr (Ok ?sol, None, []))"
    using route by (simp add: solve_iter_def solve_start_def with_route_def route_key_def plain_policy_def)
  then have "solve_loop toy_env ?r ?rq plain_policy ?lp = Some (Ok ?sol, None, [])"
    by (subst solve_loop.simps) simp
  then have "solve toy_env ?r gain_known [] ''y'' (Fin 10) (SenseObj BOTH) plain_policy [] None [] [] =
      Some (Ok ?sol, None, [])" by (simp add: solve_def claim_senses_coerce_def)
  then show ?thesis using sol by (intro that [of ?sol None "[]"]) simp_all
qed

text \<open>An answer that did not come from the cache was computed.\<close>

lemma solve_computed:
  assumes "solve ev r known tags target eps_budget (SenseObj sense) policy payloads None sf files = Some (Ok sol, c, fs)"
    "[] \<notin> pair_id ` set (registry_iter r)" "\<not> rp_cache policy" "\<not> sol_cache_hit sol"
  shows "computed ev r \<lparr>sq_known = known, sq_tags = tags, sq_target = target, sq_eps_budget = eps_budget,
    sq_sense = sense, sq_payloads = payloads\<rparr> False sol"
proof -
  let ?rq = "\<lparr>sq_known = known, sq_tags = tags, sq_target = target, sq_eps_budget = eps_budget,
    sq_sense = sense, sq_payloads = payloads\<rparr>"
  have loop: "solve_loop ev r ?rq policy (solve_start policy None sf files) = Some (Ok sol, c, fs)"
    using assms(1) by (simp add: solve_def claim_senses_coerce_def)
  have "result_ok ev r ?rq False (Ok sol, c, fs)"
    using solve_loop_result [OF loop solve_start_None [OF assms(3)]] assms(2) by (simp add: registry_ids_def)
  then show ?thesis using assms(4) by (simp add: result_ok_def)
qed



text \<open>C15: the trail of a computed answer: the attempts name pairwise different solvers of the
  registry, each attempt was planned without the solvers that had failed before it, and the
  route of the answer uses none of them.\<close>

theorem answer_avoids_failed:
  assumes "[] \<notin> pair_id ` set (registry_iter r)"
    "solve ev r known tags target eps_budget (SenseObj sense) policy payloads sc sf files = Some (Ok sol, c, fs)"
    "\<not> sol_cache_hit sol"
  shows "\<exists>failed. map ar_failed_solver_id (sol_attempts sol) = map Some failed \<and> distinct failed \<and>
    set failed \<subseteq> pair_id ` set (registry_iter r) \<and>
    (\<forall>i < length failed. ar_excluded (sol_attempts sol ! i) = sorted_list_of_set (set (take i failed))) \<and>
    rs_solver_id ` set (rt_steps (sol_route sol)) \<inter> set failed = {}"
proof -
  let ?rq = "\<lparr>sq_known = known, sq_tags = tags, sq_target = target, sq_eps_budget = eps_budget,
    sq_sense = sense, sq_payloads = payloads\<rparr>"
  let ?ats = "sol_attempts sol" and ?ids = "registry_ids r"
  let ?failed = "map (\<lambda>a. the (ar_failed_solver_id a)) (sol_attempts sol)"
  have loop: "solve_loop ev r ?rq policy (solve_start policy sc sf files) = Some (Ok sol, c, fs)"
    using assms(2) by (simp add: solve_def claim_senses_coerce_def)
  have "round_inv r True (solve_start policy sc sf files)" by (simp add: round_inv_start)
  from solve_loop_result [OF loop this] have "computed ev r ?rq True sol"
    using assms(1,3) by (simp add: registry_ids_def result_ok_def)
  then have t: "trail_ok ?ids ?ats" "route_from_view r ?rq (failed_ids ?ats) (sol_route sol)"
    by (simp_all add: computed_def)
  note trail = t(1) [unfolded trail_ok_def, rule_format]
  have some: "ar_failed_solver_id a = Some (the (ar_failed_solver_id a))" if a: "a \<in> set ?ats" for a
    using a trail by (metis in_set_conv_nth option.sel)
  have take: "failed_ids (take i ?ats) = set (take i ?failed)" for i
  proof -
    have "ar_failed_solver_id a = Some (the (ar_failed_solver_id a))" if a: "a \<in> set (take i ?ats)" for a
      using some [OF in_set_takeD [OF a]] .
    then have "failed_ids (take i ?ats) = (\<lambda>a. the (ar_failed_solver_id a)) ` set (take i ?ats)"
      unfolding failed_ids_def by (force simp del: option.collapse)
    then show ?thesis by (simp add: take_map)
  qed
  have new: "?failed ! i \<in> ?ids - set (take i ?failed) \<and>
      ar_excluded (?ats ! i) = sorted_list_of_set (set (take i ?failed))" if i: "i < length ?ats" for i
    using trail [OF i] i unfolding take by auto
  have "distinct ?failed"
    unfolding distinct_conv_nth
  proof (intro allI impI)
    fix i j assume ij: "i < length ?failed" "j < length ?failed" "i \<noteq> j"
    have less: "?failed ! a \<noteq> ?failed ! b" if h: "a < b" "b < length ?failed" for a b
    proof -
      have "?failed ! a \<in> set (take b ?failed)" using h by (auto simp: in_set_conv_nth)
      moreover have "?failed ! b \<notin> set (take b ?failed)" using new [of b] h by simp
      ultimately show ?thesis by metis
    qed
    then show "?failed ! i \<noteq> ?failed ! j" using ij by (metis linorder_neqE_nat)
  qed
  moreover have "set ?failed \<subseteq> ?ids" using new by (auto simp: in_set_conv_nth)
  moreover have "failed_ids ?ats = set ?failed" using take [of "length ?ats"] by simp
  then have "set (route_ids (sol_route sol)) \<inter> set ?failed = {}"
    using route_from_view_ids [OF t(2)] by auto
  then have "rs_solver_id ` set (rt_steps (sol_route sol)) \<inter> set ?failed = {}" by (simp add: route_ids_def)
  moreover have "map ar_failed_solver_id ?ats = map Some ?failed" using some by simp
  ultimately show ?thesis using new unfolding registry_ids_def by (intro exI [of _ ?failed]) auto
qed

theorem answer_avoids_failed_witness:
  "\<exists>sol failed. map_option fst (solve toy_env (gain_registry 2) gain_known [] ''y'' (Fin 10) (SenseObj BOTH)
      plain_policy [] None [] []) = Some (Ok sol) \<and>
     map ar_failed_solver_id (sol_attempts sol) = map Some failed \<and>
     rs_solver_id ` set (rt_steps (sol_route sol)) \<inter> set failed = {}"
proof -
  obtain sol c fs where sol: "solve toy_env (gain_registry 2) gain_known [] ''y'' (Fin 10) (SenseObj BOTH)
      plain_policy [] None [] [] = Some (Ok sol, c, fs)" "\<not> sol_cache_hit sol" by (rule gain_solve)
  have "[] \<notin> pair_id ` set (registry_iter (gain_registry 2))" by simp
  from answer_avoids_failed [OF this sol] show ?thesis using sol(1) by auto
qed

text \<open>a known target that is wider than the budget makes \<open>solve()\<close> with fallback raise
  \<open>IndexError\<close> instead of returning an error value: the planned route has no step, and the
  budget check reads \<open>route.steps[-1]\<close>.\<close>

theorem wide_known_target_raises:
  assumes "dget known target = Some iv" "0 < budget" "budget < half_width iv"
    "rp_fallback policy" "\<not> rp_cache policy"
  shows "\<exists>c fs. solve ev r known tags target (Fin budget) (SenseObj sense) policy [] None sf files =
    Some (Raise IndexError, c, fs)"
proof -
  let ?rq = "\<lparr>sq_known = known, sq_tags = tags, sq_target = target, sq_eps_budget = Fin budget,
    sq_sense = sense, sq_payloads = []\<rparr>"
  let ?lp = "solve_start policy None sf files"
  have "dhas known target" using assms(1) by (simp add: dhas_def)
  then obtain route where route: "replan ev r ?rq {} = Some (Ok route)"
    "rt_target route = target" "rt_steps route = []"
    using assms(2) by (simp add: replan_def plan_def claim_senses_coerce_def rust_plan_def
        merge_payloads_def dkeys_def)
  obtain sol where sol: "execute_impl (ev_hash ev) (ev_dumps ev) route r known [] None (Some (Fin budget)) = (Ok sol, None)"
    "sol_value sol = iv" "sol_eps sol = 0"
    using route(2,3) assms(1)
    by (simp add: execute_impl_def Let_def exec_start_def solution_of_def route_settings_digest_def)
  have "total_error iv 0 = half_width iv" by (simp add: total_error_def)
  then have "run_route ev r ?rq policy route None ?lp = Inr (finish ?lp (Raise IndexError))"
    using sol assms(3-5) route(3)
    by (simp add: run_route_def solve_start_def budget_failed_def last_step_id_def)
  then have "solve_iter ev r ?rq policy ?lp = Some (Inr (finish ?lp (Raise IndexError)))"
    using route assms(5) by (simp add: solve_iter_def solve_start_def with_route_def route_key_def)
  then have "solve_loop ev r ?rq policy ?lp = Some (finish ?lp (Raise IndexError))"
    by (subst solve_loop.simps) simp
  then show ?thesis by (simp add: solve_def claim_senses_coerce_def finish_def)
qed

theorem wide_known_target_raises_witness:
  "\<exists>c fs. solve \<lparr>ev_hash = \<lambda>_. ''h'', ev_dumps = \<lambda>_. [], ev_bits = \<lambda>_. [], ev_repr = \<lambda>_. []\<rparr>
     registry_new gain_known [] ''x'' (Fin (1 / 4)) (SenseObj BOTH)
     \<lparr>rp_fallback = True, rp_cache = False, rp_threads = 1\<rparr> [] None [] [] = Some (Raise IndexError, c, fs)"
  by (rule wide_known_target_raises [of _ _ "\<lparr>iv_lo = 1, iv_hi = 2\<rparr>"])
    (simp_all add: gain_known_def half_width_def width_def)

section \<open>The solve cache\<close>


text \<open>a hit does not give back what was stored: the symbolic facts of the steps are not written
  to the entry, so a stored solution that has one comes back without it.\<close>

theorem solve_cache_drops_symbolic:
  assumes "solution_storable s" "sol_step_algebraic_form s \<noteq> []"
  shows "\<exists>s'. solve_lookup k (solve_cache_put k s fs) = Some s' \<and>
    sol_value s' = sol_value s \<and> sol_step_algebraic_form s' = []"
proof -
  have st: "solution_storable (s\<lparr>sol_cache_hit := False\<rparr>)"
    using assms(1) by (simp add: solution_storable_def)
  show ?thesis
    by (simp add: solve_lookup_def solve_cache_get_def solve_cache_put_def solution_stored [OF st]
        tools_still_consistent_def forget_symbolic_def)
qed

definition small_solution :: solution where
  "small_solution =
     \<lparr>sol_target = ''y'', sol_value = \<lparr>iv_lo = 0, iv_hi = 1\<rparr>, sol_eps = 0,
      sol_route = \<lparr>rt_target = ''y'', rt_steps = [], rt_predicted_eps = 0, rt_total_cost = Fin 0, rt_digest = ''d''\<rparr>,
      sol_settings_digest = ''s'', sol_solver_versions = [], sol_attempts = [], sol_cache_hit = True,
      sol_step_eps = [], sol_step_citations = [], sol_step_declared_domain = [],
      sol_step_algebraic_form = [], sol_step_admission_predicate = [], sol_eps_budget = None\<rparr>"

lemma small_storable: "solution_storable small_solution"
  by (simp add: solution_storable_def small_solution_def iv_valid_def bt_ok_def)


theorem solve_cache_drops_symbolic_witness:
  "\<exists>s'. solve_lookup ''k'' (solve_cache_put ''k'' (small_solution\<lparr>sol_step_algebraic_form := [(''a'', ''f'')]\<rparr>) []) = Some s' \<and>
     sol_step_algebraic_form s' = []"
proof -
  have "solution_storable (small_solution\<lparr>sol_step_algebraic_form := [(''a'', ''f'')]\<rparr>)"
    using small_storable by (simp add: solution_storable_def)
  from solve_cache_drops_symbolic [OF this] show ?thesis by auto
qed

end
