(* ===== verification/Plan_Report.thy ===== *)
theory Plan_Report
  imports Plan_Execute
begin

text \<open>
  The justification report (\<open>plan/report.py\<close>). A dict with fixed keys is a record here; the
  number format \<open>fmt\<close> (\<open>format_f64\<close>) and the string \<open>repr\<close> are parameters. Both renderings
  read the same step records.
\<close>

section \<open>Records of the report\<close>

record domain_report =
  dr_box :: "(string, interval) dict"
  dr_tags :: "string list"

record step_record =
  sr_solver_id :: string
  sr_citations :: "citation list"
  sr_declared_domain :: "domain_report option"
  sr_realized_domain :: domain_report
  sr_predicted_eps :: real
  sr_charged_eps :: "real option"
  sr_cost :: fl
  sr_algebraic_form :: "string option"
  sr_admission_predicate :: "string option"

record attempt_report =
  tr_excluded :: "string list"
  tr_route_digest :: "string option"
  tr_failed_solver_id :: "string option"
  tr_error_kind :: string
  tr_error_detail :: "(string, prim) dict"

record route_report =
  rr_digest :: string
  rr_total_cost :: fl
  rr_predicted_eps :: real
  rr_steps :: "step_record list"

record report =
  rp_target :: string
  rp_value :: interval
  rp_eps :: real
  rp_realized_error :: real
  rp_eps_budget :: "fl option"
  rp_eps_remaining :: "fl option"
  rp_route :: route_report
  rp_settings_digest :: string
  rp_solver_versions :: "(string, string) dict"
  rp_cache_hit :: bool
  rp_attempts :: "attempt_report list"

definition domain_dict :: "domain \<Rightarrow> domain_report" where
  "domain_dict d = \<lparr>dr_box = sort_key fst (d_box d), dr_tags = sort (d_tags d)\<rparr>"

definition step_record_of :: "solution \<Rightarrow> route_step \<Rightarrow> step_record" where
  "step_record_of s step =
     (let sid = rs_solver_id step in
      \<lparr>sr_solver_id = sid,
       sr_citations = (case dget (sol_step_citations s) sid of None \<Rightarrow> [] | Some cs \<Rightarrow> cs),
       sr_declared_domain = map_option domain_dict (dget (sol_step_declared_domain s) sid),
       sr_realized_domain = domain_dict (rs_realized_domain step),
       sr_predicted_eps = rs_predicted_eps step,
       sr_charged_eps = dget (sol_step_eps s) sid,
       sr_cost = rs_cost step,
       sr_algebraic_form = dget (sol_step_algebraic_form s) sid,
       sr_admission_predicate = dget (sol_step_admission_predicate s) sid\<rparr>)"

definition step_records :: "solution \<Rightarrow> step_record list" where
  "step_records s = map (step_record_of s) (rt_steps (sol_route s))"

definition attempt_report_of :: "attempt_record \<Rightarrow> attempt_report" where
  "attempt_report_of a =
     \<lparr>tr_excluded = ar_excluded a, tr_route_digest = ar_route_digest a,
      tr_failed_solver_id = ar_failed_solver_id a, tr_error_kind = ar_error_kind a,
      tr_error_detail = ar_error_detail a\<rparr>"

definition render_to_dict :: "solution \<Rightarrow> report" where
  "render_to_dict s =
     (let realized = total_error (sol_value s) (sol_eps s) in
      \<lparr>rp_target = sol_target s, rp_value = sol_value s, rp_eps = sol_eps s,
       rp_realized_error = realized, rp_eps_budget = sol_eps_budget s,
       rp_eps_remaining = map_option (\<lambda>b. fl_sub b (Fin realized)) (sol_eps_budget s),
       rp_route = \<lparr>rr_digest = rt_digest (sol_route s), rr_total_cost = rt_total_cost (sol_route s),
                   rr_predicted_eps = rt_predicted_eps (sol_route s), rr_steps = step_records s\<rparr>,
       rp_settings_digest = sol_settings_digest s,
       rp_solver_versions = sol_solver_versions s,
       rp_cache_hit = sol_cache_hit s,
       rp_attempts = map attempt_report_of (sol_attempts s)\<rparr>)"

section \<open>The text\<close>

text \<open>The decimal digits of a count.\<close>

fun nat_str :: "nat \<Rightarrow> string" where
  "nat_str n = (if n < 10 then [char_of (48 + n)] else nat_str (n div 10) @ [char_of (48 + n mod 10)])"

declare nat_str.simps [simp del]

fun join_sep :: "string \<Rightarrow> string list \<Rightarrow> string" where
  "join_sep sep [] = []"
| "join_sep sep [x] = x"
| "join_sep sep (x # xs) = x @ sep @ join_sep sep xs"

definition py_bool_str :: "bool \<Rightarrow> string" where
  "py_bool_str b = (if b then ''True'' else ''False'')"

definition fmt_domain :: "(fl \<Rightarrow> string) \<Rightarrow> string \<Rightarrow> domain_report option \<Rightarrow> string \<Rightarrow> string list" where
  "fmt_domain fmt label d indent =
     (case d of
        None \<Rightarrow> [indent @ label @ '': (not carried)'']
      | Some d \<Rightarrow>
          [indent @ label @ '': box=('' @
           join_sep '', '' (map (\<lambda>(p, iv). p @ ''=['' @ fmt (Fin (iv_lo iv)) @ '', '' @ fmt (Fin (iv_hi iv)) @ '']'') (dr_box d)) @
           '') tags=('' @ (if dr_tags d = [] then ''(none)'' else join_sep '', '' (dr_tags d)) @ '')''])"

text \<open>Python's \<open>or\<close> on an optional string.\<close>

definition str_or :: "string option \<Rightarrow> string \<Rightarrow> string" where
  "str_or x d = (case x of None \<Rightarrow> d | Some s \<Rightarrow> if s = [] then d else s)"

definition citation_lines :: "citation list \<Rightarrow> string list" where
  "citation_lines cs =
     (if cs = [] then [''    citation: (none carried)'']
      else map (\<lambda>c. ''    citation: '' @ ct_kind c @ '': '' @ ct_ref c @
                     (if ct_note c = [] then [] else '' -- '' @ ct_note c)) cs)"

definition step_lines ::
  "(fl \<Rightarrow> string) \<Rightarrow> (string \<Rightarrow> string) \<Rightarrow> nat \<Rightarrow> step_record \<Rightarrow> string list" where
  "step_lines fmt srepr i rec =
     [''  step '' @ nat_str i @ '': solver='' @ srepr (sr_solver_id rec)] @
     citation_lines (sr_citations rec) @
     fmt_domain fmt ''declared_domain'' (sr_declared_domain rec) ''    '' @
     fmt_domain fmt ''realized_domain'' (Some (sr_realized_domain rec)) ''    '' @
     [''    predicted_eps='' @ fmt (Fin (sr_predicted_eps rec)) @ ''  charged_eps='' @
        (case sr_charged_eps rec of None \<Rightarrow> ''(not carried)'' | Some e \<Rightarrow> fmt (Fin e)) @
        ''  cost='' @ fmt (sr_cost rec),
      ''    algebraic_form: '' @ str_or (sr_algebraic_form rec) ''(not carried -- hand-written direction)'',
      ''    admission_predicate: '' @ str_or (sr_admission_predicate rec) ''(none)'']"

definition attempt_line :: "nat \<Rightarrow> attempt_record \<Rightarrow> string" where
  "attempt_line i a =
     ''    attempt '' @ nat_str i @ '': excluded=('' @
     (if ar_excluded a = [] then ''(none)'' else join_sep '', '' (ar_excluded a)) @
     '') failed_step='' @ str_or (ar_failed_solver_id a) ''(plan itself)'' @
     '' error='' @ ar_error_kind a"

definition numbered :: "(nat \<Rightarrow> 'a \<Rightarrow> 'b) \<Rightarrow> 'a list \<Rightarrow> 'b list" where
  "numbered f xs = map (\<lambda>(i, x). f (Suc i) x) (enumerate 0 xs)"

definition budget_line :: "(fl \<Rightarrow> string) \<Rightarrow> solution \<Rightarrow> string" where
  "budget_line fmt s =
     (let realized = total_error (sol_value s) (sol_eps s) in
      case sol_eps_budget s of
        None \<Rightarrow> ''  eps_budget: (no budget context -- execute() called directly)''
      | Some b \<Rightarrow>
          ''  eps_budget='' @ fmt b @ ''  spent='' @ fmt (Fin realized) @ ''  remaining='' @
          fmt (fl_sub b (Fin realized)))"

definition explain_lines ::
  "(fl \<Rightarrow> string) \<Rightarrow> (string \<Rightarrow> string) \<Rightarrow> solution \<Rightarrow> string list" where
  "explain_lines fmt srepr s =
     [''Solution for target='' @ srepr (sol_target s),
      ''  value=['' @ fmt (Fin (iv_lo (sol_value s))) @ '', '' @ fmt (Fin (iv_hi (sol_value s))) @
        '']  eps='' @ fmt (Fin (sol_eps s)),
      ''  realized_error(worst-case)='' @ fmt (Fin (total_error (sol_value s) (sol_eps s))),
      budget_line fmt s,
      ''  cache_hit='' @ py_bool_str (sol_cache_hit s),
      ''  settings_digest='' @ sol_settings_digest s,
      ''  route_digest='' @ rt_digest (sol_route s),
      ''  route_total_cost='' @ fmt (rt_total_cost (sol_route s))] @
     (let steps = step_records s in
      if steps = [] then [''  route: zero-step (target already known)'']
      else (''  route: '' @ nat_str (length steps) @ '' step(s)'') # concat (numbered (step_lines fmt srepr) steps)) @
     (if sol_attempts s = [] then [''  reroute trail: (none -- solved on the first attempt)'']
      else (''  reroute trail: '' @ nat_str (length (sol_attempts s)) @ '' attempt(s)'') #
             numbered attempt_line (sol_attempts s))"

definition render_explain :: "(fl \<Rightarrow> string) \<Rightarrow> (string \<Rightarrow> string) \<Rightarrow> solution \<Rightarrow> string" where
  "render_explain fmt srepr s = join_sep [CHR 0x0A] (explain_lines fmt srepr s)"

section \<open>Facts\<close>

lemma attempt_report_inj: "attempt_report_of a = attempt_report_of b \<longleftrightarrow> a = b"
  by (cases a; cases b) (simp add: attempt_report_of_def)

lemma step_records_length [simp]: "length (step_records s) = length (rt_steps (sol_route s))"
  by (simp add: step_records_def)

end
