(* ===== verification/Report_Properties.thy ===== *)
theory Report_Properties
  imports Solve_Properties Plan_Report
begin

text \<open>
  Properties of the justification report.
\<close>

lemma map_attempts_inj: "map attempt_report_of as = map attempt_report_of bs \<Longrightarrow> as = bs"
  by (rule list.inj_map_strong [of as bs attempt_report_of attempt_report_of])
    (simp_all add: attempt_report_inj)

text \<open>the two forms of the report cannot drift apart: the text is a function of the dict, so
  solutions with the same dict have the same text.\<close>

theorem explain_determined_by_dict:
  assumes "render_to_dict s = render_to_dict s'"
  shows "render_explain fmt srepr s = render_explain fmt srepr s'"
proof -
  have e: "sol_target s = sol_target s'" "sol_value s = sol_value s'" "sol_eps s = sol_eps s'"
    "sol_eps_budget s = sol_eps_budget s'" "step_records s = step_records s'"
    "sol_settings_digest s = sol_settings_digest s'" "sol_cache_hit s = sol_cache_hit s'"
    "rt_digest (sol_route s) = rt_digest (sol_route s')"
    "rt_total_cost (sol_route s) = rt_total_cost (sol_route s')"
    "map attempt_report_of (sol_attempts s) = map attempt_report_of (sol_attempts s')"
    using assms by (simp_all add: render_to_dict_def Let_def)
  have a: "sol_attempts s = sol_attempts s'" by (rule map_attempts_inj [OF e(10)])
  show ?thesis
    unfolding render_explain_def explain_lines_def budget_line_def e(1-9) a ..
qed

theorem explain_determined_by_dict_witness:
  "render_explain (\<lambda>_. ''0'') (\<lambda>t. t) (small_solution\<lparr>sol_step_eps := [(''other'', 1)]\<rparr>) =
   render_explain (\<lambda>_. ''0'') (\<lambda>t. t) small_solution"
  by (rule explain_determined_by_dict)
    (simp add: render_to_dict_def step_records_def small_solution_def)

text \<open>every answer \<open>solve()\<close> computed reports a budget that is not overspent, and one record
  per step of its route.\<close>

theorem answer_within_budget:
  assumes "[] \<notin> pair_id ` set (registry_iter r)"
    "solve ev r known tags target eps_budget (SenseObj sense) policy payloads sc sf files = Some (Ok sol, c, fs)"
    "\<not> sol_cache_hit sol"
  shows "\<exists>b rest. eps_budget = Fin b \<and> rp_eps_remaining (render_to_dict sol) = Some (Fin rest) \<and> 0 \<le> rest \<and>
    rp_realized_error (render_to_dict sol) + rest = b \<and>
    length (rr_steps (rp_route (render_to_dict sol))) = length (rt_steps (sol_route sol))"
proof -
  let ?rq = "\<lparr>sq_known = known, sq_tags = tags, sq_target = target, sq_eps_budget = eps_budget,
    sq_sense = sense, sq_payloads = payloads\<rparr>"
  have loop: "solve_loop ev r ?rq policy (solve_start policy sc sf files) = Some (Ok sol, c, fs)"
    using assms(2) by (simp add: solve_def claim_senses_coerce_def)
  have "round_inv r True (solve_start policy sc sf files)" by (simp add: round_inv_start)
  from solve_loop_result [OF loop this] have "computed ev r ?rq True sol"
    using assms(1,3) by (simp add: registry_ids_def result_ok_def)
  then obtain b where b: "eps_budget = Fin b" "sol_eps_budget sol = Some (Fin b)"
    "total_error (sol_value sol) (sol_eps sol) \<le> b"
    by (auto simp: computed_def route_from_view_def)
  then show ?thesis
    by (intro exI [of _ b] exI [of _ "b - total_error (sol_value sol) (sol_eps sol)"])
      (simp add: render_to_dict_def Let_def)
qed

theorem answer_within_budget_witness:
  "\<exists>sol rest. map_option fst (solve toy_env (gain_registry 2) gain_known [] ''y'' (Fin 10) (SenseObj BOTH)
      plain_policy [] None [] []) = Some (Ok sol) \<and>
     rp_eps_remaining (render_to_dict sol) = Some (Fin rest) \<and> 0 \<le> rest"
proof -
  obtain sol c fs where sol: "solve toy_env (gain_registry 2) gain_known [] ''y'' (Fin 10) (SenseObj BOTH)
      plain_policy [] None [] [] = Some (Ok sol, c, fs)" "\<not> sol_cache_hit sol" by (rule gain_solve)
  have "[] \<notin> pair_id ` set (registry_iter (gain_registry 2))" by simp
  from answer_within_budget [OF this sol] show ?thesis using sol(1) by auto
qed

end
