(* ===== verification/Ladder_Properties.thy ===== *)
theory Ladder_Properties
  imports Fea_Ladder
begin

text \<open>
  Properties of the refinement ladder and of its extrapolation.
\<close>

section \<open>Extrapolation\<close>

text \<open>C22: when the two values converge with exactly the assumed order, from \<open>v + c * h powr p\<close>
  to \<open>v + c * (h / 2) powr p\<close> with \<open>p \<ge> 1\<close>, the extrapolation is the limit \<open>v\<close> itself and
  the reported eps covers the error of the finer value.\<close>

theorem richardson_exact:
  assumes "1 \<le> p" "0 \<le> h" "1 \<le> sf"
  shows "\<exists>eps. richardson_extrapolate (Fin (v + c * h powr p)) (Fin (v + c * (h / 2) powr p)) p sf =
      (Ok \<lparr>rr_extrapolated = Fin v, rr_order_used = p, rr_eps = Fin eps, rr_fallback_used = False\<rparr>
        :: (richardson_result, 'e) outcome) \<and>
    \<bar>v + c * (h / 2) powr p - v\<bar> \<le> eps"
proof -
  let ?q = "2 powr p" and ?t = "c * (h / 2) powr p"
  have q: "2 \<le> ?q"
    using powr_mono [of 1 p 2] assms(1) by simp
  have p: "p \<noteq> 0" using assms(1) by simp
  then have hp: "c * h powr p = ?q * ?t"
    using assms(2) by (simp add: powr_divide)
  have diff: "(v + ?t) - (v + c * h powr p) = - ((?q - 1) * ?t)"
    unfolding hp by (simp add: algebra_simps)
  have corr: "((v + ?t) - (v + c * h powr p)) / (?q - 1) = - ?t"
    unfolding diff using q p by simp
  have "1 * \<bar>?t\<bar> \<le> (?q - 1) * \<bar>?t\<bar>"
    using q by (intro mult_right_mono) auto
  then have small: "\<not> \<bar>(v + ?t) - (v + c * h powr p)\<bar> < \<bar>- ?t\<bar>"
    unfolding diff abs_minus_cancel abs_mult [of "?q - 1"] using q by simp
  have ne: "?q \<noteq> 1" using q by linarith
  have "richardson_extrapolate (Fin (v + c * h powr p)) (Fin (v + ?t)) p sf =
      (Ok \<lparr>rr_extrapolated = Fin v, rr_order_used = p, rr_eps = Fin (sf * \<bar>?t\<bar>),
           rr_fallback_used = False\<rparr> :: (richardson_result, 'e) outcome)"
    unfolding richardson_Fin [OF ne] Let_def corr using small by simp
  moreover have "\<bar>v + ?t - v\<bar> \<le> sf * \<bar>?t\<bar>"
    using assms(3) by (simp add: mult_le_cancel_right1)
  ultimately show ?thesis by blast
qed

theorem richardson_exact_witness:
  "\<exists>eps. richardson_extrapolate (Fin (10 + 1 * 2 powr 2)) (Fin (10 + 1 * (2 / 2) powr 2)) 2 SAFETY_FACTOR =
      (Ok \<lparr>rr_extrapolated = Fin 10, rr_order_used = 2, rr_eps = Fin eps, rr_fallback_used = False\<rparr>
        :: (richardson_result, unit) outcome) \<and>
    \<bar>10 + 1 * (2 / 2) powr 2 - 10 :: real\<bar> \<le> eps"
  by (rule richardson_exact) (simp_all add: SAFETY_FACTOR_def)

text \<open>at the theoretical order the implausibility guard never fires, however the two values
  behave: the conservative fallback cannot be reached.\<close>

theorem richardson_guard_dead:
  assumes "richardson_extrapolate (Fin a) (Fin b) THEORETICAL_ORDER sf = Ok rr"
  shows "\<not> rr_fallback_used rr \<and> rr_eps rr = Fin (sf * \<bar>b - a\<bar> / 3)"
  using assms by (auto simp: richardson_Fin THEORETICAL_ORDER_def Let_def split: if_splits)

theorem richardson_guard_dead_witness:
  "\<not> rr_fallback_used \<lparr>rr_extrapolated = Fin (- 2), rr_order_used = 2, rr_eps = Fin (9 / 2),
      rr_fallback_used = False\<rparr>"
  using richardson_guard_dead [of 10 1 SAFETY_FACTOR
      "\<lparr>rr_extrapolated = Fin (- 2), rr_order_used = 2, rr_eps = Fin (9 / 2), rr_fallback_used = False\<rparr>"]
  by (simp add: richardson_Fin THEORETICAL_ORDER_def SAFETY_FACTOR_def)

section \<open>Where the climb stops\<close>

text \<open>A rung that answers the same whatever the state of the world.\<close>

definition answers :: "('r, 's) ladder_call \<Rightarrow> ('r \<Rightarrow> (fl, solve_error) outcome) \<Rightarrow> bool" where
  "answers lc f \<longleftrightarrow> (\<forall>r s. fst (lc_run lc r s) = f r)"

definition pair_at ::
  "('r, 's) ladder_call \<Rightarrow> ('r \<Rightarrow> (fl, solve_error) outcome) \<Rightarrow> 'r list \<Rightarrow> nat \<Rightarrow> (richardson_result, solve_error) outcome" where
  "pair_at lc f rungs i =
     obind (f (rungs ! i)) (\<lambda>a. obind (f (rungs ! Suc i)) (\<lambda>b.
       richardson_extrapolate a b (lc_order lc) (lc_safety lc)))"

definition busts :: "('r, 's) ladder_call \<Rightarrow> richardson_result \<Rightarrow> bool" where
  "busts lc pair \<longleftrightarrow> (\<exists>b. lc_budget lc = Some b \<and> \<not> fl_le (rr_eps pair) b)"

lemma run_rung_None:
  "answers lc f \<Longrightarrow> \<exists>s'. run_rung lc r (None, s) = (f r, (None, s'))"
  unfolding answers_def run_rung_def by (auto split: prod.splits) (metis fst_conv)

lemma richardson_not_Err [simp]: "richardson_extrapolate a b p sf \<noteq> Err e"
  by (simp add: richardson_extrapolate_def Let_def)

lemma climb_pairs_answer:
  assumes "answers lc f" "Suc j < length rungs" "f (rungs ! j) = Ok pv"
    "climb_pairs lc (Suc j) (drop (Suc j) rungs) pv pe (None, s) = (Ok (v, eps, n), st')"
  shows "\<exists>k pair. n = k + 2 \<and> j \<le> k \<and> n \<le> length rungs \<and>
    pair_at lc f rungs k = Ok pair \<and> rr_extrapolated pair = v \<and> rr_eps pair = eps \<and>
    \<not> busts lc pair \<and> (\<forall>i \<in> {j..<k}. \<exists>q. pair_at lc f rungs i = Ok q \<and> busts lc q)"
  using assms
proof (induction "length rungs - j" arbitrary: j pv pe s rule: less_induct)
  case less
  have d: "drop (Suc j) rungs = rungs ! Suc j # drop (Suc (Suc j)) rungs"
    using less.prems(2) by (simp add: Cons_nth_drop_Suc)
  obtain s2 where run: "run_rung lc (rungs ! Suc j) (None, s) = (f (rungs ! Suc j), (None, s2))"
    using run_rung_None [OF less.prems(1)] by blast
  obtain y pair where y: "f (rungs ! Suc j) = Ok y"
    and pair: "richardson_extrapolate pv y (lc_order lc) (lc_safety lc) =
      (Ok pair :: (richardson_result, solve_error) outcome)"
    and step: "(if (case lc_budget lc of None \<Rightarrow> True | Some b \<Rightarrow> fl_le (rr_eps pair) b)
        then (Ok (rr_extrapolated pair, rr_eps pair, Suc j + 1), (None, s2))
        else climb_pairs lc (Suc j + 1) (drop (Suc (Suc j)) rungs) y (Some (rr_eps pair)) (None, s2))
      = (Ok (v, eps, n), st')"
    using less.prems(4) unfolding d climb_pairs.simps run
    by (auto split: outcome.splits if_splits)
  have at: "pair_at lc f rungs j = Ok pair" using less.prems(3) y pair by (simp add: pair_at_def)
  show ?case
  proof (cases "busts lc pair")
    case False
    then have "v = rr_extrapolated pair \<and> eps = rr_eps pair \<and> n = j + 2"
      using step by (auto simp: busts_def split: option.splits if_splits)
    then show ?thesis using at False less.prems(2) by (intro exI [of _ j] exI [of _ pair]) auto
  next
    case True
    then have next_climb: "climb_pairs lc (Suc (Suc j)) (drop (Suc (Suc j)) rungs) y (Some (rr_eps pair)) (None, s2)
        = (Ok (v, eps, n), st')"
      using step by (auto simp: busts_def split: if_splits)
    then have "drop (Suc (Suc j)) rungs \<noteq> []" by (intro notI) simp
    then have more: "Suc (Suc j) < length rungs" by simp
    from less.hyps [OF _ less.prems(1) more y next_climb] less.prems(2)
    obtain k q where k: "n = k + 2" "Suc j \<le> k" "n \<le> length rungs" "pair_at lc f rungs k = Ok q"
      "rr_extrapolated q = v" "rr_eps q = eps" "\<not> busts lc q"
      "\<forall>i \<in> {Suc j..<k}. \<exists>q. pair_at lc f rungs i = Ok q \<and> busts lc q"
      by (meson diff_less_mono2 lessI less_trans)
    have "\<exists>q. pair_at lc f rungs i = Ok q \<and> busts lc q" if "i \<in> {j..<k}" for i
      using that k(8) at True by (cases "i = j") auto
    then show ?thesis using k by (intro exI [of _ k] exI [of _ q]) auto
  qed
qed

lemma climb_answer:
  assumes "answers lc f" "climb_richardson_ladder lc rungs (None, s) = (Ok (v, eps, n), st')"
  shows "\<exists>k pair. n = k + 2 \<and> n \<le> length rungs \<and>
    pair_at lc f rungs k = Ok pair \<and> rr_extrapolated pair = v \<and> rr_eps pair = eps \<and>
    \<not> busts lc pair \<and> (\<forall>i < k. \<exists>q. pair_at lc f rungs i = Ok q \<and> busts lc q)"
proof -
  obtain r rs where r: "rungs = r # rs" "rs \<noteq> []"
    using assms(2) by (auto simp: climb_richardson_ladder_def split: list.splits if_splits)
  obtain s2 where run: "run_rung lc r (None, s) = (f r, (None, s2))"
    using run_rung_None [OF assms(1)] by blast
  obtain x where x: "f r = Ok x" "climb_pairs lc 1 rs x None (None, s2) = (Ok (v, eps, n), st')"
    using assms(2) r unfolding climb_richardson_ladder_def by (auto simp: run split: outcome.splits)
  from climb_pairs_answer [OF assms(1), of 0 rungs x None s2 v eps n st'] x r
  show ?thesis by (auto simp: Ball_def)
qed

text \<open>C23: an answer of the ladder fits the budget and is the first that does: it is the
  Richardson pair of the last two rungs that were run, and every coarser pair was over the
  budget.\<close>

theorem ladder_first_fit:
  assumes "answers lc f" "lc_budget lc = Some b"
    "climb_richardson_ladder lc rungs (None, s) = (Ok (v, eps, n), st')"
  shows "fl_le eps b \<and> 2 \<le> n \<and> n \<le> length rungs \<and>
    (\<exists>pair. pair_at lc f rungs (n - 2) = Ok pair \<and> rr_extrapolated pair = v \<and> rr_eps pair = eps) \<and>
    (\<forall>i < n - 2. \<exists>pair. pair_at lc f rungs i = Ok pair \<and> \<not> fl_le (rr_eps pair) b)"
  using climb_answer [OF assms(1,3)] assms(2) by (auto simp: busts_def)

text \<open>The rungs of a demonstration are named values; the digest of its keys is the name.\<close>

definition name_hash :: "json \<Rightarrow> string" where
  "name_hash j =
     (case j of JObj d \<Rightarrow> (case dget d ''rung_settings'' of Some (JStr s) \<Rightarrow> s | _ \<Rightarrow> []) | _ \<Rightarrow> [])"

definition demo_ladder :: "fl option \<Rightarrow> (string \<times> real, nat) ladder_call" where
  "demo_ladder budget =
     \<lparr>lc_hash = name_hash, lc_dumps = (\<lambda>j. []), lc_solver_id = ''fea'', lc_version = ''1'',
      lc_box = PyNone, lc_obj = (\<lambda>r. PyStr (fst r)), lc_run = (\<lambda>r s. (Ok (Fin (snd r)), s + 1)),
      lc_budget = budget, lc_order = 2, lc_safety = 1\<rparr>"

definition demo_rungs :: "(string \<times> real) list" where
  "demo_rungs = [(''a'', 16), (''b'', 4), (''c'', 1), (''d'', 0)]"

lemma demo_answers: "answers (demo_ladder b) (\<lambda>r. Ok (Fin (snd r)))"
  by (simp add: answers_def demo_ladder_def)

lemma demo_key [simp]: "lc_key (demo_ladder b) r = fst r"
  by (simp add: lc_key_def demo_ladder_def rung_cache_key_def canonical_digest_def
      rust_canonical_digest_def name_hash_def dsorted_def btree_of_def)

lemma demo_fields:
  "lc_run (demo_ladder b) r n = (Ok (Fin (snd r)), n + 1)" "lc_budget (demo_ladder b) = b"
  "lc_order (demo_ladder b) = 2" "lc_safety (demo_ladder b) = 1"
  by (simp_all add: demo_ladder_def)

lemma demo_climb:
  "climb_richardson_ladder (demo_ladder (Some (Fin 1))) demo_rungs (None, 0) =
     (Ok (Fin 0, Fin 1, 3), (None, 3))"
  by (simp add: climb_richardson_ladder_def run_rung_def richardson_Fin demo_fields
      demo_rungs_def Let_def)

definition demo_cache :: rung_cache where
  "demo_cache =
     \<lparr>rc_store = [(''a'', Fin 16), (''b'', Fin 4), (''c'', Fin 1)], rc_hits = 0, rc_misses = 3\<rparr>"

lemma demo_climb_cached:
  "climb_richardson_ladder (demo_ladder (Some (Fin 1))) demo_rungs (Some rung_cache_new, 0) =
     (Ok (Fin 0, Fin 1, 3), (Some demo_cache, 3))"
  by (simp add: climb_richardson_ladder_def run_rung_def richardson_Fin demo_rungs_def Let_def
      demo_fields rung_cache_get_def rung_cache_put_def rung_cache_new_def demo_cache_def)

theorem ladder_first_fit_witness:
  "fl_le (Fin 1) (Fin 1) \<and> (\<exists>pair. pair_at (demo_ladder (Some (Fin 1)))
      (\<lambda>r. Ok (Fin (snd r))) demo_rungs 0 = Ok pair \<and> \<not> fl_le (rr_eps pair) (Fin 1))"
  using ladder_first_fit [OF demo_answers _ demo_climb, of "Fin 1"]
  by (simp add: demo_ladder_def)

section \<open>The rung cache\<close>

text \<open>What the cache says about the rungs of this ladder is what running them says.\<close>

definition cache_agrees ::
  "('r, 's) ladder_call \<Rightarrow> ('r \<Rightarrow> (fl, solve_error) outcome) \<Rightarrow> 'r list \<Rightarrow> 's climb_state \<Rightarrow> bool" where
  "cache_agrees lc f rungs st \<longleftrightarrow>
     (\<forall>c. fst st = Some c \<longrightarrow>
       (\<forall>r \<in> set rungs. \<forall>v. dget (rc_store c) (lc_key lc r) = Some v \<longrightarrow> f r = Ok v))"

lemma run_rung_agrees:
  assumes "answers lc f" "inj_on (lc_key lc) (set rungs)" "cache_agrees lc f rungs st" "r \<in> set rungs"
  shows "fst (run_rung lc r st) = f r \<and> cache_agrees lc f rungs (snd (run_rung lc r st))"
proof -
  obtain co s where st: "st = (co, s)" by (cases st)
  obtain s' where run: "lc_run lc r s = (f r, s')"
    using assms(1) unfolding answers_def by (metis prod.collapse)
  show ?thesis
  proof (cases co)
    case None
    then show ?thesis by (simp add: st run_rung_def run cache_agrees_def)
  next
    case (Some c)
    show ?thesis
    proof (cases "dget (rc_store c) (lc_key lc r)")
      case None
      then show ?thesis using assms(3,4) Some
        by (auto simp: st run_rung_def run rung_cache_get_def rung_cache_put_def cache_agrees_def
            dest: inj_onD [OF assms(2)] split: outcome.splits)
    next
      case (Some v)
      then show ?thesis using assms(3,4) \<open>co = Some c\<close>
        by (auto simp: st run_rung_def rung_cache_get_def cache_agrees_def)
    qed
  qed
qed

lemma climb_pairs_agrees:
  assumes "answers lc f" "inj_on (lc_key lc) (set all)" "set rungs \<subseteq> set all"
    "cache_agrees lc f all st1" "cache_agrees lc f all st2"
  shows "fst (climb_pairs lc i rungs pv pe st1) = fst (climb_pairs lc i rungs pv pe st2)"
  using assms(3-)
proof (induction rungs arbitrary: i pv pe st1 st2)
  case (Cons r rungs)
  obtain t1 where t1: "run_rung lc r st1 = (f r, t1)" "cache_agrees lc f all t1"
    using run_rung_agrees [OF assms(1,2) Cons.prems(2), of r] Cons.prems(1) by (metis insert_subset list.simps(15) prod.collapse)
  obtain t2 where t2: "run_rung lc r st2 = (f r, t2)" "cache_agrees lc f all t2"
    using run_rung_agrees [OF assms(1,2) Cons.prems(3), of r] Cons.prems(1) by (metis insert_subset list.simps(15) prod.collapse)
  show ?case
    using Cons.IH [OF _ t1(2) t2(2)] Cons.prems(1) by (simp add: t1(1) t2(1) split: outcome.splits)
qed simp

text \<open>C24: the rung cache does not change what the climb answers, if the keys of the rungs differ
  and the cache holds what running the rungs answers.\<close>

theorem ladder_cache_transparent:
  assumes "answers lc f" "inj_on (lc_key lc) (set rungs)" "cache_agrees lc f rungs (Some c, s)"
  shows "fst (climb_richardson_ladder lc rungs (Some c, s)) =
    fst (climb_richardson_ladder lc rungs (None, s'))"
proof (cases rungs)
  case (Cons r rs)
  have none: "cache_agrees lc f rungs (None, s')" by (simp add: cache_agrees_def)
  have r: "r \<in> set rungs" using Cons by simp
  obtain t1 where t1: "run_rung lc r (Some c, s) = (f r, t1)" "cache_agrees lc f rungs t1"
    using run_rung_agrees [OF assms r] by (metis prod.collapse)
  obtain t2 where t2: "run_rung lc r (None, s') = (f r, t2)" "cache_agrees lc f rungs t2"
    using run_rung_agrees [OF assms(1,2) none r] by (metis prod.collapse)
  have "set rs \<subseteq> set rungs" using Cons by auto
  then show ?thesis
    using climb_pairs_agrees [OF assms(1,2) _ t1(2) t2(2)] Cons
    by (simp add: climb_richardson_ladder_def t1(1) t2(1) split: outcome.splits)
qed (simp add: climb_richardson_ladder_def)

theorem ladder_cache_transparent_witness:
  "fst (climb_richardson_ladder (demo_ladder (Some (Fin 0))) demo_rungs (Some demo_cache, 3)) =
   fst (climb_richardson_ladder (demo_ladder (Some (Fin 0))) demo_rungs (None, 0))"
  by (rule ladder_cache_transparent [OF demo_answers])
    (auto simp: demo_rungs_def demo_cache_def cache_agrees_def inj_on_def)


section \<open>A repeated climb\<close>

lemma rung_cache_get_eq:
  "rung_cache_get k c = (x, c') \<Longrightarrow> x = dget (rc_store c) k \<and> rc_store c' = rc_store c"
  by (auto simp: rung_cache_get_def split: option.splits)

lemma run_rung_cached:
  assumes "run_rung lc r (Some c, s) = (Ok v, (co, s'))"
  shows "\<exists>c'. co = Some c' \<and> map_of (rc_store c) \<subseteq>\<^sub>m map_of (rc_store c') \<and>
    dget (rc_store c') (lc_key lc r) = Some v"
  using assms
  by (auto simp: run_rung_def rung_cache_get_def rung_cache_put_def map_le_def
      split: option.splits prod.splits outcome.splits)

lemma run_rung_hit:
  "dget (rc_store c) (lc_key lc r) = Some v \<Longrightarrow>
   \<exists>c'. run_rung lc r (Some c, s) = (Ok v, (Some c', s)) \<and> rc_store c' = rc_store c"
  by (simp add: run_rung_def rung_cache_get_def)

text \<open>The same call with another budget.\<close>

abbreviation with_budget :: "fl \<Rightarrow> ('r, 's) ladder_call \<Rightarrow> ('r, 's) ladder_call" where
  "with_budget b lc \<equiv> lc\<lparr>lc_budget := Some b\<rparr>"

lemma with_budget_key [simp]: "lc_key (with_budget b lc) = lc_key lc"
  by (simp add: lc_key_def fun_eq_iff)

lemma climb_pairs_store:
  assumes "climb_pairs lc i rungs pv pe (Some c, s) = (Ok res, (co, s'))"
  shows "\<exists>c'. co = Some c' \<and> map_of (rc_store c) \<subseteq>\<^sub>m map_of (rc_store c')"
  using assms
proof (induction rungs arbitrary: i pv pe c s)
  case (Cons r rungs)
  obtain v c1 s1 where run: "run_rung lc r (Some c, s) = (Ok v, (Some c1, s1))"
    and le: "map_of (rc_store c) \<subseteq>\<^sub>m map_of (rc_store c1)"
    using Cons.prems run_rung_cached [of lc r c s]
    by (auto split: prod.splits outcome.splits)
  show ?case
    using Cons.prems Cons.IH [of "i + 1" v _ c1 s1] le
    by (auto simp: run split: outcome.splits if_splits intro: map_le_trans)
qed simp

lemma climb_pairs_len:
  "climb_pairs lc i rungs pv pe st = (Ok (v, eps, n), st') \<Longrightarrow> i + 1 \<le> n"
  by (induction lc i rungs pv pe st rule: climb_pairs.induct)
    (force split: prod.splits outcome.splits if_splits)+

lemma climb_pairs_again:
  assumes "climb_pairs lc i rungs pv pe (Some c, s) = (Ok (v, eps, n), (Some c', s'))"
    "lc_budget lc = Some b" "fl_le b b'" "map_of (rc_store c') \<subseteq>\<^sub>m map_of (rc_store d)"
  shows "\<exists>v' eps' n' d'. climb_pairs (with_budget b' lc) i rungs pv pe (Some d, t) =
    (Ok (v', eps', n'), (Some d', t)) \<and> n' \<le> n \<and> rc_store d' = rc_store d"
  using assms(1,4)
proof (induction rungs arbitrary: i pv pe c s d)
  case (Cons r rungs)
  obtain x c1 s1 where run: "run_rung lc r (Some c, s) = (Ok x, (Some c1, s1))"
    and at: "dget (rc_store c1) (lc_key lc r) = Some x"
    using Cons.prems(1) run_rung_cached [of lc r c s]
    by (auto split: prod.splits outcome.splits)
  obtain pair where pair: "richardson_extrapolate pv x (lc_order lc) (lc_safety lc) =
      (Ok pair :: (richardson_result, solve_error) outcome)"
    and mono: "\<not> (case pe of None \<Rightarrow> False | Some e \<Rightarrow> fl_lt e (rr_eps pair))"
    and rest: "(if fl_le (rr_eps pair) b
       then (Ok (rr_extrapolated pair, rr_eps pair, i + 1), (Some c1, s1))
       else climb_pairs lc (i + 1) rungs x (Some (rr_eps pair)) (Some c1, s1)) =
         (Ok (v, eps, n), (Some c', s'))"
    using Cons.prems(1) assms(2) by (auto simp: run split: outcome.splits if_splits)
  have "map_of (rc_store c1) \<subseteq>\<^sub>m map_of (rc_store c')"
    using rest climb_pairs_store [of lc "i + 1" rungs x "Some (rr_eps pair)" c1 s1]
    by (auto split: if_splits)
  then have "dget (rc_store d) (lc_key lc r) = Some x"
    using at Cons.prems(2) by (metis domI map_le_def)
  then obtain d1 where d1: "run_rung (with_budget b' lc) r (Some d, t) = (Ok x, (Some d1, t))"
    "rc_store d1 = rc_store d"
    using run_rung_hit [of d "with_budget b' lc" r x t] by auto
  show ?case
  proof (cases "fl_le (rr_eps pair) b'")
    case True
    have "i + 1 \<le> n"
    proof (cases "fl_le (rr_eps pair) b")
      case True
      then show ?thesis using rest by simp
    next
      case False
      then have go: "climb_pairs lc (i + 1) rungs x (Some (rr_eps pair)) (Some c1, s1) = (Ok (v, eps, n), (Some c', s'))"
        using rest by simp
      from climb_pairs_len [OF go] show ?thesis by simp
    qed
    then show ?thesis using d1 pair mono True by simp
  next
    case False
    then have "\<not> fl_le (rr_eps pair) b" using assms(3) fl_le_trans by blast
    then have "climb_pairs lc (i + 1) rungs x (Some (rr_eps pair)) (Some c1, s1) = (Ok (v, eps, n), (Some c', s'))"
      using rest by simp
    moreover have "map_of (rc_store c') \<subseteq>\<^sub>m map_of (rc_store d1)" using Cons.prems(2) d1(2) by simp
    ultimately have "\<exists>v' eps' n' d'. climb_pairs (with_budget b' lc) (i + 1) rungs x (Some (rr_eps pair))
        (Some d1, t) = (Ok (v', eps', n'), (Some d', t)) \<and> n' \<le> n \<and> rc_store d' = rc_store d1"
      by (rule Cons.IH)
    then show ?thesis using d1 pair mono False by simp
  qed
qed simp

text \<open>once a climb has answered, a climb of the same ladder over the same box with the same or
  a looser budget runs no rung at all: the world is as it was, and it needs no more rungs.\<close>

theorem ladder_reuse:
  assumes "climb_richardson_ladder lc rungs (Some c, s) = (Ok (v, eps, n), (Some c', s'))"
    "lc_budget lc = Some b" "fl_le b b'"
  shows "\<exists>v' eps' n' c''. climb_richardson_ladder (with_budget b' lc) rungs (Some c', t) =
    (Ok (v', eps', n'), (Some c'', t)) \<and> n' \<le> n"
proof -
  obtain r rs where r: "rungs = r # rs" "rs \<noteq> []"
    using assms(1) by (auto simp: climb_richardson_ladder_def split: list.splits if_splits)
  obtain x c1 s1 where run: "run_rung lc r (Some c, s) = (Ok x, (Some c1, s1))"
    and at: "dget (rc_store c1) (lc_key lc r) = Some x"
    and climb: "climb_pairs lc 1 rs x None (Some c1, s1) = (Ok (v, eps, n), (Some c', s'))"
    using assms(1) r run_rung_cached [of lc r c s]
    by (auto simp: climb_richardson_ladder_def split: prod.splits outcome.splits)
  have "map_of (rc_store c1) \<subseteq>\<^sub>m map_of (rc_store c')"
    using climb_pairs_store [OF climb] by simp
  then have "dget (rc_store c') (lc_key (with_budget b' lc) r) = Some x"
    using at by (metis domI map_le_def with_budget_key)
  then obtain d1 where d1: "run_rung (with_budget b' lc) r (Some c', t) = (Ok x, (Some d1, t))"
    "rc_store d1 = rc_store c'"
    using run_rung_hit [of c' "with_budget b' lc" r x t] by auto
  have "map_of (rc_store c') \<subseteq>\<^sub>m map_of (rc_store d1)" using d1 by simp
  from climb_pairs_again [OF climb assms(2,3) this, of t] show ?thesis
    using r d1 by (auto simp: climb_richardson_ladder_def)
qed

theorem ladder_reuse_witness:
  "\<exists>v' eps' n' c''. climb_richardson_ladder (with_budget (Fin 2) (demo_ladder (Some (Fin 1)))) demo_rungs
     (Some demo_cache, 3) = (Ok (v', eps', n'), (Some c'', 3)) \<and> n' \<le> 3"
  by (rule ladder_reuse [OF demo_climb_cached, of "Fin 1"]) (simp_all add: demo_ladder_def)

end
