(* ===== verification/Pack_Types.thy ===== *)
theory Pack_Types
  imports Plan_Solve
begin

text \<open>
  The boundary to the regolith harness (\<open>pack/converters.py\<close>, \<open>pack/errors.py\<close>, and the head
  of \<open>pack/models.py\<close>). regolith itself is not part of the repository: of its types only the
  fields the pack reads or fills are modelled. Python's \<open>repr\<close> and the \<open>:g\<close> format of
  floats are parameters of the texts.
\<close>

section \<open>Requests and answers\<close>

record reg_interval =
  ri_lo :: fl
  ri_hi :: fl

record discharge_request =
  dq_inputs :: "(string, reg_interval) dict"
  dq_limit :: fl
  dq_payloads :: "(string, payload_ref) dict"

record coverage_axis =
  cx_axis :: string
  cx_domain :: string
  cx_method :: string

text \<open>A field the caller does not pass is left to regolith's default and is \<open>None\<close>.\<close>

record prediction =
  pn_value :: fl
  pn_eps :: fl
  pn_coverage :: real
  pn_coverage_axes :: "coverage_axis list option"
  pn_in_domain :: bool
  pn_solver_version :: "string option"
  pn_settings_digest :: "string option"

record domain_error =
  de_model_id :: string
  de_message :: string

section \<open>Converters\<close>

text \<open>Constructing a feldspar interval raises on a bound that is not finite or out of order.\<close>

definition to_feldspar_interval :: "reg_interval \<Rightarrow> (interval, 'e) outcome" where
  "to_feldspar_interval iv = py_interval (ri_lo iv) (ri_hi iv)"

definition to_regolith_interval :: "interval \<Rightarrow> reg_interval" where
  "to_regolith_interval iv = \<lparr>ri_lo = Fin (iv_lo iv), ri_hi = Fin (iv_hi iv)\<rparr>"

definition to_feldspar_payload_ref :: "payload_ref \<Rightarrow> (payload_ref, 'e) outcome" where
  "to_feldspar_payload_ref r = payload_ref_new (pr_kind r) (pr_digest r) (pr_origin r)"

definition known_of :: "(string, reg_interval) dict \<Rightarrow> ((string, interval) dict, 'e) outcome" where
  "known_of inputs =
     omap (\<lambda>(name, iv). obind (to_feldspar_interval iv) (\<lambda>v. Ok (name, v))) inputs"

lemma converters_round_trip:
  "iv_valid iv \<Longrightarrow> to_feldspar_interval (to_regolith_interval iv) = Ok iv"
  by (simp add: to_feldspar_interval_def to_regolith_interval_def py_interval_def
      interval_new_def iv_valid_def)

lemma to_feldspar_interval_Ok:
  "to_feldspar_interval iv = Ok v \<longleftrightarrow> iv = to_regolith_interval v \<and> iv_valid v"
proof -
  have "interval_new (ri_lo iv) (ri_hi iv) = Ok v \<longleftrightarrow> iv = to_regolith_interval v \<and> iv_valid v"
    by (cases iv) (auto simp: interval_new_Ok_iff to_regolith_interval_def)
  then show ?thesis
    by (auto simp: to_feldspar_interval_def py_interval_def split: outcome.splits)
qed

lemma known_of_Ok:
  "known_of inputs = Ok known \<Longrightarrow>
   inputs = map (\<lambda>(p, v). (p, to_regolith_interval v)) known \<and> (\<forall>p v. (p, v) \<in> set known \<longrightarrow> iv_valid v)"
  unfolding known_of_def
  by (induction inputs arbitrary: known)
    (auto simp: outcome_simps to_feldspar_interval_Ok split: prod.splits)

section \<open>Errors\<close>

definition failure_kind :: "solve_failure \<Rightarrow> string" where
  "failure_kind e =
     (case e of PlanFailed p \<Rightarrow> fst (plan_error_record p) | SolveFailed s \<Rightarrow> solve_error_kind s)"

definition failure_fields :: "solve_failure \<Rightarrow> (string \<times> (prim + solve_error)) list" where
  "failure_fields e =
     (case e of
        PlanFailed p \<Rightarrow> map (\<lambda>(k, v). (k, Inl v)) (snd (plan_error_record p))
      | SolveFailed s \<Rightarrow> solve_error_fields s)"

fun join_comma :: "string list \<Rightarrow> string" where
  "join_comma [] = []"
| "join_comma [x] = x"
| "join_comma (x # xs) = x @ '', '' @ join_comma xs"

definition failure_repr :: "solve_failure \<Rightarrow> string" where
  "failure_repr e =
     (case e of PlanFailed _ \<Rightarrow> ''PlanError.'' | SolveFailed _ \<Rightarrow> ''SolveError.'') @ failure_kind e @ ''()''"

text \<open>An empty dict of fields is false, and the error's own \<open>repr\<close> is shown instead.\<close>

definition describe :: "(prim + solve_error \<Rightarrow> string) \<Rightarrow> solve_failure \<Rightarrow> string" where
  "describe repr e =
     (let fields = failure_fields e in
      if fields \<noteq> []
      then failure_kind e @ ''('' @ join_comma (map (\<lambda>(k, v). k @ ''='' @ repr v) fields) @ '')''
      else failure_kind e @ ''('' @ failure_repr e @ '')'')"

definition map_engine_error ::
  "(prim + solve_error \<Rightarrow> string) \<Rightarrow> string \<Rightarrow> solve_failure \<Rightarrow> domain_error" where
  "map_engine_error repr model_id e =
     \<lparr>de_model_id = model_id, de_message = ''feldspar engine failure: '' @ describe repr e\<rparr>"

definition margin_exhausted_error ::
  "(prim + solve_error \<Rightarrow> string) \<Rightarrow> string \<Rightarrow> real \<Rightarrow> fl \<Rightarrow> fl \<Rightarrow> solve_failure \<Rightarrow> domain_error" where
  "margin_exhausted_error repr model_id eps_achieved eps_needed limit e =
     \<lparr>de_model_id = model_id,
      de_message =
        ''margin-driven refinement exhausted: eps achieved '' @
        repr (Inl (PFloat (Fin eps_achieved))) @ '' vs needed '' @ repr (Inl (PFloat eps_needed)) @
        '' to close the claim at limit '' @ repr (Inl (PFloat limit)) @
        '' (engine: '' @ describe repr e @ '')''\<rparr>"

section \<open>Models\<close>

record model_signature =
  ms_name :: string
  ms_claim_kind :: string
  ms_upper :: bool
  ms_inputs :: "string list"
  ms_domain :: "string list"
  ms_required_regimes :: "string list"
  ms_payload_kinds :: "(string, string) dict"

text \<open>
  What \<open>estimate\<close> does: go through the engine to a target port with the offered tags, or one
  of the methods that are written out for a single class.
\<close>

datatype pack_body =
    EngineBody string "string list" string
  | GeometryBody
  | MinerBody
  | StiffnessBody
  | RailBody
  | MdotBody
  | ImbalanceBody
  | DpBody

record pack_model =
  pm_signature :: model_signature
  pm_version :: string
  pm_cost :: nat
  pm_body :: pack_body

definition REDUCED_TIER_COST :: nat where
  "REDUCED_TIER_COST = 10"

definition PAYLOAD_TIER_COST :: nat where
  "PAYLOAD_TIER_COST = 20"

definition fea_solver_version :: string where
  "fea_solver_version = ''feldspar '' @ FELDSPAR_VERSION @ '' / ccx unknown / gmsh unknown''"

definition closed_form_solver_version :: string where
  "closed_form_solver_version = ''feldspar '' @ FELDSPAR_VERSION @ '' / closed-form''"

definition fea_model ::
  "string \<Rightarrow> string \<Rightarrow> bool \<Rightarrow> string \<Rightarrow> string list \<Rightarrow> string list \<Rightarrow> string list \<Rightarrow> pack_model" where
  "fea_model name claim_kind upper target inputs doms required_regimes =
     \<lparr>pm_signature =
        \<lparr>ms_name = name, ms_claim_kind = claim_kind, ms_upper = upper, ms_inputs = inputs,
         ms_domain = doms, ms_required_regimes = required_regimes, ms_payload_kinds = []\<rparr>,
      pm_version = ''1'', pm_cost = REDUCED_TIER_COST,
      pm_body = EngineBody target [''linear_elastic'', ''small_deflection''] fea_solver_version\<rparr>"

definition closed_form_model ::
  "string \<Rightarrow> string \<Rightarrow> bool \<Rightarrow> string \<Rightarrow> string list \<Rightarrow> string list \<Rightarrow> string list \<Rightarrow> pack_model" where
  "closed_form_model name claim_kind upper target inputs engine_tags doms =
     \<lparr>pm_signature =
        \<lparr>ms_name = name, ms_claim_kind = claim_kind, ms_upper = upper, ms_inputs = inputs,
         ms_domain = doms, ms_required_regimes = [], ms_payload_kinds = []\<rparr>,
      pm_version = ''1'', pm_cost = 1,
      pm_body = EngineBody target engine_tags closed_form_solver_version\<rparr>"

section \<open>Coverage\<close>

definition structured_coverage ::
  "(fl \<Rightarrow> string) \<Rightarrow> (string, reg_interval) dict \<Rightarrow> coverage_axis list" where
  "structured_coverage fmt inputs =
     map (\<lambda>(name, iv).
            \<lparr>cx_axis = name,
             cx_domain = ''['' @ fmt (ri_lo iv) @ '', '' @ fmt (ri_hi iv) @ '']'',
             cx_method = ''corners''\<rparr>)
       (filter (\<lambda>(name, iv). \<not> fl_eq (ri_lo iv) (ri_hi iv)) (dsorted inputs))"

end
