(* ===== verification/Pack_Margin.thy ===== *)
theory Pack_Margin
  imports Pack_Types
begin

text \<open>
  \<open>_FeaModel.estimate\<close> of \<open>pack/models.py\<close>: solve with the loosest finite budget, and while
  the error is too large for the margin of the claim, solve again with the margin as the
  budget. The loop takes the engine call as an argument; \<open>estimate\<close> passes \<open>solve()\<close> with the
  default policy, whose two cache directories are the state.
\<close>

section \<open>The loop\<close>

definition EPS_BUDGET :: fl where
  "EPS_BUDGET = Fin (10 ^ 30)"

definition MAX_MARGIN_ATTEMPTS :: nat where
  "MAX_MARGIN_ATTEMPTS = 4"

definition margin_needed :: "bool \<Rightarrow> fl \<Rightarrow> fl \<Rightarrow> fl" where
  "margin_needed upper v limit = (if upper then fl_sub limit v else fl_sub v limit)"

definition worst_value :: "bool \<Rightarrow> solution \<Rightarrow> fl" where
  "worst_value upper sol = Fin (if upper then iv_hi (sol_value sol) else iv_lo (sol_value sol))"

datatype margin_error =
    FirstSolveFailed solve_failure
  | MarginExhausted real fl solve_failure

type_synonym 's engine_call = "fl \<Rightarrow> 's \<Rightarrow> ((solution, solve_failure) outcome \<times> 's) option"

text \<open>
  \<open>best\<close> is the last successful answer. When the attempts are used up the last answer is
  returned; without one, reading \<open>solution.eps\<close> of \<open>None\<close> raises.
\<close>

fun margin_loop ::
  "'s engine_call \<Rightarrow> bool \<Rightarrow> fl \<Rightarrow> nat \<Rightarrow> fl \<Rightarrow> solution option \<Rightarrow> 's
   \<Rightarrow> ((solution, margin_error) outcome \<times> 's) option" where
  "margin_loop call upper limit 0 budget best s =
     Some (case best of Some sol \<Rightarrow> Ok sol | None \<Rightarrow> Raise (AttributeError ''eps''), s)"
| "margin_loop call upper limit (Suc n) budget best s =
     (case call budget s of
        None \<Rightarrow> None
      | Some (Raise x, s') \<Rightarrow> Some (Raise x, s')
      | Some (Err e, s') \<Rightarrow>
          Some (Err (case best of
                       None \<Rightarrow> FirstSolveFailed e
                     | Some sol \<Rightarrow>
                         MarginExhausted (sol_eps sol)
                           (margin_needed upper (worst_value upper sol) limit) e), s')
      | Some (Ok sol, s') \<Rightarrow>
          (let needed = margin_needed upper (worst_value upper sol) limit in
           if fl_le needed (Fin 0) then Some (Ok sol, s')
           else if fl_le (Fin (sol_eps sol)) needed then Some (Ok sol, s')
           else if fl_le budget needed then Some (Ok sol, s')
           else margin_loop call upper limit n needed (Some sol) s'))"

section \<open>The engine call\<close>

record pack_state =
  ps_step_files :: blob_dir
  ps_solve_files :: blob_dir

definition DEFAULT_ROUTE_POLICY :: route_policy where
  "DEFAULT_ROUTE_POLICY = \<lparr>rp_fallback = True, rp_cache = True, rp_threads = 1\<rparr>"

definition pack_solve ::
  "env \<Rightarrow> registry \<Rightarrow> (string, interval) dict \<Rightarrow> string list \<Rightarrow> string \<Rightarrow> claim_senses
   \<Rightarrow> (string, payload_ref) dict \<Rightarrow> pack_state engine_call" where
  "pack_solve ev r known tags target sense payloads budget st =
     map_option
       (\<lambda>(res, c, files).
          (res, \<lparr>ps_step_files = (case c of Some sc \<Rightarrow> sc_files sc | None \<Rightarrow> ps_step_files st),
                 ps_solve_files = files\<rparr>))
       (solve ev r known tags target budget (SenseObj sense) DEFAULT_ROUTE_POLICY payloads None
          (ps_step_files st) (ps_solve_files st))"

section \<open>The estimate of an engine model\<close>

record pack_env =
  pe_env :: env
  pe_repr :: "prim + solve_error \<Rightarrow> string"
  pe_fmt :: "fl \<Rightarrow> string"

definition margin_error_map ::
  "pack_env \<Rightarrow> string \<Rightarrow> fl \<Rightarrow> margin_error \<Rightarrow> domain_error" where
  "margin_error_map pe model_id limit e =
     (case e of
        FirstSolveFailed f \<Rightarrow> map_engine_error (pe_repr pe) model_id f
      | MarginExhausted achieved needed f \<Rightarrow>
          margin_exhausted_error (pe_repr pe) model_id achieved needed limit f)"

definition engine_prediction ::
  "pack_env \<Rightarrow> bool \<Rightarrow> string \<Rightarrow> discharge_request \<Rightarrow> solution \<Rightarrow> prediction" where
  "engine_prediction pe upper solver_version rq sol =
     \<lparr>pn_value = worst_value upper sol, pn_eps = Fin (sol_eps sol), pn_coverage = 1,
      pn_coverage_axes = Some (structured_coverage (pe_fmt pe) (dq_inputs rq)),
      pn_in_domain = True, pn_solver_version = Some solver_version,
      pn_settings_digest = Some (sol_settings_digest sol)\<rparr>"

definition estimate_engine ::
  "pack_env \<Rightarrow> registry \<Rightarrow> string \<Rightarrow> bool \<Rightarrow> string \<Rightarrow> string list \<Rightarrow> string \<Rightarrow> discharge_request
   \<Rightarrow> pack_state \<Rightarrow> ((prediction, domain_error) outcome \<times> pack_state) option" where
  "estimate_engine pe r model_id upper target engine_tags solver_version rq st =
     (case known_of (dq_inputs rq) :: ((string, interval) dict, domain_error) outcome of
        Err e \<Rightarrow> Some (Err e, st)
      | Raise x \<Rightarrow> Some (Raise x, st)
      | Ok known \<Rightarrow>
          map_option
            (\<lambda>(res, st').
               ((case res of
                   Ok sol \<Rightarrow> Ok (engine_prediction pe upper solver_version rq sol)
                 | Err e \<Rightarrow> Err (margin_error_map pe model_id (dq_limit rq) e)
                 | Raise x \<Rightarrow> Raise x), st'))
            (margin_loop
               (pack_solve (pe_env pe) r known engine_tags target (if upper then UPPER else LOWER) [])
               upper (dq_limit rq) MAX_MARGIN_ATTEMPTS EPS_BUDGET None st))"

section \<open>What the loop guarantees\<close>

text \<open>When a claim counts as closed, and what it claims of the true value.\<close>

definition claim_closes :: "bool \<Rightarrow> fl \<Rightarrow> prediction \<Rightarrow> bool" where
  "claim_closes upper limit p \<longleftrightarrow>
     (if upper then fl_le (fl_add (pn_value p) (pn_eps p)) limit
      else fl_le limit (fl_sub (pn_value p) (pn_eps p)))"

definition claim_true :: "bool \<Rightarrow> fl \<Rightarrow> real \<Rightarrow> bool" where
  "claim_true upper limit x \<longleftrightarrow> (if upper then fl_le (Fin x) limit else fl_le limit (Fin x))"

lemma closed_claim_true:
  assumes "iv_contains (inflate (sol_value sol) (sol_eps sol)) x"
    "claim_closes upper limit (engine_prediction pe upper sv rq sol)"
  shows "claim_true upper limit x"
  using assms
  by (cases limit)
    (auto simp: claim_closes_def claim_true_def engine_prediction_def worst_value_def iv_contains_def
      inflate_def fl_sub_def split: if_splits)

text \<open>
  An engine whose answers are right as long as its state is: the contract the loop needs.
\<close>

locale sound_engine =
  fixes call :: "'s engine_call" and good :: "'s \<Rightarrow> bool" and right :: "solution \<Rightarrow> bool"
  assumes call_right: "good s \<Longrightarrow> call b s = Some (res, s') \<Longrightarrow> good s' \<and> (\<forall>sol. res = Ok sol \<longrightarrow> right sol)"
begin

lemma loop_right:
  "good s \<Longrightarrow> (\<forall>sol. best = Some sol \<longrightarrow> right sol) \<Longrightarrow>
   margin_loop call upper limit n b best s = Some (res, s') \<Longrightarrow>
   good s' \<and> (\<forall>sol. res = Ok sol \<longrightarrow> right sol)"
proof (induction n arbitrary: b best s)
  case 0
  then show ?case by (auto split: option.splits)
next
  case (Suc n)
  obtain r t where t: "call b s = Some (r, t)" using Suc.prems(3) by (auto split: option.splits)
  have g: "good t" "\<forall>sol. r = Ok sol \<longrightarrow> right sol" using call_right [OF Suc.prems(1) t] by simp_all
  show ?case
  proof (cases r)
    case (Ok sol)
    with g have "right sol" by simp
    with Ok t g(1) Suc.prems(3) Suc.IH [of t "Some sol"] show ?thesis
      by (auto simp: Let_def split: if_splits)
  next
    case (Err e)
    with t g(1) Suc.prems(3) show ?thesis by auto
  next
    case (Raise x)
    with t g(1) Suc.prems(3) show ?thesis by auto
  qed
qed

end

end
