(* ===== verification/Pack_Sound.thy ===== *)
theory Pack_Sound
  imports Pack_Margin Solve_Facts
begin

text \<open>
  The engine contract of the margin loop, discharged for \<open>solve()\<close> with its default policy over
  a registry without payload ports: the step cache is never consulted, a solve cache that was
  filled by such calls only answers with enclosing intervals, and every computed answer
  encloses the truth.
\<close>

section \<open>Steps without payloads\<close>

definition scalar_only :: "registry \<Rightarrow> bool" where
  "scalar_only r \<longleftrightarrow> (\<forall>p. \<not> is_payload_port (port_table r) p)"

lemma split_inputs_scalar:
  "(\<forall>p. \<not> is_payload_port ports p) \<Longrightarrow> split_inputs is ports vals [] sc [] = Ok (sc @ is, [])"
  by (induction "is" arbitrary: sc) auto

lemma no_payload_outputs: "(\<forall>p. \<not> is_payload_port ports p) \<Longrightarrow> payload_outputs_of ports info = []"
  by (simp add: payload_outputs_of_def)

lemma cached_step_scalar:
  "(\<forall>p. \<not> is_payload_port ports p) \<Longrightarrow>
   cached_step H dumps info fn [] ports b rem (Some c) =
     (fst (cached_step H dumps info fn [] ports b rem None), Some c)"
  by (simp add: cached_step_def no_payload_outputs)

lemma exec_step_scalar:
  assumes "\<forall>p. \<not> is_payload_port ports p" "ex_payloads st = []"
  shows "exec_step H dumps ps ports eb step st (Some c) =
    (fst (exec_step H dumps ps ports eb step st None), Some c)"
  using assms
  by (simp add: exec_step_def Let_def split_step_inputs_def split_inputs_scalar attribute_err_def
      cached_step_scalar split: outcome.splits prod.splits)

lemma corner_fn_produced:
  "payload_outputs_of ports info = [] \<Longrightarrow>
   ca_produced (snd (make_corner_fn info fn pins ports rem acc c)) = ca_produced acc"
  by (simp add: make_corner_fn_def split: outcome.splits)

lemma sweep_loop_preserves:
  "(\<And>s c. P s \<Longrightarrow> P (snd (eval s c))) \<Longrightarrow> P s \<Longrightarrow> P (snd (sweep_loop eval cs h s))"
proof (induction cs arbitrary: h s)
  case (Cons c cs)
  have "P (snd (eval s c))" using Cons.prems by blast
  then show ?case
    using Cons.IH [OF Cons.prems(1)] by (cases "eval s c") (auto split: outcome.splits)
qed simp

lemma sweep_step_refs:
  assumes "payload_outputs_of ports info = []" "sweep_step info fn pins ports b rem = Ok e"
  shows "se_refs e = []"
proof -
  let ?start = "\<lparr>ca_measured = [], ca_produced = []\<rparr>"
  obtain acc where acc:
    "corner_sweep b (make_corner_fn info fn pins ports rem) ?start = (Ok (se_hull e), acc)"
    "merge_produced (si_solver_id info) (ca_produced acc) [] = Ok (se_refs e)"
    using assms(2) by (rule sweep_step_parts)
  have "ca_produced (snd (corner_sweep b (make_corner_fn info fn pins ports rem) ?start)) = []"
    unfolding corner_sweep_def
    by (rule sweep_loop_preserves) (simp_all add: corner_fn_produced [OF assms(1)])
  then show ?thesis using acc by simp
qed

lemma exec_step_no_payloads:
  assumes scalar: "\<forall>p. \<not> is_payload_port ports p" and st: "ex_payloads st = []"
    and step: "exec_step H dumps ps ports eb step st None = (Ok st', c)"
  shows "ex_payloads st' = []"
proof -
  obtain info fn s pins b e where e:
    "sweep_step info fn pins ports b (remaining_budget st s eb) = Ok e"
    "st' = commit_step info (rs_solver_id step) e st"
    using step by (rule exec_step_Ok)
  have "se_refs e = []" by (rule sweep_step_refs [OF no_payload_outputs [OF scalar] e(1)])
  then show ?thesis using e(2) st by (simp add: commit_step_def)
qed

lemma exec_steps_scalar:
  assumes "\<forall>p. \<not> is_payload_port ports p" "ex_payloads st = []"
  shows "exec_steps H dumps ps ports eb steps st (Some c) =
    (fst (exec_steps H dumps ps ports eb steps st None), Some c)"
  using assms(2)
proof (induction steps arbitrary: st)
  case (Cons step steps)
  obtain res c1 where none: "exec_step H dumps ps ports eb step st None = (res, c1)" by fastforce
  note some = exec_step_scalar [OF assms(1) Cons.prems, of H dumps ps eb step c]
  show ?case
  proof (cases res)
    case (Ok st')
    have "c1 = None" using none Ok exec_step_cache_None by blast
    moreover have "ex_payloads st' = []"
      using exec_step_no_payloads [OF assms(1) Cons.prems] none Ok by blast
    ultimately show ?thesis using Cons.IH [of st'] some none Ok by simp
  qed (use some none in simp_all)
qed simp

lemma execute_impl_scalar:
  assumes "scalar_only r"
  shows "fst (execute_impl H dumps route r known [] (Some c) eb) =
    fst (execute_impl H dumps route r known [] None eb)"
proof -
  have "ex_payloads (exec_start known []) = []" by (simp add: exec_start_def)
  from exec_steps_scalar [OF assms [unfolded scalar_only_def] this]
  have "exec_steps H dumps (registry_iter r) (port_table r) eb (rt_steps route) (exec_start known []) (Some c) =
    (fst (exec_steps H dumps (registry_iter r) (port_table r) eb (rt_steps route) (exec_start known []) None), Some c)" .
  then show ?thesis
    by (cases "exec_steps H dumps (registry_iter r) (port_table r) eb (rt_steps route) (exec_start known []) None")
      (simp add: execute_impl_def Let_def split: outcome.splits)
qed

section \<open>A computed answer\<close>

text \<open>Every box the routes of a request are executed over lies in the declared domains.\<close>

definition planned_admitted :: "env \<Rightarrow> registry \<Rightarrow> solve_request \<Rightarrow> bool" where
  "planned_admitted ev r rq \<longleftrightarrow>
     (\<forall>ex route. route_from_view r rq ex route \<longrightarrow>
        boxes_admitted (ev_hash ev) (ev_dumps ev) (registry_iter r) (port_table r)
          (Some (sq_eps_budget rq)) (rt_steps route) (exec_start (sq_known rq) []))"

definition answer_right :: "(string \<Rightarrow> real) \<Rightarrow> string \<Rightarrow> solution \<Rightarrow> bool" where
  "answer_right x target sol \<longleftrightarrow> iv_contains (inflate (sol_value sol) (sol_eps sol)) (x target)"

definition engine_facts ::
  "registry \<Rightarrow> (string \<Rightarrow> real) \<Rightarrow> (string, interval) dict \<Rightarrow> string list \<Rightarrow> bool" where
  "engine_facts r x known tags \<longleftrightarrow>
     registry_ok r \<and> [] \<notin> registry_ids r \<and> scalar_only r \<and>
     (\<forall>p \<in> set (registry_iter r). offered tags (fst p) \<longrightarrow> law_holds x (port_table r) (fst p) (snd p)) \<and>
     (\<forall>p iv. dget known p = Some iv \<longrightarrow> iv_contains iv (x p))"

lemma computed_right:
  assumes facts: "engine_facts r x (sq_known rq) (sq_tags rq)" and c: "computed ev r rq True sol"
    and boxes: "planned_admitted ev r rq" "sq_payloads rq = []"
  shows "answer_right x (sq_target rq) sol"
proof -
  let ?route = "sol_route sol"
  note f = facts [unfolded engine_facts_def]
  obtain c0 c' sol0 where run0: "execute_impl (ev_hash ev) (ev_dumps ev) ?route r (sq_known rq)
      [] c0 (Some (sq_eps_budget rq)) = (Ok sol0, c')"
    "sol_value sol = sol_value sol0" "sol_eps sol = sol_eps sol0"
    using c boxes(2) unfolding computed_def by metis
  have "fst (execute_impl (ev_hash ev) (ev_dumps ev) ?route r (sq_known rq) [] None (Some (sq_eps_budget rq))) = Ok sol0"
    using run0(1) f execute_impl_scalar [of r "ev_hash ev" "ev_dumps ev" ?route "sq_known rq" _ "Some (sq_eps_budget rq)"]
    by (cases c0) (metis fst_conv)+
  then obtain c1 where run: "execute_impl (ev_hash ev) (ev_dumps ev) ?route r (sq_known rq) [] None
      (Some (sq_eps_budget rq)) = (Ok sol0, c1)" by (metis prod.collapse)
  have v: "route_from_view r rq (failed_ids (sol_attempts sol)) ?route" using c by (simp add: computed_def)
  then have t: "rt_target ?route = sq_target rq" by (simp add: route_from_view_def)
  obtain ex q where q: "rq_tags q = bset_of (sq_tags rq)"
    and route: "rt_steps ?route = [] \<or> route_ok (summaries (excluding_view (r, ex)))
      (btree_of (merge_payloads (sq_known rq) (sq_payloads rq))) q ?route"
    using v by (rule route_from_view_request)
  have laws: "\<forall>p \<in> set (registry_iter r). offered (rq_tags q) (fst p) \<longrightarrow>
      pair_id p \<in> rs_solver_id ` set (rt_steps ?route) \<longrightarrow> law_holds x (port_table r) (fst p) (snd p)"
    and truth: "\<forall>p iv. dget (sq_known rq) p = Some iv \<longrightarrow> iv_contains iv (x p)"
    and wf: "registry_ok r" and target: "\<not> is_payload_port (port_table r) (rt_target ?route)"
    using f q by (simp_all add: scalar_only_def)
  have adm: "boxes_admitted (ev_hash ev) (ev_dumps ev) (registry_iter r) (port_table r)
      (Some (sq_eps_budget rq)) (rt_steps ?route) (exec_start (sq_known rq) [])"
    using boxes(1) v unfolding planned_admitted_def by blast
  show ?thesis
    using execute_enclosed [OF wf view_subset laws truth route target adm run] run0(2,3) t
    by (simp add: answer_right_def)
qed

section \<open>What the solve cache holds\<close>

lemma decode_value:
  assumes "solution_from_jsonable (canon_json (solution_to_jsonable s)) = (Ok s' :: (solution, 'e) outcome)"
  shows "sol_value s' = sol_value s \<and> sol_eps s' = sol_eps s"
proof -
  have "interval_from_json (canon_json (interval_to_json (sol_value s))) = (Ok v :: (_, 'e) outcome) \<Longrightarrow>
      v = sol_value s" for v
    by (auto simp: interval_from_json_def interval_to_json_def interval_json_def canon_get
        json_float_def py_interval_def interval_new_def simp del: canon_json.simps(7) split: if_splits)
  then show ?thesis
    using assms
    by (auto simp: solution_from_jsonable_def solution_to_jsonable_def canon_get canon_get_dict
        canon_get_none json_real_def json_float_def outcome_simps simp del: canon_json.simps(6,7))
qed

definition files_right :: "(string \<Rightarrow> real) \<Rightarrow> string \<Rightarrow> blob_dir \<Rightarrow> bool" where
  "files_right x target files \<longleftrightarrow>
     (\<forall>k data sol. dget files k = Some (Some data) \<longrightarrow>
        solution_from_jsonable data = (Ok sol :: (solution, solve_failure) outcome) \<longrightarrow>
        answer_right x target sol)"

lemma files_right_Nil [simp]: "files_right x target []"
  by (simp add: files_right_def)

lemma files_right_put:
  assumes "files_right x target files" "answer_right x target sol"
  shows "files_right x target (solve_cache_put k sol files)"
  unfolding files_right_def
proof (intro allI impI)
  fix k' data s'
  assume get: "dget (solve_cache_put k sol files) k' = Some (Some data)"
    and load: "solution_from_jsonable data = (Ok s' :: (solution, solve_failure) outcome)"
  show "answer_right x target s'"
  proof (cases "k' = k")
    case True
    then have "solution_from_jsonable (canon_json (solution_to_jsonable (sol\<lparr>sol_cache_hit := False\<rparr>))) =
        (Ok s' :: (solution, solve_failure) outcome)"
      using get load by (simp add: solve_cache_put_def)
    from decode_value [OF this] show ?thesis using assms(2) by (simp add: answer_right_def)
  next
    case False
    then show ?thesis using get load assms(1) by (auto simp: solve_cache_put_def files_right_def)
  qed
qed

lemma solve_cache_get_right:
  assumes "files_right x target files"
    "solve_cache_get key route ps files = (Ok (Some sol) :: (solution option, solve_failure) outcome)"
  shows "answer_right x target sol"
  using assms
  by (auto simp: solve_cache_get_def files_right_def outcome_simps answer_right_def
      split: option.splits if_splits)

section \<open>The reroute loop\<close>

definition good_result :: "(string \<Rightarrow> real) \<Rightarrow> string \<Rightarrow> solve_result \<Rightarrow> bool" where
  "good_result x target res \<longleftrightarrow>
     files_right x target (snd (snd res)) \<and> (\<forall>sol. fst res = Ok sol \<longrightarrow> answer_right x target sol)"

lemma good_result_finish:
  "files_right x target (lp_files lp) \<Longrightarrow> (\<forall>sol. out = Ok sol \<longrightarrow> answer_right x target sol) \<Longrightarrow>
   good_result x target (finish lp out)"
  by (simp add: good_result_def finish_def)

lemma run_route_files:
  "run_route ev r rq policy route key lp = Inl lp' \<Longrightarrow> lp_files lp' = lp_files lp"
  by (auto simp: run_route_def Let_def step_failed_def budget_failed_def
      split: prod.splits outcome.splits if_splits option.splits)

lemma run_route_good:
  assumes "run_route ev r rq policy route key lp = Inr res" "files_right x target (lp_files lp)"
    and sol: "\<And>sol. fst res = Ok sol \<Longrightarrow> answer_right x target sol"
  shows "good_result x target res"
proof -
  obtain out cache where out: "execute_impl (ev_hash ev) (ev_dumps ev) route r (sq_known rq) (sq_payloads rq)
      (lp_step_cache lp) (Some (sq_eps_budget rq)) = (out, cache)" by fastforce
  have failed: "good_result x target res"
    if "step_failed ev policy route f e (lp\<lparr>lp_step_cache := cache\<rparr>) = Inr res \<or>
      budget_failed ev policy route q b (lp\<lparr>lp_step_cache := cache\<rparr>) = Inr res" for f e q b
    using that assms(2)
    by (auto simp: step_failed_def budget_failed_def Let_def split: if_splits option.splits
        intro!: good_result_finish)
  show ?thesis
  proof (cases out)
    case (Ok s)
    show ?thesis
    proof (cases "fl_lt (sq_eps_budget rq) (Fin (total_error (sol_value s) (sol_eps s)))")
      case True
      then show ?thesis using assms(1) out Ok failed by (auto simp: run_route_def Let_def)
    next
      case False
      then have res: "res = succeed rq key s (lp\<lparr>lp_step_cache := cache\<rparr>)"
        using assms(1) out Ok by (simp add: run_route_def Let_def)
      let ?s = "s\<lparr>sol_attempts := lp_attempts lp, sol_eps_budget := Some (sq_eps_budget rq)\<rparr>"
      have "answer_right x target ?s" using sol res by (simp add: succeed_def Let_def)
      then show ?thesis using res assms(2)
        by (cases key) (auto simp: succeed_def Let_def good_result_def intro: files_right_put)
    qed
  next
    case (Err fe)
    then show ?thesis using assms(1) out failed by (cases fe) (auto simp: run_route_def Let_def)
  next
    case (Raise y)
    then show ?thesis using assms(1,2) out by (auto simp: run_route_def Let_def intro!: good_result_finish)
  qed
qed

lemma solve_iter_good:
  assumes facts: "engine_facts r x (sq_known rq) (sq_tags rq)" "planned_admitted ev r rq" "sq_payloads rq = []"
    and it: "solve_iter ev r rq policy lp = Some (Inr res)" and inv: "round_inv r True lp"
    and files: "files_right x (sq_target rq) (lp_files lp)"
  shows "good_result x (sq_target rq) res"
proof -
  have ok: "result_ok ev r rq True res" by (rule solve_iter_Inr [OF it inv])
  have miss: "answer_right x (sq_target rq) sol" if "fst res = Ok sol" "\<not> sol_cache_hit sol" for sol
    using ok that computed_right [OF facts(1) _ facts(2,3)] by (simp add: result_ok_def)
  show ?thesis
  proof (cases "\<exists>route key. run_route ev r rq policy route key lp = Inr res")
    case True
    then obtain route key where run: "run_route ev r rq policy route key lp = Inr res" by blast
    have "\<not> sol_cache_hit sol" if "fst res = Ok sol" for sol
      using run that
      by (auto simp: run_route_def Let_def step_failed_def budget_failed_def succeed_def finish_def
          split: prod.splits outcome.splits if_splits option.splits)
        (auto dest: execute_impl_Ok)
    then show ?thesis using run_route_good [OF run files] miss by blast
  next
    case False
    then show ?thesis using it files
      by (auto simp: solve_iter_def with_route_def plan_failed_def Let_def
          split: outcome.splits option.splits if_splits
          intro!: good_result_finish dest: solve_cache_get_right)
  qed
qed

lemma solve_loop_good:
  assumes "solve_loop ev r rq policy lp = Some res" "round_inv r True lp"
    "files_right x (sq_target rq) (lp_files lp)"
    "engine_facts r x (sq_known rq) (sq_tags rq)" "planned_admitted ev r rq" "sq_payloads rq = []"
  shows "good_result x (sq_target rq) res"
proof -
  let ?P = "\<lambda>ev r rq policy lp res. round_inv r True lp \<longrightarrow> files_right x (sq_target rq) (lp_files lp) \<longrightarrow>
    engine_facts r x (sq_known rq) (sq_tags rq) \<longrightarrow> planned_admitted ev r rq \<longrightarrow> sq_payloads rq = [] \<longrightarrow>
    good_result x (sq_target rq) res"
  have "?P ev r rq policy lp res"
  proof (rule solve_loop.raw_induct [where P = ?P, OF _ assms(1)], intro impI)
    fix f ev r rq policy lp res
    assume IH: "\<And>ev r rq policy lp res. f ev r rq policy lp = Some res \<Longrightarrow> ?P ev r rq policy lp res"
      and body: "(case solve_iter ev r rq policy lp of None \<Rightarrow> None | Some (Inr res) \<Rightarrow> Some res
        | Some (Inl lp') \<Rightarrow> f ev r rq policy lp') = Some res"
      and inv: "round_inv r True lp" and files: "files_right x (sq_target rq) (lp_files lp)"
      and facts: "engine_facts r x (sq_known rq) (sq_tags rq)" "planned_admitted ev r rq" "sq_payloads rq = []"
    have ids: "[] \<notin> registry_ids r" using facts(1) by (simp add: engine_facts_def)
    show "good_result x (sq_target rq) res"
    proof (cases "solve_iter ev r rq policy lp")
      case (Some it)
      show ?thesis
      proof (cases it)
        case (Inl lp')
        then have lp': "solve_iter ev r rq policy lp = Some (Inl lp')" using Some by simp
        then obtain route where "with_route ev r rq policy route lp = Inl lp'"
          by (auto simp: solve_iter_def split: option.splits outcome.splits)
        then obtain key where "run_route ev r rq policy route key lp = Inl lp'"
          using with_route_Inl by blast
        then have "lp_files lp' = lp_files lp" by (rule run_route_files)
        then show ?thesis
          using IH [of ev r rq policy lp' res] body Some Inl solve_iter_inv [OF lp' inv ids] files facts
          by simp
      next
        case (Inr res')
        then show ?thesis using body Some solve_iter_good [OF facts _ inv files] by simp
      qed
    qed (use body in simp)
  qed
  then show ?thesis using assms(2-) by simp
qed

section \<open>The engine of the pack\<close>

text \<open>
  The state is good for a request when the facts about its registry hold, its routes stay in
  the declared domains whatever the budget, and the solve cache holds right answers.
\<close>

definition pack_good ::
  "env \<Rightarrow> registry \<Rightarrow> (string \<Rightarrow> real) \<Rightarrow> (string, interval) dict \<Rightarrow> string list \<Rightarrow> string \<Rightarrow> claim_senses
   \<Rightarrow> pack_state \<Rightarrow> bool" where
  "pack_good ev r x known tags target sense st \<longleftrightarrow>
     engine_facts r x known tags \<and>
     (\<forall>b. planned_admitted ev r
        \<lparr>sq_known = known, sq_tags = tags, sq_target = target, sq_eps_budget = b,
         sq_sense = sense, sq_payloads = []\<rparr>) \<and>
     files_right x target (ps_solve_files st)"

lemma pack_solve_good:
  assumes "pack_good ev r x known tags target sense st"
    "pack_solve ev r known tags target sense [] b st = Some (res, st')"
  shows "pack_good ev r x known tags target sense st' \<and> (\<forall>sol. res = Ok sol \<longrightarrow> answer_right x target sol)"
proof -
  let ?rq = "\<lparr>sq_known = known, sq_tags = tags, sq_target = target, sq_eps_budget = b,
    sq_sense = sense, sq_payloads = []\<rparr>"
  let ?lp = "solve_start DEFAULT_ROUTE_POLICY None (ps_step_files st) (ps_solve_files st)"
  obtain c files where s: "solve_loop ev r ?rq DEFAULT_ROUTE_POLICY ?lp = Some (res, c, files)"
    "ps_solve_files st' = files"
    using assms(2) by (auto simp: pack_solve_def solve_def claim_senses_coerce_def)
  have "round_inv r True ?lp" by (rule round_inv_start) simp
  moreover have "lp_files ?lp = ps_solve_files st" by (simp add: solve_start_def)
  ultimately have "good_result x (sq_target ?rq) (res, c, files)"
    using solve_loop_good [OF s(1)] assms(1) by (simp add: pack_good_def)
  then show ?thesis using assms(1) s(2) by (simp add: pack_good_def good_result_def)
qed

interpretation pack_engine:
  sound_engine "pack_solve ev r known tags target sense []" "pack_good ev r x known tags target sense"
    "answer_right x target"
  for ev r x known tags target sense
  by unfold_locales (rule pack_solve_good)

end
