(* ===== verification/Pack_Properties.thy ===== *)
theory Pack_Properties
  imports Pack_Sound Solve_Properties
begin

text \<open>
  What the pack promises regolith: a claim closed by the prediction of an engine model is true,
  when the loop stops early and when it reports exhaustion, and which budgets it asks for.
\<close>

section \<open>The sample registry as an engine\<close>

lemma gain_ports [simp]: "port_table (gain_registry k) = []"
  by (simp add: port_table_def gain_registry_def)

lemma gain_scalar: "scalar_only (gain_registry k)"
  by (simp add: scalar_only_def is_payload_port_def)

definition gain_walk :: "exec_state \<Rightarrow> bool" where
  "gain_walk st \<longleftrightarrow> dget (ex_values st) ''x'' = Some \<lparr>iv_lo = 1, iv_hi = 2\<rparr> \<and>
     dhas (ex_values st) ''x'' \<and> eps_at st ''x'' = 0 \<and> ex_payloads st = []"

lemma gain_walk_box:
  assumes "gain_walk st"
  shows "split_step_inputs (gain_info ''demo.gain'' ''x'' ''y'') [] (ex_values st) (ex_payloads st) = Ok ([''x''], [])"
    "step_box st [''x''] = (Ok gain_known :: (box, 'e) outcome)"
proof -
  show "split_step_inputs (gain_info ''demo.gain'' ''x'' ''y'') [] (ex_values st) (ex_payloads st) = Ok ([''x''], [])"
    using assms by (simp add: gain_walk_def split_step_inputs_def gain_info_def is_payload_port_def)
  show "step_box st [''x''] = (Ok gain_known :: (box, 'e) outcome)"
    using assms by (simp add: gain_walk_def step_box_def gain_known_def inflate_def dict_of_def)
qed

lemma gain_found:
  assumes "lookup_solver (registry_iter (gain_registry 2)) s = (Ok (info, fn) :: (solver_pair, 'e) outcome)"
  shows "info = gain_info ''demo.gain'' ''x'' ''y'' \<and> fn = gain_fn ''x'' ''y'' 2"
  using assms by (auto simp: lookup_solver_def solver_map_def dict_of_def gain_pair_def split: if_splits)

lemma gain_walk_step:
  assumes "gain_walk st"
    "exec_step H dumps (registry_iter (gain_registry 2)) [] b step st None = (Ok st', c)"
  shows "gain_walk st'"
proof -
  obtain info fn s pins bx e where e:
    "lookup_solver (registry_iter (gain_registry 2)) (rs_solver_id step) = (Ok (info, fn) :: (solver_pair, attributed) outcome)"
    "split_step_inputs info [] (ex_values st) (ex_payloads st) = Ok (s, pins)"
    "step_box st s = (Ok bx :: (box, attributed) outcome)"
    "sweep_step info fn pins [] bx (remaining_budget st s b) = Ok e"
    "st' = commit_step info (rs_solver_id step) e st"
    using assms(2) by (rule exec_step_Ok)
  note g = gain_found [OF e(1)]
  have "s = [''x'']" "pins = []" "bx = gain_known"
    using e(2,3) g gain_walk_box(1) [OF assms(1)] gain_walk_box(2) [OF assms(1), where 'e = attributed]
    by auto
  then have "e = gain_entry" using e(4) g gain_sweep by simp
  then show ?thesis
    using e(5) assms(1) g
    by (auto simp: gain_walk_def commit_step_def gain_entry_def eps_at_def dget_dset dhas_dset)
qed

lemma gain_walk_boxes:
  "gain_walk st \<Longrightarrow> boxes_admitted H dumps (registry_iter (gain_registry 2)) [] b steps st"
proof (induction steps arbitrary: st)
  case (Cons step steps)
  have adm: "box_admitted (gain_info ''demo.gain'' ''x'' ''y'') gain_known"
    by (simp add: box_admitted_def gain_info_def gain_known_def is_subset_def)
  show ?case
  proof (cases "lookup_solver (registry_iter (gain_registry 2)) (rs_solver_id step) :: (solver_pair, unit) outcome")
    case (Ok p)
    then obtain fn where p: "p = (gain_info ''demo.gain'' ''x'' ''y'', fn)"
      using gain_found by (cases p) blast
    show ?thesis
      using Ok p adm Cons gain_walk_box(1) [OF Cons.prems] gain_walk_step [OF Cons.prems]
        gain_walk_box(2) [OF Cons.prems, where 'e = unit]
      by (auto split: prod.splits outcome.splits simp del: gain_registry_iter)
  qed (use Cons gain_walk_step [OF Cons.prems] in \<open>auto split: prod.splits outcome.splits simp del: gain_registry_iter\<close>)
qed simp

lemma gain_pack_good:
  "pack_good toy_env (gain_registry 2) gain_truth gain_known [] ''y'' sense
     \<lparr>ps_step_files = [], ps_solve_files = []\<rparr>"
proof -
  have "gain_walk (exec_start gain_known [])"
    by (simp add: gain_walk_def exec_start_def gain_known_def eps_at_def dhas_def)
  then have "planned_admitted toy_env (gain_registry 2)
      \<lparr>sq_known = gain_known, sq_tags = [], sq_target = ''y'', sq_eps_budget = b, sq_sense = sense,
       sq_payloads = []\<rparr>" for b
    by (simp add: planned_admitted_def gain_walk_boxes del: gain_registry_iter)
  moreover have "engine_facts (gain_registry 2) gain_truth gain_known []"
    using gain_law_holds gain_registry_ok [of 2] gain_scalar
    by (simp add: engine_facts_def registry_ids_def gain_pair_def gain_known_def gain_truth_def iv_contains_def)
  ultimately show ?thesis by (simp add: pack_good_def)
qed

section \<open>Claims closed by a prediction\<close>


definition toy_pack :: pack_env where
  "toy_pack = \<lparr>pe_env = toy_env, pe_repr = \<lambda>_. [], pe_fmt = \<lambda>_. []\<rparr>"

definition gain_claim :: discharge_request where
  "gain_claim = \<lparr>dq_inputs = [(''x'', \<lparr>ri_lo = Fin 1, ri_hi = Fin 2\<rparr>)], dq_limit = Fin 10, dq_payloads = []\<rparr>"

lemma gain_claim_known:
  "known_of (dq_inputs gain_claim) = (Ok gain_known :: ((string, interval) dict, 'e) outcome)"
  by (simp add: gain_claim_def known_of_def to_feldspar_interval_def py_interval_def interval_new_def gain_known_def)

lemma gain_pack_solve:
  obtains sol st' where
    "pack_solve toy_env (gain_registry 2) gain_known [] ''y'' UPPER [] EPS_BUDGET
       \<lparr>ps_step_files = [], ps_solve_files = []\<rparr> = Some (Ok sol, st')"
    "sol_value sol = \<lparr>iv_lo = 2, iv_hi = 4\<rparr>" "sol_eps sol = 0"
proof -
  let ?r = "gain_registry 2" and ?H = "\<lambda>_ :: json. ''h''"
  let ?rq = "\<lparr>sq_known = gain_known, sq_tags = [], sq_target = ''y'', sq_eps_budget = EPS_BUDGET,
    sq_sense = UPPER, sq_payloads = []\<rparr>"
  let ?lp = "solve_start DEFAULT_ROUTE_POLICY None [] []"
  let ?c = "\<lparr>sc_files = [], sc_hits = 0, sc_misses = 0\<rparr>"
  have "btree_of (merge_payloads gain_known []) = gain_known"
    by (simp add: merge_payloads_def dkeys_def gain_known_def btree_of_def)
  then have route: "replan toy_env ?r ?rq {} = Some (Ok (gain_route ?H))"
    using gain_plan_any [of "10 ^ 30" ?H "\<lambda>_. []" 2 UPPER]
    by (simp add: replan_def excluding_view_def toy_env_def plan_def claim_senses_coerce_def
        EPS_BUDGET_def bset_of_def)
  have key: "route_key toy_env ?r ?rq DEFAULT_ROUTE_POLICY (gain_route ?H) = Ok (Some ''h'')"
    using gain_digest [of ?H "\<lambda>_. []", where 'e = solve_failure]
    by (simp add: route_key_def DEFAULT_ROUTE_POLICY_def is_route_cacheable_def gain_route_steps
        gain_lookup gain_info_def cache_key_def request_digest_def claim_senses_coerce_def toy_env_def
        canonical_digest_def rust_canonical_digest_def outcome_simps del: gain_registry_iter)
  obtain sol0 where sol: "execute_impl ?H (\<lambda>_. []) (gain_route ?H) ?r gain_known [] None (Some EPS_BUDGET) = (Ok sol0, None)"
    "sol_value sol0 = \<lparr>iv_lo = 2, iv_hi = 4\<rparr>" "sol_eps sol0 = 0"
    by (rule gain_execute)
  obtain c' where run: "execute_impl ?H (\<lambda>_. []) (gain_route ?H) ?r gain_known [] (Some ?c) (Some EPS_BUDGET) = (Ok sol0, c')"
    using execute_impl_scalar [OF gain_scalar, of ?H "\<lambda>_. []" "gain_route ?H" 2 gain_known ?c "Some EPS_BUDGET"] sol(1)
    by (metis fst_conv prod.collapse)
  let ?sol = "sol0\<lparr>sol_attempts := [], sol_eps_budget := Some EPS_BUDGET\<rparr>"
  have "run_route toy_env ?r ?rq DEFAULT_ROUTE_POLICY (gain_route ?H) (Some ''h'') ?lp =
      Inr (Ok ?sol, c', solve_cache_put ''h'' ?sol [])"
    using run sol(2,3)
    by (simp add: run_route_def solve_start_def toy_env_def DEFAULT_ROUTE_POLICY_def succeed_def Let_def
        total_error_def half_width_def width_def EPS_BUDGET_def)
  moreover have "solve_cache_get ''h'' (gain_route ?H) ps [] = (Ok None :: (solution option, solve_failure) outcome)" for ps
    by (simp add: solve_cache_get_def)
  ultimately have "solve_iter toy_env ?r ?rq DEFAULT_ROUTE_POLICY ?lp =
      Some (Inr (Ok ?sol, c', solve_cache_put ''h'' ?sol []))"
    using route key by (simp add: solve_iter_def with_route_def solve_start_def)
  then have "solve_loop toy_env ?r ?rq DEFAULT_ROUTE_POLICY ?lp = Some (Ok ?sol, c', solve_cache_put ''h'' ?sol [])"
    by (subst solve_loop.simps) simp
  then show ?thesis
    using sol(2,3)
    by (intro that [of ?sol "\<lparr>ps_step_files = (case c' of Some sc \<Rightarrow> sc_files sc | None \<Rightarrow> []),
        ps_solve_files = solve_cache_put ''h'' ?sol []\<rparr>"])
      (simp_all add: pack_solve_def solve_def claim_senses_coerce_def split: option.split)
qed


section \<open>The calls of the loop\<close>

text \<open>The same engine, its state paired with the calls made so far.\<close>

type_synonym engine_log = "(fl \<times> (solution, solve_failure) outcome) list"

definition logged :: "'s engine_call \<Rightarrow> ('s \<times> engine_log) engine_call" where
  "logged call b s = map_option (\<lambda>(r, t). (r, t, snd s @ [(b, r)])) (call b (fst s))"

lemma logged_pair [simp]:
  "logged call b (s, tr) = map_option (\<lambda>(r, t). (r, t, tr @ [(b, r)])) (call b s)"
  by (simp add: logged_def)

lemma logged_transparent:
  "map_option (\<lambda>(res, s). (res, fst s)) (margin_loop (logged call) upper limit n b best (s, tr)) =
   margin_loop call upper limit n b best s"
proof (induction n arbitrary: b best s tr)
  case (Suc n)
  show ?case
  proof (cases "call b s")
    case (Some rt)
    obtain r t where rt: "rt = (r, t)" by (cases rt)
    show ?thesis using Some rt Suc.IH by (cases r) (simp_all add: Let_def)
  qed simp
qed simp

text \<open>
  What the rest of a log says, when the loop is entered with \<open>n\<close> attempts left, a budget and
  the answer of the previous call: each further budget is what the margin of the claim allows,
  and the last call decides the result.
\<close>

definition log_step :: "bool \<Rightarrow> fl \<Rightarrow> fl \<Rightarrow> solution \<Rightarrow> fl \<Rightarrow> bool" where
  "log_step upper limit b sol b' \<longleftrightarrow>
     b' = margin_needed upper (worst_value upper sol) limit \<and>
     \<not> fl_le b' (Fin 0) \<and> \<not> fl_le (Fin (sol_eps sol)) b' \<and> \<not> fl_le b b'"

fun log_ok ::
  "bool \<Rightarrow> fl \<Rightarrow> nat \<Rightarrow> fl \<Rightarrow> solution option \<Rightarrow> engine_log \<Rightarrow> (solution, margin_error) outcome \<Rightarrow> bool" where
  "log_ok upper limit n b best [] res = False"
| "log_ok upper limit n b best [(b', r)] res =
     (n \<ge> 1 \<and> b' = b \<and>
      (case r of
         Raise x \<Rightarrow> res = Raise x
       | Err e \<Rightarrow> res = Err (case best of None \<Rightarrow> FirstSolveFailed e
           | Some sol \<Rightarrow> MarginExhausted (sol_eps sol) b e)
       | Ok sol \<Rightarrow> res = Ok sol \<and>
           (let needed = margin_needed upper (worst_value upper sol) limit in
            fl_le needed (Fin 0) \<or> fl_le (Fin (sol_eps sol)) needed \<or> fl_le b needed \<or> n = 1)))"
| "log_ok upper limit n b best ((b', r) # (c, q) # tr) res =
     (n \<ge> 1 \<and> b' = b \<and>
      (\<exists>sol. r = Ok sol \<and> log_step upper limit b sol c \<and>
         log_ok upper limit (n - 1) c (Some sol) ((c, q) # tr) res))"

lemma loop_log:
  assumes "\<forall>sol. best = Some sol \<longrightarrow> b = margin_needed upper (worst_value upper sol) limit" "n \<ge> 1"
    "margin_loop (logged call) upper limit n b best (s, tr) = Some (res, s', tr')"
  shows "\<exists>more. tr' = tr @ more \<and> log_ok upper limit n b best more res"
  using assms
proof (induction n arbitrary: b best s tr)
  case (Suc n)
  obtain r t where rt: "call b s = Some (r, t)"
    using Suc.prems(3) by (auto split: option.splits)
  show ?case
  proof (cases r)
    case (Ok sol)
    let ?needed = "margin_needed upper (worst_value upper sol) limit"
    show ?thesis
    proof (cases "fl_le ?needed (Fin 0) \<or> fl_le (Fin (sol_eps sol)) ?needed \<or> fl_le b ?needed \<or> n = 0")
      case True
      then have "tr' = tr @ [(b, r)]" "res = Ok sol"
        using Suc.prems(3) rt Ok by (auto simp: Let_def split: if_splits)
      then show ?thesis using Ok True by (intro exI [of _ "[(b, r)]"]) (auto simp: Let_def)
    next
      case False
      then have "margin_loop (logged call) upper limit n ?needed (Some sol) (t, tr @ [(b, r)]) = Some (res, s', tr')"
        using Suc.prems(3) rt Ok by (simp add: Let_def)
      then obtain more where more: "tr' = (tr @ [(b, r)]) @ more"
          "log_ok upper limit n ?needed (Some sol) more res"
        using Suc.IH [of "Some sol" ?needed t "tr @ [(b, r)]"] False by auto
      then obtain c q tail where tail: "more = (c, q) # tail" by (cases more) auto
      have "c = ?needed" using more(2) tail by (cases tail) auto
      then have "log_ok upper limit (Suc n) b best ((b, r) # more) res"
        using more(2) tail Ok False by (simp add: log_step_def)
      then show ?thesis using more(1) by auto
    qed
  next
    case (Err e)
    then have "tr' = tr @ [(b, r)]"
      "res = Err (case best of None \<Rightarrow> FirstSolveFailed e | Some sol \<Rightarrow> MarginExhausted (sol_eps sol) b e)"
      using Suc.prems(1,3) rt by (auto split: option.splits)
    then show ?thesis using Err by (intro exI [of _ "[(b, r)]"]) auto
  next
    case (Raise x)
    then show ?thesis using Suc.prems(3) rt by (intro exI [of _ "[(b, r)]"]) auto
  qed
qed simp

definition margin_of :: "bool \<Rightarrow> real \<Rightarrow> solution \<Rightarrow> real" where
  "margin_of upper l sol =
     (if upper then l - iv_hi (sol_value sol) else iv_lo (sol_value sol) - l)"

lemma margin_needed_Fin: "margin_needed upper (worst_value upper sol) (Fin l) = Fin (margin_of upper l sol)"
  by (simp add: margin_needed_def worst_value_def margin_of_def)

lemma log_step_Fin:
  assumes "limit \<noteq> NaN" "log_step upper limit (Fin q) sol c"
  obtains q' where "c = Fin q'" "0 < q'" "q' < q" "q' < sol_eps sol"
  using assms
  by (cases limit)
    (auto simp: log_step_def margin_needed_def worst_value_def fl_sub_def split: if_splits)

lemma log_budgets:
  assumes "log_ok upper limit n (Fin q) best tr res" "limit \<noteq> NaN" "0 < q"
  shows "\<exists>qs. map fst tr = map Fin (q # qs) \<and> length qs < n \<and> sorted_wrt (>) (q # qs) \<and>
    (\<forall>x \<in> set qs. 0 < x)"
  using assms
proof (induction tr arbitrary: n q best)
  case (Cons e tr)
  show ?case
  proof (cases tr)
    case Nil
    then show ?thesis using Cons.prems by (cases e) (auto intro!: exI [of _ "[]"])
  next
    case (Cons e' tr')
    obtain b r c q0 where e: "e = (b, r)" "e' = (c, q0)" by (cases e, cases e')
    then obtain sol where sol: "b = Fin q" "1 \<le> n" "log_step upper limit (Fin q) sol c"
      "log_ok upper limit (n - 1) c (Some sol) tr res"
      using Cons.prems(1) Cons by auto
    obtain q' where q': "c = Fin q'" "0 < q'" "q' < q" using log_step_Fin [OF assms(2) sol(3)] by blast
    then obtain qs where "map fst tr = map Fin (q' # qs)" "length qs < n - 1" "sorted_wrt (>) (q' # qs)"
      "\<forall>x \<in> set qs. 0 < x"
      using Cons.IH [of "n - 1" q' "Some sol"] sol(4) assms(2) by auto
    then show ?thesis using e(1) sol(1) q' by (intro exI [of _ "q' # qs"]) auto
  qed
qed simp


lemma log_outcome:
  assumes "log_ok upper (Fin l) n b best tr res"
  shows "tr \<noteq> [] \<and>
    (\<forall>(b, r) \<in> set (butlast tr). \<exists>sol. r = Ok sol \<and> 0 < margin_of upper l sol \<and> margin_of upper l sol < sol_eps sol) \<and>
    (case snd (last tr) of
       Raise x \<Rightarrow> res = Raise x
     | Ok sol \<Rightarrow> res = Ok sol \<and> (margin_of upper l sol \<le> 0 \<or> sol_eps sol \<le> margin_of upper l sol \<or>
         fl_le (fst (last tr)) (Fin (margin_of upper l sol)) \<or> length tr = n)
     | Err e \<Rightarrow>
         (case (if length tr = 1 then best else case snd (tr ! (length tr - 2)) of Ok sol \<Rightarrow> Some sol | _ \<Rightarrow> None) of
            None \<Rightarrow> length tr = 1 \<and> res = Err (FirstSolveFailed e)
          | Some sol \<Rightarrow> res = Err (MarginExhausted (sol_eps sol) (fst (last tr)) e) \<and>
              (length tr > 1 \<longrightarrow> fst (last tr) = Fin (margin_of upper l sol))))"
  using assms
proof (induction tr arbitrary: n b best)
  case (Cons e tr)
  show ?case
  proof (cases tr)
    case Nil
    then show ?thesis using Cons.prems
      by (cases e) (auto simp: Let_def margin_needed_Fin split: outcome.splits option.splits)
  next
    case (Cons e' tr')
    obtain b0 r c q0 where e: "e = (b0, r)" "e' = (c, q0)" by (cases e, cases e')
    then obtain sol where sol: "r = Ok sol" "1 \<le> n" "log_step upper (Fin l) b sol c"
      "log_ok upper (Fin l) (n - 1) c (Some sol) tr res"
      using Cons.prems(1) Cons by auto
    have c: "c = Fin (margin_of upper l sol)" "0 < margin_of upper l sol" "margin_of upper l sol < sol_eps sol"
      using sol(3) by (auto simp: log_step_def margin_needed_Fin)
    have last: "last (e # tr) = last tr" "butlast (e # tr) = e # butlast tr" using Cons by auto
    note IH = Cons.IH [OF sol(4)]
    show ?thesis
    proof (cases tr')
      case Nil
      then show ?thesis using IH sol(1,2) c e Cons unfolding last
        by (auto split: outcome.splits)
    next
      case (Cons e'' tr'')
      then have nth: "(e # tr) ! (length (e # tr) - 2) = tr ! (length tr - 2)" "length tr > 1"
        using \<open>tr = e' # tr'\<close> by auto
      then show ?thesis using IH sol(1,2) c e unfolding last nth(1)
        by (auto split: outcome.splits option.splits)
    qed
  qed
qed simp

definition toy_engine :: "unit engine_call" where
  "toy_engine b s =
     Some (if fl_le b (Fin 1) then Err (PlanFailed (BudgetUnreachable 5))
           else Ok (small_solution\<lparr>sol_eps := 5\<rparr>), s)"

lemma toy_engine_run:
  "margin_loop (logged toy_engine) True (Fin 2) MAX_MARGIN_ATTEMPTS EPS_BUDGET None ((), []) =
     Some (Err (MarginExhausted 5 (Fin 1) (PlanFailed (BudgetUnreachable 5))), (),
       [(Fin (10 ^ 30), Ok (small_solution\<lparr>sol_eps := 5\<rparr>)),
        (Fin 1, Err (PlanFailed (BudgetUnreachable 5)))])"
  by (simp add: MAX_MARGIN_ATTEMPTS_def EPS_BUDGET_def toy_engine_def numeral_eq_Suc small_solution_def Let_def
      margin_needed_def worst_value_def)


text \<open>C7: how the loop ends. Every call but the last returned an answer that is within the limit but
  whose eps is too large for the margin it leaves. The last call decides: an answer is returned
  when its value is at or over the limit, when its eps is within its margin, when its margin is
  no tighter than the budget it was asked with, or when it is the fourth; a failure of the
  first call is passed on as it is; a later failure is reported as exhaustion with the eps that
  was achieved and the margin that was needed; an exception escapes.\<close>

theorem margin_outcome:
  assumes "margin_loop (logged call) upper (Fin l) MAX_MARGIN_ATTEMPTS EPS_BUDGET None (s, []) = Some (res, s', tr)"
  shows "tr \<noteq> [] \<and>
    (\<forall>(b, r) \<in> set (butlast tr). \<exists>sol. r = Ok sol \<and> 0 < margin_of upper l sol \<and> margin_of upper l sol < sol_eps sol) \<and>
    (case snd (last tr) of
       Raise x \<Rightarrow> res = Raise x
     | Ok sol \<Rightarrow> res = Ok sol \<and> (margin_of upper l sol \<le> 0 \<or> sol_eps sol \<le> margin_of upper l sol \<or>
         fl_le (fst (last tr)) (Fin (margin_of upper l sol)) \<or> length tr = 4)
     | Err e \<Rightarrow> if length tr = 1 then res = Err (FirstSolveFailed e)
         else \<exists>b sol. tr ! (length tr - 2) = (b, Ok sol) \<and>
           res = Err (MarginExhausted (sol_eps sol) (Fin (margin_of upper l sol)) e))"
proof -
  have log: "log_ok upper (Fin l) MAX_MARGIN_ATTEMPTS EPS_BUDGET None tr res"
    using loop_log [OF _ _ assms] by (simp add: MAX_MARGIN_ATTEMPTS_def)
  have out: "snd (tr ! (length tr - 2)) = Ok sol \<Longrightarrow> \<exists>b. tr ! (length tr - 2) = (b, Ok sol)" for sol
    by (metis prod.collapse)
  have long: "tr \<noteq> [] \<Longrightarrow> length tr \<noteq> 1 \<Longrightarrow> 1 < length tr"
    by (cases tr) auto
  show ?thesis
    using log_outcome [OF log] out long
    by (auto simp: MAX_MARGIN_ATTEMPTS_def split: outcome.splits option.splits if_splits)
qed

theorem margin_outcome_witness:
  "margin_loop toy_engine True (Fin 2) MAX_MARGIN_ATTEMPTS EPS_BUDGET None () =
     Some (Err (MarginExhausted 5 (Fin 1) (PlanFailed (BudgetUnreachable 5))), ()) \<and>
   margin_of True 2 (small_solution\<lparr>sol_eps := 5\<rparr>) = 1"
proof -
  have "\<exists>b sol. [(Fin (10 ^ 30), Ok (small_solution\<lparr>sol_eps := 5\<rparr>)),
        (Fin 1, Err (PlanFailed (BudgetUnreachable 5)))] ! 0 = (b, Ok sol) \<and>
      (Err (MarginExhausted 5 (Fin 1) (PlanFailed (BudgetUnreachable 5))) :: (solution, margin_error) outcome) =
        Err (MarginExhausted (sol_eps sol) (Fin (margin_of True 2 sol)) (PlanFailed (BudgetUnreachable 5)))"
    using margin_outcome [OF toy_engine_run] by simp
  moreover have "margin_loop toy_engine True (Fin 2) MAX_MARGIN_ATTEMPTS EPS_BUDGET None () =
      Some (Err (MarginExhausted 5 (Fin 1) (PlanFailed (BudgetUnreachable 5))), ())"
    using toy_engine_run logged_transparent [of toy_engine True "Fin 2" MAX_MARGIN_ATTEMPTS EPS_BUDGET None "()" "[]"]
    by simp
  ultimately show ?thesis by (auto simp: margin_of_def small_solution_def)
qed

end
