(* ===== verification/Kernel_Formulas.thy ===== *)
theory Kernel_Formulas
  imports Feldspar_Prelude
begin

text \<open>
  The closed-form formulas of the compiled kernel (\<open>crates/feldspar-library/src\<close>), as the solver
  modules and the pack call them. They are Rust functions on doubles: nothing raises, a division
  by zero or a root of a negative number gives an infinity or a NaN that flows on. Finite doubles
  are exact reals, and the sign of a zero is not modelled: a zero counts as positive.
\<close>

section \<open>Arithmetic of doubles\<close>

definition rust_div :: "fl \<Rightarrow> fl \<Rightarrow> fl" where
  "rust_div a b = (if b = Fin 0 then fl_inf_of_sign (fl_sign a) else fl_div a b)"

definition rust_powi :: "fl \<Rightarrow> nat \<Rightarrow> fl" where
  "rust_powi a n = foldr fl_mul (replicate n a) (Fin 1)"

fun rust_sqrt :: "fl \<Rightarrow> fl" where
  "rust_sqrt (Fin a) = (if a < 0 then NaN else Fin (sqrt a))"
| "rust_sqrt PInf = PInf"
| "rust_sqrt _ = NaN"

fun rust_ln :: "fl \<Rightarrow> fl" where
  "rust_ln (Fin a) = (if a < 0 then NaN else if a = 0 then NInf else Fin (ln a))"
| "rust_ln PInf = PInf"
| "rust_ln _ = NaN"

fun rust_log10 :: "fl \<Rightarrow> fl" where
  "rust_log10 (Fin a) = (if a < 0 then NaN else if a = 0 then NInf else Fin (ln a / ln 10))"
| "rust_log10 PInf = PInf"
| "rust_log10 _ = NaN"

fun rust_exp :: "fl \<Rightarrow> fl" where
  "rust_exp (Fin a) = Fin (exp a)"
| "rust_exp PInf = PInf"
| "rust_exp NInf = Fin 0"
| "rust_exp NaN = NaN"

text \<open>\<open>f64::powf\<close> with its table of special cases.\<close>

definition odd_integer :: "real \<Rightarrow> bool" where
  "odd_integer y \<longleftrightarrow> y \<in> \<int> \<and> odd \<lfloor>y\<rfloor>"

fun rust_powf :: "fl \<Rightarrow> fl \<Rightarrow> fl" where
  "rust_powf (Fin x) (Fin y) =
     (if y = 0 \<or> x = 1 then Fin 1
      else if 0 < x then Fin (x powr y)
      else if x = 0 then (if 0 < y then Fin 0 else PInf)
      else if y \<in> \<int> then Fin ((if odd_integer y then - 1 else 1) * \<bar>x\<bar> powr y)
      else NaN)"
| "rust_powf PInf (Fin y) = (if y = 0 then Fin 1 else if 0 < y then PInf else Fin 0)"
| "rust_powf NInf (Fin y) =
     (if y = 0 then Fin 1 else if y < 0 then Fin 0 else if odd_integer y then NInf else PInf)"
| "rust_powf NaN y = (if y = Fin 0 then Fin 1 else NaN)"
| "rust_powf (Fin x) PInf = (if \<bar>x\<bar> = 1 then Fin 1 else if 1 < \<bar>x\<bar> then PInf else Fin 0)"
| "rust_powf (Fin x) NInf = (if \<bar>x\<bar> = 1 then Fin 1 else if 1 < \<bar>x\<bar> then Fin 0 else PInf)"
| "rust_powf (Fin x) NaN = (if x = 1 then Fin 1 else NaN)"
| "rust_powf _ PInf = PInf"
| "rust_powf _ NInf = Fin 0"
| "rust_powf _ NaN = NaN"

lemma rust_div_Fin [simp]: "b \<noteq> 0 \<Longrightarrow> rust_div (Fin a) (Fin b) = Fin (a / b)"
  by (simp add: rust_div_def)

lemma rust_powi_Fin [simp]: "rust_powi (Fin a) n = Fin (a ^ n)"
  by (induction n) (simp_all add: rust_powi_def)

lemma rust_powf_Fin [simp]: "0 < x \<Longrightarrow> rust_powf (Fin x) (Fin y) = Fin (x powr y)"
  by simp

lemma rust_powf_zero [simp]: "0 < y \<Longrightarrow> rust_powf (Fin 0) (Fin y) = Fin 0"
  by simp

lemma rust_sqrt_Fin [simp]: "0 \<le> a \<Longrightarrow> rust_sqrt (Fin a) = Fin (sqrt a)"
  by simp

lemma rust_ln_Fin [simp]: "0 < a \<Longrightarrow> rust_ln (Fin a) = Fin (ln a)"
  by simp

lemma rust_log10_Fin [simp]: "0 < a \<Longrightarrow> rust_log10 (Fin a) = Fin (ln a / ln 10)"
  by simp

lemma one_plus_powr_pos [simp]: "0 < 1 + (x :: real) powr y" "1 + (x :: real) powr y \<noteq> 0"
  using powr_ge_zero [of x y] by linarith+

declare rust_powf.simps(1) [simp del] rust_sqrt.simps(1) [simp del]
  rust_ln.simps(1) [simp del] rust_log10.simps(1) [simp del]

section \<open>Heat transfer (\<open>heat.rs\<close>)\<close>

definition heat_plane_wall_resistance :: "fl \<Rightarrow> fl \<Rightarrow> fl \<Rightarrow> fl" where
  "heat_plane_wall_resistance thickness conductivity area =
     rust_div thickness (fl_mul conductivity area)"

definition heat_cylindrical_wall_resistance :: "fl \<Rightarrow> fl \<Rightarrow> fl \<Rightarrow> fl \<Rightarrow> fl" where
  "heat_cylindrical_wall_resistance inner_radius outer_radius conductivity len =
     rust_div (rust_ln (rust_div outer_radius inner_radius))
       (fl_mul (fl_mul (Fin (2 * pi)) conductivity) len)"

definition heat_convection_resistance :: "fl \<Rightarrow> fl \<Rightarrow> fl" where
  "heat_convection_resistance coefficient area =
     rust_div (Fin 1) (fl_mul coefficient area)"

definition heat_series_resistance :: "fl \<Rightarrow> fl \<Rightarrow> fl" where
  "heat_series_resistance r1 r2 =
     fl_add r1 r2"

definition heat_rate_from_resistance :: "fl \<Rightarrow> fl \<Rightarrow> fl" where
  "heat_rate_from_resistance delta_temp resistance =
     rust_div delta_temp resistance"

definition heat_dittus_boelter_nusselt :: "fl \<Rightarrow> fl \<Rightarrow> bool \<Rightarrow> fl" where
  "heat_dittus_boelter_nusselt reynolds prandtl heating =
     (let n = Fin (if heating then 4 / 10 else 3 / 10) in
      fl_mul (fl_mul (Fin (23 / 1000)) (rust_powf reynolds (Fin (8 / 10)))) (rust_powf prandtl n))"

definition heat_coefficient_from_nusselt :: "fl \<Rightarrow> fl \<Rightarrow> fl \<Rightarrow> fl" where
  "heat_coefficient_from_nusselt nusselt fluid_conductivity diameter =
     rust_div (fl_mul nusselt fluid_conductivity) diameter"

definition heat_gnielinski_nusselt :: "fl \<Rightarrow> fl \<Rightarrow> fl \<Rightarrow> fl" where
  "heat_gnielinski_nusselt reynolds prandtl friction_factor =
     (let f8 = rust_div friction_factor (Fin 8);
          numerator = fl_mul (fl_mul f8 (fl_sub reynolds (Fin 1000))) prandtl;
          denominator = fl_add (Fin 1) (fl_mul (fl_mul (Fin (127 / 10)) (rust_sqrt f8))
            (fl_sub (rust_powf prandtl (Fin (2 / 3))) (Fin 1)))
      in rust_div numerator denominator)"

definition heat_laminar_nusselt :: "bool \<Rightarrow> fl" where
  "heat_laminar_nusselt constant_wall_temp =
     (if constant_wall_temp then Fin (366 / 100) else Fin (436 / 100))"

definition heat_churchill_chu_horizontal_cylinder_nusselt :: "fl \<Rightarrow> fl \<Rightarrow> fl" where
  "heat_churchill_chu_horizontal_cylinder_nusselt rayleigh prandtl =
     (let bracket = fl_add (Fin 1) (rust_powf (rust_div (Fin (559 / 1000)) prandtl) (Fin (9 / 16)));
          sqrt_nu = fl_add (Fin (6 / 10)) (rust_div (fl_mul (Fin (387 / 1000)) (rust_powf rayleigh (Fin (1 / 6))))
            (rust_powf bracket (Fin (8 / 27))))
      in fl_mul sqrt_nu sqrt_nu)"

definition heat_churchill_chu_vertical_plate_nusselt :: "fl \<Rightarrow> fl \<Rightarrow> fl" where
  "heat_churchill_chu_vertical_plate_nusselt rayleigh prandtl =
     (let bracket = fl_add (Fin 1) (rust_powf (rust_div (Fin (492 / 1000)) prandtl) (Fin (9 / 16)));
          sqrt_nu = fl_add (Fin (825 / 1000)) (rust_div (fl_mul (Fin (387 / 1000)) (rust_powf rayleigh (Fin (1 / 6))))
            (rust_powf bracket (Fin (8 / 27))))
      in fl_mul sqrt_nu sqrt_nu)"

definition heat_ntu_from_ua :: "fl \<Rightarrow> fl \<Rightarrow> fl" where
  "heat_ntu_from_ua ua c_min =
     rust_div ua c_min"

definition heat_effectiveness_parallel_flow :: "fl \<Rightarrow> fl \<Rightarrow> fl" where
  "heat_effectiveness_parallel_flow ntu c_r =
     rust_div (fl_sub (Fin 1) (rust_exp (fl_mul (fl_neg ntu) (fl_add (Fin 1) c_r))))
       (fl_add (Fin 1) c_r)"

definition heat_effectiveness_counterflow :: "fl \<Rightarrow> fl \<Rightarrow> fl" where
  "heat_effectiveness_counterflow ntu c_r =
     (if fl_lt (fl_abs (fl_sub c_r (Fin 1))) (Fin (1 / 10 ^ 9)) then rust_div ntu (fl_add (Fin 1) ntu)
      else let exp_term = rust_exp (fl_mul (fl_neg ntu) (fl_sub (Fin 1) c_r)) in
        rust_div (fl_sub (Fin 1) exp_term) (fl_sub (Fin 1) (fl_mul c_r exp_term)))"

definition heat_effectiveness_shell_and_tube_one_pass :: "fl \<Rightarrow> fl \<Rightarrow> fl" where
  "heat_effectiveness_shell_and_tube_one_pass ntu c_r =
     (let root = rust_sqrt (fl_add (Fin 1) (fl_mul c_r c_r));
          exp_term = rust_exp (fl_mul (fl_neg ntu) root)
      in rust_div (Fin 2) (fl_add (fl_add (Fin 1) c_r)
        (rust_div (fl_mul root (fl_add (Fin 1) exp_term)) (fl_sub (Fin 1) exp_term))))"

definition heat_hx_rate_from_effectiveness :: "fl \<Rightarrow> fl \<Rightarrow> fl \<Rightarrow> fl \<Rightarrow> fl" where
  "heat_hx_rate_from_effectiveness effectiveness c_min t_hot_in t_cold_in =
     fl_mul (fl_mul effectiveness c_min) (fl_sub t_hot_in t_cold_in)"

definition heat_hx_outlet_temp :: "fl \<Rightarrow> fl \<Rightarrow> fl \<Rightarrow> bool \<Rightarrow> fl" where
  "heat_hx_outlet_temp t_in rate capacity_rate cooling =
     (if cooling then fl_sub t_in (rust_div rate capacity_rate)
      else fl_add t_in (rust_div rate capacity_rate))"

section \<open>Circuits (\<open>elec.rs\<close>)\<close>

definition divider_loaded_vout :: "fl \<Rightarrow> fl \<Rightarrow> fl \<Rightarrow> fl \<Rightarrow> fl" where
  "divider_loaded_vout vin r1 r2 rl =
     (let r_parallel = rust_div (fl_mul r2 rl) (fl_add r2 rl) in
      rust_div (fl_mul vin r_parallel) (fl_add r1 r_parallel))"

definition rc_step_response :: "fl \<Rightarrow> fl \<Rightarrow> fl \<Rightarrow> fl \<Rightarrow> fl" where
  "rc_step_response vf r c t =
     (let tau = fl_mul r c in
      fl_mul vf (fl_sub (Fin 1) (rust_exp (rust_div (fl_neg t) tau))))"

definition rlc_resonant_frequency :: "fl \<Rightarrow> fl \<Rightarrow> fl" where
  "rlc_resonant_frequency inductance capacitance =
     rust_div (Fin 1) (fl_mul (Fin (2 * pi)) (rust_sqrt (fl_mul inductance capacitance)))"

definition rlc_quality_factor :: "fl \<Rightarrow> fl \<Rightarrow> fl \<Rightarrow> fl" where
  "rlc_quality_factor resistance inductance capacitance =
     fl_mul (rust_div (Fin 1) resistance) (rust_sqrt (rust_div inductance capacitance))"

definition bjt_bias_collector_current :: "fl \<Rightarrow> fl \<Rightarrow> fl \<Rightarrow> fl \<Rightarrow> fl \<Rightarrow> fl \<Rightarrow> fl" where
  "bjt_bias_collector_current vcc r1 r2 re beta vbe =
     (let v_th = rust_div (fl_mul vcc r2) (fl_add r1 r2);
          r_th = rust_div (fl_mul r1 r2) (fl_add r1 r2);
          i_b = rust_div (fl_sub v_th vbe) (fl_add r_th (fl_mul (fl_add beta (Fin 1)) re))
      in fl_mul beta i_b)"

definition bjt_bias_collector_voltage :: "fl \<Rightarrow> fl \<Rightarrow> fl \<Rightarrow> fl" where
  "bjt_bias_collector_voltage vcc collector_current rc =
     fl_sub vcc (fl_mul collector_current rc)"

definition nmos_saturation_drain_current :: "fl \<Rightarrow> fl \<Rightarrow> fl \<Rightarrow> fl" where
  "nmos_saturation_drain_current k vgs vth =
     fl_mul (rust_div k (Fin 2)) (rust_powi (fl_sub vgs vth) 2)"

section \<open>Pipe flow (\<open>fluids/incompressible.rs\<close>)\<close>

definition fluids_reynolds_number :: "fl \<Rightarrow> fl \<Rightarrow> fl \<Rightarrow> fl \<Rightarrow> fl" where
  "fluids_reynolds_number density velocity diameter viscosity =
     rust_div (fl_mul (fl_mul density velocity) diameter) viscosity"

definition fluids_laminar_friction_factor :: "fl \<Rightarrow> fl" where
  "fluids_laminar_friction_factor reynolds =
     rust_div (Fin 64) reynolds"

definition fluids_haaland_friction_factor :: "fl \<Rightarrow> fl \<Rightarrow> fl" where
  "fluids_haaland_friction_factor reynolds relative_roughness =
     (let inner = fl_add (rust_powf (rust_div relative_roughness (Fin (37 / 10))) (Fin (111 / 100)))
            (rust_div (Fin (69 / 10)) reynolds);
          inv_sqrt_f = fl_mul (Fin (- (18 / 10))) (rust_log10 inner)
      in rust_div (Fin 1) (fl_mul inv_sqrt_f inv_sqrt_f))"

text \<open>
  The Colebrook-White equation by fixed-point iteration: at most a hundred rounds, left as soon as
  a round moves \<open>x\<close> by less than the tolerance.
\<close>

definition COLEBROOK_TOL :: fl where
  "COLEBROOK_TOL = Fin (1 / 10 ^ 12)"

definition COLEBROOK_MAX_ITER :: nat where
  "COLEBROOK_MAX_ITER = 100"

definition colebrook_next :: "fl \<Rightarrow> fl \<Rightarrow> fl \<Rightarrow> fl" where
  "colebrook_next reynolds relative_roughness x =
     fl_mul (Fin (- 2)) (rust_log10 (fl_add (rust_div relative_roughness (Fin (37 / 10)))
       (rust_div (fl_mul (Fin (251 / 100)) x) reynolds)))"

primrec colebrook_loop :: "nat \<Rightarrow> fl \<Rightarrow> fl \<Rightarrow> fl \<Rightarrow> fl" where
  "colebrook_loop 0 reynolds relative_roughness x = x"
| "colebrook_loop (Suc n) reynolds relative_roughness x =
     (let x_next = colebrook_next reynolds relative_roughness x;
          delta = fl_abs (fl_sub x_next x)
      in if fl_lt delta COLEBROOK_TOL then x_next
         else colebrook_loop n reynolds relative_roughness x_next)"

definition fluids_colebrook_friction_factor :: "fl \<Rightarrow> fl \<Rightarrow> fl" where
  "fluids_colebrook_friction_factor reynolds relative_roughness =
     (let f0 = fluids_haaland_friction_factor reynolds relative_roughness;
          x = colebrook_loop COLEBROOK_MAX_ITER reynolds relative_roughness
            (rust_div (Fin 1) (rust_sqrt f0))
      in rust_div (Fin 1) (fl_mul x x))"

definition fluids_darcy_dp :: "fl \<Rightarrow> fl \<Rightarrow> fl \<Rightarrow> fl \<Rightarrow> fl \<Rightarrow> fl" where
  "fluids_darcy_dp friction_factor len diameter density velocity =
     fl_mul (fl_mul friction_factor (rust_div len diameter))
       (rust_div (fl_mul (fl_mul density velocity) velocity) (Fin 2))"

definition fluids_minor_loss_dp :: "fl \<Rightarrow> fl \<Rightarrow> fl \<Rightarrow> fl" where
  "fluids_minor_loss_dp k_factor density velocity =
     rust_div (fl_mul (fl_mul (fl_mul k_factor density) velocity) velocity) (Fin 2)"

definition fluids_orifice_dp :: "fl \<Rightarrow> fl \<Rightarrow> fl \<Rightarrow> fl \<Rightarrow> fl" where
  "fluids_orifice_dp discharge_coeff area density flow_rate =
     (if fl_le discharge_coeff (Fin 0) \<or> fl_le area (Fin 0) then Fin 0
      else let q_over_ca = rust_div flow_rate (fl_mul discharge_coeff area) in
        rust_div (fl_mul (fl_mul density q_over_ca) q_over_ca) (Fin 2))"

definition fluids_series_dp :: "fl \<Rightarrow> fl \<Rightarrow> fl" where
  "fluids_series_dp dp1 dp2 =
     fl_add dp1 dp2"

definition fluids_parallel_flow :: "fl \<Rightarrow> fl \<Rightarrow> fl" where
  "fluids_parallel_flow q1 q2 =
     fl_add q1 q2"

definition fluids_pump_operating_flow :: "fl \<Rightarrow> fl \<Rightarrow> fl \<Rightarrow> fl \<Rightarrow> fl" where
  "fluids_pump_operating_flow h0 a h_static r =
     rust_sqrt (rust_div (fl_sub h0 h_static) (fl_add a r))"

definition fluids_pump_operating_head :: "fl \<Rightarrow> fl \<Rightarrow> fl \<Rightarrow> fl" where
  "fluids_pump_operating_head h_static r q_star =
     fl_add h_static (fl_mul (fl_mul r q_star) q_star)"

definition fluids_npsh_available :: "fl \<Rightarrow> fl \<Rightarrow> fl \<Rightarrow> fl \<Rightarrow> fl \<Rightarrow> fl \<Rightarrow> fl" where
  "fluids_npsh_available p_atm p_vapor density gravity static_head friction_head =
     fl_sub (fl_add (rust_div (fl_sub p_atm p_vapor) (fl_mul density gravity)) static_head) friction_head"

definition fluids_joukowsky_dp :: "fl \<Rightarrow> fl \<Rightarrow> fl \<Rightarrow> fl" where
  "fluids_joukowsky_dp density wave_speed delta_velocity =
     fl_mul (fl_mul density wave_speed) delta_velocity"

section \<open>Gas dynamics (\<open>fluids/compressible.rs\<close>)\<close>

definition fluids_isentropic_stagnation_temp_ratio :: "fl \<Rightarrow> fl \<Rightarrow> fl" where
  "fluids_isentropic_stagnation_temp_ratio mach gamma =
     fl_add (Fin 1) (fl_mul (fl_mul (rust_div (fl_sub gamma (Fin 1)) (Fin 2)) mach) mach)"

definition fluids_isentropic_stagnation_pressure_ratio :: "fl \<Rightarrow> fl \<Rightarrow> fl" where
  "fluids_isentropic_stagnation_pressure_ratio mach gamma =
     rust_powf (fluids_isentropic_stagnation_temp_ratio mach gamma)
       (rust_div gamma (fl_sub gamma (Fin 1)))"

definition fluids_normal_shock_mach2 :: "fl \<Rightarrow> fl \<Rightarrow> fl" where
  "fluids_normal_shock_mach2 mach1 gamma =
     (let m1_sq = fl_mul mach1 mach1;
          numerator = fl_add (Fin 1) (fl_mul (rust_div (fl_sub gamma (Fin 1)) (Fin 2)) m1_sq);
          denominator = fl_sub (fl_mul gamma m1_sq) (rust_div (fl_sub gamma (Fin 1)) (Fin 2))
      in rust_sqrt (rust_div numerator denominator))"

definition fluids_normal_shock_pressure_ratio :: "fl \<Rightarrow> fl \<Rightarrow> fl" where
  "fluids_normal_shock_pressure_ratio mach1 gamma =
     fl_add (Fin 1) (fl_mul (rust_div (fl_mul (Fin 2) gamma) (fl_add gamma (Fin 1)))
       (fl_sub (fl_mul mach1 mach1) (Fin 1)))"

definition fluids_fanno_function :: "fl \<Rightarrow> fl \<Rightarrow> fl" where
  "fluids_fanno_function mach gamma =
     (let m_sq = fl_mul mach mach;
          term1 = rust_div (fl_sub (Fin 1) m_sq) (fl_mul gamma m_sq);
          term2 = fl_mul (rust_div (fl_add gamma (Fin 1)) (fl_mul (Fin 2) gamma))
            (rust_ln (rust_div (fl_mul (fl_add gamma (Fin 1)) m_sq)
              (fl_add (Fin 2) (fl_mul (fl_sub gamma (Fin 1)) m_sq))))
      in fl_add term1 term2)"

section \<open>Statics (\<open>mech/statics.rs\<close>, \<open>mech/sections.rs\<close>)\<close>

definition rect_second_moment :: "fl \<Rightarrow> fl \<Rightarrow> fl" where
  "rect_second_moment width height =
     rust_div (fl_mul width (rust_powi height 3)) (Fin 12)"

definition cantilever_tip_deflection :: "fl \<Rightarrow> fl \<Rightarrow> fl \<Rightarrow> fl \<Rightarrow> fl" where
  "cantilever_tip_deflection force len youngs_modulus second_moment =
     rust_div (fl_mul force (rust_powi len 3))
       (fl_mul (fl_mul (Fin 3) youngs_modulus) second_moment)"

definition cantilever_required_youngs_modulus :: "fl \<Rightarrow> fl \<Rightarrow> fl \<Rightarrow> fl \<Rightarrow> fl" where
  "cantilever_required_youngs_modulus force len second_moment deflection =
     rust_div (fl_mul force (rust_powi len 3))
       (fl_mul (fl_mul (Fin 3) deflection) second_moment)"

definition lame_hoop_stress_bore :: "fl \<Rightarrow> fl \<Rightarrow> fl \<Rightarrow> fl" where
  "lame_hoop_stress_bore pressure inner_radius outer_radius =
     rust_div (fl_mul pressure (fl_add (rust_powi inner_radius 2) (rust_powi outer_radius 2)))
       (fl_sub (rust_powi outer_radius 2) (rust_powi inner_radius 2))"

definition lame_radial_stress_bore :: "fl \<Rightarrow> fl \<Rightarrow> fl \<Rightarrow> fl" where
  "lame_radial_stress_bore pressure inner_radius outer_radius =
     fl_neg pressure"

definition von_mises_principal :: "fl \<Rightarrow> fl \<Rightarrow> fl \<Rightarrow> fl" where
  "von_mises_principal sigma1 sigma2 sigma3 =
     rust_sqrt (fl_mul (Fin (1 / 2)) (fl_add (fl_add (rust_powi (fl_sub sigma1 sigma2) 2)
       (rust_powi (fl_sub sigma2 sigma3) 2)) (rust_powi (fl_sub sigma3 sigma1) 2)))"

definition bore_von_mises_stress :: "fl \<Rightarrow> fl \<Rightarrow> fl \<Rightarrow> fl" where
  "bore_von_mises_stress pressure inner_radius outer_radius =
     (let hoop = lame_hoop_stress_bore pressure inner_radius outer_radius;
          radial = lame_radial_stress_bore pressure inner_radius outer_radius
      in von_mises_principal hoop radial (Fin 0))"

end
