(* ===== verification/Pack_Closed.thy ===== *)
theory Pack_Closed
  imports Pack_Margin Kernel_Formulas
begin

text \<open>
  The two pack models that evaluate a formula of the Rust library at the corners of the input
  box without the engine (\<open>_finite_corner_sweep\<close>, \<open>MechStiffnessModel\<close> and \<open>ElecRailModel\<close> of
  \<open>pack/models.py\<close>). The text of a float in a message is a parameter.
\<close>

section \<open>The sweep\<close>

text \<open>
  \<open>sorted({lo, hi})\<close>. With a NaN bound Python's order is that of the set; the model keeps the
  given one, which can only change the corner an error names.
\<close>

definition sorted_pair :: "fl \<times> fl \<Rightarrow> fl list" where
  "sorted_pair b =
     (if fl_eq (fst b) (snd b) then [fst b]
      else if fl_lt (snd b) (fst b) then [snd b, fst b] else [fst b, snd b])"

text \<open>\<open>itertools.product\<close>: the last position varies fastest.\<close>

fun product_of :: "'a list list \<Rightarrow> 'a list list" where
  "product_of [] = [[]]"
| "product_of (vs # sets) = concat (map (\<lambda>v. map ((#) v) (product_of sets)) vs)"

definition fl_pymin :: "fl \<Rightarrow> fl \<Rightarrow> fl" where
  "fl_pymin a b = (if fl_lt b a then b else a)"

fun join_space :: "string list \<Rightarrow> string" where
  "join_space [] = []"
| "join_space [s] = s"
| "join_space (s # ss) = s @ '' '' @ join_space ss"

definition corner_text :: "(fl \<Rightarrow> string) \<Rightarrow> string list \<Rightarrow> fl list \<Rightarrow> string" where
  "corner_text show_fl names combo = join_space (map (\<lambda>(n, v). n @ ''='' @ show_fl v) (zip names combo))"

fun finite_sweep_loop ::
  "(fl list \<Rightarrow> fl \<times> fl) \<Rightarrow> (fl \<Rightarrow> bool) \<Rightarrow> (fl list \<Rightarrow> fl \<Rightarrow> domain_error) \<Rightarrow> fl list list
   \<Rightarrow> fl \<times> fl \<Rightarrow> (fl \<times> fl, domain_error) outcome" where
  "finite_sweep_loop compute is_bad bad [] hl = Ok hl"
| "finite_sweep_loop compute is_bad bad (combo # combos) hl =
     (case compute combo of
        (guard_value, fold_value) \<Rightarrow>
          if is_bad guard_value then Err (bad combo guard_value)
          else finite_sweep_loop compute is_bad bad combos
                 (fl_pymin (fst hl) fold_value, fl_pymax (snd hl) fold_value))"

definition finite_corner_sweep ::
  "(fl \<Rightarrow> string) \<Rightarrow> string \<Rightarrow> string list \<Rightarrow> (fl \<times> fl) list \<Rightarrow> (fl list \<Rightarrow> fl \<times> fl) \<Rightarrow> (fl \<Rightarrow> bool)
   \<Rightarrow> string \<Rightarrow> string \<Rightarrow> (fl \<times> fl, domain_error) outcome" where
  "finite_corner_sweep show_fl model_id names bounds compute is_bad metric bad_description =
     finite_sweep_loop compute is_bad
       (\<lambda>combo g. \<lparr>de_model_id = model_id,
          de_message = metric @ '' '' @ bad_description @ '' at '' @ corner_text show_fl names combo @
            '': '' @ metric @ ''='' @ show_fl g\<rparr>)
       (product_of (map sorted_pair bounds)) (PInf, NInf)"

section \<open>The models\<close>

definition dq_input :: "discharge_request \<Rightarrow> string \<Rightarrow> (reg_interval, 'e) outcome" where
  "dq_input rq name = (case dget (dq_inputs rq) name of Some iv \<Rightarrow> Ok iv | None \<Rightarrow> Raise (KeyError name))"

definition sign_error ::
  "(fl \<Rightarrow> string) \<Rightarrow> string \<Rightarrow> string \<Rightarrow> string \<Rightarrow> fl \<Rightarrow> domain_error" where
  "sign_error show_fl model_id name what lo =
     \<lparr>de_model_id = model_id,
      de_message = name @ '' must be '' @ what @ '': '' @ name @ ''.lo='' @ show_fl lo\<rparr>"

definition ri_pair :: "reg_interval \<Rightarrow> fl \<times> fl" where
  "ri_pair iv = (ri_lo iv, ri_hi iv)"

definition plain_prediction :: "fl \<Rightarrow> prediction" where
  "plain_prediction value =
     \<lparr>pn_value = value, pn_eps = Fin 0, pn_coverage = 1, pn_coverage_axes = None,
      pn_in_domain = True, pn_solver_version = None, pn_settings_digest = None\<rparr>"

definition stiffness_compute :: "fl list \<Rightarrow> fl \<times> fl" where
  "stiffness_compute combo =
     (let deflection = cantilever_tip_deflection (Fin 1) (combo ! 2) (combo ! 0) (combo ! 1) in
      (deflection, if fl_eq deflection (Fin 0) then PInf else fl_div (Fin 1) deflection))"

definition stiffness_estimate ::
  "(fl \<Rightarrow> string) \<Rightarrow> string \<Rightarrow> discharge_request \<Rightarrow> (prediction, domain_error) outcome" where
  "stiffness_estimate show_fl model_id rq =
     obind (dq_input rq ''e_modulus'') (\<lambda>e_modulus.
     obind (dq_input rq ''i_area'') (\<lambda>i_area.
     obind (dq_input rq ''length'') (\<lambda>len.
       if fl_le (ri_lo e_modulus) (Fin 0)
       then Err (sign_error show_fl model_id ''e_modulus'' ''strictly positive'' (ri_lo e_modulus))
       else if fl_le (ri_lo i_area) (Fin 0)
       then Err (sign_error show_fl model_id ''i_area'' ''strictly positive'' (ri_lo i_area))
       else if fl_le (ri_lo len) (Fin 0)
       then Err (sign_error show_fl model_id ''length'' ''strictly positive'' (ri_lo len))
       else obind (finite_corner_sweep show_fl model_id [''e_modulus'', ''i_area'', ''length'']
              [ri_pair e_modulus, ri_pair i_area, ri_pair len] stiffness_compute
              (\<lambda>deflection. \<not> fl_finite deflection \<or> fl_le deflection (Fin 0))
              ''deflection'' ''non-finite or non-positive'')
            (\<lambda>sweep. Ok (plain_prediction (fst sweep))))))"

definition rail_compute :: "fl list \<Rightarrow> fl \<times> fl" where
  "rail_compute combo =
     (let vout = divider_loaded_vout (combo ! 0) (combo ! 1) (combo ! 2) (combo ! 3) in (vout, vout))"

definition rail_estimate ::
  "(fl \<Rightarrow> string) \<Rightarrow> string \<Rightarrow> bool \<Rightarrow> discharge_request \<Rightarrow> (prediction, domain_error) outcome" where
  "rail_estimate show_fl model_id upper rq =
     obind (dq_input rq ''vin'') (\<lambda>vin.
     obind (dq_input rq ''r1'') (\<lambda>r1.
     obind (dq_input rq ''r2'') (\<lambda>r2.
     obind (dq_input rq ''rload'') (\<lambda>rload.
       if fl_lt (ri_lo vin) (Fin 0)
       then Err (sign_error show_fl model_id ''vin'' ''non-negative'' (ri_lo vin))
       else if fl_le (ri_lo r1) (Fin 0)
       then Err (sign_error show_fl model_id ''r1'' ''strictly positive'' (ri_lo r1))
       else if fl_le (ri_lo r2) (Fin 0)
       then Err (sign_error show_fl model_id ''r2'' ''strictly positive'' (ri_lo r2))
       else if fl_le (ri_lo rload) (Fin 0)
       then Err (sign_error show_fl model_id ''rload'' ''strictly positive'' (ri_lo rload))
       else obind (finite_corner_sweep show_fl model_id [''vin'', ''r1'', ''r2'', ''rload'']
              [ri_pair vin, ri_pair r1, ri_pair r2, ri_pair rload] rail_compute
              (\<lambda>vout. \<not> fl_finite vout) ''vout'' ''non-finite'')
            (\<lambda>sweep. Ok (plain_prediction (if upper then snd sweep else fst sweep)))))))"

section \<open>What a sweep returns\<close>

lemma fl_pymin_le: "a \<noteq> NaN \<Longrightarrow> b \<noteq> NaN \<Longrightarrow> fl_le (fl_pymin a b) a \<and> fl_le (fl_pymin a b) b \<and> fl_pymin a b \<noteq> NaN"
  by (cases a; cases b) (auto simp: fl_pymin_def)

lemma fl_pymax_ge: "a \<noteq> NaN \<Longrightarrow> b \<noteq> NaN \<Longrightarrow> fl_le a (fl_pymax a b) \<and> fl_le b (fl_pymax a b) \<and> fl_pymax a b \<noteq> NaN"
  by (cases a; cases b) (auto simp: fl_pymax_def)

text \<open>When no folded value is NaN the hull of a finished sweep bounds the value of every corner.\<close>

lemma finite_sweep_bounds:
  assumes "finite_sweep_loop compute is_bad bad combos hl = Ok (lo, hi)"
    "fst hl \<noteq> NaN" "snd hl \<noteq> NaN" "\<forall>c \<in> set combos. snd (compute c) \<noteq> NaN"
  shows "fl_le lo (fst hl) \<and> fl_le (snd hl) hi \<and>
    (\<forall>c \<in> set combos. \<not> is_bad (fst (compute c)) \<and> fl_le lo (snd (compute c)) \<and> fl_le (snd (compute c)) hi)"
  using assms
proof (induction combos arbitrary: hl)
  case (Cons c combos)
  obtain g v where c: "compute c = (g, v)" by (cases "compute c")
  let ?hl = "(fl_pymin (fst hl) v, fl_pymax (snd hl) v)"
  have v: "v \<noteq> NaN" using Cons.prems(4) c by auto
  note mm = fl_pymin_le [OF Cons.prems(2) v] fl_pymax_ge [OF Cons.prems(3) v]
  have run: "finite_sweep_loop compute is_bad bad combos ?hl = Ok (lo, hi)" "\<not> is_bad g"
    using Cons.prems(1) c by (auto split: if_splits)
  have IH: "fl_le lo (fst ?hl) \<and> fl_le (snd ?hl) hi \<and> (\<forall>c \<in> set combos. \<not> is_bad (fst (compute c)) \<and>
      fl_le lo (snd (compute c)) \<and> fl_le (snd (compute c)) hi)"
    using Cons.IH [OF run(1)] mm Cons.prems(4) by simp
  then show ?case
    using mm c run(2) by (auto intro: fl_le_trans)
qed auto

lemma set_product_of: "set (product_of vss) = {vs. list_all2 (\<lambda>v s. v \<in> set s) vs vss}"
  by (induction vss) (auto simp: list_all2_Cons2 image_iff)

lemma set_sorted_pair: "set (sorted_pair b) = {fst b, snd b}"
  by (auto simp: sorted_pair_def fl_eq_def)

text \<open>Every choice of an end per bound is a corner, and nothing else is.\<close>

lemma corners_of_bounds:
  "set (product_of (map sorted_pair bounds)) = {vs. list_all2 (\<lambda>v b. v = fst b \<or> v = snd b) vs bounds}"
  by (auto simp: set_product_of list_all2_map2 set_sorted_pair)

section \<open>The corners bound the box\<close>

definition tip_stiffness :: "real \<Rightarrow> real \<Rightarrow> real \<Rightarrow> real" where
  "tip_stiffness e i l = 3 * e * i / l ^ 3"

definition loaded_vout :: "real \<Rightarrow> real \<Rightarrow> real \<Rightarrow> real \<Rightarrow> real" where
  "loaded_vout v r1 r2 rl = (let rp = r2 * rl / (r2 + rl) in v * rp / (r1 + rp))"

lemma stiffness_compute_Fin:
  assumes "0 < e" "0 < i" "0 < l"
  shows "stiffness_compute [Fin e, Fin i, Fin l] = (Fin (l ^ 3 / (3 * e * i)), Fin (tip_stiffness e i l))"
  using assms
  by (simp add: stiffness_compute_def cantilever_tip_deflection_def rust_powi_def rust_div_def Let_def
      numeral_eq_Suc fl_eq_def tip_stiffness_def)

lemma rail_compute_Fin:
  assumes "0 \<le> v" "0 < r1" "0 < r2" "0 < rl"
  shows "rail_compute [Fin v, Fin r1, Fin r2, Fin rl] = (Fin (loaded_vout v r1 r2 rl), Fin (loaded_vout v r1 r2 rl))"
proof -
  have "0 < r2 * rl / (r2 + rl)" using assms by simp
  then have "r1 + r2 * rl / (r2 + rl) \<noteq> 0" "r2 + rl \<noteq> 0" using assms by linarith+
  then show ?thesis
    by (simp add: rail_compute_def divider_loaded_vout_def rust_div_def Let_def loaded_vout_def)
qed

lemma tip_stiffness_mono:
  assumes "0 < e0" "e0 \<le> e" "0 < i0" "i0 \<le> i" "0 < l" "l \<le> l1"
  shows "tip_stiffness e0 i0 l1 \<le> tip_stiffness e i l"
  unfolding tip_stiffness_def using assms
  by (intro frac_le mult_mono power_mono) auto

lemma parallel_mono:
  fixes a b c d :: real
  assumes "0 < a" "a \<le> b" "0 < c" "c \<le> d"
  shows "a * c / (a + c) \<le> b * d / (b + d)"
proof -
  have "a * c * (b + d) \<le> b * d * (a + c)"
  proof -
    have "a * b * c \<le> a * b * d" "a * c * d \<le> b * c * d"
      using assms by (simp_all add: mult_left_mono mult_right_mono)
    then show ?thesis by (simp add: algebra_simps)
  qed
  then show ?thesis using assms by (simp add: divide_le_eq pos_divide_le_eq pos_le_divide_eq field_simps)
qed

lemma share_mono:
  fixes p q a b :: real
  assumes "0 < p" "p \<le> q" "0 < a" "a \<le> b"
  shows "p / (b + p) \<le> q / (a + q)"
proof -
  have "p * a \<le> q * b" using assms by (intro mult_mono) auto
  then have "p * (a + q) \<le> q * (b + p)" by (simp add: algebra_simps)
  then show ?thesis using assms by (simp add: pos_divide_le_eq pos_le_divide_eq)
qed

lemma loaded_vout_mono:
  assumes "0 \<le> v0" "v0 \<le> v" "0 < r1" "r1 \<le> r1'" "0 < r2'" "r2' \<le> r2" "0 < rl'" "rl' \<le> rl"
  shows "loaded_vout v0 r1' r2' rl' \<le> loaded_vout v r1 r2 rl"
proof -
  let ?p = "r2' * rl' / (r2' + rl')" and ?q = "r2 * rl / (r2 + rl)"
  have p: "?p \<le> ?q" "0 < ?p" using assms by (auto intro: parallel_mono)
  have "v0 * (?p / (r1' + ?p)) \<le> v * (?q / (r1 + ?q))"
    using p assms by (intro mult_mono share_mono) auto
  then show ?thesis by (simp add: loaded_vout_def)
qed

lemma sweep_bound:
  assumes "finite_corner_sweep show_fl m names bounds compute is_bad metric bad = Ok hl"
    "\<forall>c. list_all2 (\<lambda>v b. v = fst b \<or> v = snd b) c bounds \<longrightarrow> snd (compute c) \<noteq> NaN"
    "list_all2 (\<lambda>v b. v = fst b \<or> v = snd b) c bounds"
  shows "fl_le (fst hl) (snd (compute c)) \<and> fl_le (snd (compute c)) (snd hl)"
proof -
  obtain lo hi where hl: "hl = (lo, hi)" by (cases hl)
  show ?thesis
    using finite_sweep_bounds [OF assms(1) [unfolded finite_corner_sweep_def hl]] assms(2,3)
    by (simp add: corners_of_bounds hl)
qed

text \<open>C9: a stiffness floor that closes holds throughout the box: whatever values the three inputs
  take within their intervals, the cantilever is at least as stiff as the limit asks.\<close>

theorem stiffness_claim_true:
  assumes "dget (dq_inputs rq) ''e_modulus'' = Some \<lparr>ri_lo = Fin el, ri_hi = Fin eh\<rparr>"
    "dget (dq_inputs rq) ''i_area'' = Some \<lparr>ri_lo = Fin il, ri_hi = Fin ih\<rparr>"
    "dget (dq_inputs rq) ''length'' = Some \<lparr>ri_lo = Fin ll, ri_hi = Fin lh\<rparr>"
    "stiffness_estimate show_fl model_id rq = Ok p" "claim_closes False limit p"
    "el \<le> e" "e \<le> eh" "il \<le> i" "i \<le> ih" "ll \<le> l" "l \<le> lh"
  shows "claim_true False limit (tip_stiffness e i l)"
proof -
  let ?bounds = "[(Fin el, Fin eh), (Fin il, Fin ih), (Fin ll, Fin lh)]"
  obtain hl where pos: "0 < el" "0 < il" "0 < ll" and sw: "finite_corner_sweep show_fl model_id
      [''e_modulus'', ''i_area'', ''length''] ?bounds stiffness_compute
      (\<lambda>deflection. \<not> fl_finite deflection \<or> fl_le deflection (Fin 0))
      ''deflection'' ''non-finite or non-positive'' = Ok hl" and p: "p = plain_prediction (fst hl)"
    using assms(1-4)
    by (auto simp: stiffness_estimate_def dq_input_def ri_pair_def outcome_simps split: if_splits)
  have nn: "snd (stiffness_compute c) \<noteq> NaN"
    if "list_all2 (\<lambda>v b. v = fst b \<or> v = snd b) c ?bounds" for c
    using that pos assms(6-) by (auto simp: list_all2_Cons2 stiffness_compute_Fin)
  have "fl_le (fst hl) (snd (stiffness_compute [Fin el, Fin il, Fin lh]))"
    using sweep_bound [OF sw, of "[Fin el, Fin il, Fin lh]"] nn by simp
  then have "fl_le (fst hl) (Fin (tip_stiffness el il lh))"
    using pos assms(6-) by (simp add: stiffness_compute_Fin)
  moreover have "tip_stiffness el il lh \<le> tip_stiffness e i l"
    using pos assms(6-) by (intro tip_stiffness_mono) auto
  ultimately have "fl_le (fst hl) (Fin (tip_stiffness e i l))" by (auto simp: fl_simps)
  moreover have "fl_le limit (fst hl)"
    using assms(5) by (cases "fst hl") (simp_all add: claim_closes_def p plain_prediction_def fl_sub_def)
  ultimately show ?thesis by (auto simp: claim_true_def intro: fl_le_trans)
qed

definition beam_claim :: discharge_request where
  "beam_claim =
     \<lparr>dq_inputs = [(''e_modulus'', \<lparr>ri_lo = Fin 2, ri_hi = Fin 3\<rparr>), (''i_area'', \<lparr>ri_lo = Fin 1, ri_hi = Fin 1\<rparr>),
        (''length'', \<lparr>ri_lo = Fin 1, ri_hi = Fin 2\<rparr>)],
      dq_limit = Fin (1 / 2), dq_payloads = []\<rparr>"

lemma beam_estimate:
  "stiffness_estimate (\<lambda>_. []) ''m'' beam_claim = Ok (plain_prediction (Fin (3 / 4)))"
  by (simp add: stiffness_estimate_def beam_claim_def dq_input_def ri_pair_def finite_corner_sweep_def
      sorted_pair_def fl_eq_def stiffness_compute_Fin tip_stiffness_def fl_pymin_def fl_pymax_def numeral_eq_Suc)

theorem stiffness_claim_true_witness:
  "claim_closes False (Fin (1 / 2)) (plain_prediction (Fin (3 / 4))) \<and>
   claim_true False (Fin (1 / 2)) (tip_stiffness (5 / 2) 1 (3 / 2))"
proof -
  have c: "claim_closes False (Fin (1 / 2)) (plain_prediction (Fin (3 / 4)))"
    by (simp add: claim_closes_def plain_prediction_def)
  then show ?thesis
    using stiffness_claim_true [OF _ _ _ beam_estimate c, of 2 3 1 1 1 2 "5 / 2" 1 "3 / 2"]
    by (simp add: beam_claim_def)
qed

text \<open>C10: a rail bound that closes holds throughout the box: whatever values the source and the three
  resistances take within their intervals, the loaded output voltage is on the right side of the
  limit, for the ceiling and for the floor.\<close>

theorem rail_claim_true:
  assumes "dget (dq_inputs rq) ''vin'' = Some \<lparr>ri_lo = Fin vl, ri_hi = Fin vh\<rparr>"
    "dget (dq_inputs rq) ''r1'' = Some \<lparr>ri_lo = Fin al, ri_hi = Fin ah\<rparr>"
    "dget (dq_inputs rq) ''r2'' = Some \<lparr>ri_lo = Fin bl, ri_hi = Fin bh\<rparr>"
    "dget (dq_inputs rq) ''rload'' = Some \<lparr>ri_lo = Fin cl, ri_hi = Fin ch\<rparr>"
    "rail_estimate show_fl model_id upper rq = Ok p" "claim_closes upper limit p"
    "vl \<le> v" "v \<le> vh" "al \<le> a" "a \<le> ah" "bl \<le> b" "b \<le> bh" "cl \<le> c" "c \<le> ch"
  shows "claim_true upper limit (loaded_vout v a b c)"
proof -
  let ?bounds = "[(Fin vl, Fin vh), (Fin al, Fin ah), (Fin bl, Fin bh), (Fin cl, Fin ch)]"
  obtain hl where pos: "0 \<le> vl" "0 < al" "0 < bl" "0 < cl" and sw: "finite_corner_sweep show_fl model_id
      [''vin'', ''r1'', ''r2'', ''rload''] ?bounds rail_compute (\<lambda>vout. \<not> fl_finite vout)
      ''vout'' ''non-finite'' = Ok hl"
    and p: "p = plain_prediction (if upper then snd hl else fst hl)"
    using assms(1-5)
    by (auto simp: rail_estimate_def dq_input_def ri_pair_def outcome_simps split: if_splits)
  have nn: "snd (rail_compute k) \<noteq> NaN"
    if "list_all2 (\<lambda>v b. v = fst b \<or> v = snd b) k ?bounds" for k
    using that pos assms(7-) by (auto simp: list_all2_Cons2 rail_compute_Fin)
  have at: "fl_le (fst hl) (snd (rail_compute [v', a', b', c'])) \<and> fl_le (snd (rail_compute [v', a', b', c'])) (snd hl)"
    if "v' \<in> {Fin vl, Fin vh}" "a' \<in> {Fin al, Fin ah}" "b' \<in> {Fin bl, Fin bh}" "c' \<in> {Fin cl, Fin ch}" for v' a' b' c'
    using sweep_bound [OF sw, of "[v', a', b', c']"] nn that by auto
  have "fl_le (fst hl) (Fin (loaded_vout vl ah bl cl))" "fl_le (Fin (loaded_vout vh al bh ch)) (snd hl)"
    using at [of "Fin vl" "Fin ah" "Fin bl" "Fin cl"] at [of "Fin vh" "Fin al" "Fin bh" "Fin ch"] pos assms(7-)
    by (simp_all add: rail_compute_Fin)
  moreover have "loaded_vout vl ah bl cl \<le> loaded_vout v a b c" "loaded_vout v a b c \<le> loaded_vout vh al bh ch"
    using pos assms(7-) by (auto intro!: loaded_vout_mono)
  ultimately have bounds: "fl_le (fst hl) (Fin (loaded_vout v a b c))" "fl_le (Fin (loaded_vout v a b c)) (snd hl)"
    by (auto intro: fl_le_trans [where b = "Fin (loaded_vout vl ah bl cl)"] fl_le_trans [where b = "Fin (loaded_vout vh al bh ch)"])
  have add0: "fl_add x (Fin 0) = x" "fl_sub x (Fin 0) = x" for x
    by (cases x; simp add: fl_sub_def)+
  show ?thesis
    using assms(6) bounds
    by (auto simp: claim_closes_def claim_true_def p plain_prediction_def add0 intro: fl_le_trans)
qed

definition rail_claim :: discharge_request where
  "rail_claim =
     \<lparr>dq_inputs = [(''vin'', \<lparr>ri_lo = Fin 4, ri_hi = Fin 6\<rparr>), (''r1'', \<lparr>ri_lo = Fin 1, ri_hi = Fin 1\<rparr>),
        (''r2'', \<lparr>ri_lo = Fin 2, ri_hi = Fin 2\<rparr>), (''rload'', \<lparr>ri_lo = Fin 2, ri_hi = Fin 2\<rparr>)],
      dq_limit = Fin 4, dq_payloads = []\<rparr>"

lemma rail_claim_estimate:
  "rail_estimate (\<lambda>_. []) ''m'' True rail_claim = Ok (plain_prediction (Fin 3))"
  by (simp add: rail_estimate_def rail_claim_def dq_input_def ri_pair_def finite_corner_sweep_def
      sorted_pair_def fl_eq_def rail_compute_Fin loaded_vout_def fl_pymin_def fl_pymax_def)

theorem rail_claim_true_witness:
  "claim_closes True (Fin 4) (plain_prediction (Fin 3)) \<and> claim_true True (Fin 4) (loaded_vout 5 1 2 2)"
proof -
  have c: "claim_closes True (Fin 4) (plain_prediction (Fin 3))"
    by (simp add: claim_closes_def plain_prediction_def)
  then show ?thesis
    using rail_claim_true [OF _ _ _ _ rail_claim_estimate c, of 4 6 1 1 2 2 2 2 5 1 2 2]
    by (simp add: rail_claim_def)
qed

end
