(* ===== verification/Resolver.thy ===== *)
theory Resolver
  imports Solve_Models
begin

text \<open>
  The handle through which a payload-consuming direction reads and deposits payload bytes
  (\<open>PayloadResolver\<close> of \<open>solve/payload.py\<close>). It is a protocol that the orchestrator implements:
  a resolver is a record of its two methods and of the name of its class. A deposit gives the
  reference the store computes, or raises; the store itself is not part of the model.
\<close>

record payload_resolver =
  pv_type_name :: string
  pv_resolve :: "payload_ref \<Rightarrow> (string, solve_error) outcome"
  pv_store :: "string \<Rightarrow> string \<Rightarrow> string \<Rightarrow> (payload_ref, solve_error) outcome"

definition resolver_cache_identity :: "payload_resolver \<Rightarrow> string" where
  "resolver_cache_identity resolver = pv_type_name resolver"

text \<open>\<open>resolver.resolve(x[port])\<close> in the body of a direction.\<close>

definition resolve_input :: "payload_resolver \<Rightarrow> inputs \<Rightarrow> string \<Rightarrow> (string, solve_error) outcome" where
  "resolve_input resolver x port =
     (case dget x port of
        Some (VRef r) \<Rightarrow> pv_resolve resolver r
      | Some (VFloat _) \<Rightarrow> Raise (AttributeError ''digest'')
      | None \<Rightarrow> Raise (KeyError port))"

section \<open>JSON payloads\<close>

text \<open>
  What the readers of a JSON payload need from Python: \<open>json.loads\<close>, which gives a value or the
  text of the exception, \<open>json.dumps\<close>, and \<open>repr\<close> of a value.
\<close>

record json_env =
  je_loads :: "string \<Rightarrow> json + string"
  je_dumps :: "json \<Rightarrow> string"
  je_repr :: "json \<Rightarrow> string"

text \<open>\<open>value[key]\<close>, iterating a value, and comparing a value with a number.\<close>

definition json_item :: "json \<Rightarrow> string \<Rightarrow> (json, 'e) outcome" where
  "json_item j k =
     (case j of
        JObj d \<Rightarrow> (case dget d k of Some v \<Rightarrow> Ok v | None \<Rightarrow> Raise (KeyError k))
      | _ \<Rightarrow> Raise TypeError)"

definition json_iter :: "json \<Rightarrow> (json list, 'e) outcome" where
  "json_iter j =
     (case j of
        JArr xs \<Rightarrow> Ok xs
      | JStr s \<Rightarrow> Ok (map (\<lambda>c. JStr [c]) s)
      | JObj d \<Rightarrow> Ok (map (\<lambda>kv. JStr (fst kv)) d)
      | _ \<Rightarrow> Raise TypeError)"

definition json_number :: "json \<Rightarrow> (fl, 'e) outcome" where
  "json_number j =
     (case j of
        JInt i \<Rightarrow> Ok (Fin (of_int i))
      | JBool b \<Rightarrow> Ok (Fin (of_bool b))
      | JFloat x \<Rightarrow> Ok x
      | _ \<Rightarrow> Raise TypeError)"

text \<open>In arithmetic with a double an integer is converted first, which may overflow.\<close>

definition float_of_int :: "int \<Rightarrow> (fl, 'e) outcome" where
  "float_of_int i = (if 2 ^ 1024 - 2 ^ 970 \<le> \<bar>i\<bar> then Raise OverflowError else Ok (Fin (of_int i)))"

definition json_operand :: "json \<Rightarrow> (fl, 'e) outcome" where
  "json_operand j = (case j of JInt i \<Rightarrow> float_of_int i | _ \<Rightarrow> json_number j)"

fun json_truthy :: "json \<Rightarrow> bool" where
  "json_truthy JNull = False"
| "json_truthy (JBool b) = b"
| "json_truthy (JInt i) = (i \<noteq> 0)"
| "json_truthy (JFloat x) = (x \<noteq> Fin 0)"
| "json_truthy (JStr s) = (s \<noteq> [])"
| "json_truthy (JArr xs) = (xs \<noteq> [])"
| "json_truthy (JObj d) = (d \<noteq> [])"

end
