(* ===== verification/Flow_Edges.thy ===== *)
theory Flow_Edges
  imports Canon Resolver Kernel_Formulas "HOL-Library.Sublist"
begin

text \<open>
  The edges of a flow network (\<open>fluids/network.py\<close>): the payload as it comes off the wire, the
  constructor of \<open>_Edge\<close> that reads the parameters of the covered kinds or names the feature
  that is not covered, and the head-loss laws. A feature that \<open>_UnsupportedFeature\<close> names is the
  \<open>Err\<close> of an outcome; every other exception is a \<open>Raise\<close>. Parsing a payload is a parameter of
  the functions that do it, as are the texts of Python objects (\<open>str\<close>) and the reading of a
  number from a text (\<open>float\<close> of a string).
\<close>

section \<open>The wire format\<close>

record flow_edge =
  fe_id :: string
  fe_a :: string
  fe_b :: string
  fe_kind :: string
  fe_params :: "(string, json) dict"

record claim_target =
  ct_claim_kind :: string
  ct_role :: "string option"

record flownet_payload =
  fp_nodes :: "string list"
  fp_edges :: "flow_edge list"
  fp_claim_target :: "claim_target option"

definition FLOWNET_PORT :: string where
  "FLOWNET_PORT = ''fluids.network.flownet''"

definition SOLUTION_PORT :: string where
  "SOLUTION_PORT = ''fluids.network.solution''"

section \<open>Reading a parameter\<close>

definition wire_float :: "(string \<Rightarrow> fl option) \<Rightarrow> json \<Rightarrow> (fl, 'e) outcome" where
  "wire_float read_float j =
     (case j of
        JInt i \<Rightarrow> float_of_int i
      | JBool b \<Rightarrow> Ok (Fin (if b then 1 else 0))
      | JFloat x \<Rightarrow> Ok x
      | JStr s \<Rightarrow> (case read_float s of Some x \<Rightarrow> Ok x | None \<Rightarrow> Raise ValueError)
      | _ \<Rightarrow> Raise TypeError)"

definition scalar_value :: "(string \<Rightarrow> fl option) \<Rightarrow> json \<Rightarrow> (fl, 'e) outcome" where
  "scalar_value read_float interval =
     (case interval of
        JInt i \<Rightarrow> float_of_int i
      | JBool b \<Rightarrow> Ok (Fin (if b then 1 else 0))
      | JFloat x \<Rightarrow> Ok x
      | _ \<Rightarrow>
          obind (json_item interval ''lo'') (\<lambda>l. obind (wire_float read_float l) (\<lambda>lo.
          obind (json_item interval ''hi'') (\<lambda>h. obind (wire_float read_float h) (\<lambda>hi.
            Ok (fl_div (fl_add lo hi) (Fin 2)))))))"

text \<open>\<open>key in values\<close>: a dict looks at its keys, a list at its items, a text for a substring.\<close>

definition json_has :: "json \<Rightarrow> string \<Rightarrow> (bool, 'e) outcome" where
  "json_has j k =
     (case j of
        JObj d \<Rightarrow> Ok (dhas d k)
      | JArr xs \<Rightarrow> Ok (JStr k \<in> set xs)
      | JStr s \<Rightarrow> Ok (sublist k s)
      | _ \<Rightarrow> Raise TypeError)"

fun require_keys :: "json \<Rightarrow> string list \<Rightarrow> (unit, string) outcome" where
  "require_keys vs [] = Ok ()"
| "require_keys vs (k # ks) =
     obind (json_has vs k) (\<lambda>found.
       if found then require_keys vs ks else Err (''missing_param:'' @ k))"

section \<open>Edges\<close>

record edge =
  e_id :: string
  e_a :: string
  e_b :: string
  e_kind :: string
  e_length :: fl
  e_diameter :: fl
  e_roughness :: fl
  e_density :: fl
  e_viscosity :: fl
  e_flow :: fl
  e_cd :: fl
  e_bore_diameter :: fl
  e_resistance :: fl

definition UNKNOWN_FLOW_KINDS :: "string list" where
  "UNKNOWN_FLOW_KINDS = [''pipe'', ''orifice'', ''hx_segment'']"

definition unknown_flow :: "edge \<Rightarrow> bool" where
  "unknown_flow e \<longleftrightarrow> e_kind e \<in> set UNKNOWN_FLOW_KINDS"

definition blank_edge :: "flow_edge \<Rightarrow> edge" where
  "blank_edge w = \<lparr>e_id = fe_id w, e_a = fe_a w, e_b = fe_b w, e_kind = fe_kind w,
     e_length = Fin 0, e_diameter = Fin 0, e_roughness = Fin 0, e_density = Fin 0,
     e_viscosity = Fin 0, e_flow = Fin 0, e_cd = Fin 0, e_bore_diameter = Fin 0,
     e_resistance = Fin 0\<rparr>"

text \<open>The four covered kinds, each with its parameters; every \<open>blank_edge\<close> field left is 0.0.\<close>

definition pipe_edge :: "(string \<Rightarrow> fl option) \<Rightarrow> flow_edge \<Rightarrow> json \<Rightarrow> (edge, string) outcome" where
  "pipe_edge read_float w vs =
     obind (require_keys vs [''length'', ''diameter'', ''density'', ''viscosity'']) (\<lambda>_.
     obind (obind (json_item vs ''length'') (scalar_value read_float)) (\<lambda>len.
     obind (obind (json_item vs ''diameter'') (scalar_value read_float)) (\<lambda>diameter.
     obind (case vs of
              JObj d \<Rightarrow> scalar_value read_float (case dget d ''roughness'' of Some j \<Rightarrow> j | None \<Rightarrow> JFloat (Fin 0))
            | _ \<Rightarrow> Raise (AttributeError ''get'')) (\<lambda>roughness.
     obind (obind (json_item vs ''density'') (scalar_value read_float)) (\<lambda>density.
     obind (obind (json_item vs ''viscosity'') (scalar_value read_float)) (\<lambda>viscosity.
       Ok ((blank_edge w)\<lparr>e_length := len, e_diameter := diameter, e_roughness := roughness,
         e_density := density, e_viscosity := viscosity\<rparr>)))))))"

definition imposer_edge :: "(string \<Rightarrow> fl option) \<Rightarrow> flow_edge \<Rightarrow> json \<Rightarrow> (edge, string) outcome" where
  "imposer_edge read_float w vs =
     obind (require_keys vs [''flow_rate'']) (\<lambda>_.
     obind (obind (json_item vs ''flow_rate'') (scalar_value read_float)) (\<lambda>q.
       Ok ((blank_edge w)\<lparr>e_flow := q\<rparr>)))"

definition ORIFICE_BETA_MIN :: real where
  "ORIFICE_BETA_MIN = 2 / 10"

definition ORIFICE_BETA_MAX :: real where
  "ORIFICE_BETA_MAX = 75 / 100"

definition orifice_edge :: "(string \<Rightarrow> fl option) \<Rightarrow> flow_edge \<Rightarrow> json \<Rightarrow> (edge, string) outcome" where
  "orifice_edge read_float w vs =
     obind (require_keys vs [''cd'', ''bore_diameter'', ''pipe_diameter'', ''density'']) (\<lambda>_.
     obind (obind (json_item vs ''cd'') (scalar_value read_float)) (\<lambda>cd.
     obind (obind (json_item vs ''bore_diameter'') (scalar_value read_float)) (\<lambda>bore.
     obind (obind (json_item vs ''pipe_diameter'') (scalar_value read_float)) (\<lambda>diameter.
       if \<not> (fl_lt (Fin 0) cd \<and> fl_le cd (Fin 1)) then Err ''orifice_cd_out_of_range''
       else
         (let beta = (if diameter \<noteq> Fin 0 then fl_div bore diameter else PInf) in
          if \<not> (fl_le (Fin ORIFICE_BETA_MIN) beta \<and> fl_le beta (Fin ORIFICE_BETA_MAX))
          then Err ''orifice_beta_out_of_range''
          else obind (obind (json_item vs ''density'') (scalar_value read_float)) (\<lambda>density.
            Ok ((blank_edge w)\<lparr>e_diameter := diameter, e_density := density, e_cd := cd,
              e_bore_diameter := bore\<rparr>)))))))"

definition hx_segment_edge :: "(string \<Rightarrow> fl option) \<Rightarrow> flow_edge \<Rightarrow> json \<Rightarrow> (edge, string) outcome" where
  "hx_segment_edge read_float w vs =
     obind (require_keys vs [''k_factor'', ''diameter'', ''density'']) (\<lambda>_.
     obind (obind (json_item vs ''k_factor'') (scalar_value read_float)) (\<lambda>resistance.
     obind (obind (json_item vs ''diameter'') (scalar_value read_float)) (\<lambda>diameter.
       if fl_lt resistance (Fin 0) then Err ''hx_segment_negative_resistance''
       else if fl_le diameter (Fin 0) then Err ''hx_segment_nonpositive_diameter''
       else obind (obind (json_item vs ''density'') (scalar_value read_float)) (\<lambda>density.
         Ok ((blank_edge w)\<lparr>e_diameter := diameter, e_density := density, e_resistance := resistance\<rparr>)))))"

text \<open>
  \<open>_Edge(edge)\<close>. A geometry-extract selector is refused in any case, with a sharper reason when
  its record is malformed or carries no digest.
\<close>

definition geom_extract_refusal :: "(string, json) dict \<Rightarrow> (edge, string) outcome" where
  "geom_extract_refusal params =
     obind (require_keys (JObj params) [''record'', ''selector'']) (\<lambda>_.
       case dget params ''record'' of
         Some (JObj r) \<Rightarrow>
           (if (case dget r ''digest'' of Some j \<Rightarrow> json_truthy j | None \<Rightarrow> False)
            then Err ''edge_params:geom_extract''
            else Err ''edge_params:geom_extract:unresolved_digest'')
       | _ \<Rightarrow> Err ''edge_params:geom_extract:unresolved_digest'')"

definition edge_new ::
  "(json \<Rightarrow> string) \<Rightarrow> (string \<Rightarrow> fl option) \<Rightarrow> flow_edge \<Rightarrow> (edge, string) outcome" where
  "edge_new py_str read_float w =
     (let params = fe_params w;
          source = (case dget params ''source'' of Some j \<Rightarrow> j | None \<Rightarrow> JNull);
          vs = (case dget params ''values'' of Some j \<Rightarrow> j | None \<Rightarrow> JObj [])
      in if source = JStr ''geom_extract'' then geom_extract_refusal params
         else if source \<noteq> JStr ''scalars''
         then Err (''edge_params:'' @ (if json_truthy source then py_str source else ''unknown''))
         else if fe_kind w = ''pipe'' then pipe_edge read_float w vs
         else if fe_kind w = ''imposer'' then imposer_edge read_float w vs
         else if fe_kind w = ''orifice'' then orifice_edge read_float w vs
         else if fe_kind w = ''hx_segment'' then hx_segment_edge read_float w vs
         else Err (''edge_kind:'' @ fe_kind w))"

section \<open>Head-loss laws\<close>

text \<open>
  \<open>math.copysign\<close> on a nonzero second argument; a NaN counts as positive. Only the call sites
  below use it, and they return 0.0 themselves for a zero flow.
\<close>

definition fl_copysign :: "fl \<Rightarrow> fl \<Rightarrow> fl" where
  "fl_copysign x y = (if fl_sign y < 0 then fl_neg (fl_abs x) else fl_abs x)"

definition LAMINAR_RE_CEILING :: fl where
  "LAMINAR_RE_CEILING = Fin 2300"

text \<open>The cross section of a round bore, and the quotient \<open>m / area\<close> guarded by the sign of the area.\<close>

definition round_area :: "fl \<Rightarrow> fl" where
  "round_area diameter = (let r = fl_div diameter (Fin 2) in fl_mul (Fin pi) (fl_mul r r))"

definition speed_of :: "fl \<Rightarrow> fl \<Rightarrow> fl" where
  "speed_of m area = (if fl_lt (Fin 0) area then fl_div m area else Fin 0)"

definition pipe_dp_mag :: "edge \<Rightarrow> fl \<Rightarrow> fl" where
  "pipe_dp_mag e m =
     (if fl_le m (Fin 0) then Fin 0
      else
        (let speed = speed_of m (round_area (e_diameter e));
             reynolds = fluids_reynolds_number (e_density e) speed (e_diameter e) (e_viscosity e);
             f = (if fl_lt reynolds LAMINAR_RE_CEILING
                  then fluids_laminar_friction_factor (fl_pymax reynolds (Fin 1))
                  else fluids_colebrook_friction_factor reynolds
                    (if e_diameter e \<noteq> Fin 0 then fl_div (e_roughness e) (e_diameter e) else Fin 0))
         in fluids_darcy_dp f (e_length e) (e_diameter e) (e_density e) speed))"

definition signed_dp :: "fl \<Rightarrow> fl \<Rightarrow> fl" where
  "signed_dp dp_mag flow = (if flow \<noteq> Fin 0 then fl_copysign dp_mag flow else Fin 0)"

definition pipe_dp_and_k :: "edge \<Rightarrow> fl \<Rightarrow> fl \<times> fl" where
  "pipe_dp_and_k e flow =
     (let m = fl_abs flow;
          dp_mag = pipe_dp_mag e m;
          k = (if m = Fin 0 then Fin 0
               else
                 (let h = fl_pymax (fl_mul m (Fin (1 / 10 ^ 6))) (Fin (1 / 10 ^ 12))
                  in fl_div (fl_sub (pipe_dp_mag e (fl_add m h)) dp_mag) h))
      in (signed_dp dp_mag flow, k))"

text \<open>The divisor of the coefficient is not zero on an edge that \<open>_Edge\<close> built: its \<open>cd\<close> is positive.\<close>

definition orifice_dp_and_k :: "edge \<Rightarrow> fl \<Rightarrow> fl \<times> fl" where
  "orifice_dp_and_k e flow =
     (let area = round_area (e_bore_diameter e);
          m = fl_abs flow;
          dp_mag = fluids_orifice_dp (e_cd e) area (e_density e) m;
          ca = fl_mul (e_cd e) area;
          coeff = (if fl_lt (Fin 0) area
                   then fl_div (e_density e) (fl_mul (Fin 2) (fl_mul ca ca)) else Fin 0)
      in (signed_dp dp_mag flow, fl_mul (fl_mul (Fin 2) coeff) m))"

definition hx_segment_dp_and_k :: "edge \<Rightarrow> fl \<Rightarrow> fl \<times> fl" where
  "hx_segment_dp_and_k e flow =
     (let area = round_area (e_diameter e);
          m = fl_abs flow;
          dp_mag = fluids_minor_loss_dp (e_resistance e) (e_density e) (speed_of m area);
          coeff = (if fl_lt (Fin 0) area
                   then fl_div (fl_mul (e_resistance e) (e_density e)) (fl_mul (fl_mul (Fin 2) area) area)
                   else Fin 0)
      in (signed_dp dp_mag flow, fl_mul (fl_mul (Fin 2) coeff) m))"

definition edge_dp_and_k :: "edge \<Rightarrow> fl \<Rightarrow> fl \<times> fl" where
  "edge_dp_and_k e flow =
     (if e_kind e = ''pipe'' then pipe_dp_and_k e flow
      else if e_kind e = ''orifice'' then orifice_dp_and_k e flow
      else if e_kind e = ''hx_segment'' then hx_segment_dp_and_k e flow
      else (Fin 0, Fin 0))"

definition edge_dp :: "edge \<Rightarrow> fl" where
  "edge_dp e = (if \<not> unknown_flow e then Fin 0 else fst (edge_dp_and_k e (e_flow e)))"

end
