(* ===== verification/Pack_Table.thy ===== *)
theory Pack_Table
  imports Pack_Types Flow_Edges
begin

text \<open>
  The models the pack offers (\<open>pack/models.py\<close>): their claim kinds, signatures, costs and what
  their \<open>estimate\<close> does, and the list that \<open>register\<close> of \<open>pack/__init__.py\<close> hands to the regolith
  registry, in its order. A frozen set of tags is a list here.
\<close>

section \<open>Claim kinds\<close>

definition DEFAULT_STRESS_CLAIM_KIND :: string where
  "DEFAULT_STRESS_CLAIM_KIND = ''mech.static_stress''"

definition DEFAULT_DEFLECTION_CLAIM_KIND :: string where
  "DEFAULT_DEFLECTION_CLAIM_KIND = ''mech.static_deflection''"

definition DEFAULT_STIFFNESS_CLAIM_KIND :: string where
  "DEFAULT_STIFFNESS_CLAIM_KIND = ''mech.stiffness''"

definition DEFAULT_RAIL_LO_CLAIM_KIND :: string where
  "DEFAULT_RAIL_LO_CLAIM_KIND = ''elec.rail.lo''"

definition DEFAULT_RAIL_HI_CLAIM_KIND :: string where
  "DEFAULT_RAIL_HI_CLAIM_KIND = ''elec.rail.hi''"

definition DEFAULT_MEMBER_FLEXURAL_CAPACITY_CLAIM_KIND :: string where
  "DEFAULT_MEMBER_FLEXURAL_CAPACITY_CLAIM_KIND = ''mech.member.flexural_capacity''"

definition DEFAULT_MEMBER_AXIAL_CAPACITY_CLAIM_KIND :: string where
  "DEFAULT_MEMBER_AXIAL_CAPACITY_CLAIM_KIND = ''mech.member.axial_capacity''"

definition DEFAULT_EULER_BUCKLING_LOAD_CLAIM_KIND :: string where
  "DEFAULT_EULER_BUCKLING_LOAD_CLAIM_KIND = ''mech.member.euler_buckling_load''"

definition DEFAULT_BOLT_LOAD_FACTOR_CLAIM_KIND :: string where
  "DEFAULT_BOLT_LOAD_FACTOR_CLAIM_KIND = ''mech.joint.bolt_load_factor''"

definition DEFAULT_WELD_UTILIZATION_CLAIM_KIND :: string where
  "DEFAULT_WELD_UTILIZATION_CLAIM_KIND = ''mech.weld.utilization''"

definition DEFAULT_BEARING_RATING_LIFE_CLAIM_KIND :: string where
  "DEFAULT_BEARING_RATING_LIFE_CLAIM_KIND = ''mech.bearing.rating_life_hours''"

definition DEFAULT_FATIGUE_GOODMAN_FACTOR_OF_SAFETY_CLAIM_KIND :: string where
  "DEFAULT_FATIGUE_GOODMAN_FACTOR_OF_SAFETY_CLAIM_KIND = ''mech.fatigue.factor_of_safety''"

definition DEFAULT_FATIGUE_GERBER_FACTOR_OF_SAFETY_CLAIM_KIND :: string where
  "DEFAULT_FATIGUE_GERBER_FACTOR_OF_SAFETY_CLAIM_KIND = ''mech.fatigue.gerber_factor_of_safety''"

definition DEFAULT_FATIGUE_CYCLES_TO_FAILURE_CLAIM_KIND :: string where
  "DEFAULT_FATIGUE_CYCLES_TO_FAILURE_CLAIM_KIND = ''mech.fatigue.cycles_to_failure''"

definition DEFAULT_FATIGUE_DAMAGE_CLAIM_KIND :: string where
  "DEFAULT_FATIGUE_DAMAGE_CLAIM_KIND = ''mech.fatigue.damage''"

definition DEFAULT_LEADSCREW_TORQUE_RAISE_CLAIM_KIND :: string where
  "DEFAULT_LEADSCREW_TORQUE_RAISE_CLAIM_KIND = ''mech.drive.leadscrew_torque_raise''"

definition DEFAULT_DRIVE_ACCEL_TORQUE_CLAIM_KIND :: string where
  "DEFAULT_DRIVE_ACCEL_TORQUE_CLAIM_KIND = ''mech.drive.accel_torque''"

definition DEFAULT_JUNCTION_TEMPERATURE_TRANSIENT_CLAIM_KIND :: string where
  "DEFAULT_JUNCTION_TEMPERATURE_TRANSIENT_CLAIM_KIND = ''thermo.junction_temperature_transient''"

definition DEFAULT_JUNCTION_TEMPERATURE_DUTY_CYCLE_CLAIM_KIND :: string where
  "DEFAULT_JUNCTION_TEMPERATURE_DUTY_CYCLE_CLAIM_KIND = ''thermo.junction_temperature_duty_cycle''"

definition DEFAULT_SHAFT_CRITICAL_SPEED_CLAIM_KIND :: string where
  "DEFAULT_SHAFT_CRITICAL_SPEED_CLAIM_KIND = ''mech.critical_speed''"

definition DEFAULT_PLATE_MAX_STRESS_CLAIM_KIND :: string where
  "DEFAULT_PLATE_MAX_STRESS_CLAIM_KIND = ''mech.plate.max_stress''"

definition DEFAULT_PLATE_MAX_DEFLECTION_CLAIM_KIND :: string where
  "DEFAULT_PLATE_MAX_DEFLECTION_CLAIM_KIND = ''mech.plate.max_deflection''"

definition DEFAULT_MICROSTRIP_Z0_LO_CLAIM_KIND :: string where
  "DEFAULT_MICROSTRIP_Z0_LO_CLAIM_KIND = ''elec.si.microstrip_z0.lo''"

definition DEFAULT_MICROSTRIP_Z0_HI_CLAIM_KIND :: string where
  "DEFAULT_MICROSTRIP_Z0_HI_CLAIM_KIND = ''elec.si.microstrip_z0.hi''"

definition DEFAULT_STRIPLINE_Z0_LO_CLAIM_KIND :: string where
  "DEFAULT_STRIPLINE_Z0_LO_CLAIM_KIND = ''elec.si.stripline_z0.lo''"

definition DEFAULT_STRIPLINE_Z0_HI_CLAIM_KIND :: string where
  "DEFAULT_STRIPLINE_Z0_HI_CLAIM_KIND = ''elec.si.stripline_z0.hi''"

definition DEFAULT_SERIES_TERMINATION_CLAIM_KIND :: string where
  "DEFAULT_SERIES_TERMINATION_CLAIM_KIND = ''elec.si.series_termination.rs''"

definition DEFAULT_THEVENIN_TERMINATION_R1_CLAIM_KIND :: string where
  "DEFAULT_THEVENIN_TERMINATION_R1_CLAIM_KIND = ''elec.si.thevenin_termination.r1''"

definition DEFAULT_THEVENIN_TERMINATION_R2_CLAIM_KIND :: string where
  "DEFAULT_THEVENIN_TERMINATION_R2_CLAIM_KIND = ''elec.si.thevenin_termination.r2''"

definition DEFAULT_AC_SHUNT_R_CLAIM_KIND :: string where
  "DEFAULT_AC_SHUNT_R_CLAIM_KIND = ''elec.si.ac_shunt.r''"

definition DEFAULT_AC_SHUNT_C_CLAIM_KIND :: string where
  "DEFAULT_AC_SHUNT_C_CLAIM_KIND = ''elec.si.ac_shunt.c''"

definition DEFAULT_FLUIDS_MDOT_LO_CLAIM_KIND :: string where
  "DEFAULT_FLUIDS_MDOT_LO_CLAIM_KIND = ''fluids.mdot.lo''"

definition DEFAULT_FLUIDS_MDOT_HI_CLAIM_KIND :: string where
  "DEFAULT_FLUIDS_MDOT_HI_CLAIM_KIND = ''fluids.mdot.hi''"

definition DEFAULT_FLUIDS_FLOW_IMBALANCE_CLAIM_KIND :: string where
  "DEFAULT_FLUIDS_FLOW_IMBALANCE_CLAIM_KIND = ''fluids.flow_imbalance''"

definition DEFAULT_FLUIDS_DP_CLAIM_KIND :: string where
  "DEFAULT_FLUIDS_DP_CLAIM_KIND = ''fluids.dp''"

section \<open>Models over the engine\<close>

definition FeaStaticStressModel :: "string \<Rightarrow> string list \<Rightarrow> pack_model" where
  "FeaStaticStressModel claim_kind required_regimes =
     fea_model ''fea_static_stress'' claim_kind True
       ''mech.stress.von_mises''
       [''mech.load.internal_pressure'', ''mech.geom.cylinder.inner_radius'',
        ''mech.geom.cylinder.outer_radius'', ''mech.material.youngs_modulus'',
        ''mech.material.poisson'']
       [''linear_elastic'', ''small_deflection'', ''discretized'']
       required_regimes"

definition FeaStaticDeflectionModel :: "string \<Rightarrow> string list \<Rightarrow> pack_model" where
  "FeaStaticDeflectionModel claim_kind required_regimes =
     fea_model ''fea_static_deflection'' claim_kind True
       ''mech.deflection.tip''
       [''mech.geom.cantilever.length'', ''mech.geom.cantilever.width'',
        ''mech.geom.cantilever.height'', ''mech.material.youngs_modulus'',
        ''mech.material.poisson'', ''mech.load.tip_force'']
       [''linear_elastic'', ''small_deflection'', ''discretized'']
       required_regimes"

definition MemberFlexuralCapacityModel :: "string \<Rightarrow> pack_model" where
  "MemberFlexuralCapacityModel claim_kind =
     closed_form_model ''mech_member_flexural_capacity_f2'' claim_kind False
       ''mech.member.flexure.capacity''
       [''mech.member.flexure.fy'', ''mech.member.flexure.zx'']
       [''compact'', ''braced'', ''steel'']
       [''compact'', ''braced'', ''steel'', ''aisc_360_16_f2'']"

definition MemberAxialCapacityModel :: "string \<Rightarrow> pack_model" where
  "MemberAxialCapacityModel claim_kind =
     closed_form_model ''mech_member_axial_capacity_e3'' claim_kind False
       ''mech.member.axial.capacity''
       [''mech.member.axial.fy'', ''mech.member.axial.ag'', ''mech.member.axial.e'',
        ''mech.member.axial.kl_over_r'']
       [''steel'', ''no_slender_elements'']
       [''steel'', ''no_slender_elements'', ''aisc_360_16_e3'']"

definition EulerBucklingLoadModel :: "string \<Rightarrow> pack_model" where
  "EulerBucklingLoadModel claim_kind =
     closed_form_model ''mech_member_euler_buckling_load'' claim_kind False
       ''mech.member.euler.pcr''
       [''mech.member.euler.e'', ''mech.member.euler.i'', ''mech.member.euler.k'',
        ''mech.member.euler.length'']
       [''elastic'', ''prismatic'', ''no_slender_elements'']
       [''elastic'', ''prismatic'', ''no_slender_elements'', ''timoshenko_ch2'']"

definition BoltLoadFactorModel :: "string \<Rightarrow> pack_model" where
  "BoltLoadFactorModel claim_kind =
     closed_form_model ''mech_joint_bolt_load_factor_vdi2230'' claim_kind False
       ''mech.joint.bolt.load_factor''
       [''mech.joint.bolt.cb'', ''mech.joint.bolt.cp'', ''mech.joint.bolt.fv'',
        ''mech.joint.bolt.fa'']
       [''elastic'', ''no_gasket_creep'', ''concentric_load'', ''friction_grip_out_of_scope'']
       [''elastic'', ''no_gasket_creep'', ''concentric_load'', ''vdi_2230_blatt1'']"

definition WeldUtilizationModel :: "string \<Rightarrow> pack_model" where
  "WeldUtilizationModel claim_kind =
     closed_form_model ''mech_weld_group_utilization'' claim_kind True
       ''mech.weld.group.utilization_ratio''
       [''mech.weld.group.inplane_line_force'', ''mech.weld.group.bending_line_force'',
        ''mech.weld.group.leg_size'', ''mech.weld.group.allowable_stress'']
       [''elastic'', ''fillet'', ''static'']
       [''elastic'', ''fillet'', ''static'', ''aws_d1.1_j2.4'']"

definition BearingRatingLifeModel :: "string \<Rightarrow> pack_model" where
  "BearingRatingLifeModel claim_kind =
     closed_form_model ''mech_bearing_rating_life_l10h'' claim_kind False
       ''mech.bearing.l10h''
       [''mech.bearing.l10'', ''mech.bearing.speed_rpm'']
       [''iso_281'', ''constant_speed'']
       [''iso_281'', ''constant_speed'', ''basic_rating'', ''no_a_iso'']"

definition FatigueGoodmanFactorOfSafetyModel :: "string \<Rightarrow> pack_model" where
  "FatigueGoodmanFactorOfSafetyModel claim_kind =
     closed_form_model ''mech_fatigue_goodman_factor_of_safety'' claim_kind False
       ''mech.fatigue.goodman.factor_of_safety''
       [''mech.fatigue.goodman.se'', ''mech.fatigue.goodman.sut'',
        ''mech.fatigue.goodman.sigma_a'', ''mech.fatigue.goodman.sigma_m'']
       [''steel'', ''hcf'', ''fatigue_governs'']
       [''steel'', ''hcf'', ''fatigue_governs'', ''kf_pre_applied'']"

definition FatigueGerberFactorOfSafetyModel :: "string \<Rightarrow> pack_model" where
  "FatigueGerberFactorOfSafetyModel claim_kind =
     closed_form_model ''mech_fatigue_gerber_factor_of_safety'' claim_kind False
       ''mech.fatigue.gerber.factor_of_safety''
       [''mech.fatigue.gerber.se'', ''mech.fatigue.gerber.sut'',
        ''mech.fatigue.gerber.sigma_a'', ''mech.fatigue.gerber.sigma_m'']
       [''steel'', ''hcf'', ''fatigue_governs'']
       [''steel'', ''hcf'', ''fatigue_governs'', ''kf_pre_applied'', ''gerber'']"

definition FatigueSnCyclesToFailureModel :: "string \<Rightarrow> pack_model" where
  "FatigueSnCyclesToFailureModel claim_kind =
     closed_form_model ''mech_fatigue_sn_cycles_to_failure'' claim_kind False
       ''mech.fatigue.sn.cycles_to_failure''
       [''mech.fatigue.sn.sigma_a'', ''mech.fatigue.sn.sut'', ''mech.fatigue.sn.se'',
        ''mech.fatigue.sn.f'']
       [''steel'', ''hcf'']
       [''steel'', ''hcf'', ''kf_pre_applied'', ''sn_knee_line'']"

definition LeadscrewTorqueRaiseModel :: "string \<Rightarrow> pack_model" where
  "LeadscrewTorqueRaiseModel claim_kind =
     closed_form_model ''mech_leadscrew_torque_raise'' claim_kind True
       ''mech.drive.leadscrew.torque_raise''
       [''mech.drive.leadscrew.force'', ''mech.drive.leadscrew.dm'',
        ''mech.drive.leadscrew.lead'', ''mech.drive.leadscrew.friction'']
       [''square_thread'', ''no_collar'']
       [''square_thread'', ''no_collar'', ''no_acme_correction'']"

definition ThermalTransientStepTemperatureModel :: "string \<Rightarrow> pack_model" where
  "ThermalTransientStepTemperatureModel claim_kind =
     closed_form_model ''thermo_junction_temperature_transient'' claim_kind True
       ''heat.transient.temperature''
       [''heat.transient.t_amb'', ''heat.transient.power'', ''heat.transient.r_th'',
        ''heat.transient.c_th'', ''heat.transient.time'', ''heat.transient.biot_number'']
       [''lumped_capacitance'', ''single_node'', ''constant_properties'']
       [''lumped_capacitance'', ''single_node'', ''constant_properties'']"

definition ThermalTransientDutyCyclePeakTemperatureModel :: "string \<Rightarrow> pack_model" where
  "ThermalTransientDutyCyclePeakTemperatureModel claim_kind =
     closed_form_model ''thermo_junction_temperature_duty_cycle'' claim_kind True
       ''heat.transient.duty_peak_temperature''
       [''heat.transient.t_amb'', ''heat.transient.power'', ''heat.transient.r_th'',
        ''heat.transient.c_th'', ''heat.transient.t_on'', ''heat.transient.t_off'',
        ''heat.transient.biot_number'']
       [''lumped_capacitance'', ''single_node'', ''constant_properties'',
        ''periodic_steady_state'']
       [''lumped_capacitance'', ''single_node'', ''constant_properties'',
        ''periodic_steady_state'']"

definition ShaftCriticalSpeedModel :: "string \<Rightarrow> pack_model" where
  "ShaftCriticalSpeedModel claim_kind =
     closed_form_model ''mech_shaft_critical_speed'' claim_kind False
       ''mech.critical_speed.rpm''
       [''mech.critical_speed.stiffness'', ''mech.critical_speed.mass'']
       [''single_mass'', ''undamped'', ''first_mode'']
       [''single_mass'', ''undamped'', ''first_mode'', ''shigley_ch7'']"

definition DriveAccelTorqueModel :: "string \<Rightarrow> pack_model" where
  "DriveAccelTorqueModel claim_kind =
     closed_form_model ''mech_drive_accel_torque'' claim_kind True
       ''mech.drive.accel.torque_required''
       [''mech.drive.accel.j_motor'', ''mech.drive.accel.j_load'',
        ''mech.drive.accel.gear_ratio'', ''mech.drive.accel.efficiency'',
        ''mech.drive.accel.alpha'', ''mech.drive.accel.t_load'']
       [''rigid_drivetrain'', ''single_stage'', ''constant_efficiency'']
       [''rigid_drivetrain'', ''single_stage'', ''constant_efficiency'']"

definition PlateMaxStressModel :: "string \<Rightarrow> pack_model" where
  "PlateMaxStressModel claim_kind =
     closed_form_model ''mech_plate_circular_ss_max_stress'' claim_kind True
       ''mech.plate.circular.ss_max_stress''
       [''mech.plate.circular.q'', ''mech.plate.circular.a'', ''mech.plate.circular.t'',
        ''mech.plate.circular.e'', ''mech.plate.circular.nu'']
       [''thin_plate'', ''small_deflection'', ''circular'']
       [''thin_plate'', ''small_deflection'', ''circular'', ''roark_11.2_10a'']"

definition PlateMaxDeflectionModel :: "string \<Rightarrow> pack_model" where
  "PlateMaxDeflectionModel claim_kind =
     closed_form_model ''mech_plate_circular_ss_max_deflection'' claim_kind True
       ''mech.plate.circular.ss_max_deflection''
       [''mech.plate.circular.q'', ''mech.plate.circular.a'', ''mech.plate.circular.t'',
        ''mech.plate.circular.e'', ''mech.plate.circular.nu'']
       [''thin_plate'', ''small_deflection'', ''circular'']
       [''thin_plate'', ''small_deflection'', ''circular'', ''roark_11.2_10a'']"

definition MicrostripImpedanceModel :: "string \<Rightarrow> bool \<Rightarrow> pack_model" where
  "MicrostripImpedanceModel claim_kind upper =
     closed_form_model (''elec_si_microstrip_z0_'' @ (if upper then ''hi'' else ''lo'')) claim_kind upper
       ''elec.si.microstrip.z0''
       [''elec.si.microstrip.w'', ''elec.si.microstrip.h'', ''elec.si.microstrip.t'',
        ''elec.si.microstrip.er'']
       [''tem'', ''surface_microstrip'', ''hammerstad_jensen'']
       [''tem'', ''surface_microstrip'', ''hammerstad_jensen'']"

definition StriplineImpedanceModel :: "string \<Rightarrow> bool \<Rightarrow> pack_model" where
  "StriplineImpedanceModel claim_kind upper =
     closed_form_model (''elec_si_stripline_z0_'' @ (if upper then ''hi'' else ''lo'')) claim_kind upper
       ''elec.si.stripline.z0''
       [''elec.si.stripline.w'', ''elec.si.stripline.b'', ''elec.si.stripline.er'']
       [''tem'', ''symmetric_stripline'', ''centred_track'', ''zero_thickness'']
       [''tem'', ''symmetric_stripline'', ''centred_track'', ''zero_thickness'']"

definition SeriesTerminationModel :: "string \<Rightarrow> pack_model" where
  "SeriesTerminationModel claim_kind =
     closed_form_model ''elec_si_series_termination_rs'' claim_kind False
       ''elec.si.series_termination.rs''
       [''elec.si.series_termination.z0'', ''elec.si.series_termination.ro'']
       [''source_series'', ''matched_line'']
       [''source_series'', ''matched_line'', ''johnson_graham_ch4'']"

definition TheveninTerminationR1Model :: "string \<Rightarrow> pack_model" where
  "TheveninTerminationR1Model claim_kind =
     closed_form_model ''elec_si_thevenin_termination_r1'' claim_kind False
       ''elec.si.thevenin_termination.r1''
       [''elec.si.thevenin_termination.z0'', ''elec.si.thevenin_termination.vcc'',
        ''elec.si.thevenin_termination.vbias'']
       [''thevenin_parallel'', ''matched_line'']
       [''thevenin_parallel'', ''matched_line'', ''johnson_graham_ch4'']"

definition TheveninTerminationR2Model :: "string \<Rightarrow> pack_model" where
  "TheveninTerminationR2Model claim_kind =
     closed_form_model ''elec_si_thevenin_termination_r2'' claim_kind False
       ''elec.si.thevenin_termination.r2''
       [''elec.si.thevenin_termination.z0'', ''elec.si.thevenin_termination.vcc'',
        ''elec.si.thevenin_termination.vbias'']
       [''thevenin_parallel'', ''matched_line'']
       [''thevenin_parallel'', ''matched_line'', ''johnson_graham_ch4'']"

definition AcShuntResistorModel :: "string \<Rightarrow> pack_model" where
  "AcShuntResistorModel claim_kind =
     closed_form_model ''elec_si_ac_shunt_sizing_r'' claim_kind False
       ''elec.si.ac_shunt.r''
       [''elec.si.ac_shunt.z0'']
       [''ac_shunt'']
       [''ac_shunt'', ''johnson_graham_ch4'']"

definition AcShuntCapacitorModel :: "string \<Rightarrow> pack_model" where
  "AcShuntCapacitorModel claim_kind =
     closed_form_model ''elec_si_ac_shunt_sizing_c'' claim_kind False
       ''elec.si.ac_shunt.c''
       [''elec.si.ac_shunt.rise_time'', ''elec.si.ac_shunt.r'']
       [''ac_shunt'', ''quarter_rise_time_heuristic'']
       [''ac_shunt'', ''quarter_rise_time_heuristic'', ''johnson_graham_ch4'']"

section \<open>Models with a method of their own\<close>

definition own_model ::
  "string \<Rightarrow> string \<Rightarrow> bool \<Rightarrow> string list \<Rightarrow> string list \<Rightarrow> (string, string) dict \<Rightarrow> nat \<Rightarrow> pack_body
   \<Rightarrow> pack_model" where
  "own_model name claim_kind upper ins doms payload_kinds cost body =
     \<lparr>pm_signature =
        \<lparr>ms_name = name, ms_claim_kind = claim_kind, ms_upper = upper, ms_inputs = ins,
         ms_domain = doms, ms_required_regimes = [], ms_payload_kinds = payload_kinds\<rparr>,
      pm_version = ''1'', pm_cost = cost, pm_body = body\<rparr>"

definition GEOMETRY_PAYLOAD_PORT :: string where
  "GEOMETRY_PAYLOAD_PORT = ''mech.geom.cantilever.parametric''"

definition MINER_SPECTRUM_PORT :: string where
  "MINER_SPECTRUM_PORT = ''mech.fatigue.miner.spectrum''"

definition FeaStaticDeflectionFromGeometryModel :: "string \<Rightarrow> pack_model" where
  "FeaStaticDeflectionFromGeometryModel claim_kind =
     own_model ''fea_static_deflection_from_geometry'' claim_kind True
       [''mech.material.youngs_modulus'', ''mech.material.poisson'', ''mech.load.tip_force'']
       [''linear_elastic'', ''small_deflection'', ''discretized'']
       [(GEOMETRY_PAYLOAD_PORT, ''geometry.parametric'')] PAYLOAD_TIER_COST GeometryBody"

definition FatigueMinerDamageModel :: "string \<Rightarrow> pack_model" where
  "FatigueMinerDamageModel claim_kind =
     own_model ''mech_fatigue_miner_damage'' claim_kind True
       [''mech.fatigue.miner.sut'', ''mech.fatigue.miner.se'', ''mech.fatigue.miner.f'']
       [''steel'', ''hcf''] [(MINER_SPECTRUM_PORT, ''spectrum'')] PAYLOAD_TIER_COST MinerBody"

definition MechStiffnessModel :: "string \<Rightarrow> pack_model" where
  "MechStiffnessModel claim_kind =
     own_model ''mech_stiffness'' claim_kind False [''e_modulus'', ''i_area'', ''length'']
       [''linear_elastic'', ''small_deflection'', ''closed_form''] [] 1 StiffnessBody"

definition ElecRailModel :: "string \<Rightarrow> bool \<Rightarrow> pack_model" where
  "ElecRailModel claim_kind upper =
     own_model (''elec_rail_'' @ (if upper then ''hi'' else ''lo'')) claim_kind upper
       [''vin'', ''r1'', ''r2'', ''rload''] [''linear'', ''small_signal'', ''closed_form''] [] 1 RailBody"

definition FluidsMdotModel :: "string \<Rightarrow> bool \<Rightarrow> pack_model" where
  "FluidsMdotModel claim_kind upper =
     own_model (''fluids_mdot_'' @ (if upper then ''hi'' else ''lo'')) claim_kind upper []
       [''incompressible'', ''network'', ''hardy_cross''] [(FLOWNET_PORT, ''flownet'')] PAYLOAD_TIER_COST MdotBody"

definition FluidsFlowImbalanceModel :: "string \<Rightarrow> pack_model" where
  "FluidsFlowImbalanceModel claim_kind =
     own_model ''fluids_flow_imbalance'' claim_kind True []
       [''incompressible'', ''network'', ''hardy_cross''] [(FLOWNET_PORT, ''flownet'')] PAYLOAD_TIER_COST ImbalanceBody"

definition FluidsDpModel :: "string \<Rightarrow> pack_model" where
  "FluidsDpModel claim_kind =
     own_model ''fluids_dp_multipath'' claim_kind True []
       [''incompressible'', ''network'', ''hardy_cross'', ''multi_path''] [(FLOWNET_PORT, ''flownet'')]
       PAYLOAD_TIER_COST DpBody"

section \<open>What the pack registers\<close>

definition pack_register :: "pack_model list" where
  "pack_register =
     [FeaStaticStressModel DEFAULT_STRESS_CLAIM_KIND [],
      FeaStaticDeflectionModel DEFAULT_DEFLECTION_CLAIM_KIND [],
      FeaStaticDeflectionFromGeometryModel DEFAULT_DEFLECTION_CLAIM_KIND,
      MechStiffnessModel DEFAULT_STIFFNESS_CLAIM_KIND,
      ElecRailModel DEFAULT_RAIL_LO_CLAIM_KIND False,
      ElecRailModel DEFAULT_RAIL_HI_CLAIM_KIND True,
      MemberFlexuralCapacityModel DEFAULT_MEMBER_FLEXURAL_CAPACITY_CLAIM_KIND,
      MemberAxialCapacityModel DEFAULT_MEMBER_AXIAL_CAPACITY_CLAIM_KIND,
      EulerBucklingLoadModel DEFAULT_EULER_BUCKLING_LOAD_CLAIM_KIND,
      BoltLoadFactorModel DEFAULT_BOLT_LOAD_FACTOR_CLAIM_KIND,
      WeldUtilizationModel DEFAULT_WELD_UTILIZATION_CLAIM_KIND,
      BearingRatingLifeModel DEFAULT_BEARING_RATING_LIFE_CLAIM_KIND,
      FatigueGoodmanFactorOfSafetyModel DEFAULT_FATIGUE_GOODMAN_FACTOR_OF_SAFETY_CLAIM_KIND,
      LeadscrewTorqueRaiseModel DEFAULT_LEADSCREW_TORQUE_RAISE_CLAIM_KIND,
      FatigueSnCyclesToFailureModel DEFAULT_FATIGUE_CYCLES_TO_FAILURE_CLAIM_KIND,
      FatigueMinerDamageModel DEFAULT_FATIGUE_DAMAGE_CLAIM_KIND,
      FatigueGerberFactorOfSafetyModel DEFAULT_FATIGUE_GERBER_FACTOR_OF_SAFETY_CLAIM_KIND,
      ThermalTransientStepTemperatureModel DEFAULT_JUNCTION_TEMPERATURE_TRANSIENT_CLAIM_KIND,
      ThermalTransientDutyCyclePeakTemperatureModel DEFAULT_JUNCTION_TEMPERATURE_DUTY_CYCLE_CLAIM_KIND,
      ShaftCriticalSpeedModel DEFAULT_SHAFT_CRITICAL_SPEED_CLAIM_KIND,
      DriveAccelTorqueModel DEFAULT_DRIVE_ACCEL_TORQUE_CLAIM_KIND,
      PlateMaxStressModel DEFAULT_PLATE_MAX_STRESS_CLAIM_KIND,
      PlateMaxDeflectionModel DEFAULT_PLATE_MAX_DEFLECTION_CLAIM_KIND,
      MicrostripImpedanceModel DEFAULT_MICROSTRIP_Z0_LO_CLAIM_KIND False,
      MicrostripImpedanceModel DEFAULT_MICROSTRIP_Z0_HI_CLAIM_KIND True,
      StriplineImpedanceModel DEFAULT_STRIPLINE_Z0_LO_CLAIM_KIND False,
      StriplineImpedanceModel DEFAULT_STRIPLINE_Z0_HI_CLAIM_KIND True,
      SeriesTerminationModel DEFAULT_SERIES_TERMINATION_CLAIM_KIND,
      TheveninTerminationR1Model DEFAULT_THEVENIN_TERMINATION_R1_CLAIM_KIND,
      TheveninTerminationR2Model DEFAULT_THEVENIN_TERMINATION_R2_CLAIM_KIND,
      AcShuntResistorModel DEFAULT_AC_SHUNT_R_CLAIM_KIND,
      AcShuntCapacitorModel DEFAULT_AC_SHUNT_C_CLAIM_KIND,
      FluidsMdotModel DEFAULT_FLUIDS_MDOT_LO_CLAIM_KIND False,
      FluidsMdotModel DEFAULT_FLUIDS_MDOT_HI_CLAIM_KIND True,
      FluidsFlowImbalanceModel DEFAULT_FLUIDS_FLOW_IMBALANCE_CLAIM_KIND,
      FluidsDpModel DEFAULT_FLUIDS_DP_CLAIM_KIND]"

lemmas claim_kind_defs =
  DEFAULT_STRESS_CLAIM_KIND_def
  DEFAULT_DEFLECTION_CLAIM_KIND_def
  DEFAULT_STIFFNESS_CLAIM_KIND_def
  DEFAULT_RAIL_LO_CLAIM_KIND_def
  DEFAULT_RAIL_HI_CLAIM_KIND_def
  DEFAULT_MEMBER_FLEXURAL_CAPACITY_CLAIM_KIND_def
  DEFAULT_MEMBER_AXIAL_CAPACITY_CLAIM_KIND_def
  DEFAULT_EULER_BUCKLING_LOAD_CLAIM_KIND_def
  DEFAULT_BOLT_LOAD_FACTOR_CLAIM_KIND_def
  DEFAULT_WELD_UTILIZATION_CLAIM_KIND_def
  DEFAULT_BEARING_RATING_LIFE_CLAIM_KIND_def
  DEFAULT_FATIGUE_GOODMAN_FACTOR_OF_SAFETY_CLAIM_KIND_def
  DEFAULT_FATIGUE_GERBER_FACTOR_OF_SAFETY_CLAIM_KIND_def
  DEFAULT_FATIGUE_CYCLES_TO_FAILURE_CLAIM_KIND_def
  DEFAULT_FATIGUE_DAMAGE_CLAIM_KIND_def
  DEFAULT_LEADSCREW_TORQUE_RAISE_CLAIM_KIND_def
  DEFAULT_DRIVE_ACCEL_TORQUE_CLAIM_KIND_def
  DEFAULT_JUNCTION_TEMPERATURE_TRANSIENT_CLAIM_KIND_def
  DEFAULT_JUNCTION_TEMPERATURE_DUTY_CYCLE_CLAIM_KIND_def
  DEFAULT_SHAFT_CRITICAL_SPEED_CLAIM_KIND_def
  DEFAULT_PLATE_MAX_STRESS_CLAIM_KIND_def
  DEFAULT_PLATE_MAX_DEFLECTION_CLAIM_KIND_def
  DEFAULT_MICROSTRIP_Z0_LO_CLAIM_KIND_def
  DEFAULT_MICROSTRIP_Z0_HI_CLAIM_KIND_def
  DEFAULT_STRIPLINE_Z0_LO_CLAIM_KIND_def
  DEFAULT_STRIPLINE_Z0_HI_CLAIM_KIND_def
  DEFAULT_SERIES_TERMINATION_CLAIM_KIND_def
  DEFAULT_THEVENIN_TERMINATION_R1_CLAIM_KIND_def
  DEFAULT_THEVENIN_TERMINATION_R2_CLAIM_KIND_def
  DEFAULT_AC_SHUNT_R_CLAIM_KIND_def
  DEFAULT_AC_SHUNT_C_CLAIM_KIND_def
  DEFAULT_FLUIDS_MDOT_LO_CLAIM_KIND_def
  DEFAULT_FLUIDS_MDOT_HI_CLAIM_KIND_def
  DEFAULT_FLUIDS_FLOW_IMBALANCE_CLAIM_KIND_def
  DEFAULT_FLUIDS_DP_CLAIM_KIND_def

lemmas model_defs =
  FeaStaticStressModel_def
  FeaStaticDeflectionModel_def
  MemberFlexuralCapacityModel_def
  MemberAxialCapacityModel_def
  EulerBucklingLoadModel_def
  BoltLoadFactorModel_def
  WeldUtilizationModel_def
  BearingRatingLifeModel_def
  FatigueGoodmanFactorOfSafetyModel_def
  FatigueGerberFactorOfSafetyModel_def
  FatigueSnCyclesToFailureModel_def
  LeadscrewTorqueRaiseModel_def
  ThermalTransientStepTemperatureModel_def
  ThermalTransientDutyCyclePeakTemperatureModel_def
  ShaftCriticalSpeedModel_def
  DriveAccelTorqueModel_def
  PlateMaxStressModel_def
  PlateMaxDeflectionModel_def
  MicrostripImpedanceModel_def
  StriplineImpedanceModel_def
  SeriesTerminationModel_def
  TheveninTerminationR1Model_def
  TheveninTerminationR2Model_def
  AcShuntResistorModel_def
  AcShuntCapacitorModel_def
  FeaStaticDeflectionFromGeometryModel_def
  FatigueMinerDamageModel_def
  MechStiffnessModel_def
  ElecRailModel_def
  FluidsMdotModel_def
  FluidsFlowImbalanceModel_def
  FluidsDpModel_def
  fea_model_def closed_form_model_def own_model_def REDUCED_TIER_COST_def PAYLOAD_TIER_COST_def

definition kind_of :: "pack_model \<Rightarrow> string" where
  "kind_of m = ms_claim_kind (pm_signature m)"

definition name_of :: "pack_model \<Rightarrow> string" where
  "name_of m = ms_name (pm_signature m)"

lemmas pack_table_simps = pack_register_def kind_of_def name_of_def model_defs claim_kind_defs

lemma kinds_distinct: "distinct (map kind_of (take 2 pack_register @ drop 3 pack_register))"
  by (simp add: pack_table_simps)

lemma names_distinct: "distinct (map (\<lambda>m. (name_of m, kind_of m)) pack_register)"
  by (simp add: pack_table_simps)

lemma register_costs: "list_all (\<lambda>m. pm_cost m \<in> {1, REDUCED_TIER_COST, PAYLOAD_TIER_COST}) pack_register"
  by (simp add: pack_table_simps)


end
