(* ===== verification/Slices.thy ===== *)
theory Slices
  imports Corner_Sweep
begin

text \<open>
  Formulas that rise or fall along each of their arguments. A formula is a function of a list of
  numbers; \<open>swings\<close> says that a function of one number rises throughout an interval or falls
  throughout it, and the collection \<open>swing\<close> holds its rules, one per arithmetic operation.
  \<open>slice_monotone\<close> is what a direction declares as \<open>corner_monotone\<close>.
\<close>

named_theorems swing

section \<open>Functions of one number\<close>

definition rises :: "interval \<Rightarrow> (real \<Rightarrow> real) \<Rightarrow> bool" where
  "rises iv g \<longleftrightarrow> (\<forall>v w. iv_contains iv v \<and> iv_contains iv w \<and> v \<le> w \<longrightarrow> g v \<le> g w)"

definition falls :: "interval \<Rightarrow> (real \<Rightarrow> real) \<Rightarrow> bool" where
  "falls iv g \<longleftrightarrow> rises iv (\<lambda>v. - g v)"

definition swings :: "interval \<Rightarrow> (real \<Rightarrow> real) \<Rightarrow> bool" where
  "swings iv g \<longleftrightarrow> rises iv g \<or> falls iv g"

lemma risesI: "(\<And>v w. iv_contains iv v \<Longrightarrow> iv_contains iv w \<Longrightarrow> v \<le> w \<Longrightarrow> g v \<le> g w) \<Longrightarrow> rises iv g"
  by (simp add: rises_def)

lemma fallsI: "(\<And>v w. iv_contains iv v \<Longrightarrow> iv_contains iv w \<Longrightarrow> v \<le> w \<Longrightarrow> g w \<le> g v) \<Longrightarrow> falls iv g"
  by (simp add: falls_def rises_def)

lemma risesD: "rises iv g \<Longrightarrow> iv_contains iv v \<Longrightarrow> iv_contains iv w \<Longrightarrow> v \<le> w \<Longrightarrow> g v \<le> g w"
  by (simp add: rises_def)

lemma fallsD: "falls iv g \<Longrightarrow> iv_contains iv v \<Longrightarrow> iv_contains iv w \<Longrightarrow> v \<le> w \<Longrightarrow> g w \<le> g v"
  by (simp add: falls_def rises_def)

lemma rises_swings: "rises iv g \<Longrightarrow> swings iv g"
  and falls_swings: "falls iv g \<Longrightarrow> swings iv g"
  by (simp_all add: swings_def)

lemma rises_cong: "(\<And>v. iv_contains iv v \<Longrightarrow> g v = h v) \<Longrightarrow> rises iv g \<longleftrightarrow> rises iv h"
  by (simp add: rises_def)

lemma swings_cong: "(\<And>v. iv_contains iv v \<Longrightarrow> g v = h v) \<Longrightarrow> swings iv g \<longleftrightarrow> swings iv h"
  by (simp add: swings_def falls_def rises_def)

text \<open>Composition with a function that rises, or falls, on a set that holds the values.\<close>

lemma rises_mono_on: "rises iv g \<Longrightarrow> mono_on S h \<Longrightarrow> (\<And>v. iv_contains iv v \<Longrightarrow> g v \<in> S) \<Longrightarrow> rises iv (\<lambda>v. h (g v))"
  by (auto simp: rises_def mono_on_def)

lemma falls_mono_on: "falls iv g \<Longrightarrow> mono_on S h \<Longrightarrow> (\<And>v. iv_contains iv v \<Longrightarrow> g v \<in> S) \<Longrightarrow> falls iv (\<lambda>v. h (g v))"
  by (auto simp: falls_def rises_def mono_on_def)

lemma swings_mono_on: "swings iv g \<Longrightarrow> mono_on S h \<Longrightarrow> (\<And>v. iv_contains iv v \<Longrightarrow> g v \<in> S) \<Longrightarrow> swings iv (\<lambda>v. h (g v))"
  unfolding swings_def using rises_mono_on falls_mono_on by blast

lemma swings_minus: "swings iv g \<Longrightarrow> swings iv (\<lambda>v. - g v)"
  by (auto simp: swings_def falls_def)

lemma swings_antimono_on:
  assumes "swings iv g" "mono_on S (\<lambda>v. - h v)" "\<And>v. iv_contains iv v \<Longrightarrow> g v \<in> S"
  shows "swings iv (\<lambda>v. h (g v))"
  using swings_minus [OF swings_mono_on [OF assms]] by simp

section \<open>One rule per operation\<close>

lemma swings_const [swing]: "swings iv (\<lambda>v. c)"
  and swings_id [swing]: "swings iv (\<lambda>v. v)"
  by (simp_all add: swings_def rises_def)

lemma swings_plus_const: "swings iv g \<Longrightarrow> swings iv (\<lambda>v. g v + c)"
  by (rule swings_mono_on [where S = UNIV and h = "\<lambda>x. x + c"]) (simp_all add: mono_on_def)

lemma swings_const_plus: "swings iv g \<Longrightarrow> swings iv (\<lambda>v. c + g v)"
  by (subst add.commute) (rule swings_plus_const)

lemma swings_minus_const: "swings iv g \<Longrightarrow> swings iv (\<lambda>v. g v - c)"
  using swings_plus_const [of iv g "- c"] by simp

lemma swings_const_minus: "swings iv g \<Longrightarrow> swings iv (\<lambda>v. c - g v)"
  using swings_const_plus [OF swings_minus, of iv g c] by simp

lemma swings_cmult:
  assumes "swings iv g"
  shows "swings iv (\<lambda>v. c * g v)"
proof (cases "0 \<le> c")
  case True
  then show ?thesis
    by (intro swings_mono_on [OF assms, where S = UNIV and h = "(*) c"]) (simp_all add: mono_on_def mult_left_mono)
next
  case False
  then show ?thesis
    by (intro swings_antimono_on [OF assms, where S = UNIV and h = "(*) c"])
      (simp_all add: mono_on_def mult_left_mono_neg)
qed

lemma swings_mult_const: "swings iv g \<Longrightarrow> swings iv (\<lambda>v. g v * c)"
  by (subst mult.commute) (rule swings_cmult)

lemma swings_div_const: "swings iv g \<Longrightarrow> swings iv (\<lambda>v. g v / c)"
  using swings_mult_const [of iv g "inverse c"] by (simp add: divide_inverse)

lemma swings_const_div:
  assumes "swings iv g" "\<And>v. iv_contains iv v \<Longrightarrow> 0 < g v"
  shows "swings iv (\<lambda>v. c / g v)"
proof -
  have "swings iv (\<lambda>v. inverse (g v))"
    by (rule swings_antimono_on [OF assms(1), where S = "{0 <..}"])
      (auto simp: mono_on_def assms(2) le_imp_inverse_le)
  then show ?thesis unfolding divide_inverse by (rule swings_cmult)
qed

lemma swings_power: "swings iv g \<Longrightarrow> (\<And>v. iv_contains iv v \<Longrightarrow> 0 \<le> g v) \<Longrightarrow> swings iv (\<lambda>v. g v ^ n)"
  by (rule swings_mono_on [where S = "{0..}" and h = "\<lambda>x. x ^ n"]) (auto simp: mono_on_def power_mono)

lemma swings_odd_power: "swings iv g \<Longrightarrow> odd n \<Longrightarrow> swings iv (\<lambda>v. g v ^ n)"
  by (rule swings_mono_on [where S = UNIV and h = "\<lambda>x. x ^ n"]) (auto simp: mono_on_def power_mono_odd)

lemma swings_sqrt: "swings iv g \<Longrightarrow> swings iv (\<lambda>v. sqrt (g v))"
  by (rule swings_mono_on [where S = UNIV]) (simp_all add: mono_on_def)

lemma swings_abs_pos: "swings iv g \<Longrightarrow> (\<And>v. iv_contains iv v \<Longrightarrow> 0 \<le> g v) \<Longrightarrow> swings iv (\<lambda>v. \<bar>g v\<bar>)"
  using swings_cong [of iv "\<lambda>v. \<bar>g v\<bar>" g] by simp

lemma swings_ln: "swings iv g \<Longrightarrow> (\<And>v. iv_contains iv v \<Longrightarrow> 0 < g v) \<Longrightarrow> swings iv (\<lambda>v. ln (g v))"
  by (rule swings_mono_on [where S = "{0 <..}" and h = ln]) (auto simp: mono_on_def)

lemma swings_exp: "swings iv g \<Longrightarrow> swings iv (\<lambda>v. exp (g v))"
  by (rule swings_mono_on [where S = UNIV]) (simp_all add: mono_on_def)

lemma swings_powr:
  assumes "swings iv g" "\<And>v. iv_contains iv v \<Longrightarrow> 0 < g v"
  shows "swings iv (\<lambda>v. g v powr c)"
proof (cases "0 \<le> c")
  case True
  then show ?thesis
    by (intro swings_mono_on [OF assms(1), where S = "{0 <..}" and h = "\<lambda>x. x powr c"])
      (auto simp: mono_on_def assms(2) powr_mono2)
next
  case False
  then show ?thesis
    by (intro swings_antimono_on [OF assms(1), where S = "{0 <..}" and h = "\<lambda>x. x powr c"])
      (auto simp: mono_on_def assms(2) powr_mono2')
qed

lemma swings_powr_exponent:
  assumes "swings iv g" "0 < c"
  shows "swings iv (\<lambda>v. c powr g v)"
  using swings_exp [OF swings_mult_const [OF assms(1), of "ln c"]] assms(2) by (simp add: powr_def)

lemma swings_max: "swings iv g \<Longrightarrow> swings iv (\<lambda>v. max c (g v))"
  by (rule swings_mono_on [where S = UNIV and h = "max c"]) (auto simp: mono_on_def)

lemma swings_max': "swings iv g \<Longrightarrow> swings iv (\<lambda>v. max (g v) c)"
  by (subst max.commute) (rule swings_max)

lemma swings_min: "swings iv g \<Longrightarrow> swings iv (\<lambda>v. min c (g v))"
  by (rule swings_mono_on [where S = UNIV and h = "min c"]) (auto simp: mono_on_def)

lemma swings_min': "swings iv g \<Longrightarrow> swings iv (\<lambda>v. min (g v) c)"
  by (subst min.commute) (rule swings_min)

text \<open>A quotient of two linear forms whose denominator is positive, at a value that swings.\<close>

lemma linear_fraction_cross:
  fixes a b c d x y :: real
  assumes "0 < c * x + d" "0 < c * y + d" "x \<le> y"
  shows "b * c \<le> a * d \<Longrightarrow> (a * x + b) / (c * x + d) \<le> (a * y + b) / (c * y + d)"
    and "a * d \<le> b * c \<Longrightarrow> (a * y + b) / (c * y + d) \<le> (a * x + b) / (c * x + d)"
proof -
  have cross: "(a * x + b) * (c * y + d) - (a * y + b) * (c * x + d) = (b * c - a * d) * (y - x)"
    by (simp add: algebra_simps)
  show "(a * x + b) / (c * x + d) \<le> (a * y + b) / (c * y + d)" if "b * c \<le> a * d"
  proof -
    have "(b * c - a * d) * (y - x) \<le> 0" using that assms(3) by (simp add: mult_nonpos_nonneg)
    then show ?thesis using assms(1,2) cross
      by (simp add: frac_le_eq divide_le_0_iff mult_pos_pos mult.commute)
  qed
  show "(a * y + b) / (c * y + d) \<le> (a * x + b) / (c * x + d)" if "a * d \<le> b * c"
  proof -
    have "0 \<le> (b * c - a * d) * (y - x)" using that assms(3) by simp
    then show ?thesis using assms(1,2) cross
      by (simp add: frac_le_eq divide_le_0_iff mult_pos_pos mult.commute)
  qed
qed

lemma swings_linear_fraction:
  assumes g: "swings iv g" and pos: "\<And>v. iv_contains iv v \<Longrightarrow> 0 < c * g v + d"
  shows "swings iv (\<lambda>v. (a * g v + b) / (c * g v + d))"
proof (cases "b * c \<le> a * d")
  case True
  show ?thesis
    by (rule swings_mono_on [OF g, where S = "{x. 0 < c * x + d}" and h = "\<lambda>x. (a * x + b) / (c * x + d)"])
      (auto simp: mono_on_def pos intro: linear_fraction_cross(1) True)
next
  case False
  show ?thesis
    by (rule swings_antimono_on [OF g, where S = "{x. 0 < c * x + d}" and h = "\<lambda>x. (a * x + b) / (c * x + d)"])
      (use False in \<open>auto simp: mono_on_def pos intro: linear_fraction_cross(2)\<close>)
qed

lemma swings_share: "(\<And>v. iv_contains iv v \<Longrightarrow> 0 < v + d) \<Longrightarrow> swings iv (\<lambda>v. v / (v + d))"
  using swings_linear_fraction [OF swings_id, of iv 1 d 1 0] by simp

lemma swings_share': "(\<And>v. iv_contains iv v \<Longrightarrow> 0 < d + v) \<Longrightarrow> swings iv (\<lambda>v. v / (d + v))"
  using swings_share [of iv d] by (simp add: add.commute)

lemma swings_share_mult: "(\<And>v. iv_contains iv v \<Longrightarrow> 0 < v + d) \<Longrightarrow> swings iv (\<lambda>v. v * c / (v + d))"
  using swings_mult_const [OF swings_share, of iv d c] by simp

lemma swings_gap: "(\<And>v. iv_contains iv v \<Longrightarrow> d < v) \<Longrightarrow> swings iv (\<lambda>v. c * v / (v - d))"
  using swings_linear_fraction [OF swings_id, of iv 1 "- d" c 0] by simp

lemmas [swing] = swings_share swings_share' swings_share_mult swings_gap swings_plus_const swings_const_plus swings_minus_const swings_const_minus swings_cmult
  swings_mult_const swings_div_const swings_const_div swings_power swings_sqrt swings_ln
  swings_exp swings_powr swings_powr_exponent swings_minus swings_max swings_max' swings_min swings_min'

text \<open>Sums of two parts that move the same way.\<close>

lemma rises_add: "rises iv g \<Longrightarrow> rises iv h \<Longrightarrow> rises iv (\<lambda>v. g v + h v)"
  by (force simp: rises_def intro: add_mono)

lemma falls_add: "falls iv g \<Longrightarrow> falls iv h \<Longrightarrow> falls iv (\<lambda>v. g v + h v)"
  by (force simp: falls_def rises_def intro: add_mono)

lemma rises_mult:
  "rises iv g \<Longrightarrow> rises iv h \<Longrightarrow> (\<And>v. iv_contains iv v \<Longrightarrow> 0 \<le> g v) \<Longrightarrow> (\<And>v. iv_contains iv v \<Longrightarrow> 0 \<le> h v)
   \<Longrightarrow> rises iv (\<lambda>v. g v * h v)"
  by (simp add: rises_def mult_mono)

lemma swings_times_self:
  assumes "\<And>v. iv_contains iv v \<Longrightarrow> 0 \<le> v"
  shows "swings iv (\<lambda>v. c * v * v)" "swings iv (\<lambda>v. c * (v * v))" "swings iv (\<lambda>v. v * v)"
    "swings iv (\<lambda>v. c * v * v * d)" "swings iv (\<lambda>v. c * (d * v * v))"
proof -
  have sq: "swings iv (\<lambda>v. v * v)"
    using assms by (intro rises_swings risesI mult_mono) auto
  show "swings iv (\<lambda>v. v * v)" by (rule sq)
  show "swings iv (\<lambda>v. c * (v * v))" by (rule swings_cmult [OF sq])
  show "swings iv (\<lambda>v. c * v * v)" using swings_cmult [OF sq, of c] by (simp add: mult.assoc)
  show "swings iv (\<lambda>v. c * v * v * d)" using swings_cmult [OF sq, of "c * d"] by (simp add: ac_simps)
  show "swings iv (\<lambda>v. c * (d * v * v))" using swings_cmult [OF sq, of "c * d"] by (simp add: ac_simps)
qed

lemma swings_fraction:
  assumes "\<And>v. iv_contains iv v \<Longrightarrow> h v = (c * v + d) / (a * v + b)" "\<And>v. iv_contains iv v \<Longrightarrow> 0 < a * v + b"
  shows "swings iv h"
proof -
  have "swings iv (\<lambda>v. (c * v + d) / (a * v + b))"
    by (intro swings_linear_fraction rises_swings risesI assms(2))
  then show ?thesis using assms(1) by (simp cong: swings_cong)
qed

text \<open>The exponential lies below its chords.\<close>

lemma exp_chord:
  fixes t x :: real
  assumes "0 \<le> t" "t \<le> 1"
  shows "exp (t * x) \<le> (1 - t) + t * exp x"
proof -
  have "t * (1 + (1 - t) * x) + (1 - t) * (1 - t * x) \<le> t * exp ((1 - t) * x) + (1 - t) * exp (- (t * x))"
    using assms exp_ge_add_one_self [of "(1 - t) * x"] exp_ge_add_one_self [of "- (t * x)"]
    by (intro add_mono mult_left_mono) auto
  then have "1 \<le> t * exp ((1 - t) * x) + (1 - t) * exp (- (t * x))"
    by (simp add: algebra_simps)
  then have "exp (t * x) * 1 \<le> exp (t * x) * (t * exp ((1 - t) * x) + (1 - t) * exp (- (t * x)))"
    by (intro mult_left_mono) auto
  also have "\<dots> = t * (exp (t * x) * exp ((1 - t) * x)) + (1 - t) * (exp (t * x) * exp (- (t * x)))"
    by (simp add: algebra_simps)
  also have "\<dots> = (1 - t) + t * exp x"
    by (simp add: exp_add [symmetric] algebra_simps)
  finally show ?thesis by simp
qed

section \<open>Formulas of several numbers\<close>

definition in_ranges :: "interval list \<Rightarrow> real list \<Rightarrow> bool" where
  "in_ranges ivs vs \<longleftrightarrow> list_all2 iv_contains ivs vs"

lemma in_ranges_simps [simp]:
  "in_ranges [] vs \<longleftrightarrow> vs = []"
  "in_ranges (iv # ivs) (v # vs) \<longleftrightarrow> iv_contains iv v \<and> in_ranges ivs vs"
  by (simp_all add: in_ranges_def)

lemma in_ranges_Cons: "in_ranges (iv # ivs) vs \<longleftrightarrow> (\<exists>v ws. vs = v # ws \<and> iv_contains iv v \<and> in_ranges ivs ws)"
  by (simp add: in_ranges_def list_all2_Cons1)

lemma in_ranges_length: "in_ranges ivs vs \<Longrightarrow> length vs = length ivs"
  by (simp add: in_ranges_def list_all2_lengthD)

definition at_ends :: "interval list \<Rightarrow> real list \<Rightarrow> bool" where
  "at_ends ivs vs \<longleftrightarrow> list_all2 (\<lambda>iv v. v = iv_lo iv \<or> v = iv_hi iv) ivs vs"

text \<open>
  Along each argument, the others held fixed, the formula rises or falls over the declared ranges;
  which of the two may depend on the other arguments.
\<close>

definition slice_monotone :: "interval list \<Rightarrow> (real list \<Rightarrow> real) \<Rightarrow> bool" where
  "slice_monotone ivs f \<longleftrightarrow>
     (\<forall>i < length ivs. \<forall>vs.
        (\<forall>v w. in_ranges ivs (vs[i := v]) \<and> in_ranges ivs (vs[i := w]) \<and> v \<le> w \<longrightarrow> f (vs[i := v]) \<le> f (vs[i := w])) \<or>
        (\<forall>v w. in_ranges ivs (vs[i := v]) \<and> in_ranges ivs (vs[i := w]) \<and> v \<le> w \<longrightarrow> f (vs[i := w]) \<le> f (vs[i := v])))"

lemma in_ranges_subset: "list_all2 is_subset ivs jvs \<Longrightarrow> in_ranges ivs vs \<Longrightarrow> in_ranges jvs vs"
  unfolding in_ranges_def by (auto simp: list_all2_conv_all_nth is_subset_contains)

lemma slice_monotone_subset:
  assumes "list_all2 is_subset ivs jvs" "slice_monotone jvs f"
  shows "slice_monotone ivs f"
  using assms(2) in_ranges_subset [OF assms(1)] list_all2_lengthD [OF assms(1)]
  unfolding slice_monotone_def by (metis (no_types, lifting))

lemma slice_Nil: "slice_monotone [] f"
  by (simp add: slice_monotone_def)

lemma slice_Cons:
  assumes hd: "\<And>vs. in_ranges ivs vs \<Longrightarrow> swings iv (\<lambda>v. f (v # vs))"
    and tl: "\<And>a. iv_contains iv a \<Longrightarrow> slice_monotone ivs (\<lambda>vs. f (a # vs))"
  shows "slice_monotone (iv # ivs) f"
  unfolding slice_monotone_def
proof (intro allI impI)
  fix i vs assume i: "i < length (iv # ivs)"
  show "(\<forall>v w. in_ranges (iv # ivs) (vs[i := v]) \<and> in_ranges (iv # ivs) (vs[i := w]) \<and> v \<le> w \<longrightarrow> f (vs[i := v]) \<le> f (vs[i := w])) \<or>
    (\<forall>v w. in_ranges (iv # ivs) (vs[i := v]) \<and> in_ranges (iv # ivs) (vs[i := w]) \<and> v \<le> w \<longrightarrow> f (vs[i := w]) \<le> f (vs[i := v]))"
  proof (cases vs)
    case (Cons a ws)
    show ?thesis
    proof (cases i)
      case 0
      show ?thesis
      proof (cases "in_ranges ivs ws")
        case True
        with hd [OF this] show ?thesis by (simp add: Cons 0 swings_def falls_def rises_def)
      qed (simp add: Cons 0)
    next
      case (Suc j)
      show ?thesis
      proof (cases "iv_contains iv a")
        case True
        then show ?thesis
          using tl [OF True] i unfolding slice_monotone_def by (simp add: Cons Suc)
      qed (simp add: Cons Suc)
    qed
  qed (simp add: in_ranges_Cons)
qed

lemma slice_neg: "slice_monotone ivs f \<Longrightarrow> slice_monotone ivs (\<lambda>vs. - f vs)"
  unfolding slice_monotone_def by fastforce

lemma slice_hd:
  assumes "slice_monotone (iv # ivs) f" "in_ranges ivs vs"
  shows "swings iv (\<lambda>v. f (v # vs))"
  using assms(1) [unfolded slice_monotone_def, rule_format, of 0 "undefined # vs"] assms(2)
  by (simp add: swings_def falls_def rises_def)

lemma slice_tl:
  assumes "slice_monotone (iv # ivs) f" "iv_contains iv a"
  shows "slice_monotone ivs (\<lambda>vs. f (a # vs))"
  unfolding slice_monotone_def
proof (intro allI impI)
  fix i vs assume "i < length ivs"
  then show "(\<forall>v w. in_ranges ivs (vs[i := v]) \<and> in_ranges ivs (vs[i := w]) \<and> v \<le> w \<longrightarrow> f (a # vs[i := v]) \<le> f (a # vs[i := w])) \<or>
    (\<forall>v w. in_ranges ivs (vs[i := v]) \<and> in_ranges ivs (vs[i := w]) \<and> v \<le> w \<longrightarrow> f (a # vs[i := w]) \<le> f (a # vs[i := v]))"
    using assms(1) [unfolded slice_monotone_def, rule_format, of "Suc i" "a # vs"] assms(2) by simp
qed

lemma at_ends_Cons: "at_ends (iv # ivs) (v # vs) \<longleftrightarrow> (v = iv_lo iv \<or> v = iv_hi iv) \<and> at_ends ivs vs"
  and at_ends_Nil: "at_ends [] vs \<longleftrightarrow> vs = []"
  by (simp_all add: at_ends_def)

lemma swings_ends:
  assumes "swings iv g" "iv_contains iv v"
  shows "\<exists>a. (a = iv_lo iv \<or> a = iv_hi iv) \<and> g a \<le> g v"
proof -
  have "iv_contains iv (iv_lo iv)" "iv_contains iv (iv_hi iv)" "iv_lo iv \<le> v" "v \<le> iv_hi iv"
    using assms(2) by (auto simp: iv_contains_def)
  note ends = this
  from assms(1) consider "rises iv g" | "falls iv g" unfolding swings_def by blast
  then show ?thesis
    by cases (use risesD [OF _ ends(1) assms(2) ends(3)] fallsD [OF _ assms(2) ends(2) ends(4)] in blast)+
qed

text \<open>A slicewise monotone formula is nowhere in a box below its value at some corner.\<close>

lemma slice_corner:
  "slice_monotone ivs f \<Longrightarrow> in_ranges ivs vs \<Longrightarrow> \<exists>c. at_ends ivs c \<and> in_ranges ivs c \<and> f c \<le> f vs"
proof (induction ivs arbitrary: f vs)
  case (Cons iv ivs)
  obtain v ws where vs: "vs = v # ws" "iv_contains iv v" "in_ranges ivs ws"
    using Cons.prems(2) by (auto simp: in_ranges_Cons)
  obtain c where c: "at_ends ivs c" "in_ranges ivs c" "f (v # c) \<le> f (v # ws)"
    using Cons.IH [OF slice_tl [OF Cons.prems(1) vs(2)] vs(3)] by blast
  obtain a where a: "a = iv_lo iv \<or> a = iv_hi iv" "f (a # c) \<le> f (v # c)"
    using swings_ends [OF slice_hd [OF Cons.prems(1) c(2)] vs(2)] by blast
  have "iv_contains iv a" using a(1) vs(2) by (auto simp: iv_contains_def)
  then have "at_ends (iv # ivs) (a # c)" "in_ranges (iv # ivs) (a # c)"
    using a(1) c(1,2) by (simp_all add: at_ends_Cons)
  moreover have "f (a # c) \<le> f vs" using a(2) c(3) vs(1) by simp
  ultimately show ?case by blast
qed (auto simp: at_ends_Nil)

lemma corners_pass:
  assumes "slice_monotone ivs f" "in_ranges ivs vs" "\<And>c. at_ends ivs c \<Longrightarrow> b < f c"
  shows "b < f vs"
  using slice_corner [OF assms(1,2)] assms(3) by (meson less_le_trans)

lemma corners_pass_le:
  assumes "slice_monotone ivs f" "in_ranges ivs vs" "\<And>c. at_ends ivs c \<Longrightarrow> b \<le> f c"
  shows "b \<le> f vs"
  using slice_corner [OF assms(1,2)] assms(3) by (meson order_trans)

lemma in_ranges_elim:
  "in_ranges [] vs \<Longrightarrow> (vs = [] \<Longrightarrow> R) \<Longrightarrow> R"
  "in_ranges (iv # ivs) vs \<Longrightarrow> (\<And>v ws. vs = v # ws \<Longrightarrow> iv_contains iv v \<Longrightarrow> in_ranges ivs ws \<Longrightarrow> R) \<Longrightarrow> R"
  by (auto simp: in_ranges_Cons)

text \<open>The slices of formulas of one to seven numbers.\<close>

lemma slice_monotone_1: "swings i1 (\<lambda>v. f [v]) \<Longrightarrow> slice_monotone [i1] f"
  by (intro slice_Cons slice_Nil) simp

lemma slice_monotone_2:
  assumes "\<And>b. iv_contains i2 b \<Longrightarrow> swings i1 (\<lambda>v. f [v, b])"
    "\<And>a. iv_contains i1 a \<Longrightarrow> swings i2 (\<lambda>v. f [a, v])"
  shows "slice_monotone [i1, i2] f"
  by (intro slice_Cons slice_monotone_1 slice_Nil) (auto elim!: in_ranges_elim simp: assms)

lemma slice_monotone_3:
  assumes "\<And>b c. iv_contains i2 b \<Longrightarrow> iv_contains i3 c \<Longrightarrow> swings i1 (\<lambda>v. f [v, b, c])"
    "\<And>a c. iv_contains i1 a \<Longrightarrow> iv_contains i3 c \<Longrightarrow> swings i2 (\<lambda>v. f [a, v, c])"
    "\<And>a b. iv_contains i1 a \<Longrightarrow> iv_contains i2 b \<Longrightarrow> swings i3 (\<lambda>v. f [a, b, v])"
  shows "slice_monotone [i1, i2, i3] f"
  by (intro slice_Cons slice_Nil) (auto elim!: in_ranges_elim simp: assms)

lemma slice_monotone_4:
  assumes "\<And>b c d. iv_contains i2 b \<Longrightarrow> iv_contains i3 c \<Longrightarrow> iv_contains i4 d \<Longrightarrow> swings i1 (\<lambda>v. f [v, b, c, d])"
    "\<And>a c d. iv_contains i1 a \<Longrightarrow> iv_contains i3 c \<Longrightarrow> iv_contains i4 d \<Longrightarrow> swings i2 (\<lambda>v. f [a, v, c, d])"
    "\<And>a b d. iv_contains i1 a \<Longrightarrow> iv_contains i2 b \<Longrightarrow> iv_contains i4 d \<Longrightarrow> swings i3 (\<lambda>v. f [a, b, v, d])"
    "\<And>a b c. iv_contains i1 a \<Longrightarrow> iv_contains i2 b \<Longrightarrow> iv_contains i3 c \<Longrightarrow> swings i4 (\<lambda>v. f [a, b, c, v])"
  shows "slice_monotone [i1, i2, i3, i4] f"
  by (intro slice_Cons slice_Nil) (auto elim!: in_ranges_elim simp: assms)

lemma slice_monotone_5:
  assumes "\<And>b c d e. iv_contains i2 b \<Longrightarrow> iv_contains i3 c \<Longrightarrow> iv_contains i4 d \<Longrightarrow> iv_contains i5 e \<Longrightarrow> swings i1 (\<lambda>v. f [v, b, c, d, e])"
    "\<And>a c d e. iv_contains i1 a \<Longrightarrow> iv_contains i3 c \<Longrightarrow> iv_contains i4 d \<Longrightarrow> iv_contains i5 e \<Longrightarrow> swings i2 (\<lambda>v. f [a, v, c, d, e])"
    "\<And>a b d e. iv_contains i1 a \<Longrightarrow> iv_contains i2 b \<Longrightarrow> iv_contains i4 d \<Longrightarrow> iv_contains i5 e \<Longrightarrow> swings i3 (\<lambda>v. f [a, b, v, d, e])"
    "\<And>a b c e. iv_contains i1 a \<Longrightarrow> iv_contains i2 b \<Longrightarrow> iv_contains i3 c \<Longrightarrow> iv_contains i5 e \<Longrightarrow> swings i4 (\<lambda>v. f [a, b, c, v, e])"
    "\<And>a b c d. iv_contains i1 a \<Longrightarrow> iv_contains i2 b \<Longrightarrow> iv_contains i3 c \<Longrightarrow> iv_contains i4 d \<Longrightarrow> swings i5 (\<lambda>v. f [a, b, c, d, v])"
  shows "slice_monotone [i1, i2, i3, i4, i5] f"
  by (intro slice_Cons slice_Nil) (auto elim!: in_ranges_elim simp: assms)

lemma slice_monotone_6:
  assumes "\<And>b c d e g. iv_contains i2 b \<Longrightarrow> iv_contains i3 c \<Longrightarrow> iv_contains i4 d \<Longrightarrow> iv_contains i5 e \<Longrightarrow> iv_contains i6 g \<Longrightarrow> swings i1 (\<lambda>v. f [v, b, c, d, e, g])"
    "\<And>a c d e g. iv_contains i1 a \<Longrightarrow> iv_contains i3 c \<Longrightarrow> iv_contains i4 d \<Longrightarrow> iv_contains i5 e \<Longrightarrow> iv_contains i6 g \<Longrightarrow> swings i2 (\<lambda>v. f [a, v, c, d, e, g])"
    "\<And>a b d e g. iv_contains i1 a \<Longrightarrow> iv_contains i2 b \<Longrightarrow> iv_contains i4 d \<Longrightarrow> iv_contains i5 e \<Longrightarrow> iv_contains i6 g \<Longrightarrow> swings i3 (\<lambda>v. f [a, b, v, d, e, g])"
    "\<And>a b c e g. iv_contains i1 a \<Longrightarrow> iv_contains i2 b \<Longrightarrow> iv_contains i3 c \<Longrightarrow> iv_contains i5 e \<Longrightarrow> iv_contains i6 g \<Longrightarrow> swings i4 (\<lambda>v. f [a, b, c, v, e, g])"
    "\<And>a b c d g. iv_contains i1 a \<Longrightarrow> iv_contains i2 b \<Longrightarrow> iv_contains i3 c \<Longrightarrow> iv_contains i4 d \<Longrightarrow> iv_contains i6 g \<Longrightarrow> swings i5 (\<lambda>v. f [a, b, c, d, v, g])"
    "\<And>a b c d e. iv_contains i1 a \<Longrightarrow> iv_contains i2 b \<Longrightarrow> iv_contains i3 c \<Longrightarrow> iv_contains i4 d \<Longrightarrow> iv_contains i5 e \<Longrightarrow> swings i6 (\<lambda>v. f [a, b, c, d, e, v])"
  shows "slice_monotone [i1, i2, i3, i4, i5, i6] f"
  by (intro slice_Cons slice_Nil) (auto elim!: in_ranges_elim simp: assms)

lemma slice_monotone_7:
  assumes "\<And>b c d e g h. iv_contains i2 b \<Longrightarrow> iv_contains i3 c \<Longrightarrow> iv_contains i4 d \<Longrightarrow> iv_contains i5 e \<Longrightarrow> iv_contains i6 g \<Longrightarrow> iv_contains i7 h \<Longrightarrow> swings i1 (\<lambda>v. f [v, b, c, d, e, g, h])"
    "\<And>a c d e g h. iv_contains i1 a \<Longrightarrow> iv_contains i3 c \<Longrightarrow> iv_contains i4 d \<Longrightarrow> iv_contains i5 e \<Longrightarrow> iv_contains i6 g \<Longrightarrow> iv_contains i7 h \<Longrightarrow> swings i2 (\<lambda>v. f [a, v, c, d, e, g, h])"
    "\<And>a b d e g h. iv_contains i1 a \<Longrightarrow> iv_contains i2 b \<Longrightarrow> iv_contains i4 d \<Longrightarrow> iv_contains i5 e \<Longrightarrow> iv_contains i6 g \<Longrightarrow> iv_contains i7 h \<Longrightarrow> swings i3 (\<lambda>v. f [a, b, v, d, e, g, h])"
    "\<And>a b c e g h. iv_contains i1 a \<Longrightarrow> iv_contains i2 b \<Longrightarrow> iv_contains i3 c \<Longrightarrow> iv_contains i5 e \<Longrightarrow> iv_contains i6 g \<Longrightarrow> iv_contains i7 h \<Longrightarrow> swings i4 (\<lambda>v. f [a, b, c, v, e, g, h])"
    "\<And>a b c d g h. iv_contains i1 a \<Longrightarrow> iv_contains i2 b \<Longrightarrow> iv_contains i3 c \<Longrightarrow> iv_contains i4 d \<Longrightarrow> iv_contains i6 g \<Longrightarrow> iv_contains i7 h \<Longrightarrow> swings i5 (\<lambda>v. f [a, b, c, d, v, g, h])"
    "\<And>a b c d e h. iv_contains i1 a \<Longrightarrow> iv_contains i2 b \<Longrightarrow> iv_contains i3 c \<Longrightarrow> iv_contains i4 d \<Longrightarrow> iv_contains i5 e \<Longrightarrow> iv_contains i7 h \<Longrightarrow> swings i6 (\<lambda>v. f [a, b, c, d, e, v, h])"
    "\<And>a b c d e g. iv_contains i1 a \<Longrightarrow> iv_contains i2 b \<Longrightarrow> iv_contains i3 c \<Longrightarrow> iv_contains i4 d \<Longrightarrow> iv_contains i5 e \<Longrightarrow> iv_contains i6 g \<Longrightarrow> swings i7 (\<lambda>v. f [a, b, c, d, e, g, v])"
  shows "slice_monotone [i1, i2, i3, i4, i5, i6, i7] f"
  by (intro slice_Cons slice_Nil) (auto elim!: in_ranges_elim simp: assms)

end
