(* ===== verification/Catalog.thy ===== *)
theory Catalog
  imports Lowering Execute_Sound Solver_Registry Slices
begin

text \<open>
  What the solver modules of the catalog share: reading the inputs of a corner, Python's
  arithmetic on doubles with the exceptions it raises, the arguments \<open>@solver\<close> is used with, and
  the contract under which a direction keeps the law that sound execution needs. Doubles are
  exact reals here; the \<open>repr\<close> of a double is a parameter of the violation texts.
\<close>

section \<open>Reading inputs and arithmetic\<close>

text \<open>
  \<open>x["port"]\<close>. A corner takes its values from the ends of intervals, so it is finite; the branch
  of a double that is not finite is never taken and raises.
\<close>

definition arg :: "inputs \<Rightarrow> string \<Rightarrow> (real \<Rightarrow> raw_return) \<Rightarrow> raw_return" where
  "arg x p k =
     (case dget x p of
        Some (VFloat (Fin v)) \<Rightarrow> k v
      | Some (VFloat _) \<Rightarrow> RetRaise ValueError
      | Some (VRef _) \<Rightarrow> RetRaise TypeError
      | None \<Rightarrow> RetRaise (KeyError p))"

definition py_div :: "real \<Rightarrow> real \<Rightarrow> (real \<Rightarrow> raw_return) \<Rightarrow> raw_return" where
  "py_div a b k = (if b = 0 then RetRaise ZeroDivisionError else k (a / b))"

definition py_sqrt :: "real \<Rightarrow> (real \<Rightarrow> raw_return) \<Rightarrow> raw_return" where
  "py_sqrt a k = (if a < 0 then RetRaise ValueError else k (sqrt a))"

definition py_ln :: "real \<Rightarrow> (real \<Rightarrow> raw_return) \<Rightarrow> raw_return" where
  "py_ln a k = (if a \<le> 0 then RetRaise ValueError else k (ln a))"

definition py_log10 :: "real \<Rightarrow> (real \<Rightarrow> raw_return) \<Rightarrow> raw_return" where
  "py_log10 a k = (if a \<le> 0 then RetRaise ValueError else k (ln a / ln 10))"

text \<open>
  \<open>a ** b\<close> with a double exponent. A negative base with a fractional exponent gives a complex
  number, which no port takes.
\<close>

definition py_pow :: "real \<Rightarrow> real \<Rightarrow> (real \<Rightarrow> raw_return) \<Rightarrow> raw_return" where
  "py_pow a b k =
     (if 0 < a then k (a powr b)
      else if a = 0 then (if 0 < b then k 0 else if b = 0 then k 1 else RetRaise ZeroDivisionError)
      else if b \<in> \<int> then k ((if even \<lfloor>b\<rfloor> then 1 else - 1) * \<bar>a\<bar> powr b)
      else RetRaise TypeError)"

lemma py_pow_pos: "0 < a \<Longrightarrow> py_pow a b k = k (a powr b)"
  by (simp add: py_pow_def)

definition py_hypot :: "real \<Rightarrow> real \<Rightarrow> real" where
  "py_hypot a b = sqrt (a\<^sup>2 + b\<^sup>2)"

text \<open>\<open>math.isclose\<close> with its default relative tolerance.\<close>

definition py_isclose :: "real \<Rightarrow> real \<Rightarrow> real \<Rightarrow> bool" where
  "py_isclose a b abs_tol \<longleftrightarrow> \<bar>a - b\<bar> \<le> max (max \<bar>a\<bar> \<bar>b\<bar> / 10 ^ 9) abs_tol"

definition out_of_domain :: "string \<Rightarrow> raw_return" where
  "out_of_domain msg = RetErr (OutOfDomain (ViolationText msg))"

definition ok_floats :: "(string \<times> fl) list \<Rightarrow> raw_return" where
  "ok_floats vs = RetOk (RVMap vs)"

definition ok_values :: "(string \<times> real) list \<Rightarrow> raw_return" where
  "ok_values vs = RetOk (RVMap (map (\<lambda>(p, v). (p, Fin v)) vs))"

lemmas py_ops = py_div_def py_sqrt_def py_ln_def py_log10_def py_pow_def out_of_domain_def

text \<open>\<open>str\<close> of a double that may not be finite.\<close>

fun fmt_fl :: "(string \<Rightarrow> real \<Rightarrow> string) \<Rightarrow> string \<Rightarrow> fl \<Rightarrow> string" where
  "fmt_fl fmt spec (Fin v) = fmt spec v"
| "fmt_fl fmt spec PInf = ''inf''"
| "fmt_fl fmt spec NInf = ''-inf''"
| "fmt_fl fmt spec NaN = ''nan''"

text \<open>\<open>Interval(a, b)\<close> in a domain.\<close>

definition ivl :: "real \<Rightarrow> real \<Rightarrow> interval" where
  "ivl a b = \<lparr>iv_lo = a, iv_hi = b\<rparr>"

lemma ivl_simps [simp]: "iv_lo (ivl a b) = a" "iv_hi (ivl a b) = b" "iv_contains (ivl a b) v \<longleftrightarrow> a \<le> v \<and> v \<le> b"
  by (simp_all add: ivl_def iv_contains_def)

section \<open>The decorator\<close>

text \<open>The arguments the modules pass; everything else keeps the default of \<open>@solver\<close>.\<close>

definition solver_args ::
  "string \<Rightarrow> string list \<Rightarrow> string list \<Rightarrow> (string, interval) dict \<Rightarrow> string list \<Rightarrow> real
   \<Rightarrow> accuracy_arg \<Rightarrow> citation list \<Rightarrow> string \<Rightarrow> build_args" where
  "solver_args namespace ins outs bx tags cost accuracy citations version =
     \<lparr>ba_solver_id = [], ba_namespace = namespace, ba_inputs = ins, ba_outputs = outs,
      ba_domain = DomObj (domain_new bx tags), ba_cost = Fin cost, ba_accuracy = accuracy,
      ba_citations = map CitObj citations, ba_version = version, ba_tier = ''closed_form'',
      ba_settings = PyNone, ba_deterministic = True, ba_corner_monotone = True,
      ba_conservative_for = SenseObj BOTH, ba_tags = [], ba_raw_fn = (\<lambda>_ _. RetRaise TypeError),
      ba_algebraic_form = None, ba_solved_for = None, ba_branch = None,
      ba_admission_predicate = None, ba_derivation_digest = None, ba_law_lhs = None,
      ba_law_rhs = None, ba_eps_seeking = False, ba_cost_curve = None\<rparr>"

text \<open>A module-level function under \<open>@solver\<close>: its name, the arguments, the body.\<close>

definition module_direction ::
  "(json \<Rightarrow> string) \<Rightarrow> (json \<Rightarrow> string) \<Rightarrow> build_args \<Rightarrow> string \<Rightarrow> (inputs \<Rightarrow> raw_return)
   \<Rightarrow> (solver_pair, 'e) outcome" where
  "module_direction H dumps a fn_name body = solver_decorator H dumps a fn_name None (\<lambda>x _. body x)"

definition direction_info ::
  "(json \<Rightarrow> string) \<Rightarrow> (json \<Rightarrow> string) \<Rightarrow> build_args \<Rightarrow> string \<Rightarrow> (string, interval) dict \<Rightarrow> string list
   \<Rightarrow> citation list \<Rightarrow> solver_info" where
  "direction_info H dumps a fn_name bx tags citations =
     \<lparr>si_solver_id = solver_decorator_id (ba_namespace a) fn_name None, si_namespace = ba_namespace a,
      si_version = ba_version a, si_inputs = ba_inputs a, si_outputs = ba_outputs a,
      si_domain = domain_new bx tags, si_cost = ba_cost a,
      si_accuracy = coerce_accuracy (ba_accuracy a) (ba_outputs a),
      si_citations = citations, si_tier = ''closed_form'', si_deterministic = True,
      si_corner_monotone = True, si_conservative_for = BOTH,
      si_settings_digest = settings_digest H dumps PyNone, si_eps_seeking = False,
      si_cost_curve = None, si_algebraic_form = None, si_solved_for = None, si_branch = None,
      si_admission_predicate = None, si_derivation_digest = None, si_law_lhs = None,
      si_law_rhs = None\<rparr>"

lemma coerce_citations_objects: "coerce_citations (map CitObj cs) = Ok cs"
  by (induction cs) (simp_all add: coerce_citations_def coerce_citation_def)

lemma module_direction_built:
  "module_direction H dumps (solver_args ns ins outs bx tags cost acc cites ver) fn_name body =
     Ok (direction_info H dumps (solver_args ns ins outs bx tags cost acc cites ver) fn_name bx tags cites,
         wrap_solve_fn (\<lambda>x _. body x) outs False)"
  by (simp add: module_direction_def solver_decorator_def build_solver_info_and_fn_def coerce_domain_def
      coerce_citations_objects claim_senses_coerce_def solver_info_new_def TIERS_def
      direction_info_def solver_args_def)

text \<open>
  \<open>register(registry)\<close> of a family: its ports first, then its directions in order. A failed
  registration is not handled: taking \<open>danger_ok\<close> of an error raises.
\<close>

definition scalar_port :: "string \<Rightarrow> string \<Rightarrow> port_decl" where
  "scalar_port name unit = \<lparr>pd_name = name, pd_unit = unit, pd_rank = Scalar\<rparr>"

definition danger_ok :: "('a, 'e) outcome \<Rightarrow> ('a, 'e) outcome" where
  "danger_ok r = (case r of Ok v \<Rightarrow> Ok v | Err _ \<Rightarrow> Raise RuntimeError | Raise ex \<Rightarrow> Raise ex)"

fun register_each ::
  "(solver_pair, registry_error) outcome list \<Rightarrow> registry \<Rightarrow> (unit, registry_error) outcome \<times> registry" where
  "register_each [] r = (Ok (), r)"
| "register_each (d # ds) r =
     (case d of
        Ok (info, fn) \<Rightarrow>
          (case register info fn r of
             (res, r') \<Rightarrow> (case danger_ok res of Ok _ \<Rightarrow> register_each ds r' | bad \<Rightarrow> (bad, r')))
      | Err e \<Rightarrow> (Err e, r)
      | Raise ex \<Rightarrow> (Raise ex, r))"

definition register_family ::
  "port_decl list \<Rightarrow> (solver_pair, registry_error) outcome list \<Rightarrow> registry
   \<Rightarrow> (unit, registry_error) outcome \<times> registry" where
  "register_family decls directions r =
     (case declare_ports decls r of
        (res, r') \<Rightarrow> (case danger_ok res of Ok _ \<Rightarrow> register_each directions r' | bad \<Rightarrow> (bad, r')))"

section \<open>What an answer is\<close>

definition body_result :: "string list \<Rightarrow> raw_return \<Rightarrow> (solve_output, solve_error) outcome" where
  "body_result outs raw =
     (case raw of RetErr e \<Rightarrow> Err e | RetRaise ex \<Rightarrow> Raise ex
      | RetOk v \<Rightarrow> normalize_raw outs v | RetBare v \<Rightarrow> normalize_raw outs v)"

definition reads :: "inputs \<Rightarrow> string list \<Rightarrow> real list \<Rightarrow> bool" where
  "reads x ins vs \<longleftrightarrow> list_all2 (\<lambda>p v. dget x p = Some (VFloat (Fin v))) ins vs"

lemma reads_Nil: "reads x [] vs \<longleftrightarrow> vs = []"
  and reads_Cons: "reads x (p # ps) vs \<longleftrightarrow>
    (\<exists>v ws. vs = v # ws \<and> dget x p = Some (VFloat (Fin v)) \<and> reads x ps ws)"
  by (simp_all add: reads_def list_all2_Cons1)

text \<open>When the parts of a body answer.\<close>

lemma answer_simps:
  "body_result outs (arg x p k) = Ok out \<longleftrightarrow>
     (\<exists>v. dget x p = Some (VFloat (Fin v)) \<and> body_result outs (k v) = Ok out)"
  "body_result outs (if c then r1 else r2) = Ok out \<longleftrightarrow>
     (c \<and> body_result outs r1 = Ok out \<or> \<not> c \<and> body_result outs r2 = Ok out)"
  "body_result outs (out_of_domain msg) = Ok out \<longleftrightarrow> False"
  "body_result outs (RetRaise ex) = Ok out \<longleftrightarrow> False"
  "body_result outs (ok_values vs) = Ok out \<longleftrightarrow> out = plain_output (map (\<lambda>(p, v). (p, Fin v)) vs)"
  "body_result outs (ok_floats fs) = Ok out \<longleftrightarrow> out = plain_output fs"
  "body_result outs (py_div a b k) = Ok out \<longleftrightarrow> b \<noteq> 0 \<and> body_result outs (k (a / b)) = Ok out"
  "body_result outs (py_sqrt a k) = Ok out \<longleftrightarrow> 0 \<le> a \<and> body_result outs (k (sqrt a)) = Ok out"
  "body_result outs (py_ln a k) = Ok out \<longleftrightarrow> 0 < a \<and> body_result outs (k (ln a)) = Ok out"
  "0 < a \<Longrightarrow> body_result outs (py_pow a b kk) = Ok out \<longleftrightarrow> body_result outs (kk (a powr b)) = Ok out"
  "body_result outs (py_log10 a k) = Ok out \<longleftrightarrow> 0 < a \<and> body_result outs (k (ln a / ln 10)) = Ok out"
  by (auto simp: body_result_def arg_def out_of_domain_def ok_values_def ok_floats_def normalize_raw_def
      py_div_def py_sqrt_def py_ln_def py_log10_def py_pow_def split: option.splits fl.splits inval.splits)

lemma one_valid:
  assumes "acc_valid acc"
  shows "\<forall>a \<in> snd ` set (coerce_accuracy (AccOne acc) outs). acc_valid a"
proof -
  have "snd ` set (dmerge d (map (\<lambda>p. (p, acc)) outs)) \<subseteq> snd ` set d \<union> {acc}" for d
  proof (induction outs arbitrary: d)
    case (Cons p outs)
    have "snd ` set (dset p acc d) \<subseteq> insert acc (snd ` set d)"
      using image_mono [OF set_dset_subset [of p acc d], of snd] by simp
    then show ?case using Cons.IH [of "dset p acc d"] by simp blast
  qed auto
  from this [of "[]"] have all: "snd ` set (dict_of (map (\<lambda>p. (p, acc)) outs)) \<subseteq> {acc}"
    by (simp add: dict_of_def)
  show ?thesis
  proof
    fix a assume "a \<in> snd ` set (coerce_accuracy (AccOne acc) outs)"
    then have "a \<in> {acc}" using all unfolding coerce_accuracy_def accuracy_arg.case by (rule subsetD [rotated])
    then show "acc_valid a" using assms by simp
  qed
qed

lemma given_valid [simp]:
  "0 \<le> e \<Longrightarrow> 0 \<le> r \<Longrightarrow>
   \<forall>a \<in> snd ` set (coerce_accuracy (AccOne \<lparr>eps_abs = e, eps_rel = r\<rparr>) outs). acc_valid a"
  by (rule one_valid) (simp add: acc_valid_def)

lemma exact_valid [simp]: "\<forall>a \<in> snd ` set (coerce_accuracy (AccOne EXACT) outs). acc_valid a"
  by (rule one_valid) (simp add: EXACT_def acc_valid_def)

section \<open>The contract of a formula\<close>

definition ranges_of :: "string list \<Rightarrow> (string, interval) dict \<Rightarrow> interval list" where
  "ranges_of ins bx = map (\<lambda>q. the (dget bx q)) ins"

definition form_at :: "(string, real list \<Rightarrow> real) dict \<Rightarrow> string \<Rightarrow> real list \<Rightarrow> real" where
  "form_at forms p vs = the (dget forms p) vs"

text \<open>
  The world obeys the formulas up to the declared accuracy, wherever it lies in the domain and
  the guards let it pass.
\<close>

definition obeys ::
  "string list \<Rightarrow> (string, interval) dict \<Rightarrow> (real list \<Rightarrow> bool) \<Rightarrow> (string, real list \<Rightarrow> real) dict
   \<Rightarrow> (string, accuracy) dict \<Rightarrow> (string \<Rightarrow> real) \<Rightarrow> bool" where
  "obeys ins bx valid forms accs x \<longleftrightarrow>
     (in_ranges (ranges_of ins bx) (map x ins) \<and> valid (map x ins) \<longrightarrow>
        (\<forall>p \<in> fst ` set forms. \<forall>a. dget accs p = Some a \<longrightarrow>
           \<bar>x p - form_at forms p (map x ins)\<bar> \<le> acc_eps a (form_at forms p (map x ins))))"

lemma ranges_btree: "dict_ok bx \<Longrightarrow> ranges_of ins (btree_of bx) = ranges_of ins bx"
  by (simp add: ranges_of_def map_of_btree_of_dict)

lemma obeys_btree:
  "dict_ok bx \<Longrightarrow> obeys ins (btree_of bx) valid forms accs x \<longleftrightarrow> obeys ins bx valid forms accs x"
  by (simp add: obeys_def ranges_btree)

text \<open>A built direction keeps the law of sound execution in every world that obeys its formulas.\<close>

definition keeps_law ::
  "(solver_pair, 'e) outcome \<Rightarrow> (real list \<Rightarrow> bool) \<Rightarrow> (string, real list \<Rightarrow> real) dict \<Rightarrow> bool" where
  "keeps_law d valid forms \<longleftrightarrow>
     (\<exists>info fn. d = Ok (info, fn) \<and>
        (\<forall>x ports. obeys (si_inputs info) (d_box (si_domain info)) valid forms (si_accuracy info) x \<longrightarrow>
           law_holds x ports info fn))"

text \<open>
  The contract of a direction that evaluates formulas, one per output. It answers only when every
  input can be read as a number; inside the domain it answers exactly when the numbers pass the
  guards of the body (\<open>valid\<close>), and then each output is its formula at them. The domain bounds every
  input. When the guards pass every corner of a box, they pass the whole box, and there the formulas
  are slicewise monotone.
\<close>

definition computes ::
  "(inputs \<Rightarrow> raw_return) \<Rightarrow> string list \<Rightarrow> (string, interval) dict \<Rightarrow> (real list \<Rightarrow> bool)
   \<Rightarrow> (string, real list \<Rightarrow> real) dict \<Rightarrow> bool" where
  "computes body ins bx valid forms \<longleftrightarrow>
     (\<forall>x out. body_result (map fst forms) (body x) = Ok out \<longrightarrow> (\<exists>vs. reads x ins vs)) \<and>
     (\<forall>x vs. reads x ins vs \<longrightarrow> in_ranges (ranges_of ins bx) vs \<longrightarrow>
        (\<forall>out. body_result (map fst forms) (body x) = Ok out \<longleftrightarrow>
           valid vs \<and> out = plain_output (map (\<lambda>(p, f). (p, Fin (f vs))) forms)))"

lemma reads_unique: "reads x ins vs \<Longrightarrow> reads x ins ws \<Longrightarrow> vs = ws"
  by (induction ins arbitrary: vs ws) (auto simp: reads_Nil reads_Cons)

lemma computesD:
  assumes "computes body ins bx valid forms"
  shows "body_result (map fst forms) (body x) = Ok out \<Longrightarrow> \<exists>vs. reads x ins vs"
    "reads x ins vs \<Longrightarrow> in_ranges (ranges_of ins bx) vs \<Longrightarrow>
      body_result (map fst forms) (body x) = Ok out \<longleftrightarrow>
        valid vs \<and> out = plain_output (map (\<lambda>(p, f). (p, Fin (f vs))) forms)"
  using assms unfolding computes_def by blast+

text \<open>A body of Python arithmetic answers that way everywhere.\<close>

lemma computesI:
  assumes "\<And>x out. body_result (map fst forms) (body x) = Ok out \<longleftrightarrow>
      (\<exists>vs. reads x ins vs \<and> valid vs \<and> out = plain_output (map (\<lambda>(p, f). (p, Fin (f vs))) forms))"
  shows "computes body ins bx valid forms"
  unfolding computes_def assms by (auto dest: reads_unique)

text \<open>A body that calls the kernel passes on whatever doubles the kernel gives.\<close>

lemma computes_kernelI:
  assumes "\<And>x out. body_result (map fst forms) (body x) = Ok out \<longleftrightarrow>
      (\<exists>vs. reads x ins vs \<and> ok vs \<and> out = plain_output (vals vs))"
    and "\<And>vs. in_ranges (ranges_of ins bx) vs \<Longrightarrow> ok vs \<longleftrightarrow> valid vs"
    and "\<And>vs. in_ranges (ranges_of ins bx) vs \<Longrightarrow> valid vs \<Longrightarrow>
      vals vs = map (\<lambda>(p, f). (p, Fin (f vs))) forms"
  shows "computes body ins bx valid forms"
  unfolding computes_def assms(1) using assms(2,3) by (auto dest: reads_unique)

definition ports_ok :: "string list \<Rightarrow> (string, interval) dict \<Rightarrow> bool" where
  "ports_ok ins bx \<longleftrightarrow> distinct ins \<and> dict_ok bx \<and> (\<forall>q \<in> set ins. dget bx q \<noteq> None)"

lemma corner_keys: "corner_of b c \<Longrightarrow> dict_ok b \<Longrightarrow> dget c q \<noteq> None \<longleftrightarrow> q \<in> fst ` set b"
  by (metis corner_of_keys list.set_map map_of_eq_None_iff)

lemma corner_value:
  assumes "corner_of b c" "dict_ok b" "dget b q = Some iv"
  shows "dget c q = Some (iv_lo iv) \<or> dget c q = Some (iv_hi iv)"
  using assms
proof (induction b arbitrary: c)
  case (Cons e b)
  then show ?case
    by (cases e; cases c) (auto simp: corner_of_def dict_ok_def corner_candidates_def split: if_splits)
qed simp

locale formula_solver =
  fixes ins :: "string list" and bx :: "(string, interval) dict" and valid :: "real list \<Rightarrow> bool"
    and forms :: "(string, real list \<Rightarrow> real) dict" and body :: "inputs \<Rightarrow> raw_return"
  assumes answers: "computes body ins bx valid forms"
    and ports: "ports_ok ins bx"
    and valid_inside: "list_all2 is_subset ivs (ranges_of ins bx) \<Longrightarrow>
      \<forall>vs. at_ends ivs vs \<longrightarrow> valid vs \<Longrightarrow> in_ranges ivs vs \<Longrightarrow> valid vs"
    and monotone: "list_all2 is_subset ivs (ranges_of ins bx) \<Longrightarrow>
      \<forall>vs. in_ranges ivs vs \<longrightarrow> valid vs \<Longrightarrow> \<forall>f \<in> snd ` set forms. slice_monotone ivs f"
begin

lemma inputs_distinct: "distinct ins" and bounded: "\<forall>q \<in> set ins. dget bx q \<noteq> None" and dict: "dict_ok bx"
  using ports by (auto simp: ports_ok_def)

lemma form_at_mem: "p \<in> fst ` set forms \<Longrightarrow> \<exists>f. dget forms p = Some f \<and> f \<in> snd ` set forms"
  by (induction forms) auto

definition at_corner :: "(string \<Rightarrow> real) \<Rightarrow> string \<Rightarrow> corner \<Rightarrow> real" where
  "at_corner x p c =
     (if \<forall>q \<in> set ins. dget c q \<noteq> None then form_at forms p (map (\<lambda>q. the (dget c q)) ins) else x p)"

lemma at_corner_inside:
  assumes "set ins \<subseteq> fst ` set b"
  shows "at_corner x p (point_of b y) = form_at forms p (map y ins)"
proof -
  have eq: "map (\<lambda>q. the (dget (point_of b y) q)) ins = map y ins"
    using assms by (auto simp: dget_point_of)
  have "\<forall>q \<in> set ins. dget (point_of b y) q \<noteq> None"
    using assms by (auto simp: dget_point_of)
  then show ?thesis unfolding at_corner_def eq by simp
qed

lemma at_corner_outside:
  "\<not> set ins \<subseteq> fst ` set b \<Longrightarrow> at_corner x p (point_of b y) = x p"
  by (auto simp: at_corner_def dget_point_of)

text \<open>Boxes over exactly the inputs, inside the domain.\<close>

definition input_box :: "box \<Rightarrow> bool" where
  "input_box b \<longleftrightarrow> dict_ok b \<and> fst ` set b = set ins \<and> (\<forall>iv \<in> snd ` set b. iv_valid iv) \<and>
     (\<forall>p allowed iv. dget bx p = Some allowed \<longrightarrow> dget b p = Some iv \<longrightarrow> is_subset iv allowed)"

lemma input_box_get:
  assumes "input_box b" "q \<in> set ins"
  shows "\<exists>iv. dget b q = Some iv"
  using assms unfolding input_box_def by (metis map_of_eq_None_iff option.exhaust)

lemma box_subset:
  assumes "input_box b"
  shows "list_all2 is_subset (ranges_of ins b) (ranges_of ins bx)"
proof -
  have "is_subset (the (dget b q)) (the (dget bx q))" if "q \<in> set ins" for q
    using input_box_get [OF assms that] bounded that assms unfolding input_box_def by force
  then show ?thesis by (simp add: ranges_of_def list_all2_map1 list_all2_map2 list_all2_same)
qed

lemma box_ranges:
  assumes "input_box b"
  shows "in_box b y \<longleftrightarrow> in_ranges (ranges_of ins b) (map y ins)"
proof -
  have b: "dict_ok b" "fst ` set b = set ins" using assms by (auto simp: input_box_def)
  have "in_box b y \<longleftrightarrow> (\<forall>q \<in> set ins. iv_contains (the (dget b q)) (y q))"
    unfolding in_box_def b(2) [symmetric] using dict_ok_get [OF b(1)] by auto
  then show ?thesis
    by (simp add: in_ranges_def ranges_of_def list_all2_map1 list_all2_map2 list_all2_same)
qed

lemma updated:
  assumes "i < length ins" "ins ! i = q"
  shows "map (y(q := v)) ins = (map y ins)[i := v]"
  using assms inputs_distinct by (auto intro!: nth_equalityI simp: nth_list_update nth_eq_iff_index_eq)

lemma some_world:
  assumes "length vs = length ins"
  shows "\<exists>y :: string \<Rightarrow> real. map y ins = vs"
proof
  show "map (\<lambda>q. the (map_of (zip ins vs) q)) ins = vs"
    using assms inputs_distinct by (auto intro!: nth_equalityI simp: map_of_zip_nth)
qed

definition solve :: "solve_fn" where
  "solve = wrap_solve_fn (\<lambda>x _. body x) (map fst forms) False"

lemma invoke_body: "invoke_solve_fn solve x rem = body_result (map fst forms) (body x)"
  by (simp add: solve_def invoke_wrapped body_result_def)

lemma read_corner:
  assumes "reads (full_corner c pins) ins vs"
  shows "vs = map (\<lambda>q. the (dget c q)) ins \<and> (\<forall>q \<in> set ins. dget c q \<noteq> None)"
  using assms unfolding reads_def
  by (induction rule: list_all2_induct) (auto simp: dget_full_corner split: option.splits)

lemma corner_in_ranges:
  assumes b: "input_box b" and c: "corner_of b c"
  shows "in_ranges (ranges_of ins b) (map (\<lambda>q. the (dget c q)) ins)"
proof -
  have ok: "dict_ok b" "fst ` set b = set ins" "\<forall>iv \<in> snd ` set b. iv_valid iv"
    using b by (auto simp: input_box_def)
  have "iv_contains iv (the (dget c q))" if iv: "dget b q = Some iv" for q iv
  proof -
    have "iv_valid iv" using ok(3) map_of_SomeD [OF iv] by force
    then show ?thesis using corner_value [OF c ok(1) iv] by (auto simp: iv_contains_def iv_valid_def)
  qed
  then have "iv_contains (the (dget b q)) (the (dget c q))" if "q \<in> set ins" for q
    using input_box_get [OF b that] by auto
  then show ?thesis
    by (simp add: in_ranges_def ranges_of_def list_all2_map1 list_all2_map2 list_all2_same)
qed

lemma answered:
  assumes b: "input_box b" and c: "corner_of b c"
    and ok: "invoke_solve_fn solve (full_corner c pins) rem = Ok out"
  shows "valid (map (\<lambda>q. the (dget c q)) ins)" "so_measured_eps out = None"
    "p \<in> fst ` set forms \<Longrightarrow> dget (so_values out) p = Some (Fin (at_corner x p c))"
proof -
  obtain vs where vs: "reads (full_corner c pins) ins vs"
    using computesD(1) [OF answers] ok unfolding invoke_body by blast
  note eq = read_corner [OF vs]
  have "in_ranges (ranges_of ins b) vs"
    using corner_in_ranges [OF b c] eq by simp
  then have "in_ranges (ranges_of ins bx) vs" by (rule in_ranges_subset [OF box_subset [OF b]])
  then have out: "valid vs" "out = plain_output (map (\<lambda>(p, f). (p, Fin (f vs))) forms)"
    using computesD(2) [OF answers vs, of out] ok unfolding invoke_body by simp_all
  show "valid (map (\<lambda>q. the (dget c q)) ins)" using out(1) eq by blast
  show "so_measured_eps out = None" by (simp add: out(2) plain_output_def)
  show "dget (so_values out) p = Some (Fin (at_corner x p c))" if p: "p \<in> fst ` set forms"
  proof -
    obtain f where f: "dget forms p = Some f" using form_at_mem [OF p] by blast
    have "dget (map (\<lambda>(p, f). (p, Fin (f vs))) forms) p = Some (Fin (f vs))"
      using f by (simp add: map_of_map)
    moreover have "at_corner x p c = f vs"
      unfolding at_corner_def using eq by (simp add: form_at_def f)
    ultimately show ?thesis by (simp add: out(2) plain_output_def)
  qed
qed

lemma corners_valid:
  assumes b: "input_box b" and ans: "answers_corners solve pins rem b" and vs: "at_ends (ranges_of ins b) vs"
  shows "valid vs"
proof -
  have len: "length vs = length ins"
    using vs by (auto simp: at_ends_def ranges_of_def dest: list_all2_lengthD)
  then obtain y where y: "map y ins = vs" using some_world by blast
  have bd: "dict_ok b" "fst ` set b = set ins" using b by (auto simp: input_box_def)
  have ends: "\<forall>q \<in> set ins. y q = iv_lo (the (dget b q)) \<or> y q = iv_hi (the (dget b q))"
    using vs unfolding y [symmetric]
    by (simp add: at_ends_def ranges_of_def list_all2_map1 list_all2_map2 list_all2_same)
  have "at_end b y p" if "p \<in> fst ` set b" for p
    using ends that unfolding bd(2) at_end_def by (metis option.sel)
  then have c: "corner_of b (point_of b y)" by (intro corner_of_point bd(1) ballI)
  then obtain out where "invoke_solve_fn solve (full_corner (point_of b y) pins) rem = Ok out"
    using ans unfolding answers_corners_def by blast
  then have "valid (map (\<lambda>q. the (dget (point_of b y) q)) ins)" by (rule answered(1) [OF b c])
  moreover have "map (\<lambda>q. the (dget (point_of b y) q)) ins = vs"
    unfolding y [symmetric] using bd(2) by (auto simp: dget_point_of)
  ultimately show ?thesis by simp
qed

lemma inside_valid:
  assumes "input_box b" "answers_corners solve pins rem b" "in_ranges (ranges_of ins b) vs"
  shows "valid vs"
  using valid_inside [OF box_subset [OF assms(1)] _ assms(3)] corners_valid [OF assms(1,2)] by blast

lemma slices:
  assumes b: "input_box b" and ans: "answers_corners solve pins rem b"
    and p: "p \<in> fst ` set forms" and i: "i < length ins"
  shows "(\<forall>v w. in_ranges (ranges_of ins b) (vs[i := v]) \<and> in_ranges (ranges_of ins b) (vs[i := w]) \<and> v \<le> w \<longrightarrow>
      form_at forms p (vs[i := v]) \<le> form_at forms p (vs[i := w])) \<or>
    (\<forall>v w. in_ranges (ranges_of ins b) (vs[i := v]) \<and> in_ranges (ranges_of ins b) (vs[i := w]) \<and> v \<le> w \<longrightarrow>
      form_at forms p (vs[i := w]) \<le> form_at forms p (vs[i := v]))"
proof -
  obtain f where f: "dget forms p = Some f" "f \<in> snd ` set forms" using form_at_mem [OF p] by blast
  have "slice_monotone (ranges_of ins b) f"
    using monotone [OF box_subset [OF b]] inside_valid [OF b ans] f(2) by blast
  then show ?thesis
    using i unfolding slice_monotone_def by (simp add: form_at_def f(1) ranges_of_def)
qed

lemma corner_monotone:
  assumes b: "input_box b" and ans: "answers_corners solve pins rem b" and p: "p \<in> fst ` set forms"
  shows "coord_monotone b (at_corner x p)"
proof -
  have keys: "set ins \<subseteq> fst ` set b" using b by (simp add: input_box_def)
  have "(\<forall>v w. in_box b (y(q := v)) \<and> in_box b (y(q := w)) \<and> v \<le> w \<longrightarrow>
      form_at forms p (map (y(q := v)) ins) \<le> form_at forms p (map (y(q := w)) ins)) \<or>
    (\<forall>v w. in_box b (y(q := v)) \<and> in_box b (y(q := w)) \<and> v \<le> w \<longrightarrow>
      form_at forms p (map (y(q := w)) ins) \<le> form_at forms p (map (y(q := v)) ins))"
    if q: "q \<in> fst ` set b" for q y
  proof -
    obtain i where i: "i < length ins" "ins ! i = q"
      using b q unfolding input_box_def by (metis in_set_conv_nth)
    show ?thesis
      unfolding box_ranges [OF b] updated [OF i] using slices [OF b ans p i(1), of "map y ins"] .
  qed
  then show ?thesis
    unfolding coord_monotone_def at_corner_inside [OF keys] by blast
qed

lemma accurate_at:
  assumes x: "obeys ins bx valid forms accs x" and b: "input_box b" "answers_corners solve pins rem b" "in_box b x"
    and p: "p \<in> fst ` set forms" and a: "dget accs p = Some a"
  shows "\<bar>x p - at_corner x p (point_of b x)\<bar> \<le> acc_eps a (at_corner x p (point_of b x))"
proof -
  have keys: "set ins \<subseteq> fst ` set b" using b(1) by (simp add: input_box_def)
  have r: "in_ranges (ranges_of ins b) (map x ins)" using b(3) box_ranges [OF b(1)] by blast
  have "iv_contains (the (dget bx q)) (x q)" if q: "q \<in> set ins" for q
  proof -
    have "iv_contains (the (dget b q)) (x q)"
      using r q by (simp add: in_ranges_def ranges_of_def list_all2_map1 list_all2_map2 list_all2_same)
    moreover have "is_subset (the (dget b q)) (the (dget bx q))"
      using box_subset [OF b(1)] q by (simp add: ranges_of_def list_all2_map1 list_all2_map2 list_all2_same)
    ultimately show ?thesis by (rule is_subset_contains [rotated])
  qed
  then have "in_ranges (ranges_of ins bx) (map x ins)"
    by (simp add: in_ranges_def ranges_of_def list_all2_map1 list_all2_map2 list_all2_same)
  then show ?thesis
    using x p a inside_valid [OF b(1,2) r] unfolding obeys_def at_corner_inside [OF keys] by blast
qed

text \<open>A direction that keeps the contract keeps the law that sound execution needs.\<close>

lemma law:
  assumes accs: "\<forall>a \<in> snd ` set (si_accuracy info). acc_valid a"
    and info: "si_inputs info = ins" "si_outputs info = map fst forms" "d_box (si_domain info) = btree_of bx"
    and x: "obeys ins bx valid forms (si_accuracy info) x"
  shows "law_holds x ports info solve"
proof -
  have outs: "p \<in> fst ` set forms" if "p \<in> set (scalar_outputs_of ports info)" for p
    using that info(2) by (auto simp: scalar_outputs_of_def)
  have main: "(\<forall>c. corner_of b c \<longrightarrow> evaluates ports info solve pins rem (at_corner x) c) \<and>
      (\<forall>p \<in> set (scalar_outputs_of ports info). law_at x info b p (at_corner x))"
    if b: "bt_ok b" "in_box b x" "box_admitted info b" "fst ` set b \<subseteq> set (si_inputs info)"
      and ans: "answers_corners solve pins rem b" for b pins rem
  proof (cases "set ins \<subseteq> fst ` set b")
    case True
    have "is_subset iv allowed" if "dget bx p = Some allowed" "dget b p = Some iv" for p allowed iv
      using b(3) that dict unfolding box_admitted_def info(3) set_btree_of_dict [OF dict]
      by (blast dest: map_of_SomeD)
    moreover have "iv_valid iv" if "iv \<in> snd ` set b" for iv
      using b(2) that unfolding in_box_def iv_contains_def iv_valid_def by force
    ultimately have ib: "input_box b"
      using True b(1,4) info(1) by (auto simp: input_box_def bt_ok_dict_ok)
    have "evaluates ports info solve pins rem (at_corner x) c" if "corner_of b c" for c
      unfolding evaluates_def using answered(2,3) [OF ib that] outs by simp
    moreover have "law_at x info b p (at_corner x)" if p: "p \<in> set (scalar_outputs_of ports info)" for p
      unfolding law_at_def
      using corner_monotone [OF ib ans outs [OF p]] accurate_at [OF x ib ans b(2) outs [OF p]] by simp
    ultimately show ?thesis by blast
  next
    case False
    have "invoke_solve_fn solve (full_corner c pins) rem \<noteq> Ok out" if c: "corner_of b c" for c out
    proof
      assume "invoke_solve_fn solve (full_corner c pins) rem = Ok out"
      then obtain vs where "reads (full_corner c pins) ins vs"
        using computesD(1) [OF answers] unfolding invoke_body by blast
      then have "\<forall>q \<in> set ins. dget c q \<noteq> None" by (simp add: read_corner)
      then show False using False corner_keys [OF c bt_ok_dict_ok [OF b(1)]] by blast
    qed
    then have "evaluates ports info solve pins rem (at_corner x) c" if "corner_of b c" for c
      using that by (simp add: evaluates_def)
    moreover have "acc_valid a" if "dget (si_accuracy info) p = Some a" for p a
      using accs map_of_SomeD [OF that] by force
    then have "law_at x info b p (at_corner x)" for p
      using False by (auto simp: law_at_def coord_monotone_def at_corner_outside acc_eps_def acc_valid_def)
    ultimately show ?thesis by blast
  qed
  show ?thesis
    unfolding law_holds_def
    by (intro conjI allI impI accs, rule exI [of _ "at_corner x"], elim conjE) (rule main)
qed

lemma direction_law:
  assumes outs: "outs = map fst forms" and accs: "\<forall>a \<in> snd ` set (coerce_accuracy acc outs). acc_valid a"
  shows "keeps_law (module_direction H dumps (solver_args ns ins outs bx tags cost acc cites ver) fn_name body) valid forms"
proof -
  let ?info = "direction_info H dumps (solver_args ns ins outs bx tags cost acc cites ver) fn_name bx tags cites"
  have info: "si_inputs ?info = ins" "si_outputs ?info = map fst forms" "d_box (si_domain ?info) = btree_of bx"
    "si_accuracy ?info = coerce_accuracy acc outs"
    by (simp_all add: direction_info_def solver_args_def domain_new_def outs)
  have "law_holds x ports ?info solve"
    if "obeys (si_inputs ?info) (d_box (si_domain ?info)) valid forms (si_accuracy ?info) x" for x ports
    using that accs dict unfolding info by (intro law) (simp_all add: info obeys_btree)
  then show ?thesis
    unfolding keeps_law_def module_direction_built solve_def [symmetric] outs by blast
qed

text \<open>Inside the domain, and where the guards pass, the direction answers.\<close>

lemma answers_inside:
  assumes "reads x ins vs" "in_ranges (ranges_of ins bx) vs" "valid vs"
  shows "\<exists>out. invoke_solve_fn solve x rem = Ok out \<and> (\<forall>p f. (p, f) \<in> set forms \<longrightarrow> (p, Fin (f vs)) \<in> set (so_values out))"
proof -
  have "invoke_solve_fn solve x rem = Ok (plain_output (map (\<lambda>(p, f). (p, Fin (f vs))) forms))"
    using computesD(2) [OF answers assms(1,2)] assms(3) unfolding invoke_body by simp
  then show ?thesis by (force simp: plain_output_def)
qed

end

text \<open>
  Most directions have guards that never fire inside the declared domain, and formulas that are
  slicewise monotone over all of it.
\<close>

locale total_solver =
  fixes ins :: "string list" and bx :: "(string, interval) dict" and valid :: "real list \<Rightarrow> bool"
    and forms :: "(string, real list \<Rightarrow> real) dict" and body :: "inputs \<Rightarrow> raw_return"
  assumes responds: "computes body ins bx valid forms"
    and ports_known: "ports_ok ins bx"
    and total: "in_ranges (ranges_of ins bx) vs \<Longrightarrow> valid vs"
    and slices_hold: "f \<in> snd ` set forms \<Longrightarrow> slice_monotone (ranges_of ins bx) f"

sublocale total_solver \<subseteq> formula_solver ins bx valid forms body
proof unfold_locales
  show "computes body ins bx valid forms" "ports_ok ins bx"
    by (rule responds ports_known)+
  show "valid vs" if "list_all2 is_subset ivs (ranges_of ins bx)" "in_ranges ivs vs" for ivs vs
    using that by (intro total) (rule in_ranges_subset)
  show "\<forall>f \<in> snd ` set forms. slice_monotone ivs f" if "list_all2 is_subset ivs (ranges_of ins bx)" for ivs
    using slices_hold slice_monotone_subset [OF that] by blast
qed

end
