(* ===== verification/Lib_Machines.thy ===== *)
theory Lib_Machines
  imports Catalog
begin

text \<open>
  Machine elements: rolling bearings, power screws, drives and the critical speed of shafts
  (\<open>mech/bearing_life.py\<close>, \<open>mech/leadscrew.py\<close>, \<open>mech/drive.py\<close>, \<open>mech/critical_speed.py\<close>).
\<close>

chapter \<open>Rolling bearing life\<close>

text \<open>
  Rolling bearing life after ISO 281 (\<open>mech/bearing_life.py\<close>).
\<close>

section \<open>Rolling bearing life: directions\<close>

definition P_BALL :: real where
  "P_BALL = 3"

definition P_ROLLER :: real where
  "P_ROLLER = 10 / 3"

definition l10 :: "(string \<Rightarrow> real \<Rightarrow> string) \<Rightarrow> inputs \<Rightarrow> real \<Rightarrow> string \<Rightarrow> raw_return" where
  \<open>l10 fmt x p kind =
    (arg x ''mech.bearing.dynamic_rating'' (\<lambda>c.
     arg x ''mech.bearing.equivalent_load'' (\<lambda>load.
     if c \<le> 0
     then out_of_domain (''ISO 281 L10 ('' @ kind @ ''): non-positive dynamic rating C='' @ fmt ''r'' c)
     else
     if load \<le> 0
     then out_of_domain (''ISO 281 L10 ('' @ kind @ ''): non-positive equivalent load P='' @ fmt ''r'' load)
     else
     py_div c load (\<lambda>t3.
     py_pow t3 p (\<lambda>l10.
     ok_values [(''mech.bearing.l10'', l10)])))))\<close>

subsection \<open>\<open>bearing_basic_rating_life_l10_ball\<close>\<close>

definition bearing_basic_rating_life_l10_ball_box :: "(string, interval) dict" where
  "bearing_basic_rating_life_l10_ball_box =
     [(''mech.bearing.dynamic_rating'', ivl 100 (10 ^ 7)),
      (''mech.bearing.equivalent_load'', ivl 1 (10 ^ 7))]"

definition bearing_basic_rating_life_l10_ball_ins :: "string list" where
  "bearing_basic_rating_life_l10_ball_ins = [''mech.bearing.dynamic_rating'', ''mech.bearing.equivalent_load'']"

definition bearing_basic_rating_life_l10_ball_args :: build_args where
  \<open>bearing_basic_rating_life_l10_ball_args =
     solver_args ''mech.bearing'' bearing_basic_rating_life_l10_ball_ins
       [''mech.bearing.l10'']
       bearing_basic_rating_life_l10_ball_box
       [''ball'', ''basic_rating'', ''iso_281'', ''no_a_iso'']
       (1 / 10 ^ 7) (AccOne EXACT)
       [\<lparr>ct_kind = ''standard'', ct_ref = ''ISO 281:2007, Rolling bearings -- Dynamic load ratings and rating life, sec. 6.2 eq. 4, L10 = (C/P)^p, p=3.0 (ball bearings) (docs/benchmarks-memo.md sec. 11)'', ct_note = ''P is CALLER-SUPPLIED (the ISO 281 sec. 6.1 X/Y combined-load equivalent-load reduction is NOT performed here -- named cut). No a_iso life-modification factor (sec. 6.3) is applied -- basic (unmodified) L10 only.''\<rparr>]
       ''1''\<close>

definition bearing_basic_rating_life_l10_ball :: "(string \<Rightarrow> real \<Rightarrow> string) \<Rightarrow> inputs \<Rightarrow> raw_return" where
  \<open>bearing_basic_rating_life_l10_ball fmt x =
    (l10 fmt x P_BALL ''ball'')\<close>

subsection \<open>\<open>bearing_basic_rating_life_l10_roller\<close>\<close>

definition bearing_basic_rating_life_l10_roller_box :: "(string, interval) dict" where
  "bearing_basic_rating_life_l10_roller_box =
     [(''mech.bearing.dynamic_rating'', ivl 100 (10 ^ 7)),
      (''mech.bearing.equivalent_load'', ivl 1 (10 ^ 7))]"

definition bearing_basic_rating_life_l10_roller_ins :: "string list" where
  "bearing_basic_rating_life_l10_roller_ins = [''mech.bearing.dynamic_rating'', ''mech.bearing.equivalent_load'']"

definition bearing_basic_rating_life_l10_roller_args :: build_args where
  \<open>bearing_basic_rating_life_l10_roller_args =
     solver_args ''mech.bearing'' bearing_basic_rating_life_l10_roller_ins
       [''mech.bearing.l10'']
       bearing_basic_rating_life_l10_roller_box
       [''basic_rating'', ''iso_281'', ''no_a_iso'', ''roller'']
       (1 / 10 ^ 7) (AccOne EXACT)
       [\<lparr>ct_kind = ''standard'', ct_ref = ''ISO 281:2007, Rolling bearings -- Dynamic load ratings and rating life, sec. 6.2 eq. 4, L10 = (C/P)^p, p=3.3333333333333335 (roller bearings) (docs/benchmarks-memo.md sec. 11)'', ct_note = ''P is CALLER-SUPPLIED (the ISO 281 sec. 6.1 X/Y combined-load equivalent-load reduction is NOT performed here -- named cut). No a_iso life-modification factor (sec. 6.3) is applied -- basic (unmodified) L10 only.''\<rparr>]
       ''1''\<close>

definition bearing_basic_rating_life_l10_roller :: "(string \<Rightarrow> real \<Rightarrow> string) \<Rightarrow> inputs \<Rightarrow> raw_return" where
  \<open>bearing_basic_rating_life_l10_roller fmt x =
    (l10 fmt x P_ROLLER ''roller'')\<close>

definition L10H_CITATION :: citation where
  \<open>L10H_CITATION =
     \<lparr>ct_kind = ''standard'', ct_ref = ''ISO 281:2007, Rolling bearings -- Dynamic load ratings and rating life, sec. 6.2 eq. 5, L10h = L10*1e6 / (60*n), n the constant rotational speed in rev/min (docs/benchmarks-memo.md sec. 11)'', ct_note = ''Constant-speed operation is a CALLER-ASSERTED precondition.''\<rparr>\<close>

subsection \<open>\<open>bearing_basic_rating_life_l10h\<close>\<close>

definition bearing_basic_rating_life_l10h_box :: "(string, interval) dict" where
  "bearing_basic_rating_life_l10h_box =
     [(''mech.bearing.l10'', ivl (1 / 10 ^ 6) (10 ^ 6)),
      (''mech.bearing.speed_rpm'', ivl (1 / 1000) 100000)]"

definition bearing_basic_rating_life_l10h_ins :: "string list" where
  "bearing_basic_rating_life_l10h_ins = [''mech.bearing.l10'', ''mech.bearing.speed_rpm'']"

definition bearing_basic_rating_life_l10h_args :: build_args where
  \<open>bearing_basic_rating_life_l10h_args =
     solver_args ''mech.bearing'' bearing_basic_rating_life_l10h_ins
       [''mech.bearing.l10h'']
       bearing_basic_rating_life_l10h_box
       [''constant_speed'', ''iso_281'']
       (1 / 10 ^ 7) (AccOne EXACT)
       [L10H_CITATION]
       ''1''\<close>

definition bearing_basic_rating_life_l10h :: "(string \<Rightarrow> real \<Rightarrow> string) \<Rightarrow> inputs \<Rightarrow> raw_return" where
  \<open>bearing_basic_rating_life_l10h fmt x =
    (arg x ''mech.bearing.l10'' (\<lambda>l10.
     arg x ''mech.bearing.speed_rpm'' (\<lambda>n.
     if l10 \<le> 0
     then out_of_domain (''ISO 281 L10h: non-positive L10='' @ fmt ''r'' l10)
     else
     if n \<le> 0
     then out_of_domain (''ISO 281 L10h: non-positive speed n='' @ fmt ''r'' n)
     else
     py_div (l10 * (10 ^ 6)) (60 * n) (\<lambda>l10h.
     ok_values [(''mech.bearing.l10h'', l10h)]))))\<close>

definition bearing_life_PORT_DECLS :: "port_decl list" where
  "bearing_life_PORT_DECLS =
     [scalar_port ''mech.bearing.dynamic_rating'' ''N'',
      scalar_port ''mech.bearing.equivalent_load'' ''N'',
      scalar_port ''mech.bearing.l10'' ''Mrev'',
      scalar_port ''mech.bearing.l10h'' ''h'',
      scalar_port ''mech.bearing.speed_rpm'' ''rev/min'']"

section \<open>What the directions compute\<close>

subsection \<open>\<open>bearing_basic_rating_life_l10_ball\<close>\<close>

definition bearing_basic_rating_life_l10_ball_valid :: "real list \<Rightarrow> bool" where
  "bearing_basic_rating_life_l10_ball_valid vs \<longleftrightarrow> 0 < vs ! 0 \<and> 0 < vs ! 1"

definition bearing_basic_rating_life_l10_ball_forms :: "(string, real list \<Rightarrow> real) dict" where
  "bearing_basic_rating_life_l10_ball_forms =
     [(''mech.bearing.l10'', \<lambda>vs. (vs ! 0 / vs ! 1) powr P_BALL)]"

lemma bearing_basic_rating_life_l10_ball_answers: "computes (bearing_basic_rating_life_l10_ball fmt) bearing_basic_rating_life_l10_ball_ins bearing_basic_rating_life_l10_ball_box bearing_basic_rating_life_l10_ball_valid bearing_basic_rating_life_l10_ball_forms"
  by (rule computesI) (auto simp: bearing_basic_rating_life_l10_ball_def bearing_basic_rating_life_l10_ball_ins_def bearing_basic_rating_life_l10_ball_valid_def bearing_basic_rating_life_l10_ball_forms_def answer_simps reads_Nil reads_Cons Let_def l10_def P_BALL_def P_ROLLER_def)

lemma bearing_basic_rating_life_l10_ball_total: "in_ranges (ranges_of bearing_basic_rating_life_l10_ball_ins bearing_basic_rating_life_l10_ball_box) vs \<Longrightarrow> bearing_basic_rating_life_l10_ball_valid vs"
  by (auto simp: bearing_basic_rating_life_l10_ball_ins_def bearing_basic_rating_life_l10_ball_box_def bearing_basic_rating_life_l10_ball_valid_def ranges_of_def in_ranges_Cons P_BALL_def P_ROLLER_def)

lemma bearing_basic_rating_life_l10_ball_slices: "f \<in> snd ` set bearing_basic_rating_life_l10_ball_forms \<Longrightarrow> slice_monotone (ranges_of bearing_basic_rating_life_l10_ball_ins bearing_basic_rating_life_l10_ball_box) f"
  by (auto simp: bearing_basic_rating_life_l10_ball_forms_def bearing_basic_rating_life_l10_ball_ins_def bearing_basic_rating_life_l10_ball_box_def ranges_of_def P_BALL_def P_ROLLER_def  intro!: slice_monotone_2 swing)

interpretation bearing_basic_rating_life_l10_ball: total_solver bearing_basic_rating_life_l10_ball_ins bearing_basic_rating_life_l10_ball_box bearing_basic_rating_life_l10_ball_valid bearing_basic_rating_life_l10_ball_forms "bearing_basic_rating_life_l10_ball fmt" for fmt
  by unfold_locales (rule bearing_basic_rating_life_l10_ball_answers | erule bearing_basic_rating_life_l10_ball_total bearing_basic_rating_life_l10_ball_slices | simp add: ports_ok_def dict_ok_def bearing_basic_rating_life_l10_ball_ins_def bearing_basic_rating_life_l10_ball_box_def)+

lemma bearing_basic_rating_life_l10_ball_law:
  "keeps_law (module_direction H dumps bearing_basic_rating_life_l10_ball_args ''bearing_basic_rating_life_l10_ball'' (bearing_basic_rating_life_l10_ball fmt)) bearing_basic_rating_life_l10_ball_valid bearing_basic_rating_life_l10_ball_forms"
  unfolding bearing_basic_rating_life_l10_ball_args_def
  by (rule bearing_basic_rating_life_l10_ball.direction_law) (simp_all add: bearing_basic_rating_life_l10_ball_forms_def)

subsection \<open>\<open>bearing_basic_rating_life_l10_roller\<close>\<close>

definition bearing_basic_rating_life_l10_roller_valid :: "real list \<Rightarrow> bool" where
  "bearing_basic_rating_life_l10_roller_valid vs \<longleftrightarrow> 0 < vs ! 0 \<and> 0 < vs ! 1"

definition bearing_basic_rating_life_l10_roller_forms :: "(string, real list \<Rightarrow> real) dict" where
  "bearing_basic_rating_life_l10_roller_forms =
     [(''mech.bearing.l10'', \<lambda>vs. (vs ! 0 / vs ! 1) powr P_ROLLER)]"

lemma bearing_basic_rating_life_l10_roller_answers: "computes (bearing_basic_rating_life_l10_roller fmt) bearing_basic_rating_life_l10_roller_ins bearing_basic_rating_life_l10_roller_box bearing_basic_rating_life_l10_roller_valid bearing_basic_rating_life_l10_roller_forms"
  by (rule computesI) (auto simp: bearing_basic_rating_life_l10_roller_def bearing_basic_rating_life_l10_roller_ins_def bearing_basic_rating_life_l10_roller_valid_def bearing_basic_rating_life_l10_roller_forms_def answer_simps reads_Nil reads_Cons Let_def l10_def P_BALL_def P_ROLLER_def)

lemma bearing_basic_rating_life_l10_roller_total: "in_ranges (ranges_of bearing_basic_rating_life_l10_roller_ins bearing_basic_rating_life_l10_roller_box) vs \<Longrightarrow> bearing_basic_rating_life_l10_roller_valid vs"
  by (auto simp: bearing_basic_rating_life_l10_roller_ins_def bearing_basic_rating_life_l10_roller_box_def bearing_basic_rating_life_l10_roller_valid_def ranges_of_def in_ranges_Cons P_BALL_def P_ROLLER_def)

lemma bearing_basic_rating_life_l10_roller_slices: "f \<in> snd ` set bearing_basic_rating_life_l10_roller_forms \<Longrightarrow> slice_monotone (ranges_of bearing_basic_rating_life_l10_roller_ins bearing_basic_rating_life_l10_roller_box) f"
  by (auto simp: bearing_basic_rating_life_l10_roller_forms_def bearing_basic_rating_life_l10_roller_ins_def bearing_basic_rating_life_l10_roller_box_def ranges_of_def P_BALL_def P_ROLLER_def  intro!: slice_monotone_2 swing)

interpretation bearing_basic_rating_life_l10_roller: total_solver bearing_basic_rating_life_l10_roller_ins bearing_basic_rating_life_l10_roller_box bearing_basic_rating_life_l10_roller_valid bearing_basic_rating_life_l10_roller_forms "bearing_basic_rating_life_l10_roller fmt" for fmt
  by unfold_locales (rule bearing_basic_rating_life_l10_roller_answers | erule bearing_basic_rating_life_l10_roller_total bearing_basic_rating_life_l10_roller_slices | simp add: ports_ok_def dict_ok_def bearing_basic_rating_life_l10_roller_ins_def bearing_basic_rating_life_l10_roller_box_def)+

lemma bearing_basic_rating_life_l10_roller_law:
  "keeps_law (module_direction H dumps bearing_basic_rating_life_l10_roller_args ''bearing_basic_rating_life_l10_roller'' (bearing_basic_rating_life_l10_roller fmt)) bearing_basic_rating_life_l10_roller_valid bearing_basic_rating_life_l10_roller_forms"
  unfolding bearing_basic_rating_life_l10_roller_args_def
  by (rule bearing_basic_rating_life_l10_roller.direction_law) (simp_all add: bearing_basic_rating_life_l10_roller_forms_def)

subsection \<open>\<open>bearing_basic_rating_life_l10h\<close>\<close>

definition bearing_basic_rating_life_l10h_valid :: "real list \<Rightarrow> bool" where
  "bearing_basic_rating_life_l10h_valid vs \<longleftrightarrow> 0 < vs ! 0 \<and> 0 < vs ! 1"

definition bearing_basic_rating_life_l10h_forms :: "(string, real list \<Rightarrow> real) dict" where
  "bearing_basic_rating_life_l10h_forms =
     [(''mech.bearing.l10h'', \<lambda>vs. vs ! 0 * (10 ^ 6) / (60 * vs ! 1))]"

lemma bearing_basic_rating_life_l10h_answers: "computes (bearing_basic_rating_life_l10h fmt) bearing_basic_rating_life_l10h_ins bearing_basic_rating_life_l10h_box bearing_basic_rating_life_l10h_valid bearing_basic_rating_life_l10h_forms"
  by (rule computesI) (auto simp: bearing_basic_rating_life_l10h_def bearing_basic_rating_life_l10h_ins_def bearing_basic_rating_life_l10h_valid_def bearing_basic_rating_life_l10h_forms_def answer_simps reads_Nil reads_Cons Let_def l10_def P_BALL_def P_ROLLER_def)

lemma bearing_basic_rating_life_l10h_total: "in_ranges (ranges_of bearing_basic_rating_life_l10h_ins bearing_basic_rating_life_l10h_box) vs \<Longrightarrow> bearing_basic_rating_life_l10h_valid vs"
  by (auto simp: bearing_basic_rating_life_l10h_ins_def bearing_basic_rating_life_l10h_box_def bearing_basic_rating_life_l10h_valid_def ranges_of_def in_ranges_Cons P_BALL_def P_ROLLER_def)

lemma bearing_basic_rating_life_l10h_slices: "f \<in> snd ` set bearing_basic_rating_life_l10h_forms \<Longrightarrow> slice_monotone (ranges_of bearing_basic_rating_life_l10h_ins bearing_basic_rating_life_l10h_box) f"
  by (auto simp: bearing_basic_rating_life_l10h_forms_def bearing_basic_rating_life_l10h_ins_def bearing_basic_rating_life_l10h_box_def ranges_of_def P_BALL_def P_ROLLER_def  intro!: slice_monotone_2 swing)

interpretation bearing_basic_rating_life_l10h: total_solver bearing_basic_rating_life_l10h_ins bearing_basic_rating_life_l10h_box bearing_basic_rating_life_l10h_valid bearing_basic_rating_life_l10h_forms "bearing_basic_rating_life_l10h fmt" for fmt
  by unfold_locales (rule bearing_basic_rating_life_l10h_answers | erule bearing_basic_rating_life_l10h_total bearing_basic_rating_life_l10h_slices | simp add: ports_ok_def dict_ok_def bearing_basic_rating_life_l10h_ins_def bearing_basic_rating_life_l10h_box_def)+

lemma bearing_basic_rating_life_l10h_law:
  "keeps_law (module_direction H dumps bearing_basic_rating_life_l10h_args ''bearing_basic_rating_life_l10h'' (bearing_basic_rating_life_l10h fmt)) bearing_basic_rating_life_l10h_valid bearing_basic_rating_life_l10h_forms"
  unfolding bearing_basic_rating_life_l10h_args_def
  by (rule bearing_basic_rating_life_l10h.direction_law) (simp_all add: bearing_basic_rating_life_l10h_forms_def)

section \<open>The family\<close>

definition bearing_life_directions ::
  "(json \<Rightarrow> string) \<Rightarrow> (json \<Rightarrow> string) \<Rightarrow> (string \<Rightarrow> real \<Rightarrow> string)
   \<Rightarrow> (solver_pair, registry_error) outcome list" where
  "bearing_life_directions H dumps fmt =
     [module_direction H dumps bearing_basic_rating_life_l10_ball_args ''bearing_basic_rating_life_l10_ball'' (bearing_basic_rating_life_l10_ball fmt),
      module_direction H dumps bearing_basic_rating_life_l10_roller_args ''bearing_basic_rating_life_l10_roller'' (bearing_basic_rating_life_l10_roller fmt),
      module_direction H dumps bearing_basic_rating_life_l10h_args ''bearing_basic_rating_life_l10h'' (bearing_basic_rating_life_l10h fmt)]"

definition register_bearing_life ::
  "(json \<Rightarrow> string) \<Rightarrow> (json \<Rightarrow> string) \<Rightarrow> (string \<Rightarrow> real \<Rightarrow> string)
   \<Rightarrow> registry \<Rightarrow> (unit, registry_error) outcome \<times> registry" where
  "register_bearing_life H dumps fmt = register_family bearing_life_PORT_DECLS (bearing_life_directions H dumps fmt)"

definition bearing_life_laws ::
  "(json \<Rightarrow> string) \<Rightarrow> (json \<Rightarrow> string) \<Rightarrow> (string \<Rightarrow> real \<Rightarrow> string)
   \<Rightarrow> ((solver_pair, registry_error) outcome \<times> (real list \<Rightarrow> bool) \<times> (string, real list \<Rightarrow> real) dict) list" where
  "bearing_life_laws H dumps fmt =
     [(module_direction H dumps bearing_basic_rating_life_l10_ball_args ''bearing_basic_rating_life_l10_ball'' (bearing_basic_rating_life_l10_ball fmt), bearing_basic_rating_life_l10_ball_valid, bearing_basic_rating_life_l10_ball_forms),
      (module_direction H dumps bearing_basic_rating_life_l10_roller_args ''bearing_basic_rating_life_l10_roller'' (bearing_basic_rating_life_l10_roller fmt), bearing_basic_rating_life_l10_roller_valid, bearing_basic_rating_life_l10_roller_forms),
      (module_direction H dumps bearing_basic_rating_life_l10h_args ''bearing_basic_rating_life_l10h'' (bearing_basic_rating_life_l10h fmt), bearing_basic_rating_life_l10h_valid, bearing_basic_rating_life_l10h_forms)]"

lemma bearing_life_keep: "list_all (\<lambda>(d, valid, forms). keeps_law d valid forms) (bearing_life_laws H dumps fmt)"
  by (simp add: bearing_life_laws_def bearing_basic_rating_life_l10_ball_law bearing_basic_rating_life_l10_roller_law bearing_basic_rating_life_l10h_law)

chapter \<open>Power screws\<close>

text \<open>
  Power screws (\<open>mech/leadscrew.py\<close>).
\<close>

section \<open>Power screws: directions\<close>

definition MECHANICS_CITATION :: citation where
  \<open>MECHANICS_CITATION =
     \<lparr>ct_kind = ''handbook'', ct_ref = (''Shigley's Mechanical Engineering Design, 11th ed., ch. 8 sec. 8-2 ('' @ [CHR 0x22] @ ''The Mechanics of Power Screws'' @ [CHR 0x22] @ ''): square-thread torque to raise a load TR = (F*dm/2)*((l+pi*f*dm)/(pi*dm-f*l)), torque to lower a load TL = (F*dm/2)*((pi*f*dm-l)/(pi*dm+f*l)), mechanical efficiency e = F*l/(2*pi*TR), self-locking condition f > tan(lambda) = l/(pi*dm), and thrust-collar friction torque Tc = F*fc*dc/2 (docs/benchmarks-memo.md sec. 15)''), ct_note = (''Square thread only -- the ACME wedging correction (sec. 8-2, friction terms divided by cos(alpha)) is a named cut, not built here (WO-24 deliverable 7 scope). Exact closed-form algebra, calibrated by hand-computed arithmetic (no fitted table exists to calibrate against for an exact result), same tier as '' @ [CHR 0x60] @ ''member_capacity.euler_critical_buckling_load'' @ [CHR 0x60] @ ''.'')\<rparr>\<close>

definition F_RANGE :: interval where
  "F_RANGE = ivl 1 (10 ^ 6)"

definition DM_RANGE :: interval where
  "DM_RANGE = ivl (1 / 1000) (5 / 10)"

definition L_RANGE :: interval where
  "L_RANGE = ivl (1 / 10000) (1 / 10)"

definition F_COEFF_RANGE :: interval where
  "F_COEFF_RANGE = ivl (1 / 100) (9 / 10)"

fun reject_nonpositive ::
  "(string \<Rightarrow> real \<Rightarrow> string) \<Rightarrow> (string \<times> real) list \<Rightarrow> raw_return \<Rightarrow> raw_return" where
  "reject_nonpositive fmt [] k = k"
| "reject_nonpositive fmt ((name, value) # kwargs) k =
     (if value \<le> 0
      then out_of_domain (''leadscrew: non-positive '' @ name @ ''='' @ fmt ''r'' value)
      else reject_nonpositive fmt kwargs k)"

subsection \<open>\<open>leadscrew_torque_raise\<close>\<close>

definition leadscrew_torque_raise_box :: "(string, interval) dict" where
  "leadscrew_torque_raise_box =
     [(''mech.drive.leadscrew.force'', F_RANGE),
      (''mech.drive.leadscrew.dm'', DM_RANGE),
      (''mech.drive.leadscrew.lead'', L_RANGE),
      (''mech.drive.leadscrew.friction'', F_COEFF_RANGE)]"

definition leadscrew_torque_raise_ins :: "string list" where
  "leadscrew_torque_raise_ins = [''mech.drive.leadscrew.force'', ''mech.drive.leadscrew.dm'', ''mech.drive.leadscrew.lead'', ''mech.drive.leadscrew.friction'']"

definition leadscrew_torque_raise_args :: build_args where
  \<open>leadscrew_torque_raise_args =
     solver_args ''mech.drive'' leadscrew_torque_raise_ins
       [''mech.drive.leadscrew.torque_raise'']
       leadscrew_torque_raise_box
       [''no_collar'', ''square_thread'']
       (1 / 10 ^ 7) (AccOne EXACT)
       [MECHANICS_CITATION]
       ''1''\<close>

definition leadscrew_torque_raise :: "(string \<Rightarrow> real \<Rightarrow> string) \<Rightarrow> inputs \<Rightarrow> raw_return" where
  \<open>leadscrew_torque_raise fmt x =
    (arg x ''mech.drive.leadscrew.force'' (\<lambda>f.
     arg x ''mech.drive.leadscrew.dm'' (\<lambda>dm.
     arg x ''mech.drive.leadscrew.lead'' (\<lambda>lead.
     arg x ''mech.drive.leadscrew.friction'' (\<lambda>mu.
     reject_nonpositive fmt [(''force'', f), (''dm'', dm), (''lead'', lead), (''friction'', mu)] (
     let denom = pi * dm - mu * lead in
     if denom \<le> 0
     then out_of_domain (''leadscrew raise: pi*dm - f*l = '' @ fmt ''r'' denom @ '' <= 0 -- not a physically realizable screw geometry'')
     else
     py_div (lead + pi * mu * dm) denom (\<lambda>t5.
     let tr = f * dm / 2 * t5 in
     ok_values [(''mech.drive.leadscrew.torque_raise'', tr)])))))))\<close>

subsection \<open>\<open>leadscrew_torque_lower\<close>\<close>

definition leadscrew_torque_lower_box :: "(string, interval) dict" where
  "leadscrew_torque_lower_box =
     [(''mech.drive.leadscrew.force'', F_RANGE),
      (''mech.drive.leadscrew.dm'', DM_RANGE),
      (''mech.drive.leadscrew.lead'', L_RANGE),
      (''mech.drive.leadscrew.friction'', F_COEFF_RANGE)]"

definition leadscrew_torque_lower_ins :: "string list" where
  "leadscrew_torque_lower_ins = [''mech.drive.leadscrew.force'', ''mech.drive.leadscrew.dm'', ''mech.drive.leadscrew.lead'', ''mech.drive.leadscrew.friction'']"

definition leadscrew_torque_lower_args :: build_args where
  \<open>leadscrew_torque_lower_args =
     solver_args ''mech.drive'' leadscrew_torque_lower_ins
       [''mech.drive.leadscrew.torque_lower'']
       leadscrew_torque_lower_box
       [''no_collar'', ''square_thread'']
       (1 / 10 ^ 7) (AccOne EXACT)
       [MECHANICS_CITATION]
       ''1''\<close>

definition leadscrew_torque_lower :: "(string \<Rightarrow> real \<Rightarrow> string) \<Rightarrow> inputs \<Rightarrow> raw_return" where
  \<open>leadscrew_torque_lower fmt x =
    (arg x ''mech.drive.leadscrew.force'' (\<lambda>f.
     arg x ''mech.drive.leadscrew.dm'' (\<lambda>dm.
     arg x ''mech.drive.leadscrew.lead'' (\<lambda>lead.
     arg x ''mech.drive.leadscrew.friction'' (\<lambda>mu.
     reject_nonpositive fmt [(''force'', f), (''dm'', dm), (''lead'', lead), (''friction'', mu)] (
     py_div (pi * mu * dm - lead) (pi * dm + mu * lead) (\<lambda>t5.
     let tl = f * dm / 2 * t5 in
     ok_values [(''mech.drive.leadscrew.torque_lower'', tl)])))))))\<close>

subsection \<open>\<open>leadscrew_efficiency\<close>\<close>

definition leadscrew_efficiency_box :: "(string, interval) dict" where
  "leadscrew_efficiency_box =
     [(''mech.drive.leadscrew.force'', F_RANGE),
      (''mech.drive.leadscrew.lead'', L_RANGE),
      (''mech.drive.leadscrew.torque_raise'', ivl (1 / 10 ^ 6) 100000)]"

definition leadscrew_efficiency_ins :: "string list" where
  "leadscrew_efficiency_ins = [''mech.drive.leadscrew.force'', ''mech.drive.leadscrew.lead'', ''mech.drive.leadscrew.torque_raise'']"

definition leadscrew_efficiency_args :: build_args where
  \<open>leadscrew_efficiency_args =
     solver_args ''mech.drive'' leadscrew_efficiency_ins
       [''mech.drive.leadscrew.efficiency'']
       leadscrew_efficiency_box
       [''square_thread'']
       (1 / 10 ^ 7) (AccOne EXACT)
       [MECHANICS_CITATION]
       ''1''\<close>

definition leadscrew_efficiency :: "(string \<Rightarrow> real \<Rightarrow> string) \<Rightarrow> inputs \<Rightarrow> raw_return" where
  \<open>leadscrew_efficiency fmt x =
    (arg x ''mech.drive.leadscrew.force'' (\<lambda>f.
     arg x ''mech.drive.leadscrew.lead'' (\<lambda>lead.
     arg x ''mech.drive.leadscrew.torque_raise'' (\<lambda>tr.
     reject_nonpositive fmt [(''force'', f), (''lead'', lead), (''torque_raise'', tr)] (
     py_div (f * lead) (2 * pi * tr) (\<lambda>e.
     ok_values [(''mech.drive.leadscrew.efficiency'', e)]))))))\<close>

subsection \<open>\<open>leadscrew_self_locking_margin\<close>\<close>

definition leadscrew_self_locking_margin_box :: "(string, interval) dict" where
  "leadscrew_self_locking_margin_box =
     [(''mech.drive.leadscrew.dm'', DM_RANGE),
      (''mech.drive.leadscrew.lead'', L_RANGE),
      (''mech.drive.leadscrew.friction'', F_COEFF_RANGE)]"

definition leadscrew_self_locking_margin_ins :: "string list" where
  "leadscrew_self_locking_margin_ins = [''mech.drive.leadscrew.dm'', ''mech.drive.leadscrew.lead'', ''mech.drive.leadscrew.friction'']"

definition leadscrew_self_locking_margin_args :: build_args where
  \<open>leadscrew_self_locking_margin_args =
     solver_args ''mech.drive'' leadscrew_self_locking_margin_ins
       [''mech.drive.leadscrew.self_locking_margin'']
       leadscrew_self_locking_margin_box
       [''square_thread'']
       (1 / 10 ^ 7) (AccOne EXACT)
       [MECHANICS_CITATION]
       ''1''\<close>

definition leadscrew_self_locking_margin :: "(string \<Rightarrow> real \<Rightarrow> string) \<Rightarrow> inputs \<Rightarrow> raw_return" where
  \<open>leadscrew_self_locking_margin fmt x =
    (arg x ''mech.drive.leadscrew.dm'' (\<lambda>dm.
     arg x ''mech.drive.leadscrew.lead'' (\<lambda>lead.
     arg x ''mech.drive.leadscrew.friction'' (\<lambda>mu.
     reject_nonpositive fmt [(''dm'', dm), (''lead'', lead), (''friction'', mu)] (
     py_div lead (pi * dm) (\<lambda>tan_lambda.
     ok_values [(''mech.drive.leadscrew.self_locking_margin'', mu - tan_lambda)]))))))\<close>

subsection \<open>\<open>leadscrew_collar_torque\<close>\<close>

definition leadscrew_collar_torque_box :: "(string, interval) dict" where
  "leadscrew_collar_torque_box =
     [(''mech.drive.leadscrew.force'', F_RANGE),
      (''mech.drive.leadscrew.collar_friction'', F_COEFF_RANGE),
      (''mech.drive.leadscrew.collar_dc'', ivl (1 / 1000) (5 / 10))]"

definition leadscrew_collar_torque_ins :: "string list" where
  "leadscrew_collar_torque_ins = [''mech.drive.leadscrew.force'', ''mech.drive.leadscrew.collar_friction'', ''mech.drive.leadscrew.collar_dc'']"

definition leadscrew_collar_torque_args :: build_args where
  \<open>leadscrew_collar_torque_args =
     solver_args ''mech.drive'' leadscrew_collar_torque_ins
       [''mech.drive.leadscrew.collar_torque'']
       leadscrew_collar_torque_box
       [''thrust_collar'']
       (1 / 10 ^ 7) (AccOne EXACT)
       [MECHANICS_CITATION]
       ''1''\<close>

definition leadscrew_collar_torque :: "(string \<Rightarrow> real \<Rightarrow> string) \<Rightarrow> inputs \<Rightarrow> raw_return" where
  \<open>leadscrew_collar_torque fmt x =
    (arg x ''mech.drive.leadscrew.force'' (\<lambda>f.
     arg x ''mech.drive.leadscrew.collar_friction'' (\<lambda>fc.
     arg x ''mech.drive.leadscrew.collar_dc'' (\<lambda>dc.
     reject_nonpositive fmt [(''force'', f), (''collar_friction'', fc), (''collar_dc'', dc)] (
     let tc = f * fc * dc / 2 in
     ok_values [(''mech.drive.leadscrew.collar_torque'', tc)])))))\<close>

definition leadscrew_PORT_DECLS :: "port_decl list" where
  "leadscrew_PORT_DECLS =
     [scalar_port ''mech.drive.leadscrew.force'' ''N'',
      scalar_port ''mech.drive.leadscrew.dm'' ''m'',
      scalar_port ''mech.drive.leadscrew.lead'' ''m'',
      scalar_port ''mech.drive.leadscrew.friction'' ''1'',
      scalar_port ''mech.drive.leadscrew.torque_raise'' ''N*m'',
      scalar_port ''mech.drive.leadscrew.torque_lower'' ''N*m'',
      scalar_port ''mech.drive.leadscrew.efficiency'' ''1'',
      scalar_port ''mech.drive.leadscrew.self_locking_margin'' ''1'',
      scalar_port ''mech.drive.leadscrew.collar_friction'' ''1'',
      scalar_port ''mech.drive.leadscrew.collar_dc'' ''m'',
      scalar_port ''mech.drive.leadscrew.collar_torque'' ''N*m'']"

section \<open>What the directions compute\<close>

subsection \<open>\<open>leadscrew_efficiency\<close>\<close>

definition leadscrew_efficiency_valid :: "real list \<Rightarrow> bool" where
  "leadscrew_efficiency_valid vs \<longleftrightarrow> 0 < vs ! 0 \<and> 0 < vs ! 1 \<and> 0 < vs ! 2"

definition leadscrew_efficiency_forms :: "(string, real list \<Rightarrow> real) dict" where
  "leadscrew_efficiency_forms =
     [(''mech.drive.leadscrew.efficiency'', \<lambda>vs. vs ! 0 * vs ! 1 / (2 * pi * vs ! 2))]"

lemma leadscrew_efficiency_answers: "computes (leadscrew_efficiency fmt) leadscrew_efficiency_ins leadscrew_efficiency_box leadscrew_efficiency_valid leadscrew_efficiency_forms"
  by (rule computesI) (auto simp: leadscrew_efficiency_def leadscrew_efficiency_ins_def leadscrew_efficiency_valid_def leadscrew_efficiency_forms_def answer_simps reads_Nil reads_Cons Let_def  F_RANGE_def DM_RANGE_def L_RANGE_def F_COEFF_RANGE_def)

lemma leadscrew_efficiency_total: "in_ranges (ranges_of leadscrew_efficiency_ins leadscrew_efficiency_box) vs \<Longrightarrow> leadscrew_efficiency_valid vs"
  by (auto simp: leadscrew_efficiency_ins_def leadscrew_efficiency_box_def leadscrew_efficiency_valid_def ranges_of_def in_ranges_Cons F_RANGE_def DM_RANGE_def L_RANGE_def F_COEFF_RANGE_def)

lemma leadscrew_efficiency_slices: "f \<in> snd ` set leadscrew_efficiency_forms \<Longrightarrow> slice_monotone (ranges_of leadscrew_efficiency_ins leadscrew_efficiency_box) f"
  by (auto simp: leadscrew_efficiency_forms_def leadscrew_efficiency_ins_def leadscrew_efficiency_box_def ranges_of_def F_RANGE_def DM_RANGE_def L_RANGE_def F_COEFF_RANGE_def  intro!: slice_monotone_3 swing)

interpretation leadscrew_efficiency: total_solver leadscrew_efficiency_ins leadscrew_efficiency_box leadscrew_efficiency_valid leadscrew_efficiency_forms "leadscrew_efficiency fmt" for fmt
  by unfold_locales (rule leadscrew_efficiency_answers | erule leadscrew_efficiency_total leadscrew_efficiency_slices | simp add: ports_ok_def dict_ok_def leadscrew_efficiency_ins_def leadscrew_efficiency_box_def)+

lemma leadscrew_efficiency_law:
  "keeps_law (module_direction H dumps leadscrew_efficiency_args ''leadscrew_efficiency'' (leadscrew_efficiency fmt)) leadscrew_efficiency_valid leadscrew_efficiency_forms"
  unfolding leadscrew_efficiency_args_def
  by (rule leadscrew_efficiency.direction_law) (simp_all add: leadscrew_efficiency_forms_def)

subsection \<open>\<open>leadscrew_self_locking_margin\<close>\<close>

definition leadscrew_self_locking_margin_valid :: "real list \<Rightarrow> bool" where
  "leadscrew_self_locking_margin_valid vs \<longleftrightarrow> 0 < vs ! 0 \<and> 0 < vs ! 1 \<and> 0 < vs ! 2"

definition leadscrew_self_locking_margin_forms :: "(string, real list \<Rightarrow> real) dict" where
  "leadscrew_self_locking_margin_forms =
     [(''mech.drive.leadscrew.self_locking_margin'', \<lambda>vs. vs ! 2 - vs ! 1 / (pi * vs ! 0))]"

lemma leadscrew_self_locking_margin_answers: "computes (leadscrew_self_locking_margin fmt) leadscrew_self_locking_margin_ins leadscrew_self_locking_margin_box leadscrew_self_locking_margin_valid leadscrew_self_locking_margin_forms"
  by (rule computesI) (auto simp: leadscrew_self_locking_margin_def leadscrew_self_locking_margin_ins_def leadscrew_self_locking_margin_valid_def leadscrew_self_locking_margin_forms_def answer_simps reads_Nil reads_Cons Let_def  F_RANGE_def DM_RANGE_def L_RANGE_def F_COEFF_RANGE_def)

lemma leadscrew_self_locking_margin_total: "in_ranges (ranges_of leadscrew_self_locking_margin_ins leadscrew_self_locking_margin_box) vs \<Longrightarrow> leadscrew_self_locking_margin_valid vs"
  by (auto simp: leadscrew_self_locking_margin_ins_def leadscrew_self_locking_margin_box_def leadscrew_self_locking_margin_valid_def ranges_of_def in_ranges_Cons F_RANGE_def DM_RANGE_def L_RANGE_def F_COEFF_RANGE_def)

lemma leadscrew_self_locking_margin_slices: "f \<in> snd ` set leadscrew_self_locking_margin_forms \<Longrightarrow> slice_monotone (ranges_of leadscrew_self_locking_margin_ins leadscrew_self_locking_margin_box) f"
  by (auto simp: leadscrew_self_locking_margin_forms_def leadscrew_self_locking_margin_ins_def leadscrew_self_locking_margin_box_def ranges_of_def F_RANGE_def DM_RANGE_def L_RANGE_def F_COEFF_RANGE_def  intro!: slice_monotone_3 swing)

interpretation leadscrew_self_locking_margin: total_solver leadscrew_self_locking_margin_ins leadscrew_self_locking_margin_box leadscrew_self_locking_margin_valid leadscrew_self_locking_margin_forms "leadscrew_self_locking_margin fmt" for fmt
  by unfold_locales (rule leadscrew_self_locking_margin_answers | erule leadscrew_self_locking_margin_total leadscrew_self_locking_margin_slices | simp add: ports_ok_def dict_ok_def leadscrew_self_locking_margin_ins_def leadscrew_self_locking_margin_box_def)+

lemma leadscrew_self_locking_margin_law:
  "keeps_law (module_direction H dumps leadscrew_self_locking_margin_args ''leadscrew_self_locking_margin'' (leadscrew_self_locking_margin fmt)) leadscrew_self_locking_margin_valid leadscrew_self_locking_margin_forms"
  unfolding leadscrew_self_locking_margin_args_def
  by (rule leadscrew_self_locking_margin.direction_law) (simp_all add: leadscrew_self_locking_margin_forms_def)

subsection \<open>\<open>leadscrew_collar_torque\<close>\<close>

definition leadscrew_collar_torque_valid :: "real list \<Rightarrow> bool" where
  "leadscrew_collar_torque_valid vs \<longleftrightarrow> 0 < vs ! 0 \<and> 0 < vs ! 1 \<and> 0 < vs ! 2"

definition leadscrew_collar_torque_forms :: "(string, real list \<Rightarrow> real) dict" where
  "leadscrew_collar_torque_forms =
     [(''mech.drive.leadscrew.collar_torque'', \<lambda>vs. vs ! 0 * vs ! 1 * vs ! 2 / 2)]"

lemma leadscrew_collar_torque_answers: "computes (leadscrew_collar_torque fmt) leadscrew_collar_torque_ins leadscrew_collar_torque_box leadscrew_collar_torque_valid leadscrew_collar_torque_forms"
  by (rule computesI) (auto simp: leadscrew_collar_torque_def leadscrew_collar_torque_ins_def leadscrew_collar_torque_valid_def leadscrew_collar_torque_forms_def answer_simps reads_Nil reads_Cons Let_def  F_RANGE_def DM_RANGE_def L_RANGE_def F_COEFF_RANGE_def)

lemma leadscrew_collar_torque_total: "in_ranges (ranges_of leadscrew_collar_torque_ins leadscrew_collar_torque_box) vs \<Longrightarrow> leadscrew_collar_torque_valid vs"
  by (auto simp: leadscrew_collar_torque_ins_def leadscrew_collar_torque_box_def leadscrew_collar_torque_valid_def ranges_of_def in_ranges_Cons F_RANGE_def DM_RANGE_def L_RANGE_def F_COEFF_RANGE_def)

lemma leadscrew_collar_torque_slices: "f \<in> snd ` set leadscrew_collar_torque_forms \<Longrightarrow> slice_monotone (ranges_of leadscrew_collar_torque_ins leadscrew_collar_torque_box) f"
  by (auto simp: leadscrew_collar_torque_forms_def leadscrew_collar_torque_ins_def leadscrew_collar_torque_box_def ranges_of_def F_RANGE_def DM_RANGE_def L_RANGE_def F_COEFF_RANGE_def  intro!: slice_monotone_3 swing)

interpretation leadscrew_collar_torque: total_solver leadscrew_collar_torque_ins leadscrew_collar_torque_box leadscrew_collar_torque_valid leadscrew_collar_torque_forms "leadscrew_collar_torque fmt" for fmt
  by unfold_locales (rule leadscrew_collar_torque_answers | erule leadscrew_collar_torque_total leadscrew_collar_torque_slices | simp add: ports_ok_def dict_ok_def leadscrew_collar_torque_ins_def leadscrew_collar_torque_box_def)+

lemma leadscrew_collar_torque_law:
  "keeps_law (module_direction H dumps leadscrew_collar_torque_args ''leadscrew_collar_torque'' (leadscrew_collar_torque fmt)) leadscrew_collar_torque_valid leadscrew_collar_torque_forms"
  unfolding leadscrew_collar_torque_args_def
  by (rule leadscrew_collar_torque.direction_law) (simp_all add: leadscrew_collar_torque_forms_def)

section \<open>The family\<close>

definition leadscrew_directions ::
  "(json \<Rightarrow> string) \<Rightarrow> (json \<Rightarrow> string) \<Rightarrow> (string \<Rightarrow> real \<Rightarrow> string)
   \<Rightarrow> (solver_pair, registry_error) outcome list" where
  "leadscrew_directions H dumps fmt =
     [module_direction H dumps leadscrew_torque_raise_args ''leadscrew_torque_raise'' (leadscrew_torque_raise fmt),
      module_direction H dumps leadscrew_torque_lower_args ''leadscrew_torque_lower'' (leadscrew_torque_lower fmt),
      module_direction H dumps leadscrew_efficiency_args ''leadscrew_efficiency'' (leadscrew_efficiency fmt),
      module_direction H dumps leadscrew_self_locking_margin_args ''leadscrew_self_locking_margin'' (leadscrew_self_locking_margin fmt),
      module_direction H dumps leadscrew_collar_torque_args ''leadscrew_collar_torque'' (leadscrew_collar_torque fmt)]"

definition register_leadscrew ::
  "(json \<Rightarrow> string) \<Rightarrow> (json \<Rightarrow> string) \<Rightarrow> (string \<Rightarrow> real \<Rightarrow> string)
   \<Rightarrow> registry \<Rightarrow> (unit, registry_error) outcome \<times> registry" where
  "register_leadscrew H dumps fmt = register_family leadscrew_PORT_DECLS (leadscrew_directions H dumps fmt)"

definition leadscrew_laws ::
  "(json \<Rightarrow> string) \<Rightarrow> (json \<Rightarrow> string) \<Rightarrow> (string \<Rightarrow> real \<Rightarrow> string)
   \<Rightarrow> ((solver_pair, registry_error) outcome \<times> (real list \<Rightarrow> bool) \<times> (string, real list \<Rightarrow> real) dict) list" where
  "leadscrew_laws H dumps fmt =
     [(module_direction H dumps leadscrew_efficiency_args ''leadscrew_efficiency'' (leadscrew_efficiency fmt), leadscrew_efficiency_valid, leadscrew_efficiency_forms),
      (module_direction H dumps leadscrew_self_locking_margin_args ''leadscrew_self_locking_margin'' (leadscrew_self_locking_margin fmt), leadscrew_self_locking_margin_valid, leadscrew_self_locking_margin_forms),
      (module_direction H dumps leadscrew_collar_torque_args ''leadscrew_collar_torque'' (leadscrew_collar_torque fmt), leadscrew_collar_torque_valid, leadscrew_collar_torque_forms)]"

lemma leadscrew_keep: "list_all (\<lambda>(d, valid, forms). keeps_law d valid forms) (leadscrew_laws H dumps fmt)"
  by (simp add: leadscrew_laws_def leadscrew_efficiency_law leadscrew_self_locking_margin_law leadscrew_collar_torque_law)

chapter \<open>Drives\<close>

text \<open>
  Drive sizing (\<open>mech/drive.py\<close>).
\<close>

section \<open>Drives: directions\<close>

definition ACCEL_CITATIONS :: "citation list" where
  \<open>ACCEL_CITATIONS =
     [\<lparr>ct_kind = ''handbook'', ct_ref = ''Norton, Design of Machinery, 6th ed., sec. 11.11 (reflected inertia J_r = J_load/N^2) + rigid-body acceleration torque tau = J*alpha; Slocum, Precision Machine Design, sec. 7.4 (drive sizing T = J_total*alpha + T_load/(N*eta)); docs/benchmarks-memo.md sec. 19'', ct_note = ''Rigid single-stage drivetrain, constant efficiency, trapezoidal-peak (constant alpha) sizing. RMS/thermal torque, backlash, and compliance are named cuts.''\<rparr>]\<close>

subsection \<open>\<open>drive_acceleration_torque\<close>\<close>

definition drive_acceleration_torque_box :: "(string, interval) dict" where
  "drive_acceleration_torque_box =
     [(''mech.drive.accel.j_motor'', ivl (1 / 10 ^ 9) 100),
      (''mech.drive.accel.j_load'', ivl 0 10000),
      (''mech.drive.accel.gear_ratio'', ivl 1 1000),
      (''mech.drive.accel.efficiency'', ivl (1 / 10) 1),
      (''mech.drive.accel.alpha'', ivl 0 (10 ^ 6)),
      (''mech.drive.accel.t_load'', ivl 0 (10 ^ 6))]"

definition drive_acceleration_torque_ins :: "string list" where
  "drive_acceleration_torque_ins = [''mech.drive.accel.j_motor'', ''mech.drive.accel.j_load'', ''mech.drive.accel.gear_ratio'', ''mech.drive.accel.efficiency'', ''mech.drive.accel.alpha'', ''mech.drive.accel.t_load'']"

definition drive_acceleration_torque_args :: build_args where
  \<open>drive_acceleration_torque_args =
     solver_args ''mech.drive'' drive_acceleration_torque_ins
       [''mech.drive.accel.torque_required'']
       drive_acceleration_torque_box
       [''constant_efficiency'', ''rigid_drivetrain'', ''single_stage'']
       (1 / 10 ^ 7) (AccOne EXACT)
       ACCEL_CITATIONS
       ''1''\<close>

definition drive_acceleration_torque :: "(string \<Rightarrow> real \<Rightarrow> string) \<Rightarrow> inputs \<Rightarrow> raw_return" where
  \<open>drive_acceleration_torque fmt x =
    (arg x ''mech.drive.accel.j_motor'' (\<lambda>j_motor.
     arg x ''mech.drive.accel.j_load'' (\<lambda>j_load.
     arg x ''mech.drive.accel.gear_ratio'' (\<lambda>n.
     arg x ''mech.drive.accel.efficiency'' (\<lambda>eta.
     arg x ''mech.drive.accel.alpha'' (\<lambda>alpha.
     arg x ''mech.drive.accel.t_load'' (\<lambda>t_load.
     if j_motor \<le> 0 \<or> j_load < 0 \<or> n < 1 \<or> \<not> (0 < eta \<and> eta \<le> 1)
     then out_of_domain (''drive accel torque: bad j_motor='' @ fmt ''r'' j_motor @ '', j_load='' @ fmt ''r'' j_load @ '', gear_ratio='' @ fmt ''r'' n @ '', or efficiency='' @ fmt ''r'' eta)
     else
     py_div j_load (n ^ 2) (\<lambda>t7.
     let j_total = j_motor + t7 in
     py_div t_load (n * eta) (\<lambda>t8.
     let t_required = j_total * alpha + t8 in
     ok_values [(''mech.drive.accel.torque_required'', t_required)])))))))))\<close>

definition drive_PORT_DECLS :: "port_decl list" where
  "drive_PORT_DECLS =
     [scalar_port ''mech.drive.accel.j_motor'' ''kg*m^2'',
      scalar_port ''mech.drive.accel.j_load'' ''kg*m^2'',
      scalar_port ''mech.drive.accel.gear_ratio'' ''1'',
      scalar_port ''mech.drive.accel.efficiency'' ''1'',
      scalar_port ''mech.drive.accel.alpha'' ''rad/s^2'',
      scalar_port ''mech.drive.accel.t_load'' ''N*m'',
      scalar_port ''mech.drive.accel.torque_required'' ''N*m'']"

section \<open>What the directions compute\<close>

lemma drive_ratio_slice:
  assumes "0 \<le> b" "0 \<le> e" "0 \<le> g" "0 < d"
  shows "swings (ivl 1 1000) (\<lambda>v. (a + b / v\<^sup>2) * e + g / (v * d))"
proof (rule falls_swings, rule fallsI)
  fix v w :: real assume v: "iv_contains (ivl 1 1000) v" and w: "v \<le> w"
  have "b / w\<^sup>2 \<le> b / v\<^sup>2" using v w assms(1) by (intro divide_left_mono power_mono mult_pos_pos) auto
  moreover have "g / (w * d) \<le> g / (v * d)"
    using v w assms(3,4) by (intro divide_left_mono mult_right_mono mult_pos_pos) auto
  ultimately show "(a + b / w\<^sup>2) * e + g / (w * d) \<le> (a + b / v\<^sup>2) * e + g / (v * d)"
    using assms(2) by (intro add_mono mult_right_mono) auto
qed

subsection \<open>\<open>drive_acceleration_torque\<close>\<close>

definition drive_acceleration_torque_valid :: "real list \<Rightarrow> bool" where
  "drive_acceleration_torque_valid vs \<longleftrightarrow> 0 < vs ! 0 \<and> 0 \<le> vs ! 1 \<and> 1 \<le> vs ! 2 \<and> 0 < vs ! 3 \<and> vs ! 3 \<le> 1"

definition drive_acceleration_torque_forms :: "(string, real list \<Rightarrow> real) dict" where
  "drive_acceleration_torque_forms =
     [(''mech.drive.accel.torque_required'', \<lambda>vs. (vs ! 0 + vs ! 1 / (vs ! 2) ^ 2) * vs ! 4 + vs ! 5 / (vs ! 2 * vs ! 3))]"

lemma drive_acceleration_torque_answers: "computes (drive_acceleration_torque fmt) drive_acceleration_torque_ins drive_acceleration_torque_box drive_acceleration_torque_valid drive_acceleration_torque_forms"
  by (rule computesI) (auto simp: drive_acceleration_torque_def drive_acceleration_torque_ins_def drive_acceleration_torque_valid_def drive_acceleration_torque_forms_def answer_simps reads_Nil reads_Cons Let_def)

lemma drive_acceleration_torque_total: "in_ranges (ranges_of drive_acceleration_torque_ins drive_acceleration_torque_box) vs \<Longrightarrow> drive_acceleration_torque_valid vs"
  by (auto simp: drive_acceleration_torque_ins_def drive_acceleration_torque_box_def drive_acceleration_torque_valid_def ranges_of_def in_ranges_Cons)

lemma drive_acceleration_torque_slices: "f \<in> snd ` set drive_acceleration_torque_forms \<Longrightarrow> slice_monotone (ranges_of drive_acceleration_torque_ins drive_acceleration_torque_box) f"
  by (auto simp: drive_acceleration_torque_forms_def drive_acceleration_torque_ins_def drive_acceleration_torque_box_def ranges_of_def   intro!: slice_monotone_6 swing drive_ratio_slice)

interpretation drive_acceleration_torque: total_solver drive_acceleration_torque_ins drive_acceleration_torque_box drive_acceleration_torque_valid drive_acceleration_torque_forms "drive_acceleration_torque fmt" for fmt
  by unfold_locales (rule drive_acceleration_torque_answers | erule drive_acceleration_torque_total drive_acceleration_torque_slices | simp add: ports_ok_def dict_ok_def drive_acceleration_torque_ins_def drive_acceleration_torque_box_def)+

lemma drive_acceleration_torque_law:
  "keeps_law (module_direction H dumps drive_acceleration_torque_args ''drive_acceleration_torque'' (drive_acceleration_torque fmt)) drive_acceleration_torque_valid drive_acceleration_torque_forms"
  unfolding drive_acceleration_torque_args_def
  by (rule drive_acceleration_torque.direction_law) (simp_all add: drive_acceleration_torque_forms_def)

section \<open>The family\<close>

definition drive_directions ::
  "(json \<Rightarrow> string) \<Rightarrow> (json \<Rightarrow> string) \<Rightarrow> (string \<Rightarrow> real \<Rightarrow> string)
   \<Rightarrow> (solver_pair, registry_error) outcome list" where
  "drive_directions H dumps fmt =
     [module_direction H dumps drive_acceleration_torque_args ''drive_acceleration_torque'' (drive_acceleration_torque fmt)]"

definition register_drive ::
  "(json \<Rightarrow> string) \<Rightarrow> (json \<Rightarrow> string) \<Rightarrow> (string \<Rightarrow> real \<Rightarrow> string)
   \<Rightarrow> registry \<Rightarrow> (unit, registry_error) outcome \<times> registry" where
  "register_drive H dumps fmt = register_family drive_PORT_DECLS (drive_directions H dumps fmt)"

definition drive_laws ::
  "(json \<Rightarrow> string) \<Rightarrow> (json \<Rightarrow> string) \<Rightarrow> (string \<Rightarrow> real \<Rightarrow> string)
   \<Rightarrow> ((solver_pair, registry_error) outcome \<times> (real list \<Rightarrow> bool) \<times> (string, real list \<Rightarrow> real) dict) list" where
  "drive_laws H dumps fmt =
     [(module_direction H dumps drive_acceleration_torque_args ''drive_acceleration_torque'' (drive_acceleration_torque fmt), drive_acceleration_torque_valid, drive_acceleration_torque_forms)]"

lemma drive_keep: "list_all (\<lambda>(d, valid, forms). keeps_law d valid forms) (drive_laws H dumps fmt)"
  by (simp add: drive_laws_def drive_acceleration_torque_law)

chapter \<open>Critical speed\<close>

text \<open>
  Critical speed of shafts (\<open>mech/critical_speed.py\<close>).
\<close>

section \<open>Critical speed: directions\<close>

definition G_STANDARD :: real where
  "G_STANDARD = (980665 / 100000)"

definition STIFFNESS_CITATIONS :: "citation list" where
  \<open>STIFFNESS_CITATIONS =
     [\<lparr>ct_kind = ''handbook'', ct_ref = ''Shigley's Mechanical Engineering Design, 11th ed., ch. 7 sec. 7-6 eq. 7-22 (first critical speed of a single-mass shaft = its lateral natural frequency, omega_c = sqrt(k/m); n_c = omega_c*60/(2*pi) rpm; docs/benchmarks-memo.md sec. 16.1)'', ct_note = ''Single lumped mass, undamped, first mode only. Multi-mass Rayleigh/Dunkerley aggregation is a named cut -- caller supplies the effective k, m.''\<rparr>]\<close>

subsection \<open>\<open>shaft_critical_speed_from_stiffness\<close>\<close>

definition shaft_critical_speed_from_stiffness_box :: "(string, interval) dict" where
  "shaft_critical_speed_from_stiffness_box =
     [(''mech.critical_speed.stiffness'', ivl 100 (10 ^ 12)),
      (''mech.critical_speed.mass'', ivl (1 / 10000) 100000)]"

definition shaft_critical_speed_from_stiffness_ins :: "string list" where
  "shaft_critical_speed_from_stiffness_ins = [''mech.critical_speed.stiffness'', ''mech.critical_speed.mass'']"

definition shaft_critical_speed_from_stiffness_args :: build_args where
  \<open>shaft_critical_speed_from_stiffness_args =
     solver_args ''mech.critical_speed'' shaft_critical_speed_from_stiffness_ins
       [''mech.critical_speed.rpm'']
       shaft_critical_speed_from_stiffness_box
       [''first_mode'', ''single_mass'', ''undamped'']
       (1 / 10 ^ 7) (AccOne EXACT)
       STIFFNESS_CITATIONS
       ''1''\<close>

definition shaft_critical_speed_from_stiffness :: "(string \<Rightarrow> real \<Rightarrow> string) \<Rightarrow> inputs \<Rightarrow> raw_return" where
  \<open>shaft_critical_speed_from_stiffness fmt x =
    (arg x ''mech.critical_speed.stiffness'' (\<lambda>k.
     arg x ''mech.critical_speed.mass'' (\<lambda>m.
     if k \<le> 0 \<or> m \<le> 0
     then out_of_domain (''critical speed: non-positive stiffness='' @ fmt ''r'' k @ '' or mass='' @ fmt ''r'' m)
     else
     py_div k m (\<lambda>t3.
     py_sqrt t3 (\<lambda>omega_c.
     let n_c = omega_c * 60 / (2 * pi) in
     ok_values [(''mech.critical_speed.rpm'', n_c)])))))\<close>

definition RAYLEIGH_CITATIONS :: "citation list" where
  \<open>RAYLEIGH_CITATIONS =
     [\<lparr>ct_kind = ''handbook'', ct_ref = ''Shigley's Mechanical Engineering Design, 11th ed., ch. 7 sec. 7-6 eq. 7-23 (Rayleigh single-mass critical speed from static deflection, n_c = (30/pi)*sqrt(g/delta) rpm; docs/benchmarks-memo.md sec. 16.2)'', ct_note = ([CHR 0x60] @ ''delta'' @ [CHR 0x60] @ '' is the caller-resolved static deflection under the mass's own weight; g = 9.80665 m/s^2. Single mass only.'')\<rparr>]\<close>

subsection \<open>\<open>shaft_critical_speed_rayleigh_single_mass\<close>\<close>

definition shaft_critical_speed_rayleigh_single_mass_box :: "(string, interval) dict" where
  "shaft_critical_speed_rayleigh_single_mass_box =
     [(''mech.critical_speed.static_deflection'', ivl (1 / 10 ^ 9) 1)]"

definition shaft_critical_speed_rayleigh_single_mass_ins :: "string list" where
  "shaft_critical_speed_rayleigh_single_mass_ins = [''mech.critical_speed.static_deflection'']"

definition shaft_critical_speed_rayleigh_single_mass_args :: build_args where
  \<open>shaft_critical_speed_rayleigh_single_mass_args =
     solver_args ''mech.critical_speed'' shaft_critical_speed_rayleigh_single_mass_ins
       [''mech.critical_speed.rayleigh_rpm'']
       shaft_critical_speed_rayleigh_single_mass_box
       [''first_mode'', ''single_mass'', ''undamped'']
       (1 / 10 ^ 7) (AccOne EXACT)
       RAYLEIGH_CITATIONS
       ''1''\<close>

definition shaft_critical_speed_rayleigh_single_mass :: "(string \<Rightarrow> real \<Rightarrow> string) \<Rightarrow> inputs \<Rightarrow> raw_return" where
  \<open>shaft_critical_speed_rayleigh_single_mass fmt x =
    (arg x ''mech.critical_speed.static_deflection'' (\<lambda>delta.
     if delta \<le> 0
     then out_of_domain (''Rayleigh critical speed: non-positive delta='' @ fmt ''r'' delta)
     else
     py_div G_STANDARD delta (\<lambda>t2.
     py_sqrt t2 (\<lambda>t3.
     let n_c = 30 / pi * t3 in
     ok_values [(''mech.critical_speed.rayleigh_rpm'', n_c)]))))\<close>

definition critical_speed_PORT_DECLS :: "port_decl list" where
  "critical_speed_PORT_DECLS =
     [scalar_port ''mech.critical_speed.stiffness'' ''N/m'',
      scalar_port ''mech.critical_speed.mass'' ''kg'',
      scalar_port ''mech.critical_speed.rpm'' ''rev/min'',
      scalar_port ''mech.critical_speed.static_deflection'' ''m'',
      scalar_port ''mech.critical_speed.rayleigh_rpm'' ''rev/min'']"

section \<open>What the directions compute\<close>

subsection \<open>\<open>shaft_critical_speed_from_stiffness\<close>\<close>

definition shaft_critical_speed_from_stiffness_valid :: "real list \<Rightarrow> bool" where
  "shaft_critical_speed_from_stiffness_valid vs \<longleftrightarrow> 0 < vs ! 0 \<and> 0 < vs ! 1"

definition shaft_critical_speed_from_stiffness_forms :: "(string, real list \<Rightarrow> real) dict" where
  "shaft_critical_speed_from_stiffness_forms =
     [(''mech.critical_speed.rpm'', \<lambda>vs. sqrt (vs ! 0 / vs ! 1) * 60 / (2 * pi))]"

lemma shaft_critical_speed_from_stiffness_answers: "computes (shaft_critical_speed_from_stiffness fmt) shaft_critical_speed_from_stiffness_ins shaft_critical_speed_from_stiffness_box shaft_critical_speed_from_stiffness_valid shaft_critical_speed_from_stiffness_forms"
  by (rule computesI) (auto simp: shaft_critical_speed_from_stiffness_def shaft_critical_speed_from_stiffness_ins_def shaft_critical_speed_from_stiffness_valid_def shaft_critical_speed_from_stiffness_forms_def answer_simps reads_Nil reads_Cons Let_def  G_STANDARD_def)

lemma shaft_critical_speed_from_stiffness_total: "in_ranges (ranges_of shaft_critical_speed_from_stiffness_ins shaft_critical_speed_from_stiffness_box) vs \<Longrightarrow> shaft_critical_speed_from_stiffness_valid vs"
  by (auto simp: shaft_critical_speed_from_stiffness_ins_def shaft_critical_speed_from_stiffness_box_def shaft_critical_speed_from_stiffness_valid_def ranges_of_def in_ranges_Cons G_STANDARD_def)

lemma shaft_critical_speed_from_stiffness_slices: "f \<in> snd ` set shaft_critical_speed_from_stiffness_forms \<Longrightarrow> slice_monotone (ranges_of shaft_critical_speed_from_stiffness_ins shaft_critical_speed_from_stiffness_box) f"
  by (auto simp: shaft_critical_speed_from_stiffness_forms_def shaft_critical_speed_from_stiffness_ins_def shaft_critical_speed_from_stiffness_box_def ranges_of_def G_STANDARD_def  intro!: slice_monotone_2 swing)

interpretation shaft_critical_speed_from_stiffness: total_solver shaft_critical_speed_from_stiffness_ins shaft_critical_speed_from_stiffness_box shaft_critical_speed_from_stiffness_valid shaft_critical_speed_from_stiffness_forms "shaft_critical_speed_from_stiffness fmt" for fmt
  by unfold_locales (rule shaft_critical_speed_from_stiffness_answers | erule shaft_critical_speed_from_stiffness_total shaft_critical_speed_from_stiffness_slices | simp add: ports_ok_def dict_ok_def shaft_critical_speed_from_stiffness_ins_def shaft_critical_speed_from_stiffness_box_def)+

lemma shaft_critical_speed_from_stiffness_law:
  "keeps_law (module_direction H dumps shaft_critical_speed_from_stiffness_args ''shaft_critical_speed_from_stiffness'' (shaft_critical_speed_from_stiffness fmt)) shaft_critical_speed_from_stiffness_valid shaft_critical_speed_from_stiffness_forms"
  unfolding shaft_critical_speed_from_stiffness_args_def
  by (rule shaft_critical_speed_from_stiffness.direction_law) (simp_all add: shaft_critical_speed_from_stiffness_forms_def)

subsection \<open>\<open>shaft_critical_speed_rayleigh_single_mass\<close>\<close>

definition shaft_critical_speed_rayleigh_single_mass_valid :: "real list \<Rightarrow> bool" where
  "shaft_critical_speed_rayleigh_single_mass_valid vs \<longleftrightarrow> 0 < vs ! 0"

definition shaft_critical_speed_rayleigh_single_mass_forms :: "(string, real list \<Rightarrow> real) dict" where
  "shaft_critical_speed_rayleigh_single_mass_forms =
     [(''mech.critical_speed.rayleigh_rpm'', \<lambda>vs. 30 / pi * sqrt (G_STANDARD / vs ! 0))]"

lemma shaft_critical_speed_rayleigh_single_mass_answers: "computes (shaft_critical_speed_rayleigh_single_mass fmt) shaft_critical_speed_rayleigh_single_mass_ins shaft_critical_speed_rayleigh_single_mass_box shaft_critical_speed_rayleigh_single_mass_valid shaft_critical_speed_rayleigh_single_mass_forms"
  by (rule computesI) (auto simp: shaft_critical_speed_rayleigh_single_mass_def shaft_critical_speed_rayleigh_single_mass_ins_def shaft_critical_speed_rayleigh_single_mass_valid_def shaft_critical_speed_rayleigh_single_mass_forms_def answer_simps reads_Nil reads_Cons Let_def  G_STANDARD_def)

lemma shaft_critical_speed_rayleigh_single_mass_total: "in_ranges (ranges_of shaft_critical_speed_rayleigh_single_mass_ins shaft_critical_speed_rayleigh_single_mass_box) vs \<Longrightarrow> shaft_critical_speed_rayleigh_single_mass_valid vs"
  by (auto simp: shaft_critical_speed_rayleigh_single_mass_ins_def shaft_critical_speed_rayleigh_single_mass_box_def shaft_critical_speed_rayleigh_single_mass_valid_def ranges_of_def in_ranges_Cons G_STANDARD_def)

lemma shaft_critical_speed_rayleigh_single_mass_slices: "f \<in> snd ` set shaft_critical_speed_rayleigh_single_mass_forms \<Longrightarrow> slice_monotone (ranges_of shaft_critical_speed_rayleigh_single_mass_ins shaft_critical_speed_rayleigh_single_mass_box) f"
  by (auto simp: shaft_critical_speed_rayleigh_single_mass_forms_def shaft_critical_speed_rayleigh_single_mass_ins_def shaft_critical_speed_rayleigh_single_mass_box_def ranges_of_def G_STANDARD_def  intro!: slice_monotone_1 swing)

interpretation shaft_critical_speed_rayleigh_single_mass: total_solver shaft_critical_speed_rayleigh_single_mass_ins shaft_critical_speed_rayleigh_single_mass_box shaft_critical_speed_rayleigh_single_mass_valid shaft_critical_speed_rayleigh_single_mass_forms "shaft_critical_speed_rayleigh_single_mass fmt" for fmt
  by unfold_locales (rule shaft_critical_speed_rayleigh_single_mass_answers | erule shaft_critical_speed_rayleigh_single_mass_total shaft_critical_speed_rayleigh_single_mass_slices | simp add: ports_ok_def dict_ok_def shaft_critical_speed_rayleigh_single_mass_ins_def shaft_critical_speed_rayleigh_single_mass_box_def)+

lemma shaft_critical_speed_rayleigh_single_mass_law:
  "keeps_law (module_direction H dumps shaft_critical_speed_rayleigh_single_mass_args ''shaft_critical_speed_rayleigh_single_mass'' (shaft_critical_speed_rayleigh_single_mass fmt)) shaft_critical_speed_rayleigh_single_mass_valid shaft_critical_speed_rayleigh_single_mass_forms"
  unfolding shaft_critical_speed_rayleigh_single_mass_args_def
  by (rule shaft_critical_speed_rayleigh_single_mass.direction_law) (simp_all add: shaft_critical_speed_rayleigh_single_mass_forms_def)

section \<open>The family\<close>

definition critical_speed_directions ::
  "(json \<Rightarrow> string) \<Rightarrow> (json \<Rightarrow> string) \<Rightarrow> (string \<Rightarrow> real \<Rightarrow> string)
   \<Rightarrow> (solver_pair, registry_error) outcome list" where
  "critical_speed_directions H dumps fmt =
     [module_direction H dumps shaft_critical_speed_from_stiffness_args ''shaft_critical_speed_from_stiffness'' (shaft_critical_speed_from_stiffness fmt),
      module_direction H dumps shaft_critical_speed_rayleigh_single_mass_args ''shaft_critical_speed_rayleigh_single_mass'' (shaft_critical_speed_rayleigh_single_mass fmt)]"

definition register_critical_speed ::
  "(json \<Rightarrow> string) \<Rightarrow> (json \<Rightarrow> string) \<Rightarrow> (string \<Rightarrow> real \<Rightarrow> string)
   \<Rightarrow> registry \<Rightarrow> (unit, registry_error) outcome \<times> registry" where
  "register_critical_speed H dumps fmt = register_family critical_speed_PORT_DECLS (critical_speed_directions H dumps fmt)"

definition critical_speed_laws ::
  "(json \<Rightarrow> string) \<Rightarrow> (json \<Rightarrow> string) \<Rightarrow> (string \<Rightarrow> real \<Rightarrow> string)
   \<Rightarrow> ((solver_pair, registry_error) outcome \<times> (real list \<Rightarrow> bool) \<times> (string, real list \<Rightarrow> real) dict) list" where
  "critical_speed_laws H dumps fmt =
     [(module_direction H dumps shaft_critical_speed_from_stiffness_args ''shaft_critical_speed_from_stiffness'' (shaft_critical_speed_from_stiffness fmt), shaft_critical_speed_from_stiffness_valid, shaft_critical_speed_from_stiffness_forms),
      (module_direction H dumps shaft_critical_speed_rayleigh_single_mass_args ''shaft_critical_speed_rayleigh_single_mass'' (shaft_critical_speed_rayleigh_single_mass fmt), shaft_critical_speed_rayleigh_single_mass_valid, shaft_critical_speed_rayleigh_single_mass_forms)]"

lemma critical_speed_keep: "list_all (\<lambda>(d, valid, forms). keeps_law d valid forms) (critical_speed_laws H dumps fmt)"
  by (simp add: critical_speed_laws_def shaft_critical_speed_from_stiffness_law shaft_critical_speed_rayleigh_single_mass_law)

end
