(* ===== verification/Lib_Joints.thy ===== *)
theory Lib_Joints
  imports Catalog
begin

text \<open>
  Joints: bolted joints and weld groups (\<open>mech/bolted_joints.py\<close>, \<open>mech/weld_groups.py\<close>).
\<close>

chapter \<open>Bolted joints\<close>

text \<open>
  Bolted joints (\<open>mech/bolted_joints.py\<close>).
\<close>

section \<open>Bolted joints: directions\<close>

definition VDI_CITATION :: citation where
  \<open>VDI_CITATION =
     \<lparr>ct_kind = ''standard'', ct_ref = ''VDI 2230 Blatt 1:2015, Systematic calculation of highly stressed bolted joints, simplified two-body elastic model: load factor phi = c_B/(c_B+c_P); bolt working load F_S = F_V + phi*F_A; residual clamp load F_KR = F_V - (1-phi)*F_A (docs/benchmarks-memo.md sec. 8.1)'', ct_note = ''Concentric axial loading, elastic, NO gasket creep, NO embedding/settling loss, NO friction-grip (slip-critical) analysis -- the simplified two-body model only. c_B/c_P are CALLER-SUPPLIED (this direction does not derive bolt/plate stiffness from geometry).''\<rparr>\<close>

subsection \<open>\<open>bolt_single_load_factor_vdi2230\<close>\<close>

definition bolt_single_load_factor_vdi2230_box :: "(string, interval) dict" where
  "bolt_single_load_factor_vdi2230_box =
     [(''mech.joint.bolt.cb'', ivl 100000 (10 ^ 10)),
      (''mech.joint.bolt.cp'', ivl 100000 (10 ^ 10)),
      (''mech.joint.bolt.fv'', ivl 0 (10 ^ 7)),
      (''mech.joint.bolt.fa'', ivl (- (10 ^ 7)) (10 ^ 7))]"

definition bolt_single_load_factor_vdi2230_ins :: "string list" where
  "bolt_single_load_factor_vdi2230_ins = [''mech.joint.bolt.cb'', ''mech.joint.bolt.cp'', ''mech.joint.bolt.fv'', ''mech.joint.bolt.fa'']"

definition bolt_single_load_factor_vdi2230_args :: build_args where
  \<open>bolt_single_load_factor_vdi2230_args =
     solver_args ''mech.joint'' bolt_single_load_factor_vdi2230_ins
       [''mech.joint.bolt.load_factor'', ''mech.joint.bolt.working_load'', ''mech.joint.bolt.residual_clamp_load'']
       bolt_single_load_factor_vdi2230_box
       [''concentric_load'', ''elastic'', ''friction_grip_out_of_scope'', ''no_gasket_creep'']
       (1 / 10 ^ 7) (AccOne EXACT)
       [VDI_CITATION]
       ''1''\<close>

definition bolt_single_load_factor_vdi2230 :: "(string \<Rightarrow> real \<Rightarrow> string) \<Rightarrow> inputs \<Rightarrow> raw_return" where
  \<open>bolt_single_load_factor_vdi2230 fmt x =
    (arg x ''mech.joint.bolt.cb'' (\<lambda>cb.
     arg x ''mech.joint.bolt.cp'' (\<lambda>cp.
     arg x ''mech.joint.bolt.fv'' (\<lambda>fv.
     arg x ''mech.joint.bolt.fa'' (\<lambda>fa.
     if cb \<le> 0 \<or> cp \<le> 0
     then out_of_domain (''VDI 2230: non-positive stiffness cb='' @ fmt ''r'' cb @ '' or cp='' @ fmt ''r'' cp @ '' -- cannot form a load factor'')
     else
     if fv < 0
     then out_of_domain (''VDI 2230: negative preload fv='' @ fmt ''r'' fv @ '' -- a bolt is tightened, not pre-compressed'')
     else
     py_div cb (cb + cp) (\<lambda>phi.
     let f_s = fv + phi * fa in
     let f_kr = fv - (1 - phi) * fa in
     ok_values [(''mech.joint.bolt.load_factor'', phi), (''mech.joint.bolt.working_load'', f_s), (''mech.joint.bolt.residual_clamp_load'', f_kr)]))))))\<close>

definition SHEAR_GROUP_CITATION :: citation where
  \<open>SHEAR_GROUP_CITATION =
     \<lparr>ct_kind = ''handbook'', ct_ref = ''Shigley's Mechanical Engineering Design, 11th ed., ch. 8 sec. 8-11 (Shear Joints Under Eccentric Loading), the elastic (superposition) method: F_direct=(Vx/n,Vy/n), F_torsion=(-T*yi/J, T*xi/J), J=sum(ri^2) (docs/benchmarks-memo.md sec. 8.2)'', ct_note = ''Evaluated at ONE caller-named bolt position (x_i, y_i) -- the caller identifies the critical bolt; this direction does not search a variable-length bolt list (no such port shape exists on this solver's surface).''\<rparr>\<close>

subsection \<open>\<open>bolt_group_shear_torsion\<close>\<close>

definition bolt_group_shear_torsion_box :: "(string, interval) dict" where
  "bolt_group_shear_torsion_box =
     [(''mech.joint.group.n'', ivl 2 200),
      (''mech.joint.group.vx'', ivl (- (10 ^ 7)) (10 ^ 7)),
      (''mech.joint.group.vy'', ivl (- (10 ^ 7)) (10 ^ 7)),
      (''mech.joint.group.torque'', ivl (- (10 ^ 6)) (10 ^ 6)),
      (''mech.joint.group.j_polar'', ivl (1 / 10 ^ 6) 10),
      (''mech.joint.group.xi'', ivl (- 10) 10),
      (''mech.joint.group.yi'', ivl (- 10) 10)]"

definition bolt_group_shear_torsion_ins :: "string list" where
  "bolt_group_shear_torsion_ins = [''mech.joint.group.n'', ''mech.joint.group.vx'', ''mech.joint.group.vy'', ''mech.joint.group.torque'', ''mech.joint.group.j_polar'', ''mech.joint.group.xi'', ''mech.joint.group.yi'']"

definition bolt_group_shear_torsion_args :: build_args where
  \<open>bolt_group_shear_torsion_args =
     solver_args ''mech.joint'' bolt_group_shear_torsion_ins
       [''mech.joint.group.shear_resultant'']
       bolt_group_shear_torsion_box
       [''elastic'', ''planar'', ''rigid_plate_assumption'']
       (1 / 10 ^ 7) (AccOne EXACT)
       [SHEAR_GROUP_CITATION]
       ''1''\<close>

definition bolt_group_shear_torsion :: "(string \<Rightarrow> real \<Rightarrow> string) \<Rightarrow> inputs \<Rightarrow> raw_return" where
  \<open>bolt_group_shear_torsion fmt x =
    (arg x ''mech.joint.group.n'' (\<lambda>n.
     arg x ''mech.joint.group.vx'' (\<lambda>vx.
     arg x ''mech.joint.group.vy'' (\<lambda>vy.
     arg x ''mech.joint.group.torque'' (\<lambda>torque.
     arg x ''mech.joint.group.j_polar'' (\<lambda>j_polar.
     arg x ''mech.joint.group.xi'' (\<lambda>xi.
     arg x ''mech.joint.group.yi'' (\<lambda>yi.
     if n < 1
     then out_of_domain (''bolt group: non-positive bolt count n='' @ fmt ''r'' n)
     else
     if j_polar \<le> 0
     then out_of_domain (''bolt group: non-positive polar moment j_polar='' @ fmt ''r'' j_polar)
     else
     py_div vx n (\<lambda>t8.
     py_div (torque * yi) j_polar (\<lambda>t9.
     let fx = t8 - t9 in
     py_div vy n (\<lambda>t10.
     py_div (torque * xi) j_polar (\<lambda>t11.
     let fy = t10 + t11 in
     let resultant = py_hypot fx fy in
     ok_values [(''mech.joint.group.shear_resultant'', resultant)]))))))))))))\<close>

definition TENSION_GROUP_CITATION :: citation where
  \<open>TENSION_GROUP_CITATION =
     \<lparr>ct_kind = ''handbook'', ct_ref = ''AISC Manual of Steel Construction, Part 7 (elastic/vector analysis method for eccentrically loaded fastener groups) and Shigley's Mechanical Engineering Design, 11th ed., ch. 8 sec. 8-12 (bolted joints loaded in bending): F_ti = M*yi/sum(yj^2), linear tension distribution analogous to bending stress (docs/benchmarks-memo.md sec. 8.3)'', ct_note = ''Evaluated at ONE caller-named bolt distance y_i from the neutral axis, with the caller-supplied group second moment sum(yj^2); no prying action, gasket/washer flexibility, or bolt-stiffness variation is modeled.''\<rparr>\<close>

subsection \<open>\<open>bolt_group_tension_from_moment\<close>\<close>

definition bolt_group_tension_from_moment_box :: "(string, interval) dict" where
  "bolt_group_tension_from_moment_box =
     [(''mech.joint.group.moment'', ivl (- (10 ^ 6)) (10 ^ 6)),
      (''mech.joint.group.sum_y_sq'', ivl (1 / 10 ^ 6) 10),
      (''mech.joint.group.y_critical'', ivl (- 10) 10)]"

definition bolt_group_tension_from_moment_ins :: "string list" where
  "bolt_group_tension_from_moment_ins = [''mech.joint.group.moment'', ''mech.joint.group.sum_y_sq'', ''mech.joint.group.y_critical'']"

definition bolt_group_tension_from_moment_args :: build_args where
  \<open>bolt_group_tension_from_moment_args =
     solver_args ''mech.joint'' bolt_group_tension_from_moment_ins
       [''mech.joint.group.tension_critical'']
       bolt_group_tension_from_moment_box
       [''elastic'', ''linear_distribution'', ''no_prying_action'']
       (1 / 10 ^ 7) (AccOne EXACT)
       [TENSION_GROUP_CITATION]
       ''1''\<close>

definition bolt_group_tension_from_moment :: "(string \<Rightarrow> real \<Rightarrow> string) \<Rightarrow> inputs \<Rightarrow> raw_return" where
  \<open>bolt_group_tension_from_moment fmt x =
    (arg x ''mech.joint.group.moment'' (\<lambda>moment.
     arg x ''mech.joint.group.sum_y_sq'' (\<lambda>sum_y_sq.
     arg x ''mech.joint.group.y_critical'' (\<lambda>y_critical.
     if sum_y_sq \<le> 0
     then out_of_domain (''bolt group: non-positive sum_y_sq='' @ fmt ''r'' sum_y_sq)
     else
     py_div (moment * y_critical) sum_y_sq (\<lambda>f_t.
     ok_values [(''mech.joint.group.tension_critical'', f_t)])))))\<close>

definition bolted_joints_PORT_DECLS :: "port_decl list" where
  "bolted_joints_PORT_DECLS =
     [scalar_port ''mech.joint.bolt.cb'' ''N/m'',
      scalar_port ''mech.joint.bolt.cp'' ''N/m'',
      scalar_port ''mech.joint.bolt.fv'' ''N'',
      scalar_port ''mech.joint.bolt.fa'' ''N'',
      scalar_port ''mech.joint.bolt.load_factor'' ''1'',
      scalar_port ''mech.joint.bolt.working_load'' ''N'',
      scalar_port ''mech.joint.bolt.residual_clamp_load'' ''N'',
      scalar_port ''mech.joint.group.n'' ''1'',
      scalar_port ''mech.joint.group.vx'' ''N'',
      scalar_port ''mech.joint.group.vy'' ''N'',
      scalar_port ''mech.joint.group.torque'' ''N*m'',
      scalar_port ''mech.joint.group.j_polar'' ''m^2'',
      scalar_port ''mech.joint.group.xi'' ''m'',
      scalar_port ''mech.joint.group.yi'' ''m'',
      scalar_port ''mech.joint.group.shear_resultant'' ''N'',
      scalar_port ''mech.joint.group.moment'' ''N*m'',
      scalar_port ''mech.joint.group.sum_y_sq'' ''m^2'',
      scalar_port ''mech.joint.group.y_critical'' ''m'',
      scalar_port ''mech.joint.group.tension_critical'' ''N'']"

section \<open>What the directions compute\<close>

subsection \<open>\<open>bolt_single_load_factor_vdi2230\<close>\<close>

definition bolt_single_load_factor_vdi2230_valid :: "real list \<Rightarrow> bool" where
  "bolt_single_load_factor_vdi2230_valid vs \<longleftrightarrow> 0 < vs ! 0 \<and> 0 < vs ! 1 \<and> 0 \<le> vs ! 2"

definition bolt_single_load_factor_vdi2230_forms :: "(string, real list \<Rightarrow> real) dict" where
  "bolt_single_load_factor_vdi2230_forms =
     [(''mech.joint.bolt.load_factor'', \<lambda>vs. vs ! 0 / (vs ! 0 + vs ! 1)),
      (''mech.joint.bolt.working_load'', \<lambda>vs. vs ! 2 + vs ! 0 / (vs ! 0 + vs ! 1) * vs ! 3),
      (''mech.joint.bolt.residual_clamp_load'', \<lambda>vs. vs ! 2 - (1 - vs ! 0 / (vs ! 0 + vs ! 1)) * vs ! 3)]"

lemma bolt_single_load_factor_vdi2230_answers: "computes (bolt_single_load_factor_vdi2230 fmt) bolt_single_load_factor_vdi2230_ins bolt_single_load_factor_vdi2230_box bolt_single_load_factor_vdi2230_valid bolt_single_load_factor_vdi2230_forms"
  by (rule computesI) (auto simp: bolt_single_load_factor_vdi2230_def bolt_single_load_factor_vdi2230_ins_def bolt_single_load_factor_vdi2230_valid_def bolt_single_load_factor_vdi2230_forms_def answer_simps reads_Nil reads_Cons Let_def)

lemma bolt_single_load_factor_vdi2230_total: "in_ranges (ranges_of bolt_single_load_factor_vdi2230_ins bolt_single_load_factor_vdi2230_box) vs \<Longrightarrow> bolt_single_load_factor_vdi2230_valid vs"
  by (auto simp: bolt_single_load_factor_vdi2230_ins_def bolt_single_load_factor_vdi2230_box_def bolt_single_load_factor_vdi2230_valid_def ranges_of_def in_ranges_Cons)

lemma bolt_single_load_factor_vdi2230_slices: "f \<in> snd ` set bolt_single_load_factor_vdi2230_forms \<Longrightarrow> slice_monotone (ranges_of bolt_single_load_factor_vdi2230_ins bolt_single_load_factor_vdi2230_box) f"
  by (auto simp: bolt_single_load_factor_vdi2230_forms_def bolt_single_load_factor_vdi2230_ins_def bolt_single_load_factor_vdi2230_box_def ranges_of_def   intro!: slice_monotone_4 swing)

interpretation bolt_single_load_factor_vdi2230: total_solver bolt_single_load_factor_vdi2230_ins bolt_single_load_factor_vdi2230_box bolt_single_load_factor_vdi2230_valid bolt_single_load_factor_vdi2230_forms "bolt_single_load_factor_vdi2230 fmt" for fmt
  by unfold_locales (rule bolt_single_load_factor_vdi2230_answers | erule bolt_single_load_factor_vdi2230_total bolt_single_load_factor_vdi2230_slices | simp add: ports_ok_def dict_ok_def bolt_single_load_factor_vdi2230_ins_def bolt_single_load_factor_vdi2230_box_def)+

lemma bolt_single_load_factor_vdi2230_law:
  "keeps_law (module_direction H dumps bolt_single_load_factor_vdi2230_args ''bolt_single_load_factor_vdi2230'' (bolt_single_load_factor_vdi2230 fmt)) bolt_single_load_factor_vdi2230_valid bolt_single_load_factor_vdi2230_forms"
  unfolding bolt_single_load_factor_vdi2230_args_def
  by (rule bolt_single_load_factor_vdi2230.direction_law) (simp_all add: bolt_single_load_factor_vdi2230_forms_def)

subsection \<open>\<open>bolt_group_tension_from_moment\<close>\<close>

definition bolt_group_tension_from_moment_valid :: "real list \<Rightarrow> bool" where
  "bolt_group_tension_from_moment_valid vs \<longleftrightarrow> 0 < vs ! 1"

definition bolt_group_tension_from_moment_forms :: "(string, real list \<Rightarrow> real) dict" where
  "bolt_group_tension_from_moment_forms =
     [(''mech.joint.group.tension_critical'', \<lambda>vs. vs ! 0 * vs ! 2 / vs ! 1)]"

lemma bolt_group_tension_from_moment_answers: "computes (bolt_group_tension_from_moment fmt) bolt_group_tension_from_moment_ins bolt_group_tension_from_moment_box bolt_group_tension_from_moment_valid bolt_group_tension_from_moment_forms"
  by (rule computesI) (auto simp: bolt_group_tension_from_moment_def bolt_group_tension_from_moment_ins_def bolt_group_tension_from_moment_valid_def bolt_group_tension_from_moment_forms_def answer_simps reads_Nil reads_Cons Let_def)

lemma bolt_group_tension_from_moment_total: "in_ranges (ranges_of bolt_group_tension_from_moment_ins bolt_group_tension_from_moment_box) vs \<Longrightarrow> bolt_group_tension_from_moment_valid vs"
  by (auto simp: bolt_group_tension_from_moment_ins_def bolt_group_tension_from_moment_box_def bolt_group_tension_from_moment_valid_def ranges_of_def in_ranges_Cons)

lemma bolt_group_tension_from_moment_slices: "f \<in> snd ` set bolt_group_tension_from_moment_forms \<Longrightarrow> slice_monotone (ranges_of bolt_group_tension_from_moment_ins bolt_group_tension_from_moment_box) f"
  by (auto simp: bolt_group_tension_from_moment_forms_def bolt_group_tension_from_moment_ins_def bolt_group_tension_from_moment_box_def ranges_of_def   intro!: slice_monotone_3 swing)

interpretation bolt_group_tension_from_moment: total_solver bolt_group_tension_from_moment_ins bolt_group_tension_from_moment_box bolt_group_tension_from_moment_valid bolt_group_tension_from_moment_forms "bolt_group_tension_from_moment fmt" for fmt
  by unfold_locales (rule bolt_group_tension_from_moment_answers | erule bolt_group_tension_from_moment_total bolt_group_tension_from_moment_slices | simp add: ports_ok_def dict_ok_def bolt_group_tension_from_moment_ins_def bolt_group_tension_from_moment_box_def)+

lemma bolt_group_tension_from_moment_law:
  "keeps_law (module_direction H dumps bolt_group_tension_from_moment_args ''bolt_group_tension_from_moment'' (bolt_group_tension_from_moment fmt)) bolt_group_tension_from_moment_valid bolt_group_tension_from_moment_forms"
  unfolding bolt_group_tension_from_moment_args_def
  by (rule bolt_group_tension_from_moment.direction_law) (simp_all add: bolt_group_tension_from_moment_forms_def)

section \<open>The family\<close>

definition bolted_joints_directions ::
  "(json \<Rightarrow> string) \<Rightarrow> (json \<Rightarrow> string) \<Rightarrow> (string \<Rightarrow> real \<Rightarrow> string)
   \<Rightarrow> (solver_pair, registry_error) outcome list" where
  "bolted_joints_directions H dumps fmt =
     [module_direction H dumps bolt_single_load_factor_vdi2230_args ''bolt_single_load_factor_vdi2230'' (bolt_single_load_factor_vdi2230 fmt),
      module_direction H dumps bolt_group_shear_torsion_args ''bolt_group_shear_torsion'' (bolt_group_shear_torsion fmt),
      module_direction H dumps bolt_group_tension_from_moment_args ''bolt_group_tension_from_moment'' (bolt_group_tension_from_moment fmt)]"

definition register_bolted_joints ::
  "(json \<Rightarrow> string) \<Rightarrow> (json \<Rightarrow> string) \<Rightarrow> (string \<Rightarrow> real \<Rightarrow> string)
   \<Rightarrow> registry \<Rightarrow> (unit, registry_error) outcome \<times> registry" where
  "register_bolted_joints H dumps fmt = register_family bolted_joints_PORT_DECLS (bolted_joints_directions H dumps fmt)"

definition bolted_joints_laws ::
  "(json \<Rightarrow> string) \<Rightarrow> (json \<Rightarrow> string) \<Rightarrow> (string \<Rightarrow> real \<Rightarrow> string)
   \<Rightarrow> ((solver_pair, registry_error) outcome \<times> (real list \<Rightarrow> bool) \<times> (string, real list \<Rightarrow> real) dict) list" where
  "bolted_joints_laws H dumps fmt =
     [(module_direction H dumps bolt_single_load_factor_vdi2230_args ''bolt_single_load_factor_vdi2230'' (bolt_single_load_factor_vdi2230 fmt), bolt_single_load_factor_vdi2230_valid, bolt_single_load_factor_vdi2230_forms),
      (module_direction H dumps bolt_group_tension_from_moment_args ''bolt_group_tension_from_moment'' (bolt_group_tension_from_moment fmt), bolt_group_tension_from_moment_valid, bolt_group_tension_from_moment_forms)]"

lemma bolted_joints_keep: "list_all (\<lambda>(d, valid, forms). keeps_law d valid forms) (bolted_joints_laws H dumps fmt)"
  by (simp add: bolted_joints_laws_def bolt_single_load_factor_vdi2230_law bolt_group_tension_from_moment_law)

chapter \<open>Weld groups\<close>

text \<open>
  Weld groups (\<open>mech/weld_groups.py\<close>).
\<close>

section \<open>Weld groups: directions\<close>

definition INPLANE_CITATION :: citation where
  \<open>INPLANE_CITATION =
     \<lparr>ct_kind = ''handbook'', ct_ref = ''Shigley's Mechanical Engineering Design, 11th ed., ch. 9 sec. 9-5/9-6 (fillet welds treated as a line, unit second-moment-of-area method); Blodgett, Design of Weldments, sec. 4.3-4.4 (the same elastic-line torsion/shear treatment): f_direct=(Vx/Aw, Vy/Aw), f_torsion=(-T*yi/Jw, T*xi/Jw), vector sum -> unit line force (N/m) (docs/benchmarks-memo.md sec. 10.1)'', ct_note = ''Evaluated at ONE caller-named point (x_i, y_i) on the weld line -- the caller identifies the critical point; Aw (total weld length) and Jw (unit polar second moment) are CALLER-SUPPLIED, not derived from a weld-pattern catalog (no such table is transcribed in this module).''\<rparr>\<close>

subsection \<open>\<open>weld_group_inplane_shear_torsion\<close>\<close>

definition weld_group_inplane_shear_torsion_box :: "(string, interval) dict" where
  "weld_group_inplane_shear_torsion_box =
     [(''mech.weld.group.vx'', ivl (- (10 ^ 7)) (10 ^ 7)),
      (''mech.weld.group.vy'', ivl (- (10 ^ 7)) (10 ^ 7)),
      (''mech.weld.group.torque'', ivl (- (10 ^ 6)) (10 ^ 6)),
      (''mech.weld.group.aw'', ivl (1 / 1000) 10),
      (''mech.weld.group.jw'', ivl (1 / 10 ^ 9) 10),
      (''mech.weld.group.xi'', ivl (- 10) 10),
      (''mech.weld.group.yi'', ivl (- 10) 10)]"

definition weld_group_inplane_shear_torsion_ins :: "string list" where
  "weld_group_inplane_shear_torsion_ins = [''mech.weld.group.vx'', ''mech.weld.group.vy'', ''mech.weld.group.torque'', ''mech.weld.group.aw'', ''mech.weld.group.jw'', ''mech.weld.group.xi'', ''mech.weld.group.yi'']"

definition weld_group_inplane_shear_torsion_args :: build_args where
  \<open>weld_group_inplane_shear_torsion_args =
     solver_args ''mech.weld'' weld_group_inplane_shear_torsion_ins
       [''mech.weld.group.inplane_line_force'']
       weld_group_inplane_shear_torsion_box
       [''elastic'', ''fillet'', ''planar'', ''static'']
       (1 / 10 ^ 7) (AccOne EXACT)
       [INPLANE_CITATION]
       ''1''\<close>

definition weld_group_inplane_shear_torsion :: "(string \<Rightarrow> real \<Rightarrow> string) \<Rightarrow> inputs \<Rightarrow> raw_return" where
  \<open>weld_group_inplane_shear_torsion fmt x =
    (arg x ''mech.weld.group.vx'' (\<lambda>vx.
     arg x ''mech.weld.group.vy'' (\<lambda>vy.
     arg x ''mech.weld.group.torque'' (\<lambda>torque.
     arg x ''mech.weld.group.aw'' (\<lambda>aw.
     arg x ''mech.weld.group.jw'' (\<lambda>jw.
     arg x ''mech.weld.group.xi'' (\<lambda>xi.
     arg x ''mech.weld.group.yi'' (\<lambda>yi.
     if aw \<le> 0
     then out_of_domain (''weld group: non-positive weld length aw='' @ fmt ''r'' aw)
     else
     if jw \<le> 0
     then out_of_domain (''weld group: non-positive unit polar moment jw='' @ fmt ''r'' jw)
     else
     py_div vx aw (\<lambda>t8.
     py_div (torque * yi) jw (\<lambda>t9.
     let fx = t8 - t9 in
     py_div vy aw (\<lambda>t10.
     py_div (torque * xi) jw (\<lambda>t11.
     let fy = t10 + t11 in
     let resultant = py_hypot fx fy in
     ok_values [(''mech.weld.group.inplane_line_force'', resultant)]))))))))))))\<close>

definition BENDING_CITATION :: citation where
  \<open>BENDING_CITATION =
     \<lparr>ct_kind = ''handbook'', ct_ref = ''Shigley's Mechanical Engineering Design, 11th ed., ch. 9 sec. 9-5 (fillet weld groups loaded in bending, unit second moment of area Iw treated exactly like a bending-stress section modulus): f_bending = M*c/Iw, unit line force (N/m) (docs/benchmarks-memo.md sec. 10.2)'', ct_note = (''Evaluated at ONE caller-named extreme-fiber distance '' @ [CHR 0x60] @ ''c'' @ [CHR 0x60] @ ''; Iw (unit second moment of the weld line about the bending neutral axis) is CALLER-SUPPLIED, not derived from a weld-pattern catalog.'')\<rparr>\<close>

subsection \<open>\<open>weld_group_outofplane_bending\<close>\<close>

definition weld_group_outofplane_bending_box :: "(string, interval) dict" where
  "weld_group_outofplane_bending_box =
     [(''mech.weld.group.moment'', ivl (- (10 ^ 6)) (10 ^ 6)),
      (''mech.weld.group.iw'', ivl (1 / 10 ^ 9) 10),
      (''mech.weld.group.c'', ivl (- 10) 10)]"

definition weld_group_outofplane_bending_ins :: "string list" where
  "weld_group_outofplane_bending_ins = [''mech.weld.group.moment'', ''mech.weld.group.iw'', ''mech.weld.group.c'']"

definition weld_group_outofplane_bending_args :: build_args where
  \<open>weld_group_outofplane_bending_args =
     solver_args ''mech.weld'' weld_group_outofplane_bending_ins
       [''mech.weld.group.bending_line_force'']
       weld_group_outofplane_bending_box
       [''elastic'', ''fillet'', ''static'']
       (1 / 10 ^ 7) (AccOne EXACT)
       [BENDING_CITATION]
       ''1''\<close>

definition weld_group_outofplane_bending :: "(string \<Rightarrow> real \<Rightarrow> string) \<Rightarrow> inputs \<Rightarrow> raw_return" where
  \<open>weld_group_outofplane_bending fmt x =
    (arg x ''mech.weld.group.moment'' (\<lambda>moment.
     arg x ''mech.weld.group.iw'' (\<lambda>iw.
     arg x ''mech.weld.group.c'' (\<lambda>c.
     if iw \<le> 0
     then out_of_domain (''weld group: non-positive unit second moment iw='' @ fmt ''r'' iw)
     else
     py_div (moment * c) iw (\<lambda>f_bending.
     ok_values [(''mech.weld.group.bending_line_force'', f_bending)])))))\<close>

definition UTILIZATION_CITATION :: citation where
  \<open>UTILIZATION_CITATION =
     \<lparr>ct_kind = ''standard'', ct_ref = ''AWS D1.1/D1.1M Structural Welding Code -- Steel, and AISC 360-16 sec. J2.4 (effective throat of a fillet weld = 0.707*leg size h): actual stress = f_peak / (0.707*h), where f_peak is the vector sum of the in-plane (shear-plane) and out-of-plane (bending-plane) UNIT line forces, since they act on mutually perpendicular components of the weld throat (docs/benchmarks-memo.md sec. 10.3)'', ct_note = ''The allowable stress itself (e.g. AWS D1.1 table 2.3's 0.30*F_EXX for fillet-weld shear) is CALLER-SUPPLIED -- no electrode-classification table is transcribed here (a named cut, not an omission).''\<rparr>\<close>

subsection \<open>\<open>weld_group_utilization\<close>\<close>

definition weld_group_utilization_box :: "(string, interval) dict" where
  "weld_group_utilization_box =
     [(''mech.weld.group.inplane_line_force'', ivl 0 (10 ^ 8)),
      (''mech.weld.group.bending_line_force'', ivl 0 (10 ^ 8)),
      (''mech.weld.group.leg_size'', ivl (1 / 1000) (5 / 100)),
      (''mech.weld.group.allowable_stress'', ivl (10 ^ 6) (5 * 10 ^ 8))]"

definition weld_group_utilization_ins :: "string list" where
  "weld_group_utilization_ins = [''mech.weld.group.inplane_line_force'', ''mech.weld.group.bending_line_force'', ''mech.weld.group.leg_size'', ''mech.weld.group.allowable_stress'']"

definition weld_group_utilization_args :: build_args where
  \<open>weld_group_utilization_args =
     solver_args ''mech.weld'' weld_group_utilization_ins
       [''mech.weld.group.peak_stress'', ''mech.weld.group.utilization_ratio'']
       weld_group_utilization_box
       [''elastic'', ''fillet'', ''static'']
       (1 / 10 ^ 7) (AccOne EXACT)
       [UTILIZATION_CITATION]
       ''1''\<close>

definition weld_group_utilization :: "(string \<Rightarrow> real \<Rightarrow> string) \<Rightarrow> inputs \<Rightarrow> raw_return" where
  \<open>weld_group_utilization fmt x =
    (arg x ''mech.weld.group.inplane_line_force'' (\<lambda>f_inplane.
     arg x ''mech.weld.group.bending_line_force'' (\<lambda>f_bending.
     arg x ''mech.weld.group.leg_size'' (\<lambda>leg_size.
     arg x ''mech.weld.group.allowable_stress'' (\<lambda>allowable.
     if leg_size \<le> 0
     then out_of_domain (''weld group: non-positive leg size='' @ fmt ''r'' leg_size)
     else
     if allowable \<le> 0
     then out_of_domain (''weld group: non-positive allowable stress='' @ fmt ''r'' allowable)
     else
     let f_peak = py_hypot f_inplane f_bending in
     let throat = (707 / 1000) * leg_size in
     py_div f_peak throat (\<lambda>stress.
     py_div stress allowable (\<lambda>ratio.
     ok_values [(''mech.weld.group.peak_stress'', stress), (''mech.weld.group.utilization_ratio'', ratio)])))))))\<close>

definition weld_groups_PORT_DECLS :: "port_decl list" where
  "weld_groups_PORT_DECLS =
     [scalar_port ''mech.weld.group.vx'' ''N'',
      scalar_port ''mech.weld.group.vy'' ''N'',
      scalar_port ''mech.weld.group.torque'' ''N*m'',
      scalar_port ''mech.weld.group.aw'' ''m'',
      scalar_port ''mech.weld.group.jw'' ''m^3'',
      scalar_port ''mech.weld.group.xi'' ''m'',
      scalar_port ''mech.weld.group.yi'' ''m'',
      scalar_port ''mech.weld.group.inplane_line_force'' ''N/m'',
      scalar_port ''mech.weld.group.moment'' ''N*m'',
      scalar_port ''mech.weld.group.iw'' ''m^3'',
      scalar_port ''mech.weld.group.c'' ''m'',
      scalar_port ''mech.weld.group.bending_line_force'' ''N/m'',
      scalar_port ''mech.weld.group.leg_size'' ''m'',
      scalar_port ''mech.weld.group.allowable_stress'' ''Pa'',
      scalar_port ''mech.weld.group.peak_stress'' ''Pa'',
      scalar_port ''mech.weld.group.utilization_ratio'' ''1'']"

section \<open>What the directions compute\<close>

subsection \<open>\<open>weld_group_outofplane_bending\<close>\<close>

definition weld_group_outofplane_bending_valid :: "real list \<Rightarrow> bool" where
  "weld_group_outofplane_bending_valid vs \<longleftrightarrow> 0 < vs ! 1"

definition weld_group_outofplane_bending_forms :: "(string, real list \<Rightarrow> real) dict" where
  "weld_group_outofplane_bending_forms =
     [(''mech.weld.group.bending_line_force'', \<lambda>vs. vs ! 0 * vs ! 2 / vs ! 1)]"

lemma weld_group_outofplane_bending_answers: "computes (weld_group_outofplane_bending fmt) weld_group_outofplane_bending_ins weld_group_outofplane_bending_box weld_group_outofplane_bending_valid weld_group_outofplane_bending_forms"
  by (rule computesI) (auto simp: weld_group_outofplane_bending_def weld_group_outofplane_bending_ins_def weld_group_outofplane_bending_valid_def weld_group_outofplane_bending_forms_def answer_simps reads_Nil reads_Cons Let_def)

lemma weld_group_outofplane_bending_total: "in_ranges (ranges_of weld_group_outofplane_bending_ins weld_group_outofplane_bending_box) vs \<Longrightarrow> weld_group_outofplane_bending_valid vs"
  by (auto simp: weld_group_outofplane_bending_ins_def weld_group_outofplane_bending_box_def weld_group_outofplane_bending_valid_def ranges_of_def in_ranges_Cons)

lemma weld_group_outofplane_bending_slices: "f \<in> snd ` set weld_group_outofplane_bending_forms \<Longrightarrow> slice_monotone (ranges_of weld_group_outofplane_bending_ins weld_group_outofplane_bending_box) f"
  by (auto simp: weld_group_outofplane_bending_forms_def weld_group_outofplane_bending_ins_def weld_group_outofplane_bending_box_def ranges_of_def   intro!: slice_monotone_3 swing)

interpretation weld_group_outofplane_bending: total_solver weld_group_outofplane_bending_ins weld_group_outofplane_bending_box weld_group_outofplane_bending_valid weld_group_outofplane_bending_forms "weld_group_outofplane_bending fmt" for fmt
  by unfold_locales (rule weld_group_outofplane_bending_answers | erule weld_group_outofplane_bending_total weld_group_outofplane_bending_slices | simp add: ports_ok_def dict_ok_def weld_group_outofplane_bending_ins_def weld_group_outofplane_bending_box_def)+

lemma weld_group_outofplane_bending_law:
  "keeps_law (module_direction H dumps weld_group_outofplane_bending_args ''weld_group_outofplane_bending'' (weld_group_outofplane_bending fmt)) weld_group_outofplane_bending_valid weld_group_outofplane_bending_forms"
  unfolding weld_group_outofplane_bending_args_def
  by (rule weld_group_outofplane_bending.direction_law) (simp_all add: weld_group_outofplane_bending_forms_def)

subsection \<open>\<open>weld_group_utilization\<close>\<close>

definition weld_group_utilization_valid :: "real list \<Rightarrow> bool" where
  "weld_group_utilization_valid vs \<longleftrightarrow> 0 < vs ! 2 \<and> 0 < vs ! 3"

definition weld_group_utilization_forms :: "(string, real list \<Rightarrow> real) dict" where
  "weld_group_utilization_forms =
     [(''mech.weld.group.peak_stress'', \<lambda>vs. py_hypot (vs ! 0) (vs ! 1) / ((707 / 1000) * vs ! 2)),
      (''mech.weld.group.utilization_ratio'', \<lambda>vs. py_hypot (vs ! 0) (vs ! 1) / ((707 / 1000) * vs ! 2) / vs ! 3)]"

lemma weld_group_utilization_answers: "computes (weld_group_utilization fmt) weld_group_utilization_ins weld_group_utilization_box weld_group_utilization_valid weld_group_utilization_forms"
  by (rule computesI) (auto simp: weld_group_utilization_def weld_group_utilization_ins_def weld_group_utilization_valid_def weld_group_utilization_forms_def answer_simps reads_Nil reads_Cons Let_def)

lemma weld_group_utilization_total: "in_ranges (ranges_of weld_group_utilization_ins weld_group_utilization_box) vs \<Longrightarrow> weld_group_utilization_valid vs"
  by (auto simp: weld_group_utilization_ins_def weld_group_utilization_box_def weld_group_utilization_valid_def ranges_of_def in_ranges_Cons)

lemma weld_group_utilization_slices: "f \<in> snd ` set weld_group_utilization_forms \<Longrightarrow> slice_monotone (ranges_of weld_group_utilization_ins weld_group_utilization_box) f"
  by (auto simp: weld_group_utilization_forms_def weld_group_utilization_ins_def weld_group_utilization_box_def ranges_of_def  py_hypot_def intro!: slice_monotone_4 swing)

interpretation weld_group_utilization: total_solver weld_group_utilization_ins weld_group_utilization_box weld_group_utilization_valid weld_group_utilization_forms "weld_group_utilization fmt" for fmt
  by unfold_locales (rule weld_group_utilization_answers | erule weld_group_utilization_total weld_group_utilization_slices | simp add: ports_ok_def dict_ok_def weld_group_utilization_ins_def weld_group_utilization_box_def)+

lemma weld_group_utilization_law:
  "keeps_law (module_direction H dumps weld_group_utilization_args ''weld_group_utilization'' (weld_group_utilization fmt)) weld_group_utilization_valid weld_group_utilization_forms"
  unfolding weld_group_utilization_args_def
  by (rule weld_group_utilization.direction_law) (simp_all add: weld_group_utilization_forms_def)

section \<open>The family\<close>

definition weld_groups_directions ::
  "(json \<Rightarrow> string) \<Rightarrow> (json \<Rightarrow> string) \<Rightarrow> (string \<Rightarrow> real \<Rightarrow> string)
   \<Rightarrow> (solver_pair, registry_error) outcome list" where
  "weld_groups_directions H dumps fmt =
     [module_direction H dumps weld_group_inplane_shear_torsion_args ''weld_group_inplane_shear_torsion'' (weld_group_inplane_shear_torsion fmt),
      module_direction H dumps weld_group_outofplane_bending_args ''weld_group_outofplane_bending'' (weld_group_outofplane_bending fmt),
      module_direction H dumps weld_group_utilization_args ''weld_group_utilization'' (weld_group_utilization fmt)]"

definition register_weld_groups ::
  "(json \<Rightarrow> string) \<Rightarrow> (json \<Rightarrow> string) \<Rightarrow> (string \<Rightarrow> real \<Rightarrow> string)
   \<Rightarrow> registry \<Rightarrow> (unit, registry_error) outcome \<times> registry" where
  "register_weld_groups H dumps fmt = register_family weld_groups_PORT_DECLS (weld_groups_directions H dumps fmt)"

definition weld_groups_laws ::
  "(json \<Rightarrow> string) \<Rightarrow> (json \<Rightarrow> string) \<Rightarrow> (string \<Rightarrow> real \<Rightarrow> string)
   \<Rightarrow> ((solver_pair, registry_error) outcome \<times> (real list \<Rightarrow> bool) \<times> (string, real list \<Rightarrow> real) dict) list" where
  "weld_groups_laws H dumps fmt =
     [(module_direction H dumps weld_group_outofplane_bending_args ''weld_group_outofplane_bending'' (weld_group_outofplane_bending fmt), weld_group_outofplane_bending_valid, weld_group_outofplane_bending_forms),
      (module_direction H dumps weld_group_utilization_args ''weld_group_utilization'' (weld_group_utilization fmt), weld_group_utilization_valid, weld_group_utilization_forms)]"

lemma weld_groups_keep: "list_all (\<lambda>(d, valid, forms). keeps_law d valid forms) (weld_groups_laws H dumps fmt)"
  by (simp add: weld_groups_laws_def weld_group_outofplane_bending_law weld_group_utilization_law)

end
