(* ===== verification/Lib_Members.thy ===== *)
theory Lib_Members
  imports Catalog
begin

text \<open>
  Steel member capacities (\<open>mech/member_capacity.py\<close>).
\<close>

section \<open>Directions\<close>

definition PHI_B :: real where
  "PHI_B = (9 / 10)"

definition PHI_C :: real where
  "PHI_C = (9 / 10)"

definition F2_CITATIONS :: "citation list" where
  \<open>F2_CITATIONS =
     [\<lparr>ct_kind = ''standard'', ct_ref = ''ANSI/AISC 360-16, Specification for Structural Steel Buildings, sec. F2.1, eq. F2-1 (Mn = Mp = Fy*Zx, the yielding limit state for a compact-section, laterally braced doubly-symmetric I-shaped member bent about its major axis)'', ct_note = ''Lateral-torsional buckling (sec. F2.2, eq. F2-2/F2-3) is NOT evaluated here -- compact + Lb<=Lp (braced) are CALLER-ASSERTED preconditions, not derived from Fy/Zx alone (WO-24 deliverable 0 scope; WO-23 close-out cut, unchanged).''\<rparr>]\<close>

subsection \<open>\<open>flexural_yield_capacity_f2\<close>\<close>

definition flexural_yield_capacity_f2_box :: "(string, interval) dict" where
  "flexural_yield_capacity_f2_box =
     [(''mech.member.flexure.fy'', ivl (2 * 10 ^ 8) (5 * 10 ^ 8)),
      (''mech.member.flexure.zx'', ivl (1 / 10 ^ 7) (1 / 10))]"

definition flexural_yield_capacity_f2_ins :: "string list" where
  "flexural_yield_capacity_f2_ins = [''mech.member.flexure.fy'', ''mech.member.flexure.zx'']"

definition flexural_yield_capacity_f2_args :: build_args where
  \<open>flexural_yield_capacity_f2_args =
     solver_args ''mech.member'' flexural_yield_capacity_f2_ins
       [''mech.member.flexure.capacity'']
       flexural_yield_capacity_f2_box
       [''braced'', ''compact'', ''steel'']
       (1 / 10 ^ 7) (AccOne EXACT)
       F2_CITATIONS
       ''1''\<close>

definition flexural_yield_capacity_f2 :: "(string \<Rightarrow> real \<Rightarrow> string) \<Rightarrow> inputs \<Rightarrow> raw_return" where
  \<open>flexural_yield_capacity_f2 fmt x =
    (arg x ''mech.member.flexure.fy'' (\<lambda>fy.
     arg x ''mech.member.flexure.zx'' (\<lambda>zx.
     if fy \<le> 0 \<or> zx \<le> 0
     then out_of_domain (''F2.1: non-positive fy='' @ fmt ''r'' fy @ '' or zx='' @ fmt ''r'' zx @ '' -- cannot form a flexural yield capacity'')
     else
     let mp = fy * zx in
     ok_values [(''mech.member.flexure.capacity'', PHI_B * mp)])))\<close>

definition E3_CITATIONS :: "citation list" where
  \<open>E3_CITATIONS =
     [\<lparr>ct_kind = ''standard'', ct_ref = ''ANSI/AISC 360-16, Specification for Structural Steel Buildings, sec. E3, eq. E3-1 (Pn = Fcr*Ag), eq. E3-2 (inelastic buckling, Fcr = 0.658^(Fy/Fe)*Fy, when KL/r <= 4.71*sqrt(E/Fy) equivalently Fy/Fe <= 2.25), eq. E3-3 (elastic buckling, Fcr = 0.877*Fe, otherwise), and eq. E3-4 (Fe = pi^2*E/(KL/r)^2)'', ct_note = ''Torsional/flexural-torsional buckling (sec. E4) and slender-element reduction (sec. E7) are NOT evaluated -- member without slender elements is a CALLER-ASSERTED precondition (WO-24 deliverable 0 scope).''\<rparr>]\<close>

definition KL_R_MAX :: real where
  "KL_R_MAX = 200"

subsection \<open>\<open>axial_yield_buckling_capacity_e3\<close>\<close>

definition axial_yield_buckling_capacity_e3_box :: "(string, interval) dict" where
  "axial_yield_buckling_capacity_e3_box =
     [(''mech.member.axial.fy'', ivl (2 * 10 ^ 8) (5 * 10 ^ 8)),
      (''mech.member.axial.ag'', ivl (1 / 100000) 1),
      (''mech.member.axial.e'', ivl (19 * 10 ^ 10) (21 * 10 ^ 10)),
      (''mech.member.axial.kl_over_r'', ivl 1 200)]"

definition axial_yield_buckling_capacity_e3_ins :: "string list" where
  "axial_yield_buckling_capacity_e3_ins = [''mech.member.axial.fy'', ''mech.member.axial.ag'', ''mech.member.axial.e'', ''mech.member.axial.kl_over_r'']"

definition axial_yield_buckling_capacity_e3_args :: build_args where
  \<open>axial_yield_buckling_capacity_e3_args =
     solver_args ''mech.member'' axial_yield_buckling_capacity_e3_ins
       [''mech.member.axial.capacity'']
       axial_yield_buckling_capacity_e3_box
       [''no_slender_elements'', ''steel'']
       (1 / 10 ^ 7) (AccOne EXACT)
       E3_CITATIONS
       ''1''\<close>

definition axial_yield_buckling_capacity_e3 :: "(string \<Rightarrow> real \<Rightarrow> string) \<Rightarrow> inputs \<Rightarrow> raw_return" where
  \<open>axial_yield_buckling_capacity_e3 fmt x =
    (arg x ''mech.member.axial.fy'' (\<lambda>fy.
     arg x ''mech.member.axial.ag'' (\<lambda>ag.
     arg x ''mech.member.axial.e'' (\<lambda>e.
     arg x ''mech.member.axial.kl_over_r'' (\<lambda>kl_r.
     if fy \<le> 0 \<or> ag \<le> 0 \<or> e \<le> 0 \<or> kl_r \<le> 0
     then out_of_domain (''E3: non-positive fy='' @ fmt ''r'' fy @ '', ag='' @ fmt ''r'' ag @ '', e='' @ fmt ''r'' e @ '', or kl_over_r='' @ fmt ''r'' kl_r @ '' -- cannot form an axial capacity'')
     else
     py_div (pi ^ 2 * e) (kl_r ^ 2) (\<lambda>fe.
     py_div e fy (\<lambda>t6.
     py_sqrt t6 (\<lambda>t7.
     let rest = (\<lambda>fcr.
       let pn = fcr * ag in
       ok_values [(''mech.member.axial.capacity'', PHI_C * pn)]) in
     if kl_r \<le> (471 / 100) * t7 then py_div fy fe (\<lambda>t8. py_pow (658 / 1000) t8 (\<lambda>t9. rest (t9 * fy)))
     else rest ((877 / 1000) * fe)))))))))\<close>

definition EULER_CITATIONS :: "citation list" where
  \<open>EULER_CITATIONS =
     [\<lparr>ct_kind = ''handbook'', ct_ref = ''Timoshenko, Theory of Elastic Stability, 2nd ed., ch. 2 (the classical pin-ended elastic column, Pcr = pi^2*E*I/L^2, generalized to Pcr = pi^2*E*I/(K*L)^2 via the effective-length factor K); also Shigley's Mechanical Engineering Design, 11th ed., ch. 4 sec. 4-14 eq. 4-42 (docs/benchmarks-memo.md sec. 9)'', ct_note = (''Standard K values (AISC 360-16 commentary Table C-A-7.1): 1.0 pinned-pinned, 0.5 fixed-fixed, 0.7 fixed-pinned, 2.0 fixed-free -- CALLER-SUPPLIED, not derived from end-condition tags. Same physics as '' @ [CHR 0x60] @ ''axial_yield_buckling_capacity_e3'' @ [CHR 0x60] @ '''s Fe (Pcr = Fe*Ag since I = Ag*r^2); this direction takes E/I/K/L directly with no yield-strength input and no inelastic branch (WO-24 deliverable 8, honest completion of the WO-21/23/24 column-buckling residual: E4 torsional/flexural-torsional buckling and E7 slender-element reduction remain NOT built, named cuts).'')\<rparr>]\<close>

subsection \<open>\<open>euler_critical_buckling_load\<close>\<close>

definition euler_critical_buckling_load_box :: "(string, interval) dict" where
  "euler_critical_buckling_load_box =
     [(''mech.member.euler.e'', ivl (10 ^ 9) (5 * 10 ^ 11)),
      (''mech.member.euler.i'', ivl (1 / 10 ^ 10) 1),
      (''mech.member.euler.k'', ivl (3 / 10) (25 / 10)),
      (''mech.member.euler.length'', ivl (1 / 1000) 100)]"

definition euler_critical_buckling_load_ins :: "string list" where
  "euler_critical_buckling_load_ins = [''mech.member.euler.e'', ''mech.member.euler.i'', ''mech.member.euler.k'', ''mech.member.euler.length'']"

definition euler_critical_buckling_load_args :: build_args where
  \<open>euler_critical_buckling_load_args =
     solver_args ''mech.member'' euler_critical_buckling_load_ins
       [''mech.member.euler.pcr'']
       euler_critical_buckling_load_box
       [''elastic'', ''no_slender_elements'', ''prismatic'']
       (1 / 10 ^ 7) (AccOne EXACT)
       EULER_CITATIONS
       ''1''\<close>

definition euler_critical_buckling_load :: "(string \<Rightarrow> real \<Rightarrow> string) \<Rightarrow> inputs \<Rightarrow> raw_return" where
  \<open>euler_critical_buckling_load fmt x =
    (arg x ''mech.member.euler.e'' (\<lambda>e.
     arg x ''mech.member.euler.i'' (\<lambda>i.
     arg x ''mech.member.euler.k'' (\<lambda>k.
     arg x ''mech.member.euler.length'' (\<lambda>length.
     if e \<le> 0 \<or> i \<le> 0 \<or> k \<le> 0 \<or> length \<le> 0
     then out_of_domain (''Euler: non-positive e='' @ fmt ''r'' e @ '', i='' @ fmt ''r'' i @ '', k='' @ fmt ''r'' k @ '', or length='' @ fmt ''r'' length @ '' -- cannot form a critical buckling load'')
     else
     py_div (pi ^ 2 * e * i) ((k * length) ^ 2) (\<lambda>pcr.
     ok_values [(''mech.member.euler.pcr'', pcr)]))))))\<close>

definition member_capacity_PORT_DECLS :: "port_decl list" where
  "member_capacity_PORT_DECLS =
     [scalar_port ''mech.member.flexure.fy'' ''Pa'',
      scalar_port ''mech.member.flexure.zx'' ''m^3'',
      scalar_port ''mech.member.flexure.capacity'' ''N*m'',
      scalar_port ''mech.member.axial.fy'' ''Pa'',
      scalar_port ''mech.member.axial.ag'' ''m^2'',
      scalar_port ''mech.member.axial.e'' ''Pa'',
      scalar_port ''mech.member.axial.kl_over_r'' ''1'',
      scalar_port ''mech.member.axial.capacity'' ''N'',
      scalar_port ''mech.member.euler.e'' ''Pa'',
      scalar_port ''mech.member.euler.i'' ''m^4'',
      scalar_port ''mech.member.euler.k'' ''1'',
      scalar_port ''mech.member.euler.length'' ''m'',
      scalar_port ''mech.member.euler.pcr'' ''N'']"

section \<open>What the directions compute\<close>

subsection \<open>\<open>flexural_yield_capacity_f2\<close>\<close>

definition flexural_yield_capacity_f2_valid :: "real list \<Rightarrow> bool" where
  "flexural_yield_capacity_f2_valid vs \<longleftrightarrow> 0 < vs ! 0 \<and> 0 < vs ! 1"

definition flexural_yield_capacity_f2_forms :: "(string, real list \<Rightarrow> real) dict" where
  "flexural_yield_capacity_f2_forms =
     [(''mech.member.flexure.capacity'', \<lambda>vs. PHI_B * (vs ! 0 * vs ! 1))]"

lemma flexural_yield_capacity_f2_answers: "computes (flexural_yield_capacity_f2 fmt) flexural_yield_capacity_f2_ins flexural_yield_capacity_f2_box flexural_yield_capacity_f2_valid flexural_yield_capacity_f2_forms"
  by (rule computesI) (auto simp: flexural_yield_capacity_f2_def flexural_yield_capacity_f2_ins_def flexural_yield_capacity_f2_valid_def flexural_yield_capacity_f2_forms_def answer_simps reads_Nil reads_Cons Let_def  PHI_B_def PHI_C_def KL_R_MAX_def)

lemma flexural_yield_capacity_f2_total: "in_ranges (ranges_of flexural_yield_capacity_f2_ins flexural_yield_capacity_f2_box) vs \<Longrightarrow> flexural_yield_capacity_f2_valid vs"
  by (auto simp: flexural_yield_capacity_f2_ins_def flexural_yield_capacity_f2_box_def flexural_yield_capacity_f2_valid_def ranges_of_def in_ranges_Cons PHI_B_def PHI_C_def KL_R_MAX_def)

lemma flexural_yield_capacity_f2_slices: "f \<in> snd ` set flexural_yield_capacity_f2_forms \<Longrightarrow> slice_monotone (ranges_of flexural_yield_capacity_f2_ins flexural_yield_capacity_f2_box) f"
  by (auto simp: flexural_yield_capacity_f2_forms_def flexural_yield_capacity_f2_ins_def flexural_yield_capacity_f2_box_def ranges_of_def PHI_B_def PHI_C_def KL_R_MAX_def  intro!: slice_monotone_2 swing)

interpretation flexural_yield_capacity_f2: total_solver flexural_yield_capacity_f2_ins flexural_yield_capacity_f2_box flexural_yield_capacity_f2_valid flexural_yield_capacity_f2_forms "flexural_yield_capacity_f2 fmt" for fmt
  by unfold_locales (rule flexural_yield_capacity_f2_answers | erule flexural_yield_capacity_f2_total flexural_yield_capacity_f2_slices | simp add: ports_ok_def dict_ok_def flexural_yield_capacity_f2_ins_def flexural_yield_capacity_f2_box_def)+

lemma flexural_yield_capacity_f2_law:
  "keeps_law (module_direction H dumps flexural_yield_capacity_f2_args ''flexural_yield_capacity_f2'' (flexural_yield_capacity_f2 fmt)) flexural_yield_capacity_f2_valid flexural_yield_capacity_f2_forms"
  unfolding flexural_yield_capacity_f2_args_def
  by (rule flexural_yield_capacity_f2.direction_law) (simp_all add: flexural_yield_capacity_f2_forms_def)

subsection \<open>\<open>euler_critical_buckling_load\<close>\<close>

definition euler_critical_buckling_load_valid :: "real list \<Rightarrow> bool" where
  "euler_critical_buckling_load_valid vs \<longleftrightarrow> 0 < vs ! 0 \<and> 0 < vs ! 1 \<and> 0 < vs ! 2 \<and> 0 < vs ! 3"

definition euler_critical_buckling_load_forms :: "(string, real list \<Rightarrow> real) dict" where
  "euler_critical_buckling_load_forms =
     [(''mech.member.euler.pcr'', \<lambda>vs. pi ^ 2 * vs ! 0 * vs ! 1 / (vs ! 2 * vs ! 3) ^ 2)]"

lemma euler_critical_buckling_load_answers: "computes (euler_critical_buckling_load fmt) euler_critical_buckling_load_ins euler_critical_buckling_load_box euler_critical_buckling_load_valid euler_critical_buckling_load_forms"
  by (rule computesI) (auto simp: euler_critical_buckling_load_def euler_critical_buckling_load_ins_def euler_critical_buckling_load_valid_def euler_critical_buckling_load_forms_def answer_simps reads_Nil reads_Cons Let_def  PHI_B_def PHI_C_def KL_R_MAX_def)

lemma euler_critical_buckling_load_total: "in_ranges (ranges_of euler_critical_buckling_load_ins euler_critical_buckling_load_box) vs \<Longrightarrow> euler_critical_buckling_load_valid vs"
  by (auto simp: euler_critical_buckling_load_ins_def euler_critical_buckling_load_box_def euler_critical_buckling_load_valid_def ranges_of_def in_ranges_Cons PHI_B_def PHI_C_def KL_R_MAX_def)

lemma euler_critical_buckling_load_slices: "f \<in> snd ` set euler_critical_buckling_load_forms \<Longrightarrow> slice_monotone (ranges_of euler_critical_buckling_load_ins euler_critical_buckling_load_box) f"
  by (auto simp: euler_critical_buckling_load_forms_def euler_critical_buckling_load_ins_def euler_critical_buckling_load_box_def ranges_of_def PHI_B_def PHI_C_def KL_R_MAX_def  intro!: slice_monotone_4 swing)

interpretation euler_critical_buckling_load: total_solver euler_critical_buckling_load_ins euler_critical_buckling_load_box euler_critical_buckling_load_valid euler_critical_buckling_load_forms "euler_critical_buckling_load fmt" for fmt
  by unfold_locales (rule euler_critical_buckling_load_answers | erule euler_critical_buckling_load_total euler_critical_buckling_load_slices | simp add: ports_ok_def dict_ok_def euler_critical_buckling_load_ins_def euler_critical_buckling_load_box_def)+

lemma euler_critical_buckling_load_law:
  "keeps_law (module_direction H dumps euler_critical_buckling_load_args ''euler_critical_buckling_load'' (euler_critical_buckling_load fmt)) euler_critical_buckling_load_valid euler_critical_buckling_load_forms"
  unfolding euler_critical_buckling_load_args_def
  by (rule euler_critical_buckling_load.direction_law) (simp_all add: euler_critical_buckling_load_forms_def)

section \<open>The family\<close>

definition member_capacity_directions ::
  "(json \<Rightarrow> string) \<Rightarrow> (json \<Rightarrow> string) \<Rightarrow> (string \<Rightarrow> real \<Rightarrow> string)
   \<Rightarrow> (solver_pair, registry_error) outcome list" where
  "member_capacity_directions H dumps fmt =
     [module_direction H dumps flexural_yield_capacity_f2_args ''flexural_yield_capacity_f2'' (flexural_yield_capacity_f2 fmt),
      module_direction H dumps axial_yield_buckling_capacity_e3_args ''axial_yield_buckling_capacity_e3'' (axial_yield_buckling_capacity_e3 fmt),
      module_direction H dumps euler_critical_buckling_load_args ''euler_critical_buckling_load'' (euler_critical_buckling_load fmt)]"

definition register_member_capacity ::
  "(json \<Rightarrow> string) \<Rightarrow> (json \<Rightarrow> string) \<Rightarrow> (string \<Rightarrow> real \<Rightarrow> string)
   \<Rightarrow> registry \<Rightarrow> (unit, registry_error) outcome \<times> registry" where
  "register_member_capacity H dumps fmt = register_family member_capacity_PORT_DECLS (member_capacity_directions H dumps fmt)"

definition member_capacity_laws ::
  "(json \<Rightarrow> string) \<Rightarrow> (json \<Rightarrow> string) \<Rightarrow> (string \<Rightarrow> real \<Rightarrow> string)
   \<Rightarrow> ((solver_pair, registry_error) outcome \<times> (real list \<Rightarrow> bool) \<times> (string, real list \<Rightarrow> real) dict) list" where
  "member_capacity_laws H dumps fmt =
     [(module_direction H dumps flexural_yield_capacity_f2_args ''flexural_yield_capacity_f2'' (flexural_yield_capacity_f2 fmt), flexural_yield_capacity_f2_valid, flexural_yield_capacity_f2_forms),
      (module_direction H dumps euler_critical_buckling_load_args ''euler_critical_buckling_load'' (euler_critical_buckling_load fmt), euler_critical_buckling_load_valid, euler_critical_buckling_load_forms)]"

lemma member_capacity_keep: "list_all (\<lambda>(d, valid, forms). keeps_law d valid forms) (member_capacity_laws H dumps fmt)"
  by (simp add: member_capacity_laws_def flexural_yield_capacity_f2_law euler_critical_buckling_load_law)

end
