(* ===== verification/Lib_Plate.thy ===== *)
theory Lib_Plate
  imports Catalog
begin

text \<open>
  Circular plates after Roark (\<open>mech/plate.py\<close>).
\<close>

section \<open>Directions\<close>

definition flexural_rigidity :: "real \<Rightarrow> real \<Rightarrow> real \<Rightarrow> (real \<Rightarrow> raw_return) \<Rightarrow> raw_return" where
  \<open>flexural_rigidity e t nu ret =
    (py_div (e * t ^ 3) (12 * (1 - nu ^ 2)) (\<lambda>t1.
     ret t1))\<close>

definition reject_geom :: "(string \<Rightarrow> real \<Rightarrow> string) \<Rightarrow> real \<Rightarrow> real \<Rightarrow> real \<Rightarrow> real \<Rightarrow> real \<Rightarrow> string \<Rightarrow> raw_return \<Rightarrow> raw_return" where
  \<open>reject_geom fmt q a t e nu where ret =
    (if q \<le> 0 \<or> a \<le> 0 \<or> t \<le> 0 \<or> e \<le> 0
     then out_of_domain (where @ '': non-positive q='' @ fmt ''r'' q @ '', a='' @ fmt ''r'' a @ '', t='' @ fmt ''r'' t @ '', or e='' @ fmt ''r'' e)
     else
     if \<not> (0 \<le> nu \<and> nu < (5 / 10))
     then out_of_domain (where @ '': Poisson ratio nu='' @ fmt ''r'' nu @ '' outside [0, 0.5)'')
     else
     ret)\<close>

definition SS_STRESS_CITATIONS :: "citation list" where
  \<open>SS_STRESS_CITATIONS =
     [\<lparr>ct_kind = ''handbook'', ct_ref = ''Roark's Formulas for Stress and Strain, 8th ed., Table 11.2, case 10a (circular plate, uniform load, simply-supported edge): sigma_max = 3*q*a^2*(3+nu)/(8*t^2) at center; docs/benchmarks-memo.md sec. 17.1'', ct_note = ''Small-deflection Kirchhoff theory (a/t >~ 10, y_max <~ t/2).''\<rparr>]\<close>

subsection \<open>\<open>plate_circular_uniform_ss_max_stress\<close>\<close>

definition plate_circular_uniform_ss_max_stress_box :: "(string, interval) dict" where
  "plate_circular_uniform_ss_max_stress_box =
     [(''mech.plate.circular.q'', ivl 1 (10 ^ 9)),
      (''mech.plate.circular.a'', ivl (1 / 1000) 5),
      (''mech.plate.circular.t'', ivl (1 / 10000) 1),
      (''mech.plate.circular.e'', ivl (10 ^ 6) (10 ^ 12)),
      (''mech.plate.circular.nu'', ivl 0 (5 / 10))]"

definition plate_circular_uniform_ss_max_stress_ins :: "string list" where
  "plate_circular_uniform_ss_max_stress_ins = [''mech.plate.circular.q'', ''mech.plate.circular.a'', ''mech.plate.circular.t'', ''mech.plate.circular.e'', ''mech.plate.circular.nu'']"

definition plate_circular_uniform_ss_max_stress_args :: build_args where
  \<open>plate_circular_uniform_ss_max_stress_args =
     solver_args ''mech.plate'' plate_circular_uniform_ss_max_stress_ins
       [''mech.plate.circular.ss_max_stress'']
       plate_circular_uniform_ss_max_stress_box
       [''circular'', ''small_deflection'', ''thin_plate'']
       (1 / 10 ^ 7) (AccOne EXACT)
       SS_STRESS_CITATIONS
       ''1''\<close>

definition plate_circular_uniform_ss_max_stress :: "(string \<Rightarrow> real \<Rightarrow> string) \<Rightarrow> inputs \<Rightarrow> raw_return" where
  \<open>plate_circular_uniform_ss_max_stress fmt x =
    (arg x ''mech.plate.circular.q'' (\<lambda>q.
     arg x ''mech.plate.circular.a'' (\<lambda>a.
     arg x ''mech.plate.circular.t'' (\<lambda>t.
     arg x ''mech.plate.circular.e'' (\<lambda>e.
     arg x ''mech.plate.circular.nu'' (\<lambda>nu.
     reject_geom fmt q a t e nu ''plate SS max stress'' (
     py_div (3 * q * a ^ 2 * (3 + nu)) (8 * t ^ 2) (\<lambda>sigma.
     ok_values [(''mech.plate.circular.ss_max_stress'', sigma)]))))))))\<close>

definition SS_DEFL_CITATIONS :: "citation list" where
  \<open>SS_DEFL_CITATIONS =
     [\<lparr>ct_kind = ''handbook'', ct_ref = ''Roark's Formulas for Stress and Strain, 8th ed., Table 11.2, case 10a (circular plate, uniform load, simply-supported edge): y_max = q*a^4*(5+nu)/(64*D*(1+nu)) at center, D = E*t^3/(12*(1-nu^2)); docs/benchmarks-memo.md sec. 17.2'', ct_note = ''Small-deflection Kirchhoff theory.''\<rparr>]\<close>

subsection \<open>\<open>plate_circular_uniform_ss_max_deflection\<close>\<close>

definition plate_circular_uniform_ss_max_deflection_box :: "(string, interval) dict" where
  "plate_circular_uniform_ss_max_deflection_box =
     [(''mech.plate.circular.q'', ivl 1 (10 ^ 9)),
      (''mech.plate.circular.a'', ivl (1 / 1000) 5),
      (''mech.plate.circular.t'', ivl (1 / 10000) 1),
      (''mech.plate.circular.e'', ivl (10 ^ 6) (10 ^ 12)),
      (''mech.plate.circular.nu'', ivl 0 (5 / 10))]"

definition plate_circular_uniform_ss_max_deflection_ins :: "string list" where
  "plate_circular_uniform_ss_max_deflection_ins = [''mech.plate.circular.q'', ''mech.plate.circular.a'', ''mech.plate.circular.t'', ''mech.plate.circular.e'', ''mech.plate.circular.nu'']"

definition plate_circular_uniform_ss_max_deflection_args :: build_args where
  \<open>plate_circular_uniform_ss_max_deflection_args =
     solver_args ''mech.plate'' plate_circular_uniform_ss_max_deflection_ins
       [''mech.plate.circular.ss_max_deflection'']
       plate_circular_uniform_ss_max_deflection_box
       [''circular'', ''small_deflection'', ''thin_plate'']
       (1 / 10 ^ 7) (AccOne EXACT)
       SS_DEFL_CITATIONS
       ''1''\<close>

definition plate_circular_uniform_ss_max_deflection :: "(string \<Rightarrow> real \<Rightarrow> string) \<Rightarrow> inputs \<Rightarrow> raw_return" where
  \<open>plate_circular_uniform_ss_max_deflection fmt x =
    (arg x ''mech.plate.circular.q'' (\<lambda>q.
     arg x ''mech.plate.circular.a'' (\<lambda>a.
     arg x ''mech.plate.circular.t'' (\<lambda>t.
     arg x ''mech.plate.circular.e'' (\<lambda>e.
     arg x ''mech.plate.circular.nu'' (\<lambda>nu.
     reject_geom fmt q a t e nu ''plate SS max deflection'' (
     flexural_rigidity e t nu (\<lambda>d.
     py_div (q * a ^ 4 * (5 + nu)) (64 * d * (1 + nu)) (\<lambda>y.
     ok_values [(''mech.plate.circular.ss_max_deflection'', y)])))))))))\<close>

definition CLAMPED_STRESS_CITATIONS :: "citation list" where
  \<open>CLAMPED_STRESS_CITATIONS =
     [\<lparr>ct_kind = ''handbook'', ct_ref = ''Roark's Formulas for Stress and Strain, 8th ed., Table 11.2, case 10b (circular plate, uniform load, clamped edge): sigma_max = 3*q*a^2/(4*t^2) at edge; docs/benchmarks-memo.md sec. 17.3'', ct_note = ''Small-deflection Kirchhoff theory.''\<rparr>]\<close>

subsection \<open>\<open>plate_circular_uniform_clamped_max_stress\<close>\<close>

definition plate_circular_uniform_clamped_max_stress_box :: "(string, interval) dict" where
  "plate_circular_uniform_clamped_max_stress_box =
     [(''mech.plate.circular.q'', ivl 1 (10 ^ 9)),
      (''mech.plate.circular.a'', ivl (1 / 1000) 5),
      (''mech.plate.circular.t'', ivl (1 / 10000) 1),
      (''mech.plate.circular.e'', ivl (10 ^ 6) (10 ^ 12)),
      (''mech.plate.circular.nu'', ivl 0 (5 / 10))]"

definition plate_circular_uniform_clamped_max_stress_ins :: "string list" where
  "plate_circular_uniform_clamped_max_stress_ins = [''mech.plate.circular.q'', ''mech.plate.circular.a'', ''mech.plate.circular.t'', ''mech.plate.circular.e'', ''mech.plate.circular.nu'']"

definition plate_circular_uniform_clamped_max_stress_args :: build_args where
  \<open>plate_circular_uniform_clamped_max_stress_args =
     solver_args ''mech.plate'' plate_circular_uniform_clamped_max_stress_ins
       [''mech.plate.circular.clamped_max_stress'']
       plate_circular_uniform_clamped_max_stress_box
       [''circular'', ''small_deflection'', ''thin_plate'']
       (1 / 10 ^ 7) (AccOne EXACT)
       CLAMPED_STRESS_CITATIONS
       ''1''\<close>

definition plate_circular_uniform_clamped_max_stress :: "(string \<Rightarrow> real \<Rightarrow> string) \<Rightarrow> inputs \<Rightarrow> raw_return" where
  \<open>plate_circular_uniform_clamped_max_stress fmt x =
    (arg x ''mech.plate.circular.q'' (\<lambda>q.
     arg x ''mech.plate.circular.a'' (\<lambda>a.
     arg x ''mech.plate.circular.t'' (\<lambda>t.
     arg x ''mech.plate.circular.e'' (\<lambda>e.
     arg x ''mech.plate.circular.nu'' (\<lambda>nu.
     reject_geom fmt q a t e nu ''plate clamped max stress'' (
     py_div (3 * q * a ^ 2) (4 * t ^ 2) (\<lambda>sigma.
     ok_values [(''mech.plate.circular.clamped_max_stress'', sigma)]))))))))\<close>

definition CLAMPED_DEFL_CITATIONS :: "citation list" where
  \<open>CLAMPED_DEFL_CITATIONS =
     [\<lparr>ct_kind = ''handbook'', ct_ref = ''Roark's Formulas for Stress and Strain, 8th ed., Table 11.2, case 10b (circular plate, uniform load, clamped edge): y_max = q*a^4/(64*D) at center; docs/benchmarks-memo.md sec. 17.4'', ct_note = ''Small-deflection Kirchhoff theory.''\<rparr>]\<close>

subsection \<open>\<open>plate_circular_uniform_clamped_max_deflection\<close>\<close>

definition plate_circular_uniform_clamped_max_deflection_box :: "(string, interval) dict" where
  "plate_circular_uniform_clamped_max_deflection_box =
     [(''mech.plate.circular.q'', ivl 1 (10 ^ 9)),
      (''mech.plate.circular.a'', ivl (1 / 1000) 5),
      (''mech.plate.circular.t'', ivl (1 / 10000) 1),
      (''mech.plate.circular.e'', ivl (10 ^ 6) (10 ^ 12)),
      (''mech.plate.circular.nu'', ivl 0 (5 / 10))]"

definition plate_circular_uniform_clamped_max_deflection_ins :: "string list" where
  "plate_circular_uniform_clamped_max_deflection_ins = [''mech.plate.circular.q'', ''mech.plate.circular.a'', ''mech.plate.circular.t'', ''mech.plate.circular.e'', ''mech.plate.circular.nu'']"

definition plate_circular_uniform_clamped_max_deflection_args :: build_args where
  \<open>plate_circular_uniform_clamped_max_deflection_args =
     solver_args ''mech.plate'' plate_circular_uniform_clamped_max_deflection_ins
       [''mech.plate.circular.clamped_max_deflection'']
       plate_circular_uniform_clamped_max_deflection_box
       [''circular'', ''small_deflection'', ''thin_plate'']
       (1 / 10 ^ 7) (AccOne EXACT)
       CLAMPED_DEFL_CITATIONS
       ''1''\<close>

definition plate_circular_uniform_clamped_max_deflection :: "(string \<Rightarrow> real \<Rightarrow> string) \<Rightarrow> inputs \<Rightarrow> raw_return" where
  \<open>plate_circular_uniform_clamped_max_deflection fmt x =
    (arg x ''mech.plate.circular.q'' (\<lambda>q.
     arg x ''mech.plate.circular.a'' (\<lambda>a.
     arg x ''mech.plate.circular.t'' (\<lambda>t.
     arg x ''mech.plate.circular.e'' (\<lambda>e.
     arg x ''mech.plate.circular.nu'' (\<lambda>nu.
     reject_geom fmt q a t e nu ''plate clamped max deflection'' (
     flexural_rigidity e t nu (\<lambda>d.
     py_div (q * a ^ 4) (64 * d) (\<lambda>y.
     ok_values [(''mech.plate.circular.clamped_max_deflection'', y)])))))))))\<close>

definition plate_PORT_DECLS :: "port_decl list" where
  "plate_PORT_DECLS =
     [scalar_port ''mech.plate.circular.q'' ''Pa'',
      scalar_port ''mech.plate.circular.a'' ''m'',
      scalar_port ''mech.plate.circular.t'' ''m'',
      scalar_port ''mech.plate.circular.e'' ''Pa'',
      scalar_port ''mech.plate.circular.nu'' ''1'',
      scalar_port ''mech.plate.circular.ss_max_stress'' ''Pa'',
      scalar_port ''mech.plate.circular.ss_max_deflection'' ''m'',
      scalar_port ''mech.plate.circular.clamped_max_stress'' ''Pa'',
      scalar_port ''mech.plate.circular.clamped_max_deflection'' ''m'']"

section \<open>What the directions compute\<close>

lemma plate_ss_slice:
  "swings (ivl 0 (1 / 2)) (\<lambda>v. a * (5 + v) * (12 - 12 * v\<^sup>2) / (b * (1 + v)))"
proof -
  have eq: "a * (5 + v) * (12 - 12 * v\<^sup>2) / (b * (1 + v)) = 12 * a / b * (9 - (2 + v)\<^sup>2)"
    if "iv_contains (ivl 0 (1 / 2)) v" for v
  proof -
    have e: "a * (5 + v) * (12 - 12 * v\<^sup>2) = (12 * a * (9 - (2 + v)\<^sup>2)) * (1 + v)"
      by (simp add: power2_eq_square algebra_simps)
    have "1 + v \<noteq> 0" using that by simp
    then show ?thesis unfolding e by simp
  qed
  show ?thesis
    by (subst swings_cong [OF eq]) (auto intro!: swing)
qed

subsection \<open>\<open>plate_circular_uniform_ss_max_stress\<close>\<close>

definition plate_circular_uniform_ss_max_stress_valid :: "real list \<Rightarrow> bool" where
  "plate_circular_uniform_ss_max_stress_valid vs \<longleftrightarrow> 0 < vs ! 0 \<and> 0 < vs ! 1 \<and> 0 < vs ! 2 \<and> 0 < vs ! 3 \<and> 0 \<le> vs ! 4 \<and> vs ! 4 < 1 / 2"

definition plate_circular_uniform_ss_max_stress_forms :: "(string, real list \<Rightarrow> real) dict" where
  "plate_circular_uniform_ss_max_stress_forms =
     [(''mech.plate.circular.ss_max_stress'', \<lambda>vs. 3 * vs ! 0 * (vs ! 1) ^ 2 * (3 + vs ! 4) / (8 * (vs ! 2) ^ 2))]"

lemma plate_circular_uniform_ss_max_stress_answers: "computes (plate_circular_uniform_ss_max_stress fmt) plate_circular_uniform_ss_max_stress_ins plate_circular_uniform_ss_max_stress_box plate_circular_uniform_ss_max_stress_valid plate_circular_uniform_ss_max_stress_forms"
  by (rule computesI) (auto simp: plate_circular_uniform_ss_max_stress_def plate_circular_uniform_ss_max_stress_ins_def plate_circular_uniform_ss_max_stress_valid_def plate_circular_uniform_ss_max_stress_forms_def answer_simps reads_Nil reads_Cons Let_def flexural_rigidity_def reject_geom_def  power2_eq_1_iff)

lemma plate_circular_uniform_ss_max_stress_inside:
  assumes "list_all2 is_subset ivs (ranges_of plate_circular_uniform_ss_max_stress_ins plate_circular_uniform_ss_max_stress_box)"
    "\<forall>vs. at_ends ivs vs \<longrightarrow> plate_circular_uniform_ss_max_stress_valid vs" "in_ranges ivs vs"
  shows "plate_circular_uniform_ss_max_stress_valid vs"
  proof -
  have r: "in_ranges (ranges_of plate_circular_uniform_ss_max_stress_ins plate_circular_uniform_ss_max_stress_box) vs" using assms(1,3) by (rule in_ranges_subset)
  have s0: "slice_monotone ivs (\<lambda>vs. (1 / 2) - (vs ! 4))"
    by (rule slice_monotone_subset [OF assms(1)])
      (auto simp: plate_circular_uniform_ss_max_stress_ins_def plate_circular_uniform_ss_max_stress_box_def ranges_of_def  intro!: slice_monotone_5 swing)
  have g0: "0 < (1 / 2) - (vs ! 4)"
    by (rule corners_pass [OF s0 assms(3)]) (use assms(2) in \<open>simp add: plate_circular_uniform_ss_max_stress_valid_def\<close>)
  show ?thesis
    using r g0 by (auto simp: plate_circular_uniform_ss_max_stress_valid_def plate_circular_uniform_ss_max_stress_ins_def plate_circular_uniform_ss_max_stress_box_def ranges_of_def in_ranges_Cons)
qed

lemma plate_circular_uniform_ss_max_stress_slices:
  assumes "list_all2 is_subset ivs (ranges_of plate_circular_uniform_ss_max_stress_ins plate_circular_uniform_ss_max_stress_box)" "\<forall>vs. in_ranges ivs vs \<longrightarrow> plate_circular_uniform_ss_max_stress_valid vs"
  shows "\<forall>f \<in> snd ` set plate_circular_uniform_ss_max_stress_forms. slice_monotone ivs f"
  by (auto simp: plate_circular_uniform_ss_max_stress_forms_def plate_circular_uniform_ss_max_stress_ins_def plate_circular_uniform_ss_max_stress_box_def ranges_of_def  
      intro!: slice_monotone_subset [OF assms(1)] slice_monotone_5 swing)

interpretation plate_circular_uniform_ss_max_stress: formula_solver plate_circular_uniform_ss_max_stress_ins plate_circular_uniform_ss_max_stress_box plate_circular_uniform_ss_max_stress_valid plate_circular_uniform_ss_max_stress_forms "plate_circular_uniform_ss_max_stress fmt" for fmt
  by unfold_locales (rule plate_circular_uniform_ss_max_stress_answers | rule plate_circular_uniform_ss_max_stress_inside plate_circular_uniform_ss_max_stress_slices, assumption+ | simp add: ports_ok_def dict_ok_def plate_circular_uniform_ss_max_stress_ins_def plate_circular_uniform_ss_max_stress_box_def)+

lemma plate_circular_uniform_ss_max_stress_law:
  "keeps_law (module_direction H dumps plate_circular_uniform_ss_max_stress_args ''plate_circular_uniform_ss_max_stress'' (plate_circular_uniform_ss_max_stress fmt)) plate_circular_uniform_ss_max_stress_valid plate_circular_uniform_ss_max_stress_forms"
  unfolding plate_circular_uniform_ss_max_stress_args_def
  by (rule plate_circular_uniform_ss_max_stress.direction_law) (simp_all add: plate_circular_uniform_ss_max_stress_forms_def)

subsection \<open>\<open>plate_circular_uniform_ss_max_deflection\<close>\<close>

definition plate_circular_uniform_ss_max_deflection_valid :: "real list \<Rightarrow> bool" where
  "plate_circular_uniform_ss_max_deflection_valid vs \<longleftrightarrow> 0 < vs ! 0 \<and> 0 < vs ! 1 \<and> 0 < vs ! 2 \<and> 0 < vs ! 3 \<and> 0 \<le> vs ! 4 \<and> vs ! 4 < 1 / 2"

definition plate_circular_uniform_ss_max_deflection_forms :: "(string, real list \<Rightarrow> real) dict" where
  "plate_circular_uniform_ss_max_deflection_forms =
     [(''mech.plate.circular.ss_max_deflection'', \<lambda>vs. vs ! 0 * (vs ! 1) ^ 4 * (5 + vs ! 4) / (64 * (vs ! 3 * vs ! 2 ^ 3 / (12 * (1 - vs ! 4 ^ 2))) * (1 + vs ! 4)))]"

lemma plate_circular_uniform_ss_max_deflection_answers: "computes (plate_circular_uniform_ss_max_deflection fmt) plate_circular_uniform_ss_max_deflection_ins plate_circular_uniform_ss_max_deflection_box plate_circular_uniform_ss_max_deflection_valid plate_circular_uniform_ss_max_deflection_forms"
  by (rule computesI) (auto simp: plate_circular_uniform_ss_max_deflection_def plate_circular_uniform_ss_max_deflection_ins_def plate_circular_uniform_ss_max_deflection_valid_def plate_circular_uniform_ss_max_deflection_forms_def answer_simps reads_Nil reads_Cons Let_def flexural_rigidity_def reject_geom_def  power2_eq_1_iff)

lemma plate_circular_uniform_ss_max_deflection_inside:
  assumes "list_all2 is_subset ivs (ranges_of plate_circular_uniform_ss_max_deflection_ins plate_circular_uniform_ss_max_deflection_box)"
    "\<forall>vs. at_ends ivs vs \<longrightarrow> plate_circular_uniform_ss_max_deflection_valid vs" "in_ranges ivs vs"
  shows "plate_circular_uniform_ss_max_deflection_valid vs"
  proof -
  have r: "in_ranges (ranges_of plate_circular_uniform_ss_max_deflection_ins plate_circular_uniform_ss_max_deflection_box) vs" using assms(1,3) by (rule in_ranges_subset)
  have s0: "slice_monotone ivs (\<lambda>vs. (1 / 2) - (vs ! 4))"
    by (rule slice_monotone_subset [OF assms(1)])
      (auto simp: plate_circular_uniform_ss_max_deflection_ins_def plate_circular_uniform_ss_max_deflection_box_def ranges_of_def  intro!: slice_monotone_5 swing plate_ss_slice)
  have g0: "0 < (1 / 2) - (vs ! 4)"
    by (rule corners_pass [OF s0 assms(3)]) (use assms(2) in \<open>simp add: plate_circular_uniform_ss_max_deflection_valid_def\<close>)
  show ?thesis
    using r g0 by (auto simp: plate_circular_uniform_ss_max_deflection_valid_def plate_circular_uniform_ss_max_deflection_ins_def plate_circular_uniform_ss_max_deflection_box_def ranges_of_def in_ranges_Cons)
qed

lemma plate_circular_uniform_ss_max_deflection_slices:
  assumes "list_all2 is_subset ivs (ranges_of plate_circular_uniform_ss_max_deflection_ins plate_circular_uniform_ss_max_deflection_box)" "\<forall>vs. in_ranges ivs vs \<longrightarrow> plate_circular_uniform_ss_max_deflection_valid vs"
  shows "\<forall>f \<in> snd ` set plate_circular_uniform_ss_max_deflection_forms. slice_monotone ivs f"
  by (auto simp: plate_circular_uniform_ss_max_deflection_forms_def plate_circular_uniform_ss_max_deflection_ins_def plate_circular_uniform_ss_max_deflection_box_def ranges_of_def  
      intro!: slice_monotone_subset [OF assms(1)] slice_monotone_5 swing plate_ss_slice)

interpretation plate_circular_uniform_ss_max_deflection: formula_solver plate_circular_uniform_ss_max_deflection_ins plate_circular_uniform_ss_max_deflection_box plate_circular_uniform_ss_max_deflection_valid plate_circular_uniform_ss_max_deflection_forms "plate_circular_uniform_ss_max_deflection fmt" for fmt
  by unfold_locales (rule plate_circular_uniform_ss_max_deflection_answers | rule plate_circular_uniform_ss_max_deflection_inside plate_circular_uniform_ss_max_deflection_slices, assumption+ | simp add: ports_ok_def dict_ok_def plate_circular_uniform_ss_max_deflection_ins_def plate_circular_uniform_ss_max_deflection_box_def)+

lemma plate_circular_uniform_ss_max_deflection_law:
  "keeps_law (module_direction H dumps plate_circular_uniform_ss_max_deflection_args ''plate_circular_uniform_ss_max_deflection'' (plate_circular_uniform_ss_max_deflection fmt)) plate_circular_uniform_ss_max_deflection_valid plate_circular_uniform_ss_max_deflection_forms"
  unfolding plate_circular_uniform_ss_max_deflection_args_def
  by (rule plate_circular_uniform_ss_max_deflection.direction_law) (simp_all add: plate_circular_uniform_ss_max_deflection_forms_def)

subsection \<open>\<open>plate_circular_uniform_clamped_max_stress\<close>\<close>

definition plate_circular_uniform_clamped_max_stress_valid :: "real list \<Rightarrow> bool" where
  "plate_circular_uniform_clamped_max_stress_valid vs \<longleftrightarrow> 0 < vs ! 0 \<and> 0 < vs ! 1 \<and> 0 < vs ! 2 \<and> 0 < vs ! 3 \<and> 0 \<le> vs ! 4 \<and> vs ! 4 < 1 / 2"

definition plate_circular_uniform_clamped_max_stress_forms :: "(string, real list \<Rightarrow> real) dict" where
  "plate_circular_uniform_clamped_max_stress_forms =
     [(''mech.plate.circular.clamped_max_stress'', \<lambda>vs. 3 * vs ! 0 * (vs ! 1) ^ 2 / (4 * (vs ! 2) ^ 2))]"

lemma plate_circular_uniform_clamped_max_stress_answers: "computes (plate_circular_uniform_clamped_max_stress fmt) plate_circular_uniform_clamped_max_stress_ins plate_circular_uniform_clamped_max_stress_box plate_circular_uniform_clamped_max_stress_valid plate_circular_uniform_clamped_max_stress_forms"
  by (rule computesI) (auto simp: plate_circular_uniform_clamped_max_stress_def plate_circular_uniform_clamped_max_stress_ins_def plate_circular_uniform_clamped_max_stress_valid_def plate_circular_uniform_clamped_max_stress_forms_def answer_simps reads_Nil reads_Cons Let_def flexural_rigidity_def reject_geom_def  power2_eq_1_iff)

lemma plate_circular_uniform_clamped_max_stress_inside:
  assumes "list_all2 is_subset ivs (ranges_of plate_circular_uniform_clamped_max_stress_ins plate_circular_uniform_clamped_max_stress_box)"
    "\<forall>vs. at_ends ivs vs \<longrightarrow> plate_circular_uniform_clamped_max_stress_valid vs" "in_ranges ivs vs"
  shows "plate_circular_uniform_clamped_max_stress_valid vs"
  proof -
  have r: "in_ranges (ranges_of plate_circular_uniform_clamped_max_stress_ins plate_circular_uniform_clamped_max_stress_box) vs" using assms(1,3) by (rule in_ranges_subset)
  have s0: "slice_monotone ivs (\<lambda>vs. (1 / 2) - (vs ! 4))"
    by (rule slice_monotone_subset [OF assms(1)])
      (auto simp: plate_circular_uniform_clamped_max_stress_ins_def plate_circular_uniform_clamped_max_stress_box_def ranges_of_def  intro!: slice_monotone_5 swing)
  have g0: "0 < (1 / 2) - (vs ! 4)"
    by (rule corners_pass [OF s0 assms(3)]) (use assms(2) in \<open>simp add: plate_circular_uniform_clamped_max_stress_valid_def\<close>)
  show ?thesis
    using r g0 by (auto simp: plate_circular_uniform_clamped_max_stress_valid_def plate_circular_uniform_clamped_max_stress_ins_def plate_circular_uniform_clamped_max_stress_box_def ranges_of_def in_ranges_Cons)
qed

lemma plate_circular_uniform_clamped_max_stress_slices:
  assumes "list_all2 is_subset ivs (ranges_of plate_circular_uniform_clamped_max_stress_ins plate_circular_uniform_clamped_max_stress_box)" "\<forall>vs. in_ranges ivs vs \<longrightarrow> plate_circular_uniform_clamped_max_stress_valid vs"
  shows "\<forall>f \<in> snd ` set plate_circular_uniform_clamped_max_stress_forms. slice_monotone ivs f"
  by (auto simp: plate_circular_uniform_clamped_max_stress_forms_def plate_circular_uniform_clamped_max_stress_ins_def plate_circular_uniform_clamped_max_stress_box_def ranges_of_def  
      intro!: slice_monotone_subset [OF assms(1)] slice_monotone_5 swing)

interpretation plate_circular_uniform_clamped_max_stress: formula_solver plate_circular_uniform_clamped_max_stress_ins plate_circular_uniform_clamped_max_stress_box plate_circular_uniform_clamped_max_stress_valid plate_circular_uniform_clamped_max_stress_forms "plate_circular_uniform_clamped_max_stress fmt" for fmt
  by unfold_locales (rule plate_circular_uniform_clamped_max_stress_answers | rule plate_circular_uniform_clamped_max_stress_inside plate_circular_uniform_clamped_max_stress_slices, assumption+ | simp add: ports_ok_def dict_ok_def plate_circular_uniform_clamped_max_stress_ins_def plate_circular_uniform_clamped_max_stress_box_def)+

lemma plate_circular_uniform_clamped_max_stress_law:
  "keeps_law (module_direction H dumps plate_circular_uniform_clamped_max_stress_args ''plate_circular_uniform_clamped_max_stress'' (plate_circular_uniform_clamped_max_stress fmt)) plate_circular_uniform_clamped_max_stress_valid plate_circular_uniform_clamped_max_stress_forms"
  unfolding plate_circular_uniform_clamped_max_stress_args_def
  by (rule plate_circular_uniform_clamped_max_stress.direction_law) (simp_all add: plate_circular_uniform_clamped_max_stress_forms_def)

subsection \<open>\<open>plate_circular_uniform_clamped_max_deflection\<close>\<close>

definition plate_circular_uniform_clamped_max_deflection_valid :: "real list \<Rightarrow> bool" where
  "plate_circular_uniform_clamped_max_deflection_valid vs \<longleftrightarrow> 0 < vs ! 0 \<and> 0 < vs ! 1 \<and> 0 < vs ! 2 \<and> 0 < vs ! 3 \<and> 0 \<le> vs ! 4 \<and> vs ! 4 < 1 / 2"

definition plate_circular_uniform_clamped_max_deflection_forms :: "(string, real list \<Rightarrow> real) dict" where
  "plate_circular_uniform_clamped_max_deflection_forms =
     [(''mech.plate.circular.clamped_max_deflection'', \<lambda>vs. vs ! 0 * (vs ! 1) ^ 4 / (64 * (vs ! 3 * vs ! 2 ^ 3 / (12 * (1 - vs ! 4 ^ 2)))))]"

lemma plate_circular_uniform_clamped_max_deflection_answers: "computes (plate_circular_uniform_clamped_max_deflection fmt) plate_circular_uniform_clamped_max_deflection_ins plate_circular_uniform_clamped_max_deflection_box plate_circular_uniform_clamped_max_deflection_valid plate_circular_uniform_clamped_max_deflection_forms"
  by (rule computesI) (auto simp: plate_circular_uniform_clamped_max_deflection_def plate_circular_uniform_clamped_max_deflection_ins_def plate_circular_uniform_clamped_max_deflection_valid_def plate_circular_uniform_clamped_max_deflection_forms_def answer_simps reads_Nil reads_Cons Let_def flexural_rigidity_def reject_geom_def  power2_eq_1_iff)

lemma plate_circular_uniform_clamped_max_deflection_inside:
  assumes "list_all2 is_subset ivs (ranges_of plate_circular_uniform_clamped_max_deflection_ins plate_circular_uniform_clamped_max_deflection_box)"
    "\<forall>vs. at_ends ivs vs \<longrightarrow> plate_circular_uniform_clamped_max_deflection_valid vs" "in_ranges ivs vs"
  shows "plate_circular_uniform_clamped_max_deflection_valid vs"
  proof -
  have r: "in_ranges (ranges_of plate_circular_uniform_clamped_max_deflection_ins plate_circular_uniform_clamped_max_deflection_box) vs" using assms(1,3) by (rule in_ranges_subset)
  have s0: "slice_monotone ivs (\<lambda>vs. (1 / 2) - (vs ! 4))"
    by (rule slice_monotone_subset [OF assms(1)])
      (auto simp: plate_circular_uniform_clamped_max_deflection_ins_def plate_circular_uniform_clamped_max_deflection_box_def ranges_of_def  intro!: slice_monotone_5 swing)
  have g0: "0 < (1 / 2) - (vs ! 4)"
    by (rule corners_pass [OF s0 assms(3)]) (use assms(2) in \<open>simp add: plate_circular_uniform_clamped_max_deflection_valid_def\<close>)
  show ?thesis
    using r g0 by (auto simp: plate_circular_uniform_clamped_max_deflection_valid_def plate_circular_uniform_clamped_max_deflection_ins_def plate_circular_uniform_clamped_max_deflection_box_def ranges_of_def in_ranges_Cons)
qed

lemma plate_circular_uniform_clamped_max_deflection_slices:
  assumes "list_all2 is_subset ivs (ranges_of plate_circular_uniform_clamped_max_deflection_ins plate_circular_uniform_clamped_max_deflection_box)" "\<forall>vs. in_ranges ivs vs \<longrightarrow> plate_circular_uniform_clamped_max_deflection_valid vs"
  shows "\<forall>f \<in> snd ` set plate_circular_uniform_clamped_max_deflection_forms. slice_monotone ivs f"
  by (auto simp: plate_circular_uniform_clamped_max_deflection_forms_def plate_circular_uniform_clamped_max_deflection_ins_def plate_circular_uniform_clamped_max_deflection_box_def ranges_of_def  
      intro!: slice_monotone_subset [OF assms(1)] slice_monotone_5 swing)

interpretation plate_circular_uniform_clamped_max_deflection: formula_solver plate_circular_uniform_clamped_max_deflection_ins plate_circular_uniform_clamped_max_deflection_box plate_circular_uniform_clamped_max_deflection_valid plate_circular_uniform_clamped_max_deflection_forms "plate_circular_uniform_clamped_max_deflection fmt" for fmt
  by unfold_locales (rule plate_circular_uniform_clamped_max_deflection_answers | rule plate_circular_uniform_clamped_max_deflection_inside plate_circular_uniform_clamped_max_deflection_slices, assumption+ | simp add: ports_ok_def dict_ok_def plate_circular_uniform_clamped_max_deflection_ins_def plate_circular_uniform_clamped_max_deflection_box_def)+

lemma plate_circular_uniform_clamped_max_deflection_law:
  "keeps_law (module_direction H dumps plate_circular_uniform_clamped_max_deflection_args ''plate_circular_uniform_clamped_max_deflection'' (plate_circular_uniform_clamped_max_deflection fmt)) plate_circular_uniform_clamped_max_deflection_valid plate_circular_uniform_clamped_max_deflection_forms"
  unfolding plate_circular_uniform_clamped_max_deflection_args_def
  by (rule plate_circular_uniform_clamped_max_deflection.direction_law) (simp_all add: plate_circular_uniform_clamped_max_deflection_forms_def)

section \<open>The family\<close>

definition plate_directions ::
  "(json \<Rightarrow> string) \<Rightarrow> (json \<Rightarrow> string) \<Rightarrow> (string \<Rightarrow> real \<Rightarrow> string)
   \<Rightarrow> (solver_pair, registry_error) outcome list" where
  "plate_directions H dumps fmt =
     [module_direction H dumps plate_circular_uniform_ss_max_stress_args ''plate_circular_uniform_ss_max_stress'' (plate_circular_uniform_ss_max_stress fmt),
      module_direction H dumps plate_circular_uniform_ss_max_deflection_args ''plate_circular_uniform_ss_max_deflection'' (plate_circular_uniform_ss_max_deflection fmt),
      module_direction H dumps plate_circular_uniform_clamped_max_stress_args ''plate_circular_uniform_clamped_max_stress'' (plate_circular_uniform_clamped_max_stress fmt),
      module_direction H dumps plate_circular_uniform_clamped_max_deflection_args ''plate_circular_uniform_clamped_max_deflection'' (plate_circular_uniform_clamped_max_deflection fmt)]"

definition register_plate ::
  "(json \<Rightarrow> string) \<Rightarrow> (json \<Rightarrow> string) \<Rightarrow> (string \<Rightarrow> real \<Rightarrow> string)
   \<Rightarrow> registry \<Rightarrow> (unit, registry_error) outcome \<times> registry" where
  "register_plate H dumps fmt = register_family plate_PORT_DECLS (plate_directions H dumps fmt)"

definition plate_laws ::
  "(json \<Rightarrow> string) \<Rightarrow> (json \<Rightarrow> string) \<Rightarrow> (string \<Rightarrow> real \<Rightarrow> string)
   \<Rightarrow> ((solver_pair, registry_error) outcome \<times> (real list \<Rightarrow> bool) \<times> (string, real list \<Rightarrow> real) dict) list" where
  "plate_laws H dumps fmt =
     [(module_direction H dumps plate_circular_uniform_ss_max_stress_args ''plate_circular_uniform_ss_max_stress'' (plate_circular_uniform_ss_max_stress fmt), plate_circular_uniform_ss_max_stress_valid, plate_circular_uniform_ss_max_stress_forms),
      (module_direction H dumps plate_circular_uniform_ss_max_deflection_args ''plate_circular_uniform_ss_max_deflection'' (plate_circular_uniform_ss_max_deflection fmt), plate_circular_uniform_ss_max_deflection_valid, plate_circular_uniform_ss_max_deflection_forms),
      (module_direction H dumps plate_circular_uniform_clamped_max_stress_args ''plate_circular_uniform_clamped_max_stress'' (plate_circular_uniform_clamped_max_stress fmt), plate_circular_uniform_clamped_max_stress_valid, plate_circular_uniform_clamped_max_stress_forms),
      (module_direction H dumps plate_circular_uniform_clamped_max_deflection_args ''plate_circular_uniform_clamped_max_deflection'' (plate_circular_uniform_clamped_max_deflection fmt), plate_circular_uniform_clamped_max_deflection_valid, plate_circular_uniform_clamped_max_deflection_forms)]"

lemma plate_keep: "list_all (\<lambda>(d, valid, forms). keeps_law d valid forms) (plate_laws H dumps fmt)"
  by (simp add: plate_laws_def plate_circular_uniform_ss_max_stress_law plate_circular_uniform_ss_max_deflection_law plate_circular_uniform_clamped_max_stress_law plate_circular_uniform_clamped_max_deflection_law)

end
