(* ===== verification/Lib_Transient.thy ===== *)
theory Lib_Transient
  imports Catalog
begin

text \<open>
  Lumped thermal transients (\<open>heat/thermal_transient.py\<close>).
\<close>

section \<open>Directions\<close>

definition BI_MAX :: real where
  "BI_MAX = (1 / 10)"

definition reject_biot :: "(string \<Rightarrow> real \<Rightarrow> string) \<Rightarrow> real \<Rightarrow> string \<Rightarrow> raw_return \<Rightarrow> raw_return" where
  \<open>reject_biot fmt bi where ret =
    (if BI_MAX \<le> bi
     then out_of_domain (where @ '': Bi='' @ fmt ''r'' bi @ '' >= 0.1 -- lumped-capacitance method invalid (Incropera ch. 5 sec. 5.1 eq. 5.10 requires Bi < 0.1; internal conduction resistance is not negligible, a single-node solve would misstate the transient response)'')
     else
     if bi < 0
     then out_of_domain (where @ '': negative Bi='' @ fmt ''r'' bi @ '' is not physical'')
     else
     ret)\<close>

definition BIOT_BOX :: interval where
  "BIOT_BOX = ivl 0 (1 / 10)"

definition BIOT_CITATIONS :: "citation list" where
  \<open>BIOT_CITATIONS =
     [\<lparr>ct_kind = ''handbook'', ct_ref = ''Incropera & DeWitt, Fundamentals of Heat and Mass Transfer, 7th ed., ch. 5 sec. 5.1 eq. 5.10 (Bi = h*Lc/k, the lumped-capacitance validity criterion; Lc = V/As, the characteristic length)'', ct_note = (''Computes Bi only; the < 0.1 criterion is NOT applied here -- every OTHER direction in this module applies it to the Bi value a caller feeds into their '' @ [CHR 0x60] @ ''biot_number'' @ [CHR 0x60] @ '' port (which may come from this direction or be independently asserted).'')\<rparr>]\<close>

subsection \<open>\<open>biot_number_from_convection\<close>\<close>

definition biot_number_from_convection_box :: "(string, interval) dict" where
  "biot_number_from_convection_box =
     [(''heat.transient.convection_coefficient'', ivl (1 / 1000) 100000),
      (''heat.transient.characteristic_length'', ivl (1 / 10 ^ 6) 10),
      (''heat.transient.conductivity'', ivl (1 / 1000) 500)]"

definition biot_number_from_convection_ins :: "string list" where
  "biot_number_from_convection_ins = [''heat.transient.convection_coefficient'', ''heat.transient.characteristic_length'', ''heat.transient.conductivity'']"

definition biot_number_from_convection_args :: build_args where
  \<open>biot_number_from_convection_args =
     solver_args ''heat.transient'' biot_number_from_convection_ins
       [''heat.transient.biot_number'']
       biot_number_from_convection_box
       []
       (1 / 10 ^ 7) (AccOne EXACT)
       BIOT_CITATIONS
       ''1''\<close>

definition biot_number_from_convection :: "(string \<Rightarrow> real \<Rightarrow> string) \<Rightarrow> inputs \<Rightarrow> raw_return" where
  \<open>biot_number_from_convection fmt x =
    (arg x ''heat.transient.convection_coefficient'' (\<lambda>h.
     arg x ''heat.transient.characteristic_length'' (\<lambda>lc.
     arg x ''heat.transient.conductivity'' (\<lambda>k.
     if h \<le> 0 \<or> lc \<le> 0 \<or> k \<le> 0
     then out_of_domain (''Biot: non-positive h='' @ fmt ''r'' h @ '', Lc='' @ fmt ''r'' lc @ '', or k='' @ fmt ''r'' k)
     else
     py_div (h * lc) k (\<lambda>t4.
     ok_values [(''heat.transient.biot_number'', t4)])))))\<close>

definition STEP_CITATIONS :: "citation list" where
  \<open>STEP_CITATIONS =
     [\<lparr>ct_kind = ''handbook'', ct_ref = ''Incropera & DeWitt, Fundamentals of Heat and Mass Transfer, 7th ed., ch. 5 sec. 5.2 (lumped-capacitance transient response to a step heat generation, the RC-analog solution of C_th*dT/dt = P - (T-T_amb)/R_th with T(0) = T_amb); docs/benchmarks-memo.md sec. 4.1 (the same ODE shape, electrical RC step response) and sec. 12.1 (thermal worked case)'', ct_note = ''Constant R_th, C_th, and single-node lumping are standing preconditions (Bi < 0.1, gated at runtime); a caller-asserted Biot number is REQUIRED on every call.''\<rparr>]\<close>

subsection \<open>\<open>step_temperature\<close>\<close>

definition step_temperature_box :: "(string, interval) dict" where
  "step_temperature_box =
     [(''heat.transient.t_amb'', ivl 0 600),
      (''heat.transient.power'', ivl 0 100000),
      (''heat.transient.r_th'', ivl (1 / 10 ^ 6) 100000),
      (''heat.transient.c_th'', ivl (1 / 10 ^ 9) (10 ^ 6)),
      (''heat.transient.time'', ivl 0 (10 ^ 9)),
      (''heat.transient.biot_number'', BIOT_BOX)]"

definition step_temperature_ins :: "string list" where
  "step_temperature_ins = [''heat.transient.t_amb'', ''heat.transient.power'', ''heat.transient.r_th'', ''heat.transient.c_th'', ''heat.transient.time'', ''heat.transient.biot_number'']"

definition step_temperature_args :: build_args where
  \<open>step_temperature_args =
     solver_args ''heat.transient'' step_temperature_ins
       [''heat.transient.temperature'']
       step_temperature_box
       [''constant_properties'', ''lumped_capacitance'', ''single_node'']
       (1 / 10 ^ 7) (AccOne EXACT)
       STEP_CITATIONS
       ''1''\<close>

definition step_temperature :: "(string \<Rightarrow> real \<Rightarrow> string) \<Rightarrow> inputs \<Rightarrow> raw_return" where
  \<open>step_temperature fmt x =
    (arg x ''heat.transient.t_amb'' (\<lambda>t_amb.
     arg x ''heat.transient.power'' (\<lambda>power.
     arg x ''heat.transient.r_th'' (\<lambda>r_th.
     arg x ''heat.transient.c_th'' (\<lambda>c_th.
     arg x ''heat.transient.time'' (\<lambda>time.
     arg x ''heat.transient.biot_number'' (\<lambda>bi.
     reject_biot fmt bi ''step_temperature'' (
     if power < 0 \<or> r_th \<le> 0 \<or> c_th \<le> 0 \<or> time < 0
     then out_of_domain (''step_temperature: invalid power='' @ fmt ''r'' power @ '', r_th='' @ fmt ''r'' r_th @ '', c_th='' @ fmt ''r'' c_th @ '', or time='' @ fmt ''r'' time)
     else
     let tau = r_th * c_th in
     py_div (- time) tau (\<lambda>t7.
     let rise = power * r_th * (1 - exp t7) in
     ok_values [(''heat.transient.temperature'', t_amb + rise)])))))))))\<close>

definition TTT_CITATIONS :: "citation list" where
  \<open>TTT_CITATIONS =
     [\<lparr>ct_kind = ''handbook'', ct_ref = (''Incropera & DeWitt, Fundamentals of Heat and Mass Transfer, 7th ed., ch. 5 sec. 5.2, algebraic inversion of the step response for elapsed time (same ODE and worked case as '' @ [CHR 0x60] @ ''step_temperature'' @ [CHR 0x60] @ ''; docs/benchmarks-memo.md sec. 12.1)''), ct_note = (''Same Bi < 0.1 / constant-property preconditions as '' @ [CHR 0x60] @ ''step_temperature'' @ [CHR 0x60] @ ''.'')\<rparr>]\<close>

subsection \<open>\<open>time_to_threshold\<close>\<close>

definition time_to_threshold_box :: "(string, interval) dict" where
  "time_to_threshold_box =
     [(''heat.transient.t_amb'', ivl 0 600),
      (''heat.transient.power'', ivl 0 100000),
      (''heat.transient.r_th'', ivl (1 / 10 ^ 6) 100000),
      (''heat.transient.c_th'', ivl (1 / 10 ^ 9) (10 ^ 6)),
      (''heat.transient.t_threshold'', ivl 0 900),
      (''heat.transient.biot_number'', BIOT_BOX)]"

definition time_to_threshold_ins :: "string list" where
  "time_to_threshold_ins = [''heat.transient.t_amb'', ''heat.transient.power'', ''heat.transient.r_th'', ''heat.transient.c_th'', ''heat.transient.t_threshold'', ''heat.transient.biot_number'']"

definition time_to_threshold_args :: build_args where
  \<open>time_to_threshold_args =
     solver_args ''heat.transient'' time_to_threshold_ins
       [''heat.transient.time_to_threshold'']
       time_to_threshold_box
       [''constant_properties'', ''lumped_capacitance'', ''single_node'']
       (1 / 10 ^ 7) (AccOne EXACT)
       TTT_CITATIONS
       ''1''\<close>

definition time_to_threshold :: "(string \<Rightarrow> real \<Rightarrow> string) \<Rightarrow> inputs \<Rightarrow> raw_return" where
  \<open>time_to_threshold fmt x =
    (arg x ''heat.transient.t_amb'' (\<lambda>t_amb.
     arg x ''heat.transient.power'' (\<lambda>power.
     arg x ''heat.transient.r_th'' (\<lambda>r_th.
     arg x ''heat.transient.c_th'' (\<lambda>c_th.
     arg x ''heat.transient.t_threshold'' (\<lambda>t_thresh.
     arg x ''heat.transient.biot_number'' (\<lambda>bi.
     reject_biot fmt bi ''time_to_threshold'' (
     if power \<le> 0 \<or> r_th \<le> 0 \<or> c_th \<le> 0
     then out_of_domain (''time_to_threshold: non-positive power='' @ fmt ''r'' power @ '', r_th='' @ fmt ''r'' r_th @ '', or c_th='' @ fmt ''r'' c_th)
     else
     let steady_rise = power * r_th in
     let needed_rise = t_thresh - t_amb in
     if needed_rise \<le> 0
     then out_of_domain (''time_to_threshold: t_threshold='' @ fmt ''r'' t_thresh @ '' <= t_amb='' @ fmt ''r'' t_amb @ '' -- already at/above threshold at t=0, no finite step time applies'')
     else
     if steady_rise \<le> needed_rise
     then out_of_domain (''time_to_threshold: needed rise='' @ fmt ''r'' needed_rise @ '' K >= asymptotic steady rise P*R_th='' @ fmt ''r'' steady_rise @ '' K -- the threshold is never reached, no finite time exists (honest refusal, not a fabricated time)'')
     else
     let tau = r_th * c_th in
     py_div needed_rise steady_rise (\<lambda>t7.
     py_ln (1 - t7) (\<lambda>t8.
     let t = - tau * t8 in
     ok_values [(''heat.transient.time_to_threshold'', t)]))))))))))\<close>

definition DUTY_CITATIONS :: "citation list" where
  \<open>DUTY_CITATIONS =
     [\<lparr>ct_kind = ''handbook'', ct_ref = (''Incropera & DeWitt, Fundamentals of Heat and Mass Transfer, 7th ed., ch. 5 sec. 5.2 governing ODE, extended to periodic square-wave forcing by direct algebraic solution of the SAME first-order lumped ODE under a periodic-steady-state boundary condition (not a separate empirical correlation -- superposition of the ch. 5 step/decay solutions over one on/off cycle with '' @ [CHR 0x60] @ ''theta(0) = theta(period)'' @ [CHR 0x60] @ ''); docs/benchmarks-memo.md sec. 12.2 (worked case, derivation, and the two limiting-case checks: continuous power at duty=1, and quasi-steady average-power reduction at switching-period << tau)''), ct_note = (''Steady PERIODIC state only (many cycles elapsed) -- the first-cycle transient toward that periodic state is NOT this direction's output (it is bounded above by this direction's result, since T_peak is monotone-increasing toward the periodic limit from a T_amb start -- a conservative first-cycle caller can still use this value). Same Bi < 0.1 / constant-property / single-node preconditions as '' @ [CHR 0x60] @ ''step_temperature'' @ [CHR 0x60] @ ''.'')\<rparr>]\<close>

subsection \<open>\<open>duty_cycle_peak_temperature\<close>\<close>

definition duty_cycle_peak_temperature_box :: "(string, interval) dict" where
  "duty_cycle_peak_temperature_box =
     [(''heat.transient.t_amb'', ivl 0 600),
      (''heat.transient.power'', ivl 0 100000),
      (''heat.transient.r_th'', ivl (1 / 10 ^ 6) 100000),
      (''heat.transient.c_th'', ivl (1 / 10 ^ 9) (10 ^ 6)),
      (''heat.transient.t_on'', ivl 0 (10 ^ 6)),
      (''heat.transient.t_off'', ivl 0 (10 ^ 6)),
      (''heat.transient.biot_number'', BIOT_BOX)]"

definition duty_cycle_peak_temperature_ins :: "string list" where
  "duty_cycle_peak_temperature_ins = [''heat.transient.t_amb'', ''heat.transient.power'', ''heat.transient.r_th'', ''heat.transient.c_th'', ''heat.transient.t_on'', ''heat.transient.t_off'', ''heat.transient.biot_number'']"

definition duty_cycle_peak_temperature_args :: build_args where
  \<open>duty_cycle_peak_temperature_args =
     solver_args ''heat.transient'' duty_cycle_peak_temperature_ins
       [''heat.transient.duty_peak_temperature'']
       duty_cycle_peak_temperature_box
       [''constant_properties'', ''lumped_capacitance'', ''periodic_steady_state'', ''single_node'']
       (1 / 10 ^ 7) (AccOne EXACT)
       DUTY_CITATIONS
       ''1''\<close>

definition duty_cycle_peak_temperature :: "(string \<Rightarrow> real \<Rightarrow> string) \<Rightarrow> inputs \<Rightarrow> raw_return" where
  \<open>duty_cycle_peak_temperature fmt x =
    (arg x ''heat.transient.t_amb'' (\<lambda>t_amb.
     arg x ''heat.transient.power'' (\<lambda>power.
     arg x ''heat.transient.r_th'' (\<lambda>r_th.
     arg x ''heat.transient.c_th'' (\<lambda>c_th.
     arg x ''heat.transient.t_on'' (\<lambda>t_on.
     arg x ''heat.transient.t_off'' (\<lambda>t_off.
     arg x ''heat.transient.biot_number'' (\<lambda>bi.
     reject_biot fmt bi ''duty_cycle_peak_temperature'' (
     if power < 0 \<or> r_th \<le> 0 \<or> c_th \<le> 0 \<or> t_on < 0 \<or> t_off < 0
     then out_of_domain (''duty_cycle_peak_temperature: invalid power='' @ fmt ''r'' power @ '', r_th='' @ fmt ''r'' r_th @ '', c_th='' @ fmt ''r'' c_th @ '', t_on='' @ fmt ''r'' t_on @ '', or t_off='' @ fmt ''r'' t_off)
     else
     if t_on = 0 \<and> t_off = 0
     then out_of_domain (''duty_cycle_peak_temperature: t_on and t_off both zero -- no period defined'')
     else
     let tau = r_th * c_th in
     py_div (- t_on) tau (\<lambda>t8.
     let a = exp t8 in
     py_div (- t_off) tau (\<lambda>t9.
     let b = exp t9 in
     let denom = 1 - a * b in
     if denom \<le> 0
     then out_of_domain (''duty_cycle_peak_temperature: degenerate cycle (1-a*b <= 0)'')
     else
     py_div (power * r_th * (1 - a)) denom (\<lambda>rise.
     ok_values [(''heat.transient.duty_peak_temperature'', t_amb + rise)]))))))))))))\<close>

definition thermal_transient_PORT_DECLS :: "port_decl list" where
  "thermal_transient_PORT_DECLS =
     [scalar_port ''heat.transient.convection_coefficient'' ''W/(m^2*K)'',
      scalar_port ''heat.transient.characteristic_length'' ''m'',
      scalar_port ''heat.transient.conductivity'' ''W/(m*K)'',
      scalar_port ''heat.transient.biot_number'' ''1'',
      scalar_port ''heat.transient.t_amb'' ''K'',
      scalar_port ''heat.transient.power'' ''W'',
      scalar_port ''heat.transient.r_th'' ''K/W'',
      scalar_port ''heat.transient.c_th'' ''J/K'',
      scalar_port ''heat.transient.time'' ''s'',
      scalar_port ''heat.transient.temperature'' ''K'',
      scalar_port ''heat.transient.t_threshold'' ''K'',
      scalar_port ''heat.transient.time_to_threshold'' ''s'',
      scalar_port ''heat.transient.t_on'' ''s'',
      scalar_port ''heat.transient.t_off'' ''s'',
      scalar_port ''heat.transient.duty_peak_temperature'' ''K'']"

section \<open>What the directions compute\<close>

lemma saturation_mono:
  fixes v w k :: real
  assumes "0 < v" "v \<le> w"
  shows "v * (1 - exp (- (k / v))) \<le> w * (1 - exp (- (k / w)))"
proof -
  have "exp (v / w * - (k / v)) \<le> (1 - v / w) + v / w * exp (- (k / v))"
    using assms by (intro exp_chord) auto
  then have "v / w * (1 - exp (- (k / v))) \<le> 1 - exp (- (k / w))"
    using assms by (simp add: algebra_simps)
  then have "w * (v / w * (1 - exp (- (k / v)))) \<le> w * (1 - exp (- (k / w)))"
    using assms by (intro mult_left_mono) auto
  then show ?thesis using assms by simp
qed

lemma swings_saturation:
  "(\<And>v. iv_contains iv v \<Longrightarrow> 0 < v) \<Longrightarrow> swings iv (\<lambda>v. b * v * (1 - exp (- (k / (v * d)))))"
proof -
  assume pos: "\<And>v. iv_contains iv v \<Longrightarrow> 0 < v"
  have "rises iv (\<lambda>v. v * (1 - exp (- (k / d / v))))"
    by (intro risesI saturation_mono pos)
  then have "swings iv (\<lambda>v. b * (v * (1 - exp (- (k / d / v)))))"
    by (intro swings_cmult rises_swings)
  then show ?thesis by (simp add: mult.assoc mult.commute [of d])
qed

lemma swings_log_approach:
  assumes pos: "\<And>v. iv_contains iv v \<Longrightarrow> 0 < v" and arg: "\<And>v. iv_contains iv v \<Longrightarrow> k / (b * v) < 1"
  shows "swings iv (\<lambda>v. v * d * ln (1 - k / (b * v)))"
proof -
  have "v * ln (1 - k / b / v) \<le> w * ln (1 - k / b / w)"
    if v: "iv_contains iv v" and w: "iv_contains iv w" "v \<le> w" for v w
  proof -
    let ?y = "1 - k / b / v"
    have p: "0 < v" "0 < w" "0 < ?y" using pos arg v w by auto
    have "exp (v / w * ln ?y) \<le> (1 - v / w) + v / w * exp (ln ?y)"
      using p w(2) by (intro exp_chord) auto
    also have "\<dots> = 1 - k / b / w" using p by (simp add: field_simps)
    finally have "v / w * ln ?y \<le> ln (1 - k / b / w)"
      using arg [OF w(1)] by (subst ln_ge_iff) auto
    then have "w * (v / w * ln ?y) \<le> w * ln (1 - k / b / w)"
      using p by (intro mult_left_mono) auto
    then show ?thesis using p by simp
  qed
  then have "swings iv (\<lambda>v. d * (v * ln (1 - k / b / v)))"
    by (intro swings_cmult rises_swings risesI)
  then show ?thesis by (simp add: ac_simps)
qed

lemma duty_guard:
  assumes "0 < r" "0 < c" "0 < on + (off :: real)"
  shows "exp (- (on / (r * c))) * exp (- (off / (r * c))) < 1"
    "\<not> 1 \<le> exp (- (on / (r * c))) * exp (- (off / (r * c)))"
    "exp (- (on / (r * c))) * exp (- (off / (r * c))) \<noteq> 1"
proof -
  have "exp (- (on / (r * c))) * exp (- (off / (r * c))) = exp (- ((on + off) / (r * c)))"
    by (simp add: exp_add [symmetric] add_divide_distrib)
  moreover have "0 < (on + off) / (r * c)" using assms by simp
  ultimately show "exp (- (on / (r * c))) * exp (- (off / (r * c))) < 1" by simp
  then show "\<not> 1 \<le> exp (- (on / (r * c))) * exp (- (off / (r * c)))"
    "exp (- (on / (r * c))) * exp (- (off / (r * c))) \<noteq> 1" by simp_all
qed

lemma swings_on_time:
  assumes "swings iv g" "\<And>v. iv_contains iv v \<Longrightarrow> g v * d < 1"
  shows "swings iv (\<lambda>v. c * (1 - g v) / (1 - g v * d))"
  using swings_linear_fraction [OF assms(1), of "- d" 1 "- c" c] assms(2) by (simp add: algebra_simps)

text \<open>Of two powers of numbers below one, the one of the larger number is closer to one.\<close>

lemma power_gap:
  fixes p x y :: real
  assumes p: "0 \<le> p" "p \<le> 1" and xy: "x < 0" "x \<le> y" "y \<le> 0"
  shows "(1 - exp (p * y)) * (1 - exp x) \<le> (1 - exp (p * x)) * (1 - exp y)"
proof -
  have step: "exp (p * z) \<le> exp (p * y) * ((1 - p) + p * (exp z / exp y))" for z
  proof -
    have "exp (p * z) = exp (p * y) * exp (p * (z - y))"
      by (simp add: exp_add [symmetric] algebra_simps)
    also have "\<dots> \<le> exp (p * y) * ((1 - p) + p * exp (z - y))"
      using exp_chord [OF p, of "z - y"] by (intro mult_left_mono) auto
    finally show ?thesis by (simp add: exp_diff)
  qed
  define l where "l = (1 - exp y) / (1 - exp x)"
  have d: "0 < 1 - exp x" using xy(1) by simp
  have l: "0 \<le> l" "l \<le> 1" using d xy by (auto simp: l_def)
  have "l * (1 - exp x) = 1 - exp y" using d by (simp add: l_def)
  then have mix: "(1 - l) * exp 0 + l * exp x = exp y" by (simp add: algebra_simps)
  have "(1 - l) * exp (p * 0) + l * exp (p * x) \<le>
      (1 - l) * (exp (p * y) * ((1 - p) + p * (exp 0 / exp y))) + l * (exp (p * y) * ((1 - p) + p * (exp x / exp y)))"
    using l by (intro add_mono mult_left_mono step) auto
  also have "\<dots> = exp (p * y) * ((1 - p) + p * (((1 - l) * exp 0 + l * exp x) / exp y))"
    by (simp add: algebra_simps add_divide_distrib diff_divide_distrib)
  also have "\<dots> = exp (p * y)" unfolding mix by simp
  finally have "1 - exp (p * y) \<le> l * (1 - exp (p * x))" by (simp add: algebra_simps)
  then have "(1 - exp (p * y)) * (1 - exp x) \<le> l * (1 - exp (p * x)) * (1 - exp x)"
    using d by (intro mult_right_mono) auto
  then show ?thesis using d by (simp add: l_def mult.commute)
qed

definition duty :: "real \<Rightarrow> real \<Rightarrow> real \<Rightarrow> real" where
  "duty on off tau = (1 - exp (- (on / tau))) / (1 - exp (- ((on + off) / tau)))"

lemma duty_falls:
  assumes "0 \<le> on" "0 \<le> off" "0 < on + off" "0 < v" "v \<le> w"
  shows "duty on off w \<le> duty on off v"
proof -
  let ?p = "on / (on + off)" and ?x = "- ((on + off) / v)" and ?y = "- ((on + off) / w)"
  have p: "0 \<le> ?p" "?p \<le> 1" using assms by auto
  have xy: "?x < 0" "?x \<le> ?y" "?y < 0"
    using assms by (auto intro: divide_left_mono mult_pos_pos divide_pos_pos)
  have eq: "?p * ?x = - (on / v)" "?p * ?y = - (on / w)" using assms(3) by simp_all
  have "(1 - exp (- (on / w))) * (1 - exp ?x) \<le> (1 - exp (- (on / v))) * (1 - exp ?y)"
    using power_gap [OF p xy(1,2)] xy(3) unfolding eq by simp
  note main = this
  have d: "0 < 1 - exp ?x" "0 < 1 - exp ?y" using xy by simp_all
  show ?thesis
    unfolding duty_def pos_divide_le_eq [OF d(2)] times_divide_eq_left pos_le_divide_eq [OF d(1)] by (rule main)
qed

lemma duty_scaled_rises:
  assumes "0 \<le> on" "0 \<le> off" "0 < on + off" "0 < v" "v \<le> w"
  shows "v * duty on off v \<le> w * duty on off w"
proof -
  have t: "- ((on + off) / v) \<le> - ((on + off) / w)" "- ((on + off) / w) < 0" "- ((on + off) / v) < 0"
    using assms by (auto intro: divide_left_mono mult_pos_pos divide_pos_pos)
  have "v * (1 - exp (- (on / v))) / (1 - exp (- ((on + off) / v)))
      \<le> w * (1 - exp (- (on / w))) / (1 - exp (- ((on + off) / w)))"
    using saturation_mono [OF assms(4,5), of on] assms t by (intro frac_le) auto
  then show ?thesis by (simp add: duty_def)
qed

lemma swings_duty_capacity:
  assumes "\<And>v. iv_contains iv v \<Longrightarrow> 0 \<le> on \<and> 0 \<le> off \<and> 0 < on + off \<and> 0 < r \<and> 0 < v"
  shows "swings iv (\<lambda>v. duty on off (r * v))"
  by (rule falls_swings, rule fallsI, rule duty_falls) (use assms in \<open>auto intro: mult_left_mono\<close>)

lemma swings_duty_resistance:
  assumes pos: "\<And>v. iv_contains iv v \<Longrightarrow> 0 \<le> on \<and> 0 \<le> off \<and> 0 < on + off \<and> 0 < c \<and> 0 < v"
  shows "swings iv (\<lambda>v. b * v * duty on off (v * c))"
proof -
  have "v * duty on off (v * c) \<le> w * duty on off (w * c)"
    if v: "iv_contains iv v" and w: "iv_contains iv w" "v \<le> w" for v w
  proof -
    have "v * c * duty on off (v * c) \<le> w * c * duty on off (w * c)"
      by (rule duty_scaled_rises) (use pos [OF v] w(2) in \<open>auto intro: mult_right_mono\<close>)
    then have "c * (v * duty on off (v * c)) \<le> c * (w * duty on off (w * c))"
      by (simp add: ac_simps)
    then show ?thesis using pos [OF v] by simp
  qed
  then have "swings iv (\<lambda>v. b * (v * duty on off (v * c)))"
    by (intro swings_cmult rises_swings risesI)
  then show ?thesis by (simp add: mult.assoc)
qed

lemma swings_duty_on:
  assumes pos: "\<And>v. iv_contains iv v \<Longrightarrow> 0 < v + off \<and> 0 < tau"
  shows "swings iv (\<lambda>v. duty v off tau)"
proof -
  have eq: "exp (- (v / tau)) * exp (- (off / tau)) = exp (- ((v + off) / tau))" for v
    by (simp add: exp_add [symmetric] add_divide_distrib)
  have "swings iv (\<lambda>v. 1 * (1 - exp (- (v / tau))) / (1 - exp (- (v / tau)) * exp (- (off / tau))))"
    by (intro swings_on_time swing, unfold eq) (use pos in simp)
  then show ?thesis by (simp add: duty_def eq)
qed

lemma swings_duty_off:
  assumes "\<And>v. iv_contains iv v \<Longrightarrow> 0 < on + v \<and> 0 < tau"
  shows "swings iv (\<lambda>v. duty on v tau)"
  unfolding duty_def using assms by (auto intro!: swing)

lemma duty_form:
  "x * (1 - exp (- (on / t))) / (1 - exp (- (on / t)) * exp (- (off / t))) = x * duty on off t"
  by (simp add: duty_def exp_add [symmetric] add_divide_distrib)

subsection \<open>\<open>biot_number_from_convection\<close>\<close>

definition biot_number_from_convection_valid :: "real list \<Rightarrow> bool" where
  "biot_number_from_convection_valid vs \<longleftrightarrow> 0 < vs ! 0 \<and> 0 < vs ! 1 \<and> 0 < vs ! 2"

definition biot_number_from_convection_forms :: "(string, real list \<Rightarrow> real) dict" where
  "biot_number_from_convection_forms =
     [(''heat.transient.biot_number'', \<lambda>vs. vs ! 0 * vs ! 1 / vs ! 2)]"

lemma biot_number_from_convection_answers: "computes (biot_number_from_convection fmt) biot_number_from_convection_ins biot_number_from_convection_box biot_number_from_convection_valid biot_number_from_convection_forms"
  by (rule computesI) (auto simp: biot_number_from_convection_def biot_number_from_convection_ins_def biot_number_from_convection_valid_def biot_number_from_convection_forms_def answer_simps reads_Nil reads_Cons Let_def reject_biot_def BI_MAX_def BIOT_BOX_def)

lemma biot_number_from_convection_total: "in_ranges (ranges_of biot_number_from_convection_ins biot_number_from_convection_box) vs \<Longrightarrow> biot_number_from_convection_valid vs"
  by (auto simp: biot_number_from_convection_ins_def biot_number_from_convection_box_def biot_number_from_convection_valid_def ranges_of_def in_ranges_Cons BI_MAX_def BIOT_BOX_def)

lemma biot_number_from_convection_slices: "f \<in> snd ` set biot_number_from_convection_forms \<Longrightarrow> slice_monotone (ranges_of biot_number_from_convection_ins biot_number_from_convection_box) f"
  by (auto simp: biot_number_from_convection_forms_def biot_number_from_convection_ins_def biot_number_from_convection_box_def ranges_of_def BI_MAX_def BIOT_BOX_def  intro!: slice_monotone_3 swing)

interpretation biot_number_from_convection: total_solver biot_number_from_convection_ins biot_number_from_convection_box biot_number_from_convection_valid biot_number_from_convection_forms "biot_number_from_convection fmt" for fmt
  by unfold_locales (rule biot_number_from_convection_answers | erule biot_number_from_convection_total biot_number_from_convection_slices | simp add: ports_ok_def dict_ok_def biot_number_from_convection_ins_def biot_number_from_convection_box_def)+

lemma biot_number_from_convection_law:
  "keeps_law (module_direction H dumps biot_number_from_convection_args ''biot_number_from_convection'' (biot_number_from_convection fmt)) biot_number_from_convection_valid biot_number_from_convection_forms"
  unfolding biot_number_from_convection_args_def
  by (rule biot_number_from_convection.direction_law) (simp_all add: biot_number_from_convection_forms_def)

subsection \<open>\<open>step_temperature\<close>\<close>

definition step_temperature_valid :: "real list \<Rightarrow> bool" where
  "step_temperature_valid vs \<longleftrightarrow> vs ! 5 < BI_MAX \<and> 0 \<le> vs ! 5 \<and> 0 \<le> vs ! 1 \<and> 0 < vs ! 2 \<and> 0 < vs ! 3 \<and> 0 \<le> vs ! 4"

definition step_temperature_forms :: "(string, real list \<Rightarrow> real) dict" where
  "step_temperature_forms =
     [(''heat.transient.temperature'', \<lambda>vs. vs ! 0 + vs ! 1 * vs ! 2 * (1 - exp (- vs ! 4 / (vs ! 2 * vs ! 3))))]"

lemma step_temperature_answers: "computes (step_temperature fmt) step_temperature_ins step_temperature_box step_temperature_valid step_temperature_forms"
  by (rule computesI) (auto simp: step_temperature_def step_temperature_ins_def step_temperature_valid_def step_temperature_forms_def answer_simps reads_Nil reads_Cons Let_def reject_biot_def BI_MAX_def BIOT_BOX_def)

lemma step_temperature_inside:
  assumes "list_all2 is_subset ivs (ranges_of step_temperature_ins step_temperature_box)"
    "\<forall>vs. at_ends ivs vs \<longrightarrow> step_temperature_valid vs" "in_ranges ivs vs"
  shows "step_temperature_valid vs"
  proof -
  have r: "in_ranges (ranges_of step_temperature_ins step_temperature_box) vs" using assms(1,3) by (rule in_ranges_subset)
  have s0: "slice_monotone ivs (\<lambda>vs. (BI_MAX) - (vs ! 5))"
    by (rule slice_monotone_subset [OF assms(1)])
      (auto simp: step_temperature_ins_def step_temperature_box_def ranges_of_def BI_MAX_def BIOT_BOX_def intro!: slice_monotone_6 swing swings_saturation)
  have g0: "0 < (BI_MAX) - (vs ! 5)"
    by (rule corners_pass [OF s0 assms(3)]) (use assms(2) in \<open>simp add: step_temperature_valid_def\<close>)
  show ?thesis
    using r g0 by (auto simp: step_temperature_valid_def step_temperature_ins_def step_temperature_box_def ranges_of_def in_ranges_Cons BI_MAX_def BIOT_BOX_def)
qed

lemma step_temperature_slices:
  assumes "list_all2 is_subset ivs (ranges_of step_temperature_ins step_temperature_box)" "\<forall>vs. in_ranges ivs vs \<longrightarrow> step_temperature_valid vs"
  shows "\<forall>f \<in> snd ` set step_temperature_forms. slice_monotone ivs f"
  proof -
  obtain i1 i2 i3 i4 i5 i6 where ivs: "ivs = [i1, i2, i3, i4, i5, i6]"
    using assms(1) by (auto simp: step_temperature_ins_def ranges_of_def list_all2_Cons2)
  have v: "step_temperature_valid [a, b, c, d, e, g]" if "iv_contains i1 a" "iv_contains i2 b" "iv_contains i3 c" "iv_contains i4 d" "iv_contains i5 e" "iv_contains i6 g" for a b c d e g
    using assms(2) that by (simp add: ivs)
  have r: "in_ranges (ranges_of step_temperature_ins step_temperature_box) [a, b, c, d, e, g]" if "iv_contains i1 a" "iv_contains i2 b" "iv_contains i3 c" "iv_contains i4 d" "iv_contains i5 e" "iv_contains i6 g" for a b c d e g
    using in_ranges_subset [OF assms(1)] that by (simp add: ivs)
  note facts = v [unfolded step_temperature_valid_def, simplified] r [unfolded step_temperature_ins_def step_temperature_box_def ranges_of_def, simplified]
  show ?thesis
    using facts by (auto simp: step_temperature_forms_def ivs BI_MAX_def BIOT_BOX_def  intro!: slice_monotone_6 swing swings_saturation)
qed

interpretation step_temperature: formula_solver step_temperature_ins step_temperature_box step_temperature_valid step_temperature_forms "step_temperature fmt" for fmt
  by unfold_locales (rule step_temperature_answers | rule step_temperature_inside step_temperature_slices, assumption+ | simp add: ports_ok_def dict_ok_def step_temperature_ins_def step_temperature_box_def)+

lemma step_temperature_law:
  "keeps_law (module_direction H dumps step_temperature_args ''step_temperature'' (step_temperature fmt)) step_temperature_valid step_temperature_forms"
  unfolding step_temperature_args_def
  by (rule step_temperature.direction_law) (simp_all add: step_temperature_forms_def)

subsection \<open>\<open>time_to_threshold\<close>\<close>

definition time_to_threshold_valid :: "real list \<Rightarrow> bool" where
  "time_to_threshold_valid vs \<longleftrightarrow> vs ! 5 < BI_MAX \<and> 0 \<le> vs ! 5 \<and> 0 < vs ! 1 \<and> 0 < vs ! 2 \<and> 0 < vs ! 3 \<and> 0 < vs ! 4 - vs ! 0 \<and> vs ! 4 - vs ! 0 < vs ! 1 * vs ! 2"

definition time_to_threshold_forms :: "(string, real list \<Rightarrow> real) dict" where
  "time_to_threshold_forms =
     [(''heat.transient.time_to_threshold'', \<lambda>vs. - (vs ! 2 * vs ! 3) * ln (1 - (vs ! 4 - vs ! 0) / (vs ! 1 * vs ! 2)))]"

lemma time_to_threshold_answers: "computes (time_to_threshold fmt) time_to_threshold_ins time_to_threshold_box time_to_threshold_valid time_to_threshold_forms"
  by (rule computesI) (auto simp: time_to_threshold_def time_to_threshold_ins_def time_to_threshold_valid_def time_to_threshold_forms_def answer_simps reads_Nil reads_Cons Let_def reject_biot_def BI_MAX_def BIOT_BOX_def)

lemma time_to_threshold_inside:
  assumes "list_all2 is_subset ivs (ranges_of time_to_threshold_ins time_to_threshold_box)"
    "\<forall>vs. at_ends ivs vs \<longrightarrow> time_to_threshold_valid vs" "in_ranges ivs vs"
  shows "time_to_threshold_valid vs"
  proof -
  have r: "in_ranges (ranges_of time_to_threshold_ins time_to_threshold_box) vs" using assms(1,3) by (rule in_ranges_subset)
  have s0: "slice_monotone ivs (\<lambda>vs. (BI_MAX) - (vs ! 5))"
    by (rule slice_monotone_subset [OF assms(1)])
      (auto simp: time_to_threshold_ins_def time_to_threshold_box_def ranges_of_def BI_MAX_def BIOT_BOX_def intro!: slice_monotone_6 swing swings_log_approach)
  have g0: "0 < (BI_MAX) - (vs ! 5)"
    by (rule corners_pass [OF s0 assms(3)]) (use assms(2) in \<open>simp add: time_to_threshold_valid_def\<close>)
  have s1: "slice_monotone ivs (\<lambda>vs. (vs ! 1) - (0))"
    by (rule slice_monotone_subset [OF assms(1)])
      (auto simp: time_to_threshold_ins_def time_to_threshold_box_def ranges_of_def BI_MAX_def BIOT_BOX_def intro!: slice_monotone_6 swing swings_log_approach)
  have g1: "0 < (vs ! 1) - (0)"
    by (rule corners_pass [OF s1 assms(3)]) (use assms(2) in \<open>simp add: time_to_threshold_valid_def\<close>)
  have s2: "slice_monotone ivs (\<lambda>vs. (vs ! 4 - vs ! 0) - (0))"
    by (rule slice_monotone_subset [OF assms(1)])
      (auto simp: time_to_threshold_ins_def time_to_threshold_box_def ranges_of_def BI_MAX_def BIOT_BOX_def intro!: slice_monotone_6 swing swings_log_approach)
  have g2: "0 < (vs ! 4 - vs ! 0) - (0)"
    by (rule corners_pass [OF s2 assms(3)]) (use assms(2) in \<open>simp add: time_to_threshold_valid_def\<close>)
  have s3: "slice_monotone ivs (\<lambda>vs. (vs ! 1 * vs ! 2) - (vs ! 4 - vs ! 0))"
    by (rule slice_monotone_subset [OF assms(1)])
      (auto simp: time_to_threshold_ins_def time_to_threshold_box_def ranges_of_def BI_MAX_def BIOT_BOX_def intro!: slice_monotone_6 swing swings_log_approach)
  have g3: "0 < (vs ! 1 * vs ! 2) - (vs ! 4 - vs ! 0)"
    by (rule corners_pass [OF s3 assms(3)]) (use assms(2) in \<open>simp add: time_to_threshold_valid_def\<close>)
  show ?thesis
    using r g0 g1 g2 g3 by (auto simp: time_to_threshold_valid_def time_to_threshold_ins_def time_to_threshold_box_def ranges_of_def in_ranges_Cons BI_MAX_def BIOT_BOX_def)
qed

lemma time_to_threshold_slices:
  assumes "list_all2 is_subset ivs (ranges_of time_to_threshold_ins time_to_threshold_box)" "\<forall>vs. in_ranges ivs vs \<longrightarrow> time_to_threshold_valid vs"
  shows "\<forall>f \<in> snd ` set time_to_threshold_forms. slice_monotone ivs f"
  proof -
  obtain i1 i2 i3 i4 i5 i6 where ivs: "ivs = [i1, i2, i3, i4, i5, i6]"
    using assms(1) by (auto simp: time_to_threshold_ins_def ranges_of_def list_all2_Cons2)
  have v: "time_to_threshold_valid [a, b, c, d, e, g]" if "iv_contains i1 a" "iv_contains i2 b" "iv_contains i3 c" "iv_contains i4 d" "iv_contains i5 e" "iv_contains i6 g" for a b c d e g
    using assms(2) that by (simp add: ivs)
  have r: "in_ranges (ranges_of time_to_threshold_ins time_to_threshold_box) [a, b, c, d, e, g]" if "iv_contains i1 a" "iv_contains i2 b" "iv_contains i3 c" "iv_contains i4 d" "iv_contains i5 e" "iv_contains i6 g" for a b c d e g
    using in_ranges_subset [OF assms(1)] that by (simp add: ivs)
  note facts = v [unfolded time_to_threshold_valid_def, simplified] r [unfolded time_to_threshold_ins_def time_to_threshold_box_def ranges_of_def, simplified]
  show ?thesis
    using facts by (auto simp: time_to_threshold_forms_def ivs BI_MAX_def BIOT_BOX_def  intro!: slice_monotone_6 swing swings_log_approach)
qed

interpretation time_to_threshold: formula_solver time_to_threshold_ins time_to_threshold_box time_to_threshold_valid time_to_threshold_forms "time_to_threshold fmt" for fmt
  by unfold_locales (rule time_to_threshold_answers | rule time_to_threshold_inside time_to_threshold_slices, assumption+ | simp add: ports_ok_def dict_ok_def time_to_threshold_ins_def time_to_threshold_box_def)+

lemma time_to_threshold_law:
  "keeps_law (module_direction H dumps time_to_threshold_args ''time_to_threshold'' (time_to_threshold fmt)) time_to_threshold_valid time_to_threshold_forms"
  unfolding time_to_threshold_args_def
  by (rule time_to_threshold.direction_law) (simp_all add: time_to_threshold_forms_def)

subsection \<open>\<open>duty_cycle_peak_temperature\<close>\<close>

definition duty_cycle_peak_temperature_valid :: "real list \<Rightarrow> bool" where
  "duty_cycle_peak_temperature_valid vs \<longleftrightarrow> vs ! 6 < BI_MAX \<and> 0 \<le> vs ! 6 \<and> 0 \<le> vs ! 1 \<and> 0 < vs ! 2 \<and> 0 < vs ! 3 \<and> 0 \<le> vs ! 4 \<and> 0 \<le> vs ! 5 \<and> 0 < vs ! 4 + vs ! 5"

definition duty_cycle_peak_temperature_forms :: "(string, real list \<Rightarrow> real) dict" where
  "duty_cycle_peak_temperature_forms =
     [(''heat.transient.duty_peak_temperature'', \<lambda>vs. vs ! 0 + vs ! 1 * vs ! 2 * duty (vs ! 4) (vs ! 5) (vs ! 2 * vs ! 3))]"

lemma duty_cycle_peak_temperature_answers: "computes (duty_cycle_peak_temperature fmt) duty_cycle_peak_temperature_ins duty_cycle_peak_temperature_box duty_cycle_peak_temperature_valid duty_cycle_peak_temperature_forms"
  by (rule computesI) (auto simp: duty_cycle_peak_temperature_def duty_cycle_peak_temperature_ins_def duty_cycle_peak_temperature_valid_def duty_cycle_peak_temperature_forms_def answer_simps reads_Nil reads_Cons Let_def reject_biot_def BI_MAX_def BIOT_BOX_def duty_guard duty_form)

lemma duty_cycle_peak_temperature_inside:
  assumes "list_all2 is_subset ivs (ranges_of duty_cycle_peak_temperature_ins duty_cycle_peak_temperature_box)"
    "\<forall>vs. at_ends ivs vs \<longrightarrow> duty_cycle_peak_temperature_valid vs" "in_ranges ivs vs"
  shows "duty_cycle_peak_temperature_valid vs"
  proof -
  have r: "in_ranges (ranges_of duty_cycle_peak_temperature_ins duty_cycle_peak_temperature_box) vs" using assms(1,3) by (rule in_ranges_subset)
  have s0: "slice_monotone ivs (\<lambda>vs. (BI_MAX) - (vs ! 6))"
    by (rule slice_monotone_subset [OF assms(1)])
      (auto simp: duty_cycle_peak_temperature_ins_def duty_cycle_peak_temperature_box_def ranges_of_def BI_MAX_def BIOT_BOX_def intro!: slice_monotone_7 swing swings_duty_capacity swings_duty_resistance swings_duty_on swings_duty_off)
  have g0: "0 < (BI_MAX) - (vs ! 6)"
    by (rule corners_pass [OF s0 assms(3)]) (use assms(2) in \<open>simp add: duty_cycle_peak_temperature_valid_def\<close>)
  have s1: "slice_monotone ivs (\<lambda>vs. (vs ! 4 + vs ! 5) - (0))"
    by (rule slice_monotone_subset [OF assms(1)])
      (auto simp: duty_cycle_peak_temperature_ins_def duty_cycle_peak_temperature_box_def ranges_of_def BI_MAX_def BIOT_BOX_def intro!: slice_monotone_7 swing swings_duty_capacity swings_duty_resistance swings_duty_on swings_duty_off)
  have g1: "0 < (vs ! 4 + vs ! 5) - (0)"
    by (rule corners_pass [OF s1 assms(3)]) (use assms(2) in \<open>simp add: duty_cycle_peak_temperature_valid_def\<close>)
  show ?thesis
    using r g0 g1 by (auto simp: duty_cycle_peak_temperature_valid_def duty_cycle_peak_temperature_ins_def duty_cycle_peak_temperature_box_def ranges_of_def in_ranges_Cons BI_MAX_def BIOT_BOX_def)
qed

lemma duty_cycle_peak_temperature_slices:
  assumes "list_all2 is_subset ivs (ranges_of duty_cycle_peak_temperature_ins duty_cycle_peak_temperature_box)" "\<forall>vs. in_ranges ivs vs \<longrightarrow> duty_cycle_peak_temperature_valid vs"
  shows "\<forall>f \<in> snd ` set duty_cycle_peak_temperature_forms. slice_monotone ivs f"
  proof -
  obtain i1 i2 i3 i4 i5 i6 i7 where ivs: "ivs = [i1, i2, i3, i4, i5, i6, i7]"
    using assms(1) by (auto simp: duty_cycle_peak_temperature_ins_def ranges_of_def list_all2_Cons2)
  have v: "duty_cycle_peak_temperature_valid [a, b, c, d, e, g, h]" if "iv_contains i1 a" "iv_contains i2 b" "iv_contains i3 c" "iv_contains i4 d" "iv_contains i5 e" "iv_contains i6 g" "iv_contains i7 h" for a b c d e g h
    using assms(2) that by (simp add: ivs)
  have r: "in_ranges (ranges_of duty_cycle_peak_temperature_ins duty_cycle_peak_temperature_box) [a, b, c, d, e, g, h]" if "iv_contains i1 a" "iv_contains i2 b" "iv_contains i3 c" "iv_contains i4 d" "iv_contains i5 e" "iv_contains i6 g" "iv_contains i7 h" for a b c d e g h
    using in_ranges_subset [OF assms(1)] that by (simp add: ivs)
  note facts = v [unfolded duty_cycle_peak_temperature_valid_def, simplified] r [unfolded duty_cycle_peak_temperature_ins_def duty_cycle_peak_temperature_box_def ranges_of_def, simplified]
  show ?thesis
    using facts by (auto simp: duty_cycle_peak_temperature_forms_def ivs BI_MAX_def BIOT_BOX_def  intro!: slice_monotone_7 swing swings_duty_capacity swings_duty_resistance swings_duty_on swings_duty_off)
qed

interpretation duty_cycle_peak_temperature: formula_solver duty_cycle_peak_temperature_ins duty_cycle_peak_temperature_box duty_cycle_peak_temperature_valid duty_cycle_peak_temperature_forms "duty_cycle_peak_temperature fmt" for fmt
  by unfold_locales (rule duty_cycle_peak_temperature_answers | rule duty_cycle_peak_temperature_inside duty_cycle_peak_temperature_slices, assumption+ | simp add: ports_ok_def dict_ok_def duty_cycle_peak_temperature_ins_def duty_cycle_peak_temperature_box_def)+

lemma duty_cycle_peak_temperature_law:
  "keeps_law (module_direction H dumps duty_cycle_peak_temperature_args ''duty_cycle_peak_temperature'' (duty_cycle_peak_temperature fmt)) duty_cycle_peak_temperature_valid duty_cycle_peak_temperature_forms"
  unfolding duty_cycle_peak_temperature_args_def
  by (rule duty_cycle_peak_temperature.direction_law) (simp_all add: duty_cycle_peak_temperature_forms_def)

section \<open>The family\<close>

definition thermal_transient_directions ::
  "(json \<Rightarrow> string) \<Rightarrow> (json \<Rightarrow> string) \<Rightarrow> (string \<Rightarrow> real \<Rightarrow> string)
   \<Rightarrow> (solver_pair, registry_error) outcome list" where
  "thermal_transient_directions H dumps fmt =
     [module_direction H dumps biot_number_from_convection_args ''biot_number_from_convection'' (biot_number_from_convection fmt),
      module_direction H dumps step_temperature_args ''step_temperature'' (step_temperature fmt),
      module_direction H dumps time_to_threshold_args ''time_to_threshold'' (time_to_threshold fmt),
      module_direction H dumps duty_cycle_peak_temperature_args ''duty_cycle_peak_temperature'' (duty_cycle_peak_temperature fmt)]"

definition register_thermal_transient ::
  "(json \<Rightarrow> string) \<Rightarrow> (json \<Rightarrow> string) \<Rightarrow> (string \<Rightarrow> real \<Rightarrow> string)
   \<Rightarrow> registry \<Rightarrow> (unit, registry_error) outcome \<times> registry" where
  "register_thermal_transient H dumps fmt = register_family thermal_transient_PORT_DECLS (thermal_transient_directions H dumps fmt)"

definition thermal_transient_laws ::
  "(json \<Rightarrow> string) \<Rightarrow> (json \<Rightarrow> string) \<Rightarrow> (string \<Rightarrow> real \<Rightarrow> string)
   \<Rightarrow> ((solver_pair, registry_error) outcome \<times> (real list \<Rightarrow> bool) \<times> (string, real list \<Rightarrow> real) dict) list" where
  "thermal_transient_laws H dumps fmt =
     [(module_direction H dumps biot_number_from_convection_args ''biot_number_from_convection'' (biot_number_from_convection fmt), biot_number_from_convection_valid, biot_number_from_convection_forms),
      (module_direction H dumps step_temperature_args ''step_temperature'' (step_temperature fmt), step_temperature_valid, step_temperature_forms),
      (module_direction H dumps time_to_threshold_args ''time_to_threshold'' (time_to_threshold fmt), time_to_threshold_valid, time_to_threshold_forms),
      (module_direction H dumps duty_cycle_peak_temperature_args ''duty_cycle_peak_temperature'' (duty_cycle_peak_temperature fmt), duty_cycle_peak_temperature_valid, duty_cycle_peak_temperature_forms)]"

lemma thermal_transient_keep: "list_all (\<lambda>(d, valid, forms). keeps_law d valid forms) (thermal_transient_laws H dumps fmt)"
  by (simp add: thermal_transient_laws_def biot_number_from_convection_law step_temperature_law time_to_threshold_law duty_cycle_peak_temperature_law)

end
