(* ===== verification/Lib_Signal.thy ===== *)
theory Lib_Signal
  imports Catalog
begin

text \<open>
  Transmission lines and terminations (\<open>elec/signal_integrity.py\<close>).
\<close>

section \<open>Directions\<close>

definition ETA0 :: real where
  "ETA0 = (3767 / 10)"

definition MICROSTRIP_CITATIONS :: "citation list" where
  \<open>MICROSTRIP_CITATIONS =
     [\<lparr>ct_kind = ''handbook'', ct_ref = (''Wadell, B.C., Transmission Line Design Handbook, Artech House, 1991, eq. (2)/(3a)/(3b) (Hammerstad-Jensen closed form), as reproduced verbatim in Burkhardt, A.J., Gregg, C.S. & Staniforth, J.A., '' @ [CHR 0x22] @ ''Calculation of PCB Track Impedance'' @ [CHR 0x22] @ '', IPC Printed Circuit Expo 1999 (eq. (1)/(2)/(3)/(4)/(5), Table 1)''), ct_note = ''Quoted accuracy 2% for any er/w (Burkhardt 1999). This implementation's own agreement against Burkhardt 1999 Table 1's field-solver ('Numerical Method') column, t=35um, h=794um, er=4.2: w=450um -> -1.04%, w=1500um -> -0.77%, w=3300um -> -0.90% (see docs/benchmarks-memo.md sec. 13, and tests/unit/test_library_signal_integrity.py). The thickness correction dw=(t/pi)*(1+ln(2h/t)) (Hammerstad 1975, reproduced in Pozar, Microwave Engineering, sec. 3.8) fills the one intermediate term Burkhardt 1999 cites but does not transcribe (w'=w+dw, eq. (3c)).''\<rparr>]\<close>

definition MICROSTRIP_W_RANGE :: interval where
  "MICROSTRIP_W_RANGE = ivl (1 / 100000) (5 / 100)"

definition MICROSTRIP_H_RANGE :: interval where
  "MICROSTRIP_H_RANGE = ivl (1 / 100000) (5 / 100)"

definition MICROSTRIP_T_RANGE :: interval where
  "MICROSTRIP_T_RANGE = ivl (1 / 10 ^ 6) (2 / 10000)"

definition MICROSTRIP_ER_RANGE :: interval where
  "MICROSTRIP_ER_RANGE = ivl 2 12"

subsection \<open>\<open>microstrip_z0\<close>\<close>

definition microstrip_z0_box :: "(string, interval) dict" where
  "microstrip_z0_box =
     [(''elec.si.microstrip.w'', MICROSTRIP_W_RANGE),
      (''elec.si.microstrip.h'', MICROSTRIP_H_RANGE),
      (''elec.si.microstrip.t'', MICROSTRIP_T_RANGE),
      (''elec.si.microstrip.er'', MICROSTRIP_ER_RANGE)]"

definition microstrip_z0_ins :: "string list" where
  "microstrip_z0_ins = [''elec.si.microstrip.w'', ''elec.si.microstrip.h'', ''elec.si.microstrip.t'', ''elec.si.microstrip.er'']"

definition microstrip_z0_args :: build_args where
  \<open>microstrip_z0_args =
     solver_args ''elec.si'' microstrip_z0_ins
       [''elec.si.microstrip.z0'']
       microstrip_z0_box
       [''hammerstad_jensen'', ''surface_microstrip'', ''tem'']
       (1 / 10 ^ 7) (AccOne \<lparr>eps_abs = 0, eps_rel = (2 / 100)\<rparr>)
       MICROSTRIP_CITATIONS
       ''1''\<close>

definition microstrip_z0 :: "(string \<Rightarrow> real \<Rightarrow> string) \<Rightarrow> inputs \<Rightarrow> raw_return" where
  \<open>microstrip_z0 fmt x =
    (arg x ''elec.si.microstrip.w'' (\<lambda>w.
     arg x ''elec.si.microstrip.h'' (\<lambda>h.
     arg x ''elec.si.microstrip.t'' (\<lambda>t.
     arg x ''elec.si.microstrip.er'' (\<lambda>er.
     if w \<le> 0 \<or> h \<le> 0 \<or> t \<le> 0 \<or> er \<le> 0
     then out_of_domain (''microstrip_z0: non-positive w='' @ fmt ''r'' w @ '', h='' @ fmt ''r'' h @ '', t='' @ fmt ''r'' t @ '', or er='' @ fmt ''r'' er @ '' -- cannot form a microstrip impedance'')
     else
     py_div (2 * h) t (\<lambda>t5.
     py_ln t5 (\<lambda>t6.
     let dw = t / pi * (1 + t6) in
     let wp = w + dw in
     if wp \<le> 0
     then out_of_domain (''microstrip_z0: corrected width w'='' @ fmt ''r'' wp @ '' non-positive (w='' @ fmt ''r'' w @ '', dw='' @ fmt ''r'' dw @ '')'')
     else
     py_div 8 er (\<lambda>t7.
     py_div (4 * h) wp (\<lambda>t8.
     let a = (14 + t7) / 11 * t8 in
     py_div 1 er (\<lambda>t9.
     py_sqrt (a ^ 2 + (1 + t9) / 2 * pi ^ 2) (\<lambda>b.
     py_sqrt 2 (\<lambda>t11.
     py_sqrt (er + 1) (\<lambda>t12.
     py_div ETA0 (2 * t11 * pi * t12) (\<lambda>t13.
     py_div (4 * h) wp (\<lambda>t14.
     py_ln (1 + t14 * (a + b)) (\<lambda>t15.
     let z0 = t13 * t15 in
     ok_values [(''elec.si.microstrip.z0'', z0)]))))))))))))))))\<close>

definition STRIPLINE_CITATIONS :: "citation list" where
  \<open>STRIPLINE_CITATIONS =
     [\<lparr>ct_kind = ''standard'', ct_ref = (''Cohn, S.B., '' @ [CHR 0x22] @ ''Characteristic Impedance of the Shielded-Strip Transmission Line'' @ [CHR 0x22] @ '', IRE Trans. MTT-2, July 1954, pp52-57, eq. (4)/(5a)/(5b) (exact, zero-thickness, centred track), as reproduced in Burkhardt, A.J., Gregg, C.S. & Staniforth, J.A., '' @ [CHR 0x22] @ ''Calculation of PCB Track Impedance'' @ [CHR 0x22] @ '', IPC Printed Circuit Expo 1999 (eq. (1)/(2)/(3)/(4)/(5), Table 1)''), ct_note = (''Exact analytic result (not a curve fit), same calibration tier as member_capacity.py's euler_critical_buckling_load: cited to origin, verified by identity (k^2+k'^2=1) and monotonicity, not a numeric-table fit. The K(k)/K(k') elliptic ratio uses Hilberg, W., '' @ [CHR 0x22] @ ''From Approximations to Exact Relations for Characteristic Impedances'' @ [CHR 0x22] @ '', IEEE Trans. MTT-17 No 5, May 1969, pp259-265's closed-form approximation, which Burkhardt 1999 states is accurate to 10-12 relative to the true ratio -- the only approximation in this direction is that bounded-error one.'')\<rparr>]\<close>

definition STRIPLINE_W_RANGE :: interval where
  "STRIPLINE_W_RANGE = ivl (1 / 10 ^ 6) (5 / 100)"

definition STRIPLINE_B_RANGE :: interval where
  "STRIPLINE_B_RANGE = ivl (1 / 100000) (5 / 100)"

definition STRIPLINE_ER_RANGE :: interval where
  "STRIPLINE_ER_RANGE = ivl 2 12"

definition elliptic_ratio :: "real \<Rightarrow> (real \<Rightarrow> raw_return) \<Rightarrow> raw_return" where
  \<open>elliptic_ratio k ret =
    (py_sqrt (max 0 (1 - k ^ 2)) (\<lambda>kc.
     py_sqrt 2 (\<lambda>t2.
     py_div 1 t2 (\<lambda>t3.
     if k \<le> t3
     then (py_sqrt kc (\<lambda>t4.
         py_sqrt kc (\<lambda>t5.
         py_div (2 * (1 + t4)) (1 - t5) (\<lambda>t6.
         py_ln t6 (\<lambda>t7.
         py_div pi t7 (\<lambda>t8.
         ret t8))))))
     else
     py_sqrt k (\<lambda>t9.
     py_sqrt k (\<lambda>t10.
     py_div (2 * (1 + t9)) (1 - t10) (\<lambda>t11.
     py_ln t11 (\<lambda>t12.
     ret (1 / pi * t12)))))))))\<close>

subsection \<open>\<open>stripline_z0\<close>\<close>

definition stripline_z0_box :: "(string, interval) dict" where
  "stripline_z0_box =
     [(''elec.si.stripline.w'', STRIPLINE_W_RANGE),
      (''elec.si.stripline.b'', STRIPLINE_B_RANGE),
      (''elec.si.stripline.er'', STRIPLINE_ER_RANGE)]"

definition stripline_z0_ins :: "string list" where
  "stripline_z0_ins = [''elec.si.stripline.w'', ''elec.si.stripline.b'', ''elec.si.stripline.er'']"

definition stripline_z0_args :: build_args where
  \<open>stripline_z0_args =
     solver_args ''elec.si'' stripline_z0_ins
       [''elec.si.stripline.z0'']
       stripline_z0_box
       [''centred_track'', ''symmetric_stripline'', ''tem'', ''zero_thickness'']
       (1 / 10 ^ 7) (AccOne EXACT)
       STRIPLINE_CITATIONS
       ''1''\<close>

definition stripline_z0 :: "(string \<Rightarrow> real \<Rightarrow> string) \<Rightarrow> inputs \<Rightarrow> raw_return" where
  \<open>stripline_z0 fmt x =
    (arg x ''elec.si.stripline.w'' (\<lambda>w.
     arg x ''elec.si.stripline.b'' (\<lambda>b.
     arg x ''elec.si.stripline.er'' (\<lambda>er.
     if w \<le> 0 \<or> b \<le> 0 \<or> er \<le> 0
     then out_of_domain (''stripline_z0: non-positive w='' @ fmt ''r'' w @ '', b='' @ fmt ''r'' b @ '', or er='' @ fmt ''r'' er @ '' -- cannot form a stripline impedance'')
     else
     py_div (pi * w) (2 * b) (\<lambda>t4.
     py_div 1 (cosh t4) (\<lambda>k.
     elliptic_ratio k (\<lambda>ratio.
     py_sqrt er (\<lambda>t7.
     py_div ETA0 (4 * t7) (\<lambda>t8.
     let z0 = t8 * ratio in
     ok_values [(''elec.si.stripline.z0'', z0)])))))))))\<close>

definition SERIES_TERM_CITATIONS :: "citation list" where
  \<open>SERIES_TERM_CITATIONS =
     [\<lparr>ct_kind = ''handbook'', ct_ref = (''Johnson, H. & Graham, M., High-Speed Digital Design: A Handbook of Black Magic, Prentice Hall, 1993, ch. 4, '' @ [CHR 0x22] @ ''Source (Series) Termination'' @ [CHR 0x22]), ct_note = ''Exact algebra (Rs=Z0-Ro), calibrated by hand-derivation (matched-line condition Ro+Rs=Z0), same tier as pack.models.MechStiffnessModel's exact-algebra calibration.''\<rparr>]\<close>

definition TERM_Z0_RANGE :: interval where
  "TERM_Z0_RANGE = ivl 1 500"

definition TERM_R_RANGE :: interval where
  "TERM_R_RANGE = ivl 0 500"

subsection \<open>\<open>series_termination\<close>\<close>

definition series_termination_box :: "(string, interval) dict" where
  "series_termination_box =
     [(''elec.si.series_termination.z0'', TERM_Z0_RANGE),
      (''elec.si.series_termination.ro'', TERM_R_RANGE)]"

definition series_termination_ins :: "string list" where
  "series_termination_ins = [''elec.si.series_termination.z0'', ''elec.si.series_termination.ro'']"

definition series_termination_args :: build_args where
  \<open>series_termination_args =
     solver_args ''elec.si'' series_termination_ins
       [''elec.si.series_termination.rs'']
       series_termination_box
       [''matched_line'', ''source_series'']
       (1 / 10 ^ 7) (AccOne EXACT)
       SERIES_TERM_CITATIONS
       ''1''\<close>

definition series_termination :: "(string \<Rightarrow> real \<Rightarrow> string) \<Rightarrow> inputs \<Rightarrow> raw_return" where
  \<open>series_termination fmt x =
    (arg x ''elec.si.series_termination.z0'' (\<lambda>z0.
     arg x ''elec.si.series_termination.ro'' (\<lambda>ro.
     if z0 \<le> 0 \<or> ro < 0
     then out_of_domain (''series_termination: non-positive z0='' @ fmt ''r'' z0 @ '' or negative ro='' @ fmt ''r'' ro)
     else
     let rs = z0 - ro in
     if rs < 0
     then out_of_domain (''series_termination: ro='' @ fmt ''r'' ro @ '' exceeds z0='' @ fmt ''r'' z0 @ '' -- no non-negative series resistor matches the line'')
     else
     ok_values [(''elec.si.series_termination.rs'', rs)])))\<close>

definition THEVENIN_CITATIONS :: "citation list" where
  \<open>THEVENIN_CITATIONS =
     [\<lparr>ct_kind = ''handbook'', ct_ref = (''Johnson, H. & Graham, M., High-Speed Digital Design: A Handbook of Black Magic, Prentice Hall, 1993, ch. 4, '' @ [CHR 0x22] @ ''Thevenin (Parallel) Termination'' @ [CHR 0x22]), ct_note = ''Exact algebra from Kirchhoff's current law at the Thevenin node: R1=Z0*Vcc/Vbias, R2=Z0*Vcc/(Vcc-Vbias) (solved from R1||R2=Z0 and the R2/(R1+R2)=Vbias/Vcc divider condition), calibrated by hand-derivation, same tier as series_termination above.''\<rparr>]\<close>

definition TERM_V_RANGE :: interval where
  "TERM_V_RANGE = ivl (1 / 100) 20"

subsection \<open>\<open>thevenin_termination_r1\<close>\<close>

definition thevenin_termination_r1_box :: "(string, interval) dict" where
  "thevenin_termination_r1_box =
     [(''elec.si.thevenin_termination.z0'', TERM_Z0_RANGE),
      (''elec.si.thevenin_termination.vcc'', TERM_V_RANGE),
      (''elec.si.thevenin_termination.vbias'', TERM_V_RANGE)]"

definition thevenin_termination_r1_ins :: "string list" where
  "thevenin_termination_r1_ins = [''elec.si.thevenin_termination.z0'', ''elec.si.thevenin_termination.vcc'', ''elec.si.thevenin_termination.vbias'']"

definition thevenin_termination_r1_args :: build_args where
  \<open>thevenin_termination_r1_args =
     solver_args ''elec.si'' thevenin_termination_r1_ins
       [''elec.si.thevenin_termination.r1'']
       thevenin_termination_r1_box
       [''matched_line'', ''thevenin_parallel'']
       (1 / 10 ^ 7) (AccOne EXACT)
       THEVENIN_CITATIONS
       ''1''\<close>

definition thevenin_termination_r1 :: "(string \<Rightarrow> real \<Rightarrow> string) \<Rightarrow> inputs \<Rightarrow> raw_return" where
  \<open>thevenin_termination_r1 fmt x =
    (arg x ''elec.si.thevenin_termination.z0'' (\<lambda>z0.
     arg x ''elec.si.thevenin_termination.vcc'' (\<lambda>vcc.
     arg x ''elec.si.thevenin_termination.vbias'' (\<lambda>vbias.
     if z0 \<le> 0 \<or> vcc \<le> 0 \<or> vbias \<le> 0 \<or> vcc \<le> vbias
     then out_of_domain (''thevenin_termination_r1: z0='' @ fmt ''r'' z0 @ '', vcc='' @ fmt ''r'' vcc @ '', vbias='' @ fmt ''r'' vbias @ '' -- vbias must lie strictly in (0, vcc)'')
     else
     py_div (z0 * vcc) vbias (\<lambda>r1.
     ok_values [(''elec.si.thevenin_termination.r1'', r1)])))))\<close>

subsection \<open>\<open>thevenin_termination_r2\<close>\<close>

definition thevenin_termination_r2_box :: "(string, interval) dict" where
  "thevenin_termination_r2_box =
     [(''elec.si.thevenin_termination.z0'', TERM_Z0_RANGE),
      (''elec.si.thevenin_termination.vcc'', TERM_V_RANGE),
      (''elec.si.thevenin_termination.vbias'', TERM_V_RANGE)]"

definition thevenin_termination_r2_ins :: "string list" where
  "thevenin_termination_r2_ins = [''elec.si.thevenin_termination.z0'', ''elec.si.thevenin_termination.vcc'', ''elec.si.thevenin_termination.vbias'']"

definition thevenin_termination_r2_args :: build_args where
  \<open>thevenin_termination_r2_args =
     solver_args ''elec.si'' thevenin_termination_r2_ins
       [''elec.si.thevenin_termination.r2'']
       thevenin_termination_r2_box
       [''matched_line'', ''thevenin_parallel'']
       (1 / 10 ^ 7) (AccOne EXACT)
       THEVENIN_CITATIONS
       ''1''\<close>

definition thevenin_termination_r2 :: "(string \<Rightarrow> real \<Rightarrow> string) \<Rightarrow> inputs \<Rightarrow> raw_return" where
  \<open>thevenin_termination_r2 fmt x =
    (arg x ''elec.si.thevenin_termination.z0'' (\<lambda>z0.
     arg x ''elec.si.thevenin_termination.vcc'' (\<lambda>vcc.
     arg x ''elec.si.thevenin_termination.vbias'' (\<lambda>vbias.
     if z0 \<le> 0 \<or> vcc \<le> 0 \<or> vbias \<le> 0 \<or> vcc \<le> vbias
     then out_of_domain (''thevenin_termination_r2: z0='' @ fmt ''r'' z0 @ '', vcc='' @ fmt ''r'' vcc @ '', vbias='' @ fmt ''r'' vbias @ '' -- vbias must lie strictly in (0, vcc)'')
     else
     py_div (z0 * vcc) (vcc - vbias) (\<lambda>r2.
     ok_values [(''elec.si.thevenin_termination.r2'', r2)])))))\<close>

definition AC_SHUNT_R_CITATIONS :: "citation list" where
  \<open>AC_SHUNT_R_CITATIONS =
     [\<lparr>ct_kind = ''handbook'', ct_ref = (''Johnson, H. & Graham, M., High-Speed Digital Design: A Handbook of Black Magic, Prentice Hall, 1993, ch. 4, '' @ [CHR 0x22] @ ''AC (RC) Termination'' @ [CHR 0x22]), ct_note = ''R sized to Z0 (the matched-shunt condition), exact algebra.''\<rparr>]\<close>

definition AC_SHUNT_C_CITATIONS :: "citation list" where
  \<open>AC_SHUNT_C_CITATIONS =
     [\<lparr>ct_kind = ''handbook'', ct_ref = (''Johnson, H. & Graham, M., High-Speed Digital Design: A Handbook of Black Magic, Prentice Hall, 1993, ch. 4, '' @ [CHR 0x22] @ ''AC (RC) Termination'' @ [CHR 0x22]), ct_note = ''NAMED HEURISTIC, not an exact law: Johnson & Graham describe keeping the RC time constant well under the signal rise time (their own quoted range spans roughly tr/5..tr/2 depending on ringing tolerance); this direction bakes the tr/4 midpoint. The declared error band is correspondingly wide (order-of-magnitude sizing aid) -- documented honestly rather than presented as a tight physical result.''\<rparr>]\<close>

definition RISE_TIME_RANGE :: interval where
  "RISE_TIME_RANGE = ivl (1 / 10 ^ 11) (1 / 10 ^ 6)"

subsection \<open>\<open>ac_shunt_sizing_r\<close>\<close>

definition ac_shunt_sizing_r_box :: "(string, interval) dict" where
  "ac_shunt_sizing_r_box =
     [(''elec.si.ac_shunt.z0'', TERM_Z0_RANGE)]"

definition ac_shunt_sizing_r_ins :: "string list" where
  "ac_shunt_sizing_r_ins = [''elec.si.ac_shunt.z0'']"

definition ac_shunt_sizing_r_args :: build_args where
  \<open>ac_shunt_sizing_r_args =
     solver_args ''elec.si'' ac_shunt_sizing_r_ins
       [''elec.si.ac_shunt.r'']
       ac_shunt_sizing_r_box
       [''ac_shunt'']
       (1 / 10 ^ 7) (AccOne EXACT)
       AC_SHUNT_R_CITATIONS
       ''1''\<close>

definition ac_shunt_sizing_r :: "(string \<Rightarrow> real \<Rightarrow> string) \<Rightarrow> inputs \<Rightarrow> raw_return" where
  \<open>ac_shunt_sizing_r fmt x =
    (arg x ''elec.si.ac_shunt.z0'' (\<lambda>z0.
     if z0 \<le> 0
     then out_of_domain (''ac_shunt_sizing_r: non-positive z0='' @ fmt ''r'' z0)
     else
     ok_values [(''elec.si.ac_shunt.r'', z0)]))\<close>

subsection \<open>\<open>ac_shunt_sizing_c\<close>\<close>

definition ac_shunt_sizing_c_box :: "(string, interval) dict" where
  "ac_shunt_sizing_c_box =
     [(''elec.si.ac_shunt.rise_time'', RISE_TIME_RANGE),
      (''elec.si.ac_shunt.r'', TERM_Z0_RANGE)]"

definition ac_shunt_sizing_c_ins :: "string list" where
  "ac_shunt_sizing_c_ins = [''elec.si.ac_shunt.rise_time'', ''elec.si.ac_shunt.r'']"

definition ac_shunt_sizing_c_args :: build_args where
  \<open>ac_shunt_sizing_c_args =
     solver_args ''elec.si'' ac_shunt_sizing_c_ins
       [''elec.si.ac_shunt.c'']
       ac_shunt_sizing_c_box
       [''ac_shunt'', ''quarter_rise_time_heuristic'']
       (1 / 10 ^ 7) (AccOne \<lparr>eps_abs = 0, eps_rel = 1\<rparr>)
       AC_SHUNT_C_CITATIONS
       ''1''\<close>

definition ac_shunt_sizing_c :: "(string \<Rightarrow> real \<Rightarrow> string) \<Rightarrow> inputs \<Rightarrow> raw_return" where
  \<open>ac_shunt_sizing_c fmt x =
    (arg x ''elec.si.ac_shunt.rise_time'' (\<lambda>tr.
     arg x ''elec.si.ac_shunt.r'' (\<lambda>r.
     if tr \<le> 0 \<or> r \<le> 0
     then out_of_domain (''ac_shunt_sizing_c: non-positive rise_time='' @ fmt ''r'' tr @ '' or r='' @ fmt ''r'' r)
     else
     py_div tr (4 * r) (\<lambda>c.
     ok_values [(''elec.si.ac_shunt.c'', c)]))))\<close>

definition signal_integrity_PORT_DECLS :: "port_decl list" where
  "signal_integrity_PORT_DECLS =
     [scalar_port ''elec.si.microstrip.w'' ''m'',
      scalar_port ''elec.si.microstrip.h'' ''m'',
      scalar_port ''elec.si.microstrip.t'' ''m'',
      scalar_port ''elec.si.microstrip.er'' ''1'',
      scalar_port ''elec.si.microstrip.z0'' ''Ohm'',
      scalar_port ''elec.si.stripline.w'' ''m'',
      scalar_port ''elec.si.stripline.b'' ''m'',
      scalar_port ''elec.si.stripline.er'' ''1'',
      scalar_port ''elec.si.stripline.z0'' ''Ohm'',
      scalar_port ''elec.si.series_termination.z0'' ''Ohm'',
      scalar_port ''elec.si.series_termination.ro'' ''Ohm'',
      scalar_port ''elec.si.series_termination.rs'' ''Ohm'',
      scalar_port ''elec.si.thevenin_termination.z0'' ''Ohm'',
      scalar_port ''elec.si.thevenin_termination.vcc'' ''V'',
      scalar_port ''elec.si.thevenin_termination.vbias'' ''V'',
      scalar_port ''elec.si.thevenin_termination.r1'' ''Ohm'',
      scalar_port ''elec.si.thevenin_termination.r2'' ''Ohm'',
      scalar_port ''elec.si.ac_shunt.z0'' ''Ohm'',
      scalar_port ''elec.si.ac_shunt.r'' ''Ohm'',
      scalar_port ''elec.si.ac_shunt.rise_time'' ''s'',
      scalar_port ''elec.si.ac_shunt.c'' ''F'']"

section \<open>What the directions compute\<close>

subsection \<open>\<open>series_termination\<close>\<close>

definition series_termination_valid :: "real list \<Rightarrow> bool" where
  "series_termination_valid vs \<longleftrightarrow> 0 < vs ! 0 \<and> 0 \<le> vs ! 1 \<and> 0 \<le> vs ! 0 - vs ! 1"

definition series_termination_forms :: "(string, real list \<Rightarrow> real) dict" where
  "series_termination_forms =
     [(''elec.si.series_termination.rs'', \<lambda>vs. vs ! 0 - vs ! 1)]"

lemma series_termination_answers: "computes (series_termination fmt) series_termination_ins series_termination_box series_termination_valid series_termination_forms"
  by (rule computesI) (auto simp: series_termination_def series_termination_ins_def series_termination_valid_def series_termination_forms_def answer_simps reads_Nil reads_Cons Let_def elliptic_ratio_def ETA0_def MICROSTRIP_W_RANGE_def MICROSTRIP_H_RANGE_def MICROSTRIP_T_RANGE_def MICROSTRIP_ER_RANGE_def STRIPLINE_W_RANGE_def STRIPLINE_B_RANGE_def STRIPLINE_ER_RANGE_def TERM_Z0_RANGE_def TERM_R_RANGE_def TERM_V_RANGE_def RISE_TIME_RANGE_def)

lemma series_termination_inside:
  assumes "list_all2 is_subset ivs (ranges_of series_termination_ins series_termination_box)"
    "\<forall>vs. at_ends ivs vs \<longrightarrow> series_termination_valid vs" "in_ranges ivs vs"
  shows "series_termination_valid vs"
  proof -
  have r: "in_ranges (ranges_of series_termination_ins series_termination_box) vs" using assms(1,3) by (rule in_ranges_subset)
  have s0: "slice_monotone ivs (\<lambda>vs. (vs ! 0 - vs ! 1) - (0))"
    by (rule slice_monotone_subset [OF assms(1)])
      (auto simp: series_termination_ins_def series_termination_box_def ranges_of_def ETA0_def MICROSTRIP_W_RANGE_def MICROSTRIP_H_RANGE_def MICROSTRIP_T_RANGE_def MICROSTRIP_ER_RANGE_def STRIPLINE_W_RANGE_def STRIPLINE_B_RANGE_def STRIPLINE_ER_RANGE_def TERM_Z0_RANGE_def TERM_R_RANGE_def TERM_V_RANGE_def RISE_TIME_RANGE_def intro!: slice_monotone_2 swing)
  have g0: "0 \<le> (vs ! 0 - vs ! 1) - (0)"
    by (rule corners_pass_le [OF s0 assms(3)]) (use assms(2) in \<open>simp add: series_termination_valid_def\<close>)
  show ?thesis
    using r g0 by (auto simp: series_termination_valid_def series_termination_ins_def series_termination_box_def ranges_of_def in_ranges_Cons ETA0_def MICROSTRIP_W_RANGE_def MICROSTRIP_H_RANGE_def MICROSTRIP_T_RANGE_def MICROSTRIP_ER_RANGE_def STRIPLINE_W_RANGE_def STRIPLINE_B_RANGE_def STRIPLINE_ER_RANGE_def TERM_Z0_RANGE_def TERM_R_RANGE_def TERM_V_RANGE_def RISE_TIME_RANGE_def)
qed

lemma series_termination_slices:
  assumes "list_all2 is_subset ivs (ranges_of series_termination_ins series_termination_box)" "\<forall>vs. in_ranges ivs vs \<longrightarrow> series_termination_valid vs"
  shows "\<forall>f \<in> snd ` set series_termination_forms. slice_monotone ivs f"
  by (auto simp: series_termination_forms_def series_termination_ins_def series_termination_box_def ranges_of_def ETA0_def MICROSTRIP_W_RANGE_def MICROSTRIP_H_RANGE_def MICROSTRIP_T_RANGE_def MICROSTRIP_ER_RANGE_def STRIPLINE_W_RANGE_def STRIPLINE_B_RANGE_def STRIPLINE_ER_RANGE_def TERM_Z0_RANGE_def TERM_R_RANGE_def TERM_V_RANGE_def RISE_TIME_RANGE_def 
      intro!: slice_monotone_subset [OF assms(1)] slice_monotone_2 swing)

interpretation series_termination: formula_solver series_termination_ins series_termination_box series_termination_valid series_termination_forms "series_termination fmt" for fmt
  by unfold_locales (rule series_termination_answers | rule series_termination_inside series_termination_slices, assumption+ | simp add: ports_ok_def dict_ok_def series_termination_ins_def series_termination_box_def)+

lemma series_termination_law:
  "keeps_law (module_direction H dumps series_termination_args ''series_termination'' (series_termination fmt)) series_termination_valid series_termination_forms"
  unfolding series_termination_args_def
  by (rule series_termination.direction_law) (simp_all add: series_termination_forms_def)

subsection \<open>\<open>thevenin_termination_r1\<close>\<close>

definition thevenin_termination_r1_valid :: "real list \<Rightarrow> bool" where
  "thevenin_termination_r1_valid vs \<longleftrightarrow> 0 < vs ! 0 \<and> 0 < vs ! 1 \<and> 0 < vs ! 2 \<and> vs ! 2 < vs ! 1"

definition thevenin_termination_r1_forms :: "(string, real list \<Rightarrow> real) dict" where
  "thevenin_termination_r1_forms =
     [(''elec.si.thevenin_termination.r1'', \<lambda>vs. vs ! 0 * vs ! 1 / vs ! 2)]"

lemma thevenin_termination_r1_answers: "computes (thevenin_termination_r1 fmt) thevenin_termination_r1_ins thevenin_termination_r1_box thevenin_termination_r1_valid thevenin_termination_r1_forms"
  by (rule computesI) (auto simp: thevenin_termination_r1_def thevenin_termination_r1_ins_def thevenin_termination_r1_valid_def thevenin_termination_r1_forms_def answer_simps reads_Nil reads_Cons Let_def elliptic_ratio_def ETA0_def MICROSTRIP_W_RANGE_def MICROSTRIP_H_RANGE_def MICROSTRIP_T_RANGE_def MICROSTRIP_ER_RANGE_def STRIPLINE_W_RANGE_def STRIPLINE_B_RANGE_def STRIPLINE_ER_RANGE_def TERM_Z0_RANGE_def TERM_R_RANGE_def TERM_V_RANGE_def RISE_TIME_RANGE_def)

lemma thevenin_termination_r1_inside:
  assumes "list_all2 is_subset ivs (ranges_of thevenin_termination_r1_ins thevenin_termination_r1_box)"
    "\<forall>vs. at_ends ivs vs \<longrightarrow> thevenin_termination_r1_valid vs" "in_ranges ivs vs"
  shows "thevenin_termination_r1_valid vs"
  proof -
  have r: "in_ranges (ranges_of thevenin_termination_r1_ins thevenin_termination_r1_box) vs" using assms(1,3) by (rule in_ranges_subset)
  have s0: "slice_monotone ivs (\<lambda>vs. (vs ! 1) - (vs ! 2))"
    by (rule slice_monotone_subset [OF assms(1)])
      (auto simp: thevenin_termination_r1_ins_def thevenin_termination_r1_box_def ranges_of_def ETA0_def MICROSTRIP_W_RANGE_def MICROSTRIP_H_RANGE_def MICROSTRIP_T_RANGE_def MICROSTRIP_ER_RANGE_def STRIPLINE_W_RANGE_def STRIPLINE_B_RANGE_def STRIPLINE_ER_RANGE_def TERM_Z0_RANGE_def TERM_R_RANGE_def TERM_V_RANGE_def RISE_TIME_RANGE_def intro!: slice_monotone_3 swing)
  have g0: "0 < (vs ! 1) - (vs ! 2)"
    by (rule corners_pass [OF s0 assms(3)]) (use assms(2) in \<open>simp add: thevenin_termination_r1_valid_def\<close>)
  show ?thesis
    using r g0 by (auto simp: thevenin_termination_r1_valid_def thevenin_termination_r1_ins_def thevenin_termination_r1_box_def ranges_of_def in_ranges_Cons ETA0_def MICROSTRIP_W_RANGE_def MICROSTRIP_H_RANGE_def MICROSTRIP_T_RANGE_def MICROSTRIP_ER_RANGE_def STRIPLINE_W_RANGE_def STRIPLINE_B_RANGE_def STRIPLINE_ER_RANGE_def TERM_Z0_RANGE_def TERM_R_RANGE_def TERM_V_RANGE_def RISE_TIME_RANGE_def)
qed

lemma thevenin_termination_r1_slices:
  assumes "list_all2 is_subset ivs (ranges_of thevenin_termination_r1_ins thevenin_termination_r1_box)" "\<forall>vs. in_ranges ivs vs \<longrightarrow> thevenin_termination_r1_valid vs"
  shows "\<forall>f \<in> snd ` set thevenin_termination_r1_forms. slice_monotone ivs f"
  by (auto simp: thevenin_termination_r1_forms_def thevenin_termination_r1_ins_def thevenin_termination_r1_box_def ranges_of_def ETA0_def MICROSTRIP_W_RANGE_def MICROSTRIP_H_RANGE_def MICROSTRIP_T_RANGE_def MICROSTRIP_ER_RANGE_def STRIPLINE_W_RANGE_def STRIPLINE_B_RANGE_def STRIPLINE_ER_RANGE_def TERM_Z0_RANGE_def TERM_R_RANGE_def TERM_V_RANGE_def RISE_TIME_RANGE_def 
      intro!: slice_monotone_subset [OF assms(1)] slice_monotone_3 swing)

interpretation thevenin_termination_r1: formula_solver thevenin_termination_r1_ins thevenin_termination_r1_box thevenin_termination_r1_valid thevenin_termination_r1_forms "thevenin_termination_r1 fmt" for fmt
  by unfold_locales (rule thevenin_termination_r1_answers | rule thevenin_termination_r1_inside thevenin_termination_r1_slices, assumption+ | simp add: ports_ok_def dict_ok_def thevenin_termination_r1_ins_def thevenin_termination_r1_box_def)+

lemma thevenin_termination_r1_law:
  "keeps_law (module_direction H dumps thevenin_termination_r1_args ''thevenin_termination_r1'' (thevenin_termination_r1 fmt)) thevenin_termination_r1_valid thevenin_termination_r1_forms"
  unfolding thevenin_termination_r1_args_def
  by (rule thevenin_termination_r1.direction_law) (simp_all add: thevenin_termination_r1_forms_def)

subsection \<open>\<open>thevenin_termination_r2\<close>\<close>

definition thevenin_termination_r2_valid :: "real list \<Rightarrow> bool" where
  "thevenin_termination_r2_valid vs \<longleftrightarrow> 0 < vs ! 0 \<and> 0 < vs ! 1 \<and> 0 < vs ! 2 \<and> vs ! 2 < vs ! 1"

definition thevenin_termination_r2_forms :: "(string, real list \<Rightarrow> real) dict" where
  "thevenin_termination_r2_forms =
     [(''elec.si.thevenin_termination.r2'', \<lambda>vs. vs ! 0 * vs ! 1 / (vs ! 1 - vs ! 2))]"

lemma thevenin_termination_r2_answers: "computes (thevenin_termination_r2 fmt) thevenin_termination_r2_ins thevenin_termination_r2_box thevenin_termination_r2_valid thevenin_termination_r2_forms"
  by (rule computesI) (auto simp: thevenin_termination_r2_def thevenin_termination_r2_ins_def thevenin_termination_r2_valid_def thevenin_termination_r2_forms_def answer_simps reads_Nil reads_Cons Let_def elliptic_ratio_def ETA0_def MICROSTRIP_W_RANGE_def MICROSTRIP_H_RANGE_def MICROSTRIP_T_RANGE_def MICROSTRIP_ER_RANGE_def STRIPLINE_W_RANGE_def STRIPLINE_B_RANGE_def STRIPLINE_ER_RANGE_def TERM_Z0_RANGE_def TERM_R_RANGE_def TERM_V_RANGE_def RISE_TIME_RANGE_def)

lemma thevenin_termination_r2_inside:
  assumes "list_all2 is_subset ivs (ranges_of thevenin_termination_r2_ins thevenin_termination_r2_box)"
    "\<forall>vs. at_ends ivs vs \<longrightarrow> thevenin_termination_r2_valid vs" "in_ranges ivs vs"
  shows "thevenin_termination_r2_valid vs"
  proof -
  have r: "in_ranges (ranges_of thevenin_termination_r2_ins thevenin_termination_r2_box) vs" using assms(1,3) by (rule in_ranges_subset)
  have s0: "slice_monotone ivs (\<lambda>vs. (vs ! 1) - (vs ! 2))"
    by (rule slice_monotone_subset [OF assms(1)])
      (auto simp: thevenin_termination_r2_ins_def thevenin_termination_r2_box_def ranges_of_def ETA0_def MICROSTRIP_W_RANGE_def MICROSTRIP_H_RANGE_def MICROSTRIP_T_RANGE_def MICROSTRIP_ER_RANGE_def STRIPLINE_W_RANGE_def STRIPLINE_B_RANGE_def STRIPLINE_ER_RANGE_def TERM_Z0_RANGE_def TERM_R_RANGE_def TERM_V_RANGE_def RISE_TIME_RANGE_def intro!: slice_monotone_3 swing)
  have g0: "0 < (vs ! 1) - (vs ! 2)"
    by (rule corners_pass [OF s0 assms(3)]) (use assms(2) in \<open>simp add: thevenin_termination_r2_valid_def\<close>)
  show ?thesis
    using r g0 by (auto simp: thevenin_termination_r2_valid_def thevenin_termination_r2_ins_def thevenin_termination_r2_box_def ranges_of_def in_ranges_Cons ETA0_def MICROSTRIP_W_RANGE_def MICROSTRIP_H_RANGE_def MICROSTRIP_T_RANGE_def MICROSTRIP_ER_RANGE_def STRIPLINE_W_RANGE_def STRIPLINE_B_RANGE_def STRIPLINE_ER_RANGE_def TERM_Z0_RANGE_def TERM_R_RANGE_def TERM_V_RANGE_def RISE_TIME_RANGE_def)
qed

lemma thevenin_termination_r2_slices:
  assumes "list_all2 is_subset ivs (ranges_of thevenin_termination_r2_ins thevenin_termination_r2_box)" "\<forall>vs. in_ranges ivs vs \<longrightarrow> thevenin_termination_r2_valid vs"
  shows "\<forall>f \<in> snd ` set thevenin_termination_r2_forms. slice_monotone ivs f"
  proof -
  obtain i1 i2 i3 where ivs: "ivs = [i1, i2, i3]"
    using assms(1) by (auto simp: thevenin_termination_r2_ins_def ranges_of_def list_all2_Cons2)
  have v: "thevenin_termination_r2_valid [a, b, c]" if "iv_contains i1 a" "iv_contains i2 b" "iv_contains i3 c" for a b c
    using assms(2) that by (simp add: ivs)
  have r: "in_ranges (ranges_of thevenin_termination_r2_ins thevenin_termination_r2_box) [a, b, c]" if "iv_contains i1 a" "iv_contains i2 b" "iv_contains i3 c" for a b c
    using in_ranges_subset [OF assms(1)] that by (simp add: ivs)
  note facts = v [unfolded thevenin_termination_r2_valid_def, simplified] r [unfolded thevenin_termination_r2_ins_def thevenin_termination_r2_box_def ranges_of_def, simplified]
  show ?thesis
    using facts by (auto simp: thevenin_termination_r2_forms_def ivs ETA0_def MICROSTRIP_W_RANGE_def MICROSTRIP_H_RANGE_def MICROSTRIP_T_RANGE_def MICROSTRIP_ER_RANGE_def STRIPLINE_W_RANGE_def STRIPLINE_B_RANGE_def STRIPLINE_ER_RANGE_def TERM_Z0_RANGE_def TERM_R_RANGE_def TERM_V_RANGE_def RISE_TIME_RANGE_def  intro!: slice_monotone_3 swing)
qed

interpretation thevenin_termination_r2: formula_solver thevenin_termination_r2_ins thevenin_termination_r2_box thevenin_termination_r2_valid thevenin_termination_r2_forms "thevenin_termination_r2 fmt" for fmt
  by unfold_locales (rule thevenin_termination_r2_answers | rule thevenin_termination_r2_inside thevenin_termination_r2_slices, assumption+ | simp add: ports_ok_def dict_ok_def thevenin_termination_r2_ins_def thevenin_termination_r2_box_def)+

lemma thevenin_termination_r2_law:
  "keeps_law (module_direction H dumps thevenin_termination_r2_args ''thevenin_termination_r2'' (thevenin_termination_r2 fmt)) thevenin_termination_r2_valid thevenin_termination_r2_forms"
  unfolding thevenin_termination_r2_args_def
  by (rule thevenin_termination_r2.direction_law) (simp_all add: thevenin_termination_r2_forms_def)

subsection \<open>\<open>ac_shunt_sizing_r\<close>\<close>

definition ac_shunt_sizing_r_valid :: "real list \<Rightarrow> bool" where
  "ac_shunt_sizing_r_valid vs \<longleftrightarrow> 0 < vs ! 0"

definition ac_shunt_sizing_r_forms :: "(string, real list \<Rightarrow> real) dict" where
  "ac_shunt_sizing_r_forms =
     [(''elec.si.ac_shunt.r'', \<lambda>vs. vs ! 0)]"

lemma ac_shunt_sizing_r_answers: "computes (ac_shunt_sizing_r fmt) ac_shunt_sizing_r_ins ac_shunt_sizing_r_box ac_shunt_sizing_r_valid ac_shunt_sizing_r_forms"
  by (rule computesI) (auto simp: ac_shunt_sizing_r_def ac_shunt_sizing_r_ins_def ac_shunt_sizing_r_valid_def ac_shunt_sizing_r_forms_def answer_simps reads_Nil reads_Cons Let_def elliptic_ratio_def ETA0_def MICROSTRIP_W_RANGE_def MICROSTRIP_H_RANGE_def MICROSTRIP_T_RANGE_def MICROSTRIP_ER_RANGE_def STRIPLINE_W_RANGE_def STRIPLINE_B_RANGE_def STRIPLINE_ER_RANGE_def TERM_Z0_RANGE_def TERM_R_RANGE_def TERM_V_RANGE_def RISE_TIME_RANGE_def)

lemma ac_shunt_sizing_r_total: "in_ranges (ranges_of ac_shunt_sizing_r_ins ac_shunt_sizing_r_box) vs \<Longrightarrow> ac_shunt_sizing_r_valid vs"
  by (auto simp: ac_shunt_sizing_r_ins_def ac_shunt_sizing_r_box_def ac_shunt_sizing_r_valid_def ranges_of_def in_ranges_Cons ETA0_def MICROSTRIP_W_RANGE_def MICROSTRIP_H_RANGE_def MICROSTRIP_T_RANGE_def MICROSTRIP_ER_RANGE_def STRIPLINE_W_RANGE_def STRIPLINE_B_RANGE_def STRIPLINE_ER_RANGE_def TERM_Z0_RANGE_def TERM_R_RANGE_def TERM_V_RANGE_def RISE_TIME_RANGE_def)

lemma ac_shunt_sizing_r_slices: "f \<in> snd ` set ac_shunt_sizing_r_forms \<Longrightarrow> slice_monotone (ranges_of ac_shunt_sizing_r_ins ac_shunt_sizing_r_box) f"
  by (auto simp: ac_shunt_sizing_r_forms_def ac_shunt_sizing_r_ins_def ac_shunt_sizing_r_box_def ranges_of_def ETA0_def MICROSTRIP_W_RANGE_def MICROSTRIP_H_RANGE_def MICROSTRIP_T_RANGE_def MICROSTRIP_ER_RANGE_def STRIPLINE_W_RANGE_def STRIPLINE_B_RANGE_def STRIPLINE_ER_RANGE_def TERM_Z0_RANGE_def TERM_R_RANGE_def TERM_V_RANGE_def RISE_TIME_RANGE_def  intro!: slice_monotone_1 swing)

interpretation ac_shunt_sizing_r: total_solver ac_shunt_sizing_r_ins ac_shunt_sizing_r_box ac_shunt_sizing_r_valid ac_shunt_sizing_r_forms "ac_shunt_sizing_r fmt" for fmt
  by unfold_locales (rule ac_shunt_sizing_r_answers | erule ac_shunt_sizing_r_total ac_shunt_sizing_r_slices | simp add: ports_ok_def dict_ok_def ac_shunt_sizing_r_ins_def ac_shunt_sizing_r_box_def)+

lemma ac_shunt_sizing_r_law:
  "keeps_law (module_direction H dumps ac_shunt_sizing_r_args ''ac_shunt_sizing_r'' (ac_shunt_sizing_r fmt)) ac_shunt_sizing_r_valid ac_shunt_sizing_r_forms"
  unfolding ac_shunt_sizing_r_args_def
  by (rule ac_shunt_sizing_r.direction_law) (simp_all add: ac_shunt_sizing_r_forms_def)

subsection \<open>\<open>ac_shunt_sizing_c\<close>\<close>

definition ac_shunt_sizing_c_valid :: "real list \<Rightarrow> bool" where
  "ac_shunt_sizing_c_valid vs \<longleftrightarrow> 0 < vs ! 0 \<and> 0 < vs ! 1"

definition ac_shunt_sizing_c_forms :: "(string, real list \<Rightarrow> real) dict" where
  "ac_shunt_sizing_c_forms =
     [(''elec.si.ac_shunt.c'', \<lambda>vs. vs ! 0 / (4 * vs ! 1))]"

lemma ac_shunt_sizing_c_answers: "computes (ac_shunt_sizing_c fmt) ac_shunt_sizing_c_ins ac_shunt_sizing_c_box ac_shunt_sizing_c_valid ac_shunt_sizing_c_forms"
  by (rule computesI) (auto simp: ac_shunt_sizing_c_def ac_shunt_sizing_c_ins_def ac_shunt_sizing_c_valid_def ac_shunt_sizing_c_forms_def answer_simps reads_Nil reads_Cons Let_def elliptic_ratio_def ETA0_def MICROSTRIP_W_RANGE_def MICROSTRIP_H_RANGE_def MICROSTRIP_T_RANGE_def MICROSTRIP_ER_RANGE_def STRIPLINE_W_RANGE_def STRIPLINE_B_RANGE_def STRIPLINE_ER_RANGE_def TERM_Z0_RANGE_def TERM_R_RANGE_def TERM_V_RANGE_def RISE_TIME_RANGE_def)

lemma ac_shunt_sizing_c_total: "in_ranges (ranges_of ac_shunt_sizing_c_ins ac_shunt_sizing_c_box) vs \<Longrightarrow> ac_shunt_sizing_c_valid vs"
  by (auto simp: ac_shunt_sizing_c_ins_def ac_shunt_sizing_c_box_def ac_shunt_sizing_c_valid_def ranges_of_def in_ranges_Cons ETA0_def MICROSTRIP_W_RANGE_def MICROSTRIP_H_RANGE_def MICROSTRIP_T_RANGE_def MICROSTRIP_ER_RANGE_def STRIPLINE_W_RANGE_def STRIPLINE_B_RANGE_def STRIPLINE_ER_RANGE_def TERM_Z0_RANGE_def TERM_R_RANGE_def TERM_V_RANGE_def RISE_TIME_RANGE_def)

lemma ac_shunt_sizing_c_slices: "f \<in> snd ` set ac_shunt_sizing_c_forms \<Longrightarrow> slice_monotone (ranges_of ac_shunt_sizing_c_ins ac_shunt_sizing_c_box) f"
  by (auto simp: ac_shunt_sizing_c_forms_def ac_shunt_sizing_c_ins_def ac_shunt_sizing_c_box_def ranges_of_def ETA0_def MICROSTRIP_W_RANGE_def MICROSTRIP_H_RANGE_def MICROSTRIP_T_RANGE_def MICROSTRIP_ER_RANGE_def STRIPLINE_W_RANGE_def STRIPLINE_B_RANGE_def STRIPLINE_ER_RANGE_def TERM_Z0_RANGE_def TERM_R_RANGE_def TERM_V_RANGE_def RISE_TIME_RANGE_def  intro!: slice_monotone_2 swing)

interpretation ac_shunt_sizing_c: total_solver ac_shunt_sizing_c_ins ac_shunt_sizing_c_box ac_shunt_sizing_c_valid ac_shunt_sizing_c_forms "ac_shunt_sizing_c fmt" for fmt
  by unfold_locales (rule ac_shunt_sizing_c_answers | erule ac_shunt_sizing_c_total ac_shunt_sizing_c_slices | simp add: ports_ok_def dict_ok_def ac_shunt_sizing_c_ins_def ac_shunt_sizing_c_box_def)+

lemma ac_shunt_sizing_c_law:
  "keeps_law (module_direction H dumps ac_shunt_sizing_c_args ''ac_shunt_sizing_c'' (ac_shunt_sizing_c fmt)) ac_shunt_sizing_c_valid ac_shunt_sizing_c_forms"
  unfolding ac_shunt_sizing_c_args_def
  by (rule ac_shunt_sizing_c.direction_law) (simp add: ac_shunt_sizing_c_forms_def, rule given_valid, simp_all)

section \<open>The family\<close>

definition signal_integrity_directions ::
  "(json \<Rightarrow> string) \<Rightarrow> (json \<Rightarrow> string) \<Rightarrow> (string \<Rightarrow> real \<Rightarrow> string)
   \<Rightarrow> (solver_pair, registry_error) outcome list" where
  "signal_integrity_directions H dumps fmt =
     [module_direction H dumps microstrip_z0_args ''microstrip_z0'' (microstrip_z0 fmt),
      module_direction H dumps stripline_z0_args ''stripline_z0'' (stripline_z0 fmt),
      module_direction H dumps series_termination_args ''series_termination'' (series_termination fmt),
      module_direction H dumps thevenin_termination_r1_args ''thevenin_termination_r1'' (thevenin_termination_r1 fmt),
      module_direction H dumps thevenin_termination_r2_args ''thevenin_termination_r2'' (thevenin_termination_r2 fmt),
      module_direction H dumps ac_shunt_sizing_r_args ''ac_shunt_sizing_r'' (ac_shunt_sizing_r fmt),
      module_direction H dumps ac_shunt_sizing_c_args ''ac_shunt_sizing_c'' (ac_shunt_sizing_c fmt)]"

definition register_signal_integrity ::
  "(json \<Rightarrow> string) \<Rightarrow> (json \<Rightarrow> string) \<Rightarrow> (string \<Rightarrow> real \<Rightarrow> string)
   \<Rightarrow> registry \<Rightarrow> (unit, registry_error) outcome \<times> registry" where
  "register_signal_integrity H dumps fmt = register_family signal_integrity_PORT_DECLS (signal_integrity_directions H dumps fmt)"

definition signal_integrity_laws ::
  "(json \<Rightarrow> string) \<Rightarrow> (json \<Rightarrow> string) \<Rightarrow> (string \<Rightarrow> real \<Rightarrow> string)
   \<Rightarrow> ((solver_pair, registry_error) outcome \<times> (real list \<Rightarrow> bool) \<times> (string, real list \<Rightarrow> real) dict) list" where
  "signal_integrity_laws H dumps fmt =
     [(module_direction H dumps series_termination_args ''series_termination'' (series_termination fmt), series_termination_valid, series_termination_forms),
      (module_direction H dumps thevenin_termination_r1_args ''thevenin_termination_r1'' (thevenin_termination_r1 fmt), thevenin_termination_r1_valid, thevenin_termination_r1_forms),
      (module_direction H dumps thevenin_termination_r2_args ''thevenin_termination_r2'' (thevenin_termination_r2 fmt), thevenin_termination_r2_valid, thevenin_termination_r2_forms),
      (module_direction H dumps ac_shunt_sizing_r_args ''ac_shunt_sizing_r'' (ac_shunt_sizing_r fmt), ac_shunt_sizing_r_valid, ac_shunt_sizing_r_forms),
      (module_direction H dumps ac_shunt_sizing_c_args ''ac_shunt_sizing_c'' (ac_shunt_sizing_c fmt), ac_shunt_sizing_c_valid, ac_shunt_sizing_c_forms)]"

lemma signal_integrity_keep: "list_all (\<lambda>(d, valid, forms). keeps_law d valid forms) (signal_integrity_laws H dumps fmt)"
  by (simp add: signal_integrity_laws_def series_termination_law thevenin_termination_r1_law thevenin_termination_r2_law ac_shunt_sizing_r_law ac_shunt_sizing_c_law)

end
