(* ===== verification/Lib_Materials.thy ===== *)
theory Lib_Materials
  imports Catalog
begin

text \<open>
  Materials: transformation kinetics, hardenability of steels and phase equilibria
  (\<open>materials/kinetics.py\<close>, \<open>materials/hardenability.py\<close>, \<open>materials/phase_equilibria.py\<close>).
\<close>

chapter \<open>Transformation kinetics\<close>

text \<open>
  Phase transformation kinetics (\<open>materials/kinetics.py\<close>).
\<close>

section \<open>Transformation kinetics: directions\<close>

definition KM_CITATIONS :: "citation list" where
  \<open>KM_CITATIONS =
     [\<lparr>ct_kind = ''paper'', ct_ref = ''Koistinen, D. P., and Marburger, R. E. (1959), 'A general equation prescribing the extent of the austenite-martensite transformation in pure iron-carbon alloys and plain carbon steels', Acta Metallurgica, 7(1), 59-60.'', ct_note = ''alpha is CALLER-SUPPLIED (the original paper's own fitted value for plain-carbon/low-alloy steel is commonly quoted as ~0.011 per K, but this direction does not bake that constant in -- a caller citing a specific alpha for their own alloy supplies it directly). Calibration below is a hand-computed check of the closed form itself (same convention as mech.fatigue's Shigley-eq calibration); an independent second-source numeric oracle point beyond the originating paper was not located this dispatch (named residual).''\<rparr>]\<close>

subsection \<open>\<open>koistinen_marburger_martensite_fraction\<close>\<close>

definition koistinen_marburger_martensite_fraction_box :: "(string, interval) dict" where
  "koistinen_marburger_martensite_fraction_box =
     [(''materials.kinetics.km.ms_temperature'', ivl 150 750),
      (''materials.kinetics.km.quench_temperature'', ivl 4 750),
      (''materials.kinetics.km.alpha'', ivl (1 / 10000) (2 / 10))]"

definition koistinen_marburger_martensite_fraction_ins :: "string list" where
  "koistinen_marburger_martensite_fraction_ins = [''materials.kinetics.km.ms_temperature'', ''materials.kinetics.km.quench_temperature'', ''materials.kinetics.km.alpha'']"

definition koistinen_marburger_martensite_fraction_args :: build_args where
  \<open>koistinen_marburger_martensite_fraction_args =
     solver_args ''materials.kinetics'' koistinen_marburger_martensite_fraction_ins
       [''materials.kinetics.km.martensite_fraction'']
       koistinen_marburger_martensite_fraction_box
       [''athermal'', ''martensite'']
       (1 / 10 ^ 7) (AccOne EXACT)
       KM_CITATIONS
       ''1''\<close>

definition koistinen_marburger_martensite_fraction :: "(string \<Rightarrow> real \<Rightarrow> string) \<Rightarrow> inputs \<Rightarrow> raw_return" where
  \<open>koistinen_marburger_martensite_fraction fmt x =
    (arg x ''materials.kinetics.km.ms_temperature'' (\<lambda>ms.
     arg x ''materials.kinetics.km.quench_temperature'' (\<lambda>t.
     arg x ''materials.kinetics.km.alpha'' (\<lambda>alpha.
     if alpha \<le> 0
     then out_of_domain (''Koistinen-Marburger: non-positive alpha='' @ fmt ''r'' alpha)
     else
     let rest = (\<lambda>fraction.
       ok_values [(''materials.kinetics.km.martensite_fraction'', fraction)]) in
     if ms < t then rest 0
     else rest (1 - exp (- alpha * (ms - t)))))))\<close>

definition KIRKALDY_CITATIONS :: "citation list" where
  \<open>KIRKALDY_CITATIONS =
     [\<lparr>ct_kind = ''paper'', ct_ref = ''Kirkaldy, J. S., and Venugopalan, D. (1984), 'Prediction of Microstructure and Hardenability in Low Alloy Steels', in Phase Transformations in Ferrous Alloys, TMS-AIME; Li, M. V., et al. (1998), 'A computational model for the prediction of steel hardenability', Metall. Mater. Trans. B, 29(3), 661-672 -- the Kirkaldy/Li diffusional-kinetics family, whose isothermal onset times follow an Avrami-nucleation Arrhenius temperature dependence.'', ct_note = (''This direction evaluates the family's shared Avrami-nucleation Arrhenius temperature dependence, '' @ [CHR 0x60] @ ''t_onset = t0 * exp(activation_energy / (R * T))'' @ [CHR 0x60] @ ''; the pre-exponential '' @ [CHR 0x60] @ ''t0'' @ [CHR 0x60] @ '' and '' @ [CHR 0x60] @ ''activation_energy'' @ [CHR 0x60] @ '' are CALLER-SUPPLIED (Kirkaldy/Li's own multi-element regression coefficients that fold composition and ASTM grain size into t0 are a named cut -- transcribing their exact published regression constants from memory risked an uncited/misremembered number, so this direction takes the already-fitted t0/activation_energy as inputs, same 'caller-resolved constant' seam as mech.fatigue's Marin a/b). Calibration is a hand-computed Arrhenius check; a from-scratch independent oracle reproducing Kirkaldy/Li's own regression was not attempted this dispatch (named residual).'')\<rparr>]\<close>

definition GAS_CONSTANT_J_PER_MOL_K :: real where
  "GAS_CONSTANT_J_PER_MOL_K = (8314462618 / 10 ^ 9)"

subsection \<open>\<open>kirkaldy_diffusional_onset_time\<close>\<close>

definition kirkaldy_diffusional_onset_time_box :: "(string, interval) dict" where
  "kirkaldy_diffusional_onset_time_box =
     [(''materials.kinetics.diffusional.t0'', ivl (1 / 10 ^ 6) (10 ^ 6)),
      (''materials.kinetics.diffusional.activation_energy'', ivl 10000 500000),
      (''materials.kinetics.diffusional.temperature'', ivl 300 1200)]"

definition kirkaldy_diffusional_onset_time_ins :: "string list" where
  "kirkaldy_diffusional_onset_time_ins = [''materials.kinetics.diffusional.t0'', ''materials.kinetics.diffusional.activation_energy'', ''materials.kinetics.diffusional.temperature'']"

definition kirkaldy_diffusional_onset_time_args :: build_args where
  \<open>kirkaldy_diffusional_onset_time_args =
     solver_args ''materials.kinetics'' kirkaldy_diffusional_onset_time_ins
       [''materials.kinetics.diffusional.onset_time'']
       kirkaldy_diffusional_onset_time_box
       [''diffusional'', ''ttt_onset'']
       (1 / 10 ^ 7) (AccOne EXACT)
       KIRKALDY_CITATIONS
       ''1''\<close>

definition kirkaldy_diffusional_onset_time :: "(string \<Rightarrow> real \<Rightarrow> string) \<Rightarrow> inputs \<Rightarrow> raw_return" where
  \<open>kirkaldy_diffusional_onset_time fmt x =
    (arg x ''materials.kinetics.diffusional.t0'' (\<lambda>t0.
     arg x ''materials.kinetics.diffusional.activation_energy'' (\<lambda>activation_energy.
     arg x ''materials.kinetics.diffusional.temperature'' (\<lambda>temperature.
     if t0 \<le> 0 \<or> temperature \<le> 0
     then out_of_domain (''diffusional onset: non-positive t0='' @ fmt ''r'' t0 @ '' or temperature='' @ fmt ''r'' temperature)
     else
     py_div activation_energy (GAS_CONSTANT_J_PER_MOL_K * temperature) (\<lambda>t4.
     let onset_time = t0 * exp t4 in
     ok_values [(''materials.kinetics.diffusional.onset_time'', onset_time)])))))\<close>

definition GRANGE_KIEFER_CITATIONS :: "citation list" where
  \<open>GRANGE_KIEFER_CITATIONS =
     [\<lparr>ct_kind = ''paper'', ct_ref = ''Grange, R. A., and Kiefer, J. M. (1941), 'Transformation of Austenite on Continuous Cooling and its Relation to Transformation at Constant Temperature', Trans. ASM, 29, 85-116 -- the linear-additive martensite-start depression per wt pct alloying element.'', ct_note = ''The base Ms and per-element depression coefficients k_i are CALLER-SUPPLIED (Grange & Kiefer's own published per-element table -- Mn/Cr/Ni/Mo/Si depression rates -- is a named cut for the same transcription-risk reason as the diffusional-onset direction above); this direction evaluates the LINEAR-ADDITIVE shift law itself. Calibration is a hand-computed check of the additive form; an independent second-source oracle point was not located this dispatch (named residual).''\<rparr>]\<close>

subsection \<open>\<open>grange_kiefer_ms_shift\<close>\<close>

definition grange_kiefer_ms_shift_box :: "(string, interval) dict" where
  "grange_kiefer_ms_shift_box =
     [(''materials.kinetics.gk.ms_base'', ivl 150 750),
      (''materials.kinetics.gk.depression'', ivl 0 500)]"

definition grange_kiefer_ms_shift_ins :: "string list" where
  "grange_kiefer_ms_shift_ins = [''materials.kinetics.gk.ms_base'', ''materials.kinetics.gk.depression'']"

definition grange_kiefer_ms_shift_args :: build_args where
  \<open>grange_kiefer_ms_shift_args =
     solver_args ''materials.kinetics'' grange_kiefer_ms_shift_ins
       [''materials.kinetics.gk.ms_shifted'']
       grange_kiefer_ms_shift_box
       [''martensite_start_shift'']
       (1 / 10 ^ 9) (AccOne EXACT)
       GRANGE_KIEFER_CITATIONS
       ''1''\<close>

definition grange_kiefer_ms_shift :: "(string \<Rightarrow> real \<Rightarrow> string) \<Rightarrow> inputs \<Rightarrow> raw_return" where
  \<open>grange_kiefer_ms_shift fmt x =
    (arg x ''materials.kinetics.gk.ms_base'' (\<lambda>ms_base.
     arg x ''materials.kinetics.gk.depression'' (\<lambda>depression.
     ok_values [(''materials.kinetics.gk.ms_shifted'', ms_base - depression)])))\<close>

definition kinetics_PORT_DECLS :: "port_decl list" where
  "kinetics_PORT_DECLS =
     [scalar_port ''materials.kinetics.km.ms_temperature'' ''K'',
      scalar_port ''materials.kinetics.km.quench_temperature'' ''K'',
      scalar_port ''materials.kinetics.km.alpha'' ''1/K'',
      scalar_port ''materials.kinetics.km.martensite_fraction'' ''1'',
      scalar_port ''materials.kinetics.diffusional.t0'' ''s'',
      scalar_port ''materials.kinetics.diffusional.activation_energy'' ''J/mol'',
      scalar_port ''materials.kinetics.diffusional.temperature'' ''K'',
      scalar_port ''materials.kinetics.diffusional.onset_time'' ''s'',
      scalar_port ''materials.kinetics.gk.ms_base'' ''K'',
      scalar_port ''materials.kinetics.gk.depression'' ''K'',
      scalar_port ''materials.kinetics.gk.ms_shifted'' ''K'']"

section \<open>What the directions compute\<close>

subsection \<open>\<open>koistinen_marburger_martensite_fraction\<close>\<close>

definition koistinen_marburger_martensite_fraction_valid :: "real list \<Rightarrow> bool" where
  "koistinen_marburger_martensite_fraction_valid vs \<longleftrightarrow> 0 < vs ! 2"

definition koistinen_marburger_martensite_fraction_forms :: "(string, real list \<Rightarrow> real) dict" where
  "koistinen_marburger_martensite_fraction_forms =
     [(''materials.kinetics.km.martensite_fraction'', \<lambda>vs. 1 - exp (- (vs ! 2 * max 0 (vs ! 0 - vs ! 1))))]"

lemma koistinen_marburger_martensite_fraction_answers: "computes (koistinen_marburger_martensite_fraction fmt) koistinen_marburger_martensite_fraction_ins koistinen_marburger_martensite_fraction_box koistinen_marburger_martensite_fraction_valid koistinen_marburger_martensite_fraction_forms"
  by (rule computesI) (auto simp: koistinen_marburger_martensite_fraction_def koistinen_marburger_martensite_fraction_ins_def koistinen_marburger_martensite_fraction_valid_def koistinen_marburger_martensite_fraction_forms_def answer_simps reads_Nil reads_Cons Let_def  GAS_CONSTANT_J_PER_MOL_K_def max_def)

lemma koistinen_marburger_martensite_fraction_total: "in_ranges (ranges_of koistinen_marburger_martensite_fraction_ins koistinen_marburger_martensite_fraction_box) vs \<Longrightarrow> koistinen_marburger_martensite_fraction_valid vs"
  by (auto simp: koistinen_marburger_martensite_fraction_ins_def koistinen_marburger_martensite_fraction_box_def koistinen_marburger_martensite_fraction_valid_def ranges_of_def in_ranges_Cons GAS_CONSTANT_J_PER_MOL_K_def)

lemma koistinen_marburger_martensite_fraction_slices: "f \<in> snd ` set koistinen_marburger_martensite_fraction_forms \<Longrightarrow> slice_monotone (ranges_of koistinen_marburger_martensite_fraction_ins koistinen_marburger_martensite_fraction_box) f"
  by (auto simp: koistinen_marburger_martensite_fraction_forms_def koistinen_marburger_martensite_fraction_ins_def koistinen_marburger_martensite_fraction_box_def ranges_of_def GAS_CONSTANT_J_PER_MOL_K_def  intro!: slice_monotone_3 swing)

interpretation koistinen_marburger_martensite_fraction: total_solver koistinen_marburger_martensite_fraction_ins koistinen_marburger_martensite_fraction_box koistinen_marburger_martensite_fraction_valid koistinen_marburger_martensite_fraction_forms "koistinen_marburger_martensite_fraction fmt" for fmt
  by unfold_locales (rule koistinen_marburger_martensite_fraction_answers | erule koistinen_marburger_martensite_fraction_total koistinen_marburger_martensite_fraction_slices | simp add: ports_ok_def dict_ok_def koistinen_marburger_martensite_fraction_ins_def koistinen_marburger_martensite_fraction_box_def)+

lemma koistinen_marburger_martensite_fraction_law:
  "keeps_law (module_direction H dumps koistinen_marburger_martensite_fraction_args ''koistinen_marburger_martensite_fraction'' (koistinen_marburger_martensite_fraction fmt)) koistinen_marburger_martensite_fraction_valid koistinen_marburger_martensite_fraction_forms"
  unfolding koistinen_marburger_martensite_fraction_args_def
  by (rule koistinen_marburger_martensite_fraction.direction_law) (simp_all add: koistinen_marburger_martensite_fraction_forms_def)

subsection \<open>\<open>kirkaldy_diffusional_onset_time\<close>\<close>

definition kirkaldy_diffusional_onset_time_valid :: "real list \<Rightarrow> bool" where
  "kirkaldy_diffusional_onset_time_valid vs \<longleftrightarrow> 0 < vs ! 0 \<and> 0 < vs ! 2"

definition kirkaldy_diffusional_onset_time_forms :: "(string, real list \<Rightarrow> real) dict" where
  "kirkaldy_diffusional_onset_time_forms =
     [(''materials.kinetics.diffusional.onset_time'', \<lambda>vs. vs ! 0 * exp (vs ! 1 / (GAS_CONSTANT_J_PER_MOL_K * vs ! 2)))]"

lemma kirkaldy_diffusional_onset_time_answers: "computes (kirkaldy_diffusional_onset_time fmt) kirkaldy_diffusional_onset_time_ins kirkaldy_diffusional_onset_time_box kirkaldy_diffusional_onset_time_valid kirkaldy_diffusional_onset_time_forms"
  by (rule computesI) (auto simp: kirkaldy_diffusional_onset_time_def kirkaldy_diffusional_onset_time_ins_def kirkaldy_diffusional_onset_time_valid_def kirkaldy_diffusional_onset_time_forms_def answer_simps reads_Nil reads_Cons Let_def  GAS_CONSTANT_J_PER_MOL_K_def)

lemma kirkaldy_diffusional_onset_time_total: "in_ranges (ranges_of kirkaldy_diffusional_onset_time_ins kirkaldy_diffusional_onset_time_box) vs \<Longrightarrow> kirkaldy_diffusional_onset_time_valid vs"
  by (auto simp: kirkaldy_diffusional_onset_time_ins_def kirkaldy_diffusional_onset_time_box_def kirkaldy_diffusional_onset_time_valid_def ranges_of_def in_ranges_Cons GAS_CONSTANT_J_PER_MOL_K_def)

lemma kirkaldy_diffusional_onset_time_slices: "f \<in> snd ` set kirkaldy_diffusional_onset_time_forms \<Longrightarrow> slice_monotone (ranges_of kirkaldy_diffusional_onset_time_ins kirkaldy_diffusional_onset_time_box) f"
  by (auto simp: kirkaldy_diffusional_onset_time_forms_def kirkaldy_diffusional_onset_time_ins_def kirkaldy_diffusional_onset_time_box_def ranges_of_def GAS_CONSTANT_J_PER_MOL_K_def  intro!: slice_monotone_3 swing)

interpretation kirkaldy_diffusional_onset_time: total_solver kirkaldy_diffusional_onset_time_ins kirkaldy_diffusional_onset_time_box kirkaldy_diffusional_onset_time_valid kirkaldy_diffusional_onset_time_forms "kirkaldy_diffusional_onset_time fmt" for fmt
  by unfold_locales (rule kirkaldy_diffusional_onset_time_answers | erule kirkaldy_diffusional_onset_time_total kirkaldy_diffusional_onset_time_slices | simp add: ports_ok_def dict_ok_def kirkaldy_diffusional_onset_time_ins_def kirkaldy_diffusional_onset_time_box_def)+

lemma kirkaldy_diffusional_onset_time_law:
  "keeps_law (module_direction H dumps kirkaldy_diffusional_onset_time_args ''kirkaldy_diffusional_onset_time'' (kirkaldy_diffusional_onset_time fmt)) kirkaldy_diffusional_onset_time_valid kirkaldy_diffusional_onset_time_forms"
  unfolding kirkaldy_diffusional_onset_time_args_def
  by (rule kirkaldy_diffusional_onset_time.direction_law) (simp_all add: kirkaldy_diffusional_onset_time_forms_def)

subsection \<open>\<open>grange_kiefer_ms_shift\<close>\<close>

definition grange_kiefer_ms_shift_valid :: "real list \<Rightarrow> bool" where
  "grange_kiefer_ms_shift_valid vs \<longleftrightarrow> True"

definition grange_kiefer_ms_shift_forms :: "(string, real list \<Rightarrow> real) dict" where
  "grange_kiefer_ms_shift_forms =
     [(''materials.kinetics.gk.ms_shifted'', \<lambda>vs. vs ! 0 - vs ! 1)]"

lemma grange_kiefer_ms_shift_answers: "computes (grange_kiefer_ms_shift fmt) grange_kiefer_ms_shift_ins grange_kiefer_ms_shift_box grange_kiefer_ms_shift_valid grange_kiefer_ms_shift_forms"
  by (rule computesI) (auto simp: grange_kiefer_ms_shift_def grange_kiefer_ms_shift_ins_def grange_kiefer_ms_shift_valid_def grange_kiefer_ms_shift_forms_def answer_simps reads_Nil reads_Cons Let_def  GAS_CONSTANT_J_PER_MOL_K_def)

lemma grange_kiefer_ms_shift_total: "in_ranges (ranges_of grange_kiefer_ms_shift_ins grange_kiefer_ms_shift_box) vs \<Longrightarrow> grange_kiefer_ms_shift_valid vs"
  by (auto simp: grange_kiefer_ms_shift_ins_def grange_kiefer_ms_shift_box_def grange_kiefer_ms_shift_valid_def ranges_of_def in_ranges_Cons GAS_CONSTANT_J_PER_MOL_K_def)

lemma grange_kiefer_ms_shift_slices: "f \<in> snd ` set grange_kiefer_ms_shift_forms \<Longrightarrow> slice_monotone (ranges_of grange_kiefer_ms_shift_ins grange_kiefer_ms_shift_box) f"
  by (auto simp: grange_kiefer_ms_shift_forms_def grange_kiefer_ms_shift_ins_def grange_kiefer_ms_shift_box_def ranges_of_def GAS_CONSTANT_J_PER_MOL_K_def  intro!: slice_monotone_2 swing)

interpretation grange_kiefer_ms_shift: total_solver grange_kiefer_ms_shift_ins grange_kiefer_ms_shift_box grange_kiefer_ms_shift_valid grange_kiefer_ms_shift_forms "grange_kiefer_ms_shift fmt" for fmt
  by unfold_locales (rule grange_kiefer_ms_shift_answers | erule grange_kiefer_ms_shift_total grange_kiefer_ms_shift_slices | simp add: ports_ok_def dict_ok_def grange_kiefer_ms_shift_ins_def grange_kiefer_ms_shift_box_def)+

lemma grange_kiefer_ms_shift_law:
  "keeps_law (module_direction H dumps grange_kiefer_ms_shift_args ''grange_kiefer_ms_shift'' (grange_kiefer_ms_shift fmt)) grange_kiefer_ms_shift_valid grange_kiefer_ms_shift_forms"
  unfolding grange_kiefer_ms_shift_args_def
  by (rule grange_kiefer_ms_shift.direction_law) (simp_all add: grange_kiefer_ms_shift_forms_def)

section \<open>The family\<close>

definition kinetics_directions ::
  "(json \<Rightarrow> string) \<Rightarrow> (json \<Rightarrow> string) \<Rightarrow> (string \<Rightarrow> real \<Rightarrow> string)
   \<Rightarrow> (solver_pair, registry_error) outcome list" where
  "kinetics_directions H dumps fmt =
     [module_direction H dumps koistinen_marburger_martensite_fraction_args ''koistinen_marburger_martensite_fraction'' (koistinen_marburger_martensite_fraction fmt),
      module_direction H dumps kirkaldy_diffusional_onset_time_args ''kirkaldy_diffusional_onset_time'' (kirkaldy_diffusional_onset_time fmt),
      module_direction H dumps grange_kiefer_ms_shift_args ''grange_kiefer_ms_shift'' (grange_kiefer_ms_shift fmt)]"

definition register_kinetics ::
  "(json \<Rightarrow> string) \<Rightarrow> (json \<Rightarrow> string) \<Rightarrow> (string \<Rightarrow> real \<Rightarrow> string)
   \<Rightarrow> registry \<Rightarrow> (unit, registry_error) outcome \<times> registry" where
  "register_kinetics H dumps fmt = register_family kinetics_PORT_DECLS (kinetics_directions H dumps fmt)"

definition kinetics_laws ::
  "(json \<Rightarrow> string) \<Rightarrow> (json \<Rightarrow> string) \<Rightarrow> (string \<Rightarrow> real \<Rightarrow> string)
   \<Rightarrow> ((solver_pair, registry_error) outcome \<times> (real list \<Rightarrow> bool) \<times> (string, real list \<Rightarrow> real) dict) list" where
  "kinetics_laws H dumps fmt =
     [(module_direction H dumps koistinen_marburger_martensite_fraction_args ''koistinen_marburger_martensite_fraction'' (koistinen_marburger_martensite_fraction fmt), koistinen_marburger_martensite_fraction_valid, koistinen_marburger_martensite_fraction_forms),
      (module_direction H dumps kirkaldy_diffusional_onset_time_args ''kirkaldy_diffusional_onset_time'' (kirkaldy_diffusional_onset_time fmt), kirkaldy_diffusional_onset_time_valid, kirkaldy_diffusional_onset_time_forms),
      (module_direction H dumps grange_kiefer_ms_shift_args ''grange_kiefer_ms_shift'' (grange_kiefer_ms_shift fmt), grange_kiefer_ms_shift_valid, grange_kiefer_ms_shift_forms)]"

lemma kinetics_keep: "list_all (\<lambda>(d, valid, forms). keeps_law d valid forms) (kinetics_laws H dumps fmt)"
  by (simp add: kinetics_laws_def koistinen_marburger_martensite_fraction_law kirkaldy_diffusional_onset_time_law grange_kiefer_ms_shift_law)

chapter \<open>Hardenability\<close>

text \<open>
  Hardenability of steels (\<open>materials/hardenability.py\<close>).
\<close>

section \<open>Hardenability: directions\<close>

definition GROSSMANN_CITATIONS :: "citation list" where
  \<open>GROSSMANN_CITATIONS =
     [\<lparr>ct_kind = ''paper'', ct_ref = ''Grossmann, M. A. (1942), 'Hardenability Calculated from Chemical Composition', Trans. AIME, 150, 227-255 -- the ideal critical diameter D_I as a base-carbon diameter multiplied by per-element hardenability multiplying factors.'', ct_note = ([CHR 0x60] @ ''base_diameter'' @ [CHR 0x60] @ '' (Grossmann's own carbon-content/grain-size base curve) and '' @ [CHR 0x60] @ ''multiplying_factor'' @ [CHR 0x60] @ '' (the product of his per-element Mn/Si/Cr/Ni/Mo factors) are CALLER-SUPPLIED -- transcribing Grossmann's own chart-derived base curve is exactly the licensing risk this ticket flags (D258/D266/D269), so this direction only performs the multiplicative composition law itself. Calibration is a hand-computed check of that multiplication; an independent second-source oracle point was not located this dispatch (named residual).'')\<rparr>]\<close>

subsection \<open>\<open>grossmann_ideal_critical_diameter\<close>\<close>

definition grossmann_ideal_critical_diameter_box :: "(string, interval) dict" where
  "grossmann_ideal_critical_diameter_box =
     [(''materials.hardenability.grossmann.base_diameter'', ivl (1 / 10000) 1),
      (''materials.hardenability.grossmann.multiplying_factor'', ivl 1 50)]"

definition grossmann_ideal_critical_diameter_ins :: "string list" where
  "grossmann_ideal_critical_diameter_ins = [''materials.hardenability.grossmann.base_diameter'', ''materials.hardenability.grossmann.multiplying_factor'']"

definition grossmann_ideal_critical_diameter_args :: build_args where
  \<open>grossmann_ideal_critical_diameter_args =
     solver_args ''materials.hardenability'' grossmann_ideal_critical_diameter_ins
       [''materials.hardenability.grossmann.ideal_critical_diameter'']
       grossmann_ideal_critical_diameter_box
       [''hardenability'']
       (1 / 10 ^ 9) (AccOne EXACT)
       GROSSMANN_CITATIONS
       ''1''\<close>

definition grossmann_ideal_critical_diameter :: "(string \<Rightarrow> real \<Rightarrow> string) \<Rightarrow> inputs \<Rightarrow> raw_return" where
  \<open>grossmann_ideal_critical_diameter fmt x =
    (arg x ''materials.hardenability.grossmann.base_diameter'' (\<lambda>base_diameter.
     arg x ''materials.hardenability.grossmann.multiplying_factor'' (\<lambda>multiplying_factor.
     if base_diameter \<le> 0 \<or> multiplying_factor \<le> 0
     then out_of_domain (''Grossmann D_I: non-positive base_diameter='' @ fmt ''r'' base_diameter @ '' or multiplying_factor='' @ fmt ''r'' multiplying_factor)
     else
     ok_values [(''materials.hardenability.grossmann.ideal_critical_diameter'', base_diameter * multiplying_factor)])))\<close>

definition JOMINY_CITATIONS :: "citation list" where
  \<open>JOMINY_CITATIONS =
     [\<lparr>ct_kind = ''paper'', ct_ref = ''Jominy, W. E., and Boegehold, A. L. (1938), 'A Hardenability Test for Carburized Steel', Trans. ASM, 26, 574-600 (ASTM A255 end-quench hardenability test) -- the empirical cooling-rate-vs-distance-from-quenched-end correlation along a standard Jominy bar, well fit by a power law in the mid-bar region.'', ct_note = ([CHR 0x60] @ ''coeff'' @ [CHR 0x60] @ ''/'' @ [CHR 0x60] @ ''exponent'' @ [CHR 0x60] @ '' are CALLER-SUPPLIED power-law fit constants for the mid-bar Jominy cooling-rate-vs-distance correlation (the exact published fit constants vary by source and quenchant; transcribing a specific numeric fit from memory risked an uncited value, so this direction takes the fit as an input, same seam as the diffusional-onset direction in materials.kinetics). Calibration is a hand-computed power-law check; an independent second-source oracle point was not located this dispatch (named residual).'')\<rparr>]\<close>

subsection \<open>\<open>jominy_distance_to_cooling_rate\<close>\<close>

definition jominy_distance_to_cooling_rate_box :: "(string, interval) dict" where
  "jominy_distance_to_cooling_rate_box =
     [(''materials.hardenability.jominy.distance'', ivl (1 / 1000) (1 / 10)),
      (''materials.hardenability.jominy.coeff'', ivl (1 / 10 ^ 6) (10 ^ 6)),
      (''materials.hardenability.jominy.exponent'', ivl (- 5) 0)]"

definition jominy_distance_to_cooling_rate_ins :: "string list" where
  "jominy_distance_to_cooling_rate_ins = [''materials.hardenability.jominy.distance'', ''materials.hardenability.jominy.coeff'', ''materials.hardenability.jominy.exponent'']"

definition jominy_distance_to_cooling_rate_args :: build_args where
  \<open>jominy_distance_to_cooling_rate_args =
     solver_args ''materials.hardenability'' jominy_distance_to_cooling_rate_ins
       [''materials.hardenability.jominy.cooling_rate'']
       jominy_distance_to_cooling_rate_box
       [''hardenability'', ''jominy'']
       (1 / 10 ^ 9) (AccOne EXACT)
       JOMINY_CITATIONS
       ''1''\<close>

definition jominy_distance_to_cooling_rate :: "(string \<Rightarrow> real \<Rightarrow> string) \<Rightarrow> inputs \<Rightarrow> raw_return" where
  \<open>jominy_distance_to_cooling_rate fmt x =
    (arg x ''materials.hardenability.jominy.distance'' (\<lambda>distance.
     arg x ''materials.hardenability.jominy.coeff'' (\<lambda>coeff.
     arg x ''materials.hardenability.jominy.exponent'' (\<lambda>exponent.
     if distance \<le> 0 \<or> coeff \<le> 0
     then out_of_domain (''Jominy correlation: non-positive distance='' @ fmt ''r'' distance @ '' or coeff='' @ fmt ''r'' coeff)
     else
     py_pow distance exponent (\<lambda>t4.
     let cooling_rate = coeff * t4 in
     ok_values [(''materials.hardenability.jominy.cooling_rate'', cooling_rate)])))))\<close>

definition HOLLOMON_JAFFE_CITATIONS :: "citation list" where
  \<open>HOLLOMON_JAFFE_CITATIONS =
     [\<lparr>ct_kind = ''paper'', ct_ref = ''Hollomon, J. H., and Jaffe, L. D. (1945), 'Time-Temperature Relations in Tempering Steel', Trans. AIME, 162, 223-249 -- the tempering parameter P = T*(C + log10(t)).'', ct_note = ([CHR 0x60] @ ''constant_c'' @ [CHR 0x60] @ '' is CALLER-SUPPLIED (commonly quoted near 20 for many steels in the original paper's own fit, but varies by alloy -- this direction does not bake a default). Calibration below is a hand-computed check of the closed form itself; an independent second-source oracle point was not located this dispatch (named residual).'')\<rparr>]\<close>

subsection \<open>\<open>hollomon_jaffe_tempering_parameter\<close>\<close>

definition hollomon_jaffe_tempering_parameter_box :: "(string, interval) dict" where
  "hollomon_jaffe_tempering_parameter_box =
     [(''materials.hardenability.hollomon_jaffe.temperature'', ivl 300 1000),
      (''materials.hardenability.hollomon_jaffe.time'', ivl (1 / 1000) 10000),
      (''materials.hardenability.hollomon_jaffe.constant_c'', ivl 5 30)]"

definition hollomon_jaffe_tempering_parameter_ins :: "string list" where
  "hollomon_jaffe_tempering_parameter_ins = [''materials.hardenability.hollomon_jaffe.temperature'', ''materials.hardenability.hollomon_jaffe.time'', ''materials.hardenability.hollomon_jaffe.constant_c'']"

definition hollomon_jaffe_tempering_parameter_args :: build_args where
  \<open>hollomon_jaffe_tempering_parameter_args =
     solver_args ''materials.hardenability'' hollomon_jaffe_tempering_parameter_ins
       [''materials.hardenability.hollomon_jaffe.parameter'']
       hollomon_jaffe_tempering_parameter_box
       [''tempering'']
       (1 / 10 ^ 9) (AccOne EXACT)
       HOLLOMON_JAFFE_CITATIONS
       ''1''\<close>

definition hollomon_jaffe_tempering_parameter :: "(string \<Rightarrow> real \<Rightarrow> string) \<Rightarrow> inputs \<Rightarrow> raw_return" where
  \<open>hollomon_jaffe_tempering_parameter fmt x =
    (arg x ''materials.hardenability.hollomon_jaffe.temperature'' (\<lambda>temperature.
     arg x ''materials.hardenability.hollomon_jaffe.time'' (\<lambda>time.
     arg x ''materials.hardenability.hollomon_jaffe.constant_c'' (\<lambda>constant_c.
     if temperature \<le> 0 \<or> time \<le> 0
     then out_of_domain (''Hollomon-Jaffe: non-positive temperature='' @ fmt ''r'' temperature @ '' or time='' @ fmt ''r'' time)
     else
     py_log10 time (\<lambda>t4.
     let parameter = temperature * (constant_c + t4) in
     ok_values [(''materials.hardenability.hollomon_jaffe.parameter'', parameter)])))))\<close>

definition hardenability_PORT_DECLS :: "port_decl list" where
  "hardenability_PORT_DECLS =
     [scalar_port ''materials.hardenability.grossmann.base_diameter'' ''m'',
      scalar_port ''materials.hardenability.grossmann.multiplying_factor'' ''1'',
      scalar_port ''materials.hardenability.grossmann.ideal_critical_diameter'' ''m'',
      scalar_port ''materials.hardenability.jominy.distance'' ''m'',
      scalar_port ''materials.hardenability.jominy.coeff'' ''K/s'',
      scalar_port ''materials.hardenability.jominy.exponent'' ''1'',
      scalar_port ''materials.hardenability.jominy.cooling_rate'' ''K/s'',
      scalar_port ''materials.hardenability.hollomon_jaffe.temperature'' ''K'',
      scalar_port ''materials.hardenability.hollomon_jaffe.time'' ''h'',
      scalar_port ''materials.hardenability.hollomon_jaffe.constant_c'' ''1'',
      scalar_port ''materials.hardenability.hollomon_jaffe.parameter'' ''K'']"

section \<open>What the directions compute\<close>

subsection \<open>\<open>grossmann_ideal_critical_diameter\<close>\<close>

definition grossmann_ideal_critical_diameter_valid :: "real list \<Rightarrow> bool" where
  "grossmann_ideal_critical_diameter_valid vs \<longleftrightarrow> 0 < vs ! 0 \<and> 0 < vs ! 1"

definition grossmann_ideal_critical_diameter_forms :: "(string, real list \<Rightarrow> real) dict" where
  "grossmann_ideal_critical_diameter_forms =
     [(''materials.hardenability.grossmann.ideal_critical_diameter'', \<lambda>vs. vs ! 0 * vs ! 1)]"

lemma grossmann_ideal_critical_diameter_answers: "computes (grossmann_ideal_critical_diameter fmt) grossmann_ideal_critical_diameter_ins grossmann_ideal_critical_diameter_box grossmann_ideal_critical_diameter_valid grossmann_ideal_critical_diameter_forms"
  by (rule computesI) (auto simp: grossmann_ideal_critical_diameter_def grossmann_ideal_critical_diameter_ins_def grossmann_ideal_critical_diameter_valid_def grossmann_ideal_critical_diameter_forms_def answer_simps reads_Nil reads_Cons Let_def)

lemma grossmann_ideal_critical_diameter_total: "in_ranges (ranges_of grossmann_ideal_critical_diameter_ins grossmann_ideal_critical_diameter_box) vs \<Longrightarrow> grossmann_ideal_critical_diameter_valid vs"
  by (auto simp: grossmann_ideal_critical_diameter_ins_def grossmann_ideal_critical_diameter_box_def grossmann_ideal_critical_diameter_valid_def ranges_of_def in_ranges_Cons)

lemma grossmann_ideal_critical_diameter_slices: "f \<in> snd ` set grossmann_ideal_critical_diameter_forms \<Longrightarrow> slice_monotone (ranges_of grossmann_ideal_critical_diameter_ins grossmann_ideal_critical_diameter_box) f"
  by (auto simp: grossmann_ideal_critical_diameter_forms_def grossmann_ideal_critical_diameter_ins_def grossmann_ideal_critical_diameter_box_def ranges_of_def   intro!: slice_monotone_2 swing)

interpretation grossmann_ideal_critical_diameter: total_solver grossmann_ideal_critical_diameter_ins grossmann_ideal_critical_diameter_box grossmann_ideal_critical_diameter_valid grossmann_ideal_critical_diameter_forms "grossmann_ideal_critical_diameter fmt" for fmt
  by unfold_locales (rule grossmann_ideal_critical_diameter_answers | erule grossmann_ideal_critical_diameter_total grossmann_ideal_critical_diameter_slices | simp add: ports_ok_def dict_ok_def grossmann_ideal_critical_diameter_ins_def grossmann_ideal_critical_diameter_box_def)+

lemma grossmann_ideal_critical_diameter_law:
  "keeps_law (module_direction H dumps grossmann_ideal_critical_diameter_args ''grossmann_ideal_critical_diameter'' (grossmann_ideal_critical_diameter fmt)) grossmann_ideal_critical_diameter_valid grossmann_ideal_critical_diameter_forms"
  unfolding grossmann_ideal_critical_diameter_args_def
  by (rule grossmann_ideal_critical_diameter.direction_law) (simp_all add: grossmann_ideal_critical_diameter_forms_def)

subsection \<open>\<open>jominy_distance_to_cooling_rate\<close>\<close>

definition jominy_distance_to_cooling_rate_valid :: "real list \<Rightarrow> bool" where
  "jominy_distance_to_cooling_rate_valid vs \<longleftrightarrow> 0 < vs ! 0 \<and> 0 < vs ! 1"

definition jominy_distance_to_cooling_rate_forms :: "(string, real list \<Rightarrow> real) dict" where
  "jominy_distance_to_cooling_rate_forms =
     [(''materials.hardenability.jominy.cooling_rate'', \<lambda>vs. vs ! 1 * vs ! 0 powr vs ! 2)]"

lemma jominy_distance_to_cooling_rate_answers: "computes (jominy_distance_to_cooling_rate fmt) jominy_distance_to_cooling_rate_ins jominy_distance_to_cooling_rate_box jominy_distance_to_cooling_rate_valid jominy_distance_to_cooling_rate_forms"
  by (rule computesI) (auto simp: jominy_distance_to_cooling_rate_def jominy_distance_to_cooling_rate_ins_def jominy_distance_to_cooling_rate_valid_def jominy_distance_to_cooling_rate_forms_def answer_simps reads_Nil reads_Cons Let_def)

lemma jominy_distance_to_cooling_rate_total: "in_ranges (ranges_of jominy_distance_to_cooling_rate_ins jominy_distance_to_cooling_rate_box) vs \<Longrightarrow> jominy_distance_to_cooling_rate_valid vs"
  by (auto simp: jominy_distance_to_cooling_rate_ins_def jominy_distance_to_cooling_rate_box_def jominy_distance_to_cooling_rate_valid_def ranges_of_def in_ranges_Cons)

lemma jominy_distance_to_cooling_rate_slices: "f \<in> snd ` set jominy_distance_to_cooling_rate_forms \<Longrightarrow> slice_monotone (ranges_of jominy_distance_to_cooling_rate_ins jominy_distance_to_cooling_rate_box) f"
  by (auto simp: jominy_distance_to_cooling_rate_forms_def jominy_distance_to_cooling_rate_ins_def jominy_distance_to_cooling_rate_box_def ranges_of_def   intro!: slice_monotone_3 swing)

interpretation jominy_distance_to_cooling_rate: total_solver jominy_distance_to_cooling_rate_ins jominy_distance_to_cooling_rate_box jominy_distance_to_cooling_rate_valid jominy_distance_to_cooling_rate_forms "jominy_distance_to_cooling_rate fmt" for fmt
  by unfold_locales (rule jominy_distance_to_cooling_rate_answers | erule jominy_distance_to_cooling_rate_total jominy_distance_to_cooling_rate_slices | simp add: ports_ok_def dict_ok_def jominy_distance_to_cooling_rate_ins_def jominy_distance_to_cooling_rate_box_def)+

lemma jominy_distance_to_cooling_rate_law:
  "keeps_law (module_direction H dumps jominy_distance_to_cooling_rate_args ''jominy_distance_to_cooling_rate'' (jominy_distance_to_cooling_rate fmt)) jominy_distance_to_cooling_rate_valid jominy_distance_to_cooling_rate_forms"
  unfolding jominy_distance_to_cooling_rate_args_def
  by (rule jominy_distance_to_cooling_rate.direction_law) (simp_all add: jominy_distance_to_cooling_rate_forms_def)

subsection \<open>\<open>hollomon_jaffe_tempering_parameter\<close>\<close>

definition hollomon_jaffe_tempering_parameter_valid :: "real list \<Rightarrow> bool" where
  "hollomon_jaffe_tempering_parameter_valid vs \<longleftrightarrow> 0 < vs ! 0 \<and> 0 < vs ! 1"

definition hollomon_jaffe_tempering_parameter_forms :: "(string, real list \<Rightarrow> real) dict" where
  "hollomon_jaffe_tempering_parameter_forms =
     [(''materials.hardenability.hollomon_jaffe.parameter'', \<lambda>vs. vs ! 0 * (vs ! 2 + ln (vs ! 1) / ln 10))]"

lemma hollomon_jaffe_tempering_parameter_answers: "computes (hollomon_jaffe_tempering_parameter fmt) hollomon_jaffe_tempering_parameter_ins hollomon_jaffe_tempering_parameter_box hollomon_jaffe_tempering_parameter_valid hollomon_jaffe_tempering_parameter_forms"
  by (rule computesI) (auto simp: hollomon_jaffe_tempering_parameter_def hollomon_jaffe_tempering_parameter_ins_def hollomon_jaffe_tempering_parameter_valid_def hollomon_jaffe_tempering_parameter_forms_def answer_simps reads_Nil reads_Cons Let_def)

lemma hollomon_jaffe_tempering_parameter_total: "in_ranges (ranges_of hollomon_jaffe_tempering_parameter_ins hollomon_jaffe_tempering_parameter_box) vs \<Longrightarrow> hollomon_jaffe_tempering_parameter_valid vs"
  by (auto simp: hollomon_jaffe_tempering_parameter_ins_def hollomon_jaffe_tempering_parameter_box_def hollomon_jaffe_tempering_parameter_valid_def ranges_of_def in_ranges_Cons)

lemma hollomon_jaffe_tempering_parameter_slices: "f \<in> snd ` set hollomon_jaffe_tempering_parameter_forms \<Longrightarrow> slice_monotone (ranges_of hollomon_jaffe_tempering_parameter_ins hollomon_jaffe_tempering_parameter_box) f"
  by (auto simp: hollomon_jaffe_tempering_parameter_forms_def hollomon_jaffe_tempering_parameter_ins_def hollomon_jaffe_tempering_parameter_box_def ranges_of_def   intro!: slice_monotone_3 swing)

interpretation hollomon_jaffe_tempering_parameter: total_solver hollomon_jaffe_tempering_parameter_ins hollomon_jaffe_tempering_parameter_box hollomon_jaffe_tempering_parameter_valid hollomon_jaffe_tempering_parameter_forms "hollomon_jaffe_tempering_parameter fmt" for fmt
  by unfold_locales (rule hollomon_jaffe_tempering_parameter_answers | erule hollomon_jaffe_tempering_parameter_total hollomon_jaffe_tempering_parameter_slices | simp add: ports_ok_def dict_ok_def hollomon_jaffe_tempering_parameter_ins_def hollomon_jaffe_tempering_parameter_box_def)+

lemma hollomon_jaffe_tempering_parameter_law:
  "keeps_law (module_direction H dumps hollomon_jaffe_tempering_parameter_args ''hollomon_jaffe_tempering_parameter'' (hollomon_jaffe_tempering_parameter fmt)) hollomon_jaffe_tempering_parameter_valid hollomon_jaffe_tempering_parameter_forms"
  unfolding hollomon_jaffe_tempering_parameter_args_def
  by (rule hollomon_jaffe_tempering_parameter.direction_law) (simp_all add: hollomon_jaffe_tempering_parameter_forms_def)

section \<open>The family\<close>

definition hardenability_directions ::
  "(json \<Rightarrow> string) \<Rightarrow> (json \<Rightarrow> string) \<Rightarrow> (string \<Rightarrow> real \<Rightarrow> string)
   \<Rightarrow> (solver_pair, registry_error) outcome list" where
  "hardenability_directions H dumps fmt =
     [module_direction H dumps grossmann_ideal_critical_diameter_args ''grossmann_ideal_critical_diameter'' (grossmann_ideal_critical_diameter fmt),
      module_direction H dumps jominy_distance_to_cooling_rate_args ''jominy_distance_to_cooling_rate'' (jominy_distance_to_cooling_rate fmt),
      module_direction H dumps hollomon_jaffe_tempering_parameter_args ''hollomon_jaffe_tempering_parameter'' (hollomon_jaffe_tempering_parameter fmt)]"

definition register_hardenability ::
  "(json \<Rightarrow> string) \<Rightarrow> (json \<Rightarrow> string) \<Rightarrow> (string \<Rightarrow> real \<Rightarrow> string)
   \<Rightarrow> registry \<Rightarrow> (unit, registry_error) outcome \<times> registry" where
  "register_hardenability H dumps fmt = register_family hardenability_PORT_DECLS (hardenability_directions H dumps fmt)"

definition hardenability_laws ::
  "(json \<Rightarrow> string) \<Rightarrow> (json \<Rightarrow> string) \<Rightarrow> (string \<Rightarrow> real \<Rightarrow> string)
   \<Rightarrow> ((solver_pair, registry_error) outcome \<times> (real list \<Rightarrow> bool) \<times> (string, real list \<Rightarrow> real) dict) list" where
  "hardenability_laws H dumps fmt =
     [(module_direction H dumps grossmann_ideal_critical_diameter_args ''grossmann_ideal_critical_diameter'' (grossmann_ideal_critical_diameter fmt), grossmann_ideal_critical_diameter_valid, grossmann_ideal_critical_diameter_forms),
      (module_direction H dumps jominy_distance_to_cooling_rate_args ''jominy_distance_to_cooling_rate'' (jominy_distance_to_cooling_rate fmt), jominy_distance_to_cooling_rate_valid, jominy_distance_to_cooling_rate_forms),
      (module_direction H dumps hollomon_jaffe_tempering_parameter_args ''hollomon_jaffe_tempering_parameter'' (hollomon_jaffe_tempering_parameter fmt), hollomon_jaffe_tempering_parameter_valid, hollomon_jaffe_tempering_parameter_forms)]"

lemma hardenability_keep: "list_all (\<lambda>(d, valid, forms). keeps_law d valid forms) (hardenability_laws H dumps fmt)"
  by (simp add: hardenability_laws_def grossmann_ideal_critical_diameter_law jominy_distance_to_cooling_rate_law hollomon_jaffe_tempering_parameter_law)

chapter \<open>Phase equilibria\<close>

text \<open>
  Phase equilibria (\<open>materials/phase_equilibria.py\<close>).
\<close>

section \<open>Phase equilibria: directions\<close>

definition phase_equilibria_GAS_CONSTANT_J_PER_MOL_K :: real where
  "phase_equilibria_GAS_CONSTANT_J_PER_MOL_K = (8314462618 / 10 ^ 9)"

definition LEVER_RULE_CITATIONS :: "citation list" where
  \<open>LEVER_RULE_CITATIONS =
     [\<lparr>ct_kind = ''handbook'', ct_ref = ''Gibbs, J. W. (1878 / republished), and standard phase-diagram treatment, e.g. Porter, D. A., Easterling, K. E., and Sherif, M. Y. (2009), Phase Transformations in Metals and Alloys, 3rd ed., CRC Press, ch. 1 -- the lever rule for a two-phase tie line.'', ct_note = ([CHR 0x60] @ ''tie_line_alpha_fraction'' @ [CHR 0x60] @ ''/'' @ [CHR 0x60] @ ''tie_line_beta_fraction'' @ [CHR 0x60] @ '' (the phase-boundary compositions at the working temperature) and '' @ [CHR 0x60] @ ''overall_fraction'' @ [CHR 0x60] @ '' are RECORD INPUTS -- the ticket's own 'eutectic/eutectoid points as record inputs' ruling -- this direction only evaluates the lever-rule arithmetic. Calibration is a hand-computed known-answer check (structural: the rule is definitional given a tie line, not a fitted empirical correlation, so no independent oracle point is applicable beyond exercising the arithmetic -- named as such, not a residual gap).'')\<rparr>]\<close>

subsection \<open>\<open>lever_rule_phase_fraction\<close>\<close>

definition lever_rule_phase_fraction_box :: "(string, interval) dict" where
  "lever_rule_phase_fraction_box =
     [(''materials.phase_equilibria.lever.alpha_fraction'', ivl 0 1),
      (''materials.phase_equilibria.lever.beta_fraction'', ivl 0 1),
      (''materials.phase_equilibria.lever.overall_fraction'', ivl 0 1)]"

definition lever_rule_phase_fraction_ins :: "string list" where
  "lever_rule_phase_fraction_ins = [''materials.phase_equilibria.lever.alpha_fraction'', ''materials.phase_equilibria.lever.beta_fraction'', ''materials.phase_equilibria.lever.overall_fraction'']"

definition lever_rule_phase_fraction_args :: build_args where
  \<open>lever_rule_phase_fraction_args =
     solver_args ''materials.phase_equilibria'' lever_rule_phase_fraction_ins
       [''materials.phase_equilibria.lever.phase_alpha_fraction'']
       lever_rule_phase_fraction_box
       [''tie_line'', ''two_phase'']
       (1 / 10 ^ 9) (AccOne EXACT)
       LEVER_RULE_CITATIONS
       ''1''\<close>

definition lever_rule_phase_fraction :: "(string \<Rightarrow> real \<Rightarrow> string) \<Rightarrow> inputs \<Rightarrow> raw_return" where
  \<open>lever_rule_phase_fraction fmt x =
    (arg x ''materials.phase_equilibria.lever.alpha_fraction'' (\<lambda>alpha_fraction.
     arg x ''materials.phase_equilibria.lever.beta_fraction'' (\<lambda>beta_fraction.
     arg x ''materials.phase_equilibria.lever.overall_fraction'' (\<lambda>overall_fraction.
     let lo' = min alpha_fraction beta_fraction in
     let hi' = max alpha_fraction beta_fraction in
     if py_isclose alpha_fraction beta_fraction (1 / 10 ^ 12)
     then out_of_domain (''lever rule: degenerate tie line, alpha_fraction == beta_fraction == '' @ fmt ''r'' alpha_fraction)
     else
     if \<not> (lo' - (1 / 10 ^ 9) \<le> overall_fraction \<and> overall_fraction \<le> hi' + (1 / 10 ^ 9))
     then out_of_domain (''lever rule: overall_fraction='' @ fmt ''r'' overall_fraction @ '' not between phase boundaries ['' @ fmt ''r'' lo' @ '', '' @ fmt ''r'' hi' @ '']'')
     else
     py_div (beta_fraction - overall_fraction) (beta_fraction - alpha_fraction) (\<lambda>phase_alpha_fraction.
     ok_values [(''materials.phase_equilibria.lever.phase_alpha_fraction'', phase_alpha_fraction)])))))\<close>

definition REGULAR_SOLUTION_CITATIONS :: "citation list" where
  \<open>REGULAR_SOLUTION_CITATIONS =
     [\<lparr>ct_kind = ''paper'', ct_ref = ''Hildebrand, J. H. (1929), 'Solubility. XII. Regular Solutions', J. Am. Chem. Soc., 51(1), 66-80 -- the regular-solution model, dG_mix = R*T*(x*ln(x) + (1-x)*ln(1-x)) + Omega*x*(1-x); see also Porter, Easterling & Sherif, Phase Transformations in Metals and Alloys, 3rd ed., ch. 1 sec. 1.3 for the standard binary-alloy presentation of this form.'', ct_note = ([CHR 0x60] @ ''omega'' @ [CHR 0x60] @ '' (the regular-solution interaction parameter, J/mol) is CALLER-SUPPLIED -- per-alloy-system Omega values come from a CALPHAD assessment or experimental fit this package does not itself perform (the ticket's own 'CALPHAD-lite' honesty scope; full sublattice CALPHAD assessment is a named cut). Calibration is a hand-computed check of the closed form (the ideal-mixing limit Omega=0 reduces to the exact ideal-solution entropy term, a structural identity, not a fitted empirical value).'')\<rparr>]\<close>

subsection \<open>\<open>regular_solution_binary_free_energy\<close>\<close>

definition regular_solution_binary_free_energy_box :: "(string, interval) dict" where
  "regular_solution_binary_free_energy_box =
     [(''materials.phase_equilibria.regular_solution.mole_fraction'', ivl (1 / 10 ^ 6) (999999 / 10 ^ 6)),
      (''materials.phase_equilibria.regular_solution.temperature'', ivl 1 3500),
      (''materials.phase_equilibria.regular_solution.omega'', ivl (- 50000) 50000)]"

definition regular_solution_binary_free_energy_ins :: "string list" where
  "regular_solution_binary_free_energy_ins = [''materials.phase_equilibria.regular_solution.mole_fraction'', ''materials.phase_equilibria.regular_solution.temperature'', ''materials.phase_equilibria.regular_solution.omega'']"

definition regular_solution_binary_free_energy_args :: build_args where
  \<open>regular_solution_binary_free_energy_args =
     solver_args ''materials.phase_equilibria'' regular_solution_binary_free_energy_ins
       [''materials.phase_equilibria.regular_solution.gibbs_mixing'']
       regular_solution_binary_free_energy_box
       [''calphad_lite'', ''regular_solution'']
       (1 / 10 ^ 7) (AccOne EXACT)
       REGULAR_SOLUTION_CITATIONS
       ''1''\<close>

definition regular_solution_binary_free_energy :: "(string \<Rightarrow> real \<Rightarrow> string) \<Rightarrow> inputs \<Rightarrow> raw_return" where
  \<open>regular_solution_binary_free_energy fmt x =
    (arg x ''materials.phase_equilibria.regular_solution.mole_fraction'' (\<lambda>mole_fraction.
     arg x ''materials.phase_equilibria.regular_solution.temperature'' (\<lambda>temperature.
     arg x ''materials.phase_equilibria.regular_solution.omega'' (\<lambda>omega.
     if temperature \<le> 0
     then out_of_domain (''regular solution: non-positive temperature='' @ fmt ''r'' temperature)
     else
     py_ln mole_fraction (\<lambda>t4.
     py_ln (1 - mole_fraction) (\<lambda>t5.
     let ideal_term = phase_equilibria_GAS_CONSTANT_J_PER_MOL_K * temperature * (mole_fraction * t4 + (1 - mole_fraction) * t5) in
     let excess_term = omega * mole_fraction * (1 - mole_fraction) in
     ok_values [(''materials.phase_equilibria.regular_solution.gibbs_mixing'', ideal_term + excess_term)]))))))\<close>

definition phase_equilibria_PORT_DECLS :: "port_decl list" where
  "phase_equilibria_PORT_DECLS =
     [scalar_port ''materials.phase_equilibria.lever.alpha_fraction'' ''1'',
      scalar_port ''materials.phase_equilibria.lever.beta_fraction'' ''1'',
      scalar_port ''materials.phase_equilibria.lever.overall_fraction'' ''1'',
      scalar_port ''materials.phase_equilibria.lever.phase_alpha_fraction'' ''1'',
      scalar_port ''materials.phase_equilibria.regular_solution.mole_fraction'' ''1'',
      scalar_port ''materials.phase_equilibria.regular_solution.temperature'' ''K'',
      scalar_port ''materials.phase_equilibria.regular_solution.omega'' ''J/mol'',
      scalar_port ''materials.phase_equilibria.regular_solution.gibbs_mixing'' ''J/mol'']"

section \<open>What the directions compute\<close>

section \<open>The family\<close>

definition phase_equilibria_directions ::
  "(json \<Rightarrow> string) \<Rightarrow> (json \<Rightarrow> string) \<Rightarrow> (string \<Rightarrow> real \<Rightarrow> string)
   \<Rightarrow> (solver_pair, registry_error) outcome list" where
  "phase_equilibria_directions H dumps fmt =
     [module_direction H dumps lever_rule_phase_fraction_args ''lever_rule_phase_fraction'' (lever_rule_phase_fraction fmt),
      module_direction H dumps regular_solution_binary_free_energy_args ''regular_solution_binary_free_energy'' (regular_solution_binary_free_energy fmt)]"

definition register_phase_equilibria ::
  "(json \<Rightarrow> string) \<Rightarrow> (json \<Rightarrow> string) \<Rightarrow> (string \<Rightarrow> real \<Rightarrow> string)
   \<Rightarrow> registry \<Rightarrow> (unit, registry_error) outcome \<times> registry" where
  "register_phase_equilibria H dumps fmt = register_family phase_equilibria_PORT_DECLS (phase_equilibria_directions H dumps fmt)"

end
