(* ===== verification/Lib_Pipes.thy ===== *)
theory Lib_Pipes
  imports Catalog Kernel_Formulas Sugar
begin

text \<open>
  Incompressible pipe flow, pumps and water hammer (\<open>fluids/incompressible.py\<close>) over the formulas of the compiled kernel.
\<close>

section \<open>Directions\<close>

definition LAMINAR_CITATIONS :: "citation list" where
  \<open>LAMINAR_CITATIONS =
     [\<lparr>ct_kind = ''handbook'', ct_ref = ''White, Fluid Mechanics, 8th ed.'', ct_note = ''sec. 6.4, laminar fully developed pipe flow''\<rparr>]\<close>

subsection \<open>\<open>laminar_friction_factor\<close>\<close>

definition laminar_friction_factor_box :: "(string, interval) dict" where
  "laminar_friction_factor_box =
     [(''fluids.pipe.reynolds'', ivl 1 2300)]"

definition laminar_friction_factor_ins :: "string list" where
  "laminar_friction_factor_ins = [''fluids.pipe.reynolds'']"

definition laminar_friction_factor_args :: build_args where
  \<open>laminar_friction_factor_args =
     solver_args ''fluids'' laminar_friction_factor_ins
       [''fluids.pipe.friction_factor'']
       laminar_friction_factor_box
       [''incompressible'', ''laminar'']
       (1 / 10 ^ 7) (AccOne EXACT)
       LAMINAR_CITATIONS
       ''1''\<close>

definition laminar_friction_factor :: "(string \<Rightarrow> real \<Rightarrow> string) \<Rightarrow> inputs \<Rightarrow> raw_return" where
  \<open>laminar_friction_factor fmt x =
    (arg x ''fluids.pipe.reynolds'' (\<lambda>reynolds.
     ok_floats [(''fluids.pipe.friction_factor'', fluids_laminar_friction_factor (Fin reynolds))]))\<close>

definition TURBULENT_CITATIONS :: "citation list" where
  \<open>TURBULENT_CITATIONS =
     [\<lparr>ct_kind = ''paper'', ct_ref = ''Colebrook, Turbulent Flow in Pipes, J. Inst. Civ. Eng., 1939'', ct_note = []\<rparr>,
      \<lparr>ct_kind = ''handbook'', ct_ref = ''White, Fluid Mechanics, 8th ed.'', ct_note = ''sec. 6.8, Moody chart / Colebrook equation''\<rparr>]\<close>

subsection \<open>\<open>colebrook_friction_factor\<close>\<close>

definition colebrook_friction_factor_box :: "(string, interval) dict" where
  "colebrook_friction_factor_box =
     [(''fluids.pipe.reynolds'', ivl 4000 (10 ^ 8)),
      (''fluids.pipe.relative_roughness'', ivl 0 (5 / 100))]"

definition colebrook_friction_factor_ins :: "string list" where
  "colebrook_friction_factor_ins = [''fluids.pipe.reynolds'', ''fluids.pipe.relative_roughness'']"

definition colebrook_friction_factor_args :: build_args where
  \<open>colebrook_friction_factor_args =
     solver_args ''fluids'' colebrook_friction_factor_ins
       [''fluids.pipe.friction_factor'']
       colebrook_friction_factor_box
       [''incompressible'', ''turbulent'']
       (1 / 10 ^ 6) (AccOne EXACT)
       TURBULENT_CITATIONS
       ''1''\<close>

definition colebrook_friction_factor :: "(string \<Rightarrow> real \<Rightarrow> string) \<Rightarrow> inputs \<Rightarrow> raw_return" where
  \<open>colebrook_friction_factor fmt x =
    (arg x ''fluids.pipe.reynolds'' (\<lambda>reynolds.
     arg x ''fluids.pipe.relative_roughness'' (\<lambda>rel_rough.
     ok_floats [(''fluids.pipe.friction_factor'', fluids_colebrook_friction_factor (Fin reynolds) (Fin rel_rough))])))\<close>

definition HAALAND_CITATIONS :: "citation list" where
  \<open>HAALAND_CITATIONS =
     [\<lparr>ct_kind = ''paper'', ct_ref = ''Haaland, Simple and Explicit Formulas for the Friction Factor in Turbulent Pipe Flow, J. Fluids Eng., 1983'', ct_note = []\<rparr>,
      \<lparr>ct_kind = ''handbook'', ct_ref = ''White, Fluid Mechanics, 8th ed.'', ct_note = ''sec. 6.8, explicit Colebrook approximation''\<rparr>]\<close>

subsection \<open>\<open>haaland_friction_factor\<close>\<close>

definition haaland_friction_factor_box :: "(string, interval) dict" where
  "haaland_friction_factor_box =
     [(''fluids.pipe.reynolds'', ivl 4000 (10 ^ 8)),
      (''fluids.pipe.relative_roughness'', ivl 0 (5 / 100))]"

definition haaland_friction_factor_ins :: "string list" where
  "haaland_friction_factor_ins = [''fluids.pipe.reynolds'', ''fluids.pipe.relative_roughness'']"

definition haaland_friction_factor_args :: build_args where
  \<open>haaland_friction_factor_args =
     solver_args ''fluids'' haaland_friction_factor_ins
       [''fluids.pipe.friction_factor.haaland'']
       haaland_friction_factor_box
       [''incompressible'', ''turbulent'']
       (1 / 10 ^ 7) (AccOne EXACT)
       HAALAND_CITATIONS
       ''1''\<close>

definition haaland_friction_factor :: "(string \<Rightarrow> real \<Rightarrow> string) \<Rightarrow> inputs \<Rightarrow> raw_return" where
  \<open>haaland_friction_factor fmt x =
    (arg x ''fluids.pipe.reynolds'' (\<lambda>reynolds.
     arg x ''fluids.pipe.relative_roughness'' (\<lambda>rel_rough.
     let f = fluids_haaland_friction_factor (Fin reynolds) (Fin rel_rough) in
     ok_floats [(''fluids.pipe.friction_factor.haaland'', f)])))\<close>

definition DARCY_CITATIONS :: "citation list" where
  \<open>DARCY_CITATIONS =
     [\<lparr>ct_kind = ''handbook'', ct_ref = ''White, Fluid Mechanics, 8th ed.'', ct_note = ''sec. 6.6, Darcy-Weisbach pressure loss''\<rparr>]\<close>

subsection \<open>\<open>darcy_dp\<close>\<close>

definition darcy_dp_box :: "(string, interval) dict" where
  "darcy_dp_box =
     [(''fluids.pipe.friction_factor'', ivl (1 / 10000) 1),
      (''fluids.pipe.length'', ivl (1 / 1000) 100000),
      (''fluids.pipe.diameter'', ivl (1 / 10000) 10),
      (''fluids.fluid.density'', ivl (1 / 1000) 20000),
      (''fluids.pipe.velocity'', ivl 0 1000)]"

definition darcy_dp_ins :: "string list" where
  "darcy_dp_ins = [''fluids.pipe.friction_factor'', ''fluids.pipe.length'', ''fluids.pipe.diameter'', ''fluids.fluid.density'', ''fluids.pipe.velocity'']"

definition darcy_dp_args :: build_args where
  \<open>darcy_dp_args =
     solver_args ''fluids'' darcy_dp_ins
       [''fluids.pipe.dp'']
       darcy_dp_box
       [''incompressible'']
       (1 / 10 ^ 7) (AccOne EXACT)
       DARCY_CITATIONS
       ''1''\<close>

definition darcy_dp :: "(string \<Rightarrow> real \<Rightarrow> string) \<Rightarrow> inputs \<Rightarrow> raw_return" where
  \<open>darcy_dp fmt x =
    (arg x ''fluids.pipe.friction_factor'' (\<lambda>f.
     arg x ''fluids.pipe.length'' (\<lambda>length.
     arg x ''fluids.pipe.diameter'' (\<lambda>diameter.
     arg x ''fluids.fluid.density'' (\<lambda>density.
     arg x ''fluids.pipe.velocity'' (\<lambda>velocity.
     ok_floats [(''fluids.pipe.dp'', fluids_darcy_dp (Fin f) (Fin length) (Fin diameter) (Fin density) (Fin velocity))]))))))\<close>

definition MINOR_LOSS_CITATIONS :: "citation list" where
  \<open>MINOR_LOSS_CITATIONS =
     [\<lparr>ct_kind = ''standard'', ct_ref = ''Crane Technical Paper 410, Flow of Fluids Through Valves, Fittings, and Pipe'', ct_note = []\<rparr>]\<close>

subsection \<open>\<open>minor_loss_dp\<close>\<close>

definition minor_loss_dp_box :: "(string, interval) dict" where
  "minor_loss_dp_box =
     [(''fluids.fitting.k_factor'', ivl 0 100),
      (''fluids.fluid.density'', ivl (1 / 1000) 20000),
      (''fluids.pipe.velocity'', ivl 0 1000)]"

definition minor_loss_dp_ins :: "string list" where
  "minor_loss_dp_ins = [''fluids.fitting.k_factor'', ''fluids.fluid.density'', ''fluids.pipe.velocity'']"

definition minor_loss_dp_args :: build_args where
  \<open>minor_loss_dp_args =
     solver_args ''fluids'' minor_loss_dp_ins
       [''fluids.fitting.dp'']
       minor_loss_dp_box
       [''incompressible'']
       (1 / 10 ^ 7) (AccOne EXACT)
       MINOR_LOSS_CITATIONS
       ''1''\<close>

definition minor_loss_dp :: "(string \<Rightarrow> real \<Rightarrow> string) \<Rightarrow> inputs \<Rightarrow> raw_return" where
  \<open>minor_loss_dp fmt x =
    (arg x ''fluids.fitting.k_factor'' (\<lambda>k_factor.
     arg x ''fluids.fluid.density'' (\<lambda>density.
     arg x ''fluids.pipe.velocity'' (\<lambda>velocity.
     ok_floats [(''fluids.fitting.dp'', fluids_minor_loss_dp (Fin k_factor) (Fin density) (Fin velocity))]))))\<close>

definition NETWORK_CITATIONS :: "citation list" where
  \<open>NETWORK_CITATIONS =
     [\<lparr>ct_kind = ''handbook'', ct_ref = ''White, Fluid Mechanics, 8th ed.'', ct_note = ''sec. 6.8, pipe networks''\<rparr>]\<close>

subsection \<open>\<open>series_dp\<close>\<close>

definition series_dp_box :: "(string, interval) dict" where
  "series_dp_box =
     [(''fluids.network.dp1'', ivl 0 (10 ^ 9)),
      (''fluids.network.dp2'', ivl 0 (10 ^ 9))]"

definition series_dp_ins :: "string list" where
  "series_dp_ins = [''fluids.network.dp1'', ''fluids.network.dp2'']"

definition series_dp_args :: build_args where
  \<open>series_dp_args =
     solver_args ''fluids'' series_dp_ins
       [''fluids.network.dp_series'']
       series_dp_box
       [''incompressible'', ''network_series'']
       (1 / 10 ^ 9) (AccOne EXACT)
       NETWORK_CITATIONS
       ''1''\<close>

definition series_dp :: "(string \<Rightarrow> real \<Rightarrow> string) \<Rightarrow> inputs \<Rightarrow> raw_return" where
  \<open>series_dp fmt x =
    (arg x ''fluids.network.dp1'' (\<lambda>dp1.
     arg x ''fluids.network.dp2'' (\<lambda>dp2.
     ok_floats [(''fluids.network.dp_series'', fluids_series_dp (Fin dp1) (Fin dp2))])))\<close>

subsection \<open>\<open>parallel_flow\<close>\<close>

definition parallel_flow_box :: "(string, interval) dict" where
  "parallel_flow_box =
     [(''fluids.network.q1'', ivl 0 (10 ^ 6)),
      (''fluids.network.q2'', ivl 0 (10 ^ 6))]"

definition parallel_flow_ins :: "string list" where
  "parallel_flow_ins = [''fluids.network.q1'', ''fluids.network.q2'']"

definition parallel_flow_args :: build_args where
  \<open>parallel_flow_args =
     solver_args ''fluids'' parallel_flow_ins
       [''fluids.network.q_parallel'']
       parallel_flow_box
       [''incompressible'', ''network_parallel'']
       (1 / 10 ^ 9) (AccOne EXACT)
       NETWORK_CITATIONS
       ''1''\<close>

definition parallel_flow :: "(string \<Rightarrow> real \<Rightarrow> string) \<Rightarrow> inputs \<Rightarrow> raw_return" where
  \<open>parallel_flow fmt x =
    (arg x ''fluids.network.q1'' (\<lambda>q1.
     arg x ''fluids.network.q2'' (\<lambda>q2.
     ok_floats [(''fluids.network.q_parallel'', fluids_parallel_flow (Fin q1) (Fin q2))])))\<close>

definition PUMP_CITATIONS :: "citation list" where
  \<open>PUMP_CITATIONS =
     [\<lparr>ct_kind = ''handbook'', ct_ref = ''White, Fluid Mechanics, 8th ed.'', ct_note = ''sec. 11.7, pump/system curve matching''\<rparr>]\<close>

section \<open>The relation \<open>pump_operating_point\<close>\<close>

definition pump_operating_point_bounds :: "(string, bound) dict" where
  "pump_operating_point_bounds =
     [(''fluids.pump.h0'', BPair (Fin 0) (Fin 10000)),
      (''fluids.pump.a_coeff'', BPair (Fin 0) (Fin (10 ^ 9))),
      (''fluids.system.h_static'', BPair (Fin (- 10000)) (Fin 10000)),
      (''fluids.system.r_coeff'', BPair (Fin 0) (Fin (10 ^ 9))),
      (''fluids.pump.q_star'', BPair (Fin 0) (Fin 1000)),
      (''fluids.pump.h_star'', BPair (Fin (- 10000)) (Fin 10000))]"

definition pump_operating_point :: relation where
  "pump_operating_point =
     \<lparr>rl_namespace = ''fluids'', rl_ports = [''fluids.pump.h0'', ''fluids.pump.a_coeff'', ''fluids.system.h_static'', ''fluids.system.r_coeff'', ''fluids.pump.q_star'', ''fluids.pump.h_star''],
      rl_domain = DomDict pump_operating_point_bounds, rl_cost = Fin (1 / 10 ^ 7), rl_version = ''1'',
      rl_citations = map CitObj PUMP_CITATIONS, rl_tags = [''incompressible'', ''turbomachinery''],
      rl_tier = ''closed_form'', rl_settings = PyNone, rl_default_accuracy = AccOne EXACT, rl_directions = []\<rparr>"

definition pump_operating_flow :: "inputs \<Rightarrow> raw_return" where
  \<open>pump_operating_flow x =
    (arg x ''fluids.pump.h0'' (\<lambda>h0.
     arg x ''fluids.pump.a_coeff'' (\<lambda>a_coeff.
     arg x ''fluids.system.h_static'' (\<lambda>h_static.
     arg x ''fluids.system.r_coeff'' (\<lambda>r_coeff.
     let q_star = fluids_pump_operating_flow (Fin h0) (Fin a_coeff) (Fin h_static) (Fin r_coeff) in
     ok_floats [(''fluids.pump.q_star'', q_star)])))))\<close>

definition pump_operating_head :: "inputs \<Rightarrow> raw_return" where
  \<open>pump_operating_head x =
    (arg x ''fluids.system.h_static'' (\<lambda>h_static.
     arg x ''fluids.system.r_coeff'' (\<lambda>r_coeff.
     arg x ''fluids.pump.q_star'' (\<lambda>q_star.
     let h_star = fluids_pump_operating_head (Fin h_static) (Fin r_coeff) (Fin q_star) in
     ok_floats [(''fluids.pump.h_star'', h_star)]))))\<close>

definition pump_operating_point_declared ::
  "(json \<Rightarrow> string) \<Rightarrow> (json \<Rightarrow> string) \<Rightarrow> (relation, registry_error) outcome" where
  "pump_operating_point_declared H dumps =
     (case direction H dumps ''fluids.pump.q_star'' None None None True ''pump_operating_flow'' (\<lambda>x _. pump_operating_flow x) pump_operating_point of
        (Ok _, rl) \<Rightarrow>
          (case direction H dumps ''fluids.pump.h_star'' None None None True ''pump_operating_head'' (\<lambda>x _. pump_operating_head x) rl of
             (Ok _, rl') \<Rightarrow> Ok rl' | (Err e, _) \<Rightarrow> Err e | (Raise x, _) \<Rightarrow> Raise x)
      | (Err e, _) \<Rightarrow> Err e | (Raise x, _) \<Rightarrow> Raise x)"

definition NPSH_CITATIONS :: "citation list" where
  \<open>NPSH_CITATIONS =
     [\<lparr>ct_kind = ''handbook'', ct_ref = ''Cengel & Cimbala, Fluid Mechanics: Fundamentals and Applications, latest ed.'', ct_note = ''NPSH available''\<rparr>]\<close>

subsection \<open>\<open>npsh_available\<close>\<close>

definition npsh_available_box :: "(string, interval) dict" where
  "npsh_available_box =
     [(''fluids.env.p_atm'', ivl 10000 (2 * 10 ^ 6)),
      (''fluids.fluid.p_vapor'', ivl 0 (2 * 10 ^ 6)),
      (''fluids.fluid.density'', ivl 1 20000),
      (''fluids.env.gravity'', ivl 1 20),
      (''fluids.suction.static_head'', ivl (- 100) 100),
      (''fluids.suction.friction_head'', ivl 0 100)]"

definition npsh_available_ins :: "string list" where
  "npsh_available_ins = [''fluids.env.p_atm'', ''fluids.fluid.p_vapor'', ''fluids.fluid.density'', ''fluids.env.gravity'', ''fluids.suction.static_head'', ''fluids.suction.friction_head'']"

definition npsh_available_args :: build_args where
  \<open>npsh_available_args =
     solver_args ''fluids'' npsh_available_ins
       [''fluids.npsh_margin'']
       npsh_available_box
       [''incompressible'', ''turbomachinery'']
       (1 / 10 ^ 7) (AccOne EXACT)
       NPSH_CITATIONS
       ''1''\<close>

definition npsh_available :: "(string \<Rightarrow> real \<Rightarrow> string) \<Rightarrow> inputs \<Rightarrow> raw_return" where
  \<open>npsh_available fmt x =
    (arg x ''fluids.env.p_atm'' (\<lambda>p_atm.
     arg x ''fluids.fluid.p_vapor'' (\<lambda>p_vapor.
     arg x ''fluids.fluid.density'' (\<lambda>density.
     arg x ''fluids.env.gravity'' (\<lambda>gravity.
     arg x ''fluids.suction.static_head'' (\<lambda>static_head.
     arg x ''fluids.suction.friction_head'' (\<lambda>friction_head.
     let npsh = fluids_npsh_available (Fin p_atm) (Fin p_vapor) (Fin density) (Fin gravity) (Fin static_head) (Fin friction_head) in
     ok_floats [(''fluids.npsh_margin'', npsh)])))))))\<close>

definition JOUKOWSKY_CITATIONS :: "citation list" where
  \<open>JOUKOWSKY_CITATIONS =
     [\<lparr>ct_kind = ''handbook'', ct_ref = ''Wylie & Streeter, Fluid Transients in Systems, ch. 1 (Joukowsky equation)'', ct_note = []\<rparr>,
      \<lparr>ct_kind = ''handbook'', ct_ref = ''White, Fluid Mechanics, 8th ed.'', ct_note = ''sec. 6.9, water hammer''\<rparr>]\<close>

subsection \<open>\<open>joukowsky_dp\<close>\<close>

definition joukowsky_dp_box :: "(string, interval) dict" where
  "joukowsky_dp_box =
     [(''fluids.transient.wave_speed'', ivl 1 2000),
      (''fluids.transient.delta_velocity'', ivl (- 100) 100),
      (''fluids.fluid.density'', ivl 1 20000)]"

definition joukowsky_dp_ins :: "string list" where
  "joukowsky_dp_ins = [''fluids.transient.wave_speed'', ''fluids.transient.delta_velocity'', ''fluids.fluid.density'']"

definition joukowsky_dp_args :: build_args where
  \<open>joukowsky_dp_args =
     solver_args ''fluids'' joukowsky_dp_ins
       [''fluids.transient.hammer_dp'']
       joukowsky_dp_box
       [''incompressible'', ''transient'']
       (1 / 10 ^ 7) (AccOne EXACT)
       JOUKOWSKY_CITATIONS
       ''1''\<close>

definition joukowsky_dp :: "(string \<Rightarrow> real \<Rightarrow> string) \<Rightarrow> inputs \<Rightarrow> raw_return" where
  \<open>joukowsky_dp fmt x =
    (arg x ''fluids.fluid.density'' (\<lambda>density.
     arg x ''fluids.transient.wave_speed'' (\<lambda>wave_speed.
     arg x ''fluids.transient.delta_velocity'' (\<lambda>delta_velocity.
     ok_floats [(''fluids.transient.hammer_dp'', fluids_joukowsky_dp (Fin density) (Fin wave_speed) (Fin delta_velocity))]))))\<close>

definition incompressible_PORT_DECLS :: "port_decl list" where
  "incompressible_PORT_DECLS =
     [scalar_port ''fluids.pipe.reynolds'' ''1'',
      scalar_port ''fluids.pipe.relative_roughness'' ''1'',
      scalar_port ''fluids.pipe.friction_factor'' ''1'',
      scalar_port ''fluids.pipe.friction_factor.haaland'' ''1'',
      scalar_port ''fluids.pipe.length'' ''m'',
      scalar_port ''fluids.pipe.diameter'' ''m'',
      scalar_port ''fluids.pipe.velocity'' ''m/s'',
      scalar_port ''fluids.pipe.dp'' ''Pa'',
      scalar_port ''fluids.fitting.k_factor'' ''1'',
      scalar_port ''fluids.fitting.dp'' ''Pa'',
      scalar_port ''fluids.fluid.density'' ''kg/m^3'',
      scalar_port ''fluids.fluid.p_vapor'' ''Pa'',
      scalar_port ''fluids.env.p_atm'' ''Pa'',
      scalar_port ''fluids.env.gravity'' ''m/s^2'',
      scalar_port ''fluids.suction.static_head'' ''m'',
      scalar_port ''fluids.suction.friction_head'' ''m'',
      scalar_port ''fluids.npsh_margin'' ''m'',
      scalar_port ''fluids.network.dp1'' ''Pa'',
      scalar_port ''fluids.network.dp2'' ''Pa'',
      scalar_port ''fluids.network.dp_series'' ''Pa'',
      scalar_port ''fluids.network.q1'' ''m^3/s'',
      scalar_port ''fluids.network.q2'' ''m^3/s'',
      scalar_port ''fluids.network.q_parallel'' ''m^3/s'',
      scalar_port ''fluids.pump.h0'' ''m'',
      scalar_port ''fluids.pump.a_coeff'' ''s^2/m^5'',
      scalar_port ''fluids.pump.q_star'' ''m^3/s'',
      scalar_port ''fluids.pump.h_star'' ''m'',
      scalar_port ''fluids.system.h_static'' ''m'',
      scalar_port ''fluids.system.r_coeff'' ''s^2/m^5'',
      scalar_port ''fluids.transient.wave_speed'' ''m/s'',
      scalar_port ''fluids.transient.delta_velocity'' ''m/s'',
      scalar_port ''fluids.transient.hammer_dp'' ''Pa'']"

section \<open>What the directions compute\<close>

definition haaland :: "real \<Rightarrow> real \<Rightarrow> real" where
  "haaland re rr = 1 / (- (18 / 10) * (ln ((rr / (37 / 10)) powr (111 / 100) + 69 / 10 / re) / ln 10)) ^ 2"

lemma haaland_inner:
  fixes re rr :: real
  assumes "4000 \<le> re" "0 \<le> rr" "rr \<le> 1 / 20"
  shows "0 < (rr / (37 / 10)) powr (111 / 100) + 69 / 10 / re" "(rr / (37 / 10)) powr (111 / 100) + 69 / 10 / re < 1"
proof -
  have "0 < 69 / 10 / re" using assms by simp
  then show "0 < (rr / (37 / 10)) powr (111 / 100) + 69 / 10 / re"
    using powr_ge_zero [of "rr / (37 / 10)" "111 / 100"] by linarith
  have "(rr / (37 / 10)) powr (111 / 100) \<le> (rr / (37 / 10)) powr 1"
    using assms by (intro powr_mono') auto
  moreover have "69 / 10 / re \<le> 69 / 10 / 4000" using assms by (intro divide_left_mono) auto
  ultimately show "(rr / (37 / 10)) powr (111 / 100) + 69 / 10 / re < 1"
    using assms by (simp add: powr_one)
qed

lemma haaland_kernel:
  assumes "4000 \<le> re" "0 \<le> rr" "rr \<le> 1 / 20"
  shows "fluids_haaland_friction_factor (Fin re) (Fin rr) = Fin (haaland re rr)"
proof -
  note inner = haaland_inner [OF assms]
  have "rust_powf (Fin (rr / (37 / 10))) (Fin (111 / 100)) = Fin ((rr / (37 / 10)) powr (111 / 100))"
    using assms(2) by (cases "rr = 0") simp_all
  moreover have "ln ((rr / (37 / 10)) powr (111 / 100) + 69 / 10 / re) \<noteq> 0"
    using inner by (metis less_irrefl ln_less_zero_iff)
  ultimately show ?thesis
    using inner assms(1) by (simp add: fluids_haaland_friction_factor_def haaland_def Let_def power2_eq_square)
qed

lemma haaland_mono:
  fixes i j :: real
  assumes "0 < i" "i \<le> j" "j < 1"
  shows "1 / (- (18 / 10) * (ln i / ln 10)) ^ 2 \<le> 1 / (- (18 / 10) * (ln j / ln 10)) ^ 2"
proof -
  have "ln i \<le> ln j" "ln j < 0" using assms by simp_all
  then have "- (ln j / ln 10) \<le> - (ln i / ln 10)" "0 < - (ln j / ln 10)"
    by (simp_all add: divide_right_mono divide_neg_pos)
  then have "(18 / 10 * - (ln j / ln 10)) ^ 2 \<le> (18 / 10 * - (ln i / ln 10)) ^ 2" "0 < (18 / 10 * - (ln j / ln 10)) ^ 2"
    using \<open>ln j < 0\<close> by (intro power_mono mult_left_mono, simp_all)
  moreover from this have "0 < (18 / 10 * - (ln i / ln 10)) ^ 2" by linarith
  ultimately show ?thesis unfolding minus_mult_left [symmetric] minus_mult_right [symmetric]
    by (intro divide_left_mono) (auto intro: mult_pos_pos)
qed

lemma swings_haaland:
  "4000 \<le> re \<Longrightarrow> (\<And>v. iv_contains iv v \<Longrightarrow> 0 \<le> v \<and> v \<le> 1 / 20) \<Longrightarrow> swings iv (\<lambda>v. haaland re v)"
  "0 \<le> rr \<Longrightarrow> rr \<le> 1 / 20 \<Longrightarrow> (\<And>v. iv_contains iv v \<Longrightarrow> 4000 \<le> v) \<Longrightarrow> swings iv (\<lambda>v. haaland v rr)"
proof -
  show "swings iv (\<lambda>v. haaland re v)" if "4000 \<le> re" and iv: "\<And>v. iv_contains iv v \<Longrightarrow> 0 \<le> v \<and> v \<le> 1 / 20"
    unfolding haaland_def
  proof (rule rises_swings, rule risesI, rule haaland_mono)
    fix v w assume v: "iv_contains iv v" "iv_contains iv w" "v \<le> w"
    show "(v / (37 / 10)) powr (111 / 100) + 69 / 10 / re \<le> (w / (37 / 10)) powr (111 / 100) + 69 / 10 / re"
      using iv [OF v(1)] v(3) by (intro add_right_mono powr_mono2) auto
  qed (use haaland_inner [OF that(1)] iv in blast)+
  show "swings iv (\<lambda>v. haaland v rr)" if rr: "0 \<le> rr" "rr \<le> 1 / 20" and iv: "\<And>v. iv_contains iv v \<Longrightarrow> 4000 \<le> v"
    unfolding haaland_def
  proof (rule falls_swings, rule fallsI, rule haaland_mono)
    fix v w assume v: "iv_contains iv v" "iv_contains iv w" "v \<le> w"
    show "(rr / (37 / 10)) powr (111 / 100) + 69 / 10 / w \<le> (rr / (37 / 10)) powr (111 / 100) + 69 / 10 / v"
      using iv [OF v(1)] v(3) by (intro add_left_mono divide_left_mono) auto
  qed (use haaland_inner [OF _ rr] iv in blast)+
qed

subsection \<open>\<open>laminar_friction_factor\<close>\<close>

definition laminar_friction_factor_valid :: "real list \<Rightarrow> bool" where
  "laminar_friction_factor_valid vs \<longleftrightarrow> True"

definition laminar_friction_factor_forms :: "(string, real list \<Rightarrow> real) dict" where
  "laminar_friction_factor_forms =
     [(''fluids.pipe.friction_factor'', \<lambda>vs. 64 / (vs ! 0))]"

lemma laminar_friction_factor_answers: "computes (laminar_friction_factor fmt) laminar_friction_factor_ins laminar_friction_factor_box laminar_friction_factor_valid laminar_friction_factor_forms"
  by (rule computes_kernelI [where ok = "\<lambda>vs. True" and vals = "\<lambda>vs. [(''fluids.pipe.friction_factor'', fluids_laminar_friction_factor (Fin (vs ! 0)))]"])
    (auto simp: laminar_friction_factor_def laminar_friction_factor_ins_def laminar_friction_factor_box_def laminar_friction_factor_valid_def laminar_friction_factor_forms_def answer_simps reads_Nil reads_Cons Let_def
      ranges_of_def in_ranges_Cons fluids_laminar_friction_factor_def)

lemma laminar_friction_factor_total: "in_ranges (ranges_of laminar_friction_factor_ins laminar_friction_factor_box) vs \<Longrightarrow> laminar_friction_factor_valid vs"
  by (auto simp: laminar_friction_factor_ins_def laminar_friction_factor_box_def laminar_friction_factor_valid_def ranges_of_def in_ranges_Cons)

lemma laminar_friction_factor_slices: "f \<in> snd ` set laminar_friction_factor_forms \<Longrightarrow> slice_monotone (ranges_of laminar_friction_factor_ins laminar_friction_factor_box) f"
  by (auto simp: laminar_friction_factor_forms_def laminar_friction_factor_ins_def laminar_friction_factor_box_def ranges_of_def   intro!: slice_monotone_1 swing)

interpretation laminar_friction_factor: total_solver laminar_friction_factor_ins laminar_friction_factor_box laminar_friction_factor_valid laminar_friction_factor_forms "laminar_friction_factor fmt" for fmt
  by unfold_locales (rule laminar_friction_factor_answers | erule laminar_friction_factor_total laminar_friction_factor_slices | simp add: ports_ok_def dict_ok_def laminar_friction_factor_ins_def laminar_friction_factor_box_def)+

lemma laminar_friction_factor_law:
  "keeps_law (module_direction H dumps laminar_friction_factor_args ''laminar_friction_factor'' (laminar_friction_factor fmt)) laminar_friction_factor_valid laminar_friction_factor_forms"
  unfolding laminar_friction_factor_args_def
  by (rule laminar_friction_factor.direction_law) (simp_all add: laminar_friction_factor_forms_def)

subsection \<open>\<open>haaland_friction_factor\<close>\<close>

definition haaland_friction_factor_valid :: "real list \<Rightarrow> bool" where
  "haaland_friction_factor_valid vs \<longleftrightarrow> True"

definition haaland_friction_factor_forms :: "(string, real list \<Rightarrow> real) dict" where
  "haaland_friction_factor_forms =
     [(''fluids.pipe.friction_factor.haaland'', \<lambda>vs. haaland (vs ! 0) (vs ! 1))]"

lemma haaland_friction_factor_answers: "computes (haaland_friction_factor fmt) haaland_friction_factor_ins haaland_friction_factor_box haaland_friction_factor_valid haaland_friction_factor_forms"
  by (rule computes_kernelI [where ok = "\<lambda>vs. True" and vals = "\<lambda>vs. [(''fluids.pipe.friction_factor.haaland'', (fluids_haaland_friction_factor (Fin (vs ! 0)) (Fin (vs ! 1))))]"])
    (auto simp: haaland_friction_factor_def haaland_friction_factor_ins_def haaland_friction_factor_box_def haaland_friction_factor_valid_def haaland_friction_factor_forms_def answer_simps reads_Nil reads_Cons Let_def
      ranges_of_def in_ranges_Cons   haaland_kernel)

lemma haaland_friction_factor_total: "in_ranges (ranges_of haaland_friction_factor_ins haaland_friction_factor_box) vs \<Longrightarrow> haaland_friction_factor_valid vs"
  by (auto simp: haaland_friction_factor_ins_def haaland_friction_factor_box_def haaland_friction_factor_valid_def ranges_of_def in_ranges_Cons)

lemma haaland_friction_factor_slices: "f \<in> snd ` set haaland_friction_factor_forms \<Longrightarrow> slice_monotone (ranges_of haaland_friction_factor_ins haaland_friction_factor_box) f"
  by (auto simp: haaland_friction_factor_forms_def haaland_friction_factor_ins_def haaland_friction_factor_box_def ranges_of_def   intro!: slice_monotone_2 swing swings_haaland)

interpretation haaland_friction_factor: total_solver haaland_friction_factor_ins haaland_friction_factor_box haaland_friction_factor_valid haaland_friction_factor_forms "haaland_friction_factor fmt" for fmt
  by unfold_locales (rule haaland_friction_factor_answers | erule haaland_friction_factor_total haaland_friction_factor_slices | simp add: ports_ok_def dict_ok_def haaland_friction_factor_ins_def haaland_friction_factor_box_def)+

lemma haaland_friction_factor_law:
  "keeps_law (module_direction H dumps haaland_friction_factor_args ''haaland_friction_factor'' (haaland_friction_factor fmt)) haaland_friction_factor_valid haaland_friction_factor_forms"
  unfolding haaland_friction_factor_args_def
  by (rule haaland_friction_factor.direction_law) (simp_all add: haaland_friction_factor_forms_def)

subsection \<open>\<open>darcy_dp\<close>\<close>

definition darcy_dp_valid :: "real list \<Rightarrow> bool" where
  "darcy_dp_valid vs \<longleftrightarrow> True"

definition darcy_dp_forms :: "(string, real list \<Rightarrow> real) dict" where
  "darcy_dp_forms =
     [(''fluids.pipe.dp'', \<lambda>vs. (vs ! 0) * ((vs ! 1) / (vs ! 2)) * ((vs ! 3) * (vs ! 4) * (vs ! 4) / 2))]"

lemma darcy_dp_answers: "computes (darcy_dp fmt) darcy_dp_ins darcy_dp_box darcy_dp_valid darcy_dp_forms"
  by (rule computes_kernelI [where ok = "\<lambda>vs. True" and vals = "\<lambda>vs. [(''fluids.pipe.dp'', fluids_darcy_dp (Fin (vs ! 0)) (Fin (vs ! 1)) (Fin (vs ! 2)) (Fin (vs ! 3)) (Fin (vs ! 4)))]"])
    (auto simp: darcy_dp_def darcy_dp_ins_def darcy_dp_box_def darcy_dp_valid_def darcy_dp_forms_def answer_simps reads_Nil reads_Cons Let_def
      ranges_of_def in_ranges_Cons fluids_darcy_dp_def)

lemma darcy_dp_total: "in_ranges (ranges_of darcy_dp_ins darcy_dp_box) vs \<Longrightarrow> darcy_dp_valid vs"
  by (auto simp: darcy_dp_ins_def darcy_dp_box_def darcy_dp_valid_def ranges_of_def in_ranges_Cons)

lemma darcy_dp_slices: "f \<in> snd ` set darcy_dp_forms \<Longrightarrow> slice_monotone (ranges_of darcy_dp_ins darcy_dp_box) f"
  by (auto simp: darcy_dp_forms_def darcy_dp_ins_def darcy_dp_box_def ranges_of_def   intro!: slice_monotone_5 swing swings_times_self)

interpretation darcy_dp: total_solver darcy_dp_ins darcy_dp_box darcy_dp_valid darcy_dp_forms "darcy_dp fmt" for fmt
  by unfold_locales (rule darcy_dp_answers | erule darcy_dp_total darcy_dp_slices | simp add: ports_ok_def dict_ok_def darcy_dp_ins_def darcy_dp_box_def)+

lemma darcy_dp_law:
  "keeps_law (module_direction H dumps darcy_dp_args ''darcy_dp'' (darcy_dp fmt)) darcy_dp_valid darcy_dp_forms"
  unfolding darcy_dp_args_def
  by (rule darcy_dp.direction_law) (simp_all add: darcy_dp_forms_def)

subsection \<open>\<open>minor_loss_dp\<close>\<close>

definition minor_loss_dp_valid :: "real list \<Rightarrow> bool" where
  "minor_loss_dp_valid vs \<longleftrightarrow> True"

definition minor_loss_dp_forms :: "(string, real list \<Rightarrow> real) dict" where
  "minor_loss_dp_forms =
     [(''fluids.fitting.dp'', \<lambda>vs. (vs ! 0) * (vs ! 1) * (vs ! 2) * (vs ! 2) / 2)]"

lemma minor_loss_dp_answers: "computes (minor_loss_dp fmt) minor_loss_dp_ins minor_loss_dp_box minor_loss_dp_valid minor_loss_dp_forms"
  by (rule computes_kernelI [where ok = "\<lambda>vs. True" and vals = "\<lambda>vs. [(''fluids.fitting.dp'', fluids_minor_loss_dp (Fin (vs ! 0)) (Fin (vs ! 1)) (Fin (vs ! 2)))]"])
    (auto simp: minor_loss_dp_def minor_loss_dp_ins_def minor_loss_dp_box_def minor_loss_dp_valid_def minor_loss_dp_forms_def answer_simps reads_Nil reads_Cons Let_def
      ranges_of_def in_ranges_Cons fluids_minor_loss_dp_def)

lemma minor_loss_dp_total: "in_ranges (ranges_of minor_loss_dp_ins minor_loss_dp_box) vs \<Longrightarrow> minor_loss_dp_valid vs"
  by (auto simp: minor_loss_dp_ins_def minor_loss_dp_box_def minor_loss_dp_valid_def ranges_of_def in_ranges_Cons)

lemma minor_loss_dp_slices: "f \<in> snd ` set minor_loss_dp_forms \<Longrightarrow> slice_monotone (ranges_of minor_loss_dp_ins minor_loss_dp_box) f"
  by (auto simp: minor_loss_dp_forms_def minor_loss_dp_ins_def minor_loss_dp_box_def ranges_of_def   intro!: slice_monotone_3 swing swings_times_self)

interpretation minor_loss_dp: total_solver minor_loss_dp_ins minor_loss_dp_box minor_loss_dp_valid minor_loss_dp_forms "minor_loss_dp fmt" for fmt
  by unfold_locales (rule minor_loss_dp_answers | erule minor_loss_dp_total minor_loss_dp_slices | simp add: ports_ok_def dict_ok_def minor_loss_dp_ins_def minor_loss_dp_box_def)+

lemma minor_loss_dp_law:
  "keeps_law (module_direction H dumps minor_loss_dp_args ''minor_loss_dp'' (minor_loss_dp fmt)) minor_loss_dp_valid minor_loss_dp_forms"
  unfolding minor_loss_dp_args_def
  by (rule minor_loss_dp.direction_law) (simp_all add: minor_loss_dp_forms_def)

subsection \<open>\<open>series_dp\<close>\<close>

definition series_dp_valid :: "real list \<Rightarrow> bool" where
  "series_dp_valid vs \<longleftrightarrow> True"

definition series_dp_forms :: "(string, real list \<Rightarrow> real) dict" where
  "series_dp_forms =
     [(''fluids.network.dp_series'', \<lambda>vs. (vs ! 0) + (vs ! 1))]"

lemma series_dp_answers: "computes (series_dp fmt) series_dp_ins series_dp_box series_dp_valid series_dp_forms"
  by (rule computes_kernelI [where ok = "\<lambda>vs. True" and vals = "\<lambda>vs. [(''fluids.network.dp_series'', fluids_series_dp (Fin (vs ! 0)) (Fin (vs ! 1)))]"])
    (auto simp: series_dp_def series_dp_ins_def series_dp_box_def series_dp_valid_def series_dp_forms_def answer_simps reads_Nil reads_Cons Let_def
      ranges_of_def in_ranges_Cons fluids_series_dp_def)

lemma series_dp_total: "in_ranges (ranges_of series_dp_ins series_dp_box) vs \<Longrightarrow> series_dp_valid vs"
  by (auto simp: series_dp_ins_def series_dp_box_def series_dp_valid_def ranges_of_def in_ranges_Cons)

lemma series_dp_slices: "f \<in> snd ` set series_dp_forms \<Longrightarrow> slice_monotone (ranges_of series_dp_ins series_dp_box) f"
  by (auto simp: series_dp_forms_def series_dp_ins_def series_dp_box_def ranges_of_def   intro!: slice_monotone_2 swing)

interpretation series_dp: total_solver series_dp_ins series_dp_box series_dp_valid series_dp_forms "series_dp fmt" for fmt
  by unfold_locales (rule series_dp_answers | erule series_dp_total series_dp_slices | simp add: ports_ok_def dict_ok_def series_dp_ins_def series_dp_box_def)+

lemma series_dp_law:
  "keeps_law (module_direction H dumps series_dp_args ''series_dp'' (series_dp fmt)) series_dp_valid series_dp_forms"
  unfolding series_dp_args_def
  by (rule series_dp.direction_law) (simp_all add: series_dp_forms_def)

subsection \<open>\<open>parallel_flow\<close>\<close>

definition parallel_flow_valid :: "real list \<Rightarrow> bool" where
  "parallel_flow_valid vs \<longleftrightarrow> True"

definition parallel_flow_forms :: "(string, real list \<Rightarrow> real) dict" where
  "parallel_flow_forms =
     [(''fluids.network.q_parallel'', \<lambda>vs. (vs ! 0) + (vs ! 1))]"

lemma parallel_flow_answers: "computes (parallel_flow fmt) parallel_flow_ins parallel_flow_box parallel_flow_valid parallel_flow_forms"
  by (rule computes_kernelI [where ok = "\<lambda>vs. True" and vals = "\<lambda>vs. [(''fluids.network.q_parallel'', fluids_parallel_flow (Fin (vs ! 0)) (Fin (vs ! 1)))]"])
    (auto simp: parallel_flow_def parallel_flow_ins_def parallel_flow_box_def parallel_flow_valid_def parallel_flow_forms_def answer_simps reads_Nil reads_Cons Let_def
      ranges_of_def in_ranges_Cons fluids_parallel_flow_def)

lemma parallel_flow_total: "in_ranges (ranges_of parallel_flow_ins parallel_flow_box) vs \<Longrightarrow> parallel_flow_valid vs"
  by (auto simp: parallel_flow_ins_def parallel_flow_box_def parallel_flow_valid_def ranges_of_def in_ranges_Cons)

lemma parallel_flow_slices: "f \<in> snd ` set parallel_flow_forms \<Longrightarrow> slice_monotone (ranges_of parallel_flow_ins parallel_flow_box) f"
  by (auto simp: parallel_flow_forms_def parallel_flow_ins_def parallel_flow_box_def ranges_of_def   intro!: slice_monotone_2 swing)

interpretation parallel_flow: total_solver parallel_flow_ins parallel_flow_box parallel_flow_valid parallel_flow_forms "parallel_flow fmt" for fmt
  by unfold_locales (rule parallel_flow_answers | erule parallel_flow_total parallel_flow_slices | simp add: ports_ok_def dict_ok_def parallel_flow_ins_def parallel_flow_box_def)+

lemma parallel_flow_law:
  "keeps_law (module_direction H dumps parallel_flow_args ''parallel_flow'' (parallel_flow fmt)) parallel_flow_valid parallel_flow_forms"
  unfolding parallel_flow_args_def
  by (rule parallel_flow.direction_law) (simp_all add: parallel_flow_forms_def)

subsection \<open>\<open>npsh_available\<close>\<close>

definition npsh_available_valid :: "real list \<Rightarrow> bool" where
  "npsh_available_valid vs \<longleftrightarrow> True"

definition npsh_available_forms :: "(string, real list \<Rightarrow> real) dict" where
  "npsh_available_forms =
     [(''fluids.npsh_margin'', \<lambda>vs. ((vs ! 0) - (vs ! 1)) / ((vs ! 2) * (vs ! 3)) + (vs ! 4) - (vs ! 5))]"

lemma npsh_available_answers: "computes (npsh_available fmt) npsh_available_ins npsh_available_box npsh_available_valid npsh_available_forms"
  by (rule computes_kernelI [where ok = "\<lambda>vs. True" and vals = "\<lambda>vs. [(''fluids.npsh_margin'', (fluids_npsh_available (Fin (vs ! 0)) (Fin (vs ! 1)) (Fin (vs ! 2)) (Fin (vs ! 3)) (Fin (vs ! 4)) (Fin (vs ! 5))))]"])
    (auto simp: npsh_available_def npsh_available_ins_def npsh_available_box_def npsh_available_valid_def npsh_available_forms_def answer_simps reads_Nil reads_Cons Let_def
      ranges_of_def in_ranges_Cons fluids_npsh_available_def)

lemma npsh_available_total: "in_ranges (ranges_of npsh_available_ins npsh_available_box) vs \<Longrightarrow> npsh_available_valid vs"
  by (auto simp: npsh_available_ins_def npsh_available_box_def npsh_available_valid_def ranges_of_def in_ranges_Cons)

lemma npsh_available_slices: "f \<in> snd ` set npsh_available_forms \<Longrightarrow> slice_monotone (ranges_of npsh_available_ins npsh_available_box) f"
  by (auto simp: npsh_available_forms_def npsh_available_ins_def npsh_available_box_def ranges_of_def   intro!: slice_monotone_6 swing)

interpretation npsh_available: total_solver npsh_available_ins npsh_available_box npsh_available_valid npsh_available_forms "npsh_available fmt" for fmt
  by unfold_locales (rule npsh_available_answers | erule npsh_available_total npsh_available_slices | simp add: ports_ok_def dict_ok_def npsh_available_ins_def npsh_available_box_def)+

lemma npsh_available_law:
  "keeps_law (module_direction H dumps npsh_available_args ''npsh_available'' (npsh_available fmt)) npsh_available_valid npsh_available_forms"
  unfolding npsh_available_args_def
  by (rule npsh_available.direction_law) (simp_all add: npsh_available_forms_def)

subsection \<open>\<open>joukowsky_dp\<close>\<close>

definition joukowsky_dp_valid :: "real list \<Rightarrow> bool" where
  "joukowsky_dp_valid vs \<longleftrightarrow> True"

definition joukowsky_dp_forms :: "(string, real list \<Rightarrow> real) dict" where
  "joukowsky_dp_forms =
     [(''fluids.transient.hammer_dp'', \<lambda>vs. (vs ! 2) * (vs ! 0) * (vs ! 1))]"

lemma joukowsky_dp_answers: "computes (joukowsky_dp fmt) joukowsky_dp_ins joukowsky_dp_box joukowsky_dp_valid joukowsky_dp_forms"
  by (rule computes_kernelI [where ok = "\<lambda>vs. True" and vals = "\<lambda>vs. [(''fluids.transient.hammer_dp'', fluids_joukowsky_dp (Fin (vs ! 2)) (Fin (vs ! 0)) (Fin (vs ! 1)))]"])
    (auto simp: joukowsky_dp_def joukowsky_dp_ins_def joukowsky_dp_box_def joukowsky_dp_valid_def joukowsky_dp_forms_def answer_simps reads_Nil reads_Cons Let_def
      ranges_of_def in_ranges_Cons fluids_joukowsky_dp_def)

lemma joukowsky_dp_total: "in_ranges (ranges_of joukowsky_dp_ins joukowsky_dp_box) vs \<Longrightarrow> joukowsky_dp_valid vs"
  by (auto simp: joukowsky_dp_ins_def joukowsky_dp_box_def joukowsky_dp_valid_def ranges_of_def in_ranges_Cons)

lemma joukowsky_dp_slices: "f \<in> snd ` set joukowsky_dp_forms \<Longrightarrow> slice_monotone (ranges_of joukowsky_dp_ins joukowsky_dp_box) f"
  by (auto simp: joukowsky_dp_forms_def joukowsky_dp_ins_def joukowsky_dp_box_def ranges_of_def   intro!: slice_monotone_3 swing)

interpretation joukowsky_dp: total_solver joukowsky_dp_ins joukowsky_dp_box joukowsky_dp_valid joukowsky_dp_forms "joukowsky_dp fmt" for fmt
  by unfold_locales (rule joukowsky_dp_answers | erule joukowsky_dp_total joukowsky_dp_slices | simp add: ports_ok_def dict_ok_def joukowsky_dp_ins_def joukowsky_dp_box_def)+

lemma joukowsky_dp_law:
  "keeps_law (module_direction H dumps joukowsky_dp_args ''joukowsky_dp'' (joukowsky_dp fmt)) joukowsky_dp_valid joukowsky_dp_forms"
  unfolding joukowsky_dp_args_def
  by (rule joukowsky_dp.direction_law) (simp_all add: joukowsky_dp_forms_def)

definition incompressible_laws ::
  "(json \<Rightarrow> string) \<Rightarrow> (json \<Rightarrow> string) \<Rightarrow> (string \<Rightarrow> real \<Rightarrow> string)
   \<Rightarrow> ((solver_pair, registry_error) outcome \<times> (real list \<Rightarrow> bool) \<times> (string, real list \<Rightarrow> real) dict) list" where
  "incompressible_laws H dumps fmt =
     [(module_direction H dumps laminar_friction_factor_args ''laminar_friction_factor'' (laminar_friction_factor fmt), laminar_friction_factor_valid, laminar_friction_factor_forms),
      (module_direction H dumps haaland_friction_factor_args ''haaland_friction_factor'' (haaland_friction_factor fmt), haaland_friction_factor_valid, haaland_friction_factor_forms),
      (module_direction H dumps darcy_dp_args ''darcy_dp'' (darcy_dp fmt), darcy_dp_valid, darcy_dp_forms),
      (module_direction H dumps minor_loss_dp_args ''minor_loss_dp'' (minor_loss_dp fmt), minor_loss_dp_valid, minor_loss_dp_forms),
      (module_direction H dumps series_dp_args ''series_dp'' (series_dp fmt), series_dp_valid, series_dp_forms),
      (module_direction H dumps parallel_flow_args ''parallel_flow'' (parallel_flow fmt), parallel_flow_valid, parallel_flow_forms),
      (module_direction H dumps npsh_available_args ''npsh_available'' (npsh_available fmt), npsh_available_valid, npsh_available_forms),
      (module_direction H dumps joukowsky_dp_args ''joukowsky_dp'' (joukowsky_dp fmt), joukowsky_dp_valid, joukowsky_dp_forms)]"

lemma incompressible_keep: "list_all (\<lambda>(d, valid, forms). keeps_law d valid forms) (incompressible_laws H dumps fmt)"
  by (simp add: incompressible_laws_def laminar_friction_factor_law haaland_friction_factor_law darcy_dp_law minor_loss_dp_law series_dp_law parallel_flow_law npsh_available_law joukowsky_dp_law)

section \<open>The family\<close>

definition incompressible_directions ::
  "(json \<Rightarrow> string) \<Rightarrow> (json \<Rightarrow> string) \<Rightarrow> (string \<Rightarrow> real \<Rightarrow> string)
   \<Rightarrow> (solver_pair, registry_error) outcome list" where
  "incompressible_directions H dumps fmt =
     [module_direction H dumps laminar_friction_factor_args ''laminar_friction_factor'' (laminar_friction_factor fmt),
      module_direction H dumps colebrook_friction_factor_args ''colebrook_friction_factor'' (colebrook_friction_factor fmt),
      module_direction H dumps haaland_friction_factor_args ''haaland_friction_factor'' (haaland_friction_factor fmt),
      module_direction H dumps darcy_dp_args ''darcy_dp'' (darcy_dp fmt),
      module_direction H dumps minor_loss_dp_args ''minor_loss_dp'' (minor_loss_dp fmt),
      module_direction H dumps series_dp_args ''series_dp'' (series_dp fmt),
      module_direction H dumps parallel_flow_args ''parallel_flow'' (parallel_flow fmt),
      module_direction H dumps npsh_available_args ''npsh_available'' (npsh_available fmt),
      module_direction H dumps joukowsky_dp_args ''joukowsky_dp'' (joukowsky_dp fmt)]"

text \<open>The nine directions, then the two of the pump relation; the count of what was registered.\<close>

definition register_incompressible ::
  "(json \<Rightarrow> string) \<Rightarrow> (json \<Rightarrow> string) \<Rightarrow> (string \<Rightarrow> real \<Rightarrow> string)
   \<Rightarrow> registry \<Rightarrow> (nat, registry_error) outcome \<times> registry" where
  "register_incompressible H dumps fmt r =
     (case register_family incompressible_PORT_DECLS (incompressible_directions H dumps fmt) r of
        (Ok _, r1) \<Rightarrow>
          (case pump_operating_point_declared H dumps of
             Ok rl \<Rightarrow>
               (case relation_register rl r1 of
                  (res, r2) \<Rightarrow>
                    (case danger_ok res of Ok _ \<Rightarrow> (Ok (length (incompressible_directions H dumps fmt) + 2), r2)
                     | Err e \<Rightarrow> (Err e, r2) | Raise ex \<Rightarrow> (Raise ex, r2)))
           | Err e \<Rightarrow> (Err e, r1) | Raise ex \<Rightarrow> (Raise ex, r1))
      | (Err e, r1) \<Rightarrow> (Err e, r1) | (Raise ex, r1) \<Rightarrow> (Raise ex, r1))"

end
