(* ===== verification/Lib_Gas.thy ===== *)
theory Lib_Gas
  imports Catalog Kernel_Formulas
begin

text \<open>
  Compressible flow (\<open>fluids/compressible.py\<close>) over the formulas of the compiled kernel.
\<close>

section \<open>Directions\<close>

definition COMPRESSIBLE_CITATIONS :: "citation list" where
  \<open>COMPRESSIBLE_CITATIONS =
     [\<lparr>ct_kind = ''handbook'', ct_ref = ''Anderson, Modern Compressible Flow, 3rd ed.'', ct_note = ''ch. 3''\<rparr>]\<close>

subsection \<open>\<open>isentropic_stagnation_temp_ratio\<close>\<close>

definition isentropic_stagnation_temp_ratio_box :: "(string, interval) dict" where
  "isentropic_stagnation_temp_ratio_box =
     [(''fluids.compressible.mach'', ivl 0 5),
      (''fluids.gas.gamma'', ivl (11 / 10) (18 / 10))]"

definition isentropic_stagnation_temp_ratio_ins :: "string list" where
  "isentropic_stagnation_temp_ratio_ins = [''fluids.compressible.mach'', ''fluids.gas.gamma'']"

definition isentropic_stagnation_temp_ratio_args :: build_args where
  \<open>isentropic_stagnation_temp_ratio_args =
     solver_args ''fluids'' isentropic_stagnation_temp_ratio_ins
       [''fluids.compressible.stagnation_temp_ratio'']
       isentropic_stagnation_temp_ratio_box
       [''compressible'']
       (1 / 10 ^ 7) (AccOne EXACT)
       COMPRESSIBLE_CITATIONS
       ''1''\<close>

definition isentropic_stagnation_temp_ratio :: "(string \<Rightarrow> real \<Rightarrow> string) \<Rightarrow> inputs \<Rightarrow> raw_return" where
  \<open>isentropic_stagnation_temp_ratio fmt x =
    (arg x ''fluids.compressible.mach'' (\<lambda>mach.
     arg x ''fluids.gas.gamma'' (\<lambda>gamma.
     ok_floats [(''fluids.compressible.stagnation_temp_ratio'', fluids_isentropic_stagnation_temp_ratio (Fin mach) (Fin gamma))])))\<close>

subsection \<open>\<open>isentropic_stagnation_pressure_ratio\<close>\<close>

definition isentropic_stagnation_pressure_ratio_box :: "(string, interval) dict" where
  "isentropic_stagnation_pressure_ratio_box =
     [(''fluids.compressible.mach'', ivl 0 5),
      (''fluids.gas.gamma'', ivl (11 / 10) (18 / 10))]"

definition isentropic_stagnation_pressure_ratio_ins :: "string list" where
  "isentropic_stagnation_pressure_ratio_ins = [''fluids.compressible.mach'', ''fluids.gas.gamma'']"

definition isentropic_stagnation_pressure_ratio_args :: build_args where
  \<open>isentropic_stagnation_pressure_ratio_args =
     solver_args ''fluids'' isentropic_stagnation_pressure_ratio_ins
       [''fluids.compressible.stagnation_pressure_ratio'']
       isentropic_stagnation_pressure_ratio_box
       [''compressible'']
       (1 / 10 ^ 7) (AccOne EXACT)
       COMPRESSIBLE_CITATIONS
       ''1''\<close>

definition isentropic_stagnation_pressure_ratio :: "(string \<Rightarrow> real \<Rightarrow> string) \<Rightarrow> inputs \<Rightarrow> raw_return" where
  \<open>isentropic_stagnation_pressure_ratio fmt x =
    (arg x ''fluids.compressible.mach'' (\<lambda>mach.
     arg x ''fluids.gas.gamma'' (\<lambda>gamma.
     ok_floats [(''fluids.compressible.stagnation_pressure_ratio'', fluids_isentropic_stagnation_pressure_ratio (Fin mach) (Fin gamma))])))\<close>

subsection \<open>\<open>normal_shock_mach2\<close>\<close>

definition normal_shock_mach2_box :: "(string, interval) dict" where
  "normal_shock_mach2_box =
     [(''fluids.compressible.mach_upstream'', ivl 1 5),
      (''fluids.gas.gamma'', ivl (11 / 10) (18 / 10))]"

definition normal_shock_mach2_ins :: "string list" where
  "normal_shock_mach2_ins = [''fluids.compressible.mach_upstream'', ''fluids.gas.gamma'']"

definition normal_shock_mach2_args :: build_args where
  \<open>normal_shock_mach2_args =
     solver_args ''fluids'' normal_shock_mach2_ins
       [''fluids.compressible.mach_downstream'']
       normal_shock_mach2_box
       [''compressible'', ''normal_shock'']
       (1 / 10 ^ 7) (AccOne EXACT)
       COMPRESSIBLE_CITATIONS
       ''1''\<close>

definition normal_shock_mach2 :: "(string \<Rightarrow> real \<Rightarrow> string) \<Rightarrow> inputs \<Rightarrow> raw_return" where
  \<open>normal_shock_mach2 fmt x =
    (arg x ''fluids.compressible.mach_upstream'' (\<lambda>mach1.
     arg x ''fluids.gas.gamma'' (\<lambda>gamma.
     ok_floats [(''fluids.compressible.mach_downstream'', fluids_normal_shock_mach2 (Fin mach1) (Fin gamma))])))\<close>

subsection \<open>\<open>normal_shock_pressure_ratio\<close>\<close>

definition normal_shock_pressure_ratio_box :: "(string, interval) dict" where
  "normal_shock_pressure_ratio_box =
     [(''fluids.compressible.mach_upstream'', ivl 1 5),
      (''fluids.gas.gamma'', ivl (11 / 10) (18 / 10))]"

definition normal_shock_pressure_ratio_ins :: "string list" where
  "normal_shock_pressure_ratio_ins = [''fluids.compressible.mach_upstream'', ''fluids.gas.gamma'']"

definition normal_shock_pressure_ratio_args :: build_args where
  \<open>normal_shock_pressure_ratio_args =
     solver_args ''fluids'' normal_shock_pressure_ratio_ins
       [''fluids.compressible.shock_pressure_ratio'']
       normal_shock_pressure_ratio_box
       [''compressible'', ''normal_shock'']
       (1 / 10 ^ 7) (AccOne EXACT)
       COMPRESSIBLE_CITATIONS
       ''1''\<close>

definition normal_shock_pressure_ratio :: "(string \<Rightarrow> real \<Rightarrow> string) \<Rightarrow> inputs \<Rightarrow> raw_return" where
  \<open>normal_shock_pressure_ratio fmt x =
    (arg x ''fluids.compressible.mach_upstream'' (\<lambda>mach1.
     arg x ''fluids.gas.gamma'' (\<lambda>gamma.
     ok_floats [(''fluids.compressible.shock_pressure_ratio'', fluids_normal_shock_pressure_ratio (Fin mach1) (Fin gamma))])))\<close>

definition FANNO_CITATIONS :: "citation list" where
  \<open>FANNO_CITATIONS =
     [\<lparr>ct_kind = ''handbook'', ct_ref = ''Anderson, Modern Compressible Flow, 3rd ed.'', ct_note = ''ch. 3, Fanno flow''\<rparr>,
      \<lparr>ct_kind = ''handbook'', ct_ref = ''Shapiro, The Dynamics and Thermodynamics of Compressible Fluid Flow, vol. 1, ch. 6'', ct_note = []\<rparr>]\<close>

subsection \<open>\<open>fanno_function\<close>\<close>

definition fanno_function_box :: "(string, interval) dict" where
  "fanno_function_box =
     [(''fluids.compressible.mach'', ivl (1 / 1000) 5),
      (''fluids.gas.gamma'', ivl (11 / 10) (18 / 10))]"

definition fanno_function_ins :: "string list" where
  "fanno_function_ins = [''fluids.compressible.mach'', ''fluids.gas.gamma'']"

definition fanno_function_args :: build_args where
  \<open>fanno_function_args =
     solver_args ''fluids'' fanno_function_ins
       [''fluids.compressible.fanno_function'']
       fanno_function_box
       [''compressible'', ''fanno'']
       (1 / 10 ^ 7) (AccOne EXACT)
       FANNO_CITATIONS
       ''1''\<close>

definition fanno_function :: "(string \<Rightarrow> real \<Rightarrow> string) \<Rightarrow> inputs \<Rightarrow> raw_return" where
  \<open>fanno_function fmt x =
    (arg x ''fluids.compressible.mach'' (\<lambda>mach.
     arg x ''fluids.gas.gamma'' (\<lambda>gamma.
     ok_floats [(''fluids.compressible.fanno_function'', fluids_fanno_function (Fin mach) (Fin gamma))])))\<close>

definition compressible_PORT_DECLS :: "port_decl list" where
  "compressible_PORT_DECLS =
     [scalar_port ''fluids.compressible.mach'' ''1'',
      scalar_port ''fluids.compressible.mach_upstream'' ''1'',
      scalar_port ''fluids.compressible.mach_downstream'' ''1'',
      scalar_port ''fluids.compressible.stagnation_temp_ratio'' ''1'',
      scalar_port ''fluids.compressible.stagnation_pressure_ratio'' ''1'',
      scalar_port ''fluids.compressible.shock_pressure_ratio'' ''1'',
      scalar_port ''fluids.compressible.fanno_function'' ''1'',
      scalar_port ''fluids.gas.gamma'' ''1'']"

section \<open>What the directions compute\<close>

lemma shock_denominator:
  fixes g m :: real
  assumes "1 \<le> g" "1 \<le> m"
  shows "0 < g * (m * m) - (g - 1) / 2"
proof -
  have "1 \<le> m * m" using assms(2) mult_mono [of 1 m 1 m] by simp
  then have "g * 1 \<le> g * (m * m)" using assms(1) by (intro mult_left_mono) auto
  moreover have "(g - 1) / 2 < g * 1" using assms(1) by simp
  ultimately show ?thesis by linarith
qed

lemma mach2_kernel:
  assumes "1 \<le> m" "1 \<le> g"
  shows "fluids_normal_shock_mach2 (Fin m) (Fin g) =
    Fin (sqrt ((1 + (g - 1) / 2 * (m * m)) / (g * (m * m) - (g - 1) / 2)))"
proof -
  have d: "0 < g * (m * m) - (g - 1) / 2" using shock_denominator assms by blast
  have "0 \<le> (1 + (g - 1) / 2 * (m * m)) / (g * (m * m) - (g - 1) / 2)"
    using d assms by (intro divide_nonneg_pos add_nonneg_nonneg mult_nonneg_nonneg) auto
  with d show ?thesis by (simp add: fluids_normal_shock_mach2_def Let_def)
qed

lemma swings_shock:
  "1 \<le> g \<Longrightarrow> (\<And>v. iv_contains iv v \<Longrightarrow> 1 \<le> v) \<Longrightarrow>
    swings iv (\<lambda>v. (1 + (g - 1) * (v * v) / 2) / (g * (v * v) - (g - 1) / 2))"
  "1 \<le> m \<Longrightarrow> (\<And>v. iv_contains iv v \<Longrightarrow> 1 \<le> v) \<Longrightarrow>
    swings iv (\<lambda>v. (1 + (v - 1) * (m * m) / 2) / (v * (m * m) - (v - 1) / 2))"
proof -
  assume a: "1 \<le> g" "\<And>v. iv_contains iv v \<Longrightarrow> 1 \<le> v"
  have "swings iv (\<lambda>v. v * v)" using a(2) by (intro swings_times_self) force
  from swings_linear_fraction [OF this, of g "- ((g - 1) / 2)" "(g - 1) / 2" 1]
  show "swings iv (\<lambda>v. (1 + (g - 1) * (v * v) / 2) / (g * (v * v) - (g - 1) / 2))"
    using shock_denominator [OF a(1) a(2)] by (simp add: algebra_simps)
next
  assume a: "1 \<le> m" "\<And>v. iv_contains iv v \<Longrightarrow> 1 \<le> v"
  show "swings iv (\<lambda>v. (1 + (v - 1) * (m * m) / 2) / (v * (m * m) - (v - 1) / 2))"
  proof (rule swings_fraction [where a = "m * m - 1 / 2" and b = "1 / 2" and c = "m * m / 2" and d = "1 - m * m / 2"])
    fix v assume "iv_contains iv v"
    then have "0 < v * (m * m) - (v - 1) / 2" using shock_denominator [OF a(2) a(1)] by blast
    then show "0 < (m * m - 1 / 2) * v + 1 / 2" by (simp add: algebra_simps)
    show "(1 + (v - 1) * (m * m) / 2) / (v * (m * m) - (v - 1) / 2) =
      (m * m / 2 * v + (1 - m * m / 2)) / ((m * m - 1 / 2) * v + 1 / 2)"
      by (rule arg_cong2 [of _ _ _ _ "(/)"]) (simp_all add: field_simps)
  qed
qed

lemma swings_shock_pressure: "(\<And>v. iv_contains iv v \<Longrightarrow> 0 < v + 1) \<Longrightarrow> swings iv (\<lambda>v. 2 * v * k / (v + 1))"
  by (rule swings_fraction [where a = 1 and b = 1 and c = "2 * k" and d = 0]) simp_all

subsection \<open>\<open>isentropic_stagnation_temp_ratio\<close>\<close>

definition isentropic_stagnation_temp_ratio_valid :: "real list \<Rightarrow> bool" where
  "isentropic_stagnation_temp_ratio_valid vs \<longleftrightarrow> True"

definition isentropic_stagnation_temp_ratio_forms :: "(string, real list \<Rightarrow> real) dict" where
  "isentropic_stagnation_temp_ratio_forms =
     [(''fluids.compressible.stagnation_temp_ratio'', \<lambda>vs. 1 + ((vs ! 1) - 1) / 2 * (vs ! 0) * (vs ! 0))]"

lemma isentropic_stagnation_temp_ratio_answers: "computes (isentropic_stagnation_temp_ratio fmt) isentropic_stagnation_temp_ratio_ins isentropic_stagnation_temp_ratio_box isentropic_stagnation_temp_ratio_valid isentropic_stagnation_temp_ratio_forms"
  by (rule computes_kernelI [where ok = "\<lambda>vs. True" and vals = "\<lambda>vs. [(''fluids.compressible.stagnation_temp_ratio'', fluids_isentropic_stagnation_temp_ratio (Fin (vs ! 0)) (Fin (vs ! 1)))]"])
    (auto simp: isentropic_stagnation_temp_ratio_def isentropic_stagnation_temp_ratio_ins_def isentropic_stagnation_temp_ratio_box_def isentropic_stagnation_temp_ratio_valid_def isentropic_stagnation_temp_ratio_forms_def answer_simps reads_Nil reads_Cons Let_def
      ranges_of_def in_ranges_Cons fluids_isentropic_stagnation_temp_ratio_def)

lemma isentropic_stagnation_temp_ratio_total: "in_ranges (ranges_of isentropic_stagnation_temp_ratio_ins isentropic_stagnation_temp_ratio_box) vs \<Longrightarrow> isentropic_stagnation_temp_ratio_valid vs"
  by (auto simp: isentropic_stagnation_temp_ratio_ins_def isentropic_stagnation_temp_ratio_box_def isentropic_stagnation_temp_ratio_valid_def ranges_of_def in_ranges_Cons)

lemma isentropic_stagnation_temp_ratio_slices: "f \<in> snd ` set isentropic_stagnation_temp_ratio_forms \<Longrightarrow> slice_monotone (ranges_of isentropic_stagnation_temp_ratio_ins isentropic_stagnation_temp_ratio_box) f"
  by (auto simp: isentropic_stagnation_temp_ratio_forms_def isentropic_stagnation_temp_ratio_ins_def isentropic_stagnation_temp_ratio_box_def ranges_of_def   intro!: slice_monotone_2 swing swings_times_self)

interpretation isentropic_stagnation_temp_ratio: total_solver isentropic_stagnation_temp_ratio_ins isentropic_stagnation_temp_ratio_box isentropic_stagnation_temp_ratio_valid isentropic_stagnation_temp_ratio_forms "isentropic_stagnation_temp_ratio fmt" for fmt
  by unfold_locales (rule isentropic_stagnation_temp_ratio_answers | erule isentropic_stagnation_temp_ratio_total isentropic_stagnation_temp_ratio_slices | simp add: ports_ok_def dict_ok_def isentropic_stagnation_temp_ratio_ins_def isentropic_stagnation_temp_ratio_box_def)+

lemma isentropic_stagnation_temp_ratio_law:
  "keeps_law (module_direction H dumps isentropic_stagnation_temp_ratio_args ''isentropic_stagnation_temp_ratio'' (isentropic_stagnation_temp_ratio fmt)) isentropic_stagnation_temp_ratio_valid isentropic_stagnation_temp_ratio_forms"
  unfolding isentropic_stagnation_temp_ratio_args_def
  by (rule isentropic_stagnation_temp_ratio.direction_law) (simp_all add: isentropic_stagnation_temp_ratio_forms_def)

subsection \<open>\<open>normal_shock_mach2\<close>\<close>

definition normal_shock_mach2_valid :: "real list \<Rightarrow> bool" where
  "normal_shock_mach2_valid vs \<longleftrightarrow> True"

definition normal_shock_mach2_forms :: "(string, real list \<Rightarrow> real) dict" where
  "normal_shock_mach2_forms =
     [(''fluids.compressible.mach_downstream'', \<lambda>vs. sqrt ((1 + ((vs ! 1) - 1) / 2 * ((vs ! 0) * (vs ! 0))) / ((vs ! 1) * ((vs ! 0) * (vs ! 0)) - ((vs ! 1) - 1) / 2)))]"

lemma normal_shock_mach2_answers: "computes (normal_shock_mach2 fmt) normal_shock_mach2_ins normal_shock_mach2_box normal_shock_mach2_valid normal_shock_mach2_forms"
  by (rule computes_kernelI [where ok = "\<lambda>vs. True" and vals = "\<lambda>vs. [(''fluids.compressible.mach_downstream'', fluids_normal_shock_mach2 (Fin (vs ! 0)) (Fin (vs ! 1)))]"])
    (auto simp: normal_shock_mach2_def normal_shock_mach2_ins_def normal_shock_mach2_box_def normal_shock_mach2_valid_def normal_shock_mach2_forms_def answer_simps reads_Nil reads_Cons Let_def
      ranges_of_def in_ranges_Cons   mach2_kernel)

lemma normal_shock_mach2_total: "in_ranges (ranges_of normal_shock_mach2_ins normal_shock_mach2_box) vs \<Longrightarrow> normal_shock_mach2_valid vs"
  by (auto simp: normal_shock_mach2_ins_def normal_shock_mach2_box_def normal_shock_mach2_valid_def ranges_of_def in_ranges_Cons)

lemma normal_shock_mach2_slices: "f \<in> snd ` set normal_shock_mach2_forms \<Longrightarrow> slice_monotone (ranges_of normal_shock_mach2_ins normal_shock_mach2_box) f"
  by (auto simp: normal_shock_mach2_forms_def normal_shock_mach2_ins_def normal_shock_mach2_box_def ranges_of_def   intro!: slice_monotone_2 swing swings_shock)

interpretation normal_shock_mach2: total_solver normal_shock_mach2_ins normal_shock_mach2_box normal_shock_mach2_valid normal_shock_mach2_forms "normal_shock_mach2 fmt" for fmt
  by unfold_locales (rule normal_shock_mach2_answers | erule normal_shock_mach2_total normal_shock_mach2_slices | simp add: ports_ok_def dict_ok_def normal_shock_mach2_ins_def normal_shock_mach2_box_def)+

lemma normal_shock_mach2_law:
  "keeps_law (module_direction H dumps normal_shock_mach2_args ''normal_shock_mach2'' (normal_shock_mach2 fmt)) normal_shock_mach2_valid normal_shock_mach2_forms"
  unfolding normal_shock_mach2_args_def
  by (rule normal_shock_mach2.direction_law) (simp_all add: normal_shock_mach2_forms_def)

subsection \<open>\<open>normal_shock_pressure_ratio\<close>\<close>

definition normal_shock_pressure_ratio_valid :: "real list \<Rightarrow> bool" where
  "normal_shock_pressure_ratio_valid vs \<longleftrightarrow> True"

definition normal_shock_pressure_ratio_forms :: "(string, real list \<Rightarrow> real) dict" where
  "normal_shock_pressure_ratio_forms =
     [(''fluids.compressible.shock_pressure_ratio'', \<lambda>vs. 1 + 2 * (vs ! 1) / ((vs ! 1) + 1) * ((vs ! 0) * (vs ! 0) - 1))]"

lemma normal_shock_pressure_ratio_answers: "computes (normal_shock_pressure_ratio fmt) normal_shock_pressure_ratio_ins normal_shock_pressure_ratio_box normal_shock_pressure_ratio_valid normal_shock_pressure_ratio_forms"
  by (rule computes_kernelI [where ok = "\<lambda>vs. True" and vals = "\<lambda>vs. [(''fluids.compressible.shock_pressure_ratio'', fluids_normal_shock_pressure_ratio (Fin (vs ! 0)) (Fin (vs ! 1)))]"])
    (auto simp: normal_shock_pressure_ratio_def normal_shock_pressure_ratio_ins_def normal_shock_pressure_ratio_box_def normal_shock_pressure_ratio_valid_def normal_shock_pressure_ratio_forms_def answer_simps reads_Nil reads_Cons Let_def
      ranges_of_def in_ranges_Cons fluids_normal_shock_pressure_ratio_def)

lemma normal_shock_pressure_ratio_total: "in_ranges (ranges_of normal_shock_pressure_ratio_ins normal_shock_pressure_ratio_box) vs \<Longrightarrow> normal_shock_pressure_ratio_valid vs"
  by (auto simp: normal_shock_pressure_ratio_ins_def normal_shock_pressure_ratio_box_def normal_shock_pressure_ratio_valid_def ranges_of_def in_ranges_Cons)

lemma normal_shock_pressure_ratio_slices: "f \<in> snd ` set normal_shock_pressure_ratio_forms \<Longrightarrow> slice_monotone (ranges_of normal_shock_pressure_ratio_ins normal_shock_pressure_ratio_box) f"
  by (auto simp: normal_shock_pressure_ratio_forms_def normal_shock_pressure_ratio_ins_def normal_shock_pressure_ratio_box_def ranges_of_def   intro!: slice_monotone_2 swing swings_times_self swings_shock_pressure)

interpretation normal_shock_pressure_ratio: total_solver normal_shock_pressure_ratio_ins normal_shock_pressure_ratio_box normal_shock_pressure_ratio_valid normal_shock_pressure_ratio_forms "normal_shock_pressure_ratio fmt" for fmt
  by unfold_locales (rule normal_shock_pressure_ratio_answers | erule normal_shock_pressure_ratio_total normal_shock_pressure_ratio_slices | simp add: ports_ok_def dict_ok_def normal_shock_pressure_ratio_ins_def normal_shock_pressure_ratio_box_def)+

lemma normal_shock_pressure_ratio_law:
  "keeps_law (module_direction H dumps normal_shock_pressure_ratio_args ''normal_shock_pressure_ratio'' (normal_shock_pressure_ratio fmt)) normal_shock_pressure_ratio_valid normal_shock_pressure_ratio_forms"
  unfolding normal_shock_pressure_ratio_args_def
  by (rule normal_shock_pressure_ratio.direction_law) (simp_all add: normal_shock_pressure_ratio_forms_def)

section \<open>The family\<close>

definition compressible_directions ::
  "(json \<Rightarrow> string) \<Rightarrow> (json \<Rightarrow> string) \<Rightarrow> (string \<Rightarrow> real \<Rightarrow> string)
   \<Rightarrow> (solver_pair, registry_error) outcome list" where
  "compressible_directions H dumps fmt =
     [module_direction H dumps isentropic_stagnation_temp_ratio_args ''isentropic_stagnation_temp_ratio'' (isentropic_stagnation_temp_ratio fmt),
      module_direction H dumps isentropic_stagnation_pressure_ratio_args ''isentropic_stagnation_pressure_ratio'' (isentropic_stagnation_pressure_ratio fmt),
      module_direction H dumps normal_shock_mach2_args ''normal_shock_mach2'' (normal_shock_mach2 fmt),
      module_direction H dumps normal_shock_pressure_ratio_args ''normal_shock_pressure_ratio'' (normal_shock_pressure_ratio fmt),
      module_direction H dumps fanno_function_args ''fanno_function'' (fanno_function fmt)]"

definition register_compressible ::
  "(json \<Rightarrow> string) \<Rightarrow> (json \<Rightarrow> string) \<Rightarrow> (string \<Rightarrow> real \<Rightarrow> string)
   \<Rightarrow> registry \<Rightarrow> (unit, registry_error) outcome \<times> registry" where
  "register_compressible H dumps fmt = register_family compressible_PORT_DECLS (compressible_directions H dumps fmt)"

definition compressible_laws ::
  "(json \<Rightarrow> string) \<Rightarrow> (json \<Rightarrow> string) \<Rightarrow> (string \<Rightarrow> real \<Rightarrow> string)
   \<Rightarrow> ((solver_pair, registry_error) outcome \<times> (real list \<Rightarrow> bool) \<times> (string, real list \<Rightarrow> real) dict) list" where
  "compressible_laws H dumps fmt =
     [(module_direction H dumps isentropic_stagnation_temp_ratio_args ''isentropic_stagnation_temp_ratio'' (isentropic_stagnation_temp_ratio fmt), isentropic_stagnation_temp_ratio_valid, isentropic_stagnation_temp_ratio_forms),
      (module_direction H dumps normal_shock_mach2_args ''normal_shock_mach2'' (normal_shock_mach2 fmt), normal_shock_mach2_valid, normal_shock_mach2_forms),
      (module_direction H dumps normal_shock_pressure_ratio_args ''normal_shock_pressure_ratio'' (normal_shock_pressure_ratio fmt), normal_shock_pressure_ratio_valid, normal_shock_pressure_ratio_forms)]"

lemma compressible_keep: "list_all (\<lambda>(d, valid, forms). keeps_law d valid forms) (compressible_laws H dumps fmt)"
  by (simp add: compressible_laws_def isentropic_stagnation_temp_ratio_law normal_shock_mach2_law normal_shock_pressure_ratio_law)

end
