(* ===== verification/Lib_Heat.thy ===== *)
theory Lib_Heat
  imports Catalog Kernel_Formulas
begin

text \<open>
  Heat conduction, convection and exchangers (\<open>heat/closed_form.py\<close>) over the formulas of the compiled kernel.
\<close>

section \<open>Directions\<close>

definition RESISTANCE_CITATIONS :: "citation list" where
  \<open>RESISTANCE_CITATIONS =
     [\<lparr>ct_kind = ''handbook'', ct_ref = ''Incropera & DeWitt, Fundamentals of Heat and Mass Transfer, 7th ed.'', ct_note = ''ch. 3, 1-D steady conduction''\<rparr>]\<close>

subsection \<open>\<open>plane_wall_resistance\<close>\<close>

definition plane_wall_resistance_box :: "(string, interval) dict" where
  "plane_wall_resistance_box =
     [(''heat.wall.thickness'', ivl (1 / 10000) 10),
      (''heat.wall.conductivity'', ivl (1 / 1000) 500),
      (''heat.wall.area'', ivl (1 / 10000) 10000)]"

definition plane_wall_resistance_ins :: "string list" where
  "plane_wall_resistance_ins = [''heat.wall.thickness'', ''heat.wall.conductivity'', ''heat.wall.area'']"

definition plane_wall_resistance_args :: build_args where
  \<open>plane_wall_resistance_args =
     solver_args ''heat'' plane_wall_resistance_ins
       [''heat.wall.resistance'']
       plane_wall_resistance_box
       []
       (1 / 10 ^ 7) (AccOne EXACT)
       RESISTANCE_CITATIONS
       ''1''\<close>

definition plane_wall_resistance :: "(string \<Rightarrow> real \<Rightarrow> string) \<Rightarrow> inputs \<Rightarrow> raw_return" where
  \<open>plane_wall_resistance fmt x =
    (arg x ''heat.wall.thickness'' (\<lambda>thickness.
     arg x ''heat.wall.conductivity'' (\<lambda>conductivity.
     arg x ''heat.wall.area'' (\<lambda>area.
     ok_floats [(''heat.wall.resistance'', heat_plane_wall_resistance (Fin thickness) (Fin conductivity) (Fin area))]))))\<close>

subsection \<open>\<open>cylindrical_wall_resistance\<close>\<close>

definition cylindrical_wall_resistance_box :: "(string, interval) dict" where
  "cylindrical_wall_resistance_box =
     [(''heat.cylinder.inner_radius'', ivl (1 / 10000) 10),
      (''heat.cylinder.outer_radius'', ivl (1 / 10000) 10),
      (''heat.cylinder.conductivity'', ivl (1 / 1000) 500),
      (''heat.cylinder.length'', ivl (1 / 10000) 1000)]"

definition cylindrical_wall_resistance_ins :: "string list" where
  "cylindrical_wall_resistance_ins = [''heat.cylinder.inner_radius'', ''heat.cylinder.outer_radius'', ''heat.cylinder.conductivity'', ''heat.cylinder.length'']"

definition cylindrical_wall_resistance_args :: build_args where
  \<open>cylindrical_wall_resistance_args =
     solver_args ''heat'' cylindrical_wall_resistance_ins
       [''heat.cylinder.resistance'']
       cylindrical_wall_resistance_box
       []
       (1 / 10 ^ 7) (AccOne EXACT)
       RESISTANCE_CITATIONS
       ''1''\<close>

definition cylindrical_wall_resistance :: "(string \<Rightarrow> real \<Rightarrow> string) \<Rightarrow> inputs \<Rightarrow> raw_return" where
  \<open>cylindrical_wall_resistance fmt x =
    (arg x ''heat.cylinder.inner_radius'' (\<lambda>inner_radius.
     arg x ''heat.cylinder.outer_radius'' (\<lambda>outer_radius.
     arg x ''heat.cylinder.conductivity'' (\<lambda>conductivity.
     arg x ''heat.cylinder.length'' (\<lambda>length.
     ok_floats [(''heat.cylinder.resistance'', heat_cylindrical_wall_resistance (Fin inner_radius) (Fin outer_radius) (Fin conductivity) (Fin length))])))))\<close>

subsection \<open>\<open>convection_resistance\<close>\<close>

definition convection_resistance_box :: "(string, interval) dict" where
  "convection_resistance_box =
     [(''heat.convection.coefficient'', ivl (1 / 1000) 100000),
      (''heat.convection.area'', ivl (1 / 10000) 10000)]"

definition convection_resistance_ins :: "string list" where
  "convection_resistance_ins = [''heat.convection.coefficient'', ''heat.convection.area'']"

definition convection_resistance_args :: build_args where
  \<open>convection_resistance_args =
     solver_args ''heat'' convection_resistance_ins
       [''heat.convection.resistance'']
       convection_resistance_box
       []
       (1 / 10 ^ 7) (AccOne EXACT)
       RESISTANCE_CITATIONS
       ''1''\<close>

definition convection_resistance :: "(string \<Rightarrow> real \<Rightarrow> string) \<Rightarrow> inputs \<Rightarrow> raw_return" where
  \<open>convection_resistance fmt x =
    (arg x ''heat.convection.coefficient'' (\<lambda>coefficient.
     arg x ''heat.convection.area'' (\<lambda>area.
     ok_floats [(''heat.convection.resistance'', heat_convection_resistance (Fin coefficient) (Fin area))])))\<close>

subsection \<open>\<open>series_resistance\<close>\<close>

definition series_resistance_box :: "(string, interval) dict" where
  "series_resistance_box =
     [(''heat.network.r1'', ivl 0 (10 ^ 9)),
      (''heat.network.r2'', ivl 0 (10 ^ 9))]"

definition series_resistance_ins :: "string list" where
  "series_resistance_ins = [''heat.network.r1'', ''heat.network.r2'']"

definition series_resistance_args :: build_args where
  \<open>series_resistance_args =
     solver_args ''heat'' series_resistance_ins
       [''heat.network.r_series'']
       series_resistance_box
       [''network_series'']
       (1 / 10 ^ 9) (AccOne EXACT)
       RESISTANCE_CITATIONS
       ''1''\<close>

definition series_resistance :: "(string \<Rightarrow> real \<Rightarrow> string) \<Rightarrow> inputs \<Rightarrow> raw_return" where
  \<open>series_resistance fmt x =
    (arg x ''heat.network.r1'' (\<lambda>r1.
     arg x ''heat.network.r2'' (\<lambda>r2.
     ok_floats [(''heat.network.r_series'', heat_series_resistance (Fin r1) (Fin r2))])))\<close>

subsection \<open>\<open>rate_from_resistance\<close>\<close>

definition rate_from_resistance_box :: "(string, interval) dict" where
  "rate_from_resistance_box =
     [(''heat.network.delta_temp'', ivl (- 10000) 10000),
      (''heat.network.resistance'', ivl (1 / 10 ^ 9) (10 ^ 9))]"

definition rate_from_resistance_ins :: "string list" where
  "rate_from_resistance_ins = [''heat.network.delta_temp'', ''heat.network.resistance'']"

definition rate_from_resistance_args :: build_args where
  \<open>rate_from_resistance_args =
     solver_args ''heat'' rate_from_resistance_ins
       [''heat.network.rate'']
       rate_from_resistance_box
       []
       (1 / 10 ^ 9) (AccOne EXACT)
       RESISTANCE_CITATIONS
       ''1''\<close>

definition rate_from_resistance :: "(string \<Rightarrow> real \<Rightarrow> string) \<Rightarrow> inputs \<Rightarrow> raw_return" where
  \<open>rate_from_resistance fmt x =
    (arg x ''heat.network.delta_temp'' (\<lambda>delta_temp.
     arg x ''heat.network.resistance'' (\<lambda>resistance.
     ok_floats [(''heat.network.rate'', heat_rate_from_resistance (Fin delta_temp) (Fin resistance))])))\<close>

definition DITTUS_BOELTER_CITATIONS :: "citation list" where
  \<open>DITTUS_BOELTER_CITATIONS =
     [\<lparr>ct_kind = ''paper'', ct_ref = ''Dittus & Boelter (1930), reprinted Incropera & DeWitt, 7th ed., ch. 8'', ct_note = []\<rparr>]\<close>

subsection \<open>\<open>dittus_boelter_nusselt_heating\<close>\<close>

definition dittus_boelter_nusselt_heating_box :: "(string, interval) dict" where
  "dittus_boelter_nusselt_heating_box =
     [(''heat.internal_flow.reynolds'', ivl 10000 (10 ^ 7)),
      (''heat.internal_flow.prandtl'', ivl (6 / 10) 160)]"

definition dittus_boelter_nusselt_heating_ins :: "string list" where
  "dittus_boelter_nusselt_heating_ins = [''heat.internal_flow.reynolds'', ''heat.internal_flow.prandtl'']"

definition dittus_boelter_nusselt_heating_args :: build_args where
  \<open>dittus_boelter_nusselt_heating_args =
     solver_args ''heat'' dittus_boelter_nusselt_heating_ins
       [''heat.internal_flow.nusselt'']
       dittus_boelter_nusselt_heating_box
       [''forced_convection'', ''heating'']
       (1 / 10 ^ 7) (AccOne EXACT)
       DITTUS_BOELTER_CITATIONS
       ''1''\<close>

definition dittus_boelter_nusselt_heating :: "(string \<Rightarrow> real \<Rightarrow> string) \<Rightarrow> inputs \<Rightarrow> raw_return" where
  \<open>dittus_boelter_nusselt_heating fmt x =
    (arg x ''heat.internal_flow.reynolds'' (\<lambda>reynolds.
     arg x ''heat.internal_flow.prandtl'' (\<lambda>prandtl.
     ok_floats [(''heat.internal_flow.nusselt'', heat_dittus_boelter_nusselt (Fin reynolds) (Fin prandtl) True)])))\<close>

subsection \<open>\<open>coefficient_from_nusselt\<close>\<close>

definition coefficient_from_nusselt_box :: "(string, interval) dict" where
  "coefficient_from_nusselt_box =
     [(''heat.convection.nusselt'', ivl (1 / 1000) 100000),
      (''heat.fluid.conductivity'', ivl (1 / 10000) 500),
      (''heat.pipe.diameter'', ivl (1 / 10000) 10)]"

definition coefficient_from_nusselt_ins :: "string list" where
  "coefficient_from_nusselt_ins = [''heat.convection.nusselt'', ''heat.fluid.conductivity'', ''heat.pipe.diameter'']"

definition coefficient_from_nusselt_args :: build_args where
  \<open>coefficient_from_nusselt_args =
     solver_args ''heat'' coefficient_from_nusselt_ins
       [''heat.convection.coefficient'']
       coefficient_from_nusselt_box
       []
       (1 / 10 ^ 7) (AccOne EXACT)
       [\<lparr>ct_kind = ''handbook'', ct_ref = ''Incropera & DeWitt, Fundamentals of Heat and Mass Transfer, 7th ed.'', ct_note = ''ch. 8, Nusselt-number definition''\<rparr>]
       ''1''\<close>

definition coefficient_from_nusselt :: "(string \<Rightarrow> real \<Rightarrow> string) \<Rightarrow> inputs \<Rightarrow> raw_return" where
  \<open>coefficient_from_nusselt fmt x =
    (arg x ''heat.convection.nusselt'' (\<lambda>nusselt.
     arg x ''heat.fluid.conductivity'' (\<lambda>conductivity.
     arg x ''heat.pipe.diameter'' (\<lambda>diameter.
     ok_floats [(''heat.convection.coefficient'', heat_coefficient_from_nusselt (Fin nusselt) (Fin conductivity) (Fin diameter))]))))\<close>

subsection \<open>\<open>dittus_boelter_nusselt_cooling\<close>\<close>

definition dittus_boelter_nusselt_cooling_box :: "(string, interval) dict" where
  "dittus_boelter_nusselt_cooling_box =
     [(''heat.internal_flow.reynolds'', ivl 10000 (10 ^ 7)),
      (''heat.internal_flow.prandtl'', ivl (6 / 10) 160)]"

definition dittus_boelter_nusselt_cooling_ins :: "string list" where
  "dittus_boelter_nusselt_cooling_ins = [''heat.internal_flow.reynolds'', ''heat.internal_flow.prandtl'']"

definition dittus_boelter_nusselt_cooling_args :: build_args where
  \<open>dittus_boelter_nusselt_cooling_args =
     solver_args ''heat'' dittus_boelter_nusselt_cooling_ins
       [''heat.internal_flow.nusselt'']
       dittus_boelter_nusselt_cooling_box
       [''cooling'', ''forced_convection'']
       (1 / 10 ^ 7) (AccOne EXACT)
       [\<lparr>ct_kind = ''paper'', ct_ref = ''Dittus & Boelter (1930), Univ. Calif. Publ. Eng. 2:443, reprinted Int. Comm. Heat Mass Transfer 12 (1985) 3-22'', ct_note = []\<rparr>]
       ''1''\<close>

definition dittus_boelter_nusselt_cooling :: "(string \<Rightarrow> real \<Rightarrow> string) \<Rightarrow> inputs \<Rightarrow> raw_return" where
  \<open>dittus_boelter_nusselt_cooling fmt x =
    (arg x ''heat.internal_flow.reynolds'' (\<lambda>reynolds.
     arg x ''heat.internal_flow.prandtl'' (\<lambda>prandtl.
     ok_floats [(''heat.internal_flow.nusselt'', heat_dittus_boelter_nusselt (Fin reynolds) (Fin prandtl) False)])))\<close>

subsection \<open>\<open>gnielinski_nusselt\<close>\<close>

definition gnielinski_nusselt_box :: "(string, interval) dict" where
  "gnielinski_nusselt_box =
     [(''heat.internal_flow.reynolds'', ivl 3000 (5 * 10 ^ 6)),
      (''heat.internal_flow.prandtl'', ivl (5 / 10) 2000),
      (''heat.internal_flow.friction_factor'', ivl (1 / 10000) 1)]"

definition gnielinski_nusselt_ins :: "string list" where
  "gnielinski_nusselt_ins = [''heat.internal_flow.reynolds'', ''heat.internal_flow.prandtl'', ''heat.internal_flow.friction_factor'']"

definition gnielinski_nusselt_args :: build_args where
  \<open>gnielinski_nusselt_args =
     solver_args ''heat'' gnielinski_nusselt_ins
       [''heat.internal_flow.nusselt.gnielinski'']
       gnielinski_nusselt_box
       [''f_coupled'', ''forced_convection'']
       (1 / 10 ^ 7) (AccOne EXACT)
       [\<lparr>ct_kind = ''paper'', ct_ref = ''Gnielinski, V. (1976), Int. Chem. Eng. 16(2):359-368'', ct_note = []\<rparr>, \<lparr>ct_kind = ''handbook'', ct_ref = ''Incropera & DeWitt, Fundamentals of Heat and Mass Transfer, 7th ed.'', ct_note = ''ch. 8, Gnielinski correlation restatement''\<rparr>]
       ''1''\<close>

definition gnielinski_nusselt :: "(string \<Rightarrow> real \<Rightarrow> string) \<Rightarrow> inputs \<Rightarrow> raw_return" where
  \<open>gnielinski_nusselt fmt x =
    (arg x ''heat.internal_flow.reynolds'' (\<lambda>reynolds.
     arg x ''heat.internal_flow.prandtl'' (\<lambda>prandtl.
     arg x ''heat.internal_flow.friction_factor'' (\<lambda>friction_factor.
     ok_floats [(''heat.internal_flow.nusselt.gnielinski'', heat_gnielinski_nusselt (Fin reynolds) (Fin prandtl) (Fin friction_factor))]))))\<close>

definition LAMINAR_NUSSELT_CITATIONS :: "citation list" where
  \<open>LAMINAR_NUSSELT_CITATIONS =
     [\<lparr>ct_kind = ''handbook'', ct_ref = ''Incropera & DeWitt, Fundamentals of Heat and Mass Transfer, 7th ed.'', ct_note = ''Table 8.1, fully developed laminar flow''\<rparr>]\<close>

subsection \<open>\<open>laminar_fully_developed_nusselt_const_temp\<close>\<close>

definition laminar_fully_developed_nusselt_const_temp_box :: "(string, interval) dict" where
  "laminar_fully_developed_nusselt_const_temp_box =
     []"

definition laminar_fully_developed_nusselt_const_temp_ins :: "string list" where
  "laminar_fully_developed_nusselt_const_temp_ins = []"

definition laminar_fully_developed_nusselt_const_temp_args :: build_args where
  \<open>laminar_fully_developed_nusselt_const_temp_args =
     solver_args ''heat'' laminar_fully_developed_nusselt_const_temp_ins
       [''heat.internal_flow.nusselt.laminar_const_temp'']
       laminar_fully_developed_nusselt_const_temp_box
       [''constant_wall_temp'', ''laminar'']
       (1 / 10 ^ 9) (AccOne EXACT)
       LAMINAR_NUSSELT_CITATIONS
       ''1''\<close>

definition laminar_fully_developed_nusselt_const_temp :: "(string \<Rightarrow> real \<Rightarrow> string) \<Rightarrow> inputs \<Rightarrow> raw_return" where
  \<open>laminar_fully_developed_nusselt_const_temp fmt x =
    (ok_floats [(''heat.internal_flow.nusselt.laminar_const_temp'', heat_laminar_nusselt True)])\<close>

subsection \<open>\<open>laminar_fully_developed_nusselt_const_flux\<close>\<close>

definition laminar_fully_developed_nusselt_const_flux_box :: "(string, interval) dict" where
  "laminar_fully_developed_nusselt_const_flux_box =
     []"

definition laminar_fully_developed_nusselt_const_flux_ins :: "string list" where
  "laminar_fully_developed_nusselt_const_flux_ins = []"

definition laminar_fully_developed_nusselt_const_flux_args :: build_args where
  \<open>laminar_fully_developed_nusselt_const_flux_args =
     solver_args ''heat'' laminar_fully_developed_nusselt_const_flux_ins
       [''heat.internal_flow.nusselt.laminar_const_flux'']
       laminar_fully_developed_nusselt_const_flux_box
       [''constant_heat_flux'', ''laminar'']
       (1 / 10 ^ 9) (AccOne EXACT)
       LAMINAR_NUSSELT_CITATIONS
       ''1''\<close>

definition laminar_fully_developed_nusselt_const_flux :: "(string \<Rightarrow> real \<Rightarrow> string) \<Rightarrow> inputs \<Rightarrow> raw_return" where
  \<open>laminar_fully_developed_nusselt_const_flux fmt x =
    (ok_floats [(''heat.internal_flow.nusselt.laminar_const_flux'', heat_laminar_nusselt False)])\<close>

definition CHURCHILL_CHU_HORIZONTAL_CITATIONS :: "citation list" where
  \<open>CHURCHILL_CHU_HORIZONTAL_CITATIONS =
     [\<lparr>ct_kind = ''paper'', ct_ref = ''Churchill, S.W. & Chu, H.H.S. (1975), Int. J. Heat Mass Transfer 18:1049-1053'', ct_note = []\<rparr>,
      \<lparr>ct_kind = ''handbook'', ct_ref = ''Incropera & DeWitt, Fundamentals of Heat and Mass Transfer, 7th ed.'', ct_note = ''eq. 9.34, Churchill-Chu restatement (primary paywalled)''\<rparr>]\<close>

definition CHURCHILL_CHU_VERTICAL_CITATIONS :: "citation list" where
  \<open>CHURCHILL_CHU_VERTICAL_CITATIONS =
     [\<lparr>ct_kind = ''paper'', ct_ref = ''Churchill, S.W. & Chu, H.H.S. (1975), Int. J. Heat Mass Transfer 18:1323-1329'', ct_note = []\<rparr>,
      \<lparr>ct_kind = ''handbook'', ct_ref = ''Incropera & DeWitt, Fundamentals of Heat and Mass Transfer, 7th ed.'', ct_note = ''eq. 9.26, Churchill-Chu restatement (primary paywalled)''\<rparr>]\<close>

subsection \<open>\<open>churchill_chu_horizontal_cylinder_nusselt\<close>\<close>

definition churchill_chu_horizontal_cylinder_nusselt_box :: "(string, interval) dict" where
  "churchill_chu_horizontal_cylinder_nusselt_box =
     [(''heat.natural_convection.rayleigh'', ivl (1 / 100) (10 ^ 12)),
      (''heat.natural_convection.prandtl'', ivl (1 / 1000) 10000)]"

definition churchill_chu_horizontal_cylinder_nusselt_ins :: "string list" where
  "churchill_chu_horizontal_cylinder_nusselt_ins = [''heat.natural_convection.rayleigh'', ''heat.natural_convection.prandtl'']"

definition churchill_chu_horizontal_cylinder_nusselt_args :: build_args where
  \<open>churchill_chu_horizontal_cylinder_nusselt_args =
     solver_args ''heat'' churchill_chu_horizontal_cylinder_nusselt_ins
       [''heat.natural_convection.nusselt.horizontal_cylinder'']
       churchill_chu_horizontal_cylinder_nusselt_box
       [''horizontal_cylinder'', ''natural_convection'']
       (1 / 10 ^ 7) (AccOne EXACT)
       CHURCHILL_CHU_HORIZONTAL_CITATIONS
       ''1''\<close>

definition churchill_chu_horizontal_cylinder_nusselt :: "(string \<Rightarrow> real \<Rightarrow> string) \<Rightarrow> inputs \<Rightarrow> raw_return" where
  \<open>churchill_chu_horizontal_cylinder_nusselt fmt x =
    (arg x ''heat.natural_convection.rayleigh'' (\<lambda>rayleigh.
     arg x ''heat.natural_convection.prandtl'' (\<lambda>prandtl.
     ok_floats [(''heat.natural_convection.nusselt.horizontal_cylinder'', heat_churchill_chu_horizontal_cylinder_nusselt (Fin rayleigh) (Fin prandtl))])))\<close>

subsection \<open>\<open>churchill_chu_vertical_plate_nusselt\<close>\<close>

definition churchill_chu_vertical_plate_nusselt_box :: "(string, interval) dict" where
  "churchill_chu_vertical_plate_nusselt_box =
     [(''heat.natural_convection.rayleigh'', ivl (1 / 100) (10 ^ 12)),
      (''heat.natural_convection.prandtl'', ivl (1 / 1000) 10000)]"

definition churchill_chu_vertical_plate_nusselt_ins :: "string list" where
  "churchill_chu_vertical_plate_nusselt_ins = [''heat.natural_convection.rayleigh'', ''heat.natural_convection.prandtl'']"

definition churchill_chu_vertical_plate_nusselt_args :: build_args where
  \<open>churchill_chu_vertical_plate_nusselt_args =
     solver_args ''heat'' churchill_chu_vertical_plate_nusselt_ins
       [''heat.natural_convection.nusselt.vertical_plate'']
       churchill_chu_vertical_plate_nusselt_box
       [''natural_convection'', ''vertical_plate'']
       (1 / 10 ^ 7) (AccOne EXACT)
       CHURCHILL_CHU_VERTICAL_CITATIONS
       ''1''\<close>

definition churchill_chu_vertical_plate_nusselt :: "(string \<Rightarrow> real \<Rightarrow> string) \<Rightarrow> inputs \<Rightarrow> raw_return" where
  \<open>churchill_chu_vertical_plate_nusselt fmt x =
    (arg x ''heat.natural_convection.rayleigh'' (\<lambda>rayleigh.
     arg x ''heat.natural_convection.prandtl'' (\<lambda>prandtl.
     ok_floats [(''heat.natural_convection.nusselt.vertical_plate'', heat_churchill_chu_vertical_plate_nusselt (Fin rayleigh) (Fin prandtl))])))\<close>

definition NTU_CITATIONS :: "citation list" where
  \<open>NTU_CITATIONS =
     [\<lparr>ct_kind = ''handbook'', ct_ref = ''Kays & London, Compact Heat Exchangers, 3rd ed. (1984)'', ct_note = ''Table 11.4 lineage (Incropera restatement)''\<rparr>,
      \<lparr>ct_kind = ''handbook'', ct_ref = ''Incropera & DeWitt, Fundamentals of Heat and Mass Transfer, 7th ed.'', ct_note = ''sec. 11.4, effectiveness-NTU method''\<rparr>]\<close>

subsection \<open>\<open>ntu_from_ua\<close>\<close>

definition ntu_from_ua_box :: "(string, interval) dict" where
  "ntu_from_ua_box =
     [(''heat.hx.ua'', ivl (1 / 10 ^ 6) (10 ^ 9)),
      (''heat.hx.c_min'', ivl (1 / 10 ^ 6) (10 ^ 9))]"

definition ntu_from_ua_ins :: "string list" where
  "ntu_from_ua_ins = [''heat.hx.ua'', ''heat.hx.c_min'']"

definition ntu_from_ua_args :: build_args where
  \<open>ntu_from_ua_args =
     solver_args ''heat'' ntu_from_ua_ins
       [''heat.hx.ntu'']
       ntu_from_ua_box
       [''ntu_effectiveness'']
       (1 / 10 ^ 9) (AccOne EXACT)
       NTU_CITATIONS
       ''1''\<close>

definition ntu_from_ua :: "(string \<Rightarrow> real \<Rightarrow> string) \<Rightarrow> inputs \<Rightarrow> raw_return" where
  \<open>ntu_from_ua fmt x =
    (arg x ''heat.hx.ua'' (\<lambda>ua.
     arg x ''heat.hx.c_min'' (\<lambda>c_min.
     ok_floats [(''heat.hx.ntu'', heat_ntu_from_ua (Fin ua) (Fin c_min))])))\<close>

subsection \<open>\<open>effectiveness_parallel_flow\<close>\<close>

definition effectiveness_parallel_flow_box :: "(string, interval) dict" where
  "effectiveness_parallel_flow_box =
     [(''heat.hx.ntu'', ivl 0 100),
      (''heat.hx.c_r'', ivl 0 1)]"

definition effectiveness_parallel_flow_ins :: "string list" where
  "effectiveness_parallel_flow_ins = [''heat.hx.ntu'', ''heat.hx.c_r'']"

definition effectiveness_parallel_flow_args :: build_args where
  \<open>effectiveness_parallel_flow_args =
     solver_args ''heat'' effectiveness_parallel_flow_ins
       [''heat.hx.effectiveness.parallel_flow'']
       effectiveness_parallel_flow_box
       [''ntu_effectiveness'', ''parallel_flow'']
       (1 / 10 ^ 7) (AccOne EXACT)
       NTU_CITATIONS
       ''1''\<close>

definition effectiveness_parallel_flow :: "(string \<Rightarrow> real \<Rightarrow> string) \<Rightarrow> inputs \<Rightarrow> raw_return" where
  \<open>effectiveness_parallel_flow fmt x =
    (arg x ''heat.hx.ntu'' (\<lambda>ntu.
     arg x ''heat.hx.c_r'' (\<lambda>c_r.
     ok_floats [(''heat.hx.effectiveness.parallel_flow'', heat_effectiveness_parallel_flow (Fin ntu) (Fin c_r))])))\<close>

subsection \<open>\<open>effectiveness_counterflow\<close>\<close>

definition effectiveness_counterflow_box :: "(string, interval) dict" where
  "effectiveness_counterflow_box =
     [(''heat.hx.ntu'', ivl 0 100),
      (''heat.hx.c_r'', ivl 0 1)]"

definition effectiveness_counterflow_ins :: "string list" where
  "effectiveness_counterflow_ins = [''heat.hx.ntu'', ''heat.hx.c_r'']"

definition effectiveness_counterflow_args :: build_args where
  \<open>effectiveness_counterflow_args =
     solver_args ''heat'' effectiveness_counterflow_ins
       [''heat.hx.effectiveness.counterflow'']
       effectiveness_counterflow_box
       [''counterflow'', ''ntu_effectiveness'']
       (1 / 10 ^ 7) (AccOne EXACT)
       NTU_CITATIONS
       ''1''\<close>

definition effectiveness_counterflow :: "(string \<Rightarrow> real \<Rightarrow> string) \<Rightarrow> inputs \<Rightarrow> raw_return" where
  \<open>effectiveness_counterflow fmt x =
    (arg x ''heat.hx.ntu'' (\<lambda>ntu.
     arg x ''heat.hx.c_r'' (\<lambda>c_r.
     ok_floats [(''heat.hx.effectiveness.counterflow'', heat_effectiveness_counterflow (Fin ntu) (Fin c_r))])))\<close>

subsection \<open>\<open>effectiveness_shell_and_tube_one_pass\<close>\<close>

definition effectiveness_shell_and_tube_one_pass_box :: "(string, interval) dict" where
  "effectiveness_shell_and_tube_one_pass_box =
     [(''heat.hx.ntu'', ivl 0 100),
      (''heat.hx.c_r'', ivl 0 1)]"

definition effectiveness_shell_and_tube_one_pass_ins :: "string list" where
  "effectiveness_shell_and_tube_one_pass_ins = [''heat.hx.ntu'', ''heat.hx.c_r'']"

definition effectiveness_shell_and_tube_one_pass_args :: build_args where
  \<open>effectiveness_shell_and_tube_one_pass_args =
     solver_args ''heat'' effectiveness_shell_and_tube_one_pass_ins
       [''heat.hx.effectiveness.shell_and_tube_one_pass'']
       effectiveness_shell_and_tube_one_pass_box
       [''ntu_effectiveness'', ''shell_and_tube'']
       (1 / 10 ^ 7) (AccOne EXACT)
       NTU_CITATIONS
       ''1''\<close>

definition effectiveness_shell_and_tube_one_pass :: "(string \<Rightarrow> real \<Rightarrow> string) \<Rightarrow> inputs \<Rightarrow> raw_return" where
  \<open>effectiveness_shell_and_tube_one_pass fmt x =
    (arg x ''heat.hx.ntu'' (\<lambda>ntu.
     arg x ''heat.hx.c_r'' (\<lambda>c_r.
     ok_floats [(''heat.hx.effectiveness.shell_and_tube_one_pass'', heat_effectiveness_shell_and_tube_one_pass (Fin ntu) (Fin c_r))])))\<close>

definition HX_ENERGY_BALANCE_CITATIONS :: "citation list" where
  \<open>HX_ENERGY_BALANCE_CITATIONS =
     [\<lparr>ct_kind = ''handbook'', ct_ref = ''Incropera & DeWitt, Fundamentals of Heat and Mass Transfer, 7th ed.'', ct_note = ''sec. 11.1/11.3, HX energy balance''\<rparr>]\<close>

subsection \<open>\<open>hx_rate_from_effectiveness\<close>\<close>

definition hx_rate_from_effectiveness_box :: "(string, interval) dict" where
  "hx_rate_from_effectiveness_box =
     [(''heat.hx.effectiveness'', ivl 0 1),
      (''heat.hx.c_min'', ivl (1 / 10 ^ 6) (10 ^ 9)),
      (''heat.hx.t_hot_in'', ivl (- 273) 10000),
      (''heat.hx.t_cold_in'', ivl (- 273) 10000)]"

definition hx_rate_from_effectiveness_ins :: "string list" where
  "hx_rate_from_effectiveness_ins = [''heat.hx.effectiveness'', ''heat.hx.c_min'', ''heat.hx.t_hot_in'', ''heat.hx.t_cold_in'']"

definition hx_rate_from_effectiveness_args :: build_args where
  \<open>hx_rate_from_effectiveness_args =
     solver_args ''heat'' hx_rate_from_effectiveness_ins
       [''heat.hx.rate'']
       hx_rate_from_effectiveness_box
       [''ntu_effectiveness'']
       (1 / 10 ^ 9) (AccOne EXACT)
       HX_ENERGY_BALANCE_CITATIONS
       ''1''\<close>

definition hx_rate_from_effectiveness :: "(string \<Rightarrow> real \<Rightarrow> string) \<Rightarrow> inputs \<Rightarrow> raw_return" where
  \<open>hx_rate_from_effectiveness fmt x =
    (arg x ''heat.hx.effectiveness'' (\<lambda>effectiveness.
     arg x ''heat.hx.c_min'' (\<lambda>c_min.
     arg x ''heat.hx.t_hot_in'' (\<lambda>t_hot_in.
     arg x ''heat.hx.t_cold_in'' (\<lambda>t_cold_in.
     ok_floats [(''heat.hx.rate'', heat_hx_rate_from_effectiveness (Fin effectiveness) (Fin c_min) (Fin t_hot_in) (Fin t_cold_in))])))))\<close>

subsection \<open>\<open>hx_outlet_temp_hot\<close>\<close>

definition hx_outlet_temp_hot_box :: "(string, interval) dict" where
  "hx_outlet_temp_hot_box =
     [(''heat.hx.t_in'', ivl (- 273) 10000),
      (''heat.hx.rate'', ivl (- (10 ^ 12)) (10 ^ 12)),
      (''heat.hx.capacity_rate'', ivl (1 / 10 ^ 6) (10 ^ 9))]"

definition hx_outlet_temp_hot_ins :: "string list" where
  "hx_outlet_temp_hot_ins = [''heat.hx.t_in'', ''heat.hx.rate'', ''heat.hx.capacity_rate'']"

definition hx_outlet_temp_hot_args :: build_args where
  \<open>hx_outlet_temp_hot_args =
     solver_args ''heat'' hx_outlet_temp_hot_ins
       [''heat.hx.t_out.hot'']
       hx_outlet_temp_hot_box
       [''ntu_effectiveness'']
       (1 / 10 ^ 9) (AccOne EXACT)
       HX_ENERGY_BALANCE_CITATIONS
       ''1''\<close>

definition hx_outlet_temp_hot :: "(string \<Rightarrow> real \<Rightarrow> string) \<Rightarrow> inputs \<Rightarrow> raw_return" where
  \<open>hx_outlet_temp_hot fmt x =
    (arg x ''heat.hx.t_in'' (\<lambda>t_in.
     arg x ''heat.hx.rate'' (\<lambda>rate.
     arg x ''heat.hx.capacity_rate'' (\<lambda>capacity_rate.
     ok_floats [(''heat.hx.t_out.hot'', heat_hx_outlet_temp (Fin t_in) (Fin rate) (Fin capacity_rate) True)]))))\<close>

subsection \<open>\<open>hx_outlet_temp_cold\<close>\<close>

definition hx_outlet_temp_cold_box :: "(string, interval) dict" where
  "hx_outlet_temp_cold_box =
     [(''heat.hx.t_in'', ivl (- 273) 10000),
      (''heat.hx.rate'', ivl (- (10 ^ 12)) (10 ^ 12)),
      (''heat.hx.capacity_rate'', ivl (1 / 10 ^ 6) (10 ^ 9))]"

definition hx_outlet_temp_cold_ins :: "string list" where
  "hx_outlet_temp_cold_ins = [''heat.hx.t_in'', ''heat.hx.rate'', ''heat.hx.capacity_rate'']"

definition hx_outlet_temp_cold_args :: build_args where
  \<open>hx_outlet_temp_cold_args =
     solver_args ''heat'' hx_outlet_temp_cold_ins
       [''heat.hx.t_out.cold'']
       hx_outlet_temp_cold_box
       [''ntu_effectiveness'']
       (1 / 10 ^ 9) (AccOne EXACT)
       HX_ENERGY_BALANCE_CITATIONS
       ''1''\<close>

definition hx_outlet_temp_cold :: "(string \<Rightarrow> real \<Rightarrow> string) \<Rightarrow> inputs \<Rightarrow> raw_return" where
  \<open>hx_outlet_temp_cold fmt x =
    (arg x ''heat.hx.t_in'' (\<lambda>t_in.
     arg x ''heat.hx.rate'' (\<lambda>rate.
     arg x ''heat.hx.capacity_rate'' (\<lambda>capacity_rate.
     ok_floats [(''heat.hx.t_out.cold'', heat_hx_outlet_temp (Fin t_in) (Fin rate) (Fin capacity_rate) False)]))))\<close>

definition heat_PORT_DECLS :: "port_decl list" where
  "heat_PORT_DECLS =
     [scalar_port ''heat.wall.thickness'' ''m'',
      scalar_port ''heat.wall.conductivity'' ''W/(m*K)'',
      scalar_port ''heat.wall.area'' ''m^2'',
      scalar_port ''heat.wall.resistance'' ''K/W'',
      scalar_port ''heat.cylinder.inner_radius'' ''m'',
      scalar_port ''heat.cylinder.outer_radius'' ''m'',
      scalar_port ''heat.cylinder.conductivity'' ''W/(m*K)'',
      scalar_port ''heat.cylinder.length'' ''m'',
      scalar_port ''heat.cylinder.resistance'' ''K/W'',
      scalar_port ''heat.convection.coefficient'' ''W/(m^2*K)'',
      scalar_port ''heat.convection.area'' ''m^2'',
      scalar_port ''heat.convection.resistance'' ''K/W'',
      scalar_port ''heat.convection.nusselt'' ''1'',
      scalar_port ''heat.network.r1'' ''K/W'',
      scalar_port ''heat.network.r2'' ''K/W'',
      scalar_port ''heat.network.r_series'' ''K/W'',
      scalar_port ''heat.network.resistance'' ''K/W'',
      scalar_port ''heat.network.delta_temp'' ''K'',
      scalar_port ''heat.network.rate'' ''W'',
      scalar_port ''heat.internal_flow.reynolds'' ''1'',
      scalar_port ''heat.internal_flow.prandtl'' ''1'',
      scalar_port ''heat.internal_flow.nusselt'' ''1'',
      scalar_port ''heat.fluid.conductivity'' ''W/(m*K)'',
      scalar_port ''heat.pipe.diameter'' ''m'',
      scalar_port ''heat.internal_flow.friction_factor'' ''1'',
      scalar_port ''heat.internal_flow.nusselt.gnielinski'' ''1'',
      scalar_port ''heat.internal_flow.nusselt.laminar_const_temp'' ''1'',
      scalar_port ''heat.internal_flow.nusselt.laminar_const_flux'' ''1'',
      scalar_port ''heat.natural_convection.rayleigh'' ''1'',
      scalar_port ''heat.natural_convection.prandtl'' ''1'',
      scalar_port ''heat.natural_convection.nusselt.horizontal_cylinder'' ''1'',
      scalar_port ''heat.natural_convection.nusselt.vertical_plate'' ''1'',
      scalar_port ''heat.hx.ua'' ''W/K'',
      scalar_port ''heat.hx.c_min'' ''W/K'',
      scalar_port ''heat.hx.c_r'' ''1'',
      scalar_port ''heat.hx.ntu'' ''1'',
      scalar_port ''heat.hx.effectiveness'' ''1'',
      scalar_port ''heat.hx.effectiveness.parallel_flow'' ''1'',
      scalar_port ''heat.hx.effectiveness.counterflow'' ''1'',
      scalar_port ''heat.hx.effectiveness.shell_and_tube_one_pass'' ''1'',
      scalar_port ''heat.hx.t_hot_in'' ''K'',
      scalar_port ''heat.hx.t_cold_in'' ''K'',
      scalar_port ''heat.hx.rate'' ''W'',
      scalar_port ''heat.hx.t_in'' ''K'',
      scalar_port ''heat.hx.capacity_rate'' ''W/K'',
      scalar_port ''heat.hx.t_out.hot'' ''K'',
      scalar_port ''heat.hx.t_out.cold'' ''K'']"

section \<open>What the directions compute\<close>

text \<open>Exchanger effectiveness, with its limits where the kernel divides by zero.\<close>

definition counterflow :: "real \<Rightarrow> real \<Rightarrow> real" where
  "counterflow ntu c =
     (if \<bar>c - 1\<bar> < 1 / 10 ^ 9 then ntu / (1 + ntu)
      else (1 - exp (- ntu * (1 - c))) / (1 - c * exp (- ntu * (1 - c))))"

definition shell_and_tube :: "real \<Rightarrow> real \<Rightarrow> real" where
  "shell_and_tube ntu c =
     (if ntu = 0 then 0
      else let root = sqrt (1 + c * c); e = exp (- ntu * root) in
        2 / (1 + c + root * (1 + e) / (1 - e)))"

lemma counterflow_gap:
  fixes n c :: real
  assumes "0 \<le> n" "0 \<le> c" "c < 1"
  shows "0 < 1 - c * exp (- n * (1 - c))"
proof -
  have "0 \<le> n * (1 - c)" using assms by simp
  then have "exp (- n * (1 - c)) \<le> 1" by simp
  then have "c * exp (- n * (1 - c)) \<le> c * 1" using assms(2) by (intro mult_left_mono) auto
  then show ?thesis using assms(3) by simp
qed

lemma counterflow_kernel:
  assumes "0 \<le> n" "0 \<le> c" "c \<le> 1"
  shows "heat_effectiveness_counterflow (Fin n) (Fin c) = Fin (counterflow n c)"
proof (cases "\<bar>c - 1\<bar> < 1 / 10 ^ 9")
  case True
  then show ?thesis
    using assms by (simp add: heat_effectiveness_counterflow_def counterflow_def)
next
  case False
  then have "c < 1" using assms(3) by (cases "c = 1") auto
  then have "1 - c * exp (- n * (1 - c)) \<noteq> 0" using counterflow_gap [OF assms(1,2)] by simp
  then show ?thesis
    using False by (simp add: heat_effectiveness_counterflow_def counterflow_def Let_def)
qed

lemma shell_kernel:
  assumes "0 \<le> n" "0 \<le> c"
  shows "heat_effectiveness_shell_and_tube_one_pass (Fin n) (Fin c) = Fin (shell_and_tube n c)"
proof (cases "n = 0")
  case True
  have "0 < sqrt (1 + c * c)" using assms by (simp add: add_pos_nonneg)
  with True show ?thesis
    by (simp add: heat_effectiveness_shell_and_tube_one_pass_def shell_and_tube_def Let_def rust_div_def
        add_nonneg_nonneg fl_inf_of_sign_def)
next
  case False
  define r e where "r = sqrt (1 + c * c)" and "e = exp (- n * r)"
  have r: "0 < r" using assms by (simp add: r_def add_pos_nonneg)
  then have e: "e < 1" using False assms(1) by (simp add: e_def)
  then have "0 < r * (1 + e) / (1 - e)" using r by (intro divide_pos_pos mult_pos_pos) (auto simp: e_def intro: add_pos_pos)
  then have "1 + c + r * (1 + e) / (1 - e) \<noteq> 0" "1 - e \<noteq> 0" using assms(2) e by auto
  then have "rust_div (Fin 2) (fl_add (fl_add (Fin 1) (Fin c)) (rust_div (Fin (r * (1 + e))) (fl_sub (Fin 1) (Fin e)))) =
      Fin (2 / (1 + c + r * (1 + e) / (1 - e)))" by simp
  moreover have "rust_exp (fl_mul (fl_neg (Fin n)) (Fin r)) = Fin e" by (simp add: e_def)
  moreover have "rust_sqrt (fl_add (Fin 1) (fl_mul (Fin c) (Fin c))) = Fin r" using assms(2) by (simp add: r_def)
  ultimately show ?thesis
    using False
    by (simp add: heat_effectiveness_shell_and_tube_one_pass_def shell_and_tube_def Let_def r_def [symmetric] e_def [symmetric])
qed

text \<open>How the effectiveness moves with its inputs.\<close>

lemma swings_counterflow_ntu:
  assumes "\<And>v. iv_contains iv v \<Longrightarrow> 0 \<le> v" "0 \<le> c" "c \<le> 1"
  shows "swings iv (\<lambda>v. counterflow v c)"
proof (cases "\<bar>c - 1\<bar> < 1 / 10 ^ 9")
  case True
  have "0 < 1 + v" if "iv_contains iv v" for v using assms(1) [OF that] by simp
  then have "swings iv (\<lambda>v. v / (1 + v))" by (intro swings_share') simp
  with True show ?thesis by (simp add: counterflow_def)
next
  case False
  then have c: "c < 1" using assms(3) by (cases "c = 1") auto
  have "swings iv (\<lambda>v. exp (- v * (1 - c)))"
    by (intro swings_exp swings_mult_const swings_minus rises_swings risesI) simp
  from swings_linear_fraction [OF this, of "- c" 1 "- 1" 1]
  have "swings iv (\<lambda>v. (1 - exp (- v * (1 - c))) / (1 - c * exp (- v * (1 - c))))"
    using counterflow_gap [OF assms(1,2) c] by simp
  with False show ?thesis by (simp add: counterflow_def)
qed

lemma counterflow_share:
  fixes n s :: real
  assumes n: "0 < n" and s: "0 < s"
  shows "(1 - exp (- n * s)) / (1 - (1 - s) * exp (- n * s)) = 1 / (1 + s / (exp (n * s) - 1))"
proof -
  have ratio: "(1 - e) / (1 - (1 - s) * e) = 1 / (1 + s / (1 / e - 1))" if "0 < e" "e < 1" for e :: real
  proof -
    have "1 + s / (1 / e - 1) = (1 - (1 - s) * e) / (1 - e)" using that by (simp add: field_simps)
    then show ?thesis by simp
  qed
  have "0 < n * s" using n s by simp
  then have "exp (- n * s) < 1" by simp
  moreover have "1 / exp (- n * s) = exp (n * s)" by (simp add: exp_minus inverse_eq_divide)
  ultimately show ?thesis using ratio [of "exp (- n * s)"] by simp
qed

lemma exp_share_falls:
  fixes n s t :: real
  assumes "0 < n" "0 < s" "s \<le> t"
  shows "t / (exp (n * t) - 1) \<le> s / (exp (n * s) - 1)"
proof -
  have "exp (s / t * (n * t)) \<le> (1 - s / t) + s / t * exp (n * t)"
    using assms by (intro exp_chord) auto
  then have "t * exp (n * s) \<le> t * ((1 - s / t) + s / t * exp (n * t))"
    using assms by (intro mult_left_mono) (simp_all add: mult.commute)
  also have "\<dots> = t - s + s * exp (n * t)" using assms by (simp add: field_simps)
  finally have "t * (exp (n * s) - 1) \<le> s * (exp (n * t) - 1)" by (simp add: algebra_simps)
  then show ?thesis using assms by (simp add: divide_simps mult.commute)
qed

lemma counterflow_falls:
  assumes n: "0 \<le> n" and c: "0 \<le> c" "c \<le> d" "d \<le> 1"
  shows "counterflow n d \<le> counterflow n c"
proof (cases "n = 0")
  case False
  then have n: "0 < n" using n by simp
  have far: "counterflow n b = 1 / (1 + (1 - b) / (exp (n * (1 - b)) - 1))"
    if "\<not> \<bar>b - 1\<bar> < 1 / 10 ^ 9" "b \<le> 1" for b
    using that counterflow_share [OF n, of "1 - b"] by (cases "b = 1") (simp_all add: counterflow_def)
  have near: "counterflow n b = 1 / (1 + 1 / n)" if "\<bar>b - 1\<bar> < 1 / 10 ^ 9" for b
    using that n by (simp add: counterflow_def field_simps)
  have pos: "0 < 1 - b \<Longrightarrow> 0 < (1 - b) / (exp (n * (1 - b)) - 1)" for b
    using n by simp
  show ?thesis
  proof (cases "\<bar>c - 1\<bar> < 1 / 10 ^ 9")
    case True
    moreover from this c have "\<bar>d - 1\<bar> < 1 / 10 ^ 9" by linarith
    ultimately show ?thesis by (simp add: near)
  next
    case farc: False
    then have c1: "c < 1" using c by (cases "c = 1") auto
    show ?thesis
    proof (cases "\<bar>d - 1\<bar> < 1 / 10 ^ 9")
      case True
      have "n * (1 - c) \<le> exp (n * (1 - c)) - 1" using exp_ge_add_one_self [of "n * (1 - c)"] by linarith
      then have "(1 - c) / (exp (n * (1 - c)) - 1) \<le> 1 / n" using n c1 by (simp add: divide_simps mult.commute)
      then show ?thesis
        unfolding near [OF True] far [OF farc less_imp_le [OF c1]]
        using pos [of c] c1 by (intro divide_left_mono) (auto intro!: mult_pos_pos add_pos_pos simp: n)
    next
      case False
      then have d1: "d < 1" using c by (cases "d = 1") auto
      show ?thesis
        unfolding far [OF False less_imp_le [OF d1]] far [OF farc less_imp_le [OF c1]]
        using exp_share_falls [OF n, of "1 - d" "1 - c"] pos [of c] pos [of d] c c1 d1
        by (intro divide_left_mono) (auto intro!: mult_pos_pos add_pos_pos)
    qed
  qed
qed (simp add: counterflow_def)

lemma swings_counterflow_cr:
  assumes "0 \<le> n" "\<And>v. iv_contains iv v \<Longrightarrow> 0 \<le> v \<and> v \<le> 1"
  shows "swings iv (\<lambda>v. counterflow n v)"
  using assms by (intro falls_swings fallsI counterflow_falls) auto

lemma shell_positive:
  fixes n c :: real
  assumes "0 < n" "0 \<le> c"
  shows "0 < sqrt (1 + c * c) * (1 + exp (- n * sqrt (1 + c * c))) / (1 - exp (- n * sqrt (1 + c * c)))"
proof -
  have "0 < sqrt (1 + c * c)" using assms by (auto intro: add_pos_nonneg)
  moreover from this have "0 < n * sqrt (1 + c * c)" using assms(1) by (rule mult_pos_pos [rotated])
  ultimately show ?thesis by (intro divide_pos_pos mult_pos_pos) (auto intro: add_pos_pos)
qed

lemma shell_rises:
  assumes n: "0 \<le> n" "n \<le> m" and c: "0 \<le> c"
  shows "shell_and_tube n c \<le> shell_and_tube m c"
proof (cases "n = 0")
  case True
  then show ?thesis
    using n c shell_positive [of m c] by (auto simp: shell_and_tube_def Let_def intro!: divide_nonneg_nonneg add_nonneg_nonneg)
next
  case False
  let ?r = "sqrt (1 + c * c)"
  have p: "0 < n" "0 < m" "0 < ?r" using False n c by (auto intro: add_pos_nonneg)
  have "exp (- m * ?r) \<le> exp (- n * ?r)" "exp (- n * ?r) < 1" using p n by simp_all
  then have "?r * (1 + exp (- m * ?r)) / (1 - exp (- m * ?r)) \<le> ?r * (1 + exp (- n * ?r)) / (1 - exp (- n * ?r))"
    using p by (intro frac_le mult_left_mono) (auto intro: mult_nonneg_nonneg add_nonneg_nonneg)
  then show ?thesis
    using False p shell_positive [OF p(1) c] shell_positive [OF p(2) c] c unfolding shell_and_tube_def Let_def
    by (simp, intro divide_left_mono) (auto intro!: mult_pos_pos add_nonneg_pos)
qed

lemma two_y_le_sinh: "0 \<le> y \<Longrightarrow> 2 * y \<le> exp y - exp (- (y :: real))"
proof -
  assume y: "0 \<le> y"
  have "2 \<le> exp z + exp (- z)" for z :: real
    using exp_ge_add_one_self [of z] exp_ge_add_one_self [of "- z"] by linarith
  then have "exp 0 - exp (- 0) - 2 * 0 \<le> exp y - exp (- y) - 2 * y"
    using y by (intro DERIV_nonneg_imp_nondecreasing [OF y])
      (auto intro!: exI derivative_eq_intros)
  then show ?thesis by simp
qed

lemma coth_rises:
  fixes a b :: real
  assumes a: "0 < a" "a \<le> b"
  shows "a * (1 + exp (- a)) / (1 - exp (- a)) \<le> b * (1 + exp (- b)) / (1 - exp (- b))"
proof (rule DERIV_nonneg_imp_nondecreasing [OF a(2)])
  fix y assume "a \<le> y" "y \<le> b"
  then have y: "0 < y" "exp (- y) \<noteq> 1" using a by auto
  let ?d = "((1 + exp (- y) - y * exp (- y)) * (1 - exp (- y)) - y * (1 + exp (- y)) * exp (- y)) / (1 - exp (- y))\<^sup>2"
  have "((\<lambda>y. y * (1 + exp (- y)) / (1 - exp (- y))) has_real_derivative ?d) (at y)"
    using y by (auto intro!: derivative_eq_intros simp: power2_eq_square algebra_simps)
  moreover have "0 \<le> ?d"
  proof (rule divide_nonneg_nonneg)
    have "0 \<le> exp (- y) * (exp y - exp (- y) - 2 * y)"
      using two_y_le_sinh [of y] y by (intro mult_nonneg_nonneg) auto
    also have "\<dots> = (1 + exp (- y) - y * exp (- y)) * (1 - exp (- y)) - y * (1 + exp (- y)) * exp (- y)"
      by (simp add: algebra_simps exp_minus)
    finally show "0 \<le> \<dots>" .
  qed simp
  ultimately show "\<exists>d. ((\<lambda>y. y * (1 + exp (- y)) / (1 - exp (- y))) has_real_derivative d) (at y) \<and> 0 \<le> d" by blast
qed

lemma shell_falls:
  assumes n: "0 \<le> n" and c: "0 \<le> c" "c \<le> d"
  shows "shell_and_tube n d \<le> shell_and_tube n c"
proof (cases "n = 0")
  case False
  then have n: "0 < n" using n by simp
  let ?r = "\<lambda>c. sqrt (1 + c * c)" and ?g = "\<lambda>r. r * (1 + exp (- n * r)) / (1 - exp (- n * r))"
  have r: "0 < ?r c" "?r c \<le> ?r d" using c by (auto intro: add_pos_nonneg mult_mono)
  have "n * ?g r = n * r * (1 + exp (- (n * r))) / (1 - exp (- (n * r)))" for r by simp
  then have "n * ?g (?r c) \<le> n * ?g (?r d)"
    using coth_rises [of "n * ?r c" "n * ?r d"] n r by simp
  then have "?g (?r c) \<le> ?g (?r d)" using n by (rule mult_left_le_imp_le)
  then show ?thesis
    using n c shell_positive [OF n c(1)] shell_positive [OF n, of d] unfolding shell_and_tube_def Let_def
    by (simp, intro divide_left_mono) (auto intro!: mult_pos_pos add_nonneg_pos)
qed (simp add: shell_and_tube_def)

lemma swings_shell_ntu:
  assumes "\<And>v. iv_contains iv v \<Longrightarrow> 0 \<le> v" "0 \<le> c"
  shows "swings iv (\<lambda>v. shell_and_tube v c)"
  using assms by (intro rises_swings risesI shell_rises) auto

lemma swings_shell_cr:
  assumes "0 \<le> n" "\<And>v. iv_contains iv v \<Longrightarrow> 0 \<le> v"
  shows "swings iv (\<lambda>v. shell_and_tube n v)"
  using assms by (intro falls_swings fallsI shell_falls) auto

lemma loss_share_falls:
  fixes a s t :: real
  assumes "0 < s" "s \<le> t"
  shows "(1 - exp (- (a * t))) / t \<le> (1 - exp (- (a * s))) / s"
proof -
  have "exp (s / t * (- (a * t))) \<le> (1 - s / t) + s / t * exp (- (a * t))"
    using assms by (intro exp_chord) auto
  moreover have "s / t * (- (a * t)) = - (a * s)" using assms by simp
  ultimately have "s / t * (1 - exp (- (a * t))) \<le> 1 - exp (- (a * s))"
    by (simp add: right_diff_distrib)
  then show ?thesis using assms by (simp add: field_simps)
qed

lemma swings_parallel_cr:
  assumes "\<And>v. iv_contains iv v \<Longrightarrow> 0 \<le> v"
  shows "swings iv (\<lambda>v. (1 - exp (- (a * (1 + v)))) / (1 + v))"
proof (rule falls_swings, rule fallsI, rule loss_share_falls)
  show "0 < 1 + v" if "iv_contains iv v" for v using assms [OF that] by simp
qed simp


subsection \<open>\<open>plane_wall_resistance\<close>\<close>

definition plane_wall_resistance_valid :: "real list \<Rightarrow> bool" where
  "plane_wall_resistance_valid vs \<longleftrightarrow> True"

definition plane_wall_resistance_forms :: "(string, real list \<Rightarrow> real) dict" where
  "plane_wall_resistance_forms =
     [(''heat.wall.resistance'', \<lambda>vs. (vs ! 0) / ((vs ! 1) * (vs ! 2)))]"

lemma plane_wall_resistance_answers: "computes (plane_wall_resistance fmt) plane_wall_resistance_ins plane_wall_resistance_box plane_wall_resistance_valid plane_wall_resistance_forms"
  by (rule computes_kernelI [where ok = "\<lambda>vs. True" and vals = "\<lambda>vs. [(''heat.wall.resistance'', heat_plane_wall_resistance (Fin (vs ! 0)) (Fin (vs ! 1)) (Fin (vs ! 2)))]"])
    (auto simp: plane_wall_resistance_def plane_wall_resistance_ins_def plane_wall_resistance_box_def plane_wall_resistance_valid_def plane_wall_resistance_forms_def answer_simps reads_Nil reads_Cons Let_def
      ranges_of_def in_ranges_Cons heat_plane_wall_resistance_def)

lemma plane_wall_resistance_total: "in_ranges (ranges_of plane_wall_resistance_ins plane_wall_resistance_box) vs \<Longrightarrow> plane_wall_resistance_valid vs"
  by (auto simp: plane_wall_resistance_ins_def plane_wall_resistance_box_def plane_wall_resistance_valid_def ranges_of_def in_ranges_Cons)

lemma plane_wall_resistance_slices: "f \<in> snd ` set plane_wall_resistance_forms \<Longrightarrow> slice_monotone (ranges_of plane_wall_resistance_ins plane_wall_resistance_box) f"
  by (auto simp: plane_wall_resistance_forms_def plane_wall_resistance_ins_def plane_wall_resistance_box_def ranges_of_def   intro!: slice_monotone_3 swing)

interpretation plane_wall_resistance: total_solver plane_wall_resistance_ins plane_wall_resistance_box plane_wall_resistance_valid plane_wall_resistance_forms "plane_wall_resistance fmt" for fmt
  by unfold_locales (rule plane_wall_resistance_answers | erule plane_wall_resistance_total plane_wall_resistance_slices | simp add: ports_ok_def dict_ok_def plane_wall_resistance_ins_def plane_wall_resistance_box_def)+

lemma plane_wall_resistance_law:
  "keeps_law (module_direction H dumps plane_wall_resistance_args ''plane_wall_resistance'' (plane_wall_resistance fmt)) plane_wall_resistance_valid plane_wall_resistance_forms"
  unfolding plane_wall_resistance_args_def
  by (rule plane_wall_resistance.direction_law) (simp_all add: plane_wall_resistance_forms_def)

subsection \<open>\<open>cylindrical_wall_resistance\<close>\<close>

definition cylindrical_wall_resistance_valid :: "real list \<Rightarrow> bool" where
  "cylindrical_wall_resistance_valid vs \<longleftrightarrow> True"

definition cylindrical_wall_resistance_forms :: "(string, real list \<Rightarrow> real) dict" where
  "cylindrical_wall_resistance_forms =
     [(''heat.cylinder.resistance'', \<lambda>vs. ln ((vs ! 1) / (vs ! 0)) / (2 * pi * (vs ! 2) * (vs ! 3)))]"

lemma cylindrical_wall_resistance_answers: "computes (cylindrical_wall_resistance fmt) cylindrical_wall_resistance_ins cylindrical_wall_resistance_box cylindrical_wall_resistance_valid cylindrical_wall_resistance_forms"
  by (rule computes_kernelI [where ok = "\<lambda>vs. True" and vals = "\<lambda>vs. [(''heat.cylinder.resistance'', heat_cylindrical_wall_resistance (Fin (vs ! 0)) (Fin (vs ! 1)) (Fin (vs ! 2)) (Fin (vs ! 3)))]"])
    (auto simp: cylindrical_wall_resistance_def cylindrical_wall_resistance_ins_def cylindrical_wall_resistance_box_def cylindrical_wall_resistance_valid_def cylindrical_wall_resistance_forms_def answer_simps reads_Nil reads_Cons Let_def
      ranges_of_def in_ranges_Cons heat_cylindrical_wall_resistance_def)

lemma cylindrical_wall_resistance_total: "in_ranges (ranges_of cylindrical_wall_resistance_ins cylindrical_wall_resistance_box) vs \<Longrightarrow> cylindrical_wall_resistance_valid vs"
  by (auto simp: cylindrical_wall_resistance_ins_def cylindrical_wall_resistance_box_def cylindrical_wall_resistance_valid_def ranges_of_def in_ranges_Cons)

lemma cylindrical_wall_resistance_slices: "f \<in> snd ` set cylindrical_wall_resistance_forms \<Longrightarrow> slice_monotone (ranges_of cylindrical_wall_resistance_ins cylindrical_wall_resistance_box) f"
  by (auto simp: cylindrical_wall_resistance_forms_def cylindrical_wall_resistance_ins_def cylindrical_wall_resistance_box_def ranges_of_def   intro!: slice_monotone_4 swing)

interpretation cylindrical_wall_resistance: total_solver cylindrical_wall_resistance_ins cylindrical_wall_resistance_box cylindrical_wall_resistance_valid cylindrical_wall_resistance_forms "cylindrical_wall_resistance fmt" for fmt
  by unfold_locales (rule cylindrical_wall_resistance_answers | erule cylindrical_wall_resistance_total cylindrical_wall_resistance_slices | simp add: ports_ok_def dict_ok_def cylindrical_wall_resistance_ins_def cylindrical_wall_resistance_box_def)+

lemma cylindrical_wall_resistance_law:
  "keeps_law (module_direction H dumps cylindrical_wall_resistance_args ''cylindrical_wall_resistance'' (cylindrical_wall_resistance fmt)) cylindrical_wall_resistance_valid cylindrical_wall_resistance_forms"
  unfolding cylindrical_wall_resistance_args_def
  by (rule cylindrical_wall_resistance.direction_law) (simp_all add: cylindrical_wall_resistance_forms_def)

subsection \<open>\<open>convection_resistance\<close>\<close>

definition convection_resistance_valid :: "real list \<Rightarrow> bool" where
  "convection_resistance_valid vs \<longleftrightarrow> True"

definition convection_resistance_forms :: "(string, real list \<Rightarrow> real) dict" where
  "convection_resistance_forms =
     [(''heat.convection.resistance'', \<lambda>vs. 1 / ((vs ! 0) * (vs ! 1)))]"

lemma convection_resistance_answers: "computes (convection_resistance fmt) convection_resistance_ins convection_resistance_box convection_resistance_valid convection_resistance_forms"
  by (rule computes_kernelI [where ok = "\<lambda>vs. True" and vals = "\<lambda>vs. [(''heat.convection.resistance'', heat_convection_resistance (Fin (vs ! 0)) (Fin (vs ! 1)))]"])
    (auto simp: convection_resistance_def convection_resistance_ins_def convection_resistance_box_def convection_resistance_valid_def convection_resistance_forms_def answer_simps reads_Nil reads_Cons Let_def
      ranges_of_def in_ranges_Cons heat_convection_resistance_def)

lemma convection_resistance_total: "in_ranges (ranges_of convection_resistance_ins convection_resistance_box) vs \<Longrightarrow> convection_resistance_valid vs"
  by (auto simp: convection_resistance_ins_def convection_resistance_box_def convection_resistance_valid_def ranges_of_def in_ranges_Cons)

lemma convection_resistance_slices: "f \<in> snd ` set convection_resistance_forms \<Longrightarrow> slice_monotone (ranges_of convection_resistance_ins convection_resistance_box) f"
  by (auto simp: convection_resistance_forms_def convection_resistance_ins_def convection_resistance_box_def ranges_of_def   intro!: slice_monotone_2 swing)

interpretation convection_resistance: total_solver convection_resistance_ins convection_resistance_box convection_resistance_valid convection_resistance_forms "convection_resistance fmt" for fmt
  by unfold_locales (rule convection_resistance_answers | erule convection_resistance_total convection_resistance_slices | simp add: ports_ok_def dict_ok_def convection_resistance_ins_def convection_resistance_box_def)+

lemma convection_resistance_law:
  "keeps_law (module_direction H dumps convection_resistance_args ''convection_resistance'' (convection_resistance fmt)) convection_resistance_valid convection_resistance_forms"
  unfolding convection_resistance_args_def
  by (rule convection_resistance.direction_law) (simp_all add: convection_resistance_forms_def)

subsection \<open>\<open>series_resistance\<close>\<close>

definition series_resistance_valid :: "real list \<Rightarrow> bool" where
  "series_resistance_valid vs \<longleftrightarrow> True"

definition series_resistance_forms :: "(string, real list \<Rightarrow> real) dict" where
  "series_resistance_forms =
     [(''heat.network.r_series'', \<lambda>vs. (vs ! 0) + (vs ! 1))]"

lemma series_resistance_answers: "computes (series_resistance fmt) series_resistance_ins series_resistance_box series_resistance_valid series_resistance_forms"
  by (rule computes_kernelI [where ok = "\<lambda>vs. True" and vals = "\<lambda>vs. [(''heat.network.r_series'', heat_series_resistance (Fin (vs ! 0)) (Fin (vs ! 1)))]"])
    (auto simp: series_resistance_def series_resistance_ins_def series_resistance_box_def series_resistance_valid_def series_resistance_forms_def answer_simps reads_Nil reads_Cons Let_def
      ranges_of_def in_ranges_Cons heat_series_resistance_def)

lemma series_resistance_total: "in_ranges (ranges_of series_resistance_ins series_resistance_box) vs \<Longrightarrow> series_resistance_valid vs"
  by (auto simp: series_resistance_ins_def series_resistance_box_def series_resistance_valid_def ranges_of_def in_ranges_Cons)

lemma series_resistance_slices: "f \<in> snd ` set series_resistance_forms \<Longrightarrow> slice_monotone (ranges_of series_resistance_ins series_resistance_box) f"
  by (auto simp: series_resistance_forms_def series_resistance_ins_def series_resistance_box_def ranges_of_def   intro!: slice_monotone_2 swing)

interpretation series_resistance: total_solver series_resistance_ins series_resistance_box series_resistance_valid series_resistance_forms "series_resistance fmt" for fmt
  by unfold_locales (rule series_resistance_answers | erule series_resistance_total series_resistance_slices | simp add: ports_ok_def dict_ok_def series_resistance_ins_def series_resistance_box_def)+

lemma series_resistance_law:
  "keeps_law (module_direction H dumps series_resistance_args ''series_resistance'' (series_resistance fmt)) series_resistance_valid series_resistance_forms"
  unfolding series_resistance_args_def
  by (rule series_resistance.direction_law) (simp_all add: series_resistance_forms_def)

subsection \<open>\<open>rate_from_resistance\<close>\<close>

definition rate_from_resistance_valid :: "real list \<Rightarrow> bool" where
  "rate_from_resistance_valid vs \<longleftrightarrow> True"

definition rate_from_resistance_forms :: "(string, real list \<Rightarrow> real) dict" where
  "rate_from_resistance_forms =
     [(''heat.network.rate'', \<lambda>vs. (vs ! 0) / (vs ! 1))]"

lemma rate_from_resistance_answers: "computes (rate_from_resistance fmt) rate_from_resistance_ins rate_from_resistance_box rate_from_resistance_valid rate_from_resistance_forms"
  by (rule computes_kernelI [where ok = "\<lambda>vs. True" and vals = "\<lambda>vs. [(''heat.network.rate'', heat_rate_from_resistance (Fin (vs ! 0)) (Fin (vs ! 1)))]"])
    (auto simp: rate_from_resistance_def rate_from_resistance_ins_def rate_from_resistance_box_def rate_from_resistance_valid_def rate_from_resistance_forms_def answer_simps reads_Nil reads_Cons Let_def
      ranges_of_def in_ranges_Cons heat_rate_from_resistance_def)

lemma rate_from_resistance_total: "in_ranges (ranges_of rate_from_resistance_ins rate_from_resistance_box) vs \<Longrightarrow> rate_from_resistance_valid vs"
  by (auto simp: rate_from_resistance_ins_def rate_from_resistance_box_def rate_from_resistance_valid_def ranges_of_def in_ranges_Cons)

lemma rate_from_resistance_slices: "f \<in> snd ` set rate_from_resistance_forms \<Longrightarrow> slice_monotone (ranges_of rate_from_resistance_ins rate_from_resistance_box) f"
  by (auto simp: rate_from_resistance_forms_def rate_from_resistance_ins_def rate_from_resistance_box_def ranges_of_def   intro!: slice_monotone_2 swing)

interpretation rate_from_resistance: total_solver rate_from_resistance_ins rate_from_resistance_box rate_from_resistance_valid rate_from_resistance_forms "rate_from_resistance fmt" for fmt
  by unfold_locales (rule rate_from_resistance_answers | erule rate_from_resistance_total rate_from_resistance_slices | simp add: ports_ok_def dict_ok_def rate_from_resistance_ins_def rate_from_resistance_box_def)+

lemma rate_from_resistance_law:
  "keeps_law (module_direction H dumps rate_from_resistance_args ''rate_from_resistance'' (rate_from_resistance fmt)) rate_from_resistance_valid rate_from_resistance_forms"
  unfolding rate_from_resistance_args_def
  by (rule rate_from_resistance.direction_law) (simp_all add: rate_from_resistance_forms_def)

subsection \<open>\<open>dittus_boelter_nusselt_heating\<close>\<close>

definition dittus_boelter_nusselt_heating_valid :: "real list \<Rightarrow> bool" where
  "dittus_boelter_nusselt_heating_valid vs \<longleftrightarrow> True"

definition dittus_boelter_nusselt_heating_forms :: "(string, real list \<Rightarrow> real) dict" where
  "dittus_boelter_nusselt_heating_forms =
     [(''heat.internal_flow.nusselt'', \<lambda>vs. 23 / 1000 * (vs ! 0) powr (8 / 10) * (vs ! 1) powr (4 / 10))]"

lemma dittus_boelter_nusselt_heating_answers: "computes (dittus_boelter_nusselt_heating fmt) dittus_boelter_nusselt_heating_ins dittus_boelter_nusselt_heating_box dittus_boelter_nusselt_heating_valid dittus_boelter_nusselt_heating_forms"
  by (rule computes_kernelI [where ok = "\<lambda>vs. True" and vals = "\<lambda>vs. [(''heat.internal_flow.nusselt'', heat_dittus_boelter_nusselt (Fin (vs ! 0)) (Fin (vs ! 1)) True)]"])
    (auto simp: dittus_boelter_nusselt_heating_def dittus_boelter_nusselt_heating_ins_def dittus_boelter_nusselt_heating_box_def dittus_boelter_nusselt_heating_valid_def dittus_boelter_nusselt_heating_forms_def answer_simps reads_Nil reads_Cons Let_def
      ranges_of_def in_ranges_Cons heat_dittus_boelter_nusselt_def)

lemma dittus_boelter_nusselt_heating_total: "in_ranges (ranges_of dittus_boelter_nusselt_heating_ins dittus_boelter_nusselt_heating_box) vs \<Longrightarrow> dittus_boelter_nusselt_heating_valid vs"
  by (auto simp: dittus_boelter_nusselt_heating_ins_def dittus_boelter_nusselt_heating_box_def dittus_boelter_nusselt_heating_valid_def ranges_of_def in_ranges_Cons)

lemma dittus_boelter_nusselt_heating_slices: "f \<in> snd ` set dittus_boelter_nusselt_heating_forms \<Longrightarrow> slice_monotone (ranges_of dittus_boelter_nusselt_heating_ins dittus_boelter_nusselt_heating_box) f"
  by (auto simp: dittus_boelter_nusselt_heating_forms_def dittus_boelter_nusselt_heating_ins_def dittus_boelter_nusselt_heating_box_def ranges_of_def   intro!: slice_monotone_2 swing)

interpretation dittus_boelter_nusselt_heating: total_solver dittus_boelter_nusselt_heating_ins dittus_boelter_nusselt_heating_box dittus_boelter_nusselt_heating_valid dittus_boelter_nusselt_heating_forms "dittus_boelter_nusselt_heating fmt" for fmt
  by unfold_locales (rule dittus_boelter_nusselt_heating_answers | erule dittus_boelter_nusselt_heating_total dittus_boelter_nusselt_heating_slices | simp add: ports_ok_def dict_ok_def dittus_boelter_nusselt_heating_ins_def dittus_boelter_nusselt_heating_box_def)+

lemma dittus_boelter_nusselt_heating_law:
  "keeps_law (module_direction H dumps dittus_boelter_nusselt_heating_args ''dittus_boelter_nusselt_heating'' (dittus_boelter_nusselt_heating fmt)) dittus_boelter_nusselt_heating_valid dittus_boelter_nusselt_heating_forms"
  unfolding dittus_boelter_nusselt_heating_args_def
  by (rule dittus_boelter_nusselt_heating.direction_law) (simp_all add: dittus_boelter_nusselt_heating_forms_def)

subsection \<open>\<open>coefficient_from_nusselt\<close>\<close>

definition coefficient_from_nusselt_valid :: "real list \<Rightarrow> bool" where
  "coefficient_from_nusselt_valid vs \<longleftrightarrow> True"

definition coefficient_from_nusselt_forms :: "(string, real list \<Rightarrow> real) dict" where
  "coefficient_from_nusselt_forms =
     [(''heat.convection.coefficient'', \<lambda>vs. (vs ! 0) * (vs ! 1) / (vs ! 2))]"

lemma coefficient_from_nusselt_answers: "computes (coefficient_from_nusselt fmt) coefficient_from_nusselt_ins coefficient_from_nusselt_box coefficient_from_nusselt_valid coefficient_from_nusselt_forms"
  by (rule computes_kernelI [where ok = "\<lambda>vs. True" and vals = "\<lambda>vs. [(''heat.convection.coefficient'', heat_coefficient_from_nusselt (Fin (vs ! 0)) (Fin (vs ! 1)) (Fin (vs ! 2)))]"])
    (auto simp: coefficient_from_nusselt_def coefficient_from_nusselt_ins_def coefficient_from_nusselt_box_def coefficient_from_nusselt_valid_def coefficient_from_nusselt_forms_def answer_simps reads_Nil reads_Cons Let_def
      ranges_of_def in_ranges_Cons heat_coefficient_from_nusselt_def)

lemma coefficient_from_nusselt_total: "in_ranges (ranges_of coefficient_from_nusselt_ins coefficient_from_nusselt_box) vs \<Longrightarrow> coefficient_from_nusselt_valid vs"
  by (auto simp: coefficient_from_nusselt_ins_def coefficient_from_nusselt_box_def coefficient_from_nusselt_valid_def ranges_of_def in_ranges_Cons)

lemma coefficient_from_nusselt_slices: "f \<in> snd ` set coefficient_from_nusselt_forms \<Longrightarrow> slice_monotone (ranges_of coefficient_from_nusselt_ins coefficient_from_nusselt_box) f"
  by (auto simp: coefficient_from_nusselt_forms_def coefficient_from_nusselt_ins_def coefficient_from_nusselt_box_def ranges_of_def   intro!: slice_monotone_3 swing)

interpretation coefficient_from_nusselt: total_solver coefficient_from_nusselt_ins coefficient_from_nusselt_box coefficient_from_nusselt_valid coefficient_from_nusselt_forms "coefficient_from_nusselt fmt" for fmt
  by unfold_locales (rule coefficient_from_nusselt_answers | erule coefficient_from_nusselt_total coefficient_from_nusselt_slices | simp add: ports_ok_def dict_ok_def coefficient_from_nusselt_ins_def coefficient_from_nusselt_box_def)+

lemma coefficient_from_nusselt_law:
  "keeps_law (module_direction H dumps coefficient_from_nusselt_args ''coefficient_from_nusselt'' (coefficient_from_nusselt fmt)) coefficient_from_nusselt_valid coefficient_from_nusselt_forms"
  unfolding coefficient_from_nusselt_args_def
  by (rule coefficient_from_nusselt.direction_law) (simp_all add: coefficient_from_nusselt_forms_def)

subsection \<open>\<open>dittus_boelter_nusselt_cooling\<close>\<close>

definition dittus_boelter_nusselt_cooling_valid :: "real list \<Rightarrow> bool" where
  "dittus_boelter_nusselt_cooling_valid vs \<longleftrightarrow> True"

definition dittus_boelter_nusselt_cooling_forms :: "(string, real list \<Rightarrow> real) dict" where
  "dittus_boelter_nusselt_cooling_forms =
     [(''heat.internal_flow.nusselt'', \<lambda>vs. 23 / 1000 * (vs ! 0) powr (8 / 10) * (vs ! 1) powr (3 / 10))]"

lemma dittus_boelter_nusselt_cooling_answers: "computes (dittus_boelter_nusselt_cooling fmt) dittus_boelter_nusselt_cooling_ins dittus_boelter_nusselt_cooling_box dittus_boelter_nusselt_cooling_valid dittus_boelter_nusselt_cooling_forms"
  by (rule computes_kernelI [where ok = "\<lambda>vs. True" and vals = "\<lambda>vs. [(''heat.internal_flow.nusselt'', heat_dittus_boelter_nusselt (Fin (vs ! 0)) (Fin (vs ! 1)) False)]"])
    (auto simp: dittus_boelter_nusselt_cooling_def dittus_boelter_nusselt_cooling_ins_def dittus_boelter_nusselt_cooling_box_def dittus_boelter_nusselt_cooling_valid_def dittus_boelter_nusselt_cooling_forms_def answer_simps reads_Nil reads_Cons Let_def
      ranges_of_def in_ranges_Cons heat_dittus_boelter_nusselt_def)

lemma dittus_boelter_nusselt_cooling_total: "in_ranges (ranges_of dittus_boelter_nusselt_cooling_ins dittus_boelter_nusselt_cooling_box) vs \<Longrightarrow> dittus_boelter_nusselt_cooling_valid vs"
  by (auto simp: dittus_boelter_nusselt_cooling_ins_def dittus_boelter_nusselt_cooling_box_def dittus_boelter_nusselt_cooling_valid_def ranges_of_def in_ranges_Cons)

lemma dittus_boelter_nusselt_cooling_slices: "f \<in> snd ` set dittus_boelter_nusselt_cooling_forms \<Longrightarrow> slice_monotone (ranges_of dittus_boelter_nusselt_cooling_ins dittus_boelter_nusselt_cooling_box) f"
  by (auto simp: dittus_boelter_nusselt_cooling_forms_def dittus_boelter_nusselt_cooling_ins_def dittus_boelter_nusselt_cooling_box_def ranges_of_def   intro!: slice_monotone_2 swing)

interpretation dittus_boelter_nusselt_cooling: total_solver dittus_boelter_nusselt_cooling_ins dittus_boelter_nusselt_cooling_box dittus_boelter_nusselt_cooling_valid dittus_boelter_nusselt_cooling_forms "dittus_boelter_nusselt_cooling fmt" for fmt
  by unfold_locales (rule dittus_boelter_nusselt_cooling_answers | erule dittus_boelter_nusselt_cooling_total dittus_boelter_nusselt_cooling_slices | simp add: ports_ok_def dict_ok_def dittus_boelter_nusselt_cooling_ins_def dittus_boelter_nusselt_cooling_box_def)+

lemma dittus_boelter_nusselt_cooling_law:
  "keeps_law (module_direction H dumps dittus_boelter_nusselt_cooling_args ''dittus_boelter_nusselt_cooling'' (dittus_boelter_nusselt_cooling fmt)) dittus_boelter_nusselt_cooling_valid dittus_boelter_nusselt_cooling_forms"
  unfolding dittus_boelter_nusselt_cooling_args_def
  by (rule dittus_boelter_nusselt_cooling.direction_law) (simp_all add: dittus_boelter_nusselt_cooling_forms_def)

subsection \<open>\<open>laminar_fully_developed_nusselt_const_temp\<close>\<close>

definition laminar_fully_developed_nusselt_const_temp_valid :: "real list \<Rightarrow> bool" where
  "laminar_fully_developed_nusselt_const_temp_valid vs \<longleftrightarrow> True"

definition laminar_fully_developed_nusselt_const_temp_forms :: "(string, real list \<Rightarrow> real) dict" where
  "laminar_fully_developed_nusselt_const_temp_forms =
     [(''heat.internal_flow.nusselt.laminar_const_temp'', \<lambda>vs. 366 / 100)]"

lemma laminar_fully_developed_nusselt_const_temp_answers: "computes (laminar_fully_developed_nusselt_const_temp fmt) laminar_fully_developed_nusselt_const_temp_ins laminar_fully_developed_nusselt_const_temp_box laminar_fully_developed_nusselt_const_temp_valid laminar_fully_developed_nusselt_const_temp_forms"
  by (rule computes_kernelI [where ok = "\<lambda>vs. True" and vals = "\<lambda>vs. [(''heat.internal_flow.nusselt.laminar_const_temp'', heat_laminar_nusselt True)]"])
    (auto simp: laminar_fully_developed_nusselt_const_temp_def laminar_fully_developed_nusselt_const_temp_ins_def laminar_fully_developed_nusselt_const_temp_box_def laminar_fully_developed_nusselt_const_temp_valid_def laminar_fully_developed_nusselt_const_temp_forms_def answer_simps reads_Nil reads_Cons Let_def
      ranges_of_def in_ranges_Cons heat_laminar_nusselt_def)

lemma laminar_fully_developed_nusselt_const_temp_total: "in_ranges (ranges_of laminar_fully_developed_nusselt_const_temp_ins laminar_fully_developed_nusselt_const_temp_box) vs \<Longrightarrow> laminar_fully_developed_nusselt_const_temp_valid vs"
  by (auto simp: laminar_fully_developed_nusselt_const_temp_ins_def laminar_fully_developed_nusselt_const_temp_box_def laminar_fully_developed_nusselt_const_temp_valid_def ranges_of_def in_ranges_Cons)

lemma laminar_fully_developed_nusselt_const_temp_slices: "f \<in> snd ` set laminar_fully_developed_nusselt_const_temp_forms \<Longrightarrow> slice_monotone (ranges_of laminar_fully_developed_nusselt_const_temp_ins laminar_fully_developed_nusselt_const_temp_box) f"
  by (auto simp: laminar_fully_developed_nusselt_const_temp_forms_def laminar_fully_developed_nusselt_const_temp_ins_def laminar_fully_developed_nusselt_const_temp_box_def ranges_of_def   intro!: slice_Nil swing)

interpretation laminar_fully_developed_nusselt_const_temp: total_solver laminar_fully_developed_nusselt_const_temp_ins laminar_fully_developed_nusselt_const_temp_box laminar_fully_developed_nusselt_const_temp_valid laminar_fully_developed_nusselt_const_temp_forms "laminar_fully_developed_nusselt_const_temp fmt" for fmt
  by unfold_locales (rule laminar_fully_developed_nusselt_const_temp_answers | erule laminar_fully_developed_nusselt_const_temp_total laminar_fully_developed_nusselt_const_temp_slices | simp add: ports_ok_def dict_ok_def laminar_fully_developed_nusselt_const_temp_ins_def laminar_fully_developed_nusselt_const_temp_box_def)+

lemma laminar_fully_developed_nusselt_const_temp_law:
  "keeps_law (module_direction H dumps laminar_fully_developed_nusselt_const_temp_args ''laminar_fully_developed_nusselt_const_temp'' (laminar_fully_developed_nusselt_const_temp fmt)) laminar_fully_developed_nusselt_const_temp_valid laminar_fully_developed_nusselt_const_temp_forms"
  unfolding laminar_fully_developed_nusselt_const_temp_args_def
  by (rule laminar_fully_developed_nusselt_const_temp.direction_law) (simp_all add: laminar_fully_developed_nusselt_const_temp_forms_def)

subsection \<open>\<open>laminar_fully_developed_nusselt_const_flux\<close>\<close>

definition laminar_fully_developed_nusselt_const_flux_valid :: "real list \<Rightarrow> bool" where
  "laminar_fully_developed_nusselt_const_flux_valid vs \<longleftrightarrow> True"

definition laminar_fully_developed_nusselt_const_flux_forms :: "(string, real list \<Rightarrow> real) dict" where
  "laminar_fully_developed_nusselt_const_flux_forms =
     [(''heat.internal_flow.nusselt.laminar_const_flux'', \<lambda>vs. 436 / 100)]"

lemma laminar_fully_developed_nusselt_const_flux_answers: "computes (laminar_fully_developed_nusselt_const_flux fmt) laminar_fully_developed_nusselt_const_flux_ins laminar_fully_developed_nusselt_const_flux_box laminar_fully_developed_nusselt_const_flux_valid laminar_fully_developed_nusselt_const_flux_forms"
  by (rule computes_kernelI [where ok = "\<lambda>vs. True" and vals = "\<lambda>vs. [(''heat.internal_flow.nusselt.laminar_const_flux'', heat_laminar_nusselt False)]"])
    (auto simp: laminar_fully_developed_nusselt_const_flux_def laminar_fully_developed_nusselt_const_flux_ins_def laminar_fully_developed_nusselt_const_flux_box_def laminar_fully_developed_nusselt_const_flux_valid_def laminar_fully_developed_nusselt_const_flux_forms_def answer_simps reads_Nil reads_Cons Let_def
      ranges_of_def in_ranges_Cons heat_laminar_nusselt_def)

lemma laminar_fully_developed_nusselt_const_flux_total: "in_ranges (ranges_of laminar_fully_developed_nusselt_const_flux_ins laminar_fully_developed_nusselt_const_flux_box) vs \<Longrightarrow> laminar_fully_developed_nusselt_const_flux_valid vs"
  by (auto simp: laminar_fully_developed_nusselt_const_flux_ins_def laminar_fully_developed_nusselt_const_flux_box_def laminar_fully_developed_nusselt_const_flux_valid_def ranges_of_def in_ranges_Cons)

lemma laminar_fully_developed_nusselt_const_flux_slices: "f \<in> snd ` set laminar_fully_developed_nusselt_const_flux_forms \<Longrightarrow> slice_monotone (ranges_of laminar_fully_developed_nusselt_const_flux_ins laminar_fully_developed_nusselt_const_flux_box) f"
  by (auto simp: laminar_fully_developed_nusselt_const_flux_forms_def laminar_fully_developed_nusselt_const_flux_ins_def laminar_fully_developed_nusselt_const_flux_box_def ranges_of_def   intro!: slice_Nil swing)

interpretation laminar_fully_developed_nusselt_const_flux: total_solver laminar_fully_developed_nusselt_const_flux_ins laminar_fully_developed_nusselt_const_flux_box laminar_fully_developed_nusselt_const_flux_valid laminar_fully_developed_nusselt_const_flux_forms "laminar_fully_developed_nusselt_const_flux fmt" for fmt
  by unfold_locales (rule laminar_fully_developed_nusselt_const_flux_answers | erule laminar_fully_developed_nusselt_const_flux_total laminar_fully_developed_nusselt_const_flux_slices | simp add: ports_ok_def dict_ok_def laminar_fully_developed_nusselt_const_flux_ins_def laminar_fully_developed_nusselt_const_flux_box_def)+

lemma laminar_fully_developed_nusselt_const_flux_law:
  "keeps_law (module_direction H dumps laminar_fully_developed_nusselt_const_flux_args ''laminar_fully_developed_nusselt_const_flux'' (laminar_fully_developed_nusselt_const_flux fmt)) laminar_fully_developed_nusselt_const_flux_valid laminar_fully_developed_nusselt_const_flux_forms"
  unfolding laminar_fully_developed_nusselt_const_flux_args_def
  by (rule laminar_fully_developed_nusselt_const_flux.direction_law) (simp_all add: laminar_fully_developed_nusselt_const_flux_forms_def)

subsection \<open>\<open>churchill_chu_horizontal_cylinder_nusselt\<close>\<close>

definition churchill_chu_horizontal_cylinder_nusselt_valid :: "real list \<Rightarrow> bool" where
  "churchill_chu_horizontal_cylinder_nusselt_valid vs \<longleftrightarrow> True"

definition churchill_chu_horizontal_cylinder_nusselt_forms :: "(string, real list \<Rightarrow> real) dict" where
  "churchill_chu_horizontal_cylinder_nusselt_forms =
     [(''heat.natural_convection.nusselt.horizontal_cylinder'', \<lambda>vs. (6 / 10 + 387 / 1000 * (vs ! 0) powr (1 / 6) / (1 + (559 / 1000 / (vs ! 1)) powr (9 / 16)) powr (8 / 27)) ^ 2)]"

lemma churchill_chu_horizontal_cylinder_nusselt_answers: "computes (churchill_chu_horizontal_cylinder_nusselt fmt) churchill_chu_horizontal_cylinder_nusselt_ins churchill_chu_horizontal_cylinder_nusselt_box churchill_chu_horizontal_cylinder_nusselt_valid churchill_chu_horizontal_cylinder_nusselt_forms"
  by (rule computes_kernelI [where ok = "\<lambda>vs. True" and vals = "\<lambda>vs. [(''heat.natural_convection.nusselt.horizontal_cylinder'', heat_churchill_chu_horizontal_cylinder_nusselt (Fin (vs ! 0)) (Fin (vs ! 1)))]"])
    (auto simp: churchill_chu_horizontal_cylinder_nusselt_def churchill_chu_horizontal_cylinder_nusselt_ins_def churchill_chu_horizontal_cylinder_nusselt_box_def churchill_chu_horizontal_cylinder_nusselt_valid_def churchill_chu_horizontal_cylinder_nusselt_forms_def answer_simps reads_Nil reads_Cons Let_def
      ranges_of_def in_ranges_Cons heat_churchill_chu_horizontal_cylinder_nusselt_def  power2_eq_square)

lemma churchill_chu_horizontal_cylinder_nusselt_total: "in_ranges (ranges_of churchill_chu_horizontal_cylinder_nusselt_ins churchill_chu_horizontal_cylinder_nusselt_box) vs \<Longrightarrow> churchill_chu_horizontal_cylinder_nusselt_valid vs"
  by (auto simp: churchill_chu_horizontal_cylinder_nusselt_ins_def churchill_chu_horizontal_cylinder_nusselt_box_def churchill_chu_horizontal_cylinder_nusselt_valid_def ranges_of_def in_ranges_Cons)

lemma churchill_chu_horizontal_cylinder_nusselt_slices: "f \<in> snd ` set churchill_chu_horizontal_cylinder_nusselt_forms \<Longrightarrow> slice_monotone (ranges_of churchill_chu_horizontal_cylinder_nusselt_ins churchill_chu_horizontal_cylinder_nusselt_box) f"
  by (auto simp: churchill_chu_horizontal_cylinder_nusselt_forms_def churchill_chu_horizontal_cylinder_nusselt_ins_def churchill_chu_horizontal_cylinder_nusselt_box_def ranges_of_def   intro!: slice_monotone_2 swing)

interpretation churchill_chu_horizontal_cylinder_nusselt: total_solver churchill_chu_horizontal_cylinder_nusselt_ins churchill_chu_horizontal_cylinder_nusselt_box churchill_chu_horizontal_cylinder_nusselt_valid churchill_chu_horizontal_cylinder_nusselt_forms "churchill_chu_horizontal_cylinder_nusselt fmt" for fmt
  by unfold_locales (rule churchill_chu_horizontal_cylinder_nusselt_answers | erule churchill_chu_horizontal_cylinder_nusselt_total churchill_chu_horizontal_cylinder_nusselt_slices | simp add: ports_ok_def dict_ok_def churchill_chu_horizontal_cylinder_nusselt_ins_def churchill_chu_horizontal_cylinder_nusselt_box_def)+

lemma churchill_chu_horizontal_cylinder_nusselt_law:
  "keeps_law (module_direction H dumps churchill_chu_horizontal_cylinder_nusselt_args ''churchill_chu_horizontal_cylinder_nusselt'' (churchill_chu_horizontal_cylinder_nusselt fmt)) churchill_chu_horizontal_cylinder_nusselt_valid churchill_chu_horizontal_cylinder_nusselt_forms"
  unfolding churchill_chu_horizontal_cylinder_nusselt_args_def
  by (rule churchill_chu_horizontal_cylinder_nusselt.direction_law) (simp_all add: churchill_chu_horizontal_cylinder_nusselt_forms_def)

subsection \<open>\<open>churchill_chu_vertical_plate_nusselt\<close>\<close>

definition churchill_chu_vertical_plate_nusselt_valid :: "real list \<Rightarrow> bool" where
  "churchill_chu_vertical_plate_nusselt_valid vs \<longleftrightarrow> True"

definition churchill_chu_vertical_plate_nusselt_forms :: "(string, real list \<Rightarrow> real) dict" where
  "churchill_chu_vertical_plate_nusselt_forms =
     [(''heat.natural_convection.nusselt.vertical_plate'', \<lambda>vs. (825 / 1000 + 387 / 1000 * (vs ! 0) powr (1 / 6) / (1 + (492 / 1000 / (vs ! 1)) powr (9 / 16)) powr (8 / 27)) ^ 2)]"

lemma churchill_chu_vertical_plate_nusselt_answers: "computes (churchill_chu_vertical_plate_nusselt fmt) churchill_chu_vertical_plate_nusselt_ins churchill_chu_vertical_plate_nusselt_box churchill_chu_vertical_plate_nusselt_valid churchill_chu_vertical_plate_nusselt_forms"
  by (rule computes_kernelI [where ok = "\<lambda>vs. True" and vals = "\<lambda>vs. [(''heat.natural_convection.nusselt.vertical_plate'', heat_churchill_chu_vertical_plate_nusselt (Fin (vs ! 0)) (Fin (vs ! 1)))]"])
    (auto simp: churchill_chu_vertical_plate_nusselt_def churchill_chu_vertical_plate_nusselt_ins_def churchill_chu_vertical_plate_nusselt_box_def churchill_chu_vertical_plate_nusselt_valid_def churchill_chu_vertical_plate_nusselt_forms_def answer_simps reads_Nil reads_Cons Let_def
      ranges_of_def in_ranges_Cons heat_churchill_chu_vertical_plate_nusselt_def  power2_eq_square)

lemma churchill_chu_vertical_plate_nusselt_total: "in_ranges (ranges_of churchill_chu_vertical_plate_nusselt_ins churchill_chu_vertical_plate_nusselt_box) vs \<Longrightarrow> churchill_chu_vertical_plate_nusselt_valid vs"
  by (auto simp: churchill_chu_vertical_plate_nusselt_ins_def churchill_chu_vertical_plate_nusselt_box_def churchill_chu_vertical_plate_nusselt_valid_def ranges_of_def in_ranges_Cons)

lemma churchill_chu_vertical_plate_nusselt_slices: "f \<in> snd ` set churchill_chu_vertical_plate_nusselt_forms \<Longrightarrow> slice_monotone (ranges_of churchill_chu_vertical_plate_nusselt_ins churchill_chu_vertical_plate_nusselt_box) f"
  by (auto simp: churchill_chu_vertical_plate_nusselt_forms_def churchill_chu_vertical_plate_nusselt_ins_def churchill_chu_vertical_plate_nusselt_box_def ranges_of_def   intro!: slice_monotone_2 swing)

interpretation churchill_chu_vertical_plate_nusselt: total_solver churchill_chu_vertical_plate_nusselt_ins churchill_chu_vertical_plate_nusselt_box churchill_chu_vertical_plate_nusselt_valid churchill_chu_vertical_plate_nusselt_forms "churchill_chu_vertical_plate_nusselt fmt" for fmt
  by unfold_locales (rule churchill_chu_vertical_plate_nusselt_answers | erule churchill_chu_vertical_plate_nusselt_total churchill_chu_vertical_plate_nusselt_slices | simp add: ports_ok_def dict_ok_def churchill_chu_vertical_plate_nusselt_ins_def churchill_chu_vertical_plate_nusselt_box_def)+

lemma churchill_chu_vertical_plate_nusselt_law:
  "keeps_law (module_direction H dumps churchill_chu_vertical_plate_nusselt_args ''churchill_chu_vertical_plate_nusselt'' (churchill_chu_vertical_plate_nusselt fmt)) churchill_chu_vertical_plate_nusselt_valid churchill_chu_vertical_plate_nusselt_forms"
  unfolding churchill_chu_vertical_plate_nusselt_args_def
  by (rule churchill_chu_vertical_plate_nusselt.direction_law) (simp_all add: churchill_chu_vertical_plate_nusselt_forms_def)

subsection \<open>\<open>ntu_from_ua\<close>\<close>

definition ntu_from_ua_valid :: "real list \<Rightarrow> bool" where
  "ntu_from_ua_valid vs \<longleftrightarrow> True"

definition ntu_from_ua_forms :: "(string, real list \<Rightarrow> real) dict" where
  "ntu_from_ua_forms =
     [(''heat.hx.ntu'', \<lambda>vs. (vs ! 0) / (vs ! 1))]"

lemma ntu_from_ua_answers: "computes (ntu_from_ua fmt) ntu_from_ua_ins ntu_from_ua_box ntu_from_ua_valid ntu_from_ua_forms"
  by (rule computes_kernelI [where ok = "\<lambda>vs. True" and vals = "\<lambda>vs. [(''heat.hx.ntu'', heat_ntu_from_ua (Fin (vs ! 0)) (Fin (vs ! 1)))]"])
    (auto simp: ntu_from_ua_def ntu_from_ua_ins_def ntu_from_ua_box_def ntu_from_ua_valid_def ntu_from_ua_forms_def answer_simps reads_Nil reads_Cons Let_def
      ranges_of_def in_ranges_Cons heat_ntu_from_ua_def)

lemma ntu_from_ua_total: "in_ranges (ranges_of ntu_from_ua_ins ntu_from_ua_box) vs \<Longrightarrow> ntu_from_ua_valid vs"
  by (auto simp: ntu_from_ua_ins_def ntu_from_ua_box_def ntu_from_ua_valid_def ranges_of_def in_ranges_Cons)

lemma ntu_from_ua_slices: "f \<in> snd ` set ntu_from_ua_forms \<Longrightarrow> slice_monotone (ranges_of ntu_from_ua_ins ntu_from_ua_box) f"
  by (auto simp: ntu_from_ua_forms_def ntu_from_ua_ins_def ntu_from_ua_box_def ranges_of_def   intro!: slice_monotone_2 swing)

interpretation ntu_from_ua: total_solver ntu_from_ua_ins ntu_from_ua_box ntu_from_ua_valid ntu_from_ua_forms "ntu_from_ua fmt" for fmt
  by unfold_locales (rule ntu_from_ua_answers | erule ntu_from_ua_total ntu_from_ua_slices | simp add: ports_ok_def dict_ok_def ntu_from_ua_ins_def ntu_from_ua_box_def)+

lemma ntu_from_ua_law:
  "keeps_law (module_direction H dumps ntu_from_ua_args ''ntu_from_ua'' (ntu_from_ua fmt)) ntu_from_ua_valid ntu_from_ua_forms"
  unfolding ntu_from_ua_args_def
  by (rule ntu_from_ua.direction_law) (simp_all add: ntu_from_ua_forms_def)

subsection \<open>\<open>effectiveness_parallel_flow\<close>\<close>

definition effectiveness_parallel_flow_valid :: "real list \<Rightarrow> bool" where
  "effectiveness_parallel_flow_valid vs \<longleftrightarrow> True"

definition effectiveness_parallel_flow_forms :: "(string, real list \<Rightarrow> real) dict" where
  "effectiveness_parallel_flow_forms =
     [(''heat.hx.effectiveness.parallel_flow'', \<lambda>vs. (1 - exp (- (vs ! 0) * (1 + (vs ! 1)))) / (1 + (vs ! 1)))]"

lemma effectiveness_parallel_flow_answers: "computes (effectiveness_parallel_flow fmt) effectiveness_parallel_flow_ins effectiveness_parallel_flow_box effectiveness_parallel_flow_valid effectiveness_parallel_flow_forms"
  by (rule computes_kernelI [where ok = "\<lambda>vs. True" and vals = "\<lambda>vs. [(''heat.hx.effectiveness.parallel_flow'', heat_effectiveness_parallel_flow (Fin (vs ! 0)) (Fin (vs ! 1)))]"])
    (auto simp: effectiveness_parallel_flow_def effectiveness_parallel_flow_ins_def effectiveness_parallel_flow_box_def effectiveness_parallel_flow_valid_def effectiveness_parallel_flow_forms_def answer_simps reads_Nil reads_Cons Let_def
      ranges_of_def in_ranges_Cons heat_effectiveness_parallel_flow_def)

lemma effectiveness_parallel_flow_total: "in_ranges (ranges_of effectiveness_parallel_flow_ins effectiveness_parallel_flow_box) vs \<Longrightarrow> effectiveness_parallel_flow_valid vs"
  by (auto simp: effectiveness_parallel_flow_ins_def effectiveness_parallel_flow_box_def effectiveness_parallel_flow_valid_def ranges_of_def in_ranges_Cons)

lemma effectiveness_parallel_flow_slices: "f \<in> snd ` set effectiveness_parallel_flow_forms \<Longrightarrow> slice_monotone (ranges_of effectiveness_parallel_flow_ins effectiveness_parallel_flow_box) f"
  by (auto simp: effectiveness_parallel_flow_forms_def effectiveness_parallel_flow_ins_def effectiveness_parallel_flow_box_def ranges_of_def   intro!: slice_monotone_2 swing swings_parallel_cr)

interpretation effectiveness_parallel_flow: total_solver effectiveness_parallel_flow_ins effectiveness_parallel_flow_box effectiveness_parallel_flow_valid effectiveness_parallel_flow_forms "effectiveness_parallel_flow fmt" for fmt
  by unfold_locales (rule effectiveness_parallel_flow_answers | erule effectiveness_parallel_flow_total effectiveness_parallel_flow_slices | simp add: ports_ok_def dict_ok_def effectiveness_parallel_flow_ins_def effectiveness_parallel_flow_box_def)+

lemma effectiveness_parallel_flow_law:
  "keeps_law (module_direction H dumps effectiveness_parallel_flow_args ''effectiveness_parallel_flow'' (effectiveness_parallel_flow fmt)) effectiveness_parallel_flow_valid effectiveness_parallel_flow_forms"
  unfolding effectiveness_parallel_flow_args_def
  by (rule effectiveness_parallel_flow.direction_law) (simp_all add: effectiveness_parallel_flow_forms_def)

subsection \<open>\<open>effectiveness_counterflow\<close>\<close>

definition effectiveness_counterflow_valid :: "real list \<Rightarrow> bool" where
  "effectiveness_counterflow_valid vs \<longleftrightarrow> True"

definition effectiveness_counterflow_forms :: "(string, real list \<Rightarrow> real) dict" where
  "effectiveness_counterflow_forms =
     [(''heat.hx.effectiveness.counterflow'', \<lambda>vs. counterflow (vs ! 0) (vs ! 1))]"

lemma effectiveness_counterflow_answers: "computes (effectiveness_counterflow fmt) effectiveness_counterflow_ins effectiveness_counterflow_box effectiveness_counterflow_valid effectiveness_counterflow_forms"
  by (rule computes_kernelI [where ok = "\<lambda>vs. True" and vals = "\<lambda>vs. [(''heat.hx.effectiveness.counterflow'', heat_effectiveness_counterflow (Fin (vs ! 0)) (Fin (vs ! 1)))]"])
    (auto simp: effectiveness_counterflow_def effectiveness_counterflow_ins_def effectiveness_counterflow_box_def effectiveness_counterflow_valid_def effectiveness_counterflow_forms_def answer_simps reads_Nil reads_Cons Let_def
      ranges_of_def in_ranges_Cons   counterflow_kernel)

lemma effectiveness_counterflow_total: "in_ranges (ranges_of effectiveness_counterflow_ins effectiveness_counterflow_box) vs \<Longrightarrow> effectiveness_counterflow_valid vs"
  by (auto simp: effectiveness_counterflow_ins_def effectiveness_counterflow_box_def effectiveness_counterflow_valid_def ranges_of_def in_ranges_Cons)

lemma effectiveness_counterflow_slices: "f \<in> snd ` set effectiveness_counterflow_forms \<Longrightarrow> slice_monotone (ranges_of effectiveness_counterflow_ins effectiveness_counterflow_box) f"
  by (auto simp: effectiveness_counterflow_forms_def effectiveness_counterflow_ins_def effectiveness_counterflow_box_def ranges_of_def   intro!: slice_monotone_2 swing swings_counterflow_ntu swings_counterflow_cr)

interpretation effectiveness_counterflow: total_solver effectiveness_counterflow_ins effectiveness_counterflow_box effectiveness_counterflow_valid effectiveness_counterflow_forms "effectiveness_counterflow fmt" for fmt
  by unfold_locales (rule effectiveness_counterflow_answers | erule effectiveness_counterflow_total effectiveness_counterflow_slices | simp add: ports_ok_def dict_ok_def effectiveness_counterflow_ins_def effectiveness_counterflow_box_def)+

lemma effectiveness_counterflow_law:
  "keeps_law (module_direction H dumps effectiveness_counterflow_args ''effectiveness_counterflow'' (effectiveness_counterflow fmt)) effectiveness_counterflow_valid effectiveness_counterflow_forms"
  unfolding effectiveness_counterflow_args_def
  by (rule effectiveness_counterflow.direction_law) (simp_all add: effectiveness_counterflow_forms_def)

subsection \<open>\<open>effectiveness_shell_and_tube_one_pass\<close>\<close>

definition effectiveness_shell_and_tube_one_pass_valid :: "real list \<Rightarrow> bool" where
  "effectiveness_shell_and_tube_one_pass_valid vs \<longleftrightarrow> True"

definition effectiveness_shell_and_tube_one_pass_forms :: "(string, real list \<Rightarrow> real) dict" where
  "effectiveness_shell_and_tube_one_pass_forms =
     [(''heat.hx.effectiveness.shell_and_tube_one_pass'', \<lambda>vs. shell_and_tube (vs ! 0) (vs ! 1))]"

lemma effectiveness_shell_and_tube_one_pass_answers: "computes (effectiveness_shell_and_tube_one_pass fmt) effectiveness_shell_and_tube_one_pass_ins effectiveness_shell_and_tube_one_pass_box effectiveness_shell_and_tube_one_pass_valid effectiveness_shell_and_tube_one_pass_forms"
  by (rule computes_kernelI [where ok = "\<lambda>vs. True" and vals = "\<lambda>vs. [(''heat.hx.effectiveness.shell_and_tube_one_pass'', heat_effectiveness_shell_and_tube_one_pass (Fin (vs ! 0)) (Fin (vs ! 1)))]"])
    (auto simp: effectiveness_shell_and_tube_one_pass_def effectiveness_shell_and_tube_one_pass_ins_def effectiveness_shell_and_tube_one_pass_box_def effectiveness_shell_and_tube_one_pass_valid_def effectiveness_shell_and_tube_one_pass_forms_def answer_simps reads_Nil reads_Cons Let_def
      ranges_of_def in_ranges_Cons   shell_kernel)

lemma effectiveness_shell_and_tube_one_pass_total: "in_ranges (ranges_of effectiveness_shell_and_tube_one_pass_ins effectiveness_shell_and_tube_one_pass_box) vs \<Longrightarrow> effectiveness_shell_and_tube_one_pass_valid vs"
  by (auto simp: effectiveness_shell_and_tube_one_pass_ins_def effectiveness_shell_and_tube_one_pass_box_def effectiveness_shell_and_tube_one_pass_valid_def ranges_of_def in_ranges_Cons)

lemma effectiveness_shell_and_tube_one_pass_slices: "f \<in> snd ` set effectiveness_shell_and_tube_one_pass_forms \<Longrightarrow> slice_monotone (ranges_of effectiveness_shell_and_tube_one_pass_ins effectiveness_shell_and_tube_one_pass_box) f"
  by (auto simp: effectiveness_shell_and_tube_one_pass_forms_def effectiveness_shell_and_tube_one_pass_ins_def effectiveness_shell_and_tube_one_pass_box_def ranges_of_def   intro!: slice_monotone_2 swing swings_shell_ntu swings_shell_cr)

interpretation effectiveness_shell_and_tube_one_pass: total_solver effectiveness_shell_and_tube_one_pass_ins effectiveness_shell_and_tube_one_pass_box effectiveness_shell_and_tube_one_pass_valid effectiveness_shell_and_tube_one_pass_forms "effectiveness_shell_and_tube_one_pass fmt" for fmt
  by unfold_locales (rule effectiveness_shell_and_tube_one_pass_answers | erule effectiveness_shell_and_tube_one_pass_total effectiveness_shell_and_tube_one_pass_slices | simp add: ports_ok_def dict_ok_def effectiveness_shell_and_tube_one_pass_ins_def effectiveness_shell_and_tube_one_pass_box_def)+

lemma effectiveness_shell_and_tube_one_pass_law:
  "keeps_law (module_direction H dumps effectiveness_shell_and_tube_one_pass_args ''effectiveness_shell_and_tube_one_pass'' (effectiveness_shell_and_tube_one_pass fmt)) effectiveness_shell_and_tube_one_pass_valid effectiveness_shell_and_tube_one_pass_forms"
  unfolding effectiveness_shell_and_tube_one_pass_args_def
  by (rule effectiveness_shell_and_tube_one_pass.direction_law) (simp_all add: effectiveness_shell_and_tube_one_pass_forms_def)

subsection \<open>\<open>hx_rate_from_effectiveness\<close>\<close>

definition hx_rate_from_effectiveness_valid :: "real list \<Rightarrow> bool" where
  "hx_rate_from_effectiveness_valid vs \<longleftrightarrow> True"

definition hx_rate_from_effectiveness_forms :: "(string, real list \<Rightarrow> real) dict" where
  "hx_rate_from_effectiveness_forms =
     [(''heat.hx.rate'', \<lambda>vs. (vs ! 0) * (vs ! 1) * ((vs ! 2) - (vs ! 3)))]"

lemma hx_rate_from_effectiveness_answers: "computes (hx_rate_from_effectiveness fmt) hx_rate_from_effectiveness_ins hx_rate_from_effectiveness_box hx_rate_from_effectiveness_valid hx_rate_from_effectiveness_forms"
  by (rule computes_kernelI [where ok = "\<lambda>vs. True" and vals = "\<lambda>vs. [(''heat.hx.rate'', heat_hx_rate_from_effectiveness (Fin (vs ! 0)) (Fin (vs ! 1)) (Fin (vs ! 2)) (Fin (vs ! 3)))]"])
    (auto simp: hx_rate_from_effectiveness_def hx_rate_from_effectiveness_ins_def hx_rate_from_effectiveness_box_def hx_rate_from_effectiveness_valid_def hx_rate_from_effectiveness_forms_def answer_simps reads_Nil reads_Cons Let_def
      ranges_of_def in_ranges_Cons heat_hx_rate_from_effectiveness_def)

lemma hx_rate_from_effectiveness_total: "in_ranges (ranges_of hx_rate_from_effectiveness_ins hx_rate_from_effectiveness_box) vs \<Longrightarrow> hx_rate_from_effectiveness_valid vs"
  by (auto simp: hx_rate_from_effectiveness_ins_def hx_rate_from_effectiveness_box_def hx_rate_from_effectiveness_valid_def ranges_of_def in_ranges_Cons)

lemma hx_rate_from_effectiveness_slices: "f \<in> snd ` set hx_rate_from_effectiveness_forms \<Longrightarrow> slice_monotone (ranges_of hx_rate_from_effectiveness_ins hx_rate_from_effectiveness_box) f"
  by (auto simp: hx_rate_from_effectiveness_forms_def hx_rate_from_effectiveness_ins_def hx_rate_from_effectiveness_box_def ranges_of_def   intro!: slice_monotone_4 swing)

interpretation hx_rate_from_effectiveness: total_solver hx_rate_from_effectiveness_ins hx_rate_from_effectiveness_box hx_rate_from_effectiveness_valid hx_rate_from_effectiveness_forms "hx_rate_from_effectiveness fmt" for fmt
  by unfold_locales (rule hx_rate_from_effectiveness_answers | erule hx_rate_from_effectiveness_total hx_rate_from_effectiveness_slices | simp add: ports_ok_def dict_ok_def hx_rate_from_effectiveness_ins_def hx_rate_from_effectiveness_box_def)+

lemma hx_rate_from_effectiveness_law:
  "keeps_law (module_direction H dumps hx_rate_from_effectiveness_args ''hx_rate_from_effectiveness'' (hx_rate_from_effectiveness fmt)) hx_rate_from_effectiveness_valid hx_rate_from_effectiveness_forms"
  unfolding hx_rate_from_effectiveness_args_def
  by (rule hx_rate_from_effectiveness.direction_law) (simp_all add: hx_rate_from_effectiveness_forms_def)

subsection \<open>\<open>hx_outlet_temp_hot\<close>\<close>

definition hx_outlet_temp_hot_valid :: "real list \<Rightarrow> bool" where
  "hx_outlet_temp_hot_valid vs \<longleftrightarrow> True"

definition hx_outlet_temp_hot_forms :: "(string, real list \<Rightarrow> real) dict" where
  "hx_outlet_temp_hot_forms =
     [(''heat.hx.t_out.hot'', \<lambda>vs. (vs ! 0) - (vs ! 1) / (vs ! 2))]"

lemma hx_outlet_temp_hot_answers: "computes (hx_outlet_temp_hot fmt) hx_outlet_temp_hot_ins hx_outlet_temp_hot_box hx_outlet_temp_hot_valid hx_outlet_temp_hot_forms"
  by (rule computes_kernelI [where ok = "\<lambda>vs. True" and vals = "\<lambda>vs. [(''heat.hx.t_out.hot'', heat_hx_outlet_temp (Fin (vs ! 0)) (Fin (vs ! 1)) (Fin (vs ! 2)) True)]"])
    (auto simp: hx_outlet_temp_hot_def hx_outlet_temp_hot_ins_def hx_outlet_temp_hot_box_def hx_outlet_temp_hot_valid_def hx_outlet_temp_hot_forms_def answer_simps reads_Nil reads_Cons Let_def
      ranges_of_def in_ranges_Cons heat_hx_outlet_temp_def)

lemma hx_outlet_temp_hot_total: "in_ranges (ranges_of hx_outlet_temp_hot_ins hx_outlet_temp_hot_box) vs \<Longrightarrow> hx_outlet_temp_hot_valid vs"
  by (auto simp: hx_outlet_temp_hot_ins_def hx_outlet_temp_hot_box_def hx_outlet_temp_hot_valid_def ranges_of_def in_ranges_Cons)

lemma hx_outlet_temp_hot_slices: "f \<in> snd ` set hx_outlet_temp_hot_forms \<Longrightarrow> slice_monotone (ranges_of hx_outlet_temp_hot_ins hx_outlet_temp_hot_box) f"
  by (auto simp: hx_outlet_temp_hot_forms_def hx_outlet_temp_hot_ins_def hx_outlet_temp_hot_box_def ranges_of_def   intro!: slice_monotone_3 swing)

interpretation hx_outlet_temp_hot: total_solver hx_outlet_temp_hot_ins hx_outlet_temp_hot_box hx_outlet_temp_hot_valid hx_outlet_temp_hot_forms "hx_outlet_temp_hot fmt" for fmt
  by unfold_locales (rule hx_outlet_temp_hot_answers | erule hx_outlet_temp_hot_total hx_outlet_temp_hot_slices | simp add: ports_ok_def dict_ok_def hx_outlet_temp_hot_ins_def hx_outlet_temp_hot_box_def)+

lemma hx_outlet_temp_hot_law:
  "keeps_law (module_direction H dumps hx_outlet_temp_hot_args ''hx_outlet_temp_hot'' (hx_outlet_temp_hot fmt)) hx_outlet_temp_hot_valid hx_outlet_temp_hot_forms"
  unfolding hx_outlet_temp_hot_args_def
  by (rule hx_outlet_temp_hot.direction_law) (simp_all add: hx_outlet_temp_hot_forms_def)

subsection \<open>\<open>hx_outlet_temp_cold\<close>\<close>

definition hx_outlet_temp_cold_valid :: "real list \<Rightarrow> bool" where
  "hx_outlet_temp_cold_valid vs \<longleftrightarrow> True"

definition hx_outlet_temp_cold_forms :: "(string, real list \<Rightarrow> real) dict" where
  "hx_outlet_temp_cold_forms =
     [(''heat.hx.t_out.cold'', \<lambda>vs. (vs ! 0) + (vs ! 1) / (vs ! 2))]"

lemma hx_outlet_temp_cold_answers: "computes (hx_outlet_temp_cold fmt) hx_outlet_temp_cold_ins hx_outlet_temp_cold_box hx_outlet_temp_cold_valid hx_outlet_temp_cold_forms"
  by (rule computes_kernelI [where ok = "\<lambda>vs. True" and vals = "\<lambda>vs. [(''heat.hx.t_out.cold'', heat_hx_outlet_temp (Fin (vs ! 0)) (Fin (vs ! 1)) (Fin (vs ! 2)) False)]"])
    (auto simp: hx_outlet_temp_cold_def hx_outlet_temp_cold_ins_def hx_outlet_temp_cold_box_def hx_outlet_temp_cold_valid_def hx_outlet_temp_cold_forms_def answer_simps reads_Nil reads_Cons Let_def
      ranges_of_def in_ranges_Cons heat_hx_outlet_temp_def)

lemma hx_outlet_temp_cold_total: "in_ranges (ranges_of hx_outlet_temp_cold_ins hx_outlet_temp_cold_box) vs \<Longrightarrow> hx_outlet_temp_cold_valid vs"
  by (auto simp: hx_outlet_temp_cold_ins_def hx_outlet_temp_cold_box_def hx_outlet_temp_cold_valid_def ranges_of_def in_ranges_Cons)

lemma hx_outlet_temp_cold_slices: "f \<in> snd ` set hx_outlet_temp_cold_forms \<Longrightarrow> slice_monotone (ranges_of hx_outlet_temp_cold_ins hx_outlet_temp_cold_box) f"
  by (auto simp: hx_outlet_temp_cold_forms_def hx_outlet_temp_cold_ins_def hx_outlet_temp_cold_box_def ranges_of_def   intro!: slice_monotone_3 swing)

interpretation hx_outlet_temp_cold: total_solver hx_outlet_temp_cold_ins hx_outlet_temp_cold_box hx_outlet_temp_cold_valid hx_outlet_temp_cold_forms "hx_outlet_temp_cold fmt" for fmt
  by unfold_locales (rule hx_outlet_temp_cold_answers | erule hx_outlet_temp_cold_total hx_outlet_temp_cold_slices | simp add: ports_ok_def dict_ok_def hx_outlet_temp_cold_ins_def hx_outlet_temp_cold_box_def)+

lemma hx_outlet_temp_cold_law:
  "keeps_law (module_direction H dumps hx_outlet_temp_cold_args ''hx_outlet_temp_cold'' (hx_outlet_temp_cold fmt)) hx_outlet_temp_cold_valid hx_outlet_temp_cold_forms"
  unfolding hx_outlet_temp_cold_args_def
  by (rule hx_outlet_temp_cold.direction_law) (simp_all add: hx_outlet_temp_cold_forms_def)

section \<open>The family\<close>

definition heat_directions ::
  "(json \<Rightarrow> string) \<Rightarrow> (json \<Rightarrow> string) \<Rightarrow> (string \<Rightarrow> real \<Rightarrow> string)
   \<Rightarrow> (solver_pair, registry_error) outcome list" where
  "heat_directions H dumps fmt =
     [module_direction H dumps plane_wall_resistance_args ''plane_wall_resistance'' (plane_wall_resistance fmt),
      module_direction H dumps cylindrical_wall_resistance_args ''cylindrical_wall_resistance'' (cylindrical_wall_resistance fmt),
      module_direction H dumps convection_resistance_args ''convection_resistance'' (convection_resistance fmt),
      module_direction H dumps series_resistance_args ''series_resistance'' (series_resistance fmt),
      module_direction H dumps rate_from_resistance_args ''rate_from_resistance'' (rate_from_resistance fmt),
      module_direction H dumps dittus_boelter_nusselt_heating_args ''dittus_boelter_nusselt_heating'' (dittus_boelter_nusselt_heating fmt),
      module_direction H dumps coefficient_from_nusselt_args ''coefficient_from_nusselt'' (coefficient_from_nusselt fmt),
      module_direction H dumps dittus_boelter_nusselt_cooling_args ''dittus_boelter_nusselt_cooling'' (dittus_boelter_nusselt_cooling fmt),
      module_direction H dumps gnielinski_nusselt_args ''gnielinski_nusselt'' (gnielinski_nusselt fmt),
      module_direction H dumps laminar_fully_developed_nusselt_const_temp_args ''laminar_fully_developed_nusselt_const_temp'' (laminar_fully_developed_nusselt_const_temp fmt),
      module_direction H dumps laminar_fully_developed_nusselt_const_flux_args ''laminar_fully_developed_nusselt_const_flux'' (laminar_fully_developed_nusselt_const_flux fmt),
      module_direction H dumps churchill_chu_horizontal_cylinder_nusselt_args ''churchill_chu_horizontal_cylinder_nusselt'' (churchill_chu_horizontal_cylinder_nusselt fmt),
      module_direction H dumps churchill_chu_vertical_plate_nusselt_args ''churchill_chu_vertical_plate_nusselt'' (churchill_chu_vertical_plate_nusselt fmt),
      module_direction H dumps ntu_from_ua_args ''ntu_from_ua'' (ntu_from_ua fmt),
      module_direction H dumps effectiveness_parallel_flow_args ''effectiveness_parallel_flow'' (effectiveness_parallel_flow fmt),
      module_direction H dumps effectiveness_counterflow_args ''effectiveness_counterflow'' (effectiveness_counterflow fmt),
      module_direction H dumps effectiveness_shell_and_tube_one_pass_args ''effectiveness_shell_and_tube_one_pass'' (effectiveness_shell_and_tube_one_pass fmt),
      module_direction H dumps hx_rate_from_effectiveness_args ''hx_rate_from_effectiveness'' (hx_rate_from_effectiveness fmt),
      module_direction H dumps hx_outlet_temp_hot_args ''hx_outlet_temp_hot'' (hx_outlet_temp_hot fmt),
      module_direction H dumps hx_outlet_temp_cold_args ''hx_outlet_temp_cold'' (hx_outlet_temp_cold fmt)]"

definition register_heat ::
  "(json \<Rightarrow> string) \<Rightarrow> (json \<Rightarrow> string) \<Rightarrow> (string \<Rightarrow> real \<Rightarrow> string)
   \<Rightarrow> registry \<Rightarrow> (unit, registry_error) outcome \<times> registry" where
  "register_heat H dumps fmt = register_family heat_PORT_DECLS (heat_directions H dumps fmt)"

definition heat_laws ::
  "(json \<Rightarrow> string) \<Rightarrow> (json \<Rightarrow> string) \<Rightarrow> (string \<Rightarrow> real \<Rightarrow> string)
   \<Rightarrow> ((solver_pair, registry_error) outcome \<times> (real list \<Rightarrow> bool) \<times> (string, real list \<Rightarrow> real) dict) list" where
  "heat_laws H dumps fmt =
     [(module_direction H dumps plane_wall_resistance_args ''plane_wall_resistance'' (plane_wall_resistance fmt), plane_wall_resistance_valid, plane_wall_resistance_forms),
      (module_direction H dumps cylindrical_wall_resistance_args ''cylindrical_wall_resistance'' (cylindrical_wall_resistance fmt), cylindrical_wall_resistance_valid, cylindrical_wall_resistance_forms),
      (module_direction H dumps convection_resistance_args ''convection_resistance'' (convection_resistance fmt), convection_resistance_valid, convection_resistance_forms),
      (module_direction H dumps series_resistance_args ''series_resistance'' (series_resistance fmt), series_resistance_valid, series_resistance_forms),
      (module_direction H dumps rate_from_resistance_args ''rate_from_resistance'' (rate_from_resistance fmt), rate_from_resistance_valid, rate_from_resistance_forms),
      (module_direction H dumps dittus_boelter_nusselt_heating_args ''dittus_boelter_nusselt_heating'' (dittus_boelter_nusselt_heating fmt), dittus_boelter_nusselt_heating_valid, dittus_boelter_nusselt_heating_forms),
      (module_direction H dumps coefficient_from_nusselt_args ''coefficient_from_nusselt'' (coefficient_from_nusselt fmt), coefficient_from_nusselt_valid, coefficient_from_nusselt_forms),
      (module_direction H dumps dittus_boelter_nusselt_cooling_args ''dittus_boelter_nusselt_cooling'' (dittus_boelter_nusselt_cooling fmt), dittus_boelter_nusselt_cooling_valid, dittus_boelter_nusselt_cooling_forms),
      (module_direction H dumps laminar_fully_developed_nusselt_const_temp_args ''laminar_fully_developed_nusselt_const_temp'' (laminar_fully_developed_nusselt_const_temp fmt), laminar_fully_developed_nusselt_const_temp_valid, laminar_fully_developed_nusselt_const_temp_forms),
      (module_direction H dumps laminar_fully_developed_nusselt_const_flux_args ''laminar_fully_developed_nusselt_const_flux'' (laminar_fully_developed_nusselt_const_flux fmt), laminar_fully_developed_nusselt_const_flux_valid, laminar_fully_developed_nusselt_const_flux_forms),
      (module_direction H dumps churchill_chu_horizontal_cylinder_nusselt_args ''churchill_chu_horizontal_cylinder_nusselt'' (churchill_chu_horizontal_cylinder_nusselt fmt), churchill_chu_horizontal_cylinder_nusselt_valid, churchill_chu_horizontal_cylinder_nusselt_forms),
      (module_direction H dumps churchill_chu_vertical_plate_nusselt_args ''churchill_chu_vertical_plate_nusselt'' (churchill_chu_vertical_plate_nusselt fmt), churchill_chu_vertical_plate_nusselt_valid, churchill_chu_vertical_plate_nusselt_forms),
      (module_direction H dumps ntu_from_ua_args ''ntu_from_ua'' (ntu_from_ua fmt), ntu_from_ua_valid, ntu_from_ua_forms),
      (module_direction H dumps effectiveness_parallel_flow_args ''effectiveness_parallel_flow'' (effectiveness_parallel_flow fmt), effectiveness_parallel_flow_valid, effectiveness_parallel_flow_forms),
      (module_direction H dumps effectiveness_counterflow_args ''effectiveness_counterflow'' (effectiveness_counterflow fmt), effectiveness_counterflow_valid, effectiveness_counterflow_forms),
      (module_direction H dumps effectiveness_shell_and_tube_one_pass_args ''effectiveness_shell_and_tube_one_pass'' (effectiveness_shell_and_tube_one_pass fmt), effectiveness_shell_and_tube_one_pass_valid, effectiveness_shell_and_tube_one_pass_forms),
      (module_direction H dumps hx_rate_from_effectiveness_args ''hx_rate_from_effectiveness'' (hx_rate_from_effectiveness fmt), hx_rate_from_effectiveness_valid, hx_rate_from_effectiveness_forms),
      (module_direction H dumps hx_outlet_temp_hot_args ''hx_outlet_temp_hot'' (hx_outlet_temp_hot fmt), hx_outlet_temp_hot_valid, hx_outlet_temp_hot_forms),
      (module_direction H dumps hx_outlet_temp_cold_args ''hx_outlet_temp_cold'' (hx_outlet_temp_cold fmt), hx_outlet_temp_cold_valid, hx_outlet_temp_cold_forms)]"

lemma heat_keep: "list_all (\<lambda>(d, valid, forms). keeps_law d valid forms) (heat_laws H dumps fmt)"
  by (simp add: heat_laws_def plane_wall_resistance_law cylindrical_wall_resistance_law convection_resistance_law series_resistance_law rate_from_resistance_law dittus_boelter_nusselt_heating_law coefficient_from_nusselt_law dittus_boelter_nusselt_cooling_law laminar_fully_developed_nusselt_const_temp_law laminar_fully_developed_nusselt_const_flux_law churchill_chu_horizontal_cylinder_nusselt_law churchill_chu_vertical_plate_nusselt_law ntu_from_ua_law effectiveness_parallel_flow_law effectiveness_counterflow_law effectiveness_shell_and_tube_one_pass_law hx_rate_from_effectiveness_law hx_outlet_temp_hot_law hx_outlet_temp_cold_law)

end
