(* ===== verification/Lib_Circuits.thy ===== *)
theory Lib_Circuits
  imports Catalog Kernel_Formulas
begin

text \<open>
  Dividers, RC and RLC circuits and bias points (\<open>elec/closed_form.py\<close>) over the formulas of the compiled kernel.
\<close>

section \<open>Directions\<close>

definition SEDRA_SMITH :: citation where
  \<open>SEDRA_SMITH =
     \<lparr>ct_kind = ''handbook'', ct_ref = ''Sedra & Smith, Microelectronic Circuits, latest ed.'', ct_note = []\<rparr>\<close>

definition NILSSON_RIEDEL :: citation where
  \<open>NILSSON_RIEDEL =
     \<lparr>ct_kind = ''handbook'', ct_ref = ''Nilsson & Riedel, Electric Circuits, latest ed.'', ct_note = []\<rparr>\<close>

definition RAZAVI :: citation where
  \<open>RAZAVI =
     \<lparr>ct_kind = ''handbook'', ct_ref = ''Razavi, Design of Analog CMOS Integrated Circuits, square-law model'', ct_note = []\<rparr>\<close>

subsection \<open>\<open>divider_loaded\<close>\<close>

definition divider_loaded_box :: "(string, interval) dict" where
  "divider_loaded_box =
     [(''elec.source.vin'', ivl (1 / 1000) 10000),
      (''elec.divider.r1'', ivl 1 (10 ^ 9)),
      (''elec.divider.r2'', ivl 1 (10 ^ 9)),
      (''elec.divider.rl'', ivl 1 (10 ^ 12))]"

definition divider_loaded_ins :: "string list" where
  "divider_loaded_ins = [''elec.source.vin'', ''elec.divider.r1'', ''elec.divider.r2'', ''elec.divider.rl'']"

definition divider_loaded_args :: build_args where
  \<open>divider_loaded_args =
     solver_args ''elec'' divider_loaded_ins
       [''elec.divider.vout'']
       divider_loaded_box
       [''linear'', ''small_signal'']
       (1 / 10 ^ 7) (AccOne EXACT)
       [SEDRA_SMITH]
       ''1''\<close>

definition divider_loaded :: "(string \<Rightarrow> real \<Rightarrow> string) \<Rightarrow> inputs \<Rightarrow> raw_return" where
  \<open>divider_loaded fmt x =
    (arg x ''elec.source.vin'' (\<lambda>vin.
     arg x ''elec.divider.r1'' (\<lambda>r1.
     arg x ''elec.divider.r2'' (\<lambda>r2.
     arg x ''elec.divider.rl'' (\<lambda>rl.
     let vout = divider_loaded_vout (Fin vin) (Fin r1) (Fin r2) (Fin rl) in
     ok_floats [(''elec.divider.vout'', vout)])))))\<close>

subsection \<open>\<open>rc_step\<close>\<close>

definition rc_step_box :: "(string, interval) dict" where
  "rc_step_box =
     [(''elec.rc.vf'', ivl (1 / 1000) 10000),
      (''elec.rc.resistance'', ivl (1 / 1000) (10 ^ 12)),
      (''elec.rc.capacitance'', ivl (1 / 10 ^ 15) 1),
      (''elec.rc.time'', ivl 0 (10 ^ 6))]"

definition rc_step_ins :: "string list" where
  "rc_step_ins = [''elec.rc.vf'', ''elec.rc.resistance'', ''elec.rc.capacitance'', ''elec.rc.time'']"

definition rc_step_args :: build_args where
  \<open>rc_step_args =
     solver_args ''elec'' rc_step_ins
       [''elec.rc.vc'']
       rc_step_box
       [''linear'', ''small_signal'']
       (1 / 10 ^ 7) (AccOne EXACT)
       [NILSSON_RIEDEL]
       ''1''\<close>

definition rc_step :: "(string \<Rightarrow> real \<Rightarrow> string) \<Rightarrow> inputs \<Rightarrow> raw_return" where
  \<open>rc_step fmt x =
    (arg x ''elec.rc.vf'' (\<lambda>vf.
     arg x ''elec.rc.resistance'' (\<lambda>r.
     arg x ''elec.rc.capacitance'' (\<lambda>c.
     arg x ''elec.rc.time'' (\<lambda>t.
     let vc = rc_step_response (Fin vf) (Fin r) (Fin c) (Fin t) in
     ok_floats [(''elec.rc.vc'', vc)])))))\<close>

subsection \<open>\<open>rlc_resonance\<close>\<close>

definition rlc_resonance_box :: "(string, interval) dict" where
  "rlc_resonance_box =
     [(''elec.rlc.resistance'', ivl (1 / 1000) (10 ^ 9)),
      (''elec.rlc.inductance'', ivl (1 / 10 ^ 12) 1000),
      (''elec.rlc.capacitance'', ivl (1 / 10 ^ 15) 1)]"

definition rlc_resonance_ins :: "string list" where
  "rlc_resonance_ins = [''elec.rlc.resistance'', ''elec.rlc.inductance'', ''elec.rlc.capacitance'']"

definition rlc_resonance_args :: build_args where
  \<open>rlc_resonance_args =
     solver_args ''elec'' rlc_resonance_ins
       [''elec.rlc.f0'', ''elec.rlc.q'']
       rlc_resonance_box
       [''linear'', ''small_signal'']
       (1 / 10 ^ 7) (AccMap [(''elec.rlc.f0'', \<lparr>eps_abs = 0, eps_rel = 0\<rparr>), (''elec.rlc.q'', \<lparr>eps_abs = 0, eps_rel = 0\<rparr>)])
       [NILSSON_RIEDEL]
       ''1''\<close>

definition rlc_resonance :: "(string \<Rightarrow> real \<Rightarrow> string) \<Rightarrow> inputs \<Rightarrow> raw_return" where
  \<open>rlc_resonance fmt x =
    (arg x ''elec.rlc.resistance'' (\<lambda>r.
     arg x ''elec.rlc.inductance'' (\<lambda>inductance.
     arg x ''elec.rlc.capacitance'' (\<lambda>capacitance.
     let f0 = rlc_resonant_frequency (Fin inductance) (Fin capacitance) in
     let q = rlc_quality_factor (Fin r) (Fin inductance) (Fin capacitance) in
     ok_floats [(''elec.rlc.f0'', f0), (''elec.rlc.q'', q)]))))\<close>

subsection \<open>\<open>bjt_bias\<close>\<close>

definition bjt_bias_box :: "(string, interval) dict" where
  "bjt_bias_box =
     [(''elec.bjt.vcc'', ivl (5 / 10) 100),
      (''elec.bjt.r1'', ivl 1 (10 ^ 9)),
      (''elec.bjt.r2'', ivl 1 (10 ^ 9)),
      (''elec.bjt.re'', ivl 1 (10 ^ 7)),
      (''elec.bjt.rc'', ivl 1 (10 ^ 7)),
      (''elec.bjt.beta'', ivl 1 1000),
      (''elec.bjt.vbe'', ivl (3 / 10) 1)]"

definition bjt_bias_ins :: "string list" where
  "bjt_bias_ins = [''elec.bjt.vcc'', ''elec.bjt.r1'', ''elec.bjt.r2'', ''elec.bjt.re'', ''elec.bjt.rc'', ''elec.bjt.beta'', ''elec.bjt.vbe'']"

definition bjt_bias_args :: build_args where
  \<open>bjt_bias_args =
     solver_args ''elec'' bjt_bias_ins
       [''elec.bjt.ic'', ''elec.bjt.vc'']
       bjt_bias_box
       [''linear'', ''small_signal'']
       (1 / 10 ^ 7) (AccOne EXACT)
       [SEDRA_SMITH]
       ''1''\<close>

definition bjt_bias :: "(string \<Rightarrow> real \<Rightarrow> string) \<Rightarrow> inputs \<Rightarrow> raw_return" where
  \<open>bjt_bias fmt x =
    (arg x ''elec.bjt.vcc'' (\<lambda>vcc.
     arg x ''elec.bjt.r1'' (\<lambda>r1.
     arg x ''elec.bjt.r2'' (\<lambda>r2.
     arg x ''elec.bjt.re'' (\<lambda>re.
     arg x ''elec.bjt.rc'' (\<lambda>rc.
     arg x ''elec.bjt.beta'' (\<lambda>beta.
     arg x ''elec.bjt.vbe'' (\<lambda>vbe.
     let ic = bjt_bias_collector_current (Fin vcc) (Fin r1) (Fin r2) (Fin re) (Fin beta) (Fin vbe) in
     let vc = bjt_bias_collector_voltage (Fin vcc) ic (Fin rc) in
     if fl_lt vc (Fin 0)
     then out_of_domain (''computed collector voltage '' @ fmt_fl fmt [] vc @ '' < 0 (bias point is saturated/invalid for this box -- outside this solver's linear-active assumption)'')
     else
     ok_floats [(''elec.bjt.ic'', ic), (''elec.bjt.vc'', vc)]))))))))\<close>

subsection \<open>\<open>nmos_bias\<close>\<close>

definition nmos_bias_box :: "(string, interval) dict" where
  "nmos_bias_box =
     [(''elec.nmos.k'', ivl (1 / 10 ^ 6) 10),
      (''elec.nmos.vgs'', ivl (- 10) 10),
      (''elec.nmos.vth'', ivl (- 5) 5)]"

definition nmos_bias_ins :: "string list" where
  "nmos_bias_ins = [''elec.nmos.k'', ''elec.nmos.vgs'', ''elec.nmos.vth'']"

definition nmos_bias_args :: build_args where
  \<open>nmos_bias_args =
     solver_args ''elec'' nmos_bias_ins
       [''elec.nmos.id'']
       nmos_bias_box
       [''linear'', ''small_signal'']
       (1 / 10 ^ 7) (AccOne EXACT)
       [RAZAVI]
       ''1''\<close>

definition nmos_bias :: "(string \<Rightarrow> real \<Rightarrow> string) \<Rightarrow> inputs \<Rightarrow> raw_return" where
  \<open>nmos_bias fmt x =
    (arg x ''elec.nmos.k'' (\<lambda>k.
     arg x ''elec.nmos.vgs'' (\<lambda>vgs.
     arg x ''elec.nmos.vth'' (\<lambda>vth.
     if vgs \<le> vth
     then out_of_domain (''vgs ('' @ fmt [] vgs @ '') <= vth ('' @ fmt [] vth @ ''): device is in cutoff, not the saturation region this formula assumes'')
     else
     let drain_current = nmos_saturation_drain_current (Fin k) (Fin vgs) (Fin vth) in
     ok_floats [(''elec.nmos.id'', drain_current)]))))\<close>

definition circuits_PORT_DECLS :: "port_decl list" where
  "circuits_PORT_DECLS =
     [scalar_port ''elec.source.vin'' ''V'',
      scalar_port ''elec.divider.r1'' ''Ohm'',
      scalar_port ''elec.divider.r2'' ''Ohm'',
      scalar_port ''elec.divider.rl'' ''Ohm'',
      scalar_port ''elec.divider.vout'' ''V'',
      scalar_port ''elec.rc.vf'' ''V'',
      scalar_port ''elec.rc.resistance'' ''Ohm'',
      scalar_port ''elec.rc.capacitance'' ''F'',
      scalar_port ''elec.rc.time'' ''s'',
      scalar_port ''elec.rc.vc'' ''V'',
      scalar_port ''elec.rlc.resistance'' ''Ohm'',
      scalar_port ''elec.rlc.inductance'' ''H'',
      scalar_port ''elec.rlc.capacitance'' ''F'',
      scalar_port ''elec.rlc.f0'' ''Hz'',
      scalar_port ''elec.rlc.q'' ''1'',
      scalar_port ''elec.bjt.vcc'' ''V'',
      scalar_port ''elec.bjt.r1'' ''Ohm'',
      scalar_port ''elec.bjt.r2'' ''Ohm'',
      scalar_port ''elec.bjt.re'' ''Ohm'',
      scalar_port ''elec.bjt.rc'' ''Ohm'',
      scalar_port ''elec.bjt.beta'' ''1'',
      scalar_port ''elec.bjt.vbe'' ''V'',
      scalar_port ''elec.bjt.ic'' ''A'',
      scalar_port ''elec.bjt.vc'' ''V'',
      scalar_port ''elec.nmos.k'' ''A/V^2'',
      scalar_port ''elec.nmos.vgs'' ''V'',
      scalar_port ''elec.nmos.vth'' ''V'',
      scalar_port ''elec.nmos.id'' ''A'']"

section \<open>What the directions compute\<close>

definition bjt_current :: "real \<Rightarrow> real \<Rightarrow> real \<Rightarrow> real \<Rightarrow> real \<Rightarrow> real \<Rightarrow> real" where
  "bjt_current vcc r1 r2 re beta vbe =
     beta * ((vcc * r2 / (r1 + r2) - vbe) / (r1 * r2 / (r1 + r2) + (beta + 1) * re))"

lemma bjt_load_pos:
  fixes r1 :: real
  assumes "0 < r1" "0 < r2" "0 < re" "0 < beta"
  shows "0 < r1 * r2 + (beta + 1) * re * (r1 + r2)" "0 < r1 * r2 / (r1 + r2) + (beta + 1) * re"
  using assms by (auto intro!: add_pos_pos mult_pos_pos divide_pos_pos)

lemma bjt_kernel:
  assumes "0 < r1" "0 < r2" "0 < re" "0 < beta"
  shows "bjt_bias_collector_current (Fin vcc) (Fin r1) (Fin r2) (Fin re) (Fin beta) (Fin vbe) =
    Fin (bjt_current vcc r1 r2 re beta vbe)"
  using bjt_load_pos(2) [OF assms] assms
  by (simp add: bjt_bias_collector_current_def bjt_current_def Let_def)

lemma bjt_current_fraction:
  assumes "0 < r1" "0 < r2" "0 < re" "0 < beta"
  shows "bjt_current vcc r1 r2 re beta vbe =
    beta * (vcc * r2 - vbe * (r1 + r2)) / (r1 * r2 + (beta + 1) * re * (r1 + r2))"
proof -
  have s: "r1 + r2 \<noteq> 0" using assms by simp
  have "vcc * r2 / (r1 + r2) - vbe = (vcc * r2 - vbe * (r1 + r2)) / (r1 + r2)"
    "r1 * r2 / (r1 + r2) + (beta + 1) * re = (r1 * r2 + (beta + 1) * re * (r1 + r2)) / (r1 + r2)"
    using s by (simp_all add: diff_divide_distrib add_divide_distrib)
  then show ?thesis using s by (simp add: bjt_current_def)
qed

text \<open>The collector current is a linear fraction in each of its arguments.\<close>

lemma bjt_vbe:
  assumes "0 < r1" "0 < r2" "0 < re" "0 < beta"
  shows "swings iv (\<lambda>v. bjt_current vcc r1 r2 re beta v)"
  by (rule swings_fraction [where a = 0 and c = "- beta * (r1 + r2)" and d = "beta * vcc * r2"])
    (use bjt_load_pos(1) [OF assms] in \<open>simp_all add: bjt_current_fraction assms algebra_simps\<close>)

lemma bjt_vcc:
  assumes "0 < r1" "0 < r2" "0 < re" "0 < beta"
  shows "swings iv (\<lambda>v. bjt_current v r1 r2 re beta vbe)"
    "swings iv (\<lambda>v. v - bjt_current v r1 r2 re beta vbe * rc)"
proof -
  let ?d = "r1 * r2 + (beta + 1) * re * (r1 + r2)"
  have d: "0 < ?d" using bjt_load_pos(1) assms by blast
  show "swings iv (\<lambda>v. bjt_current v r1 r2 re beta vbe)"
    by (rule swings_fraction [where a = 0 and c = "beta * r2" and d = "- beta * vbe * (r1 + r2)"])
      (use d in \<open>simp_all add: bjt_current_fraction assms algebra_simps\<close>)
  have "v - bjt_current v r1 r2 re beta vbe * rc =
      ((?d - beta * r2 * rc) * v + beta * vbe * (r1 + r2) * rc) / (0 * v + ?d)" for v
    unfolding bjt_current_fraction [OF assms] using d by (simp add: divide_simps) (simp add: algebra_simps)
  then show "swings iv (\<lambda>v. v - bjt_current v r1 r2 re beta vbe * rc)"
    by (rule swings_fraction) (use d in simp)
qed

lemma bjt_r1:
  assumes "0 < r2" "0 < re" "0 < beta" "\<And>v. iv_contains iv v \<Longrightarrow> 0 < v"
  shows "swings iv (\<lambda>v. bjt_current vcc v r2 re beta vbe)"
  by (rule swings_fraction [where a = "r2 + (beta + 1) * re" and b = "(beta + 1) * re * r2"
        and c = "- beta * vbe" and d = "beta * (vcc * r2 - vbe * r2)"])
    (use bjt_load_pos(1) [OF assms(4) assms(1-3)] assms(4) in \<open>simp_all add: bjt_current_fraction assms(1-3) algebra_simps\<close>)

lemma bjt_r2:
  assumes "0 < r1" "0 < re" "0 < beta" "\<And>v. iv_contains iv v \<Longrightarrow> 0 < v"
  shows "swings iv (\<lambda>v. bjt_current vcc r1 v re beta vbe)"
  by (rule swings_fraction [where a = "r1 + (beta + 1) * re" and b = "(beta + 1) * re * r1"
        and c = "beta * (vcc - vbe)" and d = "- beta * vbe * r1"])
    (use bjt_load_pos(1) [OF assms(1) assms(4) assms(2,3)] assms(4) in \<open>simp_all add: bjt_current_fraction assms(1-3) algebra_simps\<close>)

lemma bjt_re:
  assumes "0 < r1" "0 < r2" "0 < beta" "\<And>v. iv_contains iv v \<Longrightarrow> 0 < v"
  shows "swings iv (\<lambda>v. bjt_current vcc r1 r2 v beta vbe)"
  by (rule swings_fraction [where a = "(beta + 1) * (r1 + r2)" and b = "r1 * r2"
        and c = 0 and d = "beta * (vcc * r2 - vbe * (r1 + r2))"])
    (use bjt_load_pos(1) [OF assms(1,2) assms(4) assms(3)] assms(4) in \<open>simp_all add: bjt_current_fraction assms(1-3) algebra_simps\<close>)

lemma bjt_beta:
  assumes "0 < r1" "0 < r2" "0 < re" "\<And>v. iv_contains iv v \<Longrightarrow> 0 < v"
  shows "swings iv (\<lambda>v. bjt_current vcc r1 r2 re v vbe)"
  by (rule swings_fraction [where a = "re * (r1 + r2)" and b = "r1 * r2 + re * (r1 + r2)"
        and c = "vcc * r2 - vbe * (r1 + r2)" and d = 0])
    (use bjt_load_pos(1) [OF assms(1-4)] assms(4) in \<open>simp_all add: bjt_current_fraction assms(1-3) algebra_simps\<close>)

lemmas swings_bjt = bjt_vbe bjt_vcc bjt_r1 bjt_r2 bjt_re bjt_beta

text \<open>So is the output of a loaded divider.\<close>

definition loaded_divider :: "real \<Rightarrow> real \<Rightarrow> real \<Rightarrow> real \<Rightarrow> real" where
  "loaded_divider vin r1 r2 rl = vin * (r2 * rl / (r2 + rl)) / (r1 + r2 * rl / (r2 + rl))"

lemma divider_load_pos:
  fixes r1 :: real
  assumes "0 < r1" "0 < r2" "0 < rl"
  shows "0 < r1 + r2 * rl / (r2 + rl)" "0 < r1 * (r2 + rl) + r2 * rl"
  using assms by (auto intro!: add_pos_pos mult_pos_pos divide_pos_pos)

lemma divider_kernel:
  assumes "0 < r1" "0 < r2" "0 < rl"
  shows "divider_loaded_vout (Fin vin) (Fin r1) (Fin r2) (Fin rl) = Fin (loaded_divider vin r1 r2 rl)"
  using divider_load_pos(1) [OF assms] assms by (simp add: divider_loaded_vout_def loaded_divider_def Let_def)

lemma loaded_divider_fraction:
  assumes "0 < r1" "0 < r2" "0 < rl"
  shows "loaded_divider vin r1 r2 rl = vin * (r2 * rl) / (r1 * (r2 + rl) + r2 * rl)"
proof -
  have "r1 + r2 * rl / (r2 + rl) = (r1 * (r2 + rl) + r2 * rl) / (r2 + rl)"
    using assms by (simp add: add_divide_distrib)
  then show ?thesis using assms by (simp add: loaded_divider_def)
qed

lemma divider_vin: "swings iv (\<lambda>v. loaded_divider v r1 r2 rl)"
  unfolding loaded_divider_def by (auto intro!: swing)

lemma divider_r1:
  assumes "0 < r2" "0 < rl" "\<And>v. iv_contains iv v \<Longrightarrow> 0 < v"
  shows "swings iv (\<lambda>v. loaded_divider vin v r2 rl)"
  by (rule swings_fraction [where a = "r2 + rl" and b = "r2 * rl" and c = 0 and d = "vin * (r2 * rl)"])
    (use divider_load_pos(2) [OF assms(3) assms(1,2)] assms(3) in \<open>simp_all add: loaded_divider_fraction assms(1,2) algebra_simps\<close>)

lemma divider_r2:
  assumes "0 < r1" "0 < rl" "\<And>v. iv_contains iv v \<Longrightarrow> 0 < v"
  shows "swings iv (\<lambda>v. loaded_divider vin r1 v rl)"
  by (rule swings_fraction [where a = "r1 + rl" and b = "r1 * rl" and c = "vin * rl" and d = 0])
    (use divider_load_pos(2) [OF assms(1) assms(3) assms(2)] assms(3) in \<open>simp_all add: loaded_divider_fraction assms(1,2) algebra_simps\<close>)

lemma divider_rl:
  assumes "0 < r1" "0 < r2" "\<And>v. iv_contains iv v \<Longrightarrow> 0 < v"
  shows "swings iv (\<lambda>v. loaded_divider vin r1 r2 v)"
  by (rule swings_fraction [where a = "r1 + r2" and b = "r1 * r2" and c = "vin * r2" and d = 0])
    (use divider_load_pos(2) [OF assms(1,2) assms(3)] assms(3) in \<open>simp_all add: loaded_divider_fraction assms(1,2) algebra_simps\<close>)

lemmas swings_divider = divider_vin divider_r1 divider_r2 divider_rl

subsection \<open>\<open>divider_loaded\<close>\<close>

definition divider_loaded_valid :: "real list \<Rightarrow> bool" where
  "divider_loaded_valid vs \<longleftrightarrow> True"

definition divider_loaded_forms :: "(string, real list \<Rightarrow> real) dict" where
  "divider_loaded_forms =
     [(''elec.divider.vout'', \<lambda>vs. loaded_divider (vs ! 0) (vs ! 1) (vs ! 2) (vs ! 3))]"

lemma divider_loaded_answers: "computes (divider_loaded fmt) divider_loaded_ins divider_loaded_box divider_loaded_valid divider_loaded_forms"
  by (rule computes_kernelI [where ok = "\<lambda>vs. True" and vals = "\<lambda>vs. [(''elec.divider.vout'', (divider_loaded_vout (Fin (vs ! 0)) (Fin (vs ! 1)) (Fin (vs ! 2)) (Fin (vs ! 3))))]"])
    (auto simp: divider_loaded_def divider_loaded_ins_def divider_loaded_box_def divider_loaded_valid_def divider_loaded_forms_def answer_simps reads_Nil reads_Cons Let_def
      ranges_of_def in_ranges_Cons   divider_kernel)

lemma divider_loaded_total: "in_ranges (ranges_of divider_loaded_ins divider_loaded_box) vs \<Longrightarrow> divider_loaded_valid vs"
  by (auto simp: divider_loaded_ins_def divider_loaded_box_def divider_loaded_valid_def ranges_of_def in_ranges_Cons)

lemma divider_loaded_slices: "f \<in> snd ` set divider_loaded_forms \<Longrightarrow> slice_monotone (ranges_of divider_loaded_ins divider_loaded_box) f"
  by (auto simp: divider_loaded_forms_def divider_loaded_ins_def divider_loaded_box_def ranges_of_def   intro!: slice_monotone_4 swing swings_divider)

interpretation divider_loaded: total_solver divider_loaded_ins divider_loaded_box divider_loaded_valid divider_loaded_forms "divider_loaded fmt" for fmt
  by unfold_locales (rule divider_loaded_answers | erule divider_loaded_total divider_loaded_slices | simp add: ports_ok_def dict_ok_def divider_loaded_ins_def divider_loaded_box_def)+

lemma divider_loaded_law:
  "keeps_law (module_direction H dumps divider_loaded_args ''divider_loaded'' (divider_loaded fmt)) divider_loaded_valid divider_loaded_forms"
  unfolding divider_loaded_args_def
  by (rule divider_loaded.direction_law) (simp_all add: divider_loaded_forms_def)

subsection \<open>\<open>rc_step\<close>\<close>

definition rc_step_valid :: "real list \<Rightarrow> bool" where
  "rc_step_valid vs \<longleftrightarrow> True"

definition rc_step_forms :: "(string, real list \<Rightarrow> real) dict" where
  "rc_step_forms =
     [(''elec.rc.vc'', \<lambda>vs. (vs ! 0) * (1 - exp (- (vs ! 3) / ((vs ! 1) * (vs ! 2)))))]"

lemma rc_step_answers: "computes (rc_step fmt) rc_step_ins rc_step_box rc_step_valid rc_step_forms"
  by (rule computes_kernelI [where ok = "\<lambda>vs. True" and vals = "\<lambda>vs. [(''elec.rc.vc'', (rc_step_response (Fin (vs ! 0)) (Fin (vs ! 1)) (Fin (vs ! 2)) (Fin (vs ! 3))))]"])
    (auto simp: rc_step_def rc_step_ins_def rc_step_box_def rc_step_valid_def rc_step_forms_def answer_simps reads_Nil reads_Cons Let_def
      ranges_of_def in_ranges_Cons rc_step_response_def)

lemma rc_step_total: "in_ranges (ranges_of rc_step_ins rc_step_box) vs \<Longrightarrow> rc_step_valid vs"
  by (auto simp: rc_step_ins_def rc_step_box_def rc_step_valid_def ranges_of_def in_ranges_Cons)

lemma rc_step_slices: "f \<in> snd ` set rc_step_forms \<Longrightarrow> slice_monotone (ranges_of rc_step_ins rc_step_box) f"
  by (auto simp: rc_step_forms_def rc_step_ins_def rc_step_box_def ranges_of_def   intro!: slice_monotone_4 swing)

interpretation rc_step: total_solver rc_step_ins rc_step_box rc_step_valid rc_step_forms "rc_step fmt" for fmt
  by unfold_locales (rule rc_step_answers | erule rc_step_total rc_step_slices | simp add: ports_ok_def dict_ok_def rc_step_ins_def rc_step_box_def)+

lemma rc_step_law:
  "keeps_law (module_direction H dumps rc_step_args ''rc_step'' (rc_step fmt)) rc_step_valid rc_step_forms"
  unfolding rc_step_args_def
  by (rule rc_step.direction_law) (simp_all add: rc_step_forms_def)

subsection \<open>\<open>rlc_resonance\<close>\<close>

definition rlc_resonance_valid :: "real list \<Rightarrow> bool" where
  "rlc_resonance_valid vs \<longleftrightarrow> True"

definition rlc_resonance_forms :: "(string, real list \<Rightarrow> real) dict" where
  "rlc_resonance_forms =
     [(''elec.rlc.f0'', \<lambda>vs. 1 / (2 * pi * sqrt ((vs ! 1) * (vs ! 2)))),
      (''elec.rlc.q'', \<lambda>vs. 1 / (vs ! 0) * sqrt ((vs ! 1) / (vs ! 2)))]"

lemma rlc_resonance_answers: "computes (rlc_resonance fmt) rlc_resonance_ins rlc_resonance_box rlc_resonance_valid rlc_resonance_forms"
  by (rule computes_kernelI [where ok = "\<lambda>vs. True" and vals = "\<lambda>vs. [(''elec.rlc.f0'', (rlc_resonant_frequency (Fin (vs ! 1)) (Fin (vs ! 2)))), (''elec.rlc.q'', (rlc_quality_factor (Fin (vs ! 0)) (Fin (vs ! 1)) (Fin (vs ! 2))))]"])
    (auto simp: rlc_resonance_def rlc_resonance_ins_def rlc_resonance_box_def rlc_resonance_valid_def rlc_resonance_forms_def answer_simps reads_Nil reads_Cons Let_def
      ranges_of_def in_ranges_Cons rlc_quality_factor_def rlc_resonant_frequency_def)

lemma rlc_resonance_total: "in_ranges (ranges_of rlc_resonance_ins rlc_resonance_box) vs \<Longrightarrow> rlc_resonance_valid vs"
  by (auto simp: rlc_resonance_ins_def rlc_resonance_box_def rlc_resonance_valid_def ranges_of_def in_ranges_Cons)

lemma rlc_resonance_slices: "f \<in> snd ` set rlc_resonance_forms \<Longrightarrow> slice_monotone (ranges_of rlc_resonance_ins rlc_resonance_box) f"
  by (auto simp: rlc_resonance_forms_def rlc_resonance_ins_def rlc_resonance_box_def ranges_of_def   intro!: slice_monotone_3 swing)

interpretation rlc_resonance: total_solver rlc_resonance_ins rlc_resonance_box rlc_resonance_valid rlc_resonance_forms "rlc_resonance fmt" for fmt
  by unfold_locales (rule rlc_resonance_answers | erule rlc_resonance_total rlc_resonance_slices | simp add: ports_ok_def dict_ok_def rlc_resonance_ins_def rlc_resonance_box_def)+

lemma rlc_resonance_law:
  "keeps_law (module_direction H dumps rlc_resonance_args ''rlc_resonance'' (rlc_resonance fmt)) rlc_resonance_valid rlc_resonance_forms"
  unfolding rlc_resonance_args_def
  by (rule rlc_resonance.direction_law) (simp_all add: rlc_resonance_forms_def coerce_accuracy_def acc_valid_def)

subsection \<open>\<open>bjt_bias\<close>\<close>

definition bjt_bias_valid :: "real list \<Rightarrow> bool" where
  "bjt_bias_valid vs \<longleftrightarrow> 0 \<le> (vs ! 0) - (bjt_current (vs ! 0) (vs ! 1) (vs ! 2) (vs ! 3) (vs ! 5) (vs ! 6)) * (vs ! 4)"

definition bjt_bias_forms :: "(string, real list \<Rightarrow> real) dict" where
  "bjt_bias_forms =
     [(''elec.bjt.ic'', \<lambda>vs. bjt_current (vs ! 0) (vs ! 1) (vs ! 2) (vs ! 3) (vs ! 5) (vs ! 6)),
      (''elec.bjt.vc'', \<lambda>vs. (vs ! 0) - (bjt_current (vs ! 0) (vs ! 1) (vs ! 2) (vs ! 3) (vs ! 5) (vs ! 6)) * (vs ! 4))]"

lemma bjt_bias_answers: "computes (bjt_bias fmt) bjt_bias_ins bjt_bias_box bjt_bias_valid bjt_bias_forms"
  by (rule computes_kernelI [where ok = "\<lambda>vs. \<not> fl_lt (bjt_bias_collector_voltage (Fin (vs ! 0)) (bjt_bias_collector_current (Fin (vs ! 0)) (Fin (vs ! 1)) (Fin (vs ! 2)) (Fin (vs ! 3)) (Fin (vs ! 5)) (Fin (vs ! 6))) (Fin (vs ! 4))) (Fin 0)" and vals = "\<lambda>vs. [(''elec.bjt.ic'', (bjt_bias_collector_current (Fin (vs ! 0)) (Fin (vs ! 1)) (Fin (vs ! 2)) (Fin (vs ! 3)) (Fin (vs ! 5)) (Fin (vs ! 6)))), (''elec.bjt.vc'', (bjt_bias_collector_voltage (Fin (vs ! 0)) (bjt_bias_collector_current (Fin (vs ! 0)) (Fin (vs ! 1)) (Fin (vs ! 2)) (Fin (vs ! 3)) (Fin (vs ! 5)) (Fin (vs ! 6))) (Fin (vs ! 4))))]"])
    (auto simp: bjt_bias_def bjt_bias_ins_def bjt_bias_box_def bjt_bias_valid_def bjt_bias_forms_def answer_simps reads_Nil reads_Cons Let_def
      ranges_of_def in_ranges_Cons bjt_bias_collector_voltage_def  bjt_kernel)

lemma bjt_bias_inside:
  assumes "list_all2 is_subset ivs (ranges_of bjt_bias_ins bjt_bias_box)"
    "\<forall>vs. at_ends ivs vs \<longrightarrow> bjt_bias_valid vs" "in_ranges ivs vs"
  shows "bjt_bias_valid vs"
  proof -
  have r: "in_ranges (ranges_of bjt_bias_ins bjt_bias_box) vs" using assms(1,3) by (rule in_ranges_subset)
  have s0: "slice_monotone ivs (\<lambda>vs. ((vs ! 0) - (bjt_current (vs ! 0) (vs ! 1) (vs ! 2) (vs ! 3) (vs ! 5) (vs ! 6)) * (vs ! 4)) - (0))"
    by (rule slice_monotone_subset [OF assms(1)])
      (auto simp: bjt_bias_ins_def bjt_bias_box_def ranges_of_def  intro!: slice_monotone_7 swing swings_bjt)
  have g0: "0 \<le> ((vs ! 0) - (bjt_current (vs ! 0) (vs ! 1) (vs ! 2) (vs ! 3) (vs ! 5) (vs ! 6)) * (vs ! 4)) - (0)"
    by (rule corners_pass_le [OF s0 assms(3)]) (use assms(2) in \<open>simp add: bjt_bias_valid_def\<close>)
  show ?thesis
    using r g0 by (auto simp: bjt_bias_valid_def bjt_bias_ins_def bjt_bias_box_def ranges_of_def in_ranges_Cons)
qed

lemma bjt_bias_slices:
  assumes "list_all2 is_subset ivs (ranges_of bjt_bias_ins bjt_bias_box)" "\<forall>vs. in_ranges ivs vs \<longrightarrow> bjt_bias_valid vs"
  shows "\<forall>f \<in> snd ` set bjt_bias_forms. slice_monotone ivs f"
  by (auto simp: bjt_bias_forms_def bjt_bias_ins_def bjt_bias_box_def ranges_of_def  
      intro!: slice_monotone_subset [OF assms(1)] slice_monotone_7 swing swings_bjt)

interpretation bjt_bias: formula_solver bjt_bias_ins bjt_bias_box bjt_bias_valid bjt_bias_forms "bjt_bias fmt" for fmt
  by unfold_locales (rule bjt_bias_answers | rule bjt_bias_inside bjt_bias_slices, assumption+ | simp add: ports_ok_def dict_ok_def bjt_bias_ins_def bjt_bias_box_def)+

lemma bjt_bias_law:
  "keeps_law (module_direction H dumps bjt_bias_args ''bjt_bias'' (bjt_bias fmt)) bjt_bias_valid bjt_bias_forms"
  unfolding bjt_bias_args_def
  by (rule bjt_bias.direction_law) (simp_all add: bjt_bias_forms_def)

subsection \<open>\<open>nmos_bias\<close>\<close>

definition nmos_bias_valid :: "real list \<Rightarrow> bool" where
  "nmos_bias_valid vs \<longleftrightarrow> vs ! 2 < vs ! 1"

definition nmos_bias_forms :: "(string, real list \<Rightarrow> real) dict" where
  "nmos_bias_forms =
     [(''elec.nmos.id'', \<lambda>vs. (vs ! 0) / 2 * ((vs ! 1) - (vs ! 2)) ^ 2)]"

lemma nmos_bias_answers: "computes (nmos_bias fmt) nmos_bias_ins nmos_bias_box nmos_bias_valid nmos_bias_forms"
  by (rule computes_kernelI [where ok = "\<lambda>vs. \<not> ((vs ! 1) \<le> (vs ! 2))" and vals = "\<lambda>vs. [(''elec.nmos.id'', (nmos_saturation_drain_current (Fin (vs ! 0)) (Fin (vs ! 1)) (Fin (vs ! 2))))]"])
    (auto simp: nmos_bias_def nmos_bias_ins_def nmos_bias_box_def nmos_bias_valid_def nmos_bias_forms_def answer_simps reads_Nil reads_Cons Let_def
      ranges_of_def in_ranges_Cons nmos_saturation_drain_current_def)

lemma nmos_bias_inside:
  assumes "list_all2 is_subset ivs (ranges_of nmos_bias_ins nmos_bias_box)"
    "\<forall>vs. at_ends ivs vs \<longrightarrow> nmos_bias_valid vs" "in_ranges ivs vs"
  shows "nmos_bias_valid vs"
  proof -
  have r: "in_ranges (ranges_of nmos_bias_ins nmos_bias_box) vs" using assms(1,3) by (rule in_ranges_subset)
  have s0: "slice_monotone ivs (\<lambda>vs. (vs ! 1) - (vs ! 2))"
    by (rule slice_monotone_subset [OF assms(1)])
      (auto simp: nmos_bias_ins_def nmos_bias_box_def ranges_of_def  intro!: slice_monotone_3 swing less_imp_le)
  have g0: "0 < (vs ! 1) - (vs ! 2)"
    by (rule corners_pass [OF s0 assms(3)]) (use assms(2) in \<open>simp add: nmos_bias_valid_def\<close>)
  show ?thesis
    using r g0 by (auto simp: nmos_bias_valid_def nmos_bias_ins_def nmos_bias_box_def ranges_of_def in_ranges_Cons)
qed

lemma nmos_bias_slices:
  assumes "list_all2 is_subset ivs (ranges_of nmos_bias_ins nmos_bias_box)" "\<forall>vs. in_ranges ivs vs \<longrightarrow> nmos_bias_valid vs"
  shows "\<forall>f \<in> snd ` set nmos_bias_forms. slice_monotone ivs f"
  proof -
  obtain i1 i2 i3 where ivs: "ivs = [i1, i2, i3]"
    using assms(1) by (auto simp: nmos_bias_ins_def ranges_of_def list_all2_Cons2)
  have v: "nmos_bias_valid [a, b, c]" if "iv_contains i1 a" "iv_contains i2 b" "iv_contains i3 c" for a b c
    using assms(2) that by (simp add: ivs)
  have r: "in_ranges (ranges_of nmos_bias_ins nmos_bias_box) [a, b, c]" if "iv_contains i1 a" "iv_contains i2 b" "iv_contains i3 c" for a b c
    using in_ranges_subset [OF assms(1)] that by (simp add: ivs)
  note facts = v [unfolded nmos_bias_valid_def, simplified] r [unfolded nmos_bias_ins_def nmos_bias_box_def ranges_of_def, simplified]
  show ?thesis
    using facts by (auto simp: nmos_bias_forms_def ivs   intro!: slice_monotone_3 swing less_imp_le)
qed

interpretation nmos_bias: formula_solver nmos_bias_ins nmos_bias_box nmos_bias_valid nmos_bias_forms "nmos_bias fmt" for fmt
  by unfold_locales (rule nmos_bias_answers | rule nmos_bias_inside nmos_bias_slices, assumption+ | simp add: ports_ok_def dict_ok_def nmos_bias_ins_def nmos_bias_box_def)+

lemma nmos_bias_law:
  "keeps_law (module_direction H dumps nmos_bias_args ''nmos_bias'' (nmos_bias fmt)) nmos_bias_valid nmos_bias_forms"
  unfolding nmos_bias_args_def
  by (rule nmos_bias.direction_law) (simp_all add: nmos_bias_forms_def)

section \<open>The family\<close>

definition circuits_directions ::
  "(json \<Rightarrow> string) \<Rightarrow> (json \<Rightarrow> string) \<Rightarrow> (string \<Rightarrow> real \<Rightarrow> string)
   \<Rightarrow> (solver_pair, registry_error) outcome list" where
  "circuits_directions H dumps fmt =
     [module_direction H dumps divider_loaded_args ''divider_loaded'' (divider_loaded fmt),
      module_direction H dumps rc_step_args ''rc_step'' (rc_step fmt),
      module_direction H dumps rlc_resonance_args ''rlc_resonance'' (rlc_resonance fmt),
      module_direction H dumps bjt_bias_args ''bjt_bias'' (bjt_bias fmt),
      module_direction H dumps nmos_bias_args ''nmos_bias'' (nmos_bias fmt)]"

definition register_circuits ::
  "(json \<Rightarrow> string) \<Rightarrow> (json \<Rightarrow> string) \<Rightarrow> (string \<Rightarrow> real \<Rightarrow> string)
   \<Rightarrow> registry \<Rightarrow> (unit, registry_error) outcome \<times> registry" where
  "register_circuits H dumps fmt = register_family circuits_PORT_DECLS (circuits_directions H dumps fmt)"

definition circuits_laws ::
  "(json \<Rightarrow> string) \<Rightarrow> (json \<Rightarrow> string) \<Rightarrow> (string \<Rightarrow> real \<Rightarrow> string)
   \<Rightarrow> ((solver_pair, registry_error) outcome \<times> (real list \<Rightarrow> bool) \<times> (string, real list \<Rightarrow> real) dict) list" where
  "circuits_laws H dumps fmt =
     [(module_direction H dumps divider_loaded_args ''divider_loaded'' (divider_loaded fmt), divider_loaded_valid, divider_loaded_forms),
      (module_direction H dumps rc_step_args ''rc_step'' (rc_step fmt), rc_step_valid, rc_step_forms),
      (module_direction H dumps rlc_resonance_args ''rlc_resonance'' (rlc_resonance fmt), rlc_resonance_valid, rlc_resonance_forms),
      (module_direction H dumps bjt_bias_args ''bjt_bias'' (bjt_bias fmt), bjt_bias_valid, bjt_bias_forms),
      (module_direction H dumps nmos_bias_args ''nmos_bias'' (nmos_bias fmt), nmos_bias_valid, nmos_bias_forms)]"

lemma circuits_keep: "list_all (\<lambda>(d, valid, forms). keeps_law d valid forms) (circuits_laws H dumps fmt)"
  by (simp add: circuits_laws_def divider_loaded_law rc_step_law rlc_resonance_law bjt_bias_law nmos_bias_law)

end
