(* ===== verification/Lib_Statics.thy ===== *)
theory Lib_Statics
  imports Catalog Kernel_Formulas Sugar
begin

text \<open>
  Sections, cantilevers and thick cylinders (\<open>mech/closed_form.py\<close>) over the formulas of the compiled kernel.
\<close>

section \<open>Directions\<close>

definition mech_CORE_PORT_DECLS :: "port_decl list" where
  "mech_CORE_PORT_DECLS =
     [scalar_port ''mech.material.youngs_modulus'' ''Pa'',
      scalar_port ''mech.material.poisson'' ''1'',
      scalar_port ''mech.geom.cantilever.length'' ''m'',
      scalar_port ''mech.geom.cantilever.width'' ''m'',
      scalar_port ''mech.geom.cantilever.height'' ''m'',
      scalar_port ''mech.geom.cylinder.inner_radius'' ''m'',
      scalar_port ''mech.geom.cylinder.outer_radius'' ''m'',
      scalar_port ''mech.load.tip_force'' ''N'',
      scalar_port ''mech.load.internal_pressure'' ''Pa'',
      scalar_port ''mech.section.width'' ''m'',
      scalar_port ''mech.section.height'' ''m'',
      scalar_port ''mech.section.second_moment'' ''m^4'',
      scalar_port ''mech.deflection.tip'' ''m'',
      scalar_port ''mech.stress.von_mises'' ''Pa'']"

subsection \<open>\<open>rect_second_moment\<close>\<close>

definition mech_rect_second_moment_box :: "(string, interval) dict" where
  "mech_rect_second_moment_box =
     [(''mech.section.width'', ivl (1 / 10000) 1),
      (''mech.section.height'', ivl (1 / 10000) 1)]"

definition mech_rect_second_moment_ins :: "string list" where
  "mech_rect_second_moment_ins = [''mech.section.width'', ''mech.section.height'']"

definition mech_rect_second_moment_args :: build_args where
  \<open>mech_rect_second_moment_args =
     solver_args ''mech'' mech_rect_second_moment_ins
       [''mech.section.second_moment'']
       mech_rect_second_moment_box
       []
       (1 / 10 ^ 7) (AccMap [(''mech.section.second_moment'', \<lparr>eps_abs = 0, eps_rel = 0\<rparr>)])
       [\<lparr>ct_kind = ''handbook'', ct_ref = ''Gere, Mechanics of Materials 9e, App. E'', ct_note = []\<rparr>]
       ''1''\<close>

definition mech_rect_second_moment :: "(string \<Rightarrow> real \<Rightarrow> string) \<Rightarrow> inputs \<Rightarrow> raw_return" where
  \<open>mech_rect_second_moment fmt x =
    (arg x ''mech.section.width'' (\<lambda>b.
     arg x ''mech.section.height'' (\<lambda>h.
     ok_floats [(''mech.section.second_moment'', rect_second_moment (Fin b) (Fin h))])))\<close>

definition mech_CANTILEVER_CITATIONS :: "citation list" where
  \<open>mech_CANTILEVER_CITATIONS =
     [\<lparr>ct_kind = ''handbook'', ct_ref = ''Gere, Mechanics of Materials, 9th ed., Table (cantilever, concentrated load at free end)'', ct_note = ''see also Young & Budynas, Roark's Formulas for Stress and Strain, 8th ed., Table 8.1 (secondary handbook citation)''\<rparr>]\<close>

section \<open>The relation \<open>cantilever\<close>\<close>

definition mech_cantilever_bounds :: "(string, bound) dict" where
  "mech_cantilever_bounds =
     [(''mech.load.tip_force'', BPair (Fin 1) (Fin (10 ^ 6))),
      (''mech.geom.cantilever.length'', BPair (Fin (1 / 1000)) (Fin 10)),
      (''mech.material.youngs_modulus'', BPair (Fin (10 ^ 6)) (Fin (10 ^ 13))),
      (''mech.section.second_moment'', BPair (Fin (1 / 10 ^ 12)) (Fin 1)),
      (''mech.deflection.tip'', BPair (Fin (1 / 10 ^ 9)) (Fin 1))]"

definition mech_cantilever :: relation where
  "mech_cantilever =
     \<lparr>rl_namespace = ''mech'', rl_ports = [''mech.load.tip_force'', ''mech.geom.cantilever.length'', ''mech.material.youngs_modulus'', ''mech.section.second_moment'', ''mech.deflection.tip''],
      rl_domain = DomDict mech_cantilever_bounds, rl_cost = Fin (1 / 10 ^ 7), rl_version = ''1'',
      rl_citations = map CitObj mech_CANTILEVER_CITATIONS, rl_tags = [''linear_elastic'', ''small_deflection''],
      rl_tier = ''closed_form'', rl_settings = PyNone, rl_default_accuracy = AccOne EXACT, rl_directions = []\<rparr>"

definition mech_cantilever_tip_deflection :: "inputs \<Rightarrow> raw_return" where
  \<open>mech_cantilever_tip_deflection x =
    (arg x ''mech.load.tip_force'' (\<lambda>force.
     arg x ''mech.geom.cantilever.length'' (\<lambda>length.
     arg x ''mech.material.youngs_modulus'' (\<lambda>youngs_modulus.
     arg x ''mech.section.second_moment'' (\<lambda>second_moment.
     let deflection = cantilever_tip_deflection (Fin force) (Fin length) (Fin youngs_modulus) (Fin second_moment) in
     ok_floats [(''mech.deflection.tip'', deflection)])))))\<close>

definition mech_cantilever_required_youngs_modulus :: "inputs \<Rightarrow> raw_return" where
  \<open>mech_cantilever_required_youngs_modulus x =
    (arg x ''mech.load.tip_force'' (\<lambda>force.
     arg x ''mech.geom.cantilever.length'' (\<lambda>length.
     arg x ''mech.section.second_moment'' (\<lambda>second_moment.
     arg x ''mech.deflection.tip'' (\<lambda>deflection.
     let youngs_modulus = cantilever_required_youngs_modulus (Fin force) (Fin length) (Fin second_moment) (Fin deflection) in
     ok_floats [(''mech.material.youngs_modulus'', youngs_modulus)])))))\<close>

definition mech_cantilever_declared ::
  "(json \<Rightarrow> string) \<Rightarrow> (json \<Rightarrow> string) \<Rightarrow> (relation, registry_error) outcome" where
  "mech_cantilever_declared H dumps =
     (case direction H dumps ''mech.deflection.tip'' None None None True ''cantilever_tip_deflection'' (\<lambda>x _. mech_cantilever_tip_deflection x) mech_cantilever of
        (Ok _, rl) \<Rightarrow>
          (case direction H dumps ''mech.material.youngs_modulus'' None None None True ''cantilever_required_youngs_modulus'' (\<lambda>x _. mech_cantilever_required_youngs_modulus x) rl of
             (Ok _, rl') \<Rightarrow> Ok rl' | (Err e, _) \<Rightarrow> Err e | (Raise x, _) \<Rightarrow> Raise x)
      | (Err e, _) \<Rightarrow> Err e | (Raise x, _) \<Rightarrow> Raise x)"

definition mech_LAME_CITATIONS :: "citation list" where
  \<open>mech_LAME_CITATIONS =
     [\<lparr>ct_kind = ''handbook'', ct_ref = ''Budynas & Nisbett, Shigley's Mechanical Engineering Design, latest ed., Thick-Walled Cylinders section (Lame's equations)'', ct_note = []\<rparr>,
      \<lparr>ct_kind = ''handbook'', ct_ref = ''Budynas & Nisbett, Shigley's Mechanical Engineering Design, latest ed., distortion-energy (von Mises) equivalent stress definition'', ct_note = []\<rparr>]\<close>

definition mech_LAME_RATIO_MIN_GAP :: real where
  "mech_LAME_RATIO_MIN_GAP = (1 / 10 ^ 6)"

subsection \<open>\<open>bore_von_mises\<close>\<close>

definition mech_bore_von_mises_box :: "(string, interval) dict" where
  "mech_bore_von_mises_box =
     [(''mech.load.internal_pressure'', ivl 1 (10 ^ 9)),
      (''mech.geom.cylinder.inner_radius'', ivl (1 / 1000) 5),
      (''mech.geom.cylinder.outer_radius'', ivl (1 / 1000) 5)]"

definition mech_bore_von_mises_ins :: "string list" where
  "mech_bore_von_mises_ins = [''mech.load.internal_pressure'', ''mech.geom.cylinder.inner_radius'', ''mech.geom.cylinder.outer_radius'']"

definition mech_bore_von_mises_args :: build_args where
  \<open>mech_bore_von_mises_args =
     solver_args ''mech'' mech_bore_von_mises_ins
       [''mech.stress.von_mises'']
       mech_bore_von_mises_box
       [''linear_elastic'']
       (1 / 10 ^ 7) (AccOne EXACT)
       mech_LAME_CITATIONS
       ''1''\<close>

definition mech_bore_von_mises :: "(string \<Rightarrow> real \<Rightarrow> string) \<Rightarrow> inputs \<Rightarrow> raw_return" where
  \<open>mech_bore_von_mises fmt x =
    (arg x ''mech.load.internal_pressure'' (\<lambda>pressure.
     arg x ''mech.geom.cylinder.inner_radius'' (\<lambda>inner_radius.
     arg x ''mech.geom.cylinder.outer_radius'' (\<lambda>outer_radius.
     if outer_radius - inner_radius < mech_LAME_RATIO_MIN_GAP
     then out_of_domain (''mech.geom.cylinder.outer_radius ('' @ fmt [] outer_radius @ '') must exceed mech.geom.cylinder.inner_radius ('' @ fmt [] inner_radius @ '') by at least 1e-06 m (Lame ratio -> 1 is outside this solver's effective domain)'')
     else
     let stress = bore_von_mises_stress (Fin pressure) (Fin inner_radius) (Fin outer_radius) in
     ok_floats [(''mech.stress.von_mises'', stress)]))))\<close>

section \<open>What the directions compute\<close>

text \<open>The equivalent stress at the bore of a thick cylinder under internal pressure.\<close>

definition hoop :: "real \<Rightarrow> real \<Rightarrow> real \<Rightarrow> real" where
  "hoop p a b = p * (a ^ 2 + b ^ 2) / (b ^ 2 - a ^ 2)"

definition bore_stress :: "real \<Rightarrow> real \<Rightarrow> real \<Rightarrow> real" where
  "bore_stress p a b = sqrt (((hoop p a b + p) ^ 2 + p ^ 2 + hoop p a b ^ 2) / 2)"

lemma hoop_wall:
  fixes a b :: real
  assumes "0 < a" "a < b"
  shows "0 < b ^ 2 - a ^ 2"
  using power_strict_mono [of a b 2] assms by simp

lemma bore_kernel:
  assumes "0 < a" "a < b"
  shows "bore_von_mises_stress (Fin p) (Fin a) (Fin b) = Fin (bore_stress p a b)"
proof -
  have "lame_hoop_stress_bore (Fin p) (Fin a) (Fin b) = Fin (hoop p a b)"
    using hoop_wall [OF assms] by (simp add: lame_hoop_stress_bore_def hoop_def)
  then show ?thesis
    by (simp add: bore_von_mises_stress_def lame_radial_stress_bore_def von_mises_principal_def bore_stress_def Let_def)
qed

lemma bore_stress_mono:
  assumes "0 \<le> p" "p \<le> q" "0 \<le> hoop p a b" "hoop p a b \<le> hoop q c d"
  shows "bore_stress p a b \<le> bore_stress q c d"
  unfolding bore_stress_def using assms by (intro real_sqrt_le_mono divide_right_mono add_mono power_mono) auto

lemma hoop_nonneg: "0 \<le> p \<Longrightarrow> 0 < a \<Longrightarrow> a < b \<Longrightarrow> 0 \<le> hoop p a b"
  unfolding hoop_def using hoop_wall [of a b] by simp

lemma hoop_mono:
  assumes "0 \<le> p" "p \<le> q" "0 < a" "a \<le> c" "c < d" "d \<le> b"
  shows "hoop p a b \<le> hoop q c d"
proof -
  have w: "0 < b ^ 2 - a ^ 2" "0 < d ^ 2 - c ^ 2" using assms hoop_wall by auto
  have ab: "a ^ 2 \<le> c ^ 2" "d ^ 2 \<le> b ^ 2" using assms by (simp_all add: power_mono)
  have share: "hoop r x y = r * (1 + 2 * x ^ 2 / (y ^ 2 - x ^ 2))" if "0 < y ^ 2 - x ^ 2" for r x y
    using that by (simp add: hoop_def field_simps)
  have "2 * a ^ 2 / (b ^ 2 - a ^ 2) \<le> 2 * c ^ 2 / (d ^ 2 - c ^ 2)"
    using ab w by (intro frac_le) auto
  then show ?thesis
    unfolding share [OF w(1)] share [OF w(2)] using assms(1,2) w by (intro mult_mono) auto
qed

lemma swings_bore:
  "(\<And>v. iv_contains iv v \<Longrightarrow> 0 \<le> v) \<Longrightarrow> 0 < a \<Longrightarrow> a < b \<Longrightarrow> swings iv (\<lambda>v. bore_stress v a b)"
  "(\<And>v. iv_contains iv v \<Longrightarrow> 0 < v \<and> v < b) \<Longrightarrow> 0 \<le> p \<Longrightarrow> swings iv (\<lambda>v. bore_stress p v b)"
  "(\<And>v. iv_contains iv v \<Longrightarrow> a < v) \<Longrightarrow> 0 \<le> p \<Longrightarrow> 0 < a \<Longrightarrow> swings iv (\<lambda>v. bore_stress p a v)"
proof -
  show "swings iv (\<lambda>v. bore_stress v a b)" if "\<And>v. iv_contains iv v \<Longrightarrow> 0 \<le> v" "0 < a" "a < b"
    using that by (intro rises_swings risesI bore_stress_mono hoop_nonneg hoop_mono) auto
  show "swings iv (\<lambda>v. bore_stress p v b)" if "\<And>v. iv_contains iv v \<Longrightarrow> 0 < v \<and> v < b" "0 \<le> p"
    using that by (intro rises_swings risesI bore_stress_mono hoop_nonneg hoop_mono) auto
  show "swings iv (\<lambda>v. bore_stress p a v)" if "\<And>v. iv_contains iv v \<Longrightarrow> a < v" "0 \<le> p" "0 < a"
    using that by (intro falls_swings fallsI bore_stress_mono hoop_nonneg hoop_mono) auto
qed

subsection \<open>\<open>rect_second_moment\<close>\<close>

definition mech_rect_second_moment_valid :: "real list \<Rightarrow> bool" where
  "mech_rect_second_moment_valid vs \<longleftrightarrow> True"

definition mech_rect_second_moment_forms :: "(string, real list \<Rightarrow> real) dict" where
  "mech_rect_second_moment_forms =
     [(''mech.section.second_moment'', \<lambda>vs. (vs ! 0) * (vs ! 1) ^ 3 / 12)]"

lemma mech_rect_second_moment_answers: "computes (mech_rect_second_moment fmt) mech_rect_second_moment_ins mech_rect_second_moment_box mech_rect_second_moment_valid mech_rect_second_moment_forms"
  by (rule computes_kernelI [where ok = "\<lambda>vs. True" and vals = "\<lambda>vs. [(''mech.section.second_moment'', rect_second_moment (Fin (vs ! 0)) (Fin (vs ! 1)))]"])
    (auto simp: mech_rect_second_moment_def mech_rect_second_moment_ins_def mech_rect_second_moment_box_def mech_rect_second_moment_valid_def mech_rect_second_moment_forms_def answer_simps reads_Nil reads_Cons Let_def
      ranges_of_def in_ranges_Cons rect_second_moment_def mech_LAME_RATIO_MIN_GAP_def)

lemma mech_rect_second_moment_total: "in_ranges (ranges_of mech_rect_second_moment_ins mech_rect_second_moment_box) vs \<Longrightarrow> mech_rect_second_moment_valid vs"
  by (auto simp: mech_rect_second_moment_ins_def mech_rect_second_moment_box_def mech_rect_second_moment_valid_def ranges_of_def in_ranges_Cons mech_LAME_RATIO_MIN_GAP_def)

lemma mech_rect_second_moment_slices: "f \<in> snd ` set mech_rect_second_moment_forms \<Longrightarrow> slice_monotone (ranges_of mech_rect_second_moment_ins mech_rect_second_moment_box) f"
  by (auto simp: mech_rect_second_moment_forms_def mech_rect_second_moment_ins_def mech_rect_second_moment_box_def ranges_of_def mech_LAME_RATIO_MIN_GAP_def  intro!: slice_monotone_2 swing)

interpretation mech_rect_second_moment: total_solver mech_rect_second_moment_ins mech_rect_second_moment_box mech_rect_second_moment_valid mech_rect_second_moment_forms "mech_rect_second_moment fmt" for fmt
  by unfold_locales (rule mech_rect_second_moment_answers | erule mech_rect_second_moment_total mech_rect_second_moment_slices | simp add: ports_ok_def dict_ok_def mech_rect_second_moment_ins_def mech_rect_second_moment_box_def)+

lemma mech_rect_second_moment_law:
  "keeps_law (module_direction H dumps mech_rect_second_moment_args ''rect_second_moment'' (mech_rect_second_moment fmt)) mech_rect_second_moment_valid mech_rect_second_moment_forms"
  unfolding mech_rect_second_moment_args_def
  by (rule mech_rect_second_moment.direction_law) (simp_all add: mech_rect_second_moment_forms_def coerce_accuracy_def acc_valid_def)

subsection \<open>\<open>bore_von_mises\<close>\<close>

definition mech_bore_von_mises_valid :: "real list \<Rightarrow> bool" where
  "mech_bore_von_mises_valid vs \<longleftrightarrow> mech_LAME_RATIO_MIN_GAP \<le> vs ! 2 - vs ! 1"

definition mech_bore_von_mises_forms :: "(string, real list \<Rightarrow> real) dict" where
  "mech_bore_von_mises_forms =
     [(''mech.stress.von_mises'', \<lambda>vs. bore_stress (vs ! 0) (vs ! 1) (vs ! 2))]"

lemma mech_bore_von_mises_answers: "computes (mech_bore_von_mises fmt) mech_bore_von_mises_ins mech_bore_von_mises_box mech_bore_von_mises_valid mech_bore_von_mises_forms"
  by (rule computes_kernelI [where ok = "\<lambda>vs. \<not> ((vs ! 2) - (vs ! 1) < mech_LAME_RATIO_MIN_GAP)" and vals = "\<lambda>vs. [(''mech.stress.von_mises'', (bore_von_mises_stress (Fin (vs ! 0)) (Fin (vs ! 1)) (Fin (vs ! 2))))]"])
    (auto simp: mech_bore_von_mises_def mech_bore_von_mises_ins_def mech_bore_von_mises_box_def mech_bore_von_mises_valid_def mech_bore_von_mises_forms_def answer_simps reads_Nil reads_Cons Let_def
      ranges_of_def in_ranges_Cons  mech_LAME_RATIO_MIN_GAP_def bore_kernel)

lemma mech_bore_von_mises_inside:
  assumes "list_all2 is_subset ivs (ranges_of mech_bore_von_mises_ins mech_bore_von_mises_box)"
    "\<forall>vs. at_ends ivs vs \<longrightarrow> mech_bore_von_mises_valid vs" "in_ranges ivs vs"
  shows "mech_bore_von_mises_valid vs"
  proof -
  have r: "in_ranges (ranges_of mech_bore_von_mises_ins mech_bore_von_mises_box) vs" using assms(1,3) by (rule in_ranges_subset)
  have s0: "slice_monotone ivs (\<lambda>vs. (vs ! 2 - vs ! 1) - (mech_LAME_RATIO_MIN_GAP))"
    by (rule slice_monotone_subset [OF assms(1)])
      (auto simp: mech_bore_von_mises_ins_def mech_bore_von_mises_box_def ranges_of_def mech_LAME_RATIO_MIN_GAP_def intro!: slice_monotone_3 swing swings_bore)
  have g0: "0 \<le> (vs ! 2 - vs ! 1) - (mech_LAME_RATIO_MIN_GAP)"
    by (rule corners_pass_le [OF s0 assms(3)]) (use assms(2) in \<open>simp add: mech_bore_von_mises_valid_def\<close>)
  show ?thesis
    using r g0 by (auto simp: mech_bore_von_mises_valid_def mech_bore_von_mises_ins_def mech_bore_von_mises_box_def ranges_of_def in_ranges_Cons mech_LAME_RATIO_MIN_GAP_def)
qed

lemma mech_bore_von_mises_slices:
  assumes "list_all2 is_subset ivs (ranges_of mech_bore_von_mises_ins mech_bore_von_mises_box)" "\<forall>vs. in_ranges ivs vs \<longrightarrow> mech_bore_von_mises_valid vs"
  shows "\<forall>f \<in> snd ` set mech_bore_von_mises_forms. slice_monotone ivs f"
  proof -
  obtain i1 i2 i3 where ivs: "ivs = [i1, i2, i3]"
    using assms(1) by (auto simp: mech_bore_von_mises_ins_def ranges_of_def list_all2_Cons2)
  have facts: "0 \<le> p \<and> 0 < a \<and> a < b" if "iv_contains i1 p" "iv_contains i2 a" "iv_contains i3 b" for p a b
  proof -
    have "mech_bore_von_mises_valid [p, a, b]" using assms(2) that by (simp add: ivs)
    moreover have "in_ranges (ranges_of mech_bore_von_mises_ins mech_bore_von_mises_box) [p, a, b]"
      using in_ranges_subset [OF assms(1)] that by (simp add: ivs)
    ultimately show ?thesis
      by (simp add: mech_bore_von_mises_valid_def mech_bore_von_mises_ins_def mech_bore_von_mises_box_def
          ranges_of_def mech_LAME_RATIO_MIN_GAP_def)
  qed
  have "slice_monotone ivs (\<lambda>vs. bore_stress (vs ! 0) (vs ! 1) (vs ! 2))"
    unfolding ivs
  proof (rule slice_monotone_3)
    fix a b assume ab: "iv_contains i2 a" "iv_contains i3 b"
    show "swings i1 (\<lambda>v. bore_stress ([v, a, b] ! 0) ([v, a, b] ! 1) ([v, a, b] ! 2))"
    proof (cases "\<exists>p. iv_contains i1 p")
      case True
      then show ?thesis using facts [OF _ ab] by (auto intro!: swings_bore)
    qed (simp add: swings_def rises_def)
  next
    fix p b assume pb: "iv_contains i1 p" "iv_contains i3 b"
    show "swings i2 (\<lambda>v. bore_stress ([p, v, b] ! 0) ([p, v, b] ! 1) ([p, v, b] ! 2))"
    proof (cases "\<exists>a. iv_contains i2 a")
      case True
      then show ?thesis using facts [OF pb(1) _ pb(2)] by (auto intro!: swings_bore)
    qed (simp add: swings_def rises_def)
  next
    fix p a assume pa: "iv_contains i1 p" "iv_contains i2 a"
    show "swings i3 (\<lambda>v. bore_stress ([p, a, v] ! 0) ([p, a, v] ! 1) ([p, a, v] ! 2))"
    proof (cases "\<exists>b. iv_contains i3 b")
      case True
      then show ?thesis using facts [OF pa] by (auto intro!: swings_bore)
    qed (simp add: swings_def rises_def)
  qed
  then show ?thesis by (simp add: mech_bore_von_mises_forms_def)
qed

interpretation mech_bore_von_mises: formula_solver mech_bore_von_mises_ins mech_bore_von_mises_box mech_bore_von_mises_valid mech_bore_von_mises_forms "mech_bore_von_mises fmt" for fmt
  by unfold_locales (rule mech_bore_von_mises_answers | rule mech_bore_von_mises_inside mech_bore_von_mises_slices, assumption+ | simp add: ports_ok_def dict_ok_def mech_bore_von_mises_ins_def mech_bore_von_mises_box_def)+

lemma mech_bore_von_mises_law:
  "keeps_law (module_direction H dumps mech_bore_von_mises_args ''bore_von_mises'' (mech_bore_von_mises fmt)) mech_bore_von_mises_valid mech_bore_von_mises_forms"
  unfolding mech_bore_von_mises_args_def
  by (rule mech_bore_von_mises.direction_law) (simp_all add: mech_bore_von_mises_forms_def)

definition statics_laws ::
  "(json \<Rightarrow> string) \<Rightarrow> (json \<Rightarrow> string) \<Rightarrow> (string \<Rightarrow> real \<Rightarrow> string)
   \<Rightarrow> ((solver_pair, registry_error) outcome \<times> (real list \<Rightarrow> bool) \<times> (string, real list \<Rightarrow> real) dict) list" where
  "statics_laws H dumps fmt =
     [(module_direction H dumps mech_rect_second_moment_args ''rect_second_moment'' (mech_rect_second_moment fmt), mech_rect_second_moment_valid, mech_rect_second_moment_forms),
      (module_direction H dumps mech_bore_von_mises_args ''bore_von_mises'' (mech_bore_von_mises fmt), mech_bore_von_mises_valid, mech_bore_von_mises_forms)]"

lemma statics_keep: "list_all (\<lambda>(d, valid, forms). keeps_law d valid forms) (statics_laws H dumps fmt)"
  by (simp add: statics_laws_def mech_rect_second_moment_law mech_bore_von_mises_law)

section \<open>The family\<close>

definition declare_core_ports :: "registry \<Rightarrow> (unit, registry_error) outcome \<times> registry" where
  "declare_core_ports r = (case declare_ports mech_CORE_PORT_DECLS r of (res, r') \<Rightarrow> (danger_ok res, r'))"

definition register_mech ::
  "(json \<Rightarrow> string) \<Rightarrow> (json \<Rightarrow> string) \<Rightarrow> (string \<Rightarrow> real \<Rightarrow> string)
   \<Rightarrow> registry \<Rightarrow> (unit, registry_error) outcome \<times> registry" where
  "register_mech H dumps fmt r =
     (case declare_core_ports r of
        (Ok _, r1) \<Rightarrow>
          (case register_each [module_direction H dumps mech_rect_second_moment_args ''rect_second_moment'' (mech_rect_second_moment fmt)] r1 of
             (Ok _, r2) \<Rightarrow>
               (case mech_cantilever_declared H dumps of
                  Ok rl \<Rightarrow>
                    (case relation_register rl r2 of
                       (res, r3) \<Rightarrow>
                         (case danger_ok res of
                            Ok _ \<Rightarrow> register_each [module_direction H dumps mech_bore_von_mises_args ''bore_von_mises'' (mech_bore_von_mises fmt)] r3
                          | Err e \<Rightarrow> (Err e, r3) | Raise ex \<Rightarrow> (Raise ex, r3)))
                | Err e \<Rightarrow> (Err e, r2) | Raise ex \<Rightarrow> (Raise ex, r2))
           | (Err e, r2) \<Rightarrow> (Err e, r2) | (Raise ex, r2) \<Rightarrow> (Raise ex, r2))
      | (Err e, r1) \<Rightarrow> (Err e, r1) | (Raise ex, r1) \<Rightarrow> (Raise ex, r1))"

end
