(* ===== verification/Lib_Fatigue.thy ===== *)
theory Lib_Fatigue
  imports Catalog
begin

text \<open>
  Fatigue of steels: Marin factors, Goodman and Gerber criteria, S-N life
  (\<open>mech/fatigue.py\<close>).
\<close>

section \<open>Directions\<close>

definition KC_BENDING :: real where
  "KC_BENDING = 1"

definition KC_AXIAL :: real where
  "KC_AXIAL = (85 / 100)"

definition KC_TORSION :: real where
  "KC_TORSION = (59 / 100)"

definition BASELINE_CITATIONS :: "citation list" where
  \<open>BASELINE_CITATIONS =
     [\<lparr>ct_kind = ''handbook'', ct_ref = ''Shigley's Mechanical Engineering Design, 11th ed., ch. 6 eq. 6-8 (Se' = 0.5*Sut for steel, Sut <= 1400 MPa; docs/benchmarks-memo.md sec. 14.1)'', ct_note = ''The Sut > 1400 MPa plateau branch (Se' = 700 MPa) is a named cut -- no worked case in the calibrated example exercises it (WO-24 deliverable 4, honesty over reach).''\<rparr>]\<close>

definition SUT_MAX_CALIBRATED_PA :: real where
  "SUT_MAX_CALIBRATED_PA = (14 * 10 ^ 8)"

subsection \<open>\<open>fatigue_endurance_limit_baseline\<close>\<close>

definition fatigue_endurance_limit_baseline_box :: "(string, interval) dict" where
  "fatigue_endurance_limit_baseline_box =
     [(''mech.fatigue.baseline.sut'', ivl (2 * 10 ^ 8) (14 * 10 ^ 8))]"

definition fatigue_endurance_limit_baseline_ins :: "string list" where
  "fatigue_endurance_limit_baseline_ins = [''mech.fatigue.baseline.sut'']"

definition fatigue_endurance_limit_baseline_args :: build_args where
  \<open>fatigue_endurance_limit_baseline_args =
     solver_args ''mech.fatigue'' fatigue_endurance_limit_baseline_ins
       [''mech.fatigue.baseline.se_prime'']
       fatigue_endurance_limit_baseline_box
       [''hcf'', ''steel'']
       (1 / 10 ^ 7) (AccOne EXACT)
       BASELINE_CITATIONS
       ''1''\<close>

definition fatigue_endurance_limit_baseline :: "(string \<Rightarrow> real \<Rightarrow> string) \<Rightarrow> inputs \<Rightarrow> raw_return" where
  \<open>fatigue_endurance_limit_baseline fmt x =
    (arg x ''mech.fatigue.baseline.sut'' (\<lambda>sut.
     if sut \<le> 0
     then out_of_domain (''fatigue baseline: non-positive sut='' @ fmt ''r'' sut)
     else
     ok_values [(''mech.fatigue.baseline.se_prime'', (5 / 10) * sut)]))\<close>

definition SURFACE_CITATIONS :: "citation list" where
  \<open>SURFACE_CITATIONS =
     [\<lparr>ct_kind = ''handbook'', ct_ref = ''Shigley's Mechanical Engineering Design, 11th ed., ch. 6 Table 6-2 (surface-condition Marin factor, ka = a*Sut^b, Sut in MPa; docs/benchmarks-memo.md sec. 14.2)'', ct_note = ([CHR 0x60] @ ''a'' @ [CHR 0x60] @ ''/'' @ [CHR 0x60] @ ''b'' @ [CHR 0x60] @ '' are CALLER-SUPPLIED (not a baked lookup table) -- only the machined/cold-drawn row (a=4.51, b=-0.265) is independently calibrated this dispatch; a caller wanting another Table 6-2 row supplies its own a/b at their own citation risk (WO-24 deliverable 4 scope).'')\<rparr>]\<close>

subsection \<open>\<open>fatigue_marin_surface_factor\<close>\<close>

definition fatigue_marin_surface_factor_box :: "(string, interval) dict" where
  "fatigue_marin_surface_factor_box =
     [(''mech.fatigue.surface.sut_mpa'', ivl 200 2000),
      (''mech.fatigue.surface.coeff_a'', ivl (5 / 10) 300),
      (''mech.fatigue.surface.exponent_b'', ivl (- (15 / 10)) 0)]"

definition fatigue_marin_surface_factor_ins :: "string list" where
  "fatigue_marin_surface_factor_ins = [''mech.fatigue.surface.sut_mpa'', ''mech.fatigue.surface.coeff_a'', ''mech.fatigue.surface.exponent_b'']"

definition fatigue_marin_surface_factor_args :: build_args where
  \<open>fatigue_marin_surface_factor_args =
     solver_args ''mech.fatigue'' fatigue_marin_surface_factor_ins
       [''mech.fatigue.surface.ka'']
       fatigue_marin_surface_factor_box
       [''steel'']
       (1 / 10 ^ 7) (AccOne EXACT)
       SURFACE_CITATIONS
       ''1''\<close>

definition fatigue_marin_surface_factor :: "(string \<Rightarrow> real \<Rightarrow> string) \<Rightarrow> inputs \<Rightarrow> raw_return" where
  \<open>fatigue_marin_surface_factor fmt x =
    (arg x ''mech.fatigue.surface.sut_mpa'' (\<lambda>sut_mpa.
     arg x ''mech.fatigue.surface.coeff_a'' (\<lambda>a.
     arg x ''mech.fatigue.surface.exponent_b'' (\<lambda>b.
     if sut_mpa \<le> 0 \<or> a \<le> 0
     then out_of_domain (''Marin surface factor: non-positive sut_mpa='' @ fmt ''r'' sut_mpa @ '' or coeff_a='' @ fmt ''r'' a)
     else
     py_pow sut_mpa b (\<lambda>t4.
     let ka = a * t4 in
     ok_values [(''mech.fatigue.surface.ka'', ka)])))))\<close>

definition MARIN_CITATIONS :: "citation list" where
  \<open>MARIN_CITATIONS =
     [\<lparr>ct_kind = ''handbook'', ct_ref = ''Shigley's Mechanical Engineering Design, 11th ed., ch. 6 eq. 6-18 (Se = ka*kb*kc*kd*ke*Se', the Marin-modified endurance limit; docs/benchmarks-memo.md sec. 14.3). Load-type kc per sec. 6-9: 1.0 bending, 0.85 axial, 0.59 torsion (code constants, KC_BENDING/KC_AXIAL/KC_TORSION module attributes).'', ct_note = ''kb (size), kd (temperature), ke (reliability) are CALLER-SUPPLIED numeric factors -- each needs its own citation surface (Table 6-3 geometry catalog, eq. 6-27 quartic fit, Table 6-5 z-score table respectively), not derived here (named cuts, WO-24 deliverable 4 scope).''\<rparr>]\<close>

subsection \<open>\<open>fatigue_marin_endurance_limit\<close>\<close>

definition fatigue_marin_endurance_limit_box :: "(string, interval) dict" where
  "fatigue_marin_endurance_limit_box =
     [(''mech.fatigue.marin.se_prime'', ivl (10 ^ 7) (7 * 10 ^ 8)),
      (''mech.fatigue.marin.ka'', ivl (1 / 100) (15 / 10)),
      (''mech.fatigue.marin.kb'', ivl (1 / 100) (15 / 10)),
      (''mech.fatigue.marin.kc'', ivl (1 / 10) 1),
      (''mech.fatigue.marin.kd'', ivl (1 / 100) (15 / 10)),
      (''mech.fatigue.marin.ke'', ivl (1 / 100) (15 / 10))]"

definition fatigue_marin_endurance_limit_ins :: "string list" where
  "fatigue_marin_endurance_limit_ins = [''mech.fatigue.marin.se_prime'', ''mech.fatigue.marin.ka'', ''mech.fatigue.marin.kb'', ''mech.fatigue.marin.kc'', ''mech.fatigue.marin.kd'', ''mech.fatigue.marin.ke'']"

definition fatigue_marin_endurance_limit_args :: build_args where
  \<open>fatigue_marin_endurance_limit_args =
     solver_args ''mech.fatigue'' fatigue_marin_endurance_limit_ins
       [''mech.fatigue.marin.se'']
       fatigue_marin_endurance_limit_box
       [''hcf'', ''steel'']
       (1 / 10 ^ 7) (AccOne EXACT)
       MARIN_CITATIONS
       ''1''\<close>

definition fatigue_marin_endurance_limit :: "(string \<Rightarrow> real \<Rightarrow> string) \<Rightarrow> inputs \<Rightarrow> raw_return" where
  \<open>fatigue_marin_endurance_limit fmt x =
    (arg x ''mech.fatigue.marin.se_prime'' (\<lambda>se_prime.
     arg x ''mech.fatigue.marin.ka'' (\<lambda>ka.
     arg x ''mech.fatigue.marin.kb'' (\<lambda>kb.
     arg x ''mech.fatigue.marin.kc'' (\<lambda>kc.
     arg x ''mech.fatigue.marin.kd'' (\<lambda>kd.
     arg x ''mech.fatigue.marin.ke'' (\<lambda>ke.
     if se_prime \<le> 0 \<or> ka \<le> 0 \<or> kb \<le> 0 \<or> kc \<le> 0 \<or> kd \<le> 0 \<or> ke \<le> 0
     then out_of_domain (''Marin endurance limit: non-positive se_prime='' @ fmt ''r'' se_prime @ '', ka='' @ fmt ''r'' ka @ '', kb='' @ fmt ''r'' kb @ '', kc='' @ fmt ''r'' kc @ '', kd='' @ fmt ''r'' kd @ '', or ke='' @ fmt ''r'' ke)
     else
     let se = ka * kb * kc * kd * ke * se_prime in
     ok_values [(''mech.fatigue.marin.se'', se)])))))))\<close>

definition GOODMAN_CITATIONS :: "citation list" where
  \<open>GOODMAN_CITATIONS =
     [\<lparr>ct_kind = ''handbook'', ct_ref = (''Shigley's Mechanical Engineering Design, 11th ed., ch. 6 eq. 6-46 (modified-Goodman fatigue line, the r >= r_crit '' @ [CHR 0x22] @ ''fatigue governs'' @ [CHR 0x22] @ '' branch: Sa = r*Se*Sut/(r*Sut+Se), Sm = Sa/r, nf = 1/(sigma_a/Se + sigma_m/Sut); docs/benchmarks-memo.md sec. 14.4, Example 6-12)''), ct_note = ''The complementary r < r_crit STATIC-YIELDING branch (needs Sy and r_crit) is a named cut -- compose this direction's Se with member_capacity.py's yield forms instead. Kf (fatigue stress concentration) is NOT applied here -- CALLER pre-multiplies sigma_a/sigma_m by Kf before calling (Neuber/notch-sensitivity is its own citation surface, named cut, WO-24 deliverable 4 scope).''\<rparr>]\<close>

subsection \<open>\<open>fatigue_goodman_factor_of_safety\<close>\<close>

definition fatigue_goodman_factor_of_safety_box :: "(string, interval) dict" where
  "fatigue_goodman_factor_of_safety_box =
     [(''mech.fatigue.goodman.se'', ivl (10 ^ 7) (7 * 10 ^ 8)),
      (''mech.fatigue.goodman.sut'', ivl (2 * 10 ^ 8) (2 * 10 ^ 9)),
      (''mech.fatigue.goodman.sigma_a'', ivl 100000 (10 ^ 9)),
      (''mech.fatigue.goodman.sigma_m'', ivl 100000 (10 ^ 9))]"

definition fatigue_goodman_factor_of_safety_ins :: "string list" where
  "fatigue_goodman_factor_of_safety_ins = [''mech.fatigue.goodman.se'', ''mech.fatigue.goodman.sut'', ''mech.fatigue.goodman.sigma_a'', ''mech.fatigue.goodman.sigma_m'']"

definition fatigue_goodman_factor_of_safety_args :: build_args where
  \<open>fatigue_goodman_factor_of_safety_args =
     solver_args ''mech.fatigue'' fatigue_goodman_factor_of_safety_ins
       [''mech.fatigue.goodman.sa_limit'', ''mech.fatigue.goodman.sm_limit'', ''mech.fatigue.goodman.factor_of_safety'']
       fatigue_goodman_factor_of_safety_box
       [''fatigue_governs'', ''hcf'', ''steel'']
       (1 / 10 ^ 7) (AccOne EXACT)
       GOODMAN_CITATIONS
       ''1''\<close>

definition fatigue_goodman_factor_of_safety :: "(string \<Rightarrow> real \<Rightarrow> string) \<Rightarrow> inputs \<Rightarrow> raw_return" where
  \<open>fatigue_goodman_factor_of_safety fmt x =
    (arg x ''mech.fatigue.goodman.se'' (\<lambda>se.
     arg x ''mech.fatigue.goodman.sut'' (\<lambda>sut.
     arg x ''mech.fatigue.goodman.sigma_a'' (\<lambda>sigma_a.
     arg x ''mech.fatigue.goodman.sigma_m'' (\<lambda>sigma_m.
     if se \<le> 0 \<or> sut \<le> 0 \<or> sigma_a \<le> 0 \<or> sigma_m < 0
     then out_of_domain (''Goodman: non-positive se='' @ fmt ''r'' se @ '', sut='' @ fmt ''r'' sut @ '', sigma_a='' @ fmt ''r'' sigma_a @ '', or negative sigma_m='' @ fmt ''r'' sigma_m)
     else
     if sigma_m = 0
     then (py_div se sigma_a (\<lambda>t5.
         ok_values [(''mech.fatigue.goodman.sa_limit'', se), (''mech.fatigue.goodman.sm_limit'', 0), (''mech.fatigue.goodman.factor_of_safety'', t5)]))
     else
     py_div sigma_a sigma_m (\<lambda>r.
     py_div (r * se * sut) (r * sut + se) (\<lambda>sa_limit.
     py_div sa_limit r (\<lambda>sm_limit.
     py_div sigma_a se (\<lambda>t9.
     py_div sigma_m sut (\<lambda>t10.
     py_div 1 (t9 + t10) (\<lambda>nf.
     ok_values [(''mech.fatigue.goodman.sa_limit'', sa_limit), (''mech.fatigue.goodman.sm_limit'', sm_limit), (''mech.fatigue.goodman.factor_of_safety'', nf)])))))))))))\<close>

definition GERBER_CITATIONS :: "citation list" where
  \<open>GERBER_CITATIONS =
     [\<lparr>ct_kind = ''handbook'', ct_ref = ''Shigley's Mechanical Engineering Design, 11th ed., ch. 6 Table 6-7 / eq. 6-48 (the Gerber parabolic mean-stress fatigue criterion factor of safety: nf = 0.5*(Sut/sigma_m)^2*(sigma_a/Se)*(-1 + sqrt(1 + (2*sigma_m*Se/(Sut*sigma_a))^2)); docs/benchmarks-memo.md sec. 18)'', ct_note = ''Same scope caveats as the modified-Goodman direction: STEEL, HCF, Kf pre-applied by the caller, fatigue-governs region only. Gerber is the LESS conservative parabolic fit (nf_Gerber >= nf_Goodman for the same stresses -- the calibration test asserts that published relationship as an independent check). sigma_m<=0 (pure alternating) degenerates to nf = Se/sigma_a, identical to the Goodman limit (both criteria share the sigma_m=0 endpoint).''\<rparr>]\<close>

subsection \<open>\<open>fatigue_gerber_factor_of_safety\<close>\<close>

definition fatigue_gerber_factor_of_safety_box :: "(string, interval) dict" where
  "fatigue_gerber_factor_of_safety_box =
     [(''mech.fatigue.gerber.se'', ivl (10 ^ 7) (7 * 10 ^ 8)),
      (''mech.fatigue.gerber.sut'', ivl (2 * 10 ^ 8) (2 * 10 ^ 9)),
      (''mech.fatigue.gerber.sigma_a'', ivl 100000 (10 ^ 9)),
      (''mech.fatigue.gerber.sigma_m'', ivl 100000 (10 ^ 9))]"

definition fatigue_gerber_factor_of_safety_ins :: "string list" where
  "fatigue_gerber_factor_of_safety_ins = [''mech.fatigue.gerber.se'', ''mech.fatigue.gerber.sut'', ''mech.fatigue.gerber.sigma_a'', ''mech.fatigue.gerber.sigma_m'']"

definition fatigue_gerber_factor_of_safety_args :: build_args where
  \<open>fatigue_gerber_factor_of_safety_args =
     solver_args ''mech.fatigue'' fatigue_gerber_factor_of_safety_ins
       [''mech.fatigue.gerber.factor_of_safety'']
       fatigue_gerber_factor_of_safety_box
       [''fatigue_governs'', ''hcf'', ''steel'']
       (1 / 10 ^ 7) (AccOne EXACT)
       GERBER_CITATIONS
       ''1''\<close>

definition fatigue_gerber_factor_of_safety :: "(string \<Rightarrow> real \<Rightarrow> string) \<Rightarrow> inputs \<Rightarrow> raw_return" where
  \<open>fatigue_gerber_factor_of_safety fmt x =
    (arg x ''mech.fatigue.gerber.se'' (\<lambda>se.
     arg x ''mech.fatigue.gerber.sut'' (\<lambda>sut.
     arg x ''mech.fatigue.gerber.sigma_a'' (\<lambda>sigma_a.
     arg x ''mech.fatigue.gerber.sigma_m'' (\<lambda>sigma_m.
     if se \<le> 0 \<or> sut \<le> 0 \<or> sigma_a \<le> 0 \<or> sigma_m < 0
     then out_of_domain (''Gerber: non-positive se='' @ fmt ''r'' se @ '', sut='' @ fmt ''r'' sut @ '', sigma_a='' @ fmt ''r'' sigma_a @ '', or negative sigma_m='' @ fmt ''r'' sigma_m)
     else
     if sigma_m = 0
     then (py_div se sigma_a (\<lambda>t5.
         ok_values [(''mech.fatigue.gerber.factor_of_safety'', t5)]))
     else
     py_div sut sigma_m (\<lambda>t6.
     py_div sigma_a se (\<lambda>t7.
     py_div (2 * sigma_m * se) (sut * sigma_a) (\<lambda>t8.
     py_sqrt (1 + t8 ^ 2) (\<lambda>t9.
     let nf = (5 / 10) * t6 ^ 2 * t7 * ((- 1) + t9) in
     ok_values [(''mech.fatigue.gerber.factor_of_safety'', nf)])))))))))\<close>

definition SN_CITATIONS :: "citation list" where
  \<open>SN_CITATIONS =
     [\<lparr>ct_kind = ''handbook'', ct_ref = ''Shigley's Mechanical Engineering Design, 11th ed., ch. 6 eqs. 6-13/6-14 (the log-log S-N knee line through (10^3 cycles, f*Sut) and (10^6 cycles, Se): log(Sf) = b*log(N) + log(a), a = (f*Sut)^2/Se, b = -(1/3)*log10(f*Sut/Se); docs/benchmarks-memo.md sec. 20.1)'', ct_note = (''ANALYTIC SELF-CHECK (calibration-first law sec. 3.1, second path): no independently citable published worked-example NUMBER is used here (fabrication risk on a transcribed page/example number this dispatch could not verify) -- instead the closed-form algebra is checked against its OWN defining boundary conditions: substituting sigma_a = f*Sut must return N = 1e3 exactly, and sigma_a = Se must return N = 1e6 exactly, for ANY valid (Sut, Se, f) -- an identity of the two-point log-log line's own construction, verified symbolically and numerically in the calibration test (docs/benchmarks-memo.md sec. 20.1 carries the derivation and one concrete numeric instance). '' @ [CHR 0x60] @ ''f'' @ [CHR 0x60] @ '' (the Fig. 6-18-family fraction of Sut at N=10^3) is CALLER-SUPPLIED, same caller-resolved-constant seam '' @ [CHR 0x60] @ ''a'' @ [CHR 0x60] @ ''/'' @ [CHR 0x60] @ ''b'' @ [CHR 0x60] @ '' in '' @ [CHR 0x60] @ ''fatigue_marin_surface_factor'' @ [CHR 0x60] @ '' uses -- this module never bakes Fig. 6-18's own curve.'')\<rparr>]\<close>

definition SN_N_MIN :: real where
  "SN_N_MIN = 1000"

definition SN_N_MAX :: real where
  "SN_N_MAX = (10 ^ 6)"

definition SN_N_TOL :: real where
  "SN_N_TOL = (1 / 10 ^ 6)"

text \<open>The pair of S-N constants, or \<open>None\<close>.\<close>

definition sn_knee_params ::
  "real \<Rightarrow> real \<Rightarrow> real \<Rightarrow> ((real \<times> real) option \<Rightarrow> raw_return) \<Rightarrow> raw_return" where
  "sn_knee_params sut se f ret =
     (if sut \<le> 0 \<or> se \<le> 0 \<or> f \<le> 0 then ret None
      else
      let knee = f * sut in
      if knee \<le> se then ret None
      else
      py_div (knee * knee) se (\<lambda>a.
      py_div knee se (\<lambda>t1.
      py_log10 t1 (\<lambda>t2.
      let b = - (1 / 3) * t2 in
      ret (Some (a, b))))))"

definition sn_cycles_to_failure ::
  "real \<Rightarrow> real \<Rightarrow> real \<Rightarrow> (real \<Rightarrow> raw_return) \<Rightarrow> raw_return" where
  "sn_cycles_to_failure sigma_a a b ret =
     py_div sigma_a a (\<lambda>t1.
     py_div 1 b (\<lambda>t2.
     py_pow t1 t2 ret))"

subsection \<open>\<open>fatigue_sn_cycles_to_failure\<close>\<close>

definition fatigue_sn_cycles_to_failure_box :: "(string, interval) dict" where
  "fatigue_sn_cycles_to_failure_box =
     [(''mech.fatigue.sn.sigma_a'', ivl 100000 (15 * 10 ^ 8)),
      (''mech.fatigue.sn.sut'', ivl (2 * 10 ^ 8) (2 * 10 ^ 9)),
      (''mech.fatigue.sn.se'', ivl (10 ^ 7) (7 * 10 ^ 8)),
      (''mech.fatigue.sn.f'', ivl (5 / 10) (95 / 100))]"

definition fatigue_sn_cycles_to_failure_ins :: "string list" where
  "fatigue_sn_cycles_to_failure_ins = [''mech.fatigue.sn.sigma_a'', ''mech.fatigue.sn.sut'', ''mech.fatigue.sn.se'', ''mech.fatigue.sn.f'']"

definition fatigue_sn_cycles_to_failure_args :: build_args where
  \<open>fatigue_sn_cycles_to_failure_args =
     solver_args ''mech.fatigue'' fatigue_sn_cycles_to_failure_ins
       [''mech.fatigue.sn.cycles_to_failure'']
       fatigue_sn_cycles_to_failure_box
       [''hcf'', ''steel'']
       (1 / 10 ^ 7) (AccOne EXACT)
       SN_CITATIONS
       ''1''\<close>

definition fatigue_sn_cycles_to_failure :: "(string \<Rightarrow> real \<Rightarrow> string) \<Rightarrow> inputs \<Rightarrow> raw_return" where
  \<open>fatigue_sn_cycles_to_failure fmt x =
    (arg x ''mech.fatigue.sn.sigma_a'' (\<lambda>sigma_a.
     arg x ''mech.fatigue.sn.sut'' (\<lambda>sut.
     arg x ''mech.fatigue.sn.se'' (\<lambda>se.
     arg x ''mech.fatigue.sn.f'' (\<lambda>f.
     sn_knee_params sut se f (\<lambda>params.
     case (params, sigma_a \<le> 0) of
       (Some (a, b), False) \<Rightarrow>
         sn_cycles_to_failure sigma_a a b (\<lambda>n.
         if \<not> (SN_N_MIN * (1 - SN_N_TOL) \<le> n \<and> n \<le> SN_N_MAX * (1 + SN_N_TOL))
         then out_of_domain (''S-N cycles-to-failure: N='' @ fmt ''r'' n @ '' outside the knee-line's honest [1000, 1e+06] range for sigma_a='' @ fmt ''r'' sigma_a @ '' (low-cycle or Se-plateau region, not this direction's scope)'')
         else ok_values [(''mech.fatigue.sn.cycles_to_failure'', n)])
     | _ \<Rightarrow>
         out_of_domain (''S-N cycles-to-failure: non-positive/degenerate sigma_a='' @ fmt ''r'' sigma_a @ '', sut='' @ fmt ''r'' sut @ '', se='' @ fmt ''r'' se @ '', f='' @ fmt ''r'' f @ '' (need f*sut > se)'')))))))\<close>

definition MINER_CITATIONS :: "citation list" where
  \<open>MINER_CITATIONS =
     [\<lparr>ct_kind = ''handbook'', ct_ref = ''Shigley's Mechanical Engineering Design, 11th ed., ch. 6 sec. 6-16 eq. 6-58 (Miner's rule, the linear damage hypothesis: D = sum(n_i/N_i), failure at D >= 1); docs/benchmarks-memo.md sec. 20.2'', ct_note = (''ANALYTIC SELF-CHECK (calibration-first law sec. 3.1, second path, same reasoning as '' @ [CHR 0x60] @ ''fatigue_sn_cycles_to_failure'' @ [CHR 0x60] @ ''): the linear sum's own defining boundary condition -- a single block whose declared cycle count equals its own S-N life (n = N_f) must return D = 1.0 exactly -- is checked directly (docs/benchmarks-memo.md sec. 20.2). Each block's N_i comes from THIS module's own already-derived S-N line ('' @ [CHR 0x60] @ ''_sn_knee_params'' @ [CHR 0x60] @ ''/'' @ [CHR 0x60] @ ''_sn_cycles_to_failure'' @ [CHR 0x60] @ '', NO DUPLICATION); a block whose sigma_a is at or below Se is treated as infinite life (contributes zero damage), the standard Miner's-rule convention for stresses below the endurance limit -- Shigley sec. 6-16's own stated convention, not this module's invention.'')\<rparr>]\<close>

section \<open>What the directions compute\<close>

lemma arg_read: "dget x p = Some (VFloat (Fin v)) \<Longrightarrow> arg x p k = k v"
  by (simp add: arg_def)

lemma computes_read:
  assumes "\<And>x out. body_result (map fst forms) (body x) = Ok out \<Longrightarrow> \<exists>vs. reads x ins vs"
    "\<And>x vs out. reads x ins vs \<Longrightarrow> body_result (map fst forms) (body x) = Ok out \<longleftrightarrow>
       valid vs \<and> out = plain_output (map (\<lambda>(p, f). (p, Fin (f vs))) forms)"
  shows "computes body ins bx valid forms"
  unfolding computes_def using assms by simp

lemma swings_ratios:
  "(\<And>v. iv_contains iv v \<Longrightarrow> 0 < a + v * d) \<Longrightarrow> swings iv (\<lambda>v. k * v * m / (a + v * d))"
  "(\<And>v. iv_contains iv v \<Longrightarrow> 0 < a + v * d) \<Longrightarrow> swings iv (\<lambda>v. v * m * k / (a + v * d))"
  "(\<And>v. iv_contains iv v \<Longrightarrow> 0 < d * v + a) \<Longrightarrow> swings iv (\<lambda>v. k * m * v / (d * v + a))"
  "(\<And>v. iv_contains iv v \<Longrightarrow> 0 < d * v + a) \<Longrightarrow> swings iv (\<lambda>v. k * v * m / (d * v + a))"
  "(\<And>v. iv_contains iv v \<Longrightarrow> 0 < v * d + a) \<Longrightarrow> swings iv (\<lambda>v. v * k * m / (v * d + a))"
  "(\<And>v. iv_contains iv v \<Longrightarrow> 0 < a + d * v) \<Longrightarrow> swings iv (\<lambda>v. k * m * v / (a + d * v))"
  using swings_linear_fraction [OF swings_id, of iv d a "k * m" 0]
  by (simp_all add: ac_simps)

lemma gerber_form:
  assumes "0 < se" "0 < sut" "0 < a" "0 < (m :: real)"
  shows "(1 / 2) * (sut / m)\<^sup>2 * (a / se) * (- 1 + sqrt (1 + (2 * m * se / (sut * a))\<^sup>2)) =
    2 / (a / se + sqrt ((a / se)\<^sup>2 + 4 * (m / sut)\<^sup>2))"
proof -
  define A M where "A = a / se" and "M = m / sut"
  define s where "s = sqrt (1 + (2 * M / A)\<^sup>2)"
  have A: "0 < A" and M: "0 < M" using assms by (simp_all add: A_def M_def)
  have s: "s\<^sup>2 = 1 + (2 * M / A)\<^sup>2" "1 \<le> s" by (simp_all add: s_def)
  have x: "2 * m * se / (sut * a) = 2 * M / A" "sut / m = 1 / M"
    using assms by (simp_all add: A_def M_def)
  have "A\<^sup>2 + 4 * M\<^sup>2 = A\<^sup>2 * (1 + (2 * M / A)\<^sup>2)"
    using A by (simp add: power_divide power_mult_distrib distrib_left)
  then have r: "sqrt (A\<^sup>2 + 4 * M\<^sup>2) = A * s" using A by (simp add: s_def real_sqrt_mult)
  have "(s - 1) * (s + 1) = 4 * M\<^sup>2 / A\<^sup>2"
    using s(1) by (simp add: algebra_simps power2_eq_square power_divide)
  moreover have "(s - 1) * (s + 1) / (s + 1) = s - 1" using s(2) by simp
  ultimately have s1: "s - 1 = 4 * M\<^sup>2 / A\<^sup>2 / (s + 1)" by simp
  have "(1 / 2) * (1 / M)\<^sup>2 * A * (- 1 + s) = (1 / 2) * (1 / M)\<^sup>2 * A * (s - 1)" by simp
  also have "\<dots> = (1 / 2) * (1 / M)\<^sup>2 * A * (4 * M\<^sup>2 / A\<^sup>2 / (s + 1))" by (simp only: s1)
  also have "\<dots> = 2 / (A * (s + 1))" using A M by (simp add: power_divide power2_eq_square)
  also have "\<dots> = 2 / (A + A * s)" by (simp add: algebra_simps)
  finally show ?thesis unfolding x A_def [symmetric] M_def [symmetric] r s_def [symmetric] .
qed

lemma swings_gerber_amplitude:
  assumes "swings iv g" "\<And>v. iv_contains iv v \<Longrightarrow> 0 < g v"
  shows "swings iv (\<lambda>v. g v + sqrt ((g v)\<^sup>2 + k))"
  by (rule swings_mono_on [OF assms(1), where S = "{0 <..}" and h = "\<lambda>y. y + sqrt (y\<^sup>2 + k)"])
    (auto simp: mono_on_def assms(2) intro!: add_mono power_mono)

subsection \<open>\<open>fatigue_endurance_limit_baseline\<close>\<close>

definition fatigue_endurance_limit_baseline_valid :: "real list \<Rightarrow> bool" where
  "fatigue_endurance_limit_baseline_valid vs \<longleftrightarrow> 0 < vs ! 0"

definition fatigue_endurance_limit_baseline_forms :: "(string, real list \<Rightarrow> real) dict" where
  "fatigue_endurance_limit_baseline_forms =
     [(''mech.fatigue.baseline.se_prime'', \<lambda>vs. (5 / 10) * vs ! 0)]"

lemma fatigue_endurance_limit_baseline_answers: "computes (fatigue_endurance_limit_baseline fmt) fatigue_endurance_limit_baseline_ins fatigue_endurance_limit_baseline_box fatigue_endurance_limit_baseline_valid fatigue_endurance_limit_baseline_forms"
  by (rule computesI) (auto simp: fatigue_endurance_limit_baseline_def fatigue_endurance_limit_baseline_ins_def fatigue_endurance_limit_baseline_valid_def fatigue_endurance_limit_baseline_forms_def answer_simps reads_Nil reads_Cons Let_def  KC_BENDING_def KC_AXIAL_def KC_TORSION_def SUT_MAX_CALIBRATED_PA_def SN_N_MIN_def SN_N_MAX_def SN_N_TOL_def)

lemma fatigue_endurance_limit_baseline_total: "in_ranges (ranges_of fatigue_endurance_limit_baseline_ins fatigue_endurance_limit_baseline_box) vs \<Longrightarrow> fatigue_endurance_limit_baseline_valid vs"
  by (auto simp: fatigue_endurance_limit_baseline_ins_def fatigue_endurance_limit_baseline_box_def fatigue_endurance_limit_baseline_valid_def ranges_of_def in_ranges_Cons KC_BENDING_def KC_AXIAL_def KC_TORSION_def SUT_MAX_CALIBRATED_PA_def SN_N_MIN_def SN_N_MAX_def SN_N_TOL_def)

lemma fatigue_endurance_limit_baseline_slices: "f \<in> snd ` set fatigue_endurance_limit_baseline_forms \<Longrightarrow> slice_monotone (ranges_of fatigue_endurance_limit_baseline_ins fatigue_endurance_limit_baseline_box) f"
  by (auto simp: fatigue_endurance_limit_baseline_forms_def fatigue_endurance_limit_baseline_ins_def fatigue_endurance_limit_baseline_box_def ranges_of_def KC_BENDING_def KC_AXIAL_def KC_TORSION_def SUT_MAX_CALIBRATED_PA_def SN_N_MIN_def SN_N_MAX_def SN_N_TOL_def  intro!: slice_monotone_1 swing)

interpretation fatigue_endurance_limit_baseline: total_solver fatigue_endurance_limit_baseline_ins fatigue_endurance_limit_baseline_box fatigue_endurance_limit_baseline_valid fatigue_endurance_limit_baseline_forms "fatigue_endurance_limit_baseline fmt" for fmt
  by unfold_locales (rule fatigue_endurance_limit_baseline_answers | erule fatigue_endurance_limit_baseline_total fatigue_endurance_limit_baseline_slices | simp add: ports_ok_def dict_ok_def fatigue_endurance_limit_baseline_ins_def fatigue_endurance_limit_baseline_box_def)+

lemma fatigue_endurance_limit_baseline_law:
  "keeps_law (module_direction H dumps fatigue_endurance_limit_baseline_args ''fatigue_endurance_limit_baseline'' (fatigue_endurance_limit_baseline fmt)) fatigue_endurance_limit_baseline_valid fatigue_endurance_limit_baseline_forms"
  unfolding fatigue_endurance_limit_baseline_args_def
  by (rule fatigue_endurance_limit_baseline.direction_law) (simp_all add: fatigue_endurance_limit_baseline_forms_def)

subsection \<open>\<open>fatigue_marin_surface_factor\<close>\<close>

definition fatigue_marin_surface_factor_valid :: "real list \<Rightarrow> bool" where
  "fatigue_marin_surface_factor_valid vs \<longleftrightarrow> 0 < vs ! 0 \<and> 0 < vs ! 1"

definition fatigue_marin_surface_factor_forms :: "(string, real list \<Rightarrow> real) dict" where
  "fatigue_marin_surface_factor_forms =
     [(''mech.fatigue.surface.ka'', \<lambda>vs. vs ! 1 * vs ! 0 powr vs ! 2)]"

lemma fatigue_marin_surface_factor_answers: "computes (fatigue_marin_surface_factor fmt) fatigue_marin_surface_factor_ins fatigue_marin_surface_factor_box fatigue_marin_surface_factor_valid fatigue_marin_surface_factor_forms"
  by (rule computesI) (auto simp: fatigue_marin_surface_factor_def fatigue_marin_surface_factor_ins_def fatigue_marin_surface_factor_valid_def fatigue_marin_surface_factor_forms_def answer_simps reads_Nil reads_Cons Let_def  KC_BENDING_def KC_AXIAL_def KC_TORSION_def SUT_MAX_CALIBRATED_PA_def SN_N_MIN_def SN_N_MAX_def SN_N_TOL_def)

lemma fatigue_marin_surface_factor_total: "in_ranges (ranges_of fatigue_marin_surface_factor_ins fatigue_marin_surface_factor_box) vs \<Longrightarrow> fatigue_marin_surface_factor_valid vs"
  by (auto simp: fatigue_marin_surface_factor_ins_def fatigue_marin_surface_factor_box_def fatigue_marin_surface_factor_valid_def ranges_of_def in_ranges_Cons KC_BENDING_def KC_AXIAL_def KC_TORSION_def SUT_MAX_CALIBRATED_PA_def SN_N_MIN_def SN_N_MAX_def SN_N_TOL_def)

lemma fatigue_marin_surface_factor_slices: "f \<in> snd ` set fatigue_marin_surface_factor_forms \<Longrightarrow> slice_monotone (ranges_of fatigue_marin_surface_factor_ins fatigue_marin_surface_factor_box) f"
  by (auto simp: fatigue_marin_surface_factor_forms_def fatigue_marin_surface_factor_ins_def fatigue_marin_surface_factor_box_def ranges_of_def KC_BENDING_def KC_AXIAL_def KC_TORSION_def SUT_MAX_CALIBRATED_PA_def SN_N_MIN_def SN_N_MAX_def SN_N_TOL_def  intro!: slice_monotone_3 swing)

interpretation fatigue_marin_surface_factor: total_solver fatigue_marin_surface_factor_ins fatigue_marin_surface_factor_box fatigue_marin_surface_factor_valid fatigue_marin_surface_factor_forms "fatigue_marin_surface_factor fmt" for fmt
  by unfold_locales (rule fatigue_marin_surface_factor_answers | erule fatigue_marin_surface_factor_total fatigue_marin_surface_factor_slices | simp add: ports_ok_def dict_ok_def fatigue_marin_surface_factor_ins_def fatigue_marin_surface_factor_box_def)+

lemma fatigue_marin_surface_factor_law:
  "keeps_law (module_direction H dumps fatigue_marin_surface_factor_args ''fatigue_marin_surface_factor'' (fatigue_marin_surface_factor fmt)) fatigue_marin_surface_factor_valid fatigue_marin_surface_factor_forms"
  unfolding fatigue_marin_surface_factor_args_def
  by (rule fatigue_marin_surface_factor.direction_law) (simp_all add: fatigue_marin_surface_factor_forms_def)

subsection \<open>\<open>fatigue_marin_endurance_limit\<close>\<close>

definition fatigue_marin_endurance_limit_valid :: "real list \<Rightarrow> bool" where
  "fatigue_marin_endurance_limit_valid vs \<longleftrightarrow> 0 < vs ! 0 \<and> 0 < vs ! 1 \<and> 0 < vs ! 2 \<and> 0 < vs ! 3 \<and> 0 < vs ! 4 \<and> 0 < vs ! 5"

definition fatigue_marin_endurance_limit_forms :: "(string, real list \<Rightarrow> real) dict" where
  "fatigue_marin_endurance_limit_forms =
     [(''mech.fatigue.marin.se'', \<lambda>vs. vs ! 1 * vs ! 2 * vs ! 3 * vs ! 4 * vs ! 5 * vs ! 0)]"

lemma fatigue_marin_endurance_limit_answers: "computes (fatigue_marin_endurance_limit fmt) fatigue_marin_endurance_limit_ins fatigue_marin_endurance_limit_box fatigue_marin_endurance_limit_valid fatigue_marin_endurance_limit_forms"
  by (rule computesI) (auto simp: fatigue_marin_endurance_limit_def fatigue_marin_endurance_limit_ins_def fatigue_marin_endurance_limit_valid_def fatigue_marin_endurance_limit_forms_def answer_simps reads_Nil reads_Cons Let_def  KC_BENDING_def KC_AXIAL_def KC_TORSION_def SUT_MAX_CALIBRATED_PA_def SN_N_MIN_def SN_N_MAX_def SN_N_TOL_def)

lemma fatigue_marin_endurance_limit_total: "in_ranges (ranges_of fatigue_marin_endurance_limit_ins fatigue_marin_endurance_limit_box) vs \<Longrightarrow> fatigue_marin_endurance_limit_valid vs"
  by (auto simp: fatigue_marin_endurance_limit_ins_def fatigue_marin_endurance_limit_box_def fatigue_marin_endurance_limit_valid_def ranges_of_def in_ranges_Cons KC_BENDING_def KC_AXIAL_def KC_TORSION_def SUT_MAX_CALIBRATED_PA_def SN_N_MIN_def SN_N_MAX_def SN_N_TOL_def)

lemma fatigue_marin_endurance_limit_slices: "f \<in> snd ` set fatigue_marin_endurance_limit_forms \<Longrightarrow> slice_monotone (ranges_of fatigue_marin_endurance_limit_ins fatigue_marin_endurance_limit_box) f"
  by (auto simp: fatigue_marin_endurance_limit_forms_def fatigue_marin_endurance_limit_ins_def fatigue_marin_endurance_limit_box_def ranges_of_def KC_BENDING_def KC_AXIAL_def KC_TORSION_def SUT_MAX_CALIBRATED_PA_def SN_N_MIN_def SN_N_MAX_def SN_N_TOL_def  intro!: slice_monotone_6 swing)

interpretation fatigue_marin_endurance_limit: total_solver fatigue_marin_endurance_limit_ins fatigue_marin_endurance_limit_box fatigue_marin_endurance_limit_valid fatigue_marin_endurance_limit_forms "fatigue_marin_endurance_limit fmt" for fmt
  by unfold_locales (rule fatigue_marin_endurance_limit_answers | erule fatigue_marin_endurance_limit_total fatigue_marin_endurance_limit_slices | simp add: ports_ok_def dict_ok_def fatigue_marin_endurance_limit_ins_def fatigue_marin_endurance_limit_box_def)+

lemma fatigue_marin_endurance_limit_law:
  "keeps_law (module_direction H dumps fatigue_marin_endurance_limit_args ''fatigue_marin_endurance_limit'' (fatigue_marin_endurance_limit fmt)) fatigue_marin_endurance_limit_valid fatigue_marin_endurance_limit_forms"
  unfolding fatigue_marin_endurance_limit_args_def
  by (rule fatigue_marin_endurance_limit.direction_law) (simp_all add: fatigue_marin_endurance_limit_forms_def)

subsection \<open>\<open>fatigue_goodman_factor_of_safety\<close>\<close>

definition fatigue_goodman_factor_of_safety_valid :: "real list \<Rightarrow> bool" where
  "fatigue_goodman_factor_of_safety_valid vs \<longleftrightarrow> 0 < vs ! 0 \<and> 0 < vs ! 1 \<and> 0 < vs ! 2 \<and> 0 \<le> vs ! 3"

definition fatigue_goodman_factor_of_safety_forms :: "(string, real list \<Rightarrow> real) dict" where
  "fatigue_goodman_factor_of_safety_forms =
     [(''mech.fatigue.goodman.sa_limit'', \<lambda>vs. vs ! 2 * vs ! 0 * vs ! 1 / (vs ! 2 * vs ! 1 + vs ! 0 * vs ! 3)),
      (''mech.fatigue.goodman.sm_limit'', \<lambda>vs. vs ! 0 * vs ! 1 * vs ! 3 / (vs ! 2 * vs ! 1 + vs ! 0 * vs ! 3)),
      (''mech.fatigue.goodman.factor_of_safety'', \<lambda>vs. 1 / (vs ! 2 / vs ! 0 + vs ! 3 / vs ! 1))]"

lemma goodman_forms:
  assumes "0 < se" "0 < sut" "0 < a" "0 < (m :: real)"
  shows "a / m * se * sut / (a / m * sut + se) = a * se * sut / (a * sut + se * m)"
    "a / m * se * sut / (a / m * sut + se) / (a / m) = se * sut * m / (a * sut + se * m)"
    "a / m * sut + se \<noteq> 0" "a / se + m / sut \<noteq> 0"
proof -
  have d: "a / m * sut + se = (a * sut + se * m) / m" using assms by (simp add: field_simps)
  have p: "0 < a * sut + se * m" using assms by (simp add: add_pos_pos)
  show "a / m * se * sut / (a / m * sut + se) = a * se * sut / (a * sut + se * m)"
    unfolding d using assms by simp
  then show "a / m * se * sut / (a / m * sut + se) / (a / m) = se * sut * m / (a * sut + se * m)"
    using assms by simp
  show "a / m * sut + se \<noteq> 0" unfolding d using p assms(4) by simp
  have "0 < a / se + m / sut" using assms by (simp add: add_pos_pos)
  then show "a / se + m / sut \<noteq> 0" by simp
qed

lemma fatigue_goodman_factor_of_safety_answers: "computes (fatigue_goodman_factor_of_safety fmt) fatigue_goodman_factor_of_safety_ins fatigue_goodman_factor_of_safety_box fatigue_goodman_factor_of_safety_valid fatigue_goodman_factor_of_safety_forms"
  proof (rule computes_read)
  show "\<exists>vs. reads x fatigue_goodman_factor_of_safety_ins vs"
    if "body_result (map fst fatigue_goodman_factor_of_safety_forms) (fatigue_goodman_factor_of_safety fmt x) = Ok out" for x out
    using that by (auto simp: fatigue_goodman_factor_of_safety_def fatigue_goodman_factor_of_safety_ins_def
        answer_simps reads_Nil reads_Cons)
  fix x vs out assume "reads x fatigue_goodman_factor_of_safety_ins vs"
  then obtain se sut a m where vs: "vs = [se, sut, a, m]" "dget x ''mech.fatigue.goodman.se'' = Some (VFloat (Fin se))"
    "dget x ''mech.fatigue.goodman.sut'' = Some (VFloat (Fin sut))"
    "dget x ''mech.fatigue.goodman.sigma_a'' = Some (VFloat (Fin a))"
    "dget x ''mech.fatigue.goodman.sigma_m'' = Some (VFloat (Fin m))"
    by (auto simp: fatigue_goodman_factor_of_safety_ins_def reads_Nil reads_Cons)
  show "body_result (map fst fatigue_goodman_factor_of_safety_forms) (fatigue_goodman_factor_of_safety fmt x) = Ok out \<longleftrightarrow>
    fatigue_goodman_factor_of_safety_valid vs \<and>
    out = plain_output (map (\<lambda>(p, f). (p, Fin (f vs))) fatigue_goodman_factor_of_safety_forms)"
  proof (cases "0 < se \<and> 0 < sut \<and> 0 < a \<and> 0 < m")
    case True
    then show ?thesis
      using goodman_forms [of se sut a m]
      by (simp add: fatigue_goodman_factor_of_safety_def fatigue_goodman_factor_of_safety_valid_def
          fatigue_goodman_factor_of_safety_forms_def vs arg_read answer_simps del: times_divide_eq_left)
  next
    case False
    then show ?thesis
      by (auto simp: fatigue_goodman_factor_of_safety_def fatigue_goodman_factor_of_safety_valid_def
          fatigue_goodman_factor_of_safety_forms_def vs arg_read answer_simps)
  qed
qed

lemma fatigue_goodman_factor_of_safety_total: "in_ranges (ranges_of fatigue_goodman_factor_of_safety_ins fatigue_goodman_factor_of_safety_box) vs \<Longrightarrow> fatigue_goodman_factor_of_safety_valid vs"
  by (auto simp: fatigue_goodman_factor_of_safety_ins_def fatigue_goodman_factor_of_safety_box_def fatigue_goodman_factor_of_safety_valid_def ranges_of_def in_ranges_Cons KC_BENDING_def KC_AXIAL_def KC_TORSION_def SUT_MAX_CALIBRATED_PA_def SN_N_MIN_def SN_N_MAX_def SN_N_TOL_def)

lemma fatigue_goodman_factor_of_safety_slices: "f \<in> snd ` set fatigue_goodman_factor_of_safety_forms \<Longrightarrow> slice_monotone (ranges_of fatigue_goodman_factor_of_safety_ins fatigue_goodman_factor_of_safety_box) f"
  by (auto simp: fatigue_goodman_factor_of_safety_forms_def fatigue_goodman_factor_of_safety_ins_def fatigue_goodman_factor_of_safety_box_def ranges_of_def KC_BENDING_def KC_AXIAL_def KC_TORSION_def SUT_MAX_CALIBRATED_PA_def SN_N_MIN_def SN_N_MAX_def SN_N_TOL_def  intro!: slice_monotone_4 swing swings_ratios add_pos_pos mult_pos_pos)

interpretation fatigue_goodman_factor_of_safety: total_solver fatigue_goodman_factor_of_safety_ins fatigue_goodman_factor_of_safety_box fatigue_goodman_factor_of_safety_valid fatigue_goodman_factor_of_safety_forms "fatigue_goodman_factor_of_safety fmt" for fmt
  by unfold_locales (rule fatigue_goodman_factor_of_safety_answers | erule fatigue_goodman_factor_of_safety_total fatigue_goodman_factor_of_safety_slices | simp add: ports_ok_def dict_ok_def fatigue_goodman_factor_of_safety_ins_def fatigue_goodman_factor_of_safety_box_def)+

lemma fatigue_goodman_factor_of_safety_law:
  "keeps_law (module_direction H dumps fatigue_goodman_factor_of_safety_args ''fatigue_goodman_factor_of_safety'' (fatigue_goodman_factor_of_safety fmt)) fatigue_goodman_factor_of_safety_valid fatigue_goodman_factor_of_safety_forms"
  unfolding fatigue_goodman_factor_of_safety_args_def
  by (rule fatigue_goodman_factor_of_safety.direction_law) (simp_all add: fatigue_goodman_factor_of_safety_forms_def)

subsection \<open>\<open>fatigue_gerber_factor_of_safety\<close>\<close>

definition fatigue_gerber_factor_of_safety_valid :: "real list \<Rightarrow> bool" where
  "fatigue_gerber_factor_of_safety_valid vs \<longleftrightarrow> 0 < vs ! 0 \<and> 0 < vs ! 1 \<and> 0 < vs ! 2 \<and> 0 \<le> vs ! 3"

definition fatigue_gerber_factor_of_safety_forms :: "(string, real list \<Rightarrow> real) dict" where
  "fatigue_gerber_factor_of_safety_forms =
     [(''mech.fatigue.gerber.factor_of_safety'', \<lambda>vs. 2 / (vs ! 2 / vs ! 0 + sqrt ((vs ! 2 / vs ! 0)\<^sup>2 + 4 * (vs ! 3 / vs ! 1)\<^sup>2)))]"

lemma fatigue_gerber_factor_of_safety_answers: "computes (fatigue_gerber_factor_of_safety fmt) fatigue_gerber_factor_of_safety_ins fatigue_gerber_factor_of_safety_box fatigue_gerber_factor_of_safety_valid fatigue_gerber_factor_of_safety_forms"
  proof (rule computes_read)
  show "\<exists>vs. reads x fatigue_gerber_factor_of_safety_ins vs"
    if "body_result (map fst fatigue_gerber_factor_of_safety_forms) (fatigue_gerber_factor_of_safety fmt x) = Ok out" for x out
    using that by (auto simp: fatigue_gerber_factor_of_safety_def fatigue_gerber_factor_of_safety_ins_def
        answer_simps reads_Nil reads_Cons)
  fix x vs out assume "reads x fatigue_gerber_factor_of_safety_ins vs"
  then obtain se sut a m where vs: "vs = [se, sut, a, m]" "dget x ''mech.fatigue.gerber.se'' = Some (VFloat (Fin se))"
    "dget x ''mech.fatigue.gerber.sut'' = Some (VFloat (Fin sut))"
    "dget x ''mech.fatigue.gerber.sigma_a'' = Some (VFloat (Fin a))"
    "dget x ''mech.fatigue.gerber.sigma_m'' = Some (VFloat (Fin m))"
    by (auto simp: fatigue_gerber_factor_of_safety_ins_def reads_Nil reads_Cons)
  show "body_result (map fst fatigue_gerber_factor_of_safety_forms) (fatigue_gerber_factor_of_safety fmt x) = Ok out \<longleftrightarrow>
    fatigue_gerber_factor_of_safety_valid vs \<and>
    out = plain_output (map (\<lambda>(p, f). (p, Fin (f vs))) fatigue_gerber_factor_of_safety_forms)"
  proof (cases "0 < se \<and> 0 < sut \<and> 0 < a \<and> 0 < m")
    case True
    then show ?thesis
      using gerber_form [of se sut a m]
      by (simp add: fatigue_gerber_factor_of_safety_def fatigue_gerber_factor_of_safety_valid_def
          fatigue_gerber_factor_of_safety_forms_def vs arg_read answer_simps add_nonneg_nonneg
          mult.commute [of se 2])
  next
    case False
    then show ?thesis
      by (auto simp: fatigue_gerber_factor_of_safety_def fatigue_gerber_factor_of_safety_valid_def
          fatigue_gerber_factor_of_safety_forms_def vs arg_read answer_simps)
  qed
qed

lemma fatigue_gerber_factor_of_safety_total: "in_ranges (ranges_of fatigue_gerber_factor_of_safety_ins fatigue_gerber_factor_of_safety_box) vs \<Longrightarrow> fatigue_gerber_factor_of_safety_valid vs"
  by (auto simp: fatigue_gerber_factor_of_safety_ins_def fatigue_gerber_factor_of_safety_box_def fatigue_gerber_factor_of_safety_valid_def ranges_of_def in_ranges_Cons KC_BENDING_def KC_AXIAL_def KC_TORSION_def SUT_MAX_CALIBRATED_PA_def SN_N_MIN_def SN_N_MAX_def SN_N_TOL_def)

lemma fatigue_gerber_factor_of_safety_slices: "f \<in> snd ` set fatigue_gerber_factor_of_safety_forms \<Longrightarrow> slice_monotone (ranges_of fatigue_gerber_factor_of_safety_ins fatigue_gerber_factor_of_safety_box) f"
  by (auto simp: fatigue_gerber_factor_of_safety_forms_def fatigue_gerber_factor_of_safety_ins_def fatigue_gerber_factor_of_safety_box_def ranges_of_def KC_BENDING_def KC_AXIAL_def KC_TORSION_def SUT_MAX_CALIBRATED_PA_def SN_N_MIN_def SN_N_MAX_def SN_N_TOL_def  intro!: slice_monotone_4 swing swings_gerber_amplitude add_pos_nonneg)

interpretation fatigue_gerber_factor_of_safety: total_solver fatigue_gerber_factor_of_safety_ins fatigue_gerber_factor_of_safety_box fatigue_gerber_factor_of_safety_valid fatigue_gerber_factor_of_safety_forms "fatigue_gerber_factor_of_safety fmt" for fmt
  by unfold_locales (rule fatigue_gerber_factor_of_safety_answers | erule fatigue_gerber_factor_of_safety_total fatigue_gerber_factor_of_safety_slices | simp add: ports_ok_def dict_ok_def fatigue_gerber_factor_of_safety_ins_def fatigue_gerber_factor_of_safety_box_def)+

lemma fatigue_gerber_factor_of_safety_law:
  "keeps_law (module_direction H dumps fatigue_gerber_factor_of_safety_args ''fatigue_gerber_factor_of_safety'' (fatigue_gerber_factor_of_safety fmt)) fatigue_gerber_factor_of_safety_valid fatigue_gerber_factor_of_safety_forms"
  unfolding fatigue_gerber_factor_of_safety_args_def
  by (rule fatigue_gerber_factor_of_safety.direction_law) (simp_all add: fatigue_gerber_factor_of_safety_forms_def)

subsection \<open>\<open>fatigue_sn_cycles_to_failure\<close>\<close>

text \<open>The life on the knee line, in logarithms.\<close>

definition sn_life :: "real \<Rightarrow> real \<Rightarrow> real \<Rightarrow> real \<Rightarrow> real" where
  "sn_life sa sut se f = 10 powr (3 * (2 * ln (f * sut) - ln se - ln sa) / (ln (f * sut) - ln se))"

definition fatigue_sn_cycles_to_failure_valid :: "real list \<Rightarrow> bool" where
  "fatigue_sn_cycles_to_failure_valid vs \<longleftrightarrow> 0 < vs ! 0 \<and> 0 < vs ! 1 \<and> 0 < vs ! 2 \<and> 0 < vs ! 3 \<and> vs ! 2 < vs ! 3 * vs ! 1 \<and> SN_N_MIN * (1 - SN_N_TOL) \<le> sn_life (vs ! 0) (vs ! 1) (vs ! 2) (vs ! 3) \<and> sn_life (vs ! 0) (vs ! 1) (vs ! 2) (vs ! 3) \<le> SN_N_MAX * (1 + SN_N_TOL)"

definition fatigue_sn_cycles_to_failure_forms :: "(string, real list \<Rightarrow> real) dict" where
  "fatigue_sn_cycles_to_failure_forms =
     [(''mech.fatigue.sn.cycles_to_failure'', \<lambda>vs. sn_life (vs ! 0) (vs ! 1) (vs ! 2) (vs ! 3))]"

lemma sn_life_value:
  assumes "0 < sa" "0 < sut" "0 < se" "0 < f" "se < f * (sut :: real)"
  shows "(sa / (f * sut * (f * sut) / se)) powr (1 / (- (1 / 3) * (ln (f * sut / se) / ln 10))) = sn_life sa sut se f"
proof -
  have k: "0 < f * sut" using assms by simp
  then have d: "0 < ln (f * sut) - ln se" using assms by simp
  have b: "ln (f * sut / se) = ln (f * sut) - ln se" using assms by (simp add: ln_div)
  have a: "ln (sa / (f * sut * (f * sut) / se)) = ln sa - (2 * ln (f * sut) - ln se)"
    using assms by (simp add: ln_div ln_mult)
  have p: "0 < sa / (f * sut * (f * sut) / se)" using k assms by simp
  have "1 / (- (1 / 3) * ((ln (f * sut) - ln se) / ln 10)) * (ln sa - (2 * ln (f * sut) - ln se))
      = 3 * (2 * ln (f * sut) - ln se - ln sa) / (ln (f * sut) - ln se) * ln 10"
    using d by (simp add: field_simps)
  note eq = this
  have "sa / (f * sut * (f * sut) / se) \<noteq> 0" using p by linarith
  then have pw: "(sa / (f * sut * (f * sut) / se)) powr y = exp (y * ln (sa / (f * sut * (f * sut) / se)))" for y
    unfolding powr_def by (rule if_not_P)
  have tp: "10 powr y = exp (y * ln 10)" for y :: real by (simp add: powr_def)
  show ?thesis
    unfolding sn_life_def pw tp a b eq ..
qed

lemma swings_sn_knee:
  assumes "swings iv g" "\<And>v. iv_contains iv v \<Longrightarrow> S < g v"
  shows "swings iv (\<lambda>v. 10 powr (3 * (2 * g v - S - L) / (g v - S)))"
proof -
  have "swings iv (\<lambda>v. 10 powr ((6 * g v + 3 * (- S - L)) / (1 * g v + (- S))))"
    by (intro swings_powr_exponent swings_linear_fraction assms(1)) (simp_all add: assms(2))
  then show ?thesis by (simp add: algebra_simps)
qed

lemma swings_sn_endurance:
  assumes "swings iv g" "\<And>v. iv_contains iv v \<Longrightarrow> g v < K"
  shows "swings iv (\<lambda>v. 10 powr (3 * (2 * K - g v - L) / (K - g v)))"
proof -
  have "swings iv (\<lambda>v. 10 powr ((- 3 * g v + 3 * (2 * K - L)) / (- 1 * g v + K)))"
    by (intro swings_powr_exponent swings_linear_fraction assms(1)) (simp_all add: assms(2))
  then show ?thesis by (simp add: algebra_simps)
qed

lemma sn_slices:
  assumes sub: "list_all2 is_subset ivs (ranges_of fatigue_sn_cycles_to_failure_ins fatigue_sn_cycles_to_failure_box)"
    and knee: "\<forall>vs. in_ranges ivs vs \<longrightarrow> vs ! 2 < vs ! 3 * vs ! 1"
  shows "slice_monotone ivs (\<lambda>vs. sn_life (vs ! 0) (vs ! 1) (vs ! 2) (vs ! 3))"
proof -
  obtain i1 i2 i3 i4 where ivs: "ivs = [i1, i2, i3, i4]"
    using sub by (auto simp: fatigue_sn_cycles_to_failure_ins_def ranges_of_def list_all2_Cons2)
  have r: "in_ranges (ranges_of fatigue_sn_cycles_to_failure_ins fatigue_sn_cycles_to_failure_box) [a, b, c, d]"
    if "iv_contains i1 a" "iv_contains i2 b" "iv_contains i3 c" "iv_contains i4 d" for a b c d
    using in_ranges_subset [OF sub] that by (simp add: ivs)
  note r = r [unfolded fatigue_sn_cycles_to_failure_ins_def fatigue_sn_cycles_to_failure_box_def ranges_of_def, simplified]
  have k: "0 < c \<and> c < d * b \<and> ln c < ln (d * b) \<and> 0 < b \<and> 0 < d \<and> 0 < a"
    if "iv_contains i1 a" "iv_contains i2 b" "iv_contains i3 c" "iv_contains i4 d" for a b c d
  proof -
    have "0 < c" "0 < b" "0 < d" "0 < a" using r [OF that] by auto
    moreover have "c < d * b" using knee [rule_format, of "[a, b, c, d]"] that by (simp add: ivs)
    ultimately show ?thesis by simp
  qed
  have "swings i1 (\<lambda>v. sn_life v b c d)" if "iv_contains i2 b" "iv_contains i3 c" "iv_contains i4 d" for b c d
    unfolding sn_life_def using k [OF _ that]
    by (intro swings_powr_exponent swings_div_const swings_cmult swings_const_minus swings_ln swings_id) auto
  moreover have "swings i2 (\<lambda>v. sn_life a v c d)" if "iv_contains i1 a" "iv_contains i3 c" "iv_contains i4 d" for a c d
    unfolding sn_life_def using k [OF that(1) _ that(2,3)]
    by (intro swings_sn_knee swings_ln swings_cmult swings_id) auto
  moreover have "swings i3 (\<lambda>v. sn_life a b v d)" if "iv_contains i1 a" "iv_contains i2 b" "iv_contains i4 d" for a b d
    unfolding sn_life_def using k [OF that(1,2) _ that(3)]
    by (intro swings_sn_endurance swings_ln swings_id) auto
  moreover have "swings i4 (\<lambda>v. sn_life a b c v)" if "iv_contains i1 a" "iv_contains i2 b" "iv_contains i3 c" for a b c
    unfolding sn_life_def using k [OF that]
    by (intro swings_sn_knee swings_ln swings_mult_const swings_id) auto
  ultimately show ?thesis
    unfolding ivs by (intro slice_monotone_4) simp_all
qed

lemma fatigue_sn_cycles_to_failure_answers: "computes (fatigue_sn_cycles_to_failure fmt) fatigue_sn_cycles_to_failure_ins fatigue_sn_cycles_to_failure_box fatigue_sn_cycles_to_failure_valid fatigue_sn_cycles_to_failure_forms"
  proof (rule computes_read)
  show "\<exists>vs. reads x fatigue_sn_cycles_to_failure_ins vs"
    if "body_result (map fst fatigue_sn_cycles_to_failure_forms) (fatigue_sn_cycles_to_failure fmt x) = Ok out" for x out
    using that by (auto simp: fatigue_sn_cycles_to_failure_def fatigue_sn_cycles_to_failure_ins_def
        answer_simps reads_Nil reads_Cons)
  fix x vs out assume "reads x fatigue_sn_cycles_to_failure_ins vs"
  then obtain sa sut se f where vs: "vs = [sa, sut, se, f]" "dget x ''mech.fatigue.sn.sigma_a'' = Some (VFloat (Fin sa))"
    "dget x ''mech.fatigue.sn.sut'' = Some (VFloat (Fin sut))"
    "dget x ''mech.fatigue.sn.se'' = Some (VFloat (Fin se))"
    "dget x ''mech.fatigue.sn.f'' = Some (VFloat (Fin f))"
    by (auto simp: fatigue_sn_cycles_to_failure_ins_def reads_Nil reads_Cons)
  show "body_result (map fst fatigue_sn_cycles_to_failure_forms) (fatigue_sn_cycles_to_failure fmt x) = Ok out \<longleftrightarrow>
    fatigue_sn_cycles_to_failure_valid vs \<and>
    out = plain_output (map (\<lambda>(p, f). (p, Fin (f vs))) fatigue_sn_cycles_to_failure_forms)"
  proof (cases "0 < sa \<and> 0 < sut \<and> 0 < se \<and> 0 < f \<and> se < f * sut")
    case True
    then have "0 < f * sut / se" "0 < sa / (f * sut * (f * sut) / se)" "ln (f * sut / se) \<noteq> 0" "\<not> f * sut / se \<le> 0"
      by (simp_all add: divide_le_0_iff)
    then show ?thesis
      using True sn_life_value [of sa sut se f]
      by (auto simp: fatigue_sn_cycles_to_failure_def fatigue_sn_cycles_to_failure_valid_def sn_knee_params_def
          sn_cycles_to_failure_def fatigue_sn_cycles_to_failure_forms_def vs arg_read py_div_def py_log10_def py_pow_pos
          Let_def answer_simps simp del: times_divide_eq_right times_divide_eq_left divide_divide_eq_right)
  next
    case False
    then show ?thesis
      by (auto simp: fatigue_sn_cycles_to_failure_def fatigue_sn_cycles_to_failure_valid_def sn_knee_params_def
          fatigue_sn_cycles_to_failure_forms_def vs arg_read answer_simps Let_def split: bool.splits)
  qed
qed

lemma fatigue_sn_cycles_to_failure_inside:
  assumes "list_all2 is_subset ivs (ranges_of fatigue_sn_cycles_to_failure_ins fatigue_sn_cycles_to_failure_box)"
    "\<forall>vs. at_ends ivs vs \<longrightarrow> fatigue_sn_cycles_to_failure_valid vs" "in_ranges ivs vs"
  shows "fatigue_sn_cycles_to_failure_valid vs"
  proof -
  let ?R = "ranges_of fatigue_sn_cycles_to_failure_ins fatigue_sn_cycles_to_failure_box"
  let ?life = "\<lambda>vs. sn_life (vs ! 0) (vs ! 1) (vs ! 2) (vs ! 3)"
  have r: "in_ranges ?R vs" using assms(1,3) by (rule in_ranges_subset)
  have "slice_monotone ivs (\<lambda>vs. vs ! 3 * vs ! 1 - vs ! 2)"
    by (rule slice_monotone_subset [OF assms(1)])
      (auto simp: fatigue_sn_cycles_to_failure_ins_def fatigue_sn_cycles_to_failure_box_def ranges_of_def
        intro!: slice_monotone_4 swing)
  then have k: "0 < ws ! 3 * ws ! 1 - ws ! 2" if "in_ranges ivs ws" for ws
    by (rule corners_pass [OF _ that]) (use assms(2) in \<open>simp add: fatigue_sn_cycles_to_failure_valid_def\<close>)
  then have knee: "\<forall>vs. in_ranges ivs vs \<longrightarrow> vs ! 2 < vs ! 3 * vs ! 1" by simp
  note sl = sn_slices [OF assms(1) knee]
  have "SN_N_MIN * (1 - SN_N_TOL) \<le> ?life vs"
    by (rule corners_pass_le [OF sl assms(3)]) (use assms(2) in \<open>simp add: fatigue_sn_cycles_to_failure_valid_def\<close>)
  moreover have "- (SN_N_MAX * (1 + SN_N_TOL)) \<le> - ?life vs"
    by (rule corners_pass_le [OF slice_neg [OF sl] assms(3)]) (use assms(2) in \<open>simp add: fatigue_sn_cycles_to_failure_valid_def\<close>)
  ultimately show ?thesis
    using r k [OF assms(3)]
    by (auto simp: fatigue_sn_cycles_to_failure_valid_def fatigue_sn_cycles_to_failure_ins_def
        fatigue_sn_cycles_to_failure_box_def ranges_of_def in_ranges_Cons)
qed

lemma fatigue_sn_cycles_to_failure_slices:
  assumes "list_all2 is_subset ivs (ranges_of fatigue_sn_cycles_to_failure_ins fatigue_sn_cycles_to_failure_box)" "\<forall>vs. in_ranges ivs vs \<longrightarrow> fatigue_sn_cycles_to_failure_valid vs"
  shows "\<forall>f \<in> snd ` set fatigue_sn_cycles_to_failure_forms. slice_monotone ivs f"
  using sn_slices [OF assms(1)] assms(2)
  by (simp add: fatigue_sn_cycles_to_failure_forms_def fatigue_sn_cycles_to_failure_valid_def)

interpretation fatigue_sn_cycles_to_failure: formula_solver fatigue_sn_cycles_to_failure_ins fatigue_sn_cycles_to_failure_box fatigue_sn_cycles_to_failure_valid fatigue_sn_cycles_to_failure_forms "fatigue_sn_cycles_to_failure fmt" for fmt
  by unfold_locales (rule fatigue_sn_cycles_to_failure_answers | rule fatigue_sn_cycles_to_failure_inside fatigue_sn_cycles_to_failure_slices, assumption+ | simp add: ports_ok_def dict_ok_def fatigue_sn_cycles_to_failure_ins_def fatigue_sn_cycles_to_failure_box_def)+

lemma fatigue_sn_cycles_to_failure_law:
  "keeps_law (module_direction H dumps fatigue_sn_cycles_to_failure_args ''fatigue_sn_cycles_to_failure'' (fatigue_sn_cycles_to_failure fmt)) fatigue_sn_cycles_to_failure_valid fatigue_sn_cycles_to_failure_forms"
  unfolding fatigue_sn_cycles_to_failure_args_def
  by (rule fatigue_sn_cycles_to_failure.direction_law) (simp_all add: fatigue_sn_cycles_to_failure_forms_def)

definition fatigue_laws ::
  "(json \<Rightarrow> string) \<Rightarrow> (json \<Rightarrow> string) \<Rightarrow> (string \<Rightarrow> real \<Rightarrow> string)
   \<Rightarrow> ((solver_pair, registry_error) outcome \<times> (real list \<Rightarrow> bool) \<times> (string, real list \<Rightarrow> real) dict) list" where
  "fatigue_laws H dumps fmt =
     [(module_direction H dumps fatigue_endurance_limit_baseline_args ''fatigue_endurance_limit_baseline'' (fatigue_endurance_limit_baseline fmt), fatigue_endurance_limit_baseline_valid, fatigue_endurance_limit_baseline_forms),
      (module_direction H dumps fatigue_marin_surface_factor_args ''fatigue_marin_surface_factor'' (fatigue_marin_surface_factor fmt), fatigue_marin_surface_factor_valid, fatigue_marin_surface_factor_forms),
      (module_direction H dumps fatigue_marin_endurance_limit_args ''fatigue_marin_endurance_limit'' (fatigue_marin_endurance_limit fmt), fatigue_marin_endurance_limit_valid, fatigue_marin_endurance_limit_forms),
      (module_direction H dumps fatigue_goodman_factor_of_safety_args ''fatigue_goodman_factor_of_safety'' (fatigue_goodman_factor_of_safety fmt), fatigue_goodman_factor_of_safety_valid, fatigue_goodman_factor_of_safety_forms),
      (module_direction H dumps fatigue_gerber_factor_of_safety_args ''fatigue_gerber_factor_of_safety'' (fatigue_gerber_factor_of_safety fmt), fatigue_gerber_factor_of_safety_valid, fatigue_gerber_factor_of_safety_forms),
      (module_direction H dumps fatigue_sn_cycles_to_failure_args ''fatigue_sn_cycles_to_failure'' (fatigue_sn_cycles_to_failure fmt), fatigue_sn_cycles_to_failure_valid, fatigue_sn_cycles_to_failure_forms)]"

lemma fatigue_keep: "list_all (\<lambda>(d, valid, forms). keeps_law d valid forms) (fatigue_laws H dumps fmt)"
  by (simp add: fatigue_laws_def fatigue_endurance_limit_baseline_law fatigue_marin_surface_factor_law fatigue_marin_endurance_limit_law fatigue_goodman_factor_of_safety_law fatigue_gerber_factor_of_safety_law fatigue_sn_cycles_to_failure_law)

end
