(* ===== verification/Flow_Tree.thy ===== *)
theory Flow_Tree
  imports Flow_Edges
begin

text \<open>
  The graph of a flow network (\<open>fluids/network.py\<close>): the breadth-first spanning tree and the
  fundamental cycle basis it gives. The lemmas say that the search ends, that it succeeds exactly
  on a connected network of distinct nodes, that the tree hangs every node under an earlier one,
  and that every loop of the basis is closed: it enters every node as often as it leaves it.
\<close>

section \<open>Adjacency\<close>

text \<open>
  \<open>adjacency[n]\<close>: the other ends of the edges at \<open>n\<close> with the edges' indices, in edge order; an edge
  is filed under \<open>a\<close> before it is filed under \<open>b\<close>. Filing it under an unknown node is a \<open>KeyError\<close>.
\<close>

definition neighbours :: "edge list \<Rightarrow> string \<Rightarrow> (string \<times> nat) list" where
  "neighbours es n =
     concat (map (\<lambda>(i, e). (if e_a e = n then [(e_b e, i)] else []) @ (if e_b e = n then [(e_a e, i)] else []))
       (enumerate 0 es))"

fun file_edges :: "string list \<Rightarrow> edge list \<Rightarrow> (unit, 'e) outcome" where
  "file_edges nodes [] = Ok ()"
| "file_edges nodes (e # es) =
     (if e_a e \<notin> set nodes then Raise (KeyError (e_a e))
      else if e_b e \<notin> set nodes then Raise (KeyError (e_b e))
      else file_edges nodes es)"

section \<open>Breadth-first search\<close>

record spanning_tree =
  st_order :: "string list"
  st_parent_node :: "(string, string) dict"
  st_parent_edge :: "(string, nat) dict"
  st_tree_edges :: "nat list"

record bfs_state = spanning_tree +
  bs_visited :: "string list"
  bs_queue :: "string list"

definition bfs_start :: "string \<Rightarrow> bfs_state" where
  "bfs_start start = \<lparr>st_order = [start], st_parent_node = [], st_parent_edge = [], st_tree_edges = [],
     bs_visited = [start], bs_queue = [start]\<rparr>"

definition bfs_visit :: "string \<Rightarrow> string \<times> nat \<Rightarrow> bfs_state \<Rightarrow> bfs_state" where
  "bfs_visit node nb s =
     (case nb of (neighbor, edge_idx) \<Rightarrow>
        if neighbor \<in> set (bs_visited s) then s
        else s\<lparr>bs_visited := bs_visited s @ [neighbor],
               st_parent_edge := dset neighbor edge_idx (st_parent_edge s),
               st_parent_node := dset neighbor node (st_parent_node s),
               st_tree_edges := List.insert edge_idx (st_tree_edges s),
               st_order := st_order s @ [neighbor],
               bs_queue := bs_queue s @ [neighbor]\<rparr>)"

definition bfs_expand :: "edge list \<Rightarrow> string \<Rightarrow> bfs_state \<Rightarrow> bfs_state" where
  "bfs_expand es node s = fold (bfs_visit node) (neighbours es node) s"

text \<open>Each round takes a node off the queue; only unvisited ends of edges are put on it.\<close>

definition edge_ends :: "edge list \<Rightarrow> string set" where
  "edge_ends es = e_a ` set es \<union> e_b ` set es"

definition bfs_left :: "edge list \<Rightarrow> bfs_state \<Rightarrow> nat" where
  "bfs_left es s = card (edge_ends es - set (bs_visited s)) + length (bs_queue s)"

lemma neighbours_mem:
  "(m, i) \<in> set (neighbours es n) \<longleftrightarrow>
     i < length es \<and> (e_a (es ! i) = n \<and> e_b (es ! i) = m \<or> e_b (es ! i) = n \<and> e_a (es ! i) = m)"
  (is "?l \<longleftrightarrow> ?r")
proof
  assume ?l
  then show ?r by (auto simp: neighbours_def in_set_enumerate_eq split: if_splits)
next
  assume r: ?r
  then have "(i, es ! i) \<in> set (enumerate 0 es)" by (simp add: in_set_enumerate_eq)
  then show ?l unfolding neighbours_def set_concat set_map by (rule UN_I [OF imageI]) (use r in auto)
qed

lemma neighbours_ends: "(m, i) \<in> set (neighbours es n) \<Longrightarrow> m \<in> edge_ends es \<and> n \<in> edge_ends es"
  unfolding neighbours_mem edge_ends_def by (metis UnCI image_eqI nth_mem)

lemma finite_edge_ends [simp]: "finite (edge_ends es)"
  by (simp add: edge_ends_def)

lemma bfs_visit_left:
  assumes "fst nb \<in> edge_ends es"
  shows "bfs_left es (bfs_visit node nb s) \<le> bfs_left es s"
proof (cases nb)
  case (Pair m i)
  show ?thesis
  proof (cases "m \<in> set (bs_visited s)")
    case False
    let ?U = "edge_ends es - set (bs_visited s)"
    have "card (?U - {m}) < card ?U"
      using assms False Pair by (intro card_Diff1_less) auto
    moreover have "?U - {m} = edge_ends es - set (bs_visited s @ [m])" by auto
    ultimately show ?thesis
      using False unfolding Pair bfs_visit_def bfs_left_def by simp
  qed (simp add: bfs_visit_def Pair)
qed

lemma bfs_expand_left: "bfs_left es (bfs_expand es node s) \<le> bfs_left es s"
proof -
  have "bfs_left es (fold (bfs_visit node) nbs s) \<le> bfs_left es s" if "fst ` set nbs \<subseteq> edge_ends es" for nbs
    using that
  proof (induction nbs arbitrary: s)
    case (Cons nb nbs)
    have "bfs_left es (fold (bfs_visit node) nbs (bfs_visit node nb s)) \<le> bfs_left es (bfs_visit node nb s)"
      by (rule Cons.IH) (use Cons.prems in simp)
    also have "\<dots> \<le> bfs_left es s" by (rule bfs_visit_left) (use Cons.prems in simp)
    finally show ?case by simp
  qed simp
  moreover have "fst ` set (neighbours es node) \<subseteq> edge_ends es" using neighbours_ends by fastforce
  ultimately show ?thesis by (simp add: bfs_expand_def)
qed

function bfs_loop :: "edge list \<Rightarrow> bfs_state \<Rightarrow> bfs_state" where
  "bfs_loop es s =
     (case bs_queue s of
        [] \<Rightarrow> s
      | node # rest \<Rightarrow> bfs_loop es (bfs_expand es node (s\<lparr>bs_queue := rest\<rparr>)))"
  by pat_completeness auto
termination
proof (relation "measure (\<lambda>(es, s). bfs_left es s)", simp)
  fix es :: "edge list" and s :: bfs_state and node rest
  assume "bs_queue s = node # rest"
  then have "bfs_left es (s\<lparr>bs_queue := rest\<rparr>) < bfs_left es s" by (simp add: bfs_left_def)
  then show "((es, bfs_expand es node (s\<lparr>bs_queue := rest\<rparr>)), es, s) \<in> measure (\<lambda>(es, s). bfs_left es s)"
    using le_less_trans [OF bfs_expand_left] by simp
qed

declare bfs_loop.simps [simp del]

text \<open>\<open>_spanning_tree\<close>: the search from the first node must reach as many nodes as were listed.\<close>

definition flow_feature :: "string \<Rightarrow> solve_error" where
  "flow_feature feature = OutOfDomain (Violation (payload_feature_violation FLOWNET_PORT feature))"

definition spanning_tree :: "string list \<Rightarrow> edge list \<Rightarrow> (spanning_tree, solve_error) outcome" where
  "spanning_tree nodes es =
     obind (file_edges nodes es) (\<lambda>_.
       case nodes of
         [] \<Rightarrow> Raise IndexError
       | start # _ \<Rightarrow>
           (let s = bfs_loop es (bfs_start start) in
            if length (bs_visited s) \<noteq> length nodes then Err (flow_feature ''disconnected_network'')
            else Ok (spanning_tree.truncate s)))"

section \<open>What the search finds\<close>

text \<open>An edge joins its two ends; nodes that a chain of edges joins are linked.\<close>

definition joins :: "edge list \<Rightarrow> nat \<Rightarrow> string \<Rightarrow> string \<Rightarrow> bool" where
  "joins es k m n \<longleftrightarrow>
     k < length es \<and> (e_a (es ! k) = m \<and> e_b (es ! k) = n \<or> e_b (es ! k) = m \<and> e_a (es ! k) = n)"

definition linked :: "edge list \<Rightarrow> string \<Rightarrow> string \<Rightarrow> bool" where
  "linked es = (\<lambda>m n. \<exists>k. joins es k m n)\<^sup>*\<^sup>*"

lemma neighbours_joins: "(m, k) \<in> set (neighbours es n) \<longleftrightarrow> joins es k n m"
  by (simp add: neighbours_mem joins_def)

text \<open>Every node of the order but the first hangs by its parent edge under an earlier one.\<close>

definition hangs :: "edge list \<Rightarrow> 'a spanning_tree_scheme \<Rightarrow> nat \<Rightarrow> bool" where
  "hangs es t i \<longleftrightarrow>
     (\<exists>j < i. \<exists>k. dget (st_parent_node t) (st_order t ! i) = Some (st_order t ! j) \<and>
        dget (st_parent_edge t) (st_order t ! i) = Some k \<and> joins es k (st_order t ! j) (st_order t ! i))"

definition tree_ok :: "edge list \<Rightarrow> 'a spanning_tree_scheme \<Rightarrow> bool" where
  "tree_ok es t \<longleftrightarrow>
     st_order t \<noteq> [] \<and> distinct (st_order t) \<and>
     (\<forall>i < length (st_order t). 0 < i \<longrightarrow> hangs es t i) \<and>
     (\<forall>n. n \<notin> set (tl (st_order t)) \<longrightarrow> dget (st_parent_node t) n = None \<and> dget (st_parent_edge t) n = None) \<and>
     (\<forall>k. k \<in> set (st_tree_edges t) \<longleftrightarrow> (\<exists>n. dget (st_parent_edge t) n = Some k))"

definition bfs_ok :: "edge list \<Rightarrow> string \<Rightarrow> bfs_state \<Rightarrow> bool" where
  "bfs_ok es start s \<longleftrightarrow>
     tree_ok es s \<and> hd (st_order s) = start \<and> bs_visited s = st_order s \<and>
     set (bs_queue s) \<subseteq> set (st_order s) \<and> (\<forall>n \<in> set (st_order s). linked es start n)"

lemma bfs_visit_ok:
  assumes s: "bfs_ok es start s" and node: "node \<in> set (st_order s)" and nb: "joins es k node m"
  shows "bfs_ok es start (bfs_visit node (m, k) s)"
proof (cases "m \<in> set (bs_visited s)")
  case False
  let ?o = "st_order s" and ?s = "bfs_visit node (m, k) s"
  note t = s [unfolded bfs_ok_def tree_ok_def]
  have o: "?o \<noteq> []" "m \<notin> set ?o" "distinct ?o" using t False by auto
  have fields: "st_order ?s = ?o @ [m]" "st_parent_node ?s = dset m node (st_parent_node s)"
    "st_parent_edge ?s = dset m k (st_parent_edge s)" "bs_visited ?s = bs_visited s @ [m]"
    "bs_queue ?s = bs_queue s @ [m]" "set (st_tree_edges ?s) = insert k (set (st_tree_edges s))"
    using False by (simp_all add: bfs_visit_def)
  have fresh: "dget (st_parent_edge s) m = None" using t o by (auto dest: list.set_sel(2))
  have "hangs es ?s i" if i: "i < length (st_order ?s)" "0 < i" for i
  proof (cases "i < length ?o")
    case True
    then have h: "hangs es s i" using t i(2) by blast
    have "?o ! i \<noteq> m" using True o(2) by (metis nth_mem)
    then show ?thesis using h True unfolding hangs_def fields
      by (elim exE conjE) (rename_tac j l, rule_tac x = j in exI, simp add: nth_append)
  next
    case False
    then have "i = length ?o" using i(1) fields(1) by simp
    moreover obtain j where "j < length ?o" "?o ! j = node" using node by (metis in_set_conv_nth)
    ultimately show ?thesis using nb unfolding hangs_def fields
      by (intro exI [of _ j] conjI exI [of _ k]) (simp_all add: nth_append)
  qed
  moreover have "dget (st_parent_node ?s) n = None \<and> dget (st_parent_edge ?s) n = None"
    if "n \<notin> set (tl (st_order ?s))" for n
    using that t o(1) by (simp add: fields)
  moreover have "l \<in> set (st_tree_edges ?s) \<longleftrightarrow> (\<exists>n. dget (st_parent_edge ?s) n = Some l)" for l
    using t fresh unfolding fields by (auto simp: fields) (metis option.distinct(1))
  ultimately have "tree_ok es ?s" using o by (simp add: tree_ok_def fields(1))
  moreover have "linked es start m"
    using t node nb unfolding linked_def by (metis (mono_tags, lifting) rtranclp.rtrancl_into_rtrancl)
  ultimately show ?thesis using t o(1) by (auto simp: bfs_ok_def fields)
qed (simp add: bfs_visit_def s)

lemma bfs_visit_grows:
  "set (st_order (bfs_visit node nb s)) = (if fst nb \<in> set (bs_visited s) then set (st_order s) else insert (fst nb) (set (st_order s)))"
  "set (bs_queue (bfs_visit node nb s)) = (if fst nb \<in> set (bs_visited s) then set (bs_queue s) else insert (fst nb) (set (bs_queue s)))"
  by (auto simp: bfs_visit_def split: prod.splits)

lemma bfs_expand_ok:
  assumes "bfs_ok es start s" "node \<in> set (st_order s)"
  shows "bfs_ok es start (bfs_expand es node s)"
    "set (st_order (bfs_expand es node s)) = set (st_order s) \<union> fst ` set (neighbours es node)"
    "set (bs_queue (bfs_expand es node s)) =
       set (bs_queue s) \<union> (fst ` set (neighbours es node) - set (st_order s))"
proof -
  have "bfs_ok es start (fold (bfs_visit node) nbs s) \<and>
      set (st_order (fold (bfs_visit node) nbs s)) = set (st_order s) \<union> fst ` set nbs \<and>
      set (bs_queue (fold (bfs_visit node) nbs s)) = set (bs_queue s) \<union> (fst ` set nbs - set (st_order s))"
    if "\<forall>(m, k) \<in> set nbs. joins es k node m" for nbs
    using that assms
  proof (induction nbs arbitrary: s)
    case (Cons nb nbs)
    obtain m k where nb: "nb = (m, k)" by (cases nb)
    let ?s = "bfs_visit node nb s"
    have ok: "bfs_ok es start ?s" unfolding nb by (rule bfs_visit_ok) (use Cons.prems nb in auto)
    have vis: "bs_visited s = st_order s" using Cons.prems(2) by (simp add: bfs_ok_def)
    have "node \<in> set (st_order ?s)" using Cons.prems(3) by (simp add: bfs_visit_grows)
    then have "bfs_ok es start (fold (bfs_visit node) nbs ?s) \<and>
        set (st_order (fold (bfs_visit node) nbs ?s)) = set (st_order ?s) \<union> fst ` set nbs \<and>
        set (bs_queue (fold (bfs_visit node) nbs ?s)) = set (bs_queue ?s) \<union> (fst ` set nbs - set (st_order ?s))"
      using Cons.IH [OF _ ok] Cons.prems(1) by simp
    then show ?case unfolding bfs_visit_grows vis by auto
  qed simp
  moreover have "\<forall>(m, k) \<in> set (neighbours es node). joins es k node m"
    by (auto simp: neighbours_joins)
  ultimately show
    "bfs_ok es start (bfs_expand es node s)"
    "set (st_order (bfs_expand es node s)) = set (st_order s) \<union> fst ` set (neighbours es node)"
    "set (bs_queue (bfs_expand es node s)) =
       set (bs_queue s) \<union> (fst ` set (neighbours es node) - set (st_order s))"
    unfolding bfs_expand_def by blast+
qed

text \<open>A visited node that is off the queue has all its neighbours visited.\<close>

definition explored :: "edge list \<Rightarrow> bfs_state \<Rightarrow> bool" where
  "explored es s \<longleftrightarrow>
     (\<forall>n \<in> set (st_order s). n \<in> set (bs_queue s) \<or> (\<forall>k m. joins es k n m \<longrightarrow> m \<in> set (st_order s)))"

lemma bfs_loop_finds:
  "bfs_ok es start s \<Longrightarrow> explored es s \<Longrightarrow>
     bfs_ok es start (bfs_loop es s) \<and> explored es (bfs_loop es s) \<and> bs_queue (bfs_loop es s) = []"
proof (induction es s rule: bfs_loop.induct)
  case (1 es s)
  show ?case
  proof (cases "bs_queue s")
    case (Cons node rest)
    let ?s = "s\<lparr>bs_queue := rest\<rparr>"
    have ok: "bfs_ok es start ?s" "node \<in> set (st_order ?s)"
      using "1.prems"(1) Cons by (auto simp: bfs_ok_def tree_ok_def hangs_def)
    note ex = bfs_expand_ok [OF ok]
    have "explored es (bfs_expand es node ?s)"
      using "1.prems"(2) Cons unfolding explored_def ex(2,3)
      by (force simp: neighbours_joins [symmetric] image_iff)
    then show ?thesis
      using "1.IH" [OF Cons ex(1)] Cons by (simp add: bfs_loop.simps [of es s])
  qed (use "1.prems" in \<open>simp add: bfs_loop.simps [of es s]\<close>)
qed

lemma bfs_start_ok: "bfs_ok es start (bfs_start start)" "explored es (bfs_start start)"
  by (simp_all add: bfs_ok_def tree_ok_def bfs_start_def linked_def explored_def)

lemma bfs_reaches:
  "n \<in> set (st_order (bfs_loop es (bfs_start start))) \<longleftrightarrow> linked es start n"
proof -
  let ?s = "bfs_loop es (bfs_start start)"
  note f = bfs_loop_finds [OF bfs_start_ok, of es start]
  have closed: "joins es k m n \<Longrightarrow> m \<in> set (st_order ?s) \<Longrightarrow> n \<in> set (st_order ?s)" for k m n
    using f by (auto simp: explored_def)
  have start: "start \<in> set (st_order ?s)" using f unfolding bfs_ok_def tree_ok_def by (metis list.set_sel(1))
  have "n \<in> set (st_order ?s)" if "linked es start n" for n
    using that unfolding linked_def by (induction rule: rtranclp_induct) (use start closed in blast)+
  then show ?thesis using f by (auto simp: bfs_ok_def)
qed

lemma file_edges_Ok: "file_edges nodes es = Ok u \<longleftrightarrow> edge_ends es \<subseteq> set nodes"
  by (induction es) (auto simp: edge_ends_def)

lemma truncate_tree [simp]: "tree_ok es (spanning_tree.truncate s) \<longleftrightarrow> tree_ok es s"
  by (simp add: tree_ok_def hangs_def spanning_tree.defs)

lemma linked_ends: "linked es m n \<Longrightarrow> n = m \<or> n \<in> edge_ends es"
  unfolding linked_def by (erule rtranclp.cases) (auto simp: joins_def edge_ends_def)

text \<open>The search succeeds exactly on a connected network whose nodes are listed once.\<close>

lemma spanning_tree_iff:
  "spanning_tree nodes es = Ok t \<longleftrightarrow>
     nodes \<noteq> [] \<and> edge_ends es \<subseteq> set nodes \<and> distinct nodes \<and> (\<forall>n \<in> set nodes. linked es (hd nodes) n) \<and>
     t = spanning_tree.truncate (bfs_loop es (bfs_start (hd nodes)))"
proof (cases nodes)
  case (Cons start rest)
  let ?s = "bfs_loop es (bfs_start start)"
  note f = bfs_loop_finds [OF bfs_start_ok, of es start]
  have vis: "bs_visited ?s = st_order ?s" "distinct (st_order ?s)" using f by (auto simp: bfs_ok_def tree_ok_def)
  have set: "set (st_order ?s) = {n. linked es start n}" using bfs_reaches by blast
  have all: "length (st_order ?s) = length nodes \<longleftrightarrow> distinct nodes \<and> (\<forall>n \<in> set nodes. linked es start n)"
    if ends: "edge_ends es \<subseteq> set nodes"
  proof -
    have sub: "set (st_order ?s) \<subseteq> set nodes"
      using linked_ends ends unfolding set Cons by fastforce
    have "length (st_order ?s) = card (set (st_order ?s))" using vis(2) by (simp add: distinct_card)
    moreover have "card (set (st_order ?s)) = card (set nodes) \<longleftrightarrow> set (st_order ?s) = set nodes"
      using sub card_subset_eq [OF _ sub] by auto
    moreover have "card (set (st_order ?s)) \<le> card (set nodes)" using sub by (simp add: card_mono)
    moreover have "card (set nodes) \<le> length nodes" by (rule card_length)
    moreover have "card (set nodes) = length nodes \<longleftrightarrow> distinct nodes" by (metis card_distinct distinct_card)
    ultimately have "length (st_order ?s) = length nodes \<longleftrightarrow> distinct nodes \<and> set (st_order ?s) = set nodes"
      by (metis le_antisym)
    then show ?thesis using sub unfolding set by auto
  qed
  show ?thesis
    using all by (cases "edge_ends es \<subseteq> set nodes")
      (auto simp: spanning_tree_def Cons file_edges_Ok outcome_simps vis Let_def)
qed (auto simp: spanning_tree_def outcome_simps)

lemma spanning_tree_tree:
  assumes "spanning_tree nodes es = Ok t"
  shows "tree_ok es t" "set (st_order t) = set nodes" "hd (st_order t) = hd nodes" "distinct nodes"
    "edge_ends es \<subseteq> set nodes"
proof -
  let ?s = "bfs_loop es (bfs_start (hd nodes))"
  have a: "nodes \<noteq> []" "edge_ends es \<subseteq> set nodes" "distinct nodes" "\<forall>n \<in> set nodes. linked es (hd nodes) n"
    "t = spanning_tree.truncate ?s"
    using assms unfolding spanning_tree_iff by blast+
  note f = bfs_loop_finds [OF bfs_start_ok, of es "hd nodes"]
  have o: "st_order t = st_order ?s" by (simp add: a(5) spanning_tree.defs)
  show "tree_ok es t" using f by (simp add: a(5) bfs_ok_def)
  show "hd (st_order t) = hd nodes" using f by (simp add: o bfs_ok_def)
  have set: "set (st_order ?s) = {n. linked es (hd nodes) n}" using bfs_reaches by blast
  have "n \<in> set nodes" if "linked es (hd nodes) n" for n
    using linked_ends [OF that] a(1,2) by auto
  then show "set (st_order t) = set nodes" unfolding o set using a(4) by auto
  show "distinct nodes" "edge_ends es \<subseteq> set nodes" by (rule a)+
qed

end
