(* ===== verification/Flow_Loops.thy ===== *)
theory Flow_Loops
  imports Flow_Tree
begin

text \<open>
  The fundamental cycle basis of a flow network (\<open>_build_cycle_basis\<close> of \<open>fluids/network.py\<close>):
  each edge outside the tree closes one loop with the tree paths of its two ends. The lemmas say
  that the walk to the root ends there, and that a loop enters every node as often as it leaves it.
\<close>

section \<open>The basis\<close>

text \<open>
  \<open>_path_to_root\<close>. The walk climbs the tree, so a path is shorter than the order of the nodes: that
  length is fuel enough. A node with a parent node has a parent edge.
\<close>

primrec path_to_root :: "nat \<Rightarrow> edge list \<Rightarrow> spanning_tree \<Rightarrow> string \<Rightarrow> (nat \<times> int) list" where
  "path_to_root 0 es t n = []"
| "path_to_root (Suc fuel) es t n =
     (case dget (st_parent_node t) n of
        None \<Rightarrow> []
      | Some parent \<Rightarrow>
          (let e_idx = the (dget (st_parent_edge t) n);
               sign = (if e_b (es ! e_idx) = n then 1 else - 1)
           in (e_idx, sign) # path_to_root fuel es t parent))"

definition depth_path :: "edge list \<Rightarrow> spanning_tree \<Rightarrow> string \<Rightarrow> (nat \<times> int) list" where
  "depth_path es t n = path_to_root (length (st_order t)) es t n"

definition chord_loop :: "edge list \<Rightarrow> spanning_tree \<Rightarrow> nat \<Rightarrow> (nat \<times> int) list" where
  "chord_loop es t idx =
     (let a_path = depth_path es t (e_a (es ! idx));
          b_path = depth_path es t (e_b (es ! idx));
          common = fst ` set a_path \<inter> fst ` set b_path
      in (idx, 1) # filter (\<lambda>(i, s). i \<notin> common) a_path @
         map (\<lambda>(i, s). (i, - s)) (filter (\<lambda>(i, s). i \<notin> common) b_path))"

definition build_cycle_basis :: "edge list \<Rightarrow> spanning_tree \<Rightarrow> (nat \<times> int) list list" where
  "build_cycle_basis es t =
     map (chord_loop es t) (filter (\<lambda>idx. idx \<notin> set (st_tree_edges t)) [0..<length es])"

section \<open>The parent edges of a tree\<close>

lemma tree_hangs:
  assumes "tree_ok es t" "0 < i" "i < length (st_order t)"
  obtains j k where "j < i" "dget (st_parent_node t) (st_order t ! i) = Some (st_order t ! j)"
    "dget (st_parent_edge t) (st_order t ! i) = Some k" "joins es k (st_order t ! j) (st_order t ! i)"
  using assms unfolding tree_ok_def hangs_def by blast

lemma tree_position:
  assumes "tree_ok es t" "dget (st_parent_edge t) n = Some k"
  obtains i where "0 < i" "i < length (st_order t)" "st_order t ! i = n"
proof -
  have "n \<in> set (tl (st_order t))" using assms unfolding tree_ok_def by (metis option.distinct(1))
  then obtain j where "j < length (tl (st_order t))" "tl (st_order t) ! j = n" by (metis in_set_conv_nth)
  then show thesis using that [of "Suc j"] by (simp add: nth_tl)
qed

lemma tree_no_parent: "tree_ok es t \<Longrightarrow> dget (st_parent_node t) (st_order t ! 0) = None"
proof -
  assume t: "tree_ok es t"
  then have "hd (st_order t) \<notin> set (tl (st_order t))"
    unfolding tree_ok_def by (metis distinct.simps(2) list.collapse)
  then show ?thesis using t unfolding tree_ok_def by (simp add: hd_conv_nth)
qed

lemma tree_order_neq:
  "tree_ok es t \<Longrightarrow> j < i \<Longrightarrow> i < length (st_order t) \<Longrightarrow> st_order t ! j \<noteq> st_order t ! i"
  unfolding tree_ok_def by (metis nat_neq_iff nth_eq_iff_index_eq order_less_trans)

text \<open>An edge is the parent edge of one node only.\<close>

lemma parent_edge_once:
  assumes t: "tree_ok es t" and n: "dget (st_parent_edge t) n = Some k" and m: "dget (st_parent_edge t) m = Some k"
  shows "n = m"
proof -
  have main: False
    if lt: "i < i'" "0 < i" "i' < length (st_order t)"
      and k: "dget (st_parent_edge t) (st_order t ! i) = Some k" "dget (st_parent_edge t) (st_order t ! i') = Some k"
    for i i'
  proof -
    obtain j where j: "j < i" "joins es k (st_order t ! j) (st_order t ! i)"
      using tree_hangs [OF t lt(2)] lt(1,3) k(1) by (metis less_trans option.inject)
    obtain j' where j': "j' < i'" "joins es k (st_order t ! j') (st_order t ! i')"
      using tree_hangs [OF t _ lt(3)] lt(1) k(2) by (metis gr_zeroI less_zeroE option.inject)
    have "st_order t ! i' = st_order t ! j \<or> st_order t ! i' = st_order t ! i"
      using j(2) j'(2) unfolding joins_def by metis
    then show False using tree_order_neq [OF t _ lt(3)] j(1) lt(1) by (metis less_trans)
  qed
  obtain i where i: "0 < i" "i < length (st_order t)" "st_order t ! i = n" by (rule tree_position [OF t n])
  obtain i' where i': "0 < i'" "i' < length (st_order t)" "st_order t ! i' = m" by (rule tree_position [OF t m])
  show ?thesis
    using main [of i i'] main [of i' i] i i' n m by (metis linorder_neqE_nat)
qed

section \<open>Paths to the root\<close>

text \<open>The direction in which the tree passes an edge, away from the root.\<close>

definition tree_sign :: "edge list \<Rightarrow> 'a spanning_tree_scheme \<Rightarrow> nat \<Rightarrow> int" where
  "tree_sign es t k = (if dget (st_parent_edge t) (e_b (es ! k)) = Some k then 1 else - 1)"

lemma tree_sign_at:
  assumes "tree_ok es t" "dget (st_parent_edge t) n = Some k"
  shows "tree_sign es t k = (if e_b (es ! k) = n then 1 else - 1)"
  using assms parent_edge_once unfolding tree_sign_def by metis

lemma path_more_fuel:
  assumes t: "tree_ok es t" and "i < length (st_order t)" "i \<le> fuel"
  shows "path_to_root fuel es t (st_order t ! i) = path_to_root i es t (st_order t ! i)"
  using assms(2,3)
proof (induction i arbitrary: fuel rule: less_induct)
  case (less i)
  show ?case
  proof (cases "i = 0")
    case True
    then show ?thesis using tree_no_parent [OF t] by (cases fuel) simp_all
  next
    case False
    then obtain j k where j: "j < i" "dget (st_parent_node t) (st_order t ! i) = Some (st_order t ! j)"
      using tree_hangs [OF t _ less.prems(1)] by blast
    obtain f where f: "fuel = Suc f" using less.prems(2) False by (cases fuel) auto
    obtain i0 where i0: "i = Suc i0" using False by (cases i) auto
    have "path_to_root f es t (st_order t ! j) = path_to_root i0 es t (st_order t ! j)"
      using less.IH [of j f] less.IH [of j i0] j(1) less.prems f i0 by simp
    then show ?thesis using j(2) by (simp add: f i0)
  qed
qed

lemma depth_path_root: "tree_ok es t \<Longrightarrow> depth_path es t (st_order t ! 0) = []"
  unfolding depth_path_def by (cases "length (st_order t)") (simp_all add: tree_no_parent)

lemma depth_path_step:
  assumes t: "tree_ok es t" and i: "0 < i" "i < length (st_order t)"
    and p: "dget (st_parent_node t) (st_order t ! i) = Some (st_order t ! j)" "j < i"
    and k: "dget (st_parent_edge t) (st_order t ! i) = Some k"
  shows "depth_path es t (st_order t ! i) = (k, tree_sign es t k) # depth_path es t (st_order t ! j)"
proof -
  obtain l where l: "length (st_order t) = Suc l" using i by (cases "length (st_order t)") auto
  have "path_to_root l es t (st_order t ! j) = path_to_root j es t (st_order t ! j)"
    by (rule path_more_fuel [OF t]) (use i p l in auto)
  moreover have "depth_path es t (st_order t ! j) = path_to_root j es t (st_order t ! j)"
    unfolding depth_path_def by (rule path_more_fuel [OF t]) (use i p in auto)
  ultimately show ?thesis
    using p k tree_sign_at [OF t k] by (simp add: depth_path_def [of es t "st_order t ! i"] l)
qed

text \<open>A path runs over different tree edges, each in the direction the tree passes it.\<close>

lemma depth_path_form:
  assumes t: "tree_ok es t" and "i < length (st_order t)"
  shows "\<exists>ks. depth_path es t (st_order t ! i) = map (\<lambda>k. (k, tree_sign es t k)) ks \<and> distinct ks \<and>
    (\<forall>k \<in> set ks. \<exists>l. 0 < l \<and> l \<le> i \<and> dget (st_parent_edge t) (st_order t ! l) = Some k)"
  using assms(2)
proof (induction i rule: less_induct)
  case (less i)
  show ?case
  proof (cases "i = 0")
    case False
    then obtain j k where j: "j < i" "dget (st_parent_node t) (st_order t ! i) = Some (st_order t ! j)"
      "dget (st_parent_edge t) (st_order t ! i) = Some k"
      using tree_hangs [OF t _ less.prems] by blast
    obtain ks where ks: "depth_path es t (st_order t ! j) = map (\<lambda>k. (k, tree_sign es t k)) ks" "distinct ks"
      "\<forall>k \<in> set ks. \<exists>l. 0 < l \<and> l \<le> j \<and> dget (st_parent_edge t) (st_order t ! l) = Some k"
      using less.IH [OF j(1)] j(1) less.prems by auto
    have "k \<notin> set ks"
      using ks(3) parent_edge_once [OF t j(3)] tree_order_neq [OF t _ less.prems] j(1) by (metis le_less_trans)
    then show ?thesis
      using depth_path_step [OF t _ less.prems j(2,1,3)] False ks j
      by (intro exI [of _ "k # ks"]) (auto intro: exI [of _ i] dest: order_trans [OF _ less_imp_le])
  qed (use depth_path_root [OF t] in simp)
qed

text \<open>How often a signed run over edges enters a node, less how often it leaves it.\<close>

definition enters :: "edge list \<Rightarrow> nat \<Rightarrow> string \<Rightarrow> int" where
  "enters es k n = of_bool (e_b (es ! k) = n) - of_bool (e_a (es ! k) = n)"

definition net_entries :: "edge list \<Rightarrow> (nat \<times> int) list \<Rightarrow> string \<Rightarrow> int" where
  "net_entries es p n = (\<Sum>(k, s) \<leftarrow> p. s * enters es k n)"

lemma net_entries_simps [simp]:
  "net_entries es [] n = 0"
  "net_entries es ((k, s) # p) n = s * enters es k n + net_entries es p n"
  "net_entries es (p @ q) n = net_entries es p n + net_entries es q n"
  by (simp_all add: net_entries_def)

lemma net_entries_neg: "net_entries es (map (\<lambda>(i, s). (i, - s)) p) n = - net_entries es p n"
  by (induction p) auto

text \<open>A path leaves the root and ends in its node.\<close>

lemma depth_path_entries:
  assumes t: "tree_ok es t" and "i < length (st_order t)"
  shows "net_entries es (depth_path es t (st_order t ! i)) n =
    of_bool (st_order t ! i = n) - of_bool (st_order t ! 0 = n)"
  using assms(2)
proof (induction i rule: less_induct)
  case (less i)
  show ?case
  proof (cases "i = 0")
    case False
    then obtain j k where j: "j < i" "dget (st_parent_node t) (st_order t ! i) = Some (st_order t ! j)"
      "dget (st_parent_edge t) (st_order t ! i) = Some k" "joins es k (st_order t ! j) (st_order t ! i)"
      using tree_hangs [OF t _ less.prems] by blast
    have "st_order t ! j \<noteq> st_order t ! i" by (rule tree_order_neq [OF t j(1) less.prems])
    then have sign: "tree_sign es t k * enters es k n = of_bool (st_order t ! i = n) - of_bool (st_order t ! j = n)"
      using j(4) unfolding joins_def tree_sign_at [OF t j(3)] enters_def
      by (elim conjE disjE) (simp_all del: of_bool_eq_iff)
    have "net_entries es (depth_path es t (st_order t ! j)) n =
        of_bool (st_order t ! j = n) - of_bool (st_order t ! 0 = n)"
      using less.IH [OF j(1)] j(1) less.prems by simp
    then show ?thesis
      using False sign by (subst depth_path_step [OF t _ less.prems j(2,1,3)]) simp_all
  qed (simp add: depth_path_root [OF t])
qed

section \<open>Loops are closed\<close>

lemma common_part:
  assumes "p = map (\<lambda>k. (k, sg k)) ks" "distinct ks" "q = map (\<lambda>k. (k, sg k)) ls" "distinct ls"
  shows "net_entries es (filter (\<lambda>(i, s). i \<notin> fst ` set p \<inter> fst ` set q) p) n -
      net_entries es (filter (\<lambda>(i, s). i \<notin> fst ` set p \<inter> fst ` set q) q) n =
    net_entries es p n - net_entries es q n"
proof -
  let ?f = "\<lambda>k. sg k * enters es k n"
  have all: "net_entries es (map (\<lambda>k. (k, sg k)) ms) n = (\<Sum>k \<in> set ms. ?f k)" if "distinct ms" for ms
    using that by (simp add: net_entries_def comp_def sum_list_distinct_conv_sum_set)
  have part: "net_entries es (filter (\<lambda>(i, s). i \<notin> C) (map (\<lambda>k. (k, sg k)) ms)) n =
      (\<Sum>k \<in> set ms - C. ?f k)" if "distinct ms" for ms C
  proof -
    have "filter (\<lambda>(i, s). i \<notin> C) (map (\<lambda>k. (k, sg k)) ms) = map (\<lambda>k. (k, sg k)) (filter (\<lambda>k. k \<notin> C) ms)"
      by (simp add: filter_map comp_def)
    moreover have "set (filter (\<lambda>k. k \<notin> C) ms) = set ms - C" by auto
    ultimately show ?thesis using all [of "filter (\<lambda>k. k \<notin> C) ms"] that by simp
  qed
  have keys: "fst ` set p = set ks" "fst ` set q = set ls" by (auto simp: assms(1,3) image_iff)
  have split: "(\<Sum>k \<in> A. ?f k) = (\<Sum>k \<in> A - B. ?f k) + (\<Sum>k \<in> A \<inter> B. ?f k)" if "finite A" for A B
    using sum.Int_Diff [OF that, of ?f B] by simp
  show ?thesis
    unfolding keys unfolding assms(1,3) part [OF assms(2)] part [OF assms(4)] all [OF assms(2)] all [OF assms(4)]
    using split [of "set ks" "set ls"] split [of "set ls" "set ks"]
    by (simp add: Diff_Int Int_commute)
qed

lemma loop_closed:
  assumes t: "tree_ok es t" and ends: "e_a (es ! idx) \<in> set (st_order t)" "e_b (es ! idx) \<in> set (st_order t)"
  shows "net_entries es (chord_loop es t idx) n = 0"
proof -
  obtain i where i: "i < length (st_order t)" "e_a (es ! idx) = st_order t ! i"
    using ends(1) by (metis in_set_conv_nth)
  obtain j where j: "j < length (st_order t)" "e_b (es ! idx) = st_order t ! j"
    using ends(2) by (metis in_set_conv_nth)
  obtain ks where ks: "depth_path es t (e_a (es ! idx)) = map (\<lambda>k. (k, tree_sign es t k)) ks" "distinct ks"
    using depth_path_form [OF t i(1)] unfolding i(2) by blast
  obtain ls where ls: "depth_path es t (e_b (es ! idx)) = map (\<lambda>k. (k, tree_sign es t k)) ls" "distinct ls"
    using depth_path_form [OF t j(1)] unfolding j(2) by blast
  have "net_entries es (depth_path es t (e_a (es ! idx))) n - net_entries es (depth_path es t (e_b (es ! idx))) n =
      - enters es idx n"
    unfolding enters_def i(2) j(2) using depth_path_entries [OF t i(1)] depth_path_entries [OF t j(1)] by simp
  then show ?thesis
    using common_part [OF ks ls, of es n]
    by (simp add: chord_loop_def Let_def net_entries_neg)
qed

lemma basis_closed:
  assumes "spanning_tree nodes es = Ok t" "l \<in> set (build_cycle_basis es t)"
  shows "net_entries es l n = 0"
proof -
  note tr = spanning_tree_tree [OF assms(1)]
  obtain idx where idx: "idx < length es" "l = chord_loop es t idx"
    using assms(2) by (auto simp: build_cycle_basis_def)
  have "e_a (es ! idx) \<in> set (st_order t)" "e_b (es ! idx) \<in> set (st_order t)"
    using tr(2,5) idx(1) unfolding edge_ends_def by (auto dest: nth_mem)
  then show ?thesis unfolding idx(2) by (rule loop_closed [OF tr(1)])
qed

text \<open>A loop runs over edges of the network.\<close>

lemma loop_indices:
  assumes "tree_ok es t" "idx < length es"
    "e_a (es ! idx) \<in> set (st_order t)" "e_b (es ! idx) \<in> set (st_order t)" "(k, s) \<in> set (chord_loop es t idx)"
  shows "k < length es"
proof -
  have "k < length es" if n: "n \<in> set (st_order t)" and k: "(k, s) \<in> set (depth_path es t n)" for n s
  proof -
    obtain i where i: "i < length (st_order t)" "n = st_order t ! i" using n by (metis in_set_conv_nth)
    obtain ks where ks: "depth_path es t n = map (\<lambda>k. (k, tree_sign es t k)) ks"
      "\<forall>k \<in> set ks. \<exists>l. 0 < l \<and> l \<le> i \<and> dget (st_parent_edge t) (st_order t ! l) = Some k"
      using depth_path_form [OF assms(1) i(1)] unfolding i(2) by blast
    have "k \<in> set ks" using k unfolding ks(1) by auto
    then obtain l where l: "0 < l" "l \<le> i" "dget (st_parent_edge t) (st_order t ! l) = Some k"
      using ks(2) by blast
    obtain j k' where "dget (st_parent_edge t) (st_order t ! l) = Some k'" "joins es k' (st_order t ! j) (st_order t ! l)"
      using tree_hangs [OF assms(1) l(1)] l(2) i(1) by (metis le_less_trans)
    then show ?thesis using l(3) by (simp add: joins_def)
  qed
  then show ?thesis using assms(2-5) by (auto simp: chord_loop_def Let_def)
qed

end
