(* ===== verification/Flow_Balance.thy ===== *)
theory Flow_Balance
  imports Flow_Solve
begin

text \<open>
  Continuity in the Hardy-Cross solve: the seed settles every node of the tree, from the leaves to
  the root, and a correction of a loop that holds only unknown flows changes no balance, because
  the loop enters each node as often as it leaves it.
\<close>

section \<open>What depends on the net only\<close>

lemma joins_net: "net_of es = net_of es' \<Longrightarrow> joins es k m n \<longleftrightarrow> joins es' k m n"
  unfolding joins_def using net_of_length net_of_fields(1,2) by metis

lemma tree_ok_net:
  assumes "net_of es = net_of es'" "tree_ok es t"
  shows "tree_ok es' t"
  using assms(2) unfolding tree_ok_def hangs_def joins_net [OF assms(1)] .

lemma node_incident_net:
  assumes "net_of es = net_of es'"
  shows "node_incident es n = node_incident es' n"
proof -
  let ?g = "\<lambda>(i, e). (if e_a e = n then [(i, - 1)] else []) @ (if e_b e = n then [(i, 1 :: int)] else [])"
  have "map ?g (enumerate 0 es) = map ?g (enumerate 0 es')"
    using net_of_length [OF assms] net_of_fields(1,2) [OF assms]
    by (intro nth_equalityI) (simp_all add: nth_enumerate_eq)
  then show ?thesis by (simp add: node_incident_def)
qed

lemma net_entries_net:
  assumes "net_of es = net_of es'" "\<forall>(k, s) \<in> set l. k < length es"
  shows "net_entries es l n = net_entries es' l n"
  using assms(2) net_of_fields(5) [OF assms(1)] by (induction l) auto

section \<open>Settled nodes\<close>

definition numbers_at :: "edge list \<Rightarrow> string \<Rightarrow> bool" where
  "numbers_at es n \<longleftrightarrow>
     (\<forall>i < length es. e_a (es ! i) = n \<or> e_b (es ! i) = n \<longrightarrow> fl_finite (e_flow (es ! i)))"

definition settled :: "edge list \<Rightarrow> string \<Rightarrow> bool" where
  "settled es n \<longleftrightarrow>
     (numbers_at es n \<longrightarrow> 1 < length (node_incident es n) \<longrightarrow> \<bar>node_balance es n\<bar> \<le> CONSERVATION_TOL)"

lemma finite_numbers: "finite_flows es \<Longrightarrow> numbers_at es n"
  by (simp add: finite_flows_def numbers_at_def)

text \<open>A flow that is set elsewhere leaves a node as it was.\<close>

lemma settled_elsewhere:
  assumes "settled es n" "j < length es" "e_a (es ! j) \<noteq> n" "e_b (es ! j) \<noteq> n"
  shows "settled (set_flow j q es) n"
proof -
  have e: "enters es j n = 0" using assms by (simp add: enters_def)
  have ends: "e_a (set_flow j q es ! i) = e_a (es ! i)" "e_b (set_flow j q es ! i) = e_b (es ! i)" if "i < length es" for i
    using net_of_fields(1,2) [of "set_flow j q es" es i] that by simp_all
  have "numbers_at (set_flow j q es) n \<Longrightarrow> numbers_at es n"
    using assms(3,4) ends unfolding numbers_at_def by (metis set_flow_get set_flow_length)
  then show ?thesis
    using assms(1) node_incident_net [of "set_flow j q es" es n] e
    by (simp add: settled_def set_flow_balance [OF assms(2)])
qed

text \<open>The balance splits into one edge and the rest, which the seed sums up.\<close>

lemma balance_split:
  assumes "p < length es"
  shows "node_balance es n =
    (\<Sum>i \<in> {i. i < length es \<and> i \<noteq> p}. of_int (enters es i n) * flow_at es i) + of_int (enters es p n) * flow_at es p"
proof -
  have "{..<length es} - {p} = {i. i < length es \<and> i \<noteq> p}" by auto
  then show ?thesis
    using assms sum.remove [of "{..<length es}" p "\<lambda>i. of_int (enters es i n) * flow_at es i"]
    by (simp add: node_balance_def)
qed

lemma rest_sum:
  assumes "\<forall>i < length es. i \<noteq> p \<longrightarrow> e_a (es ! i) = n \<or> e_b (es ! i) = n \<longrightarrow> fl_finite (e_flow (es ! i))"
  shows "flow_sum es (filter (\<lambda>(i, s). i \<noteq> p) (node_incident es n)) =
    Fin (\<Sum>i \<in> {i. i < length es \<and> i \<noteq> p}. of_int (enters es i n) * flow_at es i)"
proof -
  have "\<forall>(i, s) \<in> set (filter (\<lambda>(i, s). i \<noteq> p) (node_incident es n)). fl_finite (e_flow (es ! i))"
    using assms by (auto simp: node_incident_mem)
  from flow_sum_Fin [OF this] show ?thesis
    using node_incident_sum [where P = "\<lambda>i. i \<noteq> p" and es = es and n = n and f = "flow_at es"] by simp
qed

lemma whole_sum:
  assumes "numbers_at es n"
  shows "flow_sum es (node_incident es n) = Fin (node_balance es n)"
proof -
  have "\<forall>(i, s) \<in> set (node_incident es n). fl_finite (e_flow (es ! i))"
    using assms by (auto simp: node_incident_mem numbers_at_def)
  from flow_sum_Fin [OF this] show ?thesis
    using node_incident_sum [where P = "\<lambda>_. True" and es = es and n = n and f = "flow_at es"]
    by (simp add: node_balance_def lessThan_def)
qed

section \<open>The seed\<close>

lemma seed_node_net: "seed_node t node es = Ok es' \<Longrightarrow> net_of es' = net_of es"
  by (auto simp: seed_node_def Let_def split: if_splits)

text \<open>Setting the parent edge of a node, or checking it, settles the node.\<close>

lemma parent_settles:
  fixes p es node
  defines "rest \<equiv> flow_sum es (filter (\<lambda>(i, s). i \<noteq> p) (node_incident es node))"
  assumes p: "p < length es" and s: "of_int (enters es p node) = (s :: real)" "s = 1 \<or> s = - 1"
  shows "settled (set_flow p (fl_mul (fl_neg rest) (Fin s)) es) node"
    and "\<not> fl_lt (Fin CONSERVATION_TOL) (fl_abs (fl_sub (fl_mul (fl_neg rest) (Fin s)) (e_flow (es ! p)))) \<Longrightarrow>
      settled es node"
proof -
  let ?B = "\<Sum>i \<in> {i. i < length es \<and> i \<noteq> p}. of_int (enters es i node) * flow_at es i"
  have sq: "s * s = 1" using s(2) by auto
  show "settled (set_flow p (fl_mul (fl_neg rest) (Fin s)) es) node"
    unfolding settled_def
  proof (intro impI)
    assume num: "numbers_at (set_flow p (fl_mul (fl_neg rest) (Fin s)) es) node"
    have "fl_finite (e_flow (es ! i))" if i: "i < length es" "i \<noteq> p" and "e_a (es ! i) = node \<or> e_b (es ! i) = node" for i
      using num that net_of_fields(1,2) [of "set_flow p (fl_mul (fl_neg rest) (Fin s)) es" es i]
      by (auto simp: numbers_at_def set_flow_get dest!: spec [of _ i])
    then have "rest = Fin ?B" unfolding rest_def by (intro rest_sum) blast
    then have "node_balance (set_flow p (fl_mul (fl_neg rest) (Fin s)) es) node = ?B + s * (- ?B * s)"
      unfolding set_flow_balance [OF p] balance_split [OF p] s(1) by (simp add: algebra_simps)
    also have "\<dots> = 0" using s(2) by auto
    finally show "\<bar>node_balance (set_flow p (fl_mul (fl_neg rest) (Fin s)) es) node\<bar> \<le> CONSERVATION_TOL"
      by (simp add: CONSERVATION_TOL_def)
  qed
  show "settled es node"
    if near: "\<not> fl_lt (Fin CONSERVATION_TOL) (fl_abs (fl_sub (fl_mul (fl_neg rest) (Fin s)) (e_flow (es ! p))))"
    unfolding settled_def
  proof (intro impI)
    assume num: "numbers_at es node"
    then have "rest = Fin ?B" unfolding rest_def by (intro rest_sum) (simp add: numbers_at_def)
    moreover have "e_a (es ! p) = node \<or> e_b (es ! p) = node"
      using s by (auto simp: enters_def of_bool_def split: if_splits)
    then obtain f where f: "e_flow (es ! p) = Fin f" using num p by (auto simp: numbers_at_def fl_finite_iff)
    ultimately have "\<bar>- ?B * s - f\<bar> \<le> CONSERVATION_TOL" using near by (simp add: not_less)
    moreover have "node_balance es node = ?B + s * f"
      unfolding balance_split [OF p] s(1) by (simp add: flow_at_def f)
    ultimately show "\<bar>node_balance es node\<bar> \<le> CONSERVATION_TOL" using s(2) by auto
  qed
qed

lemma seed_node_settles:
  assumes t: "tree_ok es t" and m: "0 < m" "m < length (st_order t)"
    and ok: "seed_node t (st_order t ! m) es = Ok es'"
  shows "settled es' (st_order t ! m)"
    "m < l \<Longrightarrow> l < length (st_order t) \<Longrightarrow> settled es (st_order t ! l) \<Longrightarrow> settled es' (st_order t ! l)"
proof -
  let ?n = "st_order t ! m"
  obtain j p where j: "j < m" "dget (st_parent_edge t) ?n = Some p" "joins es p (st_order t ! j) ?n"
    using tree_hangs [OF t m] by blast
  have p: "p < length es" using j(3) by (simp add: joins_def)
  have neq: "st_order t ! j \<noteq> ?n" by (rule tree_order_neq [OF t j(1) m(2)])
  have e: "of_int (enters es p ?n) = (if e_a (es ! p) = ?n then - 1 else 1 :: real)"
    using j(3) neq unfolding joins_def enters_def by auto
  have sg: "(if e_a (es ! p) = ?n then - 1 else 1 :: real) = 1 \<or> (if e_a (es ! p) = ?n then - 1 else 1 :: real) = - 1"
    by simp
  note ps = parent_settles [OF p e sg]
  show "settled es' ?n"
  proof (cases "length (node_incident es ?n) = 1")
    case True
    then show ?thesis
      using node_incident_net [OF seed_node_net [OF ok], of ?n] by (simp add: settled_def)
  next
    case False
    then show ?thesis
      using ok ps unfolding seed_node_def j(2) option.sel Let_def
      by (cases "unknown_flow (es ! p)") (simp_all split: if_splits)
  qed
  show "settled es' (st_order t ! l)"
    if l: "m < l" "l < length (st_order t)" "settled es (st_order t ! l)"
  proof -
    have "e_a (es ! p) \<noteq> st_order t ! l" "e_b (es ! p) \<noteq> st_order t ! l"
      using j(3) tree_order_neq [OF t _ l(2)] l(1) j(1) unfolding joins_def by (metis less_trans)+
    note el = settled_elsewhere [OF l(3) p this]
    show ?thesis
      using ok el l(3) unfolding seed_node_def j(2) option.sel Let_def by (auto split: if_splits)
  qed
qed

lemma seed_nodes_settle:
  assumes "tree_ok es t" "st_order t = pre @ suf" "pre \<noteq> []" "seed_nodes t (rev (tl pre)) es = Ok es'"
    "\<forall>n \<in> set suf. settled es n"
  shows "net_of es' = net_of es \<and> (\<forall>n \<in> set (tl pre) \<union> set suf. settled es' n)"
  using assms
proof (induction pre arbitrary: es suf rule: rev_induct)
  case (snoc y ys)
  show ?case
  proof (cases "ys = []")
    case False
    have step: "rev (tl (ys @ [y])) = y # rev (tl ys)" using False by simp
    obtain es1 where es1: "seed_node t y es = Ok es1" "seed_nodes t (rev (tl ys)) es1 = Ok es'"
      using snoc.prems(4) unfolding step by (auto simp: outcome_simps)
    let ?m = "length ys"
    have y: "st_order t ! ?m = y" "0 < ?m" "?m < length (st_order t)"
      using snoc.prems(2) False by simp_all
    note s = seed_node_settles [OF snoc.prems(1) y(2,3), unfolded y(1), OF es1(1)]
    have "settled es1 n" if n: "n \<in> set suf" for n
    proof -
      obtain i where i: "i < length suf" "suf ! i = n" using n by (metis in_set_conv_nth)
      have "st_order t ! (Suc ?m + i) = n" "Suc ?m + i < length (st_order t)"
        using i snoc.prems(2) by (simp_all add: nth_append)
      then show ?thesis using s(2) [of "Suc ?m + i"] snoc.prems(5) n by auto
    qed
    then have "\<forall>n \<in> set (y # suf). settled es1 n" using s(1) by simp
    moreover have net: "net_of es1 = net_of es" by (rule seed_node_net [OF es1(1)])
    ultimately have "net_of es' = net_of es1 \<and> (\<forall>n \<in> set (tl ys) \<union> set (y # suf). settled es' n)"
      using snoc.IH [of es1 "y # suf"] tree_ok_net [OF net [symmetric] snoc.prems(1)] snoc.prems(2) False es1(2) by simp
    then show ?thesis using net False by auto
  qed (use snoc.prems in simp)
qed simp

lemma seed_flows_settle:
  assumes t: "tree_ok es t" and ok: "seed_flows es t = Ok es'"
  shows "net_of es' = net_of es" "\<forall>n \<in> set (st_order t). settled es' n"
proof -
  let ?o = "st_order t"
  have o: "?o \<noteq> []" "distinct ?o" using t by (simp_all add: tree_ok_def)
  have flt: "filter (\<lambda>n. n \<noteq> hd ?o) (rev ?o) = rev (tl ?o)"
  proof -
    have "filter (\<lambda>n. n \<noteq> hd ?o) ?o = tl ?o"
      using o by (cases ?o) (auto intro: filter_True)
    then show ?thesis by (simp add: rev_filter [symmetric])
  qed
  have seed: "seed_nodes t (rev (tl ?o)) (seed_chords t es) = Ok es'"
    and root: "\<not> (1 < length (node_incident es' (hd ?o)) \<and>
      fl_lt (Fin CONSERVATION_TOL) (fl_abs (flow_sum es' (node_incident es' (hd ?o)))))"
    using ok unfolding seed_flows_def Let_def flt by (auto simp: outcome_simps split: if_splits)
  have t': "tree_ok (seed_chords t es) t" by (rule tree_ok_net [OF _ t]) simp
  have s: "net_of es' = net_of (seed_chords t es)" "\<forall>n \<in> set (tl ?o). settled es' n"
    using seed_nodes_settle [OF t' _ o(1) seed, of "[]"] by auto
  then show "net_of es' = net_of es" by simp
  have "settled es' (hd ?o)"
    using root whole_sum [of es' "hd ?o"] by (auto simp: settled_def not_less)
  then show "\<forall>n \<in> set ?o. settled es' n" using s(2) o(1) by (cases ?o) auto
qed

section \<open>Corrections\<close>

text \<open>
  A flow that is a number after a shift was one before: an infinity or a NaN is never left again.
\<close>

lemma fl_add_finite: "fl_finite (fl_add a b) \<longleftrightarrow> fl_finite a \<and> fl_finite b"
  by (cases a; cases b) simp_all

lemma sign_mul_finite: "fl_finite (fl_mul (Fin s) d) \<Longrightarrow> fl_finite d"
  by (cases d) (auto simp: fl_inf_of_sign_def split: if_splits)

lemma shift_edge_net: "net_of (shift_edge dq es p) = net_of es"
  by (cases p) (simp add: shift_edge_def)

lemma shift_loop_net: "net_of (shift_loop dq es loop) = net_of es"
  unfolding shift_loop_def by (induction loop arbitrary: es) (simp_all add: shift_edge_net)

lemma set_flow_finite:
  assumes "finite_flows (set_flow i q es)" "i < length es"
  shows "fl_finite q" "fl_finite (e_flow (es ! i)) \<Longrightarrow> finite_flows es"
proof -
  show "fl_finite q" using assms unfolding finite_flows_def set_flow_def by (metis edge.select_convs(10) edge.update_convs(10) edge.surjective length_list_update nth_list_update_eq nth_mem)
  show "finite_flows es" if "fl_finite (e_flow (es ! i))"
    unfolding finite_flows_def all_set_conv_all_nth
  proof (intro allI impI)
    fix k assume k: "k < length es"
    have "fl_finite (e_flow (set_flow i q es ! k))"
      using assms(1) k unfolding finite_flows_def by (metis nth_mem set_flow_length)
    then show "fl_finite (e_flow (es ! k))" using that k by (cases "k = i") (simp_all add: set_flow_get)
  qed
qed

lemma shift_edge_balance:
  assumes "finite_flows (shift_edge dq es (i, s))" "i < length es" "unknown_flow (es ! i)"
  shows "finite_flows es" "fl_finite dq"
    "node_balance (shift_edge dq es (i, s)) n = node_balance es n + fl_val dq * of_int (s * enters es i n)"
proof -
  have e: "shift_edge dq es (i, s) = set_flow i (fl_add (e_flow (es ! i)) (fl_mul (Fin (of_int s)) dq)) es"
    using assms(3) by (simp add: shift_edge_def)
  note f = set_flow_finite [OF assms(1) [unfolded e] assms(2)]
  have v: "fl_finite (e_flow (es ! i))" "fl_finite (fl_mul (Fin (of_int s)) dq)"
    using f(1) by (simp_all add: fl_add_finite)
  show "finite_flows es" by (rule f(2) [OF v(1)])
  show d: "fl_finite dq" by (rule sign_mul_finite [OF v(2)])
  obtain a b where "e_flow (es ! i) = Fin a" "dq = Fin b" using v(1) d by (auto simp: fl_finite_iff)
  then show "node_balance (shift_edge dq es (i, s)) n = node_balance es n + fl_val dq * of_int (s * enters es i n)"
    unfolding e set_flow_balance [OF assms(2)] by (simp add: flow_at_def)
qed

text \<open>Loops over unknown flows only.\<close>

definition loop_unknown :: "edge list \<Rightarrow> (nat \<times> int) list \<Rightarrow> bool" where
  "loop_unknown es l \<longleftrightarrow> (\<forall>(i, s) \<in> set l. i < length es \<and> unknown_flow (es ! i))"

lemma loop_unknown_net:
  assumes "net_of es = net_of es'" "loop_unknown es l"
  shows "loop_unknown es' l"
  using assms(2) net_of_length [OF assms(1)] net_of_fields(4) [OF assms(1)] unfolding loop_unknown_def by auto

lemma shift_loop_balance:
  assumes "finite_flows (shift_loop dq es l)" "loop_unknown es l"
  shows "finite_flows es \<and>
    node_balance (shift_loop dq es l) n = node_balance es n + fl_val dq * of_int (net_entries es l n)"
  using assms
proof (induction l arbitrary: es)
  case (Cons p l)
  obtain i s where p: "p = (i, s)" by (cases p)
  let ?e = "shift_edge dq es (i, s)"
  have net: "net_of ?e = net_of es" by (rule shift_edge_net)
  have iu: "i < length es" "unknown_flow (es ! i)" "loop_unknown es l" using Cons.prems(2) p by (auto simp: loop_unknown_def)
  have fin: "finite_flows (shift_loop dq ?e l)" using Cons.prems(1) p by (simp add: shift_loop_def)
  note ih = Cons.IH [OF fin loop_unknown_net [OF net [symmetric] iu(3)]]
  note e = shift_edge_balance [OF _ iu(1,2), of dq s]
  have "net_entries ?e l n = net_entries es l n"
    by (rule net_entries_net [OF net]) (use iu(3) net_of_length [OF net] in \<open>auto simp: loop_unknown_def\<close>)
  then have "node_balance (shift_loop dq es (p # l)) n =
      node_balance es n + fl_val dq * of_int (s * enters es i n) + fl_val dq * of_int (net_entries es l n)"
    using ih e(3) [of n] by (simp add: shift_loop_def p)
  then show ?case using ih e(1) by (simp add: p algebra_simps)
qed (simp add: shift_loop_def)

text \<open>So a correction of a closed loop keeps every balance, and with it what is settled.\<close>

definition loops_ok :: "edge list \<Rightarrow> (nat \<times> int) list list \<Rightarrow> bool" where
  "loops_ok es loops \<longleftrightarrow> (\<forall>l \<in> set loops. loop_unknown es l \<and> (\<forall>n. net_entries es l n = 0))"

lemma loops_ok_net:
  assumes "net_of es = net_of es'" "loops_ok es loops"
  shows "loops_ok es' loops"
  unfolding loops_ok_def
proof (intro ballI conjI allI)
  fix l assume l: "l \<in> set loops"
  have u: "loop_unknown es l" "net_entries es l n = 0" for n using assms(2) l by (auto simp: loops_ok_def)
  show "loop_unknown es' l" by (rule loop_unknown_net [OF assms(1) u(1)])
  show "net_entries es' l n = 0" for n
    using net_entries_net [OF assms(1), of l n] u by (auto simp: loop_unknown_def)
qed

lemma correct_loops_balance:
  assumes "correct_loops loops (es, d) = Ok (es', d')" "finite_flows es'" "loops_ok es loops"
  shows "finite_flows es \<and> net_of es' = net_of es \<and> node_balance es' n = node_balance es n"
  using assms
proof (induction loops arbitrary: es d)
  case (Cons l loops)
  obtain es1 d1 where s1: "correct_loop l (es, d) = Ok (es1, d1)" "correct_loops loops (es1, d1) = Ok (es', d')"
    using Cons.prems(1) by (auto simp: outcome_simps)
  obtain dq where dq: "es1 = shift_loop dq es l"
    using s1(1) by (auto simp: correct_loop_def Let_def split: prod.splits if_splits)
  have net: "net_of es1 = net_of es" by (simp add: dq shift_loop_net)
  have "loops_ok es loops" using Cons.prems(3) by (simp add: loops_ok_def)
  then have ih: "finite_flows es1" "net_of es' = net_of es1" "node_balance es' n = node_balance es1 n"
    using Cons.IH [OF s1(2) Cons.prems(2) loops_ok_net [OF net [symmetric]]] by blast+
  have l: "loop_unknown es l" "net_entries es l n = 0" using Cons.prems(3) by (auto simp: loops_ok_def)
  show ?case
    using shift_loop_balance [OF ih(1) [unfolded dq] l(1), of n] ih(2,3) net l(2) by (simp add: dq)
qed simp

lemma correct_loops_net: "correct_loops loops (es, d) = Ok (es', d') \<Longrightarrow> net_of es' = net_of es"
proof (induction loops arbitrary: es d)
  case (Cons l loops)
  obtain es1 d1 where s1: "correct_loop l (es, d) = Ok (es1, d1)" "correct_loops loops (es1, d1) = Ok (es', d')"
    using Cons.prems by (auto simp: outcome_simps)
  then show ?case
    using Cons.IH [OF s1(2)]
    by (auto simp: correct_loop_def Let_def shift_loop_net split: prod.splits if_splits)
qed simp

lemma hardy_iterate_balance:
  assumes "hardy_iterate k loops es d = Ok es'" "finite_flows es'" "loops_ok es loops"
  shows "finite_flows es \<and> net_of es' = net_of es \<and> node_balance es' n = node_balance es n"
  using assms
proof (induction k arbitrary: es d)
  case (Suc k)
  obtain es1 dq where s1: "correct_loops loops (es, Fin 0) = Ok (es1, dq)"
    "(if fl_lt dq HC_TOL then Ok es1 else hardy_iterate k loops es1 dq) = Ok es'"
    using Suc.prems(1) by (auto simp: outcome_simps)
  note net = correct_loops_net [OF s1(1)]
  have "finite_flows es1 \<and> net_of es' = net_of es1 \<and> node_balance es' n = node_balance es1 n"
    using s1(2) Suc.prems(2) Suc.IH [OF _ Suc.prems(2) loops_ok_net [OF net [symmetric] Suc.prems(3)]]
    by (auto split: if_splits)
  then show ?case
    using correct_loops_balance [OF s1(1) _ Suc.prems(3), of n] net by simp
qed simp

lemma basis_ok:
  assumes t: "spanning_tree nodes es = Ok t" and pure: "\<forall>l \<in> set (build_cycle_basis es t). \<forall>(i, s) \<in> set l. unknown_flow (es ! i)"
  shows "loops_ok es (build_cycle_basis es t)"
proof -
  note tr = spanning_tree_tree [OF t]
  have "i < length es" if l: "l \<in> set (build_cycle_basis es t)" "(i, s) \<in> set l" for l i s
  proof -
    obtain idx where idx: "idx < length es" "l = chord_loop es t idx"
      using l(1) by (auto simp: build_cycle_basis_def)
    have "e_a (es ! idx) \<in> set (st_order t)" "e_b (es ! idx) \<in> set (st_order t)"
      using tr(2,5) idx(1) unfolding edge_ends_def by (auto dest: nth_mem)
    then show ?thesis using loop_indices [OF tr(1) idx(1)] l(2) idx(2) by blast
  qed
  then show ?thesis
    using pure basis_closed [OF t] unfolding loops_ok_def loop_unknown_def by blast
qed

text \<open>The whole solve: on a network whose loops hold no imposed flow, what it returns is settled.\<close>

lemma hardy_cross_settled:
  assumes built: "omap (edge_new py_str read_float) (fp_edges payload) = Ok es"
    and t: "spanning_tree (fp_nodes payload) es = Ok t"
    and pure: "\<forall>l \<in> set (build_cycle_basis es t). \<forall>(i, s) \<in> set l. unknown_flow (es ! i)"
    and ok: "hardy_cross_solve py_str read_float payload = Ok es'" and fin: "finite_flows es'"
  shows "net_of es' = net_of es" "\<forall>n \<in> set (fp_nodes payload). settled es' n"
proof -
  obtain seeded where s: "seed_flows es t = Ok seeded"
    "hardy_iterate HC_MAX_ITER (build_cycle_basis es t) seeded (Fin 0) = Ok es'"
    using ok by (auto simp: hardy_cross_solve_def built t outcome_simps)
  note tr = spanning_tree_tree [OF t]
  note se = seed_flows_settle [OF tr(1) s(1)]
  have "loops_ok seeded (build_cycle_basis es t)"
    by (rule loops_ok_net [OF se(1) [symmetric] basis_ok [OF t pure]])
  note h = hardy_iterate_balance [OF s(2) fin this]
  then show "net_of es' = net_of es" using se(1) by simp
  have fs: "finite_flows seeded" and net: "net_of es' = net_of seeded" using h by blast+
  show "\<forall>n \<in> set (fp_nodes payload). settled es' n"
    using se(2) h finite_numbers [OF fs] node_incident_net [OF net]
    unfolding tr(2) settled_def by simp
qed

end
