(* ===== verification/Flow_Path.thy ===== *)
theory Flow_Path
  imports Flow_Balance Catalog Tables
begin

text \<open>
  The solved network as its readers see it (\<open>SolvedNetwork\<close>, \<open>solve_flownet_bytes\<close> and
  \<open>find_path_edges\<close> of \<open>fluids/network.py\<close>): the indexes by edge and by node, and the breadth-first
  path between two nodes. The lemmas say that a path that is found leads from the one node to the
  other along its edges, and that one is found whenever the nodes are linked.
\<close>

section \<open>The solved network\<close>

record solved_network =
  sn_payload :: flownet_payload
  sn_edges :: "edge list"
  sn_by_id :: "(string, edge) dict"
  sn_incidence :: "(string, (edge \<times> int) list) dict"

definition edge_incidence :: "edge list \<Rightarrow> string \<Rightarrow> (edge \<times> int) list" where
  "edge_incidence es n =
     concat (map (\<lambda>e. (if e_a e = n then [(e, - 1)] else []) @ (if e_b e = n then [(e, 1)] else [])) es)"

definition solved_network_new :: "flownet_payload \<Rightarrow> edge list \<Rightarrow> (solved_network, 'e) outcome" where
  "solved_network_new payload es =
     obind (file_edges (fp_nodes payload) es) (\<lambda>_.
       Ok \<lparr>sn_payload = payload, sn_edges = es, sn_by_id = dict_of (map (\<lambda>e. (e_id e, e)) es),
           sn_incidence = dict_of (map (\<lambda>n. (n, edge_incidence es n)) (fp_nodes payload))\<rparr>)"

text \<open>
  \<open>solve_flownet_bytes\<close>. Validating the bytes gives a payload or the text of the failure.
\<close>

definition solve_flownet_bytes ::
  "(string \<Rightarrow> flownet_payload + string) \<Rightarrow> (json \<Rightarrow> string) \<Rightarrow> (string \<Rightarrow> fl option) \<Rightarrow> string
   \<Rightarrow> (solved_network, solve_error) outcome" where
  "solve_flownet_bytes validate py_str read_float data =
     (case validate data of
        Inr exc \<Rightarrow> Err (ParseFailed (''flownet payload: '' @ exc))
      | Inl payload \<Rightarrow>
          obind (hardy_cross_solve py_str read_float payload) (solved_network_new payload))"

section \<open>Paths\<close>

definition path_neighbours :: "edge list \<Rightarrow> string \<Rightarrow> (string \<times> edge \<times> int) list" where
  "path_neighbours es n =
     concat (map (\<lambda>e. (if e_a e = n then [(e_b e, e, 1)] else []) @ (if e_b e = n then [(e_a e, e, - 1)] else [])) es)"

record path_search =
  ps_visited :: "string list"
  ps_parent :: "(string, string \<times> edge \<times> int) dict"
  ps_queue :: "string list"

definition path_visit :: "string \<Rightarrow> string \<times> edge \<times> int \<Rightarrow> path_search \<Rightarrow> path_search" where
  "path_visit node nb s =
     (case nb of (neighbor, e, sign) \<Rightarrow>
        if neighbor \<in> set (ps_visited s) then s
        else \<lparr>ps_visited = ps_visited s @ [neighbor],
              ps_parent = dset neighbor (node, e, sign) (ps_parent s),
              ps_queue = ps_queue s @ [neighbor]\<rparr>)"

definition path_expand :: "edge list \<Rightarrow> string \<Rightarrow> path_search \<Rightarrow> path_search" where
  "path_expand es node s = fold (path_visit node) (path_neighbours es node) s"

definition path_left :: "edge list \<Rightarrow> path_search \<Rightarrow> nat" where
  "path_left es s = card (edge_ends es - set (ps_visited s)) + length (ps_queue s)"

lemma path_neighbours_mem:
  "(m, e, s) \<in> set (path_neighbours es n) \<longleftrightarrow>
     e \<in> set es \<and> (s = 1 \<and> e_a e = n \<and> e_b e = m \<or> s = - 1 \<and> e_b e = n \<and> e_a e = m)"
  by (auto simp: path_neighbours_def split: if_splits)

lemma path_neighbours_linked: "(m, e, s) \<in> set (path_neighbours es n) \<Longrightarrow> \<exists>k. joins es k n m"
  unfolding path_neighbours_mem joins_def by (metis in_set_conv_nth)

lemma path_visit_left:
  assumes "fst nb \<in> edge_ends es"
  shows "path_left es (path_visit node nb s) \<le> path_left es s"
proof (cases nb)
  case (fields m e sg)
  show ?thesis
  proof (cases "m \<in> set (ps_visited s)")
    case False
    let ?U = "edge_ends es - set (ps_visited s)"
    have "card (?U - {m}) < card ?U" using assms False fields by (intro card_Diff1_less) auto
    moreover have "?U - {m} = edge_ends es - set (ps_visited s @ [m])" by auto
    ultimately show ?thesis using False unfolding fields path_visit_def path_left_def by simp
  qed (simp add: path_visit_def fields)
qed

lemma path_expand_left: "path_left es (path_expand es node s) \<le> path_left es s"
proof -
  have "path_left es (fold (path_visit node) nbs s) \<le> path_left es s" if "fst ` set nbs \<subseteq> edge_ends es" for nbs
    using that
  proof (induction nbs arbitrary: s)
    case (Cons nb nbs)
    have "path_left es (fold (path_visit node) nbs (path_visit node nb s)) \<le> path_left es (path_visit node nb s)"
      by (rule Cons.IH) (use Cons.prems in simp)
    also have "\<dots> \<le> path_left es s" by (rule path_visit_left) (use Cons.prems in simp)
    finally show ?case by simp
  qed simp
  moreover have "fst ` set (path_neighbours es node) \<subseteq> edge_ends es"
    by (auto simp: path_neighbours_mem edge_ends_def)
  ultimately show ?thesis by (simp add: path_expand_def)
qed

text \<open>The search stops when the target comes off the queue.\<close>

function path_loop :: "edge list \<Rightarrow> string \<Rightarrow> path_search \<Rightarrow> path_search" where
  "path_loop es target s =
     (case ps_queue s of
        [] \<Rightarrow> s
      | node # rest \<Rightarrow>
          if node = target then s\<lparr>ps_queue := rest\<rparr>
          else path_loop es target (path_expand es node (s\<lparr>ps_queue := rest\<rparr>)))"
  by pat_completeness auto
termination
proof (relation "measure (\<lambda>(es, target, s). path_left es s)", simp)
  fix es :: "edge list" and target :: string and s :: path_search and node rest
  assume "ps_queue s = node # rest"
  then have "path_left es (s\<lparr>ps_queue := rest\<rparr>) < path_left es s" by (simp add: path_left_def)
  then show "((es, target, path_expand es node (s\<lparr>ps_queue := rest\<rparr>)), es, target, s)
      \<in> measure (\<lambda>(es, target, s). path_left es s)"
    using le_less_trans [OF path_expand_left] by simp
qed

declare path_loop.simps [simp del]

text \<open>
  The walk back over the parents; it ends at the start, after fewer steps than nodes were visited.
\<close>

primrec path_back ::
  "nat \<Rightarrow> (string, string \<times> edge \<times> int) dict \<Rightarrow> string \<Rightarrow> string \<Rightarrow> (edge \<times> int) list" where
  "path_back 0 parent node_a cur = []"
| "path_back (Suc fuel) parent node_a cur =
     (if cur = node_a then []
      else case the (dget parent cur) of
        (prev, e, sign) \<Rightarrow> (e, sign) # path_back fuel parent node_a prev)"

definition find_path_edges ::
  "solved_network \<Rightarrow> string \<Rightarrow> string \<Rightarrow> ((edge \<times> int) list, solve_error) outcome" where
  "find_path_edges solved node_a node_b =
     (if \<not> dhas (sn_incidence solved) node_a \<or> \<not> dhas (sn_incidence solved) node_b
      then Err (flow_feature ''unknown_node'')
      else if node_a = node_b then Ok []
      else obind (file_edges (fp_nodes (sn_payload solved)) (sn_edges solved)) (\<lambda>_.
        (let s = path_loop (sn_edges solved) node_b
               \<lparr>ps_visited = [node_a], ps_parent = [], ps_queue = [node_a]\<rparr>
         in if node_b \<notin> set (ps_visited s) then Err (flow_feature ''disconnected_query_path'')
            else Ok (rev (path_back (length (ps_visited s)) (ps_parent s) node_a node_b)))))"

section \<open>What the search finds\<close>

definition path_hangs :: "edge list \<Rightarrow> path_search \<Rightarrow> nat \<Rightarrow> bool" where
  "path_hangs es s i \<longleftrightarrow>
     (\<exists>j < i. \<exists>e sg. dget (ps_parent s) (ps_visited s ! i) = Some (ps_visited s ! j, e, sg) \<and>
        (ps_visited s ! i, e, sg) \<in> set (path_neighbours es (ps_visited s ! j)))"

definition path_ok :: "edge list \<Rightarrow> string \<Rightarrow> path_search \<Rightarrow> bool" where
  "path_ok es a s \<longleftrightarrow>
     ps_visited s \<noteq> [] \<and> distinct (ps_visited s) \<and> ps_visited s ! 0 = a \<and>
     (\<forall>i < length (ps_visited s). 0 < i \<longrightarrow> path_hangs es s i) \<and>
     set (ps_queue s) \<subseteq> set (ps_visited s) \<and> (\<forall>n \<in> set (ps_visited s). linked es a n)"

lemma path_visit_ok:
  assumes s: "path_ok es a s" and node: "node \<in> set (ps_visited s)" and nb: "(m, e, sg) \<in> set (path_neighbours es node)"
  shows "path_ok es a (path_visit node (m, e, sg) s)"
proof (cases "m \<in> set (ps_visited s)")
  case False
  let ?v = "ps_visited s" and ?s = "path_visit node (m, e, sg) s"
  note t = s [unfolded path_ok_def]
  have fields: "ps_visited ?s = ?v @ [m]" "ps_parent ?s = dset m (node, e, sg) (ps_parent s)"
    "ps_queue ?s = ps_queue s @ [m]"
    using False by (simp_all add: path_visit_def)
  have "path_hangs es ?s i" if i: "i < length (ps_visited ?s)" "0 < i" for i
  proof (cases "i < length ?v")
    case True
    then have h: "path_hangs es s i" using t i(2) by blast
    have "?v ! i \<noteq> m" using True False by (metis nth_mem)
    then show ?thesis using h True unfolding path_hangs_def fields
      by (elim exE conjE) (rename_tac j f g, rule_tac x = j in exI, simp add: nth_append)
  next
    case far: False
    then have "i = length ?v" using i(1) fields(1) by simp
    moreover obtain j where "j < length ?v" "?v ! j = node" using node by (metis in_set_conv_nth)
    ultimately show ?thesis using nb unfolding path_hangs_def fields
      by (intro exI [of _ j] conjI exI [of _ e] exI [of _ sg]) (simp_all add: nth_append)
  qed
  moreover have "linked es a m"
    using t node path_neighbours_linked [OF nb] unfolding linked_def
    by (metis (mono_tags, lifting) rtranclp.rtrancl_into_rtrancl)
  ultimately show ?thesis using t False by (auto simp: path_ok_def fields nth_append)
qed (simp add: path_visit_def s)

lemma path_expand_ok:
  assumes "path_ok es a s" "node \<in> set (ps_visited s)"
  shows "path_ok es a (path_expand es node s)"
    "set (ps_visited (path_expand es node s)) = set (ps_visited s) \<union> fst ` set (path_neighbours es node)"
    "set (ps_queue (path_expand es node s)) =
       set (ps_queue s) \<union> (fst ` set (path_neighbours es node) - set (ps_visited s))"
proof -
  have "path_ok es a (fold (path_visit node) nbs s) \<and>
      set (ps_visited (fold (path_visit node) nbs s)) = set (ps_visited s) \<union> fst ` set nbs \<and>
      set (ps_queue (fold (path_visit node) nbs s)) = set (ps_queue s) \<union> (fst ` set nbs - set (ps_visited s))"
    if "set nbs \<subseteq> set (path_neighbours es node)" for nbs
    using that assms
  proof (induction nbs arbitrary: s)
    case (Cons nb nbs)
    obtain m e sg where nb: "nb = (m, e, sg)" by (cases nb)
    let ?s = "path_visit node nb s"
    have ok: "path_ok es a ?s" unfolding nb by (rule path_visit_ok) (use Cons.prems nb in auto)
    have grows: "set (ps_visited ?s) = insert m (set (ps_visited s))"
      "set (ps_queue ?s) = (if m \<in> set (ps_visited s) then set (ps_queue s) else insert m (set (ps_queue s)))"
      by (auto simp: path_visit_def nb)
    have "node \<in> set (ps_visited ?s)" using Cons.prems(3) by (simp add: grows)
    then have "path_ok es a (fold (path_visit node) nbs ?s) \<and>
        set (ps_visited (fold (path_visit node) nbs ?s)) = set (ps_visited ?s) \<union> fst ` set nbs \<and>
        set (ps_queue (fold (path_visit node) nbs ?s)) = set (ps_queue ?s) \<union> (fst ` set nbs - set (ps_visited ?s))"
      using Cons.IH [OF _ ok] Cons.prems(1) by simp
    then show ?case unfolding grows by (auto simp: nb)
  qed simp
  from this [OF order_refl] show
    "path_ok es a (path_expand es node s)"
    "set (ps_visited (path_expand es node s)) = set (ps_visited s) \<union> fst ` set (path_neighbours es node)"
    "set (ps_queue (path_expand es node s)) =
       set (ps_queue s) \<union> (fst ` set (path_neighbours es node) - set (ps_visited s))"
    unfolding path_expand_def by blast+
qed

definition path_explored :: "edge list \<Rightarrow> path_search \<Rightarrow> bool" where
  "path_explored es s \<longleftrightarrow>
     (\<forall>n \<in> set (ps_visited s). n \<in> set (ps_queue s) \<or>
        fst ` set (path_neighbours es n) \<subseteq> set (ps_visited s))"

lemma path_loop_finds:
  "path_ok es a s \<Longrightarrow> path_explored es s \<Longrightarrow>
     path_ok es a (path_loop es b s) \<and>
     (b \<in> set (ps_visited (path_loop es b s)) \<or>
      (\<forall>n \<in> set (ps_visited (path_loop es b s)).
         fst ` set (path_neighbours es n) \<subseteq> set (ps_visited (path_loop es b s))))"
proof (induction es b s rule: path_loop.induct)
  case (1 es b s)
  show ?case
  proof (cases "ps_queue s")
    case Nil
    then show ?thesis using "1.prems" by (simp add: path_loop.simps [of es b s] path_explored_def)
  next
    case (Cons node rest)
    let ?s = "s\<lparr>ps_queue := rest\<rparr>"
    have ok: "path_ok es a ?s" "node \<in> set (ps_visited ?s)"
      using "1.prems"(1) Cons by (auto simp: path_ok_def path_hangs_def)
    show ?thesis
    proof (cases "node = b")
      case True
      then show ?thesis using ok Cons by (simp add: path_loop.simps [of es b s])
    next
      case False
      note ex = path_expand_ok [OF ok]
      have "path_explored es (path_expand es node ?s)"
        unfolding path_explored_def ex(2,3)
      proof
        fix n assume n: "n \<in> set (ps_visited ?s) \<union> fst ` set (path_neighbours es node)"
        have old: "n \<in> set (ps_visited s) \<Longrightarrow> n = node \<or> n \<in> set rest \<or> fst ` set (path_neighbours es n) \<subseteq> set (ps_visited s)"
          using "1.prems"(2) Cons unfolding path_explored_def by auto
        show "n \<in> set (ps_queue ?s) \<union> (fst ` set (path_neighbours es node) - set (ps_visited ?s)) \<or>
            fst ` set (path_neighbours es n) \<subseteq> set (ps_visited ?s) \<union> fst ` set (path_neighbours es node)"
          using n old by (cases "n \<in> set (ps_visited s)") auto
      qed
      then show ?thesis using "1.IH" [OF Cons False ex(1)] Cons False by (simp add: path_loop.simps [of es b s])
    qed
  qed
qed

section \<open>What a path is\<close>

text \<open>\<open>walks a p b\<close>: passing the edges of \<open>p\<close> in the signed sense leads from \<open>a\<close> to \<open>b\<close>.\<close>

fun walks :: "string \<Rightarrow> (edge \<times> int) list \<Rightarrow> string \<Rightarrow> bool" where
  "walks a [] b \<longleftrightarrow> a = b"
| "walks a ((e, s) # p) b \<longleftrightarrow>
     (s = 1 \<and> e_a e = a \<and> walks (e_b e) p b \<or> s = - 1 \<and> e_b e = a \<and> walks (e_a e) p b)"

lemma walks_append: "walks a (p @ q) c \<longleftrightarrow> (\<exists>b. walks a p b \<and> walks b q c)"
  by (induction p arbitrary: a) auto

lemma path_back_walks:
  assumes s: "path_ok es a s" and "i < length (ps_visited s)" "i < fuel"
  shows "walks a (rev (path_back fuel (ps_parent s) a (ps_visited s ! i))) (ps_visited s ! i) \<and>
    fst ` set (path_back fuel (ps_parent s) a (ps_visited s ! i)) \<subseteq> set es"
  using assms(2,3)
proof (induction i arbitrary: fuel rule: less_induct)
  case (less i)
  obtain f where f: "fuel = Suc f" using less.prems(2) by (cases fuel) auto
  show ?case
  proof (cases "i = 0")
    case True
    then show ?thesis using s by (simp add: f path_ok_def)
  next
    case False
    then obtain j e sg where j: "j < i" "dget (ps_parent s) (ps_visited s ! i) = Some (ps_visited s ! j, e, sg)"
      "(ps_visited s ! i, e, sg) \<in> set (path_neighbours es (ps_visited s ! j))"
      using s less.prems(1) unfolding path_ok_def path_hangs_def by blast
    have "ps_visited s ! i \<noteq> a"
      using s less.prems(1) False unfolding path_ok_def by (metis length_greater_0_conv nth_eq_iff_index_eq)
    then have step: "path_back fuel (ps_parent s) a (ps_visited s ! i) =
        (e, sg) # path_back f (ps_parent s) a (ps_visited s ! j)"
      by (simp add: f j(2))
    have "walks (ps_visited s ! j) [(e, sg)] (ps_visited s ! i)" "e \<in> set es"
      using j(3) unfolding path_neighbours_mem by auto
    moreover have "walks a (rev (path_back f (ps_parent s) a (ps_visited s ! j))) (ps_visited s ! j) \<and>
        fst ` set (path_back f (ps_parent s) a (ps_visited s ! j)) \<subseteq> set es"
      by (rule less.IH [OF j(1)]) (use j(1) less.prems f in auto)
    ultimately show ?thesis unfolding step by (auto simp: walks_append)
  qed
qed

lemma solved_network_Ok:
  assumes "solved_network_new payload es = Ok sn"
  shows "sn_edges sn = es" "sn_payload sn = payload" "dhas (sn_incidence sn) n \<longleftrightarrow> n \<in> set (fp_nodes payload)"
    "file_edges (fp_nodes payload) es = (Ok () :: (unit, 'e) outcome)"
proof -
  have f: "edge_ends es \<subseteq> set (fp_nodes payload)" and sn: "sn = \<lparr>sn_payload = payload, sn_edges = es,
      sn_by_id = dict_of (map (\<lambda>e. (e_id e, e)) es),
      sn_incidence = dict_of (map (\<lambda>n. (n, edge_incidence es n)) (fp_nodes payload))\<rparr>"
    using assms by (auto simp: solved_network_new_def outcome_simps file_edges_Ok)
  show "sn_edges sn = es" "sn_payload sn = payload" by (simp_all add: sn)
  show "file_edges (fp_nodes payload) es = (Ok () :: (unit, 'e) outcome)"
    using f file_edges_Ok [where u = "()" and nodes = "fp_nodes payload" and es = es] by blast
  show "dhas (sn_incidence sn) n \<longleftrightarrow> n \<in> set (fp_nodes payload)"
    unfolding sn by (simp add: dict_of_def dhas_dmerge image_image) (simp add: dhas_def)
qed

text \<open>The search answers exactly for linked nodes, with a path between them over the solved edges.\<close>

lemma find_path_exact:
  assumes sn: "solved_network_new payload es = Ok sn"
    and ab: "a \<in> set (fp_nodes payload)" "b \<in> set (fp_nodes payload)"
  shows "if linked es a b then \<exists>p. find_path_edges sn a b = Ok p \<and> walks a p b \<and> fst ` set p \<subseteq> set es
    else find_path_edges sn a b = Err (flow_feature ''disconnected_query_path'')"
proof (cases "a = b")
  case True
  then show ?thesis
    using ab by (simp add: find_path_edges_def solved_network_Ok [OF sn] linked_def)
next
  case False
  let ?start = "\<lparr>ps_visited = [a], ps_parent = [], ps_queue = [a]\<rparr>"
  let ?s = "path_loop es b ?start"
  have "path_ok es a ?start" "path_explored es ?start" by (simp_all add: path_ok_def linked_def path_explored_def)
  note f = path_loop_finds [OF this, of b]
  have lk: "b \<in> set (ps_visited ?s) \<longleftrightarrow> linked es a b"
  proof
    show "linked es a b" if "b \<in> set (ps_visited ?s)" using f that by (simp add: path_ok_def)
    show "b \<in> set (ps_visited ?s)" if l: "linked es a b"
    proof (rule ccontr)
      assume b: "b \<notin> set (ps_visited ?s)"
      have start: "a \<in> set (ps_visited ?s)" using f unfolding path_ok_def by (metis length_greater_0_conv nth_mem)
      have closed: "m \<in> set (ps_visited ?s)" if "joins es k n m" "n \<in> set (ps_visited ?s)" for k n m
      proof -
        have "es ! k \<in> set es" using that(1) by (simp add: joins_def)
        then have "\<exists>sg. (m, es ! k, sg) \<in> set (path_neighbours es n)"
          using that(1) unfolding joins_def path_neighbours_mem by blast
        then show ?thesis using f b that(2) by force
      qed
      have "n \<in> set (ps_visited ?s)" if "linked es a n" for n
        using that unfolding linked_def by (induction rule: rtranclp_induct) (use start closed in blast)+
      then show False using b l by simp
    qed
  qed
  have eq: "find_path_edges sn a b = (if b \<notin> set (ps_visited ?s) then Err (flow_feature ''disconnected_query_path'')
      else Ok (rev (path_back (length (ps_visited ?s)) (ps_parent ?s) a b)))"
    using ab False by (simp add: find_path_edges_def solved_network_Ok [OF sn] Let_def)
  show ?thesis
  proof (cases "linked es a b")
    case True
    then obtain i where i: "i < length (ps_visited ?s)" "ps_visited ?s ! i = b"
      using lk by (metis in_set_conv_nth)
    show ?thesis
      using path_back_walks [OF _ i(1) i(1), of es a] f True lk unfolding eq i(2) by auto
  qed (simp add: eq lk)
qed

end
