(* ===== verification/Flow_Direction.thy ===== *)
theory Flow_Direction
  imports Flow_Path
begin

text \<open>
  The Hardy-Cross solver direction (\<open>_make_hardy_cross_direction\<close> and \<open>register\<close> of
  \<open>fluids/network.py\<close>): it resolves the network payload, solves it and deposits the table of flows
  and pressure drops. A validation failure is an exception here, not an error value. Lemmas on two
  families of networks, one whose only loop holds an imposed flow and one with an ideal fluid,
  show what the convergence test lets through.
\<close>

section \<open>The direction\<close>

definition solution_rows :: "edge list \<Rightarrow> json" where
  "solution_rows es =
     JObj [(''edges'', JArr (map (\<lambda>e. JObj [(''edge_id'', JStr (e_id e)), (''flow_rate'', JFloat (e_flow e)),
       (''dp'', JFloat (if unknown_flow e then fst (edge_dp_and_k e (e_flow e)) else Fin 0))]) es))]"

definition hardy_cross_fn ::
  "payload_resolver \<Rightarrow> (string \<Rightarrow> flownet_payload + string) \<Rightarrow> (json \<Rightarrow> string) \<Rightarrow> (string \<Rightarrow> fl option)
   \<Rightarrow> (json \<Rightarrow> string) \<Rightarrow> inputs \<Rightarrow> raw_return" where
  "hardy_cross_fn resolver validate py_str read_float json_text x =
     (case resolve_input resolver x FLOWNET_PORT of
        Err e \<Rightarrow> RetErr e
      | Raise ex \<Rightarrow> RetRaise ex
      | Ok data \<Rightarrow>
          (case validate data of
             Inr _ \<Rightarrow> RetRaise ValueError
           | Inl payload \<Rightarrow>
               (case hardy_cross_solve py_str read_float payload of
                  Err e \<Rightarrow> RetErr e
                | Raise ex \<Rightarrow> RetRaise ex
                | Ok es \<Rightarrow>
                    (case pv_store resolver ''table'' (json_text (solution_rows es)) ''fluids.network.hardy_cross'' of
                       Err e \<Rightarrow> RetErr e
                     | Raise ex \<Rightarrow> RetRaise ex
                     | Ok ref \<Rightarrow>
                         RetOk (RVOutput \<lparr>so_values = [], so_measured_eps = None,
                           so_payloads = [(SOLUTION_PORT, ref)]\<rparr>)))))"

definition HARDY_CROSS_CITATION :: citation where
  "HARDY_CROSS_CITATION = \<lparr>ct_kind = ''paper'', ct_ref = ''Cross, H., Analysis of Flow in Networks of Conduits or Conductors, Univ. of Illinois Eng. Experiment Station Bulletin 286, 1936.'', ct_note = []\<rparr>"

definition WHITE_NETWORK_CITATION :: citation where
  "WHITE_NETWORK_CITATION = \<lparr>ct_kind = ''handbook'', ct_ref = ''White, Fluid Mechanics, 8th ed., sec. 6.8 (pipe networks)'', ct_note = []\<rparr>"

definition hardy_cross_direction ::
  "(json \<Rightarrow> string) \<Rightarrow> (json \<Rightarrow> string) \<Rightarrow> payload_resolver \<Rightarrow> (string \<Rightarrow> flownet_payload + string)
   \<Rightarrow> (json \<Rightarrow> string) \<Rightarrow> (string \<Rightarrow> fl option) \<Rightarrow> (json \<Rightarrow> string) \<Rightarrow> (solver_pair, registry_error) outcome" where
  "hardy_cross_direction H dumps resolver validate py_str read_float json_text =
     make_direction H dumps
       (default_args\<lparr>ba_solver_id := ''fluids.network.hardy_cross'', ba_namespace := ''fluids.network'',
          ba_inputs := [FLOWNET_PORT], ba_outputs := [SOLUTION_PORT],
          ba_domain := DomObj (domain_new [] [''incompressible'', ''network'']), ba_cost := Fin 3,
          ba_accuracy := AccOne EXACT,
          ba_citations := [CitObj HARDY_CROSS_CITATION, CitObj WHITE_NETWORK_CITATION],
          ba_version := ''1'', ba_tier := ''discretized'',
          ba_settings := PyStr (canonical_digest H dumps
            (PyMap [(''resolver'', PyStr (resolver_cache_identity resolver))])),
          ba_raw_fn := (\<lambda>x _. hardy_cross_fn resolver validate py_str read_float json_text x)\<rparr>)"

definition network_PORT_DECLS :: "port_decl list" where
  "network_PORT_DECLS =
     [\<lparr>pd_name = FLOWNET_PORT, pd_unit = [], pd_rank = PayloadRank ''flownet''\<rparr>,
      \<lparr>pd_name = SOLUTION_PORT, pd_unit = [], pd_rank = PayloadRank ''table''\<rparr>]"

definition register_network ::
  "(json \<Rightarrow> string) \<Rightarrow> (json \<Rightarrow> string) \<Rightarrow> payload_resolver \<Rightarrow> (string \<Rightarrow> flownet_payload + string)
   \<Rightarrow> (json \<Rightarrow> string) \<Rightarrow> (string \<Rightarrow> fl option) \<Rightarrow> (json \<Rightarrow> string)
   \<Rightarrow> registry \<Rightarrow> (unit, registry_error) outcome \<times> registry" where
  "register_network H dumps resolver validate py_str read_float json_text =
     register_family network_PORT_DECLS
       [hardy_cross_direction H dumps resolver validate py_str read_float json_text]"

section \<open>Laws of the segments\<close>

lemma signed_square:
  fixes c q :: real
  assumes "0 \<le> c"
  shows "signed_dp (Fin (c * (\<bar>q\<bar> * \<bar>q\<bar>))) (Fin q) = Fin (c * q * \<bar>q\<bar>)"
proof -
  have "\<bar>c * (\<bar>q\<bar> * \<bar>q\<bar>)\<bar> = c * (\<bar>q\<bar> * \<bar>q\<bar>)" using assms by (intro abs_of_nonneg) simp
  then show ?thesis by (cases "q < 0") (simp_all add: signed_dp_def fl_copysign_def)
qed

text \<open>A heat-exchanger segment loses pressure with the square of its flow, and \<open>k\<close> is the slope.\<close>

lemma hx_law:
  fixes K rho q A :: real
  assumes "e_kind e = ''hx_segment''" "e_resistance e = Fin K" "e_density e = Fin rho"
    "round_area (e_diameter e) = Fin A" "0 < A" "0 \<le> K" "0 \<le> rho"
  shows "edge_dp_and_k e (Fin q) = (Fin (K * rho / (2 * A * A) * q * \<bar>q\<bar>), Fin (2 * (K * rho / (2 * A * A)) * \<bar>q\<bar>))"
proof -
  let ?c = "K * rho / (2 * A * A)"
  have mag: "fluids_minor_loss_dp (e_resistance e) (e_density e) (speed_of (Fin \<bar>q\<bar>) (Fin A)) = Fin (?c * (\<bar>q\<bar> * \<bar>q\<bar>))"
    using assms(2,3,5) by (simp add: fluids_minor_loss_dp_def speed_of_def field_simps)
  have "signed_dp (Fin (?c * (\<bar>q\<bar> * \<bar>q\<bar>))) (Fin q) = Fin (?c * q * \<bar>q\<bar>)"
    by (rule signed_square) (use assms(5-7) in simp)
  then show ?thesis
    using assms(1-5) mag by (simp add: edge_dp_and_k_def hx_segment_dp_and_k_def Let_def)
qed

section \<open>A circuit driven by an imposed flow\<close>

text \<open>
  A closed circuit: an imposed flow from A to B and two equal segments that bring it back over C.
  Continuity fixes every flow, and the seed finds it. The loop correction then changes the segments
  only: each round halves their flow until a round changes less than the tolerance.
\<close>

definition circuit_edge :: "string \<Rightarrow> string \<Rightarrow> string \<Rightarrow> string \<Rightarrow> (string \<times> json) list \<Rightarrow> flow_edge" where
  "circuit_edge i a b kind vs =
     \<lparr>fe_id = i, fe_a = a, fe_b = b, fe_kind = kind,
      fe_params = [(''source'', JStr ''scalars''), (''values'', JObj vs)]\<rparr>"

definition hx_values :: "(string \<times> json) list" where
  "hx_values = [(''k_factor'', JInt 1), (''diameter'', JInt 2), (''density'', JInt 1000)]"

definition driven_circuit :: flownet_payload where
  "driven_circuit =
     \<lparr>fp_nodes = [''C'', ''A'', ''B''],
      fp_edges = [circuit_edge ''r1'' ''B'' ''C'' ''hx_segment'' hx_values,
        circuit_edge ''r2'' ''C'' ''A'' ''hx_segment'' hx_values,
        circuit_edge ''pump'' ''A'' ''B'' ''imposer'' [(''flow_rate'', JFloat (Fin (1 / 100)))]],
      fp_claim_target = None\<rparr>"

definition hx_edge :: "string \<Rightarrow> string \<Rightarrow> string \<Rightarrow> real \<Rightarrow> edge" where
  "hx_edge i a b q =
     \<lparr>e_id = i, e_a = a, e_b = b, e_kind = ''hx_segment'', e_length = Fin 0, e_diameter = Fin 2,
      e_roughness = Fin 0, e_density = Fin 1000, e_viscosity = Fin 0, e_flow = Fin q, e_cd = Fin 0,
      e_bore_diameter = Fin 0, e_resistance = Fin 1\<rparr>"

definition pump_edge :: edge where
  "pump_edge = (blank_edge (circuit_edge ''pump'' ''A'' ''B'' ''imposer'' []))\<lparr>e_flow := Fin (1 / 100)\<rparr>"

definition driven_edges :: "real \<Rightarrow> edge list" where
  "driven_edges q =
     [hx_edge ''r1'' ''B'' ''C'' q, hx_edge ''r2'' ''C'' ''A'' q, pump_edge]"

definition driven_loop :: "(nat \<times> int) list" where
  "driven_loop = [(2, 1), (1, 1), (0, 1)]"

lemma driven_edge_simps [simp]:
  "e_flow (hx_edge i a b q) = Fin q" "e_a (hx_edge i a b q) = a" "e_b (hx_edge i a b q) = b"
  "(hx_edge i a b q)\<lparr>e_flow := Fin p\<rparr> = hx_edge i a b p" "unknown_flow (hx_edge i a b q)"
  "e_flow pump_edge = Fin (1 / 100)" "e_a pump_edge = ''A''" "e_b pump_edge = ''B''" "\<not> unknown_flow pump_edge"
  by (simp_all add: hx_edge_def pump_edge_def blank_edge_def circuit_edge_def unknown_flow_def UNKNOWN_FLOW_KINDS_def)

lemma driven_built: "omap (edge_new py_str read_float) (fp_edges driven_circuit) = Ok (driven_edges 0)"
  by (simp add: driven_circuit_def driven_edges_def circuit_edge_def hx_values_def hx_edge_def edge_new_def
      hx_segment_edge_def imposer_edge_def pump_edge_def json_has_def json_item_def scalar_value_def float_of_int_def
      blank_edge_def outcome_simps dhas_def)

definition driven_tree :: spanning_tree where
  "driven_tree = \<lparr>st_order = [''C'', ''B'', ''A''], st_parent_node = [(''B'', ''C''), (''A'', ''C'')],
     st_parent_edge = [(''B'', 0), (''A'', 1)], st_tree_edges = [1, 0]\<rparr>"

lemmas bfs_eval = spanning_tree_def bfs_loop.simps bfs_start_def bfs_expand_def bfs_visit_def neighbours_def
  enumerate_eq_zip upt_rec Let_def outcome_simps spanning_tree.defs

lemma driven_tree: "spanning_tree (fp_nodes driven_circuit) (driven_edges 0) = Ok driven_tree"
  by (simp add: bfs_eval driven_circuit_def driven_edges_def driven_tree_def)

lemma driven_seeds: "seed_flows (driven_edges 0) driven_tree = Ok (driven_edges (1 / 100))"
  by (simp add: seed_flows_def seed_chords_def driven_edges_def driven_tree_def enumerate_eq_zip upt_rec seed_node_def
      node_incident_def flow_sum_def set_flow_def CONSERVATION_TOL_def outcome_simps Let_def)

lemma driven_basis: "build_cycle_basis (driven_edges 0) driven_tree = [driven_loop]"
  by (simp add: build_cycle_basis_def chord_loop_def depth_path_def driven_tree_def driven_edges_def
      driven_loop_def upt_rec Let_def)

lemma driven_round:
  assumes "0 < q"
  shows "correct_loops [driven_loop] (driven_edges q, Fin 0) = Ok (driven_edges (q / 2), Fin (q / 2))"
proof -
  let ?c = "1000 / (2 * pi * pi) :: real"
  have law: "edge_dp_and_k (hx_edge i a b q) (Fin q) = (Fin (?c * q * q), Fin (2 * ?c * q))" for i a b
    using hx_law [of "hx_edge i a b q" 1 1000 pi q] assms by (simp add: hx_edge_def round_area_def)
  have terms: "loop_terms (driven_edges q) driven_loop = (Fin (2 * (?c * q * q)), Fin (2 * (2 * ?c * q)))"
    by (simp add: loop_terms_def driven_edges_def driven_loop_def law Let_def)
  have dq: "- (2 * (?c * q * q)) / (2 * (2 * ?c * q)) = - q / 2" using assms by (simp add: field_simps)
  have "shift_loop (Fin (- q / 2)) (driven_edges q) driven_loop = driven_edges (q / 2)"
    by (simp add: shift_loop_def shift_edge_def driven_edges_def driven_loop_def set_flow_def)
  moreover have "2 * (2 * ?c * q) \<noteq> 0" using assms by simp
  ultimately show ?thesis
    using assms unfolding correct_loops.simps correct_loop_def terms prod.case Let_def fl_neg.simps fl_div.simps dq
    by (simp add: outcome_simps fl_pymax_def del: mult_eq_0_iff)
qed

text \<open>So the solve "converges" to segments that carry next to nothing.\<close>

lemma driven_iterates:
  assumes "0 < q" "q < 2 / 10 ^ 6 * 2 ^ k" "k < n"
  shows "\<exists>r. hardy_iterate n [driven_loop] (driven_edges q) d = Ok (driven_edges r) \<and>
    0 < r \<and> r < 1 / 10 ^ 6"
  using assms
proof (induction k arbitrary: q n d)
  case 0
  then show ?case by (cases n) (auto simp: driven_round outcome_simps HC_TOL_def simp del: correct_loops.simps)
next
  case (Suc k)
  obtain m where n: "n = Suc m" using Suc.prems(3) by (cases n) auto
  show ?case
  proof (cases "q / 2 < 1 / 10 ^ 6")
    case True
    then show ?thesis using Suc.prems(1) by (auto simp: n driven_round outcome_simps HC_TOL_def simp del: correct_loops.simps)
  next
    case False
    have "\<exists>r. hardy_iterate m [driven_loop] (driven_edges (q / 2)) (Fin (q / 2)) = Ok (driven_edges r) \<and>
        0 < r \<and> r < 1 / 10 ^ 6"
      by (rule Suc.IH) (use Suc.prems n in auto)
    then show ?thesis
      using False Suc.prems(1) by (simp add: n driven_round outcome_simps HC_TOL_def del: correct_loops.simps)
  qed
qed

lemma driven_solved:
  "\<exists>r. hardy_cross_solve py_str read_float driven_circuit = Ok (driven_edges r) \<and> 0 < r \<and> r < 1 / 10 ^ 6"
proof -
  have "\<exists>r. hardy_iterate HC_MAX_ITER [driven_loop] (driven_edges (1 / 100)) (Fin 0) = Ok (driven_edges r) \<and>
      0 < r \<and> r < 1 / 10 ^ 6"
    by (rule driven_iterates [of _ 13]) (simp_all add: HC_MAX_ITER_def)
  then show ?thesis
    by (simp add: hardy_cross_solve_def driven_built driven_tree driven_seeds driven_basis del: hardy_iterate.simps)
qed

lemma driven_balance: "node_balance (driven_edges r) ''A'' = r - 1 / 100"
  by (simp add: node_balance_def driven_edges_def flow_at_def enters_def lessThan_Suc numeral_3_eq_3)

section \<open>An ideal fluid\<close>

text \<open>
  Two smooth parallel pipes and a viscosity of zero: the Reynolds number is infinite, the friction
  iteration starts at an infinity and gives NaN, and the correction is NaN. Python's \<open>max\<close> keeps
  the 0.0 it has against a NaN, so the first round counts as converged.
\<close>

lemma fl_add_NaN [simp]: "fl_add x NaN = NaN"
  by (cases x) simp_all

lemma fl_sub_NaN [simp]: "fl_sub NaN x = NaN" "fl_sub x NaN = NaN"
  by (simp_all add: fl_sub_def)

lemma no_sign_NaN [simp]: "fl_inf_of_sign 0 = NaN"
  by (simp add: fl_inf_of_sign_def)

lemma fl_mul_NaN [simp]: "fl_mul NaN x = NaN" "fl_mul x NaN = NaN"
  by (cases x; simp add: fl_inf_of_sign_def)+

lemma rust_div_NaN [simp]: "rust_div NaN x = NaN" "rust_div x NaN = NaN"
  by (cases x; simp add: rust_div_def fl_inf_of_sign_def)+

lemma fl_div_NaN [simp]: "fl_div NaN x = NaN" "fl_div x NaN = NaN"
  by (cases x; simp)+

lemma colebrook_NaN: "colebrook_loop n re rr NaN = NaN"
  by (induction n) (simp_all add: colebrook_next_def Let_def)

lemma colebrook_ideal: "fluids_colebrook_friction_factor PInf (Fin 0) = NaN"
proof -
  have "fluids_haaland_friction_factor PInf (Fin 0) = Fin 0"
    by (simp add: fluids_haaland_friction_factor_def Let_def rust_div_def rust_log10.simps fl_inf_of_sign_def)
  moreover have "colebrook_next PInf (Fin 0) PInf = NaN"
    by (simp add: colebrook_next_def rust_div_def fl_inf_of_sign_def)
  ultimately show ?thesis
    by (simp add: fluids_colebrook_friction_factor_def Let_def COLEBROOK_MAX_ITER_def numeral_eq_Suc
        colebrook_NaN rust_sqrt.simps rust_div_def fl_inf_of_sign_def)
qed

definition ideal_pipe :: "string \<Rightarrow> fl \<Rightarrow> edge" where
  "ideal_pipe i q =
     \<lparr>e_id = i, e_a = ''A'', e_b = ''B'', e_kind = ''pipe'', e_length = Fin 1, e_diameter = Fin 2,
      e_roughness = Fin 0, e_density = Fin 1000, e_viscosity = Fin 0, e_flow = q, e_cd = Fin 0,
      e_bore_diameter = Fin 0, e_resistance = Fin 0\<rparr>"

lemma ideal_dp_mag: "0 < m \<Longrightarrow> pipe_dp_mag (ideal_pipe i q) (Fin m) = NaN"
  by (simp add: pipe_dp_mag_def ideal_pipe_def round_area_def speed_of_def fluids_reynolds_number_def
      rust_div_def fl_inf_of_sign_def LAMINAR_RE_CEILING_def colebrook_ideal fluids_darcy_dp_def Let_def)

lemma ideal_dp: "q \<noteq> 0 \<Longrightarrow> edge_dp_and_k (ideal_pipe i p) (Fin q) = (NaN, NaN)"
proof -
  assume q: "q \<noteq> 0"
  have "e_kind (ideal_pipe i p) = ''pipe''" by (simp add: ideal_pipe_def)
  then show ?thesis
    using q by (simp add: edge_dp_and_k_def pipe_dp_and_k_def ideal_dp_mag Let_def signed_dp_def fl_copysign_def)
qed

definition ideal_network :: flownet_payload where
  "ideal_network =
     (let vs = [(''length'', JInt 1), (''diameter'', JInt 2), (''density'', JInt 1000), (''viscosity'', JInt 0)]
      in \<lparr>fp_nodes = [''A'', ''B''],
          fp_edges = [circuit_edge ''p1'' ''A'' ''B'' ''pipe'' vs, circuit_edge ''p2'' ''A'' ''B'' ''pipe'' vs],
          fp_claim_target = None\<rparr>)"

lemma ideal_pipe_simps [simp]:
  "e_flow (ideal_pipe i q) = q" "e_a (ideal_pipe i q) = ''A''" "e_b (ideal_pipe i q) = ''B''"
  "(ideal_pipe i q)\<lparr>e_flow := p\<rparr> = ideal_pipe i p" "unknown_flow (ideal_pipe i q)"
  by (simp_all add: ideal_pipe_def unknown_flow_def UNKNOWN_FLOW_KINDS_def)

lemma ideal_built:
  "omap (edge_new py_str read_float) (fp_edges ideal_network) = Ok [ideal_pipe ''p1'' (Fin 0), ideal_pipe ''p2'' (Fin 0)]"
  by (simp add: ideal_network_def circuit_edge_def ideal_pipe_def edge_new_def pipe_edge_def json_has_def
      json_item_def scalar_value_def float_of_int_def blank_edge_def outcome_simps dhas_def Let_def)

definition ideal_tree :: spanning_tree where
  "ideal_tree = \<lparr>st_order = [''A'', ''B''], st_parent_node = [(''B'', ''A'')], st_parent_edge = [(''B'', 0)],
     st_tree_edges = [0]\<rparr>"

lemma ideal_tree:
  "spanning_tree (fp_nodes ideal_network) [ideal_pipe ''p1'' (Fin 0), ideal_pipe ''p2'' (Fin 0)] = Ok ideal_tree"
  by (simp add: bfs_eval ideal_network_def ideal_tree_def)

lemma ideal_seeds:
  "seed_flows [ideal_pipe ''p1'' (Fin 0), ideal_pipe ''p2'' (Fin 0)] ideal_tree =
     Ok [ideal_pipe ''p1'' (Fin (- (1 / 10000))), ideal_pipe ''p2'' (Fin (1 / 10000))]"
  by (simp add: seed_flows_def seed_chords_def ideal_tree_def enumerate_eq_zip upt_rec seed_node_def
      node_incident_def flow_sum_def set_flow_def CONSERVATION_TOL_def outcome_simps Let_def)

lemma ideal_basis:
  "build_cycle_basis [ideal_pipe ''p1'' (Fin 0), ideal_pipe ''p2'' (Fin 0)] ideal_tree = [[(1, 1), (0, - 1)]]"
  by (simp add: build_cycle_basis_def chord_loop_def depth_path_def ideal_tree_def upt_rec Let_def)

lemma ideal_round:
  "correct_loops [[(1, 1), (0, - 1)]] ([ideal_pipe ''p1'' (Fin (- (1 / 10000))), ideal_pipe ''p2'' (Fin (1 / 10000))], Fin 0) =
     Ok ([ideal_pipe ''p1'' NaN, ideal_pipe ''p2'' NaN], Fin 0)"
  by (simp add: correct_loop_def loop_terms_def ideal_dp shift_loop_def shift_edge_def set_flow_def
      outcome_simps fl_pymax_def Let_def)

lemma ideal_solved:
  "hardy_cross_solve py_str read_float ideal_network = Ok [ideal_pipe ''p1'' NaN, ideal_pipe ''p2'' NaN]"
proof -
  obtain n where n: "HC_MAX_ITER = Suc n" using HC_MAX_ITER_def by (cases HC_MAX_ITER) simp_all
  have "hardy_iterate (Suc n) [[(1, 1), (0, - 1)]]
      [ideal_pipe ''p1'' (Fin (- (1 / 10000))), ideal_pipe ''p2'' (Fin (1 / 10000))] (Fin 0) =
    Ok [ideal_pipe ''p1'' NaN, ideal_pipe ''p2'' NaN]"
    unfolding hardy_iterate.simps ideal_round by (simp add: HC_TOL_def)
  then show ?thesis
    by (simp add: hardy_cross_solve_def ideal_built ideal_tree ideal_seeds ideal_basis n del: hardy_iterate.simps)
qed

end
