(* ===== verification/Pack_Flow.thy ===== *)
theory Pack_Flow
  imports Pack_Closed Flow_Direction Pack_Table
begin

text \<open>
  The pack models that read a payload (\<open>pack/payload_bridge.py\<close> and the tail of \<open>pack/models.py\<close>):
  the two resolvers the pack hands to the engine, the two models that solve over a payload, and
  the three models that query a solved pipe network, with the two ways a request selects edges
  and nodes. The host's store, the JSON reader, the validation of a network and the texts of
  values are parameters.
\<close>

section \<open>Resolvers\<close>

record wire_env = json_env +
  we_validate :: "string \<Rightarrow> flownet_payload + string"
  we_str :: "json \<Rightarrow> string"
  we_read_float :: "string \<Rightarrow> fl option"
  we_schema_version :: int

definition BRIDGE_GUIDANCE :: string where
  "BRIDGE_GUIDANCE = ''the D96 payload channel is not yet threaded from regolith's discharge path to Model.estimate (WO-14 escalated residual); resolving this digest requires an orchestrator PayloadStore handle that Model.estimate does not receive yet.''"

definition NoStoreResolver :: payload_resolver where
  "NoStoreResolver =
     \<lparr>pv_type_name = ''NoStoreResolver'',
      pv_resolve = (\<lambda>_. Err (ToolMissing ''regolith.orchestrator.payload_store'' BRIDGE_GUIDANCE)),
      pv_store = (\<lambda>_ _ _. Raise AssertionError)\<rparr>"

text \<open>\<open>!=\<close> between the declared version and the version of the build, an integer.\<close>

definition is_version :: "int \<Rightarrow> json \<Rightarrow> bool" where
  "is_version v j =
     (case j of
        JInt i \<Rightarrow> i = v
      | JBool b \<Rightarrow> v = of_bool b
      | JFloat x \<Rightarrow> x = Fin (of_int v)
      | _ \<Rightarrow> False)"

definition declared_version :: "json \<Rightarrow> json" where
  "declared_version envelope =
     (case envelope of JObj d \<Rightarrow> (case dget d ''schema_version'' of Some v \<Rightarrow> v | None \<Rightarrow> JNull) | _ \<Rightarrow> JNull)"

text \<open>The host's callable gives the bytes of a digest, or an error the adapter only logs.\<close>

definition adapter_resolve ::
  "wire_env \<Rightarrow> (string \<Rightarrow> string option) \<Rightarrow> payload_ref \<Rightarrow> (string, solve_error) outcome" where
  "adapter_resolve we host r =
     (case host (pr_digest r) of
        None \<Rightarrow> Err (DanglingDigest (pr_digest r))
      | Some data \<Rightarrow>
          (case je_loads we data of
             Inr exc \<Rightarrow>
               Err (ParseFailed (''payload '' @ je_repr we (JStr (pr_digest r)) @ '' (kind='' @
                 je_repr we (JStr (pr_kind r)) @ '') is not valid schema JSON: '' @ exc))
           | Inl envelope \<Rightarrow>
               (if is_version (we_schema_version we) (declared_version envelope) then Ok data
                else Err (ParseFailed (''payload '' @ je_repr we (JStr (pr_digest r)) @
                  '' schema version mismatch: payload declares schema_version='' @
                  je_repr we (declared_version envelope) @
                  '', this build understands schema_version='' @
                  je_repr we (JInt (we_schema_version we)))))))"

definition RegolithResolverAdapter :: "wire_env \<Rightarrow> (string \<Rightarrow> string option) \<Rightarrow> payload_resolver" where
  "RegolithResolverAdapter we host =
     \<lparr>pv_type_name = ''RegolithResolverAdapter'', pv_resolve = adapter_resolve we host,
      pv_store = (\<lambda>_ _ _. Raise AssertionError)\<rparr>"

definition engine_resolver ::
  "wire_env \<Rightarrow> (string \<Rightarrow> string option) option \<Rightarrow> payload_resolver" where
  "engine_resolver we host =
     (case host of Some h \<Rightarrow> RegolithResolverAdapter we h | None \<Rightarrow> NoStoreResolver)"

definition dq_payload :: "discharge_request \<Rightarrow> string \<Rightarrow> (payload_ref, 'e) outcome" where
  "dq_payload rq port =
     (case dget (dq_payloads rq) port of
        Some r \<Rightarrow> to_feldspar_payload_ref r
      | None \<Rightarrow> Raise (KeyError port))"

section \<open>Models that solve over a payload\<close>

text \<open>
  One call of \<open>solve()\<close> with the loosest budget, no margin loop. The registry is built over the
  resolver, so it is a function of it; building it may raise.
\<close>

definition payload_estimate ::
  "pack_env \<Rightarrow> (payload_resolver \<Rightarrow> (registry, domain_error) outcome) \<Rightarrow> wire_env \<Rightarrow> string \<Rightarrow> string
   \<Rightarrow> string list \<Rightarrow> string \<Rightarrow> string \<Rightarrow> discharge_request \<Rightarrow> (string \<Rightarrow> string option) option
   \<Rightarrow> pack_state \<Rightarrow> ((prediction, domain_error) outcome \<times> pack_state) option" where
  "payload_estimate pe registry_over we model_id port engine_tags target solver_version rq host st =
     (case obind (known_of (dq_inputs rq)) (\<lambda>known. obind (dq_payload rq port) (\<lambda>ref.
             obind (registry_over (engine_resolver we host)) (\<lambda>r. Ok (known, ref, r)))) of
        Err e \<Rightarrow> Some (Err e, st)
      | Raise x \<Rightarrow> Some (Raise x, st)
      | Ok (known, ref, r) \<Rightarrow>
          map_option
            (\<lambda>(res, st').
               ((case res of
                   Ok sol \<Rightarrow> Ok (engine_prediction pe True solver_version rq sol)
                 | Err e \<Rightarrow> Err (map_engine_error (pe_repr pe) model_id e)
                 | Raise x \<Rightarrow> Raise x), st'))
            (pack_solve (pe_env pe) r known engine_tags target UPPER [(port, ref)] EPS_BUDGET st))"

definition geometry_estimate ::
  "pack_env \<Rightarrow> (payload_resolver \<Rightarrow> (registry, domain_error) outcome) \<Rightarrow> wire_env \<Rightarrow> string
   \<Rightarrow> discharge_request \<Rightarrow> (string \<Rightarrow> string option) option \<Rightarrow> pack_state
   \<Rightarrow> ((prediction, domain_error) outcome \<times> pack_state) option" where
  "geometry_estimate pe registry_over we model_id =
     payload_estimate pe registry_over we model_id GEOMETRY_PAYLOAD_PORT
       [''linear_elastic'', ''small_deflection''] ''mech.deflection.tip'' fea_solver_version"

definition miner_estimate ::
  "pack_env \<Rightarrow> (payload_resolver \<Rightarrow> (registry, domain_error) outcome) \<Rightarrow> wire_env \<Rightarrow> string
   \<Rightarrow> discharge_request \<Rightarrow> (string \<Rightarrow> string option) option \<Rightarrow> pack_state
   \<Rightarrow> ((prediction, domain_error) outcome \<times> pack_state) option" where
  "miner_estimate pe registry_over we model_id =
     payload_estimate pe registry_over we model_id MINER_SPECTRUM_PORT
       [''steel'', ''hcf''] ''mech.fatigue.miner.damage'' closed_form_solver_version"

section \<open>Queries on a solved network\<close>

definition resolve_solved_network ::
  "pack_env \<Rightarrow> wire_env \<Rightarrow> string \<Rightarrow> discharge_request \<Rightarrow> (string \<Rightarrow> string option) option
   \<Rightarrow> (solved_network, domain_error) outcome" where
  "resolve_solved_network pe we model_id rq host =
     obind (dq_payload rq FLOWNET_PORT) (\<lambda>ref.
       case obind (pv_resolve (engine_resolver we host) ref)
              (solve_flownet_bytes (we_validate we) (we_str we) (we_read_float we)) of
         Ok sn \<Rightarrow> Ok sn
       | Err e \<Rightarrow> Err (map_engine_error (pe_repr pe) model_id (SolveFailed e))
       | Raise x \<Rightarrow> Raise x)"

definition query_error :: "string \<Rightarrow> string \<Rightarrow> ('a, domain_error) outcome" where
  "query_error model_id msg = Err \<lparr>de_model_id = model_id, de_message = msg\<rparr>"

definition ids_text :: "wire_env \<Rightarrow> string list \<Rightarrow> string" where
  "ids_text we ids = je_repr we (JArr (map JStr ids))"

definition count_text :: "wire_env \<Rightarrow> string list \<Rightarrow> string" where
  "count_text we ids = je_repr we (JInt (int (length ids))) @ '': '' @ ids_text we ids"

text \<open>\<open>network.by_id[id]\<close>.\<close>

definition edge_by_id :: "solved_network \<Rightarrow> string \<Rightarrow> (edge, 'e) outcome" where
  "edge_by_id sn i = (case dget (sn_by_id sn) i of Some e \<Rightarrow> Ok e | None \<Rightarrow> Raise (KeyError i))"

text \<open>The ids among the keys of the request's inputs: the older way to select.\<close>

definition input_edges :: "discharge_request \<Rightarrow> solved_network \<Rightarrow> string list" where
  "input_edges rq sn = filter (dhas (sn_by_id sn)) (map fst (dq_inputs rq))"

definition mdot_edge ::
  "wire_env \<Rightarrow> string \<Rightarrow> discharge_request \<Rightarrow> solved_network \<Rightarrow> (edge, domain_error) outcome" where
  "mdot_edge we model_id rq sn =
     (case fp_claim_target (sn_payload sn) of
        Some target \<Rightarrow>
          (case ct_role target of
             Some role \<Rightarrow>
               (if dhas (sn_by_id sn) role then edge_by_id sn role
                else query_error model_id (''fluids.mdot needs claim_target.role to name exactly one flownet edge id; found role='' @
                       je_repr we (JStr role)))
           | None \<Rightarrow>
               query_error model_id (''fluids.mdot needs claim_target.role to name exactly one flownet edge id; found role='' @
                 je_repr we JNull))
      | None \<Rightarrow>
          (let selected = input_edges rq sn in
           if length selected \<noteq> 1
           then query_error model_id (''fluids.mdot needs exactly one selected edge id among the request's inputs to match a flownet edge; found '' @
                  count_text we (sort selected))
           else edge_by_id sn (hd selected)))"

definition mdot_estimate ::
  "pack_env \<Rightarrow> wire_env \<Rightarrow> string \<Rightarrow> discharge_request \<Rightarrow> (string \<Rightarrow> string option) option
   \<Rightarrow> (prediction, domain_error) outcome" where
  "mdot_estimate pe we model_id rq host =
     obind (resolve_solved_network pe we model_id rq host) (\<lambda>sn.
     obind (mdot_edge we model_id rq sn) (\<lambda>e. Ok (plain_prediction (e_flow e))))"

text \<open>\<open>str.split\<close> at a comma and at an arrow.\<close>

fun split_comma :: "string \<Rightarrow> string \<Rightarrow> string list" where
  "split_comma acc [] = [acc]"
| "split_comma acc (c # s) = (if c = CHR '','' then acc # split_comma [] s else split_comma (acc @ [c]) s)"

fun split_arrow :: "string \<Rightarrow> string \<Rightarrow> string list" where
  "split_arrow acc [] = [acc]"
| "split_arrow acc [c] = [acc @ [c]]"
| "split_arrow acc (c # d # s) =
     (if c = CHR ''-'' \<and> d = CHR ''>'' then acc # split_arrow [] s else split_arrow (acc @ [c]) (d # s))"

definition role_text :: "claim_target \<Rightarrow> string" where
  "role_text target = (case ct_role target of Some role \<Rightarrow> role | None \<Rightarrow> [])"

definition sibling_edges ::
  "wire_env \<Rightarrow> string \<Rightarrow> discharge_request \<Rightarrow> solved_network \<Rightarrow> (string list, domain_error) outcome" where
  "sibling_edges we model_id rq sn =
     (case fp_claim_target (sn_payload sn) of
        Some target \<Rightarrow>
          (let candidates = filter (\<lambda>part. part \<noteq> []) (split_comma [] (role_text target));
               selected = sort (filter (dhas (sn_by_id sn)) candidates) in
           if length selected < 2 \<or> length selected \<noteq> card (set candidates)
           then query_error model_id (''fluids.flow_imbalance needs claim_target.role to name at least two matching flownet edge ids ('' @
                  je_repr we (JStr '','') @ ''-joined); found role='' @ je_repr we (JStr (role_text target)) @
                  '', matched '' @ count_text we selected)
           else Ok selected)
      | None \<Rightarrow>
          (let selected = sort (input_edges rq sn) in
           if length selected < 2
           then query_error model_id (''fluids.flow_imbalance needs at least two selected edge ids among the request's inputs that match flownet edges; found '' @
                  count_text we selected)
           else Ok selected))"

text \<open>\<open>max\<close> and \<open>min\<close> of a list keep the first item unless a later one is beyond it.\<close>

definition imbalance_of :: "fl list \<Rightarrow> fl" where
  "imbalance_of flows =
     fl_div (fl_sub (foldl fl_pymax (hd flows) (tl flows)) (foldl fl_pymin (hd flows) (tl flows)))
       (fl_div (foldl fl_add (Fin 0) flows) (Fin (of_nat (length flows))))"

definition imbalance_estimate ::
  "pack_env \<Rightarrow> wire_env \<Rightarrow> string \<Rightarrow> discharge_request \<Rightarrow> (string \<Rightarrow> string option) option
   \<Rightarrow> (prediction, domain_error) outcome" where
  "imbalance_estimate pe we model_id rq host =
     obind (resolve_solved_network pe we model_id rq host) (\<lambda>sn.
     obind (sibling_edges we model_id rq sn) (\<lambda>selected.
     obind (omap (edge_by_id sn) selected) (\<lambda>es.
       let flows = map (\<lambda>e. fl_abs (e_flow e)) es;
           mean = fl_div (foldl fl_add (Fin 0) flows) (Fin (of_nat (length flows))) in
       if fl_le mean (Fin 0)
       then query_error model_id (''fluids.flow_imbalance over edges '' @ ids_text we selected @
              '' has zero mean flow -- imbalance fraction is undefined, not reportable as 0%'')
       else Ok (plain_prediction (imbalance_of flows)))))"

definition input_nodes :: "discharge_request \<Rightarrow> solved_network \<Rightarrow> real \<Rightarrow> string list" where
  "input_nodes rq sn role =
     map fst (filter (\<lambda>(n, iv). dhas (sn_incidence sn) n \<and> fl_eq (ri_lo iv) (ri_hi iv) \<and>
       fl_eq (ri_hi iv) (Fin role)) (dq_inputs rq))"

definition dp_ends ::
  "wire_env \<Rightarrow> string \<Rightarrow> discharge_request \<Rightarrow> solved_network \<Rightarrow> (string \<times> string, domain_error) outcome" where
  "dp_ends we model_id rq sn =
     (case fp_claim_target (sn_payload sn) of
        Some target \<Rightarrow>
          (let parts = split_arrow [] (role_text target) in
           if length parts \<noteq> 2 \<or> parts ! 0 = [] \<or> parts ! 1 = [] \<or>
              \<not> dhas (sn_incidence sn) (parts ! 0) \<or> \<not> dhas (sn_incidence sn) (parts ! 1)
           then query_error model_id (''fluids.dp needs claim_target.role shaped '' @ [CHR 0x27] @ ''<from>-><to>'' @ [CHR 0x27] @
                  '' naming two flownet node ids; found role='' @ je_repr we (JStr (role_text target)))
           else Ok (parts ! 0, parts ! 1))
      | None \<Rightarrow>
          (let from_nodes = input_nodes rq sn 0; to_nodes = input_nodes rq sn 1 in
           if length from_nodes \<noteq> 1 \<or> length to_nodes \<noteq> 1
           then query_error model_id (''fluids.dp needs exactly one 'from' node (role='' @ je_repr we (JFloat (Fin 0)) @
                  '') and one 'to' node (role='' @ je_repr we (JFloat (Fin 1)) @
                  '') among the request's inputs matching flownet node ids; found from='' @
                  ids_text we (sort from_nodes) @ '' to='' @ ids_text we (sort to_nodes))
           else Ok (hd from_nodes, hd to_nodes)))"

definition path_dp :: "(edge \<times> int) list \<Rightarrow> fl" where
  "path_dp path = foldl (\<lambda>acc (e, sign). fl_add acc (fl_mul (Fin (of_int sign)) (edge_dp e))) (Fin 0) path"

definition dp_estimate ::
  "pack_env \<Rightarrow> wire_env \<Rightarrow> string \<Rightarrow> discharge_request \<Rightarrow> (string \<Rightarrow> string option) option
   \<Rightarrow> (prediction, domain_error) outcome" where
  "dp_estimate pe we model_id rq host =
     obind (resolve_solved_network pe we model_id rq host) (\<lambda>sn.
     obind (dp_ends we model_id rq sn) (\<lambda>(from_node, to_node).
       case find_path_edges sn from_node to_node of
         Err e \<Rightarrow> Err (map_engine_error (pe_repr pe) model_id (SolveFailed e))
       | Raise x \<Rightarrow> Raise x
       | Ok path \<Rightarrow> Ok (plain_prediction (path_dp path))))"

end
