(* ===== verification/Payload_Solvers.thy ===== *)
theory Payload_Solvers
  imports Lib_Fatigue Pack_Flow
begin

text \<open>
  Solvers around a payload or an external library: Miner's damage sum over a load spectrum
  (\<open>mech/fatigue.py\<close>), the ranking of candidate materials (\<open>materials/selection.py\<close>) and the
  fluid properties of CoolProp (\<open>thermo/properties.py\<close>), with what the sum and the ranking return.
\<close>

section \<open>Miner's damage\<close>

text \<open>A life may be asked for a block that is not a finite number: inf gives 0, NaN gives NaN.\<close>

definition block_life :: "fl \<Rightarrow> real \<Rightarrow> real \<Rightarrow> (fl \<Rightarrow> raw_return) \<Rightarrow> raw_return" where
  "block_life sigma_a a b ret =
     (case sigma_a of
        Fin s \<Rightarrow> sn_cycles_to_failure s a b (\<lambda>n. ret (Fin n))
      | PInf \<Rightarrow> ret (if b < 0 then Fin 0 else PInf)
      | _ \<Rightarrow> ret NaN)"

definition lift_outcome :: "('a, solve_error) outcome \<Rightarrow> ('a \<Rightarrow> raw_return) \<Rightarrow> raw_return" where
  "lift_outcome r k = (case r of Ok v \<Rightarrow> k v | Err e \<Rightarrow> RetErr e | Raise ex \<Rightarrow> RetRaise ex)"

definition fl_py_div :: "fl \<Rightarrow> fl \<Rightarrow> (fl \<Rightarrow> raw_return) \<Rightarrow> raw_return" where
  "fl_py_div a b ret = (if fl_eq b (Fin 0) then RetRaise ZeroDivisionError else ret (fl_div a b))"

definition negative_block :: "('x) json_env_scheme \<Rightarrow> json \<Rightarrow> json \<Rightarrow> raw_return" where
  "negative_block je sigma_a n_applied =
     out_of_domain (''miner_damage: negative block sigma_a='' @ je_repr je sigma_a @ '' or cycles='' @ je_repr je n_applied)"

fun miner_loop ::
  "('x) json_env_scheme \<Rightarrow> real \<Rightarrow> real \<Rightarrow> real \<Rightarrow> (json \<times> json) list \<Rightarrow> fl \<Rightarrow> raw_return" where
  "miner_loop je se a b [] damage =
     RetOk (RVOutput (plain_output [(''mech.fatigue.miner.damage'', damage)]))"
| "miner_loop je se a b ((sigma_a, n_applied) # blocks) damage =
     lift_outcome (json_number sigma_a) (\<lambda>s.
       if fl_lt s (Fin 0) then negative_block je sigma_a n_applied
       else lift_outcome (json_number n_applied) (\<lambda>n.
         if fl_lt n (Fin 0) then negative_block je sigma_a n_applied
         else if fl_le s (Fin se) then miner_loop je se a b blocks damage
         else lift_outcome (json_operand sigma_a) (\<lambda>s'.
           block_life s' a b (\<lambda>n_life.
           lift_outcome (json_operand n_applied) (\<lambda>n'.
           fl_py_div n' n_life (\<lambda>d. miner_loop je se a b blocks (fl_add damage d)))))))"

definition miner_fn ::
  "('x) json_env_scheme \<Rightarrow> (string \<Rightarrow> real \<Rightarrow> string) \<Rightarrow> payload_resolver \<Rightarrow> inputs \<Rightarrow> raw_return" where
  \<open>miner_fn je fmt resolver x =
     lift_outcome (resolve_input resolver x MINER_SPECTRUM_PORT) (\<lambda>data.
     case je_loads je data of
       Inr _ \<Rightarrow> RetRaise ValueError
     | Inl spectrum \<Rightarrow>
         lift_outcome (json_item spectrum ''sigma_a'') (\<lambda>sigmas.
         lift_outcome (json_item spectrum ''cycles'') (\<lambda>counts.
         lift_outcome (json_iter sigmas) (\<lambda>sigma_a_blocks.
         lift_outcome (json_iter counts) (\<lambda>cycles_blocks.
           if length sigma_a_blocks \<noteq> length cycles_blocks \<or> sigma_a_blocks = []
           then out_of_domain (''miner_damage: spectrum blocks mismatched length ('' @
                  je_repr je (JInt (int (length sigma_a_blocks))) @ '' sigma_a vs '' @
                  je_repr je (JInt (int (length cycles_blocks))) @ '' cycles) or empty'')
           else
             arg x ''mech.fatigue.miner.sut'' (\<lambda>sut.
             arg x ''mech.fatigue.miner.se'' (\<lambda>se.
             arg x ''mech.fatigue.miner.f'' (\<lambda>f.
             sn_knee_params sut se f (\<lambda>params.
               case params of
                 None \<Rightarrow> out_of_domain (''miner_damage: degenerate S-N params for sut='' @ fmt ''r'' sut @
                   '', se='' @ fmt ''r'' se @ '', f='' @ fmt ''r'' f)
               | Some (a, b) \<Rightarrow>
                   miner_loop je se a b (zip sigma_a_blocks cycles_blocks) (Fin 0)))))))))) \<close>

definition resolver_settings :: "(json \<Rightarrow> string) \<Rightarrow> (json \<Rightarrow> string) \<Rightarrow> payload_resolver \<Rightarrow> pyobj" where
  "resolver_settings H dumps resolver =
     PyStr (canonical_digest H dumps (PyMap [(''resolver'', PyStr (resolver_cache_identity resolver))]))"

definition miner_direction ::
  "(json \<Rightarrow> string) \<Rightarrow> (json \<Rightarrow> string) \<Rightarrow> ('x) json_env_scheme \<Rightarrow> (string \<Rightarrow> real \<Rightarrow> string) \<Rightarrow> payload_resolver
   \<Rightarrow> (solver_pair, registry_error) outcome" where
  "miner_direction H dumps je fmt resolver =
     make_direction H dumps
       (default_args\<lparr>ba_solver_id := ''mech.fatigue.miner_damage'', ba_namespace := ''mech.fatigue'',
          ba_inputs := [''mech.fatigue.miner.sut'', ''mech.fatigue.miner.se'', ''mech.fatigue.miner.f'',
            MINER_SPECTRUM_PORT],
          ba_outputs := [''mech.fatigue.miner.damage''],
          ba_domain := DomObj (domain_new
            [(''mech.fatigue.miner.sut'', ivl (2 * 10 ^ 8) (2 * 10 ^ 9)),
             (''mech.fatigue.miner.se'', ivl (10 ^ 7) (7 * 10 ^ 8)),
             (''mech.fatigue.miner.f'', ivl (1 / 2) (95 / 100))] [''hcf'', ''steel'']),
          ba_cost := Fin (1 / 10 ^ 6), ba_accuracy := AccOne EXACT,
          ba_citations := map CitObj MINER_CITATIONS, ba_version := ''1'', ba_tier := ''closed_form'',
          ba_settings := resolver_settings H dumps resolver,
          ba_raw_fn := (\<lambda>x _. miner_fn je fmt resolver x)\<rparr>)"

definition fatigue_PORT_DECLS :: "port_decl list" where
  "fatigue_PORT_DECLS =
     [scalar_port ''mech.fatigue.baseline.sut'' ''Pa'', scalar_port ''mech.fatigue.baseline.se_prime'' ''Pa'',
      scalar_port ''mech.fatigue.surface.sut_mpa'' ''MPa'', scalar_port ''mech.fatigue.surface.coeff_a'' ''1'',
      scalar_port ''mech.fatigue.surface.exponent_b'' ''1'', scalar_port ''mech.fatigue.surface.ka'' ''1'',
      scalar_port ''mech.fatigue.marin.se_prime'' ''Pa'', scalar_port ''mech.fatigue.marin.ka'' ''1'',
      scalar_port ''mech.fatigue.marin.kb'' ''1'', scalar_port ''mech.fatigue.marin.kc'' ''1'',
      scalar_port ''mech.fatigue.marin.kd'' ''1'', scalar_port ''mech.fatigue.marin.ke'' ''1'',
      scalar_port ''mech.fatigue.marin.se'' ''Pa'', scalar_port ''mech.fatigue.goodman.se'' ''Pa'',
      scalar_port ''mech.fatigue.goodman.sut'' ''Pa'', scalar_port ''mech.fatigue.goodman.sigma_a'' ''Pa'',
      scalar_port ''mech.fatigue.goodman.sigma_m'' ''Pa'', scalar_port ''mech.fatigue.goodman.sa_limit'' ''Pa'',
      scalar_port ''mech.fatigue.goodman.sm_limit'' ''Pa'',
      scalar_port ''mech.fatigue.goodman.factor_of_safety'' ''1'', scalar_port ''mech.fatigue.gerber.se'' ''Pa'',
      scalar_port ''mech.fatigue.gerber.sut'' ''Pa'', scalar_port ''mech.fatigue.gerber.sigma_a'' ''Pa'',
      scalar_port ''mech.fatigue.gerber.sigma_m'' ''Pa'', scalar_port ''mech.fatigue.gerber.factor_of_safety'' ''1'',
      scalar_port ''mech.fatigue.sn.sigma_a'' ''Pa'', scalar_port ''mech.fatigue.sn.sut'' ''Pa'',
      scalar_port ''mech.fatigue.sn.se'' ''Pa'', scalar_port ''mech.fatigue.sn.f'' ''1'',
      scalar_port ''mech.fatigue.sn.cycles_to_failure'' ''1'', scalar_port ''mech.fatigue.miner.sut'' ''Pa'',
      scalar_port ''mech.fatigue.miner.se'' ''Pa'', scalar_port ''mech.fatigue.miner.f'' ''1'',
      scalar_port ''mech.fatigue.miner.damage'' ''1'',
      \<lparr>pd_name = MINER_SPECTRUM_PORT, pd_unit = [], pd_rank = PayloadRank ''spectrum''\<rparr>]"

text \<open>The closed-form directions are those of the laws of the family, in the order of the code.\<close>

definition fatigue_directions ::
  "(json \<Rightarrow> string) \<Rightarrow> (json \<Rightarrow> string) \<Rightarrow> (string \<Rightarrow> real \<Rightarrow> string)
   \<Rightarrow> (solver_pair, registry_error) outcome list" where
  "fatigue_directions H dumps fmt = map fst (fatigue_laws H dumps fmt)"

definition register_fatigue ::
  "(json \<Rightarrow> string) \<Rightarrow> (json \<Rightarrow> string) \<Rightarrow> ('x) json_env_scheme \<Rightarrow> (string \<Rightarrow> real \<Rightarrow> string) \<Rightarrow> payload_resolver
   \<Rightarrow> registry \<Rightarrow> (unit, registry_error) outcome \<times> registry" where
  "register_fatigue H dumps je fmt resolver =
     register_family fatigue_PORT_DECLS
       (fatigue_directions H dumps fmt @ [miner_direction H dumps je fmt resolver])"

section \<open>Candidate materials\<close>

definition CANDIDATES_PORT :: string where
  "CANDIDATES_PORT = ''materials.selection.candidates''"

definition RANKED_CANDIDATES_PORT :: string where
  "RANKED_CANDIDATES_PORT = ''materials.selection.ranked_candidates''"

definition COST_CLASS_RANK :: "(string, int) dict" where
  "COST_CLASS_RANK = [(''low'', 0), (''medium'', 1), (''high'', 2), (''specialty'', 3)]"

record candidate_row =
  cr_name :: json
  cr_cost_class :: string
  cr_meets_hardness :: bool
  cr_meets_diameter :: bool
  cr_meets_cost :: bool
  cr_hardness_margin :: fl
  cr_diameter_margin :: fl
  cr_cost_rank :: int

definition cr_eligible :: "candidate_row \<Rightarrow> bool" where
  "cr_eligible row \<longleftrightarrow> cr_meets_hardness row \<and> cr_meets_diameter row \<and> cr_meets_cost row"

text \<open>\<open>value in COST_CLASS_RANK\<close>: a list or a dict is not hashable.\<close>

definition cost_class_of :: "json \<Rightarrow> (string option, 'e) outcome" where
  "cost_class_of j =
     (case j of
        JStr s \<Rightarrow> Ok (if dhas COST_CLASS_RANK s then Some s else None)
      | JArr _ \<Rightarrow> Raise TypeError
      | JObj _ \<Rightarrow> Raise TypeError
      | _ \<Rightarrow> Ok None)"

definition evaluate_candidate ::
  "real \<Rightarrow> real \<Rightarrow> int \<Rightarrow> json \<Rightarrow> (candidate_row, solve_error) outcome" where
  "evaluate_candidate hardness_target required_diameter ceiling_rank candidate =
     obind (json_item candidate ''name'') (\<lambda>name.
     obind (json_item candidate ''achievable_hardness_hv'') (\<lambda>hardness.
     obind (json_item candidate ''ideal_critical_diameter_m'') (\<lambda>diameter.
     obind (json_item candidate ''cost_class'') (\<lambda>cost.
     obind (cost_class_of cost) (\<lambda>cls.
     case cls of
       None \<Rightarrow> Raise (KeyError ''cost_class'')
     | Some cost_class \<Rightarrow>
         obind (json_number hardness) (\<lambda>h.
         obind (json_number diameter) (\<lambda>d.
         obind (json_operand hardness) (\<lambda>h'.
         obind (json_operand diameter) (\<lambda>d'.
           Ok \<lparr>cr_name = name, cr_cost_class = cost_class,
               cr_meets_hardness = fl_le (Fin hardness_target) h,
               cr_meets_diameter = fl_le (Fin required_diameter) d,
               cr_meets_cost = (the (dget COST_CLASS_RANK cost_class) \<le> ceiling_rank),
               cr_hardness_margin = fl_sub h' (Fin hardness_target),
               cr_diameter_margin = fl_sub d' (Fin required_diameter),
               cr_cost_rank = the (dget COST_CLASS_RANK cost_class)\<rparr>)))))))))"

text \<open>\<open>sorted\<close> by the pair of the negated margin and the cost rank; the sort is stable.\<close>

definition row_before :: "candidate_row \<Rightarrow> candidate_row \<Rightarrow> bool" where
  "row_before r s \<longleftrightarrow>
     (if fl_eq (fl_neg (cr_hardness_margin r)) (fl_neg (cr_hardness_margin s))
      then cr_cost_rank r < cr_cost_rank s
      else fl_lt (fl_neg (cr_hardness_margin r)) (fl_neg (cr_hardness_margin s)))"

fun insert_row :: "candidate_row \<Rightarrow> candidate_row list \<Rightarrow> candidate_row list" where
  "insert_row r [] = [r]"
| "insert_row r (s # ss) = (if row_before s r then s # insert_row r ss else r # s # ss)"

definition sort_rows :: "candidate_row list \<Rightarrow> candidate_row list" where
  "sort_rows rows = foldr insert_row rows []"

definition rank_candidates ::
  "json list \<Rightarrow> real \<Rightarrow> real \<Rightarrow> int \<Rightarrow> ((candidate_row \<times> nat option) list, solve_error) outcome" where
  "rank_candidates candidates hardness_target required_diameter ceiling_rank =
     obind (omap (evaluate_candidate hardness_target required_diameter ceiling_rank) candidates) (\<lambda>evaluated.
       let eligible = sort_rows (filter cr_eligible evaluated);
           ineligible = filter (\<lambda>r. \<not> cr_eligible r) evaluated in
       Ok (map (\<lambda>(i, r). (r, Some i)) (enumerate 1 eligible) @ map (\<lambda>r. (r, None)) ineligible))"

definition ranked_json :: "candidate_row \<times> nat option \<Rightarrow> json" where
  "ranked_json rr =
     (case rr of (r, rank) \<Rightarrow>
        JObj [(''name'', cr_name r), (''cost_class'', JStr (cr_cost_class r)),
          (''meets_hardness'', JBool (cr_meets_hardness r)), (''meets_diameter'', JBool (cr_meets_diameter r)),
          (''meets_cost'', JBool (cr_meets_cost r)), (''eligible'', JBool (cr_eligible r)),
          (''hardness_margin_hv'', JFloat (cr_hardness_margin r)),
          (''diameter_margin_m'', JFloat (cr_diameter_margin r)), (''cost_rank'', JInt (cr_cost_rank r)),
          (''rank'', (case rank of Some i \<Rightarrow> JInt (int i) | None \<Rightarrow> JNull))])"

text \<open>\<open>candidate.get(key)\<close>.\<close>

definition json_get_or_null :: "json \<Rightarrow> string \<Rightarrow> (json, 'e) outcome" where
  "json_get_or_null j k =
     (case j of
        JObj d \<Rightarrow> Ok (case dget d k of Some v \<Rightarrow> v | None \<Rightarrow> JNull)
      | _ \<Rightarrow> Raise (AttributeError ''get''))"

fun check_cost_classes :: "('x) json_env_scheme \<Rightarrow> json list \<Rightarrow> (unit, solve_error) outcome" where
  "check_cost_classes je [] = Ok ()"
| "check_cost_classes je (candidate # candidates) =
     obind (json_get_or_null candidate ''cost_class'') (\<lambda>cost.
     obind (cost_class_of cost) (\<lambda>cls.
     case cls of
       Some _ \<Rightarrow> check_cost_classes je candidates
     | None \<Rightarrow>
         obind (json_get_or_null candidate ''name'') (\<lambda>name.
         Err (OutOfDomain (ViolationText (''materials.selection: candidate '' @ je_repr je name @
           '' has unknown cost_class='' @ je_repr je cost))))))"

text \<open>\<open>int\<close> of a finite double drops the fraction.\<close>

definition py_int :: "real \<Rightarrow> int" where
  "py_int r = (if 0 \<le> r then \<lfloor>r\<rfloor> else \<lceil>r\<rceil>)"

definition selection_fn :: "('x) json_env_scheme \<Rightarrow> payload_resolver \<Rightarrow> inputs \<Rightarrow> raw_return" where
  "selection_fn je resolver x =
     lift_outcome (resolve_input resolver x CANDIDATES_PORT) (\<lambda>data.
     case je_loads je data of
       Inr _ \<Rightarrow> RetRaise ValueError
     | Inl pool \<Rightarrow>
         if \<not> json_truthy pool then out_of_domain ''materials.selection: empty candidate pool''
         else
           lift_outcome (json_iter pool) (\<lambda>candidates.
           lift_outcome (check_cost_classes je candidates) (\<lambda>_.
           arg x ''materials.selection.hardness_target_hv'' (\<lambda>hardness_target.
           arg x ''materials.selection.required_diameter_m'' (\<lambda>required_diameter.
           arg x ''materials.selection.cost_class_ceiling_rank'' (\<lambda>ceiling.
           lift_outcome (rank_candidates candidates hardness_target required_diameter (py_int ceiling)) (\<lambda>ranked.
           lift_outcome (pv_store resolver ''table'' (je_dumps je (JArr (map ranked_json ranked)))
               ''materials.selection.rank_candidates_for_requirements'') (\<lambda>ref.
           RetOk (RVOutput \<lparr>so_values = [], so_measured_eps = None,
             so_payloads = [(RANKED_CANDIDATES_PORT, ref)]\<rparr>)))))))))"

definition SELECTION_CITATIONS :: "citation list" where
  \<open>SELECTION_CITATIONS =
     [\<lparr>ct_kind = ''handbook'', ct_ref = ''lithos design-log D270 ruling 3 (owner directive 2026-07-19): a solver route from requirements (hardness target, section size, quench severity class, cost class) to ranked candidate materials with the full calc chain as evidence.'',
       ct_note = ''This direction composes ALREADY-COMPUTED per-candidate figures (see module docstring) into a ranked, evidenced result -- it is not itself a cited physical law, so its citation is the owner directive that scopes it, matching how '' @ [CHR 0x60] @ ''solve/registry.py'' @ [CHR 0x60] @ '' internal-composition directions elsewhere in this codebase cite their governing ruling rather than a physics paper.''\<rparr>]\<close>

definition selection_direction ::
  "(json \<Rightarrow> string) \<Rightarrow> (json \<Rightarrow> string) \<Rightarrow> ('x) json_env_scheme \<Rightarrow> payload_resolver
   \<Rightarrow> (solver_pair, registry_error) outcome" where
  "selection_direction H dumps je resolver =
     make_direction H dumps
       (default_args\<lparr>ba_solver_id := ''materials.selection.rank_candidates_for_requirements'',
          ba_namespace := ''materials.selection'',
          ba_inputs := [''materials.selection.hardness_target_hv'', ''materials.selection.required_diameter_m'',
            ''materials.selection.cost_class_ceiling_rank'', CANDIDATES_PORT],
          ba_outputs := [RANKED_CANDIDATES_PORT],
          ba_domain := DomObj (domain_new
            [(''materials.selection.hardness_target_hv'', ivl 50 1000),
             (''materials.selection.required_diameter_m'', ivl (1 / 10 ^ 4) 1),
             (''materials.selection.cost_class_ceiling_rank'', ivl 0 3)] [''selection'']),
          ba_cost := Fin (1 / 10 ^ 5), ba_accuracy := AccOne EXACT,
          ba_citations := map CitObj SELECTION_CITATIONS, ba_version := ''1'', ba_tier := ''closed_form'',
          ba_settings := resolver_settings H dumps resolver,
          ba_raw_fn := (\<lambda>x _. selection_fn je resolver x)\<rparr>)"

definition selection_PORT_DECLS :: "port_decl list" where
  "selection_PORT_DECLS =
     [scalar_port ''materials.selection.hardness_target_hv'' ''1'',
      scalar_port ''materials.selection.required_diameter_m'' ''m'',
      scalar_port ''materials.selection.cost_class_ceiling_rank'' ''1'',
      \<lparr>pd_name = CANDIDATES_PORT, pd_unit = [], pd_rank = PayloadRank ''table''\<rparr>,
      \<lparr>pd_name = RANKED_CANDIDATES_PORT, pd_unit = [], pd_rank = PayloadRank ''table''\<rparr>]"

definition register_selection ::
  "(json \<Rightarrow> string) \<Rightarrow> (json \<Rightarrow> string) \<Rightarrow> ('x) json_env_scheme \<Rightarrow> payload_resolver
   \<Rightarrow> registry \<Rightarrow> (unit, registry_error) outcome \<times> registry" where
  "register_selection H dumps je resolver =
     register_family selection_PORT_DECLS [selection_direction H dumps je resolver]"

section \<open>Fluid properties\<close>

text \<open>
  \<open>PropsSI\<close> of CoolProp gives a number or raises \<open>ValueError\<close> with a text; it is \<open>None\<close> when the
  library cannot be imported.
\<close>

type_synonym props_si = "(string \<Rightarrow> real \<Rightarrow> real \<Rightarrow> string \<Rightarrow> fl + string) option"

record fluid_spec =
  fs_coolprop_name :: string
  fs_t_box :: interval
  fs_p_box :: interval
  fs_citations :: "citation list"

definition COOLPROP_CITATION :: citation where
  "COOLPROP_CITATION = \<lparr>ct_kind = ''paper'', ct_ref = ''Bell, I. H., Wronski, J., Quoilin, S., and Lemmon, E. W., Pure and Pseudo-pure Fluid Thermophysical Property Evaluation and the Open-Source Thermophysical Property Library CoolProp, Ind. Eng. Chem. Res., 53(6), 2014.'', ct_note = []\<rparr>"

definition IAPWS_CITATION :: citation where
  "IAPWS_CITATION = \<lparr>ct_kind = ''standard'', ct_ref = ''IAPWS-95: Release on the IAPWS Formulation 1995 for the Thermodynamic Properties of Ordinary Water Substance'', ct_note = []\<rparr>"

definition LEMMON_CITATION :: citation where
  "LEMMON_CITATION = \<lparr>ct_kind = ''paper'', ct_ref = ''Lemmon, E. W., Jacobsen, R. T, Penoncello, S. G., and Friend, D. G., Thermodynamic Properties of Air and Mixtures of Nitrogen, Argon, and Oxygen, J. Phys. Chem. Ref. Data, 29(3), 2000 (air); Span, R. et al., A Reference Equation of State for the Thermodynamic Properties of Nitrogen, J. Phys. Chem. Ref. Data, 29(6), 2000 (nitrogen).'', ct_note = []\<rparr>"

definition FLUIDS :: "(string, fluid_spec) dict" where
  "FLUIDS =
     [(''water'', \<lparr>fs_coolprop_name = ''Water'', fs_t_box = ivl (27316 / 100) (373124 / 1000),
        fs_p_box = ivl 611 (2 * 10 ^ 7), fs_citations = [COOLPROP_CITATION, IAPWS_CITATION]\<rparr>),
      (''air'', \<lparr>fs_coolprop_name = ''Air'', fs_t_box = ivl 200 400,
        fs_p_box = ivl (10 ^ 4) (2 * 10 ^ 7), fs_citations = [COOLPROP_CITATION, LEMMON_CITATION]\<rparr>),
      (''nitrogen'', \<lparr>fs_coolprop_name = ''Nitrogen'', fs_t_box = ivl 200 400,
        fs_p_box = ivl (10 ^ 4) (2 * 10 ^ 7), fs_citations = [COOLPROP_CITATION, LEMMON_CITATION]\<rparr>)]"

definition DENSITY_ACCURACY :: accuracy where
  "DENSITY_ACCURACY = \<lparr>eps_abs = 0, eps_rel = 5 / 1000\<rparr>"

definition CP_ACCURACY :: accuracy where
  "CP_ACCURACY = \<lparr>eps_abs = 0, eps_rel = 5 / 1000\<rparr>"

definition VISCOSITY_ACCURACY :: accuracy where
  "VISCOSITY_ACCURACY = \<lparr>eps_abs = 0, eps_rel = 2 / 100\<rparr>"

definition thermo_port :: "string \<Rightarrow> string \<Rightarrow> string" where
  "thermo_port fluid prop = ''thermo.'' @ fluid @ ''.'' @ prop"

definition probe_coolprop :: "props_si \<Rightarrow> (unit, solve_error) outcome" where
  "probe_coolprop propsi =
     (case propsi of
        None \<Rightarrow> Err (ToolMissing ''CoolProp'' ''install the 'props' extra: pip install feldspar[props]'')
      | Some _ \<Rightarrow> Ok ())"

definition property_fn ::
  "(string \<Rightarrow> real \<Rightarrow> string) \<Rightarrow> props_si \<Rightarrow> string \<Rightarrow> string \<Rightarrow> string \<Rightarrow> string \<Rightarrow> inputs \<Rightarrow> raw_return" where
  "property_fn fmt propsi coolprop_name fluid prop_code prop_name x =
     (case propsi of
        None \<Rightarrow> RetRaise ImportError
      | Some call \<Rightarrow>
          arg x (thermo_port fluid ''temperature'') (\<lambda>t.
          arg x (thermo_port fluid ''pressure'') (\<lambda>p.
            case call prop_code t p coolprop_name of
              Inr exc \<Rightarrow> out_of_domain exc
            | Inl value \<Rightarrow>
                if \<not> fl_finite value
                then out_of_domain (coolprop_name @ '' '' @ prop_name @ '' at T='' @ fmt '''' t @ '', P='' @
                       fmt '''' p @ '': PropsSI returned non-finite value '' @ fmt_fl fmt ''r'' value)
                else ok_floats [(thermo_port fluid prop_name, value)])))"

definition property_direction ::
  "(json \<Rightarrow> string) \<Rightarrow> (json \<Rightarrow> string) \<Rightarrow> (string \<Rightarrow> real \<Rightarrow> string) \<Rightarrow> props_si
   \<Rightarrow> string \<times> fluid_spec \<Rightarrow> string \<Rightarrow> string \<Rightarrow> accuracy \<Rightarrow> (solver_pair, registry_error) outcome" where
  "property_direction H dumps fmt propsi fl_spec prop_code prop_name accuracy =
     (case fl_spec of (fluid, spec) \<Rightarrow>
        obind
          (module_direction H dumps
             (solver_args ''thermo'' [thermo_port fluid ''temperature'', thermo_port fluid ''pressure'']
                [thermo_port fluid prop_name]
                [(thermo_port fluid ''temperature'', fs_t_box spec), (thermo_port fluid ''pressure'', fs_p_box spec)]
                [''single_phase'', ''thermo'', fluid] (1 / 10 ^ 4) (AccOne accuracy) (fs_citations spec) ''1'')
             (fluid @ ''_'' @ prop_name)
             (property_fn fmt propsi (fs_coolprop_name spec) fluid prop_code prop_name))
          (\<lambda>(info, fn). Ok (info, fn\<lparr>sf_probe_tools := Some (probe_coolprop propsi)\<rparr>)))"

definition PROPERTY_UNITS :: "(string, string) dict" where
  "PROPERTY_UNITS =
     [(''temperature'', ''K''), (''pressure'', ''Pa''), (''density'', ''kg/m^3''),
      (''specific_heat_cp'', ''J/(kg*K)''), (''viscosity'', ''Pa*s'')]"

definition register_thermo ::
  "(json \<Rightarrow> string) \<Rightarrow> (json \<Rightarrow> string) \<Rightarrow> (string \<Rightarrow> real \<Rightarrow> string) \<Rightarrow> props_si
   \<Rightarrow> registry \<Rightarrow> (unit, registry_error) outcome \<times> registry" where
  "register_thermo H dumps fmt propsi =
     register_family
       (concat (map (\<lambda>(fluid, _). map (\<lambda>(prop, unit). scalar_port (thermo_port fluid prop) unit) PROPERTY_UNITS) FLUIDS))
       (concat (map (\<lambda>f. [property_direction H dumps fmt propsi f ''D'' ''density'' DENSITY_ACCURACY,
          property_direction H dumps fmt propsi f ''C'' ''specific_heat_cp'' CP_ACCURACY,
          property_direction H dumps fmt propsi f ''V'' ''viscosity'' VISCOSITY_ACCURACY]) FLUIDS))"

end
