(* ===== verification/Fea_Tools.thy ===== *)
theory Fea_Tools
  imports Payload_Solvers Fea_Ladder Plan_Report
begin

text \<open>
  The finite element pipeline: meshes (\<open>fea/mesh.py\<close>), CalculiX decks (\<open>fea/deck.py\<close>), the driver
  of the external binary (\<open>fea/ccx.py\<close>), the readers of its tables (\<open>fea/results.py\<close>) and the
  directions built from them (\<open>fea/solver.py\<close>, \<open>fea/payload_steps.py\<close>, \<open>fea/modal.py\<close>). gmsh, the
  ccx process, the environment of the process and Python's number parser are parameters.
\<close>

section \<open>Geometry, settings and meshes\<close>

record material =
  mt_youngs_modulus :: real
  mt_poisson :: real
  mt_yield_strength :: real
  mt_density :: real

record cantilever_geometry =
  cg_length :: real
  cg_width :: real
  cg_height :: real

record cylinder_geometry =
  yg_inner_radius :: real
  yg_outer_radius :: real
  yg_length :: real

record mesh_settings =
  sg_family :: string
  sg_element_type :: string
  sg_char_length :: real
  sg_algorithm_id :: int
  sg_seed :: int

definition mesh_settings_new :: "string \<Rightarrow> string \<Rightarrow> real \<Rightarrow> mesh_settings" where
  "mesh_settings_new family element_type char_length =
     \<lparr>sg_family = family, sg_element_type = element_type, sg_char_length = char_length,
      sg_algorithm_id = 1, sg_seed = 0\<rparr>"

type_synonym point = "real \<times> real \<times> real"

record mesh_data =
  md_element_type :: string
  md_nodes :: "point list"
  md_elements :: "int list list"
  md_node_sets :: "(string, int list) dict"

text \<open>
  A job for gmsh: the shape, how many nodes to put on a curve with a given bounding box, and the
  fixed options; what it answers: numbered nodes, and blocks of elements with the number of nodes
  of each.
\<close>

record gmsh_job =
  gj_shape :: string
  gj_measures :: "real list"
  gj_curve_nodes :: "real list \<Rightarrow> int"
  gj_dimension :: nat
  gj_algorithm_id :: int
  gj_seed :: int

record gmsh_mesh =
  gm_nodes :: "(int \<times> point) list"
  gm_blocks :: "(nat \<times> int list) list"

datatype ccx_exit = TimedOut | Exited int string string "string option" "string option"

record fea_env =
  fv_gmsh :: "(gmsh_job \<Rightarrow> (gmsh_mesh, solve_error) outcome) option"
  fv_getenv :: "string \<Rightarrow> string option"
  fv_executable :: "string \<Rightarrow> bool"
  fv_which :: "string option"
  fv_ccx :: "string \<Rightarrow> string \<Rightarrow> ccx_exit"
  fv_format :: "real \<Rightarrow> string"
  fv_int :: "string \<Rightarrow> int option"
  fv_float :: "string \<Rightarrow> fl option"
  fv_repr :: "string \<Rightarrow> string"
  fv_load_geometry :: "string \<Rightarrow> cantilever_geometry + string"
  fv_load_mesh :: "string \<Rightarrow> mesh_data + string"
  fv_dump_mesh :: "mesh_data \<Rightarrow> string"

definition GMSH_TO_CCX_C3D20 :: "nat list" where
  "GMSH_TO_CCX_C3D20 = [0, 1, 2, 3, 4, 5, 6, 7, 8, 11, 13, 9, 16, 18, 19, 17, 10, 12, 14, 15]"

definition to_ccx_order :: "int list \<Rightarrow> int list" where
  "to_ccx_order node_ids =
     (if length node_ids = length GMSH_TO_CCX_C3D20 then map (\<lambda>i. node_ids ! i) GMSH_TO_CCX_C3D20
      else node_ids)"

text \<open>\<open>round\<close>: to the nearest integer, a tie to the even one.\<close>

definition py_round :: "real \<Rightarrow> int" where
  "py_round r =
     (let d = r - of_int \<lfloor>r\<rfloor> in
      if d < 1 / 2 then \<lfloor>r\<rfloor> else if 1 / 2 < d then \<lfloor>r\<rfloor> + 1
      else if even \<lfloor>r\<rfloor> then \<lfloor>r\<rfloor> else \<lfloor>r\<rfloor> + 1)"

definition subdivisions :: "real \<Rightarrow> real \<Rightarrow> (int, 'e) outcome" where
  "subdivisions dimension char_length =
     (if char_length = 0 then Raise ZeroDivisionError else Ok (max 1 (py_round (dimension / char_length))))"

text \<open>Slices of a fixed length, the last one shorter; a length of 0 is no step for a range.\<close>

function slices_of :: "nat \<Rightarrow> 'a list \<Rightarrow> 'a list list" where
  "slices_of n xs = (if xs = [] \<or> n = 0 then [] else take n xs # slices_of n (drop n xs))"
  by pat_completeness auto
termination by (relation "measure (\<lambda>(n, xs). length xs)") auto

declare slices_of.simps [simp del]

definition block_elements :: "nat \<times> int list \<Rightarrow> (int list list, 'e) outcome" where
  "block_elements b =
     (if fst b = 0 then Raise ValueError else Ok (map to_ccx_order (slices_of (fst b) (snd b))))"

definition gmsh_missing :: "('a, solve_error) outcome" where
  "gmsh_missing = Err (ToolMissing ''gmsh'' ''install the 'mesh' extra: pip install feldspar[mesh]'')"

text \<open>The arrays of a mesh: a node for every id up to the largest, the origin where gmsh left a gap.\<close>

definition node_array :: "(int, point) dict \<Rightarrow> (point list, 'e) outcome" where
  "node_array by_id =
     (if by_id = [] then Raise ValueError
      else Ok (map (\<lambda>i. case dget by_id i of Some c \<Rightarrow> c | None \<Rightarrow> (0, 0, 0))
             [1..foldl max (fst (hd by_id)) (map fst (tl by_id))]))"

definition face_ids :: "(int, point) dict \<Rightarrow> real \<Rightarrow> int list" where
  "face_ids by_id x0 = sort (map fst (filter (\<lambda>(_, c). \<bar>fst c - x0\<bar> < 1 / 10 ^ 9) by_id))"

definition mesh_of ::
  "mesh_settings \<Rightarrow> string \<times> real \<Rightarrow> string \<times> real \<Rightarrow> gmsh_mesh \<Rightarrow> (mesh_data, solve_error) outcome" where
  "mesh_of settings face1 face2 g =
     (let by_id = dict_of (gm_nodes g) in
      obind (node_array by_id) (\<lambda>nodes.
      obind (omap block_elements (gm_blocks g)) (\<lambda>blocks.
        Ok \<lparr>md_element_type = sg_element_type settings, md_nodes = nodes, md_elements = concat blocks,
            md_node_sets = [(fst face1, face_ids by_id (snd face1)), (fst face2, face_ids by_id (snd face2))]\<rparr>)))"

definition cantilever_curve_nodes :: "int \<Rightarrow> int \<Rightarrow> int \<Rightarrow> real list \<Rightarrow> int" where
  "cantilever_curve_nodes n_x n_y n_z bb =
     (let dx = bb ! 3 - bb ! 0; dy = bb ! 4 - bb ! 1; dz = bb ! 5 - bb ! 2;
          divisions = (if dy \<le> dx \<and> dz \<le> dx then n_x else if dz \<le> dy then n_y else n_z)
      in divisions + 1)"

definition cylinder_curve_nodes :: "int \<Rightarrow> int \<Rightarrow> real list \<Rightarrow> int" where
  "cylinder_curve_nodes n_r n_z bb = (if bb ! 4 - bb ! 1 \<le> bb ! 3 - bb ! 0 then n_r else n_z) + 1"

definition build_cantilever_mesh ::
  "fea_env \<Rightarrow> cantilever_geometry \<Rightarrow> mesh_settings \<Rightarrow> (mesh_data, solve_error) outcome" where
  "build_cantilever_mesh env geometry settings =
     (case fv_gmsh env of
        None \<Rightarrow> gmsh_missing
      | Some gmsh \<Rightarrow>
          obind (subdivisions (cg_length geometry) (sg_char_length settings)) (\<lambda>n_x.
          obind (subdivisions (cg_width geometry) (sg_char_length settings)) (\<lambda>n_y.
          obind (subdivisions (cg_height geometry) (sg_char_length settings)) (\<lambda>n_z.
          obind (gmsh \<lparr>gj_shape = ''cantilever'',
              gj_measures = [0, 0, 0, cg_length geometry, cg_width geometry, cg_height geometry],
              gj_curve_nodes = cantilever_curve_nodes n_x n_y n_z, gj_dimension = 3,
              gj_algorithm_id = sg_algorithm_id settings, gj_seed = sg_seed settings\<rparr>)
            (mesh_of settings (''FIXED'', 0) (''TIP'', cg_length geometry))))))"

definition build_cylinder_mesh ::
  "fea_env \<Rightarrow> cylinder_geometry \<Rightarrow> mesh_settings \<Rightarrow> (mesh_data, solve_error) outcome" where
  "build_cylinder_mesh env geometry settings =
     (case fv_gmsh env of
        None \<Rightarrow> gmsh_missing
      | Some gmsh \<Rightarrow>
          (let wall_thickness = yg_outer_radius geometry - yg_inner_radius geometry in
           obind (subdivisions wall_thickness (sg_char_length settings)) (\<lambda>n_r.
           obind (subdivisions (yg_length geometry) (sg_char_length settings)) (\<lambda>n_z.
           obind (gmsh \<lparr>gj_shape = ''cylinder'',
               gj_measures = [yg_inner_radius geometry, 0, 0, wall_thickness, yg_length geometry],
               gj_curve_nodes = cylinder_curve_nodes n_r n_z, gj_dimension = 2,
               gj_algorithm_id = sg_algorithm_id settings, gj_seed = sg_seed settings\<rparr>)
             (mesh_of settings (''BORE'', yg_inner_radius geometry) (''OUTER'', yg_outer_radius geometry))))))"

section \<open>Decks\<close>

definition NL :: string where
  "NL = [CHR 0x0A]"

definition MAX_ITEMS_PER_LINE :: nat where
  "MAX_ITEMS_PER_LINE = 16"

definition int_str :: "int \<Rightarrow> string" where
  "int_str i = (if i < 0 then CHR ''-'' # nat_str (nat (- i)) else nat_str (nat i))"

text \<open>Every line but the last ends in a comma.\<close>

fun chunk_lines :: "string list list \<Rightarrow> string list" where
  "chunk_lines [] = []"
| "chunk_lines [chunk] = [join_sep '','' chunk]"
| "chunk_lines (chunk # chunks) = (join_sep '','' chunk @ '','') # chunk_lines chunks"

definition chunk_line :: "string list \<Rightarrow> string" where
  "chunk_line items = join_sep NL (chunk_lines (slices_of MAX_ITEMS_PER_LINE items))"

definition node_line :: "fea_env \<Rightarrow> nat \<times> point \<Rightarrow> string" where
  "node_line env n =
     (case n of (i, x, y, z) \<Rightarrow>
        join_sep '','' [nat_str (i + 1), fv_format env x, fv_format env y, fv_format env z])"

definition node_block :: "fea_env \<Rightarrow> point list \<Rightarrow> string" where
  "node_block env nodes = join_sep NL (''*NODE'' # map (node_line env) (enumerate 0 nodes))"

definition element_block :: "int list list \<Rightarrow> string \<Rightarrow> string" where
  "element_block elements element_type =
     join_sep NL ((''*ELEMENT, TYPE='' @ element_type @ '', ELSET=EALL'') #
       map (\<lambda>(i, node_ids). chunk_line (nat_str (i + 1) # map int_str node_ids)) (enumerate 0 elements))"

definition nset_block :: "string \<Rightarrow> int list \<Rightarrow> string" where
  "nset_block name node_ids =
     join_sep NL [''*NSET, NSET='' @ name, chunk_line (map int_str node_ids)]"

definition material_block :: "fea_env \<Rightarrow> material \<Rightarrow> string" where
  "material_block env m =
     join_sep NL [''*MATERIAL, NAME=MAT1'', ''*ELASTIC'',
       fv_format env (mt_youngs_modulus m) @ '','' @ fv_format env (mt_poisson m)]"

definition material_block_with_density :: "fea_env \<Rightarrow> material \<Rightarrow> string" where
  "material_block_with_density env m =
     join_sep NL [''*MATERIAL, NAME=MAT1'', ''*ELASTIC'',
       fv_format env (mt_youngs_modulus m) @ '','' @ fv_format env (mt_poisson m),
       ''*DENSITY'', fv_format env (mt_density m)]"

definition modal_step_block :: "nat \<Rightarrow> string" where
  "modal_step_block num_modes = join_sep NL [''*STEP'', ''*FREQUENCY'', nat_str num_modes, ''*END STEP'']"

definition solid_section_block :: string where
  "solid_section_block = ''*SOLID SECTION, ELSET=EALL, MATERIAL=MAT1''"

definition static_step_block :: "string \<Rightarrow> string \<Rightarrow> string" where
  "static_step_block cload_block output_request =
     join_sep NL [''*STEP'', ''*STATIC'', cload_block, output_request, ''*END STEP'']"

definition all_node_ids :: "mesh_data \<Rightarrow> int list" where
  "all_node_ids mesh = [1..int (length (md_nodes mesh))]"

definition node_set :: "mesh_data \<Rightarrow> string \<Rightarrow> (int list, 'e) outcome" where
  "node_set mesh name =
     (case dget (md_node_sets mesh) name of Some ids \<Rightarrow> Ok ids | None \<Rightarrow> Raise (KeyError name))"

definition build_cantilever_modal_deck ::
  "fea_env \<Rightarrow> mesh_data \<Rightarrow> material \<Rightarrow> nat \<Rightarrow> (string, solve_error) outcome" where
  "build_cantilever_modal_deck env mesh m num_modes =
     obind (node_set mesh ''FIXED'') (\<lambda>fixed_ids.
       Ok (join_sep NL
         [node_block env (md_nodes mesh), element_block (md_elements mesh) (md_element_type mesh),
          nset_block ''NALL'' (all_node_ids mesh), nset_block ''FIXED'' fixed_ids,
          material_block_with_density env m, solid_section_block,
          join_sep NL [''*BOUNDARY'', ''FIXED,1,3''], modal_step_block num_modes] @ NL))"

text \<open>The force on each node of a set: the total split evenly, nothing on an empty set.\<close>

definition force_per_node :: "real \<Rightarrow> int list \<Rightarrow> real" where
  "force_per_node whole ids = (if ids = [] then 0 else whole / of_nat (length ids))"

definition build_cantilever_deck ::
  "fea_env \<Rightarrow> mesh_data \<Rightarrow> material \<Rightarrow> real \<Rightarrow> (string, solve_error) outcome" where
  "build_cantilever_deck env mesh m tip_force =
     obind (node_set mesh ''FIXED'') (\<lambda>fixed_ids.
     obind (node_set mesh ''TIP'') (\<lambda>tip_ids.
       Ok (join_sep NL
         [node_block env (md_nodes mesh), element_block (md_elements mesh) (md_element_type mesh),
          nset_block ''NALL'' (all_node_ids mesh), nset_block ''FIXED'' fixed_ids, nset_block ''TIP'' tip_ids,
          material_block env m, solid_section_block, join_sep NL [''*BOUNDARY'', ''FIXED,1,3''],
          static_step_block
            (join_sep NL [''*CLOAD'', ''TIP,3,'' @ fv_format env (- force_per_node tip_force tip_ids)])
            (join_sep NL [''*NODE PRINT, NSET=NALL,'', ''U''])] @ NL)))"

text \<open>\<open>nodes[i]\<close>: a negative index counts from the end.\<close>

definition py_index :: "'a list \<Rightarrow> int \<Rightarrow> ('a, 'e) outcome" where
  "py_index xs i =
     (if 0 \<le> i \<and> i < int (length xs) then Ok (xs ! nat i)
      else if - int (length xs) \<le> i \<and> i < 0 then Ok (xs ! nat (int (length xs) + i))
      else Raise IndexError)"

definition bore_force :: "real \<Rightarrow> point list \<Rightarrow> real" where
  "bore_force pressure coords =
     (let r_avg = (if coords = [] then 0 else sum_list (map fst coords) / of_nat (length coords));
          zs = map (fst \<circ> snd) coords;
          z_span = (if coords = [] then 0 else foldl max (hd zs) (tl zs) - foldl min (hd zs) (tl zs))
      in pressure * (2 * pi * r_avg) * z_span)"

definition build_cylinder_deck ::
  "fea_env \<Rightarrow> mesh_data \<Rightarrow> material \<Rightarrow> real \<Rightarrow> (string, solve_error) outcome" where
  "build_cylinder_deck env mesh m pressure =
     obind (node_set mesh ''BORE'') (\<lambda>bore_ids.
     obind (node_set mesh ''OUTER'') (\<lambda>outer_ids.
     obind (omap (\<lambda>i. py_index (md_nodes mesh) (i - 1)) bore_ids) (\<lambda>coords.
       Ok (join_sep NL
         [node_block env (md_nodes mesh), element_block (md_elements mesh) (md_element_type mesh),
          nset_block ''NALL'' (all_node_ids mesh), nset_block ''BORE'' bore_ids, nset_block ''OUTER'' outer_ids,
          material_block env m, solid_section_block, join_sep NL [''*BOUNDARY'', ''NALL,2,2''],
          static_step_block
            (join_sep NL [''*CLOAD'', ''BORE,1,'' @ fv_format env (force_per_node (bore_force pressure coords) bore_ids)])
            (join_sep NL [''*EL PRINT, ELSET=EALL,'', ''S''])] @ NL))))"

section \<open>The ccx process\<close>

record ccx_run =
  cx_dat_text :: string
  cx_frd_text :: "string option"
  cx_tool_version :: string

definition exec_disabled :: "fea_env \<Rightarrow> bool" where
  "exec_disabled env =
     (let raw = (case fv_getenv env ''FELDSPAR_DISABLE_CCX'' of Some v \<Rightarrow> v | None \<Rightarrow> []) in
      str_lower (str_strip raw) \<notin> {[], ''0'', ''false''})"

definition find_ccx :: "fea_env \<Rightarrow> (string, solve_error) outcome" where
  "find_ccx env =
     (let from_path =
        (case fv_which env of
           Some path \<Rightarrow> if path \<noteq> [] then Ok path else Err (ToolMissing ''ccx'' ''install CalculiX (ccx), or set FELDSPAR_CCX'')
         | None \<Rightarrow> Err (ToolMissing ''ccx'' ''install CalculiX (ccx), or set FELDSPAR_CCX''))
      in if exec_disabled env
         then Err (ToolMissing ''ccx'' ''FELDSPAR_DISABLE_CCX is set -- unset it to allow ccx exec'')
         else (case fv_getenv env ''FELDSPAR_CCX'' of
                 Some path \<Rightarrow> if path \<noteq> [] \<and> fv_executable env path then Ok path else from_path
               | None \<Rightarrow> from_path))"

text \<open>\<open>str.splitlines()\<close> and \<open>str.split()\<close> on ASCII text.\<close>

definition line_break :: "char \<Rightarrow> bool" where
  "line_break c = (let n = (of_char c :: nat) in (10 \<le> n \<and> n \<le> 13) \<or> (28 \<le> n \<and> n \<le> 30))"

fun split_lines :: "string \<Rightarrow> string \<Rightarrow> string list" where
  "split_lines acc [] = (if acc = [] then [] else [acc])"
| "split_lines acc [c] = (if line_break c then [acc] else [acc @ [c]])"
| "split_lines acc (c # d # s) =
     (if c = CHR 0x0D \<and> d = CHR 0x0A then acc # split_lines [] s
      else if line_break c then acc # split_lines [] (d # s)
      else split_lines (acc @ [c]) (d # s))"

fun split_words :: "string \<Rightarrow> string \<Rightarrow> string list" where
  "split_words acc [] = (if acc = [] then [] else [acc])"
| "split_words acc (c # s) =
     (if is_space c then (if acc = [] then split_words [] s else acc # split_words [] s)
      else split_words (acc @ [c]) s)"

definition upper_char :: "char \<Rightarrow> char" where
  "upper_char c = (let n = (of_char c :: nat) in if 97 \<le> n \<and> n \<le> 122 then char_of (n - 32) else c)"

definition parse_tool_version :: "string \<Rightarrow> string" where
  "parse_tool_version output =
     (case filter (\<lambda>l. starts_with (map upper_char l) ''VERSION'') (map str_strip (split_lines [] output)) of
        l # _ \<Rightarrow> l
      | [] \<Rightarrow> ''unknown'')"

definition LOG_TAIL_LINES :: nat where
  "LOG_TAIL_LINES = 20"

definition DEFAULT_TIMEOUT_S :: fl where
  "DEFAULT_TIMEOUT_S = Fin 600"

definition run_ccx :: "fea_env \<Rightarrow> string \<Rightarrow> (ccx_run, solve_error) outcome" where
  "run_ccx env deck =
     obind (find_ccx env) (\<lambda>ccx_path.
       case fv_ccx env ccx_path deck of
         TimedOut \<Rightarrow> Err (Timeout ''ccx'' DEFAULT_TIMEOUT_S)
       | Exited code out err dat frd \<Rightarrow>
           (let lines = split_lines [] (out @ err) in
            if code \<noteq> 0
            then Err (ToolFailed ''ccx'' (join_sep NL (drop (length lines - LOG_TAIL_LINES) lines)))
            else Ok \<lparr>cx_dat_text = (case dat of Some t \<Rightarrow> t | None \<Rightarrow> []), cx_frd_text = frd,
                     cx_tool_version = parse_tool_version (out @ err)\<rparr>))"

definition ccx_probe_tools :: "fea_env \<Rightarrow> (unit, solve_error) outcome" where
  "ccx_probe_tools env = obind (find_ccx env) (\<lambda>_. Ok ())"

section \<open>Result tables\<close>

type_synonym fl3 = "fl \<times> fl \<times> fl"

definition line_error :: "fea_env \<Rightarrow> nat \<Rightarrow> string \<Rightarrow> solve_error" where
  "line_error env line_no raw_line = ParseFailed (''line '' @ nat_str line_no @ '': '' @ fv_repr env raw_line)"

definition all_floats :: "fea_env \<Rightarrow> string list \<Rightarrow> fl list option" where
  "all_floats env tokens =
     (if \<forall>t \<in> set tokens. fv_float env t \<noteq> None then Some (map (\<lambda>t. the (fv_float env t)) tokens) else None)"

text \<open>
  A line of a table is skipped, is a row with its id and values, or is malformed: the first word
  tells whether it is a row.
\<close>

datatype table_line = Skip | Row int "string list"

definition classify_line :: "fea_env \<Rightarrow> string \<Rightarrow> table_line" where
  "classify_line env raw_line =
     (case split_words [] raw_line of
        [] \<Rightarrow> Skip
      | w # ws \<Rightarrow> (case fv_int env w of Some i \<Rightarrow> Row i ws | None \<Rightarrow> Skip))"

fun parse_three_loop ::
  "fea_env \<Rightarrow> (nat \<times> string) list \<Rightarrow> (int, fl3) dict \<Rightarrow> ((int, fl3) dict, solve_error) outcome" where
  "parse_three_loop env [] rows = Ok rows"
| "parse_three_loop env ((line_no, raw_line) # ls) rows =
     (case classify_line env raw_line of
        Skip \<Rightarrow> parse_three_loop env ls rows
      | Row row_id tokens \<Rightarrow>
          (case (tokens, all_floats env tokens) of
             ([_, _, _], Some [a, b, c]) \<Rightarrow> parse_three_loop env ls (dset row_id (a, b, c) rows)
           | _ \<Rightarrow> Err (line_error env line_no raw_line)))"

definition parse_dat_displacements :: "fea_env \<Rightarrow> string \<Rightarrow> ((int, fl3) dict, solve_error) outcome" where
  "parse_dat_displacements env txt = parse_three_loop env (enumerate 1 (split_lines [] txt)) []"

text \<open>\<open>math.sqrt\<close>, and the clamp whose \<open>min\<close> lets a NaN become 1.\<close>

definition fl_sum :: "fl list \<Rightarrow> fl" where
  "fl_sum xs = foldl fl_add (hd xs) (tl xs)"

definition clamp_unit :: "fl \<Rightarrow> real" where
  "clamp_unit x =
     (case (if fl_lt x (Fin 1) then x else Fin 1) of
        Fin v \<Rightarrow> max (- 1) v
      | _ \<Rightarrow> - 1)"

definition det_of :: "fl \<Rightarrow> fl \<Rightarrow> fl \<Rightarrow> fl \<Rightarrow> fl \<Rightarrow> fl \<Rightarrow> fl" where
  "det_of b11 b22 b33 b12 b13 b23 =
     fl_add (fl_sub (fl_mul b11 (fl_sub (fl_mul b22 b33) (fl_mul b23 b23)))
       (fl_mul b12 (fl_sub (fl_mul b12 b33) (fl_mul b23 b13))))
       (fl_mul b13 (fl_sub (fl_mul b12 b23) (fl_mul b22 b13)))"

text \<open>\<open>sorted(..., reverse=True)\<close> of three numbers. With a NaN the order Python leaves
  depends on its algorithm; the model keeps the one of insertion.\<close>

fun insert_desc :: "fl \<Rightarrow> fl list \<Rightarrow> fl list" where
  "insert_desc x [] = [x]"
| "insert_desc x (y # ys) = (if fl_lt x y then y # insert_desc x ys else x # y # ys)"

definition sort_desc :: "fl list \<Rightarrow> fl list" where
  "sort_desc xs = foldr insert_desc xs []"

definition principal_stresses ::
  "fl \<Rightarrow> fl \<Rightarrow> fl \<Rightarrow> fl \<Rightarrow> fl \<Rightarrow> fl \<Rightarrow> (fl3, solve_error) outcome" where
  "principal_stresses sxx syy szz sxy sxz syz =
     (let p1 = fl_add (fl_add (fl_mul sxy sxy) (fl_mul sxz sxz)) (fl_mul syz syz) in
      if fl_eq p1 (Fin 0)
      then (let diag = sort_desc [sxx, syy, szz] in Ok (diag ! 0, diag ! 1, diag ! 2))
      else
        (let q = fl_div (fl_add (fl_add sxx syy) szz) (Fin 3);
             sq = (\<lambda>x. fl_mul x x);
             p2 = fl_add (fl_add (fl_add (sq (fl_sub sxx q)) (sq (fl_sub syy q))) (sq (fl_sub szz q)))
               (fl_mul (Fin 2) p1);
             p = rust_sqrt (fl_div p2 (Fin 6))
         in if fl_eq p (Fin 0) then Raise ZeroDivisionError
         else
           (let d = (\<lambda>x. fl_div x p);
                det_b = det_of (d (fl_sub sxx q)) (d (fl_sub syy q)) (d (fl_sub szz q)) (d sxy) (d sxz) (d syz);
                phi = arccos (clamp_unit (fl_div det_b (Fin 2))) / 3;
                s1 = fl_add q (fl_mul (fl_mul (Fin 2) p) (Fin (cos phi)));
                s3 = fl_add q (fl_mul (fl_mul (Fin 2) p) (Fin (cos (phi + 2 * pi / 3))))
            in Ok (s1, fl_sub (fl_sub (fl_mul (Fin 3) q) s1) s3, s3))))"

text \<open>A leading integration-point column is dropped.\<close>

definition stress_tokens :: "string list \<Rightarrow> string list" where
  "stress_tokens tokens = (if length tokens = 7 then tl tokens else tokens)"

fun parse_stress_loop ::
  "fea_env \<Rightarrow> (nat \<times> string) list \<Rightarrow> fl3 list \<Rightarrow> (fl3 list, solve_error) outcome" where
  "parse_stress_loop env [] rows = Ok rows"
| "parse_stress_loop env ((line_no, raw_line) # ls) rows =
     (case classify_line env raw_line of
        Skip \<Rightarrow> parse_stress_loop env ls rows
      | Row _ tokens \<Rightarrow>
          (case all_floats env (stress_tokens tokens) of
             Some [a, b, c, d, e, f] \<Rightarrow>
               obind (principal_stresses a b c d e f) (\<lambda>row. parse_stress_loop env ls (rows @ [row]))
           | _ \<Rightarrow> Err (line_error env line_no raw_line)))"

text \<open>The rows are keyed by a running index: they are a list.\<close>

definition parse_dat_principal_stresses :: "fea_env \<Rightarrow> string \<Rightarrow> (fl3 list, solve_error) outcome" where
  "parse_dat_principal_stresses env txt = parse_stress_loop env (enumerate 1 (split_lines [] txt)) []"

text \<open>
  The eigenvalue table starts after its heading and ends at a blank line or at a line of text
  once it has rows.
\<close>

fun parse_modes_loop ::
  "fea_env \<Rightarrow> bool \<Rightarrow> (nat \<times> string) list \<Rightarrow> (int, fl3) dict \<Rightarrow> ((int, fl3) dict, solve_error) outcome" where
  "parse_modes_loop env in_table [] rows = Ok rows"
| "parse_modes_loop env in_table ((line_no, raw_line) # ls) rows =
     (if str_in ''E I G E N V A L U E'' (str_strip raw_line) then parse_modes_loop env True ls rows
      else if \<not> in_table then parse_modes_loop env in_table ls rows
      else
        (case classify_line env raw_line of
           Skip \<Rightarrow> (if rows \<noteq> [] then Ok rows else parse_modes_loop env in_table ls rows)
         | Row mode_no tokens \<Rightarrow>
             (case all_floats env (take 3 tokens) of
                Some [a, b, c] \<Rightarrow> parse_modes_loop env in_table ls (dset mode_no (a, b, c) rows)
              | _ \<Rightarrow> Err (line_error env line_no raw_line))))"

definition parse_dat_frequencies :: "fea_env \<Rightarrow> string \<Rightarrow> ((int, fl3) dict, solve_error) outcome" where
  "parse_dat_frequencies env txt =
     obind (parse_modes_loop env False (enumerate 1 (split_lines [] txt)) []) (\<lambda>rows.
       if rows = [] then Err (ParseFailed ''no ccx EIGENVALUE OUTPUT table found'') else Ok rows)"

definition first_mode_frequency :: "(int, fl3) dict \<Rightarrow> (fl, 'e) outcome" where
  "first_mode_frequency frequencies =
     (if frequencies = [] then Raise ValueError
      else (case dget frequencies (foldl min (fst (hd frequencies)) (map fst (tl frequencies))) of
              Some (_, _, c) \<Rightarrow> Ok c
            | None \<Rightarrow> Raise (KeyError [])))"

text \<open>\<open>max\<close> of no values raises.\<close>

definition py_max_of :: "fl list \<Rightarrow> (fl, 'e) outcome" where
  "py_max_of xs = (if xs = [] then Raise ValueError else Ok (foldl fl_pymax (hd xs) (tl xs)))"

definition magnitude :: "fl3 \<Rightarrow> fl" where
  "magnitude u = (case u of (ux, uy, uz) \<Rightarrow> rust_sqrt (fl_add (fl_add (fl_mul ux ux) (fl_mul uy uy)) (fl_mul uz uz)))"

definition max_displacement_magnitude :: "(int, fl3) dict \<Rightarrow> (fl, 'e) outcome" where
  "max_displacement_magnitude rows = py_max_of (map (magnitude \<circ> snd) rows)"

definition max_von_mises :: "fl3 list \<Rightarrow> (fl, 'e) outcome" where
  "max_von_mises rows = py_max_of (map (\<lambda>(s1, s2, s3). von_mises_principal s1 s2 s3) rows)"

section \<open>Directions\<close>

definition mesh_settings_dump :: "mesh_settings \<Rightarrow> pyobj" where
  "mesh_settings_dump s =
     PyModel [(''family'', PyStr (sg_family s)), (''element_type'', PyStr (sg_element_type s)),
       (''char_length'', PyFloat (Fin (sg_char_length s))), (''algorithm_id'', PyInt (sg_algorithm_id s)),
       (''seed'', PyInt (sg_seed s))]"

definition SOLVE_SETTINGS :: pyobj where
  "SOLVE_SETTINGS = PyModel [(''omp_num_threads'', PyInt 1)]"

definition NOMINAL_TOOL_VERSIONS :: pyobj where
  "NOMINAL_TOOL_VERSIONS =
     PyModel [(''gmsh_version'', PyStr ''unknown''), (''ccx_version'', PyStr ''unknown''),
       (''feldspar_version'', PyStr FELDSPAR_VERSION)]"

definition fold_settings_digest ::
  "(json \<Rightarrow> string) \<Rightarrow> (json \<Rightarrow> string) \<Rightarrow> mesh_settings \<Rightarrow> mesh_settings \<Rightarrow> string" where
  "fold_settings_digest H dumps mesh_h mesh_h2 =
     canonical_digest H dumps
       (PyMap [(''mesh_h'', mesh_settings_dump mesh_h), (''mesh_h2'', mesh_settings_dump mesh_h2),
         (''solve_settings'', SOLVE_SETTINGS), (''tool_versions'', NOMINAL_TOOL_VERSIONS)])"

definition fold_ladder_settings_digest ::
  "(json \<Rightarrow> string) \<Rightarrow> (json \<Rightarrow> string) \<Rightarrow> mesh_settings list \<Rightarrow> string" where
  "fold_ladder_settings_digest H dumps rungs =
     canonical_digest H dumps
       (PyMap [(''rungs'', PySeq (map mesh_settings_dump rungs)),
         (''solve_settings'', SOLVE_SETTINGS), (''tool_versions'', NOMINAL_TOOL_VERSIONS)])"

definition fea_probe_tools :: "fea_env \<Rightarrow> (unit, solve_error) outcome" where
  "fea_probe_tools env = (case fv_gmsh env of None \<Rightarrow> gmsh_missing | Some _ \<Rightarrow> ccx_probe_tools env)"

definition FEA_ELEMENT_CITATION :: citation where
  "FEA_ELEMENT_CITATION = \<lparr>ct_kind = ''standard'', ct_ref = ''CalculiX CrunchiX (ccx) User's Manual, element library: C3D20 (20-node quadratic brick), CAX8 (8-node quadratic axisymmetric quad)'', ct_note = []\<rparr>"

definition RICHARDSON_CITATION :: citation where
  "RICHARDSON_CITATION = \<lparr>ct_kind = ''paper'', ct_ref = ''Roache, P.J., Verification and Validation in Computational Science and Engineering, Hermosa Publishers, 1998 (Richardson extrapolation / grid convergence)'', ct_note = []\<rparr>"

definition NOMINAL_YIELD_STRENGTH :: real where
  "NOMINAL_YIELD_STRENGTH = 25 * 10 ^ 7"

definition static_material :: "real \<Rightarrow> real \<Rightarrow> material" where
  "static_material e nu =
     \<lparr>mt_youngs_modulus = e, mt_poisson = nu, mt_yield_strength = NOMINAL_YIELD_STRENGTH, mt_density = 7850\<rparr>"

subsection \<open>The cantilever ladder\<close>

definition CANTILEVER_LADDER :: "mesh_settings list" where
  "CANTILEVER_LADDER =
     map (mesh_settings_new ''cantilever'' ''C3D20'') [2 / 100, 1 / 100, 5 / 1000, 25 / 10000]"

definition cantilever_rung ::
  "fea_env \<Rightarrow> cantilever_geometry \<Rightarrow> material \<Rightarrow> real \<Rightarrow> mesh_settings \<Rightarrow> (fl, solve_error) outcome" where
  "cantilever_rung env geometry m tip_force settings =
     obind (build_cantilever_mesh env geometry settings) (\<lambda>mesh.
     obind (build_cantilever_deck env mesh m tip_force) (\<lambda>deck.
     obind (run_ccx env deck) (\<lambda>run.
     obind (parse_dat_displacements env (cx_dat_text run)) max_displacement_magnitude)))"

text \<open>
  The process-wide rung cache is left out: a truthful one changes no answer, and a state of the
  outside world beyond the environment is not needed.
\<close>

definition cantilever_climb ::
  "(json \<Rightarrow> string) \<Rightarrow> (json \<Rightarrow> string) \<Rightarrow> (mesh_settings \<Rightarrow> (fl, solve_error) outcome) \<Rightarrow> pyobj \<Rightarrow> fl option
   \<Rightarrow> (mesh_settings, unit) ladder_call" where
  "cantilever_climb H dumps rung bx eps_budget =
     \<lparr>lc_hash = H, lc_dumps = dumps, lc_solver_id = ''fea.static_deflection.cantilever'', lc_version = ''1'',
      lc_box = bx, lc_obj = mesh_settings_dump, lc_run = (\<lambda>r s. (rung r, s)), lc_budget = eps_budget,
      lc_order = THEORETICAL_ORDER, lc_safety = SAFETY_FACTOR\<rparr>"

definition inputs_box :: "inputs \<Rightarrow> pyobj" where
  "inputs_box x = PyMap (map (\<lambda>(k, v). (k, case v of VFloat f \<Rightarrow> PyFloat f | VRef _ \<Rightarrow> PyNone)) (dsorted x))"

definition cantilever ::
  "(json \<Rightarrow> string) \<Rightarrow> (json \<Rightarrow> string) \<Rightarrow> fea_env \<Rightarrow> inputs \<Rightarrow> fl option \<Rightarrow> raw_return" where
  "cantilever H dumps env x eps_budget =
     arg x ''mech.geom.cantilever.length'' (\<lambda>len.
     arg x ''mech.geom.cantilever.width'' (\<lambda>width.
     arg x ''mech.geom.cantilever.height'' (\<lambda>height.
     arg x ''mech.material.youngs_modulus'' (\<lambda>e.
     arg x ''mech.material.poisson'' (\<lambda>nu.
     arg x ''mech.load.tip_force'' (\<lambda>tip_force.
       let rung = cantilever_rung env \<lparr>cg_length = len, cg_width = width, cg_height = height\<rparr>
             (static_material e nu) tip_force in
       lift_outcome
         (fst (climb_richardson_ladder (cantilever_climb H dumps rung (inputs_box x) eps_budget)
            CANTILEVER_LADDER (None, ())))
         (\<lambda>(extrapolated, eps, _).
           RetOk (RVOutput \<lparr>so_values = [(''mech.deflection.tip'', extrapolated)],
             so_measured_eps = Some eps, so_payloads = []\<rparr>))))))))"

definition CANTILEVER_COST_CURVE :: cost_curve where
  "CANTILEVER_COST_CURVE =
     [\<lparr>cp_eps = Fin (1 / 10 ^ 5), cp_cost = Fin 20\<rparr>, \<lparr>cp_eps = Fin (1 / 10 ^ 4), cp_cost = Fin 10\<rparr>,
      \<lparr>cp_eps = Fin (1 / 10 ^ 3), cp_cost = Fin 5\<rparr>]"

definition fea_direction ::
  "(json \<Rightarrow> string) \<Rightarrow> (json \<Rightarrow> string) \<Rightarrow> fea_env \<Rightarrow> build_args \<Rightarrow> string \<Rightarrow> raw_fn
   \<Rightarrow> (solver_pair, registry_error) outcome" where
  "fea_direction H dumps env a fn_name fn =
     obind (solver_decorator H dumps a fn_name None fn)
       (\<lambda>(info, f). Ok (info, f\<lparr>sf_probe_tools := Some (fea_probe_tools env)\<rparr>))"

definition cantilever_direction ::
  "(json \<Rightarrow> string) \<Rightarrow> (json \<Rightarrow> string) \<Rightarrow> fea_env \<Rightarrow> (solver_pair, registry_error) outcome" where
  "cantilever_direction H dumps env =
     fea_direction H dumps env
       (solver_args ''fea.static_deflection''
          [''mech.geom.cantilever.length'', ''mech.geom.cantilever.width'', ''mech.geom.cantilever.height'',
           ''mech.material.youngs_modulus'', ''mech.material.poisson'', ''mech.load.tip_force'']
          [''mech.deflection.tip'']
          [(''mech.geom.cantilever.length'', ivl (1 / 1000) 10), (''mech.geom.cantilever.width'', ivl (1 / 10 ^ 4) 1),
           (''mech.geom.cantilever.height'', ivl (1 / 10 ^ 4) 1),
           (''mech.material.youngs_modulus'', ivl (10 ^ 6) (10 ^ 13)), (''mech.material.poisson'', ivl 0 (1 / 2)),
           (''mech.load.tip_force'', ivl 1 (10 ^ 6))]
          [''linear_elastic'', ''small_deflection''] 5
          (AccMap [(''mech.deflection.tip'', \<lparr>eps_abs = 1 / 10 ^ 4, eps_rel = 1 / 100\<rparr>)])
          [FEA_ELEMENT_CITATION, RICHARDSON_CITATION] ''1''
        \<lparr>ba_tier := ''discretized'', ba_settings := PyStr (fold_ladder_settings_digest H dumps CANTILEVER_LADDER),
         ba_eps_seeking := True, ba_cost_curve := Some CANTILEVER_COST_CURVE\<rparr>)
       ''cantilever'' (\<lambda>x b. cantilever H dumps env x (case b of Some e \<Rightarrow> e | None \<Rightarrow> None))"

subsection \<open>The cylinder pair\<close>

definition CYLINDER_MESH_H :: mesh_settings where
  "CYLINDER_MESH_H = mesh_settings_new ''cylinder'' ''CAX8'' (2 / 100)"

definition CYLINDER_MESH_H2 :: mesh_settings where
  "CYLINDER_MESH_H2 = mesh_settings_new ''cylinder'' ''CAX8'' (1 / 100)"

definition CYLINDER_AXIAL_LENGTH :: real where
  "CYLINDER_AXIAL_LENGTH = 1 / 2"

definition cylinder_level ::
  "fea_env \<Rightarrow> cylinder_geometry \<Rightarrow> material \<Rightarrow> real \<Rightarrow> mesh_settings \<Rightarrow> (fl, solve_error) outcome" where
  "cylinder_level env geometry m pressure settings =
     obind (build_cylinder_mesh env geometry settings) (\<lambda>mesh.
     obind (build_cylinder_deck env mesh m pressure) (\<lambda>deck.
     obind (run_ccx env deck) (\<lambda>run.
     obind (parse_dat_principal_stresses env (cx_dat_text run)) max_von_mises)))"

definition cylinder_bore :: "fea_env \<Rightarrow> inputs \<Rightarrow> raw_return" where
  "cylinder_bore env x =
     arg x ''mech.geom.cylinder.inner_radius'' (\<lambda>inner.
     arg x ''mech.geom.cylinder.outer_radius'' (\<lambda>outer.
     arg x ''mech.material.youngs_modulus'' (\<lambda>e.
     arg x ''mech.material.poisson'' (\<lambda>nu.
     arg x ''mech.load.internal_pressure'' (\<lambda>pressure.
       let level = cylinder_level env
             \<lparr>yg_inner_radius = inner, yg_outer_radius = outer, yg_length = CYLINDER_AXIAL_LENGTH\<rparr>
             (static_material e nu) pressure in
       lift_outcome (level CYLINDER_MESH_H) (\<lambda>v.
       lift_outcome (level CYLINDER_MESH_H2) (\<lambda>v2.
       lift_outcome (richardson_extrapolate v v2 THEORETICAL_ORDER SAFETY_FACTOR) (\<lambda>r.
         RetOk (RVOutput \<lparr>so_values = [(''mech.stress.von_mises'', rr_extrapolated r)],
           so_measured_eps = Some (rr_eps r), so_payloads = []\<rparr>)))))))))"

definition cylinder_direction ::
  "(json \<Rightarrow> string) \<Rightarrow> (json \<Rightarrow> string) \<Rightarrow> fea_env \<Rightarrow> (solver_pair, registry_error) outcome" where
  "cylinder_direction H dumps env =
     fea_direction H dumps env
       (solver_args ''fea.static_stress''
          [''mech.load.internal_pressure'', ''mech.geom.cylinder.inner_radius'', ''mech.geom.cylinder.outer_radius'',
           ''mech.material.youngs_modulus'', ''mech.material.poisson'']
          [''mech.stress.von_mises'']
          [(''mech.load.internal_pressure'', ivl 1 (10 ^ 9)), (''mech.geom.cylinder.inner_radius'', ivl (1 / 1000) 5),
           (''mech.geom.cylinder.outer_radius'', ivl (1 / 1000) 5),
           (''mech.material.youngs_modulus'', ivl (10 ^ 6) (10 ^ 13)), (''mech.material.poisson'', ivl 0 (1 / 2))]
          [''linear_elastic''] 5
          (AccMap [(''mech.stress.von_mises'', \<lparr>eps_abs = 1 / 10 ^ 4, eps_rel = 1 / 100\<rparr>)])
          [FEA_ELEMENT_CITATION, RICHARDSON_CITATION] ''1''
        \<lparr>ba_tier := ''discretized'',
         ba_settings := PyStr (fold_settings_digest H dumps CYLINDER_MESH_H CYLINDER_MESH_H2)\<rparr>)
       ''cylinder_bore'' (\<lambda>x _. cylinder_bore env x)"

definition register_fea ::
  "(json \<Rightarrow> string) \<Rightarrow> (json \<Rightarrow> string) \<Rightarrow> fea_env \<Rightarrow> registry \<Rightarrow> (unit, registry_error) outcome \<times> registry" where
  "register_fea H dumps env =
     register_each [cantilever_direction H dumps env, cylinder_direction H dumps env]"

subsection \<open>The mesh as a step of the graph\<close>

definition GEOMETRY_PORT :: string where
  "GEOMETRY_PORT = ''mech.geom.cantilever.parametric''"

definition MESH_PORT :: string where
  "MESH_PORT = ''mech.mesh.cantilever''"

definition STEP_MESH_SETTINGS :: mesh_settings where
  "STEP_MESH_SETTINGS = mesh_settings_new ''cantilever'' ''C3D20'' (2 / 100)"

definition GMSH_CITATION :: citation where
  "GMSH_CITATION = \<lparr>ct_kind = ''paper'', ct_ref = ''Geuzaine, C. and Remacle, J.-F., Gmsh: a three-dimensional finite element mesh generator, IJNME 79(11), 2009 (transfinite structured meshing)'', ct_note = []\<rparr>"

definition C3D20_CITATION :: citation where
  "C3D20_CITATION = \<lparr>ct_kind = ''standard'', ct_ref = ''CalculiX CrunchiX (ccx) User's Manual, element library: C3D20 (20-node quadratic brick)'', ct_note = []\<rparr>"

definition step_settings_digest ::
  "(json \<Rightarrow> string) \<Rightarrow> (json \<Rightarrow> string) \<Rightarrow> payload_resolver \<Rightarrow> string" where
  "step_settings_digest H dumps resolver =
     canonical_digest H dumps
       (PyMap [(''mesh'', mesh_settings_dump STEP_MESH_SETTINGS),
         (''resolver'', PyStr (resolver_cache_identity resolver))])"

definition probe_gmsh :: "fea_env \<Rightarrow> (unit, solve_error) outcome" where
  "probe_gmsh env = (case fv_gmsh env of None \<Rightarrow> gmsh_missing | Some _ \<Rightarrow> Ok ())"

definition mesh_fn :: "fea_env \<Rightarrow> payload_resolver \<Rightarrow> inputs \<Rightarrow> raw_return" where
  "mesh_fn env resolver x =
     lift_outcome (resolve_input resolver x GEOMETRY_PORT) (\<lambda>data.
     case fv_load_geometry env data of
       Inr _ \<Rightarrow> RetRaise ValueError
     | Inl geometry \<Rightarrow>
         lift_outcome (build_cantilever_mesh env geometry STEP_MESH_SETTINGS) (\<lambda>mesh.
         lift_outcome (pv_store resolver ''mesh'' (fv_dump_mesh env mesh) ''fea.mesh.cantilever'') (\<lambda>ref.
         RetOk (RVOutput \<lparr>so_values = [], so_measured_eps = None, so_payloads = [(MESH_PORT, ref)]\<rparr>))))"

definition static_fn :: "fea_env \<Rightarrow> payload_resolver \<Rightarrow> inputs \<Rightarrow> raw_return" where
  "static_fn env resolver x =
     lift_outcome (resolve_input resolver x MESH_PORT) (\<lambda>data.
     case fv_load_mesh env data of
       Inr _ \<Rightarrow> RetRaise ValueError
     | Inl mesh \<Rightarrow>
         arg x ''mech.material.youngs_modulus'' (\<lambda>e.
         arg x ''mech.material.poisson'' (\<lambda>nu.
         arg x ''mech.load.tip_force'' (\<lambda>tip_force.
         lift_outcome (build_cantilever_deck env mesh (static_material e nu) tip_force) (\<lambda>deck.
         lift_outcome (run_ccx env deck) (\<lambda>run.
         lift_outcome (parse_dat_displacements env (cx_dat_text run)) (\<lambda>rows.
         lift_outcome (max_displacement_magnitude rows) (\<lambda>v.
         RetOk (RVOutput \<lparr>so_values = [(''mech.deflection.tip'', v)], so_measured_eps = None,
           so_payloads = []\<rparr>)))))))))"

definition mesh_direction ::
  "(json \<Rightarrow> string) \<Rightarrow> (json \<Rightarrow> string) \<Rightarrow> fea_env \<Rightarrow> payload_resolver \<Rightarrow> (solver_pair, registry_error) outcome" where
  "mesh_direction H dumps env resolver =
     obind (make_direction H dumps
       (default_args\<lparr>ba_solver_id := ''fea.mesh.cantilever'', ba_namespace := ''fea.mesh'',
          ba_inputs := [GEOMETRY_PORT], ba_outputs := [MESH_PORT],
          ba_domain := DomObj (domain_new [] [''linear_elastic'', ''small_deflection'']), ba_cost := Fin 2,
          ba_accuracy := AccOne EXACT, ba_citations := [CitObj GMSH_CITATION], ba_version := ''1'',
          ba_tier := ''discretized'', ba_settings := PyStr (step_settings_digest H dumps resolver),
          ba_raw_fn := (\<lambda>x _. mesh_fn env resolver x)\<rparr>))
       (\<lambda>(info, f). Ok (info, f\<lparr>sf_probe_tools := Some (probe_gmsh env)\<rparr>))"

definition static_from_mesh_direction ::
  "(json \<Rightarrow> string) \<Rightarrow> (json \<Rightarrow> string) \<Rightarrow> fea_env \<Rightarrow> payload_resolver \<Rightarrow> (solver_pair, registry_error) outcome" where
  "static_from_mesh_direction H dumps env resolver =
     obind (make_direction H dumps
       (default_args\<lparr>ba_solver_id := ''fea.static_deflection.cantilever_from_mesh'',
          ba_namespace := ''fea.static_deflection'',
          ba_inputs := [MESH_PORT, ''mech.material.youngs_modulus'', ''mech.material.poisson'', ''mech.load.tip_force''],
          ba_outputs := [''mech.deflection.tip''],
          ba_domain := DomObj (domain_new
            [(''mech.material.youngs_modulus'', ivl (10 ^ 6) (10 ^ 13)), (''mech.material.poisson'', ivl 0 (1 / 2)),
             (''mech.load.tip_force'', ivl 1 (10 ^ 6))] [''linear_elastic'', ''small_deflection'']),
          ba_cost := Fin 4,
          ba_accuracy := AccMap [(''mech.deflection.tip'', \<lparr>eps_abs = 1 / 10 ^ 4, eps_rel = 2 / 100\<rparr>)],
          ba_citations := [CitObj C3D20_CITATION], ba_version := ''1'', ba_tier := ''discretized'',
          ba_settings := PyStr (step_settings_digest H dumps resolver),
          ba_raw_fn := (\<lambda>x _. static_fn env resolver x)\<rparr>))
       (\<lambda>(info, f). Ok (info, f\<lparr>sf_probe_tools := Some (ccx_probe_tools env)\<rparr>))"

definition payload_steps_PORT_DECLS :: "port_decl list" where
  "payload_steps_PORT_DECLS =
     [\<lparr>pd_name = GEOMETRY_PORT, pd_unit = [], pd_rank = PayloadRank ''geometry.parametric''\<rparr>,
      \<lparr>pd_name = MESH_PORT, pd_unit = [], pd_rank = PayloadRank ''mesh''\<rparr>]"

definition register_payload_steps ::
  "(json \<Rightarrow> string) \<Rightarrow> (json \<Rightarrow> string) \<Rightarrow> fea_env \<Rightarrow> payload_resolver
   \<Rightarrow> registry \<Rightarrow> (unit, registry_error) outcome \<times> registry" where
  "register_payload_steps H dumps env resolver =
     register_family payload_steps_PORT_DECLS
       [mesh_direction H dumps env resolver, static_from_mesh_direction H dumps env resolver]"

subsection \<open>The first mode\<close>

definition FIRST_MODE_PORT :: string where
  "FIRST_MODE_PORT = ''mech.vibe.first_mode_freq''"

definition modal_fn :: "fea_env \<Rightarrow> payload_resolver \<Rightarrow> inputs \<Rightarrow> raw_return" where
  "modal_fn env resolver x =
     lift_outcome (resolve_input resolver x MESH_PORT) (\<lambda>data.
     case fv_load_mesh env data of
       Inr _ \<Rightarrow> RetRaise ValueError
     | Inl mesh \<Rightarrow>
         arg x ''mech.material.youngs_modulus'' (\<lambda>e.
         arg x ''mech.material.poisson'' (\<lambda>nu.
         arg x ''mech.material.density'' (\<lambda>rho.
         lift_outcome (build_cantilever_modal_deck env mesh ((static_material e nu)\<lparr>mt_density := rho\<rparr>) 1) (\<lambda>deck.
         lift_outcome (run_ccx env deck) (\<lambda>run.
         lift_outcome (parse_dat_frequencies env (cx_dat_text run)) (\<lambda>rows.
         lift_outcome (first_mode_frequency rows) (\<lambda>v.
         RetOk (RVOutput \<lparr>so_values = [(FIRST_MODE_PORT, v)], so_measured_eps = None,
           so_payloads = []\<rparr>)))))))))"

definition MODAL_CITATION :: citation where
  "MODAL_CITATION = \<lparr>ct_kind = ''standard'', ct_ref = ''CalculiX CrunchiX (ccx) User's Manual, *FREQUENCY step (Lanczos eigenvalue extraction)'', ct_note = []\<rparr>"

definition modal_direction ::
  "(json \<Rightarrow> string) \<Rightarrow> (json \<Rightarrow> string) \<Rightarrow> fea_env \<Rightarrow> payload_resolver \<Rightarrow> (solver_pair, registry_error) outcome" where
  "modal_direction H dumps env resolver =
     obind (make_direction H dumps
       (default_args\<lparr>ba_solver_id := ''fea.modal.cantilever_from_mesh'', ba_namespace := ''fea.modal'',
          ba_inputs := [MESH_PORT, ''mech.material.youngs_modulus'', ''mech.material.poisson'', ''mech.material.density''],
          ba_outputs := [FIRST_MODE_PORT],
          ba_domain := DomObj (domain_new [] [''linear_elastic'', ''small_deflection'']), ba_cost := Fin 5,
          ba_accuracy := AccMap [(FIRST_MODE_PORT, \<lparr>eps_abs = 1 / 2, eps_rel = 5 / 100\<rparr>)],
          ba_citations := [CitObj MODAL_CITATION], ba_version := ''1'', ba_tier := ''discretized'',
          ba_settings := PyStr (canonical_digest H dumps (PyMap [(''num_modes'', PyInt 1)])),
          ba_raw_fn := (\<lambda>x _. modal_fn env resolver x)\<rparr>))
       (\<lambda>(info, f). Ok (info, f\<lparr>sf_probe_tools := Some (ccx_probe_tools env)\<rparr>))"

definition register_modal ::
  "(json \<Rightarrow> string) \<Rightarrow> (json \<Rightarrow> string) \<Rightarrow> fea_env \<Rightarrow> payload_resolver
   \<Rightarrow> registry \<Rightarrow> (unit, registry_error) outcome \<times> registry" where
  "register_modal H dumps env resolver = register_each [modal_direction H dumps env resolver]"

end
