(* ===== verification/Engine_Catalog.thy ===== *)
theory Engine_Catalog
  imports Lib_Machines Lib_Joints Lib_Members Lib_Plate Lib_Transient Lib_Signal Lib_Materials
    Lib_Pipes Lib_Gas Lib_Heat Lib_Circuits Lib_Statics Fea_Tools
begin

text \<open>
  The composition of the engine registry (\<open>build_engine_catalog\<close> of \<open>catalog.py\<close>): the families in
  their fixed order on one new registry, then the freeze. What the families take from outside is
  one record. Lemmas say what any successful composition leaves.
\<close>

section \<open>The catalog\<close>

record catalog_env =
  ce_hash :: "json \<Rightarrow> string"
  ce_dumps :: "json \<Rightarrow> string"
  ce_fmt :: "string \<Rightarrow> real \<Rightarrow> string"
  ce_json :: json_env
  ce_fea :: fea_env
  ce_props :: props_si
  ce_validate :: "string \<Rightarrow> flownet_payload + string"
  ce_str :: "json \<Rightarrow> string"
  ce_read_float :: "string \<Rightarrow> fl option"

type_synonym family = "registry \<Rightarrow> (unit, registry_error) outcome \<times> registry"

definition register_fluids :: "catalog_env \<Rightarrow> family" where
  "register_fluids ce r =
     (case register_incompressible (ce_hash ce) (ce_dumps ce) (ce_fmt ce) r of
        (Ok _, r') \<Rightarrow> register_compressible (ce_hash ce) (ce_dumps ce) (ce_fmt ce) r'
      | (Err e, r') \<Rightarrow> (Err e, r')
      | (Raise ex, r') \<Rightarrow> (Raise ex, r'))"

definition register_fluids_network :: "catalog_env \<Rightarrow> payload_resolver \<Rightarrow> family" where
  "register_fluids_network ce resolver =
     register_network (ce_hash ce) (ce_dumps ce) resolver (ce_validate ce) (ce_str ce) (ce_read_float ce)
       (je_dumps (ce_json ce))"

definition catalog_families :: "catalog_env \<Rightarrow> payload_resolver \<Rightarrow> family list" where
  "catalog_families ce resolver =
     (let H = ce_hash ce; d = ce_dumps ce; fmt = ce_fmt ce in
      [register_mech H d fmt, register_member_capacity H d fmt, register_bolted_joints H d fmt,
       register_weld_groups H d fmt, register_bearing_life H d fmt,
       register_fatigue H d (ce_json ce) fmt resolver, register_leadscrew H d fmt,
       register_critical_speed H d fmt, register_drive H d fmt, register_plate H d fmt,
       register_signal_integrity H d fmt, register_fluids ce, register_heat H d fmt,
       register_thermal_transient H d fmt, register_thermo H d fmt (ce_props ce), register_kinetics H d fmt,
       register_hardenability H d fmt, register_phase_equilibria H d fmt,
       register_selection H d (ce_json ce) resolver, register_fea H d (ce_fea ce),
       register_payload_steps H d (ce_fea ce) resolver, register_fluids_network ce resolver])"

fun register_families :: "family list \<Rightarrow> registry \<Rightarrow> (unit, registry_error) outcome \<times> registry" where
  "register_families [] r = (Ok (), r)"
| "register_families (f # fs) r =
     (case f r of
        (Ok _, r') \<Rightarrow> register_families fs r'
      | (Err e, r') \<Rightarrow> (Err e, r')
      | (Raise ex, r') \<Rightarrow> (Raise ex, r'))"

definition build_engine_catalog :: "catalog_env \<Rightarrow> payload_resolver \<Rightarrow> (registry, registry_error) outcome" where
  "build_engine_catalog ce resolver =
     (case register_families (catalog_families ce resolver) registry_new of
        (Ok _, r) \<Rightarrow> Ok (freeze r)
      | (Err e, _) \<Rightarrow> Err e
      | (Raise ex, _) \<Rightarrow> Raise ex)"

text \<open>The directions of the families that keep the law of sound execution.\<close>

definition catalog_laws ::
  "(json \<Rightarrow> string) \<Rightarrow> (json \<Rightarrow> string) \<Rightarrow> (string \<Rightarrow> real \<Rightarrow> string)
   \<Rightarrow> ((solver_pair, registry_error) outcome \<times> (real list \<Rightarrow> bool) \<times> (string, real list \<Rightarrow> real) dict) list" where
  "catalog_laws H dumps fmt =
     concat [statics_laws H dumps fmt, member_capacity_laws H dumps fmt, bolted_joints_laws H dumps fmt,
       weld_groups_laws H dumps fmt, bearing_life_laws H dumps fmt, fatigue_laws H dumps fmt,
       leadscrew_laws H dumps fmt, critical_speed_laws H dumps fmt, drive_laws H dumps fmt,
       plate_laws H dumps fmt, signal_integrity_laws H dumps fmt, incompressible_laws H dumps fmt,
       compressible_laws H dumps fmt, heat_laws H dumps fmt, thermal_transient_laws H dumps fmt,
       kinetics_laws H dumps fmt, hardenability_laws H dumps fmt]"

lemma catalog_keep: "list_all (\<lambda>(d, valid, forms). keeps_law d valid forms) (catalog_laws H dumps fmt)"
  by (simp add: catalog_laws_def list_all_append statics_keep member_capacity_keep bolted_joints_keep weld_groups_keep
      bearing_life_keep fatigue_keep leadscrew_keep critical_speed_keep drive_keep plate_keep
      signal_integrity_keep incompressible_keep compressible_keep heat_keep thermal_transient_keep
      kinetics_keep hardenability_keep)

end
