(* ===== verification/Catalog_Properties.thy ===== *)
theory Catalog_Properties
  imports Engine_Catalog Solve_Properties
begin

text \<open>
  What the solvers of the catalog give \<open>solve()\<close>: each direction that keeps its law can be trusted in
  every world that obeys its formulas, so an answer whose route uses such directions only is within
  the error budget. The witness plans and runs one direction of \<open>mech/fatigue.py\<close> in full.
\<close>

section \<open>A route through one direction\<close>

definition baseline_world :: "string \<Rightarrow> real" where
  "baseline_world p =
     (if p = ''mech.fatigue.baseline.sut'' then 45 * 10 ^ 7
      else if p = ''mech.fatigue.baseline.se_prime'' then 225 * 10 ^ 6 else 0)"

definition baseline_info :: solver_info where
  "baseline_info =
     direction_info (\<lambda>_. ''h'') (\<lambda>_. []) fatigue_endurance_limit_baseline_args ''fatigue_endurance_limit_baseline''
       fatigue_endurance_limit_baseline_box [''hcf'', ''steel''] BASELINE_CITATIONS"

definition baseline_fn :: solve_fn where
  "baseline_fn = wrap_solve_fn (\<lambda>x _. fatigue_endurance_limit_baseline (\<lambda>_ _. []) x)
     [''mech.fatigue.baseline.se_prime''] False"

lemma baseline_built:
  "module_direction (\<lambda>_. ''h'') (\<lambda>_. []) fatigue_endurance_limit_baseline_args ''fatigue_endurance_limit_baseline''
     (fatigue_endurance_limit_baseline (\<lambda>_ _. [])) = Ok (baseline_info, baseline_fn)"
  unfolding baseline_info_def baseline_fn_def fatigue_endurance_limit_baseline_args_def by (rule module_direction_built)

abbreviation baseline_id :: string where
  "baseline_id \<equiv> ''mech.fatigue.fatigue_endurance_limit_baseline''"

lemma baseline_fields [simp]:
  "si_solver_id baseline_info = baseline_id"
  "si_inputs baseline_info = [''mech.fatigue.baseline.sut'']"
  "si_outputs baseline_info = [''mech.fatigue.baseline.se_prime'']"
  "si_cost baseline_info = Fin (1 / 10 ^ 7)"
  "si_accuracy baseline_info = [(''mech.fatigue.baseline.se_prime'', EXACT)]"
  "si_conservative_for baseline_info = BOTH"
  "si_domain baseline_info =
     \<lparr>d_box = [(''mech.fatigue.baseline.sut'', \<lparr>iv_lo = 2 * 10 ^ 8, iv_hi = 14 * 10 ^ 8\<rparr>)], d_tags = [''hcf'', ''steel'']\<rparr>"
  by (simp_all add: baseline_info_def direction_info_def fatigue_endurance_limit_baseline_args_def solver_args_def
      fatigue_endurance_limit_baseline_ins_def fatigue_endurance_limit_baseline_box_def coerce_accuracy_def
      solver_decorator_id_def domain_new_def bset_of_def btree_of_def dict_of_def ivl_def)

definition baseline_registry :: registry where
  "baseline_registry =
     \<lparr>rg_solvers = [(baseline_id, (baseline_info, baseline_fn))], rg_ports = [], rg_frozen = True\<rparr>"

definition baseline_box :: "(string, interval) dict" where
  "baseline_box = [(''mech.fatigue.baseline.sut'', \<lparr>iv_lo = 4 * 10 ^ 8, iv_hi = 5 * 10 ^ 8\<rparr>)]"

lemma baseline_registry_facts [simp]:
  "registry_iter baseline_registry = [(baseline_info, baseline_fn)]"
  "port_table baseline_registry = []"
  by (simp_all add: registry_iter_def baseline_registry_def dsorted_def port_table_def)

lemma baseline_registry_ok: "registry_ok baseline_registry"
  by (simp add: registry_ok_def baseline_registry_def solvers_ok_def Solver_Registry.ports_ok_def info_ok_def dict_ok_def dkeys_def)
    (simp add: baseline_info_def direction_info_def BASELINE_CITATIONS_def)

abbreviation baseline_label :: label where
  "baseline_label \<equiv> known_label \<lparr>iv_lo = 4 * 10 ^ 8, iv_hi = 5 * 10 ^ 8\<rparr>"

definition baseline_node :: step_node where
  "baseline_node =
     StepNode 0 baseline_id (Fin (1 / 10 ^ 7)) [''hcf'', ''steel''] [(''mech.fatigue.baseline.sut'', baseline_label)]
       [(''mech.fatigue.baseline.se_prime'', \<lparr>iv_lo = 4 * 10 ^ 8, iv_hi = 5 * 10 ^ 8\<rparr>, 0)]"

definition baseline_route :: route where
  "baseline_route =
     build_route (\<lambda>_. ''h'') ''mech.fatigue.baseline.se_prime''
       (Label \<lparr>iv_lo = 4 * 10 ^ 8, iv_hi = 5 * 10 ^ 8\<rparr> 0 (Fin (1 / 10 ^ 7)) (Some baseline_node))"

abbreviation baseline_summary :: solver_summary where
  "baseline_summary \<equiv>
     \<lparr>ss_solver_id = baseline_id, ss_inputs = [''mech.fatigue.baseline.sut''],
      ss_outputs = [''mech.fatigue.baseline.se_prime''],
      ss_domain = \<lparr>d_box = [(''mech.fatigue.baseline.sut'', \<lparr>iv_lo = 2 * 10 ^ 8, iv_hi = 14 * 10 ^ 8\<rparr>)],
        d_tags = [''hcf'', ''steel'']\<rparr>,
      ss_cost = Fin (1 / 10 ^ 7), ss_accuracy = [(''mech.fatigue.baseline.se_prime'', EXACT)], ss_conservative_for = BOTH\<rparr>"

lemma baseline_summary: "summaries [(baseline_info, baseline_fn)] = [baseline_summary]"
  by (simp add: summaries_def summary_of_def btree_of_def)

lemma baseline_estimate:
  "estimate baseline_summary [(''mech.fatigue.baseline.sut'', baseline_label)] =
     Ok [(''mech.fatigue.baseline.se_prime'', \<lparr>iv_lo = 4 * 10 ^ 8, iv_hi = 5 * 10 ^ 8\<rparr>)]"
  by (simp add: estimate_def inflated_inputs_def known_label_def inflated_def inflate_def
      rust_enumerate_corners_def corner_candidates_def sum_surrogate_def dvals_def btree_of_def hull_point_def iv_hull_def)

lemma baseline_plan:
  "rust_plan (\<lambda>_. ''h'') (\<lambda>_. []) [baseline_summary] baseline_box
     \<lparr>rq_tags = [''hcf'', ''steel''], rq_target = ''mech.fatigue.baseline.se_prime'', rq_eps_budget = Fin (10 ^ 8), rq_sense = BOTH\<rparr> =
     Some (Ok baseline_route)"
proof -
  let ?rq = "\<lparr>rq_tags = [''hcf'', ''steel''], rq_target = ''mech.fatigue.baseline.se_prime'',
    rq_eps_budget = Fin (10 ^ 8), rq_sense = BOTH\<rparr>"
  let ?ss = "[baseline_summary]" and ?H = "\<lambda>_ :: json. ''h''" and ?bits = "\<lambda>_ :: fl. []"
  let ?ins = "[(''mech.fatigue.baseline.sut'', baseline_label)]"
  let ?c = "\<lparr>ca_solver_idx = 0, ca_cost = Fin (1 / 10 ^ 7), ca_tie_key = tie_key_for ?bits ?ins, ca_inputs = ?ins\<rparr>"
  have regen: "regenerate_candidates ?bits ?ss (st_labels (search_start baseline_box)) BOTH
      ''mech.fatigue.baseline.se_prime'' [] [] = ([?c], [(0, ca_tie_key ?c)])"
    by (simp add: regenerate_candidates_def search_start_def baseline_box_def
        sense_admits_def combos_for_def Let_def dvals_def Plan_Search.fl_sum_def known_label_def)
  let ?st = "(search_start baseline_box)\<lparr>st_frontier := [], st_pushed := [(0, ca_tie_key ?c)]\<rparr>"
  have iter: "search_iter ?H ?bits ?ss ?rq (search_start baseline_box) = expand ?H ?ss ?rq ?c ?st"
    using regen by (simp add: search_iter_def search_start_def best_index_def Let_def)
  have adm: "admits (input_domain_of baseline_summary) (inflated_inputs ?ins) [''hcf'', ''steel''] = Ok ()"
    by (simp add: input_domain_of_def domain_new_def inflated_inputs_def known_label_def
        inflated_def inflate_def admits_def is_subset_def btree_of_def bset_of_def)
  have outs: "estimated_outputs baseline_summary [(''mech.fatigue.baseline.se_prime'', \<lparr>iv_lo = 4 * 10 ^ 8, iv_hi = 5 * 10 ^ 8\<rparr>)] =
      [(''mech.fatigue.baseline.se_prime'', \<lparr>iv_lo = 4 * 10 ^ 8, iv_hi = 5 * 10 ^ 8\<rparr>, 0)]"
    by (simp add: estimated_outputs_def btree_of_def EXACT_def worst_over_def acc_eps_def)
  have nd: "node_for 0 baseline_summary ?c [(''mech.fatigue.baseline.se_prime'', \<lparr>iv_lo = 4 * 10 ^ 8, iv_hi = 5 * 10 ^ 8\<rparr>)] = baseline_node"
    unfolding node_for_def outs by (simp add: baseline_node_def)
  have "expand ?H ?ss ?rq ?c ?st = Inr (Ok baseline_route)"
    using adm baseline_estimate outs nd
    by (simp add: expand_def search_start_def baseline_box_def Let_def
        insert_with_dominance_def winner_of_def label_total_def total_error_def half_width_def width_def
        baseline_route_def)
  then have "search_loop ?H ?bits ?ss ?rq (search_start baseline_box) = Some (Ok baseline_route)"
    using iter by (subst search_loop.simps) simp
  moreover have "\<not> dhas baseline_box ''mech.fatigue.baseline.se_prime''" by (simp add: baseline_box_def dhas_def)
  moreover have "\<not> detect_port_equivalence_cycle ?ss"
    by (simp add: detect_port_equivalence_cycle_def siso_adj_def Let_def numeral_eq_Suc dkeys_def color_of_def)
  ultimately show ?thesis by (simp add: rust_plan_def)
qed

lemma baseline_steps:
  "rt_target baseline_route = ''mech.fatigue.baseline.se_prime''"
  "rt_steps baseline_route =
     [\<lparr>rs_solver_id = baseline_id, rs_realized_domain = \<lparr>d_box = baseline_box, d_tags = [''hcf'', ''steel'']\<rparr>,
       rs_predicted_eps = 0, rs_cost = Fin (1 / 10 ^ 7)\<rparr>]"
  by (simp_all add: baseline_route_def build_route_def Let_def route_steps_of_def baseline_node_def
      step_of_node_def domain_new_def inflated_inputs_def known_label_def inflated_def inflate_def
      baseline_box_def btree_of_def bset_of_def)

lemma baseline_invoke:
  "0 < v \<Longrightarrow> invoke_solve_fn baseline_fn [(''mech.fatigue.baseline.sut'', VFloat (Fin v))] rem =
     Ok \<lparr>so_values = [(''mech.fatigue.baseline.se_prime'', Fin (v / 2))], so_measured_eps = None, so_payloads = []\<rparr>"
  by (simp add: baseline_fn_def wrap_solve_fn_def invoke_solve_fn_def normalize_raw_def plain_output_def
      fatigue_endurance_limit_baseline_def arg_def ok_values_def)

definition baseline_entry :: step_entry where
  "baseline_entry =
     \<lparr>se_hull = [(''mech.fatigue.baseline.se_prime'', \<lparr>iv_lo = 2 * 10 ^ 8, iv_hi = 25 * 10 ^ 7\<rparr>)], se_refs = [], se_eps = 0\<rparr>"

lemma baseline_sweep: "sweep_step baseline_info baseline_fn [] [] baseline_box rem = Ok baseline_entry"
proof -
  have ports: "scalar_outputs_of [] baseline_info = [''mech.fatigue.baseline.se_prime'']"
    "payload_outputs_of [] baseline_info = []"
    by (simp_all add: scalar_outputs_of_def payload_outputs_of_def is_payload_port_def)
  have eval: "make_corner_fn baseline_info baseline_fn [] [] rem acc [(''mech.fatigue.baseline.sut'', v)] =
      (Ok [(''mech.fatigue.baseline.se_prime'', Fin (v / 2))], acc)" if "0 < v" for acc v
    using that by (simp add: make_corner_fn_def ports full_corner_def baseline_invoke check_step_output_def dhas_def
        check_measured_def dict_of_def)
  have corners: "enumerate_corners baseline_box =
      [[(''mech.fatigue.baseline.sut'', 4 * 10 ^ 8)], [(''mech.fatigue.baseline.sut'', 5 * 10 ^ 8)]]"
    by (simp add: enumerate_corners_def baseline_box_def btree_of_def rust_enumerate_corners_def corner_candidates_def)
  show ?thesis
    by (simp add: sweep_step_def corner_sweep_def corners eval btree_of_def hull_point_def iv_hull_def
        step_eps_of_def declared_eps_def ports EXACT_def worst_over_def acc_eps_def py_max_def baseline_entry_def)
qed

lemma baseline_lookup:
  "lookup_solver (registry_iter baseline_registry) baseline_id = (Ok (baseline_info, baseline_fn) :: (solver_pair, 'e) outcome)"
  by (simp add: lookup_solver_def solver_map_def dict_of_def)

lemma baseline_step_box:
  "step_box (exec_start baseline_box []) [''mech.fatigue.baseline.sut''] = (Ok baseline_box :: (box, 'e) outcome)"
  by (simp add: step_box_def exec_start_def baseline_box_def eps_at_def inflate_def dict_of_def)

lemma baseline_split:
  "split_step_inputs baseline_info [] (ex_values (exec_start baseline_box [])) (ex_payloads (exec_start baseline_box [])) =
     Ok ([''mech.fatigue.baseline.sut''], [])"
  by (simp add: split_step_inputs_def exec_start_def baseline_box_def dhas_def)

lemma baseline_step:
  "exec_step H dumps (registry_iter baseline_registry) [] b (rt_steps baseline_route ! 0) (exec_start baseline_box []) None =
   (Ok (commit_step baseline_info baseline_id baseline_entry (exec_start baseline_box [])), None)"
proof -
  have dom: "check_step_output_domain baseline_info (se_hull baseline_entry) (se_eps baseline_entry) = Ok ()"
    by (simp add: check_step_output_domain_def baseline_entry_def)
  show ?thesis
    using dom baseline_split by (simp add: exec_step_def baseline_steps Let_def baseline_lookup baseline_step_box
        cached_step_def baseline_sweep attribute_err_def del: baseline_registry_facts(1))
qed

lemma baseline_execute:
  obtains sol where
    "execute_impl H dumps baseline_route baseline_registry baseline_box [] None b = (Ok sol, None)"
    "sol_value sol = \<lparr>iv_lo = 2 * 10 ^ 8, iv_hi = 25 * 10 ^ 7\<rparr>" "sol_eps sol = 0"
    "sol_route sol = baseline_route" "sol_cache_hit sol = False"
proof -
  let ?st = "commit_step baseline_info baseline_id baseline_entry (exec_start baseline_box [])"
  have "exec_steps H dumps (registry_iter baseline_registry) [] b (rt_steps baseline_route)
      (exec_start baseline_box []) None = (Ok ?st, None)"
    using baseline_step [of H dumps b] by (simp add: baseline_steps del: baseline_registry_facts(1))
  moreover have "ex_values ?st = [(''mech.fatigue.baseline.sut'', \<lparr>iv_lo = 4 * 10 ^ 8, iv_hi = 5 * 10 ^ 8\<rparr>),
      (''mech.fatigue.baseline.se_prime'', \<lparr>iv_lo = 2 * 10 ^ 8, iv_hi = 25 * 10 ^ 7\<rparr>)]"
    "ex_final_eps ?st = 0"
    by (simp_all add: commit_step_def exec_start_def baseline_box_def baseline_entry_def)
  moreover have "(route_settings_digest H dumps baseline_route (registry_iter baseline_registry) :: (string, attributed) outcome) =
      Ok (canonical_digest H dumps (PySeq [PyStr (si_settings_digest baseline_info)]))"
    by (simp add: route_settings_digest_def baseline_steps baseline_lookup del: baseline_registry_facts(1))
  moreover from calculation obtain sol where
    "solution_of H dumps (registry_iter baseline_registry) baseline_route ?st = (Ok sol :: (solution, attributed) outcome)"
    "sol_value sol = \<lparr>iv_lo = 2 * 10 ^ 8, iv_hi = 25 * 10 ^ 7\<rparr>" "sol_eps sol = 0"
    "sol_route sol = baseline_route" "sol_cache_hit sol = False"
    by (simp add: solution_of_def baseline_steps(1) del: baseline_registry_facts(1))
  ultimately show ?thesis
    by (intro that [of sol]) (simp_all add: execute_impl_def del: baseline_registry_facts(1))
qed

abbreviation baseline_tags :: "string list" where
  "baseline_tags \<equiv> [''hcf'', ''steel'']"

lemma baseline_solve:
  obtains sol c fs where
    "solve toy_env baseline_registry baseline_box baseline_tags ''mech.fatigue.baseline.se_prime'' (Fin (10 ^ 8))
       (SenseObj BOTH) plain_policy [] None [] [] = Some (Ok sol, c, fs)"
    "\<not> sol_cache_hit sol" "sol_route sol = baseline_route"
    "sol_value sol = \<lparr>iv_lo = 2 * 10 ^ 8, iv_hi = 25 * 10 ^ 7\<rparr>"
proof -
  let ?r = baseline_registry and ?H = "\<lambda>_ :: json. ''h''" and ?t = "''mech.fatigue.baseline.se_prime''"
  let ?rq = "\<lparr>sq_known = baseline_box, sq_tags = baseline_tags, sq_target = ?t, sq_eps_budget = Fin (10 ^ 8),
    sq_sense = BOTH, sq_payloads = []\<rparr>"
  let ?lp = "solve_start plain_policy None [] []"
  have view: "excluding_view (?r, {}) = [(baseline_info, baseline_fn)]" by (simp add: excluding_view_def)
  have "btree_of (merge_payloads baseline_box []) = baseline_box" "bset_of baseline_tags = baseline_tags"
    by (simp_all add: merge_payloads_def btree_of_def bset_of_def baseline_box_def dkeys_def)
  then have route: "replan toy_env ?r ?rq {} = Some (Ok baseline_route)"
    using baseline_plan by (simp add: replan_def view toy_env_def plan_def claim_senses_coerce_def baseline_summary)
  obtain sol where sol: "execute_impl ?H (\<lambda>_. []) baseline_route ?r baseline_box [] None (Some (Fin (10 ^ 8))) = (Ok sol, None)"
    "sol_value sol = \<lparr>iv_lo = 2 * 10 ^ 8, iv_hi = 25 * 10 ^ 7\<rparr>" "sol_eps sol = 0" "sol_route sol = baseline_route"
    "sol_cache_hit sol = False"
    by (rule baseline_execute)
  let ?sol = "sol\<lparr>sol_attempts := [], sol_eps_budget := Some (Fin (10 ^ 8))\<rparr>"
  have "run_route toy_env ?r ?rq plain_policy baseline_route None ?lp = Inr (Ok ?sol, None, [])"
    using sol by (simp add: run_route_def solve_start_def toy_env_def plain_policy_def succeed_def Let_def
        total_error_def half_width_def width_def)
  then have "solve_iter toy_env ?r ?rq plain_policy ?lp = Some (Inr (Ok ?sol, None, []))"
    using route by (simp add: solve_iter_def solve_start_def with_route_def route_key_def plain_policy_def)
  then have "solve_loop toy_env ?r ?rq plain_policy ?lp = Some (Ok ?sol, None, [])"
    by (subst solve_loop.simps) simp
  then have "solve toy_env ?r baseline_box baseline_tags ?t (Fin (10 ^ 8)) (SenseObj BOTH) plain_policy [] None [] [] =
      Some (Ok ?sol, None, [])" by (simp add: solve_def claim_senses_coerce_def)
  then show ?thesis using sol by (intro that [of ?sol None "[]"]) simp_all
qed

lemma baseline_boxes:
  "boxes_admitted H dumps (registry_iter baseline_registry) (port_table baseline_registry) eps
     (rt_steps baseline_route) (exec_start baseline_box [])"
proof -
  have "box_admitted baseline_info baseline_box"
    by (simp add: box_admitted_def baseline_box_def is_subset_def)
  then show ?thesis
    using baseline_split by (simp add: baseline_steps baseline_lookup baseline_step_box del: baseline_registry_facts(1)
        split: prod.splits outcome.splits)
qed

section \<open>Properties\<close>

text \<open>A direction of the catalog that keeps its law, in a world that obeys its formulas.\<close>

definition lawful_in :: "(string \<Rightarrow> real) \<Rightarrow> solver_pair \<Rightarrow> bool" where
  "lawful_in x p \<longleftrightarrow>
     (\<exists>H dumps fmt valid forms. (Ok p, valid, forms) \<in> set (catalog_laws H dumps fmt) \<and>
        obeys (si_inputs (fst p)) (d_box (si_domain (fst p))) valid forms (si_accuracy (fst p)) x)"

lemma lawful_law: "lawful_in x p \<Longrightarrow> law_holds x ports (fst p) (snd p)"
  using catalog_keep unfolding lawful_in_def list_all_iff keeps_law_def by fastforce



section \<open>A declaration that does not hold\<close>

definition fanno_value :: "real \<Rightarrow> real \<Rightarrow> real" where
  "fanno_value m g =
     (1 - m * m) / (g * (m * m)) + (g + 1) / (2 * g) * ln ((g + 1) * (m * m) / (2 + (g - 1) * (m * m)))"

lemma fanno_computes:
  assumes "1 < g" "0 < m"
  shows "fluids_fanno_function (Fin m) (Fin g) = Fin (fanno_value m g)"
proof -
  have p: "0 < m * m" "0 < (g - 1) * (m * m)" "0 < g * (m * m)" using assms by simp_all
  then have "0 < (g + 1) * (m * m) / (2 + (g - 1) * (m * m))"
    using assms by (intro divide_pos_pos mult_pos_pos add_pos_pos) simp_all
  then have ln: "rust_ln (Fin ((g + 1) * (m * m) / (2 + (g - 1) * (m * m))))
      = Fin (ln ((g + 1) * (m * m) / (2 + (g - 1) * (m * m))))"
    unfolding rust_ln.simps by auto
  have nz: "2 + (g - 1) * (m * m) \<noteq> 0" using p(2) by linarith
  show ?thesis
    using assms by (simp add: fluids_fanno_function_def fanno_value_def Let_def rust_div_def ln nz
        del: rust_ln.simps)
qed

lemma fanno_ends: "0 < fanno_value (1 / 2) (7 / 5)" "0 < fanno_value 2 (7 / 5)" "fanno_value 1 (7 / 5) = 0"
proof -
  have "ln (7 / 2 :: real) \<noteq> 7 / 2 - 1" using ln_eq_minus_one [of "7 / 2 :: real"] by auto
  moreover have "ln (7 / 2 :: real) \<le> 7 / 2 - 1" by (rule ln_le_minus_one) simp
  moreover have "ln (2 / 7 :: real) = - ln (7 / 2)" by (simp add: ln_div)
  ultimately show "0 < fanno_value (1 / 2) (7 / 5)" by (simp add: fanno_value_def)
  have "ln (3 / 8 :: real) \<noteq> 3 / 8 - 1" using ln_eq_minus_one [of "3 / 8 :: real"] by auto
  moreover have "ln (3 / 8 :: real) \<le> 3 / 8 - 1" by (rule ln_le_minus_one) simp
  moreover have "ln (8 / 3 :: real) = - ln (3 / 8)" by (simp add: ln_div)
  ultimately show "0 < fanno_value 2 (7 / 5)" by (simp add: fanno_value_def)
  show "fanno_value 1 (7 / 5) = 0" by (simp add: fanno_value_def)
qed

definition fanno_swept :: "(string, interval) dict" where
  "fanno_swept = [(''fluids.compressible.mach'', \<lparr>iv_lo = 1 / 2, iv_hi = 2\<rparr>), (''fluids.gas.gamma'', \<lparr>iv_lo = 7 / 5, iv_hi = 7 / 5\<rparr>)]"

definition fanno_at :: "real \<Rightarrow> inputs" where
  "fanno_at m = [(''fluids.compressible.mach'', VFloat (Fin m)), (''fluids.gas.gamma'', VFloat (Fin (7 / 5)))]"

text \<open>C39: a false declaration. The direction of the Fanno function declares that corners bound it. On
  Mach numbers from 1/2 to 2, inside its declared domain, the sweep reports an interval of positive
  numbers without error, while at Mach 1 the direction itself gives 0.\<close>

theorem fanno_minimum_missed:
  "\<exists>info fn e iv. module_direction H dumps fanno_function_args ''fanno_function'' (fanno_function fmt)
       = (Ok (info, fn) :: (solver_pair, registry_error) outcome) \<and>
     si_corner_monotone info \<and> box_admitted info fanno_swept \<and>
     sweep_step info fn [] [] fanno_swept None = Ok e \<and> se_eps e = 0 \<and>
     dget (se_hull e) ''fluids.compressible.fanno_function'' = Some iv \<and> 0 < iv_lo iv \<and>
     invoke_solve_fn fn (fanno_at 1) None = Ok (plain_output [(''fluids.compressible.fanno_function'', Fin 0)])"
proof -
  let ?q = "''fluids.compressible.fanno_function''" and ?f = "\<lambda>m. fanno_value m (7 / 5)"
  let ?info = "direction_info H dumps fanno_function_args ''fanno_function'' fanno_function_box [''compressible'', ''fanno''] FANNO_CITATIONS"
  let ?fn = "wrap_solve_fn (\<lambda>x _. fanno_function fmt x) [?q] False"
  have built: "module_direction H dumps fanno_function_args ''fanno_function'' (fanno_function fmt) =
      (Ok (?info, ?fn) :: (solver_pair, registry_error) outcome)"
    unfolding fanno_function_args_def by (rule module_direction_built)
  have info: "si_corner_monotone ?info" "si_outputs ?info = [?q]" "si_accuracy ?info = [(?q, EXACT)]"
    "box_admitted ?info fanno_swept"
    by (simp_all add: direction_info_def fanno_function_args_def solver_args_def coerce_accuracy_def dict_of_def
        box_admitted_def domain_new_def fanno_function_box_def fanno_swept_def btree_of_def is_subset_def)
  have ports: "scalar_outputs_of [] ?info = [?q]" "payload_outputs_of [] ?info = []"
    by (simp_all add: scalar_outputs_of_def payload_outputs_of_def is_payload_port_def info)
  have run: "invoke_solve_fn ?fn (fanno_at m) rem = Ok \<lparr>so_values = [(?q, Fin (?f m))], so_measured_eps = None, so_payloads = []\<rparr>"
    if "0 < m" for m rem
    using that by (simp add: wrap_solve_fn_def invoke_solve_fn_def normalize_raw_def plain_output_def
        fanno_function_def fanno_at_def arg_def ok_floats_def fanno_computes)
  have eval: "make_corner_fn ?info ?fn [] [] rem acc [(''fluids.compressible.mach'', m), (''fluids.gas.gamma'', 7 / 5)] =
      (Ok [(?q, Fin (?f m))], acc)" if "0 < m" for acc rem m
    using run [OF that] by (simp add: make_corner_fn_def ports full_corner_def check_step_output_def dhas_def
        check_measured_def dict_of_def fanno_at_def)
  have corners: "enumerate_corners fanno_swept =
      [[(''fluids.compressible.mach'', 1 / 2), (''fluids.gas.gamma'', 7 / 5)],
       [(''fluids.compressible.mach'', 2), (''fluids.gas.gamma'', 7 / 5)]]"
    by (simp add: enumerate_corners_def fanno_swept_def btree_of_def rust_enumerate_corners_def corner_candidates_def)
  let ?iv = "\<lparr>iv_lo = min (?f (1 / 2)) (?f 2), iv_hi = max (?f (1 / 2)) (?f 2)\<rparr>"
  have "sweep_step ?info ?fn [] [] fanno_swept None = Ok \<lparr>se_hull = [(?q, ?iv)], se_refs = [], se_eps = 0\<rparr>"
    by (simp add: sweep_step_def corner_sweep_def corners eval btree_of_def hull_point_def iv_hull_def
        step_eps_of_def declared_eps_def ports info EXACT_def worst_over_def acc_eps_def py_max_def)
  then show ?thesis using built info run [of 1 None] fanno_ends by (fastforce simp: plain_output_def)
qed

end
