(* ===== verification/Flow_Properties.thy ===== *)
theory Flow_Properties
  imports Flow_Direction
begin

text \<open>
  The flow-network solver as a whole: when the graph is accepted, that the returned flows respect
  continuity, that paths are found, and two networks on which "converged" is wrong.
\<close>

section \<open>A network for the witness\<close>

text \<open>Two equal segments in parallel and no demand: the seed circulates, the corrections damp it.\<close>

definition ring_network :: flownet_payload where
  "ring_network =
     \<lparr>fp_nodes = [''A'', ''B''],
      fp_edges = [circuit_edge ''r1'' ''A'' ''B'' ''hx_segment'' hx_values,
        circuit_edge ''r2'' ''B'' ''A'' ''hx_segment'' hx_values],
      fp_claim_target = None\<rparr>"

definition ring_edges :: "real \<Rightarrow> edge list" where
  "ring_edges q = [hx_edge ''r1'' ''A'' ''B'' q, hx_edge ''r2'' ''B'' ''A'' q]"

definition ring_tree :: spanning_tree where
  "ring_tree = \<lparr>st_order = [''A'', ''B''], st_parent_node = [(''B'', ''A'')], st_parent_edge = [(''B'', 0)],
     st_tree_edges = [0]\<rparr>"

definition ring_loop :: "(nat \<times> int) list" where
  "ring_loop = [(1, 1), (0, 1)]"

lemma ring_built: "omap (edge_new py_str read_float) (fp_edges ring_network) = Ok (ring_edges 0)"
  by (simp add: ring_network_def ring_edges_def circuit_edge_def hx_values_def hx_edge_def edge_new_def
      hx_segment_edge_def json_has_def json_item_def scalar_value_def float_of_int_def
      blank_edge_def outcome_simps dhas_def)

lemma ring_tree: "spanning_tree (fp_nodes ring_network) (ring_edges 0) = Ok ring_tree"
  by (simp add: bfs_eval ring_network_def ring_edges_def ring_tree_def)

lemma ring_seeds: "seed_flows (ring_edges 0) ring_tree = Ok (ring_edges (1 / 10000))"
  by (simp add: seed_flows_def seed_chords_def ring_edges_def ring_tree_def enumerate_eq_zip upt_rec seed_node_def
      node_incident_def flow_sum_def set_flow_def CONSERVATION_TOL_def outcome_simps Let_def)

lemma ring_basis: "build_cycle_basis (ring_edges 0) ring_tree = [ring_loop]"
  by (simp add: build_cycle_basis_def chord_loop_def depth_path_def ring_tree_def ring_edges_def
      ring_loop_def upt_rec Let_def)

lemma ring_round:
  assumes "0 < q"
  shows "correct_loops [ring_loop] (ring_edges q, Fin 0) = Ok (ring_edges (q / 2), Fin (q / 2))"
proof -
  let ?c = "1000 / (2 * pi * pi) :: real"
  have law: "edge_dp_and_k (hx_edge i a b q) (Fin q) = (Fin (?c * q * q), Fin (2 * ?c * q))" for i a b
    using hx_law [of "hx_edge i a b q" 1 1000 pi q] assms by (simp add: hx_edge_def round_area_def)
  have terms: "loop_terms (ring_edges q) ring_loop = (Fin (2 * (?c * q * q)), Fin (2 * (2 * ?c * q)))"
    by (simp add: loop_terms_def ring_edges_def ring_loop_def law Let_def)
  have dq: "- (2 * (?c * q * q)) / (2 * (2 * ?c * q)) = - q / 2" using assms by (simp add: field_simps)
  have "shift_loop (Fin (- q / 2)) (ring_edges q) ring_loop = ring_edges (q / 2)"
    by (simp add: shift_loop_def shift_edge_def ring_edges_def ring_loop_def set_flow_def)
  moreover have "2 * (2 * ?c * q) \<noteq> 0" using assms by simp
  ultimately show ?thesis
    using assms unfolding correct_loops.simps correct_loop_def terms prod.case Let_def fl_neg.simps fl_div.simps dq
    by (simp add: outcome_simps fl_pymax_def del: mult_eq_0_iff)
qed

lemma ring_solved:
  "\<exists>r. hardy_cross_solve py_str read_float ring_network = Ok (ring_edges r)"
proof -
  have "\<exists>r. hardy_iterate n [ring_loop] (ring_edges q) d = Ok (ring_edges r)"
    if "0 < q" "q < 2 / 10 ^ 6 * 2 ^ k" "k < n" for q k n d
    using that
  proof (induction k arbitrary: q n d)
    case 0
    then show ?case by (cases n) (auto simp: ring_round outcome_simps HC_TOL_def simp del: correct_loops.simps)
  next
    case (Suc k)
    obtain m where n: "n = Suc m" using Suc.prems(3) by (cases n) auto
    have "\<exists>r. hardy_iterate m [ring_loop] (ring_edges (q / 2)) (Fin (q / 2)) = Ok (ring_edges r)"
      by (rule Suc.IH) (use Suc.prems n in auto)
    then show ?case using Suc.prems(1) by (auto simp: n ring_round outcome_simps simp del: correct_loops.simps)
  qed
  from this [of "1 / 10000" 6 HC_MAX_ITER "Fin 0"] show ?thesis
    by (simp add: hardy_cross_solve_def ring_built ring_tree ring_seeds ring_basis HC_MAX_ITER_def del: hardy_iterate.simps)
qed

section \<open>Properties\<close>





text \<open>C13: a path query on a solved network answers exactly for linked nodes, with a path that leads
  from the one to the other along edges of the solution in the stated senses.\<close>

theorem path_query_exact:
  assumes "solved_network_new payload es = Ok sn"
    "a \<in> set (fp_nodes payload)" "b \<in> set (fp_nodes payload)"
  shows "if linked es a b then \<exists>p. find_path_edges sn a b = Ok p \<and> walks a p b \<and> fst ` set p \<subseteq> set es
    else find_path_edges sn a b = Err (flow_feature ''disconnected_query_path'')"
  by (rule find_path_exact [OF assms])

theorem path_query_exact_witness:
  "\<exists>sn p. solved_network_new driven_circuit (driven_edges 0) = (Ok sn :: (solved_network, solve_error) outcome) \<and>
     find_path_edges sn ''C'' ''A'' = Ok p \<and> walks ''C'' p ''A''"
proof -
  obtain sn where sn: "solved_network_new driven_circuit (driven_edges 0) = (Ok sn :: (solved_network, solve_error) outcome)"
    by (simp add: solved_network_new_def driven_circuit_def driven_edges_def)
  have "joins (driven_edges 0) 1 ''C'' ''A''" by (simp add: joins_def driven_edges_def)
  then have "linked (driven_edges 0) ''C'' ''A''" unfolding linked_def by blast
  moreover have "''C'' \<in> set (fp_nodes driven_circuit)" "''A'' \<in> set (fp_nodes driven_circuit)"
    by (simp_all add: driven_circuit_def)
  note q = path_query_exact [OF sn this]
  ultimately show ?thesis using sn q by auto
qed

text \<open>a loop that holds an imposed flow. In a closed circuit where a pump imposes 0.01 and
  continuity alone fixes every flow, the solve reports segments that carry less than a millionth,
  as converged: at node A almost the whole imposed flow vanishes.\<close>

theorem driven_circuit_loses_flow:
  "\<exists>r. hardy_cross_solve py_str read_float driven_circuit = Ok (driven_edges r) \<and>
     seed_flows (driven_edges 0) driven_tree = Ok (driven_edges (1 / 100)) \<and>
     \<bar>node_balance (driven_edges (1 / 100)) ''A''\<bar> = 0 \<and> 99 / 10000 < \<bar>node_balance (driven_edges r) ''A''\<bar>"
proof -
  obtain r where "hardy_cross_solve py_str read_float driven_circuit = Ok (driven_edges r)" "0 < r" "r < 1 / 10 ^ 6"
    using driven_solved by blast
  then show ?thesis
    using driven_seeds by (intro exI [of _ r]) (simp add: driven_balance)
qed

text \<open>not a number. With a viscosity of zero and smooth pipes the correction of the loop is NaN,
  the largest correction is still reported as 0.0, and the solve returns NaN flows as converged.\<close>

theorem ideal_fluid_converges_to_nan:
  "hardy_cross_solve py_str read_float ideal_network = Ok [ideal_pipe ''p1'' NaN, ideal_pipe ''p2'' NaN]"
  by (rule ideal_solved)

end
