(* ===== verification/Library_Properties.thy ===== *)
theory Library_Properties
  imports Engine_Catalog Flow_Properties
begin

text \<open>
  Properties of the solvers around payloads and external programs: Miner's sum, the ranking of
  candidates, the readers of the finite element tables, the payload steps under the pack's
  resolvers, and the queries of the pack on a solved network.
\<close>

section \<open>Miner's sum\<close>

lemma knee_params:
  assumes "0 < sut" "0 < se" "0 < f" "se < f * sut"
  shows "sn_knee_params sut se f ret =
    ret (Some (f * sut * (f * sut) / se, - (1 / 3) * (ln (f * sut / se) / ln 10)))"
proof -
  have "0 < f * sut / se" "\<not> f * sut \<le> se" using assms by simp_all
  then show ?thesis
    using assms(1-3) by (simp only: sn_knee_params_def py_div_def py_log10_def Let_def not_le if_False simp_thms)
      (simp add: not_le [symmetric])
qed

lemma life_of_block:
  assumes "0 < s" "0 < sut" "0 < se" "0 < f" "se < f * sut"
  shows "sn_cycles_to_failure s (f * sut * (f * sut) / se) (- (1 / 3) * (ln (f * sut / se) / ln 10)) ret =
    ret (sn_life s sut se f)"
proof -
  have k: "0 < f * sut" using assms by simp
  then have "0 < ln (f * sut / se)" using assms by simp
  moreover have "0 < s / (f * sut * (f * sut) / se)" using k assms by simp
  ultimately show ?thesis
    using assms k sn_life_value [OF assms]
    by (simp add: sn_cycles_to_failure_def py_div_def py_pow_pos)
qed

definition block_json :: "real \<times> real \<Rightarrow> json \<times> json" where
  "block_json b = (JFloat (Fin (fst b)), JFloat (Fin (snd b)))"

definition block_damage :: "real \<Rightarrow> real \<Rightarrow> real \<Rightarrow> real \<times> real \<Rightarrow> real" where
  "block_damage sut se f b = (if fst b \<le> se then 0 else snd b / sn_life (fst b) sut se f)"

lemma miner_loop_sum:
  assumes "0 < sut" "0 < se" "0 < f" "se < f * sut" "\<forall>b \<in> set blocks. 0 \<le> fst b \<and> 0 \<le> snd b"
  shows "miner_loop je se (f * sut * (f * sut) / se) (- (1 / 3) * (ln (f * sut / se) / ln 10))
      (map block_json blocks) (Fin D) =
    RetOk (RVOutput (plain_output [(''mech.fatigue.miner.damage'', Fin (D + sum_list (map (block_damage sut se f) blocks)))]))"
  using assms(5)
proof (induction blocks arbitrary: D)
  case (Cons b blocks)
  have pos: "sn_life s sut se f \<noteq> 0" for s by (simp add: sn_life_def)
  show ?case
  proof (cases "fst b \<le> se")
    case True
    then show ?thesis
      using Cons by (simp add: block_json_def json_number_def lift_outcome_def block_damage_def)
  next
    case False
    then have "0 < fst b" using assms(2) by simp
    from life_of_block [OF this assms(1-4)] False show ?thesis
      using Cons pos
      by (simp add: block_json_def json_number_def json_operand_def lift_outcome_def block_damage_def
          block_life_def fl_py_div_def fl_eq_def add.assoc)
  qed
qed (simp add: plain_output_def)

definition spectrum_of :: "(real \<times> real) list \<Rightarrow> json" where
  "spectrum_of blocks =
     JObj [(''sigma_a'', JArr (map (fst \<circ> block_json) blocks)), (''cycles'', JArr (map (snd \<circ> block_json) blocks))]"

text \<open>C30: Miner's sum. On a spectrum of blocks of non-negative numbers and material constants with
  a knee above the endurance limit, the direction answers with the sum of the consumed fractions of
  life, where a block at or below the endurance limit consumes nothing.\<close>

theorem miner_damage_exact:
  assumes "0 < sut" "0 < se" "0 < f" "se < f * sut" "blocks \<noteq> []"
    "\<forall>b \<in> set blocks. 0 \<le> fst b \<and> 0 \<le> snd b"
    "resolve_input resolver x MINER_SPECTRUM_PORT = Ok data" "je_loads je data = Inl (spectrum_of blocks)"
    "dget x ''mech.fatigue.miner.sut'' = Some (VFloat (Fin sut))"
    "dget x ''mech.fatigue.miner.se'' = Some (VFloat (Fin se))"
    "dget x ''mech.fatigue.miner.f'' = Some (VFloat (Fin f))"
  shows "miner_fn je fmt resolver x =
    RetOk (RVOutput (plain_output [(''mech.fatigue.miner.damage'', Fin (sum_list (map (block_damage sut se f) blocks)))]))"
proof -
  have z: "zip (map (fst \<circ> block_json) blocks) (map (snd \<circ> block_json) blocks) = map block_json blocks"
    by (simp add: zip_map_map zip_same_conv_map)
  show ?thesis
    using assms(5,7-11) miner_loop_sum [OF assms(1-4,6), of je 0]
    by (simp add: miner_fn_def lift_outcome_def spectrum_of_def json_item_def json_iter_def arg_read
        knee_params [OF assms(1-4)] z)
qed

definition demo_resolver :: payload_resolver where
  "demo_resolver =
     \<lparr>pv_type_name = ''Demo'', pv_resolve = (\<lambda>_. Ok ''bytes''), pv_store = (\<lambda>k _ o'. Ok \<lparr>pr_kind = k, pr_digest = ''d'', pr_origin = o'\<rparr>)\<rparr>"

definition demo_ref :: payload_ref where
  "demo_ref = \<lparr>pr_kind = ''spectrum'', pr_digest = ''d'', pr_origin = ''o''\<rparr>"

theorem miner_damage_exact_witness:
  "miner_fn \<lparr>je_loads = (\<lambda>_. Inl (spectrum_of [(300, sn_life 300 600 200 (9 / 10)), (100, 5)])), je_dumps = (\<lambda>_. []), je_repr = (\<lambda>_. [])\<rparr>
     (\<lambda>_ _. []) demo_resolver
     [(''mech.fatigue.miner.sut'', VFloat (Fin 600)), (''mech.fatigue.miner.se'', VFloat (Fin 200)),
      (''mech.fatigue.miner.f'', VFloat (Fin (9 / 10))), (MINER_SPECTRUM_PORT, VRef demo_ref)] =
   RetOk (RVOutput (plain_output [(''mech.fatigue.miner.damage'', Fin 1)]))"
proof -
  have pos: "0 < sn_life 300 600 200 (9 / 10)" by (simp add: sn_life_def)
  show ?thesis
    by (subst miner_damage_exact [where sut = 600 and se = 200 and f = "9 / 10" and data = "''bytes''"
          and blocks = "[(300, sn_life 300 600 200 (9 / 10)), (100, 5)]"])
      (use pos in \<open>simp_all add: resolve_input_def demo_resolver_def MINER_SPECTRUM_PORT_def block_damage_def\<close>)
qed

section \<open>The ranking of candidates\<close>

lemma not_before_trans:
  assumes "cr_hardness_margin a \<noteq> NaN" "cr_hardness_margin b \<noteq> NaN" "cr_hardness_margin c \<noteq> NaN"
    "\<not> row_before b a" "\<not> row_before c b"
  shows "\<not> row_before c a"
  using assms unfolding row_before_def fl_eq_def
  by (cases "cr_hardness_margin a"; cases "cr_hardness_margin b"; cases "cr_hardness_margin c")
    (auto split: if_splits)

lemma before_asym: "row_before a b \<Longrightarrow> \<not> row_before b a"
  unfolding row_before_def fl_eq_def
  by (cases "cr_hardness_margin a"; cases "cr_hardness_margin b") (auto split: if_splits)

lemma mset_insert_row [simp]: "mset (insert_row r ss) = add_mset r (mset ss)"
  by (induction ss) auto

lemma mset_sort_rows [simp]: "mset (sort_rows rows) = mset rows"
  by (induction rows) (simp_all add: sort_rows_def)

lemma set_insert_row [simp]: "set (insert_row r ss) = insert r (set ss)"
  by (induction ss) auto

lemma set_sort_rows [simp]: "set (sort_rows rows) = set rows"
  using mset_sort_rows [of rows] by (metis set_mset_mset)

lemma insert_row_sorted:
  assumes "sorted_wrt (\<lambda>a b. \<not> row_before b a) ss" "\<forall>s \<in> insert r (set ss). cr_hardness_margin s \<noteq> NaN"
  shows "sorted_wrt (\<lambda>a b. \<not> row_before b a) (insert_row r ss)"
  using assms
proof (induction ss)
  case (Cons s ss)
  show ?case
  proof (cases "row_before s r")
    case True
    then show ?thesis using Cons before_asym by auto
  next
    case False
    then show ?thesis using Cons.prems not_before_trans [of r s] by auto
  qed
qed simp

lemma sort_rows_sorted:
  "\<forall>s \<in> set rows. cr_hardness_margin s \<noteq> NaN \<Longrightarrow> sorted_wrt (\<lambda>a b. \<not> row_before b a) (sort_rows rows)"
proof (induction rows)
  case (Cons r rows)
  have "sort_rows (r # rows) = insert_row r (sort_rows rows)" by (simp add: sort_rows_def)
  then show ?case using Cons by (auto intro!: insert_row_sorted)
qed (simp add: sort_rows_def)

lemma operand_number:
  "(json_operand j :: (fl, 'e) outcome) = Ok v \<Longrightarrow> (json_number j :: (fl, 'e) outcome) = Ok v"
  by (auto simp: json_operand_def json_number_def float_of_int_def split: json.splits if_splits)

lemma operand_is_number:
  "(json_number j :: (fl, 'e) outcome) = Ok v \<Longrightarrow> (json_operand j :: (fl, 'e) outcome) = Ok w \<Longrightarrow> w = v"
  by (drule operand_number) simp

lemma eligible_margin:
  assumes "evaluate_candidate t d c j = Ok row" "cr_eligible row"
  shows "cr_hardness_margin row \<noteq> NaN"
proof -
  obtain h where "cr_meets_hardness row = fl_le (Fin t) h" "cr_hardness_margin row = fl_sub h (Fin t)"
    using assms(1)
    by (force simp: evaluate_candidate_def outcome_simps dest: operand_is_number split: option.splits)
  then show ?thesis using assms(2) by (cases h) (auto simp: cr_eligible_def fl_sub_def)
qed

lemma omap_mem: "omap f xs = Ok ys \<Longrightarrow> y \<in> set ys \<Longrightarrow> \<exists>x \<in> set xs. f x = Ok y"
  by (induction xs arbitrary: ys) (auto simp: outcome_simps)

text \<open>C32: the ranking. The ranked list holds the evaluated candidates of the pool, once each: first
  the eligible ones, numbered from 1, so that none has a larger hardness margin, or the same
  margin and a lower cost class, than one before it; then the others in the order of the pool,
  without a rank.\<close>

theorem ranking_correct:
  assumes "rank_candidates pool t d c = Ok ranked"
  shows "\<exists>rows k. omap (evaluate_candidate t d c) pool = Ok rows \<and> k = length (filter cr_eligible rows) \<and>
    mset (map fst ranked) = mset rows \<and>
    map snd ranked = map Some [1..<Suc k] @ replicate (length rows - k) None \<and>
    (\<forall>r \<in> set (take k ranked). cr_eligible (fst r)) \<and>
    sorted_wrt (\<lambda>a b. \<not> row_before b a) (map fst (take k ranked)) \<and>
    map fst (drop k ranked) = filter (\<lambda>r. \<not> cr_eligible r) rows"
proof -
  obtain rows where rows: "omap (evaluate_candidate t d c) pool = Ok rows"
    "ranked = map (\<lambda>(i, r). (r, Some i)) (enumerate 1 (sort_rows (filter cr_eligible rows))) @
       map (\<lambda>r. (r, None)) (filter (\<lambda>r. \<not> cr_eligible r) rows)"
    using assms by (auto simp: rank_candidates_def outcome_simps Let_def)
  let ?good = "filter cr_eligible rows" and ?bad = "filter (\<lambda>r. \<not> cr_eligible r) rows"
  let ?k = "length ?good"
  have len: "length (sort_rows ?good) = ?k" using mset_sort_rows [of ?good] by (rule mset_eq_length)
  have "\<forall>s \<in> set ?good. cr_hardness_margin s \<noteq> NaN"
    using omap_mem [OF rows(1)] eligible_margin by fastforce
  from sort_rows_sorted [OF this] have sorted: "sorted_wrt (\<lambda>a b. \<not> row_before b a) (sort_rows ?good)" .
  have fst: "map fst (map (\<lambda>(i, r). (r, Some i)) (enumerate 1 (sort_rows ?good))) = sort_rows ?good"
    by (simp add: comp_def case_prod_unfold)
  have snd: "map snd (map (\<lambda>(i, r). (r, Some i)) (enumerate 1 (sort_rows ?good))) = map Some [1..<Suc ?k]"
    using len by (simp add: comp_def case_prod_unfold flip: map_map [of Some "fst", unfolded comp_def])
  have k: "length (map (\<lambda>(i, r). (r, Some i)) (enumerate 1 (sort_rows ?good))) = ?k" using len by simp
  have take: "map fst (take ?k ranked) = sort_rows ?good"
    using fst k by (simp add: rows(2))
  have bad: "length rows - ?k = length ?bad" using sum_length_filter_compl [of cr_eligible rows] by simp
  show ?thesis
  proof (intro exI conjI)
    show "mset (map fst ranked) = mset rows"
      unfolding rows(2) map_append fst by (simp add: comp_def)
    show "map snd ranked = map Some [1..<Suc ?k] @ replicate (length rows - ?k) None"
      unfolding rows(2) map_append snd bad by (simp add: comp_def map_replicate_const)
    show "\<forall>r \<in> set (take ?k ranked). cr_eligible (fst r)"
      using arg_cong [OF take, of set] by auto
    show "sorted_wrt (\<lambda>a b. \<not> row_before b a) (map fst (take ?k ranked))"
      using sorted unfolding take .
    show "map fst (drop ?k ranked) = ?bad"
      using k by (simp add: rows(2) comp_def)
  qed (use rows(1) in simp_all)
qed

definition demo_candidate :: "string \<Rightarrow> real \<Rightarrow> string \<Rightarrow> json" where
  "demo_candidate name hardness cost =
     JObj [(''name'', JStr name), (''achievable_hardness_hv'', JFloat (Fin hardness)),
       (''ideal_critical_diameter_m'', JFloat (Fin 1)), (''cost_class'', JStr cost)]"

theorem ranking_correct_witness:
  "\<exists>ranked k. rank_candidates [demo_candidate ''a'' 500 ''low'', demo_candidate ''b'' 700 ''high''] 400 1 3 = Ok ranked \<and>
     sorted_wrt (\<lambda>a b. \<not> row_before b a) (map fst (take k ranked)) \<and> k = 2"
proof -
  obtain ranked where r: "rank_candidates [demo_candidate ''a'' 500 ''low'', demo_candidate ''b'' 700 ''high''] 400 1 3 = Ok ranked"
    by (simp add: rank_candidates_def evaluate_candidate_def demo_candidate_def json_item_def json_number_def
        json_operand_def cost_class_of_def COST_CLASS_RANK_def dhas_def Let_def)
  from ranking_correct [OF r] r show ?thesis
    by (auto simp: evaluate_candidate_def demo_candidate_def json_item_def json_number_def
        json_operand_def cost_class_of_def COST_CLASS_RANK_def dhas_def Let_def cr_eligible_def)
qed

section \<open>Stresses\<close>

lemma cos_third_turn: "cos (x + 2 * pi / 3) = - (cos x / 2) - sqrt 3 / 2 * sin x"
proof -
  have "cos (2 * pi / 3) = - (1 / 2)" "sin (2 * pi / 3) = sqrt 3 / 2"
    using cos_120 sin_120 by (simp_all add: mult.commute)
  then show ?thesis by (simp add: cos_add)
qed

lemma third_turn_square:
  fixes x :: real
  shows "(cos x)\<^sup>2 + cos x * cos (x + 2 * pi / 3) + (cos (x + 2 * pi / 3))\<^sup>2 = 3 / 4"
proof -
  have "(cos x)\<^sup>2 + cos x * cos (x + 2 * pi / 3) + (cos (x + 2 * pi / 3))\<^sup>2
      = 3 / 4 * (cos x * cos x + sin x * sin x)"
    unfolding cos_third_turn
    by (simp add: power2_eq_square field_simps del: sin_cos_squared_add3 cos_squared_eq sin_cos_squared_add)
  then show ?thesis by (simp only: sin_cos_squared_add3)
qed

lemma von_mises_principal_fin:
  "von_mises_principal (Fin a) (Fin b) (Fin c) = Fin (sqrt (1 / 2 * ((a - b)\<^sup>2 + (b - c)\<^sup>2 + (c - a)\<^sup>2)))"
  by (simp add: von_mises_principal_def rust_powi_def numeral_2_eq_2)

text \<open>The von Mises stress of principal values that are laid out around their mean by an angle.\<close>

lemma von_mises_angle:
  fixes q p x :: real
  defines "u \<equiv> 2 * p * cos x" and "w \<equiv> 2 * p * cos (x + 2 * pi / 3)"
  assumes "0 \<le> p"
  shows "von_mises_principal (Fin (q + u)) (Fin (3 * q - (q + u) - (q + w))) (Fin (q + w)) = Fin (3 * p)"
proof -
  have "u\<^sup>2 + u * w + w\<^sup>2 = 4 * p\<^sup>2 * ((cos x)\<^sup>2 + cos x * cos (x + 2 * pi / 3) + (cos (x + 2 * pi / 3))\<^sup>2)"
    unfolding u_def w_def by (simp add: power2_eq_square field_simps)
  then have e: "u\<^sup>2 + u * w + w\<^sup>2 = 3 * p\<^sup>2" by (simp add: third_turn_square)
  let ?m = "3 * q - (q + u) - (q + w)"
  have "(q + u - ?m)\<^sup>2 + (?m - (q + w))\<^sup>2 + (q + w - (q + u))\<^sup>2 = 6 * (u\<^sup>2 + u * w + w\<^sup>2)"
    by (simp add: power2_eq_square field_simps)
  also have "\<dots> = 2 * (3 * p)\<^sup>2" unfolding e by (simp add: power2_eq_square)
  finally have "1 / 2 * ((q + u - ?m)\<^sup>2 + (?m - (q + w))\<^sup>2 + (q + w - (q + u))\<^sup>2) = (3 * p)\<^sup>2" by simp
  then have "sqrt (1 / 2 * ((q + u - ?m)\<^sup>2 + (?m - (q + w))\<^sup>2 + (q + w - (q + u))\<^sup>2)) = 3 * p"
    using assms(3) by (simp only: real_sqrt_abs abs_of_nonneg mult_nonneg_nonneg zero_le_numeral)
  then show ?thesis
    unfolding von_mises_principal_fin by (rule arg_cong)
qed

section \<open>Stresses read back\<close>

definition von_mises_of :: "real \<Rightarrow> real \<Rightarrow> real \<Rightarrow> real \<Rightarrow> real \<Rightarrow> real \<Rightarrow> real" where
  "von_mises_of sxx syy szz sxy sxz syz =
     sqrt (((sxx - syy)\<^sup>2 + (syy - szz)\<^sup>2 + (szz - sxx)\<^sup>2) / 2 + 3 * (sxy\<^sup>2 + sxz\<^sup>2 + syz\<^sup>2))"

lemma von_mises_sorted:
  "sort_desc [Fin a, Fin b, Fin c] = [Fin u, Fin v, Fin w] \<Longrightarrow>
   von_mises_principal (Fin u) (Fin v) (Fin w) = von_mises_principal (Fin a) (Fin b) (Fin c)"
  by (auto simp: sort_desc_def von_mises_principal_fin power2_commute algebra_simps split: if_splits)

lemma sort_desc_three: "\<exists>u v w. sort_desc [Fin a, Fin b, Fin c] = [Fin u, Fin v, Fin w]"
  by (simp add: sort_desc_def)

lemma deviator_norm:
  fixes sxx syy szz t :: real
  defines "q \<equiv> (sxx + syy + szz) / 3"
  shows "9 * (((sxx - q)\<^sup>2 + (syy - q)\<^sup>2 + (szz - q)\<^sup>2 + 2 * t) / 6)
       = ((sxx - syy)\<^sup>2 + (syy - szz)\<^sup>2 + (szz - sxx)\<^sup>2) / 2 + 3 * t"
  unfolding q_def by (simp add: power2_eq_square field_simps)

text \<open>C29: x.\<close>

theorem von_mises_of_stress:
  "\<exists>s1 s2 s3. principal_stresses (Fin sxx) (Fin syy) (Fin szz) (Fin sxy) (Fin sxz) (Fin syz) = Ok (s1, s2, s3) \<and>
     von_mises_principal s1 s2 s3 = Fin (von_mises_of sxx syy szz sxy sxz syz)"
proof (cases "sxy\<^sup>2 + sxz\<^sup>2 + syz\<^sup>2 = 0")
  case True
  then have z: "sxy = 0" "sxz = 0" "syz = 0" by (auto simp: add_nonneg_eq_0_iff)
  obtain u v w where s: "sort_desc [Fin sxx, Fin syy, Fin szz] = [Fin u, Fin v, Fin w]"
    using sort_desc_three by blast
  show ?thesis
    unfolding z principal_stresses_def von_mises_of_def
    using von_mises_sorted [OF s] by (simp add: s fl_eq_def von_mises_principal_fin)
next
  case False
  define q where "q = (sxx + syy + szz) / 3"
  define t where "t = sxy\<^sup>2 + sxz\<^sup>2 + syz\<^sup>2"
  define p where "p = sqrt (((sxx - q)\<^sup>2 + (syy - q)\<^sup>2 + (szz - q)\<^sup>2 + 2 * t) / 6)"
  have "0 < t" using False unfolding t_def by (simp add: less_le)
  then have arg: "0 < ((sxx - q)\<^sup>2 + (syy - q)\<^sup>2 + (szz - q)\<^sup>2 + 2 * t) / 6"
    by (intro divide_pos_pos add_nonneg_pos) simp_all
  then have p: "0 < p" "(3 * p)\<^sup>2 = 9 * (((sxx - q)\<^sup>2 + (syy - q)\<^sup>2 + (szz - q)\<^sup>2 + 2 * t) / 6)"
    unfolding p_def by (simp_all add: power_mult_distrib)
  have "3 * p = sqrt ((3 * p)\<^sup>2)" unfolding real_sqrt_abs using p(1) by simp
  also have "\<dots> = von_mises_of sxx syy szz sxy sxz syz"
    unfolding p(2) q_def deviator_norm von_mises_of_def t_def ..
  finally have vm: "3 * p = von_mises_of sxx syy szz sxy sxz syz" .
  have sq: "rust_sqrt (Fin (((sxx - q)\<^sup>2 + (syy - q)\<^sup>2 + (szz - q)\<^sup>2 + 2 * t) / 6)) = Fin p"
    using arg by (simp add: p_def)
  define det where "det = det_of (fl_div (Fin (sxx - q)) (Fin p)) (fl_div (Fin (syy - q)) (Fin p))
    (fl_div (Fin (szz - q)) (Fin p)) (fl_div (Fin sxy) (Fin p)) (fl_div (Fin sxz) (Fin p)) (fl_div (Fin syz) (Fin p))"
  define x where "x = arccos (clamp_unit (fl_div det (Fin 2))) / 3"
  have "principal_stresses (Fin sxx) (Fin syy) (Fin szz) (Fin sxy) (Fin sxz) (Fin syz)
      = Ok (Fin (q + 2 * p * cos x), Fin (3 * q - (q + 2 * p * cos x) - (q + 2 * p * cos (x + 2 * pi / 3))),
          Fin (q + 2 * p * cos (x + 2 * pi / 3)))"
    using \<open>0 < t\<close> p(1) sq
    by (simp add: principal_stresses_def fl_eq_def Let_def x_def det_def flip: q_def t_def power2_eq_square)
  then show ?thesis using von_mises_angle [of p q x] p(1) vm by simp
qed

section \<open>The reader of displacement tables\<close>

text \<open>A line of a table is sound when it is skipped or has three numbers after its id.\<close>

definition line_sound :: "fea_env \<Rightarrow> string \<Rightarrow> bool" where
  "line_sound env raw_line =
     (case classify_line env raw_line of
        Skip \<Rightarrow> True
      | Row _ tokens \<Rightarrow> length tokens = 3 \<and> list_all (\<lambda>t. fv_float env t \<noteq> None) tokens)"

definition line_row :: "fea_env \<Rightarrow> string \<Rightarrow> (int \<times> fl3) list" where
  "line_row env raw_line =
     (case classify_line env raw_line of
        Skip \<Rightarrow> []
      | Row i tokens \<Rightarrow> (case map (the \<circ> fv_float env) tokens of [a, b, c] \<Rightarrow> [(i, a, b, c)] | _ \<Rightarrow> []))"

lemma length_three: "length xs = 3 \<longleftrightarrow> (\<exists>a b c. xs = [a, b, c])"
  by (auto simp: numeral_eq_Suc length_Suc_conv)

lemma three_step:
  "parse_three_loop env ((n, l) # ls) rows =
     (if line_sound env l then parse_three_loop env ls (fold (\<lambda>(k, v) d. dset k v d) (line_row env l) rows)
      else Err (line_error env n l))"
proof (cases "classify_line env l")
  case (Row i tokens)
  show ?thesis
  proof (cases "length tokens = 3")
    case True
    then obtain a b c where "tokens = [a, b, c]" unfolding length_three by blast
    then show ?thesis by (simp add: Row line_sound_def line_row_def all_floats_def split: option.splits)
  next
    case False
    then show ?thesis
      by (auto simp: Row line_sound_def split: list.splits option.splits)
  qed
qed (simp add: line_sound_def line_row_def)

lemma three_loop:
  "parse_three_loop env ls rows =
     (case find (\<lambda>(n, l). \<not> line_sound env l) ls of
        Some (n, l) \<Rightarrow> Err (line_error env n l)
      | None \<Rightarrow> Ok (fold (\<lambda>(k, v) d. dset k v d) (concat (map (line_row env \<circ> snd) ls)) rows))"
  by (induction ls arbitrary: rows) (auto simp: three_step simp del: parse_three_loop.simps(2) split: option.split)

lemma fold_dset_get: "dget (fold (\<lambda>(k, v) d. dset k v d) kvs d) k = dget (rev kvs @ d) k"
  by (induction kvs arbitrary: d) (auto simp: map_add_def split: option.splits)

lemma fold_dset_ok: "dict_ok d \<Longrightarrow> dict_ok (fold (\<lambda>(k, v) d. dset k v d) kvs d)"
  by (induction kvs arbitrary: d) auto

text \<open>C31: x.\<close>

theorem displacement_table_exact:
  fixes env content
  defines "ls \<equiv> enumerate 1 (split_lines [] content)"
  shows "case find (\<lambda>(n, l). \<not> line_sound env l) ls of
     Some (n, l) \<Rightarrow> parse_dat_displacements env content = Err (line_error env n l)
   | None \<Rightarrow> \<exists>rows. parse_dat_displacements env content = Ok rows \<and> distinct (map fst rows) \<and>
       dget rows = dget (rev (concat (map (line_row env \<circ> snd) ls)))"
proof -
  have "dict_ok (fold (\<lambda>(k, v) d. dset k v d) (concat (map (line_row env \<circ> snd) ls)) ([] :: (int, fl3) dict))"
    by (simp add: fold_dset_ok)
  then show ?thesis
    unfolding parse_dat_displacements_def ls_def three_loop
    by (auto simp: fold_dset_get dict_ok_def split: option.splits)
qed

text \<open>The peak of a table of finite rows is the largest of the displacements.\<close>

lemma foldl_pymax_Fin: "foldl fl_pymax (Fin m) (map Fin xs) = Fin (foldl max m xs)"
  by (induction xs arbitrary: m) (auto simp: fl_pymax_def max_def)

lemma foldl_pymin_Fin: "foldl fl_pymin (Fin m) (map Fin xs) = Fin (foldl min m xs)"
  by (induction xs arbitrary: m) (auto simp: fl_pymin_def min_def)

lemma foldl_max_Max: "foldl max (m :: real) xs = Max (set (m # xs))"
proof -
  have "(\<lambda>x s. max s x) = (max :: real \<Rightarrow> real \<Rightarrow> real)" by (intro ext) (rule max.commute)
  then show ?thesis by (simp only: Max.set_eq_fold foldl_conv_fold)
qed

lemma foldl_min_Min: "foldl min (m :: real) xs = Min (set (m # xs))"
proof -
  have "(\<lambda>x s. min s x) = (min :: real \<Rightarrow> real \<Rightarrow> real)" by (intro ext) (rule min.commute)
  then show ?thesis by (simp only: Min.set_eq_fold foldl_conv_fold)
qed

lemma nan_row_hidden:
  "max_displacement_magnitude [(1, Fin 1, Fin 0, Fin 0), (2, NaN, NaN, NaN)] = Ok (Fin 1)"
  by (simp add: max_displacement_magnitude_def py_max_of_def magnitude_def fl_pymax_def)

lemma empty_table_raises:
  "parse_dat_displacements env [] = Ok []" "max_displacement_magnitude [] = Raise ValueError"
  by (simp_all add: parse_dat_displacements_def max_displacement_magnitude_def py_max_of_def)

section \<open>Steps that store a payload\<close>

lemma engine_store_raises: "pv_store (engine_resolver we host) k v p = Raise AssertionError"
  by (simp add: engine_resolver_def NoStoreResolver_def RegolithResolverAdapter_def split: option.split)

lemma lift_outcome_RetOk: "lift_outcome r k = RetOk v \<longleftrightarrow> (\<exists>a. r = Ok a \<and> k a = RetOk v)"
  by (simp add: lift_outcome_def split: outcome.split)

lemma arg_RetOk: "arg x p k = RetOk v \<longleftrightarrow> (\<exists>a. dget x p = Some (VFloat (Fin a)) \<and> k a = RetOk v)"
  by (auto simp: arg_def split: option.split inval.split fl.split)

text \<open>C40: x.\<close>

theorem storing_steps_never_succeed:
  "mesh_fn env (engine_resolver we host) x \<noteq> RetOk v \<and>
   selection_fn je (engine_resolver we host) x \<noteq> RetOk v \<and>
   hardy_cross_fn (engine_resolver we host) validate py_str read_float json_text x \<noteq> RetOk v"
  by (auto simp: mesh_fn_def selection_fn_def hardy_cross_fn_def lift_outcome_RetOk arg_RetOk engine_store_raises out_of_domain_def
      split: sum.splits outcome.splits if_splits)

section \<open>Resolvers and queries\<close>

text \<open>x.\<close>

theorem adapter_checks_version:
  "pv_resolve (engine_resolver we (Some host)) r = Ok data \<longleftrightarrow>
     host (pr_digest r) = Some data \<and>
     (\<exists>envelope. je_loads we data = Inl envelope \<and> is_version (we_schema_version we) (declared_version envelope))"
  by (auto simp: engine_resolver_def RegolithResolverAdapter_def adapter_resolve_def split: option.splits sum.splits)

lemma dq_payload_cases: "dq_payload rq port = Err e \<Longrightarrow> False"
  by (auto simp: dq_payload_def to_feldspar_payload_ref_def payload_ref_new_def split: option.splits if_splits)

text \<open>x.\<close>

theorem queries_without_store_fail:
  "\<not> is_ok (mdot_estimate pe we m rq None) \<and> \<not> is_ok (imbalance_estimate pe we m rq None) \<and>
   \<not> is_ok (dp_estimate pe we m rq None)"
  by (auto simp: mdot_estimate_def imbalance_estimate_def dp_estimate_def resolve_solved_network_def
      engine_resolver_def NoStoreResolver_def is_ok_iff outcome_simps)

lemma foldl_add_Fin: "foldl fl_add (Fin s) (map Fin xs) = Fin (s + sum_list xs)"
  by (induction xs arbitrary: s) (auto simp: add.assoc)

text \<open>x.\<close>

theorem imbalance_exact:
  assumes "qs \<noteq> []"
  shows "imbalance_of (map Fin qs) = Fin ((Max (set qs) - Min (set qs)) / (sum_list qs / real (length qs)))"
proof -
  obtain q qs' where qs: "qs = q # qs'" using assms by (cases qs) auto
  have "foldl fl_pymax (hd (map Fin qs)) (tl (map Fin qs)) = Fin (Max (set qs))"
    "foldl fl_pymin (hd (map Fin qs)) (tl (map Fin qs)) = Fin (Min (set qs))"
    by (simp_all add: qs foldl_pymax_Fin foldl_pymin_Fin foldl_max_Max foldl_min_Min)
  then show ?thesis by (simp add: imbalance_of_def foldl_add_Fin)
qed

lemma ghost_edge_matches:
  assumes "fp_claim_target (sn_payload sn) = Some \<lparr>ct_claim_kind = k, ct_role = Some ''e,e,ghost''\<rparr>"
    "dhas (sn_by_id sn) ''e''" "\<not> dhas (sn_by_id sn) ''ghost''"
  shows "sibling_edges we m rq sn = Ok [''e'', ''e'']"
  using assms by (simp add: sibling_edges_def role_text_def)

text \<open>The switch that forbids running the external solver holds whatever that solver would answer.\<close>

lemma disabled_never_runs:
  "exec_disabled env \<Longrightarrow> run_ccx env deck = Err (ToolMissing ''ccx'' ''FELDSPAR_DISABLE_CCX is set -- unset it to allow ccx exec'')"
  by (simp add: run_ccx_def find_ccx_def)

end
